(* ===== verification/Prelude.thy ===== *)
theory Prelude
  imports Complex_Main
    "HOL-Library.Char_ord"
    "HOL-Library.List_Lexorder"
    "HOL-Library.Product_Lexorder"
    "HOL-Library.Sublist"
    "HOL-Library.AList"
begin

text \<open>
  Shared vocabulary of the development: the collections of hints, the dynamic values the
  Python code inspects with \<open>isinstance\<close>, the exceptions it raises, the string functions it
  calls (\<open>clean\<close>, identifiers, case folding, stripping), and the generic lemmas on tables of
  rows (lists updated under a condition, as SQL does) and on insertion-ordered dictionaries
  (association lists updated in place, as a Python \<open>dict\<close> is).

  Strings are lists of \<open>char\<close> (code points below 256); upper and lower case are the ASCII
  ones, since every keyword and identifier the code compares is ASCII. Floating-point seconds
  are exact rationals (\<open>Finite\<close>) or one of the three non-finite values; rounding of
  \<open>binary64\<close> additions is not modelled.
\<close>

named_theorems step_simps \<open>equations that run one operation\<close>
named_theorems inv_intros \<open>preservation of component invariants\<close>
named_theorems table_simps \<open>rewriting of updated tables\<close>

subsection \<open>Dynamic values\<close>

datatype pyfloat = Finite rat | PosInf | NegInf | NaN

datatype pyval =
    PyNone
  | PyBool bool
  | PyInt int
  | PyFloat pyfloat
  | PyStr string
  | PyBytes string
  | PyList "pyval list"
  | PyDict "(string \<times> pyval) list"

text \<open>\<open>bool(v)\<close>, the truth value Python gives to \<open>v\<close>.\<close>

fun truthy :: "pyval \<Rightarrow> bool" where
  "truthy PyNone = False"
| "truthy (PyBool b) = b"
| "truthy (PyInt i) = (i \<noteq> 0)"
| "truthy (PyFloat f) = (f \<noteq> Finite 0)"
| "truthy (PyStr s) = (s \<noteq> [])"
| "truthy (PyBytes s) = (s \<noteq> [])"
| "truthy (PyList xs) = (xs \<noteq> [])"
| "truthy (PyDict m) = (m \<noteq> [])"

text \<open>
  \<open>isinstance(v, int)\<close> and not \<open>isinstance(v, bool)\<close>: in Python a \<open>bool\<close> is an \<open>int\<close>, so the
  code tests both. \<open>py_isint\<close> is the plain \<open>isinstance(v, int)\<close>.
\<close>

fun as_int :: "pyval \<Rightarrow> int option" where
  "as_int (PyInt i) = Some i"
| "as_int _ = None"

fun py_isint :: "pyval \<Rightarrow> bool" where
  "py_isint (PyInt i) = True"
| "py_isint (PyBool b) = True"
| "py_isint _ = False"

fun as_number :: "pyval \<Rightarrow> pyfloat option" where
  "as_number (PyInt i) = Some (Finite (of_int i))"
| "as_number (PyFloat f) = Some f"
| "as_number _ = None"

fun as_str :: "pyval \<Rightarrow> string option" where
  "as_str (PyStr s) = Some s"
| "as_str _ = None"

text \<open>A number that is no \<open>bool\<close>, is finite and is positive; the guard on every duration.\<close>

definition positive_seconds :: "pyval \<Rightarrow> rat option" where
  "positive_seconds v = (case as_number v of
      Some (Finite r) \<Rightarrow> if r > 0 then Some r else None
    | _ \<Rightarrow> None)"

text \<open>\<open>d.get(k)\<close>, with \<open>None\<close> for a missing key, and \<open>d.get(k, v)\<close>.\<close>

definition dget :: "(string \<times> pyval) list \<Rightarrow> string \<Rightarrow> pyval" where
  "dget m k = (case map_of m k of None \<Rightarrow> PyNone | Some v \<Rightarrow> v)"

definition dget_or :: "(string \<times> pyval) list \<Rightarrow> string \<Rightarrow> pyval \<Rightarrow> pyval" where
  "dget_or m k v = (case map_of m k of None \<Rightarrow> v | Some u \<Rightarrow> u)"

subsection \<open>Exceptions\<close>

text \<open>
  \<open>BlockedError\<close> and its subclass \<open>IntegrityBlockedError\<close> are the program's own; the SQL
  errors are those of \<open>sqlite3\<close>; \<open>PyError\<close> names any other exception class the code lets
  escape. A handler \<open>except BlockedError\<close> catches the first two.
\<close>

datatype err =
    BlockedError string
  | IntegrityBlockedError string
  | SqlOperationalError string
  | SqlIntegrityError
  | PyError string

type_synonym 'a res = "err + 'a"

fun is_blocked :: "err \<Rightarrow> bool" where
  "is_blocked (BlockedError _) = True"
| "is_blocked (IntegrityBlockedError _) = True"
| "is_blocked _ = False"

fun is_inr :: "'a + 'b \<Rightarrow> bool" where
  "is_inr (Inr _) = True"
| "is_inr (Inl _) = False"

text \<open>\<open>type(exc).__name__\<close>.\<close>

fun err_class :: "err \<Rightarrow> string" where
  "err_class (BlockedError _) = ''BlockedError''"
| "err_class (IntegrityBlockedError _) = ''IntegrityBlockedError''"
| "err_class (SqlOperationalError _) = ''OperationalError''"
| "err_class SqlIntegrityError = ''IntegrityError''"
| "err_class (PyError c) = c"

subsection \<open>Characters and strings\<close>

abbreviation ord_of :: "char \<Rightarrow> nat" where "ord_of c \<equiv> of_char c"

definition is_space :: "char \<Rightarrow> bool" where
  "is_space c \<longleftrightarrow> (9 \<le> ord_of c \<and> ord_of c \<le> 13) \<or> (28 \<le> ord_of c \<and> ord_of c \<le> 32)
     \<or> ord_of c = 133 \<or> ord_of c = 160"

definition is_upper :: "char \<Rightarrow> bool" where
  "is_upper c \<longleftrightarrow> 65 \<le> ord_of c \<and> ord_of c \<le> 90"

definition is_lower :: "char \<Rightarrow> bool" where
  "is_lower c \<longleftrightarrow> 97 \<le> ord_of c \<and> ord_of c \<le> 122"

definition is_digit :: "char \<Rightarrow> bool" where
  "is_digit c \<longleftrightarrow> 48 \<le> ord_of c \<and> ord_of c \<le> 57"

definition is_alnum :: "char \<Rightarrow> bool" where
  "is_alnum c \<longleftrightarrow> is_upper c \<or> is_lower c \<or> is_digit c"

definition lower_char :: "char \<Rightarrow> char" where
  "lower_char c = (if is_upper c then char_of (ord_of c + 32) else c)"

definition upper_char :: "char \<Rightarrow> char" where
  "upper_char c = (if is_lower c then char_of (ord_of c - 32) else c)"

definition lower :: "string \<Rightarrow> string" where "lower s = map lower_char s"
definition upper :: "string \<Rightarrow> string" where "upper s = map upper_char s"

definition lstrip :: "string \<Rightarrow> string" where "lstrip s = dropWhile is_space s"
definition strip :: "string \<Rightarrow> string" where
  "strip s = rev (dropWhile is_space (rev (dropWhile is_space s)))"

text \<open>\<open>k in s\<close> on strings.\<close>

definition contains :: "string \<Rightarrow> string \<Rightarrow> bool" where
  "contains s k \<longleftrightarrow> sublist k s"

text \<open>Decimal text of a number, as an f-string prints an \<open>int\<close>.\<close>

fun str_of_nat :: "nat \<Rightarrow> string" where
  "str_of_nat n = (if n < 10 then [char_of (48 + n)]
     else str_of_nat (n div 10) @ [char_of (48 + n mod 10)])"

declare str_of_nat.simps [simp del]

definition str_of_int :: "int \<Rightarrow> string" where
  "str_of_int i = (if i < 0 then CHR ''-'' # str_of_nat (nat (- i)) else str_of_nat (nat i))"

text \<open>\<open>sep.join(xs)\<close>.\<close>

fun join :: "string \<Rightarrow> string list \<Rightarrow> string" where
  "join sep [] = []"
| "join sep [x] = x"
| "join sep (x # y # xs) = x @ sep @ join sep (y # xs)"

text \<open>The identifier pattern \<open>[A-Za-z0-9][A-Za-z0-9._-]{0,127}\<close> under \<open>fullmatch\<close>.\<close>

definition ident_char :: "char \<Rightarrow> bool" where
  "ident_char c \<longleftrightarrow> is_alnum c \<or> c = CHR ''.'' \<or> c = CHR ''_'' \<or> c = CHR ''-''"

fun is_identifier :: "string \<Rightarrow> bool" where
  "is_identifier [] = False"
| "is_identifier (c # cs) = (is_alnum c \<and> list_all ident_char cs \<and> length cs \<le> 127)"

definition is_hex :: "char \<Rightarrow> bool" where
  "is_hex c \<longleftrightarrow> is_digit c \<or> (65 \<le> ord_of c \<and> ord_of c \<le> 70) \<or> (97 \<le> ord_of c \<and> ord_of c \<le> 102)"

text \<open>\<open>re.fullmatch(r"[0-9a-fA-F]{64}", s)\<close>.\<close>

definition is_sha256 :: "string \<Rightarrow> bool" where
  "is_sha256 s \<longleftrightarrow> length s = 64 \<and> list_all is_hex s"

subsection \<open>Tables of rows\<close>

text \<open>\<open>UPDATE ... WHERE p\<close> and its \<open>rowcount\<close>.\<close>

definition update_where :: "('a \<Rightarrow> bool) \<Rightarrow> ('a \<Rightarrow> 'a) \<Rightarrow> 'a list \<Rightarrow> 'a list" where
  "update_where p f xs = map (\<lambda>x. if p x then f x else x) xs"

definition rowcount :: "('a \<Rightarrow> bool) \<Rightarrow> 'a list \<Rightarrow> nat" where
  "rowcount p xs = length (filter p xs)"

lemma update_where_simps [simp]:
  "update_where p f [] = []"
  "update_where p f (x # xs) = (if p x then f x else x) # update_where p f xs"
  by (simp_all add: update_where_def)

lemma rowcount_simps [simp]:
  "rowcount p [] = 0"
  "rowcount p (x # xs) = (if p x then Suc (rowcount p xs) else rowcount p xs)"
  by (simp_all add: rowcount_def)

lemma length_update_where [simp]: "length (update_where p f xs) = length xs"
  by (simp add: update_where_def)

lemma set_update_where:
  "set (update_where p f xs) = (\<lambda>x. if p x then f x else x) ` set xs"
  by (simp add: update_where_def)

lemma update_where_memE:
  assumes "y \<in> set (update_where p f xs)"
  obtains x where "x \<in> set xs" and "y = (if p x then f x else x)"
  using assms by (auto simp: set_update_where)

lemma map_update_where_key:
  "(\<And>x. x \<in> set xs \<Longrightarrow> p x \<Longrightarrow> k (f x) = k x) \<Longrightarrow> map k (update_where p f xs) = map k xs"
  by (auto simp: update_where_def)

lemma rowcount_pos: "0 < rowcount p xs \<longleftrightarrow> (\<exists>x \<in> set xs. p x)"
  by (auto simp: rowcount_def filter_empty_conv)

lemma rowcount_none: "(\<And>y. y \<in> set xs \<Longrightarrow> \<not> p y) \<Longrightarrow> rowcount p xs = 0"
  by (simp add: rowcount_def filter_empty_conv)

lemma rowcount_one_distinct:
  assumes "distinct (map k xs)" and "x \<in> set xs" and "p x" and key: "\<And>y. p y \<Longrightarrow> k y = k x"
  shows "rowcount p xs = 1"
  using assms(1-3)
proof (induction xs)
  case Nil
  then show ?case by simp
next
  case (Cons a xs)
  show ?case
  proof (cases "a = x")
    case True
    have "\<not> p y" if "y \<in> set xs" for y
    proof
      assume "p y"
      then have "k y = k a" using key True by simp
      with that Cons.prems(1) show False by simp (metis imageI)
    qed
    then have "rowcount p xs = 0" by (rule rowcount_none)
    with True Cons.prems(3) show ?thesis by simp
  next
    case False
    with Cons.prems(2) have x: "x \<in> set xs" by simp
    have "\<not> p a"
    proof
      assume "p a"
      then have "k a = k x" by (rule key)
      with x Cons.prems(1) show False by auto
    qed
    with Cons.IH Cons.prems x show ?thesis by simp
  qed
qed

lemma rowcount_update_one:
  assumes "distinct (map k xs)" and "x \<in> set xs" and "p x" and key: "\<And>y. p y \<Longrightarrow> k y = k x"
    and "\<not> P x" and "P (f x)"
  shows "rowcount P (update_where p f xs) = Suc (rowcount P xs)"
  using assms(1,2)
proof (induction xs)
  case (Cons a xs)
  show ?case
  proof (cases "a = x")
    case True
    with Cons.prems(1) key have "\<And>y. y \<in> set xs \<Longrightarrow> \<not> p y" by (metis distinct.simps(2) image_eqI list.set_map list.simps(9))
    then have "update_where p f xs = xs" by (simp add: update_where_def map_idI)
    with True assms(3,5,6) show ?thesis by simp
  next
    case False
    with Cons.prems have x: "x \<in> set xs" by simp
    with Cons.prems(1) have "k a \<noteq> k x" by auto
    with key have "\<not> p a" by blast
    with Cons x show ?thesis by simp
  qed
qed simp

lemma find_Some_mem: "find p xs = Some x \<Longrightarrow> x \<in> set xs \<and> p x"
  by (auto simp: find_Some_iff)

lemma find_append_Some: "find P xs = Some a \<Longrightarrow> find P (xs @ ys) = Some a"
  by (induction xs) auto

lemma find_append_None: "find P xs = None \<Longrightarrow> find P (xs @ ys) = find P ys"
  by (induction xs) auto

lemma find_key_unique:
  assumes "distinct (map k xs)" and "x \<in> set xs" and "k x = a"
  shows "find (\<lambda>y. k y = a) xs = Some x"
  using assms by (induction xs) (auto simp: image_iff)

lemma find_update_where:
  assumes "\<And>x. p x \<Longrightarrow> k (f x) = k x"
  shows "find (\<lambda>x. k x = a) (update_where p f xs)
    = map_option (\<lambda>x. if p x then f x else x) (find (\<lambda>x. k x = a) xs)"
  by (induction xs) (auto simp: assms)

lemma distinct_key_eq:
  "distinct (map k xs) \<Longrightarrow> x \<in> set xs \<Longrightarrow> y \<in> set xs \<Longrightarrow> k x = k y \<Longrightarrow> x = y"
  by (metis distinct_map inj_onD)

subsection \<open>Insertion-ordered dictionaries\<close>

lemma map_of_AList_update: "map_of (AList.update k v m) = (map_of m)(k \<mapsto> v)"
  by (rule update_conv')

lemma fst_set_AList_update: "fst ` set (AList.update k v m) = insert k (fst ` set m)"
  by (simp add: dom_update)

end
