(* ===== verification/Sanitize.thy ===== *)
theory Sanitize
  imports Prelude
begin

text \<open>
  \<open>clean\<close> and \<open>packed\<close> of \<open>src/autonomy/store.py\<close>: every text the store persists goes
  through \<open>clean\<close>, which truncates to 512 characters, redacts \<open>token=...\<close>-shaped secrets and
  drops control characters, angle brackets and DEL, in that order.
\<close>

definition secret_keywords :: "string list" where
  "secret_keywords = [''token'', ''secret'', ''password'', ''authorization'']"

text \<open>
  One match of \<open>(?i)(token|secret|password|authorization)\s*[:=]\s*\S+\<close> at the head of the
  text: the keyword as written and what follows the match. The keywords are no prefixes of one
  another, and no part of the pattern can give back characters that would make a failed match
  succeed, so the first keyword that fits decides.
\<close>

definition match_after :: "string \<Rightarrow> string option" where
  "match_after r = (case dropWhile is_space r of
      [] \<Rightarrow> None
    | c # r2 \<Rightarrow> if c = CHR '':'' \<or> c = CHR ''='' then
          (let r3 = dropWhile is_space r2 in
           if r3 = [] then None else Some (dropWhile (\<lambda>c. \<not> is_space c) r3))
        else None)"

fun match_keywords :: "string list \<Rightarrow> string \<Rightarrow> (string \<times> string) option" where
  "match_keywords [] s = None"
| "match_keywords (k # ks) s =
     (if k \<noteq> [] \<and> prefix k (lower s) then
        (case match_after (drop (length k) s) of
           Some rest \<Rightarrow> Some (take (length k) s, rest)
         | None \<Rightarrow> match_keywords ks s)
      else match_keywords ks s)"

lemma match_after_length: "match_after r = Some rest \<Longrightarrow> length rest \<le> length r"
proof -
  assume "match_after r = Some rest"
  then obtain c r2 where r: "dropWhile is_space r = c # r2"
    and rest: "rest = dropWhile (\<lambda>c. \<not> is_space c) (dropWhile is_space r2)"
    by (auto simp: match_after_def Let_def split: list.splits if_splits)
  have "length rest \<le> length r2"
    unfolding rest by (meson length_dropWhile_le order_trans)
  also have "length r2 \<le> length r"
    using length_dropWhile_le [of is_space r] by (simp add: r)
  finally show ?thesis .
qed

lemma match_keywords_length:
  "match_keywords ks s = Some (kw, rest) \<Longrightarrow> length rest < length s"
proof (induction ks)
  case Nil
  then show ?case by simp
next
  case (Cons k ks)
  show ?case
  proof (cases "k \<noteq> [] \<and> prefix k (lower s) \<and> match_after (drop (length k) s) \<noteq> None")
    case True
    then obtain r where r: "match_after (drop (length k) s) = Some r" by auto
    with True Cons.prems have "rest = r" by simp
    with match_after_length [OF r] True show ?thesis
      by (auto simp: lower_def dest!: prefix_length_le) (cases k; cases s; auto)
  next
    case False
    with Cons.prems have "match_keywords ks s = Some (kw, rest)"
      by (auto split: if_splits)
    then show ?thesis by (rule Cons.IH)
  qed
qed

text \<open>\<open>re.sub(..., r"\1=[REDACTED]", s)\<close>.\<close>

function redact :: "string \<Rightarrow> string" where
  "redact s = (case match_keywords secret_keywords s of
      Some (kw, rest) \<Rightarrow> kw @ ''=[REDACTED]'' @ redact rest
    | None \<Rightarrow> (case s of [] \<Rightarrow> [] | c # cs \<Rightarrow> c # redact cs))"
  by pat_completeness auto
termination
  by (relation "measure length") (auto dest: match_keywords_length)

declare redact.simps [simp del]

definition printable :: "char \<Rightarrow> bool" where
  "printable c \<longleftrightarrow> 32 \<le> ord_of c \<and> c \<noteq> CHR ''<'' \<and> c \<noteq> CHR ''>'' \<and> ord_of c \<noteq> 127"

definition clean :: "string \<Rightarrow> string" where
  "clean s = filter printable (redact (take 512 s))"

text \<open>
  \<open>packed\<close> stores the sorted set of the cleaned, non-empty labels; the JSON text is kept
  decoded, as every reader decodes it again.
\<close>

definition packed :: "string list \<Rightarrow> string list" where
  "packed xs = sort (remdups (filter (\<lambda>x. x \<noteq> []) (map clean xs)))"

subsection \<open>Identifiers pass unchanged\<close>

lemma no_separator_no_match:
  "list_all (\<lambda>c. c \<noteq> CHR '':'' \<and> c \<noteq> CHR ''='') r \<Longrightarrow> match_after r = None"
proof -
  assume a: "list_all (\<lambda>c. c \<noteq> CHR '':'' \<and> c \<noteq> CHR ''='') r"
  have "list_all (\<lambda>c. c \<noteq> CHR '':'' \<and> c \<noteq> CHR ''='') (dropWhile is_space r)"
    using a by (auto simp: list_all_iff dest: set_dropWhileD)
  then show ?thesis by (auto simp: match_after_def split: list.splits)
qed

lemma no_separator_no_keyword:
  "list_all (\<lambda>c. c \<noteq> CHR '':'' \<and> c \<noteq> CHR ''='') s \<Longrightarrow> match_keywords ks s = None"
proof (induction ks)
  case (Cons k ks)
  have "list_all (\<lambda>c. c \<noteq> CHR '':'' \<and> c \<noteq> CHR ''='') (drop (length k) s)"
    using Cons.prems by (auto simp: list_all_iff dest: in_set_dropD)
  with Cons show ?case by (simp add: no_separator_no_match)
qed simp

lemma redact_no_separator:
  "list_all (\<lambda>c. c \<noteq> CHR '':'' \<and> c \<noteq> CHR ''='') s \<Longrightarrow> redact s = s"
proof (induction s)
  case Nil
  then show ?case by (simp add: redact.simps no_separator_no_keyword)
next
  case (Cons c s)
  then show ?case
    by (subst redact.simps) (simp add: no_separator_no_keyword)
qed

lemma ident_char_no_separator: "ident_char c \<Longrightarrow> c \<noteq> CHR '':'' \<and> c \<noteq> CHR ''=''"
  by (auto simp: ident_char_def is_alnum_def is_upper_def is_lower_def is_digit_def)

lemma ident_char_printable: "ident_char c \<Longrightarrow> printable c"
  by (auto simp: printable_def ident_char_def is_alnum_def is_upper_def is_lower_def is_digit_def)

lemma is_identifier_chars: "is_identifier s \<Longrightarrow> list_all ident_char s"
  by (cases s) (auto simp: ident_char_def)

lemma is_identifier_length: "is_identifier s \<Longrightarrow> length s \<le> 128"
  by (cases s) auto

lemma clean_identifier [simp]: "is_identifier s \<Longrightarrow> clean s = s"
proof -
  assume id: "is_identifier s"
  from is_identifier_chars [OF id] have chars: "list_all ident_char s" .
  then have "list_all (\<lambda>c. c \<noteq> CHR '':'' \<and> c \<noteq> CHR ''='') s"
    by (auto simp: list_all_iff dest: ident_char_no_separator)
  then have "redact s = s" by (rule redact_no_separator)
  moreover have "filter printable s = s"
    using chars by (auto simp: list_all_iff filter_id_conv dest: ident_char_printable)
  moreover have "take 512 s = s" using is_identifier_length [OF id] by simp
  ultimately show "clean s = s" by (simp add: clean_def)
qed

text \<open>No control character, angle bracket or DEL is ever stored.\<close>

lemma clean_printable: "c \<in> set (clean s) \<Longrightarrow> printable c"
  by (simp add: clean_def)

lemma packed_distinct [simp]: "distinct (packed xs)"
  by (simp add: packed_def)

lemma packed_sorted [simp]: "sorted (packed xs)"
  by (simp add: packed_def)

lemma set_packed: "set (packed xs) = clean ` set xs - {[]}"
  by (auto simp: packed_def)

end
