(* ===== verification/Store.thy ===== *)
theory Store
  imports Sanitize
begin

text \<open>
  The transactional task, worker and lease store of \<open>src/autonomy/store.py\<close>. A table is a list
  of rows in insertion order; \<open>SELECT ... WHERE key = ?\<close> is \<open>find\<close>, \<open>UPDATE ... WHERE\<close> is
  \<open>update_where\<close>, a transaction that is rolled back returns the database it started from.
  Every operation takes the database and returns its result with the new database; the first
  argument \<open>now\<close> of an operation is the value of \<open>float(now)\<close>, or of \<open>time.time()\<close> where the
  caller passes none. \<open>db_locked\<close> says that another connection holds the write lock for longer
  than the busy timeout, so that every write raises \<open>sqlite3.OperationalError\<close>.
\<close>

subsection \<open>Rows\<close>

text \<open>
  The column \<open>state\<close> is a text: one of the values of the enumeration, or, in a corrupted
  database, some other text (\<open>UNKNOWN_STATE\<close>).
\<close>

datatype TaskState =
    NEW | VALIDATED | QUEUED | ASSIGNED | LEASED | RUNNING | EVIDENCE_PENDING
  | REVIEW_PENDING | WAITING_HUMAN | COMPLETED | WAITING_CAPACITY | RETRYING
  | FAILED_SAFE | DEAD_LETTER | UNKNOWN_STATE string

fun state_value :: "TaskState \<Rightarrow> string" where
  "state_value NEW = ''NEW''"
| "state_value VALIDATED = ''VALIDATED''"
| "state_value QUEUED = ''QUEUED''"
| "state_value ASSIGNED = ''ASSIGNED''"
| "state_value LEASED = ''LEASED''"
| "state_value RUNNING = ''RUNNING''"
| "state_value EVIDENCE_PENDING = ''EVIDENCE_PENDING''"
| "state_value REVIEW_PENDING = ''REVIEW_PENDING''"
| "state_value WAITING_HUMAN = ''WAITING_HUMAN''"
| "state_value COMPLETED = ''COMPLETED''"
| "state_value WAITING_CAPACITY = ''WAITING_CAPACITY''"
| "state_value RETRYING = ''RETRYING''"
| "state_value FAILED_SAFE = ''FAILED_SAFE''"
| "state_value DEAD_LETTER = ''DEAD_LETTER''"
| "state_value (UNKNOWN_STATE s) = s"

definition VALID_STATES :: "TaskState list" where
  "VALID_STATES = [NEW, VALIDATED, QUEUED, ASSIGNED, LEASED, RUNNING, EVIDENCE_PENDING,
     REVIEW_PENDING, WAITING_HUMAN, COMPLETED, WAITING_CAPACITY, RETRYING, FAILED_SAFE,
     DEAD_LETTER]"

fun valid_state :: "TaskState \<Rightarrow> bool" where
  "valid_state (UNKNOWN_STATE _) = False"
| "valid_state _ = True"

definition TERMINAL :: "TaskState set" where
  "TERMINAL = {COMPLETED, FAILED_SAFE, DEAD_LETTER}"

definition LEASEABLE :: "TaskState set" where
  "LEASEABLE = {QUEUED, WAITING_CAPACITY, RETRYING}"

definition MAX_RETRY :: int where "MAX_RETRY = 1000000"

record task =
  t_id :: string
  t_directive_id :: "string option"
  t_target_project :: string
  t_capability :: string
  t_state :: TaskState
  t_priority :: int
  t_created_at :: rat
  t_updated_at :: rat
  t_requires_human_approval :: bool
  t_governance_allowed :: bool
  t_attempt_count :: int
  t_retry_budget :: int
  t_assigned_worker_id :: "string option"
  t_lease_id :: "string option"
  t_lease_expires_at :: "rat option"
  t_last_worker_heartbeat :: "rat option"
  t_evidence_status :: string
  t_terminal_reason :: "string option"
  t_error_code :: "string option"

record worker =
  w_id :: string
  w_kind :: string
  w_capabilities :: "string list"
  w_targets :: "string list"
  w_registered_at :: rat
  w_last_heartbeat :: rat
  w_heartbeat_sla :: rat
  w_capacity :: int

record evidence =
  e_task_id :: string
  e_evidence_id :: string
  e_sha256 :: string
  e_received_at :: rat

record audit_row =
  a_seq :: nat
  a_task_id :: string
  a_event :: string
  a_at :: rat
  a_details :: string

record db =
  db_tasks :: "task list"
  db_workers :: "worker list"
  db_evidence :: "evidence list"
  db_audit :: "audit_row list"
  db_locked :: bool

definition init_db :: db where
  "init_db = \<lparr>db_tasks = [], db_workers = [], db_evidence = [], db_audit = [], db_locked = False\<rparr>"

definition db_busy :: err where "db_busy = SqlOperationalError ''database is locked''"

subsection \<open>Clock, audit, lookups\<close>

text \<open>The clock must be finite and not negative.\<close>

fun now_of :: "pyfloat \<Rightarrow> rat res" where
  "now_of (Finite v) = (if v < 0 then Inl (BlockedError ''invalid clock'') else Inr v)"
| "now_of _ = Inl (BlockedError ''invalid clock'')"

definition audit :: "string \<Rightarrow> string \<Rightarrow> rat \<Rightarrow> string \<Rightarrow> db \<Rightarrow> db" where
  "audit t e n details d = d\<lparr>db_audit := db_audit d @
     [\<lparr>a_seq = Suc (length (db_audit d)), a_task_id = t, a_event = e, a_at = n,
       a_details = clean details\<rparr>]\<rparr>"

definition find_task :: "string \<Rightarrow> db \<Rightarrow> task option" where
  "find_task tid d = find (\<lambda>t. t_id t = tid) (db_tasks d)"

definition find_worker :: "string \<Rightarrow> db \<Rightarrow> worker option" where
  "find_worker wid d = find (\<lambda>w. w_id w = wid) (db_workers d)"

definition get_task :: "string \<Rightarrow> db \<Rightarrow> task res" where
  "get_task tid d = (case find_task (clean tid) d of
      None \<Rightarrow> Inl (BlockedError ''unknown task'')
    | Some t \<Rightarrow> if valid_state (t_state t) then Inr t
                else Inl (IntegrityBlockedError ''unknown task state''))"

definition update_tasks :: "(task \<Rightarrow> bool) \<Rightarrow> (task \<Rightarrow> task) \<Rightarrow> db \<Rightarrow> db" where
  "update_tasks p f d = d\<lparr>db_tasks := update_where p f (db_tasks d)\<rparr>"

definition update_workers :: "(worker \<Rightarrow> bool) \<Rightarrow> (worker \<Rightarrow> worker) \<Rightarrow> db \<Rightarrow> db" where
  "update_workers p f d = d\<lparr>db_workers := update_where p f (db_workers d)\<rparr>"

text \<open>\<open>x > n\<close> and \<open>x <= n\<close> in SQL: false when the column is NULL.\<close>

definition sql_gt :: "rat option \<Rightarrow> rat \<Rightarrow> bool" where
  "sql_gt x n = (case x of None \<Rightarrow> False | Some v \<Rightarrow> v > n)"

definition sql_le :: "rat option \<Rightarrow> rat \<Rightarrow> bool" where
  "sql_le x n = (case x of None \<Rightarrow> False | Some v \<Rightarrow> v \<le> n)"

definition holds_lease :: "task \<Rightarrow> bool" where
  "holds_lease t \<longleftrightarrow> t_state t = LEASED \<or> t_state t = RUNNING"

text \<open>
  The freshness test every operation repeats: the heartbeat is at most \<open>heartbeat_sla\<close> old and
  at most one second in the future.
\<close>

definition worker_fresh :: "rat \<Rightarrow> worker \<Rightarrow> bool" where
  "worker_fresh n w \<longleftrightarrow> \<not> (n - w_last_heartbeat w > w_heartbeat_sla w \<or> w_last_heartbeat w > n + 1)"

definition active_leases_of :: "string \<Rightarrow> rat \<Rightarrow> db \<Rightarrow> nat" where
  "active_leases_of wid n d = rowcount (\<lambda>t. t_assigned_worker_id t = Some wid \<and> holds_lease t
     \<and> sql_gt (t_lease_expires_at t) n) (db_tasks d)"

subsection \<open>Creating tasks\<close>

definition new_task :: "string \<Rightarrow> string option \<Rightarrow> string \<Rightarrow> string \<Rightarrow> int \<Rightarrow> bool \<Rightarrow> bool \<Rightarrow> int \<Rightarrow> rat \<Rightarrow> task" where
  "new_task tid did target cap prio human gov budget n =
     \<lparr>t_id = tid, t_directive_id = did, t_target_project = target, t_capability = cap,
      t_state = (if human then WAITING_HUMAN else QUEUED), t_priority = prio,
      t_created_at = n, t_updated_at = n, t_requires_human_approval = human,
      t_governance_allowed = gov, t_attempt_count = 0, t_retry_budget = budget,
      t_assigned_worker_id = None, t_lease_id = None, t_lease_expires_at = None,
      t_last_worker_heartbeat = None, t_evidence_status = ''NONE'',
      t_terminal_reason = None, t_error_code = None\<rparr>"

text \<open>\<open>clean(directive_id) or None\<close>.\<close>

definition clean_or_none :: "string option \<Rightarrow> string option" where
  "clean_or_none x = (case x of None \<Rightarrow> None
     | Some s \<Rightarrow> if clean s = [] then None else Some (clean s))"

text \<open>The UNIQUE constraints of \<open>tasks\<close> on an inserted row; NULLs never collide.\<close>

definition task_insert_ok :: "task \<Rightarrow> db \<Rightarrow> bool" where
  "task_insert_ok t d \<longleftrightarrow>
     \<not> (\<exists>u \<in> set (db_tasks d). t_id u = t_id t
          \<or> (t_directive_id t \<noteq> None \<and> t_directive_id u = t_directive_id t)
          \<or> (t_lease_id t \<noteq> None \<and> t_lease_id u = t_lease_id t))"

definition insert_task :: "task \<Rightarrow> db \<Rightarrow> db" where
  "insert_task t d = d\<lparr>db_tasks := db_tasks d @ [t]\<rparr>"

definition create_task_insert ::
  "string \<Rightarrow> string option \<Rightarrow> string \<Rightarrow> string \<Rightarrow> int \<Rightarrow> bool \<Rightarrow> bool \<Rightarrow> int \<Rightarrow> rat \<Rightarrow> db \<Rightarrow> task res \<times> db" where
  "create_task_insert tid did target cap prio human gov budget n d =
     (let t = new_task (clean tid) (clean_or_none did) (clean target) (clean cap) prio human gov budget n;
          d' = audit tid ''CREATED'' n (state_value (t_state t)) (insert_task t d)
      in if db_locked d then (Inl db_busy, d)
         else if \<not> task_insert_ok t d then (Inl (BlockedError ''duplicate task''), d)
         else (get_task tid d', d'))"

definition create_task ::
  "pyfloat \<Rightarrow> string \<Rightarrow> string option \<Rightarrow> string \<Rightarrow> string \<Rightarrow> int \<Rightarrow> bool \<Rightarrow> bool \<Rightarrow> pyval \<Rightarrow> db \<Rightarrow> task res \<times> db" where
  "create_task now tid did target cap prio human gov budget d =
     (case now_of now of Inl e \<Rightarrow> (Inl e, d) | Inr n \<Rightarrow>
      (case as_int budget of
         None \<Rightarrow> (Inl (BlockedError ''invalid retry budget''), d)
       | Some b \<Rightarrow>
           if \<not> (0 \<le> b \<and> b \<le> MAX_RETRY) then (Inl (BlockedError ''invalid retry budget''), d)
           else (case (case did of Some s \<Rightarrow> if s = [] then None
                         else find (\<lambda>t. t_directive_id t = Some (clean s)) (db_tasks d)
                       | None \<Rightarrow> None) of
               Some r \<Rightarrow>
                 if (t_id r, t_target_project r, t_capability r) \<noteq> (clean tid, clean target, clean cap)
                 then (Inl (BlockedError ''identity conflict''), d)
                 else (Inr r, d)
             | None \<Rightarrow> create_task_insert tid did target cap prio human gov b n d)))"

subsection \<open>Workers\<close>

definition register_worker ::
  "pyfloat \<Rightarrow> string \<Rightarrow> string \<Rightarrow> string list \<Rightarrow> string list \<Rightarrow> rat \<Rightarrow> int \<Rightarrow> db \<Rightarrow> unit res \<times> db" where
  "register_worker now wid kind caps targets sla capacity d =
     (case now_of now of Inl e \<Rightarrow> (Inl e, d) | Inr n \<Rightarrow>
      if sla \<le> 0 \<or> capacity < 0 then (Inl (BlockedError ''invalid worker''), d)
      else if db_locked d then (Inl db_busy, d)
      else (case find_worker (clean wid) d of
          None \<Rightarrow> (Inr (), d\<lparr>db_workers := db_workers d @
            [\<lparr>w_id = clean wid, w_kind = clean kind, w_capabilities = packed caps,
              w_targets = packed targets, w_registered_at = n, w_last_heartbeat = n,
              w_heartbeat_sla = sla, w_capacity = capacity\<rparr>]\<rparr>)
        | Some _ \<Rightarrow> (Inr (), update_workers (\<lambda>w. w_id w = clean wid)
            (\<lambda>w. w\<lparr>w_kind := clean kind, w_capabilities := packed caps,
                   w_targets := packed targets, w_last_heartbeat := n,
                   w_heartbeat_sla := sla, w_capacity := capacity\<rparr>) d)))"

text \<open>\<open>observed_at\<close> is the second clock argument; \<open>None\<close> means the current time.\<close>

definition observed_or :: "rat \<Rightarrow> pyfloat option \<Rightarrow> rat res" where
  "observed_or n obs = (case obs of None \<Rightarrow> Inr n | Some f \<Rightarrow> now_of f)"

definition heartbeat :: "pyfloat \<Rightarrow> string \<Rightarrow> pyfloat option \<Rightarrow> db \<Rightarrow> unit res \<times> db" where
  "heartbeat now wid obs d =
     (case now_of now of Inl e \<Rightarrow> (Inl e, d) | Inr n \<Rightarrow>
      (case observed_or n obs of Inl e \<Rightarrow> (Inl e, d) | Inr h \<Rightarrow>
       if h > n + 1 then (Inl (BlockedError ''future heartbeat''), d)
       else if db_locked d then (Inl db_busy, d)
       else if rowcount (\<lambda>w. w_id w = clean wid) (db_workers d) \<noteq> 1
         then (Inl (BlockedError ''unknown worker''), d)
       else (Inr (), update_workers (\<lambda>w. w_id w = clean wid) (\<lambda>w. w\<lparr>w_last_heartbeat := h\<rparr>) d)))"

definition heartbeat_with_capacity ::
  "pyfloat \<Rightarrow> string \<Rightarrow> pyval \<Rightarrow> pyfloat option \<Rightarrow> db \<Rightarrow> unit res \<times> db" where
  "heartbeat_with_capacity now wid capacity obs d =
     (case now_of now of Inl e \<Rightarrow> (Inl e, d) | Inr n \<Rightarrow>
      (case observed_or n obs of Inl e \<Rightarrow> (Inl e, d) | Inr h \<Rightarrow>
       (case (if h > n + 1 then None else as_int capacity) of
          None \<Rightarrow> (Inl (BlockedError ''invalid heartbeat''), d)
        | Some c \<Rightarrow>
            if c < 0 then (Inl (BlockedError ''invalid heartbeat''), d)
            else if db_locked d then (Inl (BlockedError ''store busy''), d)
            else if rowcount (\<lambda>w. w_id w = clean wid) (db_workers d) \<noteq> 1
              then (Inl (BlockedError ''unknown worker''), d)
            else (Inr (), update_workers (\<lambda>w. w_id w = clean wid)
                    (\<lambda>w. w\<lparr>w_last_heartbeat := h, w_capacity := c\<rparr>) d))))"

record worker_view =
  v_worker :: worker
  v_available :: bool
  v_active :: nat

text \<open>
  \<open>worker_status\<close>: the row, its freshness (\<open>AVAILABLE\<close> or \<open>STALE\<close>) and the number of its
  unexpired leases. The row is looked up under the cleaned identifier, the leases under the
  identifier as given.
\<close>

definition worker_status :: "pyfloat \<Rightarrow> string \<Rightarrow> db \<Rightarrow> worker_view res" where
  "worker_status now wid d =
     (case now_of now of Inl e \<Rightarrow> Inl e | Inr n \<Rightarrow>
      (case find_worker (clean wid) d of
         None \<Rightarrow> Inl (BlockedError ''unknown worker'')
       | Some w \<Rightarrow> Inr \<lparr>v_worker = w,
            v_available = (w_last_heartbeat w \<le> n + 1 \<and> n - w_last_heartbeat w \<le> w_heartbeat_sla w),
            v_active = active_leases_of wid n d\<rparr>))"

subsection \<open>Leases\<close>

record lease =
  l_task_id :: string
  l_worker_id :: string
  l_lease_id :: string
  l_expires_at :: rat

definition lease_task :: "string \<Rightarrow> string \<Rightarrow> rat \<Rightarrow> rat \<Rightarrow> rat \<Rightarrow> task \<Rightarrow> task" where
  "lease_task wid lid ex hb n t = t\<lparr>t_state := LEASED, t_assigned_worker_id := Some wid,
     t_lease_id := Some lid, t_lease_expires_at := Some ex, t_last_worker_heartbeat := Some hb,
     t_updated_at := n\<rparr>"

text \<open>
  \<open>claim\<close>. \<open>lid\<close> is the value of \<open>uuid.uuid4().hex\<close>; a value that is already a lease id
  violates the UNIQUE constraint, and that error is not handled.
\<close>

definition claim :: "pyfloat \<Rightarrow> string \<Rightarrow> string \<Rightarrow> pyval \<Rightarrow> string \<Rightarrow> db \<Rightarrow> lease res \<times> db" where
  "claim now tid wid lease_seconds lid d =
     (case now_of now of Inl e \<Rightarrow> (Inl e, d) | Inr n \<Rightarrow>
      (case positive_seconds lease_seconds of
         None \<Rightarrow> (Inl (BlockedError ''invalid lease duration''), d)
       | Some secs \<Rightarrow>
        if db_locked d then (Inl (BlockedError ''store busy''), d) else
        (case (find_task tid d, find_worker wid d) of
           (Some t, Some w) \<Rightarrow>
             if t_state t \<notin> LEASEABLE \<or> t_requires_human_approval t \<or> \<not> t_governance_allowed t
             then (Inl (BlockedError ''not leaseable''), d)
             else if \<not> worker_fresh n w then (Inl (BlockedError ''stale worker''), d)
             else if t_capability t \<notin> set (w_capabilities w) \<or> t_target_project t \<notin> set (w_targets w)
             then (Inl (BlockedError ''incompatible worker''), d)
             else if int (active_leases_of wid n d) \<ge> w_capacity w
             then (Inl (BlockedError ''capacity exhausted''), d)
             else if \<exists>u \<in> set (db_tasks d). t_id u \<noteq> tid \<and> t_lease_id u = Some lid
             then (Inl SqlIntegrityError, d)
             else if rowcount (\<lambda>u. t_id u = tid \<and> t_state u \<in> LEASEABLE) (db_tasks d) \<noteq> 1
             then (Inl (BlockedError ''claim lost''), d)
             else (Inr \<lparr>l_task_id = tid, l_worker_id = wid, l_lease_id = lid, l_expires_at = n + secs\<rparr>,
                   audit tid ''LEASED'' n wid
                     (update_tasks (\<lambda>u. t_id u = tid \<and> t_state u \<in> LEASEABLE)
                        (lease_task wid lid (n + secs) (w_last_heartbeat w) n) d))
         | _ \<Rightarrow> (Inl (BlockedError ''not leaseable''), d))))"

definition owns_lease :: "string \<Rightarrow> string \<Rightarrow> string \<Rightarrow> task \<Rightarrow> bool" where
  "owns_lease tid wid lid t \<longleftrightarrow>
     t_id t = tid \<and> t_assigned_worker_id t = Some wid \<and> t_lease_id t = Some lid"

definition renew :: "pyfloat \<Rightarrow> string \<Rightarrow> string \<Rightarrow> string \<Rightarrow> rat \<Rightarrow> db \<Rightarrow> rat res \<times> db" where
  "renew now tid wid lid lease_seconds d =
     (case now_of now of Inl e \<Rightarrow> (Inl e, d) | Inr n \<Rightarrow>
      if db_locked d then (Inl db_busy, d)
      else if rowcount (\<lambda>t. owns_lease tid wid lid t \<and> holds_lease t \<and> sql_gt (t_lease_expires_at t) n)
                (db_tasks d) \<noteq> 1
      then (Inl (BlockedError ''invalid lease owner''), d)
      else (Inr (n + lease_seconds), audit tid ''LEASE_RENEWED'' n wid
             (update_tasks
               (\<lambda>t. owns_lease tid wid lid t \<and> holds_lease t \<and> sql_gt (t_lease_expires_at t) n)
               (\<lambda>t. t\<lparr>t_lease_expires_at := Some (n + lease_seconds), t_updated_at := n\<rparr>) d)))"

definition startable :: "rat \<Rightarrow> string \<Rightarrow> string \<Rightarrow> string \<Rightarrow> task \<Rightarrow> bool" where
  "startable n tid wid lid t \<longleftrightarrow>
     t_state t = LEASED \<and> owns_lease tid wid lid t \<and> sql_gt (t_lease_expires_at t) n"

definition run_task :: "rat \<Rightarrow> task \<Rightarrow> task" where
  "run_task n t = t\<lparr>t_state := RUNNING, t_updated_at := n\<rparr>"

definition start :: "pyfloat \<Rightarrow> string \<Rightarrow> string \<Rightarrow> string \<Rightarrow> db \<Rightarrow> unit res \<times> db" where
  "start now tid wid lid d =
     (case now_of now of Inl e \<Rightarrow> (Inl e, d) | Inr n \<Rightarrow>
      if db_locked d then (Inl db_busy, d) else
      (case find_worker wid d of
         None \<Rightarrow> (Inl (BlockedError ''cannot run''), d)
       | Some w \<Rightarrow>
           if \<not> worker_fresh n w then (Inl (BlockedError ''cannot run''), d)
           else if rowcount (startable n tid wid lid) (db_tasks d) \<noteq> 1
           then (Inl (BlockedError ''cannot run''), d)
           else (Inr (), audit tid ''RUNNING'' n wid
                  (update_tasks (startable n tid wid lid) (run_task n) d))))"

definition start_with_ack :: "pyfloat \<Rightarrow> string \<Rightarrow> string \<Rightarrow> string \<Rightarrow> string \<Rightarrow> db \<Rightarrow> unit res \<times> db" where
  "start_with_ack now tid wid lid ack_details d =
     (case now_of now of Inl e \<Rightarrow> (Inl e, d) | Inr n \<Rightarrow>
      if db_locked d then (Inl (BlockedError ''store busy''), d) else
      (case find_worker wid d of
         None \<Rightarrow> (Inl (BlockedError ''cannot acknowledge''), d)
       | Some w \<Rightarrow>
           if \<not> worker_fresh n w then (Inl (BlockedError ''cannot acknowledge''), d)
           else if rowcount (startable n tid wid lid) (db_tasks d) \<noteq> 1
           then (Inl (BlockedError ''cannot acknowledge''), d)
           else (Inr (), audit tid ''RUNNING'' n wid (audit tid ''ACKED'' n ack_details
                  (update_tasks (startable n tid wid lid) (run_task n) d)))))"

subsection \<open>Failing, reclaiming, reconciling\<close>

text \<open>One more attempt: back to \<open>RETRYING\<close>, or \<open>DEAD_LETTER\<close> past the retry budget.\<close>

definition next_attempt_state :: "task \<Rightarrow> TaskState" where
  "next_attempt_state t = (if t_attempt_count t + 1 > t_retry_budget t then DEAD_LETTER else RETRYING)"

definition drop_lease :: "TaskState \<Rightarrow> int \<Rightarrow> rat \<Rightarrow> task \<Rightarrow> task" where
  "drop_lease st a n t = t\<lparr>t_state := st, t_attempt_count := a, t_assigned_worker_id := None,
     t_lease_id := None, t_lease_expires_at := None, t_updated_at := n\<rparr>"

definition reclaim_expired :: "pyfloat \<Rightarrow> string \<Rightarrow> db \<Rightarrow> unit res \<times> db" where
  "reclaim_expired now tid d =
     (case now_of now of Inl e \<Rightarrow> (Inl e, d) | Inr n \<Rightarrow>
      if db_locked d then (Inl db_busy, d) else
      (case find_task tid d of
         None \<Rightarrow> (Inl (BlockedError ''not reclaimable''), d)
       | Some t \<Rightarrow>
           if \<not> holds_lease t then (Inl (BlockedError ''not reclaimable''), d) else
           (case t_lease_expires_at t of
              None \<Rightarrow> (Inl (PyError ''TypeError''), d)
            | Some ex \<Rightarrow>
                if ex > n then (Inl (BlockedError ''not reclaimable''), d)
                else if rowcount (\<lambda>u. t_id u = tid \<and> holds_lease u \<and> sql_le (t_lease_expires_at u) n)
                          (db_tasks d) \<noteq> 1
                then (Inl (BlockedError ''reclaim lost''), d)
                else (Inr (), audit tid ''LEASE_EXPIRED'' n (state_value (next_attempt_state t))
                  (update_tasks (\<lambda>u. t_id u = tid \<and> holds_lease u \<and> sql_le (t_lease_expires_at u) n)
                     (drop_lease (next_attempt_state t) (t_attempt_count t + 1) n) d)))))"

text \<open>
  \<open>reconcile_stale_workers\<close>: the join picks the running tasks whose owner is stale, ordered by
  identifier; each is looked up again and sent back, one autocommitted update at a time.
\<close>

definition stale_owned :: "rat \<Rightarrow> db \<Rightarrow> task \<Rightarrow> bool" where
  "stale_owned n d t \<longleftrightarrow> t_state t = RUNNING \<and>
     (\<exists>w \<in> set (db_workers d). t_assigned_worker_id t = Some (w_id w) \<and> \<not> worker_fresh n w)"

definition reconcile_row :: "rat \<Rightarrow> string \<Rightarrow> task \<Rightarrow> db \<Rightarrow> db" where
  "reconcile_row n r t d = audit r ''STALE_WORKER_RECONCILED'' n (state_value (next_attempt_state t))
     (update_tasks (\<lambda>u. t_id u = r) (\<lambda>u. (drop_lease (next_attempt_state t) (t_attempt_count t + 1) n u)
        \<lparr>t_error_code := Some ''STALE_WORKER''\<rparr>) d)"

fun reconcile_rows :: "rat \<Rightarrow> string list \<Rightarrow> db \<Rightarrow> string list res \<times> db" where
  "reconcile_rows n [] d = (Inr [], d)"
| "reconcile_rows n (r # rs) d =
     (case get_task r d of
        Inl e \<Rightarrow> (Inl e, d)
      | Inr t \<Rightarrow>
          if db_locked d then (Inl db_busy, d) else
          (case reconcile_rows n rs (reconcile_row n r t d) of
             (Inl e, d') \<Rightarrow> (Inl e, d')
           | (Inr cs, d') \<Rightarrow> (Inr (r # cs), d')))"

definition reconcile_stale_workers :: "pyfloat \<Rightarrow> db \<Rightarrow> string list res \<times> db" where
  "reconcile_stale_workers now d =
     (case now_of now of Inl e \<Rightarrow> (Inl e, d) | Inr n \<Rightarrow>
      reconcile_rows n (sort (map t_id (filter (stale_owned n d) (db_tasks d)))) d)"

definition fail_attempt ::
  "pyfloat \<Rightarrow> string \<Rightarrow> string \<Rightarrow> string \<Rightarrow> string \<Rightarrow> string \<Rightarrow> db \<Rightarrow> unit res \<times> db" where
  "fail_attempt now tid wid lid reason code d =
     (case now_of now of Inl e \<Rightarrow> (Inl e, d) | Inr n \<Rightarrow>
      (case get_task tid d of
         Inl e \<Rightarrow> (Inl e, d)
       | Inr t \<Rightarrow>
           if \<not> holds_lease t \<or> t_assigned_worker_id t \<noteq> Some wid \<or> t_lease_id t \<noteq> Some lid
           then (Inl (BlockedError ''invalid reporter''), d)
           else if db_locked d then (Inl db_busy, d)
           else (Inr (), audit tid ''ATTEMPT_FAILED'' n (state_value (next_attempt_state t))
             (update_tasks (\<lambda>u. t_id u = tid)
               (\<lambda>u. (drop_lease (next_attempt_state t) (t_attempt_count t + 1) n u)
                      \<lparr>t_terminal_reason := Some (clean reason), t_error_code := Some (clean code)\<rparr>) d))))"

subsection \<open>Results and review\<close>

definition evidence_insert_ok :: "evidence \<Rightarrow> db \<Rightarrow> bool" where
  "evidence_insert_ok e d \<longleftrightarrow>
     \<not> (\<exists>x \<in> set (db_evidence d). e_task_id x = e_task_id e
          \<and> (e_evidence_id x = e_evidence_id e \<or> e_sha256 x = e_sha256 e))"

definition evidence_row :: "string \<Rightarrow> string \<Rightarrow> string \<Rightarrow> rat \<Rightarrow> evidence" where
  "evidence_row tid eid sha n =
     \<lparr>e_task_id = tid, e_evidence_id = clean eid, e_sha256 = lower sha, e_received_at = n\<rparr>"

definition result_reportable :: "task \<Rightarrow> bool" where
  "result_reportable t \<longleftrightarrow> holds_lease t \<or> t_state t = EVIDENCE_PENDING"

text \<open>
  \<open>submit_result\<close>. Missing or malformed evidence moves the task to \<open>EVIDENCE_PENDING\<close>, commits,
  and only then raises.
\<close>

definition submit_result ::
  "pyfloat \<Rightarrow> string \<Rightarrow> string \<Rightarrow> string \<Rightarrow> string \<Rightarrow> string \<Rightarrow> db \<Rightarrow> unit res \<times> db" where
  "submit_result now tid wid lid eid sha d =
     (case now_of now of Inl e \<Rightarrow> (Inl e, d) | Inr n \<Rightarrow>
      if db_locked d then (Inl db_busy, d) else
      (case (find_task tid d, find_worker wid d) of
         (Some t, Some w) \<Rightarrow>
           if \<not> result_reportable t \<or> t_assigned_worker_id t \<noteq> Some wid \<or> t_lease_id t \<noteq> Some lid
           then (Inl (BlockedError ''invalid result owner''), d) else
           (case t_lease_expires_at t of
              None \<Rightarrow> (Inl (PyError ''TypeError''), d)
            | Some ex \<Rightarrow>
                if ex \<le> n \<or> \<not> worker_fresh n w
                then (Inl (BlockedError ''invalid result owner''), d)
                else if eid = [] \<or> \<not> is_sha256 sha
                then (Inl (BlockedError ''evidence required''),
                      update_tasks (\<lambda>u. t_id u = tid)
                        (\<lambda>u. u\<lparr>t_state := EVIDENCE_PENDING, t_evidence_status := ''MISSING_OR_INVALID''\<rparr>) d)
                else if \<not> evidence_insert_ok (evidence_row tid eid sha n) d
                then (Inl (BlockedError ''duplicate evidence''), d)
                else (Inr (), audit tid ''RESULT_RECEIVED'' n eid
                  (update_tasks (\<lambda>u. t_id u = tid)
                     (\<lambda>u. u\<lparr>t_state := REVIEW_PENDING, t_evidence_status := ''RECEIVED'', t_updated_at := n\<rparr>)
                     (d\<lparr>db_evidence := db_evidence d @ [evidence_row tid eid sha n]\<rparr>))))
       | _ \<Rightarrow> (Inl (BlockedError ''invalid result owner''), d)))"

definition complete_after_review :: "pyfloat \<Rightarrow> string \<Rightarrow> bool \<Rightarrow> db \<Rightarrow> unit res \<times> db" where
  "complete_after_review now tid evidence_valid d =
     (case now_of now of Inl e \<Rightarrow> (Inl e, d) | Inr n \<Rightarrow>
      (case get_task tid d of
         Inl e \<Rightarrow> (Inl e, d)
       | Inr t \<Rightarrow>
           if t_state t \<noteq> REVIEW_PENDING \<or> t_evidence_status t \<noteq> ''RECEIVED'' \<or> \<not> evidence_valid
           then (Inl (BlockedError ''valid review required''), d)
           else if db_locked d then (Inl db_busy, d)
           else (Inr (), audit tid ''COMPLETED_AFTER_REVIEW'' n []
             (update_tasks (\<lambda>u. t_id u = tid)
               (\<lambda>u. u\<lparr>t_state := COMPLETED, t_evidence_status := ''VALID'', t_assigned_worker_id := None,
                      t_lease_id := None, t_lease_expires_at := None, t_updated_at := n\<rparr>) d))))"

subsection \<open>Routing and scheduling\<close>

definition wait_capacity :: "rat \<Rightarrow> task \<Rightarrow> task" where
  "wait_capacity n t = t\<lparr>t_state := WAITING_CAPACITY, t_updated_at := n\<rparr>"

definition route_candidate :: "rat \<Rightarrow> task \<Rightarrow> db \<Rightarrow> string \<Rightarrow> bool res" where
  "route_candidate n t d wid = (case worker_status (Finite n) wid d of
      Inl e \<Rightarrow> Inl e
    | Inr v \<Rightarrow> Inr (v_available v \<and> int (v_active v) < w_capacity (v_worker v)
         \<and> t_capability t \<in> set (w_capabilities (v_worker v))
         \<and> t_target_project t \<in> set (w_targets (v_worker v))))"

fun first_candidate :: "rat \<Rightarrow> task \<Rightarrow> db \<Rightarrow> string list \<Rightarrow> string option res" where
  "first_candidate n t d [] = Inr None"
| "first_candidate n t d (w # ws) = (case route_candidate n t d w of
      Inl e \<Rightarrow> Inl e
    | Inr ok \<Rightarrow> if ok then Inr (Some w) else first_candidate n t d ws)"

definition route_or_wait :: "pyfloat \<Rightarrow> string \<Rightarrow> db \<Rightarrow> string option res \<times> db" where
  "route_or_wait now tid d =
     (case now_of now of Inl e \<Rightarrow> (Inl e, d) | Inr n \<Rightarrow>
      (case get_task tid d of
         Inl e \<Rightarrow> (Inl e, d)
       | Inr t \<Rightarrow>
           if t_state t \<in> TERMINAL \<or> t_state t = WAITING_HUMAN \<or> \<not> t_governance_allowed t
           then (Inl (BlockedError ''routing prohibited''), d) else
           (case first_candidate n t d (sort (map w_id (db_workers d))) of
              Inl e \<Rightarrow> (Inl e, d)
            | Inr (Some w) \<Rightarrow> (Inr (Some w), d)
            | Inr None \<Rightarrow>
                if db_locked d then (Inl db_busy, d)
                else (Inr None, audit tid ''WAITING_CAPACITY'' n []
                       (update_tasks (\<lambda>u. t_id u = tid) (wait_capacity n) d)))))"

definition schedulable :: "task \<Rightarrow> bool" where
  "schedulable t \<longleftrightarrow> t_state t \<in> LEASEABLE \<and> \<not> t_requires_human_approval t \<and> t_governance_allowed t"

definition mark_waiting_capacity :: "pyfloat \<Rightarrow> string \<Rightarrow> db \<Rightarrow> unit res \<times> db" where
  "mark_waiting_capacity now tid d =
     (case now_of now of Inl e \<Rightarrow> (Inl e, d) | Inr n \<Rightarrow>
      if db_locked d then (Inl (BlockedError ''store busy''), d)
      else if rowcount (\<lambda>u. t_id u = clean tid \<and> schedulable u) (db_tasks d) \<noteq> 1
      then (Inl (BlockedError ''task cannot wait for capacity''), d)
      else (Inr (), audit tid ''WAITING_CAPACITY'' n ''no verified external session''
             (update_tasks (\<lambda>u. t_id u = clean tid \<and> schedulable u) (wait_capacity n) d)))"

text \<open>\<open>ORDER BY priority DESC, created_at ASC, task_id ASC\<close>, as a linear order on sort keys.\<close>

datatype sched_key = SchedKey (sk_priority: int) (sk_created: rat) (sk_id: string)

instantiation sched_key :: linorder
begin

definition less_sched_key :: "sched_key \<Rightarrow> sched_key \<Rightarrow> bool" where
  "a < b \<longleftrightarrow> (- sk_priority a, sk_created a, sk_id a) < (- sk_priority b, sk_created b, sk_id b)"

definition less_eq_sched_key :: "sched_key \<Rightarrow> sched_key \<Rightarrow> bool" where
  "a \<le> b \<longleftrightarrow> (- sk_priority a, sk_created a, sk_id a) \<le> (- sk_priority b, sk_created b, sk_id b)"

instance
proof
  fix a b c :: sched_key
  show "(a < b) = (a \<le> b \<and> \<not> b \<le> a)"
    unfolding less_sched_key_def less_eq_sched_key_def by (rule less_le_not_le)
  show "a \<le> a"
    unfolding less_eq_sched_key_def by (rule order_refl)
  show "a \<le> b \<Longrightarrow> b \<le> c \<Longrightarrow> a \<le> c"
    unfolding less_eq_sched_key_def by (rule order_trans)
  show "a \<le> b \<Longrightarrow> b \<le> a \<Longrightarrow> a = b"
    unfolding less_eq_sched_key_def by (drule (1) antisym) (cases a; cases b; simp)
  show "a \<le> b \<or> b \<le> a"
    unfolding less_eq_sched_key_def by (rule linear)
qed

end

definition sched_key_of :: "task \<Rightarrow> sched_key" where
  "sched_key_of t = SchedKey (t_priority t) (t_created_at t) (t_id t)"

definition schedulable_tasks :: "pyval \<Rightarrow> db \<Rightarrow> task list res" where
  "schedulable_tasks limit d = (case as_int limit of
      None \<Rightarrow> Inl (BlockedError ''invalid batch size'')
    | Some k \<Rightarrow> if k \<le> 0 then Inl (BlockedError ''invalid batch size'')
        else Inr (take (nat k) (sort_key sched_key_of (filter schedulable (db_tasks d)))))"

subsection \<open>Projections\<close>

definition audit_events :: "string \<Rightarrow> db \<Rightarrow> audit_row list" where
  "audit_events tid d = filter (\<lambda>a. a_task_id a = tid) (db_audit d)"

fun statuses :: "pyfloat \<Rightarrow> string list \<Rightarrow> db \<Rightarrow> worker_view list res" where
  "statuses now [] d = Inr []"
| "statuses now (w # ws) d = (case worker_status now w d of
      Inl e \<Rightarrow> Inl e
    | Inr v \<Rightarrow> (case statuses now ws d of Inl e \<Rightarrow> Inl e | Inr vs \<Rightarrow> Inr (v # vs)))"

definition workers :: "pyfloat \<Rightarrow> db \<Rightarrow> worker_view list res" where
  "workers now d = (case now_of now of Inl e \<Rightarrow> Inl e
    | Inr n \<Rightarrow> statuses (Finite n) (sort (map w_id (db_workers d))) d)"

text \<open>Each lease row with its \<open>expired\<close> flag; a lease without expiry is a \<open>TypeError\<close>.\<close>

fun flag_expired :: "rat \<Rightarrow> task list \<Rightarrow> (task \<times> bool) list res" where
  "flag_expired n [] = Inr []"
| "flag_expired n (t # ts) = (case t_lease_expires_at t of
      None \<Rightarrow> Inl (PyError ''TypeError'')
    | Some ex \<Rightarrow> (case flag_expired n ts of Inl e \<Rightarrow> Inl e | Inr r \<Rightarrow> Inr ((t, ex \<le> n) # r)))"

definition active_leases :: "pyfloat \<Rightarrow> db \<Rightarrow> (task \<times> bool) list res" where
  "active_leases now d = (case now_of now of Inl e \<Rightarrow> Inl e
    | Inr n \<Rightarrow> flag_expired n (sort_key t_id
        (filter (\<lambda>t. holds_lease t \<and> t_lease_id t \<noteq> None) (db_tasks d))))"

definition expired_lease_tasks :: "pyfloat \<Rightarrow> db \<Rightarrow> string list res" where
  "expired_lease_tasks now d = (case now_of now of Inl e \<Rightarrow> Inl e
    | Inr n \<Rightarrow> Inr (sort (map t_id
        (filter (\<lambda>t. holds_lease t \<and> sql_le (t_lease_expires_at t) n) (db_tasks d)))))"

definition state_counts :: "db \<Rightarrow> (TaskState \<Rightarrow> nat) res" where
  "state_counts d = (if list_all (\<lambda>t. valid_state (t_state t)) (db_tasks d)
     then Inr (\<lambda>s. rowcount (\<lambda>t. t_state t = s) (db_tasks d))
     else Inl (IntegrityBlockedError ''unknown task state''))"

end
