(* ===== verification/StoreSpec.thy ===== *)
theory StoreSpec
  imports Store
begin

text \<open>
  What every store operation does, as one elimination fact per operation: either it reports an
  error and leaves the database alone, or its guards held and the new database is the stated
  update. The facts (\<open>*_D\<close>) carry the invariant, the lifecycle refinement and the ownership
  properties.
\<close>

lemma now_of_D: "now_of f = Inr n \<Longrightarrow> f = Finite n \<and> 0 \<le> n"
  by (cases f) (auto split: if_splits)

lemma find_task_D: "find_task tid d = Some t \<Longrightarrow> t \<in> set (db_tasks d) \<and> t_id t = tid"
  unfolding find_task_def by (drule find_Some_mem) simp

lemma find_worker_D: "find_worker wid d = Some w \<Longrightarrow> w \<in> set (db_workers d) \<and> w_id w = wid"
  unfolding find_worker_def by (drule find_Some_mem) simp

lemma get_task_D:
  "get_task tid d = Inr t \<Longrightarrow> find_task (clean tid) d = Some t \<and> valid_state (t_state t)"
  by (auto simp: get_task_def split: option.splits if_splits)

lemma positive_seconds_D: "positive_seconds v = Some s \<Longrightarrow> 0 < s"
  by (auto simp: positive_seconds_def split: option.splits pyfloat.splits if_splits)

lemma positive_seconds_Finite [simp]:
  "positive_seconds (PyFloat (Finite r)) = (if 0 < r then Some r else None)"
  by (simp add: positive_seconds_def)

lemmas op_splits = sum.splits option.splits if_splits prod.splits

lemma create_task_insert_D:
  assumes "create_task_insert tid did target cap prio human gov b n d = (r, d')"
  shows "d' = d \<or> (let t = new_task (clean tid) (clean_or_none did) (clean target) (clean cap) prio human gov b n in
    task_insert_ok t d \<and> d' = audit tid ''CREATED'' n (state_value (t_state t)) (insert_task t d))"
  using assms unfolding create_task_insert_def Let_def by (auto split: if_splits)

lemma create_task_D:
  assumes "create_task now tid did target cap prio human gov budget d = (r, d')"
  shows "d' = d \<or> (\<exists>n b. now_of now = Inr n \<and> 0 \<le> b \<and> (let t = new_task (clean tid)
      (clean_or_none did) (clean target) (clean cap) prio human gov b n in
    task_insert_ok t d \<and> d' = audit tid ''CREATED'' n (state_value (t_state t)) (insert_task t d)))"
proof (cases "d' = d")
  case False
  then obtain n b where n: "now_of now = Inr n" and b: "0 \<le> b"
    and ins: "create_task_insert tid did target cap prio human gov b n d = (r, d')"
    using assms unfolding create_task_def by (auto split: op_splits)
  from create_task_insert_D [OF ins] False n b show ?thesis by blast
qed simp

lemma register_worker_D:
  assumes "register_worker now wid kind caps targets sla capacity d = (r, d')"
  shows "d' = d \<or> (\<exists>n. now_of now = Inr n \<and> 0 < sla \<and> 0 \<le> capacity \<and>
    ((find_worker (clean wid) d = None \<and> d' = d\<lparr>db_workers := db_workers d @
        [\<lparr>w_id = clean wid, w_kind = clean kind, w_capabilities = packed caps,
          w_targets = packed targets, w_registered_at = n, w_last_heartbeat = n,
          w_heartbeat_sla = sla, w_capacity = capacity\<rparr>]\<rparr>)
     \<or> d' = update_workers (\<lambda>w. w_id w = clean wid)
        (\<lambda>w. w\<lparr>w_kind := clean kind, w_capabilities := packed caps,
               w_targets := packed targets, w_last_heartbeat := n,
               w_heartbeat_sla := sla, w_capacity := capacity\<rparr>) d))"
  using assms unfolding register_worker_def by (auto split: op_splits)

lemma heartbeat_D:
  assumes "heartbeat now wid obs d = (r, d')"
  shows "d' = d \<or> (\<exists>h. d' = update_workers (\<lambda>w. w_id w = clean wid) (\<lambda>w. w\<lparr>w_last_heartbeat := h\<rparr>) d)"
  using assms unfolding heartbeat_def by (auto split: op_splits)

lemma heartbeat_with_capacity_D:
  assumes "heartbeat_with_capacity now wid capacity obs d = (r, d')"
  shows "d' = d \<or> (\<exists>n h c. now_of now = Inr n \<and> observed_or n obs = Inr h \<and> h \<le> n + 1
      \<and> as_int capacity = Some c \<and> 0 \<le> c \<and> r = Inr ()
      \<and> d' = update_workers (\<lambda>w. w_id w = clean wid) (\<lambda>w. w\<lparr>w_last_heartbeat := h, w_capacity := c\<rparr>) d)"
  using assms unfolding heartbeat_with_capacity_def by (auto split: op_splits)

lemma claim_D:
  assumes "claim now tid wid secs lid d = (r, d')"
  shows "(\<exists>e. r = Inl e \<and> d' = d) \<or> (\<exists>n s t w. now_of now = Inr n \<and> positive_seconds secs = Some s
    \<and> db_locked d = False \<and> find_task tid d = Some t \<and> find_worker wid d = Some w
    \<and> t_state t \<in> LEASEABLE \<and> \<not> t_requires_human_approval t \<and> t_governance_allowed t
    \<and> worker_fresh n w \<and> t_capability t \<in> set (w_capabilities w) \<and> t_target_project t \<in> set (w_targets w)
    \<and> int (active_leases_of wid n d) < w_capacity w
    \<and> \<not> (\<exists>u \<in> set (db_tasks d). t_id u \<noteq> tid \<and> t_lease_id u = Some lid)
    \<and> r = Inr \<lparr>l_task_id = tid, l_worker_id = wid, l_lease_id = lid, l_expires_at = n + s\<rparr>
    \<and> d' = audit tid ''LEASED'' n wid (update_tasks (\<lambda>u. t_id u = tid \<and> t_state u \<in> LEASEABLE)
        (lease_task wid lid (n + s) (w_last_heartbeat w) n) d))"
  using assms unfolding claim_def by (auto split: op_splits)

lemma renew_D:
  assumes "renew now tid wid lid s d = (r, d')"
  shows "(\<exists>e. r = Inl e \<and> d' = d) \<or> (\<exists>n. now_of now = Inr n \<and> r = Inr (n + s) \<and>
    d' = audit tid ''LEASE_RENEWED'' n wid (update_tasks
       (\<lambda>t. owns_lease tid wid lid t \<and> holds_lease t \<and> sql_gt (t_lease_expires_at t) n)
       (\<lambda>t. t\<lparr>t_lease_expires_at := Some (n + s), t_updated_at := n\<rparr>) d))"
proof (cases "now_of now")
  case (Inl e)
  with assms have "r = Inl e \<and> d' = d" by (simp add: renew_def)
  then show ?thesis by blast
next
  case (Inr n)
  with assms show ?thesis by (auto simp: renew_def split: if_splits)
qed

lemma start_D:
  assumes "start now tid wid lid d = (r, d')"
  shows "(\<exists>e. r = Inl e \<and> d' = d) \<or> (\<exists>n w. now_of now = Inr n \<and> r = Inr ()
    \<and> find_worker wid d = Some w \<and> worker_fresh n w \<and> rowcount (startable n tid wid lid) (db_tasks d) = 1
    \<and> d' = audit tid ''RUNNING'' n wid (update_tasks (startable n tid wid lid) (run_task n) d))"
  using assms unfolding start_def by (auto split: op_splits)

lemma start_with_ack_D:
  assumes "start_with_ack now tid wid lid det d = (r, d')"
  shows "(\<exists>e. r = Inl e \<and> d' = d) \<or> (\<exists>n w. now_of now = Inr n \<and> r = Inr ()
    \<and> find_worker wid d = Some w \<and> worker_fresh n w \<and> rowcount (startable n tid wid lid) (db_tasks d) = 1
    \<and> d' = audit tid ''RUNNING'' n wid (audit tid ''ACKED'' n det
        (update_tasks (startable n tid wid lid) (run_task n) d)))"
  using assms unfolding start_with_ack_def by (auto split: op_splits)

lemma reclaim_expired_D:
  assumes "reclaim_expired now tid d = (r, d')"
  shows "(\<exists>e. r = Inl e \<and> d' = d) \<or> (\<exists>n t ex. now_of now = Inr n \<and> find_task tid d = Some t
    \<and> holds_lease t \<and> t_lease_expires_at t = Some ex \<and> ex \<le> n \<and> r = Inr ()
    \<and> d' = audit tid ''LEASE_EXPIRED'' n (state_value (next_attempt_state t))
        (update_tasks (\<lambda>u. t_id u = tid \<and> holds_lease u \<and> sql_le (t_lease_expires_at u) n)
           (drop_lease (next_attempt_state t) (t_attempt_count t + 1) n) d))"
  using assms unfolding reclaim_expired_def by (auto split: op_splits)

lemma fail_attempt_D:
  assumes "fail_attempt now tid wid lid reason code d = (r, d')"
  shows "(\<exists>e. r = Inl e \<and> d' = d) \<or> (\<exists>n t. now_of now = Inr n \<and> find_task (clean tid) d = Some t
    \<and> holds_lease t \<and> t_assigned_worker_id t = Some wid \<and> t_lease_id t = Some lid \<and> r = Inr ()
    \<and> d' = audit tid ''ATTEMPT_FAILED'' n (state_value (next_attempt_state t))
        (update_tasks (\<lambda>u. t_id u = tid)
          (\<lambda>u. (drop_lease (next_attempt_state t) (t_attempt_count t + 1) n u)
             \<lparr>t_terminal_reason := Some (clean reason), t_error_code := Some (clean code)\<rparr>) d))"
  using assms unfolding fail_attempt_def by (auto split: op_splits dest: get_task_D)

lemma submit_result_D:
  assumes "submit_result now tid wid lid eid sha d = (r, d')"
  shows "(\<exists>e. r = Inl e \<and> d' = d) \<or> (\<exists>n t w ex. now_of now = Inr n
    \<and> find_task tid d = Some t \<and> find_worker wid d = Some w \<and> result_reportable t
    \<and> t_assigned_worker_id t = Some wid \<and> t_lease_id t = Some lid
    \<and> t_lease_expires_at t = Some ex \<and> n < ex \<and> worker_fresh n w
    \<and> ((r = Inl (BlockedError ''evidence required'') \<and> (eid = [] \<or> \<not> is_sha256 sha)
          \<and> d' = update_tasks (\<lambda>u. t_id u = tid)
             (\<lambda>u. u\<lparr>t_state := EVIDENCE_PENDING, t_evidence_status := ''MISSING_OR_INVALID''\<rparr>) d)
       \<or> (r = Inr () \<and> eid \<noteq> [] \<and> is_sha256 sha \<and> evidence_insert_ok (evidence_row tid eid sha n) d
          \<and> d' = audit tid ''RESULT_RECEIVED'' n eid (update_tasks (\<lambda>u. t_id u = tid)
             (\<lambda>u. u\<lparr>t_state := REVIEW_PENDING, t_evidence_status := ''RECEIVED'', t_updated_at := n\<rparr>)
             (d\<lparr>db_evidence := db_evidence d @ [evidence_row tid eid sha n]\<rparr>)))))"
proof (cases "\<exists>e. r = Inl e \<and> d' = d")
  case False
  from False assms obtain n where n: "now_of now = Inr n"
    unfolding submit_result_def by (cases "now_of now") auto
  from False assms n have "\<not> db_locked d"
    unfolding submit_result_def by auto
  with False assms n obtain t w where t: "find_task tid d = Some t" and w: "find_worker wid d = Some w"
    unfolding submit_result_def
    by (cases "find_task tid d"; cases "find_worker wid d") auto
  note run = assms [unfolded submit_result_def, simplified n t w sum.case option.case prod.case
      \<open>\<not> db_locked d\<close> if_False]
  from False run have own: "result_reportable t" "t_assigned_worker_id t = Some wid" "t_lease_id t = Some lid"
    by (auto split: if_splits)
  note run = run [simplified own not_True_eq_False simp_thms if_False]
  from False run obtain ex where ex: "t_lease_expires_at t = Some ex"
    by (cases "t_lease_expires_at t") auto
  note run = run [simplified ex option.case]
  from False run have "n < ex" "worker_fresh n w"
    by (auto split: if_splits)
  with False run n t w own ex show ?thesis
    by (auto split: if_splits)
qed simp

lemma complete_after_review_D:
  assumes "complete_after_review now tid ev d = (r, d')"
  shows "(\<exists>e. r = Inl e \<and> d' = d) \<or> (\<exists>n t. now_of now = Inr n \<and> find_task (clean tid) d = Some t
    \<and> t_state t = REVIEW_PENDING \<and> t_evidence_status t = ''RECEIVED'' \<and> ev \<and> r = Inr ()
    \<and> d' = audit tid ''COMPLETED_AFTER_REVIEW'' n [] (update_tasks (\<lambda>u. t_id u = tid)
        (\<lambda>u. u\<lparr>t_state := COMPLETED, t_evidence_status := ''VALID'', t_assigned_worker_id := None,
               t_lease_id := None, t_lease_expires_at := None, t_updated_at := n\<rparr>) d))"
  using assms unfolding complete_after_review_def by (auto split: op_splits dest: get_task_D)

lemma route_or_wait_D:
  assumes "route_or_wait now tid d = (r, d')"
  shows "d' = d \<or> (\<exists>n t. now_of now = Inr n \<and> find_task (clean tid) d = Some t
    \<and> t_state t \<notin> TERMINAL \<and> t_state t \<noteq> WAITING_HUMAN \<and> t_governance_allowed t \<and> r = Inr None
    \<and> d' = audit tid ''WAITING_CAPACITY'' n [] (update_tasks (\<lambda>u. t_id u = tid) (wait_capacity n) d))"
  using assms unfolding route_or_wait_def by (auto split: op_splits dest: get_task_D)

lemma mark_waiting_capacity_D:
  assumes "mark_waiting_capacity now tid d = (r, d')"
  shows "(\<exists>e. r = Inl e \<and> d' = d) \<or> (\<exists>n. now_of now = Inr n \<and> r = Inr ()
    \<and> d' = audit tid ''WAITING_CAPACITY'' n ''no verified external session''
        (update_tasks (\<lambda>u. t_id u = clean tid \<and> schedulable u) (wait_capacity n) d))"
  using assms unfolding mark_waiting_capacity_def by (auto split: op_splits)

subsection \<open>Frame facts\<close>

lemma audit_frame [simp]:
  "db_tasks (audit t e n x d) = db_tasks d" "db_workers (audit t e n x d) = db_workers d"
  "db_evidence (audit t e n x d) = db_evidence d" "db_locked (audit t e n x d) = db_locked d"
  by (simp_all add: audit_def)

lemma audit_log [simp]: "db_audit (audit t e n x d) = db_audit d @
    [\<lparr>a_seq = Suc (length (db_audit d)), a_task_id = t, a_event = e, a_at = n, a_details = clean x\<rparr>]"
  by (simp add: audit_def)

lemma update_tasks_frame [simp]:
  "db_tasks (update_tasks p f d) = update_where p f (db_tasks d)"
  "db_workers (update_tasks p f d) = db_workers d" "db_evidence (update_tasks p f d) = db_evidence d"
  "db_audit (update_tasks p f d) = db_audit d" "db_locked (update_tasks p f d) = db_locked d"
  by (simp_all add: update_tasks_def)

lemma update_workers_frame [simp]:
  "db_workers (update_workers p f d) = update_where p f (db_workers d)"
  "db_tasks (update_workers p f d) = db_tasks d" "db_evidence (update_workers p f d) = db_evidence d"
  "db_audit (update_workers p f d) = db_audit d" "db_locked (update_workers p f d) = db_locked d"
  by (simp_all add: update_workers_def)

lemma insert_task_frame [simp]:
  "db_tasks (insert_task t d) = db_tasks d @ [t]" "db_workers (insert_task t d) = db_workers d"
  "db_evidence (insert_task t d) = db_evidence d" "db_audit (insert_task t d) = db_audit d"
  "db_locked (insert_task t d) = db_locked d"
  by (simp_all add: insert_task_def)

lemma find_task_audit [simp]: "find_task i (audit t e n x d) = find_task i d"
  by (simp add: find_task_def)

lemma find_worker_audit [simp]: "find_worker i (audit t e n x d) = find_worker i d"
  by (simp add: find_worker_def)

lemma find_worker_update_tasks [simp]: "find_worker i (update_tasks p f d) = find_worker i d"
  by (simp add: find_worker_def)

lemma find_task_update_tasks:
  "(\<And>t. p t \<Longrightarrow> t_id (f t) = t_id t) \<Longrightarrow>
    find_task i (update_tasks p f d) = map_option (\<lambda>t. if p t then f t else t) (find_task i d)"
  unfolding find_task_def update_tasks_frame by (rule find_update_where)

end
