(* ===== verification/StoreInv.thy ===== *)
theory StoreInv
  imports StoreSpec
begin

text \<open>
  The well-formedness invariant of the task database, the step relation of the store (one rule
  per operation of \<open>AutonomyStore\<close>) with its reachable databases, the preservation of the invariant
  by every step, and the life cycle of a task, which every step refines.
\<close>

subsection \<open>The invariant\<close>

text \<open>
  One row, given the registered worker identifiers \<open>W\<close> and the identifiers \<open>E\<close> of the tasks that
  have an evidence row.
\<close>

definition bound_states :: "TaskState set" where
  "bound_states = {LEASED, RUNNING, EVIDENCE_PENDING, REVIEW_PENDING}"

definition lease_fields_ok :: "task \<Rightarrow> bool" where
  "lease_fields_ok t \<longleftrightarrow> (t_state t \<in> bound_states \<longrightarrow> t_assigned_worker_id t \<noteq> None
     \<and> t_lease_id t \<noteq> None \<and> t_lease_expires_at t \<noteq> None)"

definition attempts_ok :: "task \<Rightarrow> bool" where
  "attempts_ok t \<longleftrightarrow> 0 \<le> t_attempt_count t \<and> t_attempt_count t \<le> t_retry_budget t + 1
     \<and> (t_state t = DEAD_LETTER \<longleftrightarrow> t_attempt_count t = t_retry_budget t + 1)"

definition approval_ok :: "task \<Rightarrow> bool" where
  "approval_ok t \<longleftrightarrow> (t_requires_human_approval t \<longrightarrow> t_state t = WAITING_HUMAN)
     \<and> (\<not> t_governance_allowed t \<longrightarrow> t_state t = QUEUED \<or> t_state t = WAITING_HUMAN)"

definition evidence_ok :: "string set \<Rightarrow> task \<Rightarrow> bool" where
  "evidence_ok E t \<longleftrightarrow>
     (t_state t = REVIEW_PENDING \<longrightarrow> t_evidence_status t = ''RECEIVED'' \<and> t_id t \<in> E)
     \<and> (t_state t = COMPLETED \<longrightarrow> t_evidence_status t = ''VALID'' \<and> t_id t \<in> E)"

text \<open>
  The states the store ever writes: \<open>NEW\<close>, \<open>VALIDATED\<close>, \<open>ASSIGNED\<close> and \<open>FAILED_SAFE\<close> are declared
  but no operation enters them.
\<close>

fun used_state :: "TaskState \<Rightarrow> bool" where
  "used_state NEW = False"
| "used_state VALIDATED = False"
| "used_state ASSIGNED = False"
| "used_state FAILED_SAFE = False"
| "used_state (UNKNOWN_STATE _) = False"
| "used_state _ = True"

definition task_ok :: "string set \<Rightarrow> string set \<Rightarrow> task \<Rightarrow> bool" where
  "task_ok W E t \<longleftrightarrow> used_state (t_state t) \<and> clean (t_id t) = t_id t \<and> lease_fields_ok t
     \<and> attempts_ok t \<and> approval_ok t \<and> evidence_ok E t
     \<and> (\<forall>w. t_assigned_worker_id t = Some w \<longrightarrow> w \<in> W)"

definition worker_ok :: "worker \<Rightarrow> bool" where
  "worker_ok w \<longleftrightarrow> 0 < w_heartbeat_sla w \<and> 0 \<le> w_capacity w"

definition worker_ids :: "db \<Rightarrow> string set" where
  "worker_ids d = w_id ` set (db_workers d)"

text \<open>The tasks with an evidence row, and those of \<open>X\<close>, whose evidence is kept outside the store.\<close>

definition evidenced :: "string set \<Rightarrow> db \<Rightarrow> string set" where
  "evidenced X d = X \<union> e_task_id ` set (db_evidence d)"

definition leases_unique :: "db \<Rightarrow> bool" where
  "leases_unique d \<longleftrightarrow> (\<forall>t \<in> set (db_tasks d). \<forall>u \<in> set (db_tasks d).
     t_lease_id t \<noteq> None \<longrightarrow> t_lease_id t = t_lease_id u \<longrightarrow> t_id t = t_id u)"

definition directives_unique :: "db \<Rightarrow> bool" where
  "directives_unique d \<longleftrightarrow> (\<forall>t \<in> set (db_tasks d). \<forall>u \<in> set (db_tasks d).
     t_directive_id t \<noteq> None \<longrightarrow> t_directive_id t = t_directive_id u \<longrightarrow> t_id t = t_id u)"

definition tasks_inv :: "string set \<Rightarrow> db \<Rightarrow> bool" where
  "tasks_inv X d \<longleftrightarrow> distinct (map t_id (db_tasks d)) \<and> leases_unique d \<and> directives_unique d
     \<and> (\<forall>t \<in> set (db_tasks d). task_ok (worker_ids d) (evidenced X d) t)"

definition workers_inv :: "db \<Rightarrow> bool" where
  "workers_inv d \<longleftrightarrow> distinct (map w_id (db_workers d)) \<and> (\<forall>w \<in> set (db_workers d). worker_ok w)"

definition evidence_inv :: "db \<Rightarrow> bool" where
  "evidence_inv d \<longleftrightarrow> (\<forall>e \<in> set (db_evidence d). is_sha256 (e_sha256 e))
     \<and> distinct (map (\<lambda>e. (e_task_id e, e_evidence_id e)) (db_evidence d))
     \<and> distinct (map (\<lambda>e. (e_task_id e, e_sha256 e)) (db_evidence d))"

definition audit_inv :: "db \<Rightarrow> bool" where
  "audit_inv d \<longleftrightarrow> map a_seq (db_audit d) = [1..<Suc (length (db_audit d))]"

definition db_inv_with :: "string set \<Rightarrow> db \<Rightarrow> bool" where
  "db_inv_with X d \<longleftrightarrow> tasks_inv X d \<and> workers_inv d \<and> evidence_inv d \<and> audit_inv d"

abbreviation db_inv :: "db \<Rightarrow> bool" where "db_inv \<equiv> db_inv_with {}"

lemmas row_defs = task_ok_def lease_fields_ok_def attempts_ok_def approval_ok_def evidence_ok_def
  bound_states_def

lemma db_invI [intro?]:
  "tasks_inv X d \<Longrightarrow> workers_inv d \<Longrightarrow> evidence_inv d \<Longrightarrow> audit_inv d \<Longrightarrow> db_inv_with X d"
  by (simp add: db_inv_with_def)

lemma db_invD: "db_inv_with X d \<Longrightarrow> tasks_inv X d" "db_inv_with X d \<Longrightarrow> workers_inv d"
    "db_inv_with X d \<Longrightarrow> evidence_inv d" "db_inv_with X d \<Longrightarrow> audit_inv d"
  by (simp_all add: db_inv_with_def)

lemma tasks_invD:
  assumes "tasks_inv X d" and "t \<in> set (db_tasks d)"
  shows "task_ok (worker_ids d) (evidenced X d) t"
  using assms by (simp add: tasks_inv_def)

lemma tasks_inv_find:
  assumes "tasks_inv X d" and "t \<in> set (db_tasks d)" and "t_id t = i"
  shows "find_task i d = Some t"
  using assms unfolding find_task_def tasks_inv_def by (blast intro: find_key_unique)

lemma task_ok_mono: "task_ok W E t \<Longrightarrow> W \<subseteq> W' \<Longrightarrow> E \<subseteq> E' \<Longrightarrow> task_ok W' E' t"
  by (auto simp: task_ok_def evidence_ok_def)

lemma tasks_inv_same_id:
  "tasks_inv X d \<Longrightarrow> t \<in> set (db_tasks d) \<Longrightarrow> u \<in> set (db_tasks d) \<Longrightarrow> t_id t = t_id u \<Longrightarrow> t = u"
  unfolding tasks_inv_def by (blast dest: distinct_key_eq)

lemma find_task_stable:
  assumes "tasks_inv X d" and "find_task tid d = Some t"
  shows "clean tid = tid"
proof -
  from find_task_D [OF assms(2)] have "t \<in> set (db_tasks d)" "t_id t = tid" by auto
  with tasks_invD [OF assms(1)] show ?thesis by (force simp: task_ok_def)
qed

subsection \<open>Preservation by the parts of an operation\<close>

lemma frame_sets [simp]:
  "worker_ids (audit t e n x d) = worker_ids d" "evidenced X (audit t e n x d) = evidenced X d"
  "worker_ids (update_tasks p f d) = worker_ids d" "evidenced X (update_tasks p f d) = evidenced X d"
  "worker_ids (insert_task u d) = worker_ids d" "evidenced X (insert_task u d) = evidenced X d"
  "evidenced X (update_workers q g d) = evidenced X d"
  by (simp_all add: worker_ids_def evidenced_def)

lemma rows_frame:
  assumes "db_tasks d' = db_tasks d"
  shows "leases_unique d' = leases_unique d" "directives_unique d' = directives_unique d"
  unfolding leases_unique_def directives_unique_def assms by (rule refl)+

lemma db_inv_audit [inv_intros]: "db_inv_with X d \<Longrightarrow> db_inv_with X (audit t e n x d)"
  by (auto simp: db_inv_with_def tasks_inv_def workers_inv_def evidence_inv_def audit_inv_def
      leases_unique_def directives_unique_def)

lemma db_inv_audit_iff [simp]: "tasks_inv X (audit t e n x d) = tasks_inv X d"
  by (simp add: tasks_inv_def leases_unique_def directives_unique_def)

text \<open>
  What an update of task rows must respect: it keeps the identity of a row, leaves a good row,
  and gives a row no lease identifier that another row holds.
\<close>

definition good_update :: "string set \<Rightarrow> db \<Rightarrow> (task \<Rightarrow> bool) \<Rightarrow> (task \<Rightarrow> task) \<Rightarrow> bool" where
  "good_update X d p f \<longleftrightarrow> (\<forall>t \<in> set (db_tasks d). p t \<longrightarrow>
      t_id (f t) = t_id t \<and> t_directive_id (f t) = t_directive_id t
      \<and> task_ok (worker_ids d) (evidenced X d) (f t)
      \<and> (t_lease_id (f t) = None \<or> t_lease_id (f t) = t_lease_id t
         \<or> (\<forall>u \<in> set (db_tasks d). t_id u \<noteq> t_id t \<longrightarrow> \<not> p u \<and> t_lease_id u \<noteq> t_lease_id (f t))))"

lemma good_update_memE:
  assumes "t' \<in> set (db_tasks (update_tasks p f d))" and "good_update X d p f"
  obtains t where "t \<in> set (db_tasks d)" and "t_id t' = t_id t"
    and "t_directive_id t' = t_directive_id t"
proof -
  from assms(1) obtain t where t: "t \<in> set (db_tasks d)" "t' = (if p t then f t else t)"
    by (auto elim: update_where_memE)
  have "t_id t' = t_id t \<and> t_directive_id t' = t_directive_id t"
    using t assms(2) by (simp add: good_update_def)
  with t(1) that show thesis by blast
qed

lemma leases_unique_update:
  assumes "leases_unique d" and "good_update X d p f"
  shows "leases_unique (update_tasks p f d)"
  unfolding leases_unique_def
proof (intro ballI impI)
  fix t' u'
  assume t': "t' \<in> set (db_tasks (update_tasks p f d))" and u': "u' \<in> set (db_tasks (update_tasks p f d))"
    and some: "t_lease_id t' \<noteq> None" and eq: "t_lease_id t' = t_lease_id u'"
  from t' obtain t where t: "t \<in> set (db_tasks d)" "t' = (if p t then f t else t)"
    by (auto elim: update_where_memE)
  from u' obtain u where u: "u \<in> set (db_tasks d)" "u' = (if p u then f u else u)"
    by (auto elim: update_where_memE)
  have ids: "t_id t' = t_id t" "t_id u' = t_id u"
    using assms(2) t u by (auto simp: good_update_def)
  have "t_id t = t_id u"
  proof (rule ccontr)
    assume ne: "t_id t \<noteq> t_id u"
    have old: "t_lease_id t' = t_lease_id t"
      using assms(2) t u ne some eq unfolding good_update_def by (metis (no_types, opaque_lifting))
    have old': "t_lease_id u' = t_lease_id u"
      using assms(2) t u ne some eq unfolding good_update_def by (metis (no_types, opaque_lifting))
    from assms(1) t u some eq old old' ne show False
      unfolding leases_unique_def by metis
  qed
  with ids show "t_id t' = t_id u'" by simp
qed

lemma tasks_inv_update:
  assumes inv: "tasks_inv X d" and good: "good_update X d p f"
  shows "tasks_inv X (update_tasks p f d)"
  unfolding tasks_inv_def
proof (intro conjI)
  have "map t_id (update_where p f (db_tasks d)) = map t_id (db_tasks d)"
    by (rule map_update_where_key) (use good in \<open>auto simp: good_update_def\<close>)
  with inv show "distinct (map t_id (db_tasks (update_tasks p f d)))"
    by (simp add: tasks_inv_def)
  show "leases_unique (update_tasks p f d)"
    using inv good by (simp add: tasks_inv_def leases_unique_update)
  show "directives_unique (update_tasks p f d)"
    unfolding directives_unique_def
  proof (intro ballI impI)
    fix t' u'
    assume mem: "t' \<in> set (db_tasks (update_tasks p f d))" "u' \<in> set (db_tasks (update_tasks p f d))"
      and dir: "t_directive_id t' \<noteq> None" "t_directive_id t' = t_directive_id u'"
    obtain t where t: "t \<in> set (db_tasks d)" "t_id t' = t_id t" "t_directive_id t' = t_directive_id t"
      using mem(1) good by (rule good_update_memE)
    obtain u where u: "u \<in> set (db_tasks d)" "t_id u' = t_id u" "t_directive_id u' = t_directive_id u"
      using mem(2) good by (rule good_update_memE)
    have "t_directive_id t \<noteq> None" "t_directive_id t = t_directive_id u"
      using dir t(3) u(3) by simp_all
    moreover have "directives_unique d" using inv by (simp add: tasks_inv_def)
    ultimately have "t_id t = t_id u"
      using t(1) u(1) unfolding directives_unique_def by blast
    with t(2) u(2) show "t_id t' = t_id u'" by simp
  qed
  show "\<forall>t \<in> set (db_tasks (update_tasks p f d)).
      task_ok (worker_ids (update_tasks p f d)) (evidenced X (update_tasks p f d)) t"
    unfolding update_tasks_frame frame_sets
  proof
    fix t' assume "t' \<in> set (update_where p f (db_tasks d))"
    then obtain t where t: "t \<in> set (db_tasks d)" "t' = (if p t then f t else t)"
      by (rule update_where_memE)
    show "task_ok (worker_ids d) (evidenced X d) t'"
    proof (cases "p t")
      case True
      with good t show ?thesis by (simp add: good_update_def)
    next
      case False
      with tasks_invD [OF inv t(1)] t(2) show ?thesis by simp
    qed
  qed
qed

lemma db_inv_update_tasks [inv_intros]:
  "db_inv_with X d \<Longrightarrow> good_update X d p f \<Longrightarrow> db_inv_with X (update_tasks p f d)"
  by (auto simp: db_inv_with_def tasks_inv_update workers_inv_def evidence_inv_def audit_inv_def)

end
