(* ===== verification/StoreReach.thy ===== *)
theory StoreReach
  imports StoreInv
begin

text \<open>
  Every operation of the store keeps the invariant of \<open>StoreInv\<close>; the step relation of the store
  (one rule per operation of \<open>AutonomyStore\<close>) and its reachable databases; the life cycle of a task
  and the refinement of it by every step.
\<close>

subsection \<open>Every operation keeps the invariant\<close>

lemma row_updates [simp]:
  "t_id (lease_task w l e h n t) = t_id t" "t_directive_id (lease_task w l e h n t) = t_directive_id t"
  "t_lease_id (lease_task w l e h n t) = Some l"
  "t_id (run_task n t) = t_id t" "t_directive_id (run_task n t) = t_directive_id t"
  "t_lease_id (run_task n t) = t_lease_id t"
  "t_id (drop_lease s a n t) = t_id t" "t_directive_id (drop_lease s a n t) = t_directive_id t"
  "t_lease_id (drop_lease s a n t) = None"
  "t_id (wait_capacity n t) = t_id t" "t_directive_id (wait_capacity n t) = t_directive_id t"
  "t_lease_id (wait_capacity n t) = t_lease_id t"
  by (simp_all add: lease_task_def run_task_def drop_lease_def wait_capacity_def)

lemma good_update_rows:
  assumes "\<And>t. t \<in> set (db_tasks d) \<Longrightarrow> p t \<Longrightarrow> task_ok (worker_ids d) (evidenced X d) (f t)"
    and "\<And>t. t \<in> set (db_tasks d) \<Longrightarrow> p t \<Longrightarrow> t_id (f t) = t_id t \<and> t_directive_id (f t) = t_directive_id t
      \<and> (t_lease_id (f t) = None \<or> t_lease_id (f t) = t_lease_id t)"
  shows "good_update X d p f"
  using assms unfolding good_update_def by blast

lemma task_ok_lease_task:
  assumes "task_ok W E t" and "schedulable t" and "w \<in> W"
  shows "task_ok W E (lease_task w l e h n t)"
  using assms by (auto simp: row_defs lease_task_def schedulable_def LEASEABLE_def)

lemma task_ok_run_task:
  assumes "task_ok W E t" and "startable n i w l t"
  shows "task_ok W E (run_task n t)"
  using assms by (auto simp: row_defs run_task_def startable_def owns_lease_def)

lemma task_ok_drop_lease:
  assumes "task_ok W E t" and "holds_lease t"
  shows "task_ok W E (drop_lease (next_attempt_state t) (t_attempt_count t + 1) n t)"
proof -
  have "t_attempt_count t \<le> t_retry_budget t \<and> 0 \<le> t_attempt_count t"
    using assms by (auto simp: task_ok_def attempts_ok_def holds_lease_def)
  moreover have "t_governance_allowed t \<and> \<not> t_requires_human_approval t"
    using assms by (auto simp: task_ok_def approval_ok_def holds_lease_def)
  moreover have "clean (t_id t) = t_id t" using assms(1) by (simp add: task_ok_def)
  ultimately show ?thesis
    by (simp add: row_defs drop_lease_def next_attempt_state_def)
qed

lemma task_ok_wait_capacity:
  assumes "task_ok W E t" and "t_state t \<notin> TERMINAL" and "t_state t \<noteq> WAITING_HUMAN"
    and "t_governance_allowed t"
  shows "task_ok W E (wait_capacity n t)"
  using assms by (auto simp: row_defs wait_capacity_def TERMINAL_def)

lemma task_ok_annotate:
  "task_ok W E (t\<lparr>t_error_code := c\<rparr>) = task_ok W E t"
  "task_ok W E (t\<lparr>t_terminal_reason := r\<rparr>) = task_ok W E t"
  by (simp_all add: row_defs)

lemma claim_inv [inv_intros]:
  assumes inv: "db_inv_with X d"
  shows "db_inv_with X (snd (claim now tid wid secs lid d))"
proof -
  obtain r d' where run: "claim now tid wid secs lid d = (r, d')" by fastforce
  show ?thesis
  proof (cases "d' = d")
    case True
    with run inv show ?thesis by simp
  next
    case False
    with claim_D [OF run] obtain n s t w where
      t: "find_task tid d = Some t" and w: "find_worker wid d = Some w" and s: "schedulable t"
      and col: "\<not> (\<exists>u \<in> set (db_tasks d). t_id u \<noteq> tid \<and> t_lease_id u = Some lid)"
      and d': "d' = audit tid ''LEASED'' n wid (update_tasks (\<lambda>u. t_id u = tid \<and> t_state u \<in> LEASEABLE)
        (lease_task wid lid (n + s) (w_last_heartbeat w) n) d)"
      unfolding schedulable_def by blast
    from w have wid: "wid \<in> worker_ids d" by (auto simp: worker_ids_def dest: find_worker_D)
    have "good_update X d (\<lambda>u. t_id u = tid \<and> t_state u \<in> LEASEABLE)
        (lease_task wid lid (n + s) (w_last_heartbeat w) n)"
      unfolding good_update_def
    proof (intro ballI impI)
      fix u assume u: "u \<in> set (db_tasks d)" "t_id u = tid \<and> t_state u \<in> LEASEABLE"
      have "u = t" using tasks_inv_same_id [OF db_invD(1) [OF inv] u(1)] t u(2) find_task_D by metis
      with u(1) s wid tasks_invD [OF db_invD(1) [OF inv]]
      have "task_ok (worker_ids d) (evidenced X d) (lease_task wid lid (n + s) (w_last_heartbeat w) n u)"
        by (simp add: task_ok_lease_task)
      moreover have "\<forall>v \<in> set (db_tasks d). t_id v \<noteq> t_id u \<longrightarrow>
          \<not> (t_id v = tid \<and> t_state v \<in> LEASEABLE) \<and> t_lease_id v \<noteq> Some lid"
        using col u(2) by auto
      ultimately show "t_id (lease_task wid lid (n + s) (w_last_heartbeat w) n u) = t_id u \<and>
        t_directive_id (lease_task wid lid (n + s) (w_last_heartbeat w) n u) = t_directive_id u \<and>
        task_ok (worker_ids d) (evidenced X d) (lease_task wid lid (n + s) (w_last_heartbeat w) n u) \<and>
        (t_lease_id (lease_task wid lid (n + s) (w_last_heartbeat w) n u) = None \<or>
         t_lease_id (lease_task wid lid (n + s) (w_last_heartbeat w) n u) = t_lease_id u \<or>
         (\<forall>v \<in> set (db_tasks d). t_id v \<noteq> t_id u \<longrightarrow>
          \<not> (t_id v = tid \<and> t_state v \<in> LEASEABLE) \<and>
          t_lease_id v \<noteq> t_lease_id (lease_task wid lid (n + s) (w_last_heartbeat w) n u)))"
        unfolding row_updates by blast
    qed
    with run d' inv show ?thesis by (simp add: db_inv_audit db_inv_update_tasks)
  qed
qed

text \<open>
  The other operations never give a row a new lease identifier, so a good row is all they owe.
\<close>

lemma rows_inv:
  assumes inv: "db_inv_with X d"
    and ok: "\<And>t. t \<in> set (db_tasks d) \<Longrightarrow> p t \<Longrightarrow> task_ok (worker_ids d) (evidenced X d) t
      \<Longrightarrow> task_ok (worker_ids d) (evidenced X d) (f t)"
    and same: "\<And>t. t_id (f t) = t_id t \<and> t_directive_id (f t) = t_directive_id t
      \<and> (t_lease_id (f t) = None \<or> t_lease_id (f t) = t_lease_id t)"
  shows "db_inv_with X (update_tasks p f d)"
  using inv
proof (rule db_inv_update_tasks)
  show "good_update X d p f"
    by (rule good_update_rows) (use ok tasks_invD [OF db_invD(1) [OF inv]] same in blast)+
qed

lemma renew_inv [inv_intros]:
  assumes "db_inv_with X d"
  shows "db_inv_with X (snd (renew now tid wid lid s d))"
proof -
  obtain r d' where run: "renew now tid wid lid s d = (r, d')" by fastforce
  from renew_D [OF run] show ?thesis
    unfolding run snd_conv
    by (elim disjE exE conjE; hypsubst)
       (auto intro!: db_inv_audit rows_inv [OF assms] simp: assms row_defs)
qed

lemma start_inv [inv_intros]:
  assumes "db_inv_with X d"
  shows "db_inv_with X (snd (start now tid wid lid d))"
proof -
  obtain r d' where run: "start now tid wid lid d = (r, d')" by fastforce
  from start_D [OF run] show ?thesis
    unfolding run snd_conv
    by (elim disjE exE conjE; hypsubst)
       (auto intro!: db_inv_audit rows_inv [OF assms] intro: task_ok_run_task simp: assms)
qed

lemma start_with_ack_inv [inv_intros]:
  assumes "db_inv_with X d"
  shows "db_inv_with X (snd (start_with_ack now tid wid lid det d))"
proof -
  obtain r d' where run: "start_with_ack now tid wid lid det d = (r, d')" by fastforce
  from start_with_ack_D [OF run] show ?thesis
    unfolding run snd_conv
    by (elim disjE exE conjE; hypsubst)
       (auto intro!: db_inv_audit rows_inv [OF assms] intro: task_ok_run_task simp: assms)
qed

lemma same_row:
  assumes "db_inv_with X d" and "find_task (clean i) d = Some t" and "u \<in> set (db_tasks d)" and "t_id u = i"
  shows "u = t"
proof -
  have "clean i = i" using tasks_invD [OF db_invD(1) [OF assms(1)] assms(3)] assms(4)
    by (simp add: task_ok_def)
  with assms find_task_D [OF assms(2)] tasks_inv_same_id [OF db_invD(1) [OF assms(1)]]
  show ?thesis by simp
qed

lemma same_row':
  assumes "db_inv_with X d" and "find_task i d = Some t" and "u \<in> set (db_tasks d)" and "t_id u = i"
  shows "u = t"
proof (rule same_row [OF assms(1) _ assms(3,4)])
  show "find_task (clean i) d = Some t"
    using assms(2) find_task_stable [OF db_invD(1) [OF assms(1)] assms(2)] by simp
qed

text \<open>An update keyed by one identifier owes a good row only for the row that was looked up.\<close>

lemma row_inv:
  assumes inv: "db_inv_with X d" and found: "find_task (clean i) d = Some t \<or> find_task i d = Some t"
    and key: "\<And>u. p u \<Longrightarrow> t_id u = i"
    and ok: "task_ok (worker_ids d) (evidenced X d) t \<Longrightarrow> task_ok (worker_ids d) (evidenced X d) (f t)"
    and same: "\<And>u. t_id (f u) = t_id u \<and> t_directive_id (f u) = t_directive_id u
      \<and> (t_lease_id (f u) = None \<or> t_lease_id (f u) = t_lease_id u)"
  shows "db_inv_with X (update_tasks p f d)"
  using inv _ same
proof (rule rows_inv)
  fix u assume u: "u \<in> set (db_tasks d)" "p u" "task_ok (worker_ids d) (evidenced X d) u"
  have "u = t" using found same_row [OF inv _ u(1) key [OF u(2)]] same_row' [OF inv _ u(1) key [OF u(2)]]
    by blast
  with u ok show "task_ok (worker_ids d) (evidenced X d) (f u)" by blast
qed

lemma reclaim_expired_inv [inv_intros]:
  assumes "db_inv_with X d"
  shows "db_inv_with X (snd (reclaim_expired now tid d))"
proof -
  obtain r d' where run: "reclaim_expired now tid d = (r, d')" by fastforce
  from reclaim_expired_D [OF run] show ?thesis
    unfolding run snd_conv
  proof (elim disjE exE conjE)
    fix n t ex
    assume t: "find_task tid d = Some t" "holds_lease t"
      and d': "d' = audit tid ''LEASE_EXPIRED'' n (state_value (next_attempt_state t))
        (update_tasks (\<lambda>u. t_id u = tid \<and> holds_lease u \<and> sql_le (t_lease_expires_at u) n)
           (drop_lease (next_attempt_state t) (t_attempt_count t + 1) n) d)"
    show "db_inv_with X d'" unfolding d'
      by (intro db_inv_audit row_inv [OF assms disjI2 [OF t(1)]]) (simp_all add: task_ok_drop_lease t)
  qed (simp add: assms)
qed

lemma fail_attempt_inv [inv_intros]:
  assumes "db_inv_with X d"
  shows "db_inv_with X (snd (fail_attempt now tid wid lid reason code d))"
proof -
  obtain r d' where run: "fail_attempt now tid wid lid reason code d = (r, d')" by fastforce
  from fail_attempt_D [OF run] show ?thesis
    unfolding run snd_conv
  proof (elim disjE exE conjE)
    fix n t
    assume t: "find_task (clean tid) d = Some t" "holds_lease t"
      and d': "d' = audit tid ''ATTEMPT_FAILED'' n (state_value (next_attempt_state t))
        (update_tasks (\<lambda>u. t_id u = tid)
          (\<lambda>u. (drop_lease (next_attempt_state t) (t_attempt_count t + 1) n u)
             \<lparr>t_terminal_reason := Some (clean reason), t_error_code := Some (clean code)\<rparr>) d)"
    show "db_inv_with X d'" unfolding d'
      by (intro db_inv_audit row_inv [OF assms disjI1 [OF t(1)]])
         (simp_all add: task_ok_drop_lease task_ok_annotate t)
  qed (simp add: assms)
qed

lemma complete_after_review_inv [inv_intros]:
  assumes "db_inv_with X d"
  shows "db_inv_with X (snd (complete_after_review now tid ev d))"
proof -
  obtain r d' where run: "complete_after_review now tid ev d = (r, d')" by fastforce
  from complete_after_review_D [OF run] show ?thesis
    unfolding run snd_conv
  proof (elim disjE exE conjE)
    fix n t
    assume t: "find_task (clean tid) d = Some t" "t_state t = REVIEW_PENDING"
      and d': "d' = audit tid ''COMPLETED_AFTER_REVIEW'' n [] (update_tasks (\<lambda>u. t_id u = tid)
        (\<lambda>u. u\<lparr>t_state := COMPLETED, t_evidence_status := ''VALID'', t_assigned_worker_id := None,
               t_lease_id := None, t_lease_expires_at := None, t_updated_at := n\<rparr>) d)"
    show "db_inv_with X d'" unfolding d'
      by (intro db_inv_audit row_inv [OF assms disjI1 [OF t(1)]]) (simp_all add: row_defs t)
  qed (simp add: assms)
qed

lemma route_or_wait_inv [inv_intros]:
  assumes "db_inv_with X d"
  shows "db_inv_with X (snd (route_or_wait now tid d))"
proof -
  obtain r d' where run: "route_or_wait now tid d = (r, d')" by fastforce
  from route_or_wait_D [OF run] show ?thesis
    unfolding run snd_conv
  proof (elim disjE exE conjE)
    fix n t
    assume t: "find_task (clean tid) d = Some t" "t_state t \<notin> TERMINAL" "t_state t \<noteq> WAITING_HUMAN"
        "t_governance_allowed t"
      and d': "d' = audit tid ''WAITING_CAPACITY'' n [] (update_tasks (\<lambda>u. t_id u = tid) (wait_capacity n) d)"
    show "db_inv_with X d'" unfolding d'
      by (intro db_inv_audit row_inv [OF assms disjI1 [OF t(1)]]) (simp_all add: task_ok_wait_capacity t)
  qed (simp add: assms)
qed

lemma task_ok_schedulable_wait:
  "task_ok W E t \<Longrightarrow> schedulable t \<Longrightarrow> task_ok W E (wait_capacity n t)"
  by (rule task_ok_wait_capacity) (auto simp: schedulable_def LEASEABLE_def TERMINAL_def)

lemma mark_waiting_capacity_inv [inv_intros]:
  assumes "db_inv_with X d"
  shows "db_inv_with X (snd (mark_waiting_capacity now tid d))"
proof -
  obtain r d' where run: "mark_waiting_capacity now tid d = (r, d')" by fastforce
  from mark_waiting_capacity_D [OF run] show ?thesis
    unfolding run snd_conv
    by (elim disjE exE conjE; hypsubst)
       (auto intro!: db_inv_audit rows_inv [OF assms] intro: task_ok_schedulable_wait simp: assms)
qed

text \<open>An evidence row is added only for a new pair of task and evidence id, and of task and digest.\<close>

lemma is_hex_lower: "is_hex c \<Longrightarrow> is_hex (lower_char c)"
  by (auto simp: is_hex_def lower_char_def is_upper_def is_digit_def)

lemma is_sha256_lower: "is_sha256 s \<Longrightarrow> is_sha256 (lower s)"
  by (auto simp: is_sha256_def lower_def list_all_iff is_hex_lower)

lemma evidence_append_inv:
  assumes inv: "db_inv_with X d" and ok: "evidence_insert_ok e d" and sha: "is_sha256 (e_sha256 e)"
  shows "db_inv_with X (d\<lparr>db_evidence := db_evidence d @ [e]\<rparr>)"
proof
  let ?d = "d\<lparr>db_evidence := db_evidence d @ [e]\<rparr>"
  have rows: "db_tasks ?d = db_tasks d" by simp
  have "task_ok (worker_ids ?d) (evidenced X ?d) t" if "t \<in> set (db_tasks d)" for t
    by (rule task_ok_mono [OF tasks_invD [OF db_invD(1) [OF inv] that]])
       (auto simp: worker_ids_def evidenced_def)
  with db_invD(1) [OF inv] show "tasks_inv X ?d"
    by (simp add: tasks_inv_def rows_frame [OF rows])
  show "workers_inv ?d" "audit_inv ?d"
    using db_invD(2,4) [OF inv] by (simp_all add: workers_inv_def audit_inv_def)
  show "evidence_inv ?d"
    using db_invD(3) [OF inv] ok sha by (auto simp: evidence_inv_def evidence_insert_ok_def)
qed

lemma submit_result_inv [inv_intros]:
  assumes inv: "db_inv_with X d"
  shows "db_inv_with X (snd (submit_result now tid wid lid eid sha d))"
proof -
  obtain r d' where run: "submit_result now tid wid lid eid sha d = (r, d')" by fastforce
  from submit_result_D [OF run] consider (same) "d' = d"
    | (pending) t where "find_task tid d = Some t" "result_reportable t"
        "t_assigned_worker_id t = Some wid" "t_lease_id t = Some lid" "t_lease_expires_at t \<noteq> None"
        "d' = update_tasks (\<lambda>u. t_id u = tid)
             (\<lambda>u. u\<lparr>t_state := EVIDENCE_PENDING, t_evidence_status := ''MISSING_OR_INVALID''\<rparr>) d"
    | (received) n t where "find_task tid d = Some t" "result_reportable t"
        "t_assigned_worker_id t = Some wid" "t_lease_id t = Some lid" "t_lease_expires_at t \<noteq> None"
        "is_sha256 sha" "evidence_insert_ok (evidence_row tid eid sha n) d"
        "d' = audit tid ''RESULT_RECEIVED'' n eid (update_tasks (\<lambda>u. t_id u = tid)
             (\<lambda>u. u\<lparr>t_state := REVIEW_PENDING, t_evidence_status := ''RECEIVED'', t_updated_at := n\<rparr>)
             (d\<lparr>db_evidence := db_evidence d @ [evidence_row tid eid sha n]\<rparr>))"
    by (elim disjE exE conjE) simp_all
  then have "db_inv_with X d'"
  proof cases
    case same
    with inv show ?thesis by simp
  next
    case pending
    show ?thesis unfolding pending(6)
      by (intro row_inv [OF inv disjI2 [OF pending(1)]])
         (use pending(2-5) in \<open>auto simp: row_defs result_reportable_def holds_lease_def\<close>)
  next
    case received
    let ?d = "d\<lparr>db_evidence := db_evidence d @ [evidence_row tid eid sha n]\<rparr>"
    have inv': "db_inv_with X ?d"
      by (rule evidence_append_inv [OF inv received(7)]) (simp add: evidence_row_def received(6) is_sha256_lower)
    have ev: "tid \<in> evidenced X ?d" by (simp add: evidenced_def evidence_row_def)
    have t: "find_task tid ?d = Some t" using received(1) by (simp add: find_task_def)
    then have "t_id t = tid" by (rule find_task_D [THEN conjunct2])
    with ev show ?thesis unfolding received(8)
      by (intro db_inv_audit row_inv [OF inv' disjI2 [OF t]])
         (use received(2-5) in \<open>auto simp: row_defs result_reportable_def holds_lease_def\<close>)
  qed
  with run show ?thesis by simp
qed

end
