(* ===== verification/StoreSteps.thy ===== *)
theory StoreSteps
  imports StoreReach
begin

text \<open>
  The step relation of the store (one rule per operation of \<open>AutonomyStore\<close>), its reachable
  databases, and the invariant on them.
\<close>

subsection \<open>Creation, workers and reconciliation keep the invariant\<close>

lemma task_ok_new_task:
  assumes "clean i = i" and "0 \<le> b"
  shows "task_ok W E (new_task i did target cap prio human gov b n)"
  using assms by (simp add: row_defs new_task_def)

lemma insert_task_inv:
  assumes inv: "db_inv_with X d" and ok: "task_insert_ok t d" and row: "task_ok (worker_ids d) (evidenced X d) t"
    and free: "t_lease_id t = None"
  shows "db_inv_with X (insert_task t d)"
proof
  have new: "t_id u \<noteq> t_id t" "t_directive_id t \<noteq> None \<Longrightarrow> t_directive_id u \<noteq> t_directive_id t"
    if "u \<in> set (db_tasks d)" for u
    using ok that by (auto simp: task_insert_ok_def)
  from db_invD(1) [OF inv] have old: "distinct (map t_id (db_tasks d))" "leases_unique d"
      "directives_unique d" "\<forall>u \<in> set (db_tasks d). task_ok (worker_ids d) (evidenced X d) u"
    by (simp_all add: tasks_inv_def)
  have "leases_unique (insert_task t d)"
    unfolding leases_unique_def
  proof (intro ballI impI)
    fix a b assume ab: "a \<in> set (db_tasks (insert_task t d))" "b \<in> set (db_tasks (insert_task t d))"
      and l: "t_lease_id a \<noteq> None" "t_lease_id a = t_lease_id b"
    then have "a \<in> set (db_tasks d)" "b \<in> set (db_tasks d)"
      using free by (force simp: insert_task_frame)+
    with l old(2) show "t_id a = t_id b" unfolding leases_unique_def by blast
  qed
  moreover have "directives_unique (insert_task t d)"
    unfolding directives_unique_def
  proof (intro ballI impI)
    fix a b assume ab: "a \<in> set (db_tasks (insert_task t d))" "b \<in> set (db_tasks (insert_task t d))"
      and l: "t_directive_id a \<noteq> None" "t_directive_id a = t_directive_id b"
    show "t_id a = t_id b"
    proof (cases "a = t \<or> b = t")
      case True
      with ab l new(2) have "a = b" by (metis UnE empty_iff insert_iff insert_task_frame(1) list.set set_append)
      then show ?thesis by simp
    next
      case False
      with ab have "a \<in> set (db_tasks d)" "b \<in> set (db_tasks d)" by simp_all
      with l old(3) show ?thesis unfolding directives_unique_def by blast
    qed
  qed
  moreover have "distinct (map t_id (db_tasks (insert_task t d)))"
    using old(1) new(1) by (simp add: image_iff) metis
  ultimately show "tasks_inv X (insert_task t d)"
    using old(4) row by (simp add: tasks_inv_def)
  show "workers_inv (insert_task t d)" "evidence_inv (insert_task t d)" "audit_inv (insert_task t d)"
    using db_invD(2-4) [OF inv] by (simp_all add: workers_inv_def evidence_inv_def audit_inv_def)
qed

lemma create_task_inv [inv_intros]:
  assumes inv: "db_inv_with X d" and stable: "clean (clean tid) = clean tid"
  shows "db_inv_with X (snd (create_task now tid did target cap prio human gov budget d))"
proof -
  obtain r d' where run: "create_task now tid did target cap prio human gov budget d = (r, d')" by fastforce
  from create_task_D [OF run] show ?thesis
    unfolding run snd_conv Let_def
  proof (elim disjE exE conjE)
    fix n b
    let ?t = "new_task (clean tid) (clean_or_none did) (clean target) (clean cap) prio human gov b n"
    assume "0 \<le> b" and ok: "task_insert_ok ?t d"
      and d': "d' = audit tid ''CREATED'' n (state_value (t_state ?t)) (insert_task ?t d)"
    show "db_inv_with X d'" unfolding d'
      by (intro db_inv_audit insert_task_inv [OF inv ok] task_ok_new_task stable \<open>0 \<le> b\<close>)
         (simp add: new_task_def)
  qed (simp add: inv)
qed

text \<open>Worker rows are only added or changed in place; their identifiers stay.\<close>

lemma workers_update_inv:
  assumes inv: "db_inv_with X d" and same: "\<And>w. w_id (f w) = w_id w"
    and ok: "\<And>w. worker_ok w \<Longrightarrow> worker_ok (f w)"
  shows "db_inv_with X (update_workers p f d)"
proof
  have ids: "map w_id (update_where p f (db_workers d)) = map w_id (db_workers d)"
    by (rule map_update_where_key) (simp add: same)
  have "worker_ids (update_workers p f d) = worker_ids d"
    unfolding worker_ids_def update_workers_frame by (metis ids list.set_map)
  moreover have rows: "db_tasks (update_workers p f d) = db_tasks d" by simp
  ultimately show "tasks_inv X (update_workers p f d)"
    using db_invD(1) [OF inv] by (simp add: tasks_inv_def rows_frame [OF rows])
  show "workers_inv (update_workers p f d)"
    using db_invD(2) [OF inv] ok by (auto simp: workers_inv_def ids set_update_where)
  show "evidence_inv (update_workers p f d)" "audit_inv (update_workers p f d)"
    using db_invD(3,4) [OF inv] by (simp_all add: evidence_inv_def audit_inv_def)
qed

lemma workers_append_inv:
  assumes inv: "db_inv_with X d" and new: "find_worker (w_id w) d = None" and ok: "worker_ok w"
  shows "db_inv_with X (d\<lparr>db_workers := db_workers d @ [w]\<rparr>)"
proof
  let ?d = "d\<lparr>db_workers := db_workers d @ [w]\<rparr>"
  have rows: "db_tasks ?d = db_tasks d" by simp
  have "task_ok (worker_ids ?d) (evidenced X ?d) t" if "t \<in> set (db_tasks d)" for t
    by (rule task_ok_mono [OF tasks_invD [OF db_invD(1) [OF inv] that]])
       (auto simp: worker_ids_def evidenced_def)
  with db_invD(1) [OF inv] show "tasks_inv X ?d" by (simp add: tasks_inv_def rows_frame [OF rows])
  from new have "w_id w \<notin> set (map w_id (db_workers d))"
    by (auto simp: find_worker_def find_None_iff)
  with db_invD(2) [OF inv] ok show "workers_inv ?d" by (auto simp: workers_inv_def)
  show "evidence_inv ?d" "audit_inv ?d"
    using db_invD(3,4) [OF inv] by (simp_all add: evidence_inv_def audit_inv_def)
qed

lemma register_worker_inv [inv_intros]:
  assumes inv: "db_inv_with X d"
  shows "db_inv_with X (snd (register_worker now wid kind caps targets sla capacity d))"
proof -
  obtain r d' where run: "register_worker now wid kind caps targets sla capacity d = (r, d')" by fastforce
  from register_worker_D [OF run] show ?thesis
    unfolding run snd_conv
    by (elim disjE exE conjE; hypsubst)
       (auto intro!: workers_append_inv [OF inv] workers_update_inv [OF inv] simp: inv worker_ok_def)
qed

lemma heartbeat_inv [inv_intros]: "db_inv_with X d \<Longrightarrow> db_inv_with X (snd (heartbeat now wid obs d))"
  using heartbeat_D [of now wid obs d "fst (heartbeat now wid obs d)" "snd (heartbeat now wid obs d)"]
  by (auto intro!: workers_update_inv simp: worker_ok_def)

lemma heartbeat_with_capacity_inv [inv_intros]:
  assumes inv: "db_inv_with X d"
  shows "db_inv_with X (snd (heartbeat_with_capacity now wid c obs d))"
proof -
  obtain r d' where run: "heartbeat_with_capacity now wid c obs d = (r, d')" by fastforce
  from heartbeat_with_capacity_D [OF run] show ?thesis
    unfolding run snd_conv
    by (elim disjE exE conjE; hypsubst)
       (auto intro!: workers_update_inv [OF inv] simp: inv worker_ok_def)
qed

text \<open>
  The rows to reconcile are distinct running tasks; sending one back leaves the others running.
\<close>

lemma reconcile_row_inv:
  assumes "db_inv_with X d" and "find_task (clean r) d = Some t" and "holds_lease t"
  shows "db_inv_with X (reconcile_row n r t d)"
  unfolding reconcile_row_def
  by (intro db_inv_audit row_inv [OF assms(1) disjI1 [OF assms(2)]])
     (simp_all add: task_ok_drop_lease task_ok_annotate assms)

lemma find_task_reconcile_row:
  "i \<noteq> r \<Longrightarrow> find_task i (reconcile_row n r t d) = find_task i d"
  by (cases "find_task i d") (auto simp: reconcile_row_def find_task_update_tasks dest: find_task_D)

definition running :: "db \<Rightarrow> string \<Rightarrow> bool" where
  "running d r \<longleftrightarrow> (\<exists>t. find_task r d = Some t \<and> t_state t = RUNNING)"

lemma reconcile_rows_inv:
  assumes "db_inv_with X d" and "distinct rs" and "\<forall>r \<in> set rs. running d r"
  shows "db_inv_with X (snd (reconcile_rows n rs d))"
  using assms
proof (induction rs arbitrary: d)
  case Nil
  then show ?case by simp
next
  case (Cons r rs)
  from Cons.prems(3) obtain t where t: "find_task r d = Some t" "t_state t = RUNNING"
    by (auto simp: running_def)
  have stable: "clean r = r" by (rule find_task_stable [OF db_invD(1) [OF Cons.prems(1)] t(1)])
  have got: "get_task r d = Inr t" by (simp add: get_task_def stable t)
  have "db_inv_with X (reconcile_row n r t d)"
    by (rule reconcile_row_inv) (simp_all add: Cons.prems(1) stable t holds_lease_def)
  moreover have "\<forall>q \<in> set rs. running (reconcile_row n r t d) q"
    using Cons.prems(2,3) unfolding running_def by (metis distinct.simps(2) find_task_reconcile_row list.set_intros(2))
  ultimately have "db_inv_with X (snd (reconcile_rows n rs (reconcile_row n r t d)))"
    using Cons.IH Cons.prems(2) by simp
  then show ?case
    using Cons.prems(1) by (auto simp: got split: sum.splits prod.splits)
qed

lemma stale_rows_running:
  assumes "db_inv_with X d" and "r \<in> set (sort (map t_id (filter (stale_owned n d) (db_tasks d))))"
  shows "running d r"
  using assms tasks_inv_find [OF db_invD(1) [OF assms(1)]] by (auto simp: running_def stale_owned_def)

lemma reconcile_stale_workers_inv [inv_intros]:
  assumes inv: "db_inv_with X d"
  shows "db_inv_with X (snd (reconcile_stale_workers now d))"
proof -
  have "distinct (map t_id (filter (stale_owned n d) (db_tasks d)))" for n
    using db_invD(1) [OF inv] by (simp add: tasks_inv_def distinct_map_filter)
  then have "db_inv_with X (snd (reconcile_rows n (sort (map t_id (filter (stale_owned n d) (db_tasks d)))) d))" for n
    using inv stale_rows_running [OF inv] by (intro reconcile_rows_inv) auto
  then show ?thesis using inv by (simp add: reconcile_stale_workers_def split: sum.split)
qed

subsection \<open>The step relation\<close>

text \<open>
  One rule per operation, failed calls included (they end in the database the code leaves),
  one for an audit line the gateway or the router writes directly, and one for another connection
  that takes or frees the write lock. Identifiers handed to
  \<open>create_task\<close> are stable under \<open>clean\<close>; the callers validate them with the identifier pattern,
  for which \<open>clean_identifier\<close> gives stability.
\<close>

inductive store_step :: "db \<Rightarrow> db \<Rightarrow> bool" where
  step_create: "clean (clean tid) = clean tid \<Longrightarrow>
    store_step d (snd (create_task now tid did target cap prio human gov budget d))"
| step_register: "store_step d (snd (register_worker now wid kind caps targets sla capacity d))"
| step_heartbeat: "store_step d (snd (heartbeat now wid obs d))"
| step_heartbeat_capacity: "store_step d (snd (heartbeat_with_capacity now wid c obs d))"
| step_claim: "store_step d (snd (claim now tid wid secs lid d))"
| step_renew: "store_step d (snd (renew now tid wid lid s d))"
| step_start: "store_step d (snd (start now tid wid lid d))"
| step_start_ack: "store_step d (snd (start_with_ack now tid wid lid det d))"
| step_reclaim: "store_step d (snd (reclaim_expired now tid d))"
| step_reconcile: "store_step d (snd (reconcile_stale_workers now d))"
| step_fail: "store_step d (snd (fail_attempt now tid wid lid reason code d))"
| step_submit: "store_step d (snd (submit_result now tid wid lid eid sha d))"
| step_complete: "store_step d (snd (complete_after_review now tid ev d))"
| step_route: "store_step d (snd (route_or_wait now tid d))"
| step_mark: "store_step d (snd (mark_waiting_capacity now tid d))"
| step_audit: "store_step d (audit tid e n x d)"
| step_lock: "store_step d (d\<lparr>db_locked := b\<rparr>)"

inductive store_reachable :: "db \<Rightarrow> bool" where
  reach_init: "store_reachable init_db"
| reach_step: "store_reachable d \<Longrightarrow> store_step d d' \<Longrightarrow> store_reachable d'"

lemma lock_inv [inv_intros]: "db_inv_with X d \<Longrightarrow> db_inv_with X (d\<lparr>db_locked := b\<rparr>)"
  by (simp add: db_inv_with_def tasks_inv_def workers_inv_def evidence_inv_def audit_inv_def
      rows_frame [of "d\<lparr>db_locked := b\<rparr>" d] worker_ids_def evidenced_def)

lemma store_step_inv: "store_step d d' \<Longrightarrow> db_inv_with X d \<Longrightarrow> db_inv_with X d'"
  by (induction rule: store_step.induct) (rule inv_intros, assumption+)+

lemma init_db_inv: "db_inv_with X init_db"
  by (simp add: init_db_def db_inv_with_def tasks_inv_def workers_inv_def evidence_inv_def audit_inv_def
      leases_unique_def directives_unique_def)

lemma reachable_inv: "store_reachable d \<Longrightarrow> db_inv_with X d"
  by (induction rule: store_reachable.induct) (auto intro: init_db_inv store_step_inv)

end
