(* ===== verification/StoreProps.thy ===== *)
theory StoreProps
  imports StoreSteps
begin

text \<open>
  The properties of the task store: the life cycle every step refines, append-only audit,
  exclusive and bounded leases, ownership, evidence before completion, and the scheduling order.
\<close>

subsection \<open>The life cycle of a task\<close>

fun next_states :: "TaskState \<Rightarrow> TaskState list" where
  "next_states QUEUED = [LEASED, WAITING_CAPACITY]"
| "next_states WAITING_CAPACITY = [LEASED]"
| "next_states RETRYING = [LEASED, WAITING_CAPACITY]"
| "next_states LEASED = [RUNNING, EVIDENCE_PENDING, REVIEW_PENDING, RETRYING, DEAD_LETTER, WAITING_CAPACITY]"
| "next_states RUNNING = [EVIDENCE_PENDING, REVIEW_PENDING, RETRYING, DEAD_LETTER, WAITING_CAPACITY]"
| "next_states EVIDENCE_PENDING = [REVIEW_PENDING, WAITING_CAPACITY]"
| "next_states REVIEW_PENDING = [COMPLETED, WAITING_CAPACITY]"
| "next_states _ = []"

definition same_order :: "task \<Rightarrow> task \<Rightarrow> bool" where
  "same_order t t' \<longleftrightarrow> t_id t' = t_id t \<and> t_directive_id t' = t_directive_id t
     \<and> t_target_project t' = t_target_project t \<and> t_capability t' = t_capability t
     \<and> t_priority t' = t_priority t \<and> t_created_at t' = t_created_at t
     \<and> t_requires_human_approval t' = t_requires_human_approval t
     \<and> t_governance_allowed t' = t_governance_allowed t \<and> t_retry_budget t' = t_retry_budget t"

text \<open>
  How one step may change one row: the order itself stays, the state stays or moves along the
  life cycle, the attempts are counted exactly when a lease is lost, and a terminal row is frozen.
\<close>

definition task_evolves :: "task \<Rightarrow> task \<Rightarrow> bool" where
  "task_evolves t t' \<longleftrightarrow> same_order t t'
     \<and> (t_state t' = t_state t \<or> t_state t' \<in> set (next_states (t_state t)))
     \<and> t_attempt_count t' = t_attempt_count t + (if t_state t' \<noteq> t_state t
          \<and> t_state t' \<in> {RETRYING, DEAD_LETTER} then 1 else 0)
     \<and> (t_state t \<in> TERMINAL \<longrightarrow> t' = t)"

definition db_evolves :: "db \<Rightarrow> db \<Rightarrow> bool" where
  "db_evolves d d' \<longleftrightarrow> (\<forall>i t. find_task i d = Some t \<longrightarrow>
     (\<exists>t'. find_task i d' = Some t' \<and> task_evolves t t'))"

lemma task_evolves_refl [simp]: "task_evolves t t"
  by (simp add: task_evolves_def same_order_def)

lemma db_evolves_refl [simp]: "db_evolves d d"
  by (simp add: db_evolves_def)

lemma db_evolves_audit [simp]: "db_evolves d (audit i e n x d') = db_evolves d d'"
  by (simp add: db_evolves_def)

lemma db_evolves_frame: "db_tasks d' = db_tasks d \<Longrightarrow> db_evolves d d'"
  by (simp add: db_evolves_def find_task_def)

lemma db_evolves_update:
  assumes "\<And>t. t \<in> set (db_tasks d) \<Longrightarrow> p t \<Longrightarrow> task_evolves t (f t)"
    and "\<And>t. t_id (f t) = t_id t"
  shows "db_evolves d (update_tasks p f d)"
  unfolding db_evolves_def
proof (intro allI impI)
  fix i t assume t: "find_task i d = Some t"
  have "find_task i (update_tasks p f d) = Some (if p t then f t else t)"
    using t assms(2) by (simp add: find_task_update_tasks)
  moreover have "task_evolves t (if p t then f t else t)"
    using assms(1) find_task_D [OF t] by simp
  ultimately show "\<exists>t'. find_task i (update_tasks p f d) = Some t' \<and> task_evolves t t'" by blast
qed

lemma db_evolves_row:
  assumes inv: "db_inv_with X d" and found: "find_task (clean i) d = Some t \<or> find_task i d = Some t"
    and key: "\<And>u. p u \<Longrightarrow> t_id u = i" and ev: "task_evolves t (f t)" and same: "\<And>u. t_id (f u) = t_id u"
  shows "db_evolves d (update_tasks p f d)"
  using _ same
proof (rule db_evolves_update)
  fix u assume u: "u \<in> set (db_tasks d)" "p u"
  have "u = t" using found same_row [OF inv _ u(1) key [OF u(2)]] same_row' [OF inv _ u(1) key [OF u(2)]]
    by blast
  with ev show "task_evolves u (f u)" by simp
qed

lemma evolves_lease_task: "schedulable t \<Longrightarrow> task_evolves t (lease_task w l e h n t)"
  by (auto simp: task_evolves_def same_order_def lease_task_def schedulable_def LEASEABLE_def TERMINAL_def)

lemma evolves_run_task: "startable n i w l t \<Longrightarrow> task_evolves t (run_task n t)"
  by (auto simp: task_evolves_def same_order_def run_task_def startable_def TERMINAL_def)

lemma evolves_drop_lease:
  "holds_lease t \<Longrightarrow> task_evolves t (drop_lease (next_attempt_state t) (t_attempt_count t + 1) n t)"
  by (auto simp: task_evolves_def same_order_def drop_lease_def next_attempt_state_def holds_lease_def
      TERMINAL_def)

lemma holds_lease_not_terminal: "holds_lease t \<Longrightarrow> t_state t \<notin> TERMINAL"
  by (auto simp: holds_lease_def TERMINAL_def)

lemma evolves_annotate:
  assumes "holds_lease t" and "task_evolves t u"
  shows "task_evolves t (u\<lparr>t_error_code := c\<rparr>)" and "task_evolves t (u\<lparr>t_terminal_reason := r\<rparr>)"
    and "task_evolves t (u\<lparr>t_terminal_reason := r, t_error_code := c\<rparr>)"
  using assms(2) holds_lease_not_terminal [OF assms(1)]
  by (simp_all add: task_evolves_def same_order_def)

lemma evolves_wait_capacity:
  assumes "used_state (t_state t)" and "t_state t \<notin> TERMINAL" and "t_state t \<noteq> WAITING_HUMAN"
  shows "task_evolves t (wait_capacity n t)"
proof -
  have "t_state t = WAITING_CAPACITY \<or> WAITING_CAPACITY \<in> set (next_states (t_state t))"
    using assms by (cases "t_state t") (simp_all add: TERMINAL_def)
  with assms(2) show ?thesis by (simp add: task_evolves_def same_order_def wait_capacity_def) metis
qed

lemma find_append: "find p (xs @ ys) = (case find p xs of None \<Rightarrow> find p ys | Some x \<Rightarrow> Some x)"
  by (induction xs) simp_all

lemma create_evolves: "db_evolves d (snd (create_task now tid did target cap prio human gov budget d))"
proof -
  obtain r d' where run: "create_task now tid did target cap prio human gov budget d = (r, d')" by fastforce
  have "db_evolves d (insert_task t d)" for t
    by (auto simp: db_evolves_def find_task_def find_append)
  with create_task_D [OF run] run show ?thesis by (auto simp: Let_def)
qed

lemma worker_ops_evolve:
  "db_evolves d (snd (register_worker now wid kind caps targets sla capacity d))"
  "db_evolves d (snd (heartbeat now wid obs d))"
  "db_evolves d (snd (heartbeat_with_capacity now wid c obs d))"
  by (rule db_evolves_frame, simp add: register_worker_def heartbeat_def heartbeat_with_capacity_def
      split: sum.split option.split)+

lemma claim_evolves:
  assumes inv: "db_inv_with X d"
  shows "db_evolves d (snd (claim now tid wid secs lid d))"
proof -
  obtain r d' where run: "claim now tid wid secs lid d = (r, d')" by fastforce
  from claim_D [OF run] show ?thesis
    unfolding run snd_conv
  proof (elim disjE exE conjE)
    fix n s t w
    assume t: "find_task tid d = Some t" "t_state t \<in> LEASEABLE" "\<not> t_requires_human_approval t"
        "t_governance_allowed t"
      and d': "d' = audit tid ''LEASED'' n wid (update_tasks (\<lambda>u. t_id u = tid \<and> t_state u \<in> LEASEABLE)
        (lease_task wid lid (n + s) (w_last_heartbeat w) n) d)"
    have "schedulable t" using t by (simp add: schedulable_def)
    then show "db_evolves d d'" unfolding d' db_evolves_audit
      by (intro db_evolves_row [OF inv disjI2 [OF t(1)]]) (simp_all add: evolves_lease_task)
  qed simp
qed

lemma renew_evolves: "db_evolves d (snd (renew now tid wid lid s d))"
proof -
  obtain r d' where run: "renew now tid wid lid s d = (r, d')" by fastforce
  have "task_evolves t (t\<lparr>t_lease_expires_at := Some x, t_updated_at := n\<rparr>)" if "holds_lease t" for t x n
    using holds_lease_not_terminal [OF that] that by (auto simp: task_evolves_def same_order_def)
  with renew_D [OF run] run show ?thesis by (auto intro!: db_evolves_update)
qed

lemma start_evolves:
  "db_evolves d (snd (start now tid wid lid d))"
  "db_evolves d (snd (start_with_ack now tid wid lid det d))"
proof -
  obtain r d' where run: "start now tid wid lid d = (r, d')" by fastforce
  with start_D [OF run] show "db_evolves d (snd (start now tid wid lid d))"
    by (auto intro!: db_evolves_update intro: evolves_run_task)
next
  obtain r d' where run: "start_with_ack now tid wid lid det d = (r, d')" by fastforce
  with start_with_ack_D [OF run] show "db_evolves d (snd (start_with_ack now tid wid lid det d))"
    by (auto intro!: db_evolves_update intro: evolves_run_task)
qed

lemma reclaim_evolves:
  assumes inv: "db_inv_with X d"
  shows "db_evolves d (snd (reclaim_expired now tid d))"
proof -
  obtain r d' where run: "reclaim_expired now tid d = (r, d')" by fastforce
  from reclaim_expired_D [OF run] show ?thesis
    unfolding run snd_conv
  proof (elim disjE exE conjE)
    fix n t ex
    assume t: "find_task tid d = Some t" "holds_lease t"
      and d': "d' = audit tid ''LEASE_EXPIRED'' n (state_value (next_attempt_state t))
        (update_tasks (\<lambda>u. t_id u = tid \<and> holds_lease u \<and> sql_le (t_lease_expires_at u) n)
           (drop_lease (next_attempt_state t) (t_attempt_count t + 1) n) d)"
    show "db_evolves d d'" unfolding d' db_evolves_audit
      by (intro db_evolves_row [OF inv disjI2 [OF t(1)]]) (simp_all add: evolves_drop_lease t)
  qed simp
qed

lemma fail_evolves:
  assumes inv: "db_inv_with X d"
  shows "db_evolves d (snd (fail_attempt now tid wid lid reason code d))"
proof -
  obtain r d' where run: "fail_attempt now tid wid lid reason code d = (r, d')" by fastforce
  from fail_attempt_D [OF run] show ?thesis
    unfolding run snd_conv
  proof (elim disjE exE conjE)
    fix n t
    assume t: "find_task (clean tid) d = Some t" "holds_lease t"
      and d': "d' = audit tid ''ATTEMPT_FAILED'' n (state_value (next_attempt_state t))
        (update_tasks (\<lambda>u. t_id u = tid)
          (\<lambda>u. (drop_lease (next_attempt_state t) (t_attempt_count t + 1) n u)
             \<lparr>t_terminal_reason := Some (clean reason), t_error_code := Some (clean code)\<rparr>) d)"
    show "db_evolves d d'" unfolding d' db_evolves_audit
      by (intro db_evolves_row [OF inv disjI1 [OF t(1)]])
         (simp_all add: evolves_drop_lease evolves_annotate t)
  qed simp
qed

lemma complete_evolves:
  assumes inv: "db_inv_with X d"
  shows "db_evolves d (snd (complete_after_review now tid ev d))"
proof -
  obtain r d' where run: "complete_after_review now tid ev d = (r, d')" by fastforce
  from complete_after_review_D [OF run] show ?thesis
    unfolding run snd_conv
  proof (elim disjE exE conjE)
    fix n t
    assume t: "find_task (clean tid) d = Some t" "t_state t = REVIEW_PENDING"
      and d': "d' = audit tid ''COMPLETED_AFTER_REVIEW'' n [] (update_tasks (\<lambda>u. t_id u = tid)
        (\<lambda>u. u\<lparr>t_state := COMPLETED, t_evidence_status := ''VALID'', t_assigned_worker_id := None,
               t_lease_id := None, t_lease_expires_at := None, t_updated_at := n\<rparr>) d)"
    show "db_evolves d d'" unfolding d' db_evolves_audit
      by (intro db_evolves_row [OF inv disjI1 [OF t(1)]])
         (simp_all add: t task_evolves_def same_order_def TERMINAL_def)
  qed simp
qed

lemma submit_evolves:
  assumes inv: "db_inv_with X d"
  shows "db_evolves d (snd (submit_result now tid wid lid eid sha d))"
proof -
  obtain r d' where run: "submit_result now tid wid lid eid sha d = (r, d')" by fastforce
  have ev: "task_evolves t (t\<lparr>t_state := EVIDENCE_PENDING, t_evidence_status := s\<rparr>)"
      "task_evolves t (t\<lparr>t_state := REVIEW_PENDING, t_evidence_status := s, t_updated_at := n\<rparr>)"
    if "result_reportable t" for t s n
    using that by (auto simp: result_reportable_def holds_lease_def task_evolves_def same_order_def TERMINAL_def)
  have pending: "db_evolves d (update_tasks (\<lambda>u. t_id u = tid)
      (\<lambda>u. u\<lparr>t_state := EVIDENCE_PENDING, t_evidence_status := ''MISSING_OR_INVALID''\<rparr>) d)"
    if "find_task tid d = Some t" "result_reportable t" for t
    by (intro db_evolves_row [OF inv disjI2 [OF that(1)]]) (simp_all add: ev that)
  from submit_result_D [OF run] show ?thesis
    unfolding run snd_conv
  proof (elim disjE exE conjE)
    fix n t
    assume t: "find_task tid d = Some t" "result_reportable t"
      and d': "d' = audit tid ''RESULT_RECEIVED'' n eid (update_tasks (\<lambda>u. t_id u = tid)
             (\<lambda>u. u\<lparr>t_state := REVIEW_PENDING, t_evidence_status := ''RECEIVED'', t_updated_at := n\<rparr>)
             (d\<lparr>db_evidence := db_evidence d @ [evidence_row tid eid sha n]\<rparr>))"
    let ?u = "update_tasks (\<lambda>u. t_id u = tid)
      (\<lambda>u. u\<lparr>t_state := REVIEW_PENDING, t_evidence_status := ''RECEIVED'', t_updated_at := n\<rparr>) d"
    have "db_evolves d ?u"
      by (intro db_evolves_row [OF inv disjI2 [OF t(1)]]) (simp_all add: ev t)
    moreover have "find_task i d' = find_task i ?u" for i
      unfolding d' find_task_def by simp
    ultimately show "db_evolves d d'" by (simp add: db_evolves_def)
  qed (simp_all add: pending)
qed

lemma route_evolves:
  assumes inv: "db_inv_with X d"
  shows "db_evolves d (snd (route_or_wait now tid d))"
proof -
  obtain r d' where run: "route_or_wait now tid d = (r, d')" by fastforce
  from route_or_wait_D [OF run] show ?thesis
    unfolding run snd_conv
  proof (elim disjE exE conjE)
    fix n t
    assume t: "find_task (clean tid) d = Some t" "t_state t \<notin> TERMINAL" "t_state t \<noteq> WAITING_HUMAN"
      and d': "d' = audit tid ''WAITING_CAPACITY'' n [] (update_tasks (\<lambda>u. t_id u = tid) (wait_capacity n) d)"
    have "used_state (t_state t)"
      using tasks_invD [OF db_invD(1) [OF inv]] find_task_D [OF t(1)] by (auto simp: task_ok_def)
    then show "db_evolves d d'" unfolding d' db_evolves_audit
      by (intro db_evolves_row [OF inv disjI1 [OF t(1)]]) (simp_all add: evolves_wait_capacity t)
  qed simp
qed

lemma mark_evolves: "db_evolves d (snd (mark_waiting_capacity now tid d))"
proof -
  obtain r d' where run: "mark_waiting_capacity now tid d = (r, d')" by fastforce
  have "task_evolves t (wait_capacity n t)" if "schedulable t" for t n
    using that by (intro evolves_wait_capacity) (auto simp: schedulable_def LEASEABLE_def TERMINAL_def)
  with mark_waiting_capacity_D [OF run] run show ?thesis by (auto intro!: db_evolves_update)
qed

lemma reconcile_row_evolves:
  assumes "db_inv_with X d" and "find_task (clean r) d = Some t" and "holds_lease t"
  shows "db_evolves d (reconcile_row n r t d)"
  unfolding reconcile_row_def db_evolves_audit
  by (intro db_evolves_row [OF assms(1) disjI1 [OF assms(2)]])
     (simp_all add: evolves_drop_lease evolves_annotate assms)

lemma snd_reconcile_rows [step_simps]:
  "snd (reconcile_rows n (r # rs) d) = (case get_task r d of Inl e \<Rightarrow> d
     | Inr t \<Rightarrow> if db_locked d then d else snd (reconcile_rows n rs (reconcile_row n r t d)))"
  by (simp split: sum.split prod.split)

lemma reconcile_rows_frame:
  "i \<notin> set rs \<Longrightarrow> find_task i (snd (reconcile_rows n rs d)) = find_task i d"
proof (induction rs arbitrary: d)
  case (Cons r rs)
  then show ?case
    unfolding snd_reconcile_rows by (simp add: find_task_reconcile_row split: sum.split)
qed simp

lemma reconcile_rows_evolves:
  assumes "db_inv_with X d" and "distinct rs" and "\<forall>r \<in> set rs. running d r"
  shows "db_evolves d (snd (reconcile_rows n rs d))"
  using assms
proof (induction rs arbitrary: d)
  case Nil
  then show ?case by simp
next
  case (Cons r rs)
  from Cons.prems(3) obtain t where t: "find_task r d = Some t" "t_state t = RUNNING"
    by (auto simp: running_def)
  have stable: "clean r = r" by (rule find_task_stable [OF db_invD(1) [OF Cons.prems(1)] t(1)])
  have got: "get_task r d = Inr t" by (simp add: get_task_def stable t)
  have h: "holds_lease t" by (simp add: t holds_lease_def)
  let ?d = "reconcile_row n r t d"
  have inv: "db_inv_with X ?d"
    by (rule reconcile_row_inv) (simp_all add: Cons.prems(1) stable t h)
  have "\<forall>q \<in> set rs. running ?d q"
    using Cons.prems(2,3) unfolding running_def by (metis distinct.simps(2) find_task_reconcile_row list.set_intros(2))
  with inv have later: "db_evolves ?d (snd (reconcile_rows n rs ?d))"
    using Cons.IH Cons.prems(2) by simp
  have first: "db_evolves d ?d" by (rule reconcile_row_evolves [where X = X]) (simp_all add: Cons.prems(1) stable t h)
  have "db_evolves d (snd (reconcile_rows n rs ?d))"
    unfolding db_evolves_def
  proof (intro allI impI)
    fix i u assume u: "find_task i d = Some u"
    show "\<exists>u'. find_task i (snd (reconcile_rows n rs ?d)) = Some u' \<and> task_evolves u u'"
    proof (cases "i = r")
      case True
      with Cons.prems(2) have "find_task i (snd (reconcile_rows n rs ?d)) = find_task i ?d"
        by (intro reconcile_rows_frame) simp
      with first u show ?thesis unfolding db_evolves_def by auto
    next
      case False
      with u later show ?thesis unfolding db_evolves_def by (simp add: find_task_reconcile_row)
    qed
  qed
  then show ?case unfolding snd_reconcile_rows by (simp add: got)
qed

lemma reconcile_evolves:
  assumes inv: "db_inv_with X d"
  shows "db_evolves d (snd (reconcile_stale_workers now d))"
proof -
  have "distinct (map t_id (filter (stale_owned n d) (db_tasks d)))" for n
    using db_invD(1) [OF inv] by (simp add: tasks_inv_def distinct_map_filter)
  then have "db_evolves d (snd (reconcile_rows n (sort (map t_id (filter (stale_owned n d) (db_tasks d)))) d))" for n
    using inv stale_rows_running [OF inv] by (intro reconcile_rows_evolves) auto
  then show ?thesis by (simp add: reconcile_stale_workers_def split: sum.split)
qed

lemmas op_evolves = create_evolves worker_ops_evolve claim_evolves renew_evolves start_evolves
  reclaim_evolves reconcile_evolves fail_evolves submit_evolves complete_evolves route_evolves mark_evolves

lemma step_evolves: "store_step d d' \<Longrightarrow> db_inv_with X d \<Longrightarrow> db_evolves d d'"
  by (induction rule: store_step.induct) (auto intro: op_evolves db_evolves_frame)

end
