(* ===== verification/StoreAudit.thy ===== *)
theory StoreAudit
  imports StoreProps
begin

text \<open>
  The audit log of the store: no step removes or rewrites an entry, and every change of a task's
  state leaves an entry for that task, except the move to \<open>EVIDENCE_PENDING\<close>. The entry names
  the task as the caller did, so in \<open>mark_waiting_capacity\<close>, which cleans the identifier only in
  its WHERE clause, it is the cleaned name that is the task's.
\<close>

definition logged_since :: "db \<Rightarrow> db \<Rightarrow> string \<Rightarrow> bool" where
  "logged_since d d' i \<longleftrightarrow> (\<exists>a \<in> set (drop (length (db_audit d)) (db_audit d')).
     a_task_id a = i \<or> clean (a_task_id a) = i)"

definition state_in :: "db \<Rightarrow> string \<Rightarrow> TaskState option" where
  "state_in d i = map_option t_state (find_task i d)"

text \<open>One step's duty: extend the log, and log each known task whose state it changed.\<close>

definition log_duty :: "db \<Rightarrow> db \<Rightarrow> bool" where
  "log_duty d d' \<longleftrightarrow> prefix (db_audit d) (db_audit d') \<and> prefix (db_evidence d) (db_evidence d')
     \<and> (\<forall>i. state_in d i \<noteq> None \<longrightarrow> state_in d' i \<noteq> state_in d i
          \<longrightarrow> state_in d' i \<noteq> Some EVIDENCE_PENDING \<longrightarrow> logged_since d d' i)"

lemma log_duty_same [simp]: "log_duty d d"
  by (simp add: log_duty_def)

lemma state_in_frame: "db_tasks d' = db_tasks d \<Longrightarrow> state_in d' = state_in d"
  by (simp add: fun_eq_iff state_in_def find_task_def)

lemma state_in_audit [simp]: "state_in (audit i e n x d) = state_in d"
  by (rule state_in_frame) simp

lemma state_in_other:
  assumes "\<And>u. t_id (f u) = t_id u" and "\<And>u. p u \<Longrightarrow> t_id u = i" and "j \<noteq> i"
  shows "state_in (update_tasks p f d) j = state_in d j"
  using assms by (cases "find_task j d") (auto simp: state_in_def find_task_update_tasks dest: find_task_D)

lemma log_duty_keyed:
  assumes "\<And>u. t_id (f u) = t_id u" and "\<And>u. p u \<Longrightarrow> t_id u = i" and "j = i \<or> clean j = i"
  shows "log_duty d (audit j e n x (update_tasks p f d))"
  unfolding log_duty_def
proof (intro conjI allI impI)
  fix k assume "state_in (audit j e n x (update_tasks p f d)) k \<noteq> state_in d k"
  then have "k = i" using state_in_other [of f p i k d] assms(1,2) by auto
  with assms(3) show "logged_since d (audit j e n x (update_tasks p f d)) k"
    by (simp add: logged_since_def)
qed simp_all

lemma log_duty_again:
  assumes "log_duty d d'"
  shows "log_duty d (audit i e n x d')"
proof -
  from assms have pre: "prefix (db_audit d) (db_audit d')" by (simp add: log_duty_def)
  then have "logged_since d (audit i e n x d') k" if "logged_since d d' k" for k
    using that by (auto simp: logged_since_def elim!: prefixE)
  moreover have "prefix (db_audit d) (db_audit (audit i e n x d'))"
    using pre by (auto simp: prefix_def)
  ultimately show ?thesis using assms by (simp add: log_duty_def)
qed

lemma log_duty_frame:
  assumes "db_tasks d' = db_tasks d" and "db_audit d' = db_audit d" and "db_evidence d' = db_evidence d"
  shows "log_duty d d'"
  unfolding log_duty_def state_in_frame [OF assms(1)] by (simp add: assms(2,3))

lemma claim_logs: "log_duty d (snd (claim now tid wid secs lid d))"
proof -
  obtain r d' where run: "claim now tid wid secs lid d = (r, d')" by fastforce
  from claim_D [OF run] show ?thesis unfolding run snd_conv
    by (elim disjE exE conjE; hypsubst) (auto intro!: log_duty_keyed [where i = tid])
qed

lemma renew_logs: "log_duty d (snd (renew now tid wid lid s d))"
proof -
  obtain r d' where run: "renew now tid wid lid s d = (r, d')" by fastforce
  from renew_D [OF run] show ?thesis unfolding run snd_conv
    by (elim disjE exE conjE; hypsubst) (auto intro!: log_duty_keyed [where i = tid] simp: owns_lease_def)
qed

lemma start_logs: "log_duty d (snd (start now tid wid lid d))"
proof -
  obtain r d' where run: "start now tid wid lid d = (r, d')" by fastforce
  from start_D [OF run] show ?thesis unfolding run snd_conv
    by (elim disjE exE conjE; hypsubst)
       (auto intro!: log_duty_keyed [where i = tid] simp: startable_def owns_lease_def)
qed

lemma start_ack_logs: "log_duty d (snd (start_with_ack now tid wid lid det d))"
proof -
  obtain r d' where run: "start_with_ack now tid wid lid det d = (r, d')" by fastforce
  from start_with_ack_D [OF run] show ?thesis unfolding run snd_conv
    by (elim disjE exE conjE; hypsubst)
       (auto intro!: log_duty_again [OF log_duty_keyed [where i = tid]] simp: startable_def owns_lease_def)
qed

lemma reclaim_logs: "log_duty d (snd (reclaim_expired now tid d))"
proof -
  obtain r d' where run: "reclaim_expired now tid d = (r, d')" by fastforce
  from reclaim_expired_D [OF run] show ?thesis unfolding run snd_conv
    by (elim disjE exE conjE; hypsubst) (auto intro!: log_duty_keyed [where i = tid])
qed

lemma fail_logs: "log_duty d (snd (fail_attempt now tid wid lid reason code d))"
proof -
  obtain r d' where run: "fail_attempt now tid wid lid reason code d = (r, d')" by fastforce
  from fail_attempt_D [OF run] show ?thesis unfolding run snd_conv
    by (elim disjE exE conjE; hypsubst) (auto intro!: log_duty_keyed [where i = tid])
qed

lemma complete_logs: "log_duty d (snd (complete_after_review now tid ev d))"
proof -
  obtain r d' where run: "complete_after_review now tid ev d = (r, d')" by fastforce
  from complete_after_review_D [OF run] show ?thesis unfolding run snd_conv
    by (elim disjE exE conjE; hypsubst) (auto intro!: log_duty_keyed [where i = tid])
qed

lemma route_logs: "log_duty d (snd (route_or_wait now tid d))"
proof -
  obtain r d' where run: "route_or_wait now tid d = (r, d')" by fastforce
  from route_or_wait_D [OF run] show ?thesis unfolding run snd_conv
    by (elim disjE exE conjE; hypsubst) (auto intro!: log_duty_keyed [where i = tid])
qed

lemma mark_logs: "log_duty d (snd (mark_waiting_capacity now tid d))"
proof -
  obtain r d' where run: "mark_waiting_capacity now tid d = (r, d')" by fastforce
  from mark_waiting_capacity_D [OF run] show ?thesis unfolding run snd_conv
    by (elim disjE exE conjE; hypsubst) (auto intro!: log_duty_keyed [where i = "clean tid"])
qed

lemma submit_logs: "log_duty d (snd (submit_result now tid wid lid eid sha d))"
proof -
  obtain r d' where run: "submit_result now tid wid lid eid sha d = (r, d')" by fastforce
  have pending: "log_duty d (update_tasks (\<lambda>u. t_id u = tid)
      (\<lambda>u. u\<lparr>t_state := EVIDENCE_PENDING, t_evidence_status := s\<rparr>) d)" for s
  proof -
    have "state_in (update_tasks (\<lambda>u. t_id u = tid)
        (\<lambda>u. u\<lparr>t_state := EVIDENCE_PENDING, t_evidence_status := s\<rparr>) d) i \<in> {state_in d i, Some EVIDENCE_PENDING}"
      if "state_in d i \<noteq> None" for i
      using that by (cases "find_task i d") (simp_all add: state_in_def find_task_update_tasks)
    then show ?thesis unfolding log_duty_def by auto
  qed
  have received: "log_duty d (audit tid ''RESULT_RECEIVED'' n eid (update_tasks (\<lambda>u. t_id u = tid) f
      (d\<lparr>db_evidence := db_evidence d @ [x]\<rparr>)))" if same: "\<And>u. t_id (f u) = t_id u" for n f x
  proof -
    let ?d = "d\<lparr>db_evidence := db_evidence d @ [x]\<rparr>"
    have "log_duty ?d (audit tid ''RESULT_RECEIVED'' n eid (update_tasks (\<lambda>u. t_id u = tid) f ?d))"
      by (rule log_duty_keyed [where i = tid]) (simp_all add: same)
    moreover have "state_in ?d = state_in d" by (rule state_in_frame) simp
    ultimately show ?thesis by (simp add: log_duty_def logged_since_def)
  qed
  from submit_result_D [OF run] show ?thesis unfolding run snd_conv
    by (elim disjE exE conjE; hypsubst) (simp_all add: pending received)
qed

lemma create_logs: "log_duty d (snd (create_task now tid did target cap prio human gov budget d))"
proof -
  obtain r d' where run: "create_task now tid did target cap prio human gov budget d = (r, d')" by fastforce
  have "log_duty d (audit i e n x (insert_task t d))" for i e n x t
    by (auto simp: log_duty_def state_in_def find_task_def find_append)
  with create_task_D [OF run] show ?thesis unfolding run by (auto simp: Let_def)
qed

lemma worker_ops_log:
  "log_duty d (snd (register_worker now wid kind caps targets sla capacity d))"
  "log_duty d (snd (heartbeat now wid obs d))"
  "log_duty d (snd (heartbeat_with_capacity now wid c obs d))"
  by (rule log_duty_frame; simp add: register_worker_def heartbeat_def heartbeat_with_capacity_def
      split: sum.split option.split)+

lemma logged_reconcile_row: "logged_since d (reconcile_row n r t d) r"
  by (simp add: logged_since_def reconcile_row_def)

lemma reconcile_rows_logs: "log_duty d (snd (reconcile_rows n rs d))"
proof (induction rs arbitrary: d)
  case (Cons r rs)
  have "log_duty d (snd (reconcile_rows n rs (reconcile_row n r t d)))" for t
  proof -
    let ?d = "reconcile_row n r t d" and ?e = "snd (reconcile_rows n rs (reconcile_row n r t d))"
    have first: "log_duty d ?d"
      unfolding reconcile_row_def by (rule log_duty_keyed [where i = r]) simp_all
    have later: "log_duty ?d ?e" by (rule Cons.IH)
    have pre: "prefix (db_audit d) (db_audit ?d)" "prefix (db_audit ?d) (db_audit ?e)"
      using first later by (simp_all add: log_duty_def)
    have logged: "logged_since d ?e i" if "logged_since d ?d i \<or> logged_since ?d ?e i" for i
      using that pre by (auto simp: logged_since_def elim!: prefixE)
    show ?thesis
      unfolding log_duty_def
    proof (intro conjI allI impI)
      show "prefix (db_audit d) (db_audit ?e)" using pre by (rule prefix_order.trans)
      show "prefix (db_evidence d) (db_evidence ?e)"
        using first later unfolding log_duty_def by (blast intro: prefix_order.trans)
      fix i assume i: "state_in d i \<noteq> None" "state_in ?e i \<noteq> state_in d i"
          "state_in ?e i \<noteq> Some EVIDENCE_PENDING"
      have some: "state_in ?d i \<noteq> None"
        using i(1) by (cases "find_task i d")
          (simp_all add: state_in_def reconcile_row_def find_task_update_tasks)
      have "state_in ?d i = state_in d i \<or> i = r"
        by (simp add: state_in_def find_task_reconcile_row disj_commute) (metis find_task_reconcile_row)
      with i some later show "logged_since d ?e i"
        unfolding log_duty_def
        by (metis logged logged_reconcile_row)
    qed
  qed
  then show ?case unfolding snd_reconcile_rows by (simp split: sum.split)
qed simp

lemma reconcile_logs: "log_duty d (snd (reconcile_stale_workers now d))"
  by (simp add: reconcile_stale_workers_def reconcile_rows_logs split: sum.split)

lemma step_logs: "store_step d d' \<Longrightarrow> log_duty d d'"
  by (induction rule: store_step.induct)
     (auto intro: create_logs worker_ops_log claim_logs renew_logs start_logs start_ack_logs reclaim_logs
       reconcile_logs fail_logs submit_logs complete_logs route_logs mark_logs log_duty_frame
       log_duty_again [OF log_duty_same])

end
