(* ===== verification/StoreClaims.thy ===== *)
theory StoreClaims
  imports StoreAudit
begin

text \<open>
  The theorems on the store that a caller relies on, each with a witness on a small database: one
  worker, one task, and the database after it was claimed, started, or left to expire.
\<close>

subsection \<open>A sample run\<close>

definition sample_worker :: db where
  "sample_worker = snd (register_worker (Finite 0) ''w'' ''local'' [''test''] [''repo''] 10 1 init_db)"

definition sample_queued :: db where
  "sample_queued = snd (create_task (Finite 0) ''t'' (Some ''d'') ''repo'' ''test'' 5 False True (PyInt 1) sample_worker)"

definition sample_leased :: db where
  "sample_leased = snd (claim (Finite 1) ''t'' ''w'' (PyInt 30) ''L'' sample_queued)"

definition sample_running :: db where
  "sample_running = snd (start (Finite 2) ''t'' ''w'' ''L'' sample_leased)"

lemma sample_reachable:
  "store_reachable sample_worker" "store_reachable sample_queued" "store_reachable sample_leased"
  "store_reachable sample_running"
proof -
  show w: "store_reachable sample_worker"
    unfolding sample_worker_def by (rule reach_step [OF reach_init step_register])
  have "clean (clean ''t'') = clean ''t''" by (simp add: is_alnum_def is_lower_def)
  then show q: "store_reachable sample_queued"
    unfolding sample_queued_def by (intro reach_step [OF w] step_create)
  show l: "store_reachable sample_leased"
    unfolding sample_leased_def by (rule reach_step [OF q step_claim])
  show "store_reachable sample_running"
    unfolding sample_running_def by (rule reach_step [OF l step_start])
qed

lemma clean_empty [simp]: "clean [] = []"
  by (simp add: clean_def redact_no_separator)

lemmas eval_simps = is_alnum_def is_upper_def is_lower_def is_digit_def ident_char_def packed_def
  find_worker_def find_task_def update_tasks_def audit_def init_db_def Let_def
  rowcount_def update_where_def positive_seconds_def worker_fresh_def active_leases_of_def holds_lease_def
  LEASEABLE_def startable_def owns_lease_def sql_gt_def sql_le_def

definition row :: "TaskState \<Rightarrow> rat \<Rightarrow> string option \<Rightarrow> string option \<Rightarrow> rat option \<Rightarrow> rat option \<Rightarrow> task" where
  "row st n w l ex hb = \<lparr>t_id = ''t'', t_directive_id = Some ''d'', t_target_project = ''repo'',
     t_capability = ''test'', t_state = st, t_priority = 5, t_created_at = 0, t_updated_at = n,
     t_requires_human_approval = False, t_governance_allowed = True, t_attempt_count = 0, t_retry_budget = 1,
     t_assigned_worker_id = w, t_lease_id = l, t_lease_expires_at = ex, t_last_worker_heartbeat = hb,
     t_evidence_status = ''NONE'', t_terminal_reason = None, t_error_code = None\<rparr>"

definition the_worker :: worker where
  "the_worker = \<lparr>w_id = ''w'', w_kind = ''local'', w_capabilities = [''test''], w_targets = [''repo''],
     w_registered_at = 0, w_last_heartbeat = 0, w_heartbeat_sla = 10, w_capacity = 1\<rparr>"

definition log_line :: "nat \<Rightarrow> string \<Rightarrow> rat \<Rightarrow> string \<Rightarrow> audit_row" where
  "log_line k e n x = \<lparr>a_seq = k, a_task_id = ''t'', a_event = e, a_at = n, a_details = x\<rparr>"

definition with_row :: "task \<Rightarrow> audit_row list \<Rightarrow> db" where
  "with_row t ls = \<lparr>db_tasks = [t], db_workers = [the_worker], db_evidence = [], db_audit = ls, db_locked = False\<rparr>"

lemmas sample_defs = row_def the_worker_def log_line_def with_row_def

lemma sample_worker_eq: "sample_worker = init_db\<lparr>db_workers := [the_worker]\<rparr>"
  by (simp add: sample_worker_def register_worker_def eval_simps sample_defs)

lemma sample_queued_eq:
  "sample_queued = with_row (row QUEUED 0 None None None None) [log_line 1 ''CREATED'' 0 ''QUEUED'']"
  by (simp add: sample_queued_def sample_worker_eq create_task_def create_task_insert_def new_task_def
      clean_or_none_def task_insert_ok_def insert_task_def MAX_RETRY_def eval_simps sample_defs)

lemma sample_leased_eq:
  "sample_leased = with_row (row LEASED 1 (Some ''w'') (Some ''L'') (Some 31) (Some 0))
     [log_line 1 ''CREATED'' 0 ''QUEUED'', log_line 2 ''LEASED'' 1 ''w'']"
  by (simp add: sample_leased_def sample_queued_eq claim_def lease_task_def eval_simps sample_defs)

lemma sample_running_eq:
  "sample_running = with_row (row RUNNING 2 (Some ''w'') (Some ''L'') (Some 31) (Some 0))
     [log_line 1 ''CREATED'' 0 ''QUEUED'', log_line 2 ''LEASED'' 1 ''w'', log_line 3 ''RUNNING'' 2 ''w'']"
  by (simp add: sample_running_def sample_leased_eq start_def run_task_def eval_simps sample_defs)

subsection \<open>Invariant, life cycle, audit\<close>

text \<open>Every database the store's operations can produce, failed calls and lock conflicts
  included, satisfies the store invariant: identifiers, lease ids and directive ids are unique,
  a bound task has an owner, a lease and an expiry, a task that needs a human waits for one,
  attempts stay within the retry budget and a task is dead exactly when it exceeded it,
  a task under review or completed has an evidence row.\<close>

theorem reachable_well_formed:
  assumes "store_reachable d"
  shows "db_inv d"
  using assms by (rule reachable_inv)

theorem reachable_well_formed_witness: "db_inv sample_running"
  by (rule reachable_well_formed [OF sample_reachable(4)])

text \<open>C6. Refinement: whatever operation runs on a reachable database, every task it knew is still
  there, is the same order, has moved at most one step along the life cycle, has one more attempt
  exactly when it lost its lease to \<open>RETRYING\<close> or \<open>DEAD_LETTER\<close>, and is untouched when terminal.\<close>

theorem step_refines_lifecycle:
  assumes "store_reachable d" and "store_step d d'" and "find_task i d = Some t"
  shows "\<exists>t'. find_task i d' = Some t' \<and> task_evolves t t'"
  using step_evolves [OF assms(2) reachable_inv [OF assms(1)]] assms(3)
  unfolding db_evolves_def by blast

theorem step_refines_lifecycle_witness:
  "\<exists>t'. find_task ''t'' sample_running = Some t'
     \<and> task_evolves (row LEASED 1 (Some ''w'') (Some ''L'') (Some 31) (Some 0)) t'"
proof (rule step_refines_lifecycle [OF sample_reachable(3)])
  show "store_step sample_leased sample_running"
    unfolding sample_running_def by (rule step_start)
  show "find_task ''t'' sample_leased = Some (row LEASED 1 (Some ''w'') (Some ''L'') (Some 31) (Some 0))"
    by (simp add: sample_leased_eq eval_simps sample_defs)
qed

text \<open>A completed or dead-lettered task is never changed again, by any sequence of operations.\<close>

theorem terminal_task_frozen:
  assumes "store_reachable d" and "find_task i d = Some t" and "t_state t \<in> TERMINAL"
    and "store_step\<^sup>*\<^sup>* d d'"
  shows "find_task i d' = Some t"
proof -
  from assms(4) have "store_reachable d' \<and> find_task i d' = Some t"
  proof (induction rule: rtranclp_induct)
    case base
    with assms show ?case by simp
  next
    case (step y z)
    then have "db_evolves y z" by (blast intro: step_evolves reachable_inv)
    with step.IH assms(3) have "find_task i z = Some t"
      unfolding db_evolves_def task_evolves_def by metis
    with step.IH step.hyps(2) show ?case by (blast intro: reach_step)
  qed
  then show ?thesis by simp
qed

definition sample_dead :: db where
  "sample_dead = snd (reclaim_expired (Finite 100) ''t'' (snd (claim (Finite 60) ''t'' ''w'' (PyInt 30) ''M''
     (snd (heartbeat (Finite 60) ''w'' None (snd (reclaim_expired (Finite 50) ''t'' sample_running)))))))"

lemma sample_dead_reachable: "store_reachable sample_dead"
  unfolding sample_dead_def
  by (intro reach_step [OF _ step_reclaim] reach_step [OF _ step_claim] reach_step [OF _ step_heartbeat]
      sample_reachable)

lemma sample_dead_row: "find_task ''t'' sample_dead
    = Some ((row DEAD_LETTER 100 None None None (Some 60))\<lparr>t_attempt_count := 2\<rparr>)"
  by (simp add: sample_dead_def sample_running_eq claim_def reclaim_expired_def heartbeat_def lease_task_def
      drop_lease_def next_attempt_state_def observed_or_def update_workers_def eval_simps sample_defs)

theorem terminal_task_frozen_witness:
  "find_task ''t'' (snd (claim (Finite 101) ''t'' ''w'' (PyInt 30) ''N'' sample_dead))
     = Some ((row DEAD_LETTER 100 None None None (Some 60))\<lparr>t_attempt_count := 2\<rparr>)"
  by (rule terminal_task_frozen [OF sample_dead_reachable sample_dead_row])
     (auto simp: row_def TERMINAL_def intro: step_claim)

text \<open>No operation removes or rewrites an audit or evidence row, and a change of a task's state
  is recorded in the audit under that task, except the move to \<open>EVIDENCE_PENDING\<close>, which the code
  does not log.\<close>

theorem audit_append_only:
  assumes "store_step d d'"
  shows "prefix (db_audit d) (db_audit d') \<and> prefix (db_evidence d) (db_evidence d')
    \<and> (\<forall>i t t'. find_task i d = Some t \<longrightarrow> find_task i d' = Some t' \<longrightarrow> t_state t' \<noteq> t_state t
         \<longrightarrow> t_state t' \<noteq> EVIDENCE_PENDING \<longrightarrow> logged_since d d' i)"
  using step_logs [OF assms] unfolding log_duty_def state_in_def by simp

theorem audit_append_only_witness:
  "prefix (db_audit sample_leased) (db_audit sample_running) \<and> logged_since sample_leased sample_running ''t''"
proof -
  have "store_step sample_leased sample_running"
    unfolding sample_running_def by (rule step_start)
  from audit_append_only [OF this] show ?thesis
    by (simp add: sample_leased_eq sample_running_eq eval_simps sample_defs)
qed

subsection \<open>Leases\<close>

lemma now_of_Finite: "now_of (Finite n) = Inr m \<Longrightarrow> m = n \<and> 0 \<le> n"
  by (simp split: if_splits)

lemma claim_success:
  assumes "claim now tid wid secs lid d = (Inr l, d')"
  obtains n s t w where "now_of now = Inr n" "0 < s" "find_task tid d = Some t" "find_worker wid d = Some w"
    "t_state t \<in> LEASEABLE" "int (active_leases_of wid n d) < w_capacity w"
    "d' = audit tid ''LEASED'' n wid (update_tasks (\<lambda>u. t_id u = tid \<and> t_state u \<in> LEASEABLE)
        (lease_task wid lid (n + s) (w_last_heartbeat w) n) d)"
  using claim_D [OF assms]
proof (elim disjE exE conjE)
  fix n s t w
  assume a: "now_of now = Inr n" "positive_seconds secs = Some s" "find_task tid d = Some t"
    "find_worker wid d = Some w" "t_state t \<in> LEASEABLE" "int (active_leases_of wid n d) < w_capacity w"
    "d' = audit tid ''LEASED'' n wid (update_tasks (\<lambda>u. t_id u = tid \<and> t_state u \<in> LEASEABLE)
        (lease_task wid lid (n + s) (w_last_heartbeat w) n) d)"
  show thesis by (rule that [OF a(1) positive_seconds_D [OF a(2)] a(3-7)])
qed simp

lemma submit_result_guard:
  assumes "submit_result now tid wid lid eid sha d = (r, d')"
  shows "(\<exists>e. r = Inl e \<and> d' = d) \<or> (\<exists>n t ex. now_of now = Inr n \<and> find_task tid d = Some t
    \<and> t_assigned_worker_id t = Some wid \<and> t_lease_id t = Some lid
    \<and> t_lease_expires_at t = Some ex \<and> n < ex)"
  using submit_result_D [OF assms] by blast

text \<open>C22. A task is leased to one worker at a time: once a claim has succeeded, any further claim,
  by any worker at any time, is refused and changes nothing.\<close>

theorem claim_exclusive:
  assumes "claim now tid wid secs lid d = (Inr l, d')"
  shows "\<exists>e. claim now' tid wid' secs' lid' d' = (Inl e, d')"
proof -
  from claim_success [OF assms] obtain n s t w where "now_of now = Inr n" "0 < s"
    and t: "find_task tid d = Some t" and "find_worker wid d = Some w" and "t_state t \<in> LEASEABLE"
    and "int (active_leases_of wid n d) < w_capacity w"
    and d': "d' = audit tid ''LEASED'' n wid (update_tasks (\<lambda>u. t_id u = tid \<and> t_state u \<in> LEASEABLE)
        (lease_task wid lid (n + s) (w_last_heartbeat w) n) d)" .
  have "find_task tid d' = Some (lease_task wid lid (n + s) (w_last_heartbeat w) n t)"
    using t \<open>t_state t \<in> LEASEABLE\<close> find_task_D [OF t] by (simp add: d' find_task_update_tasks)
  then have taken: "find_task tid d' = Some u \<Longrightarrow> t_state u \<notin> LEASEABLE" for u
    by (auto simp: lease_task_def LEASEABLE_def)
  obtain r d'' where run: "claim now' tid wid' secs' lid' d' = (r, d'')" by fastforce
  from claim_D [OF run] taken run show ?thesis by blast
qed

theorem claim_exclusive_witness:
  "\<exists>e. claim (Finite 5) ''t'' ''w'' (PyInt 10) ''M'' sample_leased = (Inl e, sample_leased)"
proof -
  have "claim (Finite 1) ''t'' ''w'' (PyInt 30) ''L'' sample_queued
      = (Inr \<lparr>l_task_id = ''t'', l_worker_id = ''w'', l_lease_id = ''L'', l_expires_at = 31\<rparr>, sample_leased)"
    by (simp add: sample_leased_eq sample_queued_eq claim_def lease_task_def eval_simps sample_defs)
  then show ?thesis by (rule claim_exclusive)
qed

text \<open>A claim never overloads a worker: it takes exactly one more of the worker's unexpired lease
  slots, and the slots in use stay within the capacity the worker declared.\<close>

theorem claim_within_capacity:
  assumes "store_reachable d" and "claim (Finite n) tid wid secs lid d = (Inr l, d')"
  shows "active_leases_of wid n d' = Suc (active_leases_of wid n d)
    \<and> (\<exists>w. find_worker wid d' = Some w \<and> int (active_leases_of wid n d') \<le> w_capacity w)"
proof -
  from claim_success [OF assms(2)] obtain m s t w where m: "now_of (Finite n) = Inr m" and s: "0 < s"
    and t: "find_task tid d = Some t" and w: "find_worker wid d = Some w" and st: "t_state t \<in> LEASEABLE"
    and cap: "int (active_leases_of wid m d) < w_capacity w"
    and d': "d' = audit tid ''LEASED'' m wid (update_tasks (\<lambda>u. t_id u = tid \<and> t_state u \<in> LEASEABLE)
        (lease_task wid lid (m + s) (w_last_heartbeat w) m) d)" .
  from now_of_Finite [OF m] have mn: "m = n" by simp
  from reachable_inv [OF assms(1)] have dist: "distinct (map t_id (db_tasks d))"
    by (simp add: db_inv_with_def tasks_inv_def)
  note mem = find_task_D [OF t]
  have "active_leases_of wid n d' = Suc (active_leases_of wid n d)"
    unfolding active_leases_of_def d' audit_frame update_tasks_frame
    by (rule rowcount_update_one [OF dist, of t])
       (use st mem s mn in \<open>auto simp: holds_lease_def LEASEABLE_def lease_task_def sql_gt_def\<close>)
  moreover from w have "find_worker wid d' = Some w" by (simp add: d')
  ultimately show ?thesis using cap mn by simp
qed

theorem claim_within_capacity_witness:
  "active_leases_of ''w'' 1 sample_leased = Suc (active_leases_of ''w'' 1 sample_queued)"
proof -
  have "claim (Finite 1) ''t'' ''w'' (PyInt 30) ''L'' sample_queued
      = (Inr \<lparr>l_task_id = ''t'', l_worker_id = ''w'', l_lease_id = ''L'', l_expires_at = 31\<rparr>, sample_leased)"
    by (simp add: sample_leased_eq sample_queued_eq claim_def lease_task_def eval_simps sample_defs)
  from claim_within_capacity [OF sample_reachable(2) this] show ?thesis by simp
qed

lemma expired_lease_locked_out_parts:
  assumes "store_reachable d" and "find_task tid d = Some t" and "sql_le (t_lease_expires_at t) n"
  shows "\<exists>e. renew (Finite n) tid wid lid s d = (Inl e, d)"
    and "\<exists>e. start (Finite n) tid wid lid d = (Inl e, d)"
    and "\<exists>e. start_with_ack (Finite n) tid wid lid det d = (Inl e, d)"
    and "\<exists>e. submit_result (Finite n) tid wid lid eid sha d = (Inl e, d)"
proof -
  note same = same_row' [OF reachable_inv [OF assms(1)] assms(2)]
  from assms(3) have late: "\<not> sql_gt (t_lease_expires_at t) n"
    by (auto simp: sql_le_def sql_gt_def split: option.splits)
  have "\<not> (t_id u = tid \<and> sql_gt (t_lease_expires_at u) n)" if "u \<in> set (db_tasks d)" for u
    using same [OF that] late by blast
  then have none: "rowcount (\<lambda>u. owns_lease tid wid lid u \<and> holds_lease u \<and> sql_gt (t_lease_expires_at u) n)
      (db_tasks d) = 0" "rowcount (startable n tid wid lid) (db_tasks d) = 0"
    by (auto intro!: rowcount_none simp: owns_lease_def startable_def)
  show "\<exists>e. renew (Finite n) tid wid lid s d = (Inl e, d)"
    by (simp add: renew_def none)
  show "\<exists>e. start (Finite n) tid wid lid d = (Inl e, d)"
    by (simp add: start_def none split: option.split)
  show "\<exists>e. start_with_ack (Finite n) tid wid lid det d = (Inl e, d)"
    by (simp add: start_with_ack_def none split: option.split)
  obtain r d' where run: "submit_result (Finite n) tid wid lid eid sha d = (r, d')" by fastforce
  have "\<exists>e. r = Inl e \<and> d' = d"
    using submit_result_guard [OF run]
  proof (elim disjE exE conjE)
    fix m u ex assume "now_of (Finite n) = Inr m" "find_task tid d = Some u"
      "t_lease_expires_at u = Some ex" "m < ex"
    with assms(2,3) show ?thesis by (simp add: sql_le_def split: if_splits)
  qed simp_all
  with run show "\<exists>e. submit_result (Finite n) tid wid lid eid sha d = (Inl e, d)" by blast
qed

text \<open>After its lease has expired a worker can no longer renew it, start the task or report a
  result for it: every such call fails and changes nothing.\<close>

theorem expired_lease_locked_out:
  assumes "store_reachable d" and "find_task tid d = Some t" and "sql_le (t_lease_expires_at t) n"
  shows "(\<exists>e. renew (Finite n) tid wid lid s d = (Inl e, d))
    \<and> (\<exists>e. start (Finite n) tid wid lid d = (Inl e, d))
    \<and> (\<exists>e. start_with_ack (Finite n) tid wid lid det d = (Inl e, d))
    \<and> (\<exists>e. submit_result (Finite n) tid wid lid eid sha d = (Inl e, d))"
  by (intro conjI allI impI expired_lease_locked_out_parts [OF assms])

theorem expired_lease_locked_out_witness:
  "\<exists>e. renew (Finite 31) ''t'' ''w'' ''L'' 10 sample_running = (Inl e, sample_running)"
  by (rule expired_lease_locked_out [OF sample_reachable(4), where t = "row RUNNING 2 (Some ''w'') (Some ''L'') (Some 31) (Some 0)",
        THEN conjunct1])
     (simp_all add: sample_running_eq eval_simps sample_defs)

lemma reclaim_expired_ok:
  assumes "db_inv d" and "\<not> db_locked d" and "find_task tid d = Some t" and "holds_lease t"
    and "t_lease_expires_at t = Some ex" and "ex \<le> n" and "0 \<le> n"
  shows "reclaim_expired (Finite n) tid d = (Inr (), audit tid ''LEASE_EXPIRED'' n (state_value (next_attempt_state t))
        (update_tasks (\<lambda>u. t_id u = tid \<and> holds_lease u \<and> sql_le (t_lease_expires_at u) n)
           (drop_lease (next_attempt_state t) (t_attempt_count t + 1) n) d))"
proof -
  have dist: "distinct (map t_id (db_tasks d))"
    using assms(1) by (simp add: db_inv_with_def tasks_inv_def)
  have one: "rowcount (\<lambda>u. t_id u = tid \<and> holds_lease u \<and> sql_le (t_lease_expires_at u) n) (db_tasks d) = 1"
    by (rule rowcount_one_distinct [OF dist, of t])
       (use find_task_D [OF assms(3)] assms(4-6) in \<open>auto simp: sql_le_def\<close>)
  with assms show ?thesis by (simp add: reclaim_expired_def)
qed

lemma find_reclaimed:
  assumes "find_task tid d = Some t" and "holds_lease t" and "t_lease_expires_at t = Some ex" and "ex \<le> n"
  shows "find_task i (audit tid e n x (update_tasks (\<lambda>u. t_id u = tid \<and> holds_lease u \<and> sql_le (t_lease_expires_at u) n)
           (drop_lease s a n) d)) = (if i = tid then Some (drop_lease s a n t) else find_task i d)"
  using assms find_task_D [of i d]
  by (cases "find_task i d") (auto simp: find_task_update_tasks sql_le_def dest: find_task_D)

text \<open>An expired lease never blocks a task for good: once it has expired, \<open>reclaim_expired\<close>
  succeeds on any reachable, unlocked database, frees the lease, counts the attempt, and puts the task
  back to \<open>RETRYING\<close> or, past its budget, to \<open>DEAD_LETTER\<close>.\<close>

theorem expired_lease_reclaimable:
  assumes "store_reachable d" and "\<not> db_locked d" and "find_task tid d = Some t" and "holds_lease t"
    and "t_lease_expires_at t = Some ex" and "ex \<le> n" and "0 \<le> n"
  shows "\<exists>d'. reclaim_expired (Finite n) tid d = (Inr (), d')
    \<and> find_task tid d' = Some (drop_lease (next_attempt_state t) (t_attempt_count t + 1) n t)"
  using reclaim_expired_ok [OF reachable_inv [OF assms(1)] assms(2-7)] find_reclaimed [OF assms(3-6)] by simp

theorem expired_lease_reclaimable_witness:
  "\<exists>d'. reclaim_expired (Finite 40) ''t'' sample_running = (Inr (), d')
     \<and> find_task ''t'' d' = Some (drop_lease RETRYING 1 40 (row RUNNING 2 (Some ''w'') (Some ''L'') (Some 31) (Some 0)))"
proof -
  let ?t = "row RUNNING 2 (Some ''w'') (Some ''L'') (Some 31) (Some 0)"
  have t: "holds_lease ?t" "t_lease_expires_at ?t = Some 31" "next_attempt_state ?t = RETRYING" "t_attempt_count ?t = 0"
    by (simp_all add: row_def holds_lease_def next_attempt_state_def)
  have "find_task ''t'' sample_running = Some (row RUNNING 2 (Some ''w'') (Some ''L'') (Some 31) (Some 0))"
    "\<not> db_locked sample_running"
    by (simp_all add: sample_running_eq eval_simps sample_defs)
  from expired_lease_reclaimable [OF sample_reachable(4) this(2,1) t(1,2), of 40] show ?thesis
    by (simp add: t(3,4))
qed

lemma non_owner_refused_parts:
  assumes "store_reachable d" and "find_task tid d = Some t"
    and "t_assigned_worker_id t \<noteq> Some wid \<or> t_lease_id t \<noteq> Some lid"
  shows "\<exists>e. renew now tid wid lid s d = (Inl e, d)"
    and "\<exists>e. start now tid wid lid d = (Inl e, d)"
    and "\<exists>e. start_with_ack now tid wid lid det d = (Inl e, d)"
    and "\<exists>e. fail_attempt now tid wid lid reason code d = (Inl e, d)"
    and "\<exists>e. submit_result now tid wid lid eid sha d = (Inl e, d)"
proof -
  have inv: "db_inv d" by (rule reachable_inv [OF assms(1)])
  have "\<not> owns_lease tid wid lid u" if "u \<in> set (db_tasks d)" for u
    using same_row' [OF inv assms(2) that] assms(3) by (auto simp: owns_lease_def)
  then have none: "rowcount (\<lambda>u. owns_lease tid wid lid u \<and> holds_lease u \<and> sql_gt (t_lease_expires_at u) n)
      (db_tasks d) = 0" "rowcount (startable n tid wid lid) (db_tasks d) = 0" for n
    by (simp_all add: rowcount_none startable_def)
  show "\<exists>e. renew now tid wid lid s d = (Inl e, d)"
    by (cases "now_of now") (simp_all add: renew_def none)
  show "\<exists>e. start now tid wid lid d = (Inl e, d)"
    by (cases "now_of now") (simp_all add: start_def none split: option.split)
  show "\<exists>e. start_with_ack now tid wid lid det d = (Inl e, d)"
    by (cases "now_of now") (simp_all add: start_with_ack_def none split: option.split)
  obtain r d' where run: "fail_attempt now tid wid lid reason code d = (r, d')" by fastforce
  have "clean tid = tid" by (rule find_task_stable [OF db_invD(1) [OF inv] assms(2)])
  with fail_attempt_D [OF run] assms(2,3) have "\<exists>e. r = Inl e \<and> d' = d"
    by (elim disjE exE conjE) simp_all
  with run show "\<exists>e. fail_attempt now tid wid lid reason code d = (Inl e, d)" by blast
  obtain r d' where run: "submit_result now tid wid lid eid sha d = (r, d')" by fastforce
  from submit_result_guard [OF run] assms(2,3) have "\<exists>e. r = Inl e \<and> d' = d"
    by (elim disjE exE conjE) simp_all
  with run show "\<exists>e. submit_result now tid wid lid eid sha d = (Inl e, d)" by blast
qed

text \<open>Only the owner of a lease acts on it: with another worker or another lease id, renewing,
  starting, failing and reporting are refused and change nothing.\<close>

theorem non_owner_refused:
  assumes "store_reachable d" and "find_task tid d = Some t"
    and "t_assigned_worker_id t \<noteq> Some wid \<or> t_lease_id t \<noteq> Some lid"
  shows "(\<exists>e. renew now tid wid lid s d = (Inl e, d))
    \<and> (\<exists>e. start now tid wid lid d = (Inl e, d))
    \<and> (\<exists>e. start_with_ack now tid wid lid det d = (Inl e, d))
    \<and> (\<exists>e. fail_attempt now tid wid lid reason code d = (Inl e, d))
    \<and> (\<exists>e. submit_result now tid wid lid eid sha d = (Inl e, d))"
  by (intro conjI allI impI non_owner_refused_parts [OF assms])

theorem non_owner_refused_witness:
  "\<exists>e. renew (Finite 3) ''t'' ''w'' ''other'' 10 sample_running = (Inl e, sample_running)"
  by (rule non_owner_refused [OF sample_reachable(4), where t = "row RUNNING 2 (Some ''w'') (Some ''L'') (Some 31) (Some 0)",
        THEN conjunct1])
     (simp_all add: sample_running_eq eval_simps sample_defs)

end
