(* ===== verification/StoreClaims2.thy ===== *)
theory StoreClaims2
  imports StoreClaims
begin

text \<open>
  More theorems on the store: evidence before completion, the human gate, reconciliation, the
  scheduling batch, idempotent creation, and two places where the code falls short of its intent.
\<close>

subsection \<open>Evidence and approval\<close>

text \<open>Nothing is reviewed or completed without evidence: for a task under review or completed, a
  row with a well-formed SHA-256 is stored under the task's identifier.\<close>

theorem completed_has_evidence:
  assumes "store_reachable d" and "find_task i d = Some t"
    and "t_state t = REVIEW_PENDING \<or> t_state t = COMPLETED"
  shows "\<exists>e \<in> set (db_evidence d). e_task_id e = i \<and> is_sha256 (e_sha256 e)"
proof -
  have inv: "db_inv d" by (rule reachable_inv [OF assms(1)])
  note t = find_task_D [OF assms(2)]
  from tasks_invD [OF db_invD(1) [OF inv]] t assms(3) have "i \<in> evidenced {} d"
    by (auto simp: task_ok_def evidence_ok_def)
  with db_invD(3) [OF inv] show ?thesis by (auto simp: evidenced_def evidence_inv_def)
qed

definition sample_sha :: string where
  "sample_sha = replicate 64 (CHR ''a'')"

definition sample_review :: db where
  "sample_review = snd (submit_result (Finite 5) ''t'' ''w'' ''L'' ''ev1'' sample_sha sample_running)"

lemma lower_sample_sha: "lower sample_sha = sample_sha"
  by (simp add: sample_sha_def lower_def lower_char_def is_upper_def)

lemma sample_sha_ok: "is_sha256 sample_sha"
  by (simp add: sample_sha_def is_sha256_def is_hex_def list_all_iff)

lemma sample_review_reachable: "store_reachable sample_review"
  unfolding sample_review_def by (rule reach_step [OF sample_reachable(4) step_submit])

lemma sample_review_row: "find_task ''t'' sample_review
    = Some ((row REVIEW_PENDING 5 (Some ''w'') (Some ''L'') (Some 31) (Some 0))\<lparr>t_evidence_status := ''RECEIVED''\<rparr>)"
  by (simp add: sample_review_def submit_result_def sample_running_eq sample_sha_ok result_reportable_def
      evidence_insert_ok_def eval_simps sample_defs)

theorem completed_has_evidence_witness:
  "\<exists>e \<in> set (db_evidence sample_review). e_task_id e = ''t'' \<and> is_sha256 (e_sha256 e)"
  by (rule completed_has_evidence [OF sample_review_reachable sample_review_row]) (simp add: row_def)

text \<open>The human gate never opens inside the store: a task created for human approval stays in
  \<open>WAITING_HUMAN\<close> under every sequence of operations, so it is never leased, run or completed
  (and no operation of the store releases it either).\<close>

theorem human_gate_closed:
  assumes "store_reachable d" and "find_task i d = Some t" and "t_requires_human_approval t"
    and "store_step\<^sup>*\<^sup>* d d'"
  shows "\<exists>t'. find_task i d' = Some t' \<and> t_state t' = WAITING_HUMAN"
proof -
  from assms(4) have "store_reachable d' \<and> (\<exists>t'. find_task i d' = Some t' \<and> t_requires_human_approval t')"
  proof (induction rule: rtranclp_induct)
    case base
    with assms show ?case by simp
  next
    case (step y z)
    then have "db_evolves y z" by (blast intro: step_evolves reachable_inv)
    with step.IH have "\<exists>t'. find_task i z = Some t' \<and> t_requires_human_approval t'"
      unfolding db_evolves_def task_evolves_def same_order_def by metis
    with step.IH step.hyps(2) show ?case by (blast intro: reach_step)
  qed
  then obtain t' where r: "store_reachable d'" and t': "find_task i d' = Some t'" "t_requires_human_approval t'"
    by blast
  from tasks_invD [OF db_invD(1) [OF reachable_inv [OF r]]] find_task_D [OF t'(1)] t'(2)
  have st: "t_state t' = WAITING_HUMAN" by (auto simp: task_ok_def approval_ok_def)
  with t'(1) show ?thesis by blast
qed

definition sample_gated :: db where
  "sample_gated = snd (create_task (Finite 0) ''g'' None ''repo'' ''test'' 5 True True (PyInt 1) sample_worker)"

theorem human_gate_closed_witness:
  "\<exists>t'. find_task ''g'' (snd (claim (Finite 1) ''g'' ''w'' (PyInt 30) ''L'' sample_gated)) = Some t'
     \<and> t_state t' = WAITING_HUMAN"
proof (rule human_gate_closed)
  have "clean (clean ''g'') = clean ''g''" by (simp add: is_alnum_def is_lower_def)
  then show "store_reachable sample_gated"
    unfolding sample_gated_def by (intro reach_step [OF sample_reachable(1)] step_create)
  show "find_task ''g'' sample_gated = Some (new_task ''g'' None ''repo'' ''test'' 5 True True 1 0)"
    by (simp add: sample_gated_def sample_worker_eq create_task_def create_task_insert_def new_task_def
      clean_or_none_def task_insert_ok_def insert_task_def MAX_RETRY_def eval_simps sample_defs)
  show "t_requires_human_approval (new_task ''g'' None ''repo'' ''test'' 5 True True 1 0)"
    by (simp add: new_task_def)
qed (blast intro: step_claim)

subsection \<open>Reconciliation\<close>

lemma reconcile_rows_result:
  assumes "db_inv d" and "distinct rs" and "\<forall>r \<in> set rs. running d r" and "\<not> db_locked d"
  shows "fst (reconcile_rows n rs d) = Inr rs
    \<and> (\<forall>r \<in> set rs. state_in (snd (reconcile_rows n rs d)) r \<in> {Some RETRYING, Some DEAD_LETTER})"
  using assms
proof (induction rs arbitrary: d)
  case (Cons r rs)
  from Cons.prems(3) obtain t where t: "find_task r d = Some t" "t_state t = RUNNING"
    by (auto simp: running_def)
  have stable: "clean r = r" by (rule find_task_stable [OF db_invD(1) [OF Cons.prems(1)] t(1)])
  have got: "get_task r d = Inr t" by (simp add: get_task_def stable t)
  let ?d = "reconcile_row n r t d"
  have inv: "db_inv ?d"
    by (rule reconcile_row_inv) (simp_all add: Cons.prems(1) stable t holds_lease_def)
  have run: "\<forall>q \<in> set rs. running ?d q"
    using Cons.prems(2,3) unfolding running_def by (metis distinct.simps(2) find_task_reconcile_row list.set_intros(2))
  have unlocked: "\<not> db_locked ?d" using Cons.prems(4) by (simp add: reconcile_row_def)
  from Cons.prems(2) have dist: "distinct rs" "r \<notin> set rs" by simp_all
  note IH = Cons.IH [OF inv dist(1) run unlocked]
  have "find_task r ?d = map_option (\<lambda>u. if t_id u = r then (drop_lease (next_attempt_state t)
        (t_attempt_count t + 1) n u)\<lparr>t_error_code := Some ''STALE_WORKER''\<rparr> else u) (find_task r d)"
    by (simp add: reconcile_row_def find_task_update_tasks)
  with t find_task_D [OF t(1)] have "state_in ?d r \<in> {Some RETRYING, Some DEAD_LETTER}"
    by (simp add: state_in_def drop_lease_def next_attempt_state_def)
  then have "state_in (snd (reconcile_rows n rs ?d)) r \<in> {Some RETRYING, Some DEAD_LETTER}"
    unfolding state_in_def by (simp add: reconcile_rows_frame dist(2))
  with IH got Cons.prems(4) show ?case
    by (cases "reconcile_rows n rs ?d") auto
qed simp

lemma reconcile_rows_frame_all:
  "\<not> db_locked d \<Longrightarrow> db_workers (snd (reconcile_rows n rs d)) = db_workers d"
proof (induction rs arbitrary: d)
  case (Cons r rs)
  then show ?case
    unfolding snd_reconcile_rows by (auto simp: reconcile_row_def split: sum.split)
qed simp

lemma reconcile_no_stale:
  assumes inv: "db_inv d" and "\<not> db_locked d" and "reconcile_stale_workers (Finite n) d = (r, d')" and "0 \<le> n"
  shows "\<exists>ids. r = Inr ids \<and> (\<forall>t \<in> set (db_tasks d'). \<not> stale_owned n d' t)
    \<and> (\<forall>i. i \<notin> set ids \<longrightarrow> find_task i d' = find_task i d)
    \<and> (\<forall>i \<in> set ids. \<exists>t. find_task i d = Some t \<and> stale_owned n d t)"
proof -
  let ?ids = "sort (map t_id (filter (stale_owned n d) (db_tasks d)))"
  have dist: "distinct ?ids" using db_invD(1) [OF inv] by (simp add: tasks_inv_def distinct_map_filter)
  have run: "\<forall>i \<in> set ?ids. running d i" using stale_rows_running [OF inv] by blast
  note res = reconcile_rows_result [OF inv dist run assms(2), of n]
  from assms(3,4) have eq: "r = fst (reconcile_rows n ?ids d)" "d' = snd (reconcile_rows n ?ids d)"
    by (simp_all add: reconcile_stale_workers_def)
  have inv': "db_inv d'" unfolding eq by (rule reconcile_rows_inv [OF inv dist run])
  have "\<not> stale_owned n d' t" if t: "t \<in> set (db_tasks d')" for t
  proof
    assume stale: "stale_owned n d' t"
    have found: "find_task (t_id t) d' = Some t" by (rule tasks_inv_find [OF db_invD(1) [OF inv'] t refl])
    show False
    proof (cases "t_id t \<in> set ?ids")
      case True
      with res have "state_in d' (t_id t) \<in> {Some RETRYING, Some DEAD_LETTER}" unfolding eq by blast
      with found stale show False by (auto simp: state_in_def stale_owned_def)
    next
      case False
      from found have "find_task (t_id t) d = Some t"
        unfolding eq reconcile_rows_frame [OF False] .
      then have "t \<in> set (db_tasks d)" by (rule find_task_D [THEN conjunct1])
      moreover have "stale_owned n d t"
        using stale reconcile_rows_frame_all [OF assms(2)] by (simp add: stale_owned_def eq)
      ultimately show False using False by auto
    qed
  qed
  moreover have "\<forall>i. i \<notin> set ?ids \<longrightarrow> find_task i d' = find_task i d"
    unfolding eq by (blast intro: reconcile_rows_frame)
  moreover have "\<forall>i \<in> set ?ids. \<exists>t. find_task i d = Some t \<and> stale_owned n d t"
    using tasks_inv_find [OF db_invD(1) [OF inv]] by auto
  ultimately show ?thesis using res eq by blast
qed

text \<open>After reconciliation no running task belongs to a stale worker any more, every task that
  was taken back is named in the result, and no other task was touched.\<close>

theorem reconcile_leaves_no_stale:
  assumes "store_reachable d" and "\<not> db_locked d" and "reconcile_stale_workers (Finite n) d = (r, d')" and "0 \<le> n"
  shows "\<exists>ids. r = Inr ids \<and> (\<forall>t \<in> set (db_tasks d'). \<not> stale_owned n d' t)
    \<and> (\<forall>i. i \<notin> set ids \<longrightarrow> find_task i d' = find_task i d)
    \<and> (\<forall>i \<in> set ids. \<exists>t. find_task i d = Some t \<and> stale_owned n d t)"
  by (rule reconcile_no_stale [OF reachable_inv [OF assms(1)] assms(2-4)])

theorem reconcile_leaves_no_stale_witness:
  "\<exists>ids. fst (reconcile_stale_workers (Finite 20) sample_running) = Inr ids"
proof -
  obtain r d' where run: "reconcile_stale_workers (Finite 20) sample_running = (r, d')" by fastforce
  have "\<not> db_locked sample_running" by (simp add: sample_running_eq sample_defs)
  from reconcile_leaves_no_stale [OF sample_reachable(4) this run] run show ?thesis by auto
qed

subsection \<open>Creation and scheduling\<close>

lemma find_directive_insert:
  assumes "task_insert_ok t d" and "t_directive_id t \<noteq> None"
  shows "find (\<lambda>u. t_directive_id u = t_directive_id t) (db_tasks d @ [t]) = Some t"
proof -
  have "find (\<lambda>u. t_directive_id u = t_directive_id t) (db_tasks d) = None"
    using assms by (auto simp: task_insert_ok_def find_None_iff)
  then show ?thesis by (simp add: find_append)
qed

text \<open>Creation is idempotent in the directive: repeating a successful creation, at any time and
  with any other priority, gates or budget, returns the same task and changes nothing.\<close>

theorem create_task_idempotent:
  assumes "create_task now tid (Some s) target cap prio human gov budget d = (Inr t, d')"
    and "s \<noteq> []" and "clean s \<noteq> []"
    and "now_of now' = Inr n'" and "as_int budget' = Some b'" and "0 \<le> b'" and "b' \<le> MAX_RETRY"
  shows "create_task now' tid (Some s) target cap prio' human' gov' budget' d' = (Inr t, d')"
proof -
  obtain n b where n: "now_of now = Inr n" and b: "as_int budget = Some b" "0 \<le> b" "b \<le> MAX_RETRY"
    using assms(1) unfolding create_task_def
    by (cases "now_of now"; cases "as_int budget") (auto split: if_splits)
  note run = assms(1) [unfolded create_task_def n b(1) sum.case option.case, simplified b assms(2), simplified]
  show ?thesis
  proof (cases "find (\<lambda>u. t_directive_id u = Some (clean s)) (db_tasks d)")
    case (Some r)
    with run have "r = t" "d' = d" "(t_id r, t_target_project r, t_capability r) = (clean tid, clean target, clean cap)"
      by (auto split: if_splits)
    with Some show ?thesis by (simp add: create_task_def assms(2-7))
  next
    case None
    let ?t = "new_task (clean tid) (clean_or_none (Some s)) (clean target) (clean cap) prio human gov b n"
    let ?d = "audit tid ''CREATED'' n (state_value (t_state ?t)) (insert_task ?t d)"
    from None run have "create_task_insert tid (Some s) target cap prio human gov b n d = (Inr t, d')" by simp
    then have ok: "task_insert_ok ?t d" and d': "d' = ?d" and got: "get_task tid ?d = Inr t"
      by (auto simp: create_task_insert_def Let_def split: if_splits)
    have dir: "t_directive_id ?t = Some (clean s)" by (simp add: new_task_def clean_or_none_def assms(3))
    have "find (\<lambda>u. t_id u = clean tid) (db_tasks d) = None"
      using ok by (auto simp: task_insert_ok_def find_None_iff new_task_def)
    then have "find_task (clean tid) ?d = Some ?t"
      by (simp add: find_task_def find_append new_task_def)
    with get_task_D [OF got] have t: "t = ?t" by simp
    from find_directive_insert [OF ok] dir
    have "find (\<lambda>u. t_directive_id u = Some (clean s)) (db_tasks d') = Some t"
      by (simp add: d' t)
    then show ?thesis
      by (simp add: create_task_def assms(2-7)) (simp add: t new_task_def)
  qed
qed

theorem create_task_idempotent_witness:
  "create_task (Finite 9) ''t'' (Some ''d'') ''repo'' ''test'' 1 True False (PyInt 0) sample_queued
     = (Inr (row QUEUED 0 None None None None), sample_queued)"
proof (rule create_task_idempotent [where now = "Finite 0" and d = sample_worker and prio = 5
      and human = False and gov = True and budget = "PyInt 1" and b' = 0 and n' = 9])
  show "create_task (Finite 0) ''t'' (Some ''d'') ''repo'' ''test'' 5 False True (PyInt 1) sample_worker
      = (Inr (row QUEUED 0 None None None None), sample_queued)"
    by (simp add: sample_queued_eq sample_worker_eq create_task_def create_task_insert_def new_task_def
      get_task_def clean_or_none_def task_insert_ok_def insert_task_def MAX_RETRY_def eval_simps sample_defs)
qed (simp_all add: MAX_RETRY_def eval_simps)

text \<open>The scheduling batch is the best of the queue: it holds at most \<open>limit\<close> tasks, all of them
  schedulable, in the order of priority, age and identifier, and a schedulable task is left out
  only when the batch is full, and then no task of the batch comes after it.\<close>

theorem schedulable_tasks_best:
  assumes "schedulable_tasks (PyInt k) d = Inr b"
  shows "0 < k \<and> length b \<le> nat k \<and> sorted (map sched_key_of b)
    \<and> (\<forall>t \<in> set b. t \<in> set (db_tasks d) \<and> schedulable t)
    \<and> (\<forall>u \<in> set (db_tasks d). schedulable u \<longrightarrow> u \<notin> set b \<longrightarrow>
         length b = nat k \<and> (\<forall>t \<in> set b. sched_key_of t \<le> sched_key_of u))"
proof -
  let ?xs = "sort_key sched_key_of (filter schedulable (db_tasks d))"
  from assms have k: "0 < k" and b: "b = take (nat k) ?xs"
    by (auto simp: schedulable_tasks_def split: if_splits)
  have split: "?xs = b @ drop (nat k) ?xs" unfolding b by simp
  have "sorted (map sched_key_of (b @ drop (nat k) ?xs))"
    unfolding split [symmetric] by (rule sorted_sort_key)
  then have sorted: "sorted (map sched_key_of b)"
      "\<forall>t \<in> set b. \<forall>u \<in> set (drop (nat k) ?xs). sched_key_of t \<le> sched_key_of u"
    by (auto simp: sorted_append)
  have out: "length b = nat k \<and> u \<in> set (drop (nat k) ?xs)"
    if "u \<in> set (db_tasks d)" "schedulable u" "u \<notin> set b" for u
  proof -
    have "u \<in> set ?xs" using that by simp
    then have "u \<in> set b \<union> set (drop (nat k) ?xs)" using split by (metis set_append)
    with that(3) have u: "u \<in> set (drop (nat k) ?xs)" by blast
    then have "nat k < length ?xs" by (cases "nat k < length ?xs") auto
    then have "length b = nat k" unfolding b length_take by (rule min.absorb2 [OF less_imp_le])
    with u show ?thesis by blast
  qed
  have "set b \<subseteq> set ?xs" unfolding b by (rule set_take_subset)
  with k sorted out show ?thesis by (auto simp: b)
qed

theorem schedulable_tasks_best_witness:
  "sorted (map sched_key_of [row QUEUED 0 None None None None])"
proof -
  have "schedulable_tasks (PyInt 3) sample_queued = Inr [row QUEUED 0 None None None None]"
    by (simp add: schedulable_tasks_def sample_queued_eq schedulable_def eval_simps sample_defs)
  from schedulable_tasks_best [OF this] show ?thesis by blast
qed

subsection \<open>Where the code falls short\<close>

lemma evidence_pending_stranded_parts:
  assumes "store_reachable d" and "find_task i d = Some t" and "t_state t = EVIDENCE_PENDING"
    and "sql_le (t_lease_expires_at t) n" and "0 \<le> n"
  shows "\<exists>e. reclaim_expired (Finite n) i d = (Inl e, d)"
    and "\<exists>e. claim (Finite n) i wid secs lid d = (Inl e, d)"
    and "\<exists>e. submit_result (Finite n) i wid lid eid sha d = (Inl e, d)"
    and "\<exists>ids. expired_lease_tasks (Finite n) d = Inr ids \<and> i \<notin> set ids"
    and "schedulable_tasks k d = Inr b \<Longrightarrow> t \<notin> set b"
    and "find_task i (snd (reconcile_stale_workers (Finite n) d)) = Some t"
proof -
  have inv: "db_inv d" by (rule reachable_inv [OF assms(1)])
  have free: "\<not> holds_lease t" "t_state t \<notin> LEASEABLE" by (auto simp: assms(3) holds_lease_def LEASEABLE_def)
  show "\<exists>e. reclaim_expired (Finite n) i d = (Inl e, d)"
    by (simp add: reclaim_expired_def assms free)
  obtain r d' where run: "claim (Finite n) i wid secs lid d = (r, d')" by fastforce
  from claim_D [OF run] assms(2) free have "\<exists>e. r = Inl e \<and> d' = d" by (elim disjE exE conjE) simp_all
  with run show "\<exists>e. claim (Finite n) i wid secs lid d = (Inl e, d)" by blast
  obtain r d' where run: "submit_result (Finite n) i wid lid eid sha d = (r, d')" by fastforce
  from submit_result_guard [OF run] assms(2,4,5) have "\<exists>e. r = Inl e \<and> d' = d"
    by (elim disjE exE conjE) (simp_all add: sql_le_def)
  with run show "\<exists>e. submit_result (Finite n) i wid lid eid sha d = (Inl e, d)" by blast
  have other: "u = t" if "u \<in> set (db_tasks d)" "t_id u = i" for u
    using same_row' [OF inv assms(2) that] .
  with free show "\<exists>ids. expired_lease_tasks (Finite n) d = Inr ids \<and> i \<notin> set ids"
    using assms(5) by (auto simp: expired_lease_tasks_def)
  show "t \<notin> set b" if "schedulable_tasks k d = Inr b"
    using that free by (auto simp: schedulable_tasks_def schedulable_def split: option.splits if_splits
        dest: in_set_takeD)
  have "i \<notin> set (sort (map t_id (filter (stale_owned n d) (db_tasks d))))"
    using other assms(3) by (auto simp: stale_owned_def)
  then show "find_task i (snd (reconcile_stale_workers (Finite n) d)) = Some t"
    using assms(2,5) by (simp add: reconcile_stale_workers_def reconcile_rows_frame)
qed

text \<open>A task whose worker reported malformed evidence is stranded when its lease runs out: the
  expired lease is not listed, reclaiming and reconciling leave the task alone, no batch offers it, no
  claim takes it, and its owner's late report is refused.\<close>

theorem evidence_pending_stranded:
  assumes "store_reachable d" and "find_task i d = Some t" and "t_state t = EVIDENCE_PENDING"
    and "sql_le (t_lease_expires_at t) n" and "0 \<le> n"
  shows "(\<exists>e. reclaim_expired (Finite n) i d = (Inl e, d))
    \<and> (\<exists>e. claim (Finite n) i wid secs lid d = (Inl e, d))
    \<and> (\<exists>e. submit_result (Finite n) i wid lid eid sha d = (Inl e, d))
    \<and> (\<exists>ids. expired_lease_tasks (Finite n) d = Inr ids \<and> i \<notin> set ids)
    \<and> (\<forall>k b. schedulable_tasks k d = Inr b \<longrightarrow> t \<notin> set b)
    \<and> find_task i (snd (reconcile_stale_workers (Finite n) d)) = Some t"
  by (intro conjI allI impI evidence_pending_stranded_parts [OF assms])

definition sample_pending :: db where
  "sample_pending = snd (submit_result (Finite 5) ''t'' ''w'' ''L'' ''ev1'' ''zz'' sample_running)"

theorem evidence_pending_stranded_witness:
  "\<exists>e. reclaim_expired (Finite 40) ''t'' sample_pending = (Inl e, sample_pending)"
proof (rule evidence_pending_stranded [THEN conjunct1])
  show "store_reachable sample_pending"
    unfolding sample_pending_def by (rule reach_step [OF sample_reachable(4) step_submit])
  show "find_task ''t'' sample_pending = Some ((row EVIDENCE_PENDING 2 (Some ''w'') (Some ''L'') (Some 31) (Some 0))
      \<lparr>t_evidence_status := ''MISSING_OR_INVALID''\<rparr>)"
    by (simp add: sample_pending_def submit_result_def sample_running_eq result_reportable_def is_sha256_def
        eval_simps sample_defs)
qed (simp_all add: row_def sql_le_def)

text \<open>Redaction can be undone by the character filter that runs after it: a secret whose keyword is
  broken by a dropped character is stored in clear, and so \<open>clean\<close> is not idempotent, which the store
  relies on when it cleans an identifier again to look a task up.\<close>

theorem clean_reassembles_secret:
  "clean ''tok<en=abc'' = ''token=abc'' \<and> clean (clean ''tok<en=abc'') = ''token=[REDACTED]''"
  by code_simp

end
