(* ===== verification/Scheduler.thy ===== *)
theory Scheduler
  imports StoreClaims2
begin

text \<open>
  The bounded scheduler (\<open>src/autonomy/scheduler.py\<close>), the supervisor
  (\<open>src/autonomy/supervisor.py\<close>) and the in-process test worker
  (\<open>src/autonomy/worker.py\<close>). \<open>uuid\<close> gives the lease identifier drawn when a task is claimed;
  a worker adapter is a record with its \<open>accept\<close> function; the hash is a parameter. Everything they
  do to the database they do through the store, so every run is a sequence of store steps.
\<close>

subsection \<open>Scheduler\<close>

record scheduler =
  sc_batch_size :: int
  sc_cadence :: rat
  sc_status :: string
  sc_last_loop :: "rat option"
  sc_last_error :: "string option"

definition new_scheduler :: "pyval \<Rightarrow> rat \<Rightarrow> scheduler res" where
  "new_scheduler batch cadence = (case as_int batch of
      None \<Rightarrow> Inl (BlockedError ''invalid batch size'')
    | Some k \<Rightarrow> if k \<le> 0 then Inl (BlockedError ''invalid batch size'')
        else if cadence \<le> 0 then Inl (BlockedError ''invalid cadence'')
        else Inr \<lparr>sc_batch_size = k, sc_cadence = cadence, sc_status = ''IDLE'', sc_last_loop = None,
                  sc_last_error = None\<rparr>)"

text \<open>Routing and claiming one task of the batch; the lease lasts the default 30 seconds.\<close>

definition schedule_task :: "rat \<Rightarrow> (string \<Rightarrow> string) \<Rightarrow> string \<Rightarrow> db \<Rightarrow> lease option res \<times> db" where
  "schedule_task n uuid tid d = (case route_or_wait (Finite n) tid d of
      (Inl e, d1) \<Rightarrow> (Inl e, d1)
    | (Inr None, d1) \<Rightarrow> (Inr None, d1)
    | (Inr (Some w), d1) \<Rightarrow> (case claim (Finite n) tid w (PyInt 30) (uuid tid) d1 of
          (Inl e, d2) \<Rightarrow> (Inl e, d2)
        | (Inr l, d2) \<Rightarrow> (Inr (Some l), d2)))"

text \<open>The loop over the batch; an exception of one task is recorded and the loop goes on.\<close>

fun schedule_loop :: "rat \<Rightarrow> (string \<Rightarrow> string) \<Rightarrow> string list \<Rightarrow> lease list \<Rightarrow> string option \<Rightarrow> db
    \<Rightarrow> lease list \<times> string option \<times> db" where
  "schedule_loop n uuid [] ls err d = (ls, err, d)"
| "schedule_loop n uuid (i # is) ls err d = (case schedule_task n uuid i d of
      (Inl e, d1) \<Rightarrow> schedule_loop n uuid is ls (Some (err_class e)) d1
    | (Inr None, d1) \<Rightarrow> schedule_loop n uuid is ls err d1
    | (Inr (Some l), d1) \<Rightarrow> schedule_loop n uuid is (ls @ [l]) err d1)"

definition schedule_once :: "pyfloat \<Rightarrow> (string \<Rightarrow> string) \<Rightarrow> scheduler \<Rightarrow> db \<Rightarrow> lease list res \<times> scheduler \<times> db" where
  "schedule_once now uuid s d = (case now_of now of
      Inl e \<Rightarrow> (Inl e, s, d)
    | Inr n \<Rightarrow> (case schedulable_tasks (PyInt (sc_batch_size s)) d of
          Inl e \<Rightarrow> (Inl e, s\<lparr>sc_status := ''RUNNING'', sc_last_error := None\<rparr>, d)
        | Inr ts \<Rightarrow> (case schedule_loop n uuid (map t_id ts) [] None d of
            (ls, err, d1) \<Rightarrow> (Inr ls, s\<lparr>sc_status := ''IDLE'', sc_last_loop := Some n, sc_last_error := err\<rparr>, d1))))"

text \<open>
  \<open>run\<close>: the clock is read once per iteration; sleeping between iterations has no effect on the
  state. An exception ends the run.
\<close>

fun run_loop :: "(nat \<Rightarrow> pyfloat) \<Rightarrow> (nat \<Rightarrow> string \<Rightarrow> string) \<Rightarrow> nat \<Rightarrow> nat \<Rightarrow> scheduler \<Rightarrow> db
    \<Rightarrow> lease list list res \<times> scheduler \<times> db" where
  "run_loop clock uuid k 0 s d = (Inr [], s, d)"
| "run_loop clock uuid k (Suc m) s d = (case schedule_once (clock k) (uuid k) s d of
      (Inl e, s1, d1) \<Rightarrow> (Inl e, s1, d1)
    | (Inr ls, s1, d1) \<Rightarrow> (case run_loop clock uuid (Suc k) m s1 d1 of
          (Inl e, s2, d2) \<Rightarrow> (Inl e, s2, d2)
        | (Inr r, s2, d2) \<Rightarrow> (Inr (ls # r), s2, d2)))"

definition scheduler_run :: "(nat \<Rightarrow> pyfloat) \<Rightarrow> (nat \<Rightarrow> string \<Rightarrow> string) \<Rightarrow> int \<Rightarrow> scheduler \<Rightarrow> db
    \<Rightarrow> lease list list res \<times> scheduler \<times> db" where
  "scheduler_run clock uuid iterations s d =
     (if iterations < 0 then (Inl (BlockedError ''invalid iterations''), s, d)
      else run_loop clock uuid 0 (nat iterations) s d)"

subsection \<open>Worker adapters\<close>

record worker_result =
  wr_evidence_id :: string
  wr_evidence_sha256 :: string
  wr_summary :: string

record adapter =
  ad_worker_id :: string
  ad_kind :: string
  ad_capabilities :: "string list"
  ad_targets :: "string list"
  ad_capacity :: int
  ad_heartbeat_sla :: rat
  ad_accept :: "task \<Rightarrow> lease \<Rightarrow> worker_result res"

definition readonly_accept :: "(string \<Rightarrow> string) \<Rightarrow> string \<Rightarrow> bool \<Rightarrow> task \<Rightarrow> lease \<Rightarrow> worker_result res" where
  "readonly_accept sha256 wid fail t l =
     (if fail then Inl (BlockedError ''read-only worker failure'')
      else if l_worker_id l \<noteq> wid \<or> l_task_id l \<noteq> t_id t then Inl (BlockedError ''lease ownership mismatch'')
      else Inr \<lparr>wr_evidence_id = ''readonly:'' @ clean (t_id t),
                wr_evidence_sha256 = sha256 (t_id t @ ''|'' @ l_lease_id l @ ''|READ_ONLY''),
                wr_summary = ''READ_ONLY_RESULT''\<rparr>)"

definition ReadOnlyTestWorker :: "(string \<Rightarrow> string) \<Rightarrow> string \<Rightarrow> string list \<Rightarrow> string list \<Rightarrow> int \<Rightarrow> rat \<Rightarrow> bool
    \<Rightarrow> adapter res" where
  "ReadOnlyTestWorker sha256 wid caps targets capacity sla fail =
     (if capacity < 0 \<or> sla \<le> 0 then Inl (BlockedError ''invalid worker adapter'')
      else Inr \<lparr>ad_worker_id = clean wid, ad_kind = ''in-process-read-only-test'', ad_capabilities = caps,
                ad_targets = targets, ad_capacity = capacity, ad_heartbeat_sla = sla,
                ad_accept = readonly_accept sha256 (clean wid) fail\<rparr>)"

subsection \<open>Supervisor\<close>

text \<open>\<open>{adapter.worker_id: adapter for adapter in adapters}\<close>.\<close>

definition adapter_table :: "adapter list \<Rightarrow> (string \<times> adapter) list" where
  "adapter_table ads = foldl (\<lambda>m a. AList.update (ad_worker_id a) a m) [] ads"

fun register_adapters_loop :: "rat \<Rightarrow> adapter list \<Rightarrow> db \<Rightarrow> unit res \<times> db" where
  "register_adapters_loop n [] d = (Inr (), d)"
| "register_adapters_loop n (a # as) d =
     (case register_worker (Finite n) (ad_worker_id a) (ad_kind a) (ad_capabilities a) (ad_targets a)
            (ad_heartbeat_sla a) (ad_capacity a) d of
        (Inl e, d1) \<Rightarrow> (Inl e, d1)
      | (Inr _, d1) \<Rightarrow> register_adapters_loop n as d1)"

definition register_adapters :: "pyfloat \<Rightarrow> (string \<times> adapter) list \<Rightarrow> db \<Rightarrow> unit res \<times> db" where
  "register_adapters now ads d = (case now_of now of Inl e \<Rightarrow> (Inl e, d)
     | Inr n \<Rightarrow> register_adapters_loop n (map snd ads) d)"

text \<open>Expired leases one by one; a blocked reclaim is skipped, any other exception escapes.\<close>

fun reclaim_loop :: "rat \<Rightarrow> string list \<Rightarrow> string list \<Rightarrow> db \<Rightarrow> string list res \<times> db" where
  "reclaim_loop n [] changed d = (Inr changed, d)"
| "reclaim_loop n (i # is) changed d = (case reclaim_expired (Finite n) i d of
      (Inl e, d1) \<Rightarrow> if is_blocked e then reclaim_loop n is changed d1 else (Inl e, d1)
    | (Inr _, d1) \<Rightarrow> reclaim_loop n is (changed @ [i]) d1)"

definition reconcile :: "pyfloat \<Rightarrow> db \<Rightarrow> string list res \<times> db" where
  "reconcile now d = (case now_of now of Inl e \<Rightarrow> (Inl e, d) | Inr n \<Rightarrow>
     (case reconcile_stale_workers (Finite n) d of
        (Inl e, d1) \<Rightarrow> (Inl e, d1)
      | (Inr stale, d1) \<Rightarrow> (case expired_lease_tasks (Finite n) d1 of
            Inl e \<Rightarrow> (Inl e, d1)
          | Inr ids \<Rightarrow> (case reclaim_loop n ids stale d1 of
                (Inl e, d2) \<Rightarrow> (Inl e, d2)
              | (Inr changed, d2) \<Rightarrow> (Inr (sort (remdups changed)), d2)))))"

text \<open>The body of the \<open>try\<close> in \<open>run_once\<close>: check, start, accept, submit.\<close>

definition work_lease :: "rat \<Rightarrow> adapter \<Rightarrow> lease \<Rightarrow> db \<Rightarrow> unit res \<times> db" where
  "work_lease n a l d = (case get_task (l_task_id l) d of
      Inl e \<Rightarrow> (Inl e, d)
    | Inr cur \<Rightarrow>
        if t_lease_id cur \<noteq> Some (l_lease_id l) then (Inl (BlockedError ''lease or worker truth lost''), d)
        else (case worker_status (Finite n) (ad_worker_id a) d of
            Inl e \<Rightarrow> (Inl e, d)
          | Inr v \<Rightarrow>
              if \<not> v_available v then (Inl (BlockedError ''lease or worker truth lost''), d)
              else (case start (Finite n) (l_task_id l) (ad_worker_id a) (l_lease_id l) d of
                  (Inl e, d1) \<Rightarrow> (Inl e, d1)
                | (Inr _, d1) \<Rightarrow> (case ad_accept a cur l of
                      Inl e \<Rightarrow> (Inl e, d1)
                    | Inr r \<Rightarrow> submit_result (Finite n) (l_task_id l) (ad_worker_id a) (l_lease_id l)
                                 (wr_evidence_id r) (wr_evidence_sha256 r) d1))))"

text \<open>
  One lease of the cycle. A failed attempt is recorded and reported to the store; a refusal of that
  report is ignored, any other exception of it escapes the whole cycle.
\<close>

definition run_lease :: "rat \<Rightarrow> (string \<times> adapter) list \<Rightarrow> lease \<Rightarrow> db \<Rightarrow> (string \<times> string) list res \<times> db" where
  "run_lease n ads l d = (case map_of ads (l_worker_id l) of
      None \<Rightarrow> (Inr [(l_task_id l, ''ADAPTER_NOT_CONNECTED'')], d)
    | Some a \<Rightarrow> (case work_lease n a l d of
          (Inr _, d1) \<Rightarrow> (Inr [], d1)
        | (Inl e, d1) \<Rightarrow> (case fail_attempt (Finite n) (l_task_id l) (l_worker_id l) (l_lease_id l)
                              ''worker adapter failed'' (err_class e) d1 of
              (Inl f, d2) \<Rightarrow> if is_blocked f then (Inr [(l_task_id l, clean (err_class e))], d2) else (Inl f, d2)
            | (Inr _, d2) \<Rightarrow> (Inr [(l_task_id l, clean (err_class e))], d2))))"

fun run_leases :: "rat \<Rightarrow> (string \<times> adapter) list \<Rightarrow> lease list \<Rightarrow> db \<Rightarrow> (string \<times> string) list res \<times> db" where
  "run_leases n ads [] d = (Inr [], d)"
| "run_leases n ads (l # ls) d = (case run_lease n ads l d of
      (Inl e, d1) \<Rightarrow> (Inl e, d1)
    | (Inr es, d1) \<Rightarrow> (case run_leases n ads ls d1 of
          (Inl e, d2) \<Rightarrow> (Inl e, d2)
        | (Inr fs, d2) \<Rightarrow> (Inr (es @ fs), d2)))"

definition run_once :: "pyfloat \<Rightarrow> (string \<Rightarrow> string) \<Rightarrow> (string \<times> adapter) list \<Rightarrow> scheduler \<Rightarrow> db
    \<Rightarrow> (lease list \<times> (string \<times> string) list) res \<times> scheduler \<times> db" where
  "run_once now uuid ads s d = (case now_of now of Inl e \<Rightarrow> (Inl e, s, d) | Inr n \<Rightarrow>
     (case reconcile (Finite n) d of
        (Inl e, d1) \<Rightarrow> (Inl e, s, d1)
      | (Inr _, d1) \<Rightarrow> (case schedule_once (Finite n) uuid s d1 of
            (Inl e, s1, d2) \<Rightarrow> (Inl e, s1, d2)
          | (Inr ls, s1, d2) \<Rightarrow> (case run_leases n ads ls d2 of
                (Inl e, d3) \<Rightarrow> (Inl e, s1, d3)
              | (Inr es, d3) \<Rightarrow> (Inr (ls, es), s1, d3)))))"

text \<open>The health projection reads only; \<open>heartbeat_age\<close> is not negative.\<close>

record lease_view =
  lv_task_id :: string
  lv_worker_id :: "string option"
  lv_state :: TaskState
  lv_expires_at :: "rat option"
  lv_expired :: bool
  lv_heartbeat_age :: "rat option"

definition lease_view_of :: "rat \<Rightarrow> task \<times> bool \<Rightarrow> lease_view" where
  "lease_view_of n tx = (case tx of (t, x) \<Rightarrow>
     \<lparr>lv_task_id = t_id t, lv_worker_id = t_assigned_worker_id t, lv_state = t_state t,
      lv_expires_at = t_lease_expires_at t, lv_expired = x,
      lv_heartbeat_age = map_option (\<lambda>h. max 0 (n - h)) (t_last_worker_heartbeat t)\<rparr>)"

record health =
  h_status :: string
  h_last_loop :: "rat option"
  h_last_error :: string
  h_counts :: "(TaskState \<times> nat) list"
  h_workers :: "worker_view list"
  h_leases :: "lease_view list"

definition health_snapshot :: "pyfloat \<Rightarrow> scheduler \<Rightarrow> db \<Rightarrow> health res" where
  "health_snapshot now s d = (case now_of now of Inl e \<Rightarrow> Inl e | Inr n \<Rightarrow>
     (case state_counts d of Inl e \<Rightarrow> Inl e | Inr counts \<Rightarrow>
     (case workers (Finite n) d of Inl e \<Rightarrow> Inl e | Inr ws \<Rightarrow>
     (case active_leases (Finite n) d of Inl e \<Rightarrow> Inl e | Inr ls \<Rightarrow>
        Inr \<lparr>h_status = sc_status s, h_last_loop = sc_last_loop s,
             h_last_error = (case sc_last_error s of None \<Rightarrow> ''UNKNOWN''
                | Some x \<Rightarrow> if x = [] then ''UNKNOWN'' else x),
             h_counts = map (\<lambda>k. (k, counts k)) [QUEUED, WAITING_CAPACITY, RUNNING, RETRYING, DEAD_LETTER],
             h_workers = ws, h_leases = map (lease_view_of n) ls\<rparr>))))"

subsection \<open>Every run is a sequence of store steps\<close>

lemma step_refl_pair: "store_step\<^sup>*\<^sup>* d (snd (r, d))"
  by simp

lemma op_steps:
  "store_step\<^sup>*\<^sup>* d (snd (register_worker now wid kind caps targets sla capacity d))"
  "store_step\<^sup>*\<^sup>* d (snd (claim now tid wid secs lid d))"
  "store_step\<^sup>*\<^sup>* d (snd (start now tid wid lid d))"
  "store_step\<^sup>*\<^sup>* d (snd (reclaim_expired now tid d))"
  "store_step\<^sup>*\<^sup>* d (snd (reconcile_stale_workers now d))"
  "store_step\<^sup>*\<^sup>* d (snd (fail_attempt now tid wid lid reason code d))"
  "store_step\<^sup>*\<^sup>* d (snd (submit_result now tid wid lid eid sha d))"
  "store_step\<^sup>*\<^sup>* d (snd (route_or_wait now tid d))"
  by (rule r_into_rtranclp, rule store_step.intros)+

lemma step_by:
  "f d = (r, d') \<Longrightarrow> store_step\<^sup>*\<^sup>* d (snd (f d)) \<Longrightarrow> store_step\<^sup>*\<^sup>* c d \<Longrightarrow> store_step\<^sup>*\<^sup>* c d'"
  by (metis rtranclp_trans snd_conv)

lemma steps_via:
  assumes "store_step\<^sup>*\<^sup>* d (snd p)" and "\<And>r d'. p = (r, d') \<Longrightarrow> store_step\<^sup>*\<^sup>* d' (snd (k r d'))"
  shows "store_step\<^sup>*\<^sup>* d (snd (case p of (r, d') \<Rightarrow> k r d'))"
  using assms by (cases p) (metis rtranclp_trans prod.case snd_conv)

lemma schedule_task_steps: "store_step\<^sup>*\<^sup>* d (snd (schedule_task n uuid tid d))"
  unfolding schedule_task_def
  by (intro steps_via op_steps) (auto split: sum.split option.split intro: steps_via op_steps)

lemma schedule_loop_steps: "store_step\<^sup>*\<^sup>* d (snd (snd (schedule_loop n uuid is ls err d)))"
proof (induction "is" arbitrary: ls err d)
  case (Cons i "is")
  obtain r d1 where t: "schedule_task n uuid i d = (r, d1)" by fastforce
  with schedule_task_steps [of d n uuid i] have "store_step\<^sup>*\<^sup>* d d1" by simp
  with Cons.IH t show ?case by (auto split: sum.split option.split intro: rtranclp_trans)
qed simp

lemma schedule_once_steps: "store_step\<^sup>*\<^sup>* d (snd (snd (schedule_once now uuid s d)))"
  using schedule_loop_steps
  by (auto simp: schedule_once_def split: sum.split prod.split) (metis snd_conv)

lemma run_loop_steps: "store_step\<^sup>*\<^sup>* d (snd (snd (run_loop clock uuid k m s d)))"
proof (induction m arbitrary: k s d)
  case (Suc m)
  obtain r s1 d1 where t: "schedule_once (clock k) (uuid k) s d = (r, s1, d1)" using prod_cases3 by blast
  with schedule_once_steps [of d "clock k" "uuid k" s] have "store_step\<^sup>*\<^sup>* d d1" by simp
  moreover have "store_step\<^sup>*\<^sup>* d1 (snd (snd (run_loop clock uuid (Suc k) m s1 d1)))" by (rule Suc.IH)
  ultimately show ?case using t by (auto split: sum.split prod.split intro: rtranclp_trans)
qed simp

lemma reclaim_loop_steps: "store_step\<^sup>*\<^sup>* d (snd (reclaim_loop n is changed d))"
proof (induction "is" arbitrary: changed d)
  case (Cons i "is")
  obtain r d1 where t: "reclaim_expired (Finite n) i d = (r, d1)" by fastforce
  with op_steps(4) [of d "Finite n" i] have "store_step\<^sup>*\<^sup>* d d1" by simp
  with Cons.IH t show ?case by (auto split: sum.split intro: rtranclp_trans)
qed simp

lemma reconcile_steps: "store_step\<^sup>*\<^sup>* d (snd (reconcile now d))"
proof (cases "now_of now")
  case (Inr n)
  obtain r d1 where t: "reconcile_stale_workers (Finite n) d = (r, d1)" by fastforce
  with op_steps(5) [of d "Finite n"] have "store_step\<^sup>*\<^sup>* d d1" by simp
  with reclaim_loop_steps [of d1 n] t Inr show ?thesis
    by (auto simp: reconcile_def split: sum.split prod.split) (metis rtranclp_trans snd_conv)+
qed (simp add: reconcile_def)

lemma work_lease_steps: "store_step\<^sup>*\<^sup>* d (snd (work_lease n a l d))"
proof -
  have "store_step\<^sup>*\<^sup>* d (snd (case start (Finite n) (l_task_id l) (ad_worker_id a) (l_lease_id l) d of
      (r, d1) \<Rightarrow> (case r of Inl e \<Rightarrow> (Inl e, d1) | Inr _ \<Rightarrow> (case ad_accept a cur l of Inl e \<Rightarrow> (Inl e, d1)
         | Inr r \<Rightarrow> submit_result (Finite n) (l_task_id l) (ad_worker_id a) (l_lease_id l)
                                 (wr_evidence_id r) (wr_evidence_sha256 r) d1))))" for cur
    by (intro steps_via op_steps) (auto split: sum.split intro: op_steps)
  then show ?thesis
    by (auto simp: work_lease_def split: sum.split)
qed

lemma run_lease_steps: "store_step\<^sup>*\<^sup>* d (snd (run_lease n ads l d))"
proof (cases "map_of ads (l_worker_id l)")
  case (Some a)
  obtain r d1 where t: "work_lease n a l d = (r, d1)" by fastforce
  with work_lease_steps [of d n a l] have "store_step\<^sup>*\<^sup>* d d1" by simp
  moreover obtain q d2 where f: "fail_attempt (Finite n) (l_task_id l) (l_worker_id l) (l_lease_id l)
      ''worker adapter failed'' (err_class (case r of Inl e \<Rightarrow> e | Inr _ \<Rightarrow> undefined)) d1 = (q, d2)" by fastforce
  moreover have "store_step\<^sup>*\<^sup>* d1 d2" using op_steps(6) [of d1] f by (metis snd_conv)
  ultimately show ?thesis using Some t
    by (auto simp: run_lease_def split: sum.split intro: rtranclp_trans)
qed (simp add: run_lease_def)

lemma run_leases_steps: "store_step\<^sup>*\<^sup>* d (snd (run_leases n ads ls d))"
proof (induction ls arbitrary: d)
  case (Cons l ls)
  obtain r d1 where t: "run_lease n ads l d = (r, d1)" by fastforce
  with run_lease_steps [of d n ads l] have "store_step\<^sup>*\<^sup>* d d1" by simp
  moreover have "store_step\<^sup>*\<^sup>* d1 (snd (run_leases n ads ls d1))" by (rule Cons.IH)
  ultimately show ?case using t by (auto split: sum.split prod.split intro: rtranclp_trans)
qed simp

lemma run_once_steps: "store_step\<^sup>*\<^sup>* d (snd (snd (run_once now uuid ads s d)))"
proof (cases "now_of now")
  case (Inr n)
  obtain r d1 where a: "reconcile (Finite n) d = (r, d1)" by fastforce
  with reconcile_steps [of d "Finite n"] have 1: "store_step\<^sup>*\<^sup>* d d1" by simp
  obtain q s1 d2 where b: "schedule_once (Finite n) uuid s d1 = (q, s1, d2)" using prod_cases3 by blast
  with schedule_once_steps [of d1 "Finite n" uuid s] have 2: "store_step\<^sup>*\<^sup>* d1 d2" by simp
  have 3: "store_step\<^sup>*\<^sup>* d2 (snd (run_leases n ads ls d2))" for ls by (rule run_leases_steps)
  from 1 2 3 Inr a b show ?thesis
    by (auto simp: run_once_def split: sum.split prod.split) (metis rtranclp_trans snd_conv)+
qed (simp add: run_once_def)

end
