(* ===== verification/SchedulerClaims.thy ===== *)
theory SchedulerClaims
  imports Scheduler
begin

text \<open>
  The theorems on the scheduler and the supervisor: their runs stay inside the store's step
  relation, a reconciliation clears every expired lease and every stale worker, and the leases a
  scheduling pass returns are held by the workers it names.
\<close>

subsection \<open>Reconciliation\<close>

definition expired_in :: "rat \<Rightarrow> db \<Rightarrow> string \<Rightarrow> bool" where
  "expired_in n d i \<longleftrightarrow> (\<exists>t ex. find_task i d = Some t \<and> holds_lease t
     \<and> t_lease_expires_at t = Some ex \<and> ex \<le> n)"

lemma steps_inv: "store_step\<^sup>*\<^sup>* d d' \<Longrightarrow> db_inv_with X d \<Longrightarrow> db_inv_with X d'"
  by (induction rule: rtranclp_induct) (auto intro: store_step_inv)

lemma steps_reachable: "store_step\<^sup>*\<^sup>* d d' \<Longrightarrow> store_reachable d \<Longrightarrow> store_reachable d'"
  by (induction rule: rtranclp_induct) (auto intro: reach_step)

lemma reclaim_loop_clears:
  assumes "db_inv d" and "\<not> db_locked d" and "0 \<le> n" and "distinct is" and "\<forall>i \<in> set is. expired_in n d i"
  shows "\<exists>d'. reclaim_loop n is ch d = (Inr (ch @ is), d')
    \<and> db_workers d' = db_workers d \<and> (\<forall>i. i \<notin> set is \<longrightarrow> find_task i d' = find_task i d)
    \<and> (\<forall>i \<in> set is. \<exists>t. find_task i d' = Some t \<and> \<not> holds_lease t)"
  using assms
proof (induction "is" arbitrary: d ch)
  case (Cons i "is")
  from Cons.prems(5) obtain t ex where t: "find_task i d = Some t" "holds_lease t"
    "t_lease_expires_at t = Some ex" "ex \<le> n" by (auto simp: expired_in_def)
  let ?d = "audit i ''LEASE_EXPIRED'' n (state_value (next_attempt_state t))
        (update_tasks (\<lambda>u. t_id u = i \<and> holds_lease u \<and> sql_le (t_lease_expires_at u) n)
           (drop_lease (next_attempt_state t) (t_attempt_count t + 1) n) d)"
  have run: "reclaim_expired (Finite n) i d = (Inr (), ?d)"
    by (rule reclaim_expired_ok [OF Cons.prems(1,2) t Cons.prems(3)])
  note found = find_reclaimed [OF t, of _ "''LEASE_EXPIRED''" "state_value (next_attempt_state t)"
      "next_attempt_state t" "t_attempt_count t + 1"]
  have inv: "db_inv ?d" using reclaim_expired_inv [OF Cons.prems(1), of "Finite n" i] run by simp
  have unlocked: "\<not> db_locked ?d" using Cons.prems(2) by simp
  from Cons.prems(4) have dist: "distinct is" "i \<notin> set is" by simp_all
  have later: "\<forall>j \<in> set is. expired_in n ?d j"
  proof
    fix j assume j: "j \<in> set is"
    with dist(2) have "find_task j ?d = find_task j d" unfolding found by auto
    with Cons.prems(5) j show "expired_in n ?d j" unfolding expired_in_def by simp
  qed
  obtain d' where d': "reclaim_loop n is (ch @ [i]) ?d = (Inr ((ch @ [i]) @ is), d')"
      "db_workers d' = db_workers ?d" "\<forall>j. j \<notin> set is \<longrightarrow> find_task j d' = find_task j ?d"
      "\<forall>j \<in> set is. \<exists>t. find_task j d' = Some t \<and> \<not> holds_lease t"
    using Cons.IH [OF inv unlocked Cons.prems(3) dist(1) later, of "ch @ [i]"] by blast
  have "find_task i d' = Some (drop_lease (next_attempt_state t) (t_attempt_count t + 1) n t)"
    using d'(3) dist(2) found by simp
  moreover have "\<not> holds_lease (drop_lease (next_attempt_state t) (t_attempt_count t + 1) n t)"
    by (simp add: holds_lease_def drop_lease_def next_attempt_state_def)
  moreover have "\<forall>j. j \<notin> set (i # is) \<longrightarrow> find_task j d' = find_task j d"
    using d'(3) found by simp
  ultimately show ?case using run d' by auto
qed simp

lemma reconcile_keeps_lock:
  assumes "\<not> db_locked d"
  shows "\<not> db_locked (snd (reconcile_rows n rs d))"
  using assms
proof (induction rs arbitrary: d)
  case (Cons r rs)
  then show ?case
    unfolding snd_reconcile_rows by (auto simp: reconcile_row_def split: sum.split)
qed simp

text \<open>After the supervisor's reconciliation at time \<open>n\<close> no expired lease and no running task of a
  stale worker is left: the call succeeds on every reachable unlocked database, and every task that
  still holds a lease holds one that expires after \<open>n\<close> and, if running, has a fresh owner.\<close>

theorem supervisor_reconcile_clears:
  assumes "store_reachable d" and "\<not> db_locked d" and "0 \<le> n"
  shows "\<exists>ids d'. reconcile (Finite n) d = (Inr ids, d')
    \<and> (\<forall>t \<in> set (db_tasks d'). holds_lease t \<longrightarrow> sql_gt (t_lease_expires_at t) n \<and> \<not> stale_owned n d' t)"
proof -
  have inv: "db_inv d" by (rule reachable_inv [OF assms(1)])
  obtain r d1 where run: "reconcile_stale_workers (Finite n) d = (r, d1)" by fastforce
  obtain ids where r: "r = Inr ids" and fresh: "\<forall>t \<in> set (db_tasks d1). \<not> stale_owned n d1 t"
    using reconcile_no_stale [OF inv assms(2) run assms(3)] by blast
  have inv1: "db_inv d1" using reconcile_stale_workers_inv [OF inv, of "Finite n"] run by simp
  have unlocked: "\<not> db_locked d1"
    using reconcile_keeps_lock [OF assms(2)] run assms(3)
    by (simp add: reconcile_stale_workers_def) (metis snd_conv)
  let ?ids = "sort (map t_id (filter (\<lambda>t. holds_lease t \<and> sql_le (t_lease_expires_at t) n) (db_tasks d1)))"
  have dist: "distinct ?ids" using db_invD(1) [OF inv1] by (simp add: tasks_inv_def distinct_map_filter)
  have exp: "\<forall>i \<in> set ?ids. expired_in n d1 i"
    using tasks_inv_find [OF db_invD(1) [OF inv1]]
    by (auto simp: expired_in_def sql_le_def split: option.splits)
  obtain d' where loop: "reclaim_loop n ?ids ids d1 = (Inr (ids @ ?ids), d')"
      "db_workers d' = db_workers d1" "\<forall>i. i \<notin> set ?ids \<longrightarrow> find_task i d' = find_task i d1"
      "\<forall>i \<in> set ?ids. \<exists>t. find_task i d' = Some t \<and> \<not> holds_lease t"
    using reclaim_loop_clears [OF inv1 unlocked assms(3) dist exp] by blast
  have rec: "reconcile (Finite n) d = (Inr (sort (remdups (ids @ ?ids))), d')"
    using run r assms(3) loop(1) by (simp add: reconcile_def expired_lease_tasks_def)
  have "db_inv d'"
    using steps_inv [OF reconcile_steps [of d "Finite n"] inv] rec by simp
  have "sql_gt (t_lease_expires_at t) n \<and> \<not> stale_owned n d' t"
    if t: "t \<in> set (db_tasks d')" "holds_lease t" for t
  proof -
    have found: "find_task (t_id t) d' = Some t"
      by (rule tasks_inv_find [OF db_invD(1) [OF \<open>db_inv d'\<close>] t(1) refl])
    with loop(4) t(2) have new: "t_id t \<notin> set ?ids" by force
    with loop(3) found have "find_task (t_id t) d1 = Some t" by simp
    then have mem: "t \<in> set (db_tasks d1)" by (rule find_task_D [THEN conjunct1])
    with new t(2) have "\<not> sql_le (t_lease_expires_at t) n" by auto
    moreover have "t_lease_expires_at t \<noteq> None"
      using tasks_invD [OF db_invD(1) [OF inv1] mem] t(2)
      by (auto simp: task_ok_def lease_fields_ok_def bound_states_def holds_lease_def)
    moreover have "\<not> stale_owned n d' t"
      using fresh mem by (simp add: stale_owned_def loop(2))
    ultimately show ?thesis by (auto simp: sql_le_def sql_gt_def)
  qed
  with rec show ?thesis by blast
qed

theorem supervisor_reconcile_clears_witness:
  "\<exists>ids d'. reconcile (Finite 60) sample_running = (Inr ids, d')
    \<and> (\<forall>t \<in> set (db_tasks d'). holds_lease t \<longrightarrow> sql_gt (t_lease_expires_at t) 60 \<and> \<not> stale_owned 60 d' t)"
  by (rule supervisor_reconcile_clears [OF sample_reachable(4)]) (simp_all add: sample_running_eq sample_defs)

subsection \<open>Scheduling\<close>

definition leased_as :: "db \<Rightarrow> lease \<Rightarrow> bool" where
  "leased_as d l \<longleftrightarrow> (\<exists>t. find_task (l_task_id l) d = Some t \<and> t_state t = LEASED
     \<and> t_assigned_worker_id t = Some (l_worker_id l) \<and> t_lease_id t = Some (l_lease_id l)
     \<and> t_lease_expires_at t = Some (l_expires_at l))"

lemma claim_leases:
  assumes "claim now tid wid secs lid d = (Inr l, d')"
  shows "leased_as d' l \<and> l_task_id l = tid \<and> (\<forall>i. i \<noteq> tid \<longrightarrow> find_task i d' = find_task i d)"
  using claim_D [OF assms]
proof (elim disjE exE conjE)
  fix n s t w
  assume t: "find_task tid d = Some t" "t_state t \<in> LEASEABLE"
    and l: "Inr l = Inr \<lparr>l_task_id = tid, l_worker_id = wid, l_lease_id = lid, l_expires_at = n + s\<rparr>"
    and d': "d' = audit tid ''LEASED'' n wid (update_tasks (\<lambda>u. t_id u = tid \<and> t_state u \<in> LEASEABLE)
        (lease_task wid lid (n + s) (w_last_heartbeat w) n) d)"
  have "find_task i d' = find_task i d" if "i \<noteq> tid" for i
    using that by (cases "find_task i d") (auto simp: d' find_task_update_tasks dest: find_task_D)
  moreover have "find_task tid d' = Some (lease_task wid lid (n + s) (w_last_heartbeat w) n t)"
    using t find_task_D [OF t(1)] by (simp add: d' find_task_update_tasks)
  ultimately show ?thesis using l by (simp add: leased_as_def lease_task_def)
qed simp

lemma route_frame:
  assumes "route_or_wait now tid d = (r, d')" and "i \<noteq> tid"
  shows "find_task i d' = find_task i d"
  using route_or_wait_D [OF assms(1)] assms(2)
  by (cases "find_task i d") (auto simp: find_task_update_tasks dest: find_task_D)

lemma claim_frame:
  assumes "claim now tid wid secs lid d = (r, d')" and "i \<noteq> tid"
  shows "find_task i d' = find_task i d"
  using assms claim_D [OF assms(1)] claim_leases [of now tid wid secs lid d _ d']
  by (cases r) auto

lemma schedule_task_frame:
  assumes "schedule_task n uuid tid d = (r, d')" and "i \<noteq> tid"
  shows "find_task i d' = find_task i d"
proof -
  obtain q d1 where a: "route_or_wait (Finite n) tid d = (q, d1)" by fastforce
  note frame1 = route_frame [OF a assms(2)]
  show ?thesis
  proof (cases "\<exists>w. q = Inr (Some w)")
    case True
    then obtain w where w: "q = Inr (Some w)" by blast
    obtain p d2 where b: "claim (Finite n) tid w (PyInt 30) (uuid tid) d1 = (p, d2)" by fastforce
    have "d' = d2" using assms(1) a w b by (auto simp: schedule_task_def split: sum.splits)
    with claim_frame [OF b assms(2)] frame1 show ?thesis by simp
  next
    case False
    with assms(1) a frame1 show ?thesis
      by (auto simp: schedule_task_def split: sum.splits option.splits)
  qed
qed

lemma schedule_task_leases:
  assumes "schedule_task n uuid tid d = (Inr (Some l), d')"
  shows "leased_as d' l \<and> l_task_id l = tid"
  using assms
  by (auto simp: schedule_task_def split: prod.splits sum.splits option.splits dest: claim_leases)

lemma schedule_loop_leases:
  assumes "schedule_loop n uuid is ls err d = (ls', err', d')" and "distinct is"
    and "\<forall>l \<in> set ls. leased_as d l \<and> l_task_id l \<notin> set is"
  shows "\<forall>l \<in> set ls'. leased_as d' l"
  using assms
proof (induction "is" arbitrary: ls err d)
  case (Cons i "is")
  obtain r d1 where t: "schedule_task n uuid i d = (r, d1)" by fastforce
  from Cons.prems(2) have dist: "distinct is" "i \<notin> set is" by simp_all
  have old: "\<forall>l \<in> set ls. leased_as d1 l \<and> l_task_id l \<notin> set is"
  proof
    fix l assume "l \<in> set ls"
    with Cons.prems(3) have l: "leased_as d l" "l_task_id l \<noteq> i" "l_task_id l \<notin> set is" by auto
    from l(1,3) schedule_task_frame [OF t l(2)] show "leased_as d1 l \<and> l_task_id l \<notin> set is"
      by (simp add: leased_as_def)
  qed
  show ?case
  proof (cases "\<exists>l. r = Inr (Some l)")
    case True
    then obtain l where l: "r = Inr (Some l)" by blast
    have "\<forall>k \<in> set (ls @ [l]). leased_as d1 k \<and> l_task_id k \<notin> set is"
      using old schedule_task_leases [of n uuid i d l d1] t l dist(2) by auto
    with Cons.IH dist(1) Cons.prems(1) t l show ?thesis by simp
  next
    case False
    with Cons.prems(1) t have "\<exists>err1. schedule_loop n uuid is ls err1 d1 = (ls', err', d')"
      by (auto split: sum.splits option.splits)
    with Cons.IH dist(1) old show ?thesis by blast
  qed
qed simp

text \<open>A scheduling pass is sound: it does nothing but store steps, and every lease it returns is in
  force in the resulting database, for the task, worker, lease id and expiry it names.\<close>

theorem schedule_once_sound:
  assumes "store_reachable d" and "schedule_once now uuid s d = (r, s', d')"
  shows "store_reachable d' \<and> (\<forall>ls. r = Inr ls \<longrightarrow> (\<forall>l \<in> set ls. leased_as d' l))"
proof -
  have "store_reachable d'"
    using steps_reachable [OF schedule_once_steps [of d now uuid s] assms(1)] assms(2) by simp
  moreover have "\<forall>l \<in> set ls. leased_as d' l" if "r = Inr ls" for ls
  proof -
    from assms(2) that obtain n ts err where b: "schedulable_tasks (PyInt (sc_batch_size s)) d = Inr ts"
      and loop: "schedule_loop n uuid (map t_id ts) [] None d = (ls, err, d')"
      by (auto simp: schedule_once_def split: sum.splits prod.splits)
    have "distinct (map t_id (db_tasks d))"
      using reachable_inv [OF assms(1)] by (simp add: db_inv_with_def tasks_inv_def)
    then have "distinct (map t_id (sort_key sched_key_of (filter schedulable (db_tasks d))))"
      by (auto simp: distinct_map intro: inj_on_subset)
    moreover have "map t_id ts = take (nat (sc_batch_size s))
        (map t_id (sort_key sched_key_of (filter schedulable (db_tasks d))))"
      using b by (simp add: schedulable_tasks_def take_map split: if_splits)
    ultimately have "distinct (map t_id ts)" by simp
    then show ?thesis by (rule schedule_loop_leases [OF loop]) simp
  qed
  ultimately show ?thesis by blast
qed

definition sample_scheduler :: scheduler where
  "sample_scheduler = \<lparr>sc_batch_size = 4, sc_cadence = 1, sc_status = ''IDLE'', sc_last_loop = None, sc_last_error = None\<rparr>"

theorem schedule_once_sound_witness:
  "store_reachable (snd (snd (schedule_once (Finite 1) (\<lambda>i. ''L'') sample_scheduler sample_queued)))"
proof -
  obtain r s' d' where run: "schedule_once (Finite 1) (\<lambda>i. ''L'') sample_scheduler sample_queued = (r, s', d')"
    using prod_cases3 by blast
  from schedule_once_sound [OF sample_reachable(2) run] run show ?thesis by simp
qed

text \<open>The supervisor's cycle never leaves the safe states of the store: whatever its adapters
  answer or raise, the database it ends in is reachable by store operations alone, so the store
  invariant holds in it.\<close>

theorem supervisor_cycle_safe:
  assumes "store_reachable d"
  shows "store_reachable (snd (snd (run_once now uuid ads s d)))
    \<and> db_inv (snd (snd (run_once now uuid ads s d)))"
  using steps_reachable [OF run_once_steps assms] reachable_inv by blast

theorem supervisor_cycle_safe_witness:
  "store_reachable (snd (snd (run_once (Finite 3) (\<lambda>i. i) [] sample_scheduler sample_queued)))"
  using supervisor_cycle_safe [OF sample_reachable(2)] by blast

end
