(* ===== verification/Gateway.thy ===== *)
theory Gateway
  imports SchedulerClaims
begin

text \<open>
  The worker protocol (\<open>src/autonomy/protocol.py\<close>) and the local worker gateway
  (\<open>src/autonomy/gateway.py\<close>): sessions, dispatches, acknowledgements, results and the immutable
  evidence resolver. \<open>H\<close> is \<open>hashlib.sha256(..).hexdigest()\<close>. Fields the code inspects with
  \<open>isinstance\<close> are dynamic values; times are floats. A tuple and a list are both a list. An
  operation returns its result, the gateway and the database.
\<close>

subsection \<open>Protocol\<close>

definition PROTOCOL_VERSION :: string where "PROTOCOL_VERSION = ''AF02/1''"

record WorkerProfile =
  p_worker_id :: string
  p_worker_kind :: string
  p_capabilities :: "string list"
  p_targets :: "string list"
  p_max_capacity :: pyval
  p_heartbeat_sla :: pyval

record SessionHello =
  sh_worker_id :: pyval
  sh_worker_kind :: string
  sh_capabilities :: pyval
  sh_targets :: pyval
  sh_session_id :: pyval
  sh_sequence :: pyval
  sh_observed_at :: pyfloat
  sh_capacity :: pyval
  sh_provider_state :: string
  sh_transport_state :: string
  sh_version :: string

record HeartbeatEnvelope =
  hb_worker_id :: pyval
  hb_session_id :: pyval
  hb_sequence :: pyval
  hb_observed_at :: pyfloat
  hb_capacity :: pyval
  hb_version :: string

record DispatchEnvelope =
  de_dispatch_id :: string
  de_task_id :: string
  de_worker_id :: string
  de_session_id :: string
  de_lease_id :: string
  de_expires_at :: "rat option"
  de_capability :: string
  de_target :: string

record AckEnvelope =
  ak_dispatch_id :: pyval
  ak_task_id :: string
  ak_worker_id :: string
  ak_session_id :: string
  ak_lease_id :: string
  ak_observed_at :: pyfloat
  ak_version :: string

record EvidenceReference =
  er_evidence_id :: pyval
  er_sha256 :: pyval

record ResultEnvelope =
  rs_dispatch_id :: pyval
  rs_task_id :: string
  rs_worker_id :: string
  rs_session_id :: string
  rs_lease_id :: string
  rs_observed_at :: pyfloat
  rs_status :: string
  rs_evidence :: "EvidenceReference list"
  rs_version :: string

subsection \<open>Validation\<close>

definition ident_of :: "pyval \<Rightarrow> string \<Rightarrow> string res" where
  "ident_of v label = (case v of
      PyStr s \<Rightarrow> if is_identifier s then Inr s else Inl (BlockedError (''invalid '' @ label))
    | _ \<Rightarrow> Inl (BlockedError (''invalid '' @ label)))"

fun identifiers :: "pyval list \<Rightarrow> string \<Rightarrow> string list res" where
  "identifiers [] label = Inr []"
| "identifiers (v # vs) label = (case ident_of v label of Inl e \<Rightarrow> Inl e
     | Inr s \<Rightarrow> (case identifiers vs label of Inl e \<Rightarrow> Inl e | Inr ss \<Rightarrow> Inr (s # ss)))"

definition labels :: "pyval \<Rightarrow> string \<Rightarrow> string list res" where
  "labels v label = (case v of
      PyList vs \<Rightarrow> if vs = [] then Inl (BlockedError (''invalid '' @ label))
         else (case identifiers vs label of Inl e \<Rightarrow> Inl e | Inr ss \<Rightarrow> Inr (sort (remdups ss)))
    | _ \<Rightarrow> Inl (BlockedError (''invalid '' @ label)))"

definition labels_of :: "string list \<Rightarrow> pyval" where
  "labels_of ss = PyList (map PyStr ss)"

definition version_ok :: "string \<Rightarrow> unit res" where
  "version_ok v = (if v \<noteq> PROTOCOL_VERSION then Inl (BlockedError ''unsupported protocol'') else Inr ())"

definition time_of :: "pyfloat \<Rightarrow> rat res" where
  "time_of f = (case f of Finite v \<Rightarrow> if v < 0 then Inl (BlockedError ''invalid observed_at'') else Inr v
     | _ \<Rightarrow> Inl (BlockedError ''invalid observed_at''))"

subsection \<open>Evidence resolver\<close>

text \<open>Declared evidence, by identifier; \<open>None\<close> is declared but unavailable content.\<close>

type_synonym resolver = "(string \<times> string option) list"

definition declare_evidence :: "pyval \<Rightarrow> pyval \<Rightarrow> resolver \<Rightarrow> unit res \<times> resolver" where
  "declare_evidence eid content m = (case ident_of eid ''evidence_id'' of
      Inl e \<Rightarrow> (Inl e, m)
    | Inr i \<Rightarrow> (case (case content of PyNone \<Rightarrow> Some None | PyBytes b \<Rightarrow> Some (Some b) | _ \<Rightarrow> None) of
          None \<Rightarrow> (Inl (BlockedError ''evidence content must be bytes''), m)
        | Some c \<Rightarrow> (case map_of m i of
              None \<Rightarrow> (Inr (), AList.update i c m)
            | Some old \<Rightarrow> if old = c then (Inr (), m)
                else (Inl (BlockedError ''immutable evidence conflict''), m))))"

definition resolve :: "pyval \<Rightarrow> resolver \<Rightarrow> string res" where
  "resolve eid m = (case ident_of eid ''evidence_id'' of Inl e \<Rightarrow> Inl e
    | Inr i \<Rightarrow> (case map_of m i of
          None \<Rightarrow> Inl (BlockedError ''unknown evidence reference'')
        | Some None \<Rightarrow> Inl (BlockedError ''evidence content unavailable'')
        | Some (Some b) \<Rightarrow> Inr b))"

subsection \<open>Gateway state\<close>

record profile =
  pr_worker_id :: string
  pr_worker_kind :: string
  pr_capabilities :: "string list"
  pr_targets :: "string list"
  pr_max_capacity :: int
  pr_heartbeat_sla :: rat

record session =
  ss_profile :: profile
  ss_session_id :: string
  ss_sequence :: int
  ss_observed_at :: rat
  ss_capacity :: int
  ss_provider_state :: string
  ss_transport_state :: string

record dispatch =
  dp_envelope :: DispatchEnvelope
  dp_acknowledged :: bool
  dp_ack_observed_at :: "rat option"
  dp_result_received :: bool

record gateway =
  gw_profiles :: "(string \<times> profile) list"
  gw_sessions :: "(string \<times> session) list"
  gw_dispatches :: "(string \<times> dispatch) list"
  gw_evidence :: resolver

definition check_profile :: "WorkerProfile \<Rightarrow> profile res" where
  "check_profile p = (case ident_of (PyStr (p_worker_id p)) ''worker_id'' of Inl e \<Rightarrow> Inl e | Inr wid \<Rightarrow>
     (case ident_of (PyStr (p_worker_kind p)) ''worker_kind'' of Inl e \<Rightarrow> Inl e | Inr _ \<Rightarrow>
     (case labels (labels_of (p_capabilities p)) ''capability'' of Inl e \<Rightarrow> Inl e | Inr _ \<Rightarrow>
     (case labels (labels_of (p_targets p)) ''target'' of Inl e \<Rightarrow> Inl e | Inr _ \<Rightarrow>
     (case (as_int (p_max_capacity p), positive_seconds (p_heartbeat_sla p)) of
        (Some c, Some sla) \<Rightarrow> if c < 0 then Inl (BlockedError ''invalid worker profile'')
          else Inr \<lparr>pr_worker_id = wid, pr_worker_kind = p_worker_kind p, pr_capabilities = p_capabilities p,
                    pr_targets = p_targets p, pr_max_capacity = c, pr_heartbeat_sla = sla\<rparr>
      | _ \<Rightarrow> Inl (BlockedError ''invalid worker profile''))))))"

fun check_profiles :: "WorkerProfile list \<Rightarrow> (string \<times> profile) list \<Rightarrow> (string \<times> profile) list res" where
  "check_profiles [] m = Inr m"
| "check_profiles (p # ps) m = (case check_profile p of
      Inl e \<Rightarrow> Inl e
    | Inr q \<Rightarrow> if map_of m (pr_worker_id q) \<noteq> None then Inl (BlockedError ''duplicate worker profile'')
        else check_profiles ps (AList.update (pr_worker_id q) q m))"

definition new_gateway :: "WorkerProfile list \<Rightarrow> resolver \<Rightarrow> gateway res" where
  "new_gateway ps ev = (case check_profiles ps [] of Inl e \<Rightarrow> Inl e
     | Inr m \<Rightarrow> Inr \<lparr>gw_profiles = m, gw_sessions = [], gw_dispatches = [], gw_evidence = ev\<rparr>)"

definition set_session :: "string \<Rightarrow> session \<Rightarrow> gateway \<Rightarrow> gateway" where
  "set_session w s g = g\<lparr>gw_sessions := AList.update w s (gw_sessions g)\<rparr>"

definition set_dispatch :: "string \<Rightarrow> dispatch \<Rightarrow> gateway \<Rightarrow> gateway" where
  "set_dispatch i x g = g\<lparr>gw_dispatches := AList.update i x (gw_dispatches g)\<rparr>"

subsection \<open>Sessions\<close>

definition VERIFIED :: string where "VERIFIED = ''VERIFIED_LOCAL_HARNESS''"

text \<open>\<open>register\<close>: an external envelope is never accepted.\<close>

definition register_external :: "SessionHello \<Rightarrow> unit res" where
  "register_external h = (case version_ok (sh_version h) of Inl e \<Rightarrow> Inl e
     | Inr _ \<Rightarrow> Inl (BlockedError ''local harness authority required''))"

text \<open>The comparison of a hello with the profile: kind, labels, capacity, sequence.\<close>

definition hello_matches :: "SessionHello \<Rightarrow> profile \<Rightarrow> (int \<times> int) res" where
  "hello_matches h p =
     (if sh_worker_kind h \<noteq> pr_worker_kind p then Inl (BlockedError ''worker profile mismatch'') else
      case labels (sh_capabilities h) ''capability'' of Inl e \<Rightarrow> Inl e | Inr hc \<Rightarrow>
      (case labels (labels_of (pr_capabilities p)) ''capability'' of Inl e \<Rightarrow> Inl e | Inr pc \<Rightarrow>
       if hc \<noteq> pc then Inl (BlockedError ''worker profile mismatch'') else
      (case labels (sh_targets h) ''target'' of Inl e \<Rightarrow> Inl e | Inr ht \<Rightarrow>
      (case labels (labels_of (pr_targets p)) ''target'' of Inl e \<Rightarrow> Inl e | Inr pt \<Rightarrow>
       if ht \<noteq> pt then Inl (BlockedError ''worker profile mismatch'') else
      (case (as_int (sh_capacity h), as_int (sh_sequence h)) of
         (Some c, Some q) \<Rightarrow>
           if 0 \<le> c \<and> c \<le> pr_max_capacity p \<and> 0 \<le> q then Inr (c, q)
           else Inl (BlockedError ''worker profile mismatch'')
       | _ \<Rightarrow> Inl (BlockedError ''worker profile mismatch''))))))"

definition register_session :: "pyfloat \<Rightarrow> SessionHello \<Rightarrow> gateway \<Rightarrow> db \<Rightarrow> unit res \<times> gateway \<times> db" where
  "register_session now h g d =
     (case now_of now of Inl e \<Rightarrow> (Inl e, g, d) | Inr n \<Rightarrow>
     (case ident_of (sh_worker_id h) ''worker_id'' of Inl e \<Rightarrow> (Inl e, g, d) | Inr wid \<Rightarrow>
     (case ident_of (sh_session_id h) ''session_id'' of Inl e \<Rightarrow> (Inl e, g, d) | Inr sid \<Rightarrow>
     (case map_of (gw_profiles g) wid of None \<Rightarrow> (Inl (BlockedError ''unknown worker''), g, d) | Some p \<Rightarrow>
     (case time_of (sh_observed_at h) of Inl e \<Rightarrow> (Inl e, g, d) | Inr obs \<Rightarrow>
      if obs > n + 1 \<or> n - obs > pr_heartbeat_sla p
      then (Inl (BlockedError ''stale or future session''), g, d) else
     (case hello_matches h p of Inl e \<Rightarrow> (Inl e, g, d) | Inr (c, q) \<Rightarrow>
      let cur = map_of (gw_sessions g) wid;
          fresh_other = (case cur of None \<Rightarrow> False
             | Some s \<Rightarrow> ss_session_id s \<noteq> sid \<and> n - ss_observed_at s \<le> pr_heartbeat_sla (ss_profile s));
          same = (case cur of None \<Rightarrow> False | Some s \<Rightarrow> ss_session_id s = sid);
          repeated = (case cur of None \<Rightarrow> False
             | Some s \<Rightarrow> ss_sequence s = q \<and> ss_observed_at s = obs \<and> ss_capacity s = c)
      in if fresh_other then (Inl (BlockedError ''active session conflict''), g, d)
         else if same \<and> repeated then (Inr (), g, d)
         else if same then (Inl (BlockedError ''session registration replay''), g, d)
         else (case register_worker (Finite obs) wid (pr_worker_kind p) (pr_capabilities p) (pr_targets p)
                      (pr_heartbeat_sla p) c d of
              (Inl e, d1) \<Rightarrow> (Inl e, g, d1)
            | (Inr _, d1) \<Rightarrow> (Inr (), set_session wid
                \<lparr>ss_profile = p, ss_session_id = sid, ss_sequence = q, ss_observed_at = obs,
                 ss_capacity = c, ss_provider_state = VERIFIED, ss_transport_state = VERIFIED\<rparr> g, d1))))))))"

definition register_local_harness :: "pyfloat \<Rightarrow> SessionHello \<Rightarrow> gateway \<Rightarrow> db \<Rightarrow> unit res \<times> gateway \<times> db" where
  "register_local_harness now h g d = (case version_ok (sh_version h) of Inl e \<Rightarrow> (Inl e, g, d)
     | Inr _ \<Rightarrow> if sh_provider_state h \<noteq> ''UNKNOWN'' \<or> sh_transport_state h \<noteq> ''UNKNOWN''
         then (Inl (BlockedError ''self-asserted verification prohibited''), g, d)
         else register_session now h g d)"

definition gateway_heartbeat :: "pyfloat \<Rightarrow> HeartbeatEnvelope \<Rightarrow> gateway \<Rightarrow> db \<Rightarrow> unit res \<times> gateway \<times> db" where
  "gateway_heartbeat now m g d =
     (case version_ok (hb_version m) of Inl e \<Rightarrow> (Inl e, g, d) | Inr _ \<Rightarrow>
     (case now_of now of Inl e \<Rightarrow> (Inl e, g, d) | Inr n \<Rightarrow>
     (case ident_of (hb_worker_id m) ''worker_id'' of Inl e \<Rightarrow> (Inl e, g, d) | Inr wid \<Rightarrow>
     (case ident_of (hb_session_id m) ''session_id'' of Inl e \<Rightarrow> (Inl e, g, d) | Inr sid \<Rightarrow>
     (case time_of (hb_observed_at m) of Inl e \<Rightarrow> (Inl e, g, d) | Inr obs \<Rightarrow>
     (case map_of (gw_sessions g) wid of None \<Rightarrow> (Inl (BlockedError ''unknown session''), g, d) | Some s \<Rightarrow>
      if ss_session_id s \<noteq> sid then (Inl (BlockedError ''unknown session''), g, d) else
     (case as_int (hb_sequence m) of
        None \<Rightarrow> (Inl (BlockedError ''replayed, stale or future heartbeat''), g, d)
      | Some q \<Rightarrow>
          if q \<le> ss_sequence s \<or> obs \<le> ss_observed_at s \<or> obs > n + 1
             \<or> n - obs > pr_heartbeat_sla (ss_profile s)
          then (Inl (BlockedError ''replayed, stale or future heartbeat''), g, d) else
     (case as_int (hb_capacity m) of
        None \<Rightarrow> (Inl (BlockedError ''capacity overclaim''), g, d)
      | Some c \<Rightarrow>
          if \<not> (0 \<le> c \<and> c \<le> pr_max_capacity (ss_profile s))
          then (Inl (BlockedError ''capacity overclaim''), g, d) else
     (case heartbeat_with_capacity (Finite n) wid (PyInt c) (Some (Finite obs)) d of
        (Inl e, d1) \<Rightarrow> (Inl e, g, d1)
      | (Inr _, d1) \<Rightarrow> (Inr (), set_session wid
          (s\<lparr>ss_sequence := q, ss_observed_at := obs, ss_capacity := c\<rparr>) g, d1))))))))))"

definition session_fresh :: "rat \<Rightarrow> session \<Rightarrow> bool" where
  "session_fresh n s \<longleftrightarrow> ss_provider_state s = VERIFIED \<and> ss_transport_state s = VERIFIED
     \<and> ss_observed_at s \<le> n + 1 \<and> n - ss_observed_at s \<le> pr_heartbeat_sla (ss_profile s)"

text \<open>\<open>eligible_sessions\<close>, before sorting, session by session.\<close>

fun eligible_loop :: "rat \<Rightarrow> string \<Rightarrow> string \<Rightarrow> db \<Rightarrow> (string \<times> session) list \<Rightarrow> (string \<times> string) list res" where
  "eligible_loop n cap tgt d [] = Inr []"
| "eligible_loop n cap tgt d ((w, s) # ss) =
     (if session_fresh n s \<and> cap \<in> set (pr_capabilities (ss_profile s)) \<and> tgt \<in> set (pr_targets (ss_profile s))
      then (case worker_status (Finite n) w d of
          Inl e \<Rightarrow> Inl e
        | Inr v \<Rightarrow> (case eligible_loop n cap tgt d ss of Inl e \<Rightarrow> Inl e
            | Inr r \<Rightarrow> Inr (if v_available v \<and> int (v_active v) < min (w_capacity (v_worker v)) (ss_capacity s)
                           then (w, ss_session_id s) # r else r)))
      else eligible_loop n cap tgt d ss)"

definition eligible_sessions :: "pyfloat \<Rightarrow> string \<Rightarrow> string \<Rightarrow> gateway \<Rightarrow> db \<Rightarrow> (string \<times> string) list res" where
  "eligible_sessions now cap tgt g d = (case now_of now of Inl e \<Rightarrow> Inl e
     | Inr n \<Rightarrow> (case eligible_loop n cap tgt d (gw_sessions g) of Inl e \<Rightarrow> Inl e | Inr r \<Rightarrow> Inr (sort r)))"

definition verified_session_binding :: "pyfloat \<Rightarrow> string \<Rightarrow> string \<Rightarrow> gateway \<Rightarrow> bool res" where
  "verified_session_binding now wid sid g = (case now_of now of Inl e \<Rightarrow> Inl e
     | Inr n \<Rightarrow> Inr (case map_of (gw_sessions g) wid of None \<Rightarrow> False
         | Some s \<Rightarrow> ss_session_id s = sid \<and> session_fresh n s))"

subsection \<open>Dispatch, acknowledgement, result\<close>

definition dispatch_key :: "(string \<Rightarrow> string) \<Rightarrow> string \<Rightarrow> string \<Rightarrow> string \<Rightarrow> string \<Rightarrow> string" where
  "dispatch_key H tid wid sid lid = H (tid @ ''|'' @ wid @ ''|'' @ sid @ ''|'' @ lid)"

definition dispatch_allowed :: "rat \<Rightarrow> task \<Rightarrow> string \<Rightarrow> string \<Rightarrow> string \<Rightarrow> session \<Rightarrow> task \<Rightarrow> bool" where
  "dispatch_allowed n t wid sid lid s cur \<longleftrightarrow> ss_session_id s = sid
     \<and> \<not> (n - ss_observed_at s > pr_heartbeat_sla (ss_profile s)) \<and> t_state cur = LEASED
     \<and> t_assigned_worker_id cur = Some wid \<and> t_lease_id cur = Some lid
     \<and> sql_gt (t_lease_expires_at cur) n \<and> t_id t = t_id cur \<and> t_capability t = t_capability cur
     \<and> t_target_project t = t_target_project cur \<and> t_capability cur \<in> set (pr_capabilities (ss_profile s))
     \<and> t_target_project cur \<in> set (pr_targets (ss_profile s))"

definition gateway_dispatch :: "(string \<Rightarrow> string) \<Rightarrow> pyfloat \<Rightarrow> task \<Rightarrow> lease \<Rightarrow> pyval \<Rightarrow> gateway \<Rightarrow> db
    \<Rightarrow> DispatchEnvelope res \<times> gateway \<times> db" where
  "gateway_dispatch H now t l sess g d =
     (case now_of now of Inl e \<Rightarrow> (Inl e, g, d) | Inr n \<Rightarrow>
     (case ident_of (PyStr (l_worker_id l)) ''worker_id'' of Inl e \<Rightarrow> (Inl e, g, d) | Inr wid \<Rightarrow>
     (case ident_of (PyStr (l_task_id l)) ''task_id'' of Inl e \<Rightarrow> (Inl e, g, d) | Inr tid \<Rightarrow>
     (case ident_of (PyStr (l_lease_id l)) ''lease_id'' of Inl e \<Rightarrow> (Inl e, g, d) | Inr lid \<Rightarrow>
     (case ident_of sess ''session_id'' of Inl e \<Rightarrow> (Inl e, g, d) | Inr sid \<Rightarrow>
     (case get_task tid d of Inl e \<Rightarrow> (Inl e, g, d) | Inr cur \<Rightarrow>
     (case map_of (gw_sessions g) wid of
        None \<Rightarrow> (Inl (BlockedError ''dispatch authority unavailable''), g, d)
      | Some s \<Rightarrow>
          if \<not> dispatch_allowed n t wid sid lid s cur
          then (Inl (BlockedError ''dispatch authority unavailable''), g, d) else
          let key = dispatch_key H tid wid sid lid in
          (case map_of (gw_dispatches g) key of
             Some x \<Rightarrow> (Inr (dp_envelope x), g, d)
           | None \<Rightarrow>
               if db_locked d then (Inl db_busy, g, d) else
               let env = \<lparr>de_dispatch_id = key, de_task_id = tid, de_worker_id = wid, de_session_id = sid,
                          de_lease_id = lid, de_expires_at = t_lease_expires_at cur,
                          de_capability = t_capability cur, de_target = t_target_project cur\<rparr>
               in (Inr env,
                   set_dispatch key \<lparr>dp_envelope = env, dp_acknowledged = False, dp_ack_observed_at = None,
                      dp_result_received = False\<rparr> g,
                   audit tid ''DISPATCHED'' n
                     (''worker='' @ wid @ '';session='' @ sid @ '';lease='' @ lid) d)))))))))"

definition bound_dispatch :: "pyval \<Rightarrow> string \<times> string \<times> string \<times> string \<Rightarrow> gateway \<Rightarrow> (string \<times> dispatch) res" where
  "bound_dispatch did binding g = (case ident_of did ''dispatch_id'' of Inl e \<Rightarrow> Inl e
     | Inr i \<Rightarrow> (case map_of (gw_dispatches g) i of
           None \<Rightarrow> Inl (BlockedError ''unknown dispatch'')
         | Some x \<Rightarrow> if binding \<noteq> (de_task_id (dp_envelope x), de_worker_id (dp_envelope x),
                                  de_session_id (dp_envelope x), de_lease_id (dp_envelope x))
             then Inl (BlockedError ''dispatch binding mismatch'') else Inr (i, x)))"

text \<open>
  The lease side of an authority check. A row that names an owner without an expiry does not occur
  in a well-formed database (comparing \<open>None\<close> would be a \<open>TypeError\<close>); here it has no authority.
\<close>

definition lease_authority :: "rat \<Rightarrow> string \<Rightarrow> string \<Rightarrow> TaskState \<Rightarrow> task \<Rightarrow> bool" where
  "lease_authority n wid lid st cur \<longleftrightarrow> t_assigned_worker_id cur = Some wid \<and> t_lease_id cur = Some lid
     \<and> sql_gt (t_lease_expires_at cur) n \<and> t_state cur = st"

definition session_authority :: "rat \<Rightarrow> string \<Rightarrow> rat \<Rightarrow> session \<Rightarrow> bool" where
  "session_authority n sid obs s \<longleftrightarrow> ss_session_id s = sid
     \<and> \<not> (n - ss_observed_at s > pr_heartbeat_sla (ss_profile s)) \<and> \<not> obs < ss_observed_at s"

definition acknowledge :: "pyfloat \<Rightarrow> AckEnvelope \<Rightarrow> gateway \<Rightarrow> db \<Rightarrow> unit res \<times> gateway \<times> db" where
  "acknowledge now m g d =
     (case version_ok (ak_version m) of Inl e \<Rightarrow> (Inl e, g, d) | Inr _ \<Rightarrow>
     (case now_of now of Inl e \<Rightarrow> (Inl e, g, d) | Inr n \<Rightarrow>
     (case time_of (ak_observed_at m) of Inl e \<Rightarrow> (Inl e, g, d) | Inr obs \<Rightarrow>
     (case bound_dispatch (ak_dispatch_id m)
             (ak_task_id m, ak_worker_id m, ak_session_id m, ak_lease_id m) g of
        Inl e \<Rightarrow> (Inl e, g, d)
      | Inr (i, x) \<Rightarrow>
     (case get_task (ak_task_id m) d of Inl e \<Rightarrow> (Inl e, g, d) | Inr cur \<Rightarrow>
     (case map_of (gw_sessions g) (ak_worker_id m) of
        None \<Rightarrow> (Inl (BlockedError ''ack authority unavailable''), g, d)
      | Some s \<Rightarrow>
          if \<not> (session_authority n (ak_session_id m) obs s \<and> obs \<le> n + 1
               \<and> lease_authority n (ak_worker_id m) (ak_lease_id m)
                   (if dp_acknowledged x then RUNNING else LEASED) cur)
          then (Inl (BlockedError ''ack authority unavailable''), g, d)
          else if dp_acknowledged x then (Inr (), g, d)
          else (case start_with_ack (Finite n) (ak_task_id m) (ak_worker_id m) (ak_lease_id m)
                  (''worker='' @ ak_worker_id m @ '';session='' @ ak_session_id m @ '';lease='' @ ak_lease_id m) d of
              (Inl e, d1) \<Rightarrow> (Inl e, g, d1)
            | (Inr _, d1) \<Rightarrow> (Inr (), set_dispatch i
                (x\<lparr>dp_acknowledged := True, dp_ack_observed_at := Some obs\<rparr>) g, d1))))))))"

text \<open>The success branch of \<open>result\<close>: exactly one reference, its declared content, its digest.\<close>

definition check_evidence :: "(string \<Rightarrow> string) \<Rightarrow> EvidenceReference list \<Rightarrow> resolver \<Rightarrow> (string \<times> string) res" where
  "check_evidence H refs m = (case refs of
      [r] \<Rightarrow> (case ident_of (er_evidence_id r) ''evidence_id'' of Inl e \<Rightarrow> Inl e | Inr eid \<Rightarrow>
        (case as_str (er_sha256 r) of
           None \<Rightarrow> Inl (BlockedError ''invalid evidence sha256'')
         | Some sha \<Rightarrow> if \<not> is_sha256 sha then Inl (BlockedError ''invalid evidence sha256'') else
             (case resolve (PyStr eid) m of Inl e \<Rightarrow> Inl e
              | Inr b \<Rightarrow> if H b \<noteq> sha then Inl (BlockedError ''evidence digest mismatch'') else Inr (eid, sha))))
    | _ \<Rightarrow> Inl (BlockedError ''exactly one evidence reference required''))"

definition report_result :: "(string \<Rightarrow> string) \<Rightarrow> rat \<Rightarrow> ResultEnvelope \<Rightarrow> resolver \<Rightarrow> db \<Rightarrow> unit res \<times> db" where
  "report_result H n m ev d =
     (if rs_status m = ''SUCCEEDED'' then
        (case check_evidence H (rs_evidence m) ev of Inl e \<Rightarrow> (Inl e, d)
         | Inr (eid, sha) \<Rightarrow> submit_result (Finite n) (rs_task_id m) (rs_worker_id m) (rs_lease_id m) eid sha d)
      else if rs_status m = ''FAILED_SAFE'' then
        (if rs_evidence m \<noteq> [] then (Inl (BlockedError ''failure evidence not accepted''), d)
         else fail_attempt (Finite n) (rs_task_id m) (rs_worker_id m) (rs_lease_id m)
                ''external worker failed safe'' ''EXTERNAL_FAILED_SAFE'' d)
      else (Inl (BlockedError ''unsupported result status''), d))"

definition gateway_result :: "(string \<Rightarrow> string) \<Rightarrow> pyfloat \<Rightarrow> ResultEnvelope \<Rightarrow> gateway \<Rightarrow> db
    \<Rightarrow> unit res \<times> gateway \<times> db" where
  "gateway_result H now m g d =
     (case version_ok (rs_version m) of Inl e \<Rightarrow> (Inl e, g, d) | Inr _ \<Rightarrow>
     (case now_of now of Inl e \<Rightarrow> (Inl e, g, d) | Inr n \<Rightarrow>
     (case time_of (rs_observed_at m) of Inl e \<Rightarrow> (Inl e, g, d) | Inr obs \<Rightarrow>
      if obs > n + 1 then (Inl (BlockedError ''future result''), g, d) else
     (case bound_dispatch (rs_dispatch_id m)
             (rs_task_id m, rs_worker_id m, rs_session_id m, rs_lease_id m) g of
        Inl e \<Rightarrow> (Inl e, g, d)
      | Inr (i, x) \<Rightarrow>
          if \<not> dp_acknowledged x \<or> dp_result_received x
          then (Inl (BlockedError ''result replay or out of order''), g, d) else
     (case get_task (rs_task_id m) d of Inl e \<Rightarrow> (Inl e, g, d) | Inr cur \<Rightarrow>
     (case (map_of (gw_sessions g) (rs_worker_id m), dp_ack_observed_at x) of
        (Some s, Some a) \<Rightarrow>
          if \<not> (session_authority n (rs_session_id m) obs s \<and> \<not> obs < a
               \<and> lease_authority n (rs_worker_id m) (rs_lease_id m) RUNNING cur)
          then (Inl (BlockedError ''result authority lost''), g, d)
          else (case report_result H n m (gw_evidence g) d of
              (Inl e, d1) \<Rightarrow> (Inl e, g, d1)
            | (Inr _, d1) \<Rightarrow> (Inr (), set_dispatch i (x\<lparr>dp_result_received := True\<rparr>) g, d1))
      | _ \<Rightarrow> (Inl (BlockedError ''result authority lost''), g, d)))))))"

subsection \<open>Projections and the disposable session\<close>

record session_row =
  sr_worker_id :: string
  sr_provider_kind :: string
  sr_status :: string
  sr_session_status :: string
  sr_freshness :: "rat option"
  sr_capacity :: "int option"
  sr_scope :: string

definition session_row_of :: "rat \<Rightarrow> gateway \<Rightarrow> db \<Rightarrow> string \<times> profile \<Rightarrow> session_row res" where
  "session_row_of n g d wp = (case wp of (wid, p) \<Rightarrow>
     (case map_of (gw_sessions g) wid of
        None \<Rightarrow> Inr \<lparr>sr_worker_id = wid, sr_provider_kind = pr_worker_kind p, sr_status = ''UNKNOWN'',
           sr_session_status = ''UNKNOWN'', sr_freshness = None, sr_capacity = None, sr_scope = ''UNKNOWN''\<rparr>
      | Some s \<Rightarrow>
          let age = max 0 (n - ss_observed_at s);
              fresh = (ss_observed_at s \<le> n + 1 \<and> age \<le> pr_heartbeat_sla p)
          in (case worker_status (Finite n) wid d of Inl e \<Rightarrow> Inl e
              | Inr v \<Rightarrow> Inr \<lparr>sr_worker_id = wid, sr_provider_kind = pr_worker_kind p,
                  sr_status = (if \<not> fresh then ''STALE''
                     else if min (w_capacity (v_worker v)) (ss_capacity s) \<le> int (v_active v) then ''AT_CAPACITY''
                     else ''AVAILABLE''),
                  sr_session_status = (if fresh then ''CONNECTED'' else ''STALE''),
                  sr_freshness = Some age, sr_capacity = Some (ss_capacity s),
                  sr_scope = ''LOCAL_HARNESS''\<rparr>)))"

fun session_rows :: "rat \<Rightarrow> gateway \<Rightarrow> db \<Rightarrow> (string \<times> profile) list \<Rightarrow> session_row list res" where
  "session_rows n g d [] = Inr []"
| "session_rows n g d (p # ps) = (case session_row_of n g d p of Inl e \<Rightarrow> Inl e
     | Inr r \<Rightarrow> (case session_rows n g d ps of Inl e \<Rightarrow> Inl e | Inr rs \<Rightarrow> Inr (r # rs)))"

definition session_projection :: "pyfloat \<Rightarrow> gateway \<Rightarrow> db \<Rightarrow> session_row list res" where
  "session_projection now g d = (case now_of now of Inl e \<Rightarrow> Inl e
     | Inr n \<Rightarrow> session_rows n g d (sort_key fst (gw_profiles g)))"

record dispatch_row =
  dr_task_id :: string
  dr_worker_id :: string
  dr_session_id :: string
  dr_lease_id :: string
  dr_acknowledged :: bool
  dr_result_received :: bool

definition dispatch_projection :: "gateway \<Rightarrow> dispatch_row list" where
  "dispatch_projection g = map (\<lambda>(i, x). \<lparr>dr_task_id = de_task_id (dp_envelope x),
     dr_worker_id = de_worker_id (dp_envelope x), dr_session_id = de_session_id (dp_envelope x),
     dr_lease_id = de_lease_id (dp_envelope x), dr_acknowledged = dp_acknowledged x,
     dr_result_received = dp_result_received x\<rparr>) (sort_key fst (gw_dispatches g))"

record disposable_session =
  ds_profile :: profile
  ds_session_id :: string
  ds_sequence :: int

definition ds_connect :: "rat \<Rightarrow> int option \<Rightarrow> disposable_session \<Rightarrow> gateway \<Rightarrow> db
    \<Rightarrow> unit res \<times> gateway \<times> db" where
  "ds_connect now capacity x g d = register_local_harness (Finite now)
     \<lparr>sh_worker_id = PyStr (pr_worker_id (ds_profile x)), sh_worker_kind = pr_worker_kind (ds_profile x),
      sh_capabilities = labels_of (pr_capabilities (ds_profile x)),
      sh_targets = labels_of (pr_targets (ds_profile x)), sh_session_id = PyStr (ds_session_id x),
      sh_sequence = PyInt (ds_sequence x), sh_observed_at = Finite now,
      sh_capacity = PyInt (case capacity of None \<Rightarrow> pr_max_capacity (ds_profile x) | Some c \<Rightarrow> c),
      sh_provider_state = ''UNKNOWN'', sh_transport_state = ''UNKNOWN'', sh_version = PROTOCOL_VERSION\<rparr> g d"

text \<open>The sequence number grows even when the gateway refuses the heartbeat.\<close>

definition ds_heartbeat :: "rat \<Rightarrow> int option \<Rightarrow> disposable_session \<Rightarrow> gateway \<Rightarrow> db
    \<Rightarrow> unit res \<times> disposable_session \<times> gateway \<times> db" where
  "ds_heartbeat now capacity x g d =
     (let y = x\<lparr>ds_sequence := ds_sequence x + 1\<rparr> in
      case gateway_heartbeat (Finite now)
        \<lparr>hb_worker_id = PyStr (pr_worker_id (ds_profile y)), hb_session_id = PyStr (ds_session_id y),
         hb_sequence = PyInt (ds_sequence y), hb_observed_at = Finite now,
         hb_capacity = PyInt (case capacity of None \<Rightarrow> pr_max_capacity (ds_profile y) | Some c \<Rightarrow> c),
         hb_version = PROTOCOL_VERSION\<rparr> g d of
      (r, g1, d1) \<Rightarrow> (r, y, g1, d1))"

end
