(* ===== verification/Router.thy ===== *)
theory Router
  imports Gateway
begin

text \<open>
  The task router of \<open>src/autonomy/router.py\<close>. It is parametric in the two gateway operations it
  calls; the locale \<open>worker_gateway\<close> states what it relies on, and the interpretation shows that
  the local gateway provides it.
\<close>

record router =
  ro_batch_size :: int
  ro_lease_seconds :: rat
  ro_status :: string
  ro_last_route :: "(string \<times> string \<times> string \<times> string) option"
  ro_last_error :: "string option"

definition new_router :: "pyval \<Rightarrow> pyval \<Rightarrow> router res" where
  "new_router batch secs = (case as_int batch of
      None \<Rightarrow> Inl (BlockedError ''invalid router batch size'')
    | Some k \<Rightarrow> if k \<le> 0 then Inl (BlockedError ''invalid router batch size'')
        else (case positive_seconds secs of
            None \<Rightarrow> Inl (BlockedError ''invalid lease duration'')
          | Some s \<Rightarrow> Inr \<lparr>ro_batch_size = k, ro_lease_seconds = s, ro_status = ''IDLE'', ro_last_route = None,
                           ro_last_error = None\<rparr>))"

type_synonym 'g elig_op = "rat \<Rightarrow> string \<Rightarrow> string \<Rightarrow> 'g \<Rightarrow> db \<Rightarrow> (string \<times> string) list res"
type_synonym 'g disp_op = "rat \<Rightarrow> task \<Rightarrow> lease \<Rightarrow> string \<Rightarrow> 'g \<Rightarrow> db \<Rightarrow> DispatchEnvelope res \<times> 'g \<times> db"

definition ROUTE_REASON :: string where
  "ROUTE_REASON = ''capability_target_freshness_capacity_worker_session''"

text \<open>
  One task of the batch: candidates, claim, the \<open>ROUTED\<close> line, dispatch. The result is the envelope
  with the route, or nothing when the task was marked as waiting.
\<close>

definition route_task :: "'g elig_op \<Rightarrow> 'g disp_op \<Rightarrow> rat \<Rightarrow> (string \<Rightarrow> string) \<Rightarrow> rat \<Rightarrow> task \<Rightarrow> 'g \<Rightarrow> db
    \<Rightarrow> (DispatchEnvelope \<times> string \<times> string \<times> string \<times> string) option res \<times> 'g \<times> db" where
  "route_task elig disp secs uuid n t g d =
     (case elig n (t_capability t) (t_target_project t) g d of
        Inl e \<Rightarrow> (Inl e, g, d)
      | Inr [] \<Rightarrow> (case mark_waiting_capacity (Finite n) (t_id t) d of
            (Inl e, d1) \<Rightarrow> (Inl e, g, d1)
          | (Inr _, d1) \<Rightarrow> (Inr None, g, d1))
      | Inr ((wid, sid) # _) \<Rightarrow> (case claim (Finite n) (t_id t) wid (PyFloat (Finite secs)) (uuid (t_id t)) d of
            (Inl e, d1) \<Rightarrow> (Inl e, g, d1)
          | (Inr l, d1) \<Rightarrow>
              if db_locked d1 then (Inl db_busy, g, d1) else
              (case disp n t l sid g (audit (t_id t) ''ROUTED'' n
                      (''worker='' @ wid @ '';session='' @ sid @ '';lease='' @ l_lease_id l @ '';reason='' @ ROUTE_REASON) d1) of
                 (Inl e, g1, d2) \<Rightarrow> (Inl e, g1, d2)
               | (Inr env, g1, d2) \<Rightarrow> (Inr (Some (env, t_id t, wid, sid, l_lease_id l)), g1, d2))))"

text \<open>
  The loop. A \<open>BlockedError\<close> is recorded and the loop goes on; any other exception sets the status
  to \<open>ERROR\<close> and escapes.
\<close>

fun route_loop :: "'g elig_op \<Rightarrow> 'g disp_op \<Rightarrow> (string \<Rightarrow> string) \<Rightarrow> rat \<Rightarrow> task list \<Rightarrow> DispatchEnvelope list
    \<Rightarrow> router \<Rightarrow> 'g \<Rightarrow> db \<Rightarrow> DispatchEnvelope list res \<times> router \<times> 'g \<times> db" where
  "route_loop elig disp uuid n [] out r g d = (Inr out, r\<lparr>ro_status := ''IDLE''\<rparr>, g, d)"
| "route_loop elig disp uuid n (t # ts) out r g d =
     (case route_task elig disp (ro_lease_seconds r) uuid n t g d of
        (Inl e, g1, d1) \<Rightarrow>
          if is_blocked e
          then route_loop elig disp uuid n ts out (r\<lparr>ro_last_error := Some (clean (err_class e))\<rparr>) g1 d1
          else (Inl e, r\<lparr>ro_last_error := Some (clean (err_class e)), ro_status := ''ERROR''\<rparr>, g1, d1)
      | (Inr None, g1, d1) \<Rightarrow> route_loop elig disp uuid n ts out r g1 d1
      | (Inr (Some (env, route)), g1, d1) \<Rightarrow>
          route_loop elig disp uuid n ts (out @ [env]) (r\<lparr>ro_last_route := Some route\<rparr>) g1 d1)"

definition route_once :: "'g elig_op \<Rightarrow> 'g disp_op \<Rightarrow> (string \<Rightarrow> string) \<Rightarrow> pyfloat \<Rightarrow> router \<Rightarrow> 'g \<Rightarrow> db
    \<Rightarrow> DispatchEnvelope list res \<times> router \<times> 'g \<times> db" where
  "route_once elig disp uuid now r g d = (case now_of now of Inl e \<Rightarrow> (Inl e, r, g, d) | Inr n \<Rightarrow>
     (case schedulable_tasks (PyInt (ro_batch_size r)) d of
        Inl e \<Rightarrow> (Inl e, r\<lparr>ro_status := ''ROUTING'', ro_last_error := None\<rparr>, g, d)
      | Inr ts \<Rightarrow> route_loop elig disp uuid n ts [] (r\<lparr>ro_status := ''ROUTING'', ro_last_error := None\<rparr>) g d))"

text \<open>The local gateway's two operations.\<close>

definition local_elig :: "gateway elig_op" where
  "local_elig n cap tgt g d = eligible_sessions (Finite n) cap tgt g d"

definition local_disp :: "(string \<Rightarrow> string) \<Rightarrow> gateway disp_op" where
  "local_disp H n t l sid g d = gateway_dispatch H (Finite n) t l (PyStr sid) g d"

text \<open>\<open>health_projection\<close>: any exception makes everything unknown.\<close>

record router_lease =
  rl_view :: "task \<times> bool"
  rl_status :: string

definition dispatch_status :: "gateway \<Rightarrow> task \<Rightarrow> string" where
  "dispatch_status g t = (case find (\<lambda>x. Some (dr_lease_id x) = t_lease_id t) (rev (dispatch_projection g)) of
      None \<Rightarrow> ''UNKNOWN''
    | Some x \<Rightarrow> if dr_acknowledged x then ''ACKED'' else ''DISPATCHED'')"

record router_health =
  rh_status :: string
  rh_last_route :: "(string \<times> string \<times> string \<times> string) option"
  rh_last_error :: string
  rh_sessions :: "session_row list"
  rh_leases :: "router_lease list"
  rh_counts :: "(TaskState \<times> nat) list option"

definition unknown_health :: router_health where
  "unknown_health = \<lparr>rh_status = ''UNKNOWN'', rh_last_route = None, rh_last_error = ''INTEGRITY_BLOCKED'',
     rh_sessions = [], rh_leases = [], rh_counts = None\<rparr>"

definition health_projection :: "pyfloat \<Rightarrow> router \<Rightarrow> gateway \<Rightarrow> db \<Rightarrow> router_health res" where
  "health_projection now r g d = (case now_of now of Inl e \<Rightarrow> Inl e | Inr n \<Rightarrow>
     (case (state_counts d, active_leases (Finite n) d, session_projection (Finite n) g d) of
        (Inr counts, Inr ls, Inr ss) \<Rightarrow> Inr \<lparr>rh_status = ro_status r, rh_last_route = ro_last_route r,
           rh_last_error = (case ro_last_error r of None \<Rightarrow> ''UNKNOWN''
             | Some x \<Rightarrow> if x = [] then ''UNKNOWN'' else x),
           rh_sessions = ss, rh_leases = map (\<lambda>x. \<lparr>rl_view = x, rl_status = dispatch_status g (fst x)\<rparr>) ls,
           rh_counts = Some (map (\<lambda>k. (k, counts k)) [QUEUED, WAITING_CAPACITY, RUNNING, RETRYING, DEAD_LETTER])\<rparr>
      | _ \<Rightarrow> Inr unknown_health))"

end
