(* ===== verification/GatewaySpec.thy ===== *)
theory GatewaySpec
  imports Router
begin

text \<open>
  What each gateway operation does when it succeeds, the gateway invariant, and the fact that every
  operation is a sequence of store steps. A chain of early returns is taken apart by the
  elimination rules below.
\<close>

lemma res_caseE:
  assumes "(case x of Inl e \<Rightarrow> (Inl e, g, d) | Inr y \<Rightarrow> f y) = (r, g', d')"
  obtains (early) e where "x = Inl e" "r = Inl e" "g' = g" "d' = d"
    | (go_on) y where "x = Inr y" "f y = (r, g', d')"
  using assms by (cases x) auto

lemma opt_caseE:
  assumes "(case x of None \<Rightarrow> a | Some y \<Rightarrow> f y) = (r, g', d')"
  obtains (none) "x = None" "a = (r, g', d')" | (some) y where "x = Some y" "f y = (r, g', d')"
  using assms by (cases x) auto

lemma if_resE:
  assumes "(if b then p else q) = (r, g', d')"
  obtains (true) b "p = (r, g', d')" | (false) "\<not> b" "q = (r, g', d')"
  using assms by (cases b) auto

lemma pair_caseE:
  assumes "(case p of (a, b) \<Rightarrow> f a b) = (r, g', d')"
  obtains (pair) a b where "p = (a, b)" "f a b = (r, g', d')"
  using assms by (cases p) auto

lemmas chainE = res_caseE opt_caseE if_resE pair_caseE

lemma ident_of_Inr: "ident_of v label = Inr s \<Longrightarrow> v = PyStr s \<and> is_identifier s"
  by (auto simp: ident_of_def split: pyval.splits if_splits)

lemma time_of_Inr: "time_of f = Inr t \<Longrightarrow> f = Finite t \<and> 0 \<le> t"
  by (auto simp: time_of_def split: pyfloat.splits if_splits)

lemma fail_tuple: "(Inl e, g, d) = (r, g', d') \<longleftrightarrow> r = Inl e \<and> g' = g \<and> d' = d"
  by auto

subsection \<open>Dispatch\<close>

definition fresh_dispatch :: "DispatchEnvelope \<Rightarrow> dispatch" where
  "fresh_dispatch env = \<lparr>dp_envelope = env, dp_acknowledged = False, dp_ack_observed_at = None,
     dp_result_received = False\<rparr>"

lemma gateway_dispatch_D:
  assumes "gateway_dispatch H now t l sess g d = (r, g', d')"
  shows "(\<exists>e. r = Inl e \<and> g' = g \<and> d' = d) \<or> (\<exists>n sid s cur key env. now_of now = Inr n \<and> sess = PyStr sid
    \<and> is_identifier sid \<and> is_identifier (l_worker_id l) \<and> is_identifier (l_task_id l) \<and> is_identifier (l_lease_id l)
    \<and> get_task (l_task_id l) d = Inr cur \<and> map_of (gw_sessions g) (l_worker_id l) = Some s
    \<and> dispatch_allowed n t (l_worker_id l) sid (l_lease_id l) s cur
    \<and> key = dispatch_key H (l_task_id l) (l_worker_id l) sid (l_lease_id l) \<and> r = Inr env
    \<and> ((\<exists>x. map_of (gw_dispatches g) key = Some x \<and> env = dp_envelope x \<and> g' = g \<and> d' = d)
       \<or> (map_of (gw_dispatches g) key = None
          \<and> env = \<lparr>de_dispatch_id = key, de_task_id = l_task_id l, de_worker_id = l_worker_id l,
                   de_session_id = sid, de_lease_id = l_lease_id l, de_expires_at = t_lease_expires_at cur,
                   de_capability = t_capability cur, de_target = t_target_project cur\<rparr>
          \<and> g' = set_dispatch key (fresh_dispatch env) g
          \<and> d' = audit (l_task_id l) ''DISPATCHED'' n
               (''worker='' @ l_worker_id l @ '';session='' @ sid @ '';lease='' @ l_lease_id l) d)))"
  using assms unfolding gateway_dispatch_def Let_def
  by (elim chainE) (auto simp: fresh_dispatch_def dest!: ident_of_Inr)

lemma gateway_dispatch_steps:
  assumes "gateway_dispatch H now t l sess g d = (r, g', d')"
  shows "store_step\<^sup>*\<^sup>* d d' \<and> db_tasks d' = db_tasks d"
  using gateway_dispatch_D [OF assms] by (auto intro: r_into_rtranclp step_audit)

subsection \<open>Sessions\<close>

lemma register_session_D:
  assumes "register_session now h g d = (r, g', d')"
  shows "(\<exists>e. r = Inl e \<and> g' = g) \<or> (r = Inr () \<and> g' = g \<and> d' = d)
    \<or> (\<exists>n wid sid p obs c q. now_of now = Inr n \<and> sh_worker_id h = PyStr wid \<and> is_identifier wid
      \<and> sh_session_id h = PyStr sid \<and> map_of (gw_profiles g) wid = Some p
      \<and> sh_observed_at h = Finite obs \<and> 0 \<le> obs \<and> obs \<le> n + 1 \<and> n - obs \<le> pr_heartbeat_sla p
      \<and> hello_matches h p = Inr (c, q) \<and> r = Inr ()
      \<and> (\<forall>s. map_of (gw_sessions g) wid = Some s \<longrightarrow> n - ss_observed_at s > pr_heartbeat_sla (ss_profile s))
      \<and> g' = set_session wid \<lparr>ss_profile = p, ss_session_id = sid, ss_sequence = q, ss_observed_at = obs,
                 ss_capacity = c, ss_provider_state = VERIFIED, ss_transport_state = VERIFIED\<rparr> g)"
proof -
  note run = assms [unfolded register_session_def Let_def split_beta]
  show ?thesis
    using run
    by (elim chainE) (auto split: if_splits sum.splits prod.splits option.splits
        dest!: ident_of_Inr time_of_Inr)
qed

lemma register_worker_keeps_tasks:
  "db_tasks (snd (register_worker now wid kind caps targets sla capacity d)) = db_tasks d"
  "db_tasks (snd (heartbeat_with_capacity now wid c obs d)) = db_tasks d"
  by (simp_all add: register_worker_def heartbeat_with_capacity_def split: sum.split option.split)

lemma register_session_steps:
  assumes "register_session now h g d = (r, g', d')"
  shows "store_step\<^sup>*\<^sup>* d d'"
proof -
  have reg: "store_step\<^sup>*\<^sup>* d (snd p)"
    if "p = register_worker now' wid kind caps targets sla c d" for p now' wid kind caps targets sla c
    unfolding that by (rule op_steps)
  note run = assms [unfolded register_session_def Let_def split_beta]
  show ?thesis
    using run
    by (elim chainE) (auto split: if_splits sum.splits option.splits intro: reg [OF refl])
qed

lemma register_local_D:
  assumes "register_local_harness now h g d = (r, g', d')"
  shows "(\<exists>e. r = Inl e \<and> g' = g \<and> d' = d)
    \<or> (sh_version h = PROTOCOL_VERSION \<and> sh_provider_state h = ''UNKNOWN'' \<and> sh_transport_state h = ''UNKNOWN''
       \<and> register_session now h g d = (r, g', d'))"
  using assms unfolding register_local_harness_def
  by (elim chainE) (auto simp: version_ok_def split: if_splits)

lemma gateway_heartbeat_D:
  assumes "gateway_heartbeat now m g d = (r, g', d')"
  shows "(\<exists>e. r = Inl e \<and> g' = g \<and> store_step\<^sup>*\<^sup>* d d') \<or> (\<exists>n wid s q obs c. now_of now = Inr n
    \<and> hb_worker_id m = PyStr wid \<and> hb_session_id m = PyStr (ss_session_id s)
    \<and> map_of (gw_sessions g) wid = Some s \<and> hb_sequence m = PyInt q \<and> ss_sequence s < q
    \<and> hb_observed_at m = Finite obs \<and> ss_observed_at s < obs \<and> obs \<le> n + 1
    \<and> n - obs \<le> pr_heartbeat_sla (ss_profile s)
    \<and> hb_capacity m = PyInt c \<and> 0 \<le> c \<and> c \<le> pr_max_capacity (ss_profile s) \<and> r = Inr ()
    \<and> g' = set_session wid (s\<lparr>ss_sequence := q, ss_observed_at := obs, ss_capacity := c\<rparr>) g
    \<and> store_step\<^sup>*\<^sup>* d d')"
proof -
  have hb: "store_step\<^sup>*\<^sup>* d d1" if "heartbeat_with_capacity now' wid c obs d = (q, d1)" for now' wid c obs q d1
    using step_heartbeat_capacity [of d now' wid c obs] that by (metis r_into_rtranclp snd_conv)
  have int: "as_int v = Some c \<Longrightarrow> v = PyInt c" for v c by (cases v) auto
  show ?thesis
    using assms unfolding gateway_heartbeat_def
    by (elim chainE)
       (auto split: sum.splits prod.splits dest!: ident_of_Inr time_of_Inr int intro: hb)
qed

subsection \<open>Acknowledgement and result\<close>

lemma bound_dispatch_D:
  "bound_dispatch did (a, b, c, e) g = Inr (i, x) \<Longrightarrow> did = PyStr i \<and> map_of (gw_dispatches g) i = Some x
    \<and> de_task_id (dp_envelope x) = a \<and> de_worker_id (dp_envelope x) = b
    \<and> de_session_id (dp_envelope x) = c \<and> de_lease_id (dp_envelope x) = e"
  by (auto simp: bound_dispatch_def split: sum.splits option.splits if_splits dest!: ident_of_Inr)

lemma acknowledge_D:
  assumes "acknowledge now m g d = (r, g', d')"
  shows "(\<exists>e. r = Inl e \<and> g' = g \<and> store_step\<^sup>*\<^sup>* d d') \<or> (\<exists>n obs i x cur. now_of now = Inr n
    \<and> ak_dispatch_id m = PyStr i \<and> map_of (gw_dispatches g) i = Some x \<and> get_task (ak_task_id m) d = Inr cur
    \<and> de_task_id (dp_envelope x) = ak_task_id m \<and> de_worker_id (dp_envelope x) = ak_worker_id m
    \<and> de_lease_id (dp_envelope x) = ak_lease_id m \<and> r = Inr ()
    \<and> ((dp_acknowledged x \<and> t_state cur = RUNNING \<and> g' = g \<and> d' = d)
       \<or> (\<not> dp_acknowledged x \<and> t_state cur = LEASED \<and> (\<exists>det. start_with_ack (Finite n) (ak_task_id m)
            (ak_worker_id m) (ak_lease_id m) det d = (Inr (), d'))
          \<and> g' = set_dispatch i (x\<lparr>dp_acknowledged := True, dp_ack_observed_at := Some obs\<rparr>) g)))"
proof -
  have ack: "store_step\<^sup>*\<^sup>* d d1" if "start_with_ack now' tid wid lid det d = (q, d1)" for now' tid wid lid det q d1
    using step_start_ack [of d now' tid wid lid det] that by (metis r_into_rtranclp snd_conv)
  show ?thesis
    using assms unfolding acknowledge_def
    by (elim chainE)
       (auto simp: lease_authority_def split: sum.splits prod.splits if_splits dest!: bound_dispatch_D intro: ack)
qed

lemma report_result_steps:
  assumes "report_result H n m ev d = (r, d')"
  shows "store_step\<^sup>*\<^sup>* d d'"
proof -
  have "store_step\<^sup>*\<^sup>* d (snd (report_result H n m ev d))"
    by (auto simp: report_result_def split: sum.split prod.split intro: op_steps)
  with assms show ?thesis by simp
qed

lemma gateway_result_D:
  assumes "gateway_result H now m g d = (r, g', d')"
  shows "(\<exists>e. r = Inl e \<and> g' = g \<and> store_step\<^sup>*\<^sup>* d d') \<or> (\<exists>n i x cur. now_of now = Inr n
    \<and> rs_dispatch_id m = PyStr i \<and> map_of (gw_dispatches g) i = Some x \<and> get_task (rs_task_id m) d = Inr cur
    \<and> de_task_id (dp_envelope x) = rs_task_id m \<and> dp_acknowledged x \<and> \<not> dp_result_received x
    \<and> lease_authority n (rs_worker_id m) (rs_lease_id m) RUNNING cur
    \<and> report_result H n m (gw_evidence g) d = (Inr (), d') \<and> r = Inr ()
    \<and> g' = set_dispatch i (x\<lparr>dp_result_received := True\<rparr>) g)"
  using assms unfolding gateway_result_def
  by (elim chainE)
     (auto split: sum.splits prod.splits if_splits option.splits dest!: bound_dispatch_D intro: report_result_steps)

subsection \<open>The steps of the gateway\<close>

text \<open>
  A message or call of the gateway, or a step of the store by another component. A declaration of
  evidence goes through the resolver.
\<close>

inductive gateway_step :: "(string \<Rightarrow> string) \<Rightarrow> gateway \<times> db \<Rightarrow> gateway \<times> db \<Rightarrow> bool" for H where
  gstep_register: "gateway_step H (g, d) (snd (register_local_harness now h g d))"
| gstep_heartbeat: "gateway_step H (g, d) (snd (gateway_heartbeat now m g d))"
| gstep_dispatch: "gateway_step H (g, d) (snd (gateway_dispatch H now t l sess g d))"
| gstep_ack: "gateway_step H (g, d) (snd (acknowledge now a g d))"
| gstep_result: "gateway_step H (g, d) (snd (gateway_result H now e g d))"
| gstep_declare: "gateway_step H (g, d) (g\<lparr>gw_evidence := snd (declare_evidence eid c (gw_evidence g))\<rparr>, d)"
| gstep_store: "store_step d d' \<Longrightarrow> gateway_step H (g, d) (g, d')"

text \<open>What a gateway step keeps: declared evidence, dispatches with their marks, store steps only.\<close>

definition dispatch_le :: "dispatch \<Rightarrow> dispatch \<Rightarrow> bool" where
  "dispatch_le x y \<longleftrightarrow> dp_envelope y = dp_envelope x \<and> (dp_acknowledged x \<longrightarrow> dp_acknowledged y)
     \<and> (dp_result_received x \<longrightarrow> dp_result_received y)"

definition gw_extends :: "gateway \<Rightarrow> gateway \<Rightarrow> bool" where
  "gw_extends g g' \<longleftrightarrow> (\<forall>i c. map_of (gw_evidence g) i = Some c \<longrightarrow> map_of (gw_evidence g') i = Some c)
     \<and> (\<forall>i x. map_of (gw_dispatches g) i = Some x \<longrightarrow>
          (\<exists>y. map_of (gw_dispatches g') i = Some y \<and> dispatch_le x y))"

lemma dispatch_le_refl [simp]: "dispatch_le x x"
  by (simp add: dispatch_le_def)

lemma dispatch_le_trans: "dispatch_le x y \<Longrightarrow> dispatch_le y z \<Longrightarrow> dispatch_le x z"
  by (simp add: dispatch_le_def)

lemma gw_extends_refl [simp]: "gw_extends g g"
  by (simp add: gw_extends_def)

lemma gw_extends_session [simp]: "gw_extends g (set_session w s g)"
  by (simp add: gw_extends_def set_session_def)

lemma gw_extends_trans: "gw_extends a b \<Longrightarrow> gw_extends b c \<Longrightarrow> gw_extends a c"
  unfolding gw_extends_def by (blast intro: dispatch_le_trans)

lemma gw_extends_dispatch:
  assumes "\<And>x. map_of (gw_dispatches g) i = Some x \<Longrightarrow> dispatch_le x y"
  shows "gw_extends g (set_dispatch i y g)"
  using assms by (auto simp: gw_extends_def set_dispatch_def map_of_AList_update)

lemma declare_keeps:
  "map_of m i = Some c \<Longrightarrow> map_of (snd (declare_evidence eid x m)) i = Some c"
  by (auto simp: declare_evidence_def map_of_AList_update split: sum.split option.split pyval.split)

lemma gateway_step_extends:
  assumes "gateway_step H s s'"
  shows "gw_extends (fst s) (fst s') \<and> store_step\<^sup>*\<^sup>* (snd s) (snd s')"
  using assms
proof cases
  case (gstep_register g d now h)
  obtain r g' d' where run: "register_local_harness now h g d = (r, g', d')" using prod_cases3 by blast
  from register_local_D [OF run] show ?thesis unfolding gstep_register run
    using register_session_D [of now h g d r g' d'] register_session_steps [of now h g d r g' d'] by auto
next
  case (gstep_heartbeat g d now m)
  obtain r g' d' where run: "gateway_heartbeat now m g d = (r, g', d')" using prod_cases3 by blast
  from gateway_heartbeat_D [OF run] show ?thesis unfolding gstep_heartbeat run by auto
next
  case (gstep_dispatch g d now t l sess)
  obtain r g' d' where run: "gateway_dispatch H now t l sess g d = (r, g', d')" using prod_cases3 by blast
  from gateway_dispatch_D [OF run] gateway_dispatch_steps [OF run] show ?thesis unfolding gstep_dispatch run
    by (auto intro!: gw_extends_dispatch simp: dispatch_le_def)
next
  case (gstep_ack g d now a)
  obtain r g' d' where run: "acknowledge now a g d = (r, g', d')" using prod_cases3 by blast
  have "store_step\<^sup>*\<^sup>* d d'" if "start_with_ack now' tid wid lid det d = (q, d')" for now' tid wid lid det q
    using step_start_ack [of d now' tid wid lid det] that by (metis r_into_rtranclp snd_conv)
  with acknowledge_D [OF run] show ?thesis unfolding gstep_ack run
    by (auto intro!: gw_extends_dispatch simp: dispatch_le_def)
next
  case (gstep_result g d now e)
  obtain r g' d' where run: "gateway_result H now e g d = (r, g', d')" using prod_cases3 by blast
  from gateway_result_D [OF run] show ?thesis unfolding gstep_result run
    by (auto intro!: gw_extends_dispatch intro: report_result_steps simp: dispatch_le_def)
next
  case (gstep_declare g d eid c)
  then show ?thesis by (simp add: gw_extends_def declare_keeps)
next
  case (gstep_store d d' g)
  then show ?thesis by auto
qed

lemma gateway_steps_extend:
  assumes "(gateway_step H)\<^sup>*\<^sup>* s s'"
  shows "gw_extends (fst s) (fst s') \<and> store_step\<^sup>*\<^sup>* (snd s) (snd s')"
  using assms
proof (induction rule: rtranclp_induct)
  case (step y z)
  with gateway_step_extends [OF step.hyps(2)] show ?case
    by (auto intro: gw_extends_trans rtranclp_trans)
qed simp

lemma submit_result_review:
  assumes "submit_result (Finite n) tid wid lid eid sha d = (Inr (), d')"
  shows "(\<exists>n. db_evidence d' = db_evidence d @ [evidence_row tid eid sha n]) \<and> state_in d' tid = Some REVIEW_PENDING"
proof -
  have "db_evidence d' = db_evidence d @ [evidence_row tid eid sha n'] \<and> state_in d' tid = Some REVIEW_PENDING"
    if "find_task tid d = Some t" "d' = audit tid ''RESULT_RECEIVED'' n' eid (update_tasks (\<lambda>u. t_id u = tid)
             (\<lambda>u. u\<lparr>t_state := REVIEW_PENDING, t_evidence_status := ''RECEIVED'', t_updated_at := n'\<rparr>)
             (d\<lparr>db_evidence := db_evidence d @ [evidence_row tid eid sha n']\<rparr>))" for t n'
  proof -
    have "find_task tid (d\<lparr>db_evidence := db_evidence d @ [evidence_row tid eid sha n']\<rparr>) = Some t"
      using that(1) by (simp add: find_task_def)
    with that find_task_D [OF that(1)] show ?thesis by (simp add: state_in_def find_task_update_tasks)
  qed
  with submit_result_D [OF assms] show ?thesis by (elim disjE exE conjE) (simp_all, blast)
qed

end
