(* ===== verification/GatewayClaims.thy ===== *)
theory GatewayClaims
  imports GatewaySpec
begin

text \<open>
  The theorems on the worker gateway and the router: at most one accepted result per dispatch,
  evidence bound to declared content, no replayed heartbeat, dispatch authority, and the router over
  any gateway that keeps the contract \<open>worker_gateway\<close>.
\<close>

subsection \<open>A sample gateway\<close>

definition sample_hash :: "string \<Rightarrow> string" where
  "sample_hash s = sample_sha"

definition sample_profile :: profile where
  "sample_profile = \<lparr>pr_worker_id = ''w'', pr_worker_kind = ''local'', pr_capabilities = [''test''],
     pr_targets = [''repo''], pr_max_capacity = 2, pr_heartbeat_sla = 10\<rparr>"

definition sample_session :: session where
  "sample_session = \<lparr>ss_profile = sample_profile, ss_session_id = ''s'', ss_sequence = 0, ss_observed_at = 0,
     ss_capacity = 1, ss_provider_state = VERIFIED, ss_transport_state = VERIFIED\<rparr>"

definition sample_envelope :: DispatchEnvelope where
  "sample_envelope = \<lparr>de_dispatch_id = sample_sha, de_task_id = ''t'', de_worker_id = ''w'', de_session_id = ''s'',
     de_lease_id = ''L'', de_expires_at = Some 31, de_capability = ''test'', de_target = ''repo''\<rparr>"

definition sample_gateway :: gateway where
  "sample_gateway = \<lparr>gw_profiles = [(''w'', sample_profile)], gw_sessions = [(''w'', sample_session)],
     gw_dispatches = [(sample_sha, \<lparr>dp_envelope = sample_envelope, dp_acknowledged = True,
        dp_ack_observed_at = Some 2, dp_result_received = False\<rparr>)],
     gw_evidence = [(''ev1'', Some ''content'')]\<rparr>"

definition sample_result :: ResultEnvelope where
  "sample_result = \<lparr>rs_dispatch_id = PyStr sample_sha, rs_task_id = ''t'', rs_worker_id = ''w'',
     rs_session_id = ''s'', rs_lease_id = ''L'', rs_observed_at = Finite 4, rs_status = ''SUCCEEDED'',
     rs_evidence = [\<lparr>er_evidence_id = PyStr ''ev1'', er_sha256 = PyStr sample_sha\<rparr>],
     rs_version = PROTOCOL_VERSION\<rparr>"

lemma sample_sha_identifier: "is_identifier sample_sha"
  by (simp add: sample_sha_def is_alnum_def is_lower_def ident_char_def list_all_iff numeral_nat)

lemmas gw_sample_defs = sample_hash_def sample_profile_def sample_session_def sample_envelope_def
  sample_gateway_def sample_result_def

lemma sample_result_accepted:
  "\<exists>g' d'. gateway_result sample_hash (Finite 5) sample_result sample_gateway sample_running = (Inr (), g', d')"
proof -
  have task: "get_task ''t'' sample_running = Inr (row RUNNING 2 (Some ''w'') (Some ''L'') (Some 31) (Some 0))"
    by (simp add: get_task_def sample_running_eq eval_simps sample_defs)
  have sub: "fst (submit_result (Finite 5) ''t'' ''w'' ''L'' ''ev1'' sample_sha sample_running) = Inr ()"
    by (simp add: submit_result_def sample_running_eq sample_sha_ok result_reportable_def
        evidence_insert_ok_def eval_simps sample_defs)
  obtain d' where sub': "submit_result (Finite 5) ''t'' ''w'' ''L'' ''ev1'' sample_sha sample_running = (Inr (), d')"
    using sub by (cases "submit_result (Finite 5) ''t'' ''w'' ''L'' ''ev1'' sample_sha sample_running") auto
  have ev: "is_identifier ''ev1''" by (simp add: is_alnum_def is_lower_def is_digit_def ident_char_def)
  show ?thesis
    by (simp add: gateway_result_def gw_sample_defs version_ok_def time_of_def bound_dispatch_def ident_of_def
        sample_sha_identifier task session_authority_def lease_authority_def sql_gt_def row_def report_result_def
        check_evidence_def resolve_def ev [simplified] sample_sha_ok sub')
qed

subsection \<open>Results\<close>

text \<open>C29. A dispatch yields at most one accepted result: after one has been accepted, every further
  result for the same dispatch is refused, whatever it says and whatever messages, store operations or
  declarations happened in between.\<close>

theorem result_accepted_once:
  assumes "gateway_result H now m g d = (Inr (), g1, d1)"
    and "(gateway_step H)\<^sup>*\<^sup>* (g1, d1) (g2, d2)"
    and "rs_dispatch_id m' = rs_dispatch_id m"
  shows "\<exists>e. gateway_result H now' m' g2 d2 = (Inl e, g2, d2)"
proof -
  from gateway_result_D [OF assms(1)] obtain i x where i: "rs_dispatch_id m = PyStr i"
    and g1: "g1 = set_dispatch i (x\<lparr>dp_result_received := True\<rparr>) g" by auto
  then have "map_of (gw_dispatches g1) i = Some (x\<lparr>dp_result_received := True\<rparr>)"
    by (simp add: set_dispatch_def map_of_AList_update)
  with gateway_steps_extend [OF assms(2)] obtain y where y: "map_of (gw_dispatches g2) i = Some y"
    and fin: "dp_result_received y"
    unfolding gw_extends_def dispatch_le_def by fastforce
  obtain r g3 d3 where run: "gateway_result H now' m' g2 d2 = (r, g3, d3)" using prod_cases3 by blast
  have "\<exists>e. r = Inl e \<and> g3 = g2 \<and> d3 = d2"
    using run [unfolded gateway_result_def] i assms(3) y fin
    by (elim chainE) (auto dest!: bound_dispatch_D)
  then show ?thesis using run by blast
qed

theorem result_accepted_once_witness:
  "\<exists>g' d' e. gateway_result sample_hash (Finite 5) sample_result sample_gateway sample_running = (Inr (), g', d')
     \<and> gateway_result sample_hash (Finite 6) sample_result g' d' = (Inl e, g', d')"
proof -
  obtain g' d' where run: "gateway_result sample_hash (Finite 5) sample_result sample_gateway sample_running = (Inr (), g', d')"
    using sample_result_accepted by blast
  with result_accepted_once [OF run rtranclp.rtrancl_refl refl] show ?thesis by blast
qed

text \<open>An accepted success is backed by content: the evidence row it adds carries the digest of
  content that was declared in the resolver under its identifier, the task is then under review, and
  that content can never be changed by later gateway steps.\<close>

theorem result_evidence_bound:
  assumes "gateway_result H now m g d = (Inr (), g', d')" and "rs_status m = ''SUCCEEDED''"
  shows "\<exists>n eid b. map_of (gw_evidence g) eid = Some (Some b)
    \<and> db_evidence d' = db_evidence d @ [evidence_row (rs_task_id m) eid (H b) n]
    \<and> state_in d' (rs_task_id m) = Some REVIEW_PENDING
    \<and> (\<forall>g2 d2. (gateway_step H)\<^sup>*\<^sup>* (g', d') (g2, d2) \<longrightarrow> map_of (gw_evidence g2) eid = Some (Some b))"
proof -
  from gateway_result_D [OF assms(1)] obtain n i x where rep: "report_result H n m (gw_evidence g) d = (Inr (), d')"
    and g': "g' = set_dispatch i (x\<lparr>dp_result_received := True\<rparr>) g" by auto
  from rep assms(2) obtain eid sha where ck: "check_evidence H (rs_evidence m) (gw_evidence g) = Inr (eid, sha)"
    and sub: "submit_result (Finite n) (rs_task_id m) (rs_worker_id m) (rs_lease_id m) eid sha d = (Inr (), d')"
    by (auto simp: report_result_def split: sum.splits prod.splits)
  from ck obtain b where b: "map_of (gw_evidence g) eid = Some (Some b)" "H b = sha"
    by (auto simp: check_evidence_def resolve_def split: list.splits sum.splits option.splits if_splits
        dest!: ident_of_Inr)
  from submit_result_review [OF sub] b(2) have "\<exists>n. db_evidence d' = db_evidence d @ [evidence_row (rs_task_id m) eid (H b) n]
      \<and> state_in d' (rs_task_id m) = Some REVIEW_PENDING" by simp
  moreover have "map_of (gw_evidence g2) eid = Some (Some b)" if "(gateway_step H)\<^sup>*\<^sup>* (g', d') (g2, d2)" for g2 d2
    using gateway_steps_extend [OF that] b(1) by (simp add: gw_extends_def g' set_dispatch_def)
  ultimately show ?thesis using b(1) by blast
qed

theorem result_evidence_bound_witness:
  "\<exists>g' d' eid b. gateway_result sample_hash (Finite 5) sample_result sample_gateway sample_running = (Inr (), g', d')
     \<and> map_of (gw_evidence sample_gateway) eid = Some (Some b) \<and> state_in d' ''t'' = Some REVIEW_PENDING"
proof -
  obtain g' d' where run: "gateway_result sample_hash (Finite 5) sample_result sample_gateway sample_running = (Inr (), g', d')"
    using sample_result_accepted by blast
  have "rs_status sample_result = ''SUCCEEDED''" "rs_task_id sample_result = ''t''"
    by (simp_all add: sample_result_def)
  with result_evidence_bound [OF run this(1)] run show ?thesis by auto
qed

subsection \<open>Sessions\<close>

subsection \<open>Sessions\<close>

text \<open>Heartbeats cannot be replayed: an accepted heartbeat strictly advances the sequence number
  and the observation time of its session within the profile's capacity, and the same message is
  refused when it comes again.\<close>

theorem heartbeat_not_replayed:
  assumes "gateway_heartbeat now m g d = (Inr (), g', d')"
  shows "(\<exists>wid s s'. map_of (gw_sessions g) wid = Some s \<and> map_of (gw_sessions g') wid = Some s'
      \<and> ss_sequence s < ss_sequence s' \<and> ss_observed_at s < ss_observed_at s'
      \<and> ss_capacity s' \<le> pr_max_capacity (ss_profile s'))
    \<and> (\<exists>e. fst (gateway_heartbeat now' m g' d') = Inl e)"
proof -
  from gateway_heartbeat_D [OF assms] obtain n wid s q obs c where
    m: "hb_worker_id m = PyStr wid" "hb_sequence m = PyInt q"
    and s: "map_of (gw_sessions g) wid = Some s" "ss_sequence s < q" "ss_observed_at s < obs"
      "c \<le> pr_max_capacity (ss_profile s)"
    and g': "g' = set_session wid (s\<lparr>ss_sequence := q, ss_observed_at := obs, ss_capacity := c\<rparr>) g"
    by auto
  let ?s = "s\<lparr>ss_sequence := q, ss_observed_at := obs, ss_capacity := c\<rparr>"
  have s': "map_of (gw_sessions g') wid = Some ?s"
    by (simp add: g' set_session_def map_of_AList_update)
  obtain r g2 d2 where again: "gateway_heartbeat now' m g' d' = (r, g2, d2)" using prod_cases3 by blast
  from gateway_heartbeat_D [OF again] m s' have "\<exists>e. r = Inl e" by auto
  with s s' again show ?thesis by fastforce
qed

definition sample_heartbeat :: HeartbeatEnvelope where
  "sample_heartbeat = \<lparr>hb_worker_id = PyStr ''w'', hb_session_id = PyStr ''s'', hb_sequence = PyInt 1,
     hb_observed_at = Finite 3, hb_capacity = PyInt 2, hb_version = PROTOCOL_VERSION\<rparr>"

theorem heartbeat_not_replayed_witness:
  "\<exists>g' d' e. gateway_heartbeat (Finite 3) sample_heartbeat sample_gateway sample_running = (Inr (), g', d')
     \<and> fst (gateway_heartbeat (Finite 4) sample_heartbeat g' d') = Inl e"
proof -
  obtain g' d' where run: "gateway_heartbeat (Finite 3) sample_heartbeat sample_gateway sample_running = (Inr (), g', d')"
    by (simp add: gateway_heartbeat_def sample_heartbeat_def gw_sample_defs version_ok_def time_of_def ident_of_def
        heartbeat_with_capacity_def observed_or_def sample_running_eq eval_simps sample_defs)
  with heartbeat_not_replayed [OF run] show ?thesis by blast
qed

text \<open>No takeover: while a worker's session is fresh, registering another session for it, by any
  hello at that time, is refused and changes nothing.\<close>

theorem fresh_session_not_replaced:
  assumes "map_of (gw_sessions g) wid = Some s" and "n - ss_observed_at s \<le> pr_heartbeat_sla (ss_profile s)"
    and "sh_worker_id h = PyStr wid" and "sh_session_id h \<noteq> PyStr (ss_session_id s)"
  shows "\<exists>e. register_local_harness (Finite n) h g d = (Inl e, g, d)"
proof -
  obtain r g' d' where run: "register_local_harness (Finite n) h g d = (r, g', d')" using prod_cases3 by blast
  have "\<exists>e. r = Inl e \<and> g' = g \<and> d' = d"
  proof (cases "register_session (Finite n) h g d = (r, g', d')")
    case True
    from True [unfolded register_session_def Let_def] assms show ?thesis
      by (elim chainE) (auto split: if_splits dest!: ident_of_Inr)
  next
    case False
    with register_local_D [OF run] show ?thesis by blast
  qed
  with run show ?thesis by blast
qed

definition sample_hello :: SessionHello where
  "sample_hello = \<lparr>sh_worker_id = PyStr ''w'', sh_worker_kind = ''local'', sh_capabilities = PyList [PyStr ''test''],
     sh_targets = PyList [PyStr ''repo''], sh_session_id = PyStr ''z'', sh_sequence = PyInt 0,
     sh_observed_at = Finite 5, sh_capacity = PyInt 1, sh_provider_state = ''UNKNOWN'',
     sh_transport_state = ''UNKNOWN'', sh_version = PROTOCOL_VERSION\<rparr>"

theorem fresh_session_not_replaced_witness:
  "\<exists>e. register_local_harness (Finite 5) sample_hello sample_gateway sample_running = (Inl e, sample_gateway, sample_running)"
  by (rule fresh_session_not_replaced [where s = sample_session])
     (simp_all add: gw_sample_defs sample_hello_def)

subsection \<open>Dispatch\<close>

definition raw_binding :: "string \<times> string \<times> string \<times> string \<Rightarrow> string" where
  "raw_binding b = (case b of (tid, wid, sid, lid) \<Rightarrow> tid @ ''|'' @ wid @ ''|'' @ sid @ ''|'' @ lid)"

definition env_binding :: "DispatchEnvelope \<Rightarrow> string \<times> string \<times> string \<times> string" where
  "env_binding e = (de_task_id e, de_worker_id e, de_session_id e, de_lease_id e)"

definition key_ok :: "(string \<Rightarrow> string) \<Rightarrow> string \<Rightarrow> DispatchEnvelope \<Rightarrow> bool" where
  "key_ok H i e \<longleftrightarrow> de_dispatch_id e = i \<and> H (raw_binding (env_binding e)) = i
     \<and> is_identifier (de_task_id e) \<and> is_identifier (de_worker_id e) \<and> is_identifier (de_session_id e)"

definition keys_ok :: "(string \<Rightarrow> string) \<Rightarrow> gateway \<Rightarrow> bool" where
  "keys_ok H g \<longleftrightarrow> (\<forall>i x. map_of (gw_dispatches g) i = Some x \<longrightarrow> key_ok H i (dp_envelope x))"

lemma keys_ok_update:
  assumes "keys_ok H g" and "key_ok H i (dp_envelope y)"
  shows "keys_ok H (set_dispatch i y g)"
  using assms by (auto simp: keys_ok_def set_dispatch_def map_of_AList_update)

lemma keys_ok_mark:
  assumes "keys_ok H g" and "map_of (gw_dispatches g) i = Some x" and "dp_envelope y = dp_envelope x"
  shows "keys_ok H (set_dispatch i y g)"
  by (rule keys_ok_update [OF assms(1)]) (use assms in \<open>simp add: keys_ok_def\<close>)

lemma keys_ok_session: "keys_ok H (set_session w s g) = keys_ok H g"
  by (simp add: keys_ok_def set_session_def)

lemma keys_ok_step:
  assumes "gateway_step H s s'" and "keys_ok H (fst s)"
  shows "keys_ok H (fst s')"
  using assms
proof cases
  case (gstep_register g d now h)
  obtain r g' d' where run: "register_local_harness now h g d = (r, g', d')" using prod_cases3 by blast
  from register_local_D [OF run] assms(2) show ?thesis unfolding gstep_register run
    using register_session_D [of now h g d r g' d'] by (auto simp: keys_ok_session)
next
  case (gstep_heartbeat g d now m)
  obtain r g' d' where run: "gateway_heartbeat now m g d = (r, g', d')" using prod_cases3 by blast
  from gateway_heartbeat_D [OF run] assms(2) show ?thesis unfolding gstep_heartbeat run
    by (auto simp: keys_ok_session)
next
  case (gstep_dispatch g d now t l sess)
  obtain r g' d' where run: "gateway_dispatch H now t l sess g d = (r, g', d')" using prod_cases3 by blast
  from gateway_dispatch_D [OF run] assms(2) show ?thesis unfolding gstep_dispatch run
    by (auto intro!: keys_ok_update
        simp: key_ok_def fresh_dispatch_def env_binding_def raw_binding_def dispatch_key_def)
next
  case (gstep_ack g d now a)
  obtain r g' d' where run: "acknowledge now a g d = (r, g', d')" using prod_cases3 by blast
  from acknowledge_D [OF run] assms(2) show ?thesis unfolding gstep_ack run
    by (auto intro: keys_ok_mark)
next
  case (gstep_result g d now e)
  obtain r g' d' where run: "gateway_result H now e g d = (r, g', d')" using prod_cases3 by blast
  from gateway_result_D [OF run] assms(2) show ?thesis unfolding gstep_result run
    by (auto intro: keys_ok_mark)
next
  case (gstep_declare g d eid c)
  with assms(2) show ?thesis by (simp add: keys_ok_def)
next
  case (gstep_store d d' g)
  with assms(2) show ?thesis by simp
qed

lemma keys_ok_steps:
  "(gateway_step H)\<^sup>*\<^sup>* s s' \<Longrightarrow> keys_ok H (fst s) \<Longrightarrow> keys_ok H (fst s')"
  by (induction rule: rtranclp_induct) (auto intro: keys_ok_step)

text \<open>The separator is no identifier character, so the dispatched string determines the binding.\<close>

lemma split_bar:
  assumes "CHR ''|'' \<notin> set a" and "CHR ''|'' \<notin> set b" and "a @ CHR ''|'' # r = b @ CHR ''|'' # s"
  shows "a = b \<and> r = s"
  using assms
proof (induction a arbitrary: b)
  case Nil
  then show ?case by (cases b) auto
next
  case (Cons x a)
  then show ?case by (cases b) auto
qed

lemma identifier_no_bar: "is_identifier s \<Longrightarrow> CHR ''|'' \<notin> set s"
  using is_identifier_chars [of s]
  by (auto simp: list_all_iff ident_char_def is_alnum_def is_upper_def is_lower_def is_digit_def)

lemma raw_binding_inj:
  assumes "raw_binding (a, b, c, e) = raw_binding (a', b', c', e')"
    and "is_identifier a" "is_identifier b" "is_identifier c" "is_identifier a'" "is_identifier b'" "is_identifier c'"
  shows "(a, b, c, e) = (a', b', c', e')"
proof -
  have 1: "a = a' \<and> b @ CHR ''|'' # (c @ CHR ''|'' # e) = b' @ CHR ''|'' # (c' @ CHR ''|'' # e')"
    by (rule split_bar) (use assms in \<open>simp_all add: raw_binding_def identifier_no_bar\<close>)
  then have 2: "b = b' \<and> c @ CHR ''|'' # e = c' @ CHR ''|'' # e'"
    by (intro split_bar) (use assms in \<open>simp_all add: identifier_no_bar\<close>)
  then have "c = c' \<and> e = e'"
    by (intro split_bar) (use assms in \<open>simp_all add: identifier_no_bar\<close>)
  with 1 2 show ?thesis by simp
qed

text \<open>What a dispatch envelope stands for: it is handed out only for a task that is leased, to that
  worker, under that unexpired lease, over the worker's own fresh session with the task's capability and
  target, and in every gateway reached from an empty one it names exactly that task, worker, session and
  lease, unless the hash gives two different bindings the same digest.\<close>

theorem dispatch_authorised:
  assumes "gw_dispatches g0 = []" and "(gateway_step H)\<^sup>*\<^sup>* (g0, d0) (g, d)"
    and "gateway_dispatch H (Finite n) t l (PyStr sid) g d = (Inr env, g', d')"
  shows "(\<exists>cur s. find_task (l_task_id l) d = Some cur \<and> map_of (gw_sessions g) (l_worker_id l) = Some s
      \<and> dispatch_allowed n t (l_worker_id l) sid (l_lease_id l) s cur)
    \<and> (let mine = (l_task_id l, l_worker_id l, sid, l_lease_id l) in
       env_binding env = mine
       \<or> (raw_binding (env_binding env) \<noteq> raw_binding mine \<and> H (raw_binding (env_binding env)) = H (raw_binding mine)))"
proof -
  have ok: "keys_ok H g" using keys_ok_steps [OF assms(2)] assms(1) by (simp add: keys_ok_def)
  let ?mine = "(l_task_id l, l_worker_id l, sid, l_lease_id l)"
  from gateway_dispatch_D [OF assms(3)] obtain cur s key where
    ids: "is_identifier sid" "is_identifier (l_worker_id l)" "is_identifier (l_task_id l)"
    and cur: "get_task (l_task_id l) d = Inr cur" and s: "map_of (gw_sessions g) (l_worker_id l) = Some s"
    and ok': "dispatch_allowed n t (l_worker_id l) sid (l_lease_id l) s cur"
    and key: "key = H (raw_binding ?mine)"
    and env: "env_binding env = ?mine \<or> (\<exists>x. map_of (gw_dispatches g) key = Some x \<and> env = dp_envelope x)"
    by (auto simp: raw_binding_def dispatch_key_def env_binding_def split: if_splits)
  have "find_task (l_task_id l) d = Some cur" using get_task_D [OF cur] ids by simp
  moreover have "env_binding env = ?mine \<or> (raw_binding (env_binding env) \<noteq> raw_binding ?mine
      \<and> H (raw_binding (env_binding env)) = H (raw_binding ?mine))"
  proof (cases "env_binding env = ?mine")
    case False
    with env ok key have k: "key_ok H (H (raw_binding ?mine)) env" by (auto simp: keys_ok_def)
    have "raw_binding (env_binding env) \<noteq> raw_binding ?mine"
    proof
      assume "raw_binding (env_binding env) = raw_binding ?mine"
      then have "env_binding env = ?mine"
        unfolding env_binding_def by (rule raw_binding_inj) (use k ids in \<open>simp_all add: key_ok_def\<close>)
      with False show False by simp
    qed
    with k show ?thesis by (simp add: key_ok_def)
  qed simp
  ultimately show ?thesis using s ok' unfolding Let_def by blast
qed

theorem dispatch_authorised_witness:
  "\<exists>env g' d'. gateway_dispatch (\<lambda>s. s) (Finite 2) (row LEASED 1 (Some ''w'') (Some ''L'') (Some 31) (Some 0))
       \<lparr>l_task_id = ''t'', l_worker_id = ''w'', l_lease_id = ''L'', l_expires_at = 31\<rparr> (PyStr ''s'')
       (sample_gateway\<lparr>gw_dispatches := []\<rparr>) sample_leased = (Inr env, g', d')
     \<and> env_binding env = (''t'', ''w'', ''s'', ''L'')"
proof -
  let ?g = "sample_gateway\<lparr>gw_dispatches := []\<rparr>"
  obtain env g' d' where run: "gateway_dispatch (\<lambda>s. s) (Finite 2) (row LEASED 1 (Some ''w'') (Some ''L'') (Some 31) (Some 0))
       \<lparr>l_task_id = ''t'', l_worker_id = ''w'', l_lease_id = ''L'', l_expires_at = 31\<rparr> (PyStr ''s'')
       ?g sample_leased = (Inr env, g', d')"
    by (simp add: gateway_dispatch_def gw_sample_defs ident_of_def get_task_def sample_leased_eq
        dispatch_allowed_def eval_simps sample_defs)
  from dispatch_authorised [OF _ rtranclp.rtrancl_refl run] run show ?thesis by (auto simp: Let_def)
qed

end
