(* ===== verification/RouterClaims.thy ===== *)
theory RouterClaims
  imports GatewayClaims
begin

text \<open>
  The router over any gateway. The locale \<open>worker_gateway\<close> is the contract between the router and
  its gateway: dispatching writes to the database only by store steps and changes no task row. The
  local gateway keeps it; the router's theorem is the instance for that gateway.
\<close>

lemma mark_frame:
  assumes "mark_waiting_capacity (Finite n) tid d = (r, d')" and "clean tid = tid" and "i \<noteq> tid"
  shows "find_task i d' = find_task i d"
  using mark_waiting_capacity_D [OF assms(1)] assms(2,3)
  by (cases "find_task i d") (auto simp: find_task_update_tasks dest: find_task_D)

lemma schedulable_batch:
  assumes "schedulable_tasks k d = Inr ts" and "distinct (map t_id (db_tasks d))"
  shows "set ts \<subseteq> set (db_tasks d) \<and> distinct (map t_id ts)"
proof -
  let ?xs = "sort_key sched_key_of (filter schedulable (db_tasks d))"
  from assms(1) obtain m where ts: "ts = take m ?xs"
    by (auto simp: schedulable_tasks_def split: option.splits if_splits)
  have "set ts \<subseteq> set ?xs" unfolding ts by (rule set_take_subset)
  moreover have "distinct (map t_id ?xs)"
    using assms(2) by (auto simp: distinct_map intro: inj_on_subset)
  ultimately show ?thesis by (auto simp: ts take_map [symmetric])
qed

lemma mark_waits:
  assumes "mark_waiting_capacity (Finite n) tid d = (Inr u, d')" and "clean tid = tid" and "find_task tid d = Some t"
    and "distinct (map t_id (db_tasks d))"
  shows "state_in d' tid = Some WAITING_CAPACITY"
proof -
  from assms(1) have one: "rowcount (\<lambda>u. t_id u = tid \<and> schedulable u) (db_tasks d) = 1"
    by (auto simp: mark_waiting_capacity_def assms(2) split: if_splits)
  then have "0 < rowcount (\<lambda>u. t_id u = tid \<and> schedulable u) (db_tasks d)" by simp
  then obtain u where u: "u \<in> set (db_tasks d)" "t_id u = tid" "schedulable u"
    unfolding rowcount_pos by blast
  have "u = t" using distinct_key_eq [OF assms(4) u(1)] find_task_D [OF assms(3)] u(2) by simp
  with mark_waiting_capacity_D [OF assms(1)] assms(2,3) u show ?thesis
    by (auto simp: state_in_def find_task_update_tasks wait_capacity_def)
qed

text \<open>A routed task is leased or waits for capacity.\<close>

definition settled :: "db \<Rightarrow> string \<Rightarrow> bool" where
  "settled d i \<longleftrightarrow> state_in d i = Some LEASED \<or> state_in d i = Some WAITING_CAPACITY"

subsection \<open>The contract\<close>

locale worker_gateway =
  fixes elig :: "'g elig_op" and disp :: "'g disp_op"
  assumes disp_steps: "disp n t l sid g d = (r, g', d') \<Longrightarrow> store_step\<^sup>*\<^sup>* d d'"
    and disp_rows: "disp n t l sid g d = (r, g', d') \<Longrightarrow> db_tasks d' = db_tasks d"
begin

lemma route_task_steps:
  assumes "route_task elig disp secs uuid n t g d = (r, g', d')"
  shows "store_step\<^sup>*\<^sup>* d d'"
proof -
  have mark: "store_step\<^sup>*\<^sup>* d d1" if "mark_waiting_capacity now tid d = (q, d1)" for now tid q d1
    using step_mark [of d now tid] that by (metis r_into_rtranclp snd_conv)
  have claim: "store_step\<^sup>*\<^sup>* d d1" if "claim now tid wid s lid d = (q, d1)" for now tid wid s lid q d1
    using step_claim [of d now tid wid s lid] that by (metis r_into_rtranclp snd_conv)
  have disp: "store_step\<^sup>*\<^sup>* d d2" if "claim now tid wid s lid d = (q, d1)"
    "disp n t l sid g (audit i e m x d1) = (p, g1, d2)" for now tid wid s lid q d1 l sid i e m x p g1 d2
    using claim [OF that(1)] disp_steps [OF that(2)] step_audit [of d1 i e m x]
    by (meson r_into_rtranclp rtranclp_trans)
  show ?thesis
    using assms
    by (auto simp: route_task_def split: sum.splits list.splits prod.splits if_splits
        intro: mark claim disp)
qed

lemma route_task_frame:
  assumes "route_task elig disp secs uuid n t g d = (r, g', d')" and "clean (t_id t) = t_id t" and "i \<noteq> t_id t"
  shows "find_task i d' = find_task i d"
proof -
  have disp: "find_task i d2 = find_task i d1" if "disp n t l sid g (audit j e m x d1) = (p, g1, d2)" for d1 l sid j e m x p g1 d2
    using disp_rows [OF that] by (simp add: find_task_def)
  show ?thesis
    using assms
    by (auto simp: route_task_def disp split: sum.splits list.splits prod.splits if_splits
        dest: mark_frame claim_frame)
qed

lemma route_task_settles:
  assumes "route_task elig disp secs uuid n t g d = (Inr x, g', d')" and "clean (t_id t) = t_id t"
    and "find_task (t_id t) d = Some u" and "distinct (map t_id (db_tasks d))"
  shows "settled d' (t_id t)"
proof -
  have disp: "state_in d2 i = state_in d1 i" if "disp n t l sid g (audit j e m x d1) = (p, g1, d2)" for i d1 l sid j e m x p g1 d2
    using disp_rows [OF that] by (simp add: state_in_def find_task_def)
  have claim: "state_in d1 (t_id t) = Some LEASED" if "claim now (t_id t) wid s lid d = (Inr l, d1)" for now wid s lid l d1
    using claim_leases [OF that] by (auto simp: leased_as_def state_in_def)
  show ?thesis
    using assms
    by (auto simp: route_task_def settled_def disp claim split: sum.splits list.splits prod.splits if_splits
        dest: mark_waits)
qed

lemma route_loop_steps:
  "route_loop elig disp uuid n ts out r g d = (res, r', g', d') \<Longrightarrow> store_step\<^sup>*\<^sup>* d d'"
proof (induction ts arbitrary: out r g d)
  case (Cons t ts)
  obtain q g1 d1 where t: "route_task elig disp (ro_lease_seconds r) uuid n t g d = (q, g1, d1)"
    using prod_cases3 by blast
  have step: "store_step\<^sup>*\<^sup>* d d1" by (rule route_task_steps [OF t])
  have "store_step\<^sup>*\<^sup>* d1 d' \<or> d' = d1"
    using Cons.prems t Cons.IH by (auto split: sum.splits option.splits if_splits prod.splits)
  with step show ?case by (auto intro: rtranclp_trans)
qed simp

lemma route_loop_error_kept:
  "route_loop elig disp uuid n ts out r g d = (Inr res, r', g', d') \<Longrightarrow> ro_last_error r \<noteq> None
    \<Longrightarrow> ro_last_error r' \<noteq> None"
  by (induction ts arbitrary: out r g d) (fastforce split: sum.splits option.splits if_splits prod.splits)+

lemma route_loop_settles:
  assumes "route_loop elig disp uuid n ts out r g d = (Inr res, r', g', d')" and "ro_last_error r' = None"
    and "db_inv d" and "distinct (map t_id ts)" and "\<forall>t \<in> set ts. find_task (t_id t) d \<noteq> None"
    and "\<forall>i \<in> set done_ids. settled d i \<and> i \<notin> t_id ` set ts"
  shows "\<forall>i \<in> set done_ids \<union> t_id ` set ts. settled d' i"
  using assms
proof (induction ts arbitrary: out r g d done_ids)
  case (Cons t ts)
  obtain q g1 d1 where t: "route_task elig disp (ro_lease_seconds r) uuid n t g d = (q, g1, d1)"
    using prod_cases3 by blast
  from Cons.prems(5) obtain u where u: "find_task (t_id t) d = Some u" by auto
  have stable: "clean (t_id t) = t_id t" by (rule find_task_stable [OF db_invD(1) [OF Cons.prems(3)] u])
  from db_invD(1) [OF Cons.prems(3)] have dist: "distinct (map t_id (db_tasks d))" by (simp add: tasks_inv_def)
  have ids: "distinct (map t_id ts)" "t_id t \<notin> t_id ` set ts" using Cons.prems(4) by auto
  note frame = route_task_frame [OF t stable]
  have ok: "\<exists>x r1 out1. q = Inr x \<and> route_loop elig disp uuid n ts out1 r1 g1 d1 = (Inr res, r', g', d')"
    using Cons.prems(1,2) t
    by (auto split: sum.splits option.splits if_splits prod.splits dest: route_loop_error_kept)
  then obtain x r1 out1 where q: "q = Inr x" and rest: "route_loop elig disp uuid n ts out1 r1 g1 d1 = (Inr res, r', g', d')"
    by blast
  have here: "settled d1 (t_id t)" by (rule route_task_settles [OF t [unfolded q] stable u dist])
  have inv: "db_inv d1" using steps_inv [OF route_task_steps [OF t] Cons.prems(3)] .
  have known: "\<forall>t' \<in> set ts. find_task (t_id t') d1 \<noteq> None"
  proof
    fix t' assume "t' \<in> set ts"
    with ids(2) have "t_id t' \<noteq> t_id t" by (metis imageI)
    with frame Cons.prems(5) \<open>t' \<in> set ts\<close> show "find_task (t_id t') d1 \<noteq> None" by simp
  qed
  have old: "\<forall>i \<in> set (t_id t # done_ids). settled d1 i \<and> i \<notin> t_id ` set ts"
    using Cons.prems(6) here frame ids(2) by (auto simp: settled_def state_in_def)
  from Cons.IH [OF rest Cons.prems(2) inv ids(1) known old] show ?case by auto
qed simp

end

subsection \<open>The local gateway keeps the contract\<close>

interpretation local_gateway: worker_gateway local_elig "local_disp H" for H
  by unfold_locales (auto simp: local_disp_def dest: gateway_dispatch_steps)

text \<open>A routing pass is safe and complete: over the local gateway it performs only store steps, and
  when it ends without having recorded an error, every task of its batch is either leased or waiting
  for capacity.\<close>

theorem route_once_settles:
  assumes "store_reachable d"
    and "route_once local_elig (local_disp H) uuid (Finite n) r g d = (Inr out, r', g', d')"
  shows "store_reachable d' \<and> (ro_last_error r' = None \<longrightarrow>
    (\<exists>ts. schedulable_tasks (PyInt (ro_batch_size r)) d = Inr ts \<and> (\<forall>t \<in> set ts. settled d' (t_id t))))"
proof -
  from assms(2) obtain ts r0 where b: "schedulable_tasks (PyInt (ro_batch_size r)) d = Inr ts"
    and loop: "route_loop local_elig (local_disp H) uuid n ts [] r0 g d = (Inr out, r', g', d')"
    by (auto simp: route_once_def split: sum.splits if_splits)
  have inv: "db_inv d" by (rule reachable_inv [OF assms(1)])
  have ts: "set ts \<subseteq> set (db_tasks d)" "distinct (map t_id ts)"
    using schedulable_batch [OF b] inv by (simp_all add: db_inv_with_def tasks_inv_def)
  have known: "\<forall>t \<in> set ts. find_task (t_id t) d \<noteq> None"
    using ts(1) tasks_inv_find [OF db_invD(1) [OF inv]] by auto
  have "store_reachable d'"
    by (rule steps_reachable [OF local_gateway.route_loop_steps [OF loop] assms(1)])
  moreover have "\<forall>t \<in> set ts. settled d' (t_id t)" if "ro_last_error r' = None"
    using local_gateway.route_loop_settles [OF loop that inv ts(2) known, of "[]"] by simp
  ultimately show ?thesis using b by blast
qed

definition sample_router :: router where
  "sample_router = \<lparr>ro_batch_size = 4, ro_lease_seconds = 30, ro_status = ''IDLE'', ro_last_route = None, ro_last_error = None\<rparr>"

lemma sample_batch: "schedulable_tasks (PyInt 4) sample_queued = Inr [row QUEUED 0 None None None None]"
  by (simp add: schedulable_tasks_def sample_queued_eq schedulable_def eval_simps sample_defs)

text \<open>Without a session the sample task is put on hold.\<close>

theorem route_once_settles_witness:
  "settled (snd (snd (snd (route_once local_elig (local_disp sample_hash) (\<lambda>i. ''L'') (Finite 1) sample_router
     (sample_gateway\<lparr>gw_sessions := []\<rparr>) sample_queued)))) ''t''"
proof -
  have b: "schedulable_tasks (PyInt (ro_batch_size sample_router)) sample_queued = Inr [row QUEUED 0 None None None None]"
    by (simp add: sample_router_def sample_batch)
  obtain r' g' d' where run: "route_once local_elig (local_disp sample_hash) (\<lambda>i. ''L'') (Finite 1) sample_router
     (sample_gateway\<lparr>gw_sessions := []\<rparr>) sample_queued = (Inr [], r', g', d')" "ro_last_error r' = None"
    by (simp add: route_once_def sample_router_def schedulable_tasks_def route_task_def local_elig_def eligible_sessions_def
        mark_waiting_capacity_def sample_queued_eq schedulable_def eval_simps sample_defs)
  from route_once_settles [OF sample_reachable(2) run(1)] run(2) b have "settled d' (t_id (row QUEUED 0 None None None None))"
    by auto
  then show ?thesis by (simp add: run(1) row_def)
qed

end
