(* ===== verification/AuditChain.thy ===== *)
theory AuditChain
  imports Prelude
begin

text \<open>
  Files of JSON lines and hash-chained audit trails. A file is absent or a list of lines; a line is
  blank, not JSON (with the decoder's message), or a value. \<open>json.dumps\<close> writes a line that
  \<open>json.loads\<close> reads back as the same value, so a written record is its own line here.
  \<open>hashlib.sha256(..).hexdigest()\<close>, \<open>json.dumps(.., sort_keys=True)\<close> as a text and the
  \<open>repr\<close> of floats and containers are parameters \<open>H\<close>, \<open>dumps\<close> and \<open>rep\<close>.

  The audit trails of \<open>src/directive\<close> share one contract, the locale \<open>hash_chain\<close>: the file
  verifies exactly when its records are chained by their hashes, and an append seals the record it
  writes, so that appending keeps a verified trail verified. The extension \<open>binding_chain\<close> is for
  the trails whose texts end in the previous hash: two verified trails with as many records and the
  same last hash hash the same texts, or show a collision of the hash.
\<close>

subsection \<open>JSON lines\<close>

type_synonym dict = "(string \<times> pyval) list"

datatype jline = Blank | Malformed string | Json pyval

type_synonym jfile = "jline list option"

text \<open>\<open>text.strip().splitlines()\<close>: the blank lines at both ends go.\<close>

definition is_blank :: "jline \<Rightarrow> bool" where
  "is_blank l = (case l of Blank \<Rightarrow> True | _ \<Rightarrow> False)"

definition stripped :: "jline list \<Rightarrow> jline list" where
  "stripped ls = rev (dropWhile is_blank (rev (dropWhile is_blank ls)))"

text \<open>A file that does not end in a blank line, as every file the program wrote.\<close>

definition tidy_end :: "jline list \<Rightarrow> bool" where
  "tidy_end ls \<longleftrightarrow> ls = [] \<or> \<not> is_blank (last ls)"

lemma stripped_tidy: "tidy_end ls \<Longrightarrow> stripped ls = dropWhile is_blank ls"
  by (cases ls rule: rev_cases)
     (auto simp: stripped_def tidy_end_def dropWhile_append split: if_splits)

lemma stripped_snoc: "tidy_end ls \<Longrightarrow> stripped (ls @ [Json v]) = stripped ls @ [Json v]"
proof -
  assume t: "tidy_end ls"
  have "stripped (ls @ [Json v]) = dropWhile is_blank (ls @ [Json v])"
    by (rule stripped_tidy) (simp add: tidy_end_def is_blank_def)
  also have "\<dots> = dropWhile is_blank ls @ [Json v]"
  proof (cases "\<forall>x \<in> set ls. is_blank x")
    case True
    with t have "ls = []" by (cases "ls = []") (auto simp: tidy_end_def)
    then show ?thesis by (simp add: is_blank_def)
  next
    case False
    then show ?thesis by (auto simp: dropWhile_append)
  qed
  also have "dropWhile is_blank ls = stripped ls" using t by (simp add: stripped_tidy)
  finally show ?thesis .
qed

lemma tidy_end_snoc [simp]: "tidy_end (ls @ [Json v])"
  by (simp add: tidy_end_def is_blank_def)

definition append_line :: "dict \<Rightarrow> jfile \<Rightarrow> jfile" where
  "append_line m f = (case f of None \<Rightarrow> Some [Json (PyDict m)] | Some ls \<Rightarrow> Some (ls @ [Json (PyDict m)]))"

text \<open>The text of a value in an f-string.\<close>

fun fmt :: "(pyval \<Rightarrow> string) \<Rightarrow> pyval \<Rightarrow> string" where
  "fmt rep (PyStr s) = s"
| "fmt rep PyNone = ''None''"
| "fmt rep (PyBool b) = (if b then ''True'' else ''False'')"
| "fmt rep (PyInt i) = str_of_int i"
| "fmt rep v = rep v"

fun type_name :: "pyval \<Rightarrow> string" where
  "type_name PyNone = ''NoneType''"
| "type_name (PyBool _) = ''bool''"
| "type_name (PyInt _) = ''int''"
| "type_name (PyFloat _) = ''float''"
| "type_name (PyStr _) = ''str''"
| "type_name (PyBytes _) = ''bytes''"
| "type_name (PyList _) = ''list''"
| "type_name (PyDict _) = ''dict''"

text \<open>\<open>str(e)\<close> of the two exceptions a reader meets: a missing key, and \<open>.get\<close> on no dictionary.\<close>

definition key_error :: "string \<Rightarrow> string" where
  "key_error k = CHR 0x27 # k @ [CHR 0x27]"

definition no_get :: "pyval \<Rightarrow> string" where
  "no_get v = CHR 0x27 # type_name v @ [CHR 0x27] @ '' object has no attribute '' @ [CHR 0x27] @ ''get'' @ [CHR 0x27]"

definition ZEROS :: string where
  "ZEROS = replicate 64 (CHR ''0'')"

text \<open>\<open>rec[k1], ..., rec[kn]\<close> formatted in turn; the first missing key raises.\<close>

fun field_texts :: "(pyval \<Rightarrow> string) \<Rightarrow> dict \<Rightarrow> string list \<Rightarrow> string + string list" where
  "field_texts rep m [] = Inr []"
| "field_texts rep m (k # ks) = (case map_of m k of None \<Rightarrow> Inl (key_error k)
     | Some v \<Rightarrow> (case field_texts rep m ks of Inl e \<Rightarrow> Inl e | Inr ss \<Rightarrow> Inr (fmt rep v # ss)))"

subsection \<open>Chained records\<close>

text \<open>
  \<open>body p m\<close> is the text hashed for record \<open>m\<close> when the expected previous hash is \<open>p\<close>, if the
  record has the fields; \<open>pk\<close> is the key of the previous hash.
\<close>

fun chained :: "(string \<Rightarrow> string) \<Rightarrow> (string \<Rightarrow> dict \<Rightarrow> string option) \<Rightarrow> string \<Rightarrow> string \<Rightarrow> dict list \<Rightarrow> bool" where
  "chained H body pk p [] = True"
| "chained H body pk p (m # ms) = (dget m pk = PyStr p \<and> (case body p m of None \<Rightarrow> False
     | Some b \<Rightarrow> dget m ''event_hash'' = PyStr (H b) \<and> chained H body pk (H b) ms))"

fun last_of :: "string \<Rightarrow> dict list \<Rightarrow> string" where
  "last_of p [] = p"
| "last_of p (m # ms) = (case dget m ''event_hash'' of PyStr h \<Rightarrow> last_of h ms | _ \<Rightarrow> last_of p ms)"

fun bodies :: "(string \<Rightarrow> string) \<Rightarrow> (string \<Rightarrow> dict \<Rightarrow> string option) \<Rightarrow> string \<Rightarrow> dict list \<Rightarrow> string list" where
  "bodies H body p [] = []"
| "bodies H body p (m # ms) = (case body p m of None \<Rightarrow> [] | Some b \<Rightarrow> b # bodies H body (H b) ms)"

lemma chained_append:
  "chained H body pk p (ms @ ns) \<longleftrightarrow> chained H body pk p ms \<and> chained H body pk (last_of p ms) ns"
proof (induction ms arbitrary: p)
  case (Cons m ms)
  show ?case
  proof (cases "body p m")
    case (Some b)
    show ?thesis
    proof (cases "dget m ''event_hash'' = PyStr (H b)")
      case True
      then show ?thesis by (simp add: Some Cons.IH)
    qed (simp add: Some)
  qed simp
qed simp

lemma last_of_append: "last_of p (ms @ ns) = last_of (last_of p ms) ns"
  by (induction ms arbitrary: p) (auto split: pyval.splits)

lemma length_bodies: "chained H body pk p ms \<Longrightarrow> length (bodies H body p ms) = length ms"
  by (induction ms arbitrary: p) (auto split: option.splits)

lemma bodies_append:
  "chained H body pk p ms \<Longrightarrow> bodies H body p (ms @ ns) = bodies H body p ms @ bodies H body (last_of p ms) ns"
  by (induction ms arbitrary: p) (auto split: option.splits)

text \<open>Two hashed texts differ and have the same digest, at the same place of both trails.\<close>

definition collision_in :: "(string \<Rightarrow> string) \<Rightarrow> string list \<Rightarrow> string list \<Rightarrow> bool" where
  "collision_in H xs ys \<longleftrightarrow> (\<exists>k < length xs. k < length ys \<and> xs ! k \<noteq> ys ! k \<and> H (xs ! k) = H (ys ! k))"

lemma collision_in_append:
  "collision_in H xs ys \<Longrightarrow> collision_in H (xs @ us) (ys @ vs)"
  by (auto simp: collision_in_def nth_append)

text \<open>A record hashes its previous hash: texts under different previous hashes differ.\<close>

definition binds_prev :: "(string \<Rightarrow> dict \<Rightarrow> string option) \<Rightarrow> bool" where
  "binds_prev body \<longleftrightarrow> (\<forall>p q m n b. length p = length q \<longrightarrow> body p m = Some b \<longrightarrow> body q n = Some b \<longrightarrow> p = q)"

lemma same_last_same_bodies:
  assumes "chained H body pk p ms" and "chained H body pk p ns" and "length ms = length ns"
    and "last_of p ms = last_of p ns" and "binds_prev body" and "\<And>x. length (H x) = length p"
  shows "bodies H body p ms = bodies H body p ns \<or> collision_in H (bodies H body p ms) (bodies H body p ns)"
  using assms
proof (induction ms arbitrary: ns rule: rev_induct)
  case Nil
  then show ?case by simp
next
  case (snoc m ms)
  from snoc.prems(3) obtain n ns' where ns: "ns = ns' @ [n]" "length ms = length ns'"
    by (cases ns rule: rev_cases) auto
  let ?q = "last_of p ms" and ?r = "last_of p ns'"
  from snoc.prems(1) obtain b where b: "body ?q m = Some b" "dget m ''event_hash'' = PyStr (H b)"
    and ch: "chained H body pk p ms" by (auto simp: chained_append split: option.splits)
  from snoc.prems(2) ns(1) obtain c where c: "body ?r n = Some c" "dget n ''event_hash'' = PyStr (H c)"
    and ch': "chained H body pk p ns'" by (auto simp: chained_append split: option.splits)
  have bs: "bodies H body p (ms @ [m]) = bodies H body p ms @ [b]" "bodies H body p ns = bodies H body p ns' @ [c]"
    by (simp_all add: ns(1) bodies_append [OF ch] bodies_append [OF ch'] b(1) c(1))
  from snoc.prems(4) ns(1) b(2) c(2) have eq: "H b = H c" by (simp add: last_of_append)
  show ?case
  proof (cases "b = c")
    case False
    with eq bs show ?thesis
      using length_bodies [OF ch] length_bodies [OF ch'] ns(2)
      by (auto simp: collision_in_def nth_append intro!: exI [of _ "length ms"])
  next
    case True
    have len: "length (last_of p xs) = length p" if "chained H body pk p xs" for xs
      using that
    proof (induction xs rule: rev_induct)
      case (snoc x xs)
      then show ?case by (auto simp: chained_append last_of_append snoc.prems split: option.splits
          intro: assms(6))
    qed simp
    have "?q = ?r"
      using snoc.prems(5) b(1) c(1) True len [OF ch] len [OF ch'] unfolding binds_prev_def by metis
    with snoc.IH [OF ch ch' ns(2) _ snoc.prems(5) snoc.prems(6)] show ?thesis
      unfolding bs using True collision_in_append by auto
  qed
qed

subsection \<open>The contract of an audit trail\<close>

text \<open>
  \<open>verify\<close> accepts the lines exactly when they parse into chained records, and \<open>seal\<close> is the record
  an append writes for an event: it has the previous hash and the hash of its own text.
\<close>

locale hash_chain =
  fixes H :: "string \<Rightarrow> string" and body :: "string \<Rightarrow> dict \<Rightarrow> string option" and pk :: string and zero :: string
    and parse :: "jline list \<Rightarrow> dict list option" and verify :: "jline list \<Rightarrow> bool" and seal :: "'e \<Rightarrow> string \<Rightarrow> dict"
  assumes verify_iff: "verify ls \<longleftrightarrow> (\<exists>ms. parse ls = Some ms \<and> chained H body pk zero ms)"
    and parse_snoc: "parse ls = Some ms \<Longrightarrow> tidy_end ls \<Longrightarrow> parse (ls @ [Json (PyDict m)]) = Some (ms @ [m])"
    and seal_prev: "dget (seal e p) pk = PyStr p"
    and seal_hash: "\<exists>b. body p (seal e p) = Some b \<and> dget (seal e p) ''event_hash'' = PyStr (H b)"
begin

lemma append_verifies:
  assumes "verify ls" and "parse ls = Some ms" and "tidy_end ls"
  shows "verify (ls @ [Json (PyDict (seal e (last_of zero ms)))])"
proof -
  from assms have ch: "chained H body pk zero ms" by (auto simp: verify_iff)
  obtain b where b: "body (last_of zero ms) (seal e (last_of zero ms)) = Some b"
      "dget (seal e (last_of zero ms)) ''event_hash'' = PyStr (H b)" using seal_hash by blast
  have "chained H body pk zero (ms @ [seal e (last_of zero ms)])"
    by (simp add: chained_append ch seal_prev b)
  with parse_snoc [OF assms(2,3)] show ?thesis by (auto simp: verify_iff)
qed

end

text \<open>
  A trail whose texts end in the previous hash, so that a text cannot be read under another one.
\<close>

locale binding_chain = hash_chain +
  assumes binds: "binds_prev body"
begin

lemma tamper_evident:
  assumes "verify ls" and "verify ks" and "parse ls = Some ms" and "parse ks = Some ns"
    and "length ms = length ns" and "last_of zero ms = last_of zero ns" and "\<And>x. length (H x) = length zero"
  shows "bodies H body zero ms = bodies H body zero ns
    \<or> collision_in H (bodies H body zero ms) (bodies H body zero ns)"
  by (rule same_last_same_bodies [where pk = pk]) (use assms binds in \<open>auto simp: verify_iff\<close>)

end

subsection \<open>Reading the lines\<close>

text \<open>Readers that skip blank lines, and readers that do not (the decoder rejects an empty text).\<close>

fun records_skip :: "jline list \<Rightarrow> dict list option" where
  "records_skip [] = Some []"
| "records_skip (Blank # ls) = records_skip ls"
| "records_skip (Malformed e # ls) = None"
| "records_skip (Json (PyDict m) # ls) = map_option (\<lambda>ms. m # ms) (records_skip ls)"
| "records_skip (Json v # ls) = None"

fun records_strict :: "jline list \<Rightarrow> dict list option" where
  "records_strict [] = Some []"
| "records_strict (Blank # ls) = None"
| "records_strict (Malformed e # ls) = None"
| "records_strict (Json (PyDict m) # ls) = map_option (\<lambda>ms. m # ms) (records_strict ls)"
| "records_strict (Json v # ls) = None"

lemma records_skip_append:
  "records_skip (ks @ ls) = (case records_skip ks of None \<Rightarrow> None | Some ms \<Rightarrow>
     map_option (\<lambda>ns. ms @ ns) (records_skip ls))"
  by (induction ks rule: records_skip.induct; cases "records_skip ls") (auto split: option.splits)

lemma records_strict_append:
  "records_strict (ks @ ls) = (case records_strict ks of None \<Rightarrow> None | Some ms \<Rightarrow>
     map_option (\<lambda>ns. ms @ ns) (records_strict ls))"
  by (induction ks rule: records_strict.induct; cases "records_strict ls") (auto split: option.splits)

lemma records_skip_blanks: "list_all is_blank ls \<Longrightarrow> records_skip ls = Some []"
  by (induction ls rule: records_skip.induct) (auto simp: is_blank_def)

end
