(* ===== verification/Trails.thy ===== *)
theory Trails
  imports AuditChain
begin

text \<open>
  What the durable engines of \<open>src/directive\<close> share beside the chain itself: reading a key that may be
  missing, comparing a clock with a stored value, files of one record per line keyed by an identifier,
  and the audit trail with a \<open>details\<close> object, which \<open>approval_engine.py\<close> and \<open>watchdog.py\<close> both keep with
  different keys. Writing a file succeeds here; only \<open>queue_integrity.py\<close> reports a failed write.
\<close>

subsection \<open>Partial reads\<close>

text \<open>\<open>m[k]\<close>.\<close>

definition getitem :: "dict \<Rightarrow> string \<Rightarrow> pyval res" where
  "getitem m k = (case map_of m k of None \<Rightarrow> Inl (PyError ''KeyError'') | Some v \<Rightarrow> Inr v)"

text \<open>A value as a number; here a \<open>bool\<close> counts, as it does in a comparison.\<close>

fun num_of :: "pyval \<Rightarrow> pyfloat option" where
  "num_of (PyBool b) = Some (Finite (if b then 1 else 0))"
| "num_of (PyInt i) = Some (Finite (of_int i))"
| "num_of (PyFloat f) = Some f"
| "num_of _ = None"

text \<open>\<open>now > v\<close>, a \<open>TypeError\<close> on no number.\<close>

fun after :: "rat \<Rightarrow> pyval \<Rightarrow> bool res" where
  "after now v = (case num_of v of None \<Rightarrow> Inl (PyError ''TypeError'')
     | Some (Finite r) \<Rightarrow> Inr (now > r) | Some NegInf \<Rightarrow> Inr True | Some _ \<Rightarrow> Inr False)"

text \<open>\<open>now < v\<close>.\<close>

fun before :: "rat \<Rightarrow> pyval \<Rightarrow> bool res" where
  "before now v = (case num_of v of None \<Rightarrow> Inl (PyError ''TypeError'')
     | Some (Finite r) \<Rightarrow> Inr (now < r) | Some PosInf \<Rightarrow> Inr True | Some _ \<Rightarrow> Inr False)"

fun hashable :: "pyval \<Rightarrow> bool" where
  "hashable (PyList _) = False"
| "hashable (PyDict _) = False"
| "hashable _ = True"

definition opt_str :: "string option \<Rightarrow> pyval" where
  "opt_str s = (case s of None \<Rightarrow> PyNone | Some x \<Rightarrow> PyStr x)"

text \<open>\<open>v or w\<close> on dictionaries that may be \<open>None\<close>.\<close>

definition or_empty :: "pyval \<Rightarrow> pyval" where
  "or_empty v = (if truthy v then v else PyDict [])"

text \<open>\<open>str(e)\<close> when \<open>v[k]\<close> meets no dictionary.\<close>

definition subscript_error :: "pyval \<Rightarrow> string" where
  "subscript_error v = (case v of
      PyList _ \<Rightarrow> ''list indices must be integers or slices, not str''
    | PyStr _ \<Rightarrow> ''string indices must be integers, not '' @ CHR 0x27 # ''str'' @ [CHR 0x27]
    | _ \<Rightarrow> CHR 0x27 # type_name v @ CHR 0x27 # '' object is not subscriptable'')"

text \<open>A file holding one JSON document: absent, unreadable (with the error), or a value.\<close>

datatype jdoc = Absent | Unreadable string | Document pyval

subsection \<open>Files of keyed records\<close>

text \<open>
  Reading stops at the first line that raises (not JSON, no object, no key, unhashable key) and keeps
  what was read before.
\<close>

fun load_keyed :: "string \<Rightarrow> (pyval \<times> dict) list \<Rightarrow> jline list \<Rightarrow> (pyval \<times> dict) list" where
  "load_keyed key rs [] = rs"
| "load_keyed key rs (Blank # ls) = load_keyed key rs ls"
| "load_keyed key rs (Malformed e # ls) = rs"
| "load_keyed key rs (Json v # ls) = (case v of
      PyDict m \<Rightarrow> (case map_of m key of None \<Rightarrow> rs
        | Some k \<Rightarrow> if hashable k then load_keyed key (AList.update k m rs) ls else rs)
    | _ \<Rightarrow> rs)"

definition load_file :: "string \<Rightarrow> jfile \<Rightarrow> (pyval \<times> dict) list" where
  "load_file key f = (case f of None \<Rightarrow> [] | Some ls \<Rightarrow> load_keyed key [] (stripped ls))"

definition dump_file :: "(pyval \<times> dict) list \<Rightarrow> jfile" where
  "dump_file rs = Some (map (\<lambda>(k, m). Json (PyDict m)) rs)"

text \<open>Records that are filed under the value of their own key.\<close>

definition keyed_by :: "string \<Rightarrow> (pyval \<times> dict) list \<Rightarrow> bool" where
  "keyed_by key rs \<longleftrightarrow> distinct (map fst rs) \<and> (\<forall>k m. map_of rs k = Some m \<longrightarrow> map_of m key = Some k \<and> hashable k)"

lemma AList_update_fresh: "k \<notin> fst ` set m \<Longrightarrow> AList.update k v m = m @ [(k, v)]"
  by (induction m) auto

lemma load_keyed_dump:
  "distinct (map fst (qs @ rs)) \<Longrightarrow> (\<forall>(k, m) \<in> set rs. map_of m key = Some k \<and> hashable k) \<Longrightarrow>
    load_keyed key qs (map (\<lambda>(k, m). Json (PyDict m)) rs) = qs @ rs"
proof (induction rs arbitrary: qs)
  case (Cons r rs)
  obtain k m where r: "r = (k, m)" by fastforce
  from Cons.prems have "map_of m key = Some k" "hashable k" "k \<notin> fst ` set qs"
    by (auto simp: r)
  then show ?case using Cons.IH [of "qs @ [(k, m)]"] Cons.prems by (simp add: r AList_update_fresh)
qed simp

lemma dropWhile_nonblank: "(\<forall>l \<in> set ls. \<not> is_blank l) \<Longrightarrow> dropWhile is_blank ls = ls"
  by (cases ls) simp_all

lemma stripped_nonblank: "(\<forall>l \<in> set ls. \<not> is_blank l) \<Longrightarrow> stripped ls = ls"
  by (simp add: stripped_def dropWhile_nonblank)

lemma stripped_jsons [simp]: "stripped (map (\<lambda>(k, m). Json (PyDict m)) rs) = map (\<lambda>(k, m). Json (PyDict m)) rs"
  by (rule stripped_nonblank) (simp add: is_blank_def split: prod.splits)

lemma load_dump:
  assumes "keyed_by key rs"
  shows "load_file key (dump_file rs) = rs"
proof -
  have "load_keyed key [] (map (\<lambda>(k, m). Json (PyDict m)) rs) = [] @ rs"
    by (rule load_keyed_dump) (use assms in \<open>auto simp: keyed_by_def\<close>)
  then show ?thesis by (simp add: load_file_def dump_file_def)
qed

lemma keyed_by_update:
  assumes "keyed_by key rs" and "map_of m key = Some k" and "hashable k"
  shows "keyed_by key (AList.update k m rs)"
  using assms by (simp add: keyed_by_def distinct_update map_of_AList_update)

subsection \<open>The trail with details\<close>

text \<open>
  An event is the values under the keys \<open>ks\<close> in their order, and the details. Appending seals it under
  the hash of the last line, or under zeros when there is none that can be read.
\<close>

type_synonym trail_event = "pyval list \<times> pyval"

definition trail_prev :: "jfile \<Rightarrow> pyval" where
  "trail_prev f = (case f of None \<Rightarrow> PyStr ZEROS
    | Some ls \<Rightarrow> if stripped ls = [] then PyStr ZEROS
        else (case last (stripped ls) of Json (PyDict m) \<Rightarrow> dget_or m ''event_hash'' (PyStr ZEROS)
              | _ \<Rightarrow> PyStr ZEROS))"

definition trail_seal :: "(string \<Rightarrow> string) \<Rightarrow> (pyval \<Rightarrow> string) \<Rightarrow> (pyval \<Rightarrow> string) \<Rightarrow> string list
    \<Rightarrow> trail_event \<Rightarrow> pyval \<Rightarrow> dict" where
  "trail_seal H rep dumps ks ev prev = zip ks (fst ev) @
     [(''details'', or_empty (snd ev)), (''previous_event_hash'', prev),
      (''event_hash'', PyStr (H (join '':'' (map (fmt rep) (fst ev) @ [dumps (or_empty (snd ev)), fmt rep prev]))))]"

definition trail_append :: "(string \<Rightarrow> string) \<Rightarrow> (pyval \<Rightarrow> string) \<Rightarrow> (pyval \<Rightarrow> string) \<Rightarrow> string list
    \<Rightarrow> trail_event \<Rightarrow> jfile \<Rightarrow> dict \<times> jfile" where
  "trail_append H rep dumps ks ev f = (let m = trail_seal H rep dumps ks ev (trail_prev f) in (m, append_line m f))"

text \<open>The decoder's complaint about an empty line inside the file, which this reader does not skip.\<close>

definition blank_error :: string where
  "blank_error = ''Expecting value: line 1 column 1 (char 0)''"

definition trail_body :: "(pyval \<Rightarrow> string) \<Rightarrow> (pyval \<Rightarrow> string) \<Rightarrow> string list \<Rightarrow> string \<Rightarrow> dict \<Rightarrow> string + string" where
  "trail_body rep dumps ks p m = (case field_texts rep m ks of Inl e \<Rightarrow> Inl e
     | Inr fs \<Rightarrow> Inr (join '':'' (fs @ [dumps (dget_or m ''details'' (PyDict [])), p])))"

fun trail_verify_loop :: "(string \<Rightarrow> string) \<Rightarrow> (pyval \<Rightarrow> string) \<Rightarrow> (pyval \<Rightarrow> string) \<Rightarrow> string list \<Rightarrow> string
    \<Rightarrow> nat \<Rightarrow> string \<Rightarrow> jline list \<Rightarrow> bool \<times> string option" where
  "trail_verify_loop H rep dumps ks what k p [] = (True, None)"
| "trail_verify_loop H rep dumps ks what k p (Blank # ls) = (False, Some (what @ '': '' @ blank_error))"
| "trail_verify_loop H rep dumps ks what k p (Malformed e # ls) = (False, Some (what @ '': '' @ e))"
| "trail_verify_loop H rep dumps ks what k p (Json v # ls) = (case v of
      PyDict m \<Rightarrow>
        if dget m ''previous_event_hash'' \<noteq> PyStr p
        then (False, Some (''PREVIOUS_HASH_MISMATCH_AT_LINE_'' @ str_of_nat k))
        else (case trail_body rep dumps ks p m of
            Inl e \<Rightarrow> (False, Some (what @ '': '' @ e))
          | Inr b \<Rightarrow> if dget m ''event_hash'' \<noteq> PyStr (H b)
              then (False, Some (''EVENT_HASH_TAMPER_AT_LINE_'' @ str_of_nat k))
              else trail_verify_loop H rep dumps ks what (Suc k) (H b) ls)
    | _ \<Rightarrow> (False, Some (what @ '': '' @ no_get v)))"

definition trail_verify :: "(string \<Rightarrow> string) \<Rightarrow> (pyval \<Rightarrow> string) \<Rightarrow> (pyval \<Rightarrow> string) \<Rightarrow> string list \<Rightarrow> string
    \<Rightarrow> jfile \<Rightarrow> bool \<times> string option" where
  "trail_verify H rep dumps ks what f = (case f of None \<Rightarrow> (True, None)
     | Some ls \<Rightarrow> trail_verify_loop H rep dumps ks what 1 ZEROS (stripped ls))"

end
