(* ===== verification/External.thy ===== *)
theory External
  imports Gateway Trails
begin

text \<open>
  The authenticated external gateway: \<open>src/autonomy/trust.py\<close>, \<open>transport.py\<close> and
  \<open>external_gateway.py\<close>. A frame is a dictionary of dynamic values. The libraries are the
  argument \<open>C\<close> of every operation: the hexadecimal SHA-256, base64 decoding and encoding,
  \<open>json.dumps(.., sort_keys=True, ..)\<close> (\<open>None\<close>: it raises), \<open>json.loads\<close>, and the Ed25519 library on raw
  keys. The \<open>af05\<close> tables are lists of rows that
  survive a restart, and lists of labels stand for their JSON texts.
\<close>

record crypto =
  cr_hash :: "string \<Rightarrow> string"
  cr_b64 :: "string \<Rightarrow> string option"
  cr_b64e :: "string \<Rightarrow> string"
  cr_dumps :: "pyval \<Rightarrow> string option"
  cr_loads :: "string \<Rightarrow> pyval option"
  cr_valid_key :: "string \<Rightarrow> bool"
  cr_verify :: "string \<Rightarrow> string \<Rightarrow> string \<Rightarrow> bool"

subsection \<open>Trust\<close>

definition AUTHENTICATION_SCOPE :: string where "AUTHENTICATION_SCOPE = ''AUTHENTICATED_EXTERNAL_ADAPTER''"
definition SIGNATURE_ALGORITHM :: string where "SIGNATURE_ALGORITHM = ''ED25519''"

definition ALLOWED_CAPABILITIES :: "string list" where
  "ALLOWED_CAPABILITIES = [''OBSERVE_STATUS'', ''AUDIT_READ'', ''ANALYZE_READ_ONLY'', ''GENERATE_REPORT'',
     ''RUN_READ_ONLY_TESTS'', ''OBSERVE_READ_ONLY'', ''PREPARE_READ_ONLY'', ''NO_OP'']"

definition canonical_json :: "crypto \<Rightarrow> pyval \<Rightarrow> string res" where
  "canonical_json C v = (case cr_dumps C v of
      None \<Rightarrow> Inl (BlockedError ''non-canonical signed payload'') | Some s \<Rightarrow> Inr s)"

definition DOMAIN_PREFIX :: string where "DOMAIN_PREFIX = ''AI-CONTROL-PLANE/AF05/''"

definition signed_bytes :: "crypto \<Rightarrow> string \<Rightarrow> dict \<Rightarrow> string res" where
  "signed_bytes C domain frame =
     (if \<not> prefix DOMAIN_PREFIX domain then Inl (BlockedError ''invalid signature domain'')
      else (case canonical_json C (PyDict (filter (\<lambda>(k, v). k \<noteq> ''signature'') frame)) of
          Inl e \<Rightarrow> Inl e | Inr s \<Rightarrow> Inr (domain @ CHR 0x0A # s)))"

record TrustedWorkerProfile =
  tp_worker_id :: pyval
  tp_worker_kind :: pyval
  tp_key_id :: pyval
  tp_public_key :: string
  tp_capabilities :: "string list"
  tp_targets :: "string list"
  tp_max_capacity :: pyval
  tp_heartbeat_sla :: pyval
  tp_enabled :: bool
  tp_revoked :: bool
  tp_version :: pyval
  tp_algorithm :: string

record VerifiedProfile =
  vp_worker_id :: string
  vp_kind :: string
  vp_key_id :: string
  vp_capabilities :: "string list"
  vp_targets :: "string list"
  vp_capacity :: int
  vp_sla :: rat
  vp_enabled :: bool
  vp_revoked :: bool
  vp_version :: int
  vp_key :: string
  vp_fingerprint :: string
  vp_digest :: string

definition strings_of :: "string list \<Rightarrow> pyval" where
  "strings_of ss = PyList (map PyStr ss)"

definition profile_manifest :: "string \<Rightarrow> string \<Rightarrow> string \<Rightarrow> string \<Rightarrow> string list \<Rightarrow> string list \<Rightarrow> int \<Rightarrow> rat
    \<Rightarrow> bool \<Rightarrow> bool \<Rightarrow> int \<Rightarrow> pyval" where
  "profile_manifest wid kind key fp caps targets capacity sla enabled revoked version = PyDict
     [(''worker_id'', PyStr wid), (''worker_kind'', PyStr kind), (''key_id'', PyStr key),
      (''signature_algorithm'', PyStr SIGNATURE_ALGORITHM), (''public_key_fingerprint'', PyStr fp),
      (''capabilities'', strings_of caps), (''allowed_targets'', strings_of targets),
      (''max_capacity'', PyInt capacity), (''heartbeat_sla'', PyFloat (Finite sla)), (''enabled'', PyBool enabled),
      (''revoked'', PyBool revoked), (''profile_version'', PyInt version),
      (''verification_scope'', PyStr AUTHENTICATION_SCOPE)]"

text \<open>Capacity and heartbeat SLA of a profile: numbers that are no \<open>bool\<close>, finite and in range.\<close>

definition trusted_bounds :: "TrustedWorkerProfile \<Rightarrow> (int \<times> rat) option" where
  "trusted_bounds p = (case (as_int (tp_max_capacity p), positive_seconds (tp_heartbeat_sla p)) of
      (Some c, Some s) \<Rightarrow> if 0 < c \<and> c \<le> 1024 then Some (c, s) else None
    | _ \<Rightarrow> None)"

definition verify_profile :: "crypto
    \<Rightarrow> TrustedWorkerProfile \<Rightarrow> VerifiedProfile res" where
  "verify_profile C p =
     (case ident_of (tp_worker_id p) ''worker_id'' of Inl e \<Rightarrow> Inl e | Inr wid \<Rightarrow>
     (case ident_of (tp_worker_kind p) ''worker_kind'' of Inl e \<Rightarrow> Inl e | Inr kind \<Rightarrow>
     (case ident_of (tp_key_id p) ''key_id'' of Inl e \<Rightarrow> Inl e | Inr key \<Rightarrow>
      if tp_algorithm p \<noteq> SIGNATURE_ALGORITHM then Inl (BlockedError ''unsupported signature algorithm'') else
     (case as_int (tp_version p) of None \<Rightarrow> Inl (BlockedError ''invalid profile version'') | Some version \<Rightarrow>
      if version \<le> 0 then Inl (BlockedError ''invalid profile version'') else
      let caps = sort (remdups (tp_capabilities p)); targets = sort (remdups (tp_targets p)) in
      if caps = [] \<or> targets = [] \<or> \<not> list_all (\<lambda>c. c \<in> set ALLOWED_CAPABILITIES) caps
      then Inl (BlockedError ''invalid trusted capability or target'')
      else if \<not> list_all is_identifier (caps @ targets) then Inl (BlockedError ''invalid trusted label'') else
     (case trusted_bounds p of None \<Rightarrow> Inl (BlockedError ''invalid trusted capacity or SLA'') | Some (capacity, sla) \<Rightarrow>
     (case cr_b64 C (tp_public_key p) of None \<Rightarrow> Inl (BlockedError ''invalid Ed25519 public key'') | Some raw \<Rightarrow>
      if length raw \<noteq> 32 \<or> \<not> cr_valid_key C raw then Inl (BlockedError ''invalid Ed25519 public key'') else
     (case canonical_json C (profile_manifest wid kind key (cr_hash C raw) caps targets capacity sla
             (tp_enabled p) (tp_revoked p) version) of Inl e \<Rightarrow> Inl e | Inr text \<Rightarrow>
      Inr \<lparr>vp_worker_id = wid, vp_kind = kind, vp_key_id = key, vp_capabilities = tp_capabilities p,
        vp_targets = tp_targets p, vp_capacity = capacity, vp_sla = sla, vp_enabled = tp_enabled p,
        vp_revoked = tp_revoked p, vp_version = version, vp_key = raw, vp_fingerprint = cr_hash C raw,
        vp_digest = cr_hash C text\<rparr>)))))))"

fun verify_profiles :: "crypto
    \<Rightarrow> TrustedWorkerProfile list \<Rightarrow> VerifiedProfile list \<Rightarrow> VerifiedProfile list res" where
  "verify_profiles C [] vs = Inr vs"
| "verify_profiles C (p # ps) vs = (case verify_profile C p of
      Inl e \<Rightarrow> Inl e
    | Inr v \<Rightarrow> if \<exists>w \<in> set vs. vp_worker_id w = vp_worker_id v
        then Inl (IntegrityBlockedError ''duplicate trusted worker'')
        else verify_profiles C ps (vs @ [v]))"

definition registry_get :: "pyval \<Rightarrow> VerifiedProfile list \<Rightarrow> VerifiedProfile res" where
  "registry_get v vs = (case ident_of v ''worker_id'' of Inl e \<Rightarrow> Inl e | Inr wid \<Rightarrow>
     (case find (\<lambda>p. vp_worker_id p = wid) vs of
        None \<Rightarrow> Inl (BlockedError ''worker trust unavailable'')
      | Some p \<Rightarrow> if \<not> vp_enabled p \<or> vp_revoked p then Inl (BlockedError ''worker trust unavailable'') else Inr p))"

definition registry_all :: "VerifiedProfile list \<Rightarrow> VerifiedProfile list" where
  "registry_all vs = sort_key vp_worker_id vs"

subsection \<open>Spool\<close>

definition MAX_FRAME_BYTES :: nat where "MAX_FRAME_BYTES = 131072"
definition MAX_EVIDENCE_BYTES :: nat where "MAX_EVIDENCE_BYTES = 2097152"

text \<open>The files of the spool's directories by name; a temporary file is left only by a crash.\<close>

record spool =
  sp_outbound :: "(string \<times> string) list"
  sp_temporary :: "string list"
  sp_inbound :: "(string \<times> string) list"
  sp_evidence :: "(string \<times> string) list"

definition write_outbound :: "crypto \<Rightarrow> string \<Rightarrow> dict \<Rightarrow> spool \<Rightarrow> unit res \<times> spool" where
  "write_outbound C mid body sp =
     (case canonical_json C (PyDict body) of Inl e \<Rightarrow> (Inl e, sp) | Inr payload \<Rightarrow>
      if length payload > MAX_FRAME_BYTES then (Inl (BlockedError ''oversized transport frame''), sp)
      else (case ident_of (PyStr mid) ''spool identity'' of Inl e \<Rightarrow> (Inl e, sp) | Inr name \<Rightarrow>
        if name \<in> fst ` set (sp_outbound sp) \<or> name \<in> set (sp_temporary sp)
        then (Inl (BlockedError ''duplicate transport frame''), sp)
        else (Inr (), sp\<lparr>sp_outbound := sp_outbound sp @ [(name, payload)]\<rparr>)))"

definition read_frame :: "crypto \<Rightarrow> string \<Rightarrow> spool \<Rightarrow> dict res" where
  "read_frame C mid sp = (case ident_of (PyStr mid) ''spool identity'' of Inl e \<Rightarrow> Inl e | Inr name \<Rightarrow>
     (case map_of (sp_inbound sp) name of
        None \<Rightarrow> Inl (BlockedError ''inbound frame unavailable'')
      | Some raw \<Rightarrow>
          if length raw > MAX_FRAME_BYTES then Inl (BlockedError ''oversized transport frame'')
          else (case cr_loads C raw of
              None \<Rightarrow> Inl (BlockedError ''malformed transport frame'')
            | Some (PyDict m) \<Rightarrow> Inr m
            | Some _ \<Rightarrow> Inl (BlockedError ''invalid transport frame''))))"

definition resolve_evidence :: "string \<Rightarrow> spool \<Rightarrow> string res" where
  "resolve_evidence eid sp = (case ident_of (PyStr eid) ''spool identity'' of Inl e \<Rightarrow> Inl e | Inr name \<Rightarrow>
     (case map_of (sp_evidence sp) name of
        None \<Rightarrow> Inl (BlockedError ''evidence unavailable'')
      | Some b \<Rightarrow> if length b > MAX_EVIDENCE_BYTES then Inl (BlockedError ''oversized evidence'') else Inr b))"

subsection \<open>Tables\<close>

definition AF05_PROTOCOL_VERSION :: string where "AF05_PROTOCOL_VERSION = ''AF05/1''"

record profile_row =
  pf_worker_id :: string
  pf_kind :: string
  pf_key_id :: string
  pf_fingerprint :: string
  pf_digest :: string
  pf_version :: int
  pf_capabilities :: "string list"
  pf_targets :: "string list"
  pf_capacity :: int
  pf_sla :: rat
  pf_enabled :: bool
  pf_revoked :: bool

record challenge_row =
  cg_id :: string
  cg_worker_id :: string
  cg_key_id :: string
  cg_nonce_digest :: string
  cg_protocol :: string
  cg_profile_digest :: string
  cg_issued_at :: rat
  cg_expires_at :: rat
  cg_consumed :: bool
  cg_revoked :: bool

record ext_session =
  es_worker_id :: string
  es_kind :: string
  es_session_id :: string
  es_key_id :: string
  es_fingerprint :: string
  es_profile_digest :: string
  es_scope :: string
  es_authenticated_at :: rat
  es_last_sequence :: int
  es_last_heartbeat :: rat
  es_capacity :: int
  es_state :: string
  es_last_message :: "string option"

record ext_message =
  em_id :: string
  em_worker_id :: string
  em_session_id :: string
  em_sequence :: int
  em_domain :: string
  em_accepted_at :: rat

record ext_dispatch =
  xd_id :: string
  xd_task_id :: string
  xd_worker_id :: string
  xd_session_id :: string
  xd_lease_id :: string
  xd_lease_expires_at :: rat
  xd_capability :: string
  xd_target :: string
  xd_acknowledged :: bool
  xd_result_received :: bool
  xd_ack_at :: "rat option"

record external =
  xg_registry :: "VerifiedProfile list"
  xg_ttl :: rat
  xg_profiles :: "profile_row list"
  xg_challenges :: "challenge_row list"
  xg_sessions :: "ext_session list"
  xg_messages :: "ext_message list"
  xg_dispatches :: "ext_dispatch list"
  xg_spool :: spool

record SessionChallenge =
  sc_challenge_id :: string
  sc_worker_id :: string
  sc_key_id :: string
  sc_nonce :: string
  sc_profile_digest :: string
  sc_issued_at :: rat
  sc_expires_at :: rat

definition transcript :: "SessionChallenge \<Rightarrow> string \<Rightarrow> int \<Rightarrow> dict" where
  "transcript c session capacity =
     [(''challenge_id'', PyStr (sc_challenge_id c)), (''worker_id'', PyStr (sc_worker_id c)),
      (''key_id'', PyStr (sc_key_id c)), (''nonce'', PyStr (sc_nonce c)),
      (''protocol_version'', PyStr AF05_PROTOCOL_VERSION), (''profile_digest'', PyStr (sc_profile_digest c)),
      (''issued_at'', PyFloat (Finite (sc_issued_at c))), (''expires_at'', PyFloat (Finite (sc_expires_at c))),
      (''session_id'', PyStr session), (''capacity'', PyInt capacity)]"

definition find_session :: "string \<Rightarrow> external \<Rightarrow> ext_session option" where
  "find_session wid x = find (\<lambda>s. es_worker_id s = wid) (xg_sessions x)"

definition find_dispatch :: "string \<Rightarrow> external \<Rightarrow> ext_dispatch option" where
  "find_dispatch did x = find (\<lambda>r. xd_id r = did) (xg_dispatches x)"

subsection \<open>Opening\<close>

definition profile_binding :: "VerifiedProfile \<Rightarrow> profile_row" where
  "profile_binding p = \<lparr>pf_worker_id = vp_worker_id p, pf_kind = vp_kind p, pf_key_id = vp_key_id p,
     pf_fingerprint = vp_fingerprint p, pf_digest = vp_digest p, pf_version = vp_version p,
     pf_capabilities = sort (vp_capabilities p), pf_targets = sort (vp_targets p), pf_capacity = vp_capacity p,
     pf_sla = vp_sla p, pf_enabled = vp_enabled p, pf_revoked = vp_revoked p\<rparr>"

text \<open>The stored row contradicts the authority's profile.\<close>

definition profile_contradicts :: "profile_row \<Rightarrow> profile_row \<Rightarrow> bool" where
  "profile_contradicts b r \<longleftrightarrow> r\<lparr>pf_enabled := True, pf_revoked := False\<rparr> \<noteq> b\<lparr>pf_enabled := True, pf_revoked := False\<rparr>
     \<or> (\<not> pf_enabled b \<and> pf_enabled r) \<or> (pf_revoked b \<and> \<not> pf_revoked r)"

fun persist_profiles :: "bool \<Rightarrow> VerifiedProfile list \<Rightarrow> profile_row list \<Rightarrow> unit res \<times> profile_row list" where
  "persist_profiles locked [] rows = (Inr (), rows)"
| "persist_profiles locked (p # ps) rows = (let b = profile_binding p in
     (case find (\<lambda>r. pf_worker_id r = pf_worker_id b) rows of
        Some r \<Rightarrow>
          if profile_contradicts b r then (Inl (IntegrityBlockedError ''trusted profile contradiction''), rows)
          else if \<not> pf_revoked b then persist_profiles locked ps rows
          else if locked then (Inl db_busy, rows)
          else persist_profiles locked ps
             (update_where (\<lambda>r. pf_worker_id r = pf_worker_id b) (\<lambda>r. r\<lparr>pf_revoked := True\<rparr>) rows)
      | None \<Rightarrow> if locked then (Inl db_busy, rows) else persist_profiles locked ps (rows @ [b])))"

definition challenge_ttl :: "pyval \<Rightarrow> rat res" where
  "challenge_ttl v = (case as_number v of
      Some (Finite t) \<Rightarrow> if 1 \<le> t \<and> t \<le> 300 then Inr t else Inl (BlockedError ''invalid challenge TTL'')
    | Some _ \<Rightarrow> Inl (BlockedError ''invalid challenge TTL'')
    | None \<Rightarrow> Inl (case v of PyBool b \<Rightarrow> BlockedError ''invalid challenge TTL'' | _ \<Rightarrow> PyError ''TypeError''))"

text \<open>
  The constructor. \<open>policy\<close> is the outcome of the runtime root policy, a \<open>str\<close> as TTL is not modelled, and
  the tables exist. Sessions do not outlive the process.
\<close>

definition drop_sessions :: "ext_session list \<Rightarrow> ext_session list" where
  "drop_sessions = update_where (\<lambda>s. es_state s = ''AUTHENTICATED'') (\<lambda>s. s\<lparr>es_state := ''REAUTH_REQUIRED''\<rparr>)"

definition open_external :: "crypto \<Rightarrow> pyval \<Rightarrow> bool \<Rightarrow> unit res \<Rightarrow> TrustedWorkerProfile list \<Rightarrow> external \<Rightarrow> db
    \<Rightarrow> unit res \<times> external" where
  "open_external C ttl roots_given policy profiles x d =
     (case challenge_ttl ttl of Inl e \<Rightarrow> (Inl e, x) | Inr t \<Rightarrow>
      if \<not> roots_given then (Inl (BlockedError ''protected repository roots required''), x) else
     (case policy of Inl e \<Rightarrow> (Inl e, x) | Inr _ \<Rightarrow>
     (case verify_profiles C profiles [] of Inl e \<Rightarrow> (Inl e, x) | Inr vs \<Rightarrow>
     (case persist_profiles (db_locked d) (registry_all vs) (xg_profiles x) of
        (Inl e, rows) \<Rightarrow> (Inl e, x\<lparr>xg_profiles := rows\<rparr>)
      | (Inr _, rows) \<Rightarrow>
          if db_locked d then (Inl db_busy, x\<lparr>xg_profiles := rows\<rparr>)
          else (Inr (), x\<lparr>xg_registry := vs, xg_ttl := t, xg_profiles := rows,
                 xg_sessions := drop_sessions (xg_sessions x)\<rparr>)))))"

subsection \<open>Challenges\<close>

definition find_profile_row :: "string \<Rightarrow> external \<Rightarrow> profile_row option" where
  "find_profile_row wid x = find (\<lambda>r. pf_worker_id r = wid) (xg_profiles x)"

definition find_challenge :: "string \<Rightarrow> external \<Rightarrow> challenge_row option" where
  "find_challenge cid x = find (\<lambda>r. cg_id r = cid) (xg_challenges x)"

definition trusted :: "pyval \<Rightarrow> external \<Rightarrow> VerifiedProfile res" where
  "trusted v x = (case registry_get v (xg_registry x) of Inl e \<Rightarrow> Inl e | Inr p \<Rightarrow>
     (case find_profile_row (vp_worker_id p) x of
        None \<Rightarrow> Inl (BlockedError ''worker trust revoked or contradictory'')
      | Some r \<Rightarrow> if \<not> pf_enabled r \<or> pf_revoked r \<or> pf_digest r \<noteq> vp_digest p \<or> pf_key_id r \<noteq> vp_key_id p
          then Inl (BlockedError ''worker trust revoked or contradictory'') else Inr p))"

text \<open>\<open>random\<close> are the 32 bytes of \<open>secrets.token_bytes\<close>. Every failure of the INSERT is a collision.\<close>

definition issue_challenge :: "crypto \<Rightarrow> pyfloat \<Rightarrow> string \<Rightarrow> string \<Rightarrow> string \<Rightarrow> external \<Rightarrow> db
    \<Rightarrow> SessionChallenge res \<times> external" where
  "issue_challenge C now random wid key x d =
     (case now_of now of Inl e \<Rightarrow> (Inl e, x) | Inr n \<Rightarrow>
     (case trusted (PyStr wid) x of Inl e \<Rightarrow> (Inl e, x) | Inr p \<Rightarrow>
      if key \<noteq> vp_key_id p then (Inl (BlockedError ''unknown worker key''), x) else
      let cid = cr_hash C (''AF05-CHALLENGE'' @ CHR 0x00 # random @ wid) in
      if db_locked d \<or> find_challenge cid x \<noteq> None then (Inl (IntegrityBlockedError ''challenge collision''), x)
      else (Inr \<lparr>sc_challenge_id = cid, sc_worker_id = wid, sc_key_id = key, sc_nonce = cr_b64e C random,
                sc_profile_digest = vp_digest p, sc_issued_at = n, sc_expires_at = n + xg_ttl x\<rparr>,
            x\<lparr>xg_challenges := xg_challenges x @
              [\<lparr>cg_id = cid, cg_worker_id = wid, cg_key_id = key, cg_nonce_digest = cr_hash C random,
                cg_protocol = AF05_PROTOCOL_VERSION, cg_profile_digest = vp_digest p, cg_issued_at = n,
                cg_expires_at = n + xg_ttl x, cg_consumed = False, cg_revoked = False\<rparr>]\<rparr>)))"

definition verify_frame :: "crypto \<Rightarrow> VerifiedProfile \<Rightarrow> string \<Rightarrow> dict \<Rightarrow> unit res" where
  "verify_frame C p domain m = (case dget m ''signature'' of
      PyStr sig \<Rightarrow> (case cr_b64 C sig of
          None \<Rightarrow> Inl (BlockedError ''invalid signature'')
        | Some raw \<Rightarrow> (case signed_bytes C (DOMAIN_PREFIX @ domain) m of
              Inl e \<Rightarrow> Inl e
            | Inr body \<Rightarrow> if cr_verify C (vp_key p) raw body then Inr ()
                else Inl (BlockedError ''invalid signature'')))
    | _ \<Rightarrow> Inl (BlockedError ''missing signature''))"

subsection \<open>Authentication\<close>

definition session_frame_keys :: "string list" where
  "session_frame_keys = [''challenge_id'', ''worker_id'', ''key_id'', ''nonce'', ''protocol_version'', ''profile_digest'',
     ''issued_at'', ''expires_at'', ''session_id'', ''capacity'', ''signature'']"

definition has_keys :: "string list \<Rightarrow> dict \<Rightarrow> bool" where
  "has_keys ks m \<longleftrightarrow> set (map fst m) = set ks"

definition nonce_digest :: "crypto \<Rightarrow> pyval \<Rightarrow> string option" where
  "nonce_digest C v = (case v of
      PyStr s \<Rightarrow> map_option (cr_hash C) (cr_b64 C s)
    | PyBytes s \<Rightarrow> map_option (cr_hash C) (cr_b64 C s)
    | _ \<Rightarrow> None)"

text \<open>\<open>x == v\<close> for a stored number: Python compares \<open>int\<close>, \<open>float\<close> and \<open>bool\<close> by value.\<close>

definition same_number :: "rat \<Rightarrow> pyval \<Rightarrow> bool" where
  "same_number r v = (case v of
      PyBool b \<Rightarrow> r = (if b then 1 else 0)
    | _ \<Rightarrow> as_number v = Some (Finite r))"

definition challenge_open :: "rat \<Rightarrow> string \<Rightarrow> string \<Rightarrow> VerifiedProfile \<Rightarrow> string \<Rightarrow> dict \<Rightarrow> challenge_row \<Rightarrow> bool" where
  "challenge_open n wid key p digest m r \<longleftrightarrow> \<not> cg_consumed r \<and> \<not> cg_revoked r \<and> cg_worker_id r = wid
     \<and> cg_key_id r = key \<and> cg_profile_digest r = vp_digest p
     \<and> dget m ''protocol_version'' = PyStr (cg_protocol r) \<and> cg_nonce_digest r = digest
     \<and> same_number (cg_issued_at r) (dget m ''issued_at'') \<and> same_number (cg_expires_at r) (dget m ''expires_at'')
     \<and> n < cg_expires_at r \<and> cg_issued_at r \<le> n + 1"

definition takeover :: "rat \<Rightarrow> string \<Rightarrow> VerifiedProfile \<Rightarrow> ext_session option \<Rightarrow> bool" where
  "takeover n sid p active = (case active of None \<Rightarrow> False
     | Some s \<Rightarrow> es_session_id s \<noteq> sid \<and> es_state s = ''AUTHENTICATED'' \<and> n - es_last_heartbeat s \<le> vp_sla p)"

definition consumable :: "string \<Rightarrow> rat \<Rightarrow> challenge_row \<Rightarrow> bool" where
  "consumable cid n r \<longleftrightarrow> cg_id r = cid \<and> \<not> cg_consumed r \<and> \<not> cg_revoked r \<and> n < cg_expires_at r"

text \<open>\<open>INSERT OR REPLACE\<close>: rows of the same worker or of the same session identifier give way.\<close>

definition put_session :: "ext_session \<Rightarrow> external \<Rightarrow> external" where
  "put_session s x = x\<lparr>xg_sessions :=
     filter (\<lambda>r. es_worker_id r \<noteq> es_worker_id s \<and> es_session_id r \<noteq> es_session_id s) (xg_sessions x) @ [s]\<rparr>"

definition capacity_of :: "VerifiedProfile \<Rightarrow> pyval \<Rightarrow> int option" where
  "capacity_of p v = (case as_int v of None \<Rightarrow> None
     | Some c \<Rightarrow> if 0 \<le> c \<and> c \<le> vp_capacity p then Some c else None)"

text \<open>
  The transaction that opens a session. The worker row is written with arguments that
  \<open>register_worker\<close> accepts, so its failure branch is not reached.
\<close>

definition commit_session :: "rat \<Rightarrow> string \<Rightarrow> string \<Rightarrow> string \<Rightarrow> VerifiedProfile \<Rightarrow> int \<Rightarrow> external \<Rightarrow> db
    \<Rightarrow> unit res \<times> external \<times> db" where
  "commit_session n cid wid sid p c x d =
     (if db_locked d then (Inl db_busy, x, d)
      else if rowcount (consumable cid n) (xg_challenges x) \<noteq> 1 then (Inl (BlockedError ''challenge replay''), x, d)
      else (case register_worker (Finite n) wid (vp_kind p) (vp_capabilities p) (vp_targets p) (vp_sla p) c d of
          (Inl e, d1) \<Rightarrow> (Inl e, x, d)
        | (Inr _, d1) \<Rightarrow> (Inr (), put_session
            \<lparr>es_worker_id = wid, es_kind = vp_kind p, es_session_id = sid, es_key_id = vp_key_id p,
             es_fingerprint = vp_fingerprint p, es_profile_digest = vp_digest p, es_scope = AUTHENTICATION_SCOPE,
             es_authenticated_at = n, es_last_sequence = 0, es_last_heartbeat = n, es_capacity = c,
             es_state = ''AUTHENTICATED'', es_last_message = None\<rparr>
            (x\<lparr>xg_challenges := update_where (consumable cid n) (\<lambda>r. r\<lparr>cg_consumed := True\<rparr>) (xg_challenges x)\<rparr>),
            d1)))"

definition authenticate_session :: "crypto \<Rightarrow> pyfloat \<Rightarrow> pyval \<Rightarrow> external \<Rightarrow> db \<Rightarrow> unit res \<times> external \<times> db" where
  "authenticate_session C now frame x d = (case frame of PyDict m \<Rightarrow>
      if \<not> has_keys session_frame_keys m then (Inl (BlockedError ''malformed session frame''), x, d) else
     (case now_of now of Inl e \<Rightarrow> (Inl e, x, d) | Inr n \<Rightarrow>
     (case ident_of (dget m ''worker_id'') ''worker_id'' of Inl e \<Rightarrow> (Inl e, x, d) | Inr wid \<Rightarrow>
     (case ident_of (dget m ''key_id'') ''key_id'' of Inl e \<Rightarrow> (Inl e, x, d) | Inr key \<Rightarrow>
     (case ident_of (dget m ''session_id'') ''session_id'' of Inl e \<Rightarrow> (Inl e, x, d) | Inr sid \<Rightarrow>
     (case ident_of (dget m ''challenge_id'') ''challenge_id'' of Inl e \<Rightarrow> (Inl e, x, d) | Inr cid \<Rightarrow>
     (case trusted (PyStr wid) x of Inl e \<Rightarrow> (Inl e, x, d) | Inr p \<Rightarrow>
      if key \<noteq> vp_key_id p \<or> dget m ''protocol_version'' \<noteq> PyStr AF05_PROTOCOL_VERSION
         \<or> dget m ''profile_digest'' \<noteq> PyStr (vp_digest p)
      then (Inl (BlockedError ''session binding mismatch''), x, d) else
     (case capacity_of p (dget m ''capacity'') of None \<Rightarrow> (Inl (BlockedError ''capacity escalation''), x, d) | Some c \<Rightarrow>
     (case nonce_digest C (dget m ''nonce'') of None \<Rightarrow> (Inl (BlockedError ''malformed challenge nonce''), x, d)
      | Some digest \<Rightarrow>
     (case find_challenge cid x of None \<Rightarrow> (Inl (BlockedError ''challenge unavailable''), x, d) | Some r \<Rightarrow>
      if \<not> challenge_open n wid key p digest m r then (Inl (BlockedError ''challenge unavailable''), x, d) else
     (case verify_frame C p ''SESSION'' m of Inl e \<Rightarrow> (Inl e, x, d) | Inr _ \<Rightarrow>
      if takeover n sid p (find_session wid x) then (Inl (BlockedError ''simultaneous session takeover''), x, d)
      else commit_session n cid wid sid p c x d))))))))))
    | _ \<Rightarrow> (Inl (BlockedError ''malformed session frame''), x, d))"

subsection \<open>Signed messages\<close>

record signed =
  sg_frame :: dict
  sg_now :: rat
  sg_profile :: VerifiedProfile
  sg_session :: ext_session
  sg_sequence :: int
  sg_observed :: rat
  sg_id :: string

definition common_keys :: "string list" where
  "common_keys = [''protocol_version'', ''worker_id'', ''key_id'', ''session_id'', ''message_id'', ''sequence'',
     ''observed_at'', ''signature'']"

definition message_keys :: "string \<Rightarrow> string list" where
  "message_keys domain =
     (if domain = ''HEARTBEAT'' then common_keys @ [''capacity'']
      else if domain = ''ACK'' then common_keys @ [''dispatch_id'', ''task_id'', ''lease_id'']
      else common_keys @ [''dispatch_id'', ''task_id'', ''lease_id'', ''status'', ''evidence_id'', ''evidence_sha256''])"

definition message_time :: "pyval \<Rightarrow> rat res" where
  "message_time v = (case as_number v of
      Some (Finite t) \<Rightarrow> if t < 0 then Inl (BlockedError ''invalid message time'') else Inr t
    | _ \<Rightarrow> Inl (BlockedError ''invalid message time''))"

definition seen_message :: "string \<Rightarrow> external \<Rightarrow> bool" where
  "seen_message mid x \<longleftrightarrow> (\<exists>r \<in> set (xg_messages x). em_id r = mid)"

definition session_binds :: "string \<Rightarrow> string \<Rightarrow> VerifiedProfile \<Rightarrow> dict \<Rightarrow> ext_session \<Rightarrow> bool" where
  "session_binds sid key p m s \<longleftrightarrow> es_state s = ''AUTHENTICATED'' \<and> es_session_id s = sid \<and> es_key_id s = key
     \<and> es_profile_digest s = vp_digest p \<and> dget m ''protocol_version'' = PyStr AF05_PROTOCOL_VERSION"

definition replay :: err where "replay = BlockedError ''message replay or session binding failure''"

text \<open>\<open>_message\<close>: the checks every signed frame goes through; nothing is written.\<close>

definition signed_message :: "crypto \<Rightarrow> string \<Rightarrow> pyfloat \<Rightarrow> pyval \<Rightarrow> external \<Rightarrow> signed res" where
  "signed_message C domain now frame x = (case frame of PyDict m \<Rightarrow>
      if \<not> has_keys (message_keys domain) m then Inl (BlockedError ''malformed signed frame'') else
     (case now_of now of Inl e \<Rightarrow> Inl e | Inr n \<Rightarrow>
     (case ident_of (dget m ''worker_id'') ''worker_id'' of Inl e \<Rightarrow> Inl e | Inr wid \<Rightarrow>
     (case ident_of (dget m ''key_id'') ''key_id'' of Inl e \<Rightarrow> Inl e | Inr key \<Rightarrow>
     (case ident_of (dget m ''session_id'') ''session_id'' of Inl e \<Rightarrow> Inl e | Inr sid \<Rightarrow>
     (case ident_of (dget m ''message_id'') ''message_id'' of Inl e \<Rightarrow> Inl e | Inr mid \<Rightarrow>
     (case trusted (PyStr wid) x of Inl e \<Rightarrow> Inl e | Inr p \<Rightarrow>
     (case message_time (dget m ''observed_at'') of Inl e \<Rightarrow> Inl e | Inr obs \<Rightarrow>
     (case (find_session wid x, as_int (dget m ''sequence'')) of
        (Some s, Some q) \<Rightarrow>
          if \<not> session_binds sid key p m s \<or> q \<le> es_last_sequence s \<or> obs > n + 1 \<or> seen_message mid x
          then Inl replay else
          (case verify_frame C p domain m of Inl e \<Rightarrow> Inl e
           | Inr _ \<Rightarrow> Inr \<lparr>sg_frame = m, sg_now = n, sg_profile = p, sg_session = s, sg_sequence = q,
                         sg_observed = obs, sg_id = mid\<rparr>)
      | _ \<Rightarrow> Inl replay))))))))
    | _ \<Rightarrow> Inl (BlockedError ''malformed signed frame''))"

text \<open>\<open>_accept\<close>. SQLite refuses an integer of more than 64 bits; \<open>beat\<close> is the heartbeat time and capacity.\<close>

definition accept_session :: "signed \<Rightarrow> (rat \<times> int) option \<Rightarrow> ext_session \<Rightarrow> ext_session" where
  "accept_session g beat s = (case beat of
      None \<Rightarrow> s\<lparr>es_last_sequence := sg_sequence g, es_last_message := Some (sg_id g)\<rparr>
    | Some (t, c) \<Rightarrow> s\<lparr>es_last_sequence := sg_sequence g, es_last_message := Some (sg_id g),
        es_last_heartbeat := t, es_capacity := c\<rparr>)"

definition accept_message :: "string \<Rightarrow> signed \<Rightarrow> (rat \<times> int) option \<Rightarrow> external \<Rightarrow> db \<Rightarrow> unit res \<times> external" where
  "accept_message domain g beat x d =
     (if sg_sequence g \<ge> 2 ^ 63 then (Inl (PyError ''OverflowError''), x)
      else if db_locked d then (Inl db_busy, x)
      else (Inr (), x\<lparr>
        xg_messages := xg_messages x @ [\<lparr>em_id = sg_id g, em_worker_id = vp_worker_id (sg_profile g),
          em_session_id = es_session_id (sg_session g), em_sequence = sg_sequence g, em_domain = domain,
          em_accepted_at = sg_now g\<rparr>],
        xg_sessions := update_where (\<lambda>s. es_worker_id s = vp_worker_id (sg_profile g)) (accept_session g beat)
          (xg_sessions x)\<rparr>))"

definition external_heartbeat :: "crypto \<Rightarrow> pyfloat \<Rightarrow> pyval \<Rightarrow> external \<Rightarrow> db \<Rightarrow> unit res \<times> external \<times> db" where
  "external_heartbeat C now frame x d =
     (case signed_message C ''HEARTBEAT'' now frame x of Inl e \<Rightarrow> (Inl e, x, d) | Inr g \<Rightarrow>
      if sg_observed g \<le> es_last_heartbeat (sg_session g) \<or> sg_now g - sg_observed g > vp_sla (sg_profile g)
      then (Inl (BlockedError ''stale heartbeat or capacity escalation''), x, d) else
     (case capacity_of (sg_profile g) (dget (sg_frame g) ''capacity'') of
        None \<Rightarrow> (Inl (BlockedError ''stale heartbeat or capacity escalation''), x, d)
      | Some c \<Rightarrow>
     (case heartbeat_with_capacity (Finite (sg_now g)) (vp_worker_id (sg_profile g)) (PyInt c)
             (Some (Finite (sg_observed g))) d of
        (Inl e, d1) \<Rightarrow> (Inl e, x, d1)
      | (Inr _, d1) \<Rightarrow> (case accept_message ''HEARTBEAT'' g (Some (sg_observed g, c)) x d1 of
          (r, x1) \<Rightarrow> (r, x1, d1)))))"

subsection \<open>Dispatch\<close>

fun external_eligible_loop :: "rat \<Rightarrow> string \<Rightarrow> string \<Rightarrow> external \<Rightarrow> db \<Rightarrow> VerifiedProfile list
    \<Rightarrow> (string \<times> string) list res" where
  "external_eligible_loop n cap tgt x d [] = Inr []"
| "external_eligible_loop n cap tgt x d (p # ps) =
     (if \<not> vp_enabled p \<or> vp_revoked p then external_eligible_loop n cap tgt x d ps else
      case find_profile_row (vp_worker_id p) x of None \<Rightarrow> Inl (PyError ''TypeError'') | Some r \<Rightarrow>
      if pf_revoked r \<or> cap \<notin> set (vp_capabilities p) \<or> tgt \<notin> set (vp_targets p)
      then external_eligible_loop n cap tgt x d ps else
      (case find_session (vp_worker_id p) x of None \<Rightarrow> external_eligible_loop n cap tgt x d ps | Some s \<Rightarrow>
       if es_state s \<noteq> ''AUTHENTICATED'' \<or> n - es_last_heartbeat s > vp_sla p
       then external_eligible_loop n cap tgt x d ps else
       (case worker_status (Finite n) (vp_worker_id p) d of Inl e \<Rightarrow> Inl e | Inr v \<Rightarrow>
        (case external_eligible_loop n cap tgt x d ps of Inl e \<Rightarrow> Inl e | Inr rest \<Rightarrow>
         Inr (if v_available v \<and> int (v_active v) < min (w_capacity (v_worker v)) (es_capacity s)
              then (vp_worker_id p, es_session_id s) # rest else rest)))))"

definition external_eligible :: "pyfloat \<Rightarrow> string \<Rightarrow> string \<Rightarrow> external \<Rightarrow> db \<Rightarrow> (string \<times> string) list res" where
  "external_eligible now cap tgt x d = (case now_of now of Inl e \<Rightarrow> Inl e | Inr n \<Rightarrow>
     (case external_eligible_loop n cap tgt x d (registry_all (xg_registry x)) of
        Inl e \<Rightarrow> Inl e | Inr r \<Rightarrow> Inr (sort r)))"

definition external_key :: "crypto \<Rightarrow> string \<Rightarrow> string \<Rightarrow> string \<Rightarrow> string \<Rightarrow> string" where
  "external_key C tid wid sid lid = cr_hash C (''AF05|'' @ tid @ ''|'' @ wid @ ''|'' @ sid @ ''|'' @ lid)"

definition envelope_of_row :: "ext_dispatch \<Rightarrow> DispatchEnvelope" where
  "envelope_of_row r = \<lparr>de_dispatch_id = xd_id r, de_task_id = xd_task_id r, de_worker_id = xd_worker_id r,
     de_session_id = xd_session_id r, de_lease_id = xd_lease_id r, de_expires_at = Some (xd_lease_expires_at r),
     de_capability = xd_capability r, de_target = xd_target r\<rparr>"

definition dispatch_body :: "ext_dispatch \<Rightarrow> dict" where
  "dispatch_body r = [(''dispatch_id'', PyStr (xd_id r)), (''task_id'', PyStr (xd_task_id r)),
     (''worker_id'', PyStr (xd_worker_id r)), (''session_id'', PyStr (xd_session_id r)),
     (''lease_id'', PyStr (xd_lease_id r)), (''expires_at'', PyFloat (Finite (xd_lease_expires_at r))),
     (''capability'', PyStr (xd_capability r)), (''target_project'', PyStr (xd_target r)),
     (''protocol_version'', PyStr AF05_PROTOCOL_VERSION), (''message_type'', PyStr ''DISPATCH'')]"

definition no_authority :: err where "no_authority = BlockedError ''dispatch authority unavailable''"

text \<open>
  \<open>dispatch\<close>. The outbound frame is written before the row. An existing row answers with its own
  expiry, capability and target. The task and lease arguments are dictionaries with the keys of the records.
\<close>

definition send_dispatch :: "crypto \<Rightarrow> rat \<Rightarrow> ext_dispatch \<Rightarrow> external \<Rightarrow> db \<Rightarrow> DispatchEnvelope res \<times> external \<times> db" where
  "send_dispatch C n rec x d = (case find_dispatch (xd_id rec) x of
      Some r \<Rightarrow> (Inr (envelope_of_row (rec\<lparr>xd_lease_expires_at := xd_lease_expires_at r,
          xd_capability := xd_capability r, xd_target := xd_target r\<rparr>)), x, d)
    | None \<Rightarrow> (case write_outbound C (xd_id rec) (dispatch_body rec) (xg_spool x) of
          (Inl e, sp) \<Rightarrow> (Inl e, x\<lparr>xg_spool := sp\<rparr>, d)
        | (Inr _, sp) \<Rightarrow>
            if db_locked d then (Inl db_busy, x\<lparr>xg_spool := sp\<rparr>, d)
            else (Inr (envelope_of_row rec), x\<lparr>xg_spool := sp, xg_dispatches := xg_dispatches x @ [rec]\<rparr>,
              audit (xd_task_id rec) ''DISPATCHED'' n
                (''worker='' @ xd_worker_id rec @ '';session='' @ xd_session_id rec @ '';lease='' @ xd_lease_id rec) d)))"

definition external_dispatch :: "crypto \<Rightarrow> pyfloat \<Rightarrow> task \<Rightarrow> lease \<Rightarrow> pyval \<Rightarrow> external \<Rightarrow> db
    \<Rightarrow> DispatchEnvelope res \<times> external \<times> db" where
  "external_dispatch C now t l sess x d =
     (case now_of now of Inl e \<Rightarrow> (Inl e, x, d) | Inr n \<Rightarrow>
     (case ident_of (PyStr (l_worker_id l)) ''worker_id'' of Inl e \<Rightarrow> (Inl e, x, d) | Inr wid \<Rightarrow>
     (case ident_of (PyStr (l_task_id l)) ''task_id'' of Inl e \<Rightarrow> (Inl e, x, d) | Inr tid \<Rightarrow>
     (case ident_of (PyStr (l_lease_id l)) ''lease_id'' of Inl e \<Rightarrow> (Inl e, x, d) | Inr lid \<Rightarrow>
     (case get_task tid d of Inl e \<Rightarrow> (Inl e, x, d) | Inr cur \<Rightarrow>
     (case find_session wid x of None \<Rightarrow> (Inl no_authority, x, d) | Some s \<Rightarrow>
      if es_state s \<noteq> ''AUTHENTICATED'' \<or> PyStr (es_session_id s) \<noteq> sess \<or> t_state cur \<noteq> LEASED
         \<or> t_assigned_worker_id cur \<noteq> Some wid \<or> t_lease_id cur \<noteq> Some lid
      then (Inl no_authority, x, d) else
     (case t_lease_expires_at cur of None \<Rightarrow> (Inl (PyError ''TypeError''), x, d) | Some ex \<Rightarrow>
      if ex \<le> n \<or> t_capability t \<noteq> t_capability cur \<or> t_target_project t \<noteq> t_target_project cur
      then (Inl no_authority, x, d)
      else send_dispatch C n \<lparr>xd_id = external_key C tid wid (es_session_id s) lid, xd_task_id = tid,
             xd_worker_id = wid, xd_session_id = es_session_id s, xd_lease_id = lid, xd_lease_expires_at = ex,
             xd_capability = t_capability cur, xd_target = t_target_project cur, xd_acknowledged = False,
             xd_result_received = False, xd_ack_at = None\<rparr> x d)))))))"

subsection \<open>Acknowledgement and result\<close>

definition external_bound :: "dict \<Rightarrow> external \<Rightarrow> ext_dispatch res" where
  "external_bound m x = (case ident_of (dget m ''dispatch_id'') ''dispatch_id'' of Inl e \<Rightarrow> Inl e | Inr did \<Rightarrow>
     (case find_dispatch did x of
        None \<Rightarrow> Inl (BlockedError ''dispatch binding mismatch'')
      | Some r \<Rightarrow> if dget m ''task_id'' \<noteq> PyStr (xd_task_id r) \<or> dget m ''worker_id'' \<noteq> PyStr (xd_worker_id r)
            \<or> dget m ''session_id'' \<noteq> PyStr (xd_session_id r) \<or> dget m ''lease_id'' \<noteq> PyStr (xd_lease_id r)
          then Inl (BlockedError ''dispatch binding mismatch'') else Inr r))"

definition update_dispatch :: "string \<Rightarrow> (ext_dispatch \<Rightarrow> ext_dispatch) \<Rightarrow> external \<Rightarrow> external" where
  "update_dispatch did f x = x\<lparr>xg_dispatches := update_where (\<lambda>r. xd_id r = did) f (xg_dispatches x)\<rparr>"

text \<open>
  The message is recorded before the store is asked: a refusal by the store uses it up. The insert of the message, the store's
  transaction and the last update are commits of their own; here no other connection takes the write lock between
  them, so that what follows an accepted message does not find the database busy.
\<close>

definition external_acknowledge :: "crypto \<Rightarrow> pyfloat \<Rightarrow> pyval \<Rightarrow> external \<Rightarrow> db \<Rightarrow> unit res \<times> external \<times> db" where
  "external_acknowledge C now frame x d =
     (case signed_message C ''ACK'' now frame x of Inl e \<Rightarrow> (Inl e, x, d) | Inr g \<Rightarrow>
     (case external_bound (sg_frame g) x of Inl e \<Rightarrow> (Inl e, x, d) | Inr r \<Rightarrow>
      if xd_acknowledged r then (Inl (BlockedError ''ack replay''), x, d) else
     (case accept_message ''ACK'' g None x d of (Inl e, x1) \<Rightarrow> (Inl e, x1, d) | (Inr _, x1) \<Rightarrow>
     (case start_with_ack (Finite (sg_now g)) (xd_task_id r) (vp_worker_id (sg_profile g)) (xd_lease_id r)
             (''signed_session='' @ es_session_id (sg_session g)) d of
        (Inl e, d1) \<Rightarrow> (Inl e, x1, d1)
      | (Inr _, d1) \<Rightarrow> (Inr (), update_dispatch (xd_id r)
          (\<lambda>u. u\<lparr>xd_acknowledged := True, xd_ack_at := Some (sg_observed g)\<rparr>) x1, d1)))))"

definition is_lower_hex :: "char \<Rightarrow> bool" where
  "is_lower_hex c \<longleftrightarrow> is_digit c \<or> (97 \<le> ord_of c \<and> ord_of c \<le> 102)"

definition evidence_digest :: "pyval \<Rightarrow> string option" where
  "evidence_digest v = (case v of
      PyStr s \<Rightarrow> if length s = 64 \<and> list_all is_lower_hex s then Some s else None
    | _ \<Rightarrow> None)"

text \<open>Evidence named in a result frame: a file of the spool with the digest the frame states.\<close>

definition external_evidence :: "crypto \<Rightarrow> dict \<Rightarrow> spool \<Rightarrow> (string \<times> string) res" where
  "external_evidence C m sp = (case ident_of (dget m ''evidence_id'') ''evidence_id'' of Inl e \<Rightarrow> Inl e | Inr eid \<Rightarrow>
     (case evidence_digest (dget m ''evidence_sha256'') of
        None \<Rightarrow> Inl (BlockedError ''invalid evidence digest'')
      | Some digest \<Rightarrow> (case resolve_evidence eid sp of Inl e \<Rightarrow> Inl e
          | Inr b \<Rightarrow> if cr_hash C b \<noteq> digest then Inl (BlockedError ''evidence digest mismatch'')
              else Inr (eid, digest))))"

definition external_result :: "crypto \<Rightarrow> pyfloat \<Rightarrow> pyval \<Rightarrow> external \<Rightarrow> db \<Rightarrow> unit res \<times> external \<times> db" where
  "external_result C now frame x d =
     (case signed_message C ''RESULT'' now frame x of Inl e \<Rightarrow> (Inl e, x, d) | Inr g \<Rightarrow>
     (case external_bound (sg_frame g) x of Inl e \<Rightarrow> (Inl e, x, d) | Inr r \<Rightarrow>
      if \<not> xd_acknowledged r \<or> xd_result_received r \<or> xd_lease_expires_at r \<le> sg_now g
         \<or> dget (sg_frame g) ''status'' \<noteq> PyStr ''SUCCEEDED''
      then (Inl (BlockedError ''result out of order, expired or unsupported''), x, d) else
     (case external_evidence C (sg_frame g) (xg_spool x) of Inl e \<Rightarrow> (Inl e, x, d) | Inr (eid, digest) \<Rightarrow>
     (case accept_message ''RESULT'' g None x d of (Inl e, x1) \<Rightarrow> (Inl e, x1, d) | (Inr _, x1) \<Rightarrow>
     (case submit_result (Finite (sg_now g)) (xd_task_id r) (vp_worker_id (sg_profile g)) (xd_lease_id r)
             eid digest d of
        (Inl e, d1) \<Rightarrow> (Inl e, x1, d1)
      | (Inr _, d1) \<Rightarrow> (Inr (), update_dispatch (xd_id r) (\<lambda>u. u\<lparr>xd_result_received := True\<rparr>) x1, d1))))))"

subsection \<open>Revocation and projections\<close>

definition revoke_worker :: "pyval \<Rightarrow> external \<Rightarrow> db \<Rightarrow> unit res \<times> external" where
  "revoke_worker v x d = (case ident_of v ''worker_id'' of Inl e \<Rightarrow> (Inl e, x) | Inr wid \<Rightarrow>
     (if db_locked d then (Inl db_busy, x)
      else if rowcount (\<lambda>r. pf_worker_id r = wid) (xg_profiles x) = 0 then (Inl (BlockedError ''unknown worker''), x)
      else (Inr (), x\<lparr>
        xg_profiles := update_where (\<lambda>r. pf_worker_id r = wid) (\<lambda>r. r\<lparr>pf_revoked := True\<rparr>) (xg_profiles x),
        xg_sessions := update_where (\<lambda>s. es_worker_id s = wid) (\<lambda>s. s\<lparr>es_state := ''REVOKED''\<rparr>) (xg_sessions x)\<rparr>)))"

record ext_row =
  xr_worker_id :: string
  xr_kind :: string
  xr_status :: string
  xr_session_status :: string
  xr_freshness :: "rat option"
  xr_capacity :: "int option"
  xr_scope :: string
  xr_fingerprint :: string
  xr_revocation :: string
  xr_sequence :: "int option"
  xr_message :: "string option"

definition external_row :: "rat \<Rightarrow> external \<Rightarrow> VerifiedProfile \<Rightarrow> ext_row" where
  "external_row n x p = (let ses = find_session (vp_worker_id p) x;
       revoked = (vp_revoked p \<or> (case find_profile_row (vp_worker_id p) x of None \<Rightarrow> False | Some r \<Rightarrow> pf_revoked r)) in
     \<lparr>xr_worker_id = vp_worker_id p, xr_kind = vp_kind p,
      xr_status = (if revoked then ''REVOKED'' else case ses of None \<Rightarrow> ''UNAUTHENTICATED''
        | Some s \<Rightarrow> if es_state s = ''REAUTH_REQUIRED'' then ''REAUTH_REQUIRED''
            else if n - es_last_heartbeat s > vp_sla p then ''STALE'' else ''AVAILABLE''),
      xr_session_status = (case ses of None \<Rightarrow> ''UNAUTHENTICATED'' | Some s \<Rightarrow> es_state s),
      xr_freshness = map_option (\<lambda>s. max 0 (n - es_last_heartbeat s)) ses,
      xr_capacity = map_option es_capacity ses,
      xr_scope = (case ses of None \<Rightarrow> ''UNKNOWN''
        | Some s \<Rightarrow> if es_state s = ''AUTHENTICATED'' \<and> \<not> revoked then AUTHENTICATION_SCOPE else ''UNKNOWN''),
      xr_fingerprint = vp_fingerprint p,
      xr_revocation = (if revoked then ''REVOKED'' else ''ENABLED''),
      xr_sequence = map_option es_last_sequence ses,
      xr_message = (case ses of None \<Rightarrow> None | Some s \<Rightarrow> es_last_message s)\<rparr>)"

definition external_projection :: "pyfloat \<Rightarrow> external \<Rightarrow> ext_row list res" where
  "external_projection now x = (case now_of now of Inl e \<Rightarrow> Inl e
     | Inr n \<Rightarrow> Inr (map (external_row n x) (registry_all (xg_registry x))))"

definition external_dispatches :: "external \<Rightarrow> (string \<times> string \<times> string \<times> string \<times> bool \<times> bool) list" where
  "external_dispatches x = map (\<lambda>r. (xd_task_id r, xd_worker_id r, xd_session_id r, xd_lease_id r,
      xd_acknowledged r, xd_result_received r)) (sort_key xd_id (xg_dispatches x))"

end
