(* ===== verification/ExternalSpec.thy ===== *)
theory ExternalSpec
  imports RouterClaims External
begin

text \<open>
  What each operation of the authenticated gateway does, its step relation, and what every step keeps: the
  tables stay well formed, and messages, consumed challenges, revocations and received results are never lost.
\<close>

subsection \<open>Inversion of the operations\<close>

lemma trusted_D:
  assumes "trusted v x = Inr p"
  obtains r where "v = PyStr (vp_worker_id p)"
    and "find (\<lambda>q. vp_worker_id q = vp_worker_id p) (xg_registry x) = Some p" and "vp_enabled p" and "\<not> vp_revoked p"
    and "find_profile_row (vp_worker_id p) x = Some r" and "pf_enabled r" and "\<not> pf_revoked r"
    and "pf_digest r = vp_digest p" and "pf_key_id r = vp_key_id p"
  using assms by (auto simp: trusted_def registry_get_def split: sum.splits option.splits if_splits
      dest!: ident_of_Inr dest: find_Some_mem)

lemma signed_message_D:
  assumes "signed_message C domain now frame x = Inr g"
  shows "frame = PyDict (sg_frame g)" and "now_of now = Inr (sg_now g)"
    and "dget (sg_frame g) ''worker_id'' = PyStr (vp_worker_id (sg_profile g))"
    and "dget (sg_frame g) ''message_id'' = PyStr (sg_id g)"
    and "trusted (PyStr (vp_worker_id (sg_profile g))) x = Inr (sg_profile g)"
    and "find_session (vp_worker_id (sg_profile g)) x = Some (sg_session g)"
    and "\<exists>sid key. dget (sg_frame g) ''session_id'' = PyStr sid \<and> dget (sg_frame g) ''key_id'' = PyStr key
      \<and> session_binds sid key (sg_profile g) (sg_frame g) (sg_session g)"
    and "dget (sg_frame g) ''sequence'' = PyInt (sg_sequence g)"
    and "es_last_sequence (sg_session g) < sg_sequence g" and "\<not> seen_message (sg_id g) x"
    and "verify_frame C (sg_profile g) domain (sg_frame g) = Inr ()"
proof -
  obtain m where frame: "frame = PyDict m" using assms by (cases frame) (simp_all add: signed_message_def)
  note run = assms [unfolded frame signed_message_def, simplified pyval.case]
  have seq: "as_int v = Some i \<longleftrightarrow> v = PyInt i" for v i by (cases v) auto
  from run obtain n wid key sid mid p obs s q where g: "g = \<lparr>sg_frame = m, sg_now = n, sg_profile = p, sg_session = s,
        sg_sequence = q, sg_observed = obs, sg_id = mid\<rparr>"
    and ids: "dget m ''worker_id'' = PyStr wid" "dget m ''key_id'' = PyStr key" "dget m ''session_id'' = PyStr sid"
      "dget m ''message_id'' = PyStr mid" "dget m ''sequence'' = PyInt q"
    and ok: "now_of now = Inr n" "trusted (PyStr wid) x = Inr p" "find_session wid x = Some s"
      "session_binds sid key p m s" "es_last_sequence s < q" "\<not> seen_message mid x" "verify_frame C p domain m = Inr ()"
    by (auto simp: seq split: if_splits sum.splits option.splits dest!: ident_of_Inr)
  have "vp_worker_id p = wid" using ok(2) by (auto elim: trusted_D)
  with ids ok show "frame = PyDict (sg_frame g)" "now_of now = Inr (sg_now g)"
    "dget (sg_frame g) ''worker_id'' = PyStr (vp_worker_id (sg_profile g))"
    "dget (sg_frame g) ''message_id'' = PyStr (sg_id g)"
    "trusted (PyStr (vp_worker_id (sg_profile g))) x = Inr (sg_profile g)"
    "find_session (vp_worker_id (sg_profile g)) x = Some (sg_session g)"
    "\<exists>sid key. dget (sg_frame g) ''session_id'' = PyStr sid \<and> dget (sg_frame g) ''key_id'' = PyStr key
      \<and> session_binds sid key (sg_profile g) (sg_frame g) (sg_session g)"
    "dget (sg_frame g) ''sequence'' = PyInt (sg_sequence g)"
    "es_last_sequence (sg_session g) < sg_sequence g" "\<not> seen_message (sg_id g) x"
    "verify_frame C (sg_profile g) domain (sg_frame g) = Inr ()"
    by (simp_all add: g frame)
qed

lemma accept_message_D:
  assumes "accept_message domain g beat x d = (r, x')"
  shows "(\<exists>e. r = Inl e \<and> x' = x) \<or> (r = Inr () \<and> \<not> db_locked d \<and> (\<exists>msg. em_id msg = sg_id g
    \<and> x' = x\<lparr>xg_messages := xg_messages x @ [msg],
        xg_sessions := update_where (\<lambda>s. es_worker_id s = vp_worker_id (sg_profile g)) (accept_session g beat) (xg_sessions x)\<rparr>))"
proof -
  have "\<exists>msg. em_id msg = sg_id g \<and> y @ [\<lparr>em_id = sg_id g, em_worker_id = a, em_session_id = b, em_sequence = c,
      em_domain = e, em_accepted_at = f\<rparr>] = y @ [msg]" for y a b c e f by simp
  with assms show ?thesis by (auto simp: accept_message_def split: if_splits intro!: exI)
qed

lemma accept_session_simps [simp]:
  "es_worker_id (accept_session g b s) = es_worker_id s" "es_session_id (accept_session g b s) = es_session_id s"
  "es_state (accept_session g b s) = es_state s" "es_profile_digest (accept_session g b s) = es_profile_digest s"
  "es_key_id (accept_session g b s) = es_key_id s"
  by (auto simp: accept_session_def split: option.splits)

text \<open>The three operations that take a signed frame.\<close>

datatype MessageKind = Heartbeat | Ack | Outcome

fun kind_name :: "MessageKind \<Rightarrow> string" where
  "kind_name Heartbeat = ''HEARTBEAT''"
| "kind_name Ack = ''ACK''"
| "kind_name Outcome = ''RESULT''"

fun handle :: "crypto \<Rightarrow> MessageKind \<Rightarrow> pyfloat \<Rightarrow> pyval \<Rightarrow> external \<Rightarrow> db \<Rightarrow> unit res \<times> external \<times> db" where
  "handle C Heartbeat = external_heartbeat C"
| "handle C Ack = external_acknowledge C"
| "handle C Outcome = external_result C"

lemma handle_refuses:
  assumes "signed_message C (kind_name k) now frame x = Inl e"
  shows "handle C k now frame x d = (Inl e, x, d)"
  using assms by (cases k) (simp_all add: external_heartbeat_def external_acknowledge_def external_result_def)

text \<open>Either nothing changed here, or the message was recorded and at most one dispatch was moved on.\<close>

lemma handle_D:
  assumes "handle C k now frame x d = (r, x', d')"
  obtains (same) e where "r = Inl e" and "x' = x"
  | (recorded) g beat x1 d0 where "signed_message C (kind_name k) now frame x = Inr g"
      and "accept_message (kind_name k) g beat x d0 = (Inr (), x1)"
      and "beat = None \<or> (\<exists>t c. beat = Some (t, c) \<and> 0 \<le> c \<and> c \<le> vp_capacity (sg_profile g))"
      and "x' = x1 \<or> (\<exists>i t. x' = update_dispatch i (\<lambda>u. u\<lparr>xd_acknowledged := True, xd_ack_at := Some t\<rparr>) x1)
        \<or> (\<exists>i u. find_dispatch i x = Some u \<and> xd_acknowledged u
             \<and> x' = update_dispatch i (\<lambda>u. u\<lparr>xd_result_received := True\<rparr>) x1)"
proof (cases "signed_message C (kind_name k) now frame x")
  case (Inl e)
  with assms handle_refuses [OF this] show ?thesis by (intro same) auto
next
  case (Inr g)
  have put: thesis if "accept_message (kind_name k) g beat x d0 = (q, x1)" and "\<And>e. q = Inl e \<Longrightarrow> r = Inl e \<and> x' = x1"
    and "q = Inr () \<Longrightarrow> x' = x1" and "beat = None \<or> (\<exists>t c. beat = Some (t, c) \<and> capacity_of (sg_profile g) v = Some c)"
    for beat q x1 d0 v
    using accept_message_D [OF that(1)] that same recorded [OF Inr]
    by (cases q) (auto simp: capacity_of_def split: option.splits if_splits)
  have ack: thesis if "accept_message (kind_name k) g None x d0 = (Inr (), x1)"
    "x' = update_dispatch i (\<lambda>u. u\<lparr>xd_acknowledged := True, xd_ack_at := Some t\<rparr>) x1" for x1 d0 i t
    using recorded [OF Inr that(1)] that(2) by blast
  have bound: "find_dispatch (xd_id u) x = Some u" if "external_bound (sg_frame g) x = Inr u" for u
    using that by (auto simp: external_bound_def find_dispatch_def split: sum.splits option.splits if_splits dest: find_Some_mem)
  have got: thesis if "accept_message (kind_name k) g None x d0 = (Inr (), x1)"
    "x' = update_dispatch (xd_id u) (\<lambda>u. u\<lparr>xd_result_received := True\<rparr>) x1"
    "external_bound (sg_frame g) x = Inr u" "xd_acknowledged u" for x1 d0 u
    using recorded [OF Inr that(1)] bound [OF that(3)] that(2,4) by blast
  have skip: thesis if "(Inl e, x, d1) = (r, x', d')" for e d1 using that by (intro same) auto
  show ?thesis
  proof (cases k)
    case Heartbeat
    with assms Inr show ?thesis
      by (auto simp: external_heartbeat_def split: if_splits option.splits sum.splits prod.splits intro: skip put)
  next
    case Ack
    with assms Inr show ?thesis
      by (auto simp: external_acknowledge_def split: if_splits option.splits sum.splits prod.splits
          intro: skip put [where beat = None] ack)
  next
    case Outcome
    with assms Inr show ?thesis
      by (auto simp: external_result_def split: if_splits option.splits sum.splits prod.splits
          intro: skip put [where beat = None] got)
  qed
qed

lemma authenticate_session_D:
  assumes "authenticate_session C now frame x d = (r, x', d')"
  obtains (same) e where "r = Inl e" and "x' = x" and "d' = d"
  | (opened) m n p sid cid c rec s where "r = Inr ()" and "frame = PyDict m" and "now_of now = Inr n"
      and "dget m ''worker_id'' = PyStr (vp_worker_id p)" and "trusted (PyStr (vp_worker_id p)) x = Inr p"
      and "dget m ''challenge_id'' = PyStr cid" and "find_challenge cid x = Some rec" and "consumable cid n rec"
      and "cg_worker_id rec = vp_worker_id p" and "verify_frame C p ''SESSION'' m = Inr ()"
      and "0 \<le> c" and "c \<le> vp_capacity p" and "rowcount (consumable cid n) (xg_challenges x) = 1"
      and "es_worker_id s = vp_worker_id p" and "es_session_id s = sid" and "dget m ''session_id'' = PyStr sid"
      and "es_key_id s = vp_key_id p" and "es_profile_digest s = vp_digest p" and "es_capacity s = c"
      and "x' = put_session s (x\<lparr>xg_challenges := update_where (consumable cid n) (\<lambda>r. r\<lparr>cg_consumed := True\<rparr>) (xg_challenges x)\<rparr>)"
proof (cases r)
  case (Inl e)
  have com: "x' = x \<and> d' = d" if "commit_session n cid wid sid p c x d = (Inl e, x', d')" for n cid wid sid p c
    using that by (auto simp: commit_session_def split: if_splits sum.splits prod.splits)
  have "x' = x \<and> d' = d"
    using assms Inl by (auto simp: authenticate_session_def split: pyval.splits if_splits sum.splits option.splits dest: com)
  with Inl show ?thesis by (intro same) auto
next
  case (Inr u)
  from assms Inr obtain m n wid key sid cid p c digest rec where frame: "frame = PyDict m" and n: "now_of now = Inr n"
    and ids: "dget m ''worker_id'' = PyStr wid" "dget m ''session_id'' = PyStr sid" "dget m ''challenge_id'' = PyStr cid"
    and p: "trusted (PyStr wid) x = Inr p" and cap: "capacity_of p (dget m ''capacity'') = Some c"
    and rec: "find_challenge cid x = Some rec" "challenge_open n wid key p digest m rec"
    and ver: "verify_frame C p ''SESSION'' m = Inr ()" and com: "commit_session n cid wid sid p c x d = (Inr (), x', d')"
    by (auto simp: authenticate_session_def split: pyval.splits if_splits sum.splits option.splits dest!: ident_of_Inr)
  have wid: "wid = vp_worker_id p" using p by (auto elim: trusted_D)
  from cap have c: "0 \<le> c" "c \<le> vp_capacity p" by (auto simp: capacity_of_def split: option.splits if_splits)
  from rec have open_row: "consumable cid n rec" "cg_worker_id rec = vp_worker_id p"
    by (auto simp: challenge_open_def wid consumable_def find_challenge_def dest: find_Some_mem)
  from com have one: "rowcount (consumable cid n) (xg_challenges x) = 1"
    by (auto simp: commit_session_def split: if_splits)
  from com obtain s where s: "es_worker_id s = vp_worker_id p" "es_session_id s = sid" "es_key_id s = vp_key_id p"
      "es_profile_digest s = vp_digest p" "es_capacity s = c"
    and x': "x' = put_session s (x\<lparr>xg_challenges := update_where (consumable cid n) (\<lambda>r. r\<lparr>cg_consumed := True\<rparr>) (xg_challenges x)\<rparr>)"
    by (auto simp: commit_session_def wid split: if_splits sum.splits prod.splits intro!: that)
  show ?thesis
    by (rule opened [OF _ frame n ids(1) [unfolded wid] p [unfolded wid] ids(3) rec(1) open_row ver c one s(1,2) ids(2) s(3-5) x'])
      (simp add: Inr)
qed

lemma persist_profiles_keeps:
  assumes "persist_profiles locked ps rows = (r, rows')" and "find (\<lambda>q. pf_worker_id q = w) rows = Some a"
  shows "find (\<lambda>q. pf_worker_id q = w) rows' = Some a"
  using assms
proof (induction ps arbitrary: rows)
  case (Cons p ps)
  let ?b = "profile_binding p"
  have upd: "find (\<lambda>q. pf_worker_id q = w) (update_where (\<lambda>r. pf_worker_id r = pf_worker_id ?b) (\<lambda>r. r\<lparr>pf_revoked := True\<rparr>) rows) = Some a"
    if "find (\<lambda>r. pf_worker_id r = pf_worker_id ?b) rows = Some q" "\<not> profile_contradicts ?b q" "pf_revoked ?b" for q
  proof -
    have "pf_revoked q" using that(2,3) by (auto simp: profile_contradicts_def)
    then have "q\<lparr>pf_revoked := True\<rparr> = q" by (cases q) simp
    moreover have "a = q" if "pf_worker_id a = pf_worker_id ?b"
      using \<open>find _ _ = Some q\<close> Cons.prems(2) that find_Some_mem [OF Cons.prems(2)] by simp
    ultimately show ?thesis using Cons.prems(2)
      by (auto simp: find_update_where)
  qed
  show ?case
    using Cons.prems Cons.IH upd
    by (auto simp: Let_def find_append_Some split: option.splits if_splits)
qed simp

lemma persist_profiles_distinct:
  "persist_profiles locked ps rows = (r, rows') \<Longrightarrow> distinct (map pf_worker_id rows) \<Longrightarrow> distinct (map pf_worker_id rows')"
proof (induction ps arbitrary: rows)
  case (Cons p ps)
  have new: "distinct (map pf_worker_id (rows @ [profile_binding p]))"
    if "find (\<lambda>r. pf_worker_id r = pf_worker_id (profile_binding p)) rows = None"
    using Cons.prems(2) that by (auto simp: find_None_iff)
  have upd: "map pf_worker_id (update_where P (\<lambda>r. r\<lparr>pf_revoked := True\<rparr>) rows) = map pf_worker_id rows" for P
    by (rule map_update_where_key) simp
  show ?case
    using Cons.prems Cons.IH new upd by (auto simp: Let_def split: option.splits if_splits)
qed simp

lemma open_external_D:
  assumes "open_external C ttl given policy ps x d = (r, x')"
  shows "x' = x \<or> (\<exists>vs q rows. persist_profiles (db_locked d) (registry_all vs) (xg_profiles x) = (q, rows)
      \<and> x' = x\<lparr>xg_profiles := rows\<rparr>)
    \<or> (\<exists>vs t rows. verify_profiles C ps [] = Inr vs
      \<and> persist_profiles (db_locked d) (registry_all vs) (xg_profiles x) = (Inr (), rows)
      \<and> x' = x\<lparr>xg_registry := vs, xg_ttl := t, xg_profiles := rows, xg_sessions := drop_sessions (xg_sessions x)\<rparr>)"
  using assms unfolding open_external_def
  by (auto split: if_splits sum.splits prod.splits)

lemma send_dispatch_D:
  assumes "send_dispatch C n rec x d = (r, x', d')" and "\<not> xd_result_received rec" and "\<not> xd_acknowledged rec"
  shows "(\<exists>sp. x' = x\<lparr>xg_spool := sp\<rparr> \<and> d' = d)
    \<or> (\<exists>rec sp m. find_dispatch (xd_id rec) x = None \<and> \<not> xd_result_received rec \<and> \<not> xd_acknowledged rec
        \<and> x' = x\<lparr>xg_spool := sp, xg_dispatches := xg_dispatches x @ [rec]\<rparr>
        \<and> d' = audit (xd_task_id rec) ''DISPATCHED'' n m d)"
proof -
  have same: "\<exists>sp. y = y\<lparr>xg_spool := sp\<rparr>" for y :: external by (rule exI [of _ "xg_spool y"]) simp
  obtain q sp where w: "write_outbound C (xd_id rec) (dispatch_body rec) (xg_spool x) = (q, sp)" by fastforce
  show ?thesis
  proof (cases "find_dispatch (xd_id rec) x")
    case (Some u)
    with assms(1) same show ?thesis by (simp add: send_dispatch_def)
  next
    case None
    show ?thesis
    proof (cases "is_inr q \<and> \<not> db_locked d")
      case True
      then obtain u where "q = Inr u" by (cases q) simp_all
      with assms None w True show ?thesis
        by (intro disjI2 exI [of _ rec] exI [of _ sp]) (auto simp: send_dispatch_def)
    next
      case False
      with assms(1) None w show ?thesis
        by (intro disjI1 exI [of _ sp]) (auto simp: send_dispatch_def split: sum.splits)
    qed
  qed
qed

lemma external_dispatch_D:
  assumes "external_dispatch C now t l sess x d = (r, x', d')"
  shows "(\<exists>sp. x' = x\<lparr>xg_spool := sp\<rparr> \<and> d' = d)
    \<or> (\<exists>rec sp n m. find_dispatch (xd_id rec) x = None \<and> \<not> xd_result_received rec \<and> \<not> xd_acknowledged rec
        \<and> x' = x\<lparr>xg_spool := sp, xg_dispatches := xg_dispatches x @ [rec]\<rparr>
        \<and> d' = audit (xd_task_id rec) ''DISPATCHED'' n m d)"
proof -
  have same: "\<exists>sp. y = y\<lparr>xg_spool := sp\<rparr>" for y :: external by (rule exI [of _ "xg_spool y"]) simp
  have "(x' = x \<and> d' = d) \<or> (\<exists>n rec. send_dispatch C n rec x d = (r, x', d') \<and> \<not> xd_result_received rec \<and> \<not> xd_acknowledged rec)"
    using assms unfolding external_dispatch_def
    by (auto split: sum.splits option.splits if_splits intro!: exI)
  then show ?thesis using same send_dispatch_D by blast
qed

subsection \<open>Flags that are never lost\<close>

definition flagged :: "('a \<Rightarrow> 'k) \<Rightarrow> ('a \<Rightarrow> bool) \<Rightarrow> 'k \<Rightarrow> 'a list \<Rightarrow> bool" where
  "flagged k p a xs \<longleftrightarrow> (\<exists>r. find (\<lambda>r. k r = a) xs = Some r \<and> p r)"

lemma flagged_append: "flagged k p a xs \<Longrightarrow> flagged k p a (xs @ ys)"
  by (auto simp: flagged_def find_append_Some)

lemma flagged_update:
  assumes "flagged k p a xs" and "\<And>r. k (f r) = k r" and "\<And>r. p r \<Longrightarrow> p (f r)"
  shows "flagged k p a (update_where q f xs)"
proof -
  from assms(1) obtain r where "find (\<lambda>r. k r = a) xs = Some r" and "p r" by (auto simp: flagged_def)
  then show ?thesis
    by (cases "q r") (auto simp: flagged_def find_update_where [where k = k, OF assms(2)] assms(3) simp del: ex_simps)
qed

lemma flagged_update_all:
  assumes "0 < rowcount (\<lambda>r. k r = a) xs" and "\<And>r. k (f r) = k r" and "\<And>r. p (f r)"
  shows "flagged k p a (update_where (\<lambda>r. k r = a) f xs)"
proof (cases "find (\<lambda>r. k r = a) xs")
  case None
  with assms(1) show ?thesis by (auto simp: rowcount_pos find_None_iff)
next
  case (Some r)
  then have "find (\<lambda>r. k r = a) (update_where (\<lambda>r. k r = a) f xs) = Some (f r)"
    using find_Some_mem [OF Some] by (subst find_update_where) (simp_all add: assms(2))
  then show ?thesis by (simp add: flagged_def assms(3))
qed

definition revoked_in :: "string \<Rightarrow> external \<Rightarrow> bool" where
  "revoked_in wid x \<longleftrightarrow> flagged pf_worker_id pf_revoked wid (xg_profiles x)"

definition consumed_in :: "string \<Rightarrow> external \<Rightarrow> bool" where
  "consumed_in cid x \<longleftrightarrow> flagged cg_id cg_consumed cid (xg_challenges x)"

definition received_in :: "string \<Rightarrow> external \<Rightarrow> bool" where
  "received_in did x \<longleftrightarrow> flagged xd_id xd_result_received did (xg_dispatches x)"

definition ext_kept :: "external \<Rightarrow> external \<Rightarrow> bool" where
  "ext_kept x y \<longleftrightarrow> (\<forall>a. seen_message a x \<longrightarrow> seen_message a y) \<and> (\<forall>a. revoked_in a x \<longrightarrow> revoked_in a y)
     \<and> (\<forall>a. consumed_in a x \<longrightarrow> consumed_in a y) \<and> (\<forall>a. received_in a x \<longrightarrow> received_in a y)"

lemma ext_keptD:
  assumes "ext_kept x y"
  shows "seen_message a x \<Longrightarrow> seen_message a y" and "revoked_in a x \<Longrightarrow> revoked_in a y"
    and "consumed_in a x \<Longrightarrow> consumed_in a y" and "received_in a x \<Longrightarrow> received_in a y"
  using assms by (simp_all add: ext_kept_def)

lemma ext_kept_trans: "ext_kept x y \<Longrightarrow> ext_kept y z \<Longrightarrow> ext_kept x z"
  by (simp add: ext_kept_def)

lemmas kept_defs = ext_kept_def seen_message_def revoked_in_def consumed_in_def received_in_def

lemma trusted_not_revoked: "trusted v x = Inr p \<Longrightarrow> \<not> revoked_in (vp_worker_id p) x"
  by (erule trusted_D) (auto simp: revoked_in_def flagged_def find_profile_row_def)

lemma open_kept:
  assumes "open_external C ttl given policy ps x d = (r, x')"
  shows "ext_kept x x'"
proof -
  have rev: "flagged pf_worker_id pf_revoked w rows" if "persist_profiles l vs (xg_profiles x) = (q, rows)"
    and "flagged pf_worker_id pf_revoked w (xg_profiles x)" for l vs q rows w
    using that persist_profiles_keeps [OF that(1)] by (auto simp: flagged_def)
  show ?thesis using open_external_D [OF assms] by (auto simp: kept_defs intro: rev)
qed

lemma authenticate_kept:
  assumes "authenticate_session C now frame x d = (r, x', d')"
  shows "ext_kept x x'"
  using assms by (cases rule: authenticate_session_D) (auto simp: kept_defs put_session_def flagged_update)

lemma handle_kept:
  assumes "handle C k now frame x d = (r, x', d')"
  shows "ext_kept x x'"
  using assms
proof (cases rule: handle_D)
  case (recorded g beat x1 d0)
  have up: "ext_kept x1 (update_dispatch i f x1)" if "\<And>r. xd_id (f r) = xd_id r" "\<And>r. xd_result_received r \<Longrightarrow> xd_result_received (f r)" for i f
    using that by (simp add: kept_defs update_dispatch_def flagged_update)
  have "ext_kept x x1" using accept_message_D [OF recorded(2)] by (auto simp: kept_defs)
  moreover have "ext_kept x1 x1" by (simp add: ext_kept_def)
  then have "ext_kept x1 x'" using recorded(4) by (auto intro: up)
  ultimately show ?thesis by (rule ext_kept_trans)
qed (simp add: ext_kept_def)

text \<open>One operation of the gateway, in any database, or a frame or evidence file put into the spool.\<close>

inductive ext_step :: "crypto \<Rightarrow> external \<Rightarrow> external \<Rightarrow> bool" for C where
  open_again: "open_external C ttl given policy ps x d = (r, x') \<Longrightarrow> ext_step C x x'"
| challenge: "issue_challenge C now random wid key x d = (r, x') \<Longrightarrow> ext_step C x x'"
| session: "authenticate_session C now frame x d = (r, x', d') \<Longrightarrow> ext_step C x x'"
| message: "handle C k now frame x d = (r, x', d') \<Longrightarrow> ext_step C x x'"
| send: "external_dispatch C now t l sess x d = (r, x', d') \<Longrightarrow> ext_step C x x'"
| revoke: "revoke_worker v x d = (r, x') \<Longrightarrow> ext_step C x x'"
| arrive: "ext_step C x (x\<lparr>xg_spool := (xg_spool x)\<lparr>sp_inbound := fs, sp_evidence := es\<rparr>\<rparr>)"

lemma ext_step_kept: "ext_step C x y \<Longrightarrow> ext_kept x y"
proof (induction rule: ext_step.induct)
  case (open_again ttl given policy ps x d r x')
  then show ?case by (rule open_kept)
next
  case (challenge now random wid key x d r x')
  then show ?case by (auto simp: issue_challenge_def Let_def kept_defs flagged_append split: sum.splits if_splits)
next
  case (session now frame x d r x' d')
  then show ?case by (rule authenticate_kept)
next
  case (message k now frame x d r x' d')
  then show ?case by (rule handle_kept)
next
  case (send now t l sess x d r x' d')
  then show ?case by (auto simp: kept_defs flagged_append dest!: external_dispatch_D)
next
  case (revoke v x d r x')
  then show ?case by (auto simp: revoke_worker_def kept_defs flagged_update split: sum.splits if_splits)
qed (simp add: kept_defs)

lemma ext_steps_kept: "(ext_step C)\<^sup>*\<^sup>* x y \<Longrightarrow> ext_kept x y"
  by (induction rule: rtranclp_induct) (auto simp: ext_kept_def dest: ext_step_kept)

end
