(* ===== verification/ExternalClaims.thy ===== *)
theory ExternalClaims
  imports ExternalSpec
begin

text \<open>
  What the authenticated gateway promises: its tables stay well formed, a signed message, a challenge
  and a result count once, what is accepted is authentic, a revocation is final, whatever happens in
  between, restarts included. The router's contract holds over this gateway as well.
\<close>

subsection \<open>Well-formed tables\<close>

definition session_ok :: "external \<Rightarrow> ext_session \<Rightarrow> bool" where
  "session_ok x s \<longleftrightarrow> (es_state s = ''AUTHENTICATED'' \<longrightarrow> (\<exists>p r.
     find (\<lambda>p. vp_worker_id p = es_worker_id s) (xg_registry x) = Some p \<and> vp_enabled p \<and> \<not> vp_revoked p
     \<and> es_profile_digest s = vp_digest p \<and> es_key_id s = vp_key_id p \<and> 0 \<le> es_capacity s \<and> es_capacity s \<le> vp_capacity p
     \<and> find_profile_row (es_worker_id s) x = Some r \<and> \<not> pf_revoked r))"

definition ext_inv :: "external \<Rightarrow> bool" where
  "ext_inv x \<longleftrightarrow> distinct (map pf_worker_id (xg_profiles x)) \<and> distinct (map cg_id (xg_challenges x))
     \<and> distinct (map es_worker_id (xg_sessions x)) \<and> distinct (map es_session_id (xg_sessions x))
     \<and> distinct (map em_id (xg_messages x)) \<and> distinct (map xd_id (xg_dispatches x))
     \<and> (\<forall>s \<in> set (xg_sessions x). session_ok x s)
     \<and> (\<forall>r \<in> set (xg_dispatches x). xd_result_received r \<longrightarrow> xd_acknowledged r)"

lemma find_None_distinct:
  "find (\<lambda>r. k r = k a) xs = None \<Longrightarrow> distinct (map k xs) \<Longrightarrow> distinct (map k (xs @ [a]))"
  by (auto simp: find_None_iff)

lemma session_ok_cong:
  assumes "xg_registry y = xg_registry x" and "\<And>r. find_profile_row (es_worker_id s) x = Some r \<Longrightarrow> find_profile_row (es_worker_id s) y = Some r"
  shows "session_ok x s \<Longrightarrow> session_ok y s"
  using assms unfolding session_ok_def by fastforce

lemma open_inv:
  assumes "open_external C ttl given policy ps x d = (r, x')" and "ext_inv x"
  shows "ext_inv x'"
proof -
  from assms(2) have pf: "distinct (map pf_worker_id (xg_profiles x))" by (simp add: ext_inv_def)
  have ok: "session_ok (x\<lparr>xg_profiles := rows\<rparr>) s"
    if "persist_profiles l vs (xg_profiles x) = (q, rows)" "session_ok x s" for l vs q rows s
    by (rule session_ok_cong [OF _ _ that(2)]) (simp_all add: find_profile_row_def persist_profiles_keeps [OF that(1)])
  have dropped: "session_ok y s" if "s \<in> set (drop_sessions ss)" for y s ss
    using that by (auto simp: drop_sessions_def session_ok_def set_update_where)
  have keys: "map es_worker_id (drop_sessions ss) = map es_worker_id ss"
    "map es_session_id (drop_sessions ss) = map es_session_id ss" for ss
    unfolding drop_sessions_def by (rule map_update_where_key, simp)+
  from open_external_D [OF assms(1)] consider "x' = x"
    | (a) l vs q rows where "persist_profiles l vs (xg_profiles x) = (q, rows)" "x' = x\<lparr>xg_profiles := rows\<rparr>"
    | (b) l vs ws t q rows where "persist_profiles l vs (xg_profiles x) = (q, rows)"
        "x' = x\<lparr>xg_registry := ws, xg_ttl := t, xg_profiles := rows, xg_sessions := drop_sessions (xg_sessions x)\<rparr>"
    by blast
  then show ?thesis
  proof cases
    case a
    with assms(2) persist_profiles_distinct [OF a(1) pf] ok [OF a(1)] show ?thesis by (simp add: ext_inv_def)
  next
    case b
    with assms(2) persist_profiles_distinct [OF b(1) pf] keys dropped show ?thesis by (simp add: ext_inv_def)
  qed (use assms(2) in simp)
qed

lemma authenticate_inv:
  assumes "authenticate_session C now frame x d = (r, x', d')" and "ext_inv x"
  shows "ext_inv x'"
  using assms(1)
proof (cases rule: authenticate_session_D)
  case (opened m n p sid cid c rec s)
  let ?cs = "update_where (consumable cid n) (\<lambda>r. r\<lparr>cg_consumed := True\<rparr>) (xg_challenges x)"
  let ?old = "filter (\<lambda>r. es_worker_id r \<noteq> es_worker_id s \<and> es_session_id r \<noteq> es_session_id s) (xg_sessions x)"
  have cs: "map cg_id ?cs = map cg_id (xg_challenges x)" by (rule map_update_where_key) simp
  have ok: "session_ok x' u" if "session_ok x u" for u
    by (rule session_ok_cong [OF _ _ that]) (simp_all add: opened(20) put_session_def find_profile_row_def)
  from opened(5) have "session_ok x' s"
    by (rule trusted_D) (auto simp: session_ok_def opened put_session_def find_profile_row_def)
  moreover have "distinct (map es_worker_id (?old @ [s]))" "distinct (map es_session_id (?old @ [s]))"
    using assms(2) by (auto simp: ext_inv_def distinct_map intro: inj_on_subset)
  ultimately show ?thesis using assms(2) cs ok by (auto simp: ext_inv_def opened(20) put_session_def)
qed (use assms(2) in simp)

lemma update_dispatch_inv:
  assumes "ext_inv x" and "\<And>r. xd_id (f r) = xd_id r"
    and "\<And>r. r \<in> set (xg_dispatches x) \<Longrightarrow> xd_id r = i \<Longrightarrow> xd_result_received (f r) \<longrightarrow> xd_acknowledged (f r)"
  shows "ext_inv (update_dispatch i f x)"
proof -
  have "map xd_id (update_where (\<lambda>r. xd_id r = i) f (xg_dispatches x)) = map xd_id (xg_dispatches x)"
    by (rule map_update_where_key) (simp add: assms(2))
  moreover have "session_ok (update_dispatch i f x) s \<longleftrightarrow> session_ok x s" for s
    by (simp add: session_ok_def update_dispatch_def find_profile_row_def)
  ultimately show ?thesis using assms(1,3)
    by (auto simp: ext_inv_def update_dispatch_def set_update_where)
qed

lemma accept_inv:
  assumes "signed_message C domain now frame x = Inr g" and "accept_message domain g beat x d = (Inr (), x1)"
    and "beat = None \<or> (\<exists>t c. beat = Some (t, c) \<and> 0 \<le> c \<and> c \<le> vp_capacity (sg_profile g))" and "ext_inv x"
  shows "ext_inv x1"
proof -
  let ?f = "accept_session g beat"
  let ?up = "update_where (\<lambda>s. es_worker_id s = vp_worker_id (sg_profile g)) ?f (xg_sessions x)"
  note msg = signed_message_D [OF assms(1)]
  from accept_message_D [OF assms(2)] obtain m where m: "em_id m = sg_id g"
    and x1: "x1 = x\<lparr>xg_messages := xg_messages x @ [m], xg_sessions := ?up\<rparr>" by auto
  have keys: "map es_worker_id ?up = map es_worker_id (xg_sessions x)" "map es_session_id ?up = map es_session_id (xg_sessions x)"
    by (rule map_update_where_key, simp)+
  have same: "session_ok x1 s \<longleftrightarrow> session_ok x s" for s by (simp add: session_ok_def x1 find_profile_row_def)
  have ok: "session_ok x (?f s)" if "session_ok x s" "es_worker_id s = vp_worker_id (sg_profile g)" for s
  proof -
    from msg(5) have "find (\<lambda>p. vp_worker_id p = es_worker_id s) (xg_registry x) = Some (sg_profile g)"
      by (rule trusted_D) (simp add: that(2))
    with that(1) assms(3) show ?thesis by (auto simp: session_ok_def accept_session_def)
  qed
  have "em_id m \<notin> em_id ` set (xg_messages x)" using msg(10) m by (auto simp: seen_message_def)
  with assms(4) keys ok same show ?thesis by (auto simp: ext_inv_def x1 set_update_where)
qed

lemma handle_inv:
  assumes "handle C k now frame x d = (r, x', d')" and "ext_inv x"
  shows "ext_inv x'"
  using assms(1)
proof (cases rule: handle_D)
  case (recorded g beat x1 d0)
  have inv: "ext_inv x1" by (rule accept_inv [OF recorded(1-3) assms(2)])
  have same: "xg_dispatches x1 = xg_dispatches x" using accept_message_D [OF recorded(2)] by auto
  from recorded(4) consider "x' = x1"
    | (ack) i t where "x' = update_dispatch i (\<lambda>u. u\<lparr>xd_acknowledged := True, xd_ack_at := Some t\<rparr>) x1"
    | (got) i u where "find_dispatch i x = Some u" "xd_acknowledged u" "x' = update_dispatch i (\<lambda>u. u\<lparr>xd_result_received := True\<rparr>) x1"
    by blast
  then show ?thesis
  proof cases
    case ack
    with inv show ?thesis by (auto intro: update_dispatch_inv)
  next
    case got
    from got(1) have u: "u \<in> set (xg_dispatches x1)" "xd_id u = i" by (auto simp: find_dispatch_def same dest: find_Some_mem)
    have "xd_acknowledged v" if "v \<in> set (xg_dispatches x1)" "xd_id v = i" for v
      using distinct_key_eq [of xd_id "xg_dispatches x1" v u] that u got(2) inv by (simp add: ext_inv_def)
    with inv got(3) show ?thesis by (auto intro: update_dispatch_inv)
  qed (use inv in simp)
qed (use assms(2) in simp)

lemma ext_step_inv: "ext_step C x y \<Longrightarrow> ext_inv x \<Longrightarrow> ext_inv y"
proof (induction rule: ext_step.induct)
  case (open_again ttl given policy ps x d r x')
  then show ?case by (rule open_inv)
next
  case (challenge now random wid key x d r x')
  then have "x' = x \<or> (\<exists>c. find_challenge (cg_id c) x = None \<and> x' = x\<lparr>xg_challenges := xg_challenges x @ [c]\<rparr>)"
    by (auto simp: issue_challenge_def Let_def split: sum.splits if_splits intro!: exI)
  moreover have "session_ok (x\<lparr>xg_challenges := cs\<rparr>) s \<longleftrightarrow> session_ok x s" for cs s
    by (simp add: session_ok_def find_profile_row_def)
  ultimately show ?case using challenge(2) find_None_distinct [of cg_id _ "xg_challenges x"]
    by (auto simp: ext_inv_def find_challenge_def simp del: map_append)
next
  case (session now frame x d r x' d')
  then show ?case by (rule authenticate_inv)
next
  case (message k now frame x d r x' d')
  then show ?case by (rule handle_inv)
next
  case (send now t l sess x d r x' d')
  have ok: "session_ok (x\<lparr>xg_spool := sp, xg_dispatches := ds\<rparr>) s \<longleftrightarrow> session_ok x s"
    "session_ok (x\<lparr>xg_spool := sp\<rparr>) s \<longleftrightarrow> session_ok x s" for sp ds s
    by (simp_all add: session_ok_def find_profile_row_def)
  from external_dispatch_D [OF send(1)] send(2) ok find_None_distinct [of xd_id _ "xg_dispatches x"] show ?case
    by (auto simp: ext_inv_def find_dispatch_def simp del: map_append)
next
  case (revoke v x d r x')
  have keys: "map es_worker_id (update_where P (\<lambda>s. s\<lparr>es_state := ''REVOKED''\<rparr>) ss) = map es_worker_id ss"
    "map es_session_id (update_where P (\<lambda>s. s\<lparr>es_state := ''REVOKED''\<rparr>) ss) = map es_session_id ss" for P ss
    by (rule map_update_where_key, simp)+
  have pf: "map pf_worker_id (update_where P (\<lambda>s. s\<lparr>pf_revoked := True\<rparr>) ss) = map pf_worker_id ss" for P ss
    by (rule map_update_where_key) simp
  let ?pf = "\<lambda>w. update_where (\<lambda>r. pf_worker_id r = w) (\<lambda>r. r\<lparr>pf_revoked := True\<rparr>) (xg_profiles x)"
  have ok: "session_ok (x\<lparr>xg_profiles := ?pf w, xg_sessions := ss\<rparr>) s"
    if "session_ok x s" "es_worker_id s \<noteq> w" for w s ss
  proof (rule session_ok_cong [OF _ _ that(1)])
    fix r assume r: "find_profile_row (es_worker_id s) x = Some r"
    then have "pf_worker_id r \<noteq> w" using that(2) by (auto simp: find_profile_row_def dest: find_Some_mem)
    with r show "find_profile_row (es_worker_id s) (x\<lparr>xg_profiles := ?pf w, xg_sessions := ss\<rparr>) = Some r"
      by (simp add: find_profile_row_def find_update_where)
  qed simp
  have off: "session_ok y (s\<lparr>es_state := ''REVOKED''\<rparr>)" for y s by (simp add: session_ok_def)
  show ?case using revoke ok off
    by (auto simp: revoke_worker_def ext_inv_def set_update_where keys pf split: sum.splits if_splits)
qed (simp add: ext_inv_def session_ok_def find_profile_row_def)

subsection \<open>A sample gateway\<close>

definition sample_crypto :: crypto where
  "sample_crypto = \<lparr>cr_hash = sample_hash, cr_b64 = Some, cr_b64e = (\<lambda>s. s), cr_dumps = (\<lambda>v. Some ''{}''),
     cr_loads = (\<lambda>s. None), cr_valid_key = (\<lambda>k. True), cr_verify = (\<lambda>k s b. s = ''ok'')\<rparr>"

definition sample_trusted :: TrustedWorkerProfile where
  "sample_trusted = \<lparr>tp_worker_id = PyStr ''w'', tp_worker_kind = PyStr ''codex'', tp_key_id = PyStr ''k'',
     tp_public_key = replicate 32 CHR ''k'', tp_capabilities = [''AUDIT_READ''], tp_targets = [''repo''],
     tp_max_capacity = PyInt 2, tp_heartbeat_sla = PyInt 10, tp_enabled = True, tp_revoked = False,
     tp_version = PyInt 1, tp_algorithm = SIGNATURE_ALGORITHM\<rparr>"

definition empty_external :: external where
  "empty_external = \<lparr>xg_registry = [], xg_ttl = 30, xg_profiles = [], xg_challenges = [], xg_sessions = [], xg_messages = [],
     xg_dispatches = [], xg_spool = \<lparr>sp_outbound = [], sp_temporary = [], sp_inbound = [],
       sp_evidence = [(''ev1'', ''content'')]\<rparr>\<rparr>"

definition ext_opened :: external where
  "ext_opened = snd (open_external sample_crypto (PyInt 30) True (Inr ()) [sample_trusted] empty_external sample_leased)"

definition ext_challenged :: external where
  "ext_challenged = snd (issue_challenge sample_crypto (Finite 1) ''n'' ''w'' ''k'' ext_opened sample_leased)"

definition session_frame :: pyval where
  "session_frame = PyDict [(''challenge_id'', PyStr sample_sha), (''worker_id'', PyStr ''w''), (''key_id'', PyStr ''k''),
     (''nonce'', PyStr ''n''), (''protocol_version'', PyStr AF05_PROTOCOL_VERSION), (''profile_digest'', PyStr sample_sha),
     (''issued_at'', PyInt 1), (''expires_at'', PyInt 31), (''session_id'', PyStr ''s''), (''capacity'', PyInt 1),
     (''signature'', PyStr ''ok'')]"

definition common_frame :: "string \<Rightarrow> int \<Rightarrow> int \<Rightarrow> dict" where
  "common_frame mid q t = [(''protocol_version'', PyStr AF05_PROTOCOL_VERSION), (''worker_id'', PyStr ''w''),
     (''key_id'', PyStr ''k''), (''session_id'', PyStr ''s''), (''message_id'', PyStr mid), (''sequence'', PyInt q),
     (''observed_at'', PyInt t), (''signature'', PyStr ''ok'')]"

definition beat_frame :: dict where
  "beat_frame = common_frame ''m1'' 1 3 @ [(''capacity'', PyInt 1)]"

definition bound_frame :: "string \<Rightarrow> int \<Rightarrow> dict" where
  "bound_frame mid q = common_frame mid q 4 @ [(''dispatch_id'', PyStr sample_sha), (''task_id'', PyStr ''t''), (''lease_id'', PyStr ''L'')]"

definition result_frame :: dict where
  "result_frame = bound_frame ''m3'' 3 @ [(''status'', PyStr ''SUCCEEDED''), (''evidence_id'', PyStr ''ev1''),
     (''evidence_sha256'', PyStr sample_sha)]"

definition session_row :: ext_session where
  "session_row = \<lparr>es_worker_id = ''w'', es_kind = ''codex'', es_session_id = ''s'', es_key_id = ''k'',
     es_fingerprint = sample_sha, es_profile_digest = sample_sha, es_scope = AUTHENTICATION_SCOPE,
     es_authenticated_at = 2, es_last_sequence = 0, es_last_heartbeat = 2, es_capacity = 1,
     es_state = ''AUTHENTICATED'', es_last_message = None\<rparr>"

definition sample_verified :: VerifiedProfile where
  "sample_verified = \<lparr>vp_worker_id = ''w'', vp_kind = ''codex'', vp_key_id = ''k'', vp_capabilities = [''AUDIT_READ''],
     vp_targets = [''repo''], vp_capacity = 2, vp_sla = 10, vp_enabled = True, vp_revoked = False, vp_version = 1,
     vp_key = replicate 32 CHR ''k'', vp_fingerprint = sample_sha, vp_digest = sample_sha\<rparr>"

lemma sample_verifies: "verify_profile sample_crypto sample_trusted = Inr sample_verified"
  by code_simp

lemma sample_opened: "open_external sample_crypto (PyInt 30) True (Inr ()) [sample_trusted] empty_external sample_leased
   = (Inr (), empty_external\<lparr>xg_registry := [sample_verified], xg_profiles := [profile_binding sample_verified]\<rparr>)"
  by (simp add: open_external_def challenge_ttl_def sample_verifies empty_external_def registry_all_def sample_leased_eq with_row_def
    drop_sessions_def sample_verified_def profile_binding_def)

lemma sample_idents [simp]: "ident_of (PyStr ''w'') l = Inr ''w''" "ident_of (PyStr ''k'') l = Inr ''k''"
  "ident_of (PyStr ''s'') l = Inr ''s''" "ident_of (PyStr ''t'') l = Inr ''t''" "ident_of (PyStr ''L'') l = Inr ''L''"
  "ident_of (PyStr ''m1'') l = Inr ''m1''" "ident_of (PyStr ''m2'') l = Inr ''m2''" "ident_of (PyStr ''m3'') l = Inr ''m3''"
  "ident_of (PyStr ''ev1'') l = Inr ''ev1''" "ident_of (PyStr sample_sha) l = Inr sample_sha"
  by (simp_all add: ident_of_def sample_sha_identifier) code_simp+

lemma sample_trusted_worker:
  "xg_registry x = [sample_verified] \<Longrightarrow> xg_profiles x = [profile_binding sample_verified] \<Longrightarrow>
    trusted (PyStr ''w'') x = Inr sample_verified"
  by (simp add: trusted_def registry_get_def find_profile_row_def sample_verified_def profile_binding_def)

definition sample_challenge :: challenge_row where
  "sample_challenge = \<lparr>cg_id = sample_sha, cg_worker_id = ''w'', cg_key_id = ''k'', cg_nonce_digest = sample_sha,
     cg_protocol = AF05_PROTOCOL_VERSION, cg_profile_digest = sample_sha, cg_issued_at = 1, cg_expires_at = 31,
     cg_consumed = False, cg_revoked = False\<rparr>"

lemma sample_challenged: "issue_challenge sample_crypto (Finite 1) ''n'' ''w'' ''k'' ext_opened sample_leased
   = (Inr \<lparr>sc_challenge_id = sample_sha, sc_worker_id = ''w'', sc_key_id = ''k'', sc_nonce = ''n'', sc_profile_digest = sample_sha,
        sc_issued_at = 1, sc_expires_at = 31\<rparr>, ext_opened\<lparr>xg_challenges := [sample_challenge]\<rparr>)"
  unfolding ext_opened_def sample_opened
  by (simp add: issue_challenge_def sample_trusted_worker)
    (simp add: sample_verified_def sample_crypto_def sample_hash_def find_challenge_def empty_external_def sample_challenge_def
      sample_leased_eq with_row_def)

definition session_dict :: dict where
  "session_dict = (case session_frame of PyDict m \<Rightarrow> m | _ \<Rightarrow> [])"

lemma session_frame_eq: "session_frame = PyDict session_dict"
  by (simp add: session_dict_def session_frame_def)

lemma session_gets: "dget session_dict ''worker_id'' = PyStr ''w''" "dget session_dict ''key_id'' = PyStr ''k''"
  "dget session_dict ''session_id'' = PyStr ''s''" "dget session_dict ''challenge_id'' = PyStr sample_sha"
  "dget session_dict ''protocol_version'' = PyStr AF05_PROTOCOL_VERSION" "dget session_dict ''profile_digest'' = PyStr sample_sha"
  "dget session_dict ''capacity'' = PyInt 1" "dget session_dict ''nonce'' = PyStr ''n''"
  "dget session_dict ''issued_at'' = PyInt 1" "dget session_dict ''expires_at'' = PyInt 31"
  by (simp_all add: session_dict_def session_frame_def dget_def)

lemma session_checks: "has_keys session_frame_keys session_dict" "verify_frame sample_crypto sample_verified ''SESSION'' session_dict = Inr ()"
  by code_simp+

definition live_worker :: worker where
  "live_worker = \<lparr>w_id = ''w'', w_kind = ''codex'', w_capabilities = [''AUDIT_READ''], w_targets = [''repo''],
     w_registered_at = 0, w_last_heartbeat = 2, w_heartbeat_sla = 10, w_capacity = 1\<rparr>"

definition ext_live_state :: external where
  "ext_live_state = empty_external\<lparr>xg_registry := [sample_verified], xg_profiles := [profile_binding sample_verified],
     xg_challenges := [sample_challenge\<lparr>cg_consumed := True\<rparr>], xg_sessions := [session_row]\<rparr>"

lemma clean_codex: "clean ''codex'' = ''codex''" "packed [''AUDIT_READ''] = [''AUDIT_READ'']"
  by code_simp+

lemma sample_registered: "register_worker (Finite 2) ''w'' ''codex'' [''AUDIT_READ''] [''repo''] 10 1 sample_leased
    = (Inr (), sample_leased\<lparr>db_workers := [live_worker]\<rparr>)"
  by (simp add: register_worker_def sample_leased_eq clean_codex eval_simps sample_defs live_worker_def)

lemma sample_keys: "vp_key_id sample_verified = ''k''" "vp_digest sample_verified = sample_sha" "vp_worker_id sample_verified = ''w''"
    "vp_sla sample_verified = 10" "vp_capacity sample_verified = 2"
  by (simp_all add: sample_verified_def)

lemma sample_digest: "nonce_digest sample_crypto (PyStr s) = Some sample_sha"
  by (simp add: nonce_digest_def sample_crypto_def sample_hash_def)

lemma sample_live: "authenticate_session sample_crypto (Finite 2) session_frame ext_challenged sample_leased
    = (Inr (), ext_live_state, sample_leased\<lparr>db_workers := [live_worker]\<rparr>)"
proof -
  have lock: "\<not> db_locked sample_leased" by (simp add: sample_leased_eq with_row_def)
  have x: "ext_challenged = empty_external\<lparr>xg_registry := [sample_verified], xg_profiles := [profile_binding sample_verified],
      xg_challenges := [sample_challenge]\<rparr>"
    unfolding ext_challenged_def sample_challenged by (simp add: ext_opened_def sample_opened)
  have tr: "trusted (PyStr ''w'') ext_challenged = Inr sample_verified" by (rule sample_trusted_worker) (simp_all add: x)
  have cap: "capacity_of sample_verified (PyInt 1) = Some 1" by (simp add: capacity_of_def sample_verified_def)
  have op: "challenge_open 2 ''w'' ''k'' sample_verified sample_sha session_dict sample_challenge"
    by (simp add: challenge_open_def sample_challenge_def sample_verified_def session_gets same_number_def)
  have fc: "find_challenge sample_sha ext_challenged = Some sample_challenge"
    by (simp add: find_challenge_def x sample_challenge_def)
  have com: "commit_session 2 sample_sha ''w'' ''s'' sample_verified 1 ext_challenged sample_leased
      = (Inr (), ext_live_state, sample_leased\<lparr>db_workers := [live_worker]\<rparr>)"
    by (simp add: commit_session_def lock x consumable_def sample_challenge_def sample_verified_def sample_registered [simplified]
        put_session_def ext_live_state_def empty_external_def session_row_def rowcount_def)
  have ses: "find_session ''w'' ext_challenged = None" by (simp add: x find_session_def empty_external_def)
  show ?thesis
    unfolding session_frame_eq
    by (simp add: authenticate_session_def session_gets session_checks tr cap fc op com takeover_def ses
        sample_keys sample_digest)
qed

text \<open>The heartbeat, the dispatch, its acknowledgement and its result.\<close>

lemma sample_signed:
  assumes "xg_registry x = [sample_verified]" and "xg_profiles x = [profile_binding sample_verified]"
    and "xg_sessions x = [s]" and "es_worker_id s = ''w''" and "es_state s = ''AUTHENTICATED''" and "es_session_id s = ''s''"
    and "es_key_id s = ''k''" and "es_profile_digest s = sample_sha" and "es_last_sequence s < q" and "of_int t \<le> n + 1"
    and "\<not> seen_message mid x" and "0 \<le> n" and "0 \<le> t" and "has_keys (message_keys domain) m"
    and "verify_frame sample_crypto sample_verified domain m = Inr ()"
    and "\<And>k. k \<in> set common_keys \<Longrightarrow> dget m k = dget (common_frame mid q t) k" and "ident_of (PyStr mid) ''message_id'' = Inr mid"
  shows "signed_message sample_crypto domain (Finite n) (PyDict m) x = Inr \<lparr>sg_frame = m, sg_now = n, sg_profile = sample_verified,
    sg_session = s, sg_sequence = q, sg_observed = of_int t, sg_id = mid\<rparr>"
proof -
  have gets: "dget m ''worker_id'' = PyStr ''w''" "dget m ''key_id'' = PyStr ''k''" "dget m ''session_id'' = PyStr ''s''"
    "dget m ''message_id'' = PyStr mid" "dget m ''sequence'' = PyInt q" "dget m ''observed_at'' = PyInt t"
    "dget m ''protocol_version'' = PyStr AF05_PROTOCOL_VERSION"
    using assms(16) by (simp_all add: common_keys_def common_frame_def dget_def)
  have ses: "find_session ''w'' x = Some s" using assms(3,4) by (simp add: find_session_def)
  have bind: "session_binds ''s'' ''k'' sample_verified m s"
    using assms(5-8) by (simp add: session_binds_def gets sample_keys)
  have "message_time (PyInt t) = Inr (of_int t)" using assms(13) by (simp add: message_time_def)
  with assms(9-12,14,15,17) show ?thesis
    by (simp add: signed_message_def gets sample_trusted_worker [OF assms(1,2)] ses bind)
qed

lemma common_prefix: "k \<in> set common_keys \<Longrightarrow> dget (common_frame mid q t @ r) k = dget (common_frame mid q t) k"
  by (auto simp: common_keys_def common_frame_def dget_def)

lemma sample_beat_checks: "has_keys (message_keys ''HEARTBEAT'') beat_frame"
    "verify_frame sample_crypto sample_verified ''HEARTBEAT'' beat_frame = Inr ()"
  by code_simp+

definition beat_db :: db where "beat_db = sample_leased\<lparr>db_workers := [live_worker]\<rparr>"

definition ext_beat_state :: external where
  "ext_beat_state = fst (snd (external_heartbeat sample_crypto (Finite 3) (PyDict beat_frame) ext_live_state beat_db))"

lemma sample_beat: "\<exists>d'. external_heartbeat sample_crypto (Finite 3) (PyDict beat_frame) ext_live_state beat_db
    = (Inr (), ext_beat_state, d')"
proof -
  have sg: "signed_message sample_crypto ''HEARTBEAT'' (Finite 3) (PyDict beat_frame) ext_live_state
      = Inr \<lparr>sg_frame = beat_frame, sg_now = 3, sg_profile = sample_verified, sg_session = session_row, sg_sequence = 1,
          sg_observed = of_int 3, sg_id = ''m1''\<rparr>"
    by (rule sample_signed)
      (simp_all add: ext_live_state_def session_row_def seen_message_def empty_external_def sample_beat_checks,
        simp add: beat_frame_def common_prefix)
  have cap: "capacity_of sample_verified (dget beat_frame ''capacity'') = Some 1"
    by (simp add: capacity_of_def sample_keys beat_frame_def common_frame_def dget_def)
  obtain d1 where hb: "heartbeat_with_capacity (Finite 3) ''w'' (PyInt 1) (Some (Finite 3)) beat_db = (Inr (), d1)"
    and lock: "\<not> db_locked d1"
    by (simp add: heartbeat_with_capacity_def observed_or_def beat_db_def sample_leased_eq with_row_def live_worker_def
        eval_simps update_workers_def)
  have "\<exists>x' d'. external_heartbeat sample_crypto (Finite 3) (PyDict beat_frame) ext_live_state beat_db = (Inr (), x', d')"
    by (simp add: external_heartbeat_def sg cap sample_keys hb) (simp add: session_row_def accept_message_def lock)
  then show ?thesis by (auto simp: ext_beat_state_def)
qed

subsection \<open>Claims\<close>

text \<open>Every state the gateway can be in, over any frames, restarts and lock conflicts, is well formed:
  keys are unique, no two sessions share a worker or a session identifier, an authenticated session belongs to
  a profile of the authority that is enabled, not revoked and has its key, digest and capacity bound, and a
  dispatch with a result was acknowledged.\<close>

theorem external_well_formed:
  assumes "(ext_step C)\<^sup>*\<^sup>* (empty_external\<lparr>xg_spool := sp\<rparr>) x"
  shows "ext_inv x"
proof -
  have "ext_inv (empty_external\<lparr>xg_spool := sp\<rparr>)" by (simp add: ext_inv_def empty_external_def)
  with assms show ?thesis by (induction rule: rtranclp_induct) (auto dest: ext_step_inv)
qed

theorem external_well_formed_witness: "ext_inv ext_live_state \<and> xg_sessions ext_live_state = [session_row]"
proof -
  have "ext_step sample_crypto empty_external ext_opened"
    unfolding ext_opened_def by (rule ext_step.open_again) (rule prod.collapse [symmetric])
  moreover have "ext_step sample_crypto ext_opened ext_challenged"
    unfolding ext_challenged_def by (rule ext_step.challenge) (rule prod.collapse [symmetric])
  moreover have "ext_step sample_crypto ext_challenged ext_live_state" by (rule ext_step.session [OF sample_live])
  ultimately have "(ext_step sample_crypto)\<^sup>*\<^sup>* empty_external ext_live_state" by (meson converse_rtranclp_into_rtranclp r_into_rtranclp)
  then have "ext_inv ext_live_state"
    using external_well_formed [where sp = "xg_spool empty_external" and x = ext_live_state] by simp
  then show ?thesis by (simp add: ext_live_state_def)
qed

text \<open>A signed message counts once: after a frame was accepted as a heartbeat, an acknowledgement or a
  result, and after any operations, sessions and restarts, every frame with the same message identifier is
  refused and changes nothing.\<close>

theorem external_message_once:
  assumes "handle C k now (PyDict m) x d = (Inr (), x1, d1)" and "(ext_step C)\<^sup>*\<^sup>* x1 x2"
    and "dget m' ''message_id'' = dget m ''message_id''"
  shows "\<exists>e. handle C k' now' (PyDict m') x2 d2 = (Inl e, x2, d2)"
proof -
  from assms(1) obtain g where g: "signed_message C (kind_name k) now (PyDict m) x = Inr g" and seen: "seen_message (sg_id g) x1"
  proof (cases rule: handle_D)
    case (recorded g beat y d0)
    have "seen_message (sg_id g) y" using accept_message_D [OF recorded(2)] by (auto simp: seen_message_def)
    with recorded(4) have "seen_message (sg_id g) x1" by (auto simp: seen_message_def update_dispatch_def)
    with recorded(1) that show ?thesis by blast
  qed simp
  have old: "seen_message (sg_id g) x2" by (rule ext_keptD(1) [OF ext_steps_kept [OF assms(2)] seen])
  have "dget m' ''message_id'' = PyStr (sg_id g)" using assms(3) signed_message_D(1,4) [OF g] by simp
  then have "signed_message C (kind_name k') now' (PyDict m') x2 \<noteq> Inr g'" for g'
    using old signed_message_D(1,4,10) [of C "kind_name k'" now' "PyDict m'" x2 g'] by auto
  then obtain e where "signed_message C (kind_name k') now' (PyDict m') x2 = Inl e"
    by (cases "signed_message C (kind_name k') now' (PyDict m') x2") auto
  then show ?thesis using handle_refuses by blast
qed

theorem external_message_once_witness:
  "\<exists>e. handle sample_crypto Heartbeat (Finite 4) (PyDict beat_frame) ext_beat_state beat_db = (Inl e, ext_beat_state, beat_db)"
proof -
  obtain d' where "handle sample_crypto Heartbeat (Finite 3) (PyDict beat_frame) ext_live_state beat_db = (Inr (), ext_beat_state, d')"
    using sample_beat by auto
  from external_message_once [OF this rtranclp.rtrancl_refl refl] show ?thesis .
qed

text \<open>C13. Whatever frame is accepted is authentic: it names a worker whose profile the authority holds enabled
  and unrevoked, whose profile row is not revoked, and which has an authenticated session with the frame's
  session and key; its sequence number is above every accepted one of the session, its message identifier is
  new, and its signature verifies under the profile's key over the domain of this kind of message.\<close>

theorem external_accepted_authentic:
  assumes "handle C k now (PyDict m) x d = (Inr (), x', d')"
  shows "\<exists>p s q. p \<in> set (xg_registry x) \<and> vp_enabled p \<and> \<not> vp_revoked p \<and> \<not> revoked_in (vp_worker_id p) x
    \<and> dget m ''worker_id'' = PyStr (vp_worker_id p) \<and> find_session (vp_worker_id p) x = Some s
    \<and> es_state s = ''AUTHENTICATED'' \<and> dget m ''session_id'' = PyStr (es_session_id s) \<and> dget m ''key_id'' = PyStr (es_key_id s)
    \<and> dget m ''sequence'' = PyInt q \<and> es_last_sequence s < q
    \<and> (\<exists>mid. dget m ''message_id'' = PyStr mid \<and> \<not> seen_message mid x)
    \<and> (\<exists>sig raw body. dget m ''signature'' = PyStr sig \<and> cr_b64 C sig = Some raw
        \<and> signed_bytes C (DOMAIN_PREFIX @ kind_name k) m = Inr body \<and> cr_verify C (vp_key p) raw body)"
proof -
  from assms obtain g where g: "signed_message C (kind_name k) now (PyDict m) x = Inr g"
    by (cases rule: handle_D) auto
  note msg = signed_message_D [OF g]
  have m: "sg_frame g = m" using msg(1) by simp
  from msg(5) have p: "sg_profile g \<in> set (xg_registry x)" "vp_enabled (sg_profile g)" "\<not> vp_revoked (sg_profile g)"
    by (auto elim!: trusted_D dest: find_Some_mem)
  from msg(11) have sig: "\<exists>sig raw body. dget m ''signature'' = PyStr sig \<and> cr_b64 C sig = Some raw
        \<and> signed_bytes C (DOMAIN_PREFIX @ kind_name k) m = Inr body \<and> cr_verify C (vp_key (sg_profile g)) raw body"
    by (auto simp: verify_frame_def m split: pyval.splits option.splits sum.splits if_splits)
  show ?thesis
    using p trusted_not_revoked [OF msg(5)] msg(3,4,6-10) sig
    by (intro exI [of _ "sg_profile g"] exI [of _ "sg_session g"] exI [of _ "sg_sequence g"]) (auto simp: m session_binds_def)
qed

theorem external_accepted_authentic_witness:
  "\<exists>p \<in> set (xg_registry ext_live_state). dget beat_frame ''worker_id'' = PyStr (vp_worker_id p) \<and> vp_enabled p"
proof -
  obtain d' where "handle sample_crypto Heartbeat (Finite 3) (PyDict beat_frame) ext_live_state beat_db = (Inr (), ext_beat_state, d')"
    using sample_beat by auto
  from external_accepted_authentic [OF this] show ?thesis by blast
qed

text \<open>C16. A revocation is final: once a worker is revoked, and after any further operations, sessions and
  restarts with any profiles, it gets no challenge, opens no session, has none of its messages accepted, and is
  never offered to the router.\<close>

theorem revocation_final:
  assumes "revoke_worker (PyStr wid) x d = (Inr (), x1)" and "(ext_step C)\<^sup>*\<^sup>* x1 x2"
  shows "(\<forall>now n key d2. \<exists>e. issue_challenge C now n wid key x2 d2 = (Inl e, x2))
    \<and> (\<forall>now m d2. dget m ''worker_id'' = PyStr wid \<longrightarrow> (\<exists>e. authenticate_session C now (PyDict m) x2 d2 = (Inl e, x2, d2)))
    \<and> (\<forall>k now m d2. dget m ''worker_id'' = PyStr wid \<longrightarrow> (\<exists>e. handle C k now (PyDict m) x2 d2 = (Inl e, x2, d2)))
    \<and> (\<forall>now cap tgt d2 r. external_eligible now cap tgt x2 d2 = Inr r \<longrightarrow> wid \<notin> fst ` set r)"
proof -
  from assms(1) have "0 < rowcount (\<lambda>r. pf_worker_id r = wid) (xg_profiles x)"
    and x1: "xg_profiles x1 = update_where (\<lambda>r. pf_worker_id r = wid) (\<lambda>r. r\<lparr>pf_revoked := True\<rparr>) (xg_profiles x)"
    by (auto simp: revoke_worker_def split: sum.splits if_splits dest!: ident_of_Inr)
  then have "revoked_in wid x1" by (simp add: revoked_in_def flagged_update_all)
  then have rev: "revoked_in wid x2" by (rule ext_keptD(2) [OF ext_steps_kept [OF assms(2)]])
  have un: "trusted (PyStr wid) x2 \<noteq> Inr p" for p
    using trusted_not_revoked [of "PyStr wid" x2 p] rev by (auto elim: trusted_D)
  then obtain e0 where tr: "trusted (PyStr wid) x2 = Inl e0" by (cases "trusted (PyStr wid) x2") auto
  have ch: "\<exists>e. issue_challenge C now n wid key x2 d2 = (Inl e, x2)" for now n key d2
    by (simp add: issue_challenge_def tr split: sum.split)
  have au: "\<exists>e. authenticate_session C now (PyDict m) x2 d2 = (Inl e, x2, d2)" if "dget m ''worker_id'' = PyStr wid" for now m d2
  proof -
    obtain r x' d' where run: "authenticate_session C now (PyDict m) x2 d2 = (r, x', d')" by (rule prod_cases3)
    then show ?thesis
      by (cases rule: authenticate_session_D) (use that un run in auto)
  qed
  have ha: "\<exists>e. handle C k now (PyDict m) x2 d2 = (Inl e, x2, d2)" if "dget m ''worker_id'' = PyStr wid" for k now m d2
  proof (cases "signed_message C (kind_name k) now (PyDict m) x2")
    case (Inr g)
    with that un show ?thesis using signed_message_D(1,3,5) [OF Inr] by auto
  qed (use handle_refuses in blast)
  have lo: "external_eligible_loop n cap tgt x2 d2 ps = Inr r \<Longrightarrow> (wid, sid) \<notin> set r" for n cap tgt d2 ps r sid
  proof (induction ps arbitrary: r)
    case (Cons p ps)
    have "pf_revoked q" if "find_profile_row wid x2 = Some q" for q
      using rev that by (simp add: revoked_in_def flagged_def find_profile_row_def)
    with Cons show ?case by (auto split: if_splits option.splits sum.splits)
  qed simp
  have el: "wid \<notin> fst ` set r" if "external_eligible now cap tgt x2 d2 = Inr r" for now cap tgt d2 r
    using that lo by (auto simp: external_eligible_def split: sum.splits)
  from ch au ha el show ?thesis by blast
qed

theorem revocation_final_witness:
  "\<exists>x1 e. revoke_worker (PyStr ''w'') ext_live_state beat_db = (Inr (), x1)
    \<and> handle sample_crypto Heartbeat (Finite 3) (PyDict beat_frame) x1 beat_db = (Inl e, x1, beat_db)"
proof -
  have "beat_db\<lparr>db_locked := False\<rparr> = beat_db" by (simp add: beat_db_def sample_leased_eq with_row_def)
  then have "\<not> db_locked beat_db" by (metis db.select_convs(5) db.surjective db.update_convs(5))
  then obtain x1 where x1: "revoke_worker (PyStr ''w'') ext_live_state beat_db = (Inr (), x1)"
    by (simp add: revoke_worker_def ext_live_state_def profile_binding_def sample_verified_def)
  have "dget beat_frame ''worker_id'' = PyStr ''w''" by (simp add: beat_frame_def common_frame_def dget_def)
  with revocation_final [OF x1, of sample_crypto x1] x1 show ?thesis by blast
qed

text \<open>A challenge opens one session: after an authentication with a challenge succeeded, and after any
  operations and restarts, no authentication with the same challenge succeeds or changes anything.\<close>

theorem challenge_used_once:
  assumes "authenticate_session C now (PyDict m) x d = (Inr (), x1, d1)" and "(ext_step C)\<^sup>*\<^sup>* x1 x2"
    and "dget m' ''challenge_id'' = dget m ''challenge_id''"
  shows "\<exists>e. authenticate_session C now' (PyDict m') x2 d2 = (Inl e, x2, d2)"
proof -
  from assms(1) obtain cid where cid: "dget m ''challenge_id'' = PyStr cid" and "consumed_in cid x1"
  proof (cases rule: authenticate_session_D)
    case (opened m1 n p sid cid c rec s)
    from opened(7,8) have "find (\<lambda>r. cg_id r = cid) (update_where (consumable cid n) (\<lambda>r. r\<lparr>cg_consumed := True\<rparr>) (xg_challenges x))
        = Some (rec\<lparr>cg_consumed := True\<rparr>)"
      by (subst find_update_where) (simp_all add: find_challenge_def)
    with opened(2,6,20) show ?thesis by (intro that) (auto simp: consumed_in_def flagged_def put_session_def)
  qed simp
  from this(2) have old: "consumed_in cid x2" by (rule ext_keptD(3) [OF ext_steps_kept [OF assms(2)]])
  obtain r x' d' where run: "authenticate_session C now' (PyDict m') x2 d2 = (r, x', d')" by (rule prod_cases3)
  then show ?thesis
  proof (cases rule: authenticate_session_D)
    case (opened m1 n p sid cid' c rec s)
    with cid assms(3) old show ?thesis by (auto simp: consumed_in_def flagged_def find_challenge_def consumable_def)
  qed (use run in simp)
qed

theorem challenge_used_once_witness:
  "\<exists>e. authenticate_session sample_crypto (Finite 3) session_frame ext_live_state beat_db = (Inl e, ext_live_state, beat_db)"
  using challenge_used_once [OF sample_live [unfolded session_frame_eq] rtranclp.rtrancl_refl refl] session_frame_eq by simp

text \<open>An accepted result stands on evidence: the dispatch it names was acknowledged and had no result, its
  task, worker, session and lease are the frame's, the spool holds evidence content whose digest is the one
  the frame states, exactly this digest is recorded for the task, and the task waits for review.\<close>

theorem external_result_bound:
  assumes "external_result C now (PyDict m) x d = (Inr (), x', d')"
  shows "\<exists>r eid b n. find_dispatch (xd_id r) x = Some r \<and> dget m ''dispatch_id'' = PyStr (xd_id r) \<and> xd_acknowledged r
    \<and> \<not> xd_result_received r \<and> dget m ''task_id'' = PyStr (xd_task_id r) \<and> dget m ''worker_id'' = PyStr (xd_worker_id r)
    \<and> dget m ''session_id'' = PyStr (xd_session_id r) \<and> dget m ''lease_id'' = PyStr (xd_lease_id r)
    \<and> dget m ''evidence_id'' = PyStr eid \<and> map_of (sp_evidence (xg_spool x)) eid = Some b
    \<and> dget m ''evidence_sha256'' = PyStr (cr_hash C b)
    \<and> db_evidence d' = db_evidence d @ [evidence_row (xd_task_id r) eid (cr_hash C b) n]
    \<and> state_in d' (xd_task_id r) = Some REVIEW_PENDING"
proof -
  from assms obtain g r eid digest where g: "signed_message C ''RESULT'' now (PyDict m) x = Inr g"
    and r: "external_bound (sg_frame g) x = Inr r" and st: "xd_acknowledged r" "\<not> xd_result_received r"
    and ev: "external_evidence C (sg_frame g) (xg_spool x) = Inr (eid, digest)"
    and sub: "submit_result (Finite (sg_now g)) (xd_task_id r) (vp_worker_id (sg_profile g)) (xd_lease_id r) eid digest d = (Inr (), d')"
    by (auto simp: external_result_def split: sum.splits prod.splits if_splits)
  have m: "sg_frame g = m" using signed_message_D(1) [OF g] by simp
  from r have fd: "find_dispatch (xd_id r) x = Some r" "dget m ''dispatch_id'' = PyStr (xd_id r)"
      "dget m ''task_id'' = PyStr (xd_task_id r)" "dget m ''worker_id'' = PyStr (xd_worker_id r)"
      "dget m ''session_id'' = PyStr (xd_session_id r)" "dget m ''lease_id'' = PyStr (xd_lease_id r)"
    by (auto simp: external_bound_def m find_dispatch_def split: sum.splits option.splits if_splits
        dest!: ident_of_Inr dest: find_Some_mem)
  from ev obtain b where b: "dget m ''evidence_id'' = PyStr eid" "map_of (sp_evidence (xg_spool x)) eid = Some b"
      "dget m ''evidence_sha256'' = PyStr digest" "cr_hash C b = digest"
    by (auto simp: external_evidence_def m resolve_evidence_def evidence_digest_def
        split: sum.splits option.splits pyval.splits if_splits dest!: ident_of_Inr)
  from submit_result_review [OF sub] fd b st show ?thesis by blast
qed

definition sample_ext_dispatch :: ext_dispatch where
  "sample_ext_dispatch = \<lparr>xd_id = sample_sha, xd_task_id = ''t'', xd_worker_id = ''w'', xd_session_id = ''s'', xd_lease_id = ''L'',
     xd_lease_expires_at = 31, xd_capability = ''test'', xd_target = ''repo'', xd_acknowledged = True,
     xd_result_received = False, xd_ack_at = Some 4\<rparr>"

definition ext_acked_state :: external where
  "ext_acked_state = ext_live_state\<lparr>xg_dispatches := [sample_ext_dispatch]\<rparr>"

lemma sample_result_checks: "has_keys (message_keys ''RESULT'') result_frame"
    "verify_frame sample_crypto sample_verified ''RESULT'' result_frame = Inr ()"
  by code_simp+

lemma result_frame_split: "result_frame = common_frame ''m3'' 3 4 @ [(''dispatch_id'', PyStr sample_sha), (''task_id'', PyStr ''t''),
    (''lease_id'', PyStr ''L''), (''status'', PyStr ''SUCCEEDED''), (''evidence_id'', PyStr ''ev1''), (''evidence_sha256'', PyStr sample_sha)]"
  by (simp add: result_frame_def bound_frame_def)

lemma sample_hex: "list_all is_lower_hex sample_sha" "length sample_sha = 64"
  by code_simp+

lemma sample_outcome: "\<exists>x' d'. external_result sample_crypto (Finite 5) (PyDict result_frame) ext_acked_state sample_running = (Inr (), x', d')"
proof -
  have sg: "signed_message sample_crypto ''RESULT'' (Finite 5) (PyDict result_frame) ext_acked_state
      = Inr \<lparr>sg_frame = result_frame, sg_now = 5, sg_profile = sample_verified, sg_session = session_row, sg_sequence = 3,
          sg_observed = of_int 4, sg_id = ''m3''\<rparr>"
    by (rule sample_signed)
      (simp_all add: ext_acked_state_def ext_live_state_def session_row_def seen_message_def empty_external_def
        sample_result_checks, simp add: result_frame_split common_prefix)
  have gets: "dget result_frame ''dispatch_id'' = PyStr sample_sha" "dget result_frame ''task_id'' = PyStr ''t''"
    "dget result_frame ''worker_id'' = PyStr ''w''" "dget result_frame ''session_id'' = PyStr ''s''"
    "dget result_frame ''lease_id'' = PyStr ''L''" "dget result_frame ''status'' = PyStr ''SUCCEEDED''"
    "dget result_frame ''evidence_id'' = PyStr ''ev1''" "dget result_frame ''evidence_sha256'' = PyStr sample_sha"
    by (simp_all add: result_frame_split common_frame_def dget_def)
  have ev: "external_evidence sample_crypto result_frame (xg_spool ext_acked_state) = Inr (''ev1'', sample_sha)"
    by (simp add: external_evidence_def gets evidence_digest_def sample_hex resolve_evidence_def ext_acked_state_def
        ext_live_state_def empty_external_def MAX_EVIDENCE_BYTES_def sample_crypto_def sample_hash_def)
  obtain d' where sub: "submit_result (Finite 5) ''t'' ''w'' ''L'' ''ev1'' sample_sha sample_running = (Inr (), d')"
    by (simp add: submit_result_def sample_running_eq sample_sha_ok result_reportable_def
        evidence_insert_ok_def eval_simps sample_defs)
  have lock: "\<not> db_locked sample_running" by (simp add: sample_running_eq with_row_def)
  have bd: "external_bound result_frame ext_acked_state = Inr sample_ext_dispatch"
    by (simp add: external_bound_def gets find_dispatch_def ext_acked_state_def sample_ext_dispatch_def)
  obtain x1 where acc: "accept_message ''RESULT'' \<lparr>sg_frame = result_frame, sg_now = 5, sg_profile = sample_verified,
      sg_session = session_row, sg_sequence = 3, sg_observed = of_int 4, sg_id = ''m3''\<rparr> None ext_acked_state sample_running = (Inr (), x1)"
    by (simp add: accept_message_def lock)
  have "external_result sample_crypto (Finite 5) (PyDict result_frame) ext_acked_state sample_running
      = (Inr (), update_dispatch sample_sha (\<lambda>u. u\<lparr>xd_result_received := True\<rparr>) x1, d')"
    unfolding external_result_def sg sum.case signed.select_convs bd ev prod.case acc
    by (simp add: gets sample_ext_dispatch_def sample_keys sub)
  then show ?thesis by blast
qed

theorem external_result_bound_witness:
  "\<exists>b. map_of (sp_evidence (xg_spool ext_acked_state)) ''ev1'' = Some b \<and> sample_hash b = sample_sha"
proof -
  obtain x' d' where "external_result sample_crypto (Finite 5) (PyDict result_frame) ext_acked_state sample_running = (Inr (), x', d')"
    using sample_outcome by blast
  from external_result_bound [OF this] obtain eid b where "dget result_frame ''evidence_id'' = PyStr eid"
    and "map_of (sp_evidence (xg_spool ext_acked_state)) eid = Some b" and "dget result_frame ''evidence_sha256'' = PyStr (cr_hash sample_crypto b)"
    by blast
  then show ?thesis by (simp add: result_frame_split common_frame_def dget_def sample_crypto_def)
qed

text \<open>A dispatch takes one result: after a result for it was accepted, and after any operations, sessions and
  restarts, every further result frame that names the dispatch is refused.\<close>

theorem external_result_once:
  assumes "external_result C now (PyDict m) x d = (Inr (), x1, d1)" and "(ext_step C)\<^sup>*\<^sup>* x1 x2"
    and "dget m' ''dispatch_id'' = dget m ''dispatch_id''"
  shows "\<exists>e. external_result C now' (PyDict m') x2 d2 = (Inl e, x2, d2)"
proof -
  from assms(1) obtain g r y where g: "signed_message C ''RESULT'' now (PyDict m) x = Inr g"
    and r: "external_bound (sg_frame g) x = Inr r" and y: "accept_message ''RESULT'' g None x d = (Inr (), y)"
    and x1: "x1 = update_dispatch (xd_id r) (\<lambda>u. u\<lparr>xd_result_received := True\<rparr>) y"
    by (auto simp: external_result_def split: sum.splits prod.splits if_splits)
  have m: "sg_frame g = m" using signed_message_D(1) [OF g] by simp
  from r have fd: "find_dispatch (xd_id r) x = Some r" and did: "dget m ''dispatch_id'' = PyStr (xd_id r)"
    by (auto simp: external_bound_def m find_dispatch_def split: sum.splits option.splits if_splits
        dest!: ident_of_Inr dest: find_Some_mem)
  have "xg_dispatches y = xg_dispatches x" using accept_message_D [OF y] by auto
  with fd have "0 < rowcount (\<lambda>u. xd_id u = xd_id r) (xg_dispatches y)"
    by (auto simp: rowcount_pos find_dispatch_def dest: find_Some_mem)
  then have "received_in (xd_id r) x1" by (simp add: received_in_def x1 update_dispatch_def flagged_update_all)
  then have old: "received_in (xd_id r) x2" by (rule ext_keptD(4) [OF ext_steps_kept [OF assms(2)]])
  show ?thesis
  proof (cases "signed_message C ''RESULT'' now' (PyDict m') x2")
    case (Inr g')
    have m': "sg_frame g' = m'" using signed_message_D(1) [OF Inr] by simp
    have "xd_result_received u" if "external_bound m' x2 = Inr u" for u
      using that old did assms(3)
      by (auto simp: external_bound_def received_in_def flagged_def find_dispatch_def
          split: sum.splits option.splits if_splits dest!: ident_of_Inr)
    with Inr m' show ?thesis by (auto simp: external_result_def split: sum.splits)
  qed (simp add: external_result_def)
qed

theorem external_result_once_witness:
  "\<exists>x1 d1 e. external_result sample_crypto (Finite 5) (PyDict result_frame) ext_acked_state sample_running = (Inr (), x1, d1)
    \<and> external_result sample_crypto (Finite 6) (PyDict result_frame) x1 d1 = (Inl e, x1, d1)"
proof -
  obtain x' d' where run: "external_result sample_crypto (Finite 5) (PyDict result_frame) ext_acked_state sample_running = (Inr (), x', d')"
    using sample_outcome by blast
  from external_result_once [OF run rtranclp.rtrancl_refl refl] run show ?thesis by blast
qed

subsection \<open>The router over this gateway\<close>

definition external_elig :: "external elig_op" where
  "external_elig n cap tgt x d = external_eligible (Finite n) cap tgt x d"

definition external_disp :: "crypto \<Rightarrow> external disp_op" where
  "external_disp C n t l sid x d = external_dispatch C (Finite n) t l (PyStr sid) x d"

interpretation remote_gateway: worker_gateway external_elig "external_disp C" for C
proof unfold_locales
  fix n t l sid x d r x' d'
  assume "external_disp C n t l sid x d = (r, x', d')"
  then have "external_dispatch C (Finite n) t l (PyStr sid) x d = (r, x', d')" by (simp add: external_disp_def)
  from external_dispatch_D [OF this] show "store_step\<^sup>*\<^sup>* d d'" "db_tasks d' = db_tasks d"
    by (auto intro: step_audit r_into_rtranclp)
qed

lemma external_route_steps:
  "route_task external_elig (external_disp C) secs uuid n t x d = (r, x', d') \<Longrightarrow> store_step\<^sup>*\<^sup>* d d'"
  by (rule remote_gateway.route_task_steps)

subsection \<open>Two gaps\<close>

text \<open>A worker that authenticates under the session identifier of another worker deletes the other's session.\<close>

lemma session_identifier_taken:
  assumes "ext_inv x" and "authenticate_session C now (PyDict m) x d = (Inr (), x1, d1)" and "s \<in> set (xg_sessions x)"
    and "dget m ''session_id'' = PyStr (es_session_id s)" and "dget m ''worker_id'' \<noteq> PyStr (es_worker_id s)"
  shows "find_session (es_worker_id s) x1 = None"
  using assms(2)
proof (cases rule: authenticate_session_D)
  case (opened m1 n p sid cid c rec s1)
  have "es_worker_id u \<noteq> es_worker_id s" if "u \<in> set (xg_sessions x1)" for u
  proof
    assume eq: "es_worker_id u = es_worker_id s"
    with that opened assms(5) have u: "u \<in> set (xg_sessions x)" "es_session_id u \<noteq> sid" by (auto simp: put_session_def)
    with eq assms(1,3) have "u = s" by (auto simp: ext_inv_def dest: distinct_key_eq [of es_worker_id])
    with u(2) opened(2,16) assms(4) show False by simp
  qed
  then show ?thesis by (auto simp: find_session_def find_None_iff)
qed simp

text \<open>The outbound frame is written before the row: after a failed INSERT the dispatch can never be sent.\<close>

lemma dispatch_stuck_after_busy:
  assumes "send_dispatch C n rec x d = (Inl db_busy, x1, d1)"
  shows "send_dispatch C n' rec x1 d2 = (Inl (BlockedError ''duplicate transport frame''), x1, d2)"
proof -
  have nb: "write_outbound C i b sp \<noteq> (Inl db_busy, sp')" for i b sp sp'
    by (auto simp: write_outbound_def canonical_json_def ident_of_def db_busy_def split: sum.splits option.splits if_splits)
  obtain q sp where w: "write_outbound C (xd_id rec) (dispatch_body rec) (xg_spool x) = (q, sp)" by fastforce
  from assms w nb have "find_dispatch (xd_id rec) x = None" and "\<exists>u. q = Inr u" and x1: "x1 = x\<lparr>xg_spool := sp\<rparr>"
    by (auto simp: send_dispatch_def split: option.splits sum.splits if_splits)
  moreover from w this(2) have "write_outbound C (xd_id rec) (dispatch_body rec) sp = (Inl (BlockedError ''duplicate transport frame''), sp)"
    by (auto simp: write_outbound_def split: sum.splits if_splits)
  ultimately show ?thesis by (simp add: send_dispatch_def find_dispatch_def)
qed

end
