(* ===== verification/QueueIntegrity.thy ===== *)
theory QueueIntegrity
  imports Trails
begin

text \<open>
  The directive queue of \<open>src/directive/queue_integrity.py\<close>: the derived identity, the audit trail,
  and the durable queue with its state machine. \<open>ts\<close> is the formatted current time, \<open>ns\<close> the text
  of \<open>time.time_ns()\<close>; \<open>disk\<close> says whether writing the queue file succeeds. A record is a
  dictionary of the code; the queue maps the value under \<open>directive_id\<close> to it.
\<close>

subsection \<open>States\<close>

datatype DirectiveState =
    AUTHENTICATED | QUEUED | CLAIMED | PRE_EXEC_VALIDATED | DISPATCH_AUTHORIZED | EXECUTING
  | COMPLETED | FAILED_FINAL | REJECTED | WAITING_HUMAN | INDETERMINATE

fun ds_value :: "DirectiveState \<Rightarrow> string" where
  "ds_value AUTHENTICATED = ''AUTHENTICATED''"
| "ds_value QUEUED = ''QUEUED''"
| "ds_value CLAIMED = ''CLAIMED''"
| "ds_value PRE_EXEC_VALIDATED = ''PRE_EXEC_VALIDATED''"
| "ds_value DISPATCH_AUTHORIZED = ''DISPATCH_AUTHORIZED''"
| "ds_value EXECUTING = ''EXECUTING''"
| "ds_value COMPLETED = ''COMPLETED''"
| "ds_value FAILED_FINAL = ''FAILED_FINAL''"
| "ds_value REJECTED = ''REJECTED''"
| "ds_value WAITING_HUMAN = ''WAITING_HUMAN''"
| "ds_value INDETERMINATE = ''INDETERMINATE''"

definition ds_all :: "DirectiveState list" where
  "ds_all = [AUTHENTICATED, QUEUED, CLAIMED, PRE_EXEC_VALIDATED, DISPATCH_AUTHORIZED, EXECUTING,
     COMPLETED, FAILED_FINAL, REJECTED, WAITING_HUMAN, INDETERMINATE]"

text \<open>\<open>DirectiveState(v)\<close>.\<close>

definition ds_of :: "pyval \<Rightarrow> DirectiveState option" where
  "ds_of v = (case v of PyStr s \<Rightarrow> find (\<lambda>x. ds_value x = s) ds_all | _ \<Rightarrow> None)"

definition TERMINAL_STATES :: "DirectiveState list" where
  "TERMINAL_STATES = [COMPLETED, FAILED_FINAL, REJECTED]"

fun VALID_TRANSITIONS :: "DirectiveState \<Rightarrow> DirectiveState list" where
  "VALID_TRANSITIONS AUTHENTICATED = [QUEUED, REJECTED]"
| "VALID_TRANSITIONS QUEUED = [CLAIMED, REJECTED]"
| "VALID_TRANSITIONS CLAIMED = [PRE_EXEC_VALIDATED, REJECTED, INDETERMINATE]"
| "VALID_TRANSITIONS PRE_EXEC_VALIDATED = [DISPATCH_AUTHORIZED, WAITING_HUMAN, REJECTED]"
| "VALID_TRANSITIONS DISPATCH_AUTHORIZED = [EXECUTING, REJECTED]"
| "VALID_TRANSITIONS EXECUTING = [COMPLETED, FAILED_FINAL, WAITING_HUMAN, INDETERMINATE]"
| "VALID_TRANSITIONS WAITING_HUMAN = [PRE_EXEC_VALIDATED, REJECTED]"
| "VALID_TRANSITIONS _ = []"

subsection \<open>Identity\<close>

definition derive_directive_identity :: "(string \<Rightarrow> string) \<Rightarrow> string \<Rightarrow> string \<Rightarrow> string \<Rightarrow> string \<Rightarrow> string
    \<Rightarrow> bool \<times> dict" where
  "derive_directive_identity H commit payload signer branch dtype =
     (let meta = (\<lambda>b i. [(''directive_id_derived'', PyBool b), (''directive_id_bound_to_payload'', PyBool b),
            (''directive_id_bound_to_commit'', PyBool b), (''directive_id_bound_to_signer'', PyBool b),
            (''directive_id'', i)])
      in if commit = [] \<or> payload = [] \<or> signer = [] then (False, meta False PyNone)
         else (True, meta True (PyStr (''DIR-'' @ take 32 (H (commit @ '':'' @ payload @ '':'' @ signer @ '':''
                @ branch @ '':'' @ dtype))))))"

subsection \<open>Audit trail\<close>

record queue_event =
  qe_event_id :: string
  qe_directive_id :: string
  qe_from_state :: pyval
  qe_to_state :: string
  qe_timestamp :: string
  qe_worker :: string
  qe_payload_sha :: pyval
  qe_commit_sha :: pyval

definition queue_last_hash :: "jfile \<Rightarrow> pyval" where
  "queue_last_hash f = (case f of None \<Rightarrow> PyStr ZEROS
    | Some ls \<Rightarrow> if stripped ls = [] then PyStr ZEROS
        else (case last (stripped ls) of Json (PyDict m) \<Rightarrow> dget_or m ''event_hash'' (PyStr ZEROS)
              | _ \<Rightarrow> PyStr ''CORRUPTED''))"

text \<open>The record of an event under a previous hash, which may be any value read from the file.\<close>

definition queue_seal :: "(string \<Rightarrow> string) \<Rightarrow> (pyval \<Rightarrow> string) \<Rightarrow> queue_event \<Rightarrow> pyval \<Rightarrow> dict" where
  "queue_seal H rep e prev = [(''event_id'', PyStr (qe_event_id e)), (''directive_id'', PyStr (qe_directive_id e)),
     (''from_state'', qe_from_state e), (''to_state'', PyStr (qe_to_state e)),
     (''timestamp'', PyStr (qe_timestamp e)), (''actor_worker'', PyStr (qe_worker e)),
     (''payload_sha256'', qe_payload_sha e), (''commit_sha'', qe_commit_sha e),
     (''previous_event_hash'', prev),
     (''event_hash'', PyStr (H (join '':'' [qe_event_id e, qe_directive_id e, fmt rep (qe_from_state e), qe_to_state e,
        qe_timestamp e, qe_worker e, fmt rep (qe_payload_sha e), fmt rep (qe_commit_sha e), fmt rep prev])))]"

definition queue_append :: "(string \<Rightarrow> string) \<Rightarrow> (pyval \<Rightarrow> string) \<Rightarrow> queue_event \<Rightarrow> jfile \<Rightarrow> (bool \<times> dict) \<times> jfile" where
  "queue_append H rep e f = (if queue_last_hash f = PyStr ''CORRUPTED''
     then ((False, [(''error'', PyStr ''CORRUPTED_AUDIT_CHAIN'')]), f)
     else ((True, queue_seal H rep e (queue_last_hash f)), append_line (queue_seal H rep e (queue_last_hash f)) f))"

definition queue_keys :: "string list" where
  "queue_keys = [''event_id'', ''directive_id'', ''from_state'', ''to_state'', ''timestamp'', ''actor_worker'',
     ''payload_sha256'', ''commit_sha'']"

text \<open>The loop of \<open>verify_integrity\<close>: \<open>k\<close> is \<open>idx + 1\<close>, \<open>p\<close> the expected previous hash.\<close>

fun queue_verify_loop :: "(string \<Rightarrow> string) \<Rightarrow> (pyval \<Rightarrow> string) \<Rightarrow> nat \<Rightarrow> string \<Rightarrow> jline list \<Rightarrow> bool \<times> string" where
  "queue_verify_loop H rep k p [] = (True, ''VALID'')"
| "queue_verify_loop H rep k p (Blank # ls) = queue_verify_loop H rep (Suc k) p ls"
| "queue_verify_loop H rep k p (Malformed e # ls) = (False, ''AUDIT_READ_ERROR: '' @ e)"
| "queue_verify_loop H rep k p (Json v # ls) = (case v of
      PyDict m \<Rightarrow>
        if dget m ''previous_event_hash'' \<noteq> PyStr p
        then (False, ''HASH_CHAIN_BROKEN_AT_LINE_'' @ str_of_nat k)
        else (case field_texts rep m queue_keys of
            Inl e \<Rightarrow> (False, ''AUDIT_READ_ERROR: '' @ e)
          | Inr fs \<Rightarrow> if dget m ''event_hash'' \<noteq> PyStr (H (join '':'' (fs @ [p])))
              then (False, ''TAMPERED_EVENT_AT_LINE_'' @ str_of_nat k)
              else queue_verify_loop H rep (Suc k) (H (join '':'' (fs @ [p]))) ls)
    | _ \<Rightarrow> (False, ''AUDIT_READ_ERROR: '' @ no_get v))"

definition queue_verify :: "(string \<Rightarrow> string) \<Rightarrow> (pyval \<Rightarrow> string) \<Rightarrow> jfile \<Rightarrow> bool \<times> string" where
  "queue_verify H rep f = (case f of None \<Rightarrow> (True, ''EMPTY'')
     | Some ls \<Rightarrow> queue_verify_loop H rep 1 ZEROS (stripped ls))"

subsection \<open>Durable queue\<close>

record dqueue =
  q_records :: "(pyval \<times> dict) list"
  q_file :: jfile
  q_audit :: jfile

text \<open>\<open>load_queue\<close>: what was read before an error stays.\<close>

fun load_lines :: "(pyval \<times> dict) list \<Rightarrow> jline list \<Rightarrow> bool \<times> (pyval \<times> dict) list" where
  "load_lines rs [] = (True, rs)"
| "load_lines rs (Blank # ls) = load_lines rs ls"
| "load_lines rs (Malformed e # ls) = (False, rs)"
| "load_lines rs (Json v # ls) = (case v of
      PyDict m \<Rightarrow> if \<not> truthy (dget m ''directive_id'') then load_lines rs ls
         else if \<not> hashable (dget m ''directive_id'') then (False, rs)
         else load_lines (AList.update (dget m ''directive_id'') m rs) ls
    | _ \<Rightarrow> (False, rs))"

definition load_queue :: "dqueue \<Rightarrow> bool \<times> dqueue" where
  "load_queue q = (case q_file q of None \<Rightarrow> (True, q\<lparr>q_records := []\<rparr>)
     | Some ls \<Rightarrow> (case load_lines [] (stripped ls) of (ok, rs) \<Rightarrow> (ok, q\<lparr>q_records := rs\<rparr>)))"

definition save_queue_atomic :: "bool \<Rightarrow> dqueue \<Rightarrow> bool \<times> dqueue" where
  "save_queue_atomic disk q = (if disk
     then (True, q\<lparr>q_file := Some (map (\<lambda>(k, m). Json (PyDict m)) (q_records q))\<rparr>) else (False, q))"

definition queue_record :: "string \<Rightarrow> string \<Rightarrow> string \<Rightarrow> string \<Rightarrow> string \<Rightarrow> dict" where
  "queue_record did commit payload signer ts = [(''directive_id'', PyStr did),
     (''authenticated_payload_commit_sha'', PyStr commit), (''authenticated_payload_sha256'', PyStr payload),
     (''authenticated_signer_fingerprint'', PyStr signer), (''queue_state'', PyStr ''QUEUED''),
     (''created_at'', PyStr ts), (''claimed_at'', PyNone), (''completed_at'', PyNone),
     (''attempt_count'', PyInt 0), (''last_error'', PyNone), (''pre_exec_auth_state'', PyStr ''VERIFIED''),
     (''lock_owner'', PyNone)]"

definition enqueue_directive :: "(string \<Rightarrow> string) \<Rightarrow> (pyval \<Rightarrow> string) \<Rightarrow> bool \<Rightarrow> string \<Rightarrow> string \<Rightarrow> string \<Rightarrow> string
    \<Rightarrow> string \<Rightarrow> string \<Rightarrow> string \<Rightarrow> dqueue \<Rightarrow> (bool \<times> string option) \<times> dqueue" where
  "enqueue_directive H rep disk ts ns did commit payload signer worker q =
     (if did = [] then ((False, Some ''MISSING_DIRECTIVE_ID''), q) else
      case map_of (q_records q) (PyStr did) of
        Some m \<Rightarrow> if dget m ''queue_state'' \<in> set (map (\<lambda>s. PyStr (ds_value s)) TERMINAL_STATES)
            then ((False, Some ''COMPLETED_DIRECTIVE_REPLAY_REJECTED''), q)
            else ((False, Some ''DUPLICATE_DIRECTIVE_REJECTED''), q)
      | None \<Rightarrow> (case save_queue_atomic disk
            (q\<lparr>q_records := AList.update (PyStr did) (queue_record did commit payload signer ts) (q_records q)\<rparr>) of
          (False, q1) \<Rightarrow> ((False, Some ''QUEUE_SAVE_FAILED''), q1)
        | (True, q1) \<Rightarrow> ((True, None), q1\<lparr>q_audit := snd (queue_append H rep
              \<lparr>qe_event_id = ''EVT-ENQUEUE-'' @ ns, qe_directive_id = did, qe_from_state = PyStr ''NONE'',
               qe_to_state = ''QUEUED'', qe_timestamp = ts, qe_worker = worker, qe_payload_sha = PyStr payload,
               qe_commit_sha = PyStr commit\<rparr> (q_audit q1))\<rparr>)))"

text \<open>The record of an accepted transition; a second worker's claim of a locked record is refused.\<close>

definition enter_state :: "string \<Rightarrow> DirectiveState \<Rightarrow> string \<Rightarrow> dict \<Rightarrow> (bool \<times> string option) + dict res" where
  "enter_state ts target worker m =
     (if target = CLAIMED then
        (if truthy (dget m ''lock_owner'') \<and> dget m ''lock_owner'' \<noteq> PyStr worker
         then Inl (False, Some ''CONCURRENT_DOUBLE_CLAIM_REJECTED'')
         else (case dget_or m ''attempt_count'' (PyInt 0) of
             PyInt a \<Rightarrow> Inr (Inr (AList.update ''attempt_count'' (PyInt (a + 1))
                (AList.update ''claimed_at'' (PyStr ts) (AList.update ''lock_owner'' (PyStr worker) m))))
           | PyBool b \<Rightarrow> Inr (Inr (AList.update ''attempt_count'' (PyInt ((if b then 1 else 0) + 1))
                (AList.update ''claimed_at'' (PyStr ts) (AList.update ''lock_owner'' (PyStr worker) m))))
           | _ \<Rightarrow> Inr (Inl (PyError ''TypeError''))))
      else if target \<in> set TERMINAL_STATES
      then Inr (Inr (AList.update ''lock_owner'' PyNone (AList.update ''completed_at'' (PyStr ts) m)))
      else Inr (Inr m))"

definition put_record :: "string \<Rightarrow> dict \<Rightarrow> dqueue \<Rightarrow> dqueue" where
  "put_record did m q = q\<lparr>q_records := AList.update (PyStr did) m (q_records q)\<rparr>"

text \<open>
  \<open>transition_state\<close>. The record is mutated in memory before the file is written, so a failed save
  leaves the new state in memory. Adding one to an attempt count that is no number (only in a file
  the program did not write) raises.
\<close>

definition transition_state :: "(string \<Rightarrow> string) \<Rightarrow> (pyval \<Rightarrow> string) \<Rightarrow> bool \<Rightarrow> string \<Rightarrow> string \<Rightarrow> string
    \<Rightarrow> DirectiveState \<Rightarrow> string \<Rightarrow> string option \<Rightarrow> dqueue \<Rightarrow> (bool \<times> string option) res \<times> dqueue" where
  "transition_state H rep disk ts ns did target worker payload q =
     (case map_of (q_records q) (PyStr did) of
        None \<Rightarrow> (Inr (False, Some ''MISSING_DIRECTIVE_ID''), q)
      | Some m \<Rightarrow> if m = [] then (Inr (False, Some ''MISSING_DIRECTIVE_ID''), q) else
     (case ds_of (dget m ''queue_state'') of
        None \<Rightarrow> (Inr (False, Some ''CORRUPTED_QUEUE_STATE''), q)
      | Some cur \<Rightarrow>
          if cur \<in> set TERMINAL_STATES then
            (Inr (False, Some (if target = QUEUED then ''COMPLETED_TO_QUEUED_REJECTED''
                               else ''TERMINAL_STATE_IMMUTABLE'')), q)
          else if target = CLAIMED \<and> cur = CLAIMED then (Inr (False, Some ''CONCURRENT_DOUBLE_CLAIM_REJECTED''), q)
          else if target \<notin> set (VALID_TRANSITIONS cur)
          then (Inr (False, Some ''INVALID_STATE_TRANSITION_REJECTED''), q)
          else if (case payload of None \<Rightarrow> False | Some p \<Rightarrow> p \<noteq> [] \<and> PyStr p \<noteq> dget m ''authenticated_payload_sha256'')
          then (Inr (False, Some ''QUEUE_PAYLOAD_MUTATION_REJECTED''),
                snd (save_queue_atomic disk (put_record did (AList.update ''queue_state'' (PyStr ''REJECTED'') m) q)))
          else (case enter_state ts target worker m of
              Inl r \<Rightarrow> (Inr r, q)
            | Inr (Inl e) \<Rightarrow> (Inl e, put_record did
                 (AList.update ''claimed_at'' (PyStr ts) (AList.update ''lock_owner'' (PyStr worker) m)) q)
            | Inr (Inr m1) \<Rightarrow>
                (case save_queue_atomic disk
                   (put_record did (AList.update ''queue_state'' (PyStr (ds_value target)) m1) q) of
                   (False, q1) \<Rightarrow> (Inr (False, Some ''QUEUE_SAVE_FAILED''), q1)
                 | (True, q1) \<Rightarrow> (Inr (True, None), q1\<lparr>q_audit := snd (queue_append H rep
                     \<lparr>qe_event_id = ''EVT-TRANS-'' @ ns, qe_directive_id = did,
                      qe_from_state = dget m ''queue_state'', qe_to_state = ds_value target, qe_timestamp = ts,
                      qe_worker = worker, qe_payload_sha = dget m1 ''authenticated_payload_sha256'',
                      qe_commit_sha = dget m1 ''authenticated_payload_commit_sha''\<rparr> (q_audit q1))\<rparr>)))))"

end
