(* ===== verification/TrailLaws.thy ===== *)
theory TrailLaws
  imports Trails
begin

text \<open>
  The laws of \<open>hash_chain\<close> for the readers of \<open>src/directive\<close>, proved once for the trail with details,
  whose instances are the approval chain and the incident trail, and the text lemmas by which a trail
  that hashes the previous hash last binds it. The invariant \<open>sealed\<close> says that a trail verifies and
  that the next append continues it.
\<close>

subsection \<open>Texts\<close>

lemma join_snoc: "xs \<noteq> [] \<Longrightarrow> join sep (xs @ [x]) = join sep xs @ sep @ x"
proof (induction xs)
  case (Cons a xs)
  then show ?case by (cases xs) auto
qed simp

lemma suffix_join: "suffix p (join sep (fs @ [p]))"
  by (cases "fs = []") (auto simp: join_snoc suffix_def)

lemma suffix_same_length: "suffix p b \<Longrightarrow> suffix q b \<Longrightarrow> length p = length q \<Longrightarrow> p = q"
  by (auto simp: suffix_def)

lemma binds_prev_if_suffix:
  assumes "\<And>p m b. body p m = Some b \<Longrightarrow> suffix p b"
  shows "binds_prev body"
  using assms suffix_same_length unfolding binds_prev_def by metis

lemma field_texts_values:
  "length ks = length vs \<Longrightarrow> (\<forall>(k, v) \<in> set (zip ks vs). map_of m k = Some v) \<Longrightarrow>
    field_texts rep m ks = Inr (map (fmt rep) vs)"
  by (induction ks vs rule: list_induct2) auto

lemma field_texts_zip:
  assumes "length vs = length ks" and "distinct ks"
  shows "field_texts rep (zip ks vs @ m) ks = Inr (map (fmt rep) vs)"
proof (rule field_texts_values)
  have "map_of (zip ks vs @ m) k = Some v" if "(k, v) \<in> set (zip ks vs)" for k v
  proof -
    have "map_of (zip ks vs) k = Some v" using that assms by (simp add: map_fst_zip map_of_is_SomeI)
    then show ?thesis by simp
  qed
  then show "\<forall>(k, v) \<in> set (zip ks vs). map_of (zip ks vs @ m) k = Some v" by blast
qed (simp add: assms)

lemma map_of_zip_skip: "k \<notin> set ks \<Longrightarrow> map_of (zip ks vs @ m) k = map_of m k"
  by (induction ks vs rule: list_induct2') auto

subsection \<open>The trail with details\<close>

definition detail_body :: "(pyval \<Rightarrow> string) \<Rightarrow> (pyval \<Rightarrow> string) \<Rightarrow> string list \<Rightarrow> string \<Rightarrow> dict \<Rightarrow> string option" where
  "detail_body rep dumps ks p m = (case trail_body rep dumps ks p m of Inl e \<Rightarrow> None | Inr b \<Rightarrow> Some b)"

lemma trail_verify_loop_iff:
  "fst (trail_verify_loop H rep dumps ks what k p ls) \<longleftrightarrow>
    (\<exists>ms. records_strict ls = Some ms \<and> chained H (detail_body rep dumps ks) ''previous_event_hash'' p ms)"
proof (induction H rep dumps ks what k p ls rule: trail_verify_loop.induct)
  case (4 H rep dumps ks what k p v ls)
  show ?case
  proof (cases v)
    case (PyDict m)
    show ?thesis
    proof (cases "dget m ''previous_event_hash'' = PyStr p")
      case prev: True
      show ?thesis
      proof (cases "trail_body rep dumps ks p m")
        case (Inr b)
        show ?thesis
        proof (cases "dget m ''event_hash'' = PyStr (H b)")
          case True
          have neg: "\<not> dget m ''previous_event_hash'' \<noteq> PyStr p" "\<not> dget m ''event_hash'' \<noteq> PyStr (H b)"
            using prev True by simp_all
          show ?thesis using 4 [OF PyDict neg(1) Inr neg(2)]
            by (auto simp: PyDict prev Inr True detail_body_def)
        qed (auto simp: PyDict prev Inr detail_body_def)
      qed (auto simp: PyDict prev detail_body_def)
    qed (auto simp: PyDict)
  qed auto
qed simp_all

lemma trail_verify_iff:
  "fst (trail_verify H rep dumps ks what (Some ls)) \<longleftrightarrow>
    (\<exists>ms. records_strict (stripped ls) = Some ms
      \<and> chained H (detail_body rep dumps ks) ''previous_event_hash'' ZEROS ms)"
  by (simp add: trail_verify_def trail_verify_loop_iff)

lemma detail_body_suffix: "detail_body rep dumps ks p m = Some b \<Longrightarrow> suffix p b"
proof -
  assume "detail_body rep dumps ks p m = Some b"
  then obtain fs where "b = join '':'' ((fs @ [dumps (dget_or m ''details'' (PyDict []))]) @ [p])"
    by (auto simp: detail_body_def trail_body_def split: sum.splits)
  then show ?thesis using suffix_join by metis
qed

lemma detail_seal:
  assumes "length vs = length ks" and "distinct ks"
    and "''details'' \<notin> set ks" and "''previous_event_hash'' \<notin> set ks" and "''event_hash'' \<notin> set ks"
  shows "dget (trail_seal H rep dumps ks (vs, d) (PyStr p)) ''previous_event_hash'' = PyStr p"
    and "\<exists>b. detail_body rep dumps ks p (trail_seal H rep dumps ks (vs, d) (PyStr p)) = Some b
      \<and> dget (trail_seal H rep dumps ks (vs, d) (PyStr p)) ''event_hash'' = PyStr (H b)"
  using assms
  by (simp_all add: trail_seal_def dget_def dget_or_def map_of_zip_skip detail_body_def trail_body_def field_texts_zip del: map_of_append)

lemma strict_parse_snoc:
  "records_strict (stripped ls) = Some ms \<Longrightarrow> tidy_end ls \<Longrightarrow>
    records_strict (stripped (ls @ [Json (PyDict m)])) = Some (ms @ [m])"
  by (simp add: stripped_snoc records_strict_append)

lemma skip_parse_snoc:
  "records_skip (stripped ls) = Some ms \<Longrightarrow> tidy_end ls \<Longrightarrow>
    records_skip (stripped (ls @ [Json (PyDict m)])) = Some (ms @ [m])"
  by (simp add: stripped_snoc records_skip_append)

theorem detail_trail_binds:
  assumes "distinct ks" and "''details'' \<notin> set ks" and "''previous_event_hash'' \<notin> set ks" and "''event_hash'' \<notin> set ks"
    and "\<And>e. length (vals e) = length ks"
  shows "binding_chain H (detail_body rep dumps ks) ''previous_event_hash'' ZEROS (\<lambda>ls. records_strict (stripped ls))
    (\<lambda>ls. fst (trail_verify H rep dumps ks what (Some ls)))
    (\<lambda>e p. trail_seal H rep dumps ks (vals e, det e) (PyStr p))"
proof (unfold_locales, goal_cases)
  case (1 ls)
  show ?case by (rule trail_verify_iff)
next
  case (2 ls ms m)
  then show ?case by (rule strict_parse_snoc)
next
  case (3 e p)
  show ?case by (rule detail_seal(1)) (use assms in auto)
next
  case (4 p e)
  show ?case by (rule detail_seal(2)) (use assms in auto)
next
  case 5
  show ?case by (rule binds_prev_if_suffix) (rule detail_body_suffix)
qed

subsection \<open>Appending to a verified trail\<close>

text \<open>The last record's hash is the one the next append reads from the file.\<close>

lemma last_of_dget:
  "chained H body pk p ms \<Longrightarrow> ms \<noteq> [] \<Longrightarrow> dget (last ms) ''event_hash'' = PyStr (last_of p ms)"
proof (induction ms rule: rev_induct)
  case (snoc m ms)
  then show ?case by (auto simp: chained_append last_of_append split: option.splits)
qed simp

lemma records_strict_last:
  "records_strict ls = Some ms \<Longrightarrow> ls \<noteq> [] \<Longrightarrow> ms \<noteq> [] \<and> last ls = Json (PyDict (last ms))"
proof (induction ls arbitrary: ms rule: records_strict.induct)
  case (4 m ls)
  then show ?case by (cases "ls = []") auto
qed auto

lemma records_strict_nil: "records_strict ls = Some [] \<Longrightarrow> ls = []"
  by (induction ls rule: records_strict.induct) auto

lemma records_skip_last:
  "records_skip ls = Some ms \<Longrightarrow> tidy_end ls \<Longrightarrow> ls \<noteq> [] \<Longrightarrow> ms \<noteq> [] \<and> last ls = Json (PyDict (last ms))"
proof (induction ls rule: rev_induct)
  case (snoc l ls)
  from snoc.prems(2) have "\<not> is_blank l" by (simp add: tidy_end_def)
  with snoc.prems(1) show ?case
    by (cases l; cases "case l of Json v \<Rightarrow> v | _ \<Rightarrow> PyNone")
       (auto simp: records_skip_append is_blank_def split: option.splits)
qed simp

lemma tidy_stripped: "tidy_end ls \<Longrightarrow> tidy_end (stripped ls)"
proof -
  assume "tidy_end ls"
  then have "stripped ls = dropWhile is_blank ls" by (rule stripped_tidy)
  moreover have "dropWhile is_blank ls = [] \<or> last (dropWhile is_blank ls) = last ls"
    by (metis dropWhile_eq_drop last_drop drop_eq_Nil not_le)
  ultimately show ?thesis using \<open>tidy_end ls\<close>
    by (cases "ls = []") (auto simp: tidy_end_def)
qed

lemma strict_records_prev:
  assumes "records_strict (stripped ls) = Some ms" and "chained H body pk ZEROS ms"
  shows "trail_prev (Some ls) = PyStr (last_of ZEROS ms)"
proof (cases "stripped ls = []")
  case True
  with assms(1) show ?thesis by (simp add: trail_prev_def)
next
  case False
  with records_strict_last [OF assms(1)] have ms: "ms \<noteq> []" "last (stripped ls) = Json (PyDict (last ms))" by auto
  from last_of_dget [OF assms(2) ms(1)] have "dget_or (last ms) ''event_hash'' (PyStr ZEROS) = PyStr (last_of ZEROS ms)"
    by (auto simp: dget_def dget_or_def split: option.splits)
  with False ms(2) show ?thesis by (simp add: trail_prev_def)
qed

lemma skip_records_prev:
  assumes "records_skip (stripped ls) = Some ms" and "chained H body pk ZEROS ms" and "tidy_end ls"
  shows "trail_prev (Some ls) = PyStr (last_of ZEROS ms)"
proof (cases "stripped ls = []")
  case True
  with assms(1) show ?thesis by (simp add: trail_prev_def)
next
  case False
  with records_skip_last [OF assms(1) tidy_stripped [OF assms(3)]]
  have ms: "ms \<noteq> []" "last (stripped ls) = Json (PyDict (last ms))" by auto
  from last_of_dget [OF assms(2) ms(1)] have "dget_or (last ms) ''event_hash'' (PyStr ZEROS) = PyStr (last_of ZEROS ms)"
    by (auto simp: dget_def dget_or_def split: option.splits)
  with False ms(2) show ?thesis by (simp add: trail_prev_def)
qed

text \<open>A trail that the program alone wrote: absent, or verified and ending in a record.\<close>

definition sealed :: "(jline list \<Rightarrow> bool) \<Rightarrow> jfile \<Rightarrow> bool" where
  "sealed verify f \<longleftrightarrow> (case f of None \<Rightarrow> True | Some ls \<Rightarrow> verify ls \<and> tidy_end ls)"

context hash_chain
begin

lemma sealed_append:
  assumes "sealed verify f" and "\<And>ls ms. f = Some ls \<Longrightarrow> parse ls = Some ms \<Longrightarrow> chained H body pk zero ms \<Longrightarrow> tidy_end ls
      \<Longrightarrow> r = seal e (last_of zero ms)"
    and "f = None \<Longrightarrow> r = seal e zero" and "parse [] = Some []"
  shows "sealed verify (append_line r f)"
proof (cases f)
  case None
  have "verify []" using assms(4) by (auto simp: verify_iff)
  from append_verifies [OF this assms(4)] have "verify [Json (PyDict (seal e zero))]" by (simp add: tidy_end_def)
  moreover have "tidy_end ([] @ [Json (PyDict r)])" by (rule tidy_end_snoc)
  ultimately show ?thesis using assms(3) by (simp add: None sealed_def append_line_def)
next
  case (Some ls)
  with assms(1) have v: "verify ls" "tidy_end ls" by (simp_all add: sealed_def)
  then obtain ms where ms: "parse ls = Some ms" "chained H body pk zero ms" by (auto simp: verify_iff)
  with append_verifies [OF v(1) ms(1) v(2)] assms(2) [OF Some ms v(2)] show ?thesis
    by (simp add: Some sealed_def append_line_def)
qed

end

text \<open>What an append to the trail with details keeps, for its two instances.\<close>

lemma detail_append_sealed:
  assumes "distinct ks" and "''details'' \<notin> set ks" and "''previous_event_hash'' \<notin> set ks" and "''event_hash'' \<notin> set ks"
    and "length vs = length ks" and "sealed (\<lambda>ls. fst (trail_verify H rep dumps ks what (Some ls))) f"
  shows "sealed (\<lambda>ls. fst (trail_verify H rep dumps ks what (Some ls))) (snd (trail_append H rep dumps ks (vs, d) f))"
proof -
  note chain = binding_chain.axioms(1) [OF detail_trail_binds [OF assms(1-4), of "\<lambda>_::bool. vs" H rep dumps what "\<lambda>_. d"]]
  have "sealed (\<lambda>ls. fst (trail_verify H rep dumps ks what (Some ls)))
     (append_line (trail_seal H rep dumps ks (vs, d) (trail_prev f)) f)"
  proof (rule hash_chain.sealed_append [OF chain], goal_cases)
    case (3 ls ms)
    then show ?case using strict_records_prev [OF 3(2,3)] by simp
  qed (use assms(5,6) in \<open>simp_all add: trail_prev_def stripped_def\<close>)
  then show ?thesis by (simp add: trail_append_def Let_def)
qed

end
