(* ===== verification/QueueClaims.thy ===== *)
theory QueueClaims
  imports QueueIntegrity TrailLaws
begin

text \<open>
  What the directive queue promises: its trail is a binding chain; every reachable queue holds records
  of the program's own shape and a file that loads back; states only move along the table; a directive
  is claimed at most once, restarts and failed writes included.
\<close>

subsection \<open>The trail\<close>

definition queue_body :: "(pyval \<Rightarrow> string) \<Rightarrow> string \<Rightarrow> dict \<Rightarrow> string option" where
  "queue_body rep p m = (case field_texts rep m queue_keys of Inl e \<Rightarrow> None
     | Inr fs \<Rightarrow> Some (join '':'' (fs @ [p])))"

lemma queue_verify_loop_iff:
  "fst (queue_verify_loop H rep k p ls) \<longleftrightarrow>
    (\<exists>ms. records_skip ls = Some ms \<and> chained H (queue_body rep) ''previous_event_hash'' p ms)"
proof (induction H rep k p ls rule: queue_verify_loop.induct)
  case (4 H rep k p v ls)
  show ?case
  proof (cases v)
    case (PyDict m)
    show ?thesis
    proof (cases "dget m ''previous_event_hash'' = PyStr p")
      case prev: True
      show ?thesis
      proof (cases "field_texts rep m queue_keys")
        case (Inr fs)
        let ?h = "H (join '':'' (fs @ [p]))"
        show ?thesis
        proof (cases "dget m ''event_hash'' = PyStr ?h")
          case True
          have neg: "\<not> dget m ''previous_event_hash'' \<noteq> PyStr p" "\<not> dget m ''event_hash'' \<noteq> PyStr ?h"
            using prev True by simp_all
          show ?thesis using 4 [OF PyDict neg(1) Inr neg(2)]
            by (auto simp: PyDict prev Inr True queue_body_def)
        qed (auto simp: PyDict prev Inr queue_body_def)
      qed (auto simp: PyDict prev queue_body_def)
    qed (auto simp: PyDict)
  qed auto
qed simp_all

lemma queue_verify_iff:
  "fst (queue_verify H rep (Some ls)) \<longleftrightarrow> (\<exists>ms. records_skip (stripped ls) = Some ms
    \<and> chained H (queue_body rep) ''previous_event_hash'' ZEROS ms)"
  by (simp add: queue_verify_def queue_verify_loop_iff)

lemma queue_body_suffix: "queue_body rep p m = Some b \<Longrightarrow> suffix p b"
  by (auto simp: queue_body_def suffix_join split: sum.splits)

lemma queue_seal_hashes:
  "\<exists>b. queue_body rep p (queue_seal H rep e (PyStr p)) = Some b
    \<and> dget (queue_seal H rep e (PyStr p)) ''event_hash'' = PyStr (H b)"
  by (simp add: queue_body_def queue_seal_def queue_keys_def dget_def)

interpretation queue_chain: binding_chain H "queue_body rep" "''previous_event_hash''" ZEROS
  "\<lambda>ls. records_skip (stripped ls)" "\<lambda>ls. fst (queue_verify H rep (Some ls))" "\<lambda>e p. queue_seal H rep e (PyStr p)"
  for H rep
proof (unfold_locales, goal_cases)
  case (1 ls)
  show ?case by (rule queue_verify_iff)
next
  case (2 ls ms m)
  then show ?case by (rule skip_parse_snoc)
next
  case (3 e p)
  show ?case by (simp add: queue_seal_def dget_def)
next
  case (4 p e)
  show ?case by (rule queue_seal_hashes)
next
  case 5
  show ?case by (rule binds_prev_if_suffix) (rule queue_body_suffix)
qed

lemma queue_prev_of:
  assumes "records_skip (stripped ls) = Some ms" and "chained H body pk ZEROS ms" and "tidy_end ls"
  shows "queue_last_hash (Some ls) = PyStr (last_of ZEROS ms)"
proof -
  have "queue_last_hash (Some ls) = trail_prev (Some ls)"
  proof (cases "stripped ls = []")
    case False
    with records_skip_last [OF assms(1) tidy_stripped [OF assms(3)]] show ?thesis
      by (simp add: queue_last_hash_def trail_prev_def)
  qed (simp add: queue_last_hash_def trail_prev_def)
  with skip_records_prev [OF assms] show ?thesis by simp
qed

definition queue_sealed :: "(string \<Rightarrow> string) \<Rightarrow> (pyval \<Rightarrow> string) \<Rightarrow> jfile \<Rightarrow> bool" where
  "queue_sealed H rep = sealed (\<lambda>ls. fst (queue_verify H rep (Some ls)))"

lemma queue_append_sealed:
  assumes "queue_sealed H rep f"
  shows "queue_sealed H rep (snd (queue_append H rep e f))"
proof (cases "queue_last_hash f = PyStr ''CORRUPTED''")
  case True
  with assms show ?thesis by (simp add: queue_append_def)
next
  case False
  have "sealed (\<lambda>ls. fst (queue_verify H rep (Some ls))) (append_line (queue_seal H rep e (queue_last_hash f)) f)"
  proof (rule queue_chain.sealed_append [where e = e], goal_cases)
    case 1
    show ?case using assms by (simp add: queue_sealed_def)
  next
    case (2 ls ms)
    then show ?case using queue_prev_of [OF 2(2,3,4)] by simp
  next
    case 3
    then show ?case by (simp add: queue_last_hash_def)
  next
    case 4
    show ?case by (simp add: stripped_def)
  qed
  with False show ?thesis by (simp add: queue_append_def queue_sealed_def)
qed

subsection \<open>Shape of the records\<close>

definition in_states :: "(DirectiveState \<Rightarrow> bool) \<Rightarrow> dict \<Rightarrow> bool" where
  "in_states P m \<longleftrightarrow> (\<exists>s. dget m ''queue_state'' = PyStr (ds_value s) \<and> P s)"

definition record_ok :: "pyval \<Rightarrow> dict \<Rightarrow> bool" where
  "record_ok k m \<longleftrightarrow> truthy k \<and> hashable k \<and> map_of m ''directive_id'' = Some k \<and> in_states (\<lambda>s. s \<noteq> AUTHENTICATED) m
    \<and> (\<exists>n. dget_or m ''attempt_count'' (PyInt 0) = PyInt n)"

definition records_ok :: "(pyval \<times> dict) list \<Rightarrow> bool" where
  "records_ok rs \<longleftrightarrow> distinct (map fst rs) \<and> (\<forall>k m. map_of rs k = Some m \<longrightarrow> record_ok k m)"

definition file_of :: "(pyval \<times> dict) list \<Rightarrow> jfile" where
  "file_of rs = Some (map (\<lambda>(k, m). Json (PyDict m)) rs)"

definition queue_inv :: "(string \<Rightarrow> string) \<Rightarrow> (pyval \<Rightarrow> string) \<Rightarrow> dqueue \<Rightarrow> bool" where
  "queue_inv H rep q \<longleftrightarrow> records_ok (q_records q)
    \<and> (q_file q = None \<or> (\<exists>rs. q_file q = file_of rs \<and> records_ok rs)) \<and> queue_sealed H rep (q_audit q)"

lemma ds_of_value [simp]: "ds_of (PyStr (ds_value s)) = Some s"
  by (cases s) (simp_all add: ds_of_def ds_all_def)

lemma ds_value_inj [simp]: "ds_value s = ds_value t \<longleftrightarrow> s = t"
  by (cases s; cases t) simp_all

lemma dget_update [simp]: "dget (AList.update k v m) k' = (if k' = k then v else dget m k')"
  by (simp add: dget_def map_of_AList_update)

lemma dget_or_update [simp]: "dget_or (AList.update k v m) k' d = (if k' = k then v else dget_or m k' d)"
  by (simp add: dget_or_def map_of_AList_update)

lemma records_ok_update: "records_ok rs \<Longrightarrow> record_ok k m \<Longrightarrow> records_ok (AList.update k m rs)"
  by (simp add: records_ok_def distinct_update map_of_AList_update)

lemma load_lines_file:
  "distinct (map fst (qs @ rs)) \<Longrightarrow> (\<forall>(k, m) \<in> set rs. record_ok k m) \<Longrightarrow>
    load_lines qs (map (\<lambda>(k, m). Json (PyDict m)) rs) = (True, qs @ rs)"
proof (induction rs arbitrary: qs)
  case (Cons r rs)
  obtain k m where r: "r = (k, m)" by fastforce
  from Cons.prems have "map_of m ''directive_id'' = Some k" "truthy k" "hashable k" "k \<notin> fst ` set qs"
    by (auto simp: r record_ok_def)
  then show ?case using Cons.IH [of "qs @ [(k, m)]"] Cons.prems by (simp add: r dget_def AList_update_fresh)
qed simp

lemma load_file_of:
  assumes "records_ok rs" and "q_file q = file_of rs"
  shows "load_queue q = (True, q\<lparr>q_records := rs\<rparr>)"
proof -
  have "load_lines [] (map (\<lambda>(k, m). Json (PyDict m)) rs) = (True, [] @ rs)"
    by (rule load_lines_file) (use assms(1) in \<open>auto simp: records_ok_def\<close>)
  with assms(2) show ?thesis by (simp add: load_queue_def file_of_def)
qed

lemma load_queue_inv: "queue_inv H rep q \<Longrightarrow> load_queue q = (ok, q') \<Longrightarrow> ok \<and> queue_inv H rep q'"
  by (auto simp: queue_inv_def load_file_of) (auto simp: load_queue_def records_ok_def)

subsection \<open>Operations\<close>

lemma ds_of_Some: "ds_of v = Some s \<Longrightarrow> v = PyStr (ds_value s)"
  by (auto simp: ds_of_def find_Some_iff split: pyval.splits)

text \<open>A record that differs from another only in fields no guard reads, besides its state.\<close>

definition same_record :: "dict \<Rightarrow> dict \<Rightarrow> bool" where
  "same_record m m' \<longleftrightarrow> map_of m' ''directive_id'' = map_of m ''directive_id''
    \<and> ((\<exists>n. dget_or m ''attempt_count'' (PyInt 0) = PyInt n) \<longrightarrow> (\<exists>n. dget_or m' ''attempt_count'' (PyInt 0) = PyInt n))"

lemma enter_state_refused: "enter_state ts target worker m = Inl r \<Longrightarrow> \<not> fst r"
  by (auto simp: enter_state_def split: if_splits pyval.splits)

lemma enter_state_raises:
  "enter_state ts target worker m = Inr (Inl e) \<Longrightarrow> \<nexists>n. dget_or m ''attempt_count'' (PyInt 0) = PyInt n"
  by (auto simp: enter_state_def split: if_splits pyval.splits)

lemma enter_state_entered:
  "enter_state ts target worker m = Inr (Inr m1) \<Longrightarrow>
    same_record m (AList.update ''queue_state'' v m1)"
  by (auto simp: enter_state_def same_record_def map_of_AList_update split: if_splits pyval.splits)

definition audit_next :: "(string \<Rightarrow> string) \<Rightarrow> (pyval \<Rightarrow> string) \<Rightarrow> jfile \<Rightarrow> jfile \<Rightarrow> bool" where
  "audit_next H rep f f' \<longleftrightarrow> f' = f \<or> (\<exists>e. f' = snd (queue_append H rep e f))"

lemma audit_next_simps [simp]: "audit_next H rep f f" "audit_next H rep f (snd (queue_append H rep e f))"
  by (auto simp: audit_next_def)

lemma audit_kept: "queue_sealed H rep f \<Longrightarrow> audit_next H rep f f' \<Longrightarrow> queue_sealed H rep f'"
  using queue_append_sealed unfolding audit_next_def by blast

lemma transition_cases:
  assumes "transition_state H rep disk ts ns did target worker payload q = (r, q')"
  obtains (same) "q' = q" and "r \<noteq> Inr (True, None)"
  | (raised) m where "map_of (q_records q) (PyStr did) = Some m"
      and "\<nexists>n. dget_or m ''attempt_count'' (PyInt 0) = PyInt n" and "r \<noteq> Inr (True, None)"
  | (moved) m cur m2 reached where "map_of (q_records q) (PyStr did) = Some m"
      and "dget m ''queue_state'' = PyStr (ds_value cur)" and "cur \<notin> set TERMINAL_STATES"
      and "target \<in> set (VALID_TRANSITIONS cur)" and "reached = REJECTED \<or> reached = target" and "same_record m m2"
      and "dget m2 ''queue_state'' = PyStr (ds_value reached)"
      and "q_records q' = AList.update (PyStr did) m2 (q_records q)"
      and "q_file q' = q_file q \<or> q_file q' = file_of (q_records q')"
      and "audit_next H rep (q_audit q) (q_audit q')"
      and "r = Inr (True, None) \<longrightarrow> reached = target \<and> q_file q' = file_of (q_records q')"
      and "disk \<longrightarrow> q_file q' = file_of (q_records q')"
proof (cases "map_of (q_records q) (PyStr did)")
  case None
  with assms show ?thesis by (auto simp: transition_state_def intro: same)
next
  case (Some m)
  note rec = this
  note run0 = assms [unfolded transition_state_def, simplified rec option.case]
  show ?thesis
  proof (cases "m = [] \<or> ds_of (dget m ''queue_state'') = None")
    case True
    then show ?thesis by (elim disjE; use run0 in \<open>simp split: if_splits\<close>; intro same; auto)
  next
    case False
    then obtain cur where cur: "ds_of (dget m ''queue_state'') = Some cur" and ne: "m \<noteq> []" by auto
    note st = ds_of_Some [OF cur]
    show ?thesis
    proof (cases "cur \<in> set TERMINAL_STATES \<or> (target = CLAIMED \<and> cur = CLAIMED) \<or> target \<notin> set (VALID_TRANSITIONS cur)")
      case True
      with run0 cur ne show ?thesis by (intro same) (auto split: if_splits)
    next
      case False
      then have ok: "cur \<notin> set TERMINAL_STATES" "\<not> (target = CLAIMED \<and> cur = CLAIMED)" "target \<in> set (VALID_TRANSITIONS cur)"
        by simp_all
      note run = assms [unfolded transition_state_def, simplified rec option.case ne cur ok if_False if_True not_True_eq_False]
      show ?thesis
      proof (cases "case payload of None \<Rightarrow> False | Some p \<Rightarrow> p \<noteq> [] \<and> PyStr p \<noteq> dget m ''authenticated_payload_sha256''")
        case True
        let ?m2 = "AList.update ''queue_state'' (PyStr ''REJECTED'') m"
        have q': "q' = snd (save_queue_atomic disk (put_record did ?m2 q))" and r: "r \<noteq> Inr (True, None)"
          using run True by auto
        show ?thesis
          by (rule moved [where reached = REJECTED, OF rec st ok(1,3)])
             (use q' r in \<open>auto simp: same_record_def map_of_AList_update save_queue_atomic_def put_record_def file_of_def\<close>)
      next
        case False
        note run = run [simplified False if_False]
        show ?thesis
        proof (cases "enter_state ts target worker m")
          case (Inl x)
          with run enter_state_refused [OF Inl] show ?thesis by (intro same) auto
        next
          case (Inr y)
          show ?thesis
          proof (cases y)
            case (Inl e)
            with run Inr enter_state_raises [of ts target worker m e] show ?thesis by (intro raised [OF rec]) auto
          next
            case (Inr m1)
            note en = \<open>enter_state ts target worker m = Inr y\<close> [unfolded Inr]
            show ?thesis
              by (rule moved [where reached = target, OF rec st ok(1,3) _ enter_state_entered [OF en]])
                 (use run en in \<open>auto simp: save_queue_atomic_def put_record_def file_of_def split: if_splits\<close>)
          qed
        qed
      qed
    qed
  qed
qed

lemma enqueue_cases:
  assumes "enqueue_directive H rep disk ts ns did commit payload signer worker q = (r, q')"
  obtains (same) "q' = q" and "r \<noteq> (True, None)"
  | (added) "map_of (q_records q) (PyStr did) = None" and "did \<noteq> []"
      and "q_records q' = AList.update (PyStr did) (queue_record did commit payload signer ts) (q_records q)"
      and "q_file q' = q_file q \<or> q_file q' = file_of (q_records q')"
      and "audit_next H rep (q_audit q) (q_audit q')"
  using assms
  by (auto simp: enqueue_directive_def save_queue_atomic_def file_of_def split: if_splits option.splits)

inductive queue_step :: "(string \<Rightarrow> string) \<Rightarrow> (pyval \<Rightarrow> string) \<Rightarrow> dqueue \<Rightarrow> dqueue \<Rightarrow> bool" for H rep where
  enqueue: "enqueue_directive H rep disk ts ns did commit payload signer worker q = (r, q') \<Longrightarrow> queue_step H rep q q'"
| transition: "transition_state H rep disk ts ns did target worker payload q = (r, q') \<Longrightarrow> queue_step H rep q q'"
| save: "save_queue_atomic disk q = (ok, q') \<Longrightarrow> queue_step H rep q q'"
| reload: "load_queue q = (ok, q') \<Longrightarrow> queue_step H rep q q'"

definition fresh_queue :: dqueue where
  "fresh_queue = \<lparr>q_records = [], q_file = None, q_audit = None\<rparr>"

definition queue_reachable :: "(string \<Rightarrow> string) \<Rightarrow> (pyval \<Rightarrow> string) \<Rightarrow> dqueue \<Rightarrow> bool" where
  "queue_reachable H rep q \<longleftrightarrow> (queue_step H rep)\<^sup>*\<^sup>* fresh_queue q"

lemma record_ok_moved:
  assumes "record_ok k m" and "same_record m m'" and "dget m' ''queue_state'' = PyStr (ds_value s)" and "s \<noteq> AUTHENTICATED"
  shows "record_ok k m'"
  using assms by (auto simp: record_ok_def same_record_def in_states_def)

lemma queue_record_ok: "did \<noteq> [] \<Longrightarrow> record_ok (PyStr did) (queue_record did commit payload signer ts)"
  by (auto simp: record_ok_def queue_record_def in_states_def dget_def dget_or_def intro!: exI [of _ QUEUED])

lemma valid_not_authenticated: "target \<in> set (VALID_TRANSITIONS cur) \<Longrightarrow> target \<noteq> AUTHENTICATED"
  by (cases cur) auto

lemma queue_step_inv:
  assumes "queue_step H rep q q'" and inv: "queue_inv H rep q"
  shows "queue_inv H rep q'"
  using assms(1)
proof cases
  case (enqueue disk ts ns did commit payload signer worker r)
  then show ?thesis
  proof (cases rule: enqueue_cases)
    case added
    with inv have "records_ok (q_records q')" by (simp add: queue_inv_def records_ok_update queue_record_ok)
    moreover have "queue_sealed H rep (q_audit q')" using added(5) inv audit_kept unfolding queue_inv_def by blast
    ultimately show ?thesis using added(4) inv unfolding queue_inv_def by metis
  qed (simp add: inv)
next
  case (transition disk ts ns did target worker payload r)
  then show ?thesis
  proof (cases rule: transition_cases)
    case (raised m)
    with inv show ?thesis by (auto simp: queue_inv_def records_ok_def record_ok_def)
  next
    case (moved m cur m2 reached)
    from inv moved(1) have "record_ok (PyStr did) m" by (simp add: queue_inv_def records_ok_def)
    moreover have "reached \<noteq> AUTHENTICATED" using moved(4,5) valid_not_authenticated by blast
    ultimately have "record_ok (PyStr did) m2" using moved(6,7) record_ok_moved by blast
    with inv moved(8) have "records_ok (q_records q')" by (simp add: queue_inv_def records_ok_update)
    moreover have "queue_sealed H rep (q_audit q')" using moved(10) inv audit_kept unfolding queue_inv_def by blast
    ultimately show ?thesis using moved(9) inv unfolding queue_inv_def by metis
  qed (simp add: inv)
next
  case (save disk ok)
  with inv show ?thesis
    by (auto simp: save_queue_atomic_def queue_inv_def file_of_def split: if_splits)
next
  case (reload ok)
  with load_queue_inv [OF inv] show ?thesis by blast
qed

lemma fresh_queue_inv: "queue_inv H rep fresh_queue"
  by (simp add: queue_inv_def fresh_queue_def records_ok_def queue_sealed_def sealed_def)

lemma queue_reachable_inv: "queue_reachable H rep q \<Longrightarrow> queue_inv H rep q"
  unfolding queue_reachable_def
  by (induction rule: rtranclp_induct) (auto intro: fresh_queue_inv queue_step_inv)

subsection \<open>States that cannot be left\<close>

text \<open>The record of a directive, in memory and in the file, is in a state of \<open>P\<close>.\<close>

definition settled_in :: "(DirectiveState \<Rightarrow> bool) \<Rightarrow> string \<Rightarrow> dqueue \<Rightarrow> bool" where
  "settled_in P did q \<longleftrightarrow> (\<exists>m. map_of (q_records q) (PyStr did) = Some m \<and> in_states P m)
    \<and> (\<exists>rs m. q_file q = file_of rs \<and> records_ok rs \<and> map_of rs (PyStr did) = Some m \<and> in_states P m)"

definition trapped :: "(DirectiveState \<Rightarrow> bool) \<Rightarrow> bool" where
  "trapped P \<longleftrightarrow> (\<forall>s. P s \<longrightarrow> s \<notin> set TERMINAL_STATES \<longrightarrow> P REJECTED \<and> list_all P (VALID_TRANSITIONS s))"

lemma settled_update:
  assumes "settled_in P did q" and "records_ok (q_records q')"
    and "q_records q' = AList.update (PyStr did') m' (q_records q)" and "did' = did \<longrightarrow> in_states P m'"
    and "q_file q' = q_file q \<or> q_file q' = file_of (q_records q')"
  shows "settled_in P did q'"
proof -
  have mem: "\<exists>m. map_of (q_records q') (PyStr did) = Some m \<and> in_states P m"
    using assms(1,3,4) by (auto simp: settled_in_def map_of_AList_update)
  with assms(1,2,5) show ?thesis unfolding settled_in_def by metis
qed

lemma in_states_value: "in_states P m \<Longrightarrow> dget m ''queue_state'' = PyStr (ds_value s) \<Longrightarrow> P s"
  by (auto simp: in_states_def)

lemma settled_step:
  assumes "queue_step H rep q q'" and "settled_in P did q" and "trapped P" and inv: "queue_inv H rep q"
  shows "settled_in P did q'"
  using assms(1)
proof cases
  case (enqueue disk ts ns did' commit payload signer worker r)
  have ok: "records_ok (q_records q')" using queue_step_inv [OF assms(1) inv] by (simp add: queue_inv_def)
  from enqueue show ?thesis
  proof (cases rule: enqueue_cases)
    case added
    then have "did' \<noteq> did" using assms(2) by (auto simp: settled_in_def)
    with added ok show ?thesis by (intro settled_update [OF assms(2)]) auto
  qed (simp add: assms(2))
next
  case (transition disk ts ns did' target worker payload r)
  have ok: "records_ok (q_records q')" using queue_step_inv [OF assms(1) inv] by (simp add: queue_inv_def)
  from transition show ?thesis
  proof (cases rule: transition_cases)
    case (raised m)
    with inv show ?thesis by (auto simp: queue_inv_def records_ok_def record_ok_def)
  next
    case (moved m cur m2 reached)
    have "in_states P m2" if "did' = did"
    proof -
      from assms(2) moved(1) that have "in_states P m" by (auto simp: settled_in_def)
      then have "P cur" using moved(2) by (rule in_states_value)
      with moved(3,4,5) assms(3) have "P reached" by (auto simp: trapped_def list_all_iff)
      with moved(7) show ?thesis by (auto simp: in_states_def)
    qed
    with moved(8,9) ok show ?thesis by (intro settled_update [OF assms(2)]) auto
  qed (simp add: assms(2))
next
  case (save disk ok)
  with assms(2) inv show ?thesis
    by (auto simp: save_queue_atomic_def settled_in_def queue_inv_def file_of_def split: if_splits)
next
  case (reload ok)
  from assms(2) obtain rs m where rs: "q_file q = file_of rs" "records_ok rs" "map_of rs (PyStr did) = Some m" "in_states P m"
    by (auto simp: settled_in_def)
  with reload load_file_of [OF rs(2,1)] show ?thesis by (auto simp: settled_in_def)
qed

lemma settled_steps:
  assumes "(queue_step H rep)\<^sup>*\<^sup>* q q'" and "settled_in P did q" and "trapped P" and "queue_inv H rep q"
  shows "settled_in P did q' \<and> queue_inv H rep q'"
  using assms
proof (induction rule: rtranclp_induct)
  case (step y z)
  then show ?case using settled_step queue_step_inv by blast
qed simp

lemma successful_settles:
  assumes "transition_state H rep disk ts ns did target worker payload q = (Inr (True, None), q')" and "queue_inv H rep q"
    and "P target"
  shows "settled_in P did q' \<and> queue_inv H rep q'"
  using assms(1)
proof (cases rule: transition_cases)
  case (moved m cur m2 reached)
  have inv: "queue_inv H rep q'" using queue_step_inv [OF queue_step.transition [OF assms(1)] assms(2)] .
  from moved(11) have "reached = target" "q_file q' = file_of (q_records q')" by simp_all
  with moved(7,8) assms(3) inv show ?thesis
    by (auto simp: settled_in_def in_states_def map_of_AList_update queue_inv_def)
qed auto

subsection \<open>Properties\<close>

definition sample_directives :: dqueue where
  "sample_directives = snd (enqueue_directive (\<lambda>s. s) (\<lambda>v. []) True ''t'' ''1'' ''D'' ''c'' ''p'' ''s'' ''W'' fresh_queue)"

lemma sample_directives_reachable: "queue_reachable (\<lambda>s. s) (\<lambda>v. []) sample_directives"
  unfolding queue_reachable_def sample_directives_def
  by (rule r_into_rtranclp) (rule queue_step.enqueue, rule prod.collapse [symmetric])

lemma sample_record:
  "q_records sample_directives = [(PyStr ''D'', queue_record ''D'' ''c'' ''p'' ''s'' ''t'')]"
  by (simp add: sample_directives_def enqueue_directive_def fresh_queue_def save_queue_atomic_def)

lemma sample_claim: "\<exists>q. transition_state (\<lambda>s. s) (\<lambda>v. []) True ''t'' ''2'' ''D'' CLAIMED ''W'' None sample_directives = (Inr (True, None), q)"
proof -
  have "ds_of (dget (queue_record ''D'' ''c'' ''p'' ''s'' ''t'') ''queue_state'') = Some QUEUED"
    by (simp add: queue_record_def dget_def ds_of_def ds_all_def)
  moreover have "enter_state ''t'' CLAIMED ''W'' (queue_record ''D'' ''c'' ''p'' ''s'' ''t'')
      = Inr (Inr (AList.update ''attempt_count'' (PyInt 1) (AList.update ''claimed_at'' (PyStr ''t'')
          (AList.update ''lock_owner'' (PyStr ''W'') (queue_record ''D'' ''c'' ''p'' ''s'' ''t'')))))"
    by (simp add: enter_state_def queue_record_def dget_def dget_or_def)
  ultimately show ?thesis
    by (simp add: transition_state_def sample_record TERMINAL_STATES_def save_queue_atomic_def queue_record_def)
qed

lemma trapped_claimed: "trapped (\<lambda>s. s \<noteq> AUTHENTICATED \<and> s \<noteq> QUEUED)"
proof -
  have "list_all (\<lambda>s. s \<noteq> AUTHENTICATED \<and> s \<noteq> QUEUED) (VALID_TRANSITIONS s)"
    if "s \<noteq> AUTHENTICATED" "s \<noteq> QUEUED" for s
    using that by (cases s) auto
  then show ?thesis by (simp add: trapped_def)
qed

text \<open>C21. A directive is claimed at most once: after a successful claim, and after any further sequence of
  enqueues, transitions, saves (failing or not) and restarts from the file, every claim of it by any
  worker is refused and changes nothing.\<close>

theorem directive_claimed_once:
  assumes "queue_reachable H rep q"
    and "transition_state H rep disk ts ns did CLAIMED worker payload q = (Inr (True, None), q1)"
    and "(queue_step H rep)\<^sup>*\<^sup>* q1 q2"
  shows "fst (transition_state H rep disk' ts' ns' did CLAIMED worker' payload' q2) \<noteq> Inr (True, None)
    \<and> snd (transition_state H rep disk' ts' ns' did CLAIMED worker' payload' q2) = q2"
proof -
  let ?P = "\<lambda>s. s \<noteq> AUTHENTICATED \<and> s \<noteq> QUEUED"
  have s1: "settled_in ?P did q1 \<and> queue_inv H rep q1"
    by (rule successful_settles [OF assms(2) queue_reachable_inv [OF assms(1)]]) simp
  have s2: "settled_in ?P did q2" "queue_inv H rep q2"
    using settled_steps [OF assms(3) _ trapped_claimed] s1 by blast+
  obtain r q' where run: "transition_state H rep disk' ts' ns' did CLAIMED worker' payload' q2 = (r, q')" by fastforce
  then show ?thesis
  proof (cases rule: transition_cases)
    case same
    with run show ?thesis by simp
  next
    case (raised m)
    with s2(2) show ?thesis by (auto simp: queue_inv_def records_ok_def record_ok_def)
  next
    case (moved m cur m2 reached)
    from s2(1) moved(1) have "in_states ?P m" by (auto simp: settled_in_def)
    then have "?P cur" using moved(2) by (rule in_states_value)
    with moved(4) show ?thesis by (cases cur) auto
  qed
qed

theorem directive_claimed_once_witness:
  "\<exists>q1. fst (transition_state (\<lambda>s. s) (\<lambda>v. []) True ''t'' ''2'' ''D'' CLAIMED ''W'' None sample_directives) = Inr (True, None)
    \<and> q1 = snd (transition_state (\<lambda>s. s) (\<lambda>v. []) True ''t'' ''2'' ''D'' CLAIMED ''W'' None sample_directives)
    \<and> snd (transition_state (\<lambda>s. s) (\<lambda>v. []) True ''t'' ''3'' ''D'' CLAIMED ''V'' None q1) = q1"
proof -
  obtain q1 where run: "transition_state (\<lambda>s. s) (\<lambda>v. []) True ''t'' ''2'' ''D'' CLAIMED ''W'' None sample_directives
      = (Inr (True, None), q1)" using sample_claim by blast
  with directive_claimed_once [OF sample_directives_reachable run rtranclp.rtrancl_refl] show ?thesis by simp
qed

text \<open>A directive that reached a terminal state keeps it: the state written to memory and file by the
  successful transition is still there after any further operations, restarts and failed saves.\<close>

theorem terminal_directive_frozen:
  assumes "queue_reachable H rep q" and "target \<in> set TERMINAL_STATES"
    and "transition_state H rep disk ts ns did target worker payload q = (Inr (True, None), q1)"
    and "(queue_step H rep)\<^sup>*\<^sup>* q1 q2"
  shows "\<exists>m. map_of (q_records q2) (PyStr did) = Some m \<and> dget m ''queue_state'' = PyStr (ds_value target)"
proof -
  have trap: "trapped (\<lambda>s. s = target)" using assms(2) by (simp add: trapped_def)
  have "settled_in (\<lambda>s. s = target) did q1 \<and> queue_inv H rep q1"
    by (rule successful_settles [OF assms(3) queue_reachable_inv [OF assms(1)]]) simp
  with settled_steps [OF assms(4) _ trap] have "settled_in (\<lambda>s. s = target) did q2" by blast
  then show ?thesis by (auto simp: settled_in_def in_states_def)
qed

lemma sample_reject: "\<exists>q. transition_state (\<lambda>s. s) (\<lambda>v. []) True ''t'' ''2'' ''D'' REJECTED ''W'' None sample_directives = (Inr (True, None), q)"
proof -
  have "ds_of (dget (queue_record ''D'' ''c'' ''p'' ''s'' ''t'') ''queue_state'') = Some QUEUED"
    by (simp add: queue_record_def dget_def ds_of_def ds_all_def)
  then show ?thesis
    by (simp add: transition_state_def enter_state_def sample_record TERMINAL_STATES_def save_queue_atomic_def queue_record_def)
qed

theorem terminal_directive_frozen_witness:
  "\<exists>m. map_of (q_records (snd (transition_state (\<lambda>s. s) (\<lambda>v. []) True ''t'' ''2'' ''D'' REJECTED ''W'' None sample_directives)))
      (PyStr ''D'') = Some m \<and> dget m ''queue_state'' = PyStr ''REJECTED''"
proof -
  obtain q1 where run: "transition_state (\<lambda>s. s) (\<lambda>v. []) True ''t'' ''2'' ''D'' REJECTED ''W'' None sample_directives
      = (Inr (True, None), q1)" using sample_reject by blast
  have "REJECTED \<in> set TERMINAL_STATES" by (simp add: TERMINAL_STATES_def)
  from terminal_directive_frozen [OF sample_directives_reachable this run rtranclp.rtrancl_refl] run
  show ?thesis by simp
qed

text \<open>A restart loses nothing that was saved: in every reachable state the queue file loads without
  error, a successful save followed by a load gives back exactly the records in memory, and the audit
  trail verifies.\<close>

theorem queue_survives_restart:
  assumes "queue_reachable H rep q"
  shows "fst (load_queue q) \<and> (\<forall>q1. save_queue_atomic True q = (True, q1) \<longrightarrow> load_queue q1 = (True, q1))
    \<and> fst (queue_verify H rep (q_audit q))"
proof (intro conjI allI impI)
  have inv: "queue_inv H rep q" by (rule queue_reachable_inv [OF assms])
  show "fst (load_queue q)" using load_queue_inv [OF inv] by (metis prod.collapse)
  show "load_queue q1 = (True, q1)" if "save_queue_atomic True q = (True, q1)" for q1
  proof -
    from that have "q_file q1 = file_of (q_records q1)" "q_records q1 = q_records q"
      by (auto simp: save_queue_atomic_def file_of_def)
    with inv show ?thesis using load_file_of [of "q_records q1" q1] by (simp add: queue_inv_def)
  qed
  show "fst (queue_verify H rep (q_audit q))"
    using inv by (cases "q_audit q") (auto simp: queue_inv_def queue_sealed_def sealed_def queue_verify_def)
qed

theorem queue_survives_restart_witness:
  "load_queue (snd (save_queue_atomic True sample_directives)) = (True, snd (save_queue_atomic True sample_directives))
    \<and> fst (queue_verify (\<lambda>s. s) (\<lambda>v. []) (q_audit sample_directives))"
  using queue_survives_restart [OF sample_directives_reachable] by (simp add: save_queue_atomic_def)

text \<open>The queue's trail is tamper evident: two trails that verify, have as many records and end in the
  same hash, hash the same texts in the same order, or exhibit two different texts with one digest.\<close>

theorem queue_trail_tamper_evident:
  assumes "fst (queue_verify H rep (Some ls))" and "fst (queue_verify H rep (Some ks))"
    and "records_skip (stripped ls) = Some ms" and "records_skip (stripped ks) = Some ns"
    and "length ms = length ns" and "last_of ZEROS ms = last_of ZEROS ns" and "\<And>x. length (H x) = length ZEROS"
  shows "bodies H (queue_body rep) ZEROS ms = bodies H (queue_body rep) ZEROS ns
    \<or> collision_in H (bodies H (queue_body rep) ZEROS ms) (bodies H (queue_body rep) ZEROS ns)"
  by (rule queue_chain.tamper_evident [OF assms])

definition sample_event :: "string \<Rightarrow> string \<Rightarrow> queue_event" where
  "sample_event ts w = \<lparr>qe_event_id = ''E'', qe_directive_id = ''D'', qe_from_state = PyStr ''QUEUED'',
     qe_to_state = ''CLAIMED'', qe_timestamp = ts, qe_worker = w, qe_payload_sha = PyStr ''p'', qe_commit_sha = PyStr ''c''\<rparr>"

definition sample_trail :: "string \<Rightarrow> jline list" where
  "sample_trail w = [Json (PyDict (queue_seal (\<lambda>s. ZEROS) (\<lambda>v. []) (sample_event ''t'' w) (PyStr ZEROS)))]"

lemma sample_trail_verifies:
  "fst (queue_verify (\<lambda>s. ZEROS) (\<lambda>v. []) (Some (sample_trail w)))"
  "records_skip (stripped (sample_trail w)) = Some [queue_seal (\<lambda>s. ZEROS) (\<lambda>v. []) (sample_event ''t'' w) (PyStr ZEROS)]"
  by (simp_all add: queue_verify_def stripped_def is_blank_def sample_trail_def queue_seal_def queue_keys_def dget_def)

theorem queue_trail_tamper_evident_witness:
  "let m = (\<lambda>w. queue_seal (\<lambda>s. ZEROS) (\<lambda>v. []) (sample_event ''t'' w) (PyStr ZEROS));
       bs = (\<lambda>w. bodies (\<lambda>s. ZEROS) (queue_body (\<lambda>v. [])) ZEROS [m w])
   in bs ''V'' = bs ''W'' \<or> collision_in (\<lambda>s. ZEROS) (bs ''V'') (bs ''W'')"
  unfolding Let_def
  by (rule queue_trail_tamper_evident [OF sample_trail_verifies(1) sample_trail_verifies(1) sample_trail_verifies(2)
        sample_trail_verifies(2)])
     (simp_all add: queue_seal_def dget_def)

text \<open>
  The hashed text joins its fields with colons and does not delimit them, so it does not determine
  them: two different events have the same text, hence the same hash, under every hash function.
\<close>

lemma queue_text_ambiguous:
  "dget (queue_seal H rep (sample_event ''12:30'' ''00'') prev) ''event_hash''
    = dget (queue_seal H rep (sample_event ''12'' ''30:00'') prev) ''event_hash''
   \<and> sample_event ''12:30'' ''00'' \<noteq> sample_event ''12'' ''30:00''"
  by (simp add: queue_seal_def dget_def sample_event_def)

end
