(* ===== verification/Approval.thy ===== *)
theory Approval
  imports Trails
begin

text \<open>
  \<open>src/directive/approval_engine.py\<close>: request identity and context, the approval audit chain, the
  notification manager, the durable approval engine with its state machine, and the check made
  immediately before execution. \<open>now\<close> is \<open>time.time()\<close>, \<open>ts\<close> the formatted time of an audit record; both
  are arguments, so a step may see any clock.
\<close>

subsection \<open>States\<close>

datatype ApprovalState = REQUESTED | NOTIFIED | APPROVED | REJECTED | EXPIRED | REVOKED | CONSUMED

fun as_value :: "ApprovalState \<Rightarrow> string" where
  "as_value REQUESTED = ''REQUESTED''"
| "as_value NOTIFIED = ''NOTIFIED''"
| "as_value APPROVED = ''APPROVED''"
| "as_value REJECTED = ''REJECTED''"
| "as_value EXPIRED = ''EXPIRED''"
| "as_value REVOKED = ''REVOKED''"
| "as_value CONSUMED = ''CONSUMED''"

definition as_all :: "ApprovalState list" where
  "as_all = [REQUESTED, NOTIFIED, APPROVED, REJECTED, EXPIRED, REVOKED, CONSUMED]"

text \<open>\<open>ApprovalState(v)\<close>, a \<open>ValueError\<close> on anything else.\<close>

definition as_of :: "pyval \<Rightarrow> ApprovalState res" where
  "as_of v = (case v of
      PyStr s \<Rightarrow> (case find (\<lambda>x. as_value x = s) as_all of None \<Rightarrow> Inl (PyError ''ValueError'') | Some x \<Rightarrow> Inr x)
    | _ \<Rightarrow> Inl (PyError ''ValueError''))"

definition TERMINAL_APPROVAL_STATES :: "ApprovalState list" where
  "TERMINAL_APPROVAL_STATES = [REJECTED, EXPIRED, REVOKED, CONSUMED]"

fun VALID_APPROVAL_TRANSITIONS :: "ApprovalState \<Rightarrow> ApprovalState list" where
  "VALID_APPROVAL_TRANSITIONS REQUESTED = [NOTIFIED, EXPIRED, REJECTED]"
| "VALID_APPROVAL_TRANSITIONS NOTIFIED = [APPROVED, REJECTED, EXPIRED]"
| "VALID_APPROVAL_TRANSITIONS APPROVED = [REVOKED, CONSUMED, EXPIRED]"
| "VALID_APPROVAL_TRANSITIONS _ = []"

definition AUTHORIZED_APPROVERS :: "string list" where
  "AUTHORIZED_APPROVERS = [''SEC_ADMIN_1'', ''LEAD_OPERATOR_1'', ''HUMAN_OPERATOR'']"

subsection \<open>Identity and context\<close>

definition derive_approval_request_id :: "(string \<Rightarrow> string) \<Rightarrow> (pyval \<Rightarrow> string) \<Rightarrow> string \<Rightarrow> string \<Rightarrow> string
    \<Rightarrow> string \<Rightarrow> string \<Rightarrow> rat \<Rightarrow> string" where
  "derive_approval_request_id H rep did cap ph target risk created =
     ''APP-'' @ take 32 (H (join '':'' [did, cap, ph, target, risk, fmt rep (PyFloat (Finite created))]))"

definition secret_markers :: "string list" where
  "secret_markers = [''secret'', ''key'', ''password'', ''token'']"

definition create_approval_context :: "rat \<Rightarrow> string \<Rightarrow> string \<Rightarrow> string \<Rightarrow> string \<Rightarrow> dict \<Rightarrow> string \<Rightarrow> string \<Rightarrow> rat
    \<Rightarrow> dict" where
  "create_approval_context now aid did cap target params risk why ttl =
     [(''approval_request_id'', PyStr aid), (''directive_id'', PyStr did), (''capability_id'', PyStr cap),
      (''target'', PyStr target),
      (''parameter_summary'', PyDict (filter (\<lambda>(k, v). \<not> list_ex (\<lambda>s. contains (lower k) s) secret_markers) params)),
      (''risk_class'', PyStr risk), (''why_required'', PyStr why),
      (''security_impact'', PyStr (''Critical capability '' @ cap @ '' requires human sign-off'')),
      (''created_at'', PyFloat (Finite now)), (''expires_at'', PyFloat (Finite (now + ttl)))]"

subsection \<open>Audit chain\<close>

definition approval_keys :: "string list" where
  "approval_keys = [''approval_request_id'', ''directive_id'', ''from_state'', ''to_state'', ''actor'', ''timestamp'']"

definition approval_append :: "(string \<Rightarrow> string) \<Rightarrow> (pyval \<Rightarrow> string) \<Rightarrow> (pyval \<Rightarrow> string) \<Rightarrow> string
    \<Rightarrow> pyval \<Rightarrow> pyval \<Rightarrow> string \<Rightarrow> string \<Rightarrow> string \<Rightarrow> pyval \<Rightarrow> jfile \<Rightarrow> jfile" where
  "approval_append H rep dumps ts aid did from_st to_st actor details f =
     snd (trail_append H rep dumps approval_keys
       ([aid, did, PyStr from_st, PyStr to_st, PyStr actor, PyStr ts], details) f)"

definition approval_verify :: "(string \<Rightarrow> string) \<Rightarrow> (pyval \<Rightarrow> string) \<Rightarrow> (pyval \<Rightarrow> string) \<Rightarrow> jfile
    \<Rightarrow> bool \<times> string option" where
  "approval_verify H rep dumps f = trail_verify H rep dumps approval_keys ''AUDIT_CHAIN_CORRUPTED'' f"

subsection \<open>Notifications\<close>

record notifier =
  nt_records :: "(pyval \<times> dict) list"
  nt_file :: jfile

definition load_notifications :: "jfile \<Rightarrow> notifier" where
  "load_notifications f = \<lparr>nt_records = load_file ''notification_id'' f, nt_file = f\<rparr>"

definition persist_notifications :: "notifier \<Rightarrow> notifier" where
  "persist_notifications n = n\<lparr>nt_file := dump_file (nt_records n)\<rparr>"

text \<open>
  \<open>send_notification\<close>. A request that already has a notification gets that one's status, whatever it
  is; \<open>created\<close> is the second reading of the clock. A stored notification without a status raises.
\<close>

definition send_notification :: "(string \<Rightarrow> string) \<Rightarrow> (pyval \<Rightarrow> string) \<Rightarrow> rat \<Rightarrow> rat \<Rightarrow> string \<Rightarrow> string
    \<Rightarrow> string \<Rightarrow> string \<Rightarrow> bool \<Rightarrow> notifier \<Rightarrow> (bool \<times> pyval \<times> pyval) res \<times> notifier" where
  "send_notification H rep now created aid did risk summary fails n =
     (case find (\<lambda>(k, m). dget m ''approval_request_id'' = PyStr aid) (nt_records n) of
        Some (k, m) \<Rightarrow> (case getitem m ''delivery_status'' of
            Inl e \<Rightarrow> (Inl e, n) | Inr s \<Rightarrow> (Inr (True, k, s), n))
      | None \<Rightarrow>
          let nid = ''NOTIF-'' @ take 16 (H (aid @ '':'' @ fmt rep (PyFloat (Finite now))));
              m = [(''notification_id'', PyStr nid), (''approval_request_id'', PyStr aid),
                   (''directive_id'', PyStr did), (''risk_class'', PyStr risk), (''summary'', PyStr summary),
                   (''created_at'', PyFloat (Finite created)),
                   (''delivery_status'', PyStr (if fails then ''FAILED'' else ''DELIVERED''))];
              n1 = persist_notifications (n\<lparr>nt_records := AList.update (PyStr nid) m (nt_records n)\<rparr>)
          in (if fails then (Inr (False, PyStr nid, PyStr ''NOTIFICATION_FAILURE_EXECUTION_BLOCKED''), n1)
              else (Inr (True, PyStr nid, PyStr ''DELIVERED''), n1)))"

subsection \<open>The engine\<close>

record approvals =
  ap_records :: "(pyval \<times> dict) list"
  ap_file :: jfile
  ap_audit :: jfile

definition load_approvals :: "jfile \<Rightarrow> jfile \<Rightarrow> approvals" where
  "load_approvals f trail = \<lparr>ap_records = load_file ''approval_request_id'' f, ap_file = f, ap_audit = trail\<rparr>"

text \<open>The record of a request replaced in memory and the file rewritten.\<close>

definition put_approval :: "pyval \<Rightarrow> dict \<Rightarrow> approvals \<Rightarrow> approvals" where
  "put_approval k m a = (let rs = AList.update k m (ap_records a) in a\<lparr>ap_records := rs, ap_file := dump_file rs\<rparr>)"

definition request_record :: "string \<Rightarrow> string \<Rightarrow> string \<Rightarrow> string \<Rightarrow> string \<Rightarrow> string \<Rightarrow> rat \<Rightarrow> rat \<Rightarrow> dict" where
  "request_record aid did cap ph target risk now ttl =
     [(''approval_request_id'', PyStr aid), (''directive_id'', PyStr did), (''capability_id'', PyStr cap),
      (''parameter_hash'', PyStr ph), (''target'', PyStr target), (''risk_class'', PyStr risk),
      (''state'', PyStr (as_value REQUESTED)), (''approver_id'', PyNone), (''created_at'', PyFloat (Finite now)),
      (''expires_at'', PyFloat (Finite (now + ttl))), (''consumed'', PyBool False), (''revoked'', PyBool False)]"

definition create_request :: "(string \<Rightarrow> string) \<Rightarrow> (pyval \<Rightarrow> string) \<Rightarrow> (pyval \<Rightarrow> string) \<Rightarrow> rat \<Rightarrow> string
    \<Rightarrow> string \<Rightarrow> string \<Rightarrow> string \<Rightarrow> string \<Rightarrow> string \<Rightarrow> rat \<Rightarrow> string \<Rightarrow> approvals \<Rightarrow> dict \<times> approvals" where
  "create_request H rep dumps now ts did cap ph target risk ttl actor a =
     (let aid = derive_approval_request_id H rep did cap ph target risk now;
          m = request_record aid did cap ph target risk now ttl;
          a1 = put_approval (PyStr aid) m a
      in (m, a1\<lparr>ap_audit := approval_append H rep dumps ts (PyStr aid) (PyStr did) ''NONE'' (as_value REQUESTED)
              actor PyNone (ap_audit a1)\<rparr>))"

text \<open>The guards on an approver; \<open>None\<close> lets the approval through.\<close>

definition check_approver :: "dict \<Rightarrow> string \<Rightarrow> string option \<Rightarrow> string option res" where
  "check_approver m actor approver = (case approver of
      None \<Rightarrow> Inr (Some ''MISSING_APPROVER_IDENTITY_REJECTED'')
    | Some p \<Rightarrow> if p = [] then Inr (Some ''MISSING_APPROVER_IDENTITY_REJECTED'')
        else if p \<notin> set AUTHORIZED_APPROVERS then Inr (Some ''UNAUTHORIZED_APPROVER_REJECTED'')
        else (case getitem m ''directive_id'' of Inl e \<Rightarrow> Inl e
          | Inr d \<Rightarrow> if PyStr p = d \<or> p = actor then Inr (Some ''SELF_APPROVAL_REJECTED'') else Inr None))"

text \<open>The fields an accepted transition writes.\<close>

definition enter_approval_state :: "rat \<Rightarrow> ApprovalState \<Rightarrow> string option \<Rightarrow> dict \<Rightarrow> dict" where
  "enter_approval_state now target approver m =
     AList.update ''state'' (PyStr (as_value target))
       (if target = APPROVED then AList.update ''approval_timestamp'' (PyFloat (Finite now))
          (AList.update ''approver_id'' (opt_str approver) m)
        else if target = REVOKED then AList.update ''revoked'' (PyBool True) m
        else if target = CONSUMED then AList.update ''consumed'' (PyBool True) m else m)"

text \<open>
  A transition written to the file and then audited. The trail reads \<open>directive_id\<close> only after the file is
  written, so a record without it (only in a file the program did not write) raises with the state changed.
\<close>

definition commit_approval :: "(string \<Rightarrow> string) \<Rightarrow> (pyval \<Rightarrow> string) \<Rightarrow> (pyval \<Rightarrow> string) \<Rightarrow> string
    \<Rightarrow> string \<Rightarrow> dict \<Rightarrow> ApprovalState \<Rightarrow> ApprovalState \<Rightarrow> string \<Rightarrow> pyval \<Rightarrow> bool \<times> string option \<Rightarrow> approvals
    \<Rightarrow> (bool \<times> string option) res \<times> approvals" where
  "commit_approval H rep dumps ts aid m cur target actor details answer a =
     (let a1 = put_approval (PyStr aid) m a
      in (case getitem m ''directive_id'' of Inl e \<Rightarrow> (Inl e, a1)
          | Inr d \<Rightarrow> (Inr answer, a1\<lparr>ap_audit := approval_append H rep dumps ts (PyStr aid) d (as_value cur)
              (as_value target) actor details (ap_audit a1)\<rparr>)))"

definition transition_approval :: "(string \<Rightarrow> string) \<Rightarrow> (pyval \<Rightarrow> string) \<Rightarrow> (pyval \<Rightarrow> string) \<Rightarrow> rat \<Rightarrow> string
    \<Rightarrow> string \<Rightarrow> ApprovalState \<Rightarrow> string \<Rightarrow> string option \<Rightarrow> approvals
    \<Rightarrow> (bool \<times> string option) res \<times> approvals" where
  "transition_approval H rep dumps now ts aid target actor approver a =
     (case map_of (ap_records a) (PyStr aid) of
        None \<Rightarrow> (Inr (False, Some ''UNKNOWN_APPROVAL_STATE_REJECTED''), a)
      | Some m \<Rightarrow> if m = [] then (Inr (False, Some ''UNKNOWN_APPROVAL_STATE_REJECTED''), a) else
     (case getitem m ''state'' of Inl e \<Rightarrow> (Inl e, a) | Inr st \<Rightarrow>
     (case as_of st of Inl e \<Rightarrow> (Inl e, a) | Inr cur \<Rightarrow>
     (case getitem m ''expires_at'' of Inl e \<Rightarrow> (Inl e, a) | Inr x \<Rightarrow>
     (case after now x of Inl e \<Rightarrow> (Inl e, a) | Inr late \<Rightarrow>
        if late \<and> cur \<notin> set TERMINAL_APPROVAL_STATES then
          commit_approval H rep dumps ts aid (AList.update ''state'' (PyStr (as_value EXPIRED)) m) cur EXPIRED
            ''SYSTEM_TTL'' PyNone (False, Some ''EXPIRED_APPROVAL_REJECTED'') a
        else if cur \<in> set TERMINAL_APPROVAL_STATES \<or> target \<notin> set (VALID_APPROVAL_TRANSITIONS cur) then
          (Inr (False, Some ''ILLEGAL_APPROVAL_TRANSITIONS_REJECTED''), a)
        else
          (case (if target = APPROVED then check_approver m actor approver else Inr None) of
             Inl e \<Rightarrow> (Inl e, a)
           | Inr (Some why) \<Rightarrow> (Inr (False, Some why), a)
           | Inr None \<Rightarrow> commit_approval H rep dumps ts aid (enter_approval_state now target approver m) cur target
               actor (PyDict [(''approver'', opt_str approver)]) (True, None) a))))))"

subsection \<open>Before execution\<close>

text \<open>\<open>str(v)\<close> of a stored state.\<close>

definition revalidate_approval :: "(pyval \<Rightarrow> string) \<Rightarrow> rat \<Rightarrow> dict option \<Rightarrow> string \<Rightarrow> string \<Rightarrow> string \<Rightarrow> string \<Rightarrow> string
    \<Rightarrow> (bool \<times> string option) res" where
  "revalidate_approval rep now appr did cap ph target risk = (case appr of
      None \<Rightarrow> Inr (False, Some ''MISSING_APPROVAL_REJECTED'')
    | Some m \<Rightarrow> if m = [] then Inr (False, Some ''MISSING_APPROVAL_REJECTED'')
     else let st = fmt rep (dget_or m ''state'' (PyStr [])) in
     if truthy (dget_or m ''consumed'' (PyBool False)) \<or> st = as_value CONSUMED
     then Inr (False, Some ''CONSUMED_APPROVAL_REPLAY_REJECTED'')
     else if truthy (dget_or m ''revoked'' (PyBool False)) \<or> st = as_value REVOKED
     then Inr (False, Some ''REVOKED_APPROVAL_REJECTED'')
     else if st \<noteq> as_value APPROVED then Inr (False, Some ''UNKNOWN_APPROVAL_STATE_REJECTED'')
     else (case after now (dget_or m ''expires_at'' (PyInt 0)) of Inl e \<Rightarrow> Inl e | Inr late \<Rightarrow>
       Inr (if late then (False, Some ''EXPIRED_APPROVAL_REJECTED'')
         else if dget m ''directive_id'' \<noteq> PyStr did then (False, Some ''CROSS_DIRECTIVE_APPROVAL_REUSE_REJECTED'')
         else if dget m ''capability_id'' \<noteq> PyStr cap then (False, Some ''POST_APPROVAL_CAPABILITY_MUTATION_REJECTED'')
         else if dget m ''parameter_hash'' \<noteq> PyStr ph then (False, Some ''CROSS_PARAMETER_APPROVAL_REUSE_REJECTED'')
         else if dget m ''target'' \<noteq> PyStr target then (False, Some ''POST_APPROVAL_TARGET_MUTATION_REJECTED'')
         else if dget m ''risk_class'' \<noteq> PyStr risk then (False, Some ''POST_APPROVAL_RISK_MUTATION_REJECTED'')
         else (True, None))))"

end
