(* ===== verification/ApprovalClaims.thy ===== *)
theory ApprovalClaims
  imports Approval TrailLaws
begin

text \<open>
  What the approval engine promises: its chain is a binding chain that verifies in every reachable
  state, a restart restores the engine, a revalidated approval was given by an authorised approver for
  exactly the action at hand, and a consumed approval is never usable again.
\<close>

subsection \<open>The chain\<close>

type_synonym approval_event = "pyval \<times> pyval \<times> string \<times> string \<times> string \<times> string \<times> pyval"

fun approval_vals :: "approval_event \<Rightarrow> pyval list" where
  "approval_vals (aid, did, f, t, actor, ts, d) = [aid, did, PyStr f, PyStr t, PyStr actor, PyStr ts]"

fun approval_details :: "approval_event \<Rightarrow> pyval" where
  "approval_details (aid, did, f, t, actor, ts, d) = d"

lemma length_approval_vals: "length (approval_vals e) = length approval_keys"
  by (cases e rule: approval_vals.cases) (simp add: approval_keys_def)

interpretation approval_chain: binding_chain H "detail_body rep dumps approval_keys" "''previous_event_hash''" ZEROS
  "\<lambda>ls. records_strict (stripped ls)" "\<lambda>ls. fst (approval_verify H rep dumps (Some ls))"
  "\<lambda>e p. trail_seal H rep dumps approval_keys (approval_vals e, approval_details e) (PyStr p)"
  for H rep dumps
  unfolding approval_verify_def
  by (rule detail_trail_binds) (simp_all add: length_approval_vals, simp_all add: approval_keys_def)

definition approval_sealed :: "(string \<Rightarrow> string) \<Rightarrow> (pyval \<Rightarrow> string) \<Rightarrow> (pyval \<Rightarrow> string) \<Rightarrow> jfile \<Rightarrow> bool" where
  "approval_sealed H rep dumps = sealed (\<lambda>ls. fst (approval_verify H rep dumps (Some ls)))"

lemma approval_append_sealed:
  "approval_sealed H rep dumps f \<Longrightarrow>
    approval_sealed H rep dumps (approval_append H rep dumps ts aid did from_st to_st actor details f)"
  unfolding approval_sealed_def approval_append_def approval_verify_def
  by (rule detail_append_sealed) (simp_all add: approval_keys_def)

subsection \<open>Transitions\<close>

lemma as_of_value [simp]: "as_of (PyStr (as_value s)) = Inr s"
  by (cases s) (simp_all add: as_of_def as_all_def)

lemma as_of_Inr: "as_of v = Inr s \<Longrightarrow> v = PyStr (as_value s)"
  by (auto simp: as_of_def find_Some_iff split: pyval.splits option.splits)

lemma as_value_inj [simp]: "as_value s = as_value t \<longleftrightarrow> s = t"
  by (cases s; cases t) simp_all

definition approval_logged :: "(string \<Rightarrow> string) \<Rightarrow> (pyval \<Rightarrow> string) \<Rightarrow> (pyval \<Rightarrow> string) \<Rightarrow> jfile \<Rightarrow> jfile \<Rightarrow> bool" where
  "approval_logged H rep dumps f f' \<longleftrightarrow> f' = f \<or> (\<exists>ts aid did x y actor d. f' = approval_append H rep dumps ts aid did x y actor d f)"

lemma approval_logged_simps [simp]:
  "approval_logged H rep dumps f f"
  "approval_logged H rep dumps f (approval_append H rep dumps ts aid did x y actor d f)"
  unfolding approval_logged_def by blast+

lemma approval_logged_sealed: "approval_sealed H rep dumps f \<Longrightarrow> approval_logged H rep dumps f f' \<Longrightarrow> approval_sealed H rep dumps f'"
  unfolding approval_logged_def using approval_append_sealed by blast

lemma commit_approval_state:
  assumes "commit_approval H rep dumps ts aid m cur target actor details answer a = (r, a')"
  shows "ap_records a' = AList.update (PyStr aid) m (ap_records a)" and "ap_file a' = dump_file (ap_records a')"
    and "approval_logged H rep dumps (ap_audit a) (ap_audit a')" and "r = Inr x \<Longrightarrow> x = answer"
  using assms by (auto simp: commit_approval_def put_approval_def Let_def split: sum.splits)

lemma check_approver_None:
  "check_approver m actor approver = Inr None \<Longrightarrow>
    \<exists>p. approver = Some p \<and> p \<in> set AUTHORIZED_APPROVERS \<and> p \<noteq> actor \<and> map_of m ''directive_id'' \<noteq> Some (PyStr p)"
  by (auto simp: check_approver_def getitem_def split: option.splits if_splits sum.splits)

lemma transition_approval_cases:
  assumes "transition_approval H rep dumps now ts aid target actor approver a = (r, a')"
  obtains (same) "a' = a" and "r \<noteq> Inr (True, None)"
  | (expired) m cur where "map_of (ap_records a) (PyStr aid) = Some m" and "map_of m ''state'' = Some (PyStr (as_value cur))"
      and "cur \<notin> set TERMINAL_APPROVAL_STATES" and "r \<noteq> Inr (True, None)"
      and "ap_records a' = AList.update (PyStr aid) (AList.update ''state'' (PyStr (as_value EXPIRED)) m) (ap_records a)"
      and "ap_file a' = dump_file (ap_records a')" and "approval_logged H rep dumps (ap_audit a) (ap_audit a')"
  | (entered) m cur where "map_of (ap_records a) (PyStr aid) = Some m" and "map_of m ''state'' = Some (PyStr (as_value cur))"
      and "cur \<notin> set TERMINAL_APPROVAL_STATES" and "target \<in> set (VALID_APPROVAL_TRANSITIONS cur)"
      and "target = APPROVED \<Longrightarrow> check_approver m actor approver = Inr None"
      and "ap_records a' = AList.update (PyStr aid) (enter_approval_state now target approver m) (ap_records a)"
      and "ap_file a' = dump_file (ap_records a')" and "approval_logged H rep dumps (ap_audit a) (ap_audit a')"
proof (cases "map_of (ap_records a) (PyStr aid)")
  case None
  with assms show ?thesis by (intro same) (auto simp: transition_approval_def)
next
  case (Some m)
  note rec = this
  note run0 = assms [unfolded transition_approval_def, simplified rec option.case]
  show ?thesis
  proof (cases "m = []")
    case True
    with run0 show ?thesis by (intro same) auto
  next
    case False
    note run1 = run0 [simplified False if_False]
    show ?thesis
    proof (cases "getitem m ''state''")
      case (Inl e)
      with run1 show ?thesis by (intro same) auto
    next
      case st: (Inr st)
      show ?thesis
      proof (cases "as_of st")
        case (Inl e)
        with run1 st show ?thesis by (intro same) auto
      next
        case cur: (Inr cur)
        have state: "map_of m ''state'' = Some (PyStr (as_value cur))"
          using st as_of_Inr [OF cur] by (simp add: getitem_def split: option.splits)
        note run2 = run1 [simplified st cur sum.case]
        show ?thesis
        proof (cases "getitem m ''expires_at''")
          case (Inl e)
          with run2 show ?thesis by (intro same) auto
        next
          case x: (Inr x)
          show ?thesis
          proof (cases "after now x")
            case (Inl e)
            with run2 x show ?thesis by (intro same) auto
          next
            case late: (Inr late)
            note run3 = run2 [simplified x late sum.case]
            consider (ttl) "late \<and> cur \<notin> set TERMINAL_APPROVAL_STATES"
              | (bad) "\<not> (late \<and> cur \<notin> set TERMINAL_APPROVAL_STATES)"
                  "cur \<in> set TERMINAL_APPROVAL_STATES \<or> target \<notin> set (VALID_APPROVAL_TRANSITIONS cur)"
              | (go) "\<not> (late \<and> cur \<notin> set TERMINAL_APPROVAL_STATES)"
                  "\<not> (cur \<in> set TERMINAL_APPROVAL_STATES \<or> target \<notin> set (VALID_APPROVAL_TRANSITIONS cur))" by blast
            then show ?thesis
            proof cases
              case ttl
              note run4 = run3 [unfolded if_P [OF ttl]]
              have "r \<noteq> Inr (True, None)" using commit_approval_state(4) [OF run4] by auto
              with ttl commit_approval_state(1-3) [OF run4] show ?thesis by (intro expired [OF rec state]) auto
            next
              case bad
              from run3 [unfolded if_not_P [OF bad(1)] if_P [OF bad(2)]] show ?thesis by (intro same) auto
            next
              case go
              note run4 = run3 [unfolded if_not_P [OF go(1)] if_not_P [OF go(2)]]
              show ?thesis
              proof (cases "if target = APPROVED then check_approver m actor approver else Inr None")
                case (Inl e)
                with run4 show ?thesis by (intro same) auto
              next
                case (Inr w)
                show ?thesis
                proof (cases w)
                  case (Some why)
                  with run4 Inr show ?thesis by (intro same) auto
                next
                  case None
                  note run5 = run4 [unfolded Inr None sum.case option.case]
                  have "target = APPROVED \<Longrightarrow> check_approver m actor approver = Inr None" using Inr None by simp
                  with go commit_approval_state(1-3) [OF run5] show ?thesis by (intro entered [OF rec state]) auto
                qed
              qed
            qed
          qed
        qed
      qed
    qed
  qed
qed

subsection \<open>Reachable engines\<close>

text \<open>
  One operation of the engine, or a restart of the process. \<open>keep\<close> names a request whose identifier no
  new request takes (\<open>create_request\<close> overwrites a record that has its identifier).
\<close>

inductive approval_step :: "(string \<Rightarrow> string) \<Rightarrow> (pyval \<Rightarrow> string) \<Rightarrow> (pyval \<Rightarrow> string) \<Rightarrow> string option
    \<Rightarrow> approvals \<Rightarrow> approvals \<Rightarrow> bool" for H rep dumps keep where
  create: "keep \<noteq> Some (derive_approval_request_id H rep did cap ph target risk now) \<Longrightarrow>
    approval_step H rep dumps keep a (snd (create_request H rep dumps now ts did cap ph target risk ttl actor a))"
| transition: "transition_approval H rep dumps now ts aid target actor approver a = (r, a') \<Longrightarrow>
    approval_step H rep dumps keep a a'"
| restart: "approval_step H rep dumps keep a (load_approvals (ap_file a) (ap_audit a))"

definition fresh_approvals :: approvals where
  "fresh_approvals = load_approvals None None"

definition approvals_reachable :: "(string \<Rightarrow> string) \<Rightarrow> (pyval \<Rightarrow> string) \<Rightarrow> (pyval \<Rightarrow> string) \<Rightarrow> approvals \<Rightarrow> bool" where
  "approvals_reachable H rep dumps a \<longleftrightarrow> (approval_step H rep dumps None)\<^sup>*\<^sup>* fresh_approvals a"

text \<open>
  A record of the program's own: filed under the identifier derived from its fields, flags in step with
  its state, and an authorised approver other than the directive from the approval on.
\<close>

definition request_ok :: "(string \<Rightarrow> string) \<Rightarrow> (pyval \<Rightarrow> string) \<Rightarrow> pyval \<Rightarrow> dict \<Rightarrow> bool" where
  "request_ok H rep k m \<longleftrightarrow> map_of m ''approval_request_id'' = Some k
    \<and> (\<exists>did cap ph target risk t. k = PyStr (derive_approval_request_id H rep did cap ph target risk t)
        \<and> map_of m ''directive_id'' = Some (PyStr did) \<and> map_of m ''capability_id'' = Some (PyStr cap)
        \<and> map_of m ''parameter_hash'' = Some (PyStr ph) \<and> map_of m ''target'' = Some (PyStr target)
        \<and> map_of m ''risk_class'' = Some (PyStr risk))
    \<and> (\<exists>x. map_of m ''expires_at'' = Some (PyFloat (Finite x)))
    \<and> (\<exists>s. map_of m ''state'' = Some (PyStr (as_value s))
        \<and> map_of m ''consumed'' = Some (PyBool (s = CONSUMED)) \<and> map_of m ''revoked'' = Some (PyBool (s = REVOKED))
        \<and> (s \<in> {APPROVED, REVOKED, CONSUMED} \<longrightarrow> (\<exists>p \<in> set AUTHORIZED_APPROVERS.
             map_of m ''approver_id'' = Some (PyStr p) \<and> map_of m ''directive_id'' \<noteq> Some (PyStr p))))"

definition approvals_inv :: "(string \<Rightarrow> string) \<Rightarrow> (pyval \<Rightarrow> string) \<Rightarrow> (pyval \<Rightarrow> string) \<Rightarrow> approvals \<Rightarrow> bool" where
  "approvals_inv H rep dumps a \<longleftrightarrow> keyed_by ''approval_request_id'' (ap_records a)
    \<and> (\<forall>k m. map_of (ap_records a) k = Some m \<longrightarrow> request_ok H rep k m)
    \<and> (ap_file a = None \<and> ap_records a = [] \<or> ap_file a = dump_file (ap_records a))
    \<and> approval_sealed H rep dumps (ap_audit a)"

lemma restart_same: "approvals_inv H rep dumps a \<Longrightarrow> load_approvals (ap_file a) (ap_audit a) = a"
  by (auto simp: approvals_inv_def load_approvals_def load_dump) (simp add: load_file_def)

lemma request_record_ok:
  "request_ok H rep (PyStr (derive_approval_request_id H rep did cap ph target risk now))
    (request_record (derive_approval_request_id H rep did cap ph target risk now) did cap ph target risk now ttl)"
  by (auto simp: request_ok_def request_record_def intro!: exI [of _ REQUESTED])

lemma put_request_inv:
  assumes "approvals_inv H rep dumps a" and "request_ok H rep k m" and "hashable k"
    and "ap_records a' = AList.update k m (ap_records a)" and "ap_file a' = dump_file (ap_records a')"
    and "approval_logged H rep dumps (ap_audit a) (ap_audit a')"
  shows "approvals_inv H rep dumps a'"
proof -
  have "keyed_by ''approval_request_id'' (ap_records a')"
    using assms by (simp add: approvals_inv_def request_ok_def keyed_by_update)
  moreover have "\<forall>k' m'. map_of (ap_records a') k' = Some m' \<longrightarrow> request_ok H rep k' m'"
    using assms(1,2,4) by (simp add: approvals_inv_def map_of_AList_update)
  moreover have "approval_sealed H rep dumps (ap_audit a')"
    using assms(1,6) approval_logged_sealed unfolding approvals_inv_def by blast
  ultimately show ?thesis using assms(5) by (simp add: approvals_inv_def)
qed

lemma request_ok_state:
  assumes "request_ok H rep k m" and "map_of m ''state'' = Some (PyStr (as_value s))"
  shows "map_of m ''consumed'' = Some (PyBool (s = CONSUMED))" and "map_of m ''revoked'' = Some (PyBool (s = REVOKED))"
    and "s \<in> {APPROVED, REVOKED, CONSUMED} \<Longrightarrow> \<exists>p \<in> set AUTHORIZED_APPROVERS.
      map_of m ''approver_id'' = Some (PyStr p) \<and> map_of m ''directive_id'' \<noteq> Some (PyStr p)"
  using assms unfolding request_ok_def by auto

lemma expired_request_ok:
  assumes "request_ok H rep k m" and "map_of m ''state'' = Some (PyStr (as_value cur))" and "cur \<notin> set TERMINAL_APPROVAL_STATES"
  shows "request_ok H rep k (AList.update ''state'' (PyStr (as_value EXPIRED)) m)"
proof -
  have "cur \<noteq> CONSUMED" "cur \<noteq> REVOKED" using assms(3) by (auto simp: TERMINAL_APPROVAL_STATES_def)
  with assms(1,2) show ?thesis
    unfolding request_ok_def by (auto simp: map_of_AList_update intro!: exI [of _ EXPIRED])
qed

lemma entered_request_ok:
  assumes "request_ok H rep k m" and "map_of m ''state'' = Some (PyStr (as_value cur))"
    and "cur \<notin> set TERMINAL_APPROVAL_STATES" and "target \<in> set (VALID_APPROVAL_TRANSITIONS cur)"
    and "target = APPROVED \<Longrightarrow> check_approver m actor approver = Inr None"
  shows "request_ok H rep k (enter_approval_state now target approver m)"
proof -
  have flags: "map_of m ''consumed'' = Some (PyBool False)" "map_of m ''revoked'' = Some (PyBool False)"
    using request_ok_state(1,2) [OF assms(1,2)] assms(3) by (auto simp: TERMINAL_APPROVAL_STATES_def)
  have who: "\<exists>p \<in> set AUTHORIZED_APPROVERS. map_of (enter_approval_state now target approver m) ''approver_id'' = Some (PyStr p)
      \<and> map_of m ''directive_id'' \<noteq> Some (PyStr p)"
    if "target \<in> {APPROVED, REVOKED, CONSUMED}"
  proof (cases "target = APPROVED")
    case True
    from check_approver_None [OF assms(5) [OF True]] True show ?thesis
      by (auto simp: enter_approval_state_def map_of_AList_update opt_str_def)
  next
    case False
    with that assms(4) have "cur = APPROVED" by (cases cur) auto
    with request_ok_state(3) [OF assms(1,2)] False show ?thesis
      by (simp add: enter_approval_state_def map_of_AList_update)
  qed
  have keep: "map_of (enter_approval_state now target approver m) f = map_of m f"
    if "f \<notin> {''state'', ''approval_timestamp'', ''approver_id'', ''revoked'', ''consumed''}" for f
    using that by (simp add: enter_approval_state_def map_of_AList_update)
  have state: "map_of (enter_approval_state now target approver m) ''state'' = Some (PyStr (as_value target))"
    by (simp add: enter_approval_state_def map_of_AList_update)
  have c: "map_of (enter_approval_state now target approver m) ''consumed'' = Some (PyBool (target = CONSUMED))"
    using flags by (simp add: enter_approval_state_def map_of_AList_update)
  have v: "map_of (enter_approval_state now target approver m) ''revoked'' = Some (PyBool (target = REVOKED))"
    using flags by (simp add: enter_approval_state_def map_of_AList_update)
  have "(\<exists>s. map_of (enter_approval_state now target approver m) ''state'' = Some (PyStr (as_value s))
      \<and> map_of (enter_approval_state now target approver m) ''consumed'' = Some (PyBool (s = CONSUMED))
      \<and> map_of (enter_approval_state now target approver m) ''revoked'' = Some (PyBool (s = REVOKED))
      \<and> (s \<in> {APPROVED, REVOKED, CONSUMED} \<longrightarrow> (\<exists>p \<in> set AUTHORIZED_APPROVERS.
           map_of (enter_approval_state now target approver m) ''approver_id'' = Some (PyStr p)
           \<and> map_of (enter_approval_state now target approver m) ''directive_id'' \<noteq> Some (PyStr p))))"
    by (rule exI [of _ target]) (use who state c v keep in simp)
  moreover have "map_of (enter_approval_state now target approver m) f = map_of m f"
    if "f \<in> {''approval_request_id'', ''directive_id'', ''capability_id'', ''parameter_hash'', ''target'', ''risk_class'',
      ''expires_at''}" for f
    by (rule keep) (use that in auto)
  ultimately show ?thesis using assms(1) unfolding request_ok_def by simp
qed

lemma approval_step_inv:
  assumes "approval_step H rep dumps keep a a'" and inv: "approvals_inv H rep dumps a"
  shows "approvals_inv H rep dumps a'"
  using assms(1)
proof cases
  case (create did cap ph target risk now ts ttl actor)
  show ?thesis
    by (rule put_request_inv [OF inv request_record_ok])
       (simp_all add: create create_request_def put_approval_def Let_def)
next
  case (transition now ts aid target actor approver r)
  then show ?thesis
  proof (cases rule: transition_approval_cases)
    case (expired m cur)
    with inv have "request_ok H rep (PyStr aid) m" by (simp add: approvals_inv_def)
    then show ?thesis
      by (intro put_request_inv [OF inv expired_request_ok [OF _ expired(2,3)] _ expired(5-7)]) simp_all
  next
    case (entered m cur)
    with inv have "request_ok H rep (PyStr aid) m" by (simp add: approvals_inv_def)
    then show ?thesis
      by (intro put_request_inv [OF inv entered_request_ok [OF _ entered(2-5)] _ entered(6-8)]) simp_all
  qed (simp add: inv)
next
  case restart
  with restart_same [OF inv] inv show ?thesis by simp
qed

lemma fresh_approvals_inv: "approvals_inv H rep dumps fresh_approvals"
  by (simp add: approvals_inv_def fresh_approvals_def load_approvals_def load_file_def keyed_by_def approval_sealed_def sealed_def)

lemma approval_steps_inv: "(approval_step H rep dumps keep)\<^sup>*\<^sup>* a a' \<Longrightarrow> approvals_inv H rep dumps a \<Longrightarrow> approvals_inv H rep dumps a'"
  by (induction rule: rtranclp_induct) (auto intro: approval_step_inv)

lemma approvals_reachable_inv: "approvals_reachable H rep dumps a \<Longrightarrow> approvals_inv H rep dumps a"
  unfolding approvals_reachable_def using approval_steps_inv fresh_approvals_inv by blast

subsection \<open>Terminal requests\<close>

lemma terminal_step:
  assumes "approval_step H rep dumps (Some aid) a a'" and inv: "approvals_inv H rep dumps a"
    and "map_of (ap_records a) (PyStr aid) = Some m" and "map_of m ''state'' = Some (PyStr (as_value s))"
    and "s \<in> set TERMINAL_APPROVAL_STATES"
  shows "map_of (ap_records a') (PyStr aid) = Some m"
  using assms(1)
proof cases
  case (create did cap ph target risk now ts ttl actor)
  with assms(3) show ?thesis by (auto simp: create_request_def put_approval_def Let_def map_of_AList_update)
next
  case (transition now ts aid' target actor approver r)
  then show ?thesis
  proof (cases rule: transition_approval_cases)
    case (expired m' cur)
    then have "aid' \<noteq> aid" using assms(3-5) by auto
    with expired(5) assms(3) show ?thesis by (simp add: map_of_AList_update)
  next
    case (entered m' cur)
    then have "aid' \<noteq> aid" using assms(3-5) by auto
    with entered(6) assms(3) show ?thesis by (simp add: map_of_AList_update)
  qed (simp add: assms(3))
next
  case restart
  with restart_same [OF inv] assms(3) show ?thesis by simp
qed

lemma terminal_steps:
  assumes "(approval_step H rep dumps (Some aid))\<^sup>*\<^sup>* a a'" and "approvals_inv H rep dumps a"
    and "map_of (ap_records a) (PyStr aid) = Some m" and "map_of m ''state'' = Some (PyStr (as_value s))"
    and "s \<in> set TERMINAL_APPROVAL_STATES"
  shows "map_of (ap_records a') (PyStr aid) = Some m"
  using assms(1)
proof (induction rule: rtranclp_induct)
  case (step y z)
  from approval_steps_inv [OF step(1) assms(2)] have "approvals_inv H rep dumps y" .
  from terminal_step [OF step(2) this step(3) assms(4,5)] show ?case .
qed (rule assms(3))

subsection \<open>Properties\<close>

definition sample_aid :: string where
  "sample_aid = derive_approval_request_id (\<lambda>s. s) (\<lambda>v. []) ''D'' ''C'' ''P'' ''T'' ''R'' 0"

definition sample_requested :: approvals where
  "sample_requested = snd (create_request (\<lambda>s. s) (\<lambda>v. []) (\<lambda>v. []) 0 ''t'' ''D'' ''C'' ''P'' ''T'' ''R'' 60 ''S'' fresh_approvals)"

definition sample_move :: "ApprovalState \<Rightarrow> string option \<Rightarrow> approvals \<Rightarrow> (bool \<times> string option) res \<times> approvals" where
  "sample_move target approver a = transition_approval (\<lambda>s. s) (\<lambda>v. []) (\<lambda>v. []) 1 ''t'' sample_aid target ''S'' approver a"

definition sample_approved :: approvals where
  "sample_approved = snd (sample_move APPROVED (Some ''HUMAN_OPERATOR'') (snd (sample_move NOTIFIED None sample_requested)))"

lemma sample_approved_reachable: "approvals_reachable (\<lambda>s. s) (\<lambda>v. []) (\<lambda>v. []) sample_approved"
proof -
  have "approval_step (\<lambda>s. s) (\<lambda>v. []) (\<lambda>v. []) None fresh_approvals sample_requested"
    unfolding sample_requested_def by (rule approval_step.create) simp
  moreover have move: "approval_step (\<lambda>s. s) (\<lambda>v. []) (\<lambda>v. []) None a (snd (sample_move t p a))" for a t p
    unfolding sample_move_def by (rule approval_step.transition) (rule prod.collapse [symmetric])
  ultimately show ?thesis unfolding approvals_reachable_def sample_approved_def
    by (meson rtranclp.rtrancl_into_rtrancl rtranclp.rtrancl_refl)
qed

lemmas approval_eval = transition_approval_def sample_move_def getitem_def commit_approval_def put_approval_def
  enter_approval_state_def TERMINAL_APPROVAL_STATES_def check_approver_def AUTHORIZED_APPROVERS_def Let_def

definition sample_request_record :: dict where
  "sample_request_record = request_record sample_aid ''D'' ''C'' ''P'' ''T'' ''R'' 0 60"

lemma sample_request_fields:
  "map_of sample_request_record ''state'' = Some (PyStr (as_value REQUESTED))"
  "map_of sample_request_record ''expires_at'' = Some (PyFloat (Finite 60))"
  "map_of sample_request_record ''directive_id'' = Some (PyStr ''D'')"
  "map_of sample_request_record ''capability_id'' = Some (PyStr ''C'')"
  "map_of sample_request_record ''parameter_hash'' = Some (PyStr ''P'')"
  "map_of sample_request_record ''target'' = Some (PyStr ''T'')"
  "map_of sample_request_record ''risk_class'' = Some (PyStr ''R'')"
  "map_of sample_request_record ''consumed'' = Some (PyBool False)"
  "map_of sample_request_record ''revoked'' = Some (PyBool False)"
  by (simp_all add: sample_request_record_def request_record_def)

lemma sample_request_nonempty [simp]: "sample_request_record \<noteq> []" "AList.update k v m \<noteq> []"
  by (simp_all add: sample_request_record_def request_record_def)

lemma sample_requested_records: "ap_records sample_requested = [(PyStr sample_aid, sample_request_record)]"
  by (simp add: sample_requested_def create_request_def put_approval_def Let_def fresh_approvals_def
      load_approvals_def load_file_def sample_aid_def sample_request_record_def)

definition sample_notified_record :: dict where
  "sample_notified_record = AList.update ''state'' (PyStr (as_value NOTIFIED)) sample_request_record"

lemma sample_notified_records:
  "ap_records (snd (sample_move NOTIFIED None sample_requested)) = [(PyStr sample_aid, sample_notified_record)]"
  by (simp add: approval_eval sample_requested_records sample_request_fields sample_notified_record_def
      map_of_AList_update del: as_value.simps)

definition sample_approved_record :: dict where
  "sample_approved_record = enter_approval_state 1 APPROVED (Some ''HUMAN_OPERATOR'') sample_notified_record"

lemma sample_approve_records:
  "ap_records a = [(PyStr sample_aid, sample_notified_record)] \<Longrightarrow>
    ap_records (snd (sample_move APPROVED (Some ''HUMAN_OPERATOR'') a)) = [(PyStr sample_aid, sample_approved_record)]"
  by (simp add: approval_eval sample_notified_record_def
      sample_request_fields sample_approved_record_def map_of_AList_update del: as_value.simps)

lemma sample_approved_records: "ap_records sample_approved = [(PyStr sample_aid, sample_approved_record)]"
  unfolding sample_approved_def by (rule sample_approve_records [OF sample_notified_records])

text \<open>What passes the check before execution was really approved: in a reachable engine, a record that
  revalidates carries the identifier derived from exactly the directive, capability, parameters, target
  and risk at hand, has not expired, and was approved by an authorised approver who is not the directive.\<close>

theorem revalidated_approval_genuine:
  assumes "approvals_reachable H rep dumps a" and "map_of (ap_records a) k = Some m"
    and "revalidate_approval rep now (Some m) did cap ph target risk = Inr (True, None)"
  shows "(\<exists>t. k = PyStr (derive_approval_request_id H rep did cap ph target risk t))
    \<and> (\<exists>p \<in> set AUTHORIZED_APPROVERS. map_of m ''approver_id'' = Some (PyStr p) \<and> p \<noteq> did)
    \<and> (\<exists>x. map_of m ''expires_at'' = Some (PyFloat (Finite x)) \<and> now \<le> x)"
proof -
  have ok: "request_ok H rep k m" using approvals_reachable_inv [OF assms(1)] assms(2) by (simp add: approvals_inv_def)
  then obtain s x where s: "map_of m ''state'' = Some (PyStr (as_value s))"
    and x: "map_of m ''expires_at'' = Some (PyFloat (Finite x))" by (auto simp: request_ok_def)
  have get: "dget_or m ''state'' d = PyStr (as_value s)" "dget_or m ''expires_at'' d = PyFloat (Finite x)" for d
    by (simp_all add: dget_or_def s x)
  from assms(3) have "s = APPROVED" and now: "\<not> now > x"
    and f: "dget m ''directive_id'' = PyStr did" "dget m ''capability_id'' = PyStr cap" "dget m ''parameter_hash'' = PyStr ph"
      "dget m ''target'' = PyStr target" "dget m ''risk_class'' = PyStr risk"
    by (auto simp: revalidate_approval_def Let_def get simp del: as_value.simps split: if_splits)
  from ok f have "\<exists>t. k = PyStr (derive_approval_request_id H rep did cap ph target risk t)"
    and "map_of m ''directive_id'' = Some (PyStr did)"
    by (auto simp: request_ok_def dget_def)
  with request_ok_state(3) [OF ok s] \<open>s = APPROVED\<close> x now show ?thesis by auto
qed

theorem revalidated_approval_genuine_witness:
  "revalidate_approval (\<lambda>v. []) 2 (Some sample_approved_record) ''D'' ''C'' ''P'' ''T'' ''R'' = Inr (True, None)
    \<and> (\<exists>p \<in> set AUTHORIZED_APPROVERS. map_of sample_approved_record ''approver_id'' = Some (PyStr p) \<and> p \<noteq> ''D'')"
proof -
  have ok: "revalidate_approval (\<lambda>v. []) 2 (Some sample_approved_record) ''D'' ''C'' ''P'' ''T'' ''R'' = Inr (True, None)"
    by (simp add: revalidate_approval_def sample_approved_record_def enter_approval_state_def sample_notified_record_def
        dget_def dget_or_def map_of_AList_update sample_request_fields Let_def)
  with revalidated_approval_genuine [OF sample_approved_reachable _ ok, of "PyStr sample_aid"] sample_approved_records
  show ?thesis by simp
qed

text \<open>C12. An approval is used once: after a request was consumed, and after any operations and restarts that
  do not create a request under the same identifier, it never revalidates again for any action, and no
  transition of it succeeds or changes the engine.\<close>

theorem consumed_approval_dead:
  assumes "approvals_reachable H rep dumps a"
    and "transition_approval H rep dumps now ts aid CONSUMED actor approver a = (Inr (True, None), a1)"
    and "(approval_step H rep dumps (Some aid))\<^sup>*\<^sup>* a1 a2"
  shows "revalidate_approval rep now' (map_of (ap_records a2) (PyStr aid)) did cap ph target risk
      = Inr (False, Some ''CONSUMED_APPROVAL_REPLAY_REJECTED'')
    \<and> fst (transition_approval H rep dumps now' ts' aid st actor' approver' a2) \<noteq> Inr (True, None)
    \<and> snd (transition_approval H rep dumps now' ts' aid st actor' approver' a2) = a2"
proof -
  have inv: "approvals_inv H rep dumps a1"
    by (rule approval_step_inv [OF approval_step.transition [OF assms(2)] approvals_reachable_inv [OF assms(1)]])
  from assms(2) obtain m where m: "map_of (ap_records a1) (PyStr aid) = Some m"
    and st: "map_of m ''state'' = Some (PyStr (as_value CONSUMED))"
  proof (cases rule: transition_approval_cases)
    case (entered m' cur)
    with that show ?thesis by (simp add: map_of_AList_update enter_approval_state_def)
  qed auto
  have dead: "CONSUMED \<in> set TERMINAL_APPROVAL_STATES" by (simp add: TERMINAL_APPROVAL_STATES_def)
  have m2: "map_of (ap_records a2) (PyStr aid) = Some m" by (rule terminal_steps [OF assms(3) inv m st dead])
  from st have "m \<noteq> []" by auto
  then have rev: "revalidate_approval rep now' (map_of (ap_records a2) (PyStr aid)) did cap ph target risk
      = Inr (False, Some ''CONSUMED_APPROVAL_REPLAY_REJECTED'')"
    using st by (simp add: revalidate_approval_def m2 dget_or_def Let_def)
  obtain r a3 where run: "transition_approval H rep dumps now' ts' aid st actor' approver' a2 = (r, a3)" by fastforce
  from run have "a3 = a2 \<and> r \<noteq> Inr (True, None)"
    by (cases rule: transition_approval_cases) (use m2 st dead in \<open>auto simp del: as_value.simps\<close>)
  with rev run show ?thesis by simp
qed

lemma sample_consumed: "\<exists>a1. sample_move CONSUMED None sample_approved = (Inr (True, None), a1)"
  by (simp add: approval_eval sample_approved_records sample_approved_record_def sample_notified_record_def
      sample_request_fields map_of_AList_update del: as_value.simps)

theorem consumed_approval_dead_witness:
  "revalidate_approval (\<lambda>v. []) 2 (map_of (ap_records (snd (sample_move CONSUMED None sample_approved))) (PyStr sample_aid))
     ''D'' ''C'' ''P'' ''T'' ''R'' = Inr (False, Some ''CONSUMED_APPROVAL_REPLAY_REJECTED'')"
proof -
  obtain a1 where run: "sample_move CONSUMED None sample_approved = (Inr (True, None), a1)" using sample_consumed by blast
  from consumed_approval_dead [OF sample_approved_reachable run [unfolded sample_move_def] rtranclp.rtrancl_refl] run
  show ?thesis by simp
qed

text \<open>The engine survives a restart: in every reachable state, loading the store file again gives exactly
  the engine it was, and the audit chain verifies.\<close>

theorem approvals_survive_restart:
  assumes "approvals_reachable H rep dumps a"
  shows "load_approvals (ap_file a) (ap_audit a) = a \<and> fst (approval_verify H rep dumps (ap_audit a))"
proof
  have inv: "approvals_inv H rep dumps a" by (rule approvals_reachable_inv [OF assms])
  then show "load_approvals (ap_file a) (ap_audit a) = a" by (rule restart_same)
  from inv show "fst (approval_verify H rep dumps (ap_audit a))"
    by (cases "ap_audit a") (auto simp: approvals_inv_def approval_sealed_def sealed_def approval_verify_def trail_verify_def)
qed

theorem approvals_survive_restart_witness:
  "load_approvals (ap_file sample_approved) (ap_audit sample_approved) = sample_approved
    \<and> fst (approval_verify (\<lambda>s. s) (\<lambda>v. []) (\<lambda>v. []) (ap_audit sample_approved))"
  by (rule approvals_survive_restart [OF sample_approved_reachable])

end
