(* ===== verification/Watchdog.thy ===== *)
theory Watchdog
  imports Trails
begin

text \<open>
  \<open>src/directive/watchdog.py\<close>: the incident trail, the durable killswitch, the health monitor and the
  controller lease. The killswitch keeps its state dictionary in memory and in a file; every writing
  operation reads the clock for \<open>last_updated\<close>.
\<close>

subsection \<open>States\<close>

datatype HealthState = HEALTHY | DEGRADED | CRITICAL | UNKNOWN

datatype KillswitchState = DISARMED | ARMED | TRIGGERED | RECOVERY_PENDING

fun ks_value :: "KillswitchState \<Rightarrow> string" where
  "ks_value DISARMED = ''DISARMED''"
| "ks_value ARMED = ''ARMED''"
| "ks_value TRIGGERED = ''TRIGGERED''"
| "ks_value RECOVERY_PENDING = ''RECOVERY_PENDING''"

definition ks_all :: "KillswitchState list" where
  "ks_all = [DISARMED, ARMED, TRIGGERED, RECOVERY_PENDING]"

definition ks_of :: "pyval \<Rightarrow> KillswitchState res" where
  "ks_of v = (case v of
      PyStr s \<Rightarrow> (case find (\<lambda>x. ks_value x = s) ks_all of None \<Rightarrow> Inl (PyError ''ValueError'') | Some x \<Rightarrow> Inr x)
    | _ \<Rightarrow> Inl (PyError ''ValueError''))"

fun VALID_KILLSWITCH_TRANSITIONS :: "KillswitchState \<Rightarrow> KillswitchState list" where
  "VALID_KILLSWITCH_TRANSITIONS DISARMED = [ARMED, TRIGGERED]"
| "VALID_KILLSWITCH_TRANSITIONS ARMED = [TRIGGERED, DISARMED]"
| "VALID_KILLSWITCH_TRANSITIONS TRIGGERED = [RECOVERY_PENDING]"
| "VALID_KILLSWITCH_TRANSITIONS RECOVERY_PENDING = [DISARMED, TRIGGERED]"

definition derive_incident_id :: "(string \<Rightarrow> string) \<Rightarrow> (pyval \<Rightarrow> string) \<Rightarrow> string \<Rightarrow> string \<Rightarrow> rat \<Rightarrow> string" where
  "derive_incident_id H rep reason source ts =
     ''INC-'' @ take 32 (H (join '':'' [reason, source, fmt rep (PyFloat (Finite ts))]))"

subsection \<open>Incident trail\<close>

definition incident_keys :: "string list" where
  "incident_keys = [''incident_id'', ''from_state'', ''to_state'', ''actor'', ''reason'', ''timestamp'']"

definition incident_append :: "(string \<Rightarrow> string) \<Rightarrow> (pyval \<Rightarrow> string) \<Rightarrow> (pyval \<Rightarrow> string) \<Rightarrow> string
    \<Rightarrow> pyval \<Rightarrow> string \<Rightarrow> string \<Rightarrow> string \<Rightarrow> string \<Rightarrow> pyval \<Rightarrow> jfile \<Rightarrow> jfile" where
  "incident_append H rep dumps ts inc from_st to_st actor reason details f =
     snd (trail_append H rep dumps incident_keys
       ([inc, PyStr from_st, PyStr to_st, PyStr actor, PyStr reason, PyStr ts], details) f)"

definition incident_verify :: "(string \<Rightarrow> string) \<Rightarrow> (pyval \<Rightarrow> string) \<Rightarrow> (pyval \<Rightarrow> string) \<Rightarrow> jfile
    \<Rightarrow> bool \<times> string option" where
  "incident_verify H rep dumps f = trail_verify H rep dumps incident_keys ''INCIDENT_AUDIT_CORRUPTED'' f"

subsection \<open>Killswitch\<close>

record killswitch =
  ks_state :: dict
  ks_file :: jdoc
  ks_trail :: jfile

definition armed_default :: "rat \<Rightarrow> dict" where
  "armed_default now = [(''killswitch_state'', PyStr (ks_value ARMED)), (''active_incident_id'', PyNone),
     (''trigger_reason'', PyNone), (''root_cause_resolved'', PyBool False), (''recovery_approved'', PyBool False),
     (''last_updated'', PyFloat (Finite now))]"

text \<open>
  \<open>_load\<close>: a file that cannot be read starts an armed killswitch. A document that is no object is
  returned as it is and raises at the first use; the model starts it with an empty state, where every
  use raises too.
\<close>

definition load_killswitch :: "rat \<Rightarrow> jdoc \<Rightarrow> jfile \<Rightarrow> killswitch" where
  "load_killswitch now f trail = \<lparr>ks_state = (case f of Document (PyDict m) \<Rightarrow> m | Document _ \<Rightarrow> []
       | _ \<Rightarrow> armed_default now), ks_file = f, ks_trail = trail\<rparr>"

definition persist_killswitch :: "rat \<Rightarrow> killswitch \<Rightarrow> killswitch" where
  "persist_killswitch now k = (let m = AList.update ''last_updated'' (PyFloat (Finite now)) (ks_state k)
     in k\<lparr>ks_state := m, ks_file := Document (PyDict m)\<rparr>)"

fun set_all :: "dict \<Rightarrow> dict \<Rightarrow> dict" where
  "set_all [] m = m"
| "set_all ((k, v) # kvs) m = set_all kvs (AList.update k v m)"

definition is_execution_allowed :: "killswitch \<Rightarrow> bool res" where
  "is_execution_allowed k = (case getitem (ks_state k) ''killswitch_state'' of Inl e \<Rightarrow> Inl e
     | Inr v \<Rightarrow> if hashable v then Inr (v \<in> {PyStr (ks_value DISARMED), PyStr (ks_value ARMED)})
               else Inl (PyError ''TypeError''))"

definition trigger :: "(string \<Rightarrow> string) \<Rightarrow> (pyval \<Rightarrow> string) \<Rightarrow> (pyval \<Rightarrow> string) \<Rightarrow> rat \<Rightarrow> rat \<Rightarrow> string
    \<Rightarrow> string \<Rightarrow> string \<Rightarrow> pyval \<Rightarrow> killswitch \<Rightarrow> string res \<times> killswitch" where
  "trigger H rep dumps now wnow ts reason actor details k =
     (case getitem (ks_state k) ''killswitch_state'' of Inl e \<Rightarrow> (Inl e, k) | Inr v \<Rightarrow>
     (case ks_of v of Inl e \<Rightarrow> (Inl e, k) | Inr cur \<Rightarrow>
        let inc = derive_incident_id H rep reason actor now;
            k1 = persist_killswitch wnow (k\<lparr>ks_state := set_all
               [(''killswitch_state'', PyStr (ks_value TRIGGERED)), (''active_incident_id'', PyStr inc),
                (''trigger_reason'', PyStr reason), (''root_cause_resolved'', PyBool False),
                (''recovery_approved'', PyBool False)] (ks_state k)\<rparr>)
        in (Inr inc, k1\<lparr>ks_trail := incident_append H rep dumps ts (PyStr inc) (ks_value cur) (ks_value TRIGGERED)
               actor reason details (ks_trail k1)\<rparr>)))"

definition attempt_disarm_from_directive :: "killswitch \<Rightarrow> (bool \<times> string option) \<times> killswitch" where
  "attempt_disarm_from_directive k = ((False, Some ''DIRECTIVE_CANNOT_DISABLE_KILLSWITCH''), k)"

definition enter_recovery_pending :: "(string \<Rightarrow> string) \<Rightarrow> (pyval \<Rightarrow> string) \<Rightarrow> (pyval \<Rightarrow> string) \<Rightarrow> rat
    \<Rightarrow> string \<Rightarrow> bool \<Rightarrow> string \<Rightarrow> killswitch \<Rightarrow> (bool \<times> string option) res \<times> killswitch" where
  "enter_recovery_pending H rep dumps wnow ts resolved actor k =
     (case getitem (ks_state k) ''killswitch_state'' of Inl e \<Rightarrow> (Inl e, k) | Inr v \<Rightarrow>
      if v \<noteq> PyStr (ks_value TRIGGERED) then (Inr (False, Some ''KILLSWITCH_NOT_TRIGGERED''), k)
      else if \<not> resolved then (Inr (False, Some ''UNRESOLVED_ROOT_CAUSE_BLOCKS_RECOVERY''), k)
      else (case getitem (ks_state k) ''active_incident_id'' of Inl e \<Rightarrow> (Inl e, k) | Inr i \<Rightarrow>
        let inc = (if truthy i then i else PyStr ''INC-UNKNOWN'');
            k1 = persist_killswitch wnow (k\<lparr>ks_state := set_all
               [(''killswitch_state'', PyStr (ks_value RECOVERY_PENDING)), (''root_cause_resolved'', PyBool True)]
               (ks_state k)\<rparr>)
        in (Inr (True, None), k1\<lparr>ks_trail := incident_append H rep dumps ts inc (ks_value TRIGGERED)
               (ks_value RECOVERY_PENDING) actor ''ROOT_CAUSE_RESOLVED'' PyNone (ks_trail k1)\<rparr>)))"

text \<open>What the resume requires of the approval, once the state and the incident agree.\<close>

definition check_recovery_approval :: "string \<Rightarrow> dict option \<Rightarrow> bool \<Rightarrow> string option" where
  "check_recovery_approval inc appr revalidated = (case appr of
      None \<Rightarrow> Some ''CRITICAL_RECOVERY_REQUIRES_HUMAN''
    | Some m \<Rightarrow> if m = [] \<or> dget m ''state'' \<noteq> PyStr ''APPROVED'' then Some ''CRITICAL_RECOVERY_REQUIRES_HUMAN''
        else if truthy (dget m ''incident_id'') \<and> dget m ''incident_id'' \<noteq> PyStr inc
        then Some ''RECOVERY_APPROVAL_BOUND_TO_INCIDENT''
        else if truthy (dget_or m ''consumed'' (PyBool False)) then Some ''STALE_RECOVERY_APPROVAL_REJECTED''
        else if \<not> revalidated then Some ''FAILED_RECOVERY_VALIDATION_REJECTED'' else None)"

definition execute_controlled_resume :: "(string \<Rightarrow> string) \<Rightarrow> (pyval \<Rightarrow> string) \<Rightarrow> (pyval \<Rightarrow> string) \<Rightarrow> rat
    \<Rightarrow> string \<Rightarrow> string \<Rightarrow> dict option \<Rightarrow> bool \<Rightarrow> string \<Rightarrow> killswitch
    \<Rightarrow> (bool \<times> string option) res \<times> killswitch" where
  "execute_controlled_resume H rep dumps wnow ts inc appr revalidated actor k =
     (case getitem (ks_state k) ''killswitch_state'' of Inl e \<Rightarrow> (Inl e, k) | Inr v \<Rightarrow>
      if v \<noteq> PyStr (ks_value RECOVERY_PENDING) then (Inr (False, Some ''INCONSISTENT_RECOVERY_STATE_REJECTED''), k)
      else (case getitem (ks_state k) ''active_incident_id'' of Inl e \<Rightarrow> (Inl e, k) | Inr i \<Rightarrow>
      if i \<noteq> PyStr inc then (Inr (False, Some ''RECOVERY_APPROVAL_BOUND_TO_INCIDENT''), k)
      else if \<not> truthy (dget_or (ks_state k) ''root_cause_resolved'' (PyBool False))
      then (Inr (False, Some ''UNRESOLVED_ROOT_CAUSE_BLOCKS_RECOVERY''), k)
      else (case check_recovery_approval inc appr revalidated of
          Some why \<Rightarrow> (Inr (False, Some why), k)
        | None \<Rightarrow>
            let k1 = persist_killswitch wnow (k\<lparr>ks_state := set_all
               [(''killswitch_state'', PyStr (ks_value ARMED)), (''active_incident_id'', PyNone),
                (''recovery_approved'', PyBool True)] (ks_state k)\<rparr>)
            in (Inr (True, None), k1\<lparr>ks_trail := incident_append H rep dumps ts (PyStr inc)
                 (ks_value RECOVERY_PENDING) (ks_value ARMED) actor ''CONTROLLED_RESUME_COMPLETE'' PyNone
                 (ks_trail k1)\<rparr>))))"

subsection \<open>Health\<close>

definition evaluate_health :: "rat \<Rightarrow> rat \<Rightarrow> rat option \<Rightarrow> string \<Rightarrow> bool \<Rightarrow> bool \<Rightarrow> bool \<Rightarrow> string option
    \<Rightarrow> HealthState \<times> string option" where
  "evaluate_health max_age now beat wstate audit_ok crypto_ok governance_ok self_reported = (case beat of
      None \<Rightarrow> (UNKNOWN, Some ''STALE_HEARTBEAT_DETECTED'')
    | Some t \<Rightarrow> if now - t > max_age then (CRITICAL, Some ''STALE_HEARTBEAT_DETECTED'')
        else if wstate = ''DEAD'' then (CRITICAL, Some ''DEAD_WORKER_DETECTED'')
        else if wstate = ''FROZEN'' then (CRITICAL, Some ''FROZEN_WORKER_DETECTED'')
        else if \<not> audit_ok then (CRITICAL, Some ''AUDIT_FAILURE_TRIGGERS_KILLSWITCH'')
        else if \<not> crypto_ok then (CRITICAL, Some ''CRYPTO_FAILURE_TRIGGERS_KILLSWITCH'')
        else if \<not> governance_ok then (CRITICAL, Some ''GOVERNANCE_FAILURE_TRIGGERS_KILLSWITCH'')
        else (HEALTHY, None))"

subsection \<open>Controller lease\<close>

record controller =
  ct_id :: string
  ct_ttl :: rat

text \<open>\<open>acquire_or_renew_lease\<close> reads the file, then writes it; an unreadable lease blocks nobody.\<close>

definition lease_blocks :: "string \<Rightarrow> rat \<Rightarrow> jdoc \<Rightarrow> bool" where
  "lease_blocks me now f = (case f of
      Document (PyDict m) \<Rightarrow> dget m ''owner'' \<noteq> PyStr me
         \<and> before now (dget_or m ''expires_at'' (PyInt 0)) = Inr True
    | _ \<Rightarrow> False)"

definition acquire_or_renew_lease :: "controller \<Rightarrow> rat \<Rightarrow> jdoc \<Rightarrow> (bool \<times> string option) \<times> jdoc" where
  "acquire_or_renew_lease c now f =
     (if lease_blocks (ct_id c) now f then ((False, Some ''SPLIT_BRAIN_DETECTED_AND_BLOCKED''), f)
      else ((True, None), Document (PyDict [(''owner'', PyStr (ct_id c)), (''acquired_at'', PyFloat (Finite now)),
         (''expires_at'', PyFloat (Finite (now + ct_ttl c)))])))"

definition is_lease_owner :: "controller \<Rightarrow> rat \<Rightarrow> jdoc \<Rightarrow> bool" where
  "is_lease_owner c now f = (case f of
      Document (PyDict m) \<Rightarrow> dget m ''owner'' = PyStr (ct_id c)
         \<and> before now (dget_or m ''expires_at'' (PyInt 0)) = Inr True
    | _ \<Rightarrow> False)"

end
