(* ===== verification/WatchdogClaims.thy ===== *)
theory WatchdogClaims
  imports Watchdog ApprovalClaims
begin

text \<open>
  What the watchdog promises: the incident trail is a binding chain, the killswitch moves along its own
  automaton with its file always in step, a triggered killswitch blocks execution until a resume that was
  handed a revalidated, unconsumed approval, and the lease of a controller excludes every other one.
\<close>

subsection \<open>The incident trail\<close>

type_synonym incident_event = "pyval \<times> string \<times> string \<times> string \<times> string \<times> string \<times> pyval"

fun incident_vals :: "incident_event \<Rightarrow> pyval list" where
  "incident_vals (inc, f, t, actor, reason, ts, d) = [inc, PyStr f, PyStr t, PyStr actor, PyStr reason, PyStr ts]"

fun incident_details :: "incident_event \<Rightarrow> pyval" where
  "incident_details (inc, f, t, actor, reason, ts, d) = d"

lemma length_incident_vals: "length (incident_vals e) = length incident_keys"
  by (cases e rule: incident_vals.cases) (simp add: incident_keys_def)

interpretation incident_chain: binding_chain H "detail_body rep dumps incident_keys" "''previous_event_hash''" ZEROS
  "\<lambda>ls. records_strict (stripped ls)" "\<lambda>ls. fst (incident_verify H rep dumps (Some ls))"
  "\<lambda>e p. trail_seal H rep dumps incident_keys (incident_vals e, incident_details e) (PyStr p)"
  for H rep dumps
  unfolding incident_verify_def
  by (rule detail_trail_binds) (simp_all add: length_incident_vals, simp_all add: incident_keys_def)

definition incident_sealed :: "(string \<Rightarrow> string) \<Rightarrow> (pyval \<Rightarrow> string) \<Rightarrow> (pyval \<Rightarrow> string) \<Rightarrow> jfile \<Rightarrow> bool" where
  "incident_sealed H rep dumps = sealed (\<lambda>ls. fst (incident_verify H rep dumps (Some ls)))"

lemma incident_append_sealed:
  "incident_sealed H rep dumps f \<Longrightarrow>
    incident_sealed H rep dumps (incident_append H rep dumps ts inc from_st to_st actor reason details f)"
  unfolding incident_sealed_def incident_append_def incident_verify_def
  by (rule detail_append_sealed) (simp_all add: incident_keys_def)

definition incident_logged :: "(string \<Rightarrow> string) \<Rightarrow> (pyval \<Rightarrow> string) \<Rightarrow> (pyval \<Rightarrow> string) \<Rightarrow> jfile \<Rightarrow> jfile \<Rightarrow> bool" where
  "incident_logged H rep dumps f f' \<longleftrightarrow> (\<exists>ts inc x y actor why d. f' = incident_append H rep dumps ts inc x y actor why d f)"

lemma incident_loggedI [simp]: "incident_logged H rep dumps f (incident_append H rep dumps ts inc x y actor why d f)"
  unfolding incident_logged_def by blast

subsection \<open>The killswitch\<close>

text \<open>
  One operation, or a restart from the file; the approvals a resume may be handed are restricted by
  \<open>permit\<close>, which gets the incident, the approval and the result of its revalidation.
\<close>

type_synonym permit = "string \<Rightarrow> dict option \<Rightarrow> bool \<Rightarrow> bool"

inductive ks_step :: "(string \<Rightarrow> string) \<Rightarrow> (pyval \<Rightarrow> string) \<Rightarrow> (pyval \<Rightarrow> string) \<Rightarrow> permit
    \<Rightarrow> killswitch \<Rightarrow> killswitch \<Rightarrow> bool" for H rep dumps permit where
  triggered: "trigger H rep dumps now wnow ts reason actor details k = (r, k') \<Longrightarrow> ks_step H rep dumps permit k k'"
| disarm: "attempt_disarm_from_directive k = (answer, k') \<Longrightarrow> ks_step H rep dumps permit k k'"
| recover: "enter_recovery_pending H rep dumps wnow ts resolved actor k = (ans, k') \<Longrightarrow> ks_step H rep dumps permit k k'"
| resume: "execute_controlled_resume H rep dumps wnow ts inc appr revalidated actor k = (ans, k') \<Longrightarrow>
    permit inc appr revalidated \<Longrightarrow> ks_step H rep dumps permit k k'"
| restart: "ks_step H rep dumps permit k (load_killswitch now (ks_file k) (ks_trail k))"

definition anyone :: permit where
  "anyone = (\<lambda>inc appr revalidated. True)"

definition ks_reachable :: "(string \<Rightarrow> string) \<Rightarrow> (pyval \<Rightarrow> string) \<Rightarrow> (pyval \<Rightarrow> string) \<Rightarrow> killswitch \<Rightarrow> bool" where
  "ks_reachable H rep dumps k \<longleftrightarrow> (\<exists>now. (ks_step H rep dumps anyone)\<^sup>*\<^sup>* (load_killswitch now Absent None) k)"

text \<open>The state the dictionary shows, and the specification of its moves.\<close>

definition ks_shows :: "killswitch \<Rightarrow> KillswitchState \<Rightarrow> bool" where
  "ks_shows k s \<longleftrightarrow> map_of (ks_state k) ''killswitch_state'' = Some (PyStr (ks_value s))"

definition ks_move :: "KillswitchState \<Rightarrow> KillswitchState \<Rightarrow> bool" where
  "ks_move s t \<longleftrightarrow> t = s \<or> t = TRIGGERED \<or> s = TRIGGERED \<and> t = RECOVERY_PENDING \<or> s = RECOVERY_PENDING \<and> t = ARMED"

definition ks_inv :: "(string \<Rightarrow> string) \<Rightarrow> (pyval \<Rightarrow> string) \<Rightarrow> (pyval \<Rightarrow> string) \<Rightarrow> killswitch \<Rightarrow> bool" where
  "ks_inv H rep dumps k \<longleftrightarrow> (\<exists>s. ks_shows k s \<and> s \<noteq> DISARMED
      \<and> (ks_file k = Document (PyDict (ks_state k)) \<or> ks_file k = Absent \<and> s = ARMED))
    \<and> ''active_incident_id'' \<in> dom (map_of (ks_state k)) \<and> incident_sealed H rep dumps (ks_trail k)"

lemma ks_value_inj [simp]: "ks_value s = ks_value t \<longleftrightarrow> s = t"
  by (cases s; cases t) simp_all

lemma ks_of_value [simp]: "ks_of (PyStr (ks_value s)) = Inr s"
  by (cases s) (simp_all add: ks_of_def ks_all_def)

lemma ks_shows_unique: "ks_shows k s \<Longrightarrow> ks_shows k t \<Longrightarrow> s = t"
  by (simp add: ks_shows_def)

lemma allowed_iff: "ks_shows k s \<Longrightarrow> is_execution_allowed k = Inr (s \<in> {DISARMED, ARMED})"
  by (simp add: is_execution_allowed_def getitem_def ks_shows_def del: ks_value.simps)

lemma map_of_set_all: "map_of (set_all kvs m) f = (case map_of (rev kvs) f of None \<Rightarrow> map_of m f | Some v \<Rightarrow> Some v)"
  by (induction kvs m rule: set_all.induct) (auto simp: map_of_AList_update split: option.splits)

text \<open>A write: the new fields in memory and file, one event on the trail.\<close>

definition ks_written :: "(string \<Rightarrow> string) \<Rightarrow> (pyval \<Rightarrow> string) \<Rightarrow> (pyval \<Rightarrow> string) \<Rightarrow> KillswitchState
    \<Rightarrow> killswitch \<Rightarrow> killswitch \<Rightarrow> bool" where
  "ks_written H rep dumps t k k' \<longleftrightarrow> ks_shows k' t \<and> ks_file k' = Document (PyDict (ks_state k'))
    \<and> (''active_incident_id'' \<in> dom (map_of (ks_state k)) \<longrightarrow> ''active_incident_id'' \<in> dom (map_of (ks_state k')))
    \<and> incident_logged H rep dumps (ks_trail k) (ks_trail k')"

lemma ks_write:
  assumes "map_of (rev kvs) ''killswitch_state'' = Some (PyStr (ks_value t))"
  shows "ks_written H rep dumps t k ((persist_killswitch wnow (k\<lparr>ks_state := set_all kvs (ks_state k)\<rparr>))
      \<lparr>ks_trail := incident_append H rep dumps ts inc x y actor why d
         (ks_trail (persist_killswitch wnow (k\<lparr>ks_state := set_all kvs (ks_state k)\<rparr>)))\<rparr>)"
  using assms
  by (auto simp: ks_written_def ks_shows_def persist_killswitch_def Let_def map_of_AList_update map_of_set_all dom_def
      split: option.splits)

lemma ks_written_inv:
  assumes "ks_inv H rep dumps k" and "ks_written H rep dumps t k k'" and "t \<noteq> DISARMED"
  shows "ks_inv H rep dumps k'"
proof -
  have "incident_sealed H rep dumps (ks_trail k')"
    using assms(1,2) incident_append_sealed unfolding ks_inv_def ks_written_def incident_logged_def by metis
  then show ?thesis using assms unfolding ks_inv_def ks_written_def by blast
qed

subsection \<open>Operations\<close>

lemma trigger_cases:
  assumes "trigger H rep dumps now wnow ts reason actor details k = (r, k')"
  obtains "k' = k" and "\<not> (\<exists>s. ks_shows k s)" | "ks_written H rep dumps TRIGGERED k k'"
proof (cases "\<exists>s. ks_shows k s")
  case True
  then obtain s where s: "getitem (ks_state k) ''killswitch_state'' = Inr (PyStr (ks_value s))"
    by (auto simp: ks_shows_def getitem_def)
  have "ks_written H rep dumps TRIGGERED k k'"
    using assms by (auto simp: trigger_def s Let_def simp del: ks_value.simps set_all.simps intro!: ks_write)
  then show ?thesis by (rule that(2))
next
  case False
  have "ks_of v = Inr s \<Longrightarrow> v = PyStr (ks_value s)" for v s
    by (auto simp: ks_of_def find_Some_iff split: pyval.splits option.splits)
  with False assms have "k' = k"
    by (auto simp: trigger_def ks_shows_def getitem_def split: option.splits sum.splits)
  then show ?thesis using False by (rule that(1))
qed

lemma enter_recovery_pending_cases:
  assumes "enter_recovery_pending H rep dumps wnow ts resolved actor k = (r, k')"
  obtains "k' = k" | "ks_shows k TRIGGERED" and "resolved" and "ks_written H rep dumps RECOVERY_PENDING k k'"
proof (cases "ks_shows k TRIGGERED \<and> resolved \<and> ''active_incident_id'' \<in> dom (map_of (ks_state k))")
  case True
  then obtain i where "getitem (ks_state k) ''killswitch_state'' = Inr (PyStr (ks_value TRIGGERED))"
    "getitem (ks_state k) ''active_incident_id'' = Inr i" by (auto simp: ks_shows_def getitem_def)
  with True assms have "ks_written H rep dumps RECOVERY_PENDING k k'"
    by (auto simp: enter_recovery_pending_def Let_def simp del: ks_value.simps set_all.simps intro!: ks_write)
  with True show ?thesis by (intro that(2)) simp_all
next
  case False
  with assms have "k' = k"
    by (auto simp: enter_recovery_pending_def ks_shows_def getitem_def split: option.splits sum.splits if_splits)
  then show ?thesis by (rule that(1))
qed

lemma execute_controlled_resume_cases:
  assumes "execute_controlled_resume H rep dumps wnow ts inc appr revalidated actor k = (r, k')"
  obtains "k' = k" and "r \<noteq> Inr (True, None)" | "ks_shows k RECOVERY_PENDING" and "map_of (ks_state k) ''active_incident_id'' = Some (PyStr inc)"
      and "check_recovery_approval inc appr revalidated = None" and "ks_written H rep dumps ARMED k k'"
proof (cases "ks_shows k RECOVERY_PENDING \<and> map_of (ks_state k) ''active_incident_id'' = Some (PyStr inc)
    \<and> check_recovery_approval inc appr revalidated = None \<and> truthy (dget_or (ks_state k) ''root_cause_resolved'' (PyBool False))")
  case True
  then have "getitem (ks_state k) ''killswitch_state'' = Inr (PyStr (ks_value RECOVERY_PENDING))"
    "getitem (ks_state k) ''active_incident_id'' = Inr (PyStr inc)" by (auto simp: ks_shows_def getitem_def)
  with True assms have "ks_written H rep dumps ARMED k k'"
    by (auto simp: execute_controlled_resume_def Let_def simp del: ks_value.simps set_all.simps intro!: ks_write)
  with True show ?thesis by (intro that(2)) simp_all
next
  case False
  with assms have "k' = k \<and> r \<noteq> Inr (True, None)"
    by (auto simp: execute_controlled_resume_def ks_shows_def getitem_def split: option.splits sum.splits if_splits)
  then show ?thesis by (intro that(1)) simp_all
qed

lemma restart_shows:
  assumes "ks_inv H rep dumps k"
  shows "\<exists>s. ks_shows k s \<and> ks_shows (load_killswitch now (ks_file k) (ks_trail k)) s"
    and "ks_inv H rep dumps (load_killswitch now (ks_file k) (ks_trail k))"
proof -
  from assms obtain s where s: "ks_shows k s" "s \<noteq> DISARMED"
    and doc: "ks_file k = Document (PyDict (ks_state k)) \<or> ks_file k = Absent \<and> s = ARMED" by (auto simp: ks_inv_def)
  from doc s(1) have r: "ks_shows (load_killswitch now (ks_file k) (ks_trail k)) s"
    by (auto simp: load_killswitch_def ks_shows_def armed_default_def)
  with s(1) show "\<exists>s. ks_shows k s \<and> ks_shows (load_killswitch now (ks_file k) (ks_trail k)) s" by blast
  have "''active_incident_id'' \<in> dom (map_of (ks_state (load_killswitch now (ks_file k) (ks_trail k))))"
    using doc assms by (auto simp: load_killswitch_def ks_inv_def armed_default_def)
  moreover have "ks_file (load_killswitch now (ks_file k) (ks_trail k)) =
      Document (PyDict (ks_state (load_killswitch now (ks_file k) (ks_trail k)))) \<or> 
      ks_file (load_killswitch now (ks_file k) (ks_trail k)) = Absent \<and> s = ARMED"
    using doc by (auto simp: load_killswitch_def)
  moreover have "incident_sealed H rep dumps (ks_trail (load_killswitch now (ks_file k) (ks_trail k)))"
    using assms by (simp add: load_killswitch_def ks_inv_def)
  ultimately show "ks_inv H rep dumps (load_killswitch now (ks_file k) (ks_trail k))"
    using r s(2) unfolding ks_inv_def by blast
qed

text \<open>One step: the invariant, the move, and what an exit from \<open>RECOVERY_PENDING\<close> to \<open>ARMED\<close> took.\<close>

lemma ks_step_move:
  assumes "ks_step H rep dumps permit k k'" and "ks_inv H rep dumps k"
  obtains s t where "ks_shows k s" and "ks_shows k' t" and "ks_move s t" and "ks_inv H rep dumps k'"
    and "s \<noteq> ARMED \<Longrightarrow> t = ARMED \<Longrightarrow> \<exists>inc appr rv. permit inc appr rv \<and> check_recovery_approval inc appr rv = None"
proof -
  from assms(2) obtain s where s: "ks_shows k s" "s \<noteq> DISARMED" by (auto simp: ks_inv_def)
  have move: "\<exists>t. ks_shows k' t \<and> ks_move s t \<and> ks_inv H rep dumps k'
    \<and> (s \<noteq> ARMED \<longrightarrow> t = ARMED \<longrightarrow> (\<exists>inc appr rv. permit inc appr rv \<and> check_recovery_approval inc appr rv = None))"
    if "k' = k \<or> ks_written H rep dumps TRIGGERED k k' \<or> s = TRIGGERED \<and> ks_written H rep dumps RECOVERY_PENDING k k'
      \<or> s = RECOVERY_PENDING \<and> ks_written H rep dumps ARMED k k'
         \<and> (\<exists>inc appr rv. permit inc appr rv \<and> check_recovery_approval inc appr rv = None)"
  proof -
    note kinds = that
    have w: "ks_shows k' t \<and> ks_inv H rep dumps k'" if "ks_written H rep dumps t k k'" "t \<noteq> DISARMED" for t
      using ks_written_inv [OF assms(2) that] that(1) by (simp add: ks_written_def)
    consider "k' = k" | "ks_written H rep dumps TRIGGERED k k'" | "s = TRIGGERED" "ks_written H rep dumps RECOVERY_PENDING k k'"
      | "s = RECOVERY_PENDING" "ks_written H rep dumps ARMED k k'" "\<exists>inc appr rv. permit inc appr rv \<and> check_recovery_approval inc appr rv = None"
      using kinds by blast
    then show ?thesis
    proof cases
      case 1
      with s assms(2) show ?thesis by (auto simp: ks_move_def)
    next
      case 2
      with w [OF 2] show ?thesis by (auto simp: ks_move_def)
    next
      case 3
      with w [OF 3(2)] show ?thesis by (auto simp: ks_move_def)
    next
      case 4
      with w [OF 4(2)] show ?thesis by (auto simp: ks_move_def)
    qed
  qed
  have same: "ks_shows k t \<Longrightarrow> t = s" for t using ks_shows_unique s(1) by blast
  have "\<exists>t. ks_shows k' t \<and> ks_move s t \<and> ks_inv H rep dumps k'
    \<and> (s \<noteq> ARMED \<longrightarrow> t = ARMED \<longrightarrow> (\<exists>inc appr rv. permit inc appr rv \<and> check_recovery_approval inc appr rv = None))"
    using assms(1)
  proof cases
    case triggered
    then have "k' = k \<or> ks_written H rep dumps TRIGGERED k k'" by (cases rule: trigger_cases) simp_all
    then show ?thesis by (intro move) blast
  next
    case disarm
    then have "k' = k" by (simp add: attempt_disarm_from_directive_def)
    then show ?thesis by (intro move) blast
  next
    case recover
    then have "k' = k \<or> s = TRIGGERED \<and> ks_written H rep dumps RECOVERY_PENDING k k'"
      by (cases rule: enter_recovery_pending_cases) (use same in blast)+
    then show ?thesis by (intro move) blast
  next
    case (resume wnow ts inc appr rv actor ans)
    from resume(1) have "k' = k \<or> s = RECOVERY_PENDING \<and> ks_written H rep dumps ARMED k k'
        \<and> check_recovery_approval inc appr rv = None"
      by (cases rule: execute_controlled_resume_cases) (use same in blast)+
    with resume(2) show ?thesis by (intro move) blast
  next
    case (restart now)
    with restart_shows [OF assms(2)] same show ?thesis by (auto simp: ks_move_def)
  qed
  with s(1) that show thesis by blast
qed

lemma ks_steps_inv: "(ks_step H rep dumps permit)\<^sup>*\<^sup>* k k' \<Longrightarrow> ks_inv H rep dumps k \<Longrightarrow> ks_inv H rep dumps k'"
  by (induction rule: rtranclp_induct) (auto elim: ks_step_move)

lemma ks_restart_steps: "(ks_step H rep dumps permit)\<^sup>*\<^sup>* k (load_killswitch now (ks_file k) (ks_trail k))"
  by (rule r_into_rtranclp) (rule ks_step.restart)

lemma fresh_killswitch_inv: "ks_inv H rep dumps (load_killswitch now Absent None)"
  by (auto simp: ks_inv_def load_killswitch_def armed_default_def ks_shows_def incident_sealed_def sealed_def
      intro!: exI [of _ ARMED])

lemma ks_reachable_inv: "ks_reachable H rep dumps k \<Longrightarrow> ks_inv H rep dumps k"
  unfolding ks_reachable_def using ks_steps_inv fresh_killswitch_inv by blast


subsection \<open>Properties\<close>

text \<open>A resume that was not handed a revalidated, approved, unconsumed approval for its incident.\<close>

definition unapproved :: permit where
  "unapproved = (\<lambda>inc appr revalidated. \<not> (revalidated \<and> (\<exists>m. appr = Some m \<and> dget m ''state'' = PyStr ''APPROVED''
     \<and> \<not> truthy (dget_or m ''consumed'' (PyBool False))
     \<and> (truthy (dget m ''incident_id'') \<longrightarrow> dget m ''incident_id'' = PyStr inc))))"

lemma unapproved_refused: "unapproved inc appr rv \<Longrightarrow> check_recovery_approval inc appr rv \<noteq> None"
  by (auto simp: unapproved_def check_recovery_approval_def split: option.splits)

lemma blocked_steps:
  assumes "(ks_step H rep dumps unapproved)\<^sup>*\<^sup>* k k'" and "ks_inv H rep dumps k"
    and "ks_shows k s" and "s \<in> {TRIGGERED, RECOVERY_PENDING}"
  shows "\<exists>t \<in> {TRIGGERED, RECOVERY_PENDING}. ks_shows k' t"
  using assms(1)
proof (induction rule: rtranclp_induct)
  case (step y z)
  from step(3) obtain t where t: "t \<in> {TRIGGERED, RECOVERY_PENDING}" "ks_shows y t" by blast
  from ks_steps_inv [OF step(1) assms(2)] obtain t0 u where u: "ks_shows y t0" "ks_shows z u" "ks_move t0 u"
    "t0 \<noteq> ARMED \<Longrightarrow> u = ARMED \<Longrightarrow> \<exists>inc appr rv. unapproved inc appr rv \<and> check_recovery_approval inc appr rv = None"
    using ks_step_move [OF step(2)] by metis
  have "t0 = t" by (rule ks_shows_unique [OF u(1) t(2)])
  moreover have "u \<noteq> ARMED"
    using u(4) t(1) unapproved_refused \<open>t0 = t\<close> by blast
  ultimately have "u \<in> {TRIGGERED, RECOVERY_PENDING}" using u(3) t(1) by (auto simp: ks_move_def)
  with u(2) show ?case by blast
qed (use assms(3,4) in blast)

definition fresh_killswitch :: killswitch where
  "fresh_killswitch = load_killswitch 0 Absent None"

lemma fresh_killswitch_reachable: "ks_reachable H rep dumps fresh_killswitch"
  unfolding ks_reachable_def fresh_killswitch_def by blast

definition sample_trigger :: "string res \<times> killswitch" where
  "sample_trigger = trigger (\<lambda>s. s) (\<lambda>v. []) (\<lambda>v. []) 1 2 ''t'' ''AUDIT'' ''WATCHDOG'' PyNone fresh_killswitch"

lemma sample_triggered: "\<exists>inc. sample_trigger = (Inr inc, snd sample_trigger)"
  by (simp add: sample_trigger_def trigger_def fresh_killswitch_def load_killswitch_def armed_default_def getitem_def
      ks_of_def ks_all_def Let_def)

text \<open>C9. A triggered killswitch blocks execution: from the trigger on, through any operations by anyone,
  any requests to disarm, recovery steps, further triggers and restarts from the file, execution is not
  allowed until a resume is handed an approved, unconsumed and revalidated approval not bound to another
  incident.\<close>

theorem killswitch_blocks:
  assumes "ks_reachable H rep dumps k"
    and "trigger H rep dumps now wnow ts reason actor details k = (Inr inc, k1)"
    and "(ks_step H rep dumps unapproved)\<^sup>*\<^sup>* k1 k2"
  shows "is_execution_allowed k2 = Inr False"
proof -
  have inv: "ks_inv H rep dumps k" by (rule ks_reachable_inv [OF assms(1)])
  from assms(2) have w: "ks_written H rep dumps TRIGGERED k k1"
    by (cases rule: trigger_cases) (use inv in \<open>auto simp: ks_inv_def\<close>)
  then have "ks_shows k1 TRIGGERED" and "ks_inv H rep dumps k1"
    using ks_written_inv [OF inv w] by (simp_all add: ks_written_def)
  with blocked_steps [OF assms(3)] obtain t where "t \<in> {TRIGGERED, RECOVERY_PENDING}" "ks_shows k2 t" by blast
  then show ?thesis by (auto simp: allowed_iff)
qed

theorem killswitch_blocks_witness:
  "is_execution_allowed (load_killswitch 9 (ks_file (snd sample_trigger)) (ks_trail (snd sample_trigger))) = Inr False"
proof -
  obtain inc k1 where run: "sample_trigger = (Inr inc, k1)" using sample_triggered by blast
  show ?thesis unfolding run snd_conv
    by (rule killswitch_blocks [OF fresh_killswitch_reachable run [unfolded sample_trigger_def] ks_restart_steps])
qed

text \<open>C35. The killswitch refines an automaton: every operation and restart of a reachable killswitch stutters,
  triggers, enters recovery from \<open>TRIGGERED\<close> or arms from \<open>RECOVERY_PENDING\<close>; it is never disarmed, what it
  holds is what a restart would load, and the incident trail verifies.\<close>

theorem killswitch_refines:
  assumes "ks_reachable H rep dumps k" and "ks_step H rep dumps anyone k k'"
  shows "\<exists>s t. ks_shows k s \<and> ks_shows k' t \<and> ks_move s t \<and> t \<noteq> DISARMED
    \<and> ks_shows (load_killswitch now (ks_file k') (ks_trail k')) t \<and> fst (incident_verify H rep dumps (ks_trail k'))"
proof -
  from ks_step_move [OF assms(2) ks_reachable_inv [OF assms(1)]] obtain s t
    where move: "ks_shows k s" "ks_shows k' t" "ks_move s t" and inv: "ks_inv H rep dumps k'" by metis
  have "t \<noteq> DISARMED" using inv ks_shows_unique [OF move(2)] by (auto simp: ks_inv_def)
  moreover have "ks_shows (load_killswitch now (ks_file k') (ks_trail k')) t"
    using restart_shows(1) [OF inv] ks_shows_unique [OF move(2)] by metis
  moreover have "fst (incident_verify H rep dumps (ks_trail k'))"
    using inv by (cases "ks_trail k'") (auto simp: ks_inv_def incident_sealed_def sealed_def incident_verify_def trail_verify_def)
  ultimately show ?thesis using move by blast
qed

theorem killswitch_refines_witness:
  "\<exists>s t. ks_shows fresh_killswitch s \<and> ks_shows (snd sample_trigger) t \<and> ks_move s t \<and> t \<noteq> DISARMED
    \<and> ks_shows (load_killswitch 9 (ks_file (snd sample_trigger)) (ks_trail (snd sample_trigger))) t
    \<and> fst (incident_verify (\<lambda>s. s) (\<lambda>v. []) (\<lambda>v. []) (ks_trail (snd sample_trigger)))"
proof -
  have "ks_step (\<lambda>s. s) (\<lambda>v. []) (\<lambda>v. []) anyone fresh_killswitch (snd sample_trigger)"
    unfolding sample_trigger_def by (rule ks_step.triggered) (rule prod.collapse [symmetric])
  from killswitch_refines [OF fresh_killswitch_reachable this] show ?thesis .
qed

text \<open>
  The transition table of the module is not the automaton: it has no \<open>ARMED\<close> after \<open>RECOVERY_PENDING\<close>, which
  a resume enters, and it has \<open>DISARMED\<close>, which nothing enters. And since the records of the approval engine
  carry no incident, the resume's binding of an approval to its incident never applies to them: an
  approved request resumes every incident.
\<close>

lemma resume_outside_table:
  "ks_move RECOVERY_PENDING ARMED \<and> ARMED \<notin> set (VALID_KILLSWITCH_TRANSITIONS RECOVERY_PENDING)"
  by (simp add: ks_move_def)

lemma approval_resumes_any_incident:
  "check_recovery_approval inc (Some (enter_approval_state now APPROVED (Some p)
      (request_record aid did cap ph target risk created ttl))) True = None"
  by (simp add: check_recovery_approval_def enter_approval_state_def request_record_def dget_def dget_or_def)

subsection \<open>The controller lease\<close>

fun lease_run :: "(controller \<times> rat) list \<Rightarrow> jdoc \<Rightarrow> jdoc" where
  "lease_run [] f = f"
| "lease_run ((c, now) # cs) f = lease_run cs (snd (acquire_or_renew_lease c now f))"

definition held_until :: "string \<Rightarrow> rat \<Rightarrow> jdoc \<Rightarrow> bool" where
  "held_until me x f \<longleftrightarrow> (\<exists>m y. f = Document (PyDict m) \<and> map_of m ''owner'' = Some (PyStr me)
     \<and> map_of m ''expires_at'' = Some (PyFloat (Finite y)) \<and> x \<le> y)"

lemma acquired_held: "acquire_or_renew_lease c now f = ((True, None), g) \<Longrightarrow> held_until (ct_id c) (now + ct_ttl c) g"
  by (auto simp: acquire_or_renew_lease_def held_until_def split: if_splits)

lemma held_excludes:
  assumes "held_until me x f" and "now < x"
  shows "ct_id c \<noteq> me \<Longrightarrow> acquire_or_renew_lease c now f = ((False, Some ''SPLIT_BRAIN_DETECTED_AND_BLOCKED''), f)"
    and "is_lease_owner c now f \<longleftrightarrow> ct_id c = me"
  using assms
  by (auto simp: held_until_def acquire_or_renew_lease_def lease_blocks_def is_lease_owner_def dget_def dget_or_def)

lemma held_run:
  assumes "\<forall>(c, t) \<in> set cs. t < x \<and> (ct_id c = me \<longrightarrow> x \<le> t + ct_ttl c)" and "held_until me x f"
  shows "held_until me x (lease_run cs f)"
  using assms
proof (induction cs f rule: lease_run.induct)
  case (2 c now cs f)
  have "held_until me x (snd (acquire_or_renew_lease c now f))"
  proof (cases "ct_id c = me")
    case True
    then have "\<not> lease_blocks (ct_id c) now f" using "2.prems"(2) by (auto simp: held_until_def lease_blocks_def dget_def)
    with True "2.prems"(1) show ?thesis by (auto simp: acquire_or_renew_lease_def held_until_def)
  next
    case False
    with held_excludes(1) [OF "2.prems"(2), of now c] "2.prems" show ?thesis by simp
  qed
  with "2.IH" "2.prems"(1) show ?case by simp
qed simp

text \<open>One controller at a time: a lease acquired at \<open>now\<close> holds for its whole time, whatever the other
  controllers attempt and however often the owner renews; until then every other controller is refused,
  and the owner is the only one that sees itself as owner.\<close>

theorem lease_excludes:
  assumes "acquire_or_renew_lease c now f = ((True, None), g)"
    and "\<forall>(d, t) \<in> set cs. now \<le> t \<and> t < now + ct_ttl c \<and> (ct_id d = ct_id c \<longrightarrow> d = c)"
    and "t < now + ct_ttl c"
  shows "(ct_id d \<noteq> ct_id c \<longrightarrow> acquire_or_renew_lease d t (lease_run cs g)
        = ((False, Some ''SPLIT_BRAIN_DETECTED_AND_BLOCKED''), lease_run cs g))
    \<and> (is_lease_owner d t (lease_run cs g) \<longleftrightarrow> ct_id d = ct_id c)"
proof -
  have "held_until (ct_id c) (now + ct_ttl c) (lease_run cs g)"
    by (rule held_run [OF _ acquired_held [OF assms(1)]]) (use assms(2) in fastforce)
  from held_excludes [OF this assms(3)] show ?thesis by blast
qed

theorem lease_excludes_witness:
  "let a = \<lparr>ct_id = ''A'', ct_ttl = 30\<rparr>; b = \<lparr>ct_id = ''B'', ct_ttl = 30\<rparr>;
       g = snd (acquire_or_renew_lease a 0 Absent)
   in fst (acquire_or_renew_lease b 20 (lease_run [(b, 5), (a, 10)] g)) = (False, Some ''SPLIT_BRAIN_DETECTED_AND_BLOCKED'')"
proof -
  let ?a = "\<lparr>ct_id = ''A'', ct_ttl = 30\<rparr>" and ?b = "\<lparr>ct_id = ''B'', ct_ttl = 30\<rparr>"
  have "acquire_or_renew_lease ?a 0 Absent = ((True, None), snd (acquire_or_renew_lease ?a 0 Absent))"
    by (simp add: acquire_or_renew_lease_def lease_blocks_def)
  from lease_excludes [OF this, of "[(?b, 5), (?a, 10)]" 20 ?b] show ?thesis
    unfolding Let_def by (simp del: lease_run.simps)
qed

end
