(* ===== verification/Capability.thy ===== *)
theory Capability
  imports Approval
begin

text \<open>
  \<open>src/directive/capability_policy.py\<close>: the closed allowlist, path and risk checks, the authorization
  token, the audit trail of decisions and the evaluation itself. \<open>resolve\<close> is \<open>Path.resolve\<close> on a joined
  path (or the text of the exception it raises) and \<open>dumps\<close> is \<open>json.dumps(.., sort_keys=True)\<close>.
\<close>

subsection \<open>Policy\<close>

datatype RiskClass = READ_ONLY | LOW_RISK_WRITE | CONTROLLED_WRITE | CRITICAL

fun rc_value :: "RiskClass \<Rightarrow> string" where
  "rc_value READ_ONLY = ''READ_ONLY''"
| "rc_value LOW_RISK_WRITE = ''LOW_RISK_WRITE''"
| "rc_value CONTROLLED_WRITE = ''CONTROLLED_WRITE''"
| "rc_value CRITICAL = ''CRITICAL''"

datatype ptype = TStr | TInt

text \<open>\<open>isinstance(v, t)\<close>; a \<open>bool\<close> is an \<open>int\<close>.\<close>

fun is_instance :: "ptype \<Rightarrow> pyval \<Rightarrow> bool" where
  "is_instance TStr v = (as_str v \<noteq> None)"
| "is_instance TInt v = py_isint v"

record capability =
  ca_directive_type :: string
  ca_operation :: string
  ca_targets :: "string list"
  ca_risk :: RiskClass
  ca_human :: bool
  ca_schema :: "(string \<times> ptype) list"

definition CAPABILITY_ALLOWLIST :: "(string \<times> capability) list" where
  "CAPABILITY_ALLOWLIST =
    [(''CAP-GIT-STATUS'', \<lparr>ca_directive_type = ''READ_ONLY_STATUS'', ca_operation = ''git_status'',
        ca_targets = [''AI-CONTROL-PLANE'', ''Oracle'', ''Micro''], ca_risk = READ_ONLY, ca_human = False,
        ca_schema = []\<rparr>),
     (''CAP-GIT-FETCH'', \<lparr>ca_directive_type = ''READ_ONLY_FETCH'', ca_operation = ''git_fetch'',
        ca_targets = [''AI-CONTROL-PLANE''], ca_risk = READ_ONLY, ca_human = False,
        ca_schema = [(''remote'', TStr)]\<rparr>),
     (''CAP-QUEUE-RECONCILE'', \<lparr>ca_directive_type = ''LOW_RISK_RECONCILE'', ca_operation = ''queue_reconcile'',
        ca_targets = [''AI-CONTROL-PLANE''], ca_risk = LOW_RISK_WRITE, ca_human = False,
        ca_schema = [(''queue_file'', TStr)]\<rparr>),
     (''CAP-RISK-LIMIT-UPDATE'', \<lparr>ca_directive_type = ''CRITICAL_CONFIG_UPDATE'', ca_operation = ''update_risk_limit'',
        ca_targets = [''AI-CONTROL-PLANE''], ca_risk = CRITICAL, ca_human = True,
        ca_schema = [(''max_limit'', TInt), (''reason'', TStr)]\<rparr>)]"

definition FORBIDDEN_WILDCARDS :: "string list" where
  "FORBIDDEN_WILDCARDS = [''*'', ''ANY'', ''ALL'', ''shell'', ''arbitrary_command'', ''exec'', ''eval'']"

text \<open>\<open>SHELL_METACHARS_PATTERN.search(s)\<close>.\<close>

definition has_metachar :: "string \<Rightarrow> bool" where
  "has_metachar s = list_ex (\<lambda>c. c \<in> set (CHR 0x60 # CHR 0x5C # '';&|$><()'')) s"

definition FORBIDDEN_PRIVILEGE_KEYWORDS :: "string list" where
  "FORBIDDEN_PRIVILEGE_KEYWORDS = [''sudo'', ''admin'', ''root'', ''chmod'', ''chown'', ''password'', ''secret'',
     ''disable_security'', ''override_governance'', ''bypass_policy'']"

definition sanitize_and_resolve_path :: "(string \<Rightarrow> string \<Rightarrow> string + string) \<Rightarrow> pyval \<Rightarrow> string
    \<Rightarrow> bool \<times> string option \<times> string option" where
  "sanitize_and_resolve_path resolve raw base = (case raw of
      PyStr s \<Rightarrow> if s = [] then (False, None, Some ''INVALID_PATH_TYPE'')
        else if contains s ''..'' \<or> has_metachar s then (False, None, Some ''PATH_TRAVERSAL_REJECTED'')
        else (case resolve base [] of
            Inl e \<Rightarrow> (False, None, Some (''PATH_RESOLUTION_ERROR: '' @ e))
          | Inr auth \<Rightarrow> (case resolve base s of
              Inl e \<Rightarrow> (False, None, Some (''PATH_RESOLUTION_ERROR: '' @ e))
            | Inr p \<Rightarrow> if \<not> prefix auth p then (False, None, Some ''ABSOLUTE_OUT_OF_SCOPE_PATH_REJECTED'')
                else (True, Some p, None)))
    | _ \<Rightarrow> (False, None, Some ''INVALID_PATH_TYPE''))"

definition derive_risk_class :: "string \<Rightarrow> string option \<Rightarrow> RiskClass \<times> bool" where
  "derive_risk_class cap self_declared = (case map_of CAPABILITY_ALLOWLIST cap of
      None \<Rightarrow> (CRITICAL, False)
    | Some c \<Rightarrow> (ca_risk c, case self_declared of None \<Rightarrow> True | Some s \<Rightarrow> s = [] \<or> s = rc_value (ca_risk c)))"

subsection \<open>Tokens\<close>

record auth_token =
  at_directive_id :: string
  at_capability_id :: string
  at_parameter_hash :: string
  at_target :: string
  at_risk_class :: string
  at_approval_id :: pyval
  at_created_at :: rat
  at_token_hash :: string

definition token_text :: "(pyval \<Rightarrow> string) \<Rightarrow> string \<Rightarrow> string \<Rightarrow> string \<Rightarrow> string \<Rightarrow> string \<Rightarrow> pyval \<Rightarrow> rat \<Rightarrow> string" where
  "token_text rep did cap ph target risk appr created =
     join '':'' [did, cap, ph, target, risk, fmt rep appr, fmt rep (PyFloat (Finite created))]"

definition new_token :: "(string \<Rightarrow> string) \<Rightarrow> (pyval \<Rightarrow> string) \<Rightarrow> rat \<Rightarrow> string \<Rightarrow> string \<Rightarrow> string \<Rightarrow> string
    \<Rightarrow> RiskClass \<Rightarrow> pyval \<Rightarrow> auth_token" where
  "new_token H rep now did cap ph target risk appr = \<lparr>at_directive_id = did, at_capability_id = cap,
     at_parameter_hash = ph, at_target = target, at_risk_class = rc_value risk, at_approval_id = appr,
     at_created_at = now, at_token_hash = H (token_text rep did cap ph target (rc_value risk) appr now)\<rparr>"

definition token_is_valid :: "rat \<Rightarrow> rat \<Rightarrow> string \<Rightarrow> string \<Rightarrow> auth_token \<Rightarrow> bool" where
  "token_is_valid max_age now did ph t = (if at_directive_id t \<noteq> did \<or> at_parameter_hash t \<noteq> ph then False
     else if now - at_created_at t > max_age then False else True)"

subsection \<open>Decision trail\<close>

definition decision_keys :: "string list" where
  "decision_keys = [''directive_id'', ''capability_id'', ''requested_target'', ''parameter_hash'', ''derived_risk_class'',
     ''human_approval_required'', ''approval_id'', ''authorized'', ''rejection_reason'', ''timestamp'']"

definition decision_seal :: "(string \<Rightarrow> string) \<Rightarrow> (pyval \<Rightarrow> string) \<Rightarrow> pyval list \<Rightarrow> pyval \<Rightarrow> dict" where
  "decision_seal H rep vs prev = zip decision_keys vs @
     [(''previous_event_hash'', prev), (''event_hash'', PyStr (H (join '':'' (map (fmt rep) vs @ [fmt rep prev]))))]"

definition append_decision :: "(string \<Rightarrow> string) \<Rightarrow> (pyval \<Rightarrow> string) \<Rightarrow> string \<Rightarrow> string \<Rightarrow> string \<Rightarrow> string \<Rightarrow> string
    \<Rightarrow> string \<Rightarrow> bool \<Rightarrow> pyval \<Rightarrow> bool \<Rightarrow> string option \<Rightarrow> jfile \<Rightarrow> dict \<times> jfile" where
  "append_decision H rep ts did cap target ph risk human appr ok why f =
     (let m = decision_seal H rep [PyStr did, PyStr cap, PyStr target, PyStr ph, PyStr risk, PyBool human, appr,
           PyBool ok, opt_str why, PyStr ts] (trail_prev f)
      in (m, append_line m f))"

fun decision_verify_loop :: "(string \<Rightarrow> string) \<Rightarrow> (pyval \<Rightarrow> string) \<Rightarrow> string \<Rightarrow> jline list \<Rightarrow> bool \<times> string option" where
  "decision_verify_loop H rep p [] = (True, None)"
| "decision_verify_loop H rep p (Blank # ls) = decision_verify_loop H rep p ls"
| "decision_verify_loop H rep p (Malformed e # ls) = (False, Some (''VERIFICATION_ERROR: '' @ e))"
| "decision_verify_loop H rep p (Json v # ls) = (case v of
      PyDict m \<Rightarrow>
        if dget m ''previous_event_hash'' \<noteq> PyStr p then (False, Some ''PREVIOUS_EVENT_HASH_TAMPER_DETECTED'')
        else (case field_texts rep m decision_keys of
            Inl e \<Rightarrow> (False, Some (''VERIFICATION_ERROR: '' @ e))
          | Inr fs \<Rightarrow> if dget m ''event_hash'' \<noteq> PyStr (H (join '':'' (fs @ [p])))
              then (False, Some ''EVENT_HASH_TAMPER_DETECTED'')
              else decision_verify_loop H rep (H (join '':'' (fs @ [p]))) ls)
    | _ \<Rightarrow> (False, Some (''VERIFICATION_ERROR: '' @ no_get v)))"

definition decision_verify :: "(string \<Rightarrow> string) \<Rightarrow> (pyval \<Rightarrow> string) \<Rightarrow> jfile \<Rightarrow> bool \<times> string option" where
  "decision_verify H rep f = (case f of None \<Rightarrow> (True, None)
     | Some ls \<Rightarrow> decision_verify_loop H rep ZEROS (stripped ls))"

subsection \<open>Evaluation\<close>

text \<open>The checks on one parameter; \<open>None\<close> lets it through.\<close>

definition check_parameter :: "(string \<times> ptype) list \<Rightarrow> string \<Rightarrow> pyval \<Rightarrow> string option" where
  "check_parameter schema name v = (case map_of schema name of
      None \<Rightarrow> Some ''UNKNOWN_PARAMETER_REJECTED''
    | Some t \<Rightarrow> if \<not> is_instance t v then Some ''INVALID_PARAMETER_TYPE_REJECTED''
        else (case v of
            PyStr s \<Rightarrow> if has_metachar s then Some ''SHELL_INJECTION_REJECTED''
              else if contains s ''..'' then Some ''PATH_TRAVERSAL_REJECTED''
              else if list_ex (\<lambda>kw. contains (lower s) kw) FORBIDDEN_PRIVILEGE_KEYWORDS
              then Some ''PRIVILEGE_ESCALATION_REJECTED''
              else if name = ''remote'' \<and> \<not> (s = ''origin'' \<or> s = ''upstream'' \<or> prefix ''refs/heads/'' s)
              then Some ''UNAUTHORIZED_REMOTE_REJECTED'' else None
          | _ \<Rightarrow> None))"

fun check_parameters :: "(string \<times> ptype) list \<Rightarrow> dict \<Rightarrow> string option" where
  "check_parameters schema [] = None"
| "check_parameters schema ((k, v) # ps) = (case check_parameter schema k v of
      Some why \<Rightarrow> Some why | None \<Rightarrow> check_parameters schema ps)"

text \<open>
  The human approval of a critical capability: \<open>Inl\<close> a refusal, \<open>Inr\<close> the approval's identifier. The
  record under \<open>rec\<close> is revalidated only when there is one.
\<close>

definition check_human_approval :: "(pyval \<Rightarrow> string) \<Rightarrow> rat \<Rightarrow> dict option \<Rightarrow> string \<Rightarrow> string \<Rightarrow> string \<Rightarrow> string
    \<Rightarrow> RiskClass \<Rightarrow> (string option + pyval) res" where
  "check_human_approval rep now data did cap ph target risk = (case data of
      None \<Rightarrow> Inr (Inl (Some ''MISSING_HUMAN_APPROVAL_BLOCKED''))
    | Some h \<Rightarrow> if h = [] then Inr (Inl (Some ''MISSING_HUMAN_APPROVAL_BLOCKED'')) else
      (case (if \<not> truthy (dget h ''rec'') then Inr (True, None)
             else (case dget h ''rec'' of
                 PyDict m \<Rightarrow> revalidate_approval rep now (Some m) did cap ph target (rc_value risk)
               | _ \<Rightarrow> Inl (PyError ''AttributeError''))) of
         Inl e \<Rightarrow> Inl e
       | Inr (ok, why) \<Rightarrow> if \<not> ok then Inr (Inl why)
           else if dget h ''directive_id'' \<noteq> PyStr did then Inr (Inl (Some ''APPROVAL_SCOPE_BOUND_TO_ACTION''))
           else if dget h ''parameter_hash'' \<noteq> PyStr ph then Inr (Inl (Some ''APPROVAL_SCOPE_BOUND_TO_PARAMETERS''))
           else Inr (Inr (dget h ''approval_id''))))"

definition evaluate_execution_authorization :: "(string \<Rightarrow> string) \<Rightarrow> (pyval \<Rightarrow> string) \<Rightarrow> (pyval \<Rightarrow> string) \<Rightarrow> rat
    \<Rightarrow> rat \<Rightarrow> string \<Rightarrow> string \<Rightarrow> string \<Rightarrow> dict \<Rightarrow> string \<Rightarrow> dict option \<Rightarrow> string option \<Rightarrow> jfile option
    \<Rightarrow> (bool \<times> auth_token option \<times> string option) res \<times> jfile option" where
  "evaluate_execution_authorization H rep dumps now tnow ts did cap params target data self_declared trail =
     (if did = [] \<or> cap = [] then (Inr (False, None, Some ''DENY_BY_DEFAULT_MISSING_IDENTIFIER''), trail)
      else if cap \<in> set FORBIDDEN_WILDCARDS then (Inr (False, None, Some ''WILDCARD_CAPABILITY_REJECTED''), trail)
      else (case map_of CAPABILITY_ALLOWLIST cap of
          None \<Rightarrow> (Inr (False, None, Some ''UNKNOWN_CAPABILITY_REJECTED''), trail)
        | Some c \<Rightarrow>
      if length (dumps (PyDict params)) > 65536 then (Inr (False, None, Some ''OVERSIZED_INPUT_REJECTED''), trail)
      else (case check_parameters (ca_schema c) params of
          Some why \<Rightarrow> (Inr (False, None, Some why), trail)
        | None \<Rightarrow>
      if \<not> list_all (\<lambda>k. k \<in> fst ` set params) (map fst (ca_schema c))
      then (Inr (False, None, Some ''STRICT_PARAMETER_SCHEMA_ENFORCED''), trail)
      else if target \<notin> set (ca_targets c) then (Inr (False, None, Some ''OUT_OF_SCOPE_TARGET_REJECTED''), trail)
      else if \<not> snd (derive_risk_class cap self_declared)
      then (Inr (False, None, Some ''SELF_DECLARED_LOW_RISK_BYPASS_REJECTED''), trail)
      else let risk = fst (derive_risk_class cap self_declared); ph = H (dumps (PyDict params)) in
      (case (if ca_human c \<or> risk = CRITICAL then check_human_approval rep now data did cap ph target risk
             else Inr (Inr PyNone)) of
          Inl e \<Rightarrow> (Inl e, trail)
        | Inr (Inl why) \<Rightarrow> (Inr (False, None, why), trail)
        | Inr (Inr appr) \<Rightarrow> (Inr (True, Some (new_token H rep tnow did cap ph target risk appr), None),
            map_option (\<lambda>f. snd (append_decision H rep ts did cap target ph (rc_value risk) (ca_human c) appr True None f))
              trail)))))"

end
