(* ===== verification/CapabilityClaims.thy ===== *)
theory CapabilityClaims
  imports Capability ApprovalClaims
begin

text \<open>
  What the capability policy promises: its decision trail is a binding chain, and whatever it authorises
  is inside the allowlist, with exactly the parameters of the schema, on a target in scope, bound to the
  approval of a critical capability, and recorded.
\<close>

subsection \<open>The decision trail\<close>

definition decision_body :: "(pyval \<Rightarrow> string) \<Rightarrow> string \<Rightarrow> dict \<Rightarrow> string option" where
  "decision_body rep p m = (case field_texts rep m decision_keys of Inl e \<Rightarrow> None | Inr fs \<Rightarrow> Some (join '':'' (fs @ [p])))"

lemma decision_verify_loop_iff:
  "fst (decision_verify_loop H rep p ls) \<longleftrightarrow>
    (\<exists>ms. records_skip ls = Some ms \<and> chained H (decision_body rep) ''previous_event_hash'' p ms)"
proof (induction H rep p ls rule: decision_verify_loop.induct)
  case (4 H rep p v ls)
  show ?case
  proof (cases v)
    case (PyDict m)
    show ?thesis
    proof (cases "dget m ''previous_event_hash'' = PyStr p")
      case prev: True
      show ?thesis
      proof (cases "field_texts rep m decision_keys")
        case (Inr fs)
        let ?h = "H (join '':'' (fs @ [p]))"
        show ?thesis
        proof (cases "dget m ''event_hash'' = PyStr ?h")
          case True
          have neg: "\<not> dget m ''previous_event_hash'' \<noteq> PyStr p" "\<not> dget m ''event_hash'' \<noteq> PyStr ?h"
            using prev True by simp_all
          show ?thesis using 4 [OF PyDict neg(1) Inr neg(2)]
            by (auto simp: PyDict prev Inr True decision_body_def)
        qed (auto simp: PyDict prev Inr decision_body_def)
      qed (auto simp: PyDict prev decision_body_def)
    qed (auto simp: PyDict)
  qed auto
qed simp_all

lemma decision_verify_iff:
  "fst (decision_verify H rep (Some ls)) \<longleftrightarrow> (\<exists>ms. records_skip (stripped ls) = Some ms
    \<and> chained H (decision_body rep) ''previous_event_hash'' ZEROS ms)"
  by (simp add: decision_verify_def decision_verify_loop_iff)

lemma decision_body_suffix: "decision_body rep p m = Some b \<Longrightarrow> suffix p b"
  by (auto simp: decision_body_def suffix_join split: sum.splits)

type_synonym decision = "pyval list"

text \<open>A decision has one value per key; the events of the chain are made such lists.\<close>

definition decision_vals :: "decision \<Rightarrow> pyval list" where
  "decision_vals vs = (if length vs = length decision_keys then vs else map (\<lambda>k. PyNone) decision_keys)"

lemma length_decision_vals: "length (decision_vals vs) = length decision_keys"
  by (simp add: decision_vals_def)

lemma decision_seal_hashes:
  assumes "length vs = length decision_keys"
  shows "dget (decision_seal H rep vs (PyStr p)) ''previous_event_hash'' = PyStr p"
    and "\<exists>b. decision_body rep p (decision_seal H rep vs (PyStr p)) = Some b
      \<and> dget (decision_seal H rep vs (PyStr p)) ''event_hash'' = PyStr (H b)"
proof -
  have keys: "distinct decision_keys" "''previous_event_hash'' \<notin> set decision_keys" "''event_hash'' \<notin> set decision_keys"
    by (simp_all add: decision_keys_def)
  show "dget (decision_seal H rep vs (PyStr p)) ''previous_event_hash'' = PyStr p"
    by (simp add: decision_seal_def dget_def map_of_zip_skip keys del: map_of_append)
  show "\<exists>b. decision_body rep p (decision_seal H rep vs (PyStr p)) = Some b
      \<and> dget (decision_seal H rep vs (PyStr p)) ''event_hash'' = PyStr (H b)"
    by (simp add: decision_seal_def dget_def map_of_zip_skip keys decision_body_def field_texts_zip assms del: map_of_append)
qed

interpretation decision_chain: binding_chain H "decision_body rep" "''previous_event_hash''" ZEROS
  "\<lambda>ls. records_skip (stripped ls)" "\<lambda>ls. fst (decision_verify H rep (Some ls))"
  "\<lambda>e p. decision_seal H rep (decision_vals e) (PyStr p)"
  for H rep
proof (unfold_locales, goal_cases)
  case (1 ls)
  show ?case by (rule decision_verify_iff)
next
  case (2 ls ms m)
  then show ?case by (rule skip_parse_snoc)
next
  case (3 e p)
  show ?case by (rule decision_seal_hashes(1) [OF length_decision_vals])
next
  case (4 p e)
  show ?case by (rule decision_seal_hashes(2) [OF length_decision_vals])
next
  case 5
  show ?case by (rule binds_prev_if_suffix) (rule decision_body_suffix)
qed

definition decision_sealed :: "(string \<Rightarrow> string) \<Rightarrow> (pyval \<Rightarrow> string) \<Rightarrow> jfile \<Rightarrow> bool" where
  "decision_sealed H rep = sealed (\<lambda>ls. fst (decision_verify H rep (Some ls)))"

lemma append_decision_sealed:
  assumes "decision_sealed H rep f"
  shows "decision_sealed H rep (snd (append_decision H rep ts did cap target ph risk human appr ok why f))"
proof -
  let ?vs = "[PyStr did, PyStr cap, PyStr target, PyStr ph, PyStr risk, PyBool human, appr, PyBool ok, opt_str why, PyStr ts]"
  have vs: "decision_vals ?vs = ?vs" by (simp add: decision_vals_def decision_keys_def)
  have "sealed (\<lambda>ls. fst (decision_verify H rep (Some ls))) (append_line (decision_seal H rep ?vs (trail_prev f)) f)"
  proof (rule decision_chain.sealed_append [where e = ?vs], goal_cases)
    case 1
    show ?case using assms by (simp add: decision_sealed_def)
  next
    case (2 ls ms)
    then show ?case using skip_records_prev [OF 2(2-4)] vs by simp
  next
    case 3
    then show ?case using vs by (simp add: trail_prev_def)
  next
    case 4
    show ?case by (simp add: stripped_def)
  qed
  then show ?thesis by (simp add: append_decision_def decision_sealed_def Let_def)
qed

subsection \<open>Parameters\<close>

definition clean_text :: "string \<Rightarrow> bool" where
  "clean_text s \<longleftrightarrow> \<not> has_metachar s \<and> \<not> contains s ''..''
     \<and> (\<forall>kw \<in> set FORBIDDEN_PRIVILEGE_KEYWORDS. \<not> contains (lower s) kw)"

lemma check_parameter_None:
  "check_parameter schema k v = None \<Longrightarrow> \<exists>t. map_of schema k = Some t \<and> is_instance t v \<and> (\<forall>s. v = PyStr s \<longrightarrow> clean_text s)"
  by (auto simp: check_parameter_def clean_text_def list_ex_iff split: option.splits if_splits pyval.splits)

lemma check_parameters_None:
  "check_parameters schema ps = None \<Longrightarrow>
    \<forall>(k, v) \<in> set ps. \<exists>t. map_of schema k = Some t \<and> is_instance t v \<and> (\<forall>s. v = PyStr s \<longrightarrow> clean_text s)"
proof (induction schema ps rule: check_parameters.induct)
  case (2 schema k v ps)
  then show ?case using check_parameter_None [of schema k v] by (auto split: option.splits)
qed simp

lemma check_human_approval_ok:
  assumes "check_human_approval rep now data did cap ph target risk = Inr (Inr appr)"
  shows "\<exists>h. data = Some h \<and> dget h ''directive_id'' = PyStr did \<and> dget h ''parameter_hash'' = PyStr ph
    \<and> dget h ''approval_id'' = appr
    \<and> (truthy (dget h ''rec'') \<longrightarrow> (\<exists>m why. dget h ''rec'' = PyDict m
        \<and> revalidate_approval rep now (Some m) did cap ph target (rc_value risk) = Inr (True, why)))"
proof (cases data)
  case (Some h)
  show ?thesis
  proof (cases "truthy (dget h ''rec'')")
    case False
    with assms Some show ?thesis by (auto simp: check_human_approval_def split: if_splits)
  next
    case True
    with assms Some show ?thesis
      by (cases "dget h ''rec''")
         (auto simp: check_human_approval_def split: if_splits sum.splits)
  qed
qed (use assms in \<open>simp add: check_human_approval_def\<close>)

text \<open>What an authorisation went through.\<close>

lemma authorised_cases:
  assumes "evaluate_execution_authorization H rep dumps now tnow ts did cap params target data self trail
      = (Inr (True, tok, why), trail')"
  obtains c appr where "map_of CAPABILITY_ALLOWLIST cap = Some c" and "\<not> length (dumps (PyDict params)) > 65536"
    and "check_parameters (ca_schema c) params = None" and "list_all (\<lambda>k. k \<in> fst ` set params) (map fst (ca_schema c))"
    and "target \<in> set (ca_targets c)" and "snd (derive_risk_class cap self)"
    and "(if ca_human c \<or> fst (derive_risk_class cap self) = CRITICAL
           then check_human_approval rep now data did cap (H (dumps (PyDict params))) target (fst (derive_risk_class cap self))
           else Inr (Inr PyNone)) = Inr (Inr appr)"
    and "tok = Some (new_token H rep tnow did cap (H (dumps (PyDict params))) target (fst (derive_risk_class cap self)) appr)"
    and "trail' = map_option (\<lambda>f. snd (append_decision H rep ts did cap target (H (dumps (PyDict params)))
            (rc_value (fst (derive_risk_class cap self))) (ca_human c) appr True None f)) trail"
proof -
  note run0 = assms [unfolded evaluate_execution_authorization_def]
  have g1: "\<not> (did = [] \<or> cap = [])" and g2: "cap \<notin> set FORBIDDEN_WILDCARDS" using run0 by (auto split: if_splits)
  note run1 = run0 [unfolded if_not_P [OF g1] if_not_P [OF g2]]
  obtain c where c: "map_of CAPABILITY_ALLOWLIST cap = Some c" using run1 by (cases "map_of CAPABILITY_ALLOWLIST cap") auto
  note run2 = run1 [unfolded c option.case]
  have g3: "\<not> length (dumps (PyDict params)) > 65536" using run2 by (auto split: if_splits)
  note run3 = run2 [unfolded if_not_P [OF g3]]
  have g4: "check_parameters (ca_schema c) params = None" using run3 by (cases "check_parameters (ca_schema c) params") auto
  note run4 = run3 [unfolded g4 option.case]
  have g5: "\<not> \<not> list_all (\<lambda>k. k \<in> fst ` set params) (map fst (ca_schema c))" using run4 by (auto split: if_splits)
  note run5 = run4 [unfolded if_not_P [OF g5]]
  have g6: "\<not> target \<notin> set (ca_targets c)" using run5 by (auto split: if_splits)
  note run6 = run5 [unfolded if_not_P [OF g6]]
  have g7: "\<not> \<not> snd (derive_risk_class cap self)" using run6 by (auto split: if_splits)
  note run7 = run6 [unfolded if_not_P [OF g7] Let_def]
  let ?answer = "if ca_human c \<or> fst (derive_risk_class cap self) = CRITICAL
      then check_human_approval rep now data did cap (H (dumps (PyDict params))) target (fst (derive_risk_class cap self))
      else Inr (Inr PyNone)"
  obtain appr where g8: "?answer = Inr (Inr appr)"
  proof (cases ?answer)
    case (Inl e)
    with run7 if_not_P [OF g7] show ?thesis by (simp del: if_split split_paired_All)
  next
    case (Inr w)
    with run7 if_not_P [OF g7] that show ?thesis by (cases w) (simp_all del: if_split)
  qed
  note run8 = run7 [unfolded if_not_P [OF g7] g8 sum.case]
  show thesis
    by (rule that [OF c g3 g4 _ _ _ g8]) (use g5 g6 g7 run8 in simp_all)
qed

subsection \<open>Properties\<close>

text \<open>The bounds of the policy on one action, and the approval of a critical one.\<close>

definition within_policy :: "capability \<Rightarrow> dict \<Rightarrow> string \<Rightarrow> string option \<Rightarrow> bool" where
  "within_policy c params target self \<longleftrightarrow> target \<in> set (ca_targets c) \<and> fst ` set params = fst ` set (ca_schema c)
     \<and> (\<forall>(k, v) \<in> set params. \<exists>t. map_of (ca_schema c) k = Some t \<and> is_instance t v \<and> (\<forall>s. v = PyStr s \<longrightarrow> clean_text s))
     \<and> self \<in> {None, Some [], Some (rc_value (ca_risk c))}"

definition bound_approval :: "(pyval \<Rightarrow> string) \<Rightarrow> rat \<Rightarrow> dict option \<Rightarrow> string \<Rightarrow> string \<Rightarrow> string \<Rightarrow> string
    \<Rightarrow> capability \<Rightarrow> bool" where
  "bound_approval rep now data did cap ph target c \<longleftrightarrow> (\<exists>h. data = Some h \<and> dget h ''directive_id'' = PyStr did
     \<and> dget h ''parameter_hash'' = PyStr ph
     \<and> (truthy (dget h ''rec'') \<longrightarrow> (\<exists>m why. dget h ''rec'' = PyDict m
         \<and> revalidate_approval rep now (Some m) did cap ph target (rc_value (ca_risk c)) = Inr (True, why))))"

lemma derive_risk_listed:
  "map_of CAPABILITY_ALLOWLIST cap = Some c \<Longrightarrow> fst (derive_risk_class cap self) = ca_risk c"
  "map_of CAPABILITY_ALLOWLIST cap = Some c \<Longrightarrow> snd (derive_risk_class cap self) \<Longrightarrow>
    self \<in> {None, Some [], Some (rc_value (ca_risk c))}"
  by (auto simp: derive_risk_class_def split: option.splits)

text \<open>C19. Authorisation is deny by default: whatever is authorised is a capability of the allowlist on a target
  in its scope, with exactly the parameters of its schema, every text of them free of shell characters,
  path traversal and privilege keywords; a critical one comes with an approval bound to the directive and
  the parameters; the token carries exactly this action and is valid for it alone; and the decision trail
  still verifies.\<close>

theorem authorised_within_policy:
  assumes "evaluate_execution_authorization H rep dumps now tnow ts did cap params target data self trail
      = (Inr (True, tok, why), trail')"
    and "\<forall>f. trail = Some f \<longrightarrow> decision_sealed H rep f"
  shows "\<exists>c t. map_of CAPABILITY_ALLOWLIST cap = Some c \<and> within_policy c params target self
    \<and> (ca_risk c = CRITICAL \<longrightarrow> bound_approval rep now data did cap (H (dumps (PyDict params))) target c)
    \<and> tok = Some t \<and> at_capability_id t = cap \<and> at_target t = target
    \<and> (\<forall>d p now'. token_is_valid age now' d p t \<longleftrightarrow> d = did \<and> p = H (dumps (PyDict params)) \<and> now' \<le> tnow + age)
    \<and> (\<forall>f. trail' = Some f \<longrightarrow> decision_sealed H rep f)"
  using assms(1)
proof (cases rule: authorised_cases)
  case (1 c appr)
  let ?ph = "H (dumps (PyDict params))"
  note risk = derive_risk_listed [OF 1(1)]
  have "within_policy c params target self"
    using 1(4) 1(5) check_parameters_None [OF 1(3)] risk(2) [OF 1(6)]
    by (auto simp: within_policy_def list_all_iff image_iff) (force dest: map_of_SomeD)+
  moreover have "bound_approval rep now data did cap ?ph target c" if "ca_risk c = CRITICAL"
    using check_human_approval_ok [of rep now data did cap ?ph target "ca_risk c" appr] 1(7) that
    by (auto simp: bound_approval_def risk(1))
  moreover have "\<forall>f. trail' = Some f \<longrightarrow> decision_sealed H rep f"
    using 1(9) assms(2) append_decision_sealed by auto
  ultimately show ?thesis
    using 1(1,8) by (auto simp: new_token_def token_is_valid_def)
qed

definition sample_parameters :: dict where
  "sample_parameters = [(''max_limit'', PyInt 10), (''reason'', PyStr ''drill'')]"

definition sample_approval_data :: "dict option" where
  "sample_approval_data = Some [(''directive_id'', PyStr ''D''), (''parameter_hash'', PyStr ''h''), (''approval_id'', PyStr ''A'')]"

definition sample_decision :: "(bool \<times> auth_token option \<times> string option) res \<times> jfile option" where
  "sample_decision = evaluate_execution_authorization (\<lambda>s. ''h'') (\<lambda>v. []) (\<lambda>v. []) 1 2 ''t'' ''D'' ''CAP-RISK-LIMIT-UPDATE''
     sample_parameters ''AI-CONTROL-PLANE'' sample_approval_data None (Some None)"

lemma sample_parameters_pass: "check_parameters [(''max_limit'', TInt), (''reason'', TStr)] sample_parameters = None"
  by code_simp

lemma sample_authorised: "\<exists>tok trail. sample_decision = (Inr (True, tok, None), trail)"
  by (simp add: sample_decision_def evaluate_execution_authorization_def CAPABILITY_ALLOWLIST_def FORBIDDEN_WILDCARDS_def
      sample_parameters_pass derive_risk_class_def check_human_approval_def sample_approval_data_def dget_def Let_def)
     (simp add: sample_parameters_def)

theorem authorised_within_policy_witness:
  "\<exists>c t. map_of CAPABILITY_ALLOWLIST ''CAP-RISK-LIMIT-UPDATE'' = Some c
    \<and> within_policy c sample_parameters ''AI-CONTROL-PLANE'' None
    \<and> fst (snd (projr (fst sample_decision))) = Some t
    \<and> token_is_valid 60 30 ''D'' ''h'' t \<and> \<not> token_is_valid 60 30 ''E'' ''h'' t \<and> \<not> token_is_valid 60 63 ''D'' ''h'' t"
proof -
  obtain tok trail where run: "sample_decision = (Inr (True, tok, None), trail)" using sample_authorised by blast
  have sealed: "\<forall>f. Some None = Some f \<longrightarrow> decision_sealed (\<lambda>s. ''h'') (\<lambda>v. []) f"
    by (auto simp: decision_sealed_def sealed_def)
  from authorised_within_policy [OF run [unfolded sample_decision_def] sealed, where age = 60] obtain c t
    where c: "map_of CAPABILITY_ALLOWLIST ''CAP-RISK-LIMIT-UPDATE'' = Some c" "within_policy c sample_parameters ''AI-CONTROL-PLANE'' None"
      and t: "tok = Some t"
      and valid: "\<forall>d p now'. token_is_valid 60 now' d p t \<longleftrightarrow> d = ''D'' \<and> p = ''h'' \<and> now' \<le> 2 + 60"
    by (elim exE conjE) (rule that; assumption)
  show ?thesis
    by (intro exI [of _ c] exI [of _ t] conjI) (simp_all add: c run t valid)
qed

text \<open>
  A critical capability needs no record of the approval engine: data that only repeats the directive and
  the parameter hash is enough, with nothing to revalidate.
\<close>

lemma critical_without_record:
  "\<exists>tok trail. sample_decision = (Inr (True, tok, None), trail)
    \<and> (\<forall>h. sample_approval_data = Some h \<longrightarrow> dget h ''rec'' = PyNone)"
  using sample_authorised by (auto simp: sample_approval_data_def dget_def)

end
