(* ===== verification/Recovery.thy ===== *)
theory Recovery
  imports Trails
begin

text \<open>
  \<open>src/directive/recovery_engine.py\<close>: signed checkpoints, the recovery ledger, failure classification,
  the retry window and the recovery flow. \<open>hm key text\<close> is the hexadecimal HMAC-SHA256; \<open>parse_iso\<close> reads a
  timestamp as seconds since the epoch, or gives the text of the exception; the timestamp of a ledger
  event is a function \<open>ts\<close> of its position in the ledger, so that the events of one operation may have
  any timestamps.
\<close>

subsection \<open>States\<close>

datatype FailureClass = RECOVERABLE | UNRECOVERABLE

datatype RecoveryState =
    IDLE | FAIL_DETECTED | RETRYING | CHECKPOINT_SAVED | CHECKPOINT_RESTORED | INTEGRITY_VERIFIED
  | RECONCILED | CONTINUING | HUMAN_REQUIRED | KILLED_BY_WATCHDOG

subsection \<open>Checkpoints\<close>

record checkpoint =
  cp_directive_id :: pyval
  cp_attempt_count :: pyval
  cp_state_vector :: pyval
  cp_payload_hash :: pyval
  cp_timestamp :: pyval
  cp_signature :: pyval

text \<open>The constructor: a timestamp or signature that is falsy is replaced.\<close>

definition new_checkpoint :: "string \<Rightarrow> pyval \<Rightarrow> pyval \<Rightarrow> pyval \<Rightarrow> pyval \<Rightarrow> pyval \<Rightarrow> pyval \<Rightarrow> checkpoint" where
  "new_checkpoint now_iso did att sv ph ts sig = \<lparr>cp_directive_id = did, cp_attempt_count = att,
     cp_state_vector = sv, cp_payload_hash = ph, cp_timestamp = (if truthy ts then ts else PyStr now_iso),
     cp_signature = (if truthy sig then sig else PyStr [])\<rparr>"

definition compute_signature :: "(string \<Rightarrow> string \<Rightarrow> string) \<Rightarrow> (pyval \<Rightarrow> string) \<Rightarrow> (pyval \<Rightarrow> string) \<Rightarrow> string
    \<Rightarrow> checkpoint \<Rightarrow> string" where
  "compute_signature hm rep dumps key c = hm key (join '':'' [fmt rep (cp_directive_id c), fmt rep (cp_attempt_count c),
     fmt rep (cp_payload_hash c), fmt rep (cp_timestamp c), dumps (cp_state_vector c)])"

definition checkpoint_to_dict :: "checkpoint \<Rightarrow> dict" where
  "checkpoint_to_dict c = [(''directive_id'', cp_directive_id c), (''attempt_count'', cp_attempt_count c),
     (''state_vector'', cp_state_vector c), (''payload_hash'', cp_payload_hash c),
     (''timestamp'', cp_timestamp c), (''signature'', cp_signature c)]"

text \<open>\<open>from_dict\<close>, with the text of the exception when a key is missing or the document is no object.\<close>

fun read_keys :: "dict \<Rightarrow> string list \<Rightarrow> string + pyval list" where
  "read_keys m [] = Inr []"
| "read_keys m (k # ks) = (case map_of m k of None \<Rightarrow> Inl (key_error k)
     | Some v \<Rightarrow> (case read_keys m ks of Inl e \<Rightarrow> Inl e | Inr vs \<Rightarrow> Inr (v # vs)))"

definition checkpoint_from_dict :: "string \<Rightarrow> pyval \<Rightarrow> string + checkpoint" where
  "checkpoint_from_dict now_iso v = (case v of
      PyDict m \<Rightarrow> (case read_keys m [''directive_id'', ''attempt_count'', ''state_vector'', ''payload_hash'', ''timestamp''] of
          Inr [d, a, s, p, t] \<Rightarrow> Inr (new_checkpoint now_iso d a s p t (dget_or m ''signature'' (PyStr [])))
        | Inr _ \<Rightarrow> Inl [] | Inl e \<Rightarrow> Inl e)
    | _ \<Rightarrow> Inl (subscript_error v))"

subsection \<open>Ledger\<close>

definition ledger_start :: "jfile \<Rightarrow> jfile" where
  "ledger_start f = (case f of None \<Rightarrow> Some [] | Some ls \<Rightarrow> Some ls)"

definition ledger_lines :: "jfile \<Rightarrow> jline list" where
  "ledger_lines f = (case f of None \<Rightarrow> [] | Some ls \<Rightarrow> filter (\<lambda>l. \<not> is_blank l) ls)"

definition ledger_prev :: "jfile \<Rightarrow> pyval" where
  "ledger_prev f = (if ledger_lines f = [] then PyStr ''GENESIS''
     else (case last (ledger_lines f) of Json (PyDict m) \<Rightarrow> dget_or m ''event_hash'' (PyStr ''GENESIS'')
           | _ \<Rightarrow> PyStr ''CORRUPTED_CHAIN''))"

definition ledger_event :: "(string \<Rightarrow> string) \<Rightarrow> (pyval \<Rightarrow> string) \<Rightarrow> (pyval \<Rightarrow> string) \<Rightarrow> string \<Rightarrow> string
    \<Rightarrow> pyval \<Rightarrow> dict \<Rightarrow> pyval \<Rightarrow> dict" where
  "ledger_event H rep dumps ts kind did details prev = [(''timestamp'', PyStr ts), (''event_type'', PyStr kind),
     (''directive_id'', did), (''details'', PyDict details), (''prev_hash'', prev),
     (''event_hash'', PyStr (H (join '':'' [ts, kind, fmt rep did, fmt rep prev, dumps (PyDict details)])))]"

definition record_event :: "(string \<Rightarrow> string) \<Rightarrow> (pyval \<Rightarrow> string) \<Rightarrow> (pyval \<Rightarrow> string) \<Rightarrow> (nat \<Rightarrow> string) \<Rightarrow> string
    \<Rightarrow> pyval \<Rightarrow> dict \<Rightarrow> jfile \<Rightarrow> jfile" where
  "record_event H rep dumps ts kind did details f =
     append_line (ledger_event H rep dumps (ts (length (ledger_lines f))) kind did details (ledger_prev f)) f"

definition ledger_body :: "(pyval \<Rightarrow> string) \<Rightarrow> (pyval \<Rightarrow> string) \<Rightarrow> string \<Rightarrow> dict \<Rightarrow> string + string" where
  "ledger_body rep dumps p m = (case field_texts rep m [''timestamp'', ''event_type'', ''directive_id''] of
      Inl e \<Rightarrow> Inl e
    | Inr fs \<Rightarrow> (case map_of m ''details'' of None \<Rightarrow> Inl (key_error ''details'')
        | Some d \<Rightarrow> Inr (join '':'' (fs @ [p, dumps d]))))"

fun ledger_verify_loop :: "(string \<Rightarrow> string) \<Rightarrow> (pyval \<Rightarrow> string) \<Rightarrow> (pyval \<Rightarrow> string) \<Rightarrow> nat \<Rightarrow> string \<Rightarrow> jline list
    \<Rightarrow> bool \<times> string" where
  "ledger_verify_loop H rep dumps k p [] = (True, ''INTEGRITY_VALIDATED'')"
| "ledger_verify_loop H rep dumps k p (Blank # ls) = ledger_verify_loop H rep dumps k p ls"
| "ledger_verify_loop H rep dumps k p (Malformed e # ls) =
     (False, ''PARSE_ERROR_AT_LINE_'' @ str_of_nat k @ '': '' @ e)"
| "ledger_verify_loop H rep dumps k p (Json v # ls) = (case v of
      PyDict m \<Rightarrow>
        if dget m ''prev_hash'' \<noteq> PyStr p then (False, ''CHAIN_BREAK_AT_LINE_'' @ str_of_nat k)
        else (case ledger_body rep dumps p m of
            Inl e \<Rightarrow> (False, ''PARSE_ERROR_AT_LINE_'' @ str_of_nat k @ '': '' @ e)
          | Inr b \<Rightarrow> if dget m ''event_hash'' \<noteq> PyStr (H b) then (False, ''HASH_MISMATCH_AT_LINE_'' @ str_of_nat k)
              else ledger_verify_loop H rep dumps (Suc k) (H b) ls)
    | _ \<Rightarrow> (False, ''PARSE_ERROR_AT_LINE_'' @ str_of_nat k @ '': '' @ no_get v))"

definition verify_ledger_integrity :: "(string \<Rightarrow> string) \<Rightarrow> (pyval \<Rightarrow> string) \<Rightarrow> (pyval \<Rightarrow> string) \<Rightarrow> jfile
    \<Rightarrow> bool \<times> string" where
  "verify_ledger_integrity H rep dumps f = (if f = None \<or> f = Some [] then (True, ''EMPTY_LEDGER'')
     else ledger_verify_loop H rep dumps 1 ''GENESIS'' (ledger_lines f))"

subsection \<open>Engine\<close>

record engine =
  en_dir :: string
  en_key :: string
  en_max_retries :: int
  en_window :: int
  en_max_age :: int
  en_history :: "(string \<times> rat list) list"
  en_executed :: "(string \<times> string) list"
  en_files :: "(string \<times> jdoc) list"
  en_ledger :: jfile

definition new_engine :: "string \<Rightarrow> string \<Rightarrow> int \<Rightarrow> int \<Rightarrow> int \<Rightarrow> (string \<times> jdoc) list \<Rightarrow> jfile \<Rightarrow> engine" where
  "new_engine dir key retries window age files ledger = \<lparr>en_dir = dir, en_key = key, en_max_retries = retries,
     en_window = window, en_max_age = age, en_history = [], en_executed = [], en_files = files,
     en_ledger = ledger_start ledger\<rparr>"

definition add_event :: "(string \<Rightarrow> string) \<Rightarrow> (pyval \<Rightarrow> string) \<Rightarrow> (pyval \<Rightarrow> string) \<Rightarrow> (nat \<Rightarrow> string) \<Rightarrow> string
    \<Rightarrow> pyval \<Rightarrow> dict \<Rightarrow> engine \<Rightarrow> engine" where
  "add_event H rep dumps ts kind did details e = e\<lparr>en_ledger := record_event H rep dumps ts kind did details (en_ledger e)\<rparr>"

definition unrecoverable_keywords :: "string list" where
  "unrecoverable_keywords = [''CORRUPT'', ''TAMPERED'', ''KILLSWITCH'', ''UNAUTHORIZED'', ''REPLAY'', ''SPLIT_BRAIN'',
     ''SIGNATURE_MISMATCH'', ''CAPABILITY_DENIED'', ''AUDIT_FAIL'']"

definition recoverable_keywords :: "string list" where
  "recoverable_keywords = [''TIMEOUT'', ''LOCK_CONTENTION'', ''TRANSIENT_IO'', ''TEMPORARY_UNAVAILABLE'', ''QUEUE_BUSY'']"

definition external_mutation :: "string \<Rightarrow> string \<Rightarrow> bool" where
  "external_mutation target action \<longleftrightarrow> contains target ''ORACLE'' \<or> contains target ''MICRO''
     \<or> contains target ''EXTERNAL'' \<or> contains action ''STRATEGY'' \<or> contains action ''FINANCIAL''"

definition classify_failure :: "(string \<Rightarrow> string) \<Rightarrow> (pyval \<Rightarrow> string) \<Rightarrow> (pyval \<Rightarrow> string) \<Rightarrow> (nat \<Rightarrow> string)
    \<Rightarrow> string \<Rightarrow> string \<Rightarrow> dict \<Rightarrow> engine \<Rightarrow> (FailureClass \<times> string) \<times> engine" where
  "classify_failure H rep dumps ts etype emsg ctx e =
     (let target = upper (fmt rep (dget_or ctx ''target'' (PyStr [])));
          action = upper (fmt rep (dget_or ctx ''action'' (PyStr [])));
          msg = upper (etype @ '' '' @ emsg)
      in if external_mutation target action then
           ((UNRECOVERABLE, ''EXTERNAL_SERVICE_MUTATION_FORBIDDEN''),
            add_event H rep dumps ts ''UNAUTHORIZED_EXTERNAL_MUTATION_ATTEMPT''
              (dget_or ctx ''directive_id'' (PyStr ''UNKNOWN''))
              [(''target'', PyStr target), (''action'', PyStr action), (''error_msg'', PyStr emsg)] e)
         else (case find (\<lambda>kw. contains msg kw) unrecoverable_keywords of
             Some kw \<Rightarrow> ((UNRECOVERABLE, ''CRITICAL_FAILURE_'' @ kw), e)
           | None \<Rightarrow> (case find (\<lambda>kw. contains msg kw) recoverable_keywords of
               Some kw \<Rightarrow> ((RECOVERABLE, ''RECOVERABLE_'' @ kw), e)
             | None \<Rightarrow> ((UNRECOVERABLE, ''UNCLASSIFIED_FAILURE_FAIL_CLOSED''), e))))"

definition attempt_retry :: "(string \<Rightarrow> string) \<Rightarrow> (pyval \<Rightarrow> string) \<Rightarrow> (pyval \<Rightarrow> string) \<Rightarrow> (nat \<Rightarrow> string) \<Rightarrow> rat
    \<Rightarrow> string \<Rightarrow> engine \<Rightarrow> (bool \<times> nat \<times> string) \<times> engine" where
  "attempt_retry H rep dumps ts now did e =
     (let recent = filter (\<lambda>t. now - t \<le> of_int (en_window e))
            (case map_of (en_history e) did of None \<Rightarrow> [] | Some h \<Rightarrow> h) @ [now];
          n = length recent;
          e1 = e\<lparr>en_history := AList.update did recent (en_history e)\<rparr>
      in if int n > en_max_retries e then
           ((False, n, ''RETRY_STORM_LIMIT_EXCEEDED''),
            add_event H rep dumps ts ''RETRY_STORM_DETECTED'' (PyStr did)
              [(''attempt_count'', PyInt (int n)), (''max_retries'', PyInt (en_max_retries e)),
               (''window_seconds'', PyInt (en_window e))] e1)
         else ((True, n, ''RETRY_AUTHORIZED''),
            add_event H rep dumps ts ''SAFE_RETRY_INITIATED'' (PyStr did)
              [(''attempt_count'', PyInt (int n)), (''max_retries'', PyInt (en_max_retries e))] e1))"

definition checkpoint_file :: "engine \<Rightarrow> string \<Rightarrow> nat \<Rightarrow> string" where
  "checkpoint_file e did att = en_dir e @ ''/checkpoint_'' @ did @ ''_'' @ str_of_nat att @ ''.json''"

definition save_checkpoint :: "(string \<Rightarrow> string) \<Rightarrow> (pyval \<Rightarrow> string) \<Rightarrow> (pyval \<Rightarrow> string) \<Rightarrow> (string \<Rightarrow> string \<Rightarrow> string)
    \<Rightarrow> (nat \<Rightarrow> string) \<Rightarrow> string \<Rightarrow> string \<Rightarrow> nat \<Rightarrow> dict \<Rightarrow> string \<Rightarrow> engine \<Rightarrow> checkpoint \<times> engine" where
  "save_checkpoint H rep dumps hm ts now_iso did att sv ph e =
     (let c0 = new_checkpoint now_iso (PyStr did) (PyInt (int att)) (PyDict sv) (PyStr ph) PyNone PyNone;
          c = c0\<lparr>cp_signature := PyStr (compute_signature hm rep dumps (en_key e) c0)\<rparr>;
          file = checkpoint_file e did att
      in (c, add_event H rep dumps ts ''CHECKPOINT_SAVED'' (PyStr did)
            [(''checkpoint_file'', PyStr file), (''attempt_count'', PyInt (int att)), (''payload_hash'', PyStr ph),
             (''signature'', cp_signature c)]
            (e\<lparr>en_files := AList.update file (Document (PyDict (checkpoint_to_dict c))) (en_files e)\<rparr>)))"

text \<open>
  \<open>restore_checkpoint\<close>. \<open>hmac.compare_digest\<close> stands outside the \<open>try\<close>: a signature that is no string
  (or not ASCII) raises a \<open>TypeError\<close>.
\<close>

definition comparable_digest :: "pyval \<Rightarrow> bool" where
  "comparable_digest v = (case v of PyStr s \<Rightarrow> list_all (\<lambda>c. ord_of c < 128) s | _ \<Rightarrow> False)"

definition check_checkpoint :: "(string \<Rightarrow> string) \<Rightarrow> (pyval \<Rightarrow> string) \<Rightarrow> (pyval \<Rightarrow> string) \<Rightarrow> (string \<Rightarrow> string \<Rightarrow> string)
    \<Rightarrow> (pyval \<Rightarrow> string + rat) \<Rightarrow> (nat \<Rightarrow> string) \<Rightarrow> rat \<Rightarrow> string \<Rightarrow> string \<Rightarrow> checkpoint \<Rightarrow> engine
    \<Rightarrow> (checkpoint option \<times> string) res \<times> engine" where
  "check_checkpoint H rep dumps hm parse_iso ts now did ph c e =
     (let sig = compute_signature hm rep dumps (en_key e) c; event = add_event H rep dumps ts in
      if \<not> comparable_digest (cp_signature c) then (Inl (PyError ''TypeError''), e)
      else if cp_signature c \<noteq> PyStr sig then
        (Inr (None, ''CHECKPOINT_SIGNATURE_INVALID''), event ''CHECKPOINT_TAMPERED'' (PyStr did)
           [(''signature_given'', cp_signature c), (''signature_computed'', PyStr sig)] e)
      else if cp_payload_hash c \<noteq> PyStr ph then
        (Inr (None, ''CHECKPOINT_PAYLOAD_HASH_MISMATCH''), event ''CHECKPOINT_HASH_MISMATCH'' (PyStr did)
           [(''expected_hash'', PyStr ph), (''actual_hash'', cp_payload_hash c)] e)
      else (case parse_iso (cp_timestamp c) of
          Inl msg \<Rightarrow> (Inr (None, ''CHECKPOINT_INVALID_TIMESTAMP''), event ''CHECKPOINT_INVALID_TIMESTAMP'' (PyStr did)
             [(''error'', PyStr msg)] e)
        | Inr t \<Rightarrow> if now - t > of_int (en_max_age e) then
             (Inr (None, ''CHECKPOINT_STALE_TIMESTAMP''), event ''CHECKPOINT_STALE'' (PyStr did)
               [(''checkpoint_time'', cp_timestamp c), (''max_age_seconds'', PyInt (en_max_age e))] e)
           else (Inr (Some c, ''CHECKPOINT_INTEGRITY_VALIDATED''),
             event ''CHECKPOINT_RESTORED_AND_VERIFIED'' (PyStr did)
               [(''attempt_count'', cp_attempt_count c), (''payload_hash'', cp_payload_hash c)] e)))"

definition restore_checkpoint :: "(string \<Rightarrow> string) \<Rightarrow> (pyval \<Rightarrow> string) \<Rightarrow> (pyval \<Rightarrow> string) \<Rightarrow> (string \<Rightarrow> string \<Rightarrow> string)
    \<Rightarrow> (pyval \<Rightarrow> string + rat) \<Rightarrow> (nat \<Rightarrow> string) \<Rightarrow> string \<Rightarrow> rat \<Rightarrow> string \<Rightarrow> nat \<Rightarrow> string \<Rightarrow> engine
    \<Rightarrow> (checkpoint option \<times> string) res \<times> engine" where
  "restore_checkpoint H rep dumps hm parse_iso ts now_iso now did att ph e =
     (let file = checkpoint_file e did att; event = add_event H rep dumps ts in
      case map_of (en_files e) file of
        Some (Document v) \<Rightarrow> (case checkpoint_from_dict now_iso v of
            Inl msg \<Rightarrow> (Inr (None, ''CHECKPOINT_CORRUPT_JSON''),
               event ''CHECKPOINT_CORRUPTED'' (PyStr did) [(''error'', PyStr msg)] e)
          | Inr c \<Rightarrow> check_checkpoint H rep dumps hm parse_iso ts now did ph c e)
      | Some (Unreadable msg) \<Rightarrow> (Inr (None, ''CHECKPOINT_CORRUPT_JSON''),
           event ''CHECKPOINT_CORRUPTED'' (PyStr did) [(''error'', PyStr msg)] e)
      | _ \<Rightarrow> (Inr (None, ''CHECKPOINT_FILE_NOT_FOUND''),
           event ''CHECKPOINT_NOT_FOUND'' (PyStr did) [(''checkpoint_file'', PyStr file)] e))"

record outcome =
  oc_executed :: bool
  oc_state :: RecoveryState
  oc_human_required :: bool
  oc_attempt_count :: "nat option"
  oc_restored_state :: "pyval option"
  oc_reason :: string

definition refused :: "RecoveryState \<Rightarrow> string \<Rightarrow> outcome" where
  "refused st why = \<lparr>oc_executed = False, oc_state = st, oc_human_required = True, oc_attempt_count = None,
     oc_restored_state = None, oc_reason = why\<rparr>"

text \<open>
  \<open>execute_safe_recovery\<close>: \<open>now\<close> is the clock of the retry window, \<open>now_iso\<close> the checkpoint's own
  timestamp, \<open>rnow\<close> the clock of the freshness check.
\<close>

definition execute_safe_recovery :: "(string \<Rightarrow> string) \<Rightarrow> (pyval \<Rightarrow> string) \<Rightarrow> (pyval \<Rightarrow> string)
    \<Rightarrow> (string \<Rightarrow> string \<Rightarrow> string) \<Rightarrow> (pyval \<Rightarrow> string + rat) \<Rightarrow> (nat \<Rightarrow> string) \<Rightarrow> string \<Rightarrow> rat \<Rightarrow> rat
    \<Rightarrow> string \<Rightarrow> string \<Rightarrow> string \<Rightarrow> dict \<Rightarrow> string \<Rightarrow> dict \<Rightarrow> bool \<Rightarrow> engine \<Rightarrow> outcome res \<times> engine" where
  "execute_safe_recovery H rep dumps hm parse_iso ts now_iso now rnow did etype emsg sv ph ctx killed e =
     (let event = add_event H rep dumps ts; human = refused HUMAN_REQUIRED in
      if killed then (Inr (refused KILLED_BY_WATCHDOG ''KILLSWITCH_ACTIVE_SUPREME_AUTHORITY''),
        event ''RECOVERY_BLOCKED_BY_KILLSWITCH'' (PyStr did) [(''reason'', PyStr ''KILLSWITCH_ACTIVE'')] e)
      else if map_of (en_executed e) did = Some ''COMPLETED'' then
        (Inr (human ''DUPLICATE_EXECUTION_ATTEMPT_REJECTED''),
         event ''DUPLICATE_EXECUTION_BLOCKED'' (PyStr did) [(''reason'', PyStr ''ALREADY_COMPLETED'')] e)
      else (case classify_failure H rep dumps ts etype emsg ctx e of ((cls, why), e1) \<Rightarrow>
      if cls = UNRECOVERABLE then (Inr (human why),
         event ''UNRECOVERABLE_FAILURE_ESCALATED'' (PyStr did) [(''reason'', PyStr why)] e1)
      else (case attempt_retry H rep dumps ts now did e1 of ((ok, att, why2), e2) \<Rightarrow>
      if \<not> ok then (Inr (human why2), e2)
      else (case save_checkpoint H rep dumps hm ts now_iso did att sv ph e2 of (c0, e3) \<Rightarrow>
      (case restore_checkpoint H rep dumps hm parse_iso ts now_iso rnow did att ph e3 of
          (Inl err, e4) \<Rightarrow> (Inl err, e4)
        | (Inr (None, st), e4) \<Rightarrow> (Inr (human (''CHECKPOINT_RECOVERY_FAILED_'' @ st)), e4)
        | (Inr (Some c, st), e4) \<Rightarrow>
            (case verify_ledger_integrity H rep dumps (en_ledger e4) of (good, msg) \<Rightarrow>
             if \<not> good then (Inr (human (''AUDIT_LEDGER_INTEGRITY_FAILED_'' @ msg)),
                event ''AUDIT_LEDGER_CORRUPTED'' (PyStr did) [(''reason'', PyStr msg)] e4)
             else (Inr \<lparr>oc_executed = True, oc_state = CONTINUING, oc_human_required = False,
                  oc_attempt_count = Some att, oc_restored_state = Some (cp_state_vector c),
                  oc_reason = ''SAFE_CONTINUATION_SUCCESSFUL''\<rparr>,
                event ''SAFE_CONTINUATION_AUTHORIZED'' (PyStr did)
                  [(''attempt_count'', PyInt (int att)), (''restored_state'', cp_state_vector c)]
                  (e4\<lparr>en_executed := AList.update did ''COMPLETED'' (en_executed e4)\<rparr>))))))))"

end
