(* ===== verification/RecoveryClaims.thy ===== *)
theory RecoveryClaims
  imports Recovery TrailLaws
begin

text \<open>
  What the recovery engine promises: its ledger is a hash chain that every operation extends, its pruned
  retry history decides like the full history would, a directive is continued at most once and never
  under the killswitch, and a recoverable failure within the limits does continue, with the saved state
  restored.
\<close>

subsection \<open>The ledger\<close>

definition ledger_text :: "(pyval \<Rightarrow> string) \<Rightarrow> (pyval \<Rightarrow> string) \<Rightarrow> string \<Rightarrow> dict \<Rightarrow> string option" where
  "ledger_text rep dumps p m = (case ledger_body rep dumps p m of Inl e \<Rightarrow> None | Inr b \<Rightarrow> Some b)"

lemma ledger_verify_loop_iff:
  "fst (ledger_verify_loop H rep dumps k p ls) \<longleftrightarrow>
    (\<exists>ms. records_skip ls = Some ms \<and> chained H (ledger_text rep dumps) ''prev_hash'' p ms)"
proof (induction H rep dumps k p ls rule: ledger_verify_loop.induct)
  case (4 H rep dumps k p v ls)
  show ?case
  proof (cases v)
    case (PyDict m)
    show ?thesis
    proof (cases "dget m ''prev_hash'' = PyStr p")
      case prev: True
      show ?thesis
      proof (cases "ledger_body rep dumps p m")
        case (Inr b)
        show ?thesis
        proof (cases "dget m ''event_hash'' = PyStr (H b)")
          case True
          have neg: "\<not> dget m ''prev_hash'' \<noteq> PyStr p" "\<not> dget m ''event_hash'' \<noteq> PyStr (H b)"
            using prev True by simp_all
          show ?thesis using 4 [OF PyDict neg(1) Inr neg(2)]
            by (auto simp: PyDict prev Inr True ledger_text_def)
        qed (auto simp: PyDict prev Inr ledger_text_def)
      qed (auto simp: PyDict prev ledger_text_def)
    qed (auto simp: PyDict)
  qed auto
qed simp_all

lemma records_skip_filter [simp]: "records_skip (filter (\<lambda>l. \<not> is_blank l) ls) = records_skip ls"
  by (induction ls rule: records_skip.induct) (simp_all add: is_blank_def)

lemma verify_ledger_iff:
  "fst (verify_ledger_integrity H rep dumps (Some ls)) \<longleftrightarrow>
    (\<exists>ms. records_skip ls = Some ms \<and> chained H (ledger_text rep dumps) ''prev_hash'' ''GENESIS'' ms)"
  by (cases "ls = []") (simp_all add: verify_ledger_integrity_def ledger_lines_def ledger_verify_loop_iff)

type_synonym ledger_entry = "string \<times> string \<times> pyval \<times> dict"

fun ledger_seal :: "(string \<Rightarrow> string) \<Rightarrow> (pyval \<Rightarrow> string) \<Rightarrow> (pyval \<Rightarrow> string) \<Rightarrow> ledger_entry \<Rightarrow> string \<Rightarrow> dict" where
  "ledger_seal H rep dumps (ts, kind, did, details) p = ledger_event H rep dumps ts kind did details (PyStr p)"

interpretation ledger_chain: hash_chain H "ledger_text rep dumps" "''prev_hash''" "''GENESIS''" records_skip
  "\<lambda>ls. fst (verify_ledger_integrity H rep dumps (Some ls))" "ledger_seal H rep dumps"
  for H rep dumps
proof (unfold_locales, goal_cases)
  case (1 ls)
  show ?case by (rule verify_ledger_iff)
next
  case (2 ls ms m)
  then show ?case by (simp add: records_skip_append)
next
  case (3 e p)
  show ?case by (cases e) (simp add: ledger_event_def dget_def)
next
  case (4 p e)
  show ?case by (cases e) (simp add: ledger_event_def dget_def ledger_text_def ledger_body_def)
qed

definition ledger_sealed :: "(string \<Rightarrow> string) \<Rightarrow> (pyval \<Rightarrow> string) \<Rightarrow> (pyval \<Rightarrow> string) \<Rightarrow> jfile \<Rightarrow> bool" where
  "ledger_sealed H rep dumps = sealed (\<lambda>ls. fst (verify_ledger_integrity H rep dumps (Some ls)))"

lemma ledger_prev_last:
  assumes "records_skip ls = Some ms" and "chained H body pk ''GENESIS'' ms" and "tidy_end ls"
  shows "ledger_prev (Some ls) = PyStr (last_of ''GENESIS'' ms)"
proof (cases "ls = []")
  case True
  with assms(1) show ?thesis by (simp add: ledger_prev_def ledger_lines_def)
next
  case False
  from records_skip_last [OF assms(1,3) False] have ms: "ms \<noteq> []" "last ls = Json (PyDict (last ms))" by auto
  have nonblank: "filter (\<lambda>l. \<not> is_blank l) ls = filter (\<lambda>l. \<not> is_blank l) (butlast ls) @ [last ls]"
    using False ms(2) by (subst append_butlast_last_id [symmetric], simp) (simp add: is_blank_def del: append_butlast_last_id)
  from last_of_dget [OF assms(2) ms(1)] have "dget_or (last ms) ''event_hash'' (PyStr ''GENESIS'') = PyStr (last_of ''GENESIS'' ms)"
    by (auto simp: dget_def dget_or_def split: option.splits)
  then show ?thesis by (simp add: ledger_prev_def ledger_lines_def nonblank ms(2))
qed

lemma record_event_sealed:
  assumes "ledger_sealed H rep dumps f"
  shows "ledger_sealed H rep dumps (record_event H rep dumps ts kind did details f)"
proof -
  let ?e = "(ts (length (ledger_lines f)), kind, did, details)"
  have "sealed (\<lambda>ls. fst (verify_ledger_integrity H rep dumps (Some ls)))
      (append_line (ledger_event H rep dumps (ts (length (ledger_lines f))) kind did details (ledger_prev f)) f)"
  proof (rule ledger_chain.sealed_append [where e = ?e], goal_cases)
    case 1
    show ?case using assms by (simp add: ledger_sealed_def)
  next
    case (2 ls ms)
    then show ?case using ledger_prev_last [OF 2(2-4)] by simp
  next
    case 3
    then show ?case by (simp add: ledger_prev_def ledger_lines_def)
  next
    case 4
    show ?case by simp
  qed
  then show ?thesis by (simp add: record_event_def ledger_sealed_def)
qed

lemma add_event_sealed: "ledger_sealed H rep dumps (en_ledger e) \<Longrightarrow> ledger_sealed H rep dumps (en_ledger (add_event H rep dumps ts kind did details e))"
  by (simp add: add_event_def record_event_sealed)

lemma add_event_keeps [simp]:
  "en_dir (add_event H rep dumps ts kind did details e) = en_dir e" "en_key (add_event H rep dumps ts kind did details e) = en_key e"
  "en_max_retries (add_event H rep dumps ts kind did details e) = en_max_retries e"
  "en_window (add_event H rep dumps ts kind did details e) = en_window e"
  "en_max_age (add_event H rep dumps ts kind did details e) = en_max_age e"
  "en_history (add_event H rep dumps ts kind did details e) = en_history e"
  "en_executed (add_event H rep dumps ts kind did details e) = en_executed e"
  "en_files (add_event H rep dumps ts kind did details e) = en_files e"
  by (simp_all add: add_event_def)

subsection \<open>Retries\<close>

text \<open>Attempts at given times for any directives, and what the full history says of one more.\<close>

fun run_retries :: "(string \<Rightarrow> string) \<Rightarrow> (pyval \<Rightarrow> string) \<Rightarrow> (pyval \<Rightarrow> string) \<Rightarrow> (nat \<Rightarrow> string)
    \<Rightarrow> (string \<times> rat) list \<Rightarrow> engine \<Rightarrow> engine" where
  "run_retries H rep dumps ts [] e = e"
| "run_retries H rep dumps ts ((did, now) # atts) e =
     run_retries H rep dumps ts atts (snd (attempt_retry H rep dumps ts now did e))"

definition attempts_in_window :: "int \<Rightarrow> rat \<Rightarrow> string \<Rightarrow> (string \<times> rat) list \<Rightarrow> nat" where
  "attempts_in_window w now did atts = Suc (length (filter (\<lambda>(d, t). d = did \<and> now - t \<le> of_int w) atts))"

definition history_of :: "engine \<Rightarrow> string \<Rightarrow> rat list" where
  "history_of e did = (case map_of (en_history e) did of None \<Rightarrow> [] | Some h \<Rightarrow> h)"

lemma attempt_retry_state:
  "history_of (snd (attempt_retry H rep dumps ts now did e)) d
    = (if d = did then filter (\<lambda>t. now - t \<le> of_int (en_window e)) (history_of e did) @ [now] else history_of e d)"
  "en_window (snd (attempt_retry H rep dumps ts now did e)) = en_window e"
  "en_max_retries (snd (attempt_retry H rep dumps ts now did e)) = en_max_retries e"
  by (simp_all add: attempt_retry_def history_of_def Let_def map_of_AList_update)

lemma run_retries_keeps [simp]:
  "en_window (run_retries H rep dumps ts atts e) = en_window e"
  "en_max_retries (run_retries H rep dumps ts atts e) = en_max_retries e"
  by (induction H rep dumps ts atts e rule: run_retries.induct) (simp_all add: attempt_retry_state)

lemma run_retries_snoc:
  "run_retries H rep dumps ts (atts @ [(did, now)]) e = snd (attempt_retry H rep dumps ts now did (run_retries H rep dumps ts atts e))"
  by (induction H rep dumps ts atts e rule: run_retries.induct) simp_all

text \<open>What a pruned history still shows at any later time.\<close>

lemma pruned_history:
  assumes "sorted (map snd atts)" and "\<forall>(d, t) \<in> set atts. t \<le> now" and "en_history e = []"
  shows "filter (\<lambda>t. now - t \<le> of_int (en_window e)) (history_of (run_retries H rep dumps ts atts e) did)
    = map snd (filter (\<lambda>(d, t). d = did \<and> now - t \<le> of_int (en_window e)) atts)"
  using assms
proof (induction atts arbitrary: now rule: rev_induct)
  case Nil
  then show ?case by (simp add: history_of_def)
next
  case (snoc a atts)
  obtain d t where a: "a = (d, t)" by fastforce
  from snoc.prems(1,2) have sorted: "sorted (map snd atts)" and before_t: "\<forall>(d, s) \<in> set atts. s \<le> t" and "t \<le> now"
    by (auto simp: a sorted_append)
  then have upto: "\<forall>(d, s) \<in> set atts. s \<le> now" by (fastforce intro: order_trans)
  have again: "filter (\<lambda>s. t - s \<le> w \<and> now - s \<le> w) h = filter (\<lambda>s. now - s \<le> w) h" for h w
    by (rule filter_cong) (use \<open>t \<le> now\<close> in auto)
  show ?case
    using snoc.IH [OF sorted upto snoc.prems(3)]
    by (auto simp: a run_retries_snoc attempt_retry_state again)
qed


text \<open>The pruned retry history decides like the full one: after any attempts for any directives at times
  in order, the count reported for a further attempt is the number of all attempts of that directive
  inside the window, and the attempt is authorised exactly when that number is within the limit.\<close>

theorem retry_window_exact:
  assumes "sorted (map snd atts)" and "\<forall>(d, t) \<in> set atts. t \<le> now" and "en_history e = []"
  shows "fst (attempt_retry H rep dumps ts now did (run_retries H rep dumps ts atts e)) =
    (let n = attempts_in_window (en_window e) now did atts
     in if int n \<le> en_max_retries e then (True, n, ''RETRY_AUTHORIZED'') else (False, n, ''RETRY_STORM_LIMIT_EXCEEDED''))"
proof -
  have "length (filter (\<lambda>t. now - t \<le> of_int (en_window e)) (history_of (run_retries H rep dumps ts atts e) did) @ [now])
      = attempts_in_window (en_window e) now did atts"
    by (simp add: pruned_history [OF assms] attempts_in_window_def)
  then show ?thesis by (simp add: attempt_retry_def history_of_def Let_def)
qed

definition sample_engine :: engine where
  "sample_engine = new_engine ''s'' ''k'' 2 60 3600 [] None"

theorem retry_window_exact_witness:
  "fst (attempt_retry (\<lambda>s. s) (\<lambda>v. []) (\<lambda>v. []) (\<lambda>k. []) 70 ''D''
      (run_retries (\<lambda>s. s) (\<lambda>v. []) (\<lambda>v. []) (\<lambda>k. []) [(''D'', 0), (''E'', 20), (''D'', 30), (''D'', 65)] sample_engine))
    = (False, 3, ''RETRY_STORM_LIMIT_EXCEEDED'')"
proof -
  have "sorted (map snd [(''D'', 0::rat), (''E'', 20), (''D'', 30), (''D'', 65)])"
    and "\<forall>(d, t) \<in> set [(''D'', 0::rat), (''E'', 20), (''D'', 30), (''D'', 65)]. t \<le> 70" by simp_all
  moreover have "en_history sample_engine = []" "en_window sample_engine = 60" "en_max_retries sample_engine = 2"
    by (simp_all add: sample_engine_def new_engine_def)
  ultimately show ?thesis
    by (subst retry_window_exact) (simp_all add: attempts_in_window_def Let_def numeral_3_eq_3)
qed

subsection \<open>Continuation\<close>

lemma classify_failure_state:
  assumes "classify_failure H rep dumps ts etype emsg ctx e = (c, e')"
  shows "en_executed e' = en_executed e"
  using assms by (auto simp: classify_failure_def Let_def split: if_splits option.splits)

lemma classify_recoverable: "classify_failure H rep dumps ts etype emsg ctx e = ((RECOVERABLE, why), e') \<Longrightarrow> e' = e"
  by (auto simp: classify_failure_def Let_def split: if_splits option.splits)

lemma attempt_retry_executed: "en_executed (snd (attempt_retry H rep dumps ts now did e)) = en_executed e"
  by (simp add: attempt_retry_def Let_def)

lemma save_checkpoint_executed: "en_executed (snd (save_checkpoint H rep dumps hm ts now_iso did att sv ph e)) = en_executed e"
  by (simp add: save_checkpoint_def Let_def)

lemma check_checkpoint_executed: "en_executed (snd (check_checkpoint H rep dumps hm parse_iso ts now did ph c e)) = en_executed e"
  by (simp add: check_checkpoint_def Let_def split: sum.splits)

lemma restore_checkpoint_executed:
  "en_executed (snd (restore_checkpoint H rep dumps hm parse_iso ts now_iso now did att ph e)) = en_executed e"
  by (simp add: restore_checkpoint_def Let_def check_checkpoint_executed split: option.splits jdoc.splits sum.splits)

lemma recovery_cases:
  assumes "execute_safe_recovery H rep dumps hm parse_iso ts now_iso now rnow did etype emsg sv ph ctx killed e = (r, e')"
  obtains (stopped) "\<And>oc. r = Inr oc \<Longrightarrow> \<not> oc_executed oc" and "en_executed e' = en_executed e"
  | (continued) "\<not> killed" and "map_of (en_executed e) did \<noteq> Some ''COMPLETED''"
      and "en_executed e' = AList.update did ''COMPLETED'' (en_executed e)"
proof (cases "killed \<or> map_of (en_executed e) did = Some ''COMPLETED''")
  case True
  with assms show ?thesis
    by (cases killed; intro stopped) (auto simp: execute_safe_recovery_def Let_def refused_def)
next
  case False
  then have g: "\<not> killed" "map_of (en_executed e) did \<noteq> Some ''COMPLETED''" by simp_all
  note run0 = assms [unfolded execute_safe_recovery_def Let_def if_not_P [OF g(1)] if_not_P [OF g(2)]]
  obtain cls why e1 where c: "classify_failure H rep dumps ts etype emsg ctx e = ((cls, why), e1)" by (metis surj_pair)
  note run1 = run0 [unfolded c prod.case]
  show ?thesis
  proof (cases "cls = UNRECOVERABLE")
    case True
    with run1 classify_failure_state [OF c] show ?thesis by (intro stopped) (auto simp: refused_def)
  next
    case rec: False
    note run2 = run1 [unfolded if_not_P [OF rec]]
    obtain ok att why2 e2 where a: "attempt_retry H rep dumps ts now did e1 = ((ok, att, why2), e2)" by (metis surj_pair)
    have e2: "en_executed e2 = en_executed e"
      using attempt_retry_executed [of H rep dumps ts now did e1] classify_failure_state [OF c] by (simp add: a)
    note run3 = run2 [unfolded a prod.case]
    show ?thesis
    proof (cases ok)
      case False
      with run3 e2 show ?thesis by (intro stopped) (auto simp: refused_def)
    next
      case True
      obtain c0 e3 where s: "save_checkpoint H rep dumps hm ts now_iso did att sv ph e2 = (c0, e3)" by (metis surj_pair)
      obtain w e4 where t: "restore_checkpoint H rep dumps hm parse_iso ts now_iso rnow did att ph e3 = (w, e4)" by (metis surj_pair)
      have e4: "en_executed e4 = en_executed e"
        using save_checkpoint_executed [of H rep dumps hm ts now_iso did att sv ph e2]
          restore_checkpoint_executed [of H rep dumps hm parse_iso ts now_iso rnow did att ph e3] e2 by (simp add: s t)
      note run4 = run3 [unfolded s t prod.case, simplified True not_True_eq_False if_False]
      show ?thesis
      proof (cases w)
        case (Inl err)
        with run4 e4 show ?thesis by (intro stopped) auto
      next
        case (Inr p)
        obtain x st where p: "p = (x, st)" by fastforce
        obtain good msg where v: "verify_ledger_integrity H rep dumps (en_ledger e4) = (good, msg)" by (metis surj_pair)
        show ?thesis
        proof (cases "x = None \<or> \<not> good")
          case True
          with run4 e4 v show ?thesis by (intro stopped) (auto simp: Inr p refused_def split: option.splits if_splits)
        next
          case False
          with run4 e4 v show ?thesis by (intro continued [OF g]) (auto simp: Inr p)
        qed
      qed
    qed
  qed
qed

text \<open>Any further use of the engine.\<close>

inductive recovery_step :: "(string \<Rightarrow> string) \<Rightarrow> (pyval \<Rightarrow> string) \<Rightarrow> (pyval \<Rightarrow> string)
    \<Rightarrow> (string \<Rightarrow> string \<Rightarrow> string) \<Rightarrow> (pyval \<Rightarrow> string + rat) \<Rightarrow> engine \<Rightarrow> engine \<Rightarrow> bool" for H rep dumps hm parse_iso where
  recovery: "execute_safe_recovery H rep dumps hm parse_iso ts now_iso now rnow did etype emsg sv ph ctx killed e = (r, e') \<Longrightarrow>
    recovery_step H rep dumps hm parse_iso e e'"
| classify: "classify_failure H rep dumps ts etype emsg ctx e = (c, e') \<Longrightarrow> recovery_step H rep dumps hm parse_iso e e'"
| retry: "attempt_retry H rep dumps ts now did e = (a, e') \<Longrightarrow> recovery_step H rep dumps hm parse_iso e e'"
| save: "save_checkpoint H rep dumps hm ts now_iso did att sv ph e = (c, e') \<Longrightarrow> recovery_step H rep dumps hm parse_iso e e'"
| restore: "restore_checkpoint H rep dumps hm parse_iso ts now_iso now did att ph e = (w, e') \<Longrightarrow>
    recovery_step H rep dumps hm parse_iso e e'"

lemma completed_step:
  assumes "recovery_step H rep dumps hm parse_iso e e'" and "map_of (en_executed e) did = Some ''COMPLETED''"
  shows "map_of (en_executed e') did = Some ''COMPLETED''"
  using assms(1)
proof cases
  case recovery
  then show ?thesis by (cases rule: recovery_cases) (use assms(2) in \<open>simp_all add: map_of_AList_update\<close>)
next
  case classify
  from classify_failure_state [OF this] assms(2) show ?thesis by simp
next
  case retry
  with attempt_retry_executed assms(2) show ?thesis by (metis snd_conv)
next
  case save
  with save_checkpoint_executed assms(2) show ?thesis by (metis snd_conv)
next
  case restore
  with restore_checkpoint_executed assms(2) show ?thesis by (metis snd_conv)
qed

text \<open>C36. One engine object continues a directive at most once, and never under the killswitch: after a recovery
  that continued it, and any further use of the same engine, a recovery of it is refused, by the killswitch when
  that is active and as a duplicate otherwise. The memory is the object's own; a new engine on the same files, after
  a restart, continues the directive again (\<open>restart_continues_again\<close>).\<close>

theorem recovery_continues_once:
  assumes "execute_safe_recovery H rep dumps hm parse_iso ts now_iso now rnow did etype emsg sv ph ctx killed e = (Inr oc, e1)"
    and "oc_executed oc" and "(recovery_step H rep dumps hm parse_iso)\<^sup>*\<^sup>* e1 e2"
  shows "\<not> killed \<and> fst (execute_safe_recovery H rep dumps hm parse_iso ts' now_iso' now' rnow' did etype' emsg' sv' ph' ctx' killed' e2)
    = Inr (if killed' then refused KILLED_BY_WATCHDOG ''KILLSWITCH_ACTIVE_SUPREME_AUTHORITY''
           else refused HUMAN_REQUIRED ''DUPLICATE_EXECUTION_ATTEMPT_REJECTED'')"
proof -
  from assms(1) have "\<not> killed \<and> map_of (en_executed e1) did = Some ''COMPLETED''"
    by (cases rule: recovery_cases) (use assms(2) in \<open>simp_all add: map_of_AList_update\<close>)
  moreover from assms(3) this have "map_of (en_executed e2) did = Some ''COMPLETED''"
    by (induction rule: rtranclp_induct) (use completed_step in blast)+
  ultimately show ?thesis by (simp add: execute_safe_recovery_def Let_def)
qed

subsection \<open>Success\<close>

lemma checkpoint_round_trip:
  assumes "truthy (cp_timestamp c)" and "cp_signature c = PyStr sig"
  shows "checkpoint_from_dict now_iso (PyDict (checkpoint_to_dict c)) = Inr c"
  using assms by (simp add: checkpoint_from_dict_def checkpoint_to_dict_def new_checkpoint_def dget_or_def)

lemma compute_signature_ignores: "compute_signature hm rep dumps key (c\<lparr>cp_signature := v\<rparr>) = compute_signature hm rep dumps key c"
  by (simp add: compute_signature_def)

lemma attempt_retry_sealed:
  "ledger_sealed H rep dumps (en_ledger e) \<Longrightarrow> ledger_sealed H rep dumps (en_ledger (snd (attempt_retry H rep dumps ts now did e)))"
  by (simp add: attempt_retry_def Let_def add_event_sealed)

text \<open>A checkpoint read back from where it was just written passes every check.\<close>

lemma saved_checkpoint_restores:
  assumes "save_checkpoint H rep dumps hm ts now_iso did att sv ph e = (c, e1)" and "now_iso \<noteq> []"
    and "\<forall>k t. comparable_digest (PyStr (hm k t))" and "parse_iso (PyStr now_iso) = Inr t" and "now - t \<le> of_int (en_max_age e)"
    and "ledger_sealed H rep dumps (en_ledger e)"
  obtains st e2 where "restore_checkpoint H rep dumps hm parse_iso ts clock now did att ph e1 = (Inr (Some c, st), e2)"
    and "cp_state_vector c = PyDict sv" and "ledger_sealed H rep dumps (en_ledger e2)" and "en_executed e2 = en_executed e"
proof -
  define c0 where "c0 = new_checkpoint now_iso (PyStr did) (PyInt (int att)) (PyDict sv) (PyStr ph) PyNone PyNone"
  define sig where "sig = compute_signature hm rep dumps (en_key e) c0"
  have c: "c = c0\<lparr>cp_signature := PyStr sig\<rparr>"
    and e1: "en_files e1 = AList.update (checkpoint_file e did att) (Document (PyDict (checkpoint_to_dict c))) (en_files e)"
      "en_key e1 = en_key e" "en_dir e1 = en_dir e" "en_max_age e1 = en_max_age e" "en_executed e1 = en_executed e"
    and sealed1: "ledger_sealed H rep dumps (en_ledger e1)"
    using assms(1,6) by (auto simp: save_checkpoint_def Let_def c0_def sig_def add_event_sealed)
  have fields: "cp_timestamp c = PyStr now_iso" "cp_payload_hash c = PyStr ph" "cp_state_vector c = PyDict sv" "cp_signature c = PyStr sig"
    by (simp_all add: c c0_def new_checkpoint_def)
  have path: "checkpoint_file e1 did att = checkpoint_file e did att" by (simp add: checkpoint_file_def e1(3))
  have read: "checkpoint_from_dict clock (PyDict (checkpoint_to_dict c)) = Inr c"
    by (rule checkpoint_round_trip) (use fields assms(2) in simp_all)
  have signed: "compute_signature hm rep dumps (en_key e) c = sig" by (simp add: c compute_signature_ignores sig_def)
  have "comparable_digest (PyStr sig)" using assms(3) by (simp add: sig_def compute_signature_def)
  then have "restore_checkpoint H rep dumps hm parse_iso ts clock now did att ph e1 =
      (Inr (Some c, ''CHECKPOINT_INTEGRITY_VALIDATED''), add_event H rep dumps ts ''CHECKPOINT_RESTORED_AND_VERIFIED'' (PyStr did)
         [(''attempt_count'', cp_attempt_count c), (''payload_hash'', cp_payload_hash c)] e1)"
    using assms(4,5) by (simp add: restore_checkpoint_def Let_def path e1 map_of_AList_update read check_checkpoint_def fields signed)
  then show thesis by (rule that) (simp_all add: fields add_event_sealed sealed1 e1)
qed

text \<open>A recoverable failure recovers: without the killswitch, for a directive not yet continued, with a retry
  inside the limit, an intact ledger, and a clock that reads the timestamp it wrote, the recovery returns
  and continues with exactly the state vector that was saved, and the ledger verifies again.\<close>

theorem recovery_succeeds:
  assumes "\<not> killed" and "map_of (en_executed e) did \<noteq> Some ''COMPLETED''"
    and "fst (fst (classify_failure H rep dumps ts etype emsg ctx e)) = RECOVERABLE"
    and "fst (attempt_retry H rep dumps ts now did e) = (True, n, why)"
    and "ledger_sealed H rep dumps (en_ledger e)" and "en_ledger e \<noteq> None" and "now_iso \<noteq> []"
    and "\<forall>k t. comparable_digest (PyStr (hm k t))" and "parse_iso (PyStr now_iso) = Inr t" and "rnow - t \<le> of_int (en_max_age e)"
  shows "\<exists>e'. execute_safe_recovery H rep dumps hm parse_iso ts now_iso now rnow did etype emsg sv ph ctx killed e =
    (Inr \<lparr>oc_executed = True, oc_state = CONTINUING, oc_human_required = False, oc_attempt_count = Some n,
       oc_restored_state = Some (PyDict sv), oc_reason = ''SAFE_CONTINUATION_SUCCESSFUL''\<rparr>, e')
    \<and> ledger_sealed H rep dumps (en_ledger e')"
proof -
  obtain cwhy e1 where c0: "classify_failure H rep dumps ts etype emsg ctx e = ((RECOVERABLE, cwhy), e1)"
    using assms(3) by (metis prod.collapse)
  have e1: "e1 = e" by (rule classify_recoverable [OF c0])
  obtain e2 where a: "attempt_retry H rep dumps ts now did e = ((True, n, why), e2)" using assms(4) by (metis prod.collapse)
  have e2: "ledger_sealed H rep dumps (en_ledger e2)" "en_max_age e2 = en_max_age e"
    using attempt_retry_sealed [OF assms(5), of ts now did] a by (auto simp: attempt_retry_def Let_def split: if_splits)
  have fresh: "rnow - t \<le> of_int (en_max_age e2)" using assms(10) e2(2) by simp
  obtain c e3 where s: "save_checkpoint H rep dumps hm ts now_iso did n sv ph e2 = (c, e3)" by fastforce
  obtain st e4 where t: "restore_checkpoint H rep dumps hm parse_iso ts now_iso rnow did n ph e3 = (Inr (Some c, st), e4)"
    and sv: "cp_state_vector c = PyDict sv" and e4: "ledger_sealed H rep dumps (en_ledger e4)"
    by (rule saved_checkpoint_restores [where parse_iso = parse_iso and hm = hm and clock = now_iso,
          OF s assms(7,8,9) fresh e2(1)])
  obtain msg where v: "verify_ledger_integrity H rep dumps (en_ledger e4) = (True, msg)"
  proof (cases "en_ledger e4")
    case None
    then show ?thesis by (intro that) (simp add: verify_ledger_integrity_def)
  next
    case (Some ls)
    with e4 that show ?thesis by (cases "verify_ledger_integrity H rep dumps (Some ls)") (simp add: ledger_sealed_def sealed_def)
  qed
  show ?thesis
    using e4 by (simp add: execute_safe_recovery_def Let_def assms(1,2) c0 e1 a s t v sv add_event_sealed)
qed

definition sample_recovery :: "bool \<Rightarrow> engine \<Rightarrow> outcome res \<times> engine" where
  "sample_recovery = execute_safe_recovery (\<lambda>s. s) (\<lambda>v. []) (\<lambda>v. []) (\<lambda>k t. ''s'') (\<lambda>v. Inr 5) (\<lambda>k. []) ''t'' 5 6 ''D''
     ''TIMEOUT'' ''x'' [(''k'', PyInt 1)] ''p'' []"

lemma sample_recovers: "case fst (sample_recovery False sample_engine) of Inl e \<Rightarrow> False | Inr oc \<Rightarrow> oc_executed oc"
  by code_simp

theorem recovery_succeeds_witness:
  "\<exists>e'. sample_recovery False sample_engine = (Inr \<lparr>oc_executed = True, oc_state = CONTINUING, oc_human_required = False,
       oc_attempt_count = Some 1, oc_restored_state = Some (PyDict [(''k'', PyInt 1)]), oc_reason = ''SAFE_CONTINUATION_SUCCESSFUL''\<rparr>, e')
    \<and> ledger_sealed (\<lambda>s. s) (\<lambda>v. []) (\<lambda>v. []) (en_ledger e')"
  unfolding sample_recovery_def
proof (rule recovery_succeeds [where t = 5])
  show "fst (fst (classify_failure (\<lambda>s. s) (\<lambda>v. []) (\<lambda>v. []) (\<lambda>k. []) ''TIMEOUT'' ''x'' [] sample_engine)) = RECOVERABLE"
    by code_simp
  show "fst (attempt_retry (\<lambda>s. s) (\<lambda>v. []) (\<lambda>v. []) (\<lambda>k. []) 5 ''D'' sample_engine) = (True, 1, ''RETRY_AUTHORIZED'')"
    by code_simp
  have "verify_ledger_integrity H rep dumps (Some []) = (True, ''EMPTY_LEDGER'')" for H rep dumps
    by (simp add: verify_ledger_integrity_def)
  then show "ledger_sealed (\<lambda>s. s) (\<lambda>v. []) (\<lambda>v. []) (en_ledger sample_engine)"
    by (simp add: ledger_sealed_def sealed_def sample_engine_def new_engine_def ledger_start_def tidy_end_def)
qed (simp_all add: sample_engine_def new_engine_def ledger_start_def comparable_digest_def)

theorem recovery_continues_once_witness:
  "fst (sample_recovery False (snd (sample_recovery False sample_engine)))
    = Inr (refused HUMAN_REQUIRED ''DUPLICATE_EXECUTION_ATTEMPT_REJECTED'')"
proof -
  obtain oc e1 where run: "sample_recovery False sample_engine = (Inr oc, e1)" and "oc_executed oc"
    using sample_recovers by (cases "sample_recovery False sample_engine") (auto split: sum.splits)
  from recovery_continues_once [OF run [unfolded sample_recovery_def] this(2) rtranclp.rtrancl_refl]
  show ?thesis unfolding run snd_conv unfolding sample_recovery_def by simp
qed

text \<open>The memory of what was continued is not durable: a new engine on the same files continues again.\<close>

lemma restart_continues_again:
  "let e1 = snd (sample_recovery False sample_engine)
   in case fst (sample_recovery False (new_engine ''s'' ''k'' 2 60 3600 (en_files e1) (en_ledger e1))) of
        Inl e \<Rightarrow> False | Inr oc \<Rightarrow> oc_executed oc"
  by code_simp

end
