(* ===== verification/Ingress.thy ===== *)
theory Ingress
  imports Trails
begin

text \<open>
  The directive channel's data: \<open>src/directive/contracts.py\<close>, \<open>schema_validator.py\<close>, \<open>replay_ledger.py\<close> and
  \<open>durable_queue.py\<close>. \<open>str(v)\<close> is the text \<open>fmt rep v\<close>; \<open>int(v)\<close> of a stored attempt count is a parameter
  \<open>to_int\<close> that gives the number or the text of the exception; \<open>now_iso\<close> is the formatted current time.
\<close>

subsection \<open>Contracts\<close>

datatype ChannelState =
    DISCOVERED | VALIDATING | ACCEPTED | REJECTED | WAITING_HUMAN | QUEUED | COMPLETED | FAILED

datatype ValidationStatus =
    AUTHENTIC | INVALID_SOURCE | COMMIT_NOT_FOUND | COMMIT_EXISTS_BUT_DIRECTIVE_ABSENT | NOT_IN_APPROVED_BRANCH
  | CONTENT_MISMATCH | REPLAY_DETECTED | EXPIRED | CLOCK_SKEW_EXCEEDED | SCHEMA_INVALID | ACTION_NOT_ALLOWED
  | FAIL_CLOSED_GITHUB_UNAVAILABLE | COMMIT_SIGNATURE_MISSING | COMMIT_SIGNATURE_INVALID
  | UNTRUSTED_COMMIT_SIGNER | PAYLOAD_COMMIT_NOT_REACHABLE | REMOTE_BRANCH_UNAVAILABLE | STATE_CONFLICT
  | QUEUE_CORRUPTION | QUEUE_PERSISTENCE_FAILURE | QUEUE_RECORD_MISMATCH | TOCTOU_REVALIDATION_FAILED

record DirectivePayload =
  dpl_version :: string
  dpl_directive_id :: string
  dpl_project :: string
  dpl_target_project :: string
  dpl_target_stage :: string
  dpl_action_type :: string
  dpl_action :: string
  dpl_created_at :: string
  dpl_expires_at :: string
  dpl_issued_by :: string
  dpl_requires_human :: bool
  dpl_allowed_scope :: "pyval list"
  dpl_preconditions :: dict
  dpl_success_criteria :: dict
  dpl_failure_policy :: string
  dpl_rollback_policy :: string
  dpl_payload :: dict

definition payload_to_dict :: "DirectivePayload \<Rightarrow> dict" where
  "payload_to_dict p = [(''directive_version'', PyStr (dpl_version p)), (''directive_id'', PyStr (dpl_directive_id p)),
     (''project'', PyStr (dpl_project p)), (''target_project'', PyStr (dpl_target_project p)),
     (''target_stage'', PyStr (dpl_target_stage p)), (''action_type'', PyStr (dpl_action_type p)),
     (''action'', PyStr (dpl_action p)), (''created_at'', PyStr (dpl_created_at p)),
     (''expires_at'', PyStr (dpl_expires_at p)), (''issued_by'', PyStr (dpl_issued_by p)),
     (''requires_human_approval'', PyBool (dpl_requires_human p)), (''allowed_scope'', PyList (dpl_allowed_scope p)),
     (''preconditions'', PyDict (dpl_preconditions p)), (''success_criteria'', PyDict (dpl_success_criteria p)),
     (''failure_policy'', PyStr (dpl_failure_policy p)), (''rollback_policy'', PyStr (dpl_rollback_policy p)),
     (''payload'', PyDict (dpl_payload p))]"

text \<open>\<open>list(v)\<close> and \<open>dict(v)\<close> (of a list of pairs not modelled: a non-empty list raises).\<close>

definition py_list :: "pyval \<Rightarrow> pyval list res" where
  "py_list v = (case v of
      PyList xs \<Rightarrow> Inr xs
    | PyStr s \<Rightarrow> Inr (map (\<lambda>c. PyStr [c]) s)
    | PyBytes s \<Rightarrow> Inr (map (\<lambda>c. PyInt (int (ord_of c))) s)
    | PyDict m \<Rightarrow> Inr (map (\<lambda>kv. PyStr (fst kv)) m)
    | _ \<Rightarrow> Inl (PyError ''TypeError''))"

definition py_dict :: "pyval \<Rightarrow> dict res" where
  "py_dict v = (case v of
      PyDict m \<Rightarrow> Inr m
    | PyList [] \<Rightarrow> Inr []
    | PyStr [] \<Rightarrow> Inr []
    | PyBytes [] \<Rightarrow> Inr []
    | PyList _ \<Rightarrow> Inl (PyError ''ValueError'')
    | PyStr _ \<Rightarrow> Inl (PyError ''ValueError'')
    | _ \<Rightarrow> Inl (PyError ''TypeError''))"

definition inner_dict :: "string \<Rightarrow> dict \<Rightarrow> dict" where
  "inner_dict k m = (case dget m k of PyDict d \<Rightarrow> d | _ \<Rightarrow> m)"

definition payload_from_dict :: "(pyval \<Rightarrow> string) \<Rightarrow> dict \<Rightarrow> DirectivePayload res" where
  "payload_from_dict rep d0 =
     (let d = inner_dict ''payload_object'' d0; str = (\<lambda>k. fmt rep (dget_or d k (PyStr []))) in
      case py_list (dget_or d ''allowed_scope'' (PyList [])) of Inl e \<Rightarrow> Inl e | Inr scope \<Rightarrow>
     (case py_dict (dget_or d ''preconditions'' (PyDict [])) of Inl e \<Rightarrow> Inl e | Inr pre \<Rightarrow>
     (case py_dict (dget_or d ''success_criteria'' (PyDict [])) of Inl e \<Rightarrow> Inl e | Inr crit \<Rightarrow>
     (case py_dict (dget_or d ''payload'' (PyDict [])) of Inl e \<Rightarrow> Inl e | Inr pl \<Rightarrow>
      Inr \<lparr>dpl_version = str ''directive_version'', dpl_directive_id = str ''directive_id'',
        dpl_project = str ''project'', dpl_target_project = str ''target_project'',
        dpl_target_stage = str ''target_stage'', dpl_action_type = str ''action_type'',
        dpl_action = str ''action'', dpl_created_at = str ''created_at'', dpl_expires_at = str ''expires_at'',
        dpl_issued_by = str ''issued_by'',
        dpl_requires_human = truthy (dget_or d ''requires_human_approval'' (PyBool False)),
        dpl_allowed_scope = scope, dpl_preconditions = pre, dpl_success_criteria = crit,
        dpl_failure_policy = str ''failure_policy'', dpl_rollback_policy = str ''rollback_policy'',
        dpl_payload = pl\<rparr>))))"

record DirectiveEnvelope =
  env_directive_id :: string
  env_commit_sha :: string
  env_blob_sha :: string
  env_payload_sha256 :: string
  env_trusted_remote :: string
  env_trusted_branch :: string
  env_version :: string
  env_signature_present :: bool
  env_signature_valid :: bool
  env_signer_identity :: string
  env_signer_allowed :: bool

definition envelope_to_dict :: "DirectiveEnvelope \<Rightarrow> dict" where
  "envelope_to_dict e = [(''directive_id'', PyStr (env_directive_id e)), (''payload_commit_sha'', PyStr (env_commit_sha e)),
     (''payload_blob_sha'', PyStr (env_blob_sha e)), (''payload_sha256'', PyStr (env_payload_sha256 e)),
     (''trusted_remote'', PyStr (env_trusted_remote e)), (''trusted_branch'', PyStr (env_trusted_branch e)),
     (''authentication_version'', PyStr (env_version e)), (''signature_present'', PyBool (env_signature_present e)),
     (''signature_valid'', PyBool (env_signature_valid e)), (''signer_identity'', PyStr (env_signer_identity e)),
     (''signer_allowed'', PyBool (env_signer_allowed e))]"

definition envelope_from_dict :: "(pyval \<Rightarrow> string) \<Rightarrow> dict \<Rightarrow> DirectiveEnvelope" where
  "envelope_from_dict rep d0 =
     (let d = inner_dict ''envelope'' d0;
          str = (\<lambda>k v. fmt rep (dget_or d k v));
          flag = (\<lambda>k. truthy (dget_or d k (PyBool False)))
      in \<lparr>env_directive_id = str ''directive_id'' (PyStr []),
          env_commit_sha = str ''payload_commit_sha'' (dget_or d ''source_commit_sha'' (PyStr [])),
          env_blob_sha = str ''payload_blob_sha'' (PyStr []), env_payload_sha256 = str ''payload_sha256'' (PyStr []),
          env_trusted_remote = str ''trusted_remote'' (dget_or d ''source_repository'' (PyStr [])),
          env_trusted_branch = str ''trusted_branch'' (dget_or d ''source_branch'' (PyStr [])),
          env_version = str ''authentication_version'' (PyStr ''2.0''),
          env_signature_present = flag ''signature_present'', env_signature_valid = flag ''signature_valid'',
          env_signer_identity = str ''signer_identity'' (PyStr []), env_signer_allowed = flag ''signer_allowed''\<rparr>)"

record DirectiveAck =
  dak_directive_id :: pyval
  dak_received_at :: string
  dak_source_commit_sha :: pyval
  dak_validation_status :: string
  dak_decision :: string
  dak_decision_reason :: string
  dak_human_required :: bool
  dak_queued :: bool
  dak_executed :: bool
  dak_control_plane_commit_sha :: string
  dak_readback_verified :: bool
  dak_observer_version :: string

definition ack_to_dict :: "DirectiveAck \<Rightarrow> dict" where
  "ack_to_dict a = [(''directive_id'', dak_directive_id a), (''received_at'', PyStr (dak_received_at a)),
     (''source_commit_sha'', dak_source_commit_sha a), (''validation_status'', PyStr (dak_validation_status a)),
     (''decision'', PyStr (dak_decision a)), (''decision_reason'', PyStr (dak_decision_reason a)),
     (''human_required'', PyBool (dak_human_required a)), (''queued'', PyBool (dak_queued a)),
     (''executed'', PyBool (dak_executed a)), (''control_plane_commit_sha'', PyStr (dak_control_plane_commit_sha a)),
     (''readback_verified'', PyBool (dak_readback_verified a)), (''observer_version'', PyStr (dak_observer_version a))]"

record ConsumedRecord =
  cr_directive_id :: pyval
  cr_source_commit_sha :: pyval
  cr_first_seen_at :: pyval
  cr_decision :: pyval
  cr_decision_reason :: pyval
  cr_processed_at :: pyval
  cr_idempotency_key :: string
  cr_payload_sha256 :: string

definition consumed_to_dict :: "ConsumedRecord \<Rightarrow> dict" where
  "consumed_to_dict r = [(''directive_id'', cr_directive_id r), (''source_commit_sha'', cr_source_commit_sha r),
     (''first_seen_at'', cr_first_seen_at r), (''decision'', cr_decision r), (''decision_reason'', cr_decision_reason r),
     (''processed_at'', cr_processed_at r), (''idempotency_key'', PyStr (cr_idempotency_key r)),
     (''payload_sha256'', PyStr (cr_payload_sha256 r))]"

record QueuedDirectiveItem =
  qi_directive_id :: pyval
  qi_source_sha :: pyval
  qi_blob_sha :: pyval
  qi_payload_sha256 :: pyval
  qi_accepted_at :: pyval
  qi_queue_state :: pyval
  qi_target_project :: pyval
  qi_action_type :: pyval
  qi_requires_human :: bool
  qi_executed :: bool
  qi_attempts :: int
  qi_readback_verified :: bool
  qi_idempotency_key :: pyval
  qi_signer_identity :: pyval
  qi_payload :: pyval
  qi_source_path :: pyval

definition item_to_dict :: "QueuedDirectiveItem \<Rightarrow> dict" where
  "item_to_dict i = [(''directive_id'', qi_directive_id i), (''directive_source_sha'', qi_source_sha i),
     (''directive_blob_sha'', qi_blob_sha i), (''directive_payload_sha256'', qi_payload_sha256 i),
     (''accepted_at'', qi_accepted_at i), (''queue_state'', qi_queue_state i), (''target_project'', qi_target_project i),
     (''action_type'', qi_action_type i), (''requires_human_approval'', PyBool (qi_requires_human i)),
     (''executed'', PyBool (qi_executed i)), (''execution_attempts'', PyInt (qi_attempts i)),
     (''readback_verified'', PyBool (qi_readback_verified i)), (''idempotency_key'', qi_idempotency_key i),
     (''signer_identity'', qi_signer_identity i), (''directive_payload'', qi_payload i),
     (''directive_source_path'', qi_source_path i)]"

subsection \<open>Schema\<close>

definition REQUIRED_DIRECTIVE_FIELDS :: "string list" where
  "REQUIRED_DIRECTIVE_FIELDS = [''directive_version'', ''directive_id'', ''project'', ''target_project'', ''target_stage'',
     ''action_type'', ''action'', ''created_at'', ''expires_at'', ''issued_by'', ''source_repository'',
     ''source_branch'', ''source_commit_sha'', ''requires_human_approval'', ''allowed_scope'', ''preconditions'',
     ''success_criteria'', ''failure_policy'', ''rollback_policy'', ''payload'']"

definition schema_string_fields :: "string list" where
  "schema_string_fields = [''directive_version'', ''directive_id'', ''project'', ''target_project'', ''target_stage'',
     ''action_type'', ''action'', ''created_at'', ''expires_at'', ''issued_by'', ''source_repository'',
     ''source_branch'', ''source_commit_sha'', ''failure_policy'', ''rollback_policy'']"

definition quoted_field :: "string \<Rightarrow> string \<Rightarrow> string" where
  "quoted_field k rest = ''SCHEMA_INVALID: Field '' @ CHR 0x27 # k @ CHR 0x27 # rest"

definition schema_validate :: "pyval \<Rightarrow> bool \<times> string" where
  "schema_validate v = (case v of
      PyDict m \<Rightarrow>
        (case filter (\<lambda>f. f \<notin> fst ` set m) REQUIRED_DIRECTIVE_FIELDS of
           f # fs \<Rightarrow> (False, ''SCHEMA_INVALID: Missing required directive fields: '' @ join '', '' (f # fs))
         | [] \<Rightarrow>
        (case find (\<lambda>f. case dget m f of PyStr s \<Rightarrow> strip s = [] | _ \<Rightarrow> True) schema_string_fields of
           Some f \<Rightarrow> (False, quoted_field f '' must be a non-empty string'')
         | None \<Rightarrow>
           if (case dget m ''requires_human_approval'' of PyBool b \<Rightarrow> False | _ \<Rightarrow> True)
           then (False, quoted_field ''requires_human_approval'' '' must be a boolean'')
           else if (case dget m ''allowed_scope'' of PyList xs \<Rightarrow> False | _ \<Rightarrow> True)
           then (False, quoted_field ''allowed_scope'' '' must be a list'')
           else (case find (\<lambda>f. case dget m f of PyDict d \<Rightarrow> False | _ \<Rightarrow> True)
                   [''preconditions'', ''success_criteria'', ''payload''] of
               Some f \<Rightarrow> (False, quoted_field f '' must be a JSON object (dict)'')
             | None \<Rightarrow> (True, ''SCHEMA_VALID''))))
    | _ \<Rightarrow> (False, ''SCHEMA_INVALID: Directive content is not a valid JSON object''))"

subsection \<open>Replay ledger\<close>

record replay_ledger =
  rl_ids :: "pyval list"
  rl_records :: "(pyval \<times> ConsumedRecord) list"
  rl_file :: jfile

text \<open>A line that cannot be used is skipped; the last record of an identifier wins.\<close>

fun ledger_records :: "jline list \<Rightarrow> (pyval \<times> ConsumedRecord) list \<Rightarrow> (pyval \<times> ConsumedRecord) list" where
  "ledger_records [] rs = rs"
| "ledger_records (Json (PyDict m) # ls) rs =
     (if truthy (dget m ''directive_id'') \<and> hashable (dget m ''directive_id'')
      then ledger_records ls (AList.update (dget m ''directive_id'')
        \<lparr>cr_directive_id = dget m ''directive_id'', cr_source_commit_sha = dget_or m ''source_commit_sha'' (PyStr []),
         cr_first_seen_at = dget_or m ''first_seen_at'' (PyStr []), cr_decision = dget_or m ''decision'' (PyStr []),
         cr_decision_reason = dget_or m ''decision_reason'' (PyStr []),
         cr_processed_at = dget_or m ''processed_at'' (PyStr []), cr_idempotency_key = [], cr_payload_sha256 = []\<rparr> rs)
      else ledger_records ls rs)"
| "ledger_records (l # ls) rs = ledger_records ls rs"

definition load_ledger :: "jfile \<Rightarrow> replay_ledger" where
  "load_ledger f = (let rs = ledger_records (case f of None \<Rightarrow> [] | Some ls \<Rightarrow> ls) []
     in \<lparr>rl_ids = map fst rs, rl_records = rs, rl_file = f\<rparr>)"

definition is_consumed :: "string \<Rightarrow> replay_ledger \<Rightarrow> bool" where
  "is_consumed did l \<longleftrightarrow> PyStr did \<in> set (rl_ids l)"

definition is_processed :: "string \<Rightarrow> replay_ledger \<Rightarrow> bool" where
  "is_processed did l = is_consumed did l"

definition get_consumed_record :: "string \<Rightarrow> replay_ledger \<Rightarrow> ConsumedRecord option" where
  "get_consumed_record did l = map_of (rl_records l) (PyStr did)"

text \<open>A failed append only prints a warning: the record then lives in memory alone.\<close>

definition record_consumption :: "bool \<Rightarrow> string \<Rightarrow> string \<Rightarrow> string \<Rightarrow> string \<Rightarrow> string \<Rightarrow> string \<Rightarrow> replay_ledger
    \<Rightarrow> ConsumedRecord \<times> replay_ledger" where
  "record_consumption disk now_iso did sha seen decision reason l =
     (let r = \<lparr>cr_directive_id = PyStr did, cr_source_commit_sha = PyStr sha, cr_first_seen_at = PyStr seen,
           cr_decision = PyStr decision, cr_decision_reason = PyStr reason, cr_processed_at = PyStr now_iso,
           cr_idempotency_key = [], cr_payload_sha256 = []\<rparr>
      in (r, \<lparr>rl_ids = List.insert (PyStr did) (rl_ids l), rl_records = AList.update (PyStr did) r (rl_records l),
              rl_file = (if disk then append_line (consumed_to_dict r) (rl_file l) else rl_file l)\<rparr>))"

subsection \<open>Durable execution queue\<close>

datatype queue_error = QueuePersistenceError string | QueueCorruptionError string

fun split_on :: "char \<Rightarrow> string \<Rightarrow> string list" where
  "split_on c [] = [[]]"
| "split_on c (x # xs) = (if x = c then [] # split_on c xs
     else (case split_on c xs of [] \<Rightarrow> [[x]] | p # ps \<Rightarrow> (x # p) # ps))"

text \<open>\<open>[A-Za-z0-9][A-Za-z0-9._-]{0,122}\.json\<close> under \<open>fullmatch\<close>.\<close>

definition source_name :: "string \<Rightarrow> bool" where
  "source_name s \<longleftrightarrow> 6 \<le> length s \<and> length s \<le> 128 \<and> is_alnum (hd s) \<and> list_all ident_char s \<and> suffix ''.json'' s"

definition validate_directive_source_path :: "string \<Rightarrow> queue_error + string" where
  "validate_directive_source_path v =
     (if CHR 0x5C \<in> set v \<or> list_ex (\<lambda>c. ord_of c < 32) v
      then Inl (QueuePersistenceError ''INVALID_DIRECTIVE_SOURCE_PATH'')
      else (case split_on (CHR ''/'') v of
          [a, b, c] \<Rightarrow> if a \<noteq> ''directives'' \<or> b \<noteq> ''inbox''
              then Inl (QueuePersistenceError ''INVALID_DIRECTIVE_SOURCE_PATH'')
              else if \<not> source_name c \<or> c = ''.'' \<or> c = ''..''
              then Inl (QueuePersistenceError ''INVALID_DIRECTIVE_SOURCE_PATH'')
              else Inr (join ''/'' [a, b, c])
        | _ \<Rightarrow> Inl (QueuePersistenceError ''INVALID_DIRECTIVE_SOURCE_PATH'')))"

record exec_queue =
  eq_items :: "QueuedDirectiveItem list"
  eq_ids :: "(pyval \<times> QueuedDirectiveItem) list"
  eq_corrupted :: bool
  eq_reason :: "string option"
  eq_file :: jfile

definition item_of_dict :: "(pyval \<Rightarrow> string + int) \<Rightarrow> dict \<Rightarrow> string + QueuedDirectiveItem" where
  "item_of_dict to_int m = (let val = (\<lambda>k. dget_or m k (PyStr [])) in
     case to_int (dget_or m ''execution_attempts'' (PyInt 0)) of Inl e \<Rightarrow> Inl e | Inr n \<Rightarrow>
     Inr \<lparr>qi_directive_id = dget m ''directive_id'', qi_source_sha = val ''directive_source_sha'',
       qi_blob_sha = val ''directive_blob_sha'', qi_payload_sha256 = val ''directive_payload_sha256'',
       qi_accepted_at = val ''accepted_at'',
       qi_queue_state = dget_or m ''queue_state'' (PyStr ''READY_FOR_FUTURE_EXECUTOR''),
       qi_target_project = val ''target_project'', qi_action_type = val ''action_type'',
       qi_requires_human = truthy (dget_or m ''requires_human_approval'' (PyBool False)),
       qi_executed = truthy (dget_or m ''executed'' (PyBool False)), qi_attempts = n,
       qi_readback_verified = truthy (dget_or m ''readback_verified'' (PyBool True)),
       qi_idempotency_key = val ''idempotency_key'', qi_signer_identity = val ''signer_identity'',
       qi_payload = dget m ''directive_payload'', qi_source_path = val ''directive_source_path''\<rparr>)"

definition unhashable_error :: "pyval \<Rightarrow> string" where
  "unhashable_error v = ''unhashable type: '' @ CHR 0x27 # type_name v @ [CHR 0x27]"

definition reload_failed :: "string \<Rightarrow> queue_error" where
  "reload_failed e = QueueCorruptionError (''QUEUE_CORRUPTION: Queue reload failed: '' @ e)"

fun load_items :: "(pyval \<Rightarrow> string + int) \<Rightarrow> nat \<Rightarrow> jline list \<Rightarrow> (pyval \<times> QueuedDirectiveItem) list
    \<Rightarrow> queue_error + (pyval \<times> QueuedDirectiveItem) list" where
  "load_items to_int k [] q = Inr q"
| "load_items to_int k (Blank # ls) q = load_items to_int (Suc k) ls q"
| "load_items to_int k (Malformed e # ls) q =
     Inl (QueueCorruptionError (''QUEUE_CORRUPTION: Malformed JSON at line '' @ str_of_nat k @ '': '' @ e))"
| "load_items to_int k (Json v # ls) q = (case v of
      PyDict m \<Rightarrow> (let d = dget m ''directive_id'' in
        if \<not> truthy d then Inl (QueueCorruptionError (''QUEUE_CORRUPTION: Line '' @ str_of_nat k @ '' missing directive_id''))
        else if \<not> hashable d then Inl (reload_failed (unhashable_error d))
        else if d \<in> fst ` set q then load_items to_int (Suc k) ls q
        else (case item_of_dict to_int m of Inl e \<Rightarrow> Inl (reload_failed e)
            | Inr i \<Rightarrow> load_items to_int (Suc k) ls (q @ [(d, i)])))
    | _ \<Rightarrow> Inl (reload_failed (no_get v)))"

text \<open>The constructor: a queue that does not load raises, so no object exists in the corrupted state.\<close>

definition load_exec_queue :: "(pyval \<Rightarrow> string + int) \<Rightarrow> jfile \<Rightarrow> queue_error + exec_queue" where
  "load_exec_queue to_int f =
     (case load_items to_int 1 (case f of None \<Rightarrow> [] | Some ls \<Rightarrow> ls) [] of
        Inl e \<Rightarrow> Inl e
      | Inr q \<Rightarrow> Inr \<lparr>eq_items = map snd q, eq_ids = q, eq_corrupted = False, eq_reason = None, eq_file = f\<rparr>)"

definition is_queued :: "string \<Rightarrow> exec_queue \<Rightarrow> bool" where
  "is_queued did q = (if eq_corrupted q then False else PyStr did \<in> fst ` set (eq_ids q))"

definition get_queued_item :: "string \<Rightarrow> exec_queue \<Rightarrow> QueuedDirectiveItem option" where
  "get_queued_item did q = (if eq_corrupted q then None else map_of (eq_ids q) (PyStr did))"

definition new_item :: "(string \<Rightarrow> string) \<Rightarrow> (pyval \<Rightarrow> string) \<Rightarrow> DirectivePayload \<Rightarrow> DirectiveEnvelope \<Rightarrow> dict
    \<Rightarrow> string \<Rightarrow> string \<Rightarrow> QueuedDirectiveItem" where
  "new_item H rep p env meta accepted path =
     (let sha = dget_or meta ''payload_sha256'' (PyStr (env_payload_sha256 env))
      in \<lparr>qi_directive_id = PyStr (dpl_directive_id p), qi_source_sha = PyStr (env_commit_sha env),
          qi_blob_sha = dget_or meta ''payload_blob_sha'' (PyStr (env_blob_sha env)),
          qi_payload_sha256 = sha, qi_accepted_at = PyStr accepted,
          qi_queue_state = PyStr ''READY_FOR_FUTURE_EXECUTOR'', qi_target_project = PyStr (dpl_target_project p),
          qi_action_type = PyStr (dpl_action_type p), qi_requires_human = dpl_requires_human p,
          qi_executed = False, qi_attempts = 0, qi_readback_verified = False,
          qi_idempotency_key = PyStr (H (dpl_directive_id p @ '':'' @ env_commit_sha env @ '':'' @ fmt rep sha)),
          qi_signer_identity = dget_or meta ''signer_identity'' (PyStr (env_signer_identity env)),
          qi_payload = PyDict (payload_to_dict p), qi_source_path = PyStr path\<rparr>)"

text \<open>The read-back: the last line read must be the record just written. \<open>Inl\<close> an exception's text.\<close>

definition readback_ok :: "QueuedDirectiveItem \<Rightarrow> jline list \<Rightarrow> string + bool" where
  "readback_ok i ls = (case filter (\<lambda>l. \<not> is_blank l) ls of
      [] \<Rightarrow> Inr False
    | x # xs \<Rightarrow> (case last (x # xs) of
          Json (PyDict m) \<Rightarrow> Inr (dget m ''directive_id'' = qi_directive_id i
             \<and> dget m ''idempotency_key'' = qi_idempotency_key i
             \<and> dget m ''directive_payload_sha256'' = qi_payload_sha256 i
             \<and> dget_or m ''directive_source_path'' (PyStr []) = qi_source_path i)
        | Json v \<Rightarrow> Inl (no_get v)
        | Malformed e \<Rightarrow> Inl e
        | Blank \<Rightarrow> Inl []))"

text \<open>
  \<open>enqueue_payload\<close>. \<open>write_error\<close> is the text of a failed append; \<open>storage\<close> is what reading the file back
  gives (an exception's text or lines), which on sound storage are the lines written.
\<close>

definition enqueue_payload :: "(string \<Rightarrow> string) \<Rightarrow> (pyval \<Rightarrow> string) \<Rightarrow> string option
    \<Rightarrow> (jline list \<Rightarrow> string + jline list) \<Rightarrow> string \<Rightarrow> DirectivePayload \<Rightarrow> DirectiveEnvelope \<Rightarrow> dict \<Rightarrow> string option
    \<Rightarrow> string \<Rightarrow> exec_queue \<Rightarrow> (queue_error + QueuedDirectiveItem) \<times> exec_queue" where
  "enqueue_payload H rep write_error storage now_iso p env meta accepted path q =
     (if eq_corrupted q then (Inl (QueueCorruptionError (case eq_reason q of
          Some (c # cs) \<Rightarrow> c # cs | _ \<Rightarrow> ''QUEUE_CORRUPTION: Queue file is corrupted'')), q)
      else (case map_of (eq_ids q) (PyStr (dpl_directive_id p)) of
          Some i \<Rightarrow> (Inr i, q)
        | None \<Rightarrow>
      (case (if path = [] then Inr [] else validate_directive_source_path path) of
          Inl e \<Rightarrow> (Inl e, q)
        | Inr src \<Rightarrow>
      let i = new_item H rep p env meta (case accepted of Some (c # cs) \<Rightarrow> c # cs | _ \<Rightarrow> now_iso) src in
      (case write_error of
          Some e \<Rightarrow> (Inl (QueuePersistenceError
             (''QUEUE_PERSISTENCE_FAILURE: Failed writing execution queue: '' @ e)), q)
        | None \<Rightarrow>
      let q1 = q\<lparr>eq_file := append_line (item_to_dict i) (eq_file q)\<rparr> in
      (case (case storage (case eq_file q1 of None \<Rightarrow> [] | Some ls \<Rightarrow> ls) of
               Inl e \<Rightarrow> Inl e | Inr ls \<Rightarrow> readback_ok i ls) of
          Inl e \<Rightarrow> (Inl (QueuePersistenceError (''QUEUE_CORRUPTION: Read-back verification failed: '' @ e)), q1)
        | Inr False \<Rightarrow> (Inl (QueuePersistenceError
             (''QUEUE_RECORD_MISMATCH: Persisted queue record does not match item '' @ dpl_directive_id p)), q1)
        | Inr True \<Rightarrow> let j = i\<lparr>qi_readback_verified := True\<rparr> in
            (Inr j, q1\<lparr>eq_items := eq_items q1 @ [j], eq_ids := AList.update (qi_directive_id i) j (eq_ids q1)\<rparr>))))))"

definition get_items :: "exec_queue \<Rightarrow> QueuedDirectiveItem list" where
  "get_items q = (if eq_corrupted q then [] else eq_items q)"

end
