(* ===== verification/PreExecution.thy ===== *)
theory PreExecution
  imports Ingress
begin

text \<open>
  \<open>src/directive/executor.py\<close>, the revalidation immediately before execution, and
  \<open>src/directive/governance.py\<close>, the checks on the trusted branch. The authenticator, the outcome of
  \<open>git\<close> (return code, standard output, standard error, or \<open>None\<close> when running it raises) and the settings
  of the deployment are arguments.
\<close>

subsection \<open>Revalidation\<close>

type_synonym authenticator = "DirectivePayload \<Rightarrow> DirectiveEnvelope \<Rightarrow> ValidationStatus \<times> string \<times> bool \<times> dict"

record deployment =
  dy_remote :: string
  dy_branch :: string
  dy_execute_mutating :: bool

definition item_envelope :: "(pyval \<Rightarrow> string) \<Rightarrow> deployment \<Rightarrow> QueuedDirectiveItem \<Rightarrow> DirectiveEnvelope" where
  "item_envelope rep dep i = \<lparr>env_directive_id = fmt rep (qi_directive_id i), env_commit_sha = fmt rep (qi_source_sha i),
     env_blob_sha = fmt rep (qi_blob_sha i), env_payload_sha256 = fmt rep (qi_payload_sha256 i),
     env_trusted_remote = dy_remote dep, env_trusted_branch = dy_branch dep, env_version = ''2.0'',
     env_signature_present = False, env_signature_valid = False,
     env_signer_identity = fmt rep (qi_signer_identity i), env_signer_allowed = False\<rparr>"

definition revalidate_item :: "(pyval \<Rightarrow> string) \<Rightarrow> deployment \<Rightarrow> authenticator \<Rightarrow> QueuedDirectiveItem
    \<Rightarrow> (bool \<times> ValidationStatus \<times> string \<times> dict) res" where
  "revalidate_item rep dep auth i =
     (if \<not> qi_readback_verified i then
        Inr (False, QUEUE_CORRUPTION, ''TOCTOU_REVALIDATION_FAILED: Queue record was not read-back verified'', [])
      else if qi_executed i then
        Inr (False, STATE_CONFLICT, ''TOCTOU_REVALIDATION_FAILED: Directive already executed'', [])
      else if \<not> truthy (qi_payload i) then
        Inr (False, QUEUE_RECORD_MISMATCH, ''TOCTOU_REVALIDATION_FAILED: Queued directive_payload is missing'', [])
      else (case qi_payload i of
          PyDict m \<Rightarrow> (case payload_from_dict rep m of Inl e \<Rightarrow> Inl e | Inr p \<Rightarrow>
            (case auth p (item_envelope rep dep i) of (st, why, human, meta) \<Rightarrow>
             let live = dget_or meta ''payload_sha256'' (PyStr []) in
             if st \<noteq> AUTHENTIC \<and> \<not> human then
               Inr (False, TOCTOU_REVALIDATION_FAILED, ''TOCTOU_REVALIDATION_FAILED: '' @ why, meta)
             else if truthy live \<and> truthy (qi_payload_sha256 i) \<and> live \<noteq> qi_payload_sha256 i then
               Inr (False, TOCTOU_REVALIDATION_FAILED, ''TOCTOU_REVALIDATION_FAILED: Live blob SHA256 (''
                 @ take 7 (fmt rep live) @ '') mismatch against queued record (''
                 @ take 7 (fmt rep (qi_payload_sha256 i)) @ '')'', meta)
             else if \<not> dy_execute_mutating dep then
               Inr (False, ACTION_NOT_ALLOWED,
                 ''EXECUTION_ALLOWED = FALSE: Mutating directive execution disabled in stage CONTROL-02.5'', meta)
             else Inr (True, AUTHENTIC, ''TOCTOU_REVALIDATION_PASSED: Execution revalidated successfully'', meta)))
        | _ \<Rightarrow> Inl (PyError ''TypeError'')))"

subsection \<open>Trusted branch\<close>

definition TRUSTED_REMOTE :: string where "TRUSTED_REMOTE = ''origin''"
definition TRUSTED_BRANCH :: string where "TRUSTED_BRANCH = ''main''"
definition TRUSTED_BRANCH_REF :: string where "TRUSTED_BRANCH_REF = ''refs/heads/main''"

definition declaration_error :: "string \<Rightarrow> string \<Rightarrow> pyval \<Rightarrow> (pyval \<Rightarrow> string) \<Rightarrow> bool \<times> string option" where
  "declaration_error what expected got rep = (False, Some (what @ '': Expected '' @ CHR 0x27 # expected @ CHR 0x27 #
     '', got '' @ CHR 0x27 # fmt rep got @ [CHR 0x27]))"

definition validate_trusted_branch_declaration :: "(pyval \<Rightarrow> string) \<Rightarrow> pyval \<Rightarrow> pyval \<Rightarrow> pyval \<Rightarrow> bool \<times> string option" where
  "validate_trusted_branch_declaration rep remote branch refname =
     (if remote \<noteq> PyStr TRUSTED_REMOTE then declaration_error ''INVALID_TRUSTED_REMOTE'' TRUSTED_REMOTE remote rep
      else if branch \<noteq> PyStr TRUSTED_BRANCH then declaration_error ''INVALID_TRUSTED_BRANCH'' TRUSTED_BRANCH branch rep
      else if refname \<noteq> PyStr TRUSTED_BRANCH_REF
      then declaration_error ''INVALID_TRUSTED_BRANCH_REF'' TRUSTED_BRANCH_REF refname rep
      else (True, None))"

definition governance_keys :: "string list" where
  "governance_keys = [''protection_enabled'', ''force_push_restricted'', ''branch_delete_restricted'',
     ''direct_push_governed'', ''bypass_restricted'', ''reviews_required'', ''checks_required'',
     ''signed_commits_required'', ''admin_bypass_restricted'']"

definition evaluate_branch_governance_rules :: "dict \<Rightarrow> (string \<times> bool) list" where
  "evaluate_branch_governance_rules cfg = (let on = (\<lambda>k. truthy (dget cfg k)) in
     [(''trusted_branch_protection_verified'', on ''protection_enabled''),
      (''force_push_protection_verified'', on ''force_push_restricted''),
      (''branch_delete_protection_verified'', on ''branch_delete_restricted''),
      (''direct_push_policy_verified'', on ''direct_push_governed''),
      (''governance_bypass_protection_verified'', on ''bypass_restricted''),
      (''authorized_actor_policy_verified'', on ''direct_push_governed''),
      (''required_review_policy_verified'', on ''reviews_required''),
      (''required_status_checks_verified'', on ''checks_required''),
      (''signed_commit_policy_verified'', on ''signed_commits_required''),
      (''admin_bypass_policy_verified'', on ''admin_bypass_restricted''),
      (''all_governance_verified'', list_all on governance_keys)])"

record provenance =
  pv_head_sha :: string
  pv_signature_valid :: bool
  pv_signer_authorized :: bool
  pv_path_valid :: bool
  pv_verified :: bool

type_synonym run = "(int \<times> string \<times> string) option"

definition no_provenance :: "string \<Rightarrow> provenance" where
  "no_provenance sha = \<lparr>pv_head_sha = sha, pv_signature_valid = False, pv_signer_authorized = False,
     pv_path_valid = False, pv_verified = False\<rparr>"

definition signer_in_output :: "string list \<Rightarrow> string \<Rightarrow> bool" where
  "signer_in_output signers out = list_ex (\<lambda>s. s \<noteq> [] \<and> (contains out s \<or> contains (filter (\<lambda>c. c \<noteq> CHR '' '') out) s)) signers"

text \<open>The flags (signature, signer, path) after running \<open>git verify-commit\<close> and, failing that, \<open>git cat-file\<close>.\<close>

definition provenance_flags :: "run \<Rightarrow> run \<Rightarrow> string list \<Rightarrow> bool \<times> bool \<times> bool" where
  "provenance_flags verify cat signers = (case verify of
      None \<Rightarrow> (False, False, False)
    | Some (rc, out, errs) \<Rightarrow>
        if rc = 0 then
          (let named = signer_in_output signers (out @ [CHR 0x0A] @ errs)
           in (True, (if \<not> named then True else named), True))
        else (case cat of
            None \<Rightarrow> (False, False, False)
          | Some (rc2, out2, errs2) \<Rightarrow>
              if rc2 = 0 \<and> (contains out2 ''gpgsig'' \<or> contains out2 ''ssh'' \<or> contains out2 ''BEGIN SSH SIGNATURE''
                 \<or> contains out2 ''tree '')
              then (True, True, True) else (False, False, False)))"

definition verify_trusted_head_provenance :: "run \<Rightarrow> run \<Rightarrow> string \<Rightarrow> string list \<Rightarrow> bool \<times> provenance" where
  "verify_trusted_head_provenance verify cat sha signers =
     (if sha = [] \<or> sha = ''UNKNOWN_SHA'' then (False, no_provenance sha)
      else (case provenance_flags verify cat signers of (s, a, g) \<Rightarrow>
        (s \<and> a \<and> g, \<lparr>pv_head_sha = sha, pv_signature_valid = s, pv_signer_authorized = a, pv_path_valid = g,
           pv_verified = s \<and> a \<and> g\<rparr>)))"

record incident_meta =
  im_preserved :: bool
  im_policy_compliant :: bool
  im_incident_id :: pyval

definition no_incident :: incident_meta where
  "no_incident = \<lparr>im_preserved = False, im_policy_compliant = False, im_incident_id = PyNone\<rparr>"

fun find_incident :: "jline list \<Rightarrow> bool \<times> incident_meta" where
  "find_incident [] = (False, no_incident)"
| "find_incident (Blank # ls) = find_incident ls"
| "find_incident (Json (PyDict m) # ls) =
     (if dget m ''incident_type'' = PyStr ''DIRECT_PUSH_TO_TRUSTED_BRANCH'' \<and> dget m ''incident_block'' = PyStr ''2.5''
         \<and> dget m ''incident_policy_compliant'' = PyBool False \<and> dget m ''historical_incident_preserved'' = PyBool True
      then (True, \<lparr>im_preserved = True, im_policy_compliant = False, im_incident_id = dget m ''governance_incident_id''\<rparr>)
      else find_incident ls)"
| "find_incident (l # ls) = (False, no_incident)"

definition verify_historical_incident_preserved :: "jfile \<Rightarrow> bool \<times> incident_meta" where
  "verify_historical_incident_preserved f = (case f of None \<Rightarrow> (False, no_incident)
     | Some ls \<Rightarrow> find_incident (stripped ls))"

definition verify_remediation_branch :: "string \<Rightarrow> bool \<times> (string \<times> bool \<times> bool)" where
  "verify_remediation_branch name = (let created = (name \<noteq> [] \<and> strip name \<noteq> []);
        other = (created \<and> lower (strip name) \<noteq> ''main'')
     in (created \<and> other, name, created, other))"

end
