(* ===== verification/IngressClaims.thy ===== *)
theory IngressClaims
  imports PreExecution
begin

text \<open>
  What the directive channel's stores promise: an identifier recorded in the replay ledger stays consumed
  over restarts, and a restart of the execution queue keeps every item, each of which the revalidation
  before execution then refuses.
\<close>

subsection \<open>Replay ledger\<close>

text \<open>
  One operation with a directive's identifier, which the schema requires to be non-empty, or a restart.
\<close>

inductive ledger_step :: "replay_ledger \<Rightarrow> replay_ledger \<Rightarrow> bool" where
  recorded: "did \<noteq> [] \<Longrightarrow> record_consumption disk now did sha seen decision reason l = (r, l') \<Longrightarrow> ledger_step l l'"
| restart: "ledger_step l (load_ledger (rl_file l))"

text \<open>The identifiers a file holds.\<close>

definition file_ids :: "jfile \<Rightarrow> pyval set" where
  "file_ids f = fst ` set (ledger_records (case f of None \<Rightarrow> [] | Some ls \<Rightarrow> ls) [])"

lemma ledger_records_append: "ledger_records (ks @ ls) rs = ledger_records ls (ledger_records ks rs)"
  by (induction ks rs rule: ledger_records.induct) simp_all

lemma file_ids_append:
  "cr_directive_id r = PyStr did \<Longrightarrow> did \<noteq> [] \<Longrightarrow>
    file_ids (append_line (consumed_to_dict r) f) = insert (PyStr did) (file_ids f)"
  by (cases f)
     (simp_all add: file_ids_def append_line_def ledger_records_append consumed_to_dict_def dget_def dom_update)

lemma load_ledger_ids: "set (rl_ids (load_ledger f)) = file_ids f"
  by (simp add: load_ledger_def file_ids_def Let_def)

definition known :: "string \<Rightarrow> replay_ledger \<Rightarrow> bool" where
  "known did l \<longleftrightarrow> is_consumed did l \<and> PyStr did \<in> file_ids (rl_file l)"

lemma recorded_known:
  "did \<noteq> [] \<Longrightarrow> record_consumption True now did sha seen decision reason l = (r, l') \<Longrightarrow> known did l'"
  by (auto simp: record_consumption_def known_def is_consumed_def Let_def file_ids_append)

lemma known_step: "ledger_step l l' \<Longrightarrow> known did l \<Longrightarrow> known did l'"
proof (induction rule: ledger_step.induct)
  case (recorded d disk now sha seen decision reason l r l')
  then show ?case
    by (cases disk) (auto simp: record_consumption_def known_def is_consumed_def Let_def file_ids_append [where did = d])
qed (simp add: known_def is_consumed_def load_ledger_ids, simp add: load_ledger_def Let_def)

text \<open>Replays are refused for good: once a directive was recorded with a successful write, it counts as
  consumed after any further recordings, whether their writes succeed or not, and any restarts.\<close>

theorem consumed_stays_consumed:
  assumes "record_consumption True now did sha seen decision reason l = (r, l1)" and "did \<noteq> []"
    and "ledger_step\<^sup>*\<^sup>* l1 l2"
  shows "is_processed did l2 \<and> is_processed did (load_ledger (rl_file l2))"
proof -
  from assms(3) have "known did l2"
    by (induction rule: rtranclp_induct) (use recorded_known [OF assms(2,1)] known_step in blast)+
  then show ?thesis by (simp add: is_processed_def known_def is_consumed_def load_ledger_ids)
qed

theorem consumed_stays_consumed_witness:
  "let l1 = snd (record_consumption True ''t'' ''D'' ''c'' ''s'' ''QUEUED'' ''ok'' (load_ledger None))
   in is_processed ''D'' (load_ledger (rl_file l1)) \<and> \<not> is_processed ''E'' l1"
proof -
  obtain r l1 where run: "record_consumption True ''t'' ''D'' ''c'' ''s'' ''QUEUED'' ''ok'' (load_ledger None) = (r, l1)"
    by fastforce
  from consumed_stays_consumed [OF run _ rtranclp.rtrancl_refl] have "is_processed ''D'' (load_ledger (rl_file l1))" by simp
  moreover from run have "\<not> is_processed ''E'' l1"
    by (auto simp: record_consumption_def load_ledger_def is_processed_def is_consumed_def Let_def)
  ultimately show ?thesis by (simp add: run)
qed

text \<open>A failed append is only warned about: the directive is consumed until the next restart, and then not.\<close>

lemma failed_append_forgotten:
  "let l1 = snd (record_consumption False ''t'' ''D'' ''c'' ''s'' ''QUEUED'' ''ok'' (load_ledger None))
   in is_processed ''D'' l1 \<and> \<not> is_processed ''D'' (load_ledger (rl_file l1))"
  by (simp add: record_consumption_def load_ledger_def is_processed_def is_consumed_def Let_def)

subsection \<open>Execution queue\<close>

text \<open>
  Enqueuing a directive with an identifier, over any storage (failing appends and misread read-backs
  included), or a restart that loads.
\<close>

inductive exec_step :: "(pyval \<Rightarrow> string + int) \<Rightarrow> exec_queue \<Rightarrow> exec_queue \<Rightarrow> bool" for to_int where
  enqueue: "dpl_directive_id p \<noteq> [] \<Longrightarrow>
    enqueue_payload H rep write_error storage now p env meta accepted path q = (r, q') \<Longrightarrow> exec_step to_int q q'"
| restart: "load_exec_queue to_int (eq_file q) = Inr q' \<Longrightarrow> exec_step to_int q q'"

definition exec_reachable :: "(pyval \<Rightarrow> string + int) \<Rightarrow> exec_queue \<Rightarrow> bool" where
  "exec_reachable to_int q \<longleftrightarrow> (\<exists>q0. load_exec_queue to_int None = Inr q0 \<and> (exec_step to_int)\<^sup>*\<^sup>* q0 q)"

definition item_line :: "QueuedDirectiveItem \<Rightarrow> jline" where
  "item_line i = Json (PyDict (item_to_dict i))"

text \<open>A record as it is written: an identifier, and the read-back still outstanding.\<close>

definition written_item :: "QueuedDirectiveItem \<Rightarrow> bool" where
  "written_item i \<longleftrightarrow> (\<exists>d. qi_directive_id i = PyStr d \<and> d \<noteq> []) \<and> \<not> qi_readback_verified i"

definition holds_items :: "jfile \<Rightarrow> QueuedDirectiveItem list \<Rightarrow> bool" where
  "holds_items f is \<longleftrightarrow> (f = None \<and> is = [] \<or> f = Some (map item_line is)) \<and> (\<forall>i \<in> set is. written_item i)"

definition exec_inv :: "exec_queue \<Rightarrow> bool" where
  "exec_inv q \<longleftrightarrow> \<not> eq_corrupted q
    \<and> (\<exists>is. holds_items (eq_file q) is \<and> fst ` set (eq_ids q) \<subseteq> qi_directive_id ` set is)"

lemma item_round_trip: "to_int (PyInt (qi_attempts i)) = Inr (qi_attempts i) \<Longrightarrow> item_of_dict to_int (item_to_dict i) = Inr i"
  by (simp add: item_of_dict_def item_to_dict_def dget_def dget_or_def Let_def)

lemma load_written:
  assumes "\<And>n. to_int (PyInt n) = Inr n"
  shows "(\<forall>i \<in> set is. written_item i) \<Longrightarrow> \<exists>q'. load_items to_int k (map item_line is) q = Inr q'
    \<and> fst ` set q' = fst ` set q \<union> qi_directive_id ` set is \<and> snd ` set q' \<subseteq> snd ` set q \<union> set is"
proof (induction "is" arbitrary: k q)
  case (Cons i "is")
  from Cons.prems obtain d where d: "qi_directive_id i = PyStr d" "d \<noteq> []" by (auto simp: written_item_def)
  have key: "dget (item_to_dict i) ''directive_id'' = PyStr d" by (simp add: item_to_dict_def dget_def d)
  let ?q = "if PyStr d \<in> fst ` set q then q else q @ [(PyStr d, i)]"
  have step: "load_items to_int k (map item_line (i # is)) q = load_items to_int (Suc k) (map item_line is) ?q"
    using d(2) item_round_trip [of to_int i] assms by (simp add: item_line_def key Let_def)
  from Cons.IH [of "Suc k" ?q] Cons.prems obtain q' where
    q': "load_items to_int (Suc k) (map item_line is) ?q = Inr q'"
      "fst ` set q' = fst ` set ?q \<union> qi_directive_id ` set is" "snd ` set q' \<subseteq> snd ` set ?q \<union> set is" by auto
  have load: "load_items to_int k (map item_line (i # is)) q = Inr q'" by (simp only: step q'(1))
  have q: "fst ` set ?q = insert (PyStr d) (fst ` set q)" "snd ` set ?q \<subseteq> insert i (snd ` set q)" by auto
  have "fst ` set q' = fst ` set q \<union> qi_directive_id ` set (i # is)" unfolding q'(2) q(1) by (simp add: d(1))
  moreover have "snd ` set q' \<subseteq> snd ` set q \<union> set (i # is)"
    by (rule subset_trans [OF q'(3)]) (use q(2) in \<open>simp del: if_split; blast\<close>)
  ultimately show ?case using load by blast
qed simp

lemma load_exec_written:
  assumes "\<And>n. to_int (PyInt n) = Inr n" and "holds_items f is"
  shows "\<exists>q'. load_exec_queue to_int f = Inr q' \<and> fst ` set (eq_ids q') = qi_directive_id ` set is
    \<and> set (eq_items q') \<subseteq> set is \<and> eq_file q' = f \<and> \<not> eq_corrupted q'"
proof -
  have "(case f of None \<Rightarrow> [] | Some ls \<Rightarrow> ls) = map item_line is" and "\<forall>i \<in> set is. written_item i"
    using assms(2) by (auto simp: holds_items_def)
  with load_written [OF assms(1), of "is" 1 "[]"] show ?thesis by (auto simp: load_exec_queue_def)
qed

lemma exec_enqueue_cases:
  assumes "enqueue_payload H rep we storage now p env meta accepted path q = (r, q')"
  obtains "q' = q"
  | i where "qi_directive_id i = PyStr (dpl_directive_id p)" and "\<not> qi_readback_verified i"
      and "eq_file q' = append_line (item_to_dict i) (eq_file q)" and "eq_corrupted q' = eq_corrupted q"
      and "fst ` set (eq_ids q') \<subseteq> insert (PyStr (dpl_directive_id p)) (fst ` set (eq_ids q))"
proof (cases "eq_corrupted q \<or> map_of (eq_ids q) (PyStr (dpl_directive_id p)) \<noteq> None")
  case True
  with assms have "q' = q" by (auto simp: enqueue_payload_def split: option.splits if_splits)
  then show ?thesis by (rule that(1))
next
  case False
  then have g: "\<not> eq_corrupted q" "map_of (eq_ids q) (PyStr (dpl_directive_id p)) = None" by simp_all
  note run0 = assms [unfolded enqueue_payload_def if_not_P [OF g(1)] g(2) option.case]
  show ?thesis
  proof (cases "if path = [] then Inr [] else validate_directive_source_path path")
    case (Inl e)
    note run1 = run0 [unfolded Inl sum.case]
    then show ?thesis by (intro that(1)) simp
  next
    case (Inr src)
    note run1 = run0 [unfolded Inr sum.case]
    show ?thesis
    proof (cases we)
      case (Some e)
      with run1 show ?thesis by (intro that(1)) (simp add: Let_def)
    next
      case None
      define i where "i = new_item H rep p env meta (case accepted of Some (c # cs) \<Rightarrow> c # cs | _ \<Rightarrow> now) src"
      define q1 where "q1 = q\<lparr>eq_file := append_line (item_to_dict i) (eq_file q)\<rparr>"
      have q1: "eq_file q1 = append_line (item_to_dict i) (eq_file q)" "eq_corrupted q1 = eq_corrupted q" "eq_ids q1 = eq_ids q"
        by (simp_all add: q1_def)
      have i: "qi_directive_id i = PyStr (dpl_directive_id p)" "\<not> qi_readback_verified i"
        by (simp_all add: i_def new_item_def Let_def)
      note run2 = run1 [unfolded None option.case, folded i_def, unfolded Let_def, folded q1_def]
      have "eq_file q' = eq_file q1 \<and> eq_corrupted q' = eq_corrupted q1
          \<and> (eq_ids q' = eq_ids q1 \<or> (\<exists>j. eq_ids q' = AList.update (PyStr (dpl_directive_id p)) j (eq_ids q1)))"
        using run2 i(1) by (auto split: sum.splits bool.splits)
      then have same: "eq_file q' = eq_file q1" "eq_corrupted q' = eq_corrupted q1"
        and ids: "eq_ids q' = eq_ids q \<or> (\<exists>j. eq_ids q' = AList.update (PyStr (dpl_directive_id p)) j (eq_ids q))"
        using q1(3) by simp_all
      have "fst ` set (eq_ids q') \<subseteq> insert (PyStr (dpl_directive_id p)) (fst ` set (eq_ids q))"
        using ids by (elim disjE exE; simp add: dom_update; blast)
      with same q1 show ?thesis by (intro that(2) [OF i]) simp_all
    qed
  qed
qed

lemma exec_step_inv:
  assumes "exec_step to_int q q'" and "\<And>n. to_int (PyInt n) = Inr n" and "exec_inv q"
  shows "exec_inv q'"
proof -
  from assms(3) obtain "is" where ok: "\<not> eq_corrupted q" and held: "holds_items (eq_file q) is"
    and ids: "fst ` set (eq_ids q) \<subseteq> qi_directive_id ` set is" by (auto simp: exec_inv_def)
  from assms(1) show ?thesis
  proof cases
    case (enqueue p H rep we storage now env meta accepted path r)
    from enqueue(2) show ?thesis
    proof (cases rule: exec_enqueue_cases)
      case 1
      with assms(3) show ?thesis by simp
    next
      case (2 i)
      have "written_item i" using 2(1,2) enqueue(1) by (simp add: written_item_def)
      then have "holds_items (eq_file q') (is @ [i])"
        using held 2(3) by (auto simp: holds_items_def append_line_def item_line_def)
      moreover have "fst ` set (eq_ids q') \<subseteq> qi_directive_id ` set (is @ [i])" using 2(1,5) ids by auto
      ultimately show ?thesis using ok 2(4) unfolding exec_inv_def by blast
    qed
  next
    case restart
    from load_exec_written [OF assms(2) held] restart held show ?thesis by (auto simp: exec_inv_def)
  qed
qed

lemma exec_reachable_inv:
  assumes "exec_reachable to_int q" and "\<And>n. to_int (PyInt n) = Inr n"
  shows "exec_inv q"
proof -
  from assms(1) obtain q0 where q0: "load_exec_queue to_int None = Inr q0" and run: "(exec_step to_int)\<^sup>*\<^sup>* q0 q"
    by (auto simp: exec_reachable_def)
  have "exec_inv q0" using q0 by (auto simp: load_exec_queue_def exec_inv_def holds_items_def)
  with run show ?thesis
    by (induction rule: rtranclp_induct) (use exec_step_inv assms(2) in blast)+
qed

text \<open>A restart of the execution queue loses no directive and stops every one of them: in a reachable
  queue the file always loads and keeps every queued identifier, but the records were written before
  their read-back, so the revalidation before execution refuses each reloaded item, whatever the
  authenticator and the deployment say.\<close>

theorem reloaded_items_refused:
  assumes "exec_reachable to_int q" and "\<And>n. to_int (PyInt n) = Inr n"
  shows "\<exists>q'. load_exec_queue to_int (eq_file q) = Inr q' \<and> (\<forall>did. is_queued did q \<longrightarrow> is_queued did q')
    \<and> (\<forall>i \<in> set (get_items q'). revalidate_item rep dep auth i = Inr (False, QUEUE_CORRUPTION,
          ''TOCTOU_REVALIDATION_FAILED: Queue record was not read-back verified'', []))"
proof -
  from exec_reachable_inv [OF assms] obtain "is" where ok: "\<not> eq_corrupted q" and held: "holds_items (eq_file q) is"
    and ids: "fst ` set (eq_ids q) \<subseteq> qi_directive_id ` set is" by (auto simp: exec_inv_def)
  from load_exec_written [OF assms(2) held] obtain q' where q': "load_exec_queue to_int (eq_file q) = Inr q'"
      "fst ` set (eq_ids q') = qi_directive_id ` set is" "set (eq_items q') \<subseteq> set is" "\<not> eq_corrupted q'" by auto
  have "is_queued did q'" if "is_queued did q" for did
    using that ids q'(2,4) ok unfolding is_queued_def by (auto split: if_splits)
  moreover have "\<not> qi_readback_verified i" if "i \<in> set (get_items q')" for i
    using that held q'(3,4) by (auto simp: get_items_def holds_items_def written_item_def)
  ultimately show ?thesis using q'(1) by (auto simp: revalidate_item_def)
qed

definition sample_payload :: DirectivePayload where
  "sample_payload = \<lparr>dpl_version = ''2.0'', dpl_directive_id = ''D'', dpl_project = ''P'', dpl_target_project = ''P'',
     dpl_target_stage = ''S'', dpl_action_type = ''READ'', dpl_action = ''status'', dpl_created_at = ''t'', dpl_expires_at = ''u'',
     dpl_issued_by = ''I'', dpl_requires_human = False, dpl_allowed_scope = [], dpl_preconditions = [],
     dpl_success_criteria = [], dpl_failure_policy = ''F'', dpl_rollback_policy = ''R'', dpl_payload = []\<rparr>"

definition sample_envelope :: DirectiveEnvelope where
  "sample_envelope = envelope_from_dict (\<lambda>v. []) []"

definition sample_int :: "pyval \<Rightarrow> string + int" where
  "sample_int v = (case v of PyInt n \<Rightarrow> Inr n | _ \<Rightarrow> Inl [])"

definition sample_queue :: exec_queue where
  "sample_queue = snd (enqueue_payload (\<lambda>s. ''h'') (\<lambda>v. []) None Inr ''t'' sample_payload sample_envelope [] None []
     (projr (load_exec_queue sample_int None)))"

lemma sample_queue_reachable: "exec_reachable sample_int sample_queue"
proof -
  have load: "load_exec_queue sample_int None = Inr (projr (load_exec_queue sample_int None))"
    by (simp add: load_exec_queue_def)
  have "exec_step sample_int (projr (load_exec_queue sample_int None)) sample_queue"
    unfolding sample_queue_def
    by (rule exec_step.enqueue [where p = sample_payload]) (simp add: sample_payload_def, rule prod.collapse [symmetric])
  with load show ?thesis unfolding exec_reachable_def by blast
qed

theorem reloaded_items_refused_witness:
  "\<exists>q'. load_exec_queue sample_int (eq_file sample_queue) = Inr q' \<and> is_queued ''D'' q'
    \<and> (\<forall>i \<in> set (get_items q'). revalidate_item (\<lambda>v. []) \<lparr>dy_remote = [], dy_branch = [], dy_execute_mutating = True\<rparr>
          (\<lambda>p e. (AUTHENTIC, [], False, [])) i = Inr (False, QUEUE_CORRUPTION,
          ''TOCTOU_REVALIDATION_FAILED: Queue record was not read-back verified'', []))"
proof -
  have queued: "is_queued ''D'' sample_queue"
    by (simp add: sample_queue_def enqueue_payload_def load_exec_queue_def sample_payload_def readback_ok_def
        append_line_def is_blank_def new_item_def item_to_dict_def dget_def dget_or_def Let_def is_queued_def)
  have ints: "sample_int (PyInt n) = Inr n" for n by (simp add: sample_int_def)
  from reloaded_items_refused [OF sample_queue_reachable ints] queued show ?thesis by blast
qed

end
