(* ===== verification/Reconciler.thy ===== *)
theory Reconciler
  imports Trails
begin

text \<open>
  \<open>src/directive/reconciler.py\<close>: reconciling the execution evidence of the queue file, the consumed
  ledger and the acknowledgement files. Membership of a value in a set raises on a value that cannot be
  hashed, and those exceptions escape, so the classifiers return results. Identifiers that are no
  strings are sorted only when there is at most one.
\<close>

definition NON_EXECUTION_STATES :: "string list" where
  "NON_EXECUTION_STATES = [''ACCEPTED'', ''REJECTED'', ''WAITING_HUMAN'', ''QUEUED'', ''SUBMITTED'', ''PENDING'',
     ''RECEIVED'', ''VALIDATED'', ''FAILED'']"

definition EXECUTION_STATES :: "string list" where
  "EXECUTION_STATES = [''EXECUTED'', ''COMPLETED'']"

definition TERMINAL_FAILURE_STATES :: "string list" where
  "TERMINAL_FAILURE_STATES = [''REJECTED'', ''FAILED'']"

definition KNOWN_READ_ONLY_ACTIONS :: "string list" where
  "KNOWN_READ_ONLY_ACTIONS = [''STATUS_REQUEST'', ''AUDIT_REQUEST'', ''READ_ONLY_ANALYSIS'', ''GENERATE_REPORT'',
     ''RUN_CONTROL_PLANE_TESTS'', ''RUN_READ_ONLY_OBSERVATION'', ''PREPARE_NEXT_STAGE'', ''NO_OP'']"

definition KNOWN_MUTATING_ACTIONS :: "string list" where
  "KNOWN_MUTATING_ACTIONS = [''MUTATE'', ''TARGET_MUTATION'', ''DESTRUCTIVE'', ''EXECUTE_RECOVERY'']"

text \<open>\<open>v in S\<close> for a set of strings; \<open>x or y\<close> and \<open>any\<close>, which stop at the first true value.\<close>

definition in_set :: "pyval \<Rightarrow> string list \<Rightarrow> bool res" where
  "in_set v S = (if hashable v then Inr (v \<in> PyStr ` set S) else Inl (PyError ''TypeError''))"

definition or_else :: "bool res \<Rightarrow> bool res \<Rightarrow> bool res" where
  "or_else x y = (case x of Inl e \<Rightarrow> Inl e | Inr True \<Rightarrow> Inr True | Inr False \<Rightarrow> y)"

fun any_res :: "('a \<Rightarrow> bool res) \<Rightarrow> 'a list \<Rightarrow> bool res" where
  "any_res f [] = Inr False"
| "any_res f (x # xs) = or_else (f x) (any_res f xs)"

definition is_explicitly_executed :: "dict \<Rightarrow> bool res" where
  "is_explicitly_executed m =
     (if dget m ''executed'' = PyBool True then Inr True
      else any_res (\<lambda>k. in_set (dget m k) EXECUTION_STATES) [''execution_status'', ''status'', ''state'', ''decision''])"

definition is_terminally_failed :: "(pyval \<Rightarrow> string) \<Rightarrow> dict \<Rightarrow> bool res" where
  "is_terminally_failed rep m =
     or_else (any_res (\<lambda>k. in_set (dget m k) TERMINAL_FAILURE_STATES) [''decision'', ''status'', ''execution_status'', ''state''])
       (if dget m ''executed'' = PyBool False
        then or_else (any_res (\<lambda>k. in_set (dget m k) TERMINAL_FAILURE_STATES) [''decision'', ''status'', ''execution_status''])
          (let err = fmt rep (dget_or m ''error'' (PyStr []))
           in Inr (contains err ''REJECTED'' \<or> contains err ''FAILED''))
        else Inr False)"

definition determine_mutation_type :: "dict \<Rightarrow> bool option res" where
  "determine_mutation_type m = (case dget m ''mutating'' of
      PyBool b \<Rightarrow> Inr (Some b)
    | _ \<Rightarrow>
      (case (if truthy (dget m ''action_type'') then Inr (dget m ''action_type'')
             else (case dget_or m ''directive_payload'' (PyDict []) of
                 PyDict p \<Rightarrow> Inr (dget p ''action_type'') | _ \<Rightarrow> Inl (PyError ''AttributeError''))) of
        Inl e \<Rightarrow> Inl e
      | Inr a \<Rightarrow> (case in_set a KNOWN_READ_ONLY_ACTIONS of Inl e \<Rightarrow> Inl e
          | Inr True \<Rightarrow> Inr (Some False)
          | Inr False \<Rightarrow> (case in_set a KNOWN_MUTATING_ACTIONS of Inl e \<Rightarrow> Inl e
              | Inr True \<Rightarrow> Inr (Some True) | Inr False \<Rightarrow> Inr None))))"

subsection \<open>Collecting the records\<close>

text \<open>The records of a directive, in the order queue, consumed, acknowledgements.\<close>

record sources =
  so_queue :: "dict list"
  so_consumed :: "dict list"
  so_ack :: "dict list"

definition no_sources :: sources where
  "no_sources = \<lparr>so_queue = [], so_consumed = [], so_ack = []\<rparr>"

type_synonym by_directive = "(pyval \<times> sources) list"

definition add_record :: "(dict \<Rightarrow> sources \<Rightarrow> sources) \<Rightarrow> dict \<Rightarrow> by_directive \<Rightarrow> by_directive option" where
  "add_record put m rs = (let d = dget m ''directive_id'' in
     if \<not> truthy d then Some rs
     else if \<not> hashable d then None
     else Some (AList.update d (put m (case map_of rs d of None \<Rightarrow> no_sources | Some s \<Rightarrow> s)) rs))"

text \<open>\<open>None\<close>: an exception, which the code turns into a corrupt source.\<close>

fun parse_source :: "(dict \<Rightarrow> sources \<Rightarrow> sources) \<Rightarrow> jline list \<Rightarrow> by_directive \<Rightarrow> by_directive option" where
  "parse_source put [] rs = Some rs"
| "parse_source put (Blank # ls) rs = parse_source put ls rs"
| "parse_source put (Json (PyDict m) # ls) rs =
     (case add_record put m rs of None \<Rightarrow> None | Some rs1 \<Rightarrow> parse_source put ls rs1)"
| "parse_source put (l # ls) rs = None"

definition put_queue :: "dict \<Rightarrow> sources \<Rightarrow> sources" where
  "put_queue m s = s\<lparr>so_queue := so_queue s @ [m]\<rparr>"

definition put_consumed :: "dict \<Rightarrow> sources \<Rightarrow> sources" where
  "put_consumed m s = s\<lparr>so_consumed := so_consumed s @ [m]\<rparr>"

definition put_ack :: "dict \<Rightarrow> sources \<Rightarrow> sources" where
  "put_ack m s = s\<lparr>so_ack := so_ack s @ [m]\<rparr>"

text \<open>An acknowledgement file holds one document.\<close>

definition ack_line :: "jdoc \<Rightarrow> jline" where
  "ack_line d = (case d of Document v \<Rightarrow> Json v | Unreadable e \<Rightarrow> Malformed e | Absent \<Rightarrow> Malformed [])"

definition all_items :: "sources \<Rightarrow> dict list" where
  "all_items s = so_queue s @ so_consumed s @ so_ack s"

subsection \<open>Reconciliation\<close>

record evidence_report =
  er_available :: bool
  er_complete :: bool
  er_consistent :: bool
  er_source_count :: nat
  er_missing :: "string list"
  er_executed_count :: "nat option"
  er_executed_ids :: "pyval list"
  er_mutating :: "nat option"
  er_error :: "string option"

definition failed_report :: "bool \<Rightarrow> nat \<Rightarrow> string list \<Rightarrow> string \<Rightarrow> evidence_report" where
  "failed_report available n missing why = \<lparr>er_available = available, er_complete = available, er_consistent = False,
     er_source_count = n, er_missing = missing, er_executed_count = None, er_executed_ids = [],
     er_mutating = None, er_error = Some why\<rparr>"

definition missing_sources :: "jfile \<Rightarrow> jfile \<Rightarrow> jdoc list option \<Rightarrow> string list" where
  "missing_sources queue consumed acks =
     (if queue = None then [''directives/runtime/execution_queue.jsonl''] else [])
     @ (if consumed = None then [''directives/runtime/consumed_directives.jsonl''] else [])
     @ (if acks = None \<or> acks = Some [] then [''directives/ack/*.json''] else [])"

fun filter_res :: "('a \<Rightarrow> bool res) \<Rightarrow> 'a list \<Rightarrow> 'a list res" where
  "filter_res f [] = Inr []"
| "filter_res f (x # xs) = (case f x of Inl e \<Rightarrow> Inl e | Inr b \<Rightarrow>
     (case filter_res f xs of Inl e \<Rightarrow> Inl e | Inr ys \<Rightarrow> Inr (if b then x # ys else ys)))"

fun map_res :: "('a \<Rightarrow> 'b res) \<Rightarrow> 'a list \<Rightarrow> 'b list res" where
  "map_res f [] = Inr []"
| "map_res f (x # xs) = (case f x of Inl e \<Rightarrow> Inl e | Inr y \<Rightarrow>
     (case map_res f xs of Inl e \<Rightarrow> Inl e | Inr ys \<Rightarrow> Inr (y # ys)))"

text \<open>One directive: \<open>Inl\<close> the refusal, \<open>Inr\<close> whether it was executed and whether it mutated.\<close>

definition analyse :: "(pyval \<Rightarrow> string) \<Rightarrow> dict list \<Rightarrow> (string + bool \<times> bool) res" where
  "analyse rep ms =
     (case any_res is_explicitly_executed ms of Inl e \<Rightarrow> Inl e | Inr ex \<Rightarrow>
     (case any_res (is_terminally_failed rep) ms of Inl e \<Rightarrow> Inl e | Inr bad \<Rightarrow>
      if ex \<and> bad then Inr (Inl ''EXECUTION_EVIDENCE_INCONSISTENT'')
      else if \<not> ex then Inr (Inr (False, False))
      else (case filter_res is_explicitly_executed ms of Inl e \<Rightarrow> Inl e | Inr xs \<Rightarrow>
      (case map_res determine_mutation_type xs of Inl e \<Rightarrow> Inl e | Inr ts \<Rightarrow>
       if None \<in> set ts then Inr (Inl ''EXECUTION_CLASSIFICATION_UNKNOWN'')
       else Inr (Inr (True, Some True \<in> set ts))))))"

fun analyse_all :: "(pyval \<Rightarrow> string) \<Rightarrow> by_directive \<Rightarrow> pyval list \<Rightarrow> nat \<Rightarrow> (string + pyval list \<times> nat) res" where
  "analyse_all rep [] ids n = Inr (Inr (ids, n))"
| "analyse_all rep ((d, s) # rs) ids n = (case analyse rep (all_items s) of Inl e \<Rightarrow> Inl e
     | Inr (Inl why) \<Rightarrow> Inr (Inl why)
     | Inr (Inr (ex, mut)) \<Rightarrow> analyse_all rep rs (if ex then ids @ [d] else ids) (if mut then n + 1 else n))"

definition sorted_ids :: "pyval list \<Rightarrow> pyval list res" where
  "sorted_ids ids = (if list_all (\<lambda>v. as_str v \<noteq> None) ids
     then Inr (map PyStr (sort (map (\<lambda>v. case v of PyStr s \<Rightarrow> s | _ \<Rightarrow> []) ids)))
     else if length ids \<le> 1 then Inr ids else Inl (PyError ''TypeError''))"

definition reconcile_execution_evidence :: "(pyval \<Rightarrow> string) \<Rightarrow> jfile \<Rightarrow> jfile \<Rightarrow> jdoc list option
    \<Rightarrow> evidence_report res" where
  "reconcile_execution_evidence rep queue consumed acks =
     (let missing = missing_sources queue consumed acks; n = 3 - length missing in
      if missing \<noteq> [] then Inr (failed_report False n missing ''EXECUTION_EVIDENCE_INCOMPLETE'')
      else (case parse_source put_queue (the queue) [] of
          None \<Rightarrow> Inr (failed_report False n [] ''EXECUTION_EVIDENCE_CORRUPT'')
        | Some r1 \<Rightarrow> (case parse_source put_consumed (the consumed) r1 of
          None \<Rightarrow> Inr (failed_report False n [] ''EXECUTION_EVIDENCE_CORRUPT'')
        | Some r2 \<Rightarrow> (case parse_source put_ack (map ack_line (the acks)) r2 of
          None \<Rightarrow> Inr (failed_report False n [] ''EXECUTION_EVIDENCE_CORRUPT'')
        | Some r3 \<Rightarrow> (case analyse_all rep r3 [] 0 of Inl e \<Rightarrow> Inl e
          | Inr (Inl why) \<Rightarrow> Inr (failed_report True 3 [] why)
          | Inr (Inr (ids, m)) \<Rightarrow> (case sorted_ids ids of Inl e \<Rightarrow> Inl e
              | Inr out \<Rightarrow> Inr \<lparr>er_available = True, er_complete = True, er_consistent = True,
                  er_source_count = 3, er_missing = [], er_executed_count = Some (length ids),
                  er_executed_ids = out, er_mutating = Some m, er_error = None\<rparr>))))))"

end
