(* ===== verification/ReconcilerClaims.thy ===== *)
theory ReconcilerClaims
  imports Reconciler "HOL-Library.Multiset"
begin

text \<open>
  What a consistent report says about the three sources: its executed directives are exactly those with a
  record of an execution, each counted once, none of them also recorded as failed or rejected, and every
  record of an execution classified as mutating or not.
\<close>

subsection \<open>Grouping\<close>

text \<open>The records of the sources in their order, and those of one directive.\<close>

fun line_records :: "jline list \<Rightarrow> dict list" where
  "line_records [] = []"
| "line_records (Json (PyDict m) # ls) = m # line_records ls"
| "line_records (l # ls) = line_records ls"

definition filed :: "dict list \<Rightarrow> pyval \<Rightarrow> dict set" where
  "filed ms d = {m \<in> set ms. dget m ''directive_id'' = d \<and> truthy d}"

definition group_of :: "by_directive \<Rightarrow> pyval \<Rightarrow> dict set" where
  "group_of rs d = (case map_of rs d of None \<Rightarrow> {} | Some s \<Rightarrow> set (all_items s))"

text \<open>\<open>rs\<close> groups the records \<open>ms\<close>.\<close>

definition groups :: "by_directive \<Rightarrow> dict list \<Rightarrow> bool" where
  "groups rs ms \<longleftrightarrow> distinct (map fst rs) \<and> (\<forall>d. group_of rs d = filed ms d) \<and> (\<forall>(d, s) \<in> set rs. all_items s \<noteq> [])"

definition puts :: "(dict \<Rightarrow> sources \<Rightarrow> sources) \<Rightarrow> bool" where
  "puts put \<longleftrightarrow> (\<forall>m s. set (all_items (put m s)) = insert m (set (all_items s)))"

lemma puts_simps [simp]: "puts put_queue" "puts put_consumed" "puts put_ack"
  by (simp_all add: puts_def put_queue_def put_consumed_def put_ack_def all_items_def)

lemma filed_append: "filed (ms @ ns) d = filed ms d \<union> filed ns d"
  by (auto simp: filed_def)

lemma add_record_groups:
  assumes "add_record put m rs = Some rs1" and "puts put" and "groups rs ms"
  shows "groups rs1 (ms @ [m])"
proof (cases "truthy (dget m ''directive_id'')")
  case False
  with assms(1,3) show ?thesis
    by (auto simp: add_record_def Let_def groups_def filed_append) (auto simp: filed_def)
next
  case True
  let ?d = "dget m ''directive_id''"
  let ?s = "put m (case map_of rs ?d of None \<Rightarrow> no_sources | Some s \<Rightarrow> s)"
  have rs1: "rs1 = AList.update ?d ?s rs" using assms(1) True by (auto simp: add_record_def Let_def split: if_splits)
  have s: "set (all_items ?s) = insert m (group_of rs ?d)"
    using assms(2) by (auto simp: puts_def group_of_def no_sources_def all_items_def split: option.splits)
  have "group_of rs1 d = filed (ms @ [m]) d" for d
    using s assms(3) True
    by (cases "d = ?d") (auto simp: rs1 group_of_def map_of_AList_update groups_def filed_append, auto simp: filed_def)
  moreover have "all_items t \<noteq> []" if "(d, t) \<in> set rs1" for d t
  proof -
    have "distinct (map fst rs1)" using assms(3) by (simp add: rs1 groups_def distinct_update)
    with that have "map_of rs1 d = Some t" by (simp add: map_of_is_SomeI)
    then show ?thesis using s assms(3) by (auto simp: rs1 map_of_AList_update groups_def split: if_splits dest: map_of_SomeD)
  qed
  ultimately show ?thesis using assms(3) by (auto simp: groups_def rs1 distinct_update)
qed

lemma parse_source_groups:
  "parse_source put ls rs = Some rs1 \<Longrightarrow> puts put \<Longrightarrow> groups rs ms \<Longrightarrow> groups rs1 (ms @ line_records ls)"
proof (induction put ls rs arbitrary: ms rule: parse_source.induct)
  case (3 put m ls rs)
  then obtain rs2 where r: "add_record put m rs = Some rs2" "parse_source put ls rs2 = Some rs1" by (auto split: option.splits)
  from "3.IH" [OF r 3(3) add_record_groups [OF r(1) 3(3,4)]] show ?case by simp
qed auto

subsection \<open>Analysis\<close>

lemma any_res_Inr:
  "any_res f xs = Inr b \<Longrightarrow> if b then \<exists>x \<in> set xs. f x = Inr True else \<forall>x \<in> set xs. f x = Inr False"
  by (induction xs arbitrary: b) (auto simp: or_else_def split: sum.splits bool.splits if_splits)

lemma filter_res_Inr: "filter_res f xs = Inr ys \<Longrightarrow> ys = filter (\<lambda>x. f x = Inr True) xs"
  by (induction xs arbitrary: ys) (auto split: sum.splits if_splits)

lemma map_res_Inr: "map_res f xs = Inr ys \<Longrightarrow> map f xs = map Inr ys"
  by (induction xs arbitrary: ys) (auto split: sum.splits)

definition executed_record :: "dict \<Rightarrow> bool" where
  "executed_record m \<longleftrightarrow> is_explicitly_executed m = Inr True"

definition settled_record :: "(pyval \<Rightarrow> string) \<Rightarrow> dict \<Rightarrow> bool" where
  "settled_record rep m \<longleftrightarrow> is_terminally_failed rep m = Inr False
     \<and> (executed_record m \<longrightarrow> (\<exists>b. determine_mutation_type m = Inr (Some b)))"

text \<open>A directive with an execution on record: every record of it agrees.\<close>

lemma analyse_Inr:
  assumes "analyse rep ms = Inr (Inr (ex, mut))"
  shows "ex \<longleftrightarrow> (\<exists>m \<in> set ms. executed_record m)" and "ex \<Longrightarrow> m \<in> set ms \<Longrightarrow> settled_record rep m"
    and "mut \<longleftrightarrow> (\<exists>m \<in> set ms. executed_record m \<and> determine_mutation_type m = Inr (Some True))"
proof -
  from assms obtain x bad where x: "any_res is_explicitly_executed ms = Inr x" and bad: "any_res (is_terminally_failed rep) ms = Inr bad"
    by (auto simp: analyse_def split: sum.splits)
  note run0 = assms [unfolded analyse_def x bad sum.case]
  have "\<not> (x \<and> bad)" using run0 by (auto split: if_splits)
  note run1 = run0 [unfolded if_not_P [OF this]]
  have ex: "x = ex" using run1 by (auto split: if_splits sum.splits)
  have executed: "if ex then \<exists>m \<in> set ms. executed_record m else \<forall>m \<in> set ms. \<not> executed_record m"
    using any_res_Inr [OF x] by (auto simp: ex executed_record_def split: if_splits)
  then show "ex \<longleftrightarrow> (\<exists>m \<in> set ms. executed_record m)" by (auto split: if_splits)
  have "(mut \<longleftrightarrow> (\<exists>m \<in> set ms. executed_record m \<and> determine_mutation_type m = Inr (Some True)))
    \<and> (\<forall>m \<in> set ms. executed_record m \<longrightarrow> (\<exists>b. determine_mutation_type m = Inr (Some b)))" if ex
  proof -
    from run1 ex that obtain xs ts where xs: "filter_res is_explicitly_executed ms = Inr xs" and ts: "map_res determine_mutation_type xs = Inr ts"
      and known: "None \<notin> set ts" and mut: "mut = (Some True \<in> set ts)" by (auto split: sum.splits if_splits)
    have xs_eq: "xs = filter executed_record ms" using filter_res_Inr [OF xs] by (simp add: executed_record_def [abs_def])
    have types: "determine_mutation_type ` set xs = Inr ` set ts" using map_res_Inr [OF ts] by (metis list.set_map)
    have "\<exists>b. determine_mutation_type m = Inr (Some b)" if "m \<in> set xs" for m
    proof -
      from types that obtain t where "t \<in> set ts" "determine_mutation_type m = Inr t" by blast
      with known show ?thesis by (cases t) auto
    qed
    moreover have "Some True \<in> set ts \<longleftrightarrow> (\<exists>m \<in> set xs. determine_mutation_type m = Inr (Some True))"
      using types by (metis (no_types, lifting) image_iff sum.inject(2))
    ultimately show ?thesis by (auto simp: mut xs_eq)
  qed
  note types = this
  show "settled_record rep m" if "ex" "m \<in> set ms"
  proof -
    have "\<not> bad" using \<open>\<not> (x \<and> bad)\<close> ex that(1) by simp
    with any_res_Inr [OF bad] that(2) have "is_terminally_failed rep m = Inr False" by simp
    with types [OF that(1)] that show ?thesis by (simp add: settled_record_def)
  qed
  show "mut \<longleftrightarrow> (\<exists>m \<in> set ms. executed_record m \<and> determine_mutation_type m = Inr (Some True))"
  proof (cases ex)
    case True
    with types show ?thesis by blast
  next
    case False
    with run1 ex executed show ?thesis by simp
  qed
qed

lemma analyse_all_Inr:
  assumes "analyse_all rep rs ids n = Inr (Inr (out, k))" and "\<forall>(d, s) \<in> set rs. all_items s \<noteq> []"
  shows "out = ids @ map fst (filter (\<lambda>(d, s). \<exists>m \<in> set (all_items s). executed_record m) rs)"
    and "k = n + length (filter (\<lambda>(d, s). \<exists>m \<in> set (all_items s). executed_record m
      \<and> determine_mutation_type m = Inr (Some True)) rs)"
    and "\<forall>(d, s) \<in> set rs. (\<exists>m \<in> set (all_items s). executed_record m) \<longrightarrow> (\<forall>m \<in> set (all_items s). settled_record rep m)"
  using assms
proof (induction rep rs ids n rule: analyse_all.induct)
  case (2 rep d s rs ids n)
  {
    case 1
    then obtain ex mut where a: "analyse rep (all_items s) = Inr (Inr (ex, mut))"
      and rest: "analyse_all rep rs (if ex then ids @ [d] else ids) (if mut then n + 1 else n) = Inr (Inr (out, k))"
      by (auto split: sum.splits)
    from "2.IH" [OF a refl refl] rest analyse_Inr [OF a] 1(2) show ?case by (auto split: if_splits)
  next
    case 2
    then obtain ex mut where a: "analyse rep (all_items s) = Inr (Inr (ex, mut))"
      and rest: "analyse_all rep rs (if ex then ids @ [d] else ids) (if mut then n + 1 else n) = Inr (Inr (out, k))"
      by (auto split: sum.splits)
    from "2.IH" [OF a refl refl] rest analyse_Inr [OF a] 2(2) show ?case by (auto split: if_splits)
  next
    case 3
    then obtain ex mut where a: "analyse rep (all_items s) = Inr (Inr (ex, mut))"
      and rest: "analyse_all rep rs (if ex then ids @ [d] else ids) (if mut then n + 1 else n) = Inr (Inr (out, k))"
      by (auto split: sum.splits)
    from "2.IH" [OF a refl refl] rest analyse_Inr [OF a] 3(2) show ?case by auto
  }
qed simp_all

lemma sorted_ids_Inr: "sorted_ids ids = Inr out \<Longrightarrow> mset out = mset ids"
proof -
  assume ok: "sorted_ids ids = Inr out"
  show ?thesis
  proof (cases "list_all (\<lambda>v. as_str v \<noteq> None) ids")
    case True
    then have "map PyStr (map (\<lambda>v. case v of PyStr s \<Rightarrow> s | _ \<Rightarrow> []) ids) = ids"
      by (induction ids) (auto split: pyval.splits)
    then have "image_mset PyStr (mset (map (\<lambda>v. case v of PyStr s \<Rightarrow> s | _ \<Rightarrow> []) ids)) = mset ids"
      by (metis mset_map)
    with ok True show ?thesis by (auto simp: sorted_ids_def)
  next
    case False
    with ok show ?thesis by (auto simp: sorted_ids_def split: if_splits)
  qed
qed

subsection \<open>Properties\<close>

definition source_records :: "jfile \<Rightarrow> jfile \<Rightarrow> jdoc list option \<Rightarrow> dict list" where
  "source_records queue consumed acks = line_records (the queue) @ line_records (the consumed)
     @ line_records (map ack_line (the acks))"

text \<open>The directives with an execution on record, and those with a mutating one.\<close>

definition executed_directives :: "dict list \<Rightarrow> pyval set" where
  "executed_directives ms = {d. \<exists>m \<in> filed ms d. executed_record m}"

definition mutating_directives :: "dict list \<Rightarrow> pyval set" where
  "mutating_directives ms = {d. \<exists>m \<in> filed ms d. executed_record m \<and> determine_mutation_type m = Inr (Some True)}"

lemma groups_filter:
  assumes "groups rs ms"
  shows "set (map fst (filter (\<lambda>(d, s). \<exists>m \<in> set (all_items s). P m) rs)) = {d. \<exists>m \<in> filed ms d. P m}"
    and "distinct (map fst (filter (\<lambda>(d, s). \<exists>m \<in> set (all_items s). P m) rs))"
proof -
  have distinct: "distinct (map fst rs)" using assms by (simp add: groups_def)
  then have "group_of rs d = set (all_items s)" if "(d, s) \<in> set rs" for d s using that by (simp add: group_of_def)
  moreover have "\<exists>s. (d, s) \<in> set rs \<and> group_of rs d = set (all_items s)" if "group_of rs d \<noteq> {}" for d
    using that by (auto simp: group_of_def split: option.splits dest: map_of_SomeD)
  ultimately show "set (map fst (filter (\<lambda>(d, s). \<exists>m \<in> set (all_items s). P m) rs)) = {d. \<exists>m \<in> filed ms d. P m}"
    using assms unfolding groups_def by (fastforce simp: image_iff)
  show "distinct (map fst (filter (\<lambda>(d, s). \<exists>m \<in> set (all_items s). P m) rs))"
    using distinct by (rule distinct_map_filter)
qed

lemma consistent_cases:
  assumes "reconcile_execution_evidence rep queue consumed acks = Inr r" and "er_consistent r"
  obtains rs ids n out where "groups rs (source_records queue consumed acks)"
    and "analyse_all rep rs [] 0 = Inr (Inr (ids, n))" and "sorted_ids ids = Inr out"
    and "er_executed_count r = Some (length ids)" and "er_executed_ids r = out" and "er_mutating r = Some n"
    and "queue \<noteq> None" and "consumed \<noteq> None" and "acks \<noteq> None" and "acks \<noteq> Some []"
proof -
  note run0 = assms(1) [unfolded reconcile_execution_evidence_def Let_def]
  have all: "missing_sources queue consumed acks = []" using run0 assms(2) by (auto simp: failed_report_def split: if_splits)
  note run1 = run0 [unfolded all, simplified]
  obtain ra where ra: "parse_source put_queue (the queue) [] = Some ra"
    using run1 assms(2) by (cases "parse_source put_queue (the queue) []") (auto simp: failed_report_def)
  obtain rb where rb: "parse_source put_consumed (the consumed) ra = Some rb"
    using run1 assms(2) by (cases "parse_source put_consumed (the consumed) ra") (auto simp: ra failed_report_def)
  obtain rc where rc: "parse_source put_ack (map ack_line (the acks)) rb = Some rc"
    using run1 assms(2) by (cases "parse_source put_ack (map ack_line (the acks)) rb") (auto simp: ra rb failed_report_def)
  note run2 = run1 [unfolded ra rb rc option.case]
  obtain ids n where a: "analyse_all rep rc [] 0 = Inr (Inr (ids, n))"
    using run2 assms(2) by (auto simp: failed_report_def split: sum.splits)
  note run3 = run2 [unfolded a sum.case prod.case]
  obtain out where out: "sorted_ids ids = Inr out" using run3 by (auto split: sum.splits)
  have "groups [] []" by (simp add: groups_def group_of_def filed_def)
  from parse_source_groups [OF rc _ parse_source_groups [OF rb _ parse_source_groups [OF ra _ this]]]
  have "groups rc (source_records queue consumed acks)" by (simp add: source_records_def)
  with a out run3 all that show thesis by (auto simp: missing_sources_def split: if_splits)
qed

text \<open>A consistent report counts executions exactly: its executed directives are, each once and sorted, those
  with an explicit execution in the queue, the consumed ledger or the acknowledgements; the mutating count
  is the number of them with a mutating execution; and of those directives no record in any source says
  failed or rejected, and every execution is classified.\<close>

theorem consistent_report_exact:
  assumes "reconcile_execution_evidence rep queue consumed acks = Inr r" and "er_consistent r"
  shows "set (er_executed_ids r) = executed_directives (source_records queue consumed acks) \<and> distinct (er_executed_ids r)
    \<and> er_executed_count r = Some (card (executed_directives (source_records queue consumed acks)))
    \<and> er_mutating r = Some (card (mutating_directives (source_records queue consumed acks)))
    \<and> (\<forall>d \<in> executed_directives (source_records queue consumed acks).
          \<forall>m \<in> filed (source_records queue consumed acks) d. settled_record rep m)"
  using assms
proof (cases rule: consistent_cases)
  case (1 rs ids n out)
  let ?ms = "source_records queue consumed acks"
  have full: "\<forall>(d, s) \<in> set rs. all_items s \<noteq> []" using 1(1) by (simp add: groups_def)
  note an = analyse_all_Inr [OF 1(2) full]
  have ids: "set ids = executed_directives ?ms" "distinct ids"
    using groups_filter [OF 1(1), of executed_record] an(1) by (simp_all add: executed_directives_def)
  note mutating = groups_filter [OF 1(1), of "\<lambda>m. executed_record m \<and> determine_mutation_type m = Inr (Some True)"]
  have n: "n = card (mutating_directives ?ms)"
    unfolding mutating_directives_def mutating(1) [symmetric] distinct_card [OF mutating(2)] using an(2) by simp
  have out: "set out = set ids" "distinct out"
    using sorted_ids_Inr [OF 1(3)] ids(2) by (metis mset_eq_setD, metis mset_eq_imp_distinct_iff)
  have settled: "settled_record rep m" if "d \<in> executed_directives ?ms" "m \<in> filed ?ms d" for d m
  proof -
    from that(2) 1(1) have "m \<in> group_of rs d" by (simp add: groups_def)
    then obtain s where s: "map_of rs d = Some s" "m \<in> set (all_items s)" by (auto simp: group_of_def split: option.splits)
    with 1(1) have "set (all_items s) = filed ?ms d" by (force simp: groups_def group_of_def)
    with that(1) have "\<exists>m \<in> set (all_items s). executed_record m" by (simp add: executed_directives_def)
    with an(3) map_of_SomeD [OF s(1)] s(2) show ?thesis by blast
  qed
  show ?thesis
    using ids out settled distinct_card [OF ids(2)] by (simp add: 1(4,5,6) n)
qed

definition sample_sources :: "jline list \<times> jline list \<times> jdoc list" where
  "sample_sources = ([Json (PyDict [(''directive_id'', PyStr ''B''), (''executed'', PyBool True), (''mutating'', PyBool True)]), Blank,
      Json (PyDict [(''directive_id'', PyStr ''C''), (''status'', PyStr ''QUEUED'')])],
    [Json (PyDict [(''directive_id'', PyStr ''A''), (''status'', PyStr ''COMPLETED''), (''action_type'', PyStr ''NO_OP'')])],
    [Document (PyDict [(''directive_id'', PyStr ''B''), (''executed'', PyBool True), (''mutating'', PyBool True)])])"

definition sample_report :: evidence_report where
  "sample_report = (case sample_sources of (q, c, a) \<Rightarrow> projr (reconcile_execution_evidence (\<lambda>v. []) (Some q) (Some c) (Some a)))"

lemma sample_report_ok:
  "reconcile_execution_evidence (\<lambda>v. []) (Some (fst sample_sources)) (Some (fst (snd sample_sources))) (Some (snd (snd sample_sources)))
    = Inr sample_report \<and> er_consistent sample_report \<and> er_executed_ids sample_report = [PyStr ''A'', PyStr ''B'']"
  by code_simp

theorem consistent_report_exact_witness:
  "executed_directives (source_records (Some (fst sample_sources)) (Some (fst (snd sample_sources))) (Some (snd (snd sample_sources))))
    = {PyStr ''A'', PyStr ''B''}"
  using consistent_report_exact [of "\<lambda>v. []" "Some (fst sample_sources)" "Some (fst (snd sample_sources))"
      "Some (snd (snd sample_sources))" sample_report] sample_report_ok by simp

end
