(* ===== verification/Evaluator.thy ===== *)
theory Evaluator
  imports Trails
begin

text \<open>
  \<open>src/contracts.py\<close> and \<open>src/state_machine/evaluator.py\<close>: the normalised project state and its
  evaluation from what the observers collected. \<open>parse_ts\<close> reads a timestamp as seconds since the
  epoch, \<open>fixed1\<close> formats a number with one decimal, and \<open>enum\<close> is the order in which Python iterates a
  set of declarations, which the program does not fix. Confidences are the decimal fractions written
  in the code. Equality of stored values is that of the constructors (Python's \<open>1 == True\<close> is not
  modelled), and a \<open>gates\<close> value that is no object raises (a list of pairs is not modelled).
\<close>

subsection \<open>Contracts\<close>

datatype CanonicalState =
    RUNNING | DEVELOPING | IDLE_VALID | STALE | RECOVERING | BLOCKED | HUMAN_REQUIRED | COMPLETED | UNKNOWN

fun cs_value :: "CanonicalState \<Rightarrow> string" where
  "cs_value RUNNING = ''RUNNING''"
| "cs_value DEVELOPING = ''DEVELOPING''"
| "cs_value IDLE_VALID = ''IDLE_VALID''"
| "cs_value STALE = ''STALE''"
| "cs_value RECOVERING = ''RECOVERING''"
| "cs_value BLOCKED = ''BLOCKED''"
| "cs_value HUMAN_REQUIRED = ''HUMAN_REQUIRED''"
| "cs_value COMPLETED = ''COMPLETED''"
| "cs_value UNKNOWN = ''UNKNOWN''"

datatype VerificationStatus =
    V_VERIFIED | V_LOCAL_ONLY | V_REMOTE_ONLY | V_CONFLICT | V_BRANCH_NOT_FOUND | V_AUTH_FAILURE
  | V_NETWORK_FAILURE | V_TIMEOUT | V_GIT_FAILURE | V_UNKNOWN

fun vs_value :: "VerificationStatus \<Rightarrow> string" where
  "vs_value V_VERIFIED = ''VERIFIED''"
| "vs_value V_LOCAL_ONLY = ''LOCAL_ONLY''"
| "vs_value V_REMOTE_ONLY = ''REMOTE_ONLY''"
| "vs_value V_CONFLICT = ''CONFLICT''"
| "vs_value V_BRANCH_NOT_FOUND = ''BRANCH_NOT_FOUND''"
| "vs_value V_AUTH_FAILURE = ''AUTH_FAILURE''"
| "vs_value V_NETWORK_FAILURE = ''NETWORK_FAILURE''"
| "vs_value V_TIMEOUT = ''TIMEOUT''"
| "vs_value V_GIT_FAILURE = ''GIT_FAILURE''"
| "vs_value V_UNKNOWN = ''UNKNOWN''"

record VerifiedField =
  vf_local :: pyval
  vf_remote :: pyval
  vf_status :: VerificationStatus

definition verified_field_to_dict :: "VerifiedField \<Rightarrow> dict" where
  "verified_field_to_dict f = [(''local_observed_value'', vf_local f), (''remote_verified_value'', vf_remote f),
     (''verification_status'', PyStr (vs_value (vf_status f)))]"

record EvidenceItem =
  ei_source_name :: string
  ei_filepath :: string
  ei_file_exists :: bool
  ei_last_modified :: pyval
  ei_age_seconds :: pyval
  ei_parsed_data :: pyval
  ei_parse_error :: pyval

definition evidence_to_dict :: "EvidenceItem \<Rightarrow> dict" where
  "evidence_to_dict i = [(''source_name'', PyStr (ei_source_name i)), (''filepath'', PyStr (ei_filepath i)),
     (''file_exists'', PyBool (ei_file_exists i)), (''last_modified_iso'', ei_last_modified i),
     (''age_seconds'', ei_age_seconds i), (''parsed_data'', ei_parsed_data i), (''parse_error'', ei_parse_error i)]"

record NormalizedProjectState =
  np_project :: string
  np_stage :: pyval
  np_branch :: pyval
  np_remote_head :: pyval
  np_local_head :: pyval
  np_process_expected :: bool
  np_process_running :: bool
  np_unexpected_process :: bool
  np_last_heartbeat :: pyval
  np_last_successful_cycle :: pyval
  np_last_error :: pyval
  np_test_status :: dict
  np_critical_gates :: dict
  np_human_decision_required :: bool
  np_next_action :: pyval
  np_evidence_freshness :: dict
  np_status :: CanonicalState
  np_reason :: string
  np_observed_at :: string
  np_heartbeat_age :: "rat option"
  np_last_known_good :: pyval
  np_retry_count :: int
  np_human_required :: bool
  np_evidence_sources :: "string list"
  np_confidence :: rat
  np_state_conflict :: bool
  np_conflicting_sources :: "string list"
  np_precedence :: "string list"
  np_status_source :: string
  np_status_age :: "rat option"
  np_observer_errors :: "string list"
  np_external_activity :: bool
  np_verified_stage :: VerifiedField
  np_verified_branch :: VerifiedField
  np_verified_head :: VerifiedField
  np_verified_status :: VerifiedField
  np_verified_process_expected :: VerifiedField
  np_verified_process_running :: VerifiedField
  np_remote_query_command :: pyval
  np_remote_query_ref :: pyval
  np_remote_query_returncode :: pyval
  np_remote_query_timeout :: pyval
  np_remote_category :: string

definition opt_float :: "rat option \<Rightarrow> pyval" where
  "opt_float x = (case x of None \<Rightarrow> PyNone | Some r \<Rightarrow> PyFloat (Finite r))"

definition strings :: "string list \<Rightarrow> pyval" where
  "strings xs = PyList (map PyStr xs)"

definition state_to_dict :: "NormalizedProjectState \<Rightarrow> dict" where
  "state_to_dict s =
    [(''project'', PyStr (np_project s)), (''stage'', np_stage s), (''branch'', np_branch s),
     (''remote_head'', np_remote_head s), (''local_head'', np_local_head s),
     (''process_expected'', PyBool (np_process_expected s)), (''process_running'', PyBool (np_process_running s)),
     (''unexpected_process'', PyBool (np_unexpected_process s)), (''last_heartbeat'', np_last_heartbeat s),
     (''last_successful_cycle'', np_last_successful_cycle s), (''last_error'', np_last_error s),
     (''test_status'', PyDict (np_test_status s)), (''critical_gates'', PyDict (np_critical_gates s)),
     (''human_decision_required'', PyBool (np_human_decision_required s)), (''next_action'', np_next_action s),
     (''evidence_freshness'', PyDict (np_evidence_freshness s)), (''status'', PyStr (cs_value (np_status s))),
     (''reason'', PyStr (np_reason s)), (''observed_at'', PyStr (np_observed_at s)),
     (''heartbeat_age_seconds'', opt_float (np_heartbeat_age s)), (''last_known_good'', np_last_known_good s),
     (''retry_count'', PyInt (np_retry_count s)), (''human_required'', PyBool (np_human_required s)),
     (''evidence_sources'', strings (np_evidence_sources s)), (''confidence'', PyFloat (Finite (np_confidence s))),
     (''state_conflict'', PyBool (np_state_conflict s)), (''conflicting_sources'', strings (np_conflicting_sources s)),
     (''evidence_precedence_used'', strings (np_precedence s)), (''status_source'', PyStr (np_status_source s)),
     (''status_age_seconds'', opt_float (np_status_age s)), (''observer_errors'', strings (np_observer_errors s)),
     (''external_project_activity_detected'', PyBool (np_external_activity s)),
     (''verified_stage'', PyDict (verified_field_to_dict (np_verified_stage s))),
     (''verified_branch'', PyDict (verified_field_to_dict (np_verified_branch s))),
     (''verified_head'', PyDict (verified_field_to_dict (np_verified_head s))),
     (''verified_status'', PyDict (verified_field_to_dict (np_verified_status s))),
     (''verified_process_expected'', PyDict (verified_field_to_dict (np_verified_process_expected s))),
     (''verified_process_running'', PyDict (verified_field_to_dict (np_verified_process_running s))),
     (''remote_query_command'', np_remote_query_command s), (''remote_query_ref'', np_remote_query_ref s),
     (''remote_query_returncode'', np_remote_query_returncode s),
     (''remote_query_timeout'', np_remote_query_timeout s),
     (''remote_query_stderr_category'', PyStr (np_remote_category s))]"

subsection \<open>Observations\<close>

record observed =
  ob_project :: string
  ob_git :: dict
  ob_process_expected :: bool
  ob_process_running :: bool
  ob_unexpected_process :: bool
  ob_evidence :: "(string \<times> EvidenceItem) list"
  ob_errors :: "string list"
  ob_external_activity :: bool
  ob_matched_process :: pyval

definition precedence_levels :: "string list" where
  "precedence_levels = [''1_LOCAL_PROCESS_OBSERVATION'', ''2_RUNTIME_HEARTBEAT'', ''3_GITHUB_REMOTE_HEAD'',
     ''4_COMMITTED_RUNTIME_EVIDENCE'', ''5_STATIC_DECLARED_STATUS'']"

definition py_or :: "pyval \<Rightarrow> pyval \<Rightarrow> pyval" where
  "py_or v w = (if truthy v then v else w)"

text \<open>What the loop over the evidence accumulates.\<close>

record scan =
  sn_stage :: pyval
  sn_branch :: pyval
  sn_local_head :: pyval
  sn_last_heartbeat :: pyval
  sn_last_cycle :: pyval
  sn_last_error :: pyval
  sn_tests :: dict
  sn_gates :: dict
  sn_human :: bool
  sn_human_decision :: bool
  sn_next_action :: pyval
  sn_freshness :: dict
  sn_sources :: "string list"
  sn_declared :: "(string \<times> pyval \<times> string) list"

definition start_scan :: "dict \<Rightarrow> scan" where
  "start_scan git = \<lparr>sn_stage = PyNone, sn_branch = dget git ''branch'', sn_local_head = dget git ''local_head'',
     sn_last_heartbeat = PyNone, sn_last_cycle = PyNone, sn_last_error = PyNone, sn_tests = [], sn_gates = [],
     sn_human = False, sn_human_decision = False, sn_next_action = PyNone, sn_freshness = [], sn_sources = [],
     sn_declared = []\<rparr>"

definition declare_status :: "string \<Rightarrow> pyval \<Rightarrow> string \<Rightarrow> scan \<Rightarrow> scan" where
  "declare_status path st level s = s\<lparr>sn_declared := AList.update path (st, level) (sn_declared s)\<rparr>"

definition declare_if :: "string \<Rightarrow> pyval \<Rightarrow> string \<Rightarrow> scan \<Rightarrow> scan" where
  "declare_if path st level s = (if truthy st then declare_status path st level s else s)"

definition require_human :: "scan \<Rightarrow> scan" where
  "require_human s = s\<lparr>sn_human := True, sn_human_decision := True\<rparr>"

text \<open>The timestamp of a document, and the status inside its heartbeat.\<close>

definition scan_heartbeat :: "string \<Rightarrow> dict \<Rightarrow> scan \<Rightarrow> scan" where
  "scan_heartbeat path m s =
     (if as_str (dget m ''timestamp'') \<noteq> None then s\<lparr>sn_last_heartbeat := dget m ''timestamp''\<rparr>
      else if as_str (dget m ''last_update'') \<noteq> None then s\<lparr>sn_last_heartbeat := dget m ''last_update''\<rparr>
      else (case dget m ''heartbeat'' of
          PyDict hb \<Rightarrow>
            let t = py_or (dget hb ''last_update'') (dget hb ''timestamp'');
                s1 = (if truthy t then s\<lparr>sn_last_heartbeat := t\<rparr> else s)
            in (if truthy (dget hb ''status'') \<and> as_str (dget hb ''status'') \<noteq> None
                then declare_status path (dget hb ''status'') ''2_RUNTIME_HEARTBEAT'' s1 else s1)
        | _ \<Rightarrow> s))"

fun merge :: "dict \<Rightarrow> dict \<Rightarrow> dict" where
  "merge [] m = m"
| "merge ((k, v) # kvs) m = merge kvs (AList.update k v m)"

definition scan_agent_status :: "string \<Rightarrow> dict \<Rightarrow> scan \<Rightarrow> scan res" where
  "scan_agent_status path m s =
     (let s1 = declare_if path (dget m ''status'') ''4_COMMITTED_RUNTIME_EVIDENCE'' s in
      case (if \<not> truthy (dget m ''gates'') then Inr s1
            else (case dget m ''gates'' of PyDict g \<Rightarrow> Inr (s1\<lparr>sn_gates := merge g (sn_gates s1)\<rparr>)
                  | _ \<Rightarrow> Inl (PyError ''TypeError''))) of
        Inl e \<Rightarrow> Inl e
      | Inr s2 \<Rightarrow> Inr (if truthy (dget m ''branch'')
          then s2\<lparr>sn_branch := py_or (sn_branch s2) (dget m ''branch'')\<rparr> else s2))"

definition scan_project_state :: "string \<Rightarrow> dict \<Rightarrow> scan \<Rightarrow> scan" where
  "scan_project_state path m s =
     (let s1 = declare_if path (dget m ''status'') ''4_COMMITTED_RUNTIME_EVIDENCE'' (s\<lparr>sn_stage := dget m ''stage''\<rparr>);
          s2 = (if truthy (dget m ''branch'') then s1\<lparr>sn_branch := py_or (sn_branch s1) (dget m ''branch'')\<rparr> else s1);
          s3 = (if truthy (dget m ''last_commit'')
                then s2\<lparr>sn_local_head := py_or (sn_local_head s2) (dget m ''last_commit'')\<rparr> else s2);
          s4 = (if dget m ''tests_passed'' \<noteq> PyNone
                then s3\<lparr>sn_tests := AList.update ''failed'' (dget_or m ''tests_failed'' (PyInt 0))
                          (AList.update ''passed'' (dget m ''tests_passed'') (sn_tests s3))\<rparr> else s3);
          s5 = (if dget m ''critical_gate_failure'' \<noteq> PyNone
                then s4\<lparr>sn_gates := AList.update ''critical_gate_failure'' (dget m ''critical_gate_failure'') (sn_gates s4)\<rparr>
                else s4);
          s6 = (if truthy (dget m ''human_approval_required'') then require_human s5 else s5)
      in (if truthy (dget m ''next_action'') then s6\<lparr>sn_next_action := dget m ''next_action''\<rparr> else s6))"

definition scan_current_stage :: "string \<Rightarrow> dict \<Rightarrow> scan \<Rightarrow> scan" where
  "scan_current_stage path m s = declare_if path (dget m ''status'') ''5_STATIC_DECLARED_STATUS''
     (s\<lparr>sn_stage := py_or (sn_stage s) (dget m ''stage'')\<rparr>)"

definition scan_watcher_state :: "dict \<Rightarrow> scan \<Rightarrow> scan" where
  "scan_watcher_state m s = (case dget_or m ''heartbeat'' (PyDict []) of
      PyDict hb \<Rightarrow>
        let s1 = (if truthy (dget hb ''last_error'') then s\<lparr>sn_last_error := dget hb ''last_error''\<rparr> else s)
        in (if truthy (dget hb ''last_successful_fetch'')
            then s1\<lparr>sn_last_cycle := dget hb ''last_successful_fetch''\<rparr> else s1)
    | _ \<Rightarrow> s)"

definition scan_document :: "string \<Rightarrow> dict \<Rightarrow> scan \<Rightarrow> scan res" where
  "scan_document path m s0 = (let s = scan_heartbeat path m s0 in
      if contains path ''AGENT_STATUS.json'' then scan_agent_status path m s
      else if contains path ''PROJECT_STATE.json'' then Inr (scan_project_state path m s)
      else if contains path ''CURRENT_STAGE.json'' then Inr (scan_current_stage path m s)
      else if contains path ''WATCHER_STATE.json'' then Inr (scan_watcher_state m s)
      else if as_str (dget m ''status'') \<noteq> None \<and> path \<notin> fst ` set (sn_declared s)
      then Inr (declare_status path (dget m ''status'') ''4_COMMITTED_RUNTIME_EVIDENCE'' s) else Inr s)"

definition scan_item :: "string \<Rightarrow> EvidenceItem \<Rightarrow> scan \<Rightarrow> scan res" where
  "scan_item path i s =
     (if \<not> ei_file_exists i then Inr (s\<lparr>sn_freshness := AList.update path PyNone (sn_freshness s)\<rparr>)
      else let s1 = s\<lparr>sn_sources := sn_sources s @ [path], sn_freshness := AList.update path (ei_age_seconds i) (sn_freshness s)\<rparr>;
               s2 = (if contains path ''HUMAN_APPROVAL_REQUIRED'' \<or> contains path ''HUMAN_DECISION_REQUIRED''
                     then require_human s1 else s1)
           in (case py_or (ei_parsed_data i) (PyDict []) of PyDict m \<Rightarrow> scan_document path m s2 | _ \<Rightarrow> Inr s2))"

fun scan_evidence :: "(string \<times> EvidenceItem) list \<Rightarrow> scan \<Rightarrow> scan res" where
  "scan_evidence [] s = Inr s"
| "scan_evidence ((path, i) # its) s = (case scan_item path i s of Inl e \<Rightarrow> Inl e | Inr s1 \<Rightarrow> scan_evidence its s1)"

subsection \<open>Contradictions\<close>

type_synonym decl = "string \<times> pyval \<times> string"

text \<open>The set of declarations; a status that cannot be hashed raises when it is added.\<close>

definition unique_declarations :: "(string \<times> pyval \<times> string) list \<Rightarrow> decl list res" where
  "unique_declarations ds =
     (let us = filter (\<lambda>(src, v, lvl). v \<noteq> PyStr ''UNKNOWN'' \<and> v \<noteq> PyNone) ds
      in if list_all (\<lambda>(src, v, lvl). hashable v) us then Inr us else Inl (PyError ''TypeError''))"

definition decl_values :: "decl list \<Rightarrow> pyval list" where
  "decl_values us = remdups (map (\<lambda>(src, v, lvl). v) us)"

definition add_source :: "string \<Rightarrow> string list \<Rightarrow> string list" where
  "add_source x xs = (if x \<in> set xs then xs else xs @ [x])"

definition find_conflicts :: "bool \<Rightarrow> bool \<Rightarrow> bool \<Rightarrow> decl list \<Rightarrow> bool \<times> string list" where
  "find_conflicts expected running unexpected us =
     (let vs = decl_values us;
          c1 = (if length vs > 1 then (True, map fst us) else (False, []));
          c2 = (if expected \<and> \<not> running \<and> (PyStr ''RUNNING'' \<in> set vs \<or> PyStr ''ACTIVE'' \<in> set vs)
                then (True, add_source ''process_table'' (snd c1)) else c1)
      in (if unexpected then (True, add_source ''unexpected_process'' (snd c2)) else c2))"

subsection \<open>Canonical state\<close>

definition project_level :: "decl \<Rightarrow> bool" where
  "project_level d \<longleftrightarrow> (case d of (src, v, lvl) \<Rightarrow> contains src ''PROJECT_STATE'' \<or> contains src ''AGENT_STATUS''
     \<or> contains src ''CURRENT_STAGE'' \<or> contains src ''old_state'')"

definition winner :: "decl list \<Rightarrow> decl option" where
  "winner us = (let pl = filter project_level us; ts = (if pl \<noteq> [] then pl else us)
     in case sort_key (\<lambda>(src, v, lvl). lvl) ts of [] \<Rightarrow> None | d # _ \<Rightarrow> Some d)"

type_synonym verdict = "CanonicalState \<times> string \<times> string \<times> rat"

definition declared_verdict :: "(pyval \<Rightarrow> string) \<Rightarrow> string \<Rightarrow> pyval \<Rightarrow> bool \<Rightarrow> pyval \<Rightarrow> decl list \<Rightarrow> verdict" where
  "declared_verdict rep project next_action unexpected matched us =
     (let w = winner us;
          src = (case w of None \<Rightarrow> [] | Some (s, v, l) \<Rightarrow> s);
          v = (case w of None \<Rightarrow> PyNone | Some (s, v, l) \<Rightarrow> v);
          source = (if src = [] then ''4_COMMITTED_RUNTIME_EVIDENCE'' else src);
          base = (if v \<in> set (map PyStr [''READY_FOR_REVIEW'', ''READY_FOR_AUDIT'', ''PASS'']) then
               (if project = ''ORACLE-AI'' then
                  (COMPLETED, ''Prospective live-market soak completed and final economic validation passed'', 95 / 100)
                else (IDLE_VALID, ''Stage valid and idle awaiting audit. Next action: ''
                        @ fmt rep (py_or next_action (PyStr ''Audit'')), 9 / 10))
             else if v \<in> set (map PyStr [''PLANNED'', ''DEVELOPING'']) then
               (DEVELOPING, ''Project currently under active development'', 85 / 100)
             else (IDLE_VALID, ''Project is in a valid idle state with verified static evidence'', 85 / 100))
      in (case base of (st, reason, conf) \<Rightarrow> (st, source,
            (if unexpected then reason @ '' [INCONSISTENCY: Unexpected active process running ('' @ fmt rep matched
               @ '') when process_expected=False]'' else reason), conf)))"

definition canonical_verdict :: "(pyval \<Rightarrow> string) \<Rightarrow> (rat \<Rightarrow> string) \<Rightarrow> rat \<Rightarrow> observed \<Rightarrow> scan \<Rightarrow> rat option
    \<Rightarrow> decl list \<Rightarrow> verdict" where
  "canonical_verdict rep fixed1 threshold ob s age us =
     (if ob_process_expected ob \<and> ob_process_running ob then
        (RUNNING, ''1_LOCAL_PROCESS_OBSERVATION'',
         ''Active expected process running ('' @ fmt rep (ob_matched_process ob) @ '')'', 1)
      else if ob_process_expected ob \<and> \<not> ob_process_running ob then
        (STALE, ''1_LOCAL_PROCESS_OBSERVATION'',
         ''Process expected to be running but OS process table shows inactive'', 85 / 100)
      else if sn_human s \<or> sn_human_decision s then
        (HUMAN_REQUIRED, ''HUMAN_APPROVAL_GATE'', ''Human decision/approval required. Next action: ''
           @ fmt rep (py_or (sn_next_action s) (PyStr ''Human Review'')), 95 / 100)
      else if sn_sources s = [] then
        (UNKNOWN, ''NONE'', ''No evidence files found or repository unavailable'', 0)
      else (case age of
          Some a \<Rightarrow> if a > threshold then
              (STALE, ''2_RUNTIME_HEARTBEAT'', ''Heartbeat age ('' @ fixed1 a @ ''s) exceeds project threshold (''
                 @ fmt rep (PyFloat (Finite threshold)) @ ''s)'', 75 / 100)
            else declared_verdict rep (ob_project ob) (sn_next_action s) (ob_unexpected_process ob) (ob_matched_process ob) us
        | None \<Rightarrow> declared_verdict rep (ob_project ob) (sn_next_action s) (ob_unexpected_process ob)
                    (ob_matched_process ob) us))"

subsection \<open>Remote verification\<close>

definition remote_status :: "string \<Rightarrow> pyval \<Rightarrow> pyval \<Rightarrow> VerificationStatus" where
  "remote_status category local_head remote_head =
     (if category = ''VERIFIED'' then V_VERIFIED
      else if category = ''BRANCH_NOT_FOUND'' then V_BRANCH_NOT_FOUND
      else if category = ''AUTH_FAILURE'' then V_AUTH_FAILURE
      else if category = ''NETWORK_FAILURE'' then V_NETWORK_FAILURE
      else if category = ''TIMEOUT'' then V_TIMEOUT
      else if truthy local_head \<and> \<not> truthy remote_head then V_LOCAL_ONLY
      else V_GIT_FAILURE)"

definition head_status :: "string \<Rightarrow> pyval \<Rightarrow> pyval \<Rightarrow> VerificationStatus" where
  "head_status category local_head remote_head =
     (if truthy local_head \<and> truthy remote_head \<and> local_head \<noteq> remote_head then V_CONFLICT
      else remote_status category local_head remote_head)"

text \<open>A value shown as remotely verified only under that status.\<close>

definition triple :: "pyval \<Rightarrow> VerificationStatus \<Rightarrow> VerifiedField" where
  "triple v st = \<lparr>vf_local = v, vf_remote = (if st = V_VERIFIED then v else PyNone), vf_status = st\<rparr>"

definition status_verification :: "VerificationStatus \<Rightarrow> bool \<Rightarrow> VerificationStatus" where
  "status_verification head conflict = (if conflict then V_CONFLICT
     else if head = V_VERIFIED then V_VERIFIED else V_LOCAL_ONLY)"

definition local_only :: "bool \<Rightarrow> VerifiedField" where
  "local_only b = \<lparr>vf_local = PyBool b, vf_remote = PyNone, vf_status = V_LOCAL_ONLY\<rparr>"

subsection \<open>Evaluation\<close>

definition heartbeat_age :: "(pyval \<Rightarrow> rat option) \<Rightarrow> rat \<Rightarrow> pyval \<Rightarrow> rat option" where
  "heartbeat_age parse_ts now v = (if \<not> truthy v then None
     else map_option (\<lambda>t. max 0 (now - t)) (parse_ts v))"

definition build_state :: "(pyval \<Rightarrow> string) \<Rightarrow> (rat \<Rightarrow> string) \<Rightarrow> rat \<Rightarrow> string \<Rightarrow> observed \<Rightarrow> scan \<Rightarrow> rat option
    \<Rightarrow> decl list \<Rightarrow> NormalizedProjectState" where
  "build_state rep fixed1 threshold now_iso ob s age us =
     (let git = ob_git ob; remote_head = dget git ''remote_head''; local_head = sn_local_head s;
          category = (case dget_or git ''remote_query_stderr_category'' (PyStr ''UNKNOWN'') of PyStr c \<Rightarrow> c | v \<Rightarrow> fmt rep v);
          head = head_status category local_head remote_head;
          branch_st = remote_status category local_head remote_head;
          conflicts = find_conflicts (ob_process_expected ob) (ob_process_running ob) (ob_unexpected_process ob) us
      in (case canonical_verdict rep fixed1 threshold ob s age us of (st, source, reason, conf) \<Rightarrow>
      \<lparr>np_project = ob_project ob, np_stage = sn_stage s, np_branch = sn_branch s, np_remote_head = remote_head,
       np_local_head = local_head, np_process_expected = ob_process_expected ob,
       np_process_running = ob_process_running ob, np_unexpected_process = ob_unexpected_process ob,
       np_last_heartbeat = sn_last_heartbeat s, np_last_successful_cycle = sn_last_cycle s,
       np_last_error = sn_last_error s, np_test_status = sn_tests s, np_critical_gates = sn_gates s,
       np_human_decision_required = sn_human_decision s, np_next_action = sn_next_action s,
       np_evidence_freshness = sn_freshness s, np_status = st, np_reason = reason, np_observed_at = now_iso,
       np_heartbeat_age = age, np_last_known_good = sn_last_heartbeat s, np_retry_count = 0,
       np_human_required = sn_human s, np_evidence_sources = sn_sources s, np_confidence = conf,
       np_state_conflict = fst conflicts, np_conflicting_sources = snd conflicts, np_precedence = precedence_levels,
       np_status_source = source, np_status_age = age, np_observer_errors = ob_errors ob,
       np_external_activity = ob_external_activity ob,
       np_verified_stage = triple (sn_stage s) (if head = V_VERIFIED then V_VERIFIED else V_LOCAL_ONLY),
       np_verified_branch = \<lparr>vf_local = sn_branch s,
          vf_remote = (if truthy (dget_or git ''remote_branch_exists'' (PyBool False)) then sn_branch s else PyNone),
          vf_status = branch_st\<rparr>,
       np_verified_head = \<lparr>vf_local = local_head, vf_remote = remote_head, vf_status = head\<rparr>,
       np_verified_status = triple (PyStr (cs_value st)) (status_verification head (fst conflicts)),
       np_verified_process_expected = local_only (ob_process_expected ob),
       np_verified_process_running = local_only (ob_process_running ob),
       np_remote_query_command = dget git ''remote_query_command'', np_remote_query_ref = dget git ''remote_query_ref'',
       np_remote_query_returncode = dget git ''remote_query_returncode'',
       np_remote_query_timeout = dget_or git ''remote_query_timeout'' (PyBool False),
       np_remote_category = category\<rparr>))"

definition evaluate :: "(pyval \<Rightarrow> string) \<Rightarrow> (rat \<Rightarrow> string) \<Rightarrow> (pyval \<Rightarrow> rat option) \<Rightarrow> (decl list \<Rightarrow> decl list)
    \<Rightarrow> rat \<Rightarrow> rat \<Rightarrow> string \<Rightarrow> observed \<Rightarrow> NormalizedProjectState res" where
  "evaluate rep fixed1 parse_ts enum threshold now now_iso ob =
     (case scan_evidence (ob_evidence ob) (start_scan (ob_git ob)) of Inl e \<Rightarrow> Inl e | Inr s \<Rightarrow>
     (case unique_declarations (sn_declared s) of Inl e \<Rightarrow> Inl e | Inr us \<Rightarrow>
        Inr (build_state rep fixed1 threshold now_iso ob s
          (heartbeat_age parse_ts now (sn_last_heartbeat s)) (enum us))))"

end
