(* ===== verification/EvaluatorClaims.thy ===== *)
theory EvaluatorClaims
  imports Evaluator
begin

text \<open>
  What an evaluated project state guarantees: which verdicts are possible, what they rest on, the range of
  the confidence, and that a value is shown as remotely verified only when the remote was verified.
\<close>

subsection \<open>Verdicts\<close>

lemma declared_verdict_range:
  assumes "declared_verdict rep project na unexpected matched us = (st, src, reason, conf)"
  shows "st \<in> {COMPLETED, IDLE_VALID, DEVELOPING} \<and> 85 / 100 \<le> conf \<and> conf \<le> 95 / 100"
  using assms by (auto simp: declared_verdict_def Let_def split: prod.splits if_splits)

lemma canonical_verdict_range:
  assumes "canonical_verdict rep fixed1 threshold ob s age us = (st, src, reason, conf)"
  shows "0 \<le> conf \<and> conf \<le> 1" and "conf = 1 \<longleftrightarrow> st = RUNNING" and "conf = 0 \<longleftrightarrow> st = UNKNOWN"
    and "st = RUNNING \<longleftrightarrow> ob_process_expected ob \<and> ob_process_running ob"
    and "(sn_human s \<or> sn_human_decision s) \<and> \<not> ob_process_expected ob \<longleftrightarrow> st = HUMAN_REQUIRED"
    and "st \<in> {COMPLETED, IDLE_VALID, DEVELOPING} \<longrightarrow> \<not> ob_process_expected ob \<and> sn_sources s \<noteq> []
        \<and> (\<forall>a. age = Some a \<longrightarrow> a \<le> threshold)"
    and "st \<in> {RUNNING, STALE, HUMAN_REQUIRED, UNKNOWN, COMPLETED, IDLE_VALID, DEVELOPING}"
proof -
  note declared = declared_verdict_range [of rep "ob_project ob" "sn_next_action s" "ob_unexpected_process ob"
      "ob_matched_process ob" us st src reason conf]
  consider "ob_process_expected ob" | "\<not> ob_process_expected ob" "sn_human s \<or> sn_human_decision s"
    | "\<not> ob_process_expected ob" "\<not> (sn_human s \<or> sn_human_decision s)" "sn_sources s = []"
    | a where "\<not> ob_process_expected ob" "\<not> (sn_human s \<or> sn_human_decision s)" "sn_sources s \<noteq> []" "age = Some a" "a > threshold"
    | "\<not> ob_process_expected ob" "\<not> (sn_human s \<or> sn_human_decision s)" "sn_sources s \<noteq> []" "\<forall>a. age = Some a \<longrightarrow> a \<le> threshold"
    by (cases age) fastforce+
  then have "(0 \<le> conf \<and> conf \<le> 1) \<and> (conf = 1 \<longleftrightarrow> st = RUNNING) \<and> (conf = 0 \<longleftrightarrow> st = UNKNOWN)
    \<and> (st = RUNNING \<longleftrightarrow> ob_process_expected ob \<and> ob_process_running ob)
    \<and> ((sn_human s \<or> sn_human_decision s) \<and> \<not> ob_process_expected ob \<longleftrightarrow> st = HUMAN_REQUIRED)
    \<and> (st \<in> {COMPLETED, IDLE_VALID, DEVELOPING} \<longrightarrow> \<not> ob_process_expected ob \<and> sn_sources s \<noteq> []
        \<and> (\<forall>a. age = Some a \<longrightarrow> a \<le> threshold))
    \<and> st \<in> {RUNNING, STALE, HUMAN_REQUIRED, UNKNOWN, COMPLETED, IDLE_VALID, DEVELOPING}"
  proof cases
    case 1
    with assms show ?thesis by (auto simp: canonical_verdict_def split: if_splits)
  next
    case 2
    with assms show ?thesis by (auto simp: canonical_verdict_def)
  next
    case 3
    with assms show ?thesis by (auto simp: canonical_verdict_def)
  next
    case 4
    with assms show ?thesis by (auto simp: canonical_verdict_def)
  next
    case 5
    with assms have "declared_verdict rep (ob_project ob) (sn_next_action s) (ob_unexpected_process ob) (ob_matched_process ob) us
        = (st, src, reason, conf)"
      by (auto simp: canonical_verdict_def split: option.splits if_splits)
    from declared [OF this] 5 show ?thesis by auto
  qed
  then show "0 \<le> conf \<and> conf \<le> 1" and "conf = 1 \<longleftrightarrow> st = RUNNING" and "conf = 0 \<longleftrightarrow> st = UNKNOWN"
    and "st = RUNNING \<longleftrightarrow> ob_process_expected ob \<and> ob_process_running ob"
    and "(sn_human s \<or> sn_human_decision s) \<and> \<not> ob_process_expected ob \<longleftrightarrow> st = HUMAN_REQUIRED"
    and "st \<in> {COMPLETED, IDLE_VALID, DEVELOPING} \<longrightarrow> \<not> ob_process_expected ob \<and> sn_sources s \<noteq> []
        \<and> (\<forall>a. age = Some a \<longrightarrow> a \<le> threshold)"
    and "st \<in> {RUNNING, STALE, HUMAN_REQUIRED, UNKNOWN, COMPLETED, IDLE_VALID, DEVELOPING}"
    by blast+
qed

lemma head_status_verified:
  "head_status category lh rh = V_VERIFIED \<Longrightarrow> category = ''VERIFIED'' \<and> (truthy lh \<longrightarrow> truthy rh \<longrightarrow> lh = rh)"
  by (auto simp: head_status_def remote_status_def split: if_splits)

subsection \<open>Properties\<close>

text \<open>A field shows a remote value only when it is verified.\<close>

definition honest :: "VerifiedField \<Rightarrow> bool" where
  "honest f \<longleftrightarrow> (vf_remote f \<noteq> PyNone \<longrightarrow> vf_status f = V_VERIFIED \<and> vf_remote f = vf_local f)"

text \<open>C39. An evaluated state is well formed: its confidence lies between 0 and 1, is 1 for \<open>RUNNING\<close> alone and 0 for
  \<open>UNKNOWN\<close> alone; \<open>RUNNING\<close> means an expected process that runs, a needed human decision is never hidden
  behind anything but an expected process, a healthy verdict never rests on missing evidence or a stale
  heartbeat; and stage and status show a remote value only if the remote query succeeded and its head is
  the local one.\<close>

theorem evaluated_state_well_formed:
  assumes "evaluate rep fixed1 parse_ts enum threshold now now_iso ob = Inr st"
  shows "0 \<le> np_confidence st \<and> np_confidence st \<le> 1 \<and> (np_confidence st = 1 \<longleftrightarrow> np_status st = RUNNING)
    \<and> (np_confidence st = 0 \<longleftrightarrow> np_status st = UNKNOWN)
    \<and> (np_status st = RUNNING \<longleftrightarrow> np_process_expected st \<and> np_process_running st)
    \<and> (np_status st = HUMAN_REQUIRED \<longleftrightarrow> (np_human_required st \<or> np_human_decision_required st) \<and> \<not> np_process_expected st)
    \<and> (np_status st \<in> {COMPLETED, IDLE_VALID, DEVELOPING} \<longrightarrow> np_evidence_sources st \<noteq> []
        \<and> (\<forall>a. np_heartbeat_age st = Some a \<longrightarrow> a \<le> threshold))
    \<and> honest (np_verified_stage st) \<and> honest (np_verified_status st)
    \<and> (vf_remote (np_verified_status st) \<noteq> PyNone \<longrightarrow> np_remote_category st = ''VERIFIED''
        \<and> (truthy (np_local_head st) \<longrightarrow> truthy (np_remote_head st) \<longrightarrow> np_local_head st = np_remote_head st))"
proof -
  from assms obtain s us where b: "st = build_state rep fixed1 threshold now_iso ob s (heartbeat_age parse_ts now (sn_last_heartbeat s)) us"
    by (auto simp: evaluate_def split: sum.splits)
  obtain v src reason conf where v: "canonical_verdict rep fixed1 threshold ob s (heartbeat_age parse_ts now (sn_last_heartbeat s)) us
      = (v, src, reason, conf)" by (metis surj_pair)
  note range = canonical_verdict_range [OF v]
  have fields: "np_confidence st = conf" "np_status st = v" "np_process_expected st = ob_process_expected ob"
    "np_process_running st = ob_process_running ob" "np_human_required st = sn_human s" "np_human_decision_required st = sn_human_decision s"
    "np_evidence_sources st = sn_sources s" "np_heartbeat_age st = heartbeat_age parse_ts now (sn_last_heartbeat s)"
    by (simp_all add: b build_state_def v Let_def)
  have honest: "honest (np_verified_stage st)" "honest (np_verified_status st)"
    by (simp_all add: b build_state_def v Let_def honest_def triple_def)
  have remote: "np_remote_category st = ''VERIFIED'' \<and> (truthy (np_local_head st) \<longrightarrow> truthy (np_remote_head st) \<longrightarrow> np_local_head st = np_remote_head st)"
    if "vf_remote (np_verified_status st) \<noteq> PyNone"
  proof -
    from that have "head_status (np_remote_category st) (np_local_head st) (np_remote_head st) = V_VERIFIED"
      by (auto simp: b build_state_def v Let_def triple_def status_verification_def split: if_splits)
    then show ?thesis by (rule head_status_verified)
  qed
  show ?thesis using range honest remote unfolding fields by blast
qed

definition sample_observed :: observed where
  "sample_observed = \<lparr>ob_project = ''ORACLE-AI'', ob_git = [], ob_process_expected = False, ob_process_running = False,
     ob_unexpected_process = False, ob_evidence = [], ob_errors = [], ob_external_activity = False, ob_matched_process = PyNone\<rparr>"

theorem evaluated_state_well_formed_witness:
  "\<exists>st. evaluate (\<lambda>v. []) (\<lambda>r. []) (\<lambda>v. None) (\<lambda>us. us) 60 0 ''t'' sample_observed = Inr st
    \<and> np_status st = UNKNOWN \<and> np_confidence st = 0 \<and> honest (np_verified_status st)"
proof -
  obtain st where run: "evaluate (\<lambda>v. []) (\<lambda>r. []) (\<lambda>v. None) (\<lambda>us. us) 60 0 ''t'' sample_observed = Inr st"
    and unknown: "np_status st = UNKNOWN"
    by (simp add: evaluate_def sample_observed_def start_scan_def unique_declarations_def build_state_def canonical_verdict_def
        heartbeat_age_def Let_def)
  from evaluated_state_well_formed [OF run] unknown show ?thesis using run by simp
qed

end
