(* ===== verification/Act.thy ===== *)
theory Act
  imports Prelude
begin

text \<open>
  Actions on a state that return a value or raise: the straight-line Python code of the execution
  controller is a sequence of them. An exception keeps the state it finds; undoing is the code's own.
\<close>

type_synonym ('w, 'a) act = "'w \<Rightarrow> 'a res \<times> 'w"

definition ret :: "'a \<Rightarrow> ('w, 'a) act" where "ret x w = (Inr x, w)"
definition fail :: "err \<Rightarrow> ('w, 'a) act" where "fail e w = (Inl e, w)"
definition lift_res :: "'a res \<Rightarrow> ('w, 'a) act" where "lift_res r w = (r, w)"
definition query :: "('w \<Rightarrow> 'a) \<Rightarrow> ('w, 'a) act" where "query f w = (Inr (f w), w)"
definition modify :: "('w \<Rightarrow> 'w) \<Rightarrow> ('w, unit) act" where "modify f w = (Inr (), f w)"
definition ensure :: "bool \<Rightarrow> err \<Rightarrow> ('w, unit) act" where "ensure b e w = (if b then Inr () else Inl e, w)"

definition seq :: "('w, 'a) act \<Rightarrow> ('a \<Rightarrow> ('w, 'b) act) \<Rightarrow> ('w, 'b) act" where
  "seq m f w = (case m w of (Inl e, w1) \<Rightarrow> (Inl e, w1) | (Inr x, w1) \<Rightarrow> f x w1)"

text \<open>A comprehension and a loop over a list.\<close>

fun each :: "('a \<Rightarrow> ('w, 'b) act) \<Rightarrow> 'a list \<Rightarrow> ('w, 'b list) act" where
  "each f [] = ret []"
| "each f (x # xs) = seq (f x) (\<lambda>y. seq (each f xs) (\<lambda>ys. ret (y # ys)))"

fun for_each :: "('a \<Rightarrow> ('w, unit) act) \<Rightarrow> 'a list \<Rightarrow> ('w, unit) act" where
  "for_each f [] = ret ()"
| "for_each f (x # xs) = seq (f x) (\<lambda>_. for_each f xs)"

named_theorems act_simps \<open>running an action\<close>

lemma ret_runs [act_simps]: "ret x w = (r, w') \<longleftrightarrow> r = Inr x \<and> w' = w"
  by (auto simp: ret_def)

lemma fail_runs [act_simps]: "fail e w = (r, w') \<longleftrightarrow> r = Inl e \<and> w' = w"
  by (auto simp: fail_def)

lemma lift_runs [act_simps]: "lift_res s w = (r, w') \<longleftrightarrow> r = s \<and> w' = w"
  by (auto simp: lift_res_def)

lemma query_runs [act_simps]: "query f w = (r, w') \<longleftrightarrow> r = Inr (f w) \<and> w' = w"
  by (auto simp: query_def)

lemma modify_runs [act_simps]: "modify g w = (r, w') \<longleftrightarrow> r = Inr () \<and> w' = g w"
  by (auto simp: modify_def)

lemma ensure_runs [act_simps]:
  "ensure b e w = (Inr x, w') \<longleftrightarrow> b \<and> w' = w"
  "ensure b e w = (Inl e1, w') \<longleftrightarrow> \<not> b \<and> e1 = e \<and> w' = w"
  by (auto simp: ensure_def)

lemma seq_Inr [act_simps]: "seq m f w = (Inr y, w') \<longleftrightarrow> (\<exists>x w1. m w = (Inr x, w1) \<and> f x w1 = (Inr y, w'))"
  by (cases "m w"; cases "fst (m w)") (auto simp: seq_def)

lemma seq_Inl [act_simps]: "seq m f w = (Inl e, w') \<longleftrightarrow> m w = (Inl e, w') \<or> (\<exists>x w1. m w = (Inr x, w1) \<and> f x w1 = (Inl e, w'))"
  by (cases "m w"; cases "fst (m w)") (auto simp: seq_def)

text \<open>An action that keeps a property of the state, and one that relates the states before and after.\<close>

definition keeps :: "('w \<Rightarrow> bool) \<Rightarrow> ('w, 'a) act \<Rightarrow> bool" where
  "keeps P m \<longleftrightarrow> (\<forall>w. P w \<longrightarrow> P (snd (m w)))"

lemma keeps_snd: "keeps P m \<Longrightarrow> P w \<Longrightarrow> P (snd (m w))"
  by (simp add: keeps_def)

lemma keepsD: "keeps P m \<Longrightarrow> m w = (r, w') \<Longrightarrow> P w \<Longrightarrow> P w'"
  by (metis keeps_def snd_conv)

lemma keeps_basic [intro, simp]:
  "keeps P (ret x)" "keeps P (fail e)" "keeps P (lift_res r)" "keeps P (query f)" "keeps P (ensure b e)"
  by (simp_all add: keeps_def ret_def fail_def lift_res_def query_def ensure_def)

lemma keeps_modify: "(\<And>w. P w \<Longrightarrow> P (f w)) \<Longrightarrow> keeps P (modify f)"
  by (simp add: keeps_def modify_def)

lemma keeps_seq [intro]: "keeps P m \<Longrightarrow> (\<And>x. keeps P (f x)) \<Longrightarrow> keeps P (seq m f)"
  by (auto simp: keeps_def seq_def split: sum.splits prod.splits)

lemma keeps_seq_res:
  assumes "keeps P m" and "\<And>w x w1. P w \<Longrightarrow> m w = (Inr x, w1) \<Longrightarrow> Q x" and "\<And>x. Q x \<Longrightarrow> keeps P (f x)"
  shows "keeps P (seq m f)"
  unfolding keeps_def
proof (intro allI impI)
  fix w assume "P w"
  obtain r w1 where m: "m w = (r, w1)" by fastforce
  from assms(1) m \<open>P w\<close> have "P w1" by (rule keepsD)
  with m assms(2) [OF \<open>P w\<close>] assms(3) show "P (snd (seq m f w))" by (cases r) (auto simp: seq_def intro: keeps_snd)
qed

lemma keeps_each [intro]: "(\<And>x. keeps P (f x)) \<Longrightarrow> keeps P (each f xs)"
  by (induction xs) auto

lemma keeps_for_each [intro]: "(\<And>x. keeps P (f x)) \<Longrightarrow> keeps P (for_each f xs)"
  by (induction xs) auto

lemma keeps_for_each_mem: "(\<And>x. x \<in> set xs \<Longrightarrow> keeps P (f x)) \<Longrightarrow> keeps P (for_each f xs)"
  by (induction xs) auto

lemma keeps_each_mem: "(\<And>x. x \<in> set xs \<Longrightarrow> keeps P (f x)) \<Longrightarrow> keeps P (each f xs)"
  by (induction xs) auto

lemma keeps_if [intro]: "(b \<Longrightarrow> keeps P m) \<Longrightarrow> (\<not> b \<Longrightarrow> keeps P m') \<Longrightarrow> keeps P (if b then m else m')"
  by simp

lemma keeps_let [intro]: "(\<And>x. keeps P (f x)) \<Longrightarrow> keeps P (let x = y in f x)"
  by simp

lemma keeps_option [intro]: "(v = None \<Longrightarrow> keeps P m) \<Longrightarrow> (\<And>x. v = Some x \<Longrightarrow> keeps P (f x)) \<Longrightarrow> keeps P (case v of None \<Rightarrow> m | Some x \<Rightarrow> f x)"
  by (cases v) auto

lemma for_each_append: "for_each f (xs @ ys) w = seq (for_each f xs) (\<lambda>_. for_each f ys) w"
  by (induction xs arbitrary: w) (auto simp: seq_def ret_def split: prod.splits sum.splits)

end
