(* ===== verification/Paths.thy ===== *)
theory Paths
  imports Store AuditChain
begin

text \<open>
  The path checks of \<open>src/autonomy/runtime.py\<close> (\<open>_contains\<close>, \<open>RuntimeRootPolicy\<close>) and
  \<open>src/autonomy/service.py\<close> (\<open>_real_file\<close>). What the operating system says of a path is a record
  of functions; a resolved path is the list of its parts.
\<close>

type_synonym parts = "string list"

record fs_view =
  fv_absolute :: "string \<Rightarrow> bool"
  fv_resolve :: "string \<Rightarrow> parts option"
  fv_exists :: "string \<Rightarrow> bool"
  fv_is_dir :: "string \<Rightarrow> bool"
  fv_symlink :: "string \<Rightarrow> bool"
  fv_canonical :: "string \<Rightarrow> bool"
  fv_real_dir :: "parts \<Rightarrow> bool"
  fv_real_file :: "parts \<Rightarrow> bool"
  fv_reparse :: "parts \<Rightarrow> bool"

text \<open>\<open>candidate.relative_to(root)\<close> succeeds. \<open>fv_canonical p\<close>: the normalised absolute form of \<open>p\<close> is its resolution.\<close>

definition path_contains :: "parts \<Rightarrow> parts \<Rightarrow> bool" where
  "path_contains rt cand \<longleftrightarrow> prefix rt cand"

definition validate_root :: "fs_view \<Rightarrow> parts list \<Rightarrow> string \<Rightarrow> parts res" where
  "validate_root fv forbidden v =
     (if \<not> fv_exists fv v \<or> \<not> fv_is_dir fv v \<or> fv_symlink fv v then Inl (BlockedError ''explicit runtime root unavailable'')
      else (case fv_resolve fv v of
          None \<Rightarrow> Inl (PyError ''OSError'')
        | Some r \<Rightarrow>
            if \<not> fv_canonical fv v then Inl (BlockedError ''runtime root contains symlink or reparse traversal'')
            else if fv_reparse fv r then Inl (BlockedError ''reparse runtime root'')
            else if list_ex (\<lambda>f. path_contains f r \<or> path_contains r f) forbidden
            then Inl (BlockedError ''runtime root intersects protected repository'')
            else Inr r))"

definition real_file :: "fs_view \<Rightarrow> pyval \<Rightarrow> string \<Rightarrow> parts res" where
  "real_file fv v label = (case v of
      PyStr s \<Rightarrow>
        if \<not> fv_absolute fv s then Inl (BlockedError (''invalid '' @ label))
        else (case fv_resolve fv s of
            None \<Rightarrow> Inl (BlockedError (label @ '' unavailable''))
          | Some r \<Rightarrow>
              if fv_symlink fv s \<or> \<not> fv_real_file fv r \<or> \<not> fv_canonical fv s then Inl (BlockedError (''unsafe '' @ label))
              else if fv_reparse fv r then Inl (BlockedError (''reparse '' @ label)) else Inr r)
    | _ \<Rightarrow> Inl (BlockedError (''invalid '' @ label)))"

lemma validate_root_disjoint:
  "validate_root fv forbidden v = Inr r \<Longrightarrow> f \<in> set forbidden \<Longrightarrow> \<not> prefix f r \<and> \<not> prefix r f"
  by (auto simp: validate_root_def path_contains_def list_ex_iff split: if_splits option.splits)

end
