(* ===== verification/Ingestion.thy ===== *)
theory Ingestion
  imports StoreClaims Ingress
begin

text \<open>
  Directive ingestion (\<open>src/autonomy/ingestion.py\<close>): the queue file is read, compared with what was
  ingested before, and every new record becomes a task with a provenance row, one transaction each. The
  file is its bytes, \<open>None\<close> when it is missing, no regular file or a symbolic link. \<open>H\<close> is the hexadecimal SHA-256,
  \<open>loads\<close> decodes and parses a line (\<open>None\<close>: it raises), \<open>str(v)\<close> is \<open>fmt rep v\<close>. \<open>clock\<close> gives the time read for
  the record with a sequence number. The tables exist; their rows survive a restart.
\<close>

definition MAX_QUEUE_BYTES :: nat where "MAX_QUEUE_BYTES = 2097152"
definition MAX_RECORD_BYTES :: nat where "MAX_RECORD_BYTES = 131072"
definition MAX_RECORDS :: nat where "MAX_RECORDS = 4096"

definition ACTION_CAPABILITIES :: "(string \<times> string) list" where
  "ACTION_CAPABILITIES = [(''STATUS_REQUEST'', ''OBSERVE_STATUS''), (''AUDIT_REQUEST'', ''AUDIT_READ''),
     (''READ_ONLY_ANALYSIS'', ''ANALYZE_READ_ONLY''), (''GENERATE_REPORT'', ''GENERATE_REPORT''),
     (''RUN_CONTROL_PLANE_TESTS'', ''RUN_READ_ONLY_TESTS''), (''RUN_READ_ONLY_OBSERVATION'', ''OBSERVE_READ_ONLY''),
     (''PREPARE_NEXT_STAGE'', ''PREPARE_READ_ONLY''), (''NO_OP'', ''NO_OP'')]"

definition PROHIBITED_ACTIONS :: "string list" where
  "PROHIBITED_ACTIONS = [''RESTART_PROJECT'', ''STOP_PROJECT'', ''KILL_PROCESS'', ''MODIFY_STRATEGY'',
     ''CHANGE_PARAMETERS'', ''WRITE_TO_ORACLE'', ''WRITE_TO_MICRO'', ''DELETE_DATA'', ''RESET_GIT'',
     ''CHECKOUT_PROJECT_BRANCH'', ''ENABLE_REAL_MONEY'', ''SEND_ORDER'', ''EXECUTE_TRADE'', ''MODIFY_CREDENTIALS'', ''MUTATE'',
     ''TARGET_MUTATION'', ''DESTRUCTIVE'', ''EXECUTE_RECOVERY'']"

subsection \<open>Tables\<close>

record provenance_row =
  pv_task_id :: string
  pv_directive_id :: string
  pv_key :: string
  pv_commit :: string
  pv_blob :: string
  pv_payload_sha :: string
  pv_source_path :: string
  pv_signer :: string
  pv_target :: string
  pv_action :: string
  pv_capability :: string
  pv_ingested_at :: rat

record queue_row =
  qr_sequence :: nat
  qr_line_sha :: string
  qr_directive_id :: string

record ingest_state =
  is_source_path :: string
  is_source_state :: string
  is_last_sequence :: nat
  is_last_error :: "string option"
  is_last_directive :: "string option"
  is_last_task :: "string option"

record ingestion =
  in_provenance :: "provenance_row list"
  in_records :: "queue_row list"
  in_state :: ingest_state

definition fresh_ingestion :: ingestion where
  "fresh_ingestion = \<lparr>in_provenance = [], in_records = [], in_state = \<lparr>is_source_path = [], is_source_state = ''UNKNOWN'',
     is_last_sequence = 0, is_last_error = None, is_last_directive = None, is_last_task = None\<rparr>\<rparr>"

text \<open>The authority's answer: a status with the human flag and the metadata, some other value, or an exception.\<close>

datatype verdict = Verdict string pyval dict | MalformedVerdict | VerifierRaised err

record ingestor =
  ig_path :: string
  ig_verifier :: "(DirectivePayload \<Rightarrow> DirectiveEnvelope \<Rightarrow> string \<Rightarrow> verdict) option"
  ig_targets :: "string list"

record IngestResult =
  ir_task_id :: string
  ir_directive_id :: string
  ir_created :: bool
  ir_state :: TaskState

definition deterministic_task_id :: "(string \<Rightarrow> string) \<Rightarrow> string \<Rightarrow> string \<Rightarrow> string" where
  "deterministic_task_id H did key = ''af04-'' @ H (''AF04_TASK_V1'' @ CHR 0x0A # did @ CHR 0x0A # key @ [CHR 0x0A])"

definition block_source :: "string \<Rightarrow> ingestion \<Rightarrow> ingestion" where
  "block_source reason g = g\<lparr>in_state := (in_state g)\<lparr>is_source_state := ''INTEGRITY_BLOCKED'',
     is_last_error := Some (clean reason)\<rparr>\<rparr>"

text \<open>Recording the reason is a write of its own; when it fails, its exception is the one raised.\<close>

definition fail_source :: "bool \<Rightarrow> string \<Rightarrow> string \<Rightarrow> ingestion \<Rightarrow> 'a res \<times> ingestion" where
  "fail_source locked reason msg g =
     (if locked then (Inl db_busy, g) else (Inl (IntegrityBlockedError msg), block_source reason g))"

subsection \<open>Reading the queue\<close>

text \<open>\<open>bytes.splitlines(keepends=True)\<close>.\<close>

fun split_lines :: "string \<Rightarrow> string list" where
  "split_lines [] = []"
| "split_lines [c] = [[c]]"
| "split_lines (c # b # cs) =
     (if c = CHR 0x0A then [c] # split_lines (b # cs)
      else if c = CHR 0x0D \<and> b = CHR 0x0A then [c, b] # split_lines cs
      else if c = CHR 0x0D then [c] # split_lines (b # cs)
      else (case split_lines (b # cs) of [] \<Rightarrow> [[c]] | l # ls \<Rightarrow> (c # l) # ls))"

definition is_eol :: "char \<Rightarrow> bool" where
  "is_eol c \<longleftrightarrow> c = CHR 0x0A \<or> c = CHR 0x0D"

definition line_content :: "string \<Rightarrow> string" where
  "line_content l = rev (dropWhile is_eol (rev l))"

definition bytes_space :: "char \<Rightarrow> bool" where
  "bytes_space c \<longleftrightarrow> (9 \<le> ord_of c \<and> ord_of c \<le> 13) \<or> ord_of c = 32"

text \<open>The loop over the lines: the records with the digests of their lines, or the reason and message.\<close>

fun parse_lines :: "(string \<Rightarrow> string) \<Rightarrow> (string \<Rightarrow> pyval option) \<Rightarrow> string list \<Rightarrow> (string \<times> string) + (dict \<times> string) list" where
  "parse_lines H loads [] = Inr []"
| "parse_lines H loads (l # ls) =
     (if list_all bytes_space (line_content l) then parse_lines H loads ls
      else if length l > MAX_RECORD_BYTES then Inl (''RECORD_OVERSIZED'', ''queue record oversized'')
      else (case loads (line_content l) of
          None \<Rightarrow> Inl (''MALFORMED_QUEUE'', ''malformed queue'')
        | Some (PyDict m) \<Rightarrow> (case parse_lines H loads ls of Inl e \<Rightarrow> Inl e | Inr rs \<Rightarrow> Inr ((m, H l) # rs))
        | Some _ \<Rightarrow> Inl (''INVALID_RECORD_SHAPE'', ''invalid queue record'')))"

definition persisted_rows :: "ingestion \<Rightarrow> queue_row list" where
  "persisted_rows g = sort_key qr_sequence (in_records g)"

definition same_record :: "queue_row \<Rightarrow> dict \<times> string \<Rightarrow> bool" where
  "same_record r rc \<longleftrightarrow> qr_line_sha r = snd rc \<and> dget (fst rc) ''directive_id'' = PyStr (qr_directive_id r)"

definition read_records :: "(string \<Rightarrow> string) \<Rightarrow> (string \<Rightarrow> pyval option) \<Rightarrow> bool \<Rightarrow> ingestor \<Rightarrow> string option \<Rightarrow> ingestion
    \<Rightarrow> (dict \<times> string) list res \<times> ingestion" where
  "read_records H loads locked i queue g = (case queue of
      None \<Rightarrow> fail_source locked ''QUEUE_UNAVAILABLE'' ''queue unavailable'' g
    | Some raw \<Rightarrow>
        if length raw > MAX_QUEUE_BYTES then fail_source locked ''QUEUE_OVERSIZED'' ''queue oversized'' g
        else if length (split_lines raw) > MAX_RECORDS then fail_source locked ''TOO_MANY_RECORDS'' ''too many queue records'' g
        else (case parse_lines H loads (split_lines raw) of
            Inl (reason, msg) \<Rightarrow> fail_source locked reason msg g
          | Inr rs \<Rightarrow>
              if is_source_path (in_state g) \<noteq> [] \<and> is_source_path (in_state g) \<noteq> ig_path i
              then fail_source locked ''QUEUE_SOURCE_REBOUND'' ''queue source changed'' g
              else if length rs < length (persisted_rows g) then fail_source locked ''QUEUE_TRUNCATED'' ''queue truncated'' g
              else if \<not> list_all2 same_record (persisted_rows g) (take (length (persisted_rows g)) rs)
              then fail_source locked ''QUEUE_REWRITE_OR_REORDER'' ''queue history changed'' g
              else (Inr rs, g)))"

subsection \<open>Validating a record\<close>

definition lower_hex :: "nat \<Rightarrow> string \<Rightarrow> bool" where
  "lower_hex n s \<longleftrightarrow> length s = n \<and> list_all (\<lambda>c. is_digit c \<or> (97 \<le> ord_of c \<and> ord_of c \<le> 102)) s"

text \<open>\<open>PurePosixPath\<close>: empty parts and \<open>.\<close> vanish; a leading slash makes the path absolute.\<close>

definition path_parts :: "string \<Rightarrow> string list" where
  "path_parts s = filter (\<lambda>p. p \<noteq> [] \<and> p \<noteq> ''.'') (split_on (CHR ''/'') s)"

definition source_path :: "pyval \<Rightarrow> string res" where
  "source_path v = (case v of
      PyStr s \<Rightarrow>
        if CHR 0x5C \<in> set s \<or> list_ex (\<lambda>c. ord_of c < 32) s then Inl (BlockedError ''directive source path unavailable'')
        else if prefix ''/'' s then Inl (BlockedError ''invalid directive source path'')
        else (case path_parts s of
            [a, b, c] \<Rightarrow> if a = ''directives'' \<and> b = ''inbox'' \<and> is_identifier c \<and> suffix ''.json'' c
              then Inr (join ''/'' [a, b, c]) else Inl (BlockedError ''invalid directive source path'')
          | _ \<Rightarrow> Inl (BlockedError ''invalid directive source path''))
    | _ \<Rightarrow> Inl (BlockedError ''directive source path unavailable''))"

definition ingest_ident :: "pyval \<Rightarrow> string \<Rightarrow> string res" where
  "ingest_ident v label = (case v of
      PyStr s \<Rightarrow> if is_identifier s then Inr s else Inl (BlockedError (''invalid '' @ label))
    | _ \<Rightarrow> Inl (BlockedError (''invalid '' @ label)))"

record validated =
  vd_payload :: DirectivePayload
  vd_envelope :: DirectiveEnvelope
  vd_key :: string
  vd_capability :: string
  vd_source_path :: string

definition execution_ready :: "dict \<Rightarrow> bool" where
  "execution_ready m \<longleftrightarrow> dget m ''queue_state'' = PyStr ''READY_FOR_FUTURE_EXECUTOR''
     \<and> dget m ''readback_verified'' = PyBool True \<and> dget m ''executed'' = PyBool False"

definition hash_text :: "(pyval \<Rightarrow> string) \<Rightarrow> dict \<Rightarrow> string \<Rightarrow> string" where
  "hash_text rep m k = lower (fmt rep (dget_or m k (PyStr [])))"

definition ingest_key :: "(string \<Rightarrow> string) \<Rightarrow> string \<Rightarrow> string \<Rightarrow> string \<Rightarrow> string" where
  "ingest_key H did commit sha = H (did @ '':'' @ commit @ '':'' @ sha)"

definition ingest_envelope :: "string \<Rightarrow> string \<Rightarrow> string \<Rightarrow> string \<Rightarrow> DirectiveEnvelope" where
  "ingest_envelope did commit blob sha = \<lparr>env_directive_id = did, env_commit_sha = commit, env_blob_sha = blob,
     env_payload_sha256 = sha, env_trusted_remote = ''AI-CONTROL-PLANE'', env_trusted_branch = ''main'',
     env_version = ''2.0'', env_signature_present = False, env_signature_valid = False, env_signer_identity = [],
     env_signer_allowed = False\<rparr>"

definition validate_payload :: "(pyval \<Rightarrow> string) \<Rightarrow> dict \<Rightarrow> string \<Rightarrow> string \<Rightarrow> string \<Rightarrow> DirectivePayload res" where
  "validate_payload rep m did target action = (case dget m ''directive_payload'' of
      PyDict raw \<Rightarrow> (case payload_from_dict rep raw of Inl e \<Rightarrow> Inl e | Inr p \<Rightarrow>
        if dpl_directive_id p \<noteq> did \<or> dpl_target_project p \<noteq> target \<or> dpl_action_type p \<noteq> action
        then Inl (BlockedError ''payload record contradiction'')
        else if dget m ''requires_human_approval'' \<noteq> PyBool (dpl_requires_human p)
        then Inl (BlockedError ''human approval contradiction'') else Inr p)
    | _ \<Rightarrow> Inl (BlockedError ''directive payload unavailable''))"

definition validate_record :: "(string \<Rightarrow> string) \<Rightarrow> (pyval \<Rightarrow> string) \<Rightarrow> ingestor \<Rightarrow> dict \<Rightarrow> validated res" where
  "validate_record H rep i m =
     (case ingest_ident (dget m ''directive_id'') ''directive_id'' of Inl e \<Rightarrow> Inl e | Inr did \<Rightarrow>
      if \<not> execution_ready m then Inl (BlockedError ''queue record not execution-ready'') else
      let commit = hash_text rep m ''directive_source_sha''; blob = hash_text rep m ''directive_blob_sha'';
          sha = hash_text rep m ''directive_payload_sha256'' in
      if \<not> lower_hex 40 commit \<or> \<not> lower_hex 40 blob \<or> \<not> lower_hex 64 sha
      then Inl (BlockedError ''invalid provenance hashes'')
      else if dget m ''idempotency_key'' \<noteq> PyStr (ingest_key H did commit sha) then Inl (BlockedError ''idempotency mismatch'') else
     (case source_path (dget m ''directive_source_path'') of Inl e \<Rightarrow> Inl e | Inr src \<Rightarrow>
     (case ingest_ident (dget m ''target_project'') ''target_project'' of Inl e \<Rightarrow> Inl e | Inr target \<Rightarrow>
      if target \<notin> set (map clean (ig_targets i)) then Inl (BlockedError ''unsupported target'') else
     (case ingest_ident (dget m ''action_type'') ''action_type'' of Inl e \<Rightarrow> Inl e | Inr action \<Rightarrow>
      if action \<in> set PROHIBITED_ACTIONS then Inl (BlockedError ''unknown or prohibited action'') else
     (case map_of ACTION_CAPABILITIES action of None \<Rightarrow> Inl (BlockedError ''unknown or prohibited action'') | Some cap \<Rightarrow>
     (case validate_payload rep m did target action of Inl e \<Rightarrow> Inl e | Inr p \<Rightarrow>
      Inr \<lparr>vd_payload = p, vd_envelope = ingest_envelope did commit blob sha, vd_key = ingest_key H did commit sha,
           vd_capability = cap, vd_source_path = src\<rparr>))))))"

text \<open>\<open>clean(v)\<close> of a dynamic value: \<open>str(v or "")\<close> first. Then the checks on the authority's answer.\<close>

definition clean_value :: "(pyval \<Rightarrow> string) \<Rightarrow> pyval \<Rightarrow> string" where
  "clean_value rep v = clean (if truthy v then fmt rep v else [])"

definition verdict_ok :: "(pyval \<Rightarrow> string) \<Rightarrow> validated \<Rightarrow> dict \<Rightarrow> string \<Rightarrow> pyval \<Rightarrow> dict \<Rightarrow> bool" where
  "verdict_ok rep v m status human meta \<longleftrightarrow> status = ''AUTHENTIC'' \<and> truthy (dget meta ''signature_valid'')
     \<and> truthy (dget meta ''signer_allowed'') \<and> truthy (dget meta ''remote_ancestry_verified'')
     \<and> dget meta ''payload_commit_sha'' = PyStr (env_commit_sha (vd_envelope v))
     \<and> dget meta ''payload_blob_sha'' = PyStr (env_blob_sha (vd_envelope v))
     \<and> dget meta ''payload_sha256'' = PyStr (env_payload_sha256 (vd_envelope v))
     \<and> clean_value rep (dget_or meta ''signer_identity'' (PyStr [])) = clean_value rep (dget_or m ''signer_identity'' (PyStr []))
     \<and> truthy human = dpl_requires_human (vd_payload v)"

definition verify_record :: "(pyval \<Rightarrow> string) \<Rightarrow> ingestor \<Rightarrow> validated \<Rightarrow> dict \<Rightarrow> string res" where
  "verify_record rep i v m = (case ig_verifier i of
      None \<Rightarrow> Inl (BlockedError ''provenance verifier unavailable'')
    | Some f \<Rightarrow> (case f (vd_payload v) (vd_envelope v) (vd_source_path v) of
          VerifierRaised e \<Rightarrow> Inl (if is_blocked e then e else BlockedError ''provenance verifier unavailable'')
        | MalformedVerdict \<Rightarrow> Inl (BlockedError ''malformed provenance response'')
        | Verdict status human meta \<Rightarrow>
            if verdict_ok rep v m status human meta
            then Inr (clean_value rep (dget_or meta ''signer_identity'' (PyStr [])))
            else Inl (BlockedError ''provenance revalidation failed'')))"

subsection \<open>Ingesting\<close>

definition provenance_of :: "(string \<Rightarrow> string) \<Rightarrow> validated \<Rightarrow> string \<Rightarrow> rat \<Rightarrow> provenance_row" where
  "provenance_of H v signer n = (let p = vd_payload v; e = vd_envelope v in
     \<lparr>pv_task_id = deterministic_task_id H (dpl_directive_id p) (vd_key v), pv_directive_id = dpl_directive_id p,
      pv_key = vd_key v, pv_commit = env_commit_sha e, pv_blob = env_blob_sha e, pv_payload_sha = env_payload_sha256 e,
      pv_source_path = vd_source_path v, pv_signer = signer, pv_target = dpl_target_project p,
      pv_action = dpl_action_type p, pv_capability = vd_capability v, pv_ingested_at = n\<rparr>)"

definition ingested_task :: "provenance_row \<Rightarrow> bool \<Rightarrow> task" where
  "ingested_task b human = new_task (pv_task_id b) (Some (pv_directive_id b)) (pv_target b) (pv_capability b)
     0 human True 1 (pv_ingested_at b)"

definition note_ingested :: "string \<Rightarrow> nat \<Rightarrow> string \<Rightarrow> provenance_row \<Rightarrow> ingestion \<Rightarrow> ingestion" where
  "note_ingested path k sha b g = g\<lparr>
     in_records := (if \<exists>r \<in> set (in_records g). qr_sequence r = k then in_records g
        else in_records g @ [\<lparr>qr_sequence = k, qr_line_sha = sha, qr_directive_id = pv_directive_id b\<rparr>]),
     in_state := \<lparr>is_source_path = path, is_source_state = ''VERIFIED'', is_last_sequence = k, is_last_error = None,
        is_last_directive = Some (pv_directive_id b), is_last_task = Some (pv_task_id b)\<rparr>\<rparr>"

text \<open>
  One transaction; \<open>Some\<close> result when a task was created. A violated UNIQUE constraint of \<open>tasks\<close> is not
  caught by the code (and leaves the transaction open, which is not modelled).
\<close>

definition ingest_commit :: "string \<Rightarrow> nat \<Rightarrow> string \<Rightarrow> provenance_row \<Rightarrow> bool \<Rightarrow> ingestion \<Rightarrow> db
    \<Rightarrow> IngestResult option res \<times> ingestion \<times> db" where
  "ingest_commit path k sha b human g d =
     (if db_locked d then (Inl (BlockedError ''store busy''), g, d)
      else if (case find (\<lambda>r. qr_sequence r = k) (in_records g) of None \<Rightarrow> False
          | Some r \<Rightarrow> qr_line_sha r \<noteq> sha \<or> qr_directive_id r \<noteq> pv_directive_id b)
      then (Inl (IntegrityBlockedError ''queue sequence conflict''), block_source ''QUEUE_SEQUENCE_CONFLICT'' g, d)
      else (case find (\<lambda>r. pv_directive_id r = pv_directive_id b \<or> pv_task_id r = pv_task_id b) (in_provenance g) of
          Some old \<Rightarrow>
            if old\<lparr>pv_ingested_at := pv_ingested_at b\<rparr> \<noteq> b
            then (Inl (IntegrityBlockedError ''conflicting provenance''), block_source ''PROVENANCE_CONFLICT'' g, d)
            else (Inr None, note_ingested path k sha b g, d)
        | None \<Rightarrow>
            if \<not> task_insert_ok (ingested_task b human) d then (Inl SqlIntegrityError, g, d) else
            let d1 = audit (pv_task_id b) ''DIRECTIVE_INGESTED'' (pv_ingested_at b)
                  (''directive='' @ pv_directive_id b @ '';action='' @ pv_action b) (insert_task (ingested_task b human) d);
                g1 = note_ingested path k sha b (g\<lparr>in_provenance := in_provenance g @ [b]\<rparr>)
            in (case get_task (pv_task_id b) d1 of
                Inl e \<Rightarrow> (Inl e, g1, d1)
              | Inr t \<Rightarrow> (Inr (Some \<lparr>ir_task_id = pv_task_id b, ir_directive_id = pv_directive_id b,
                  ir_created = True, ir_state = t_state t\<rparr>), g1, d1))))"

definition ingest_record :: "(string \<Rightarrow> string) \<Rightarrow> (pyval \<Rightarrow> string) \<Rightarrow> (nat \<Rightarrow> pyfloat) \<Rightarrow> ingestor \<Rightarrow> nat \<Rightarrow> dict \<times> string
    \<Rightarrow> ingestion \<Rightarrow> db \<Rightarrow> IngestResult option res \<times> ingestion \<times> db" where
  "ingest_record H rep clock i k rc g d =
     (case validate_record H rep i (fst rc) of Inl e \<Rightarrow> (Inl e, g, d) | Inr v \<Rightarrow>
     (case verify_record rep i v (fst rc) of Inl e \<Rightarrow> (Inl e, g, d) | Inr signer \<Rightarrow>
     (case now_of (clock k) of Inl e \<Rightarrow> (Inl e, g, d) | Inr n \<Rightarrow>
      ingest_commit (ig_path i) k (snd rc) (provenance_of H v signer n) (dpl_requires_human (vd_payload v)) g d)))"

text \<open>Records are numbered from 1; those up to the number of persisted rows are skipped.\<close>

fun ingest_loop :: "(string \<Rightarrow> string) \<Rightarrow> (pyval \<Rightarrow> string) \<Rightarrow> (nat \<Rightarrow> pyfloat) \<Rightarrow> ingestor \<Rightarrow> nat \<Rightarrow> nat \<Rightarrow> (dict \<times> string) list
    \<Rightarrow> IngestResult list \<Rightarrow> ingestion \<Rightarrow> db \<Rightarrow> IngestResult list res \<times> ingestion \<times> db" where
  "ingest_loop H rep clock i n k [] out g d = (Inr out, g, d)"
| "ingest_loop H rep clock i n k (rc # rcs) out g d =
     (if k \<le> n then ingest_loop H rep clock i n (Suc k) rcs out g d else
      (case ingest_record H rep clock i k rc g d of
          (Inl e, g1, d1) \<Rightarrow> (Inl e, g1, d1)
        | (Inr None, g1, d1) \<Rightarrow> ingest_loop H rep clock i n (Suc k) rcs out g1 d1
        | (Inr (Some r), g1, d1) \<Rightarrow> ingest_loop H rep clock i n (Suc k) rcs (out @ [r]) g1 d1))"

definition ingest :: "(string \<Rightarrow> string) \<Rightarrow> (string \<Rightarrow> pyval option) \<Rightarrow> (pyval \<Rightarrow> string) \<Rightarrow> (nat \<Rightarrow> pyfloat) \<Rightarrow> ingestor
    \<Rightarrow> string option \<Rightarrow> ingestion \<Rightarrow> db \<Rightarrow> IngestResult list res \<times> ingestion \<times> db" where
  "ingest H loads rep clock i queue g d = (case read_records H loads (db_locked d) i queue g of
      (Inl e, g1) \<Rightarrow> (Inl e, g1, d)
    | (Inr rcs, g1) \<Rightarrow> ingest_loop H rep clock i (length (in_records g1)) 1 rcs [] g1 d)"

definition ingest_projection :: "ingestion \<Rightarrow> string \<times> nat \<times> string option \<times> string option \<times> string option" where
  "ingest_projection g = (is_source_state (in_state g), is_last_sequence (in_state g), is_last_error (in_state g),
     is_last_directive (in_state g), is_last_task (in_state g))"

end
