(* ===== verification/Execution.thy ===== *)
theory Execution
  imports Act Paths Gateway Ingestion
begin

text \<open>
  Governed execution (\<open>src/autonomy/execution.py\<close>): single-use grants, plans of file operations, and the
  transaction that applies a plan in a disposable workspace, undoes it on any exception, or is recovered later.
  The file system is a map from resolved paths to nodes with what \<open>resolve\<close> and \<open>stat\<close> say of a path; \<open>H\<close> is the
  hexadecimal SHA-256. Characters are below 256, where every string is its own NFC form.
\<close>

definition MAX_PLAN_FILES :: nat where "MAX_PLAN_FILES = 64"
definition MAX_PLAN_BYTES :: nat where "MAX_PLAN_BYTES = 1048576"

definition GRANT_STATES :: "string list" where
  "GRANT_STATES = [''ISSUED'', ''APPLYING'', ''APPLIED'', ''FAILED'', ''EXPIRED'', ''INTEGRITY_BLOCKED'']"

definition PROTECTED_PREFIXES :: "string list" where
  "PROTECTED_PREFIXES = [''state'', ''reports'', ''directives/audit'', ''.git'']"

definition OPERATIONS :: "string list" where "OPERATIONS = [''CREATE'', ''REPLACE'', ''DELETE'']"

subsection \<open>Paths\<close>

definition safe_id :: "pyval \<Rightarrow> string \<Rightarrow> string res" where
  "safe_id v name = (case v of
      PyStr s \<Rightarrow> if is_identifier s then Inr s else Inl (BlockedError (''invalid '' @ name))
    | _ \<Rightarrow> Inl (BlockedError (''invalid '' @ name)))"

definition control_char :: "char \<Rightarrow> bool" where
  "control_char c \<longleftrightarrow> ord_of c \<le> 31 \<or> ord_of c = 127"

text \<open>The search for a keyword, any white space and a colon or equals sign.\<close>

fun secret_shaped :: "string \<Rightarrow> bool" where
  "secret_shaped [] = False"
| "secret_shaped (c # cs) = (list_ex (\<lambda>k. prefix k (lower (c # cs)) \<and>
       (case dropWhile is_space (drop (length k) (c # cs)) of [] \<Rightarrow> False | x # _ \<Rightarrow> x = CHR '':'' \<or> x = CHR ''=''))
     [''token'', ''secret'', ''password'', ''authorization''] \<or> secret_shaped cs)"

text \<open>\<open>PurePosixPath(v).as_posix()\<close> of a relative path; a Windows drive is a second character that is a colon.\<close>

definition normalized_relative :: "string \<Rightarrow> string res" where
  "normalized_relative s =
     (if s = [] \<or> list_ex control_char s then Inl (BlockedError ''invalid path'')
      else if CHR 0x5C \<in> set s then Inl (BlockedError ''malformed path'')
      else if secret_shaped s then Inl (BlockedError ''secret-shaped path metadata'')
      else if prefix ''/'' s \<or> (2 \<le> length s \<and> s ! 1 = CHR '':'') \<or> ''..'' \<in> set (path_parts s)
      then Inl (BlockedError ''path escape'')
      else Inr (if path_parts s = [] then ''.'' else join ''/'' (path_parts s)))"

subsection \<open>The file system\<close>

text \<open>A file with its bytes and number of links, a directory, a link that does or does not lead to something, a reparse point, any other node.\<close>

datatype node = File string nat | Dir | Link bool | Reparse | Special

record filesys =
  fx_nodes :: "parts \<Rightarrow> node option"
  fx_phys :: "parts \<Rightarrow> string"
  fx_resolve :: "parts \<Rightarrow> parts"

definition path_exists :: "filesys \<Rightarrow> parts \<Rightarrow> bool" where
  "path_exists x p = (case fx_nodes x p of None \<Rightarrow> False | Some (Link b) \<Rightarrow> b | Some _ \<Rightarrow> True)"

definition is_symlink :: "filesys \<Rightarrow> parts \<Rightarrow> bool" where
  "is_symlink x p = (case fx_nodes x p of Some (Link b) \<Rightarrow> True | _ \<Rightarrow> False)"

definition physical_id :: "filesys \<Rightarrow> parts \<Rightarrow> string res" where
  "physical_id x p = (case fx_nodes x p of
      None \<Rightarrow> Inl (PyError ''FileNotFoundError'')
    | Some Reparse \<Rightarrow> Inl (IntegrityBlockedError ''reparse-point workspace'')
    | Some _ \<Rightarrow> Inr (fx_phys x p))"

subsection \<open>Rows\<close>

record FileOperation =
  fo_operation :: string
  fo_path :: string
  fo_pre :: string
  fo_post :: string
  fo_content :: "string option"

record ExecutionPlan =
  ep_grant_id :: string
  ep_operations :: "FileOperation list"

record WorkspaceDescriptor =
  wd_id :: string
  wd_root :: parts
  wd_target :: string
  wd_phys :: string
  wd_kind :: string

text \<open>A normalized operation; a stored manifest is a list of them without the contents.\<close>

record plan_row =
  ro_operation :: "string option"
  ro_path :: string
  ro_pre :: string
  ro_post :: string
  ro_sha :: string
  ro_content :: "string option"

record grant =
  gr_id :: string
  gr_task :: string
  gr_worker :: string
  gr_session :: string
  gr_lease :: string
  gr_workspace :: string
  gr_target :: string
  gr_capability :: string
  gr_operations :: "string list"
  gr_prefixes :: "string list"
  gr_issued :: rat
  gr_expires :: rat
  gr_consumed :: "rat option"
  gr_state :: string
  gr_plan_hash :: "string option"

record tx_row =
  tr_grant :: string
  tr_plan_hash :: string
  tr_manifest :: "plan_row list"
  tr_state :: string
  tr_started :: rat
  tr_finished :: "rat option"
  tr_evidence :: "string option"
  tr_error :: "string option"
  tr_envelope :: "string option"

record space_row =
  wr_id :: string
  wr_root :: parts
  wr_phys :: string
  wr_target :: string
  wr_kind :: string
  wr_state :: string
  wr_verified :: "rat option"
  wr_error :: "string option"

record registry =
  rg_real_root :: parts
  rg_protected :: "string list"
  rg_spaces :: "(string \<times> WorkspaceDescriptor) list"
  rg_blocked :: "string list"

text \<open>The state of the controller: the store, the gateway, its tables, the registry in memory, the files, the time.\<close>

record exec_world =
  xw_db :: db
  xw_gateway :: gateway
  xw_grants :: "grant list"
  xw_txs :: "tx_row list"
  xw_spaces :: "space_row list"
  xw_registry :: registry
  xw_fs :: filesys
  xw_tick :: nat
  xw_status :: string
  xw_last_error :: "string option"

text \<open>
  A step of the operating system may fail: before anything happened, or, for a write, after some bytes. A write may also
  be short: \<open>os.write\<close> returns after some of the bytes, and the code does not look at the number it returns.
\<close>

datatype fault = StepFails | WriteFails string | WriteShort string

record exec_env =
  xe_hash :: "string \<Rightarrow> string"
  xe_clock :: "nat \<Rightarrow> pyfloat"
  xe_uuid :: "nat \<Rightarrow> string"
  xe_fault :: "nat \<Rightarrow> fault option"
  xe_dumps :: "pyval \<Rightarrow> string"
  xe_rep :: "pyval \<Rightarrow> string"

subsection \<open>The registry of workspaces\<close>

definition new_registry :: "parts \<Rightarrow> string list \<Rightarrow> registry res" where
  "new_registry rroot protected = (case each (\<lambda>s. lift_res (normalized_relative s)) protected () of
      (Inl e, _) \<Rightarrow> Inl e
    | (Inr ps, _) \<Rightarrow> Inr \<lparr>rg_real_root = rroot, rg_protected = sort (remdups (map lower ps)), rg_spaces = [], rg_blocked = []\<rparr>)"

definition registry_block :: "string \<Rightarrow> registry \<Rightarrow> registry" where
  "registry_block i r = r\<lparr>rg_blocked := List.insert i (rg_blocked r)\<rparr>"

definition register_local_disposable :: "pyval \<Rightarrow> parts \<Rightarrow> pyval \<Rightarrow> filesys \<Rightarrow> registry \<Rightarrow> WorkspaceDescriptor res \<times> registry" where
  "register_local_disposable wid requested target x r =
     (case safe_id wid ''workspace_id'' of Inl e \<Rightarrow> (Inl e, r) | Inr i \<Rightarrow>
     (case safe_id target ''target_project'' of Inl e \<Rightarrow> (Inl e, r) | Inr t \<Rightarrow>
      if fx_nodes x requested \<noteq> Some Dir then (Inl (BlockedError ''workspace root unavailable''), r) else
      let p = fx_resolve x requested in
      if prefix (rg_real_root r) p \<or> prefix p (rg_real_root r) then (Inl (BlockedError ''real repository workspace prohibited''), r)
      else (case physical_id x p of Inl e \<Rightarrow> (Inl e, r) | Inr phys \<Rightarrow>
        let d = \<lparr>wd_id = i, wd_root = p, wd_target = t, wd_phys = phys, wd_kind = ''DISPOSABLE''\<rparr> in
        (case map_of (rg_spaces r) i of
            None \<Rightarrow> (Inr d, r\<lparr>rg_spaces := AList.update i d (rg_spaces r)\<rparr>)
          | Some old \<Rightarrow> if old \<noteq> d then (Inl (IntegrityBlockedError ''workspace authority rebind''), registry_block i r)
              else (Inr d, r)))))"

definition registry_resolve :: "string \<Rightarrow> string \<Rightarrow> filesys \<Rightarrow> registry \<Rightarrow> WorkspaceDescriptor res \<times> registry" where
  "registry_resolve wid target x r =
     (case safe_id (PyStr wid) ''workspace_id'' of Inl e \<Rightarrow> (Inl e, r) | Inr i \<Rightarrow>
     (case map_of (rg_spaces r) i of
        None \<Rightarrow> (Inl (IntegrityBlockedError ''workspace authority unavailable''), r)
      | Some d \<Rightarrow>
          if i \<in> set (rg_blocked r) then (Inl (IntegrityBlockedError ''workspace authority unavailable''), r)
          else if wd_target d \<noteq> target \<or> wd_kind d \<noteq> ''DISPOSABLE'' then (Inl (BlockedError ''workspace target mismatch''), r)
          else if \<not> path_exists x (wd_root d) \<or> is_symlink x (wd_root d) \<or> fx_resolve x (wd_root d) \<noteq> wd_root d
          then (Inl (IntegrityBlockedError ''workspace identity changed''), registry_block i r)
          else (case physical_id x (wd_root d) of Inl e \<Rightarrow> (Inl e, r) | Inr phys \<Rightarrow>
            if phys \<noteq> wd_phys d then (Inl (IntegrityBlockedError ''workspace identity changed''), registry_block i r)
            else (Inr d, r))))"

definition descriptors :: "registry \<Rightarrow> WorkspaceDescriptor list" where
  "descriptors r = map snd (sort_key fst (rg_spaces r))"

definition path_allowed :: "registry \<Rightarrow> string \<Rightarrow> bool" where
  "path_allowed r rel \<longleftrightarrow> \<not> list_ex (\<lambda>p. lower rel = p \<or> prefix (p @ ''/'') (lower rel)) (rg_protected r)"

definition registry_state :: "registry \<Rightarrow> string \<Rightarrow> string" where
  "registry_state r i = (if i \<in> set (rg_blocked r) then ''INTEGRITY_BLOCKED''
     else if map_of (rg_spaces r) i \<noteq> None then ''AVAILABLE'' else ''UNKNOWN'')"

subsection \<open>Plans\<close>

definition is_absent :: "string \<Rightarrow> bool" where "is_absent s \<longleftrightarrow> upper s = ''ABSENT''"

definition image_of :: "string \<Rightarrow> string" where
  "image_of s = (if is_absent s then ''ABSENT'' else lower s)"

definition normalize_operation :: "(string \<Rightarrow> string) \<Rightarrow> FileOperation \<Rightarrow> string list \<Rightarrow> plan_row res" where
  "normalize_operation H f seen =
     (let opn = (if fo_operation f \<in> set OPERATIONS then Some (fo_operation f) else None) in
      case normalized_relative (fo_path f) of Inl e \<Rightarrow> Inl e | Inr p \<Rightarrow>
      let pre = image_of (fo_pre f); post = image_of (fo_post f) in
      if lower p \<in> set seen then Inl (BlockedError ''path normalization collision'')
      else if opn = Some ''CREATE'' \<and> pre \<noteq> ''ABSENT'' then Inl (BlockedError ''CREATE requires absent preimage'')
      else if (opn = Some ''REPLACE'' \<or> opn = Some ''DELETE'') \<and> \<not> lower_hex 64 pre then Inl (BlockedError ''invalid preimage'')
      else if opn = Some ''CREATE'' \<or> opn = Some ''REPLACE'' then
        (case fo_content f of
            None \<Rightarrow> Inl (BlockedError ''content bytes required'')
          | Some b \<Rightarrow> if \<not> lower_hex 64 post \<or> post \<noteq> H b then Inl (BlockedError ''postimage digest mismatch'')
              else Inr \<lparr>ro_operation = opn, ro_path = p, ro_pre = pre, ro_post = post, ro_sha = H b, ro_content = Some b\<rparr>)
      else if fo_content f \<noteq> None \<or> post \<noteq> ''ABSENT'' then Inl (BlockedError ''DELETE requires absent postimage'')
      else Inr \<lparr>ro_operation = opn, ro_path = p, ro_pre = pre, ro_post = post, ro_sha = ''ABSENT'', ro_content = None\<rparr>)"

fun normalize_all :: "(string \<Rightarrow> string) \<Rightarrow> FileOperation list \<Rightarrow> string list \<Rightarrow> plan_row list res" where
  "normalize_all H [] seen = Inr []"
| "normalize_all H (f # fs) seen = (case normalize_operation H f seen of Inl e \<Rightarrow> Inl e | Inr r \<Rightarrow>
     (case normalize_all H fs (lower (ro_path r) # seen) of Inl e \<Rightarrow> Inl e | Inr rs \<Rightarrow> Inr (r # rs)))"

definition content_length :: "plan_row \<Rightarrow> nat" where
  "content_length r = (case ro_content r of None \<Rightarrow> 0 | Some b \<Rightarrow> length b)"

definition manifest_line :: "plan_row \<Rightarrow> string" where
  "manifest_line r = ro_path r @ ''|'' @ (case ro_operation r of None \<Rightarrow> ''None'' | Some s \<Rightarrow> s) @ ''|'' @ ro_pre r @ ''|''
     @ ro_post r @ ''|'' @ ro_sha r @ [CHR 0x0A]"

definition canonical_plan :: "(string \<Rightarrow> string) \<Rightarrow> ExecutionPlan \<Rightarrow> (string \<times> plan_row list \<times> nat) res" where
  "canonical_plan H p =
     (if ep_operations p = [] \<or> length (ep_operations p) > MAX_PLAN_FILES then Inl (BlockedError ''invalid plan size'') else
      case normalize_all H (ep_operations p) [] of Inl e \<Rightarrow> Inl e | Inr rs \<Rightarrow>
      let total = sum_list (map content_length rs) in
      if total > MAX_PLAN_BYTES then Inl (BlockedError ''plan payload too large'')
      else let rows = sort_key ro_path rs in Inr (H (concat (map manifest_line rows)), rows, total))"

subsection \<open>Paths and files of a workspace\<close>

fun parents_ok :: "filesys \<Rightarrow> parts \<Rightarrow> string list \<Rightarrow> bool" where
  "parents_ok x cur [] = True"
| "parents_ok x cur (p # ps) = ((path_exists x (cur @ [p]) \<longrightarrow> fx_nodes x (cur @ [p]) = Some Dir) \<and> parents_ok x (cur @ [p]) ps)"

text \<open>\<open>_path\<close>.\<close>

definition workspace_path :: "registry \<Rightarrow> filesys \<Rightarrow> WorkspaceDescriptor \<Rightarrow> string \<Rightarrow> parts res" where
  "workspace_path r x d rel =
     (if \<not> path_allowed r rel then Inl (BlockedError ''configured protected path'') else
      case physical_id x (wd_root d) of Inl e \<Rightarrow> Inl e | Inr phys \<Rightarrow>
      if phys \<noteq> wd_phys d then Inl (IntegrityBlockedError ''workspace physical identity changed'') else
      let ps = path_parts rel; c = wd_root d @ ps in
      if \<not> parents_ok x (wd_root d) (butlast ps) then Inl (BlockedError ''symlink or reparse traversal'')
      else if path_exists x c \<and> (is_symlink x c \<or> fx_nodes x c = Some Reparse) then Inl (BlockedError ''symlink or reparse target'')
      else if (case fx_nodes x c of Some (File b n) \<Rightarrow> n \<noteq> 1 | _ \<Rightarrow> False) then Inl (BlockedError ''hardlinked target'')
      else if \<not> path_exists x (butlast c) then Inl (PyError ''FileNotFoundError'')
      else if \<not> prefix (wd_root d) (fx_resolve x (butlast c)) then Inl (BlockedError ''workspace escape'')
      else Inr c)"

text \<open>\<open>_actual\<close>: the digest and the bytes.\<close>

definition actual :: "(string \<Rightarrow> string) \<Rightarrow> filesys \<Rightarrow> parts \<Rightarrow> (string \<times> string option) res" where
  "actual H x p = (if \<not> path_exists x p then Inr (''ABSENT'', None)
     else (case fx_nodes x p of Some (File b n) \<Rightarrow> if n = 1 then Inr (H b, Some b) else Inl (BlockedError ''non-regular target'')
       | _ \<Rightarrow> Inl (BlockedError ''non-regular target'')))"

subsection \<open>Tables and transactions\<close>

text \<open>
  A write outside a transaction fails while another connection holds the lock. A transaction that raises leaves
  the four tables as they were; the registry, the files and the time keep what happened.
\<close>

definition rollback_tables :: "exec_world \<Rightarrow> exec_world \<Rightarrow> exec_world" where
  "rollback_tables w0 w = w\<lparr>xw_db := xw_db w0, xw_grants := xw_grants w0, xw_txs := xw_txs w0, xw_spaces := xw_spaces w0\<rparr>"

definition in_tx :: "(exec_world, 'a) act \<Rightarrow> (exec_world, 'a) act" where
  "in_tx m w = (if db_locked (xw_db w) then (Inl db_busy, w)
     else (case m w of (Inl e, w1) \<Rightarrow> (Inl e, rollback_tables w w1) | (Inr x, w1) \<Rightarrow> (Inr x, w1)))"

definition sql_write :: "(exec_world \<Rightarrow> exec_world) \<Rightarrow> (exec_world, unit) act" where
  "sql_write f w = (if db_locked (xw_db w) then (Inl db_busy, w) else (Inr (), f w))"

definition tick :: "(exec_world, nat) act" where
  "tick w = (Inr (xw_tick w), w\<lparr>xw_tick := Suc (xw_tick w)\<rparr>)"

definition find_grant :: "string \<Rightarrow> exec_world \<Rightarrow> grant option" where
  "find_grant g w = find (\<lambda>r. gr_id r = g) (xw_grants w)"

definition find_tx :: "string \<Rightarrow> exec_world \<Rightarrow> tx_row option" where
  "find_tx g w = find (\<lambda>r. tr_grant r = g) (xw_txs w)"

definition find_space :: "string \<Rightarrow> exec_world \<Rightarrow> space_row option" where
  "find_space i w = find (\<lambda>r. wr_id r = i) (xw_spaces w)"

definition set_grants :: "(grant \<Rightarrow> bool) \<Rightarrow> (grant \<Rightarrow> grant) \<Rightarrow> exec_world \<Rightarrow> exec_world" where
  "set_grants p f w = w\<lparr>xw_grants := update_where p f (xw_grants w)\<rparr>"

definition set_txs :: "(tx_row \<Rightarrow> bool) \<Rightarrow> (tx_row \<Rightarrow> tx_row) \<Rightarrow> exec_world \<Rightarrow> exec_world" where
  "set_txs p f w = w\<lparr>xw_txs := update_where p f (xw_txs w)\<rparr>"

definition set_spaces :: "string \<Rightarrow> (space_row \<Rightarrow> space_row) \<Rightarrow> exec_world \<Rightarrow> exec_world" where
  "set_spaces i f w = w\<lparr>xw_spaces := update_where (\<lambda>r. wr_id r = i) f (xw_spaces w)\<rparr>"

definition audit_exec :: "string \<Rightarrow> string \<Rightarrow> rat \<Rightarrow> string \<Rightarrow> (exec_world, unit) act" where
  "audit_exec tid event n details = modify (\<lambda>w. w\<lparr>xw_db := audit tid event n details (xw_db w)\<rparr>)"

definition get_grant :: "pyval \<Rightarrow> (exec_world, grant) act" where
  "get_grant v = seq (lift_res (safe_id v ''grant_id'')) (\<lambda>g. seq (query (find_grant g)) (\<lambda>r.
     case r of None \<Rightarrow> fail (IntegrityBlockedError ''unknown grant'')
     | Some r \<Rightarrow> if gr_state r \<in> set GRANT_STATES then ret r else fail (IntegrityBlockedError ''unknown grant'')))"

definition get_tx :: "string \<Rightarrow> (exec_world, tx_row) act" where
  "get_tx g = seq (query (find_tx g)) (\<lambda>r. case r of None \<Rightarrow> fail (BlockedError ''unknown transaction'') | Some r \<Rightarrow> ret r)"

subsection \<open>Authority\<close>

definition block_workspace :: "string \<Rightarrow> string \<Rightarrow> rat \<Rightarrow> (exec_world, unit) act" where
  "block_workspace i reason n = seq (sql_write (set_spaces i (\<lambda>r. r\<lparr>wr_state := ''INTEGRITY_BLOCKED'', wr_verified := Some n,
       wr_error := Some (clean reason)\<rparr>))) (\<lambda>_. modify (\<lambda>w. w\<lparr>xw_registry := registry_block i (xw_registry w)\<rparr>))"

definition resolve_workspace :: "string \<Rightarrow> string \<Rightarrow> (exec_world, WorkspaceDescriptor) act" where
  "resolve_workspace wid target w = (case registry_resolve wid target (xw_fs w) (xw_registry w) of (r, reg) \<Rightarrow> (r, w\<lparr>xw_registry := reg\<rparr>))"

text \<open>\<open>_workspace_authority\<close>: an integrity error of the registry is made durable before it is raised again.\<close>

definition workspace_authority :: "grant \<Rightarrow> rat \<Rightarrow> (exec_world, WorkspaceDescriptor) act" where
  "workspace_authority g n w = (case resolve_workspace (gr_workspace g) (gr_target g) w of
      (Inl e, w1) \<Rightarrow> (case e of
          IntegrityBlockedError _ \<Rightarrow> seq (block_workspace (gr_workspace g) ''LOCAL_AUTHORITY_LOST'' n) (\<lambda>_. fail e) w1
        | _ \<Rightarrow> (Inl e, w1))
    | (Inr d, w1) \<Rightarrow> seq (query (find_space (wd_id d))) (\<lambda>r.
        if (case r of None \<Rightarrow> True | Some r \<Rightarrow> wr_state r = ''INTEGRITY_BLOCKED'')
        then seq (modify (\<lambda>w. w\<lparr>xw_registry := registry_block (wd_id d) (xw_registry w)\<rparr>))
               (\<lambda>_. fail (IntegrityBlockedError ''workspace durably blocked or unknown''))
        else seq (lift_res (physical_id (xw_fs w1) (wd_root d))) (\<lambda>phys.
          if (wr_root (the r), wr_phys (the r), wr_target (the r), wr_kind (the r)) \<noteq> (wd_root d, wd_phys d, wd_target d, wd_kind d)
             \<or> phys \<noteq> wr_phys (the r)
          then seq (block_workspace (wd_id d) ''PHYSICAL_IDENTITY_MISMATCH'' n)
                 (\<lambda>_. fail (IntegrityBlockedError ''workspace physical identity mismatch''))
          else seq (sql_write (set_spaces (wd_id d) (\<lambda>r. r\<lparr>wr_verified := Some n, wr_error := None\<rparr>))) (\<lambda>_. ret d))) w1)"

text \<open>A task under this lease with a live lease; \<open>None <= n\<close> raises.\<close>

definition lease_live :: "rat \<Rightarrow> task \<Rightarrow> bool res" where
  "lease_live n t = (case t_lease_expires_at t of None \<Rightarrow> Inl (PyError ''TypeError'') | Some x \<Rightarrow> Inr (x > n))"

definition grant_authority :: "grant \<Rightarrow> rat \<Rightarrow> (exec_world, unit) act" where
  "grant_authority g n = seq (query (\<lambda>w. (find_task (gr_task g) (xw_db w), find_worker (gr_worker g) (xw_db w), xw_gateway w))) (\<lambda>(t, k, gw).
     case (t, k) of
       (Some t, Some k) \<Rightarrow>
         if t_state t \<noteq> RUNNING \<or> t_assigned_worker_id t \<noteq> Some (gr_worker g) \<or> t_lease_id t \<noteq> Some (gr_lease g)
         then fail (BlockedError ''grant authority expired'')
         else seq (lift_res (lease_live n t)) (\<lambda>live.
           if \<not> live \<or> gr_expires g \<le> n then fail (BlockedError ''grant authority expired'')
           else if \<not> worker_fresh n k then fail (BlockedError ''worker stale'')
           else seq (lift_res (verified_session_binding (Finite n) (gr_worker g) (gr_session g) gw)) (\<lambda>b.
             ensure b (BlockedError ''session authority unavailable'')))
     | _ \<Rightarrow> fail (BlockedError ''grant authority expired''))"

definition fresh_now :: "exec_env \<Rightarrow> (exec_world, rat) act" where
  "fresh_now E = seq tick (\<lambda>k. lift_res (now_of (xe_clock E k)))"

definition fresh_authority :: "exec_env \<Rightarrow> string \<Rightarrow> (exec_world, grant \<times> WorkspaceDescriptor \<times> rat) act" where
  "fresh_authority E gid = seq (fresh_now E) (\<lambda>n. seq (query (find_grant gid)) (\<lambda>g. case g of
      None \<Rightarrow> fail (BlockedError ''applying grant authority lost'')
    | Some g \<Rightarrow> if gr_state g \<noteq> ''APPLYING'' then fail (BlockedError ''applying grant authority lost'')
        else seq (grant_authority g n) (\<lambda>_. seq (workspace_authority g n) (\<lambda>d. ret (g, d, n)))))"

subsection \<open>Issuing a grant\<close>

definition normalized_prefixes :: "string list \<Rightarrow> string list res" where
  "normalized_prefixes ps = (case each (\<lambda>p. if p = [] then ret [] else lift_res (normalized_relative p)) ps () of
      (Inl e, _) \<Rightarrow> Inl e | (Inr qs, _) \<Rightarrow> Inr (sort (remdups qs)))"

definition issue_allowed :: "rat \<Rightarrow> task \<Rightarrow> worker \<Rightarrow> string \<Rightarrow> string \<Rightarrow> string \<Rightarrow> gateway \<Rightarrow> bool res" where
  "issue_allowed n t k wid sid lid gw =
     (if t_state t \<noteq> RUNNING \<or> t_assigned_worker_id t \<noteq> Some wid \<or> t_lease_id t \<noteq> Some lid then Inr False
      else (case lease_live n t of Inl e \<Rightarrow> Inl e | Inr live \<Rightarrow>
        if \<not> live \<or> \<not> worker_fresh n k then Inr False else verified_session_binding (Finite n) wid sid gw))"

text \<open>The insertion into the table, whose key is the identifier.\<close>

definition insert_grant :: "grant \<Rightarrow> (exec_world, unit) act" where
  "insert_grant g w = (if find_grant (gr_id g) w \<noteq> None then (Inl SqlIntegrityError, w) else (Inr (), w\<lparr>xw_grants := xw_grants w @ [g]\<rparr>))"

definition issue_body :: "exec_env \<Rightarrow> rat \<Rightarrow> string \<Rightarrow> string \<Rightarrow> string \<Rightarrow> string \<Rightarrow> string \<Rightarrow> string list \<Rightarrow> string list \<Rightarrow> rat
    \<Rightarrow> (exec_world, string) act" where
  "issue_body E n tid wid sid lid wsid ops pfx secs =
     seq (query (\<lambda>w. (find_task tid (xw_db w), find_worker wid (xw_db w), xw_gateway w))) (\<lambda>(t, k, gw).
     case (t, k) of
       (Some t, Some k) \<Rightarrow> seq (lift_res (issue_allowed n t k wid sid lid gw)) (\<lambda>ok.
         if \<not> ok then fail (BlockedError ''execution authority unavailable'')
         else seq (resolve_workspace wsid (t_target_project t)) (\<lambda>d.
           if t_capability t \<notin> set (w_capabilities k) \<or> t_target_project t \<notin> set (w_targets k)
           then fail (BlockedError ''capability or target mismatch'')
           else seq tick (\<lambda>i.
             let g = xe_hash E (join ''|'' [tid, wid, sid, lid, wd_id d, fmt (xe_rep E) (PyFloat (Finite n)), xe_uuid E i]) in
             seq (insert_grant \<lparr>gr_id = g, gr_task = tid, gr_worker = wid, gr_session = sid,
                 gr_lease = lid, gr_workspace = wd_id d, gr_target = t_target_project t, gr_capability = t_capability t,
                 gr_operations = ops, gr_prefixes = pfx, gr_issued = n,
                 gr_expires = min (the (t_lease_expires_at t)) (n + secs), gr_consumed = None, gr_state = ''ISSUED'', gr_plan_hash = None\<rparr>) (\<lambda>_.
             seq (audit_exec tid ''EXECUTION_GRANT_ISSUED'' n (''grant='' @ g @ '';workspace='' @ wsid)) (\<lambda>_. ret g)))))
     | _ \<Rightarrow> fail (BlockedError ''execution authority unavailable''))"

definition issue_grant :: "exec_env \<Rightarrow> pyfloat \<Rightarrow> string \<Rightarrow> string \<Rightarrow> string \<Rightarrow> string \<Rightarrow> string \<Rightarrow> string list \<Rightarrow> string list \<Rightarrow> pyval
    \<Rightarrow> (exec_world, grant) act" where
  "issue_grant E now tid wid sid lid wsid allowed pfx secs w =
     (case now_of now of Inl e \<Rightarrow> (Inl e, w) | Inr n \<Rightarrow>
     (case positive_seconds secs of None \<Rightarrow> (Inl (BlockedError ''invalid grant duration''), w) | Some s \<Rightarrow>
      let ops = sort (remdups allowed) in
      if ops = [] \<or> \<not> set ops \<subseteq> set OPERATIONS then (Inl (BlockedError ''invalid operation authority''), w) else
     (case normalized_prefixes pfx of Inl e \<Rightarrow> (Inl e, w) | Inr ps \<Rightarrow>
     (case in_tx (issue_body E n tid wid sid lid wsid ops ps s) w of
        (Inl e, w1) \<Rightarrow> (Inl (if e = db_busy then BlockedError ''store busy'' else e), w1)
      | (Inr g, w1) \<Rightarrow> get_grant (PyStr g) w1))))"

subsection \<open>File steps\<close>

definition put_node :: "parts \<Rightarrow> node option \<Rightarrow> exec_world \<Rightarrow> exec_world" where
  "put_node p v w = w\<lparr>xw_fs := (xw_fs w)\<lparr>fx_nodes := (fx_nodes (xw_fs w))(p := v)\<rparr>\<rparr>"

abbreviation node_at :: "exec_world \<Rightarrow> parts \<Rightarrow> node option" where "node_at w \<equiv> fx_nodes (xw_fs w)"

definition os_error :: err where "os_error = PyError ''OSError''"

definition os_step :: "exec_env \<Rightarrow> (exec_world, unit) act" where
  "os_step E = seq tick (\<lambda>k. ensure (xe_fault E k = None) os_error)"

definition unlink :: "exec_env \<Rightarrow> parts \<Rightarrow> (exec_world, unit) act" where
  "unlink E p = seq (os_step E) (\<lambda>_. seq (query (\<lambda>w. node_at w p)) (\<lambda>v. case v of
      None \<Rightarrow> fail (PyError ''FileNotFoundError'')
    | Some Dir \<Rightarrow> fail (PyError ''IsADirectoryError'')
    | Some _ \<Rightarrow> modify (put_node p None)))"

text \<open>\<open>os.open\<close> with \<open>O_CREAT | O_EXCL\<close>, then the bytes; a failing or short write leaves the file with what was written.\<close>

definition create_file :: "exec_env \<Rightarrow> parts \<Rightarrow> string \<Rightarrow> (exec_world, unit) act" where
  "create_file E p b = seq tick (\<lambda>k. seq (query (\<lambda>w. node_at w p)) (\<lambda>v.
     if xe_fault E k = Some StepFails then fail os_error
     else if v \<noteq> None then fail (PyError ''FileExistsError'')
     else (case xe_fault E k of
         Some (WriteFails part) \<Rightarrow> seq (modify (put_node p (Some (File part 1)))) (\<lambda>_. fail os_error)
       | Some (WriteShort part) \<Rightarrow> modify (put_node p (Some (File part 1)))
       | _ \<Rightarrow> modify (put_node p (Some (File b 1))))))"

definition replace_file :: "exec_env \<Rightarrow> parts \<Rightarrow> parts \<Rightarrow> (exec_world, unit) act" where
  "replace_file E src dst = seq (os_step E) (\<lambda>_. seq (query (\<lambda>w. (node_at w src, node_at w dst))) (\<lambda>(s, d).
     if d = Some Dir then fail (PyError ''IsADirectoryError'')
     else modify (\<lambda>w. put_node src None (put_node dst s w))))"

text \<open>\<open>os.link(temporary, path)\<close> followed by \<open>temporary.unlink()\<close>: in between both names have two links.\<close>

definition link_into :: "exec_env \<Rightarrow> parts \<Rightarrow> parts \<Rightarrow> string \<Rightarrow> (exec_world, unit) act" where
  "link_into E tmp dst b = seq (os_step E) (\<lambda>_. seq (query (\<lambda>w. node_at w dst)) (\<lambda>v.
     if v \<noteq> None then fail (PyError ''FileExistsError'')
     else seq (modify (\<lambda>w. put_node dst (Some (File b 2)) (put_node tmp (Some (File b 2)) w))) (\<lambda>_. seq (os_step E) (\<lambda>_.
       modify (\<lambda>w. put_node dst (Some (File b 1)) (put_node tmp None w))))))"

text \<open>\<open>path.parent / f".{path.name}.{grant}.<suffix>"\<close>.\<close>

definition side_name :: "parts \<Rightarrow> string \<Rightarrow> string \<Rightarrow> parts" where
  "side_name p gid suff = butlast p @ [''.'' @ last p @ ''.'' @ gid @ suff]"

definition temp_name :: "parts \<Rightarrow> string \<Rightarrow> parts" where "temp_name p gid = side_name p gid ''.af03-tmp''"
definition restore_name :: "parts \<Rightarrow> string \<Rightarrow> parts" where "restore_name p gid = side_name p gid ''.af03-rollback''"

text \<open>A failure while the temporary file is dropped takes the place of the error.\<close>

definition drop_temp :: "exec_env \<Rightarrow> parts \<Rightarrow> err \<Rightarrow> (exec_world, unit) act" where
  "drop_temp E tmp e = seq (unlink E tmp) (\<lambda>_. fail e)"

definition read_actual :: "exec_env \<Rightarrow> parts \<Rightarrow> (exec_world, string \<times> string option) act" where
  "read_actual E p w = (actual (xe_hash E) (xw_fs w) p, w)"

definition path_of :: "WorkspaceDescriptor \<Rightarrow> string \<Rightarrow> (exec_world, parts) act" where
  "path_of d rel w = (workspace_path (xw_registry w) (xw_fs w) d rel, w)"

text \<open>What \<open>lstat\<close> says of the temporary file, and its bytes.\<close>

fun single_file :: "node option \<Rightarrow> bool" where
  "single_file (Some (File c n)) = (n = 1)"
| "single_file v = False"

fun file_bytes :: "node option \<Rightarrow> string" where
  "file_bytes (Some (File c n)) = c"
| "file_bytes v = []"

text \<open>One operation of the plan, at a path whose preimage was just read.\<close>

definition write_row :: "exec_env \<Rightarrow> string \<Rightarrow> plan_row \<Rightarrow> parts \<Rightarrow> (exec_world, unit) act" where
  "write_row E gid r p =
     (if ro_operation r = Some ''DELETE'' then unlink E p else
      let tmp = temp_name p gid; b = (case ro_content r of Some b \<Rightarrow> b | None \<Rightarrow> []) in
      seq (query (\<lambda>w. path_exists (xw_fs w) tmp \<or> is_symlink (xw_fs w) tmp)) (\<lambda>taken.
      if taken then fail (IntegrityBlockedError ''temporary path collision'')
      else seq (create_file E tmp b) (\<lambda>_. seq (query (\<lambda>w. node_at w tmp)) (\<lambda>v.
      if \<not> single_file v then drop_temp E tmp (IntegrityBlockedError ''unsafe temporary file'')
      else if ro_operation r = Some ''CREATE'' then
        seq (query (\<lambda>w. path_exists (xw_fs w) p)) (\<lambda>there.
          if there then drop_temp E tmp (BlockedError ''CREATE target appeared'') else link_into E tmp p (file_bytes v))
      else seq (read_actual E p) (\<lambda>(cur, _).
          if cur \<noteq> ro_pre r then drop_temp E tmp (BlockedError ''REPLACE target changed'') else replace_file E tmp p)))))"

subsection \<open>Applying a plan\<close>

text \<open>
  The local variables of \<open>apply\<close> that its handler reads: the backups made so far, the workspace, and whether
  the transaction row is its own. The three callbacks are functions on the state that may raise.
\<close>

record apply_state =
  ap_world :: exec_world
  ap_backups :: "(parts \<times> string option) list"
  ap_space :: "WorkspaceDescriptor option"
  ap_owns :: bool

type_synonym hook = "exec_world \<Rightarrow> unit res \<times> exec_world"

record hooks =
  hk_before_first_write :: "hook option"
  hk_after_operation :: "(nat \<Rightarrow> parts \<Rightarrow> hook) option"
  hk_before_rollback :: "hook option"

definition on_world :: "(exec_world, 'a) act \<Rightarrow> (apply_state, 'a) act" where
  "on_world m s = (case m (ap_world s) of (r, w) \<Rightarrow> (r, s\<lparr>ap_world := w\<rparr>))"

definition call_hook :: "hook option \<Rightarrow> (exec_world, unit) act" where
  "call_hook h = (case h of None \<Rightarrow> ret () | Some f \<Rightarrow> f)"

definition in_scope :: "grant \<Rightarrow> plan_row \<Rightarrow> bool" where
  "in_scope g r \<longleftrightarrow> (case ro_operation r of None \<Rightarrow> False | Some s \<Rightarrow> s \<in> set (gr_operations g))
     \<and> list_ex (\<lambda>p. p = [] \<or> ro_path r = p \<or> prefix (p @ ''/'') (ro_path r)) (gr_prefixes g)"

definition check_preimage :: "exec_env \<Rightarrow> string \<Rightarrow> plan_row \<Rightarrow> parts \<Rightarrow> (exec_world, string option) act" where
  "check_preimage E msg r p = seq (read_actual E p) (\<lambda>(cur, data). if cur \<noteq> ro_pre r then fail (BlockedError msg) else ret data)"

definition resolve_rows :: "WorkspaceDescriptor \<Rightarrow> plan_row list \<Rightarrow> (exec_world, (plan_row \<times> parts) list) act" where
  "resolve_rows d rows = each (\<lambda>r. seq (path_of d (ro_path r)) (\<lambda>p. ret (r, p))) rows"

definition manifest_of :: "plan_row list \<Rightarrow> plan_row list" where
  "manifest_of rows = map (\<lambda>r. r\<lparr>ro_content := None\<rparr>) rows"

text \<open>The workspace is assigned within the transaction that claims the grant; \<open>None\<close>: the grant had expired, which is committed.\<close>

definition claim_expired :: "exec_world \<Rightarrow> grant \<Rightarrow> rat \<Rightarrow> bool res" where
  "claim_expired w g n = (if gr_expires g \<le> n then Inr True else
     (case find (\<lambda>t. t_id t = gr_task g \<and> t_lease_id t = Some (gr_lease g)) (db_tasks (xw_db w)) of
        None \<Rightarrow> Inr True
      | Some t \<Rightarrow> (case lease_live n t of Inl e \<Rightarrow> Inl e | Inr live \<Rightarrow> Inr (\<not> live))))"

definition consume_grant :: "string \<Rightarrow> string \<Rightarrow> rat \<Rightarrow> (exec_world, unit) act" where
  "consume_grant gid hash n = seq (query (\<lambda>w. rowcount (\<lambda>r. gr_id r = gid \<and> gr_state r = ''ISSUED'') (xw_grants w))) (\<lambda>changed.
     seq (modify (set_grants (\<lambda>r. gr_id r = gid \<and> gr_state r = ''ISSUED'')
       (\<lambda>r. r\<lparr>gr_state := ''APPLYING'', gr_consumed := Some n, gr_plan_hash := Some hash\<rparr>))) (\<lambda>_.
     ensure (changed = 1) (BlockedError ''grant consume lost'')))"

definition claim_grant :: "exec_env \<Rightarrow> string \<Rightarrow> string \<Rightarrow> plan_row list \<Rightarrow> rat
    \<Rightarrow> (exec_world, (WorkspaceDescriptor \<times> (plan_row \<times> parts) list) option) act" where
  "claim_grant E gid hash rows n = seq (query (find_grant gid)) (\<lambda>g. case g of
      None \<Rightarrow> fail (BlockedError ''grant replay or unavailable'')
    | Some g \<Rightarrow>
        if gr_state g \<noteq> ''ISSUED'' then fail (BlockedError ''grant replay or unavailable'') else
        seq (query (\<lambda>w. claim_expired w g n)) (\<lambda>ex. seq (lift_res ex) (\<lambda>expired.
        if expired then
          seq (modify (set_grants (\<lambda>r. gr_id r = gid \<and> gr_state r = ''ISSUED'') (\<lambda>r. r\<lparr>gr_state := ''EXPIRED''\<rparr>))) (\<lambda>_.
          seq (audit_exec (gr_task g) ''EXECUTION_GRANT_EXPIRED'' n (''grant='' @ gid)) (\<lambda>_. ret None))
        else seq (grant_authority g n) (\<lambda>_. seq (workspace_authority g n) (\<lambda>d.
          seq (query (\<lambda>w. find (\<lambda>r. gr_workspace r = gr_workspace g \<and> gr_state r = ''APPLYING'' \<and> gr_id r \<noteq> gid) (xw_grants w))) (\<lambda>busy.
          if busy \<noteq> None then fail (BlockedError ''workspace transaction already applying'')
          else if \<not> list_all (in_scope g) rows then fail (BlockedError ''plan outside grant scope'')
          else seq (resolve_rows d rows) (\<lambda>rps. seq (for_each (\<lambda>(r, p). seq (check_preimage E ''preimage mismatch'' r p) (\<lambda>_. ret ())) rps) (\<lambda>_.
          seq (query (find_tx gid)) (\<lambda>old. if old \<noteq> None then fail SqlIntegrityError
          else seq (modify (\<lambda>w. w\<lparr>xw_txs := xw_txs w @ [\<lparr>tr_grant = gid, tr_plan_hash = hash, tr_manifest = manifest_of rows,
              tr_state = ''APPLYING'', tr_started = n, tr_finished = None, tr_evidence = None, tr_error = None, tr_envelope = None\<rparr>]\<rparr>)) (\<lambda>_.
          seq (consume_grant gid hash n) (\<lambda>_. seq (audit_exec (gr_task g) ''EXECUTION_APPLYING'' n (''grant='' @ gid @ '';plan='' @ hash)) (\<lambda>_.
            ret (Some (d, rps))))))))))))))"

definition backup_row :: "exec_env \<Rightarrow> plan_row \<Rightarrow> (apply_state, unit) act" where
  "backup_row E r = seq (query ap_space) (\<lambda>d. seq (on_world (path_of (the d) (ro_path r))) (\<lambda>p.
     seq (on_world (check_preimage E ''TOCTOU preimage mismatch'' r p)) (\<lambda>data.
     modify (\<lambda>s. s\<lparr>ap_backups := ap_backups s @ [(p, data)]\<rparr>))))"

definition refresh :: "exec_env \<Rightarrow> string \<Rightarrow> (apply_state, grant \<times> rat) act" where
  "refresh E gid = seq (on_world (fresh_authority E gid)) (\<lambda>(g, d, n). seq (modify (\<lambda>s. s\<lparr>ap_space := Some d\<rparr>)) (\<lambda>_. ret (g, n)))"

definition apply_row :: "exec_env \<Rightarrow> string \<Rightarrow> hooks \<Rightarrow> nat \<times> plan_row \<Rightarrow> (apply_state, unit) act" where
  "apply_row E gid hk ir = seq (refresh E gid) (\<lambda>_. seq (query ap_space) (\<lambda>d. seq (on_world (path_of (the d) (ro_path (snd ir)))) (\<lambda>p.
     seq (on_world (check_preimage E ''fresh preimage mismatch'' (snd ir) p)) (\<lambda>_.
     seq (on_world (write_row E gid (snd ir) p)) (\<lambda>_.
     seq (on_world (read_actual E p)) (\<lambda>(cur, _).
     if cur \<noteq> ro_post (snd ir) then fail (IntegrityBlockedError ''postimage verification failed'')
     else on_world (call_hook (map_option (\<lambda>f. f (fst ir) p) (hk_after_operation hk)))))))))"

definition verify_row :: "exec_env \<Rightarrow> plan_row \<Rightarrow> (apply_state, string) act" where
  "verify_row E r = seq (query ap_space) (\<lambda>d. seq (on_world (path_of (the d) (ro_path r))) (\<lambda>p. seq (on_world (read_actual E p)) (\<lambda>(cur, _).
     if cur \<noteq> ro_post r then fail (IntegrityBlockedError ''final postimage verification failed'') else ret cur)))"

definition evidence_envelope :: "grant \<Rightarrow> string \<Rightarrow> (plan_row \<times> string) list \<Rightarrow> rat \<Rightarrow> dict" where
  "evidence_envelope g hash rows n = [(''task_id'', PyStr (gr_task g)), (''worker_id'', PyStr (gr_worker g)),
     (''session_id'', PyStr (gr_session g)), (''lease_id'', PyStr (gr_lease g)), (''grant_id'', PyStr (gr_id g)),
     (''workspace_id'', PyStr (gr_workspace g)), (''plan_hash'', PyStr hash),
     (''paths'', PyList (map (\<lambda>(r, cur). PyDict [(''path'', PyStr (ro_path r)), (''before_sha256'', PyStr (ro_pre r)),
        (''after_sha256'', PyStr cur)]) rows)),
     (''applied_at'', PyFloat (Finite n)), (''outcome'', PyStr ''APPLIED'')]"

definition applying_tx :: "string \<Rightarrow> tx_row \<Rightarrow> bool" where
  "applying_tx gid r \<longleftrightarrow> tr_grant r = gid \<and> tr_state r = ''APPLYING''"

definition applying_grant :: "string \<Rightarrow> grant \<Rightarrow> bool" where
  "applying_grant gid r \<longleftrightarrow> gr_id r = gid \<and> gr_state r = ''APPLYING''"

definition running_task :: "string \<Rightarrow> task \<Rightarrow> bool" where
  "running_task tid t \<longleftrightarrow> t_id t = tid \<and> t_state t = RUNNING"

definition to_review :: "rat \<Rightarrow> task \<Rightarrow> task" where
  "to_review n t = t\<lparr>t_state := REVIEW_PENDING, t_evidence_status := ''RECEIVED'', t_updated_at := n\<rparr>"

definition finish_apply :: "exec_env \<Rightarrow> string \<Rightarrow> string \<Rightarrow> string \<Rightarrow> rat \<Rightarrow> (exec_world, unit) act" where
  "finish_apply E gid hash envelope n = seq (query (find_grant gid)) (\<lambda>g. case g of
      None \<Rightarrow> fail (PyError ''TypeError'')
    | Some g \<Rightarrow> seq (grant_authority g n) (\<lambda>_. seq (workspace_authority g n) (\<lambda>_.
        seq (query (\<lambda>w. (rowcount (applying_tx gid) (xw_txs w), rowcount (applying_grant gid) (xw_grants w),
             rowcount (running_task (gr_task g)) (db_tasks (xw_db w))))) (\<lambda>changed.
        seq (modify (\<lambda>w. set_txs (applying_tx gid) (\<lambda>r. r\<lparr>tr_state := ''APPLIED'', tr_finished := Some n,
              tr_evidence := Some (xe_hash E envelope), tr_envelope := Some envelope\<rparr>)
            (set_grants (applying_grant gid) (\<lambda>r. r\<lparr>gr_state := ''APPLIED''\<rparr>)
            (w\<lparr>xw_db := update_tasks (running_task (gr_task g)) (to_review n) (xw_db w)\<rparr>)))) (\<lambda>_.
        if changed \<noteq> (1, 1, 1) then fail (IntegrityBlockedError ''durable completion lost'')
        else audit_exec (gr_task g) ''EXECUTION_APPLIED'' n (''grant='' @ gid @ '';plan='' @ hash @ '';evidence='' @ xe_hash E envelope))))))"

text \<open>What follows once the grant is claimed: the backups, then the writes and the completion.\<close>

definition apply_writes :: "exec_env \<Rightarrow> string \<Rightarrow> string \<Rightarrow> plan_row list \<Rightarrow> hooks \<Rightarrow> (apply_state, tx_row) act" where
  "apply_writes E gid hash rows hk =
     seq (for_each (apply_row E gid hk) (zip [0..<length rows] rows)) (\<lambda>_.
     seq (refresh E gid) (\<lambda>(g, final).
     seq (each (verify_row E) rows) (\<lambda>curs.
     let envelope = xe_dumps E (PyDict (evidence_envelope g hash (zip rows curs) final)) in
     seq (on_world (in_tx (finish_apply E gid hash envelope final))) (\<lambda>_.
     seq (modify (\<lambda>s. s\<lparr>ap_world := (ap_world s)\<lparr>xw_status := ''IDLE'', xw_last_error := None\<rparr>\<rparr>)) (\<lambda>_.
     on_world (get_tx gid))))))"

definition apply_claimed :: "exec_env \<Rightarrow> string \<Rightarrow> string \<Rightarrow> plan_row list \<Rightarrow> hooks \<Rightarrow> (apply_state, tx_row) act" where
  "apply_claimed E gid hash rows hk =
     seq (on_world (call_hook (hk_before_first_write hk))) (\<lambda>_.
     seq (refresh E gid) (\<lambda>_.
     seq (for_each (backup_row E) rows) (\<lambda>_. apply_writes E gid hash rows hk)))"

definition apply_body :: "exec_env \<Rightarrow> string \<Rightarrow> string \<Rightarrow> plan_row list \<Rightarrow> rat \<Rightarrow> hooks \<Rightarrow> (apply_state, tx_row) act" where
  "apply_body E gid hash rows n hk =
     seq (on_world (in_tx (claim_grant E gid hash rows n))) (\<lambda>c. case c of
       None \<Rightarrow> fail (BlockedError ''grant expired'')
     | Some (d, rps) \<Rightarrow>
        seq (modify (\<lambda>s. s\<lparr>ap_space := Some d, ap_owns := True\<rparr>)) (\<lambda>_. apply_claimed E gid hash rows hk))"

subsection \<open>Undoing\<close>

definition terminalize_failure :: "string \<Rightarrow> string \<Rightarrow> string \<Rightarrow> rat \<Rightarrow> (exec_world, unit) act" where
  "terminalize_failure gid st code n = in_tx (modify (\<lambda>w.
     set_grants (applying_grant gid) (\<lambda>r. r\<lparr>gr_state := st\<rparr>)
       (set_txs (applying_tx gid) (\<lambda>r. r\<lparr>tr_state := st, tr_finished := Some n, tr_error := Some (clean code)\<rparr>) w)))"

definition restore_row :: "exec_env \<Rightarrow> string \<Rightarrow> WorkspaceDescriptor \<Rightarrow> parts \<times> string option \<Rightarrow> (exec_world, unit) act" where
  "restore_row E gid d b = seq (path_of d (join ''/'' (drop (length (wd_root d)) (fst b)))) (\<lambda>p. case snd b of
      None \<Rightarrow> seq (query (\<lambda>w. path_exists (xw_fs w) p)) (\<lambda>there. if there then unlink E p else ret ())
    | Some data \<Rightarrow>
        let tmp = restore_name p gid in
        seq (query (\<lambda>w. path_exists (xw_fs w) tmp \<or> is_symlink (xw_fs w) tmp)) (\<lambda>taken.
        if taken then fail (IntegrityBlockedError ''rollback temporary collision'')
        else seq (create_file E tmp data) (\<lambda>_. seq (query (\<lambda>w. path_exists (xw_fs w) p)) (\<lambda>there.
          seq (if there then seq (read_actual E p) (\<lambda>_. ret ()) else ret ()) (\<lambda>_. replace_file E tmp p)))))"

definition restored :: "exec_env \<Rightarrow> parts \<times> string option \<Rightarrow> (exec_world, bool) act" where
  "restored E b = seq (read_actual E (fst b)) (\<lambda>(cur, _). ret (cur = (case snd b of None \<Rightarrow> ''ABSENT'' | Some data \<Rightarrow> xe_hash E data)))"

definition restore_all :: "exec_env \<Rightarrow> string \<Rightarrow> hooks \<Rightarrow> WorkspaceDescriptor \<Rightarrow> (parts \<times> string option) list \<Rightarrow> (exec_world, bool) act" where
  "restore_all E gid hk d bs = seq (call_hook (hk_before_rollback hk)) (\<lambda>_.
     seq (query (\<lambda>w. physical_id (xw_fs w) (wd_root d))) (\<lambda>ph. seq (lift_res ph) (\<lambda>phys.
     if phys \<noteq> wd_phys d then fail (IntegrityBlockedError ''workspace changed before rollback'')
     else seq (for_each (restore_row E gid d) (rev bs)) (\<lambda>_. seq (each (restored E) bs) (\<lambda>oks. ret (list_all (\<lambda>b. b) oks))))))"

definition restore_outcome :: "bool res \<Rightarrow> bool" where
  "restore_outcome r = (case r of Inl _ \<Rightarrow> False | Inr ok \<Rightarrow> ok)"

text \<open>The handler; when it raises itself, that exception is the one that escapes.\<close>

definition apply_handler :: "exec_env \<Rightarrow> string \<Rightarrow> hooks \<Rightarrow> rat \<Rightarrow> err \<Rightarrow> apply_state \<Rightarrow> unit res \<times> exec_world" where
  "apply_handler E gid hk n e s =
     (let w = (ap_world s)\<lparr>xw_last_error := Some (clean (err_class e)), xw_status := ''ERROR''\<rparr> in
      if ap_backups s \<noteq> [] \<and> ap_space s \<noteq> None then
        (case restore_all E gid hk (the (ap_space s)) (ap_backups s) w of (r, w1) \<Rightarrow>
         let ok = restore_outcome r in
         seq (if ok then ret () else block_workspace (wd_id (the (ap_space s))) ''ROLLBACK_UNPROVABLE'' n)
           (\<lambda>_. terminalize_failure gid (if ok then ''FAILED'' else ''INTEGRITY_BLOCKED'') (err_class e) n) w1)
      else if ap_owns s \<and> find_tx gid w \<noteq> None then terminalize_failure gid ''FAILED'' (err_class e) n w
      else (Inr (), w))"

definition apply_plan :: "exec_env \<Rightarrow> pyfloat \<Rightarrow> ExecutionPlan \<Rightarrow> hooks \<Rightarrow> (exec_world, tx_row) act" where
  "apply_plan E now plan hk w = (case now_of now of Inl e \<Rightarrow> (Inl e, w) | Inr n \<Rightarrow>
     (case canonical_plan (xe_hash E) plan of Inl e \<Rightarrow> (Inl e, w) | Inr (hash, rows, _) \<Rightarrow>
     (case apply_body E (ep_grant_id plan) hash rows n hk \<lparr>ap_world = w, ap_backups = [], ap_space = None, ap_owns = False\<rparr> of
        (Inr r, s) \<Rightarrow> (Inr r, ap_world s)
      | (Inl e, s) \<Rightarrow> (case apply_handler E (ep_grant_id plan) hk n e s of
            (Inl e', w1) \<Rightarrow> (Inl e', w1)
          | (Inr _, w1) \<Rightarrow> (Inl e, w1)))))"

subsection \<open>Recovery\<close>

definition recovered_state :: "string list \<Rightarrow> plan_row list \<Rightarrow> string" where
  "recovered_state curs rows = (if curs = map ro_pre rows then ''FAILED'' else if curs = map ro_post rows then ''APPLIED'' else ''INTEGRITY_BLOCKED'')"

text \<open>The updates of the last transaction; \<open>False\<close>: the task was no longer running, and everything is rolled back.\<close>

definition finish_recovery :: "exec_env \<Rightarrow> grant \<Rightarrow> tx_row \<Rightarrow> string \<Rightarrow> string list \<Rightarrow> rat \<Rightarrow> (exec_world, unit) act" where
  "finish_recovery E g tx st curs n =
     (let envelope = xe_dumps E (PyDict (evidence_envelope g (tr_plan_hash tx) (zip (tr_manifest tx) curs) n));
          applied = (st = ''APPLIED'') in
      seq (query (\<lambda>w. rowcount (running_task (gr_task g)) (db_tasks (xw_db w)))) (\<lambda>changed.
      seq (modify (\<lambda>w. set_txs (applying_tx (gr_id g)) (\<lambda>r. r\<lparr>tr_state := st, tr_finished := Some n,
            tr_evidence := (if applied then Some (xe_hash E envelope) else None), tr_envelope := (if applied then Some envelope else None)\<rparr>)
          (set_grants (applying_grant (gr_id g)) (\<lambda>r. r\<lparr>gr_state := st\<rparr>)
          (if applied then w\<lparr>xw_db := update_tasks (running_task (gr_task g)) (to_review n) (xw_db w)\<rparr> else w)))) (\<lambda>_.
      if applied \<and> changed \<noteq> 1 then fail (IntegrityBlockedError ''recovery review transition lost'')
      else audit_exec (gr_task g) ''EXECUTION_RECOVERED'' n (''grant='' @ gr_id g @ '';state='' @ st))))"

definition recover :: "exec_env \<Rightarrow> pyfloat \<Rightarrow> pyval \<Rightarrow> (exec_world, string) act" where
  "recover E now gid = seq (lift_res (now_of now)) (\<lambda>n. seq (get_grant gid) (\<lambda>g. seq (get_tx (gr_id g)) (\<lambda>tx.
     if gr_state g \<noteq> ''APPLYING'' \<or> tr_state tx \<noteq> ''APPLYING'' then fail (BlockedError ''transaction not recoverable'')
     else seq (workspace_authority g n) (\<lambda>d.
       seq (each (\<lambda>r. seq (path_of d (ro_path r)) (\<lambda>p. seq (read_actual E p) (\<lambda>(cur, _). ret cur))) (tr_manifest tx)) (\<lambda>curs.
       let st = recovered_state curs (tr_manifest tx) in
       seq (if st = ''INTEGRITY_BLOCKED'' then block_workspace (wd_id d) ''MIXED_RECOVERY_STATE'' n else ret ()) (\<lambda>_.
       (\<lambda>w. case in_tx (finish_recovery E g tx st curs n) w of
          (Inr _, w1) \<Rightarrow> (Inr st, w1)
        | (Inl e, w1) \<Rightarrow> (if e = IntegrityBlockedError ''recovery review transition lost''
            then seq (block_workspace (wd_id d) ''RECOVERY_REVIEW_TRANSITION_LOST'' n) (\<lambda>_. fail e) w1 else (Inl e, w1)))))))))"

subsection \<open>Start and projection\<close>

text \<open>\<open>_init_schema\<close>: the registered workspaces are entered, and one that differs from its row is blocked.\<close>

definition init_space :: "WorkspaceDescriptor \<Rightarrow> (exec_world, unit) act" where
  "init_space d = seq (query (find_space (wd_id d))) (\<lambda>r. case r of
      None \<Rightarrow> sql_write (\<lambda>w. w\<lparr>xw_spaces := xw_spaces w @ [\<lparr>wr_id = wd_id d, wr_root = wd_root d, wr_phys = wd_phys d,
          wr_target = wd_target d, wr_kind = wd_kind d, wr_state = ''AVAILABLE'', wr_verified = None, wr_error = None\<rparr>]\<rparr>)
    | Some r \<Rightarrow>
        if (wr_root r, wr_phys r, wr_target r, wr_kind r) \<noteq> (wd_root d, wd_phys d, wd_target d, wd_kind d)
        then seq (sql_write (set_spaces (wd_id d) (\<lambda>r. r\<lparr>wr_state := ''INTEGRITY_BLOCKED'', wr_error := Some ''AUTHORITY_REBIND''\<rparr>))) (\<lambda>_.
          modify (\<lambda>w. w\<lparr>xw_registry := registry_block (wd_id d) (xw_registry w)\<rparr>))
        else ret ())"

definition init_execution :: "(exec_world, unit) act" where
  "init_execution = seq (query (\<lambda>w. descriptors (xw_registry w))) (\<lambda>ds. for_each init_space ds)"

record exec_projection =
  ej_status :: string
  ej_last_error :: string
  ej_active :: "(string \<times> string \<times> string \<times> rat \<times> string) list"
  ej_last :: "tx_row option"
  ej_spaces :: "space_row list"
  ej_counts :: "(string \<times> nat) list option"

text \<open>The last transaction is the first, by insertion, of those that started last (\<open>ORDER BY started_at DESC LIMIT 1\<close>).\<close>

definition last_tx :: "exec_world \<Rightarrow> tx_row option" where
  "last_tx w = (case sort_key (\<lambda>r. - tr_started r) (xw_txs w) of [] \<Rightarrow> None | r # _ \<Rightarrow> Some r)"

definition active_grants :: "rat \<Rightarrow> exec_world \<Rightarrow> (string \<times> string \<times> string \<times> rat \<times> string) list" where
  "active_grants n w = map (\<lambda>g. (gr_id g, gr_workspace g, if gr_expires g \<le> n then ''EXPIRED'' else gr_state g, gr_expires g,
       case find_space (gr_workspace g) w of None \<Rightarrow> ''UNKNOWN'' | Some r \<Rightarrow> wr_state r))
     (sort_key gr_id (filter (\<lambda>g. gr_state g = ''ISSUED'' \<or> gr_state g = ''APPLYING'') (xw_grants w)))"

text \<open>An error that is neither NULL nor empty.\<close>

definition stated :: "string option \<Rightarrow> bool" where
  "stated e \<longleftrightarrow> e \<noteq> None \<and> e \<noteq> Some []"

definition execution_projection :: "pyfloat \<Rightarrow> exec_world \<Rightarrow> exec_projection res" where
  "execution_projection now w = (case now_of now of Inl e \<Rightarrow> Inl e | Inr n \<Rightarrow>
     (let spaces = sort_key wr_id (xw_spaces w); last' = last_tx w in
      if \<not> list_all (\<lambda>g. gr_state g \<in> set GRANT_STATES) (xw_grants w)
      then Inr \<lparr>ej_status = ''UNKNOWN'', ej_last_error = ''INTEGRITY_BLOCKED'', ej_active = [], ej_last = None, ej_spaces = [], ej_counts = None\<rparr>
      else if (case last' of None \<Rightarrow> False | Some r \<Rightarrow> tr_state r \<notin> set GRANT_STATES)
      then Inr \<lparr>ej_status = ''UNKNOWN'', ej_last_error = ''INTEGRITY_BLOCKED'', ej_active = [], ej_last = None, ej_spaces = spaces, ej_counts = None\<rparr>
      else Inr \<lparr>ej_status = (if list_ex (\<lambda>r. wr_state r = ''INTEGRITY_BLOCKED'') spaces then ''INTEGRITY_BLOCKED''
                else if spaces \<noteq> [] then ''AVAILABLE'' else ''UNKNOWN''),
             ej_last_error = (case filter stated ((case last' of None \<Rightarrow> None | Some r \<Rightarrow> tr_error r) # map wr_error spaces) of
                 Some e # _ \<Rightarrow> e
               | _ \<Rightarrow> ''UNKNOWN''),
             ej_active = active_grants n w, ej_last = last', ej_spaces = spaces,
             ej_counts = Some (map (\<lambda>s. (s, rowcount (\<lambda>g. gr_state g = s) (xw_grants w))) GRANT_STATES)\<rparr>))"

end
