(* ===== verification/Service.thy ===== *)
theory Service
  imports Paths
begin

text \<open>
  The hosted service (\<open>src/autonomy/service.py\<close>): its configuration, the instance lock, the health row
  it keeps in the runtime's database, the loop that runs the runtime with bounded retries, and the
  status read by others. The runtime is the object the injected factory returns: a state \<open>'r\<close> with
  \<open>run_once\<close>, which returns or raises. Time passes in ticks: every read of the clock, of the stop
  event, every write and every run happens at a tick of its own, and the environment says what each finds.
  A loop that does not end is \<open>None\<close>.
\<close>

definition SERVICE_PROTOCOL_VERSION :: string where "SERVICE_PROTOCOL_VERSION = ''AF07/1''"
definition CONFIG_SCHEMA_VERSION :: int where "CONFIG_SCHEMA_VERSION = 1"
definition MAX_CONFIG_BYTES :: nat where "MAX_CONFIG_BYTES = 65536"

definition SERVICE_STATES :: "string list" where
  "SERVICE_STATES = [''STARTING'', ''RUNNING'', ''IDLE'', ''BACKOFF'', ''BLOCKED'', ''INTEGRITY_BLOCKED'', ''STOPPING'',
     ''STOPPED'', ''CRASHED'']"

definition ACTIVE_STATES :: "string list" where
  "ACTIVE_STATES = [''STARTING'', ''RUNNING'', ''IDLE'', ''BACKOFF'', ''STOPPING'']"

definition EXPECTED_CONFIG_KEYS :: "string list" where
  "EXPECTED_CONFIG_KEYS = [''schema_version'', ''service_id'', ''runtime_root'', ''queue_path'', ''repository_roots'',
     ''supported_targets'', ''cadence_seconds'', ''backoff_initial_seconds'', ''backoff_max_seconds'', ''backoff_multiplier'',
     ''max_consecutive_transient_failures'', ''health_stale_seconds'']"

text \<open>The keys of \<open>settings.REGISTERED_PROJECTS\<close>.\<close>

definition REGISTERED_PROJECTS :: "string list" where
  "REGISTERED_PROJECTS = [''ORACLE-AI'', ''MICRO-MARKET-ORACLE'']"

subsection \<open>Configuration\<close>

definition secret_key :: "string \<Rightarrow> bool" where
  "secret_key k \<longleftrightarrow> list_ex (contains (lower k)) [''secret'', ''token'', ''password'', ''apikey'', ''api_key'', ''api-key'',
     ''credential'', ''authorization'']"

text \<open>\<open>float(i)\<close> raises for an integer beyond the range of \<open>binary64\<close>.\<close>

definition float_overflows :: "pyval \<Rightarrow> bool" where
  "float_overflows v = (case v of PyInt i \<Rightarrow> \<bar>i\<bar> \<ge> 2 ^ 1024 - 2 ^ 970 | _ \<Rightarrow> False)"

definition config_number :: "pyval \<Rightarrow> string \<Rightarrow> rat \<Rightarrow> rat \<Rightarrow> rat res" where
  "config_number v label lo hi = (case as_number v of
      None \<Rightarrow> Inl (BlockedError (''invalid '' @ label))
    | Some x \<Rightarrow>
        if float_overflows v then Inl (PyError ''OverflowError'')
        else (case x of
            Finite r \<Rightarrow> if lo \<le> r \<and> r \<le> hi then Inr r else Inl (BlockedError (''invalid '' @ label))
          | _ \<Rightarrow> Inl (BlockedError (''invalid '' @ label))))"

record ServiceConfig =
  sc_service_id :: string
  sc_runtime_root :: parts
  sc_queue_path :: parts
  sc_repository_roots :: "parts list"
  sc_supported_targets :: "string list"
  sc_cadence :: rat
  sc_backoff_initial :: rat
  sc_backoff_max :: rat
  sc_backoff_multiplier :: rat
  sc_max_failures :: nat
  sc_health_stale :: rat

fun repository_roots :: "fs_view \<Rightarrow> pyval list \<Rightarrow> parts list res" where
  "repository_roots fv [] = Inr []"
| "repository_roots fv (v # vs) = (case v of
      PyStr s \<Rightarrow>
        if \<not> fv_absolute fv s then Inl (BlockedError ''invalid repository root'')
        else (case fv_resolve fv s of
            None \<Rightarrow> Inl (BlockedError ''repository root unavailable'')
          | Some r \<Rightarrow>
              if \<not> fv_real_dir fv r \<or> fv_symlink fv s then Inl (BlockedError ''unsafe repository root'')
              else (case repository_roots fv vs of Inl e \<Rightarrow> Inl e | Inr rs \<Rightarrow> Inr (r # rs)))
    | _ \<Rightarrow> Inl (BlockedError ''invalid repository root''))"

definition config_runtime_root :: "fs_view \<Rightarrow> parts list \<Rightarrow> pyval \<Rightarrow> parts res" where
  "config_runtime_root fv forbidden v = (case v of
      PyStr s \<Rightarrow> if fv_absolute fv s then validate_root fv forbidden s else Inl (BlockedError ''invalid runtime root'')
    | _ \<Rightarrow> Inl (BlockedError ''invalid runtime root''))"

definition config_targets :: "pyval \<Rightarrow> string list res" where
  "config_targets v = (case v of
      PyList vs \<Rightarrow>
        if vs = [] \<or> list_ex (\<lambda>x. as_str x = None) vs then Inl (BlockedError ''supported targets required'')
        else (let ts = sort (remdups (List.map_filter as_str vs)) in
          if list_ex (\<lambda>t. t \<notin> set REGISTERED_PROJECTS) ts then Inl (BlockedError ''unknown target'') else Inr ts)
    | _ \<Rightarrow> Inl (BlockedError ''supported targets required''))"

definition config_failures :: "pyval \<Rightarrow> nat res" where
  "config_failures v = (case v of
      PyInt i \<Rightarrow> if 1 \<le> i \<and> i \<le> 100 then Inr (nat i) else Inl (BlockedError ''invalid transient failure bound'')
    | _ \<Rightarrow> Inl (BlockedError ''invalid transient failure bound''))"

text \<open>The record of the numbers, in the order in which the code checks them.\<close>

definition config_record :: "string \<Rightarrow> parts \<Rightarrow> parts \<Rightarrow> parts list \<Rightarrow> string list \<Rightarrow> nat \<Rightarrow> dict \<Rightarrow> ServiceConfig res" where
  "config_record sid rt queue roots targets maxf m =
     (case config_number (dget m ''backoff_initial_seconds'') ''initial backoff'' (1/100) 300 of Inl e \<Rightarrow> Inl e | Inr initial \<Rightarrow>
     (case config_number (dget m ''backoff_max_seconds'') ''maximum backoff'' initial 3600 of Inl e \<Rightarrow> Inl e | Inr most \<Rightarrow>
     (case config_number (dget m ''cadence_seconds'') ''cadence'' (1/100) 3600 of Inl e \<Rightarrow> Inl e | Inr cadence \<Rightarrow>
     (case config_number (dget m ''backoff_multiplier'') ''backoff multiplier'' 1 10 of Inl e \<Rightarrow> Inl e | Inr mult \<Rightarrow>
     (case config_number (dget m ''health_stale_seconds'') ''health stale threshold'' 1 86400 of Inl e \<Rightarrow> Inl e | Inr stale \<Rightarrow>
      Inr \<lparr>sc_service_id = sid, sc_runtime_root = rt, sc_queue_path = queue, sc_repository_roots = roots,
           sc_supported_targets = targets, sc_cadence = cadence, sc_backoff_initial = initial, sc_backoff_max = most,
           sc_backoff_multiplier = mult, sc_max_failures = maxf, sc_health_stale = stale\<rparr>)))))"

definition config_of_dict :: "fs_view \<Rightarrow> parts \<Rightarrow> dict \<Rightarrow> ServiceConfig res" where
  "config_of_dict fv service_repository m =
     (if set (map fst m) \<noteq> set EXPECTED_CONFIG_KEYS then Inl (BlockedError ''config schema mismatch'')
      else if list_ex secret_key (map fst m) then Inl (BlockedError ''secret field prohibited'')
      else if as_number (dget m ''schema_version'') \<noteq> Some (Finite (of_int CONFIG_SCHEMA_VERSION))
      then Inl (BlockedError ''unsupported config version'')
      else (case dget m ''service_id'' of
          PyStr sid \<Rightarrow>
            if \<not> is_identifier sid then Inl (BlockedError ''invalid service identity'') else
            (case dget m ''repository_roots'' of
                PyList vs \<Rightarrow>
                  if vs = [] then Inl (BlockedError ''repository roots required'') else
                  (case repository_roots fv vs of Inl e \<Rightarrow> Inl e | Inr roots \<Rightarrow>
                  (case config_runtime_root fv (roots @ [service_repository]) (dget m ''runtime_root'') of Inl e \<Rightarrow> Inl e | Inr rt \<Rightarrow>
                  (case real_file fv (dget m ''queue_path'') ''queue path'' of Inl e \<Rightarrow> Inl e | Inr queue \<Rightarrow>
                  (case config_targets (dget m ''supported_targets'') of Inl e \<Rightarrow> Inl e | Inr targets \<Rightarrow>
                  (case config_failures (dget m ''max_consecutive_transient_failures'') of Inl e \<Rightarrow> Inl e | Inr maxf \<Rightarrow>
                   config_record sid rt queue roots targets maxf m)))))
              | _ \<Rightarrow> Inl (BlockedError ''repository roots required''))
        | _ \<Rightarrow> Inl (BlockedError ''invalid service identity'')))"

text \<open>\<open>contents\<close> reads the bytes of a file, \<open>loads\<close> decodes and parses them (\<open>None\<close>: it raises, also for a non-finite constant).\<close>

definition load_config :: "fs_view \<Rightarrow> (parts \<Rightarrow> string) \<Rightarrow> (string \<Rightarrow> pyval option) \<Rightarrow> parts \<Rightarrow> string \<Rightarrow> ServiceConfig res" where
  "load_config fv contents loads service_repository path = (case real_file fv (PyStr path) ''config path'' of
      Inl e \<Rightarrow> Inl e
    | Inr p \<Rightarrow>
        if length (contents p) > MAX_CONFIG_BYTES then Inl (BlockedError ''config oversized'')
        else (case loads (contents p) of
            None \<Rightarrow> Inl (BlockedError ''config malformed'')
          | Some (PyDict m) \<Rightarrow> config_of_dict fv service_repository m
          | Some _ \<Rightarrow> Inl (BlockedError ''config schema mismatch'')))"

subsection \<open>The instance lock\<close>

text \<open>The kernel's lock on the file and the owner file; what the system calls of one attempt say.\<close>

record instance_lock =
  il_holder :: "string option"
  il_owner :: "(string \<times> string) option"

record lock_calls =
  lc_opened :: bool
  lc_safe :: bool
  lc_probed :: bool
  lc_owner_written :: bool

definition lock_acquire :: "lock_calls \<Rightarrow> string \<Rightarrow> string \<Rightarrow> instance_lock \<Rightarrow> bool \<times> instance_lock" where
  "lock_acquire c sid inst l =
     (if \<not> lc_opened c \<or> \<not> lc_safe c \<or> \<not> lc_probed c \<or> il_holder l \<noteq> None then (False, l)
      else if \<not> lc_owner_written c then (False, l)
      else (True, l\<lparr>il_holder := Some inst, il_owner := Some (sid, inst)\<rparr>))"

text \<open>A host that does not hold the lock has no handle, and its release does nothing.\<close>

definition lock_release :: "string \<Rightarrow> instance_lock \<Rightarrow> instance_lock" where
  "lock_release inst l = (if il_holder l = Some inst then l\<lparr>il_holder := None\<rparr> else l)"

subsection \<open>The health row\<close>

record health_row =
  hr_service :: string
  hr_protocol :: string
  hr_instance :: string
  hr_status :: string
  hr_started :: pyfloat
  hr_heartbeat :: pyfloat
  hr_cycles :: nat
  hr_failures :: nat
  hr_error :: "string option"
  hr_retry_at :: "pyfloat option"
  hr_reason :: "string option"
  hr_previous :: "string option"
  hr_recovery_observed :: bool

record 'r service_env =
  sv_clock :: "nat \<Rightarrow> pyfloat"
  sv_locked :: "nat \<Rightarrow> bool"
  sv_stop :: "nat \<Rightarrow> bool"
  sv_once :: "nat \<Rightarrow> 'r \<Rightarrow> err option \<times> 'r"

record 'r host =
  ho_runtime :: 'r
  ho_health :: "health_row list"
  ho_tick :: nat

text \<open>
  \<open>_health\<close>. SQLite stores a NaN as NULL, which the columns of the times refuse. The optional texts of a row
  are never empty here. \<open>None\<close> for the table means that nothing was written.
\<close>

definition service_health :: "'r service_env \<Rightarrow> ServiceConfig \<Rightarrow> string \<Rightarrow> string \<Rightarrow> nat \<Rightarrow> pyfloat option \<Rightarrow> string option
    \<Rightarrow> string option \<Rightarrow> bool \<Rightarrow> 'r host \<Rightarrow> unit res \<times> 'r host" where
  "service_health E cfg inst status failures retry_at error reason increment h =
     (if status \<notin> set SERVICE_STATES then (Inl (IntegrityBlockedError ''invalid service state''), h) else
      let k = ho_tick h; h1 = h\<lparr>ho_tick := Suc k\<rparr>; now = sv_clock E k;
          prev = find (\<lambda>r. hr_service r = sc_service_id cfg) (ho_health h);
          started = (case prev of Some p \<Rightarrow> if status \<noteq> ''STARTING'' then hr_started p else now | None \<Rightarrow> now);
          b = \<lparr>hr_service = sc_service_id cfg, hr_protocol = SERVICE_PROTOCOL_VERSION, hr_instance = inst, hr_status = status,
             hr_started = started, hr_heartbeat = now,
             hr_cycles = (case prev of None \<Rightarrow> 0 | Some p \<Rightarrow> hr_cycles p) + (if increment then 1 else 0),
             hr_failures = failures, hr_error = map_option clean error,
             hr_retry_at = (if retry_at = Some NaN then None else retry_at), hr_reason = map_option clean reason,
             hr_previous = map_option hr_status prev, hr_recovery_observed = prev \<noteq> None\<rparr>
      in if sv_locked E k then (Inl db_busy, h1)
         else if started = NaN \<or> now = NaN then (Inl SqlIntegrityError, h1)
         else (Inr (), h1\<lparr>ho_health := filter (\<lambda>r. hr_service r \<noteq> sc_service_id cfg) (ho_health h) @ [b]\<rparr>))"

text \<open>\<open>_transient\<close>.\<close>

fun transient :: "err \<Rightarrow> bool" where
  "transient (SqlOperationalError m) = list_ex (contains (lower m)) [''locked'', ''busy'', ''temporarily'']"
| "transient (PyError c) = (c = ''TimeoutError'')"
| "transient _ = False"

definition backoff_delay :: "ServiceConfig \<Rightarrow> nat \<Rightarrow> rat" where
  "backoff_delay cfg failures = min (sc_backoff_initial cfg * sc_backoff_multiplier cfg ^ (failures - 1)) (sc_backoff_max cfg)"

fun float_add :: "pyfloat \<Rightarrow> rat \<Rightarrow> pyfloat" where
  "float_add (Finite x) r = Finite (x + r)"
| "float_add f r = f"

subsection \<open>The loop\<close>

text \<open>
  One pass of the loop ends in the next pass, in the \<open>break\<close>, in a \<open>return\<close> or in an exception. \<open>attempt\<close> is
  the body of the \<open>try\<close>, with the counters as the exception finds them; \<open>on_error\<close> the handlers.
\<close>

datatype 'r pass = Again nat nat "'r host" | Break "'r host" | Leave "nat res" "'r host"

definition after_health :: "unit res \<times> 'r host \<Rightarrow> ('r host \<Rightarrow> 'r pass) \<Rightarrow> 'r pass" where
  "after_health q f = (case q of (Inl e, h) \<Rightarrow> Leave (Inl e) h | (Inr _, h) \<Rightarrow> f h)"

definition on_error :: "'r service_env \<Rightarrow> ServiceConfig \<Rightarrow> string \<Rightarrow> err \<Rightarrow> nat \<Rightarrow> nat \<Rightarrow> 'r host \<Rightarrow> 'r pass" where
  "on_error E cfg inst e failures completed h = (case e of
      IntegrityBlockedError _ \<Rightarrow>
        after_health (service_health E cfg inst ''INTEGRITY_BLOCKED'' 0 None (Some (err_class e)) (Some ''INTEGRITY_BLOCKED'') False h)
          (Leave (Inr 4))
    | BlockedError _ \<Rightarrow>
        after_health (service_health E cfg inst ''BLOCKED'' 0 None (Some (err_class e)) (Some ''BLOCKED'') False h) (Leave (Inr 3))
    | _ \<Rightarrow>
        if \<not> transient e
        then after_health (service_health E cfg inst ''CRASHED'' 0 None (Some (err_class e)) (Some ''FATAL'') False h) (Leave (Inr 5))
        else if Suc failures > sc_max_failures cfg
        then after_health (service_health E cfg inst ''CRASHED'' (Suc failures) None (Some (err_class e)) (Some ''TRANSIENT_LIMIT'') False h)
          (Leave (Inr 5))
        else after_health (service_health E cfg inst ''BACKOFF'' (Suc failures)
            (Some (float_add (sv_clock E (ho_tick h)) (backoff_delay cfg (Suc failures)))) (Some (err_class e)) None False
            (h\<lparr>ho_tick := Suc (ho_tick h)\<rparr>))
          (Again (Suc failures) completed))"

definition attempt :: "'r service_env \<Rightarrow> ServiceConfig \<Rightarrow> string \<Rightarrow> int option \<Rightarrow> nat \<Rightarrow> nat \<Rightarrow> 'r host \<Rightarrow> 'r pass" where
  "attempt E cfg inst cycles failures completed h =
     (case service_health E cfg inst ''RUNNING'' failures None None None False h of
        (Inl e, h1) \<Rightarrow> on_error E cfg inst e failures completed h1
      | (Inr _, h1) \<Rightarrow>
         (case sv_once E (ho_tick h1) (ho_runtime h1) of (out, rt) \<Rightarrow>
          let h2 = h1\<lparr>ho_runtime := rt, ho_tick := Suc (ho_tick h1)\<rparr> in
          (case out of Some e \<Rightarrow> on_error E cfg inst e failures completed h2 | None \<Rightarrow>
           (case service_health E cfg inst ''IDLE'' 0 None None None True h2 of
              (Inl e, h3) \<Rightarrow> on_error E cfg inst e 0 (Suc completed) h3
            | (Inr _, h3) \<Rightarrow>
                if (case cycles of None \<Rightarrow> False | Some c \<Rightarrow> int (Suc completed) \<ge> c) then Break h3
                else Again 0 (Suc completed) h3))))"

definition graceful :: "'r service_env \<Rightarrow> ServiceConfig \<Rightarrow> string \<Rightarrow> 'r host \<Rightarrow> nat res \<times> 'r host" where
  "graceful E cfg inst h = (case service_health E cfg inst ''STOPPING'' 0 None None (Some ''GRACEFUL'') False h of
      (Inl e, h1) \<Rightarrow> (Inl e, h1)
    | (Inr _, h1) \<Rightarrow> (case service_health E cfg inst ''STOPPED'' 0 None None (Some ''GRACEFUL'') False h1 of
          (Inl e, h2) \<Rightarrow> (Inl e, h2)
        | (Inr _, h2) \<Rightarrow> (Inr 0, h2)))"

partial_function (option) service_loop :: "'r service_env \<Rightarrow> ServiceConfig \<Rightarrow> string \<Rightarrow> int option \<Rightarrow> nat \<Rightarrow> nat \<Rightarrow> 'r host
    \<Rightarrow> (nat res \<times> 'r host) option" where
  "service_loop E cfg inst cycles failures completed h =
     (let h1 = h\<lparr>ho_tick := Suc (ho_tick h)\<rparr> in
      if sv_stop E (ho_tick h) then Some (graceful E cfg inst h1)
      else (case attempt E cfg inst cycles failures completed h1 of
          Again f c h2 \<Rightarrow> service_loop E cfg inst cycles f c h2
        | Break h2 \<Rightarrow> Some (graceful E cfg inst h2)
        | Leave r h2 \<Rightarrow> Some (r, h2)))"

subsection \<open>A run of the service\<close>

definition valid_cycles :: "pyval \<Rightarrow> int option res" where
  "valid_cycles v = (case v of
      PyNone \<Rightarrow> Inr None
    | PyInt c \<Rightarrow> if 1 \<le> c \<and> c \<le> 10000 then Inr (Some c) else Inl (BlockedError ''invalid service cycle bound'')
    | _ \<Rightarrow> Inl (BlockedError ''invalid service cycle bound''))"

text \<open>The exceptions that are a \<open>sqlite3.DatabaseError\<close>.\<close>

fun database_error :: "err \<Rightarrow> bool" where
  "database_error (SqlOperationalError _) = True"
| "database_error SqlIntegrityError = True"
| "database_error (PyError c) = (c = ''DatabaseError'')"
| "database_error _ = False"

text \<open>What the factory, the integrity check and the creation of the health table give.\<close>

record 'r startup =
  su_factory :: "'r res"
  su_integrity :: "string option res"
  su_schema :: "unit res"

definition start_runtime :: "'r startup \<Rightarrow> 'r res" where
  "start_runtime u =
     (let r = (case su_factory u of Inl e \<Rightarrow> Inl e | Inr rt \<Rightarrow>
               (case su_integrity u of Inl e \<Rightarrow> Inl e | Inr v \<Rightarrow>
                 if v \<noteq> Some ''ok'' then Inl (IntegrityBlockedError ''runtime store integrity blocked'')
                 else (case su_schema u of Inl e \<Rightarrow> Inl e | Inr _ \<Rightarrow> Inr rt)))
      in case r of Inl e \<Rightarrow> if database_error e then Inl (IntegrityBlockedError ''runtime store integrity unavailable'') else Inl e
         | Inr rt \<Rightarrow> Inr rt)"

record service =
  se_lock :: instance_lock
  se_health :: "health_row list"

definition service_run :: "'r service_env \<Rightarrow> lock_calls \<Rightarrow> 'r startup \<Rightarrow> ServiceConfig \<Rightarrow> string \<Rightarrow> pyval \<Rightarrow> service
    \<Rightarrow> (nat res \<times> service) option" where
  "service_run E calls u cfg inst cycles w = (case valid_cycles cycles of
      Inl e \<Rightarrow> Some (Inl e, w)
    | Inr bound \<Rightarrow>
       (case lock_acquire calls (sc_service_id cfg) inst (se_lock w) of
          (False, l) \<Rightarrow> Some (Inl (BlockedError ''SERVICE_START=BLOCKED_SINGLE_INSTANCE''), w\<lparr>se_lock := l\<rparr>)
        | (True, l) \<Rightarrow>
           (case start_runtime u of
              Inl e \<Rightarrow> Some (Inl e, w\<lparr>se_lock := lock_release inst l\<rparr>)
            | Inr rt \<Rightarrow>
               (case service_health E cfg inst ''STARTING'' 0 None None None False
                      \<lparr>ho_runtime = rt, ho_health = se_health w, ho_tick = 0\<rparr> of
                  (Inl e, h) \<Rightarrow> Some (Inl e, \<lparr>se_lock = lock_release inst l, se_health = ho_health h\<rparr>)
                | (Inr _, h) \<Rightarrow>
                    map_option (\<lambda>(r, h'). (r, \<lparr>se_lock = lock_release inst l, se_health = ho_health h'\<rparr>))
                      (service_loop E cfg inst bound 0 0 h)))))"

subsection \<open>Status and entry point\<close>

definition stale_heartbeat :: "rat \<Rightarrow> rat \<Rightarrow> pyfloat \<Rightarrow> bool" where
  "stale_heartbeat bound now hb = (case hb of Finite x \<Rightarrow> now - x > bound \<or> x > now + 1 | _ \<Rightarrow> True)"

text \<open>The database is missing, unreadable, or has these rows; the status and the freshness are reported, with the row.\<close>

datatype status_db = NoDatabase | UnreadableDatabase | HealthRows "health_row list"

definition read_status :: "ServiceConfig \<Rightarrow> rat \<Rightarrow> status_db \<Rightarrow> string \<times> string \<times> health_row option" where
  "read_status cfg now s = (case s of
      NoDatabase \<Rightarrow> (''UNKNOWN'', ''UNKNOWN'', None)
    | UnreadableDatabase \<Rightarrow> (''INTEGRITY_BLOCKED'', ''UNKNOWN'', None)
    | HealthRows rows \<Rightarrow> (case find (\<lambda>r. hr_service r = sc_service_id cfg) rows of
          None \<Rightarrow> (''UNKNOWN'', ''UNKNOWN'', None)
        | Some r \<Rightarrow>
            let stale = stale_heartbeat (sc_health_stale cfg) now (hr_heartbeat r) in
            (if stale \<and> hr_status r \<in> set ACTIVE_STATES then ''CRASH_SUSPECTED'' else hr_status r,
             if stale then ''STALE'' else ''FRESH'', Some r)))"

text \<open>The settings \<open>_safety\<close> reads, in its order.\<close>

definition SAFETY_FLAGS :: "(string \<times> pyval) list" where
  "SAFETY_FLAGS = [(''CONTROL_PLANE_RESTART_PROJECTS'', PyBool False), (''CONTROL_PLANE_EXECUTE_PROJECT_CODE'', PyBool False),
     (''CONTROL_PLANE_EXECUTE_MUTATING_DIRECTIVES'', PyBool False), (''CONTROL_PLANE_WRITE_PROJECTS'', PyBool False),
     (''CONTROL_PLANE_CHANGE_STRATEGY'', PyBool False), (''CONTROL_PLANE_ENABLE_REAL_MONEY'', PyBool False),
     (''REAL_PROJECT_MUTATION_ENABLED'', PyBool False)]"

definition safety :: "(string \<times> pyval) list \<Rightarrow> unit res" where
  "safety flags = (if list_ex (\<lambda>(k, v). v \<noteq> PyBool False) flags then Inl (BlockedError ''hard safety invariant violated'') else Inr ())"

text \<open>\<open>main\<close> with the flags, the configuration that loading gives and the run or status that follows; an error is an exit code or escapes.\<close>

definition service_main :: "(string \<times> pyval) list \<Rightarrow> ServiceConfig res \<Rightarrow> bool \<Rightarrow> (ServiceConfig \<Rightarrow> (nat res \<times> service) option)
    \<Rightarrow> service \<Rightarrow> (nat res \<times> service) option" where
  "service_main flags loaded status run w =
     (let out = (case safety flags of Inl e \<Rightarrow> Some (Inl e, w) | Inr _ \<Rightarrow>
                 (case loaded of Inl e \<Rightarrow> Some (Inl e, w) | Inr cfg \<Rightarrow> if status then Some (Inr 0, w) else run cfg))
      in map_option (\<lambda>(r, w'). (case r of
             Inl (IntegrityBlockedError _) \<Rightarrow> Inr 4
           | Inl (BlockedError _) \<Rightarrow> Inr 3
           | _ \<Rightarrow> r, w')) out)"

end
