(* ===== verification/Runtime.thy ===== *)
theory Runtime
  imports Execution Router Scheduler Service
begin

text \<open>
  The runtime of \<open>src/autonomy/runtime.py\<close>: one cycle verifies the store, ingests the queue, reconciles leases,
  recovers applications that were cut short, routes, and projects; every stage is recorded in a row of the store.
  It composes the models of the parts over one store. Between two stages another connection may take or
  release the write lock.
\<close>

record runtime_row =
  rr_status :: string
  rr_cycles :: nat
  rr_last_cycle :: "rat option"
  rr_last_error :: "string option"
  rr_integrity :: string
  rr_stage :: string

definition fresh_runtime_row :: runtime_row where
  "fresh_runtime_row = \<lparr>rr_status = ''IDLE'', rr_cycles = 0, rr_last_cycle = None, rr_last_error = None,
     rr_integrity = ''UNKNOWN'', rr_stage = ''INITIALIZED''\<rparr>"

record runtime =
  rt_world :: exec_world
  rt_ingestion :: ingestion
  rt_router :: router
  rt_row :: runtime_row

text \<open>
  What a cycle reads: the clock and the hash of the controller, the bytes of the queue, JSON, the answer of
  \<open>PRAGMA quick_check\<close>, fresh lease identifiers, and who holds the write lock, each at the time of the reading.
\<close>

record runtime_env =
  ru_exec :: exec_env
  ru_loads :: "string \<Rightarrow> pyval option"
  ru_queue :: "nat \<Rightarrow> string option"
  ru_record_clock :: "nat \<Rightarrow> nat \<Rightarrow> pyfloat"
  ru_ingestor :: ingestor
  ru_lease_id :: "nat \<Rightarrow> string \<Rightarrow> string"
  ru_quick_check :: "nat \<Rightarrow> string option"
  ru_busy :: "nat \<Rightarrow> bool"

subsection \<open>Opening\<close>

text \<open>
  \<open>__init__\<close> on the tables of \<open>w\<close> and \<open>g\<close> that an earlier process left (a new database: the fresh ones); the
  gateway, the registry and the router start empty. \<open>workspaces\<close> is an injected registry.
\<close>

definition open_runtime :: "fs_view \<Rightarrow> parts list \<Rightarrow> string \<Rightarrow> WorkerProfile list \<Rightarrow> resolver \<Rightarrow> registry option \<Rightarrow> exec_world \<Rightarrow> ingestion
    \<Rightarrow> runtime_row option \<Rightarrow> runtime res" where
  "open_runtime fv roots requested profiles evidence workspaces w g old =
     (if roots = [] then Inl (BlockedError ''repository roots required'') else
      case validate_root fv roots requested of Inl e \<Rightarrow> Inl e | Inr _ \<Rightarrow>
     (case new_gateway profiles evidence of Inl e \<Rightarrow> Inl e | Inr gw \<Rightarrow>
     (case new_router (PyInt 8) (PyFloat (Finite 30)) of Inl e \<Rightarrow> Inl e | Inr ro \<Rightarrow>
     (case (case workspaces of Some r \<Rightarrow> Inr r | None \<Rightarrow> new_registry (hd roots) PROTECTED_PREFIXES) of Inl e \<Rightarrow> Inl e | Inr reg \<Rightarrow>
     (case init_execution (w\<lparr>xw_gateway := gw, xw_registry := reg, xw_status := ''IDLE'', xw_last_error := None\<rparr>) of
        (Inl e, _) \<Rightarrow> Inl e
      | (Inr _, w1) \<Rightarrow> Inr \<lparr>rt_world = w1, rt_ingestion = g, rt_router = ro,
          rt_row = (case old of None \<Rightarrow> fresh_runtime_row | Some r \<Rightarrow> r)\<rparr>)))))"

subsection \<open>Stages\<close>

definition on_exec :: "(exec_world, 'a) act \<Rightarrow> (runtime, 'a) act" where
  "on_exec m r = (case m (rt_world r) of (x, w) \<Rightarrow> (x, r\<lparr>rt_world := w\<rparr>))"

definition settle :: "runtime_env \<Rightarrow> (runtime, unit) act" where
  "settle E = on_exec (seq tick (\<lambda>k. modify (\<lambda>w. w\<lparr>xw_db := (xw_db w)\<lparr>db_locked := ru_busy E k\<rparr>\<rparr>)))"

text \<open>\<open>_state\<close>.\<close>

definition runtime_state :: "string \<Rightarrow> rat \<Rightarrow> string \<Rightarrow> string option \<Rightarrow> bool \<Rightarrow> (runtime, unit) act" where
  "runtime_state status n stage error increment r =
     (if db_locked (xw_db (rt_world r)) then (Inl db_busy, r)
      else (Inr (), r\<lparr>rt_row := \<lparr>rr_status = status, rr_cycles = rr_cycles (rt_row r) + (if increment then 1 else 0),
         rr_last_cycle = Some n, rr_last_error = map_option clean error,
         rr_integrity = (if status \<noteq> ''INTEGRITY_BLOCKED'' then ''VERIFIED'' else ''INTEGRITY_BLOCKED''), rr_stage = stage\<rparr>\<rparr>))"

text \<open>\<open>_verify_store\<close>. A check that raises instead of answering (the file is no database) ends in the same place, the handlers
  of the cycle, but with the exception's own name and the status \<open>ERROR\<close>; that path is not modelled.\<close>

definition verify_store :: "runtime_env \<Rightarrow> (runtime, unit) act" where
  "verify_store E = seq (on_exec tick) (\<lambda>k. ensure (ru_quick_check E k = Some ''ok'') (IntegrityBlockedError ''store integrity failure''))"

definition ingest_stage :: "runtime_env \<Rightarrow> (runtime, IngestResult list) act" where
  "ingest_stage E = seq (on_exec tick) (\<lambda>k. (\<lambda>r.
     case ingest (xe_hash (ru_exec E)) (ru_loads E) (xe_rep (ru_exec E)) (ru_record_clock E k) (ru_ingestor E) (ru_queue E k)
         (rt_ingestion r) (xw_db (rt_world r)) of
       (x, g, d) \<Rightarrow> (x, r\<lparr>rt_ingestion := g, rt_world := (rt_world r)\<lparr>xw_db := d\<rparr>\<rparr>)))"

definition reconcile_stage :: "rat \<Rightarrow> (runtime, string list) act" where
  "reconcile_stage n r = (case reconcile (Finite n) (xw_db (rt_world r)) of
     (x, d) \<Rightarrow> (x, r\<lparr>rt_world := (rt_world r)\<lparr>xw_db := d\<rparr>\<rparr>))"

text \<open>\<open>_recover\<close>: the rows are read once; a blocked recovery is reported, any other exception escapes.\<close>

definition recovery_rows :: "exec_world \<Rightarrow> (string \<times> string \<times> string option) list" where
  "recovery_rows w = map (\<lambda>g. (gr_id g, gr_workspace g, map_option wr_state (find_space (gr_workspace g) w)))
     (sort_key gr_id (filter (\<lambda>g. gr_state g = ''APPLYING'') (xw_grants w)))"

definition recover_row :: "runtime_env \<Rightarrow> rat \<Rightarrow> string list \<Rightarrow> string \<times> string \<times> string option \<Rightarrow> (exec_world, string \<times> string) act" where
  "recover_row E n known b w = (case b of (gid, wsid, st) \<Rightarrow>
     if wsid \<notin> set known \<or> st \<noteq> Some ''AVAILABLE'' then (Inr (gid, ''UNKNOWN''), w)
     else (case recover (ru_exec E) (Finite n) (PyStr gid) w of
         (Inr s, w1) \<Rightarrow> (Inr (gid, s), w1)
       | (Inl e, w1) \<Rightarrow> if is_blocked e then (Inr (gid, ''INTEGRITY_BLOCKED''), w1) else (Inl e, w1)))"

definition recover_stage :: "runtime_env \<Rightarrow> rat \<Rightarrow> (exec_world, (string \<times> string) list) act" where
  "recover_stage E n = seq (query recovery_rows) (\<lambda>bs. seq (query (\<lambda>w. map wd_id (descriptors (xw_registry w)))) (\<lambda>known.
     each (recover_row E n known) bs))"

definition route_stage :: "runtime_env \<Rightarrow> rat \<Rightarrow> (runtime, DispatchEnvelope list) act" where
  "route_stage E n = seq (on_exec tick) (\<lambda>k. (\<lambda>r.
     case route_once local_elig (local_disp (xe_hash (ru_exec E))) (ru_lease_id E k) (Finite n) (rt_router r)
         (xw_gateway (rt_world r)) (xw_db (rt_world r)) of
       (x, ro, gw, d) \<Rightarrow> (x, r\<lparr>rt_router := ro, rt_world := (rt_world r)\<lparr>xw_gateway := gw, xw_db := d\<rparr>\<rparr>)))"

subsection \<open>Projection\<close>

record runtime_view =
  vw_runtime :: runtime_row
  vw_ingestion :: "string \<times> nat \<times> string option \<times> string option \<times> string option"
  vw_tasks :: "(TaskState \<times> nat) list"
  vw_leases :: "(task \<times> bool) list"
  vw_workers :: "session_row list"
  vw_router :: "string \<times> (string \<times> string \<times> string \<times> string) option \<times> string"
  vw_execution :: exec_projection
  vw_retries :: nat
  vw_dead_letters :: nat
  vw_mutation_enabled :: bool
  vw_mutating_directives :: pyval

text \<open>The states of \<open>TaskState\<close>, whose counts \<open>state_counts\<close> returns.\<close>

definition COUNTED_STATES :: "TaskState list" where
  "COUNTED_STATES = [NEW, VALIDATED, TaskState.QUEUED, ASSIGNED, LEASED, RUNNING, EVIDENCE_PENDING, REVIEW_PENDING, TaskState.WAITING_HUMAN, TaskState.COMPLETED,
     WAITING_CAPACITY, RETRYING, FAILED_SAFE, DEAD_LETTER]"

definition runtime_projection :: "rat \<Rightarrow> runtime \<Rightarrow> runtime_view res" where
  "runtime_projection n r = (let w = rt_world r; d = xw_db w in
     case state_counts d of Inl e \<Rightarrow> Inl e | Inr counts \<Rightarrow>
    (case active_leases (Finite n) d of Inl e \<Rightarrow> Inl e | Inr leases \<Rightarrow>
    (case session_projection (Finite n) (xw_gateway w) d of Inl e \<Rightarrow> Inl e | Inr sessions \<Rightarrow>
    (case health_projection (Finite n) (rt_router r) (xw_gateway w) d of Inl e \<Rightarrow> Inl e | Inr health \<Rightarrow>
    (case execution_projection (Finite n) w of Inl e \<Rightarrow> Inl e | Inr ex \<Rightarrow>
     Inr \<lparr>vw_runtime = rt_row r, vw_ingestion = ingest_projection (rt_ingestion r), vw_tasks = map (\<lambda>s. (s, counts s)) COUNTED_STATES,
       vw_leases = leases, vw_workers = sessions, vw_router = (rh_status health, rh_last_route health, rh_last_error health),
       vw_execution = ex, vw_retries = counts RETRYING, vw_dead_letters = counts DEAD_LETTER, vw_mutation_enabled = False,
       vw_mutating_directives = (case map_of SAFETY_FLAGS ''CONTROL_PLANE_EXECUTE_MUTATING_DIRECTIVES'' of Some v \<Rightarrow> v | None \<Rightarrow> PyNone)\<rparr>)))))"

subsection \<open>A cycle\<close>

record cycle_report =
  cy_ingested :: "string list"
  cy_reconciled :: "string list"
  cy_recovered :: "(string \<times> string) list"
  cy_routed :: "string list"
  cy_view :: runtime_view

definition run_stages :: "runtime_env \<Rightarrow> rat \<Rightarrow> (runtime, cycle_report) act" where
  "run_stages E n =
     seq (verify_store E) (\<lambda>_. seq (settle E) (\<lambda>_. seq (runtime_state ''RUNNING'' n ''STORE_VERIFIED'' None False) (\<lambda>_.
     seq (settle E) (\<lambda>_. seq (ingest_stage E) (\<lambda>ing.
     seq (settle E) (\<lambda>_. seq (runtime_state ''RUNNING'' n ''INGESTED'' None False) (\<lambda>_.
     seq (settle E) (\<lambda>_. seq (reconcile_stage n) (\<lambda>rcl.
     seq (settle E) (\<lambda>_. seq (runtime_state ''RUNNING'' n ''RECONCILED'' None False) (\<lambda>_.
     seq (settle E) (\<lambda>_. seq (on_exec (recover_stage E n)) (\<lambda>rcv.
     seq (settle E) (\<lambda>_. seq (runtime_state ''RUNNING'' n ''RECOVERED'' None False) (\<lambda>_.
     seq (settle E) (\<lambda>_. seq (route_stage E n) (\<lambda>rtd.
     seq (settle E) (\<lambda>_. seq (runtime_state ''IDLE'' n ''PROJECTED'' None True) (\<lambda>_.
     seq (query (runtime_projection n)) (\<lambda>v. seq (lift_res v) (\<lambda>view.
     ret \<lparr>cy_ingested = map ir_task_id ing, cy_reconciled = rcl, cy_recovered = rcv, cy_routed = map de_task_id rtd,
       cy_view = view\<rparr>)))))))))))))))))))))"

text \<open>The handlers; an exception of the failure row itself takes the place of the first.\<close>

definition failure_row :: "rat \<Rightarrow> err \<Rightarrow> (runtime, unit) act" where
  "failure_row n e = (case e of
      IntegrityBlockedError _ \<Rightarrow> runtime_state ''INTEGRITY_BLOCKED'' n ''FAILED'' (Some (err_class e)) True
    | BlockedError _ \<Rightarrow> runtime_state ''BLOCKED'' n ''FAILED'' (Some (err_class e)) True
    | _ \<Rightarrow> runtime_state ''ERROR'' n ''HARNESS_ERROR'' (Some (err_class e)) True)"

definition run_cycle :: "runtime_env \<Rightarrow> pyfloat option \<Rightarrow> (runtime, cycle_report) act" where
  "run_cycle E now = seq (case now of Some t \<Rightarrow> ret t | None \<Rightarrow> seq (on_exec tick) (\<lambda>k. ret (xe_clock (ru_exec E) k))) (\<lambda>t.
     seq (lift_res (now_of t)) (\<lambda>n. (\<lambda>r. case run_stages E n r of
       (Inr x, r1) \<Rightarrow> (Inr x, r1)
     | (Inl e, r1) \<Rightarrow> seq (settle E) (\<lambda>_. seq (failure_row n e) (\<lambda>_. fail e)) r1)))"

text \<open>\<open>run_bounded\<close>; sleeping between the cycles is not a step of the model.\<close>

definition run_bounded :: "runtime_env \<Rightarrow> pyval \<Rightarrow> (runtime, cycle_report list) act" where
  "run_bounded E cycles = (case cycles of
      PyInt c \<Rightarrow> if c \<le> 0 \<or> c > 10000 then fail (BlockedError ''invalid cycle bound'') else each (\<lambda>_. run_cycle E None) [0..<nat c]
    | _ \<Rightarrow> fail (BlockedError ''invalid cycle bound''))"

text \<open>What the service host calls: one cycle at its own clock, of which it only sees the exception.\<close>

definition hosted_cycle :: "(nat \<Rightarrow> runtime_env) \<Rightarrow> nat \<Rightarrow> runtime \<Rightarrow> err option \<times> runtime" where
  "hosted_cycle E k r = (case run_cycle (E k) None r of (Inl e, r1) \<Rightarrow> (Some e, r1) | (Inr _, r1) \<Rightarrow> (None, r1))"

end
