(* ===== verification/ExecutionSpec.thy ===== *)
theory ExecutionSpec
  imports Execution
begin

text \<open>
  What the actions of the controller leave alone: outside the paths they may touch the files stay, the
  registered workspaces and the protected prefixes stay, and a grant only moves forward.
\<close>

subsection \<open>Frames\<close>

text \<open>
  Everything outside \<open>S\<close> is as in \<open>w0\<close>, the registry knows the same workspaces and protected prefixes, and there are
  the same grants for the same workspaces.
\<close>

definition grant_keys :: "exec_world \<Rightarrow> (string \<times> string) list" where
  "grant_keys w = map (\<lambda>g. (gr_id g, gr_workspace g)) (xw_grants w)"

definition framed :: "parts set \<Rightarrow> exec_world \<Rightarrow> exec_world \<Rightarrow> bool" where
  "framed S w0 w \<longleftrightarrow> (\<forall>p. p \<notin> S \<longrightarrow> node_at w p = node_at w0 p) \<and> fx_phys (xw_fs w) = fx_phys (xw_fs w0)
     \<and> fx_resolve (xw_fs w) = fx_resolve (xw_fs w0) \<and> rg_spaces (xw_registry w) = rg_spaces (xw_registry w0)
     \<and> rg_protected (xw_registry w) = rg_protected (xw_registry w0) \<and> grant_keys w = grant_keys w0"

lemma framed_refl [simp]: "framed S w w"
  by (simp add: framed_def)

lemma framed_empty: "framed {} w0 w \<longleftrightarrow> xw_fs w = xw_fs w0 \<and> rg_spaces (xw_registry w) = rg_spaces (xw_registry w0)
    \<and> rg_protected (xw_registry w) = rg_protected (xw_registry w0) \<and> grant_keys w = grant_keys w0"
  by (auto simp: framed_def intro!: filesys.equality)

lemma framed_mono: "framed S w0 w \<Longrightarrow> S \<subseteq> S' \<Longrightarrow> framed S' w0 w"
  by (auto simp: framed_def)

lemma keeps_prod [intro]: "(\<And>a b. keeps P (f a b)) \<Longrightarrow> keeps P (case q of (a, b) \<Rightarrow> f a b)"
  by (cases q) simp

named_theorems frame_intros \<open>actions that keep the frame\<close>

abbreviation (input) frames :: "parts set \<Rightarrow> exec_world \<Rightarrow> (exec_world, 'a) act \<Rightarrow> bool" where
  "frames S w0 a \<equiv> keeps (framed S w0) a"

lemma rollback_tables_simps [simp]:
  "xw_fs (rollback_tables w0 w) = xw_fs w" "xw_registry (rollback_tables w0 w) = xw_registry w" "xw_grants (rollback_tables w0 w) = xw_grants w0"
  "xw_txs (rollback_tables w0 w) = xw_txs w0" "xw_spaces (rollback_tables w0 w) = xw_spaces w0" "xw_db (rollback_tables w0 w) = xw_db w0"
  "xw_tick (rollback_tables w0 w) = xw_tick w"
  by (simp_all add: rollback_tables_def)

lemma keeps_in_tx:
  assumes "keeps P m" and "\<And>w w1. P w \<Longrightarrow> P w1 \<Longrightarrow> P (rollback_tables w w1)"
  shows "keeps P (in_tx m)"
  using assms by (auto simp: keeps_def in_tx_def split: sum.splits prod.splits)

lemma table_setters [simp]:
  "xw_fs (set_grants p f w) = xw_fs w" "xw_registry (set_grants p f w) = xw_registry w"
  "xw_fs (set_txs q h w) = xw_fs w" "xw_registry (set_txs q h w) = xw_registry w" "xw_grants (set_txs q h w) = xw_grants w"
  "xw_fs (set_spaces i k w) = xw_fs w" "xw_registry (set_spaces i k w) = xw_registry w" "xw_grants (set_spaces i k w) = xw_grants w"
  "xw_db (set_grants p f w) = xw_db w" "xw_db (set_txs q h w) = xw_db w" "xw_db (set_spaces i k w) = xw_db w"
  "xw_txs (set_grants p f w) = xw_txs w" "xw_spaces (set_grants p f w) = xw_spaces w" "xw_spaces (set_txs q h w) = xw_spaces w"
  "xw_txs (set_spaces i k w) = xw_txs w"
  by (simp_all add: set_grants_def set_txs_def set_spaces_def)

lemma grant_keys_set_grants: "(\<And>g. gr_id (f g) = gr_id g \<and> gr_workspace (f g) = gr_workspace g) \<Longrightarrow> grant_keys (set_grants p f w) = grant_keys w"
  by (simp add: grant_keys_def set_grants_def update_where_def)

lemma grant_keys_cong [simp]:
  "grant_keys (set_txs q h w) = grant_keys w" "grant_keys (set_spaces i k w) = grant_keys w" "grant_keys (w\<lparr>xw_db := d\<rparr>) = grant_keys w"
  "grant_keys (w\<lparr>xw_registry := rg\<rparr>) = grant_keys w" "grant_keys (w\<lparr>xw_tick := n\<rparr>) = grant_keys w" "grant_keys (w\<lparr>xw_fs := x\<rparr>) = grant_keys w"
  "grant_keys (w\<lparr>xw_txs := ts\<rparr>) = grant_keys w" "grant_keys (w\<lparr>xw_status := st\<rparr>) = grant_keys w"
  "grant_keys (w\<lparr>xw_last_error := er\<rparr>) = grant_keys w" "grant_keys (w\<lparr>xw_spaces := ss\<rparr>) = grant_keys w"
  "grant_keys (rollback_tables w1 w) = grant_keys w1"
  by (simp_all add: grant_keys_def set_txs_def set_spaces_def)

lemma registry_block_simps [simp]: "rg_spaces (registry_block i r) = rg_spaces r" "rg_protected (registry_block i r) = rg_protected r"
  "rg_real_root (registry_block i r) = rg_real_root r" "i \<in> set (rg_blocked (registry_block i r))"
  by (simp_all add: registry_block_def)

lemma frame_in_tx [frame_intros]: "frames S w0 a \<Longrightarrow> frames S w0 (in_tx a)"
  by (erule keeps_in_tx) (simp add: framed_def)

lemma frame_tick [frame_intros]: "frames S w0 tick"
  by (simp add: keeps_def tick_def framed_def)

lemma frame_sql [frame_intros]:
  "(\<And>w. xw_fs (f w) = xw_fs w \<and> xw_registry (f w) = xw_registry w \<and> grant_keys (f w) = grant_keys w) \<Longrightarrow> frames S w0 (sql_write f)"
  by (simp add: keeps_def sql_write_def framed_def)

lemma frame_modify [frame_intros]:
  "(\<And>w. xw_fs (f w) = xw_fs w \<and> rg_spaces (xw_registry (f w)) = rg_spaces (xw_registry w) \<and> rg_protected (xw_registry (f w)) = rg_protected (xw_registry w)
    \<and> grant_keys (f w) = grant_keys w) \<Longrightarrow> frames S w0 (modify f)"
  by (simp add: keeps_def modify_def framed_def)

lemma registry_resolve_keeps: "registry_resolve i t x r = (out, r') \<Longrightarrow> rg_spaces r' = rg_spaces r \<and> rg_protected r' = rg_protected r"
  by (auto simp: registry_resolve_def split: sum.splits option.splits if_splits)

lemma frame_basic [frame_intros]:
  "frames S w0 (audit_exec t ev n det)" "frames S w0 (block_workspace i reason n)" "frames S w0 (resolve_workspace wid target)"
  "frames S w0 (read_actual E p)" "frames S w0 (path_of d rel)" "frames S w0 (get_tx g)" "frames S w0 (get_grant v)"
  "frames S w0 (fresh_now E)" "frames S w0 (os_step E)"
proof -
  show "frames S w0 (audit_exec t ev n det)" unfolding audit_exec_def by (intro frame_modify) simp
  show "frames S w0 (block_workspace i reason n)" unfolding block_workspace_def by (intro keeps_seq frame_sql frame_modify) simp_all
  show "frames S w0 (resolve_workspace wid target)"
    by (auto simp: keeps_def resolve_workspace_def framed_def split: prod.splits dest: registry_resolve_keeps)
  show "frames S w0 (read_actual E p)" by (simp add: keeps_def read_actual_def)
  show "frames S w0 (path_of d rel)" by (simp add: keeps_def path_of_def)
  show "frames S w0 (get_tx g)" unfolding get_tx_def by (intro keeps_seq keeps_basic keeps_option)
  show "frames S w0 (get_grant v)" unfolding get_grant_def by (intro keeps_seq keeps_basic keeps_option keeps_if)
  show "frames S w0 (fresh_now E)" unfolding fresh_now_def by (intro keeps_seq keeps_basic frame_tick)
  show "frames S w0 (os_step E)" unfolding os_step_def by (intro keeps_seq keeps_basic frame_tick)
qed

lemmas frame_rules = keeps_seq keeps_basic keeps_if keeps_let keeps_option keeps_prod keeps_each keeps_for_each

lemma frame_authority [frame_intros]:
  "frames S w0 (workspace_authority g n)" "frames S w0 (grant_authority g n)" "frames S w0 (fresh_authority E gid)"
proof -
  have blk: "frames S w0 (seq (block_workspace i reason n) (\<lambda>_. fail e) :: (exec_world, WorkspaceDescriptor) act)" for i reason e n
    by (intro frame_rules frame_intros)
  have sp: "frames S w0 (modify (\<lambda>w. w\<lparr>xw_registry := registry_block i (xw_registry w)\<rparr>))" for i by (intro frame_modify) simp
  have up: "frames S w0 (sql_write (set_spaces i f))" for i f by (intro frame_sql) simp
  show wa: "frames S w0 (workspace_authority g n)" for g n
    unfolding keeps_def
  proof (intro allI impI)
    fix w assume f: "framed S w0 w"
    obtain r w1 where r: "resolve_workspace (gr_workspace g) (gr_target g) w = (r, w1)" by fastforce
    have f1: "framed S w0 w1" using keepsD [OF frame_basic(3) r f] .
    show "framed S w0 (snd (workspace_authority g n w))"
    proof (cases r)
      case (Inl e)
      have wr: "workspace_authority g n w = (case e of IntegrityBlockedError _ \<Rightarrow>
          seq (block_workspace (gr_workspace g) ''LOCAL_AUTHORITY_LOST'' n) (\<lambda>_. fail e) w1 | _ \<Rightarrow> (Inl e, w1))"
        unfolding workspace_authority_def r Inl by simp
      have "framed S w0 (snd ((seq (block_workspace (gr_workspace g) ''LOCAL_AUTHORITY_LOST'' n) (\<lambda>_. fail e) :: (exec_world, WorkspaceDescriptor) act) w1))"
        by (rule keeps_snd [OF blk f1])
      then show ?thesis unfolding wr using f1 by (cases e) simp_all
    next
      case (Inr d)
      have "snd (workspace_authority g n w) = snd (seq (query (find_space (wd_id d))) (\<lambda>r.
        if (case r of None \<Rightarrow> True | Some r \<Rightarrow> wr_state r = ''INTEGRITY_BLOCKED'')
        then seq (modify (\<lambda>w. w\<lparr>xw_registry := registry_block (wd_id d) (xw_registry w)\<rparr>))
               (\<lambda>_. fail (IntegrityBlockedError ''workspace durably blocked or unknown''))
        else seq (lift_res (physical_id (xw_fs w1) (wd_root d))) (\<lambda>phys.
          if (wr_root (the r), wr_phys (the r), wr_target (the r), wr_kind (the r)) \<noteq> (wd_root d, wd_phys d, wd_target d, wd_kind d)
             \<or> phys \<noteq> wr_phys (the r)
          then seq (block_workspace (wd_id d) ''PHYSICAL_IDENTITY_MISMATCH'' n)
                 (\<lambda>_. fail (IntegrityBlockedError ''workspace physical identity mismatch''))
          else seq (sql_write (set_spaces (wd_id d) (\<lambda>r. r\<lparr>wr_verified := Some n, wr_error := None\<rparr>))) (\<lambda>_. ret d))) w1)"
        using r Inr by (simp add: workspace_authority_def)
      also have "framed S w0 \<dots>"
        by (rule keeps_snd [where P = "framed S w0", OF _ f1]) (intro keeps_seq keeps_basic keeps_if sp up frame_basic)
      finally show ?thesis .
    qed
  qed
  show ga: "frames S w0 (grant_authority g n)" for g n
    unfolding grant_authority_def by (intro frame_rules frame_intros)
  show "frames S w0 (fresh_authority E gid)"
    unfolding fresh_authority_def by (intro frame_rules frame_intros wa ga)
qed

lemma frame_terminalize [frame_intros]: "frames S w0 (terminalize_failure gid st code n)"
  unfolding terminalize_failure_def by (intro frame_intros) (simp add: grant_keys_set_grants)

lemma frame_finish [frame_intros]: "frames S w0 (finish_apply E gid hash envelope n)"
  unfolding finish_apply_def by (intro frame_rules frame_intros) (simp add: grant_keys_set_grants)+

lemma frame_check [frame_intros]: "frames S w0 (check_preimage E msg r p)"
  unfolding check_preimage_def by (intro frame_rules frame_intros)

lemma frame_resolve_rows [frame_intros]: "frames S w0 (resolve_rows d rows)"
  unfolding resolve_rows_def by (intro frame_rules frame_intros)

lemma frame_consume [frame_intros]: "frames S w0 (consume_grant gid hash n)"
  unfolding consume_grant_def by (intro frame_rules frame_intros) (simp add: grant_keys_set_grants)

lemma frame_claim [frame_intros]: "frames S w0 (claim_grant E gid hash rows n)"
  unfolding claim_grant_def by (intro frame_rules frame_intros) (simp_all add: grant_keys_set_grants)

subsection \<open>File steps\<close>

lemma frame_put: "p \<in> S \<Longrightarrow> frames S w0 (modify (put_node p v))"
  by (simp add: keeps_def modify_def framed_def put_node_def)

lemma frame_put2: "p \<in> S \<Longrightarrow> q \<in> S \<Longrightarrow> frames S w0 (modify (\<lambda>w. put_node p (u w) (put_node q (v w) w)))"
  by (simp add: keeps_def modify_def framed_def put_node_def)

lemma keeps_node [intro]:
  "(v = None \<Longrightarrow> keeps P m1) \<Longrightarrow> (v = Some Dir \<Longrightarrow> keeps P m2) \<Longrightarrow> (\<And>u. keeps P (m3 u)) \<Longrightarrow>
    keeps P (case v of None \<Rightarrow> m1 | Some Dir \<Rightarrow> m2 | Some u \<Rightarrow> m3 u)"
  by (cases v; cases "the v") auto

lemma frame_unlink: "p \<in> S \<Longrightarrow> frames S w0 (unlink E p)"
  unfolding unlink_def by (intro frame_rules frame_intros frame_put, auto split: option.splits node.splits intro: frame_put)

lemma frame_create: "p \<in> S \<Longrightarrow> frames S w0 (create_file E p b)"
  unfolding create_file_def by (intro keeps_seq keeps_basic keeps_if frame_tick)
    (auto split: option.splits fault.splits intro!: keeps_seq frame_put)

lemma frame_replace: "p \<in> S \<Longrightarrow> q \<in> S \<Longrightarrow> frames S w0 (replace_file E p q)"
  unfolding replace_file_def by (intro frame_rules frame_intros frame_put2)

lemma frame_link: "p \<in> S \<Longrightarrow> q \<in> S \<Longrightarrow> frames S w0 (link_into E p q b)"
  unfolding link_into_def by (intro frame_rules frame_intros frame_put2)

lemma frame_drop: "p \<in> S \<Longrightarrow> frames S w0 (drop_temp E p e)"
  unfolding drop_temp_def by (intro frame_rules frame_intros frame_unlink)

definition touched :: "string \<Rightarrow> parts \<Rightarrow> parts set" where
  "touched gid p = {p, temp_name p gid, restore_name p gid}"

lemma frame_write_row: "touched gid p \<subseteq> S \<Longrightarrow> frames S w0 (write_row E gid r p)"
  unfolding write_row_def touched_def Let_def by (intro frame_rules frame_intros frame_unlink frame_create frame_drop frame_link frame_replace) auto

lemma workspace_path_D: "workspace_path r x d rel = Inr p \<Longrightarrow> p = wd_root d @ path_parts rel \<and> path_allowed r rel"
  by (auto simp: workspace_path_def Let_def split: if_splits sum.splits)

subsection \<open>Relative paths\<close>

lemma split_on_no: "c \<notin> set s \<Longrightarrow> split_on c s = [s]"
  by (induction s) auto

lemma split_on_append: "c \<notin> set s \<Longrightarrow> split_on c (s @ c # t) = s # split_on c t"
  by (induction s) auto

lemma split_on_parts: "p \<in> set (split_on c s) \<Longrightarrow> c \<notin> set p"
  by (induction s arbitrary: p rule: split_on.induct) (auto split: list.splits if_splits)

lemma split_on_join: "ps \<noteq> [] \<Longrightarrow> \<forall>p \<in> set ps. c \<notin> set p \<Longrightarrow> split_on c (join [c] ps) = ps"
proof (induction ps)
  case (Cons p ps)
  then show ?case by (cases ps) (simp_all add: split_on_no split_on_append)
qed simp

lemma path_parts_D: "p \<in> set (path_parts s) \<Longrightarrow> CHR ''/'' \<notin> set p \<and> p \<noteq> [] \<and> p \<noteq> ''.''"
  by (auto simp: path_parts_def dest: split_on_parts)

lemma path_parts_join: "path_parts (join ''/'' (path_parts s)) = path_parts s"
proof (cases "path_parts s = []")
  case True
  then show ?thesis by (simp add: path_parts_def)
next
  case False
  then have "split_on (CHR ''/'') (join ''/'' (path_parts s)) = path_parts s" using path_parts_D by (intro split_on_join) auto
  moreover have "filter (\<lambda>p. p \<noteq> [] \<and> p \<noteq> ''.'') (path_parts s) = path_parts s" by (simp add: path_parts_def)
  ultimately show ?thesis by (simp add: path_parts_def [of "join ''/'' (path_parts s)"])
qed

subsection \<open>Which workspace\<close>

lemma resolve_workspace_D: "resolve_workspace wid t w = (Inr d, w1) \<Longrightarrow> map_of (rg_spaces (xw_registry w)) wid = Some d"
  by (auto simp: resolve_workspace_def registry_resolve_def safe_id_def split: prod.splits sum.splits option.splits if_splits)

lemma workspace_authority_D:
  assumes "workspace_authority g n w = (Inr d, w1)"
  shows "map_of (rg_spaces (xw_registry w)) (gr_workspace g) = Some d"
proof -
  obtain r w2 where r: "resolve_workspace (gr_workspace g) (gr_target g) w = (r, w2)" by fastforce
  show ?thesis
  proof (cases r)
    case (Inl e)
    with assms r show ?thesis by (cases e) (auto simp: workspace_authority_def act_simps)
  next
    case (Inr d')
    with assms r have "d' = d" by (auto simp: workspace_authority_def act_simps split: if_splits)
    with r Inr resolve_workspace_D show ?thesis by blast
  qed
qed

lemma find_grant_key: "find_grant gid w = Some g \<Longrightarrow> map_of (grant_keys w) gid = Some (gr_workspace g) \<and> gr_id g = gid"
proof -
  have "find (\<lambda>r. gr_id r = gid) gs = Some g \<Longrightarrow> map_of (map (\<lambda>g. (gr_id g, gr_workspace g)) gs) gid = Some (gr_workspace g) \<and> gr_id g = gid" for gs
    by (induction gs) (auto split: if_splits)
  then show "find_grant gid w = Some g \<Longrightarrow> map_of (grant_keys w) gid = Some (gr_workspace g) \<and> gr_id g = gid"
    by (simp add: find_grant_def grant_keys_def)
qed

lemma fresh_authority_D:
  assumes "fresh_authority E gid w = (Inr (g, d, n), w1)"
  shows "find_grant gid w = Some g \<and> gr_state g = ''APPLYING'' \<and> map_of (rg_spaces (xw_registry w)) (gr_workspace g) = Some d"
proof -
  from assms obtain w2 w3 w4 where c: "fresh_now E w = (Inr n, w2)" and g: "find_grant gid w2 = Some g" "gr_state g = ''APPLYING''"
    and a: "grant_authority g n w2 = (Inr (), w3)" and d: "workspace_authority g n w3 = (Inr d, w4)"
    by (auto simp: fresh_authority_def act_simps split: option.splits if_splits)
  have "xw_grants w2 = xw_grants w" using c by (auto simp: fresh_now_def tick_def act_simps)
  moreover have "framed {} w w2" by (rule keepsD [OF frame_basic(8) c framed_refl])
  moreover have "framed {} w w3" by (rule keepsD [OF frame_authority(2) a calculation(2)])
  ultimately show ?thesis using g workspace_authority_D [OF d] by (auto simp: find_grant_def framed_empty)
qed

subsection \<open>The files an application touches\<close>

definition benign :: "hook \<Rightarrow> bool" where
  "benign h \<longleftrightarrow> (\<forall>w. let w' = snd (h w) in xw_fs w' = xw_fs w \<and> rg_spaces (xw_registry w') = rg_spaces (xw_registry w)
     \<and> rg_protected (xw_registry w') = rg_protected (xw_registry w) \<and> xw_grants w' = xw_grants w \<and> xw_txs w' = xw_txs w)"

definition benign_hooks :: "hooks \<Rightarrow> bool" where
  "benign_hooks hk \<longleftrightarrow> (\<forall>h. hk_before_first_write hk = Some h \<longrightarrow> benign h) \<and> (\<forall>h i p. hk_after_operation hk = Some h \<longrightarrow> benign (h i p))
     \<and> (\<forall>h. hk_before_rollback hk = Some h \<longrightarrow> benign h)"

lemma frame_hook: "(\<And>h. o' = Some h \<Longrightarrow> benign h) \<Longrightarrow> frames S w0 (call_hook o')"
  by (cases o') (auto simp: call_hook_def benign_def keeps_def ret_def framed_def grant_keys_def Let_def)

definition row_path :: "WorkspaceDescriptor \<Rightarrow> plan_row \<Rightarrow> parts" where
  "row_path d r = wd_root d @ path_parts (ro_path r)"

definition plan_paths :: "string \<Rightarrow> WorkspaceDescriptor \<Rightarrow> plan_row list \<Rightarrow> parts set" where
  "plan_paths gid d rows = (\<Union>r \<in> set rows. touched gid (row_path d r))"

definition aframed :: "string \<Rightarrow> exec_world \<Rightarrow> WorkspaceDescriptor \<Rightarrow> plan_row list \<Rightarrow> apply_state \<Rightarrow> bool" where
  "aframed gid w0 d rows s \<longleftrightarrow> framed (plan_paths gid d rows) w0 (ap_world s) \<and> ap_space s = Some d
     \<and> fst ` set (ap_backups s) \<subseteq> row_path d ` set rows"

lemma keeps_on_world: "frames (plan_paths gid d rows) w0 m \<Longrightarrow> keeps (aframed gid w0 d rows) (on_world m)"
  by (auto simp: keeps_def on_world_def aframed_def split: prod.splits)

lemma on_world_runs: "on_world m s = (r, s') \<longleftrightarrow> (\<exists>w. m (ap_world s) = (r, w) \<and> s' = s\<lparr>ap_world := w\<rparr>)"
  by (auto simp: on_world_def split: prod.splits)

lemma row_touched: "r \<in> set rows \<Longrightarrow> touched gid (row_path d r) \<subseteq> plan_paths gid d rows"
  by (auto simp: plan_paths_def)

text \<open>With the path of a row.\<close>

lemma keeps_with_path:
  assumes "keeps (aframed gid w0 d rows) (f (row_path d r))"
  shows "keeps (aframed gid w0 d rows) (seq (query ap_space) (\<lambda>x. seq (on_world (path_of (the x) (ro_path r))) f))"
proof (rule keeps_seq_res [where Q = "\<lambda>x. x = Some d"])
  show "keeps (aframed gid w0 d rows) (query ap_space)" by simp
  fix x assume "x = Some d"
  then show "keeps (aframed gid w0 d rows) (seq (on_world (path_of (the x) (ro_path r))) f)"
    using assms by (intro keeps_seq_res [where Q = "\<lambda>p. p = row_path d r"] keeps_on_world frame_basic)
      (auto simp: on_world_runs path_of_def row_path_def dest: workspace_path_D)
qed (auto simp: act_simps aframed_def)

lemma keeps_backup: "r \<in> set rows \<Longrightarrow> keeps (aframed gid w0 d rows) (backup_row E r)"
  unfolding backup_row_def
  by (rule keeps_with_path) (intro keeps_seq keeps_on_world frame_check, auto simp: keeps_def modify_def aframed_def)

lemma keeps_refresh:
  assumes "map_of (grant_keys w0) gid = Some ws" and "map_of (rg_spaces (xw_registry w0)) ws = Some d"
  shows "keeps (aframed gid w0 d rows) (refresh E gid)"
proof -
  have "e = d" if "aframed gid w0 d rows s" and "on_world (fresh_authority E gid) s = (Inr (g, e, n), s1)" for s g e n s1
  proof -
    from that(2) obtain w1 where "fresh_authority E gid (ap_world s) = (Inr (g, e, n), w1)" by (auto simp: on_world_runs)
    from fresh_authority_D [OF this] find_grant_key have "map_of (grant_keys (ap_world s)) gid = Some (gr_workspace g)"
      "map_of (rg_spaces (xw_registry (ap_world s))) (gr_workspace g) = Some e" by blast+
    with that(1) assms show ?thesis by (simp add: aframed_def framed_def)
  qed
  moreover have "keeps (aframed gid w0 d rows) (seq (modify (\<lambda>s. s\<lparr>ap_space := Some d\<rparr>)) (\<lambda>_. ret (g, n)))" for g n
    by (intro keeps_seq keeps_basic keeps_modify) (simp add: aframed_def)
  ultimately show ?thesis unfolding refresh_def
    by (intro keeps_seq_res [where Q = "\<lambda>(g, e, n). e = d"] keeps_on_world frame_authority) auto
qed

lemma keeps_apply_row:
  assumes "map_of (grant_keys w0) gid = Some ws" and "map_of (rg_spaces (xw_registry w0)) ws = Some d" and "snd ir \<in> set rows" and "benign_hooks hk"
  shows "keeps (aframed gid w0 d rows) (apply_row E gid hk ir)"
proof -
  have h: "frames S w0 (call_hook (map_option (\<lambda>f. f i p) (hk_after_operation hk)))" for S i p
    by (rule frame_hook) (use assms(4) in \<open>auto simp: benign_hooks_def\<close>)
  show ?thesis unfolding apply_row_def
    by (intro keeps_seq keeps_refresh [OF assms(1,2)] keeps_with_path keeps_on_world keeps_prod keeps_if keeps_basic
        frame_check frame_write_row frame_basic h) (use row_touched [OF assms(3)] in auto)
qed

lemma keeps_verify: "r \<in> set rows \<Longrightarrow> keeps (aframed gid w0 d rows) (verify_row E r)"
  unfolding verify_row_def by (rule keeps_with_path) (intro keeps_seq keeps_prod keeps_if keeps_basic keeps_on_world frame_basic)

lemma keeps_claimed:
  assumes "map_of (grant_keys w0) gid = Some ws" and "map_of (rg_spaces (xw_registry w0)) ws = Some d" and "benign_hooks hk"
  shows "keeps (aframed gid w0 d rows) (apply_claimed E gid hash rows hk)"
proof -
  have h: "frames S w0 (call_hook (hk_before_first_write hk))" for S
    by (rule frame_hook) (use assms(3) in \<open>auto simp: benign_hooks_def\<close>)
  have idle: "keeps (aframed gid w0 d rows) (modify (\<lambda>s. s\<lparr>ap_world := (ap_world s)\<lparr>xw_status := ''IDLE'', xw_last_error := None\<rparr>\<rparr>))"
    by (rule keeps_modify) (simp add: aframed_def framed_def)
  have rows: "keeps (aframed gid w0 d rows) (for_each (apply_row E gid hk) (zip [0..<length rows] rows))"
    by (rule keeps_for_each_mem, rule keeps_apply_row [OF assms(1,2) _ assms(3)]) (auto dest: set_zip_rightD)
  show ?thesis unfolding apply_claimed_def apply_writes_def
    by (intro keeps_seq keeps_prod keeps_let rows keeps_refresh [OF assms(1,2)] keeps_on_world h idle frame_in_tx frame_finish frame_basic
        keeps_for_each_mem keeps_each_mem keeps_backup keeps_verify)
qed

subsection \<open>What a claim found\<close>

lemma resolve_rows_D: "resolve_rows d rows w = (Inr rps, w') \<Longrightarrow>
    w' = w \<and> rps = map (\<lambda>r. (r, row_path d r)) rows \<and> (\<forall>r \<in> set rows. workspace_path (xw_registry w) (xw_fs w) d (ro_path r) = Inr (row_path d r))"
proof (induction rows arbitrary: rps w')
  case (Cons r rows)
  from Cons.prems obtain p rps1 w1 where p: "workspace_path (xw_registry w) (xw_fs w) d (ro_path r) = Inr p"
    and rs: "resolve_rows d rows w = (Inr rps1, w1)" "rps = (r, p) # rps1" "w' = w1"
    by (auto simp: resolve_rows_def act_simps path_of_def)
  from workspace_path_D [OF p] Cons.IH [OF rs(1)] rs(2,3) p show ?case by (simp add: row_path_def)
qed (simp add: resolve_rows_def act_simps)

lemma check_preimage_D: "check_preimage E msg r p w = (Inr data, w') \<Longrightarrow> w' = w \<and> actual (xe_hash E) (xw_fs w) p = Inr (ro_pre r, data)"
  by (auto simp: check_preimage_def act_simps read_actual_def split: if_splits)

lemma check_all_D: "for_each (\<lambda>(r, p). seq (check_preimage E msg r p) (\<lambda>_. ret ())) rps w = (Inr (), w') \<Longrightarrow>
    w' = w \<and> (\<forall>(r, p) \<in> set rps. \<exists>data. actual (xe_hash E) (xw_fs w) p = Inr (ro_pre r, data))"
proof (induction rps)
  case (Cons rp rps)
  then obtain w1 data where c: "check_preimage E msg (fst rp) (snd rp) w = (Inr data, w1)"
    and rest: "for_each (\<lambda>(r, p). seq (check_preimage E msg r p) (\<lambda>_. ret ())) rps w1 = (Inr (), w')"
    by (auto simp: act_simps split: prod.splits)
  from check_preimage_D [OF c] Cons.IH rest show ?case by auto
qed (simp add: act_simps)

definition claimable :: "exec_env \<Rightarrow> string \<Rightarrow> plan_row list \<Rightarrow> exec_world \<Rightarrow> grant \<Rightarrow> WorkspaceDescriptor \<Rightarrow> bool" where
  "claimable E gid rows w g d \<longleftrightarrow> find_grant gid w = Some g \<and> gr_state g = ''ISSUED''
     \<and> map_of (rg_spaces (xw_registry w)) (gr_workspace g) = Some d
     \<and> (\<forall>r \<in> set rows. in_scope g r \<and> path_allowed (xw_registry w) (ro_path r)
          \<and> (\<exists>data. actual (xe_hash E) (xw_fs w) (row_path d r) = Inr (ro_pre r, data)))"

lemma in_tx_Inr: "in_tx m w = (Inr x, w') \<longleftrightarrow> \<not> db_locked (xw_db w) \<and> m w = (Inr x, w')"
  by (auto simp: in_tx_def split: sum.splits prod.splits)

lemma path_allowed_cong: "rg_protected r = rg_protected r' \<Longrightarrow> path_allowed r p = path_allowed r' p"
  by (simp add: path_allowed_def)

lemma claim_grant_D:
  assumes "claim_grant E gid hash rows n w = (Inr (Some (d, rps)), w')"
  shows "\<exists>g. claimable E gid rows w g d \<and> gr_expires g > n"
proof -
  from assms obtain g w1 w2 w3 w4 where g: "find_grant gid w = Some g" "gr_state g = ''ISSUED''"
    and ex: "claim_expired w g n = Inr False"
    and a: "grant_authority g n w = (Inr (), w1)" and d: "workspace_authority g n w1 = (Inr d, w2)"
    and sc: "list_all (in_scope g) rows" and rr: "resolve_rows d rows w2 = (Inr rps, w3)"
    and ck: "for_each (\<lambda>(r, p). seq (check_preimage E ''preimage mismatch'' r p) (\<lambda>_. ret ())) rps w3 = (Inr (), w4)"
    by (auto simp: claim_grant_def act_simps split: option.splits if_splits)
  have f1: "framed {} w w1" by (rule keepsD [OF frame_authority(2) a framed_refl])
  have f2: "framed {} w w2" by (rule keepsD [OF frame_authority(1) d f1])
  note rr = resolve_rows_D [OF rr]
  from check_all_D [OF ck] rr have ck: "\<forall>r \<in> set rows. \<exists>data. actual (xe_hash E) (xw_fs w2) (row_path d r) = Inr (ro_pre r, data)" by auto
  have "path_allowed (xw_registry w) (ro_path r)" if "r \<in> set rows" for r
    using rr that workspace_path_D path_allowed_cong f2 by (metis framed_empty)
  with g sc ck f1 f2 workspace_authority_D [OF d] show ?thesis
    using ex by (auto simp: claimable_def framed_empty list_all_iff claim_expired_def split: if_splits)
qed

subsection \<open>The frame of a whole application\<close>

lemma restore_path: "join ''/'' (drop (length (wd_root d)) (row_path d r)) = join ''/'' (path_parts (ro_path r))"
  by (simp add: row_path_def)

lemma restore_path_of:
  "path_of d (join ''/'' (drop (length (wd_root d)) (row_path d r))) w = (Inr p, w') \<Longrightarrow> p = row_path d r \<and> w' = w"
  by (auto simp: path_of_def restore_path path_parts_join row_path_def dest: workspace_path_D)

lemma frame_restore_row:
  assumes "fst b = row_path d r" and "touched gid (row_path d r) \<subseteq> S"
  shows "frames S w0 (restore_row E gid d b)"
proof -
  have "frames S w0 (case snd b of
      None \<Rightarrow> seq (query (\<lambda>w. path_exists (xw_fs w) (row_path d r))) (\<lambda>there. if there then unlink E (row_path d r) else ret ())
    | Some data \<Rightarrow> seq (query (\<lambda>w. path_exists (xw_fs w) (restore_name (row_path d r) gid) \<or> is_symlink (xw_fs w) (restore_name (row_path d r) gid)))
        (\<lambda>taken. if taken then fail (IntegrityBlockedError ''rollback temporary collision'')
        else seq (create_file E (restore_name (row_path d r) gid) data) (\<lambda>_. seq (query (\<lambda>w. path_exists (xw_fs w) (row_path d r))) (\<lambda>there.
          seq (if there then seq (read_actual E (row_path d r)) (\<lambda>_. ret ()) else ret ())
            (\<lambda>_. replace_file E (restore_name (row_path d r) gid) (row_path d r))))))"
    by (intro frame_rules frame_unlink frame_create frame_replace frame_basic) (use assms(2) in \<open>auto simp: touched_def\<close>)
  then show ?thesis unfolding restore_row_def assms(1) Let_def
    by (intro keeps_seq_res [where Q = "\<lambda>p. p = row_path d r"] frame_basic) (auto dest: restore_path_of)
qed

lemma frame_restore_all:
  assumes "fst ` set bs \<subseteq> row_path d ` set rows" and "benign_hooks hk"
  shows "frames (plan_paths gid d rows) w0 (restore_all E gid hk d bs)"
proof -
  have h: "frames S w0 (call_hook (hk_before_rollback hk))" for S
    by (rule frame_hook) (use assms(2) in \<open>auto simp: benign_hooks_def\<close>)
  have rs: "frames (plan_paths gid d rows) w0 (for_each (restore_row E gid d) (rev bs))"
  proof (rule keeps_for_each_mem)
    fix b assume "b \<in> set (rev bs)"
    with assms(1) obtain r where "r \<in> set rows" "fst b = row_path d r" by auto
    then show "frames (plan_paths gid d rows) w0 (restore_row E gid d b)" by (intro frame_restore_row row_touched)
  qed
  have "frames S w0 (restored E b)" for S b unfolding restored_def by (intro frame_rules frame_basic)
  then show ?thesis unfolding restore_all_def by (intro frame_rules h rs)
qed

lemma frame_handler:
  assumes "apply_handler E gid hk n e s = (r, w')" and "benign_hooks hk"
  shows "aframed gid w0 d rows s \<Longrightarrow> framed (plan_paths gid d rows) w0 w'"
    and "ap_backups s = [] \<Longrightarrow> framed S w1 (ap_world s) \<Longrightarrow> framed S w1 w'"
proof -
  let ?w = "(ap_world s)\<lparr>xw_last_error := Some (clean (err_class e)), xw_status := ''ERROR''\<rparr>"
  have st: "framed S w0 ?w = framed S w0 (ap_world s)" for S w0 by (simp add: framed_def)
  have trm: "frames S w0 (terminalize_failure gid st code n)" for S w0 st code by (rule frame_terminalize)
  show "framed S w1 w'" if "ap_backups s = []" "framed S w1 (ap_world s)"
    using assms(1) that keepsD [OF trm] st by (fastforce simp: apply_handler_def Let_def split: if_splits)
  show "framed (plan_paths gid d rows) w0 w'" if a: "aframed gid w0 d rows s"
  proof (cases "ap_backups s = []")
    case True
    with a st keepsD [OF trm] assms(1) show ?thesis by (fastforce simp: apply_handler_def Let_def aframed_def split: if_splits)
  next
    case False
    obtain q w2 where q: "restore_all E gid hk d (ap_backups s) ?w = (q, w2)" by fastforce
    have w2: "framed (plan_paths gid d rows) w0 w2"
      by (rule keepsD [OF frame_restore_all q]) (use a assms(2) st in \<open>auto simp: aframed_def\<close>)
    let ?a = "seq (if restore_outcome q then ret () else block_workspace (wd_id d) ''ROLLBACK_UNPROVABLE'' n)
           (\<lambda>_. terminalize_failure gid (if restore_outcome q then ''FAILED'' else ''INTEGRITY_BLOCKED'') (err_class e) n)"
    have d: "ap_space s = Some d" using a by (simp add: aframed_def)
    have run: "?a w2 = (r, w')" using assms(1) False q by (cases "restore_outcome q") (simp_all add: apply_handler_def Let_def d)
    have "frames (plan_paths gid d rows) w0 ?a" by (intro frame_rules trm frame_basic)
    from keepsD [OF this run w2] show ?thesis .
  qed
qed

lemma claim_not_taken:
  assumes "in_tx (claim_grant E gid hash rows n) w = (k, w1)" and "\<nexists>d rps. k = Inr (Some (d, rps))"
  shows "\<forall>g \<in> set (xw_grants w1). g \<in> set (xw_grants w) \<or> gr_state g = ''EXPIRED''"
proof (cases k)
  case (Inl e)
  with assms(1) show ?thesis by (auto simp: in_tx_def split: if_splits prod.splits sum.splits)
next
  case (Inr c)
  with assms have "claim_grant E gid hash rows n w = (Inr None, w1)" by (cases c) (auto simp: in_tx_Inr)
  then have "xw_grants w1 = update_where (\<lambda>r. gr_id r = gid \<and> gr_state r = ''ISSUED'') (\<lambda>r. r\<lparr>gr_state := ''EXPIRED''\<rparr>) (xw_grants w)"
    by (auto simp: claim_grant_def act_simps audit_exec_def set_grants_def split: option.splits if_splits)
  then show ?thesis by (auto simp: update_where_def split: if_splits)
qed

text \<open>An application either ends before it claimed the grant, with the files as they were, or it had a claim.\<close>

lemma apply_plan_cases:
  assumes "apply_plan E now plan hk w = (r, w')" and "benign_hooks hk"
  obtains (refused) e where "r = Inl e" and "xw_fs w' = xw_fs w" and "framed {} w w'"
      and "\<forall>g \<in> set (xw_grants w'). g \<in> set (xw_grants w) \<or> gr_state g = ''EXPIRED''"
  | (claimed) n hash rows len g d rps w1 q s1 where "now_of now = Inr n" and "canonical_plan (xe_hash E) plan = Inr (hash, rows, len)"
      and "in_tx (claim_grant E (ep_grant_id plan) hash rows n) w = (Inr (Some (d, rps)), w1)"
      and "claimable E (ep_grant_id plan) rows w g d" and "gr_expires g > n"
      and "apply_claimed E (ep_grant_id plan) hash rows hk \<lparr>ap_world = w1, ap_backups = [], ap_space = Some d, ap_owns = True\<rparr> = (q, s1)"
      and "aframed (ep_grant_id plan) w d rows s1" and "framed (plan_paths (ep_grant_id plan) d rows) w w'"
      and "(\<exists>x. q = Inr x \<and> r = Inr x \<and> w' = ap_world s1)
           \<or> (\<exists>e h. q = Inl e \<and> apply_handler E (ep_grant_id plan) hk n e s1 = (h, w') \<and> (case h of Inl e' \<Rightarrow> r = Inl e' | Inr _ \<Rightarrow> r = Inl e))"
proof (cases "now_of now")
  case (Inl e)
  with assms(1) have "r = Inl e" "w' = w" by (simp_all add: apply_plan_def)
  with refused show thesis by simp
next
  case n: (Inr n)
  show thesis
  proof (cases "canonical_plan (xe_hash E) plan")
    case (Inl e)
    with assms(1) n have "r = Inl e" "w' = w" by (simp_all add: apply_plan_def)
    with refused show thesis by simp
  next
    case (Inr c)
    then obtain hash rows len where c: "canonical_plan (xe_hash E) plan = Inr (hash, rows, len)" by (cases c) auto
    let ?gid = "ep_grant_id plan" and ?s = "\<lparr>ap_world = w, ap_backups = [], ap_space = None, ap_owns = False\<rparr>"
    obtain q s1 where b: "apply_body E ?gid hash rows n hk ?s = (q, s1)" by fastforce
    obtain k w1 where k: "in_tx (claim_grant E ?gid hash rows n) w = (k, w1)" by fastforce
    have w1: "framed S w w1" for S by (rule keepsD [OF frame_in_tx [OF frame_claim] k framed_refl])
    have refusal: thesis if "q = Inl e" "s1 = ?s\<lparr>ap_world := w1\<rparr>" "\<forall>g \<in> set (xw_grants w1). g \<in> set (xw_grants w) \<or> gr_state g = ''EXPIRED''" for e
    proof -
      obtain h w2 where h: "apply_handler E ?gid hk n e s1 = (h, w2)" by fastforce
      have "h = Inr ()" and gr: "xw_grants w2 = xw_grants w1" using h that(2) by (auto simp: apply_handler_def Let_def)
      with assms(1) n c b h that(1) have r: "r = Inl e" "w' = w2" by (simp_all add: apply_plan_def)
      have "framed {} w w2" by (rule frame_handler(2) [OF h assms(2)]) (simp_all add: that(2) w1)
      with r gr that(3) show thesis by (intro refused) (simp_all add: framed_empty)
    qed
    show thesis
    proof (cases "\<exists>d rps. k = Inr (Some (d, rps))")
      case False
      with b k have "\<exists>e. q = Inl e" "s1 = ?s\<lparr>ap_world := w1\<rparr>"
        by (auto simp: apply_body_def seq_def on_world_def fail_def split: sum.splits option.splits prod.splits)
      with refusal claim_not_taken [OF k] False show thesis by blast
    next
      case True
      then obtain d rps where k': "k = Inr (Some (d, rps))" by blast
      let ?s1 = "\<lparr>ap_world = w1, ap_backups = [], ap_space = Some d, ap_owns = True\<rparr>"
      from k k' obtain g where g: "claimable E ?gid rows w g d" "gr_expires g > n" using claim_grant_D in_tx_Inr by metis
      have run: "apply_claimed E ?gid hash rows hk ?s1 = (q, s1)"
        using b k k' by (simp add: apply_body_def seq_def on_world_def modify_def)
      have keys: "map_of (grant_keys w) ?gid = Some (gr_workspace g)" "map_of (rg_spaces (xw_registry w)) (gr_workspace g) = Some d"
        using g(1) find_grant_key by (auto simp: claimable_def)
      have "aframed ?gid w d rows ?s1" using w1 by (simp add: aframed_def)
      with keepsD [OF keeps_claimed [OF keys assms(2)] run] have a: "aframed ?gid w d rows s1" by blast
      show thesis
      proof (cases q)
        case (Inr x)
        with assms(1) n c b have "r = Inr x" "w' = ap_world s1" by (auto simp: apply_plan_def)
        with claimed n c k k' g run a Inr show thesis by (auto simp: aframed_def)
      next
        case (Inl e)
        obtain h w2 where h: "apply_handler E ?gid hk n e s1 = (h, w2)" by fastforce
        with assms(1) n c b Inl have "w2 = w'" "case h of Inl e' \<Rightarrow> r = Inl e' | Inr _ \<Rightarrow> r = Inl e"
          by (auto simp: apply_plan_def split: sum.splits)
        with h frame_handler(1) [OF h assms(2) a] claimed n c k k' g run a Inl show thesis by blast
      qed
    qed
  qed
qed

end
