(* ===== verification/ExecutionFrames.thy ===== *)
theory ExecutionFrames
  imports ExecutionSpec
begin

text \<open>
  Properties of the controller's tables and of the store. Most actions leave both alone but for audit
  lines; a property that does not see the rest of the state and survives an audit line is kept by all of them. An
  application or a recovery then keeps it when the few updates of the tables do.
\<close>

definition core :: "exec_world \<Rightarrow> grant list \<times> tx_row list \<times> db" where
  "core w = (xw_grants w, xw_txs w, xw_db w)"

lemma core_simps [simp]:
  "core (w\<lparr>xw_registry := rg\<rparr>) = core w" "core (w\<lparr>xw_tick := k\<rparr>) = core w" "core (w\<lparr>xw_fs := x\<rparr>) = core w"
  "core (w\<lparr>xw_status := st\<rparr>) = core w" "core (w\<lparr>xw_last_error := er\<rparr>) = core w" "core (set_spaces i k' w) = core w"
  "core (w\<lparr>xw_spaces := ss\<rparr>) = core w" "core (rollback_tables w0 w) = core w0" "core (put_node p v w) = core w"
  "core (w\<lparr>xw_gateway := gw\<rparr>) = core w"
  by (simp_all add: core_def set_spaces_def put_node_def)

definition hook_keeps :: "(exec_world \<Rightarrow> bool) \<Rightarrow> hook option \<Rightarrow> bool" where
  "hook_keeps P h \<longleftrightarrow> (\<forall>f w. h = Some f \<longrightarrow> P w \<longrightarrow> P (snd (f w)))"

definition hooks_keep :: "(exec_world \<Rightarrow> bool) \<Rightarrow> hooks \<Rightarrow> bool" where
  "hooks_keep P hk \<longleftrightarrow> hook_keeps P (hk_before_first_write hk) \<and> hook_keeps P (hk_before_rollback hk)
     \<and> (\<forall>i p. hook_keeps P (map_option (\<lambda>f. f i p) (hk_after_operation hk)))"

lemma keeps_hook: "hook_keeps P h \<Longrightarrow> keeps P (call_hook h)"
  by (cases h) (auto simp: hook_keeps_def call_hook_def keeps_def ret_def)

text \<open>A property of the world while an application runs.\<close>

definition held :: "(exec_world \<Rightarrow> bool) \<Rightarrow> apply_state \<Rightarrow> bool" where
  "held P s \<longleftrightarrow> P (ap_world s)"

lemma held_on_world: "keeps P m \<Longrightarrow> keeps (held P) (on_world m)"
  by (auto simp: keeps_def on_world_def held_def split: prod.splits)

lemma held_locals: "(\<And>s. ap_world (f s) = ap_world s) \<Longrightarrow> keeps (held P) (modify f)"
  by (simp add: keeps_def modify_def held_def)

locale core_property =
  fixes P :: "exec_world \<Rightarrow> bool"
  assumes core_only: "core w' = core w \<Longrightarrow> P w \<Longrightarrow> P w'"
begin

lemma in_tx_success: "(\<And>w x w'. P w \<Longrightarrow> a w = (Inr x, w') \<Longrightarrow> P w') \<Longrightarrow> keeps P (in_tx a)"
  using core_only [OF core_simps(8)] by (auto simp: keeps_def in_tx_def split: sum.splits prod.splits)

lemma in_tx: "keeps P a \<Longrightarrow> keeps P (in_tx a)"
  by (rule in_tx_success) (rule keepsD)

lemma modified: "(\<And>w. core (f w) = core w) \<Longrightarrow> keeps P (modify f)"
  by (simp add: keeps_def modify_def) (blast intro: core_only)

lemma written: "(\<And>w. core (f w) = core w) \<Longrightarrow> keeps P (sql_write f)"
  by (simp add: keeps_def sql_write_def) (blast intro: core_only)

lemma basic:
  "keeps P tick" "keeps P (block_workspace i reason n)" "keeps P (resolve_workspace wid target)"
  "keeps P (read_actual E p)" "keeps P (path_of d rel)" "keeps P (get_tx g)" "keeps P (get_grant v)" "keeps P (fresh_now E)" "keeps P (os_step E)"
proof -
  show tk: "keeps P tick" using core_only [OF core_simps(2)] by (simp add: keeps_def tick_def)
  show "keeps P (block_workspace i reason n)" unfolding block_workspace_def by (intro keeps_seq written modified) simp_all
  show "keeps P (resolve_workspace wid target)" using core_only [OF core_simps(1)] by (simp add: keeps_def resolve_workspace_def split: prod.splits)
  show "keeps P (read_actual E p)" by (simp add: keeps_def read_actual_def)
  show "keeps P (path_of d rel)" by (simp add: keeps_def path_of_def)
  show "keeps P (get_tx g)" unfolding get_tx_def by (intro frame_rules)
  show "keeps P (get_grant v)" unfolding get_grant_def by (intro frame_rules)
  show "keeps P (fresh_now E)" unfolding fresh_now_def by (intro frame_rules tk)
  show "keeps P (os_step E)" unfolding os_step_def by (intro frame_rules tk)
qed

lemma workspace: "keeps P (workspace_authority g n)"
  unfolding keeps_def
proof (intro allI impI)
  fix w :: exec_world assume q: "P w"
  obtain r w1 where r: "resolve_workspace (gr_workspace g) (gr_target g) w = (r, w1)" by fastforce
  have q1: "P w1" by (rule keepsD [OF basic(3) r q])
  have blk: "keeps P (seq (block_workspace i reason n) (\<lambda>_. fail e) :: (exec_world, WorkspaceDescriptor) act)" for i reason e
    by (intro frame_rules basic)
  show "P (snd (workspace_authority g n w))"
  proof (cases r)
    case (Inl e)
    have "workspace_authority g n w = (case e of IntegrityBlockedError _ \<Rightarrow>
        seq (block_workspace (gr_workspace g) ''LOCAL_AUTHORITY_LOST'' n) (\<lambda>_. fail e) w1 | _ \<Rightarrow> (Inl e, w1))"
      unfolding workspace_authority_def r Inl by simp
    then show ?thesis using q1 keeps_snd [OF blk q1] by (cases e) simp_all
  next
    case (Inr d)
    have "keeps P (seq (query (find_space (wd_id d))) (\<lambda>r.
        if (case r of None \<Rightarrow> True | Some r \<Rightarrow> wr_state r = ''INTEGRITY_BLOCKED'')
        then seq (modify (\<lambda>w. w\<lparr>xw_registry := registry_block (wd_id d) (xw_registry w)\<rparr>))
               (\<lambda>_. fail (IntegrityBlockedError ''workspace durably blocked or unknown''))
        else seq (lift_res (physical_id (xw_fs w1) (wd_root d))) (\<lambda>phys.
          if (wr_root (the r), wr_phys (the r), wr_target (the r), wr_kind (the r)) \<noteq> (wd_root d, wd_phys d, wd_target d, wd_kind d)
             \<or> phys \<noteq> wr_phys (the r)
          then seq (block_workspace (wd_id d) ''PHYSICAL_IDENTITY_MISMATCH'' n)
                 (\<lambda>_. fail (IntegrityBlockedError ''workspace physical identity mismatch''))
          else seq (sql_write (set_spaces (wd_id d) (\<lambda>r. r\<lparr>wr_verified := Some n, wr_error := None\<rparr>))) (\<lambda>_. ret d))))"
      by (intro frame_rules basic written modified) simp_all
    from keeps_snd [OF this q1] show ?thesis using r Inr by (simp add: workspace_authority_def)
  qed
qed

lemma authority: "keeps P (grant_authority g n)" "keeps P (fresh_authority E gid)"
  unfolding grant_authority_def fresh_authority_def by (intro frame_rules basic workspace)+

lemma put: "keeps P (modify (put_node p v))" "keeps P (modify (\<lambda>w. put_node p (u w) (put_node q (v' w) w)))"
  by (intro modified, simp)+

lemma files:
  "keeps P (unlink E p)" "keeps P (create_file E p b)" "keeps P (replace_file E p q)" "keeps P (link_into E p q b)" "keeps P (drop_temp E p e)"
  "keeps P (write_row E gid r p)" "keeps P (check_preimage E msg r p)" "keeps P (resolve_rows d rows)"
proof -
  show u: "keeps P (unlink E p)" for p
    unfolding unlink_def by (intro frame_rules basic, auto split: option.splits node.splits intro: put)
  show c: "keeps P (create_file E p b)" for p b unfolding create_file_def by (intro keeps_seq keeps_basic keeps_if basic)
    (auto split: option.splits fault.splits intro!: keeps_seq put)
  show r: "keeps P (replace_file E p q)" for p q unfolding replace_file_def by (intro frame_rules basic put)
  show l: "keeps P (link_into E p q b)" for p q b unfolding link_into_def by (intro frame_rules basic put)
  show d: "keeps P (drop_temp E p e)" for p e unfolding drop_temp_def by (intro frame_rules u)
  show "keeps P (write_row E gid r p)" unfolding write_row_def Let_def by (intro frame_rules basic u c r l d)
  show "keeps P (check_preimage E msg r p)" unfolding check_preimage_def by (intro frame_rules basic)
  show "keeps P (resolve_rows d rows)" unfolding resolve_rows_def by (intro frame_rules basic)
qed

lemma restoring: assumes "hooks_keep P hk" shows "keeps P (restore_all E gid hk d bs)"
proof -
  have h: "keeps P (call_hook (hk_before_rollback hk))" using assms by (simp add: hooks_keep_def keeps_hook)
  have "keeps P (restore_row E gid d b)" for b unfolding restore_row_def Let_def by (intro frame_rules basic files)
  moreover have "keeps P (restored E b)" for b unfolding restored_def by (intro frame_rules basic)
  ultimately show ?thesis unfolding restore_all_def by (intro frame_rules h)
qed

lemma claimed:
  assumes hk: "hooks_keep P hk" and fin: "\<And>hash env n. keeps P (in_tx (finish_apply E gid hash env n))"
  shows "keeps (held P) (apply_claimed E gid hash rows hk)"
proof -
  have h: "keeps P (call_hook (hk_before_first_write hk))" "keeps P (call_hook (map_option (\<lambda>f. f i p) (hk_after_operation hk)))" for i p
    using hk by (simp_all add: hooks_keep_def keeps_hook)
  have rf: "keeps (held P) (refresh E gid)" unfolding refresh_def
    by (intro keeps_seq keeps_prod keeps_basic held_on_world held_locals authority) simp
  have bk: "keeps (held P) (backup_row E r)" for r unfolding backup_row_def
    by (intro keeps_seq keeps_basic held_on_world held_locals basic files) simp
  have rw: "keeps (held P) (apply_row E gid hk ir)" for ir unfolding apply_row_def
    by (intro keeps_seq keeps_basic keeps_if keeps_prod held_on_world basic files h rf)
  have vf: "keeps (held P) (verify_row E r)" for r unfolding verify_row_def
    by (intro keeps_seq keeps_basic keeps_if keeps_prod held_on_world basic)
  have idle: "keeps (held P) (modify (\<lambda>s. s\<lparr>ap_world := (ap_world s)\<lparr>xw_status := ''IDLE'', xw_last_error := None\<rparr>\<rparr>))"
  proof (rule keeps_modify)
    fix s :: apply_state assume "held P s"
    with core_only [of "(ap_world s)\<lparr>xw_status := ''IDLE'', xw_last_error := None\<rparr>" "ap_world s"]
    show "held P (s\<lparr>ap_world := (ap_world s)\<lparr>xw_status := ''IDLE'', xw_last_error := None\<rparr>\<rparr>)" by (simp add: held_def)
  qed
  show ?thesis unfolding apply_claimed_def apply_writes_def
    by (intro keeps_seq keeps_basic keeps_let keeps_prod keeps_for_each keeps_each held_on_world rf bk rw vf h fin idle basic)
qed

lemma handled:
  assumes run: "apply_handler E gid hk n e s = (r, w')" and hk: "hooks_keep P hk" and s: "held P s"
    and trm: "\<And>st code. st \<in> {''FAILED'', ''INTEGRITY_BLOCKED''} \<Longrightarrow> keeps P (terminalize_failure gid st code n)"
  shows "P w'"
proof -
  let ?w = "(ap_world s)\<lparr>xw_last_error := Some (clean (err_class e)), xw_status := ''ERROR''\<rparr>"
  have w: "P ?w" using s core_only [of ?w "ap_world s"] by (simp add: held_def)
  show ?thesis
  proof (cases "ap_backups s \<noteq> [] \<and> ap_space s \<noteq> None")
    case True
    then obtain d where d: "ap_space s = Some d" by blast
    obtain q w2 where q: "restore_all E gid hk d (ap_backups s) ?w = (q, w2)" by fastforce
    have w2: "P w2" using keepsD [OF restoring [OF hk] q] w by blast
    let ?a = "seq (if restore_outcome q then ret () else block_workspace (wd_id d) ''ROLLBACK_UNPROVABLE'' n)
           (\<lambda>_. terminalize_failure gid (if restore_outcome q then ''FAILED'' else ''INTEGRITY_BLOCKED'') (err_class e) n)"
    have act: "?a w2 = (r, w')" using run True q by (cases "restore_outcome q") (simp_all add: apply_handler_def Let_def d)
    have "keeps P ?a" by (intro frame_rules basic trm) simp
    from keepsD [OF this act] w2 show ?thesis by blast
  next
    case False
    with run have "terminalize_failure gid ''FAILED'' (err_class e) n ?w = (r, w') \<or> w' = ?w"
      by (auto simp: apply_handler_def Let_def split: if_splits)
    with keepsD [OF trm [of "''FAILED''" "err_class e"]] w show ?thesis by blast
  qed
qed

lemma applying:
  assumes run: "apply_plan E now plan hk w = (r, w')" and hk: "hooks_keep P hk" and w: "P w"
    and claim: "\<And>hash rows n. keeps P (in_tx (claim_grant E (ep_grant_id plan) hash rows n))"
    and fin: "\<And>hash env n. keeps P (in_tx (finish_apply E (ep_grant_id plan) hash env n))"
    and trm: "\<And>st code n. st \<in> {''FAILED'', ''INTEGRITY_BLOCKED''} \<Longrightarrow> keeps P (terminalize_failure (ep_grant_id plan) st code n)"
  shows "P w'"
proof (cases "\<exists>n hash rows len. now_of now = Inr n \<and> canonical_plan (xe_hash E) plan = Inr (hash, rows, len)")
  case False
  with run w show ?thesis by (auto simp: apply_plan_def split: sum.splits)
next
  case True
  let ?gid = "ep_grant_id plan" and ?s = "\<lparr>ap_world = w, ap_backups = [], ap_space = None, ap_owns = False\<rparr>"
  from True obtain n hash rows len where c: "now_of now = Inr n" "canonical_plan (xe_hash E) plan = Inr (hash, rows, len)" by blast
  obtain q s1 where b: "apply_body E ?gid hash rows n hk ?s = (q, s1)" by fastforce
  have "keeps (held P) (apply_body E ?gid hash rows n hk)" unfolding apply_body_def
    by (intro keeps_seq keeps_option keeps_prod keeps_basic held_on_world claim held_locals claimed [OF hk fin]) simp
  from keepsD [OF this b] w have s1: "held P s1" by (simp add: held_def)
  show ?thesis
  proof (cases q)
    case (Inl e)
    obtain h w2 where h: "apply_handler E ?gid hk n e s1 = (h, w2)" by fastforce
    with run c b Inl have "w' = w2" by (auto simp: apply_plan_def split: sum.splits)
    with handled [OF h hk s1 trm] show ?thesis by simp
  next
    case (Inr x)
    with run c b s1 show ?thesis by (auto simp: apply_plan_def held_def)
  qed
qed

text \<open>The transaction that ends a recovery, with the block that follows when the task was lost.\<close>

lemma recovery_end_at:
  assumes "P (snd (in_tx (finish_recovery E g tx st curs n) w))"
  shows "P (snd (case in_tx (finish_recovery E g tx st curs n) w of
          (Inr _, w1) \<Rightarrow> (Inr st, w1)
        | (Inl e, w1) \<Rightarrow> (if e = IntegrityBlockedError ''recovery review transition lost''
            then seq (block_workspace i ''RECOVERY_REVIEW_TRANSITION_LOST'' n) (\<lambda>_. fail e) w1 else (Inl e, w1))))"
proof -
  obtain q w1 where q: "in_tx (finish_recovery E g tx st curs n) w = (q, w1)" by fastforce
  with assms have w1: "P w1" by simp
  have "P (snd ((seq (block_workspace i reason n) (\<lambda>_. fail e) :: (exec_world, string) act) w1))" for reason e
    by (rule keeps_snd [where P = P, OF _ w1]) (intro frame_rules basic)
  with w1 q show ?thesis by (cases q) auto
qed

lemma recovery_end:
  assumes fin: "keeps P (in_tx (finish_recovery E g tx st curs n))"
  shows "keeps P (\<lambda>w. case in_tx (finish_recovery E g tx st curs n) w of
          (Inr _, w1) \<Rightarrow> (Inr st, w1)
        | (Inl e, w1) \<Rightarrow> (if e = IntegrityBlockedError ''recovery review transition lost''
            then seq (block_workspace i ''RECOVERY_REVIEW_TRANSITION_LOST'' n) (\<lambda>_. fail e) w1 else (Inl e, w1)))"
  unfolding keeps_def
proof (intro allI impI)
  fix w :: exec_world assume "P w"
  show "P (snd (case in_tx (finish_recovery E g tx st curs n) w of
          (Inr _, w1) \<Rightarrow> (Inr st, w1)
        | (Inl e, w1) \<Rightarrow> (if e = IntegrityBlockedError ''recovery review transition lost''
            then seq (block_workspace i ''RECOVERY_REVIEW_TRANSITION_LOST'' n) (\<lambda>_. fail e) w1 else (Inl e, w1))))"
    by (rule recovery_end_at) (rule keeps_snd [OF fin \<open>P w\<close>])
qed

lemma starting: "keeps P init_execution"
proof -
  have "keeps P (init_space d)" for d unfolding init_space_def by (intro frame_rules written modified) simp_all
  then show ?thesis unfolding init_execution_def by (intro frame_rules)
qed

end

text \<open>A property that also survives an audit line.\<close>

locale table_property = core_property +
  assumes audit_keeps: "P w \<Longrightarrow> P (w\<lparr>xw_db := audit t ev n det (xw_db w)\<rparr>)"
begin

lemma audited: "keeps P (audit_exec t ev n det)"
  using audit_keeps by (simp add: audit_exec_def keeps_def modify_def)

text \<open>Claiming and issuing, given what their updates do.\<close>

lemma claiming:
  assumes "\<And>n. keeps P (modify (set_grants (\<lambda>r. gr_id r = gid \<and> gr_state r = ''ISSUED'') (\<lambda>r. r\<lparr>gr_state := ''EXPIRED''\<rparr>)))"
    and "\<And>n hash. keeps P (modify (set_grants (\<lambda>r. gr_id r = gid \<and> gr_state r = ''ISSUED'')
          (\<lambda>r. r\<lparr>gr_state := ''APPLYING'', gr_consumed := Some n, gr_plan_hash := Some hash\<rparr>)))"
    and "\<And>x. tr_state x = ''APPLYING'' \<Longrightarrow> keeps P (modify (\<lambda>w. w\<lparr>xw_txs := xw_txs w @ [x]\<rparr>))"
  shows "keeps P (claim_grant E gid hash rows n)"
proof -
  have "keeps P (consume_grant gid hash n)" unfolding consume_grant_def by (intro frame_rules assms(2))
  then show ?thesis unfolding claim_grant_def
    by (intro frame_rules assms(1,3) authority workspace basic audited files) simp
qed

lemma issuing:
  assumes "issue_grant E now tid wid sid lid wsid ops pfx secs w = (r, w')" and "P w"
    and insert: "\<And>g. gr_state g = ''ISSUED'' \<Longrightarrow> keeps P (insert_grant g)"
  shows "P w'"
proof -
  have "keeps P (issue_body E n tid wid sid lid wsid o' p s)" for n o' p s
    unfolding issue_body_def Let_def by (intro frame_rules basic audited insert) simp
  then have "keeps P (in_tx (issue_body E n tid wid sid lid wsid o' p s))" for n o' p s by (rule in_tx)
  from keepsD [OF this] keepsD [OF basic(7)] assms show ?thesis
    by (auto simp: issue_grant_def Let_def split: sum.splits option.splits if_splits prod.splits)
qed

end

end
