(* ===== verification/ExecutionSample.thy ===== *)
theory ExecutionSample
  imports ExecutionFrames GatewayClaims
begin

text \<open>
  A closed instance of governed execution: the running task of the store's sample, a session of the gateway's sample,
  one disposable workspace and one grant, applied without a fault and with one.
\<close>

definition exec_sample_env :: "(nat \<Rightarrow> fault option) \<Rightarrow> exec_env" where
  "exec_sample_env faults = \<lparr>xe_hash = sample_hash, xe_clock = (\<lambda>k. Finite 3), xe_uuid = (\<lambda>k. ''u''), xe_fault = faults,
     xe_dumps = (\<lambda>v. ''envelope''), xe_rep = (\<lambda>v. [])\<rparr>"

definition exec_sample_space :: WorkspaceDescriptor where
  "exec_sample_space = \<lparr>wd_id = ''space'', wd_root = [''ws''], wd_target = ''repo'', wd_phys = ''phys'', wd_kind = ''DISPOSABLE''\<rparr>"

definition exec_sample_grant :: grant where
  "exec_sample_grant = \<lparr>gr_id = ''g'', gr_task = ''t'', gr_worker = ''w'', gr_session = ''s'', gr_lease = ''L'',
     gr_workspace = ''space'', gr_target = ''repo'', gr_capability = ''test'', gr_operations = [''CREATE''], gr_prefixes = [[]],
     gr_issued = 2, gr_expires = 9, gr_consumed = None, gr_state = ''ISSUED'', gr_plan_hash = None\<rparr>"

definition exec_sample :: exec_world where
  "exec_sample = \<lparr>xw_db = sample_running, xw_gateway = sample_gateway, xw_grants = [exec_sample_grant], xw_txs = [],
     xw_spaces = [\<lparr>wr_id = ''space'', wr_root = [''ws''], wr_phys = ''phys'', wr_target = ''repo'', wr_kind = ''DISPOSABLE'',
        wr_state = ''AVAILABLE'', wr_verified = None, wr_error = None\<rparr>],
     xw_registry = \<lparr>rg_real_root = [''main''], rg_protected = [''state''], rg_spaces = [(''space'', exec_sample_space)], rg_blocked = []\<rparr>,
     xw_fs = \<lparr>fx_nodes = (\<lambda>p. if p = [''ws''] then Some Dir else None), fx_phys = (\<lambda>p. ''phys''), fx_resolve = (\<lambda>p. p)\<rparr>,
     xw_tick = 0, xw_status = ''IDLE'', xw_last_error = None\<rparr>"

definition exec_sample_plan :: ExecutionPlan where
  "exec_sample_plan = \<lparr>ep_grant_id = ''g'', ep_operations = [\<lparr>fo_operation = ''CREATE'', fo_path = ''a'', fo_pre = ''ABSENT'',
     fo_post = sample_sha, fo_content = Some ''x''\<rparr>]\<rparr>"

definition no_hooks :: hooks where
  "no_hooks = \<lparr>hk_before_first_write = None, hk_after_operation = None, hk_before_rollback = None\<rparr>"

definition exec_sample_run :: "(nat \<Rightarrow> fault option) \<Rightarrow> tx_row res \<times> exec_world" where
  "exec_sample_run faults = apply_plan (exec_sample_env faults) (Finite 3) exec_sample_plan no_hooks exec_sample"

lemma benign_no_hooks: "benign_hooks no_hooks"
  by (simp add: benign_hooks_def no_hooks_def)

text \<open>Running an action on a closed state: the continuation is left alone until its argument is there.\<close>

lemma seq_eval_cong: "m = m' \<Longrightarrow> w = w' \<Longrightarrow> seq m f w = seq m' f w'"
  by simp

lemma loop_eval_cong: "xs = xs' \<Longrightarrow> w = w' \<Longrightarrow> for_each f xs w = for_each f xs' w'" "xs = xs' \<Longrightarrow> w = w' \<Longrightarrow> each h xs w = each h xs' w'"
  by simp_all

lemma act_eval: "seq m f w = (case m w of (Inl e, w1) \<Rightarrow> (Inl e, w1) | (Inr x, w1) \<Rightarrow> f x w1)"
  "ret x w = (Inr x, w)" "fail e w = (Inl e, w)" "lift_res r w = (r, w)" "query g w = (Inr (g w), w)" "modify h w = (Inr (), h w)"
  "ensure b e w = (if b then Inr () else Inl e, w)"
  by (simp_all add: seq_def ret_def fail_def lift_res_def query_def modify_def ensure_def)

lemma exec_sample_env_sel [simp]:
  "xe_hash (exec_sample_env fs) s = sample_sha" "xe_clock (exec_sample_env fs) k = Finite 3" "xe_fault (exec_sample_env fs) = fs"
  "xe_dumps (exec_sample_env fs) v = ''envelope''" "xe_hash (exec_sample_env fs) = sample_hash"
  by (simp_all add: exec_sample_env_def sample_hash_def)

lemma no_hooks_sel [simp]: "hk_before_first_write no_hooks = None" "hk_after_operation no_hooks = None" "hk_before_rollback no_hooks = None"
  by (simp_all add: no_hooks_def)

lemma exec_sample_space_sel [simp]:
  "wd_id exec_sample_space = ''space''" "wd_root exec_sample_space = [''ws'']" "wd_target exec_sample_space = ''repo''"
  "wd_phys exec_sample_space = ''phys''" "wd_kind exec_sample_space = ''DISPOSABLE''"
  by (simp_all add: exec_sample_space_def)

lemma exec_sample_session [simp]: "verified_session_binding (Finite 3) ''w'' ''s'' sample_gateway = Inr True"
  by (simp add: verified_session_binding_def session_fresh_def sample_gateway_def sample_session_def sample_profile_def)

lemma sample_sha_hex: "lower_hex 64 sample_sha"
  by code_simp

lemma sample_path: "normalized_relative ''a'' = Inr ''a''"
  by code_simp

lemma sample_images: "image_of ''ABSENT'' = ''ABSENT''" "image_of sample_sha = sample_sha"
  by code_simp+

definition exec_sample_row :: plan_row where
  "exec_sample_row = \<lparr>ro_operation = Some ''CREATE'', ro_path = ''a'', ro_pre = ''ABSENT'', ro_post = sample_sha, ro_sha = sample_sha,
     ro_content = Some ''x''\<rparr>"

lemma exec_sample_canonical: "canonical_plan sample_hash exec_sample_plan = Inr (sample_sha, [exec_sample_row], 1)"
  by (simp add: canonical_plan_def exec_sample_plan_def normalize_operation_def Let_def OPERATIONS_def sample_path sample_images sample_sha_hex
      sample_hash_def exec_sample_row_def content_length_def MAX_PLAN_FILES_def MAX_PLAN_BYTES_def)

lemma exec_sample_plan_id [simp]: "ep_grant_id exec_sample_plan = ''g''"
  by (simp add: exec_sample_plan_def)

lemma exec_sample_path: "workspace_path (xw_registry exec_sample) (xw_fs exec_sample) exec_sample_space ''a'' = Inr [''ws'', ''a'']"
  by (simp add: exec_sample_def exec_sample_space_def workspace_path_def path_allowed_def lower_def lower_char_def is_upper_def
      physical_id_def path_parts_def path_exists_def)

text \<open>The store of the sample is read through its task and its worker.\<close>

definition exec_sample_task :: task where
  "exec_sample_task = row RUNNING 2 (Some ''w'') (Some ''L'') (Some 31) (Some 0)"

lemma exec_sample_task_sel [simp]:
  "t_id exec_sample_task = ''t''" "t_state exec_sample_task = RUNNING" "t_assigned_worker_id exec_sample_task = Some ''w''"
  "t_lease_id exec_sample_task = Some ''L''" "t_lease_expires_at exec_sample_task = Some 31"
  by (simp_all add: exec_sample_task_def row_def)

lemma exec_sample_db [simp]:
  "db_tasks sample_running = [exec_sample_task]" "db_workers sample_running = [the_worker]" "db_locked sample_running = False"
  by (simp_all add: sample_running_eq with_row_def exec_sample_task_def)

lemma audit_sel [simp]:
  "db_tasks (audit tid ev n det d) = db_tasks d" "db_workers (audit tid ev n det d) = db_workers d" "db_locked (audit tid ev n det d) = db_locked d"
  "db_locked (update_tasks p f d) = db_locked d"
  by (simp_all add: audit_def update_tasks_def)

lemma worker_lives [simp]: "w_id the_worker = ''w''" "worker_fresh 3 the_worker"
  by (simp_all add: the_worker_def worker_fresh_def)

lemmas exec_eval_defs = apply_plan_def apply_body_def in_tx_def claim_grant_def claim_expired_def workspace_authority_def
  resolve_workspace_def registry_resolve_def safe_id_def resolve_rows_def path_of_def check_preimage_def read_actual_def actual_def
  consume_grant_def on_world_def apply_claimed_def apply_writes_def backup_row_def refresh_def fresh_authority_def fresh_now_def tick_def
  apply_row_def verify_row_def write_row_def create_file_def link_into_def os_step_def put_node_def call_hook_def finish_apply_def
  get_tx_def sql_write_def set_spaces_def set_grants_def set_txs_def find_grant_def find_tx_def find_space_def audit_exec_def
  workspace_path_def physical_id_def path_exists_def is_symlink_def path_allowed_def temp_name_def side_name_def
  grant_authority_def lease_live_def in_scope_def manifest_of_def
  applying_tx_def applying_grant_def running_task_def to_review_def

lemmas exec_sample_eval = exec_sample_run_def exec_eval_defs act_eval exec_sample_canonical
  exec_sample_grant_def exec_sample_def exec_sample_row_def is_alnum_def is_digit_def is_lower_def ident_char_def
  find_task_def find_worker_def rowcount_def update_where_def Let_def sample_hash_def lower_def lower_char_def is_upper_def path_parts_def

lemma exec_sample_applied:
  "case exec_sample_run (\<lambda>k. None) of (r, w) \<Rightarrow> (\<exists>tx. r = Inr tx) \<and> node_at w [''ws'', ''a''] = Some (File ''x'' 1)"
  by (simp add: exec_sample_eval cong: seq_eval_cong loop_eval_cong)

text \<open>The step after the temporary file was written fails.\<close>

definition exec_sample_fault :: "nat \<Rightarrow> fault option" where
  "exec_sample_fault k = (if k = 3 then Some StepFails else None)"

lemma exec_sample_failed:
  "case exec_sample_run exec_sample_fault of (r, w) \<Rightarrow> (\<exists>e. r = Inl e) \<and> (\<exists>g \<in> set (xw_grants w). gr_id g = ''g'' \<and> gr_state g = ''FAILED'')"
  by (simp add: exec_sample_eval exec_sample_fault_def apply_handler_def restore_all_def restore_row_def restored_def restore_outcome_def
      terminalize_failure_def unlink_def cong: seq_eval_cong loop_eval_cong)

end
