(* ===== verification/ExecutionClaims.thy ===== *)
theory ExecutionClaims
  imports ExecutionSample
begin

text \<open>
  What governed execution promises: a grant stands on a running task and is used once; an application touches
  only files in the scope of its grant, ends with every postimage and the evidence of them, or is undone;
  recovery tells what happened; the digest of a plan binds the plan.
\<close>

subsection \<open>The grants\<close>

text \<open>A property of the grants alone does not see the rest of the state.\<close>

interpretation granted: table_property "\<lambda>w. Q (xw_grants w)" for Q
  by unfold_locales (auto simp: core_def)

abbreviation (input) gfree :: "(grant list \<Rightarrow> bool) \<Rightarrow> (exec_world, 'a) act \<Rightarrow> bool" where
  "gfree Q a \<equiv> keeps (\<lambda>w. Q (xw_grants w)) a"

abbreviation (input) agrants :: "(grant list \<Rightarrow> bool) \<Rightarrow> apply_state \<Rightarrow> bool" where
  "agrants Q \<equiv> held (\<lambda>w. Q (xw_grants w))"

text \<open>The changes of state of an application and of a claim, as conditions on the property.\<close>

definition moves_ok :: "(grant list \<Rightarrow> bool) \<Rightarrow> string \<Rightarrow> string list \<Rightarrow> bool" where
  "moves_ok Q gid sts \<longleftrightarrow> (\<forall>gs st. st \<in> set sts \<longrightarrow> Q gs \<longrightarrow> Q (update_where (applying_grant gid) (\<lambda>r. r\<lparr>gr_state := st\<rparr>) gs))"

definition claim_ok :: "(grant list \<Rightarrow> bool) \<Rightarrow> string \<Rightarrow> bool" where
  "claim_ok Q gid \<longleftrightarrow> (\<forall>gs. Q gs \<longrightarrow> Q (update_where (\<lambda>r. gr_id r = gid \<and> gr_state r = ''ISSUED'') (\<lambda>r. r\<lparr>gr_state := ''EXPIRED''\<rparr>) gs))
     \<and> (\<forall>gs n hash. Q gs \<longrightarrow> Q (update_where (\<lambda>r. gr_id r = gid \<and> gr_state r = ''ISSUED'')
          (\<lambda>r. r\<lparr>gr_state := ''APPLYING'', gr_consumed := Some n, gr_plan_hash := Some hash\<rparr>) gs))"

lemma moves_okD: "moves_ok Q gid sts \<Longrightarrow> st \<in> set sts \<Longrightarrow> moves_ok Q gid [st]"
  by (simp add: moves_ok_def)

lemma gfree_terminalize: "moves_ok Q gid [st] \<Longrightarrow> gfree Q (terminalize_failure gid st code n)"
  unfolding terminalize_failure_def
  by (intro granted.in_tx) (simp add: keeps_def modify_def set_grants_def set_txs_def moves_ok_def)

lemma gfree_finish: "moves_ok Q gid [''APPLIED''] \<Longrightarrow> gfree Q (in_tx (finish_apply E gid hash envelope n))"
  unfolding finish_apply_def
  by (intro granted.in_tx frame_rules granted.authority granted.workspace granted.basic granted.audited)
    (simp add: keeps_def modify_def set_grants_def set_txs_def moves_ok_def)

lemma gfree_claim: "claim_ok Q gid \<Longrightarrow> gfree Q (in_tx (claim_grant E gid hash rows n))"
  by (intro granted.in_tx granted.claiming) (simp_all add: keeps_def modify_def set_grants_def claim_ok_def)

lemma gfree_hooks: "benign_hooks hk \<Longrightarrow> hooks_keep (\<lambda>w. Q (xw_grants w)) hk"
  by (auto simp: benign_hooks_def benign_def hooks_keep_def hook_keeps_def Let_def)

lemma gfree_restore: "benign_hooks hk \<Longrightarrow> gfree Q (restore_all E gid hk d bs)"
  by (intro granted.restoring gfree_hooks)

lemma gfree_claimed: "benign_hooks hk \<Longrightarrow> moves_ok Q gid [''APPLIED''] \<Longrightarrow> keeps (agrants Q) (apply_claimed E gid hash rows hk)"
  by (intro granted.claimed gfree_hooks gfree_finish)

lemma gfree_handler:
  assumes "apply_handler E gid hk n e s = (r, w')" and "benign_hooks hk" and "moves_ok Q gid [''FAILED'', ''INTEGRITY_BLOCKED'']" and "agrants Q s"
  shows "Q (xw_grants w')"
  by (rule granted.handled [OF assms(1) gfree_hooks [OF assms(2)] assms(4)]) (rule gfree_terminalize, rule moves_okD [OF assms(3)], simp)

lemma gfree_apply:
  assumes "apply_plan E now plan hk w = (r, w')" and "benign_hooks hk" and "claim_ok Q (ep_grant_id plan)"
    and "moves_ok Q (ep_grant_id plan) [''APPLIED'', ''FAILED'', ''INTEGRITY_BLOCKED'']" and "Q (xw_grants w)"
  shows "Q (xw_grants w')"
  by (rule granted.applying [OF assms(1) gfree_hooks [OF assms(2)] assms(5) gfree_claim [OF assms(3)]])
    (intro gfree_finish gfree_terminalize moves_okD [OF assms(4)], simp_all)+

subsection \<open>A grant is used once\<close>

definition spent :: "string \<Rightarrow> grant list \<Rightarrow> bool" where
  "spent gid gs \<longleftrightarrow> (\<exists>g \<in> set gs. gr_id g = gid) \<and> (\<forall>g \<in> set gs. gr_id g = gid \<longrightarrow> gr_state g \<noteq> ''ISSUED'')"

lemma spent_update:
  assumes "\<And>g. gr_id (f g) = gr_id g" and "\<And>g. gr_state (f g) \<noteq> ''ISSUED''" and "spent gid gs"
  shows "spent gid (update_where p f gs)"
proof -
  from assms(3) obtain g where "g \<in> set gs" "gr_id g = gid" by (auto simp: spent_def)
  then have "(if p g then f g else g) \<in> set (update_where p f gs)" "gr_id (if p g then f g else g) = gid"
    using assms(1) by (auto simp: update_where_def)
  moreover have "gr_state h \<noteq> ''ISSUED''" if "h \<in> set (update_where p f gs)" "gr_id h = gid" for h
    using that assms by (auto simp: update_where_def spent_def split: if_splits)
  ultimately show ?thesis unfolding spent_def by blast
qed

lemma spent_moves: "''ISSUED'' \<notin> set sts \<Longrightarrow> moves_ok (spent gid) gid' sts"
  by (auto simp: moves_ok_def intro!: spent_update)

lemma spent_claim: "claim_ok (spent gid) gid'"
  by (auto simp: claim_ok_def intro!: spent_update)

lemma gfree_issue:
  assumes "issue_grant E now tid wid sid lid wsid ops pfx secs w = (r, w')" and "spent gid (xw_grants w)"
  shows "spent gid (xw_grants w')"
  by (rule granted.issuing [where Q = "spent gid", OF assms]) (auto simp: keeps_def insert_grant_def spent_def find_grant_def find_None_iff)

lemma gfree_recover:
  assumes "recover E now v w = (r, w')" and "spent gid (xw_grants w)"
  shows "spent gid (xw_grants w')"
proof -
  have fin: "gfree (spent gid) (in_tx (finish_recovery E g tx (recovered_state curs rows) curs n))" for g tx curs rows n
    unfolding finish_recovery_def Let_def
    by (intro granted.in_tx frame_rules granted.basic granted.audited) (simp add: keeps_def modify_def set_grants_def set_txs_def spent_update recovered_state_def)
  have "gfree (spent gid) (recover E now v)" unfolding recover_def Let_def
    by (intro frame_rules granted.recovery_end fin granted.basic granted.workspace)
  from keepsD [OF this assms(1)] assms(2) show ?thesis by blast
qed

text \<open>
  What can happen to the controller: one of its operations, under any environment, and any change of the store, the
  gateway, the registry, the files and the time by others. The tables of the controller are its own.
\<close>

inductive exec_step :: "exec_world \<Rightarrow> exec_world \<Rightarrow> bool" where
  issued: "issue_grant E now tid wid sid lid wsid ops pfx secs w = (r, w') \<Longrightarrow> exec_step w w'"
| applied: "apply_plan E now plan hk w = (r, w') \<Longrightarrow> benign_hooks hk \<Longrightarrow> exec_step w w'"
| recovered: "recover E now v w = (r, w') \<Longrightarrow> exec_step w w'"
| started: "init_execution w = (r, w') \<Longrightarrow> exec_step w w'"
| others: "xw_grants w' = xw_grants w \<Longrightarrow> xw_txs w' = xw_txs w \<Longrightarrow> exec_step w w'"

lemma spent_step: "exec_step w w' \<Longrightarrow> spent gid (xw_grants w) \<Longrightarrow> spent gid (xw_grants w')"
proof (induction rule: exec_step.induct)
  case (applied E now plan hk w r w')
  show ?case by (rule gfree_apply [OF applied(1,2) spent_claim spent_moves applied(3)]) simp
next
  case (started w r w')
  with keepsD [OF granted.starting] show ?case by blast
qed (simp_all add: gfree_issue gfree_recover)

lemma spent_steps: "exec_step\<^sup>*\<^sup>* w w' \<Longrightarrow> spent gid (xw_grants w) \<Longrightarrow> spent gid (xw_grants w')"
  by (induction rule: rtranclp_induct) (auto intro: spent_step)

text \<open>A claim spends the grant.\<close>

lemma consume_spent:
  assumes "consume_grant gid hash n w = (Inr (), w')"
  shows "spent gid (xw_grants w')"
proof -
  let ?p = "\<lambda>r. gr_id r = gid \<and> gr_state r = ''ISSUED''"
  let ?f = "\<lambda>r. r\<lparr>gr_state := ''APPLYING'', gr_consumed := Some n, gr_plan_hash := Some hash\<rparr>"
  from assms have one: "rowcount ?p (xw_grants w) = 1" and w': "xw_grants w' = update_where ?p ?f (xw_grants w)"
    by (auto simp: consume_grant_def act_simps set_grants_def)
  have "\<not> (\<forall>g \<in> set (xw_grants w). \<not> ?p g)" using rowcount_none [of "xw_grants w" ?p] one by auto
  then obtain g where "g \<in> set (xw_grants w)" "?p g" by blast
  then have "?f g \<in> set (xw_grants w')" unfolding w' update_where_def set_map by (intro rev_image_eqI [of g]) simp_all
  moreover have "gr_id (?f g) = gid" using \<open>?p g\<close> by simp
  moreover have "gr_state h \<noteq> ''ISSUED''" if "h \<in> set (xw_grants w')" "gr_id h = gid" for h
  proof -
    from that(1) obtain k where "h = (if ?p k then ?f k else k)" unfolding w' update_where_def set_map by (elim imageE)
    with that(2) show ?thesis by (cases "?p k") simp_all
  qed
  ultimately show ?thesis unfolding spent_def by blast
qed

lemma claimed_spent:
  assumes "in_tx (claim_grant E gid hash rows n) w = (Inr (Some c), w1)"
  shows "spent gid (xw_grants w1)"
proof -
  have c: "claim_grant E gid hash rows n w = (Inr (Some c), w1)" using assms by (simp add: in_tx_Inr)
  then obtain g :: grant and w2 w3 where cg: "consume_grant gid hash n w2 = (Inr (), w3)"
    and au: "audit_exec (gr_task g) ''EXECUTION_APPLYING'' n (''grant='' @ gid @ '';plan='' @ hash) w3 = (Inr (), w1)"
    unfolding claim_grant_def by (auto simp: act_simps split: option.splits if_splits)
  from keepsD [OF granted.audited au] consume_spent [OF cg] show ?thesis by blast
qed

subsection \<open>Undoing\<close>

text \<open>The backups made so far, of files that are as they were; and all backups, whatever happened since.\<close>

definition backed_up :: "exec_env \<Rightarrow> filesys \<Rightarrow> WorkspaceDescriptor \<Rightarrow> plan_row \<Rightarrow> parts \<times> string option \<Rightarrow> bool" where
  "backed_up E x d r b \<longleftrightarrow> fst b = row_path d r \<and> actual (xe_hash E) x (row_path d r) = Inr (ro_pre r, snd b)"

definition quiet :: "exec_env \<Rightarrow> exec_world \<Rightarrow> WorkspaceDescriptor \<Rightarrow> plan_row list \<Rightarrow> apply_state \<Rightarrow> bool" where
  "quiet E w0 d done' s \<longleftrightarrow> framed {} w0 (ap_world s) \<and> ap_space s = Some d \<and> list_all2 (backed_up E (xw_fs w0) d) done' (ap_backups s)"

lemma quiet_on_world:
  "frames {} w0 m \<Longrightarrow> on_world m s = (q, s1) \<Longrightarrow> quiet E w0 d rs s \<Longrightarrow> quiet E w0 d rs s1"
  by (auto simp: quiet_def on_world_runs dest: keepsD)

lemma quiet_refresh:
  assumes "refresh E gid s = (q, s1)" and "quiet E w0 d rs s" and "map_of (grant_keys w0) gid = Some ws" and "map_of (rg_spaces (xw_registry w0)) ws = Some d"
  shows "quiet E w0 d rs s1"
proof -
  obtain c s2 where c: "on_world (fresh_authority E gid) s = (c, s2)" by fastforce
  have s2: "quiet E w0 d rs s2" by (rule quiet_on_world [OF frame_authority(3) c assms(2)])
  show ?thesis
  proof (cases c)
    case (Inl e)
    with assms(1) c s2 show ?thesis by (auto simp: refresh_def seq_def)
  next
    case (Inr v)
    obtain g e n where v: "v = (g, e, n)" by (cases v)
    from c Inr v obtain w1 where "fresh_authority E gid (ap_world s) = (Inr (g, e, n), w1)" by (auto simp: on_world_runs)
    from fresh_authority_D [OF this] find_grant_key have "map_of (grant_keys (ap_world s)) gid = Some (gr_workspace g)"
      "map_of (rg_spaces (xw_registry (ap_world s))) (gr_workspace g) = Some e" by blast+
    with assms(2-4) have "e = d" by (simp add: quiet_def framed_empty)
    with assms(1) c Inr v s2 show ?thesis by (auto simp: refresh_def seq_def modify_def ret_def quiet_def)
  qed
qed

lemma quiet_backup:
  assumes "backup_row E r s = (q, s1)" and "quiet E w0 d rs s"
  shows "(\<exists>e. q = Inl e) \<and> quiet E w0 d rs s1 \<or> q = Inr () \<and> quiet E w0 d (rs @ [r]) s1"
proof -
  let ?w = "ap_world s"
  have fs: "xw_fs ?w = xw_fs w0" and sp: "ap_space s = Some d" using assms(2) by (auto simp: quiet_def framed_empty)
  show ?thesis
  proof (cases "workspace_path (xw_registry ?w) (xw_fs ?w) d (ro_path r)")
    case (Inl e)
    with assms sp show ?thesis by (auto simp: backup_row_def seq_def query_def on_world_def path_of_def)
  next
    case (Inr p)
    with workspace_path_D have p: "p = row_path d r" by (auto simp: row_path_def)
    obtain c w1 where c: "check_preimage E ''TOCTOU preimage mismatch'' r p ?w = (c, w1)" by fastforce
    have w1: "framed {} w0 w1" by (rule keepsD [OF frame_check c]) (use assms(2) in \<open>simp add: quiet_def\<close>)
    show ?thesis
    proof (cases c)
      case (Inl e)
      with assms sp Inr c w1 show ?thesis
        by (auto simp: backup_row_def seq_def query_def on_world_def path_of_def quiet_def)
    next
      case (Inr data)
      from check_preimage_D [OF c [unfolded Inr]] p fs have "backed_up E (xw_fs w0) d r (p, data)" by (simp add: backed_up_def)
      with assms sp \<open>workspace_path _ _ _ _ = Inr p\<close> c Inr w1 show ?thesis
        by (auto simp: backup_row_def seq_def query_def on_world_def path_of_def modify_def quiet_def list_all2_appendI)
    qed
  qed
qed

lemma quiet_backups:
  "for_each (backup_row E) rows s = (q, s1) \<Longrightarrow> quiet E w0 d rs s \<Longrightarrow>
    (\<exists>e rs1. q = Inl e \<and> quiet E w0 d rs1 s1) \<or> q = Inr () \<and> quiet E w0 d (rs @ rows) s1"
proof (induction rows arbitrary: s rs)
  case (Cons r rows)
  obtain c s2 where c: "backup_row E r s = (c, s2)" by fastforce
  from quiet_backup [OF c Cons.prems(2)] show ?case
  proof (elim disjE conjE exE)
    fix e assume "c = Inl e" "quiet E w0 d rs s2"
    with Cons.prems(1) c show ?thesis by (auto simp: seq_def)
  next
    assume ok: "c = Inr ()" "quiet E w0 d (rs @ [r]) s2"
    with Cons.prems(1) c have "for_each (backup_row E) rows s2 = (q, s1)" by (simp add: seq_def)
    from Cons.IH [OF this ok(2)] show ?thesis by auto
  qed
qed (auto simp: ret_def)

text \<open>The writes leave the backups alone.\<close>

lemma backups_on_world: "keeps (\<lambda>s. ap_backups s = bs) (on_world m)"
  by (simp add: keeps_def on_world_def split: prod.splits)

lemma backups_writes: "keeps (\<lambda>s. ap_backups s = bs) (apply_writes E gid hash rows hk)"
proof -
  have rf: "keeps (\<lambda>s. ap_backups s = bs) (refresh E gid)" unfolding refresh_def
    by (intro keeps_seq keeps_prod keeps_basic backups_on_world keeps_modify) simp
  have "keeps (\<lambda>s. ap_backups s = bs) (apply_row E gid hk ir)" for ir unfolding apply_row_def
    by (intro keeps_seq keeps_basic keeps_if keeps_prod backups_on_world rf)
  moreover have "keeps (\<lambda>s. ap_backups s = bs) (verify_row E r)" for r unfolding verify_row_def
    by (intro keeps_seq keeps_basic keeps_if keeps_prod backups_on_world)
  ultimately show ?thesis unfolding apply_writes_def
    by (intro keeps_seq keeps_prod keeps_let keeps_for_each keeps_each backups_on_world rf keeps_modify) simp_all
qed

lemma claimed_failure:
  assumes "apply_claimed E gid hash rows hk s = (Inl e, s1)" and "quiet E w0 d [] s" and "benign_hooks hk"
    and "map_of (grant_keys w0) gid = Some ws" and "map_of (rg_spaces (xw_registry w0)) ws = Some d"
  shows "(\<exists>rs. quiet E w0 d rs s1) \<or> list_all2 (backed_up E (xw_fs w0) d) rows (ap_backups s1)"
proof -
  have h: "frames {} w0 (call_hook (hk_before_first_write hk))" by (rule frame_hook) (use assms(3) in \<open>auto simp: benign_hooks_def\<close>)
  obtain c1 s2 where c1: "on_world (call_hook (hk_before_first_write hk)) s = (c1, s2)" by fastforce
  have q2: "quiet E w0 d [] s2" by (rule quiet_on_world [OF h c1 assms(2)])
  obtain c2 s3 where c2: "refresh E gid s2 = (c2, s3)" by fastforce
  have q3: "quiet E w0 d [] s3" by (rule quiet_refresh [OF c2 q2 assms(4,5)])
  obtain c3 s4 where c3: "for_each (backup_row E) rows s3 = (c3, s4)" by fastforce
  note q4 = quiet_backups [OF c3 q3]
  show ?thesis
  proof (cases "\<exists>x y. c1 = Inr x \<and> c2 = Inr y \<and> c3 = Inr ()")
    case True
    with assms(1) c1 c2 c3 have w: "apply_writes E gid hash rows hk s4 = (Inl e, s1)" by (auto simp: apply_claimed_def seq_def)
    have "ap_backups s1 = ap_backups s4" by (rule keepsD [OF backups_writes w refl])
    with q4 True show ?thesis by (auto simp: quiet_def)
  next
    case False
    with assms(1) c1 c2 c3 q2 q3 q4 show ?thesis
      by (cases c1; cases c2; cases c3) (auto simp: apply_claimed_def seq_def)
  qed
qed

lemma actual_file: "actual H x p = Inr (c, Some b) \<Longrightarrow> fx_nodes x p = Some (File b 1) \<and> c = H b"
  by (auto simp: actual_def split: if_splits option.splits node.splits)

lemma actual_absent: "actual H x p = Inr (c, None) \<Longrightarrow> \<not> path_exists x p \<and> c = ''ABSENT''"
  by (auto simp: actual_def split: if_splits option.splits node.splits)

lemma restore_name_other: "restore_name p gid \<noteq> p"
proof
  assume e: "restore_name p gid = p"
  then have "p \<noteq> []" by (auto simp: restore_name_def side_name_def)
  then have "last (restore_name p gid) = ''.'' @ last p @ ''.'' @ gid @ ''.af03-rollback''" by (simp add: restore_name_def side_name_def)
  with e have "length (last p) = length (''.'' @ last p @ ''.'' @ gid @ ''.af03-rollback'')" by simp
  then show False by simp
qed

text \<open>Restoring a file that returns changes no other file; its own contents are the next check's business, for the write may have been short.\<close>

lemma restore_frame:
  assumes "restore_row E gid d b w = (Inr (), w')" and "fst b = row_path d r" and "q \<noteq> row_path d r"
  shows "node_at w' q = node_at w q"
proof -
  let ?p = "row_path d r" and ?t = "restore_name (row_path d r) gid"
  show ?thesis
  proof (cases "snd b")
    case None
    with assms show ?thesis
      by (auto simp: restore_row_def act_simps unlink_def os_step_def tick_def put_node_def dest!: restore_path_of
          split: if_splits option.splits node.splits)
  next
    case (Some data)
    from assms(1,2) Some obtain w1 where free: "\<not> path_exists (xw_fs w) ?t" "\<not> is_symlink (xw_fs w) ?t"
      and c: "create_file E ?t data w = (Inr (), w1)" and rp: "replace_file E ?t ?p w1 = (Inr (), w')"
      by (auto simp: restore_row_def act_simps Let_def read_actual_def dest!: restore_path_of split: if_splits)
    have t: "node_at w ?t = None" using free by (auto simp: path_exists_def is_symlink_def split: option.splits node.splits)
    from c have w1: "node_at w1 x = node_at w x" if "x \<noteq> ?t" for x
      using that by (auto simp: create_file_def act_simps tick_def put_node_def split: option.splits fault.splits if_splits)
    from rp have "node_at w' x = ((fx_nodes (xw_fs w1))(?p := fx_nodes (xw_fs w1) ?t, ?t := None)) x" for x
      by (auto simp: replace_file_def os_step_def act_simps tick_def put_node_def split: if_splits)
    with w1 t assms(3) show ?thesis by (cases "q = ?t") simp_all
  qed
qed

lemma actual_node: "fx_nodes x p = fx_nodes y p \<Longrightarrow> actual H x p = actual H y p"
  by (simp add: actual_def path_exists_def)

lemma for_each_success:
  assumes "for_each f xs w = (Inr (), w')" and "I w" and "\<And>x w w'. x \<in> set xs \<Longrightarrow> I w \<Longrightarrow> f x w = (Inr (), w') \<Longrightarrow> I w'"
  shows "I w'"
  using assms
proof (induction xs arbitrary: w)
  case (Cons x xs)
  then obtain w1 where "f x w = (Inr (), w1)" "for_each f xs w1 = (Inr (), w')" by (auto simp: act_simps)
  with Cons.IH [of w1] Cons.prems(2,3) show ?case by auto
qed (simp add: act_simps)

lemma restored_D: "each (restored E) bs w = (Inr oks, w') \<Longrightarrow> list_all (\<lambda>b. b) oks \<Longrightarrow>
    w' = w \<and> (\<forall>b \<in> set bs. \<exists>data. actual (xe_hash E) (xw_fs w) (fst b) = Inr (case snd b of None \<Rightarrow> ''ABSENT'' | Some c \<Rightarrow> xe_hash E c, data))"
proof (induction bs arbitrary: oks w')
  case (Cons b bs)
  then obtain o1 oks1 w1 w2 where o1: "restored E b w = (Inr o1, w1)" and os: "each (restored E) bs w1 = (Inr oks1, w2)" "oks = o1 # oks1" "w' = w2"
    by (auto simp: act_simps)
  from o1 have w1: "w1 = w" and a: "o1 \<Longrightarrow> \<exists>data. actual (xe_hash E) (xw_fs w) (fst b) = Inr (case snd b of None \<Rightarrow> ''ABSENT'' | Some c \<Rightarrow> xe_hash E c, data)"
    by (auto simp: restored_def act_simps read_actual_def)
  from Cons.IH os Cons.prems(2) w1 a show ?case by auto
qed (simp add: act_simps)

lemma restore_all_D:
  assumes "restore_all E gid hk d bs w = (Inr True, w')" and "benign_hooks hk"
  obtains w1 w2 where "xw_fs w1 = xw_fs w" and "for_each (restore_row E gid d) (rev bs) w1 = (Inr (), w2)" and "w' = w2"
    and "\<forall>b \<in> set bs. \<exists>data. actual (xe_hash E) (xw_fs w') (fst b) = Inr (case snd b of None \<Rightarrow> ''ABSENT'' | Some c \<Rightarrow> xe_hash E c, data)"
proof -
  from assms(1) obtain w1 w2 oks w3 where h: "call_hook (hk_before_rollback hk) w = (Inr (), w1)"
    and r: "for_each (restore_row E gid d) (rev bs) w1 = (Inr (), w2)" and e: "each (restored E) bs w2 = (Inr oks, w3)"
    and o: "list_all (\<lambda>b. b) oks" "w' = w3"
    by (auto simp: restore_all_def act_simps split: if_splits)
  have "frames {} w (call_hook (hk_before_rollback hk))" by (rule frame_hook) (use assms(2) in \<open>auto simp: benign_hooks_def\<close>)
  from keepsD [OF this h framed_refl] have "xw_fs w1 = xw_fs w" by (simp add: framed_empty)
  with r restored_D [OF e o(1)] o(2) that show thesis by blast
qed

definition no_failure :: "string \<Rightarrow> grant list \<Rightarrow> bool" where
  "no_failure gid gs \<longleftrightarrow> (\<forall>g \<in> set gs. gr_id g = gid \<longrightarrow> gr_state g \<noteq> ''FAILED'')"

lemma no_failure_update: "(\<And>g. gr_state (f g) \<noteq> ''FAILED'') \<Longrightarrow> no_failure gid gs \<Longrightarrow> no_failure gid (update_where p f gs)"
  by (auto simp: no_failure_def update_where_def)

lemma no_failure_claim: "claim_ok (no_failure gid) gid'"
  by (auto simp: claim_ok_def intro!: no_failure_update)

lemma no_failure_moves: "''FAILED'' \<notin> set sts \<Longrightarrow> moves_ok (no_failure gid) gid' sts"
  by (auto simp: moves_ok_def intro!: no_failure_update)

lemma handler_failed:
  assumes "apply_handler E gid hk n e s = (h, w')" and "benign_hooks hk" and "no_failure gid (xw_grants (ap_world s))"
    and "\<not> no_failure gid (xw_grants w')" and "ap_space s = Some d"
  shows "(ap_backups s = [] \<and> xw_fs w' = xw_fs (ap_world s))
    \<or> (\<exists>w0 w2. xw_fs w0 = xw_fs (ap_world s) \<and> restore_all E gid hk d (ap_backups s) w0 = (Inr True, w2) \<and> xw_fs w' = xw_fs w2)"
proof (cases "ap_backups s = []")
  case True
  with frame_handler(2) [OF assms(1,2) True framed_refl [where S = "{}"]] show ?thesis by (simp add: framed_empty)
next
  case False
  let ?w = "(ap_world s)\<lparr>xw_last_error := Some (clean (err_class e)), xw_status := ''ERROR''\<rparr>"
  obtain q w2 where q: "restore_all E gid hk d (ap_backups s) ?w = (q, w2)" by fastforce
  have w2: "no_failure gid (xw_grants w2)" using keepsD [OF gfree_restore [where Q = "no_failure gid", OF assms(2)] q] assms(3) by simp
  have ok: "restore_outcome q"
  proof (rule ccontr)
    assume bad: "\<not> restore_outcome q"
    let ?a = "seq (block_workspace (wd_id d) ''ROLLBACK_UNPROVABLE'' n) (\<lambda>_. terminalize_failure gid ''INTEGRITY_BLOCKED'' (err_class e) n)"
    have run: "?a w2 = (h, w')" using assms(1,5) False q bad by (simp add: apply_handler_def Let_def)
    have "gfree (no_failure gid) ?a" by (intro frame_rules granted.basic gfree_terminalize no_failure_moves) simp
    from keepsD [OF this run] w2 assms(4) show False by simp
  qed
  then have t: "terminalize_failure gid ''FAILED'' (err_class e) n w2 = (h, w')"
    using assms(1,5) False q by (simp add: apply_handler_def Let_def seq_def ret_def)
  from keepsD [OF frame_terminalize t framed_refl [where S = "{}"]] have "xw_fs w' = xw_fs w2" by (simp add: framed_empty)
  moreover have "q = Inr True" using ok by (simp add: restore_outcome_def split: sum.splits)
  ultimately show ?thesis using q by (intro disjI2 exI [of _ ?w] exI [of _ w2]) simp
qed

lemma backup_digest:
  assumes "backed_up E x d r b"
  shows "(case snd b of None \<Rightarrow> ''ABSENT'' | Some c \<Rightarrow> xe_hash E c) = ro_pre r"
proof (cases "snd b")
  case None
  with assms actual_absent show ?thesis by (fastforce simp: backed_up_def)
next
  case (Some c)
  with assms actual_file show ?thesis by (fastforce simp: backed_up_def)
qed

lemma undone_rows:
  assumes "restore_all E gid hk d bs w = (Inr True, w')" and "benign_hooks hk"
    and "(xw_fs w = x \<and> list_all2 (backed_up E x d) rs bs \<and> preimages) \<or> list_all2 (backed_up E x d) rows bs"
    and "preimages \<Longrightarrow> \<forall>r \<in> set rows. \<exists>data. actual (xe_hash E) x (row_path d r) = Inr (ro_pre r, data)"
  shows "\<forall>r \<in> set rows. \<exists>data. actual (xe_hash E) (xw_fs w') (row_path d r) = Inr (ro_pre r, data)"
proof -
  from restore_all_D [OF assms(1,2)] obtain w1 where w1: "xw_fs w1 = xw_fs w"
    and run: "for_each (restore_row E gid d) (rev bs) w1 = (Inr (), w')"
    and done1: "\<forall>b \<in> set bs. \<exists>data. actual (xe_hash E) (xw_fs w') (fst b) = Inr (case snd b of None \<Rightarrow> ''ABSENT'' | Some c \<Rightarrow> xe_hash E c, data)"
    by metis
  have saved: "\<exists>data. actual (xe_hash E) (xw_fs w') (fst b) = Inr (ro_pre r, data)" if "b \<in> set bs" "backed_up E x d r b" for b r
    using done1 that backup_digest by metis
  from assms(3) show ?thesis
  proof (elim disjE conjE)
    assume x: "xw_fs w = x" and rs: "list_all2 (backed_up E x d) rs bs" and preimages
    have up: "\<exists>r0. backed_up E x d r0 b" if "b \<in> set bs" for b
      using that rs by (auto simp: list_all2_conv_all_nth in_set_conv_nth)
    have other: "\<forall>q. q \<notin> fst ` set bs \<longrightarrow> node_at w' q = fx_nodes x q"
    proof (rule for_each_success [OF run, where I = "\<lambda>u. \<forall>q. q \<notin> fst ` set bs \<longrightarrow> node_at u q = fx_nodes x q"])
      fix b u u' assume b: "b \<in> set (rev bs)" and u: "\<forall>q. q \<notin> fst ` set bs \<longrightarrow> node_at u q = fx_nodes x q"
        and r: "restore_row E gid d b u = (Inr (), u')"
      from up [of b] b obtain r0 where f: "fst b = row_path d r0" unfolding backed_up_def by auto
      show "\<forall>q. q \<notin> fst ` set bs \<longrightarrow> node_at u' q = fx_nodes x q"
      proof (intro allI impI)
        fix q assume q: "q \<notin> fst ` set bs"
        with b have "fst b \<noteq> q" by auto
        with restore_frame [OF r f] f q u show "node_at u' q = fx_nodes x q" by metis
      qed
    qed (simp add: w1 x)
    show ?thesis
    proof
      fix r assume "r \<in> set rows"
      with assms(4) \<open>preimages\<close> obtain data where pre: "actual (xe_hash E) x (row_path d r) = Inr (ro_pre r, data)" by blast
      show "\<exists>data. actual (xe_hash E) (xw_fs w') (row_path d r) = Inr (ro_pre r, data)"
      proof (cases "row_path d r \<in> fst ` set bs")
        case True
        then obtain b r0 where b: "b \<in> set bs" "fst b = row_path d r" "backed_up E x d r0 b" using up by fastforce
        with pre have "ro_pre r0 = ro_pre r" by (auto simp: backed_up_def)
        with saved [OF b(1,3)] b(2) show ?thesis by simp
      next
        case False
        with other have "node_at w' (row_path d r) = fx_nodes x (row_path d r)" by blast
        from actual_node [OF this] pre show ?thesis by metis
      qed
    qed
  next
    assume all: "list_all2 (backed_up E x d) rows bs"
    show ?thesis
    proof
      fix r assume "r \<in> set rows"
      with all obtain b where b: "b \<in> set bs" "backed_up E x d r b" by (metis list_all2_conv_all_nth in_set_conv_nth)
      from saved [OF b] b(2) show "\<exists>data. actual (xe_hash E) (xw_fs w') (row_path d r) = Inr (ro_pre r, data)"
        by (simp add: backed_up_def)
    qed
  qed
qed

lemma handler_undone:
  assumes "apply_handler E gid hk n e s = (h, w')" and "benign_hooks hk" and "no_failure gid (xw_grants (ap_world s))"
    and "\<not> no_failure gid (xw_grants w')" and "ap_space s = Some d"
    and fl: "(\<exists>rs. quiet E w d rs s) \<or> list_all2 (backed_up E (xw_fs w) d) rows (ap_backups s)"
    and pre: "\<forall>r \<in> set rows. \<exists>data. actual (xe_hash E) (xw_fs w) (row_path d r) = Inr (ro_pre r, data)"
  shows "\<forall>r \<in> set rows. \<exists>data. actual (xe_hash E) (xw_fs w') (row_path d r) = Inr (ro_pre r, data)"
  using handler_failed [OF assms(1-5)]
proof (elim disjE conjE exE)
  assume "ap_backups s = []" and fs: "xw_fs w' = xw_fs (ap_world s)"
  with fl have "rows = [] \<or> xw_fs (ap_world s) = xw_fs w" by (auto simp: quiet_def framed_empty)
  with fs pre show ?thesis by auto
next
  fix w0 w2 assume w0: "xw_fs w0 = xw_fs (ap_world s)" and r: "restore_all E gid hk d (ap_backups s) w0 = (Inr True, w2)"
    and fs: "xw_fs w' = xw_fs w2"
  from fl w0 obtain rs where "(xw_fs w0 = xw_fs w \<and> list_all2 (backed_up E (xw_fs w) d) rs (ap_backups s) \<and> True)
      \<or> list_all2 (backed_up E (xw_fs w) d) rows (ap_backups s)" by (auto simp: quiet_def framed_empty)
  from undone_rows [OF r assms(2) this] pre fs show ?thesis by simp
qed

subsection \<open>Claims\<close>

text \<open>C3. An application stays in its scope: whatever file it changes, created, replaced, deleted or left behind, and however
  it ends, the file belongs to an operation of the plan: it is the operation's file, or the temporary or the restore
  file beside it, in the registered workspace of a grant that was issued and not used, whose operations and path
  prefixes allow it, and outside every protected path.\<close>

theorem apply_confined:
  assumes "apply_plan E now plan hk w = (r, w')" and "benign_hooks hk" and "node_at w' p \<noteq> node_at w p"
  shows "\<exists>hash rows len g d row. canonical_plan (xe_hash E) plan = Inr (hash, rows, len) \<and> find_grant (ep_grant_id plan) w = Some g
    \<and> gr_state g = ''ISSUED'' \<and> map_of (rg_spaces (xw_registry w)) (gr_workspace g) = Some d \<and> row \<in> set rows
    \<and> in_scope g row \<and> path_allowed (xw_registry w) (ro_path row) \<and> p \<in> touched (ep_grant_id plan) (row_path d row)"
  using assms(1,2)
proof (cases rule: apply_plan_cases)
  case (refused e)
  with assms(3) show ?thesis by simp
next
  case (claimed n hash rows len g d rps w1 q s1)
  with assms(3) obtain row where "row \<in> set rows" "p \<in> touched (ep_grant_id plan) (row_path d row)"
    unfolding framed_def plan_paths_def by blast
  with claimed(2,4) show ?thesis unfolding claimable_def by blast
qed

theorem apply_confined_witness:
  "\<exists>row \<in> {exec_sample_row}. [''ws'', ''a''] \<in> touched ''g'' (row_path exec_sample_space row)"
proof -
  obtain tx w' where run: "exec_sample_run (\<lambda>k. None) = (Inr tx, w')" and v: "node_at w' [''ws'', ''a''] = Some (File ''x'' 1)"
    using exec_sample_applied by (auto split: prod.splits)
  have "node_at w' [''ws'', ''a''] \<noteq> node_at exec_sample [''ws'', ''a'']" using v by (simp add: exec_sample_def)
  from apply_confined [OF run [unfolded exec_sample_run_def] benign_no_hooks this] show ?thesis
    by (auto simp: exec_sample_canonical exec_sample_def find_grant_def exec_sample_grant_def)
qed

text \<open>An application under a grant that is not in the state it is claimed in: the attempt is refused before anything is written, with a
  rolled-back transaction, and only the controller's own status and last error change.\<close>

lemma unissued_refused:
  assumes "apply_plan E now plan hk w = (r, w')" and "\<forall>g. find_grant (ep_grant_id plan) w = Some g \<longrightarrow> gr_state g \<noteq> ''ISSUED''"
  shows "\<exists>e er st. r = Inl e \<and> w' = w\<lparr>xw_last_error := er, xw_status := st\<rparr>"
proof -
  let ?gid = "ep_grant_id plan"
  have same: "\<exists>er st. w = w\<lparr>xw_last_error := er, xw_status := st\<rparr>" by (intro exI [of _ "xw_last_error w"] exI [of _ "xw_status w"]) simp
  have rolled: "rollback_tables w w = w" by (simp add: rollback_tables_def)
  have claim: "\<exists>e. in_tx (claim_grant E ?gid hash rows n) w = (Inl e, w)" for hash rows n
    using assms(2) rolled by (auto simp: in_tx_def claim_grant_def seq_def query_def fail_def split: option.splits)
  have body: "\<exists>e. apply_body E ?gid hash rows n hk \<lparr>ap_world = w, ap_backups = [], ap_space = None, ap_owns = False\<rparr>
      = (Inl e, \<lparr>ap_world = w, ap_backups = [], ap_space = None, ap_owns = False\<rparr>)" for hash rows n
    using claim [of hash rows n] by (auto simp: apply_body_def seq_def on_world_def)
  have run: "\<exists>e. apply_plan E now plan hk w = (Inl e, w\<lparr>xw_last_error := Some (clean (err_class e)), xw_status := ''ERROR''\<rparr>)"
    if "now_of now = Inr n" "canonical_plan (xe_hash E) plan = Inr (hash, rows, len)" for n hash rows len
  proof -
    from body [of hash rows n] obtain e where "apply_body E ?gid hash rows n hk \<lparr>ap_world = w, ap_backups = [], ap_space = None, ap_owns = False\<rparr>
        = (Inl e, \<lparr>ap_world = w, ap_backups = [], ap_space = None, ap_owns = False\<rparr>)" by blast
    then show ?thesis by (intro exI [of _ e]) (simp add: apply_plan_def that apply_handler_def Let_def)
  qed
  show ?thesis
  proof (cases "now_of now")
    case (Inl e)
    with assms(1) same show ?thesis by (auto simp: apply_plan_def)
  next
    case n: (Inr n)
    show ?thesis
    proof (cases "canonical_plan (xe_hash E) plan")
      case (Inl e)
      with assms(1) n same show ?thesis by (auto simp: apply_plan_def)
    next
      case (Inr c)
      with run [OF n] assms(1) show ?thesis by (cases c) force
    qed
  qed
qed

text \<open>C15. A grant is used once: after an application that succeeded or changed any file, and after anything that can
  happen since, every further application under the same grant is refused and changes nothing: no file, no table,
  no grant, no transaction, no workspace; only the last error and the status the controller reports may differ.\<close>

theorem grant_used_once:
  assumes "apply_plan E now plan hk w = (r, w1)" and "benign_hooks hk" and "(\<exists>tx. r = Inr tx) \<or> xw_fs w1 \<noteq> xw_fs w"
    and "exec_step\<^sup>*\<^sup>* w1 w2" and "apply_plan E' now' plan' hk' w2 = (r', w3)" and "ep_grant_id plan' = ep_grant_id plan"
  shows "\<exists>e er st. r' = Inl e \<and> w3 = w2\<lparr>xw_last_error := er, xw_status := st\<rparr>"
proof -
  have moves: "moves_ok (spent (ep_grant_id plan)) (ep_grant_id plan) [''APPLIED'']"
    "moves_ok (spent (ep_grant_id plan)) (ep_grant_id plan) [''FAILED'', ''INTEGRITY_BLOCKED'']" by (rule spent_moves; simp)+
  from assms(1,2) have "spent (ep_grant_id plan) (xw_grants w1)"
  proof (cases rule: apply_plan_cases)
    case (refused e)
    with assms(3) show ?thesis by simp
  next
    case (claimed n hash rows len g d rps wc q s1)
    have s1: "agrants (spent (ep_grant_id plan)) s1"
      by (rule keepsD [OF gfree_claimed [OF assms(2) moves(1)] claimed(6)]) (simp add: held_def claimed_spent [OF claimed(3)])
    with claimed(9) gfree_handler [OF _ assms(2) moves(2) s1] show ?thesis by (auto simp: held_def)
  qed
  from spent_steps [OF assms(4) this] have "spent (ep_grant_id plan') (xw_grants w2)" by (simp add: assms(6))
  then show ?thesis
    by (intro unissued_refused [OF assms(5)]) (auto simp: spent_def find_grant_def dest: find_Some_mem)
qed

theorem grant_used_once_witness:
  "\<exists>tx w1 w2 e. exec_sample_run (\<lambda>k. None) = (Inr tx, w1)
     \<and> apply_plan (exec_sample_env (\<lambda>k. None)) (Finite 4) exec_sample_plan no_hooks w1 = (Inl e, w2) \<and> xw_fs w2 = xw_fs w1
     \<and> xw_grants w2 = xw_grants w1 \<and> xw_txs w2 = xw_txs w1 \<and> xw_db w2 = xw_db w1"
proof -
  obtain tx w1 where run: "exec_sample_run (\<lambda>k. None) = (Inr tx, w1)" using exec_sample_applied by (auto split: prod.splits)
  obtain r' w2 where again: "apply_plan (exec_sample_env (\<lambda>k. None)) (Finite 4) exec_sample_plan no_hooks w1 = (r', w2)" by fastforce
  from grant_used_once [OF run [unfolded exec_sample_run_def] benign_no_hooks _ rtranclp.rtrancl_refl again]
  show ?thesis using run again by fastforce
qed

text \<open>C2. A failed application is undone: when an application raises and its grant, which had not been used, ends as failed,
  every file of the plan has exactly the contents the plan expected to find, whatever step failed, also
  a step of the undoing.\<close>

theorem failed_apply_undone:
  assumes "apply_plan E now plan hk w = (Inl e, w')" and "benign_hooks hk"
    and "\<forall>g \<in> set (xw_grants w). gr_id g = ep_grant_id plan \<longrightarrow> gr_state g = ''ISSUED''"
    and "\<exists>g \<in> set (xw_grants w'). gr_id g = ep_grant_id plan \<and> gr_state g = ''FAILED''"
  shows "\<exists>hash rows len g d. canonical_plan (xe_hash E) plan = Inr (hash, rows, len) \<and> claimable E (ep_grant_id plan) rows w g d
    \<and> (\<forall>row \<in> set rows. \<exists>data. actual (xe_hash E) (xw_fs w') (row_path d row) = Inr (ro_pre row, data))"
  using assms(1,2)
proof (cases rule: apply_plan_cases)
  case (refused e')
  from assms(4) obtain g where g: "g \<in> set (xw_grants w')" "gr_id g = ep_grant_id plan" "gr_state g = ''FAILED''" by blast
  with refused(4) have "g \<in> set (xw_grants w)" by auto
  with assms(3) g(2,3) show ?thesis by auto
next
  case (claimed n hash rows len g d rps w1 q s1)
  let ?gid = "ep_grant_id plan"
  from claimed(9) obtain e' h where q: "q = Inl e'" and h: "apply_handler E ?gid hk n e' s1 = (h, w')" by auto
  have keys: "map_of (grant_keys w) ?gid = Some (gr_workspace g)" "map_of (rg_spaces (xw_registry w)) (gr_workspace g) = Some d"
    using claimed(4) find_grant_key by (auto simp: claimable_def)
  have w1: "framed {} w w1" by (rule keepsD [OF frame_in_tx [OF frame_claim] claimed(3) framed_refl])
  have nf: "no_failure ?gid (xw_grants w)" using assms(3) by (auto simp: no_failure_def)
  then have nf1: "no_failure ?gid (xw_grants w1)"
    by (rule keepsD [OF gfree_claim [OF no_failure_claim] claimed(3)])
  have nf2: "agrants (no_failure ?gid) s1"
    by (rule keepsD [OF gfree_claimed [OF assms(2) no_failure_moves] claimed(6)]) (simp_all add: held_def nf1)
  have sp: "ap_space s1 = Some d" using claimed(7) by (simp add: aframed_def)
  have pre: "\<forall>r \<in> set rows. \<exists>data. actual (xe_hash E) (xw_fs w) (row_path d r) = Inr (ro_pre r, data)"
    using claimed(4) by (auto simp: claimable_def)
  have st: "quiet E w d [] \<lparr>ap_world = w1, ap_backups = [], ap_space = Some d, ap_owns = True\<rparr>" using w1 by (simp add: quiet_def)
  note fl = claimed_failure [OF claimed(6) [unfolded q] st assms(2) keys]
  have "\<not> no_failure ?gid (xw_grants w')" using assms(4) by (auto simp: no_failure_def)
  from handler_undone [OF h assms(2) _ this sp fl pre] nf2
  have "\<forall>row \<in> set rows. \<exists>data. actual (xe_hash E) (xw_fs w') (row_path d row) = Inr (ro_pre row, data)" by (simp add: held_def)
  with claimed(2,4) show ?thesis by blast
qed

theorem failed_apply_undone_witness:
  "\<exists>e w' data. exec_sample_run exec_sample_fault = (Inl e, w')
     \<and> actual sample_hash (xw_fs w') (row_path exec_sample_space exec_sample_row) = Inr (''ABSENT'', data)"
proof -
  obtain e w' where run: "exec_sample_run exec_sample_fault = (Inl e, w')"
    and f: "\<exists>g \<in> set (xw_grants w'). gr_id g = ''g'' \<and> gr_state g = ''FAILED''" using exec_sample_failed by (auto split: prod.splits)
  have i: "\<forall>g \<in> set (xw_grants exec_sample). gr_id g = ep_grant_id exec_sample_plan \<longrightarrow> gr_state g = ''ISSUED''"
    by (simp add: exec_sample_def exec_sample_grant_def)
  from failed_apply_undone [OF run [unfolded exec_sample_run_def] benign_no_hooks i] f obtain d data
    where "map_of (rg_spaces (xw_registry exec_sample)) (gr_workspace exec_sample_grant) = Some d"
      and "actual sample_hash (xw_fs w') (row_path d exec_sample_row) = Inr (''ABSENT'', data)"
    by (auto simp: exec_sample_canonical claimable_def find_grant_def exec_sample_def exec_sample_row_def exec_sample_grant_def)
  then show ?thesis using run by (auto simp: exec_sample_def exec_sample_grant_def)
qed

end
