(* ===== verification/IngestionClaims.thy ===== *)
theory IngestionClaims
  imports Ingestion
begin

text \<open>
  What ingestion promises: every ingested task stands on a record that was ready, validated and authentic, keeps its
  provenance under all later work of the store, and is created once; the queue file may only grow.
\<close>

subsection \<open>Inversion\<close>

lemma split_lines_Nil [simp]: "split_lines s = [] \<longleftrightarrow> s = []"
  by (cases s rule: split_lines.cases) (auto split: list.splits)

lemma split_lines_concat: "concat (split_lines s) = s"
  by (induction s rule: split_lines.induct) (auto split: list.splits)

lemma ident_Inr: "ingest_ident v l = Inr s \<Longrightarrow> v = PyStr s \<and> is_identifier s"
  by (auto simp: ingest_ident_def split: pyval.splits if_splits)

lemma validate_record_D:
  assumes "validate_record H rep i m = Inr v"
  shows "dget m ''directive_id'' = PyStr (dpl_directive_id (vd_payload v))" and "is_identifier (dpl_directive_id (vd_payload v))"
    and "is_identifier (dpl_target_project (vd_payload v))" and "dpl_target_project (vd_payload v) \<in> set (map clean (ig_targets i))"
    and "dpl_action_type (vd_payload v) \<notin> set PROHIBITED_ACTIONS"
    and "map_of ACTION_CAPABILITIES (dpl_action_type (vd_payload v)) = Some (vd_capability v)"
    and "vd_key v = ingest_key H (dpl_directive_id (vd_payload v)) (env_commit_sha (vd_envelope v)) (env_payload_sha256 (vd_envelope v))"
    and "lower_hex 40 (env_commit_sha (vd_envelope v))" and "lower_hex 64 (env_payload_sha256 (vd_envelope v))"
    and "execution_ready m" and "dget m ''requires_human_approval'' = PyBool (dpl_requires_human (vd_payload v))"
proof -
  have pay: "dpl_directive_id p = did \<and> dpl_target_project p = t \<and> dpl_action_type p = a
      \<and> dget m ''requires_human_approval'' = PyBool (dpl_requires_human p)"
    if "validate_payload rep m did t a = Inr p" for did t a p
    using that by (auto simp: validate_payload_def split: pyval.splits sum.splits if_splits)
  from assms obtain did t a cap p commit blob sha src where
    ids: "dget m ''directive_id'' = PyStr did" "is_identifier did" "is_identifier t" and t: "t \<in> set (map clean (ig_targets i))"
    and a: "a \<notin> set PROHIBITED_ACTIONS" "map_of ACTION_CAPABILITIES a = Some cap" and p: "validate_payload rep m did t a = Inr p"
    and hex: "lower_hex 40 commit" "lower_hex 64 sha" and ready: "execution_ready m"
    and v: "v = \<lparr>vd_payload = p, vd_envelope = ingest_envelope did commit blob sha, vd_key = ingest_key H did commit sha,
           vd_capability = cap, vd_source_path = src\<rparr>"
    unfolding validate_record_def Let_def
    by (auto split: sum.splits if_splits option.splits dest!: ident_Inr simp del: set_map)
  from pay [OF p] ids t a hex ready show
    "dget m ''directive_id'' = PyStr (dpl_directive_id (vd_payload v))" "is_identifier (dpl_directive_id (vd_payload v))"
    "is_identifier (dpl_target_project (vd_payload v))" "dpl_target_project (vd_payload v) \<in> set (map clean (ig_targets i))"
    "dpl_action_type (vd_payload v) \<notin> set PROHIBITED_ACTIONS"
    "map_of ACTION_CAPABILITIES (dpl_action_type (vd_payload v)) = Some (vd_capability v)"
    "vd_key v = ingest_key H (dpl_directive_id (vd_payload v)) (env_commit_sha (vd_envelope v)) (env_payload_sha256 (vd_envelope v))"
    "lower_hex 40 (env_commit_sha (vd_envelope v))" "lower_hex 64 (env_payload_sha256 (vd_envelope v))"
    "execution_ready m" "dget m ''requires_human_approval'' = PyBool (dpl_requires_human (vd_payload v))"
    by (simp_all add: v ingest_envelope_def)
qed

lemma ingest_commit_D:
  assumes "ingest_commit path k sha b human g d = (r, g', d')"
  obtains (refused) e where "r = Inl e" and "d' = d" and "g' = g \<or> (\<exists>x. g' = block_source x g)"
  | (known) r0 where "r = Inr None" and "d' = d" and "g' = note_ingested path k sha b g"
      and "r0 \<in> set (in_provenance g)" and "r0\<lparr>pv_ingested_at := pv_ingested_at b\<rparr> = b"
  | (created) "\<not> db_locked d" and "task_insert_ok (ingested_task b human) d"
      and "find (\<lambda>r. pv_directive_id r = pv_directive_id b \<or> pv_task_id r = pv_task_id b) (in_provenance g) = None"
      and "g' = note_ingested path k sha b (g\<lparr>in_provenance := in_provenance g @ [b]\<rparr>)"
      and "d' = audit (pv_task_id b) ''DIRECTIVE_INGESTED'' (pv_ingested_at b)
                  (''directive='' @ pv_directive_id b @ '';action='' @ pv_action b) (insert_task (ingested_task b human) d)"
      and "(\<exists>e. r = Inl e) \<or> (\<exists>t. get_task (pv_task_id b) d' = Inr t \<and> r = Inr (Some \<lparr>ir_task_id = pv_task_id b,
         ir_directive_id = pv_directive_id b, ir_created = True, ir_state = t_state t\<rparr>))"
proof (cases "db_locked d \<or> (case find (\<lambda>r. qr_sequence r = k) (in_records g) of None \<Rightarrow> False
          | Some r \<Rightarrow> qr_line_sha r \<noteq> sha \<or> qr_directive_id r \<noteq> pv_directive_id b)")
  case True
  with assms have "\<exists>e. r = Inl e" "d' = d" "g' = g \<or> g' = block_source ''QUEUE_SEQUENCE_CONFLICT'' g"
    by (auto simp: ingest_commit_def split: if_splits)
  then show ?thesis by (auto intro: refused)
next
  case False
  note run = assms [unfolded ingest_commit_def, simplified False]
  show ?thesis
  proof (cases "find (\<lambda>r. pv_directive_id r = pv_directive_id b \<or> pv_task_id r = pv_task_id b) (in_provenance g)")
    case (Some old)
    with False assms show ?thesis
      by (cases "old\<lparr>pv_ingested_at := pv_ingested_at b\<rparr> = b")
        (auto simp: ingest_commit_def intro: refused known dest: find_Some_mem split: if_splits)
  next
    case None
    show ?thesis
    proof (cases "task_insert_ok (ingested_task b human) d")
      case True
      with False None assms show ?thesis
        by (intro created) (auto simp: ingest_commit_def Let_def split: sum.splits if_splits)
    next
      case no: False
      with False None assms show ?thesis by (intro refused) (auto simp: ingest_commit_def split: if_splits)
    qed
  qed
qed

lemma ingest_record_D:
  assumes "ingest_record H rep clock i k rc g d = (r, g', d')"
  obtains (early) e where "r = Inl e" and "g' = g" and "d' = d"
  | (commit) v signer n where "validate_record H rep i (fst rc) = Inr v" and "verify_record rep i v (fst rc) = Inr signer"
      and "now_of (clock k) = Inr n"
      and "ingest_commit (ig_path i) k (snd rc) (provenance_of H v signer n) (dpl_requires_human (vd_payload v)) g d = (r, g', d')"
  using assms by (auto simp: ingest_record_def split: sum.splits)

lemma provenance_simps [simp]:
  "pv_directive_id (provenance_of H v s n) = dpl_directive_id (vd_payload v)"
  "pv_task_id (provenance_of H v s n) = deterministic_task_id H (dpl_directive_id (vd_payload v)) (vd_key v)"
  "pv_key (provenance_of H v s n) = vd_key v" "pv_capability (provenance_of H v s n) = vd_capability v"
  "pv_action (provenance_of H v s n) = dpl_action_type (vd_payload v)" "pv_target (provenance_of H v s n) = dpl_target_project (vd_payload v)"
  "pv_commit (provenance_of H v s n) = env_commit_sha (vd_envelope v)"
  "pv_payload_sha (provenance_of H v s n) = env_payload_sha256 (vd_envelope v)"
  by (simp_all add: provenance_of_def Let_def)

lemma note_simps [simp]:
  "in_provenance (note_ingested p k sha b g) = in_provenance g" "in_provenance (block_source x g) = in_provenance g"
  "in_records (block_source x g) = in_records g" "is_source_path (in_state (note_ingested p k sha b g)) = p"
  by (simp_all add: note_ingested_def block_source_def)

subsection \<open>The ingestion invariant\<close>

definition sequenced :: "ingestion \<Rightarrow> bool" where
  "sequenced g \<longleftrightarrow> map qr_sequence (in_records g) = [1..<Suc (length (in_records g))]"

text \<open>A provenance row is derived from its directive, names a read-only capability, and has its task.\<close>

definition provenance_ok :: "(string \<Rightarrow> string) \<Rightarrow> db \<Rightarrow> provenance_row \<Rightarrow> bool" where
  "provenance_ok H d b \<longleftrightarrow> pv_key b = ingest_key H (pv_directive_id b) (pv_commit b) (pv_payload_sha b)
     \<and> pv_task_id b = deterministic_task_id H (pv_directive_id b) (pv_key b)
     \<and> pv_action b \<notin> set PROHIBITED_ACTIONS \<and> map_of ACTION_CAPABILITIES (pv_action b) = Some (pv_capability b)
     \<and> lower_hex 40 (pv_commit b) \<and> lower_hex 64 (pv_payload_sha b)
     \<and> (\<exists>t. find_task (pv_task_id b) d = Some t \<and> t_directive_id t = Some (pv_directive_id b)
          \<and> t_target_project t = pv_target b \<and> t_capability t = pv_capability b \<and> t_governance_allowed t)"

definition ingest_inv :: "(string \<Rightarrow> string) \<Rightarrow> ingestion \<Rightarrow> db \<Rightarrow> bool" where
  "ingest_inv H g d \<longleftrightarrow> sequenced g \<and> distinct (map pv_task_id (in_provenance g))
     \<and> distinct (map pv_directive_id (in_provenance g)) \<and> (\<forall>b \<in> set (in_provenance g). provenance_ok H d b)"

lemma provenance_ok_evolves:
  assumes "provenance_ok H d b" and "db_evolves d d'"
  shows "provenance_ok H d' b"
proof -
  from assms obtain t t' where "find_task (pv_task_id b) d = Some t" "t_directive_id t = Some (pv_directive_id b)"
      "t_target_project t = pv_target b" "t_capability t = pv_capability b" "t_governance_allowed t"
    and "find_task (pv_task_id b) d' = Some t'" "task_evolves t t'"
    by (fastforce simp: provenance_ok_def db_evolves_def)
  with assms(1) show ?thesis by (auto simp: provenance_ok_def task_evolves_def same_order_def)
qed

lemma ingest_inv_evolves: "ingest_inv H g d \<Longrightarrow> db_evolves d d' \<Longrightarrow> ingest_inv H g d'"
  by (auto simp: ingest_inv_def intro: provenance_ok_evolves)

lemma deterministic_task_id_clean:
  assumes "\<forall>s. lower_hex 64 (H s)"
  shows "clean (deterministic_task_id H did key) = deterministic_task_id H did key"
proof -
  let ?h = "H (''AF04_TASK_V1'' @ CHR 0x0A # did @ CHR 0x0A # key @ [CHR 0x0A])"
  from assms have h: "lower_hex 64 ?h" by blast
  have "ident_char c" if "is_digit c \<or> (97 \<le> ord_of c \<and> ord_of c \<le> 102)" for c
    using that by (auto simp: ident_char_def is_alnum_def is_lower_def)
  with h have "list_all ident_char ?h" "length ?h = 64" by (auto simp: lower_hex_def list_all_iff)
  then have "is_identifier (''af04-'' @ ?h)" by (simp add: is_alnum_def is_lower_def is_digit_def ident_char_def)
  then show ?thesis unfolding deterministic_task_id_def by (rule clean_identifier)
qed

text \<open>Ingestion leaves every existing task as it is.\<close>

definition db_extends :: "db \<Rightarrow> db \<Rightarrow> bool" where
  "db_extends d d' \<longleftrightarrow> (\<forall>i t. find_task i d = Some t \<longrightarrow> find_task i d' = Some t)"

lemma db_extends_refl [simp]: "db_extends d d"
  by (simp add: db_extends_def)

lemma db_extends_trans: "db_extends a b \<Longrightarrow> db_extends b c \<Longrightarrow> db_extends a c"
  by (simp add: db_extends_def)

lemma db_extends_evolves: "db_extends d d' \<Longrightarrow> db_evolves d d'"
  by (simp add: db_extends_def db_evolves_def)

lemma insert_extends: "db_extends d (audit i e n x (insert_task t d))"
  by (auto simp: db_extends_def find_task_def insert_task_def find_append_Some)

text \<open>The store with the ingestion: an operation of the store, or an ingestion of any queue file under any authority.\<close>

inductive pipeline_step :: "(string \<Rightarrow> string) \<Rightarrow> ingestion \<times> db \<Rightarrow> ingestion \<times> db \<Rightarrow> bool" for H where
  store_work: "store_step d d' \<Longrightarrow> pipeline_step H (g, d) (g, d')"
| ingestion_run: "ingest H loads rep clock i queue g d = (r, g', d') \<Longrightarrow> pipeline_step H (g, d) (g', d')"

definition pipeline_reachable :: "(string \<Rightarrow> string) \<Rightarrow> ingestion \<Rightarrow> db \<Rightarrow> bool" where
  "pipeline_reachable H g d \<longleftrightarrow> (pipeline_step H)\<^sup>*\<^sup>* (fresh_ingestion, init_db) (g, d)"

definition pipeline_inv :: "string set \<Rightarrow> (string \<Rightarrow> string) \<Rightarrow> ingestion \<Rightarrow> db \<Rightarrow> bool" where
  "pipeline_inv X H g d \<longleftrightarrow> db_inv_with X d \<and> ingest_inv H g d"

text \<open>Where the loop stands: it skips what was persisted, then numbers on.\<close>

definition loop_at :: "nat \<Rightarrow> nat \<Rightarrow> ingestion \<Rightarrow> bool" where
  "loop_at n k g \<longleftrightarrow> (k \<le> n \<and> n = length (in_records g)) \<or> (n < k \<and> k = Suc (length (in_records g)))"

lemma note_records:
  assumes "sequenced g" and "k = Suc (length (in_records g))"
  shows "in_records (note_ingested p k sha b g) = in_records g @ [\<lparr>qr_sequence = k, qr_line_sha = sha, qr_directive_id = pv_directive_id b\<rparr>]"
    and "sequenced (note_ingested p k sha b g)"
proof -
  have "qr_sequence r \<le> length (in_records g)" if "r \<in> set (in_records g)" for r
  proof -
    from that have "qr_sequence r \<in> set (map qr_sequence (in_records g))" by simp
    then have "qr_sequence r \<in> {1..<Suc (length (in_records g))}" using assms(1) by (simp only: sequenced_def set_upt)
    then show ?thesis by simp
  qed
  with assms(2) have "\<not> (\<exists>r \<in> set (in_records g). qr_sequence r = k)" by fastforce
  then show rs: "in_records (note_ingested p k sha b g) = in_records g @ [\<lparr>qr_sequence = k, qr_line_sha = sha, qr_directive_id = pv_directive_id b\<rparr>]"
    by (simp add: note_ingested_def)
  with assms show "sequenced (note_ingested p k sha b g)" by (simp add: sequenced_def)
qed

lemma note_records_prov:
  "in_records (note_ingested p k sha b (g\<lparr>in_provenance := q\<rparr>)) = in_records (note_ingested p k sha b g)"
  "sequenced (note_ingested p k sha b (g\<lparr>in_provenance := q\<rparr>)) = sequenced (note_ingested p k sha b g)"
  by (simp_all add: note_ingested_def sequenced_def)

lemma record_inv:
  assumes run: "ingest_record H rep clock i k rc g d = (r, g', d')" and inv: "pipeline_inv X H g d"
    and hash: "\<forall>s. lower_hex 64 (H s)" and k: "k = Suc (length (in_records g))"
  shows "pipeline_inv X H g' d' \<and> db_extends d d'
    \<and> (\<forall>x. r = Inr x \<longrightarrow> (\<exists>row. in_records g' = in_records g @ [row] \<and> same_record row rc))
    \<and> (\<forall>e. r = Inl e \<longrightarrow> in_records g' = in_records g \<and> d' = d \<or> (\<exists>row. in_records g' = in_records g @ [row] \<and> same_record row rc))"
  using run
proof (cases rule: ingest_record_D)
  case (commit v signer n)
  note seq = note_records [OF _ k, of "ig_path i" "snd rc" "provenance_of H v signer n"]
  note v = validate_record_D [OF commit(1)]
  let ?b = "provenance_of H v signer n" and ?t = "ingested_task (provenance_of H v signer n) (dpl_requires_human (vd_payload v))"
  from inv have db: "db_inv_with X d" and gi: "ingest_inv H g d" and sq: "sequenced g" by (auto simp: pipeline_inv_def ingest_inv_def)
  have same: "same_record \<lparr>qr_sequence = k, qr_line_sha = snd rc, qr_directive_id = pv_directive_id ?b\<rparr> rc"
    using v(1) by (simp add: same_record_def)
  from commit(4) show ?thesis
  proof (cases rule: ingest_commit_D)
    case (refused e)
    with inv show ?thesis by (auto simp: pipeline_inv_def ingest_inv_def sequenced_def)
  next
    case (known r0)
    with inv seq [OF sq] same show ?thesis by (auto simp: pipeline_inv_def ingest_inv_def)
  next
    case created
    have clean: "clean (pv_task_id ?b) = pv_task_id ?b" by (simp add: deterministic_task_id_clean [OF hash])
    have row: "task_ok (worker_ids d) (evidenced X d) ?t"
      unfolding ingested_task_def by (rule task_ok_new_task) (use clean in simp_all)
    have db': "db_inv_with X d'" unfolding created(5)
      by (intro db_inv_audit insert_task_inv [OF db created(2) row]) (simp add: ingested_task_def new_task_def)
    have ev: "db_extends d d'" unfolding created(5) by (rule insert_extends)
    have "find_task (pv_task_id ?b) d = None"
      using created(2) by (auto simp: task_insert_ok_def ingested_task_def new_task_def find_task_def find_None_iff)
    then have "find_task (pv_task_id ?b) d' = Some ?t"
      by (simp add: created(5) find_task_def insert_task_def find_append_None ingested_task_def new_task_def)
    then have "provenance_ok H d' ?b" using v by (simp add: provenance_ok_def ingested_task_def new_task_def)
    moreover have "pv_task_id ?b \<notin> pv_task_id ` set (in_provenance g)" "pv_directive_id ?b \<notin> pv_directive_id ` set (in_provenance g)"
      using created(3) by (auto simp: find_None_iff)
    ultimately have "ingest_inv H g' d'"
      using gi provenance_ok_evolves [OF _ db_extends_evolves [OF ev]] seq(2) [OF sq] by (auto simp: ingest_inv_def created(4) note_records_prov)
    then show ?thesis using db' ev seq(1) [OF sq] same by (auto simp: pipeline_inv_def created(4) note_records_prov)
  qed
qed (use inv in auto)

lemma loop_step:
  "ingest_loop H rep clock i n k (rc # rcs) out g d = (r, g', d') \<Longrightarrow>
    (k \<le> n \<and> ingest_loop H rep clock i n (Suc k) rcs out g d = (r, g', d'))
    \<or> (n < k \<and> (\<exists>e. ingest_record H rep clock i k rc g d = (Inl e, g', d') \<and> r = Inl e))
    \<or> (n < k \<and> (\<exists>x g1 d1 out1. ingest_record H rep clock i k rc g d = (Inr x, g1, d1)
          \<and> ingest_loop H rep clock i n (Suc k) rcs out1 g1 d1 = (r, g', d')))"
  by (auto split: if_splits sum.splits option.splits prod.splits)

lemma loop_inv:
  assumes "ingest_loop H rep clock i n k rcs out g d = (r, g', d')" and "pipeline_inv X H g d" and "loop_at n k g"
    and hash: "\<forall>s. lower_hex 64 (H s)"
  shows "pipeline_inv X H g' d' \<and> db_extends d d' \<and> prefix (in_records g) (in_records g')"
  using assms(1-3)
proof (induction rcs arbitrary: k out g d)
  case (Cons rc rcs)
  from loop_step [OF Cons.prems(1)] show ?case
  proof (elim disjE conjE exE)
    assume "k \<le> n" and l: "ingest_loop H rep clock i n (Suc k) rcs out g d = (r, g', d')"
    with Cons.prems(3) have "loop_at n (Suc k) g" by (auto simp: loop_at_def)
    with Cons.IH [OF l Cons.prems(2)] show ?thesis .
  next
    fix e assume "n < k" and e: "ingest_record H rep clock i k rc g d = (Inl e, g', d')"
    with Cons.prems(3) have "k = Suc (length (in_records g))" by (auto simp: loop_at_def)
    from record_inv [OF e Cons.prems(2) hash this] show ?thesis by auto
  next
    fix x g1 d1 out1 assume "n < k" and one: "ingest_record H rep clock i k rc g d = (Inr x, g1, d1)"
      and l: "ingest_loop H rep clock i n (Suc k) rcs out1 g1 d1 = (r, g', d')"
    with Cons.prems(3) have k: "k = Suc (length (in_records g))" by (auto simp: loop_at_def)
    from record_inv [OF one Cons.prems(2) hash k] obtain row where i1: "pipeline_inv X H g1 d1" "db_extends d d1"
        "in_records g1 = in_records g @ [row]" by auto
    then have "loop_at n (Suc k) g1" using \<open>n < k\<close> k by (simp add: loop_at_def)
    with Cons.IH [OF l i1(1)] i1(2,3) show ?thesis by (auto intro: db_extends_trans elim: prefixE)
  qed
qed simp

lemma record_path: "ingest_record H rep clock i k rc g d = (Inr x, g', d') \<Longrightarrow> is_source_path (in_state g') = ig_path i"
  by (erule ingest_record_D, simp, erule ingest_commit_D) auto

lemma loop_new:
  assumes "ingest_loop H rep clock i n k rcs out g d = (Inr res, g', d')" and "pipeline_inv X H g d" and "n < k"
    and "k = Suc (length (in_records g))" and hash: "\<forall>s. lower_hex 64 (H s)"
  shows "(\<exists>rows. in_records g' = in_records g @ rows \<and> list_all2 same_record rows rcs)
    \<and> (is_source_path (in_state g') = is_source_path (in_state g) \<or> is_source_path (in_state g') = ig_path i)"
  using assms(1-4)
proof (induction rcs arbitrary: k out g d)
  case (Cons rc rcs)
  from loop_step [OF Cons.prems(1)] Cons.prems(3) obtain x g1 d1 out1 where one: "ingest_record H rep clock i k rc g d = (Inr x, g1, d1)"
    and l: "ingest_loop H rep clock i n (Suc k) rcs out1 g1 d1 = (Inr res, g', d')" by auto
  from record_inv [OF one Cons.prems(2) hash Cons.prems(4)] obtain row where i1: "pipeline_inv X H g1 d1"
    and row: "in_records g1 = in_records g @ [row]" "same_record row rc" by auto
  from Cons.IH [OF l i1] Cons.prems(3,4) row(1) obtain rows where "in_records g' = in_records g1 @ rows"
    and "list_all2 same_record rows rcs" by auto
  then have "in_records g' = in_records g @ row # rows \<and> list_all2 same_record (row # rows) (rc # rcs)" using row by simp
  moreover have "is_source_path (in_state g') = ig_path i"
    using Cons.IH [OF l i1] Cons.prems(3,4) row(1) record_path [OF one] by auto
  ultimately show ?case by blast
qed simp

text \<open>However the loop ends, what it added to the records are the next lines of the file; with none added the store is the same.\<close>

lemma loop_rows:
  assumes "ingest_loop H rep clock i n k rcs out g d = (r, g', d')" and "pipeline_inv X H g d" and "n < k"
    and "k = Suc (length (in_records g))" and hash: "\<forall>s. lower_hex 64 (H s)"
  shows "\<exists>rows. in_records g' = in_records g @ rows \<and> list_all2 same_record rows (take (length rows) rcs) \<and> (rows = [] \<longrightarrow> d' = d)"
  using assms(1-4)
proof (induction rcs arbitrary: k out g d)
  case (Cons rc rcs)
  from loop_step [OF Cons.prems(1)] Cons.prems(3) show ?case
  proof (elim disjE conjE exE)
    fix e assume e: "ingest_record H rep clock i k rc g d = (Inl e, g', d')"
    from record_inv [OF e Cons.prems(2) hash Cons.prems(4)] show ?thesis
      by (auto intro: exI [of _ "[]"] exI [of _ "[x]" for x])
  next
    fix x g1 d1 out1 assume one: "ingest_record H rep clock i k rc g d = (Inr x, g1, d1)"
      and l: "ingest_loop H rep clock i n (Suc k) rcs out1 g1 d1 = (r, g', d')"
    from record_inv [OF one Cons.prems(2) hash Cons.prems(4)] obtain row where i1: "pipeline_inv X H g1 d1"
      and row: "in_records g1 = in_records g @ [row]" "same_record row rc" by auto
    from Cons.IH [OF l i1] Cons.prems(3,4) row(1) obtain rows where "in_records g' = in_records g1 @ rows"
      and "list_all2 same_record rows (take (length rows) rcs)" by auto
    with row show ?thesis by (intro exI [of _ "row # rows"]) simp
  qed simp
qed simp

lemma loop_skip:
  "k + length ps = Suc n \<Longrightarrow> ingest_loop H rep clock i n k (ps @ rcs) out g d = ingest_loop H rep clock i n (Suc n) rcs out g d"
  by (induction ps arbitrary: k) simp_all

lemma persisted_sequenced: "sequenced g \<Longrightarrow> persisted_rows g = in_records g"
proof -
  assume "sequenced g"
  then have "sorted (map qr_sequence (in_records g))" unfolding sequenced_def by (simp only: sorted_upt)
  then show ?thesis unfolding persisted_rows_def by (rule sort_key_id_if_sorted)
qed

lemma read_records_D:
  assumes "read_records H loads locked i queue g = (Inr rcs, g')" and "sequenced g"
  obtains raw where "queue = Some raw" and "g' = g" and "parse_lines H loads (split_lines raw) = Inr rcs"
    and "length (in_records g) \<le> length rcs" and "list_all2 same_record (in_records g) (take (length (in_records g)) rcs)"
    and "is_source_path (in_state g) = [] \<or> is_source_path (in_state g) = ig_path i"
    and "length raw \<le> MAX_QUEUE_BYTES" and "length (split_lines raw) \<le> MAX_RECORDS"
  using assms(1) persisted_sequenced [OF assms(2)]
  by (auto simp: read_records_def fail_source_def split: option.splits if_splits sum.splits prod.splits)

lemma ingest_success:
  assumes "ingest H loads rep clock i queue g d = (Inr out, g', d')" and "pipeline_inv X H g d" and "\<forall>s. lower_hex 64 (H s)"
  obtains raw rcs where "queue = Some raw" and "parse_lines H loads (split_lines raw) = Inr rcs"
    and "list_all2 same_record (in_records g') rcs" and "prefix (in_records g) (in_records g')"
    and "is_source_path (in_state g') = [] \<or> is_source_path (in_state g') = ig_path i"
    and "length raw \<le> MAX_QUEUE_BYTES" and "length (split_lines raw) \<le> MAX_RECORDS"
proof -
  let ?n = "length (in_records g)"
  have sq: "sequenced g" using assms(2) by (simp add: pipeline_inv_def ingest_inv_def)
  from assms(1) obtain rcs where rd: "read_records H loads (db_locked d) i queue g = (Inr rcs, g)"
    and lp: "ingest_loop H rep clock i ?n 1 rcs [] g d = (Inr out, g', d')"
    by (auto simp: ingest_def split: sum.splits prod.splits elim: read_records_D [OF _ sq])
  from rd sq show thesis
  proof (cases rule: read_records_D)
    case (1 raw)
    have "ingest_loop H rep clock i ?n 1 (take ?n rcs @ drop ?n rcs) [] g d = ingest_loop H rep clock i ?n (Suc ?n) (drop ?n rcs) [] g d"
      by (rule loop_skip) (use 1(4) in simp)
    with lp have new: "ingest_loop H rep clock i ?n (Suc ?n) (drop ?n rcs) [] g d = (Inr out, g', d')" by simp
    from loop_new [OF new assms(2) _ refl assms(3)] obtain rows where rows: "in_records g' = in_records g @ rows"
        "list_all2 same_record rows (drop ?n rcs)" and path: "is_source_path (in_state g') = is_source_path (in_state g)
          \<or> is_source_path (in_state g') = ig_path i" by auto
    have "list_all2 same_record (in_records g @ rows) (take ?n rcs @ drop ?n rcs)" by (rule list_all2_appendI [OF 1(5) rows(2)])
    with that [OF 1(1,3)] rows(1) path 1(6-8) show thesis by auto
  qed
qed

lemma ingest_loop_from_1: "sequenced g \<Longrightarrow> loop_at (length (in_records g)) 1 g"
  by (cases "in_records g") (auto simp: loop_at_def)

lemma ingest_inv_step:
  assumes "ingest H loads rep clock i queue g d = (r, g', d')" and "pipeline_inv X H g d" and "\<forall>s. lower_hex 64 (H s)"
  shows "pipeline_inv X H g' d' \<and> db_extends d d' \<and> prefix (in_records g) (in_records g')"
proof -
  have sq: "sequenced g" using assms(2) by (simp add: pipeline_inv_def ingest_inv_def)
  have blk: "pipeline_inv X H (block_source x g) d" for x
    using assms(2) by (auto simp: pipeline_inv_def ingest_inv_def sequenced_def)
  obtain q g1 where rd: "read_records H loads (db_locked d) i queue g = (q, g1)" by fastforce
  show ?thesis
  proof (cases q)
    case (Inl e)
    with rd have "g1 = g \<or> (\<exists>x. g1 = block_source x g)"
      by (auto simp: read_records_def fail_source_def split: option.splits if_splits sum.splits prod.splits)
    with assms(1,2) rd Inl blk show ?thesis by (auto simp: ingest_def)
  next
    case (Inr rcs)
    with rd have "g1 = g" by (auto elim: read_records_D [OF _ sq])
    with assms(1) rd Inr have "ingest_loop H rep clock i (length (in_records g)) 1 rcs [] g d = (r, g', d')" by (simp add: ingest_def)
    from loop_inv [OF this assms(2) ingest_loop_from_1 [OF sq] assms(3)] show ?thesis .
  qed
qed

lemma pipeline_step_inv:
  assumes "pipeline_step H s s'" and "pipeline_inv X H (fst s) (snd s)" and "\<forall>s. lower_hex 64 (H s)"
  shows "pipeline_inv X H (fst s') (snd s') \<and> prefix (in_records (fst s)) (in_records (fst s'))"
  using assms
proof (induction rule: pipeline_step.induct)
  case (store_work d d' g)
  then show ?case by (auto simp: pipeline_inv_def intro: store_step_inv ingest_inv_evolves step_evolves [where X = X])
next
  case (ingestion_run loads rep clock i queue g d r g' d')
  then show ?case using ingest_inv_step by fastforce
qed

lemma pipeline_steps_inv:
  assumes "(pipeline_step H)\<^sup>*\<^sup>* s s'" and "pipeline_inv X H (fst s) (snd s)" and "\<forall>s. lower_hex 64 (H s)"
  shows "pipeline_inv X H (fst s') (snd s') \<and> prefix (in_records (fst s)) (in_records (fst s'))"
  using assms(1)
proof (induction rule: rtranclp_induct)
  case (step y z)
  with pipeline_step_inv [OF step(2) _ assms(3)] show ?case by (auto intro: prefix_order.trans)
qed (use assms(2) in simp)

lemma pipeline_reachable_inv:
  assumes "pipeline_reachable H g d" and "\<forall>s. lower_hex 64 (H s)"
  shows "pipeline_inv X H g d"
proof -
  have "pipeline_inv X H fresh_ingestion init_db"
    by (simp add: pipeline_inv_def ingest_inv_def init_db_inv fresh_ingestion_def sequenced_def)
  with pipeline_steps_inv [OF assms(1) [unfolded pipeline_reachable_def] _ assms(2)] show ?thesis by simp
qed

subsection \<open>Claims\<close>

text \<open>
  What a task that ingestion created stands on, spelled out over the fields of the record \<open>m\<close>: the record says it is ready, read back and
  not executed; its hashes are of their lengths and its key is the hash of the directive and them; the source is a
  file of the inbox; target and action are supported, the action is not prohibited and gives the capability; the payload agrees with
  the record, also on the human flag; the authority called that payload with these hashes authentic, signed by an allowed signer
  (the record's) and descended from the trusted branch, and agrees on the human flag.
\<close>

definition confirmed :: "(pyval \<Rightarrow> string) \<Rightarrow> ingestor \<Rightarrow> DirectivePayload \<Rightarrow> DirectiveEnvelope \<Rightarrow> string \<Rightarrow> dict \<Rightarrow> bool" where
  "confirmed rep i p env src m \<longleftrightarrow> (\<exists>f human meta. ig_verifier i = Some f \<and> f p env src = Verdict ''AUTHENTIC'' human meta
     \<and> truthy (dget meta ''signature_valid'') \<and> truthy (dget meta ''signer_allowed'') \<and> truthy (dget meta ''remote_ancestry_verified'')
     \<and> dget meta ''payload_commit_sha'' = PyStr (env_commit_sha env) \<and> dget meta ''payload_blob_sha'' = PyStr (env_blob_sha env)
     \<and> dget meta ''payload_sha256'' = PyStr (env_payload_sha256 env)
     \<and> clean_value rep (dget_or meta ''signer_identity'' (PyStr [])) = clean_value rep (dget_or m ''signer_identity'' (PyStr []))
     \<and> truthy human = dpl_requires_human p)"

definition record_checked :: "(string \<Rightarrow> string) \<Rightarrow> (pyval \<Rightarrow> string) \<Rightarrow> ingestor \<Rightarrow> dict \<Rightarrow> DirectiveEnvelope \<Rightarrow> string \<Rightarrow> DirectivePayload \<Rightarrow> bool" where
  "record_checked H rep i m env src p \<longleftrightarrow>
     dget m ''directive_id'' = PyStr (env_directive_id env) \<and> is_identifier (env_directive_id env)
     \<and> dget m ''queue_state'' = PyStr ''READY_FOR_FUTURE_EXECUTOR'' \<and> dget m ''readback_verified'' = PyBool True \<and> dget m ''executed'' = PyBool False
     \<and> env_commit_sha env = hash_text rep m ''directive_source_sha'' \<and> lower_hex 40 (env_commit_sha env)
     \<and> env_blob_sha env = hash_text rep m ''directive_blob_sha'' \<and> lower_hex 40 (env_blob_sha env)
     \<and> env_payload_sha256 env = hash_text rep m ''directive_payload_sha256'' \<and> lower_hex 64 (env_payload_sha256 env)
     \<and> dget m ''idempotency_key'' = PyStr (H (env_directive_id env @ '':'' @ env_commit_sha env @ '':'' @ env_payload_sha256 env))
     \<and> (\<exists>s name. dget m ''directive_source_path'' = PyStr s \<and> \<not> prefix ''/'' s \<and> path_parts s = [''directives'', ''inbox'', name]
          \<and> is_identifier name \<and> suffix ''.json'' name \<and> src = ''directives/inbox/'' @ name)
     \<and> dget m ''target_project'' = PyStr (dpl_target_project p) \<and> dpl_target_project p \<in> set (map clean (ig_targets i))
     \<and> dget m ''action_type'' = PyStr (dpl_action_type p) \<and> dpl_action_type p \<notin> set PROHIBITED_ACTIONS
     \<and> (\<exists>raw. dget m ''directive_payload'' = PyDict raw \<and> payload_from_dict rep raw = Inr p)
     \<and> dpl_directive_id p = env_directive_id env \<and> dget m ''requires_human_approval'' = PyBool (dpl_requires_human p)"

text \<open>The task that such a record stands for.\<close>

definition task_of_record :: "(string \<Rightarrow> string) \<Rightarrow> DirectiveEnvelope \<Rightarrow> DirectivePayload \<Rightarrow> task \<Rightarrow> bool" where
  "task_of_record H env p t \<longleftrightarrow> t_directive_id t = Some (env_directive_id env)
     \<and> t_id t = deterministic_task_id H (env_directive_id env) (H (env_directive_id env @ '':'' @ env_commit_sha env @ '':'' @ env_payload_sha256 env))
     \<and> t_target_project t = dpl_target_project p \<and> map_of ACTION_CAPABILITIES (dpl_action_type p) = Some (t_capability t)
     \<and> t_attempt_count t = 0 \<and> t_lease_id t = None \<and> t_requires_human_approval t = dpl_requires_human p
     \<and> t_state t = (if dpl_requires_human p then TaskState.WAITING_HUMAN else TaskState.QUEUED)"

definition stands_on :: "(string \<Rightarrow> string) \<Rightarrow> (pyval \<Rightarrow> string) \<Rightarrow> ingestor \<Rightarrow> task \<Rightarrow> dict \<Rightarrow> bool" where
  "stands_on H rep i t m \<longleftrightarrow> (\<exists>env src p. record_checked H rep i m env src p \<and> confirmed rep i p env src m \<and> task_of_record H env p t)"

lemma source_path_D:
  assumes "source_path v = Inr src"
  shows "\<exists>s name. v = PyStr s \<and> \<not> prefix ''/'' s \<and> path_parts s = [''directives'', ''inbox'', name] \<and> is_identifier name \<and> suffix ''.json'' name
    \<and> src = ''directives/inbox/'' @ name"
  using assms by (auto simp: source_path_def split: pyval.splits if_splits list.splits)

lemma validate_payload_D:
  assumes "validate_payload rep m did t a = Inr p"
  shows "\<exists>raw. dget m ''directive_payload'' = PyDict raw \<and> payload_from_dict rep raw = Inr p" and "dpl_directive_id p = did"
    and "dpl_target_project p = t" and "dpl_action_type p = a" and "dget m ''requires_human_approval'' = PyBool (dpl_requires_human p)"
  using assms by (auto simp: validate_payload_def split: pyval.splits sum.splits if_splits)

lemma record_stands:
  assumes "validate_record H rep i m = Inr v" and "verify_record rep i v m = Inr signer"
  shows "stands_on H rep i (ingested_task (provenance_of H v signer n) (dpl_requires_human (vd_payload v))) m"
proof -
  let ?commit = "hash_text rep m ''directive_source_sha''" and ?blob = "hash_text rep m ''directive_blob_sha''"
    and ?sha = "hash_text rep m ''directive_payload_sha256''"
  from assms(1) obtain did t a cap p src where
    ids: "dget m ''directive_id'' = PyStr did" "is_identifier did" and ready: "execution_ready m"
    and hex: "lower_hex 40 ?commit" "lower_hex 40 ?blob" "lower_hex 64 ?sha"
    and key: "dget m ''idempotency_key'' = PyStr (ingest_key H did ?commit ?sha)"
    and src: "source_path (dget m ''directive_source_path'') = Inr src"
    and t: "dget m ''target_project'' = PyStr t" "t \<in> set (map clean (ig_targets i))"
    and a: "dget m ''action_type'' = PyStr a" "a \<notin> set PROHIBITED_ACTIONS" "map_of ACTION_CAPABILITIES a = Some cap"
    and p: "validate_payload rep m did t a = Inr p"
    and v: "v = \<lparr>vd_payload = p, vd_envelope = ingest_envelope did ?commit ?blob ?sha, vd_key = ingest_key H did ?commit ?sha,
           vd_capability = cap, vd_source_path = src\<rparr>"
    unfolding validate_record_def Let_def
    by (auto split: sum.splits if_splits option.splits dest!: ident_Inr simp del: set_map)
  let ?env = "ingest_envelope did ?commit ?blob ?sha"
  have env: "env_directive_id ?env = did" "env_commit_sha ?env = ?commit" "env_blob_sha ?env = ?blob" "env_payload_sha256 ?env = ?sha"
    by (simp_all add: ingest_envelope_def)
  note pay = validate_payload_D [OF p]
  have "record_checked H rep i m ?env src p"
    unfolding record_checked_def env pay(2-4)
    by (intro conjI refl ids hex t a(1,2) pay(1,5) key [unfolded ingest_key_def] source_path_D [OF src])
      (use ready in \<open>simp_all only: execution_ready_def\<close>)
  moreover have "confirmed rep i p ?env src m"
    using assms(2) by (auto simp: v verify_record_def verdict_ok_def confirmed_def split: option.splits verdict.splits if_splits)
  moreover have "task_of_record H ?env p (ingested_task (provenance_of H v signer n) (dpl_requires_human (vd_payload v)))"
    unfolding task_of_record_def env pay(2-4)
    by (simp add: v pay(2-4) a(3) ingested_task_def new_task_def ingest_key_def provenance_of_def Let_def)
  ultimately show ?thesis unfolding stands_on_def by blast
qed

lemma created_task:
  assumes "task_insert_ok t d" and "clean (t_id t) = t_id t" and "valid_state (t_state t)"
  shows "get_task (t_id t) (audit j e n x (insert_task t d)) = Inr t"
  using assms by (simp add: task_insert_ok_def get_task_def find_task_def insert_task_def find_append_None find_None_iff)

text \<open>What one record does to the tasks: nothing, or one new task that stands on it; only then is a result reported.\<close>

lemma record_tasks:
  assumes "ingest_record H rep clock i k rc g d = (r, g', d')" and hash: "\<forall>s. lower_hex 64 (H s)"
  shows "(d' = d \<and> (\<forall>x. r \<noteq> Inr (Some x)))
    \<or> (\<exists>t. db_tasks d' = db_tasks d @ [t] \<and> t \<notin> set (db_tasks d) \<and> stands_on H rep i t (fst rc)
        \<and> (\<forall>x. r = Inr (Some x) \<longrightarrow> ir_created x \<and> t_id t = ir_task_id x \<and> t_directive_id t = Some (ir_directive_id x) \<and> t_state t = ir_state x))"
  using assms(1)
proof (cases rule: ingest_record_D)
  case (commit v signer n)
  let ?b = "provenance_of H v signer n"
  let ?t = "ingested_task ?b (dpl_requires_human (vd_payload v))"
  from commit(4) show ?thesis
  proof (cases rule: ingest_commit_D)
    case created
    have id: "t_id ?t = pv_task_id ?b" "t_directive_id ?t = Some (pv_directive_id ?b)" by (simp_all add: ingested_task_def new_task_def)
    have got: "get_task (pv_task_id ?b) d' = Inr ?t"
      unfolding created(5) id(1) [symmetric] by (rule created_task [OF created(2)])
        (simp_all add: ingested_task_def new_task_def deterministic_task_id_clean [OF hash])
    have "db_tasks d' = db_tasks d @ [?t]" by (simp add: created(5) audit_def insert_task_def)
    moreover have "?t \<notin> set (db_tasks d)" using created(2) by (auto simp: task_insert_ok_def)
    ultimately show ?thesis using created(6) got id record_stands [OF commit(1,2)] by auto
  qed auto
qed auto

definition grown :: "(string \<Rightarrow> string) \<Rightarrow> (pyval \<Rightarrow> string) \<Rightarrow> ingestor \<Rightarrow> dict set \<Rightarrow> db \<Rightarrow> db \<Rightarrow> bool" where
  "grown H rep i ms d d' \<longleftrightarrow> (\<exists>ts. db_tasks d' = db_tasks d @ ts \<and> (\<forall>t \<in> set ts. t \<notin> set (db_tasks d) \<and> (\<exists>m \<in> ms. stands_on H rep i t m)))"

definition reported :: "db \<Rightarrow> db \<Rightarrow> IngestResult \<Rightarrow> bool" where
  "reported d d' x \<longleftrightarrow> (\<exists>t \<in> set (db_tasks d') - set (db_tasks d). ir_created x \<and> t_id t = ir_task_id x
     \<and> t_directive_id t = Some (ir_directive_id x) \<and> t_state t = ir_state x)"

lemma grown_refl [simp]: "grown H rep i ms d d"
  by (simp add: grown_def)

lemma grown_snoc:
  assumes "grown H rep i ms d d1" and "db_tasks d2 = db_tasks d1 @ [t]" and "t \<notin> set (db_tasks d1)" and "stands_on H rep i t m" and "m \<in> ms"
  shows "grown H rep i ms d d2"
proof -
  from assms(1) obtain ts where "db_tasks d1 = db_tasks d @ ts" "\<forall>t \<in> set ts. t \<notin> set (db_tasks d) \<and> (\<exists>m \<in> ms. stands_on H rep i t m)"
    by (auto simp: grown_def)
  with assms(2-5) show ?thesis unfolding grown_def by (intro exI [of _ "ts @ [t]"]) auto
qed

lemma reported_grows: "reported d d1 x \<Longrightarrow> set (db_tasks d1) \<subseteq> set (db_tasks d2) \<Longrightarrow> reported d d2 x"
  by (auto simp: reported_def)

lemma loop_tasks:
  assumes "ingest_loop H rep clock i n k rcs out g d = (r, g', d')" and hash: "\<forall>s. lower_hex 64 (H s)"
    and "grown H rep i ms d0 d" and "fst ` set rcs \<subseteq> ms" and "\<forall>x \<in> set out. reported d0 d x"
  shows "grown H rep i ms d0 d' \<and> (\<forall>res. r = Inr res \<longrightarrow> (\<forall>x \<in> set res. reported d0 d' x))"
  using assms(1,3-5)
proof (induction rcs arbitrary: k out g d)
  case (Cons rc rcs)
  show ?case
  proof (cases "k \<le> n")
    case True
    with Cons.prems(1) have "ingest_loop H rep clock i n (Suc k) rcs out g d = (r, g', d')" by simp
    from Cons.IH [OF this Cons.prems(2) _ Cons.prems(4)] Cons.prems(3) show ?thesis by simp
  next
    case False
    obtain q g1 d1 where q: "ingest_record H rep clock i k rc g d = (q, g1, d1)" by (rule prod_cases3)
    note step = record_tasks [OF q hash]
    have gr: "grown H rep i ms d0 d1" using step Cons.prems(2,3) by (auto intro: grown_snoc)
    have sub: "set (db_tasks d) \<subseteq> set (db_tasks d1)" using step by auto
    have new: "reported d0 d1 x" if "q = Inr (Some x)" for x
      using step that Cons.prems(2) by (auto simp: reported_def grown_def)
    have old: "\<forall>x \<in> set out. reported d0 d1 x" using Cons.prems(4) sub reported_grows by blast
    show ?thesis
    proof (cases q)
      case (Inl e)
      with Cons.prems(1) False q gr show ?thesis by auto
    next
      case (Inr x)
      let ?out = "out @ (case x of None \<Rightarrow> [] | Some y \<Rightarrow> [y])"
      from Inr Cons.prems(1) False q have l: "ingest_loop H rep clock i n (Suc k) rcs ?out g1 d1 = (r, g', d')"
        by (auto split: option.splits)
      have out: "\<forall>y \<in> set ?out. reported d0 d1 y" using old new Inr by (auto split: option.splits)
      show ?thesis by (rule Cons.IH [OF l gr _ out]) (use Cons.prems(3) in simp)
    qed
  qed
qed auto

lemma read_records_parse:
  "read_records H loads locked i queue g = (Inr rcs, g') \<Longrightarrow> \<exists>raw. queue = Some raw \<and> parse_lines H loads (split_lines raw) = Inr rcs"
  by (auto simp: read_records_def fail_source_def split: option.splits if_splits sum.splits prod.splits)

text \<open>Ingested tasks keep their provenance: in every state that store operations and ingestions of any files under
  any authorities can reach, every provenance row names a task of the store with the row's directive, target and
  capability, which is the read-only capability of an action that is not prohibited; the task's identifier and
  key are derived from the directive and the hashes, and no directive and no task has two rows.\<close>

theorem ingested_provenance:
  assumes "pipeline_reachable H g d" and "\<forall>s. lower_hex 64 (H s)"
  shows "ingest_inv H g d"
  using pipeline_reachable_inv [where X = "{}", OF assms] by (simp add: pipeline_inv_def)

text \<open>A record is ingested once: after a successful ingestion of a file and any store operations, ingesting the
  same file again, under any authority and clock, creates nothing and changes nothing.\<close>

theorem queue_ingested_once:
  assumes "pipeline_reachable H g d" and "\<forall>s. lower_hex 64 (H s)"
    and "ingest H loads rep clock i queue g d = (Inr out, g1, d1)" and "store_step\<^sup>*\<^sup>* d1 d2" and "ig_path i' = ig_path i"
  shows "ingest H loads rep clock' i' queue g1 d2 = (Inr [], g1, d2)"
proof -
  note inv = pipeline_reachable_inv [OF assms(1,2)]
  have sq: "sequenced g1" using ingest_inv_step [OF assms(3) inv assms(2)] by (simp add: pipeline_inv_def ingest_inv_def)
  from ingest_success [OF assms(3) inv assms(2)] obtain raw rcs where q: "queue = Some raw"
      "parse_lines H loads (split_lines raw) = Inr rcs" "length raw \<le> MAX_QUEUE_BYTES" "length (split_lines raw) \<le> MAX_RECORDS"
    and same: "list_all2 same_record (in_records g1) rcs"
    and path: "is_source_path (in_state g1) = [] \<or> is_source_path (in_state g1) = ig_path i" by metis
  have len: "length rcs = length (in_records g1)" using list_all2_lengthD [OF same] by simp
  have rd: "read_records H loads (db_locked d2) i' queue g1 = (Inr rcs, g1)"
    using q path same assms(5) len by (auto simp: read_records_def persisted_sequenced [OF sq])
  have "ingest_loop H rep clock' i' (length rcs) 1 (rcs @ []) [] g1 d2 = ingest_loop H rep clock' i' (length rcs) (Suc (length rcs)) [] [] g1 d2"
    by (rule loop_skip) simp
  with rd len show ?thesis by (simp add: ingest_def)
qed

text \<open>The digests of the lines that were persisted, and a file that starts with them.\<close>

definition digests :: "ingestion \<Rightarrow> string list" where
  "digests g = map qr_line_sha (in_records g)"

definition starts_with :: "(string \<Rightarrow> string) \<Rightarrow> (string \<Rightarrow> pyval option) \<Rightarrow> string option \<Rightarrow> string list \<Rightarrow> bool" where
  "starts_with H loads queue ds \<longleftrightarrow> (\<exists>raw rcs. queue = Some raw \<and> parse_lines H loads (split_lines raw) = Inr rcs \<and> prefix ds (map snd rcs))"

lemma same_record_digests: "list_all2 same_record rows rs \<Longrightarrow> map snd rs = map qr_line_sha rows"
  by (induction rule: list_all2_induct) (auto simp: same_record_def)

lemma ingest_digests:
  assumes "ingest H loads rep clock i queue g d = (r, g', d')" and "pipeline_inv X H g d" and "\<forall>s. lower_hex 64 (H s)"
  shows "(digests g' = digests g \<and> d' = d) \<or> starts_with H loads queue (digests g')"
    and "starts_with H loads queue (digests g) \<or> ((\<exists>e. r = Inl e) \<and> d' = d \<and> in_records g' = in_records g \<and> in_provenance g' = in_provenance g)"
proof -
  let ?n = "length (in_records g)"
  have sq: "sequenced g" using assms(2) by (simp add: pipeline_inv_def ingest_inv_def)
  obtain q g1 where rd: "read_records H loads (db_locked d) i queue g = (q, g1)" by fastforce
  have "((digests g' = digests g \<and> d' = d) \<or> starts_with H loads queue (digests g'))
    \<and> (starts_with H loads queue (digests g) \<or> ((\<exists>e. r = Inl e) \<and> d' = d \<and> in_records g' = in_records g \<and> in_provenance g' = in_provenance g))"
  proof (cases q)
    case (Inl e)
    with rd have "g1 = g \<or> (\<exists>x. g1 = block_source x g)"
      by (auto simp: read_records_def fail_source_def split: option.splits if_splits sum.splits prod.splits)
    with assms(1) rd Inl show ?thesis by (auto simp: ingest_def digests_def)
  next
    case (Inr rcs)
    from read_records_D [OF rd [unfolded Inr] sq] obtain raw where raw: "queue = Some raw" "g1 = g" "parse_lines H loads (split_lines raw) = Inr rcs"
      "length (in_records g) \<le> length rcs" "list_all2 same_record (in_records g) (take ?n rcs)" .
    from assms(1) rd Inr raw(2) have "ingest_loop H rep clock i ?n 1 (take ?n rcs @ drop ?n rcs) [] g d = (r, g', d')" by (simp add: ingest_def)
    moreover have "ingest_loop H rep clock i ?n 1 (take ?n rcs @ drop ?n rcs) [] g d = ingest_loop H rep clock i ?n (Suc ?n) (drop ?n rcs) [] g d"
      by (rule loop_skip) (use raw(4) in simp)
    ultimately have new: "ingest_loop H rep clock i ?n (Suc ?n) (drop ?n rcs) [] g d = (r, g', d')" by simp
    from loop_rows [OF new assms(2) _ refl assms(3)] obtain rows where rows: "in_records g' = in_records g @ rows"
      "list_all2 same_record rows (take (length rows) (drop ?n rcs))" by auto
    have "list_all2 same_record (in_records g') (take ?n rcs @ take (length rows) (drop ?n rcs))"
      unfolding rows(1) by (rule list_all2_appendI [OF raw(5) rows(2)])
    then have "digests g' = map snd (take ?n rcs @ take (length rows) (drop ?n rcs))" "digests g = map snd (take ?n rcs)"
      using same_record_digests [OF raw(5)] by (simp_all only: digests_def same_record_digests)
    then have "prefix (digests g') (map snd rcs)" "prefix (digests g) (map snd rcs)"
      by (simp_all add: take_add [symmetric] flip: take_map) (simp_all add: take_is_prefix)
    with raw(1,3) show ?thesis by (auto simp: starts_with_def)
  qed
  then show "(digests g' = digests g \<and> d' = d) \<or> starts_with H loads queue (digests g')"
    and "starts_with H loads queue (digests g) \<or> ((\<exists>e. r = Inl e) \<and> d' = d \<and> in_records g' = in_records g \<and> in_provenance g' = in_provenance g)"
    by blast+
qed

text \<open>C30. The queue file only grows. Whatever an ingestion persisted, however it ended, are the digests of the first records of
  its file, all of them when it returned; and after any store operations and ingestions, a file that does not start with
  exactly those records, byte for byte up to the digest, is refused: the ingestion raises, and no task, no provenance and no
  record is added or changed.\<close>

theorem queue_only_extends:
  assumes "pipeline_reachable H g d" and "\<forall>s. lower_hex 64 (H s)"
    and "ingest H loads rep clock i queue g d = (r, g1, d1)" and "(pipeline_step H)\<^sup>*\<^sup>* (g1, d1) (g2, d2)"
    and "ingest H loads' rep' clock' i' queue' g2 d2 = (r', g3, d3)"
  shows "(digests g1 = digests g \<and> d1 = d \<or> starts_with H loads queue (digests g1))
    \<and> (\<forall>out. r = Inr out \<longrightarrow> (\<exists>raw rcs. queue = Some raw \<and> parse_lines H loads (split_lines raw) = Inr rcs \<and> digests g1 = map snd rcs))
    \<and> (starts_with H loads' queue' (digests g1)
      \<or> (\<exists>e. r' = Inl e) \<and> d3 = d2 \<and> in_records g3 = in_records g2 \<and> in_provenance g3 = in_provenance g2)"
proof -
  note inv = pipeline_reachable_inv [OF assms(1,2), of "{}"]
  have inv1: "pipeline_inv {} H g1 d1" using ingest_inv_step [OF assms(3) inv assms(2)] by simp
  with pipeline_steps_inv [OF assms(4) _ assms(2)] have inv2: "pipeline_inv {} H g2 d2" "prefix (in_records g1) (in_records g2)" by auto
  from inv2(2) have "prefix (digests g1) (digests g2)" unfolding digests_def by (rule map_mono_prefix)
  then have down: "starts_with H loads' queue' (digests g2) \<Longrightarrow> starts_with H loads' queue' (digests g1)"
    unfolding starts_with_def by (blast intro: prefix_order.trans)
  have all: "\<exists>raw rcs. queue = Some raw \<and> parse_lines H loads (split_lines raw) = Inr rcs \<and> digests g1 = map snd rcs" if "r = Inr out" for out
    using ingest_success [OF assms(3) [unfolded that] inv assms(2)] same_record_digests by (metis digests_def)
  from ingest_digests(1) [OF assms(3) inv assms(2)] ingest_digests(2) [OF assms(5) inv2(1) assms(2)] down all show ?thesis by blast
qed

text \<open>C31. Ingestion only creates vouched work: however an ingestion ends, also when it raises in the middle of a file, it keeps every
  task, and every task it adds stands on a record of the file that was ready, whose hashes and idempotency key fit, whose target and action
  are supported, whose payload agrees with it, and that the authority called authentic, signed, allowed and descended from
  the trusted branch with exactly those hashes; the task waits for a human when, and only when, the payload requires one. An
  ingestion that returns reports only tasks it added, with their state.\<close>

theorem ingest_sound:
  assumes "ingest H loads rep clock i queue g d = (r, g', d')" and "\<forall>s. lower_hex 64 (H s)"
  shows "\<exists>ts. db_tasks d' = db_tasks d @ ts
    \<and> (\<forall>t \<in> set ts. t \<notin> set (db_tasks d) \<and> (\<exists>raw rcs m sha. queue = Some raw \<and> parse_lines H loads (split_lines raw) = Inr rcs
        \<and> (m, sha) \<in> set rcs \<and> stands_on H rep i t m))
    \<and> (\<forall>out. r = Inr out \<longrightarrow> (\<forall>x \<in> set out. \<exists>t \<in> set ts. ir_created x \<and> t_id t = ir_task_id x
        \<and> t_directive_id t = Some (ir_directive_id x) \<and> t_state t = ir_state x))"
proof -
  obtain q g1 where rd: "read_records H loads (db_locked d) i queue g = (q, g1)" by fastforce
  show ?thesis
  proof (cases q)
    case (Inl e)
    with assms(1) rd have "r = Inl e" "d' = d" by (simp_all add: ingest_def)
    then show ?thesis by simp
  next
    case (Inr rcs)
    from read_records_parse [OF rd [unfolded Inr]] obtain raw where raw: "queue = Some raw" "parse_lines H loads (split_lines raw) = Inr rcs" by blast
    from assms(1) rd Inr have "ingest_loop H rep clock i (length (in_records g1)) 1 rcs [] g1 d = (r, g', d')" by (simp add: ingest_def)
    from loop_tasks [OF this assms(2), of "fst ` set rcs" d] obtain ts where ts: "db_tasks d' = db_tasks d @ ts"
      "\<forall>t \<in> set ts. t \<notin> set (db_tasks d) \<and> (\<exists>m \<in> fst ` set rcs. stands_on H rep i t m)"
      and out: "\<forall>res. r = Inr res \<longrightarrow> (\<forall>x \<in> set res. reported d d' x)" by (auto simp: grown_def)
    show ?thesis
    proof (intro exI [of _ ts] conjI ts(1) ballI allI impI)
      fix t assume t: "t \<in> set ts"
      with ts(2) show "t \<notin> set (db_tasks d)" by blast
      from t ts(2) obtain m sha where "(m, sha) \<in> set rcs" "stands_on H rep i t m" by fastforce
      with raw show "\<exists>raw rcs m sha. queue = Some raw \<and> parse_lines H loads (split_lines raw) = Inr rcs \<and> (m, sha) \<in> set rcs \<and> stands_on H rep i t m"
        by blast
    next
      fix res x assume "r = Inr res" "x \<in> set res"
      with out have "reported d d' x" by blast
      with ts(1) show "\<exists>t \<in> set ts. ir_created x \<and> t_id t = ir_task_id x \<and> t_directive_id t = Some (ir_directive_id x) \<and> t_state t = ir_state x"
        by (auto simp: reported_def)
    qed
  qed
qed

subsection \<open>A sample file\<close>

definition ing_hash :: "string \<Rightarrow> string" where
  "ing_hash s = replicate 64 (CHR ''a'')"

lemma ing_hash_hex: "\<forall>s. lower_hex 64 (ing_hash s)"
  by (simp add: ing_hash_def lower_hex_def is_digit_def list_all_iff)

definition ing_record :: dict where
  "ing_record = [(''directive_id'', PyStr ''d-1''), (''queue_state'', PyStr ''READY_FOR_FUTURE_EXECUTOR''),
     (''readback_verified'', PyBool True), (''executed'', PyBool False), (''directive_source_sha'', PyStr (replicate 40 (CHR ''b''))),
     (''directive_blob_sha'', PyStr (replicate 40 (CHR ''c''))), (''directive_payload_sha256'', PyStr (replicate 64 (CHR ''d''))),
     (''idempotency_key'', PyStr (replicate 64 (CHR ''a''))), (''directive_source_path'', PyStr ''directives/inbox/d.json''),
     (''target_project'', PyStr ''ORACLE''), (''action_type'', PyStr ''AUDIT_REQUEST''), (''signer_identity'', PyStr ''s''),
     (''requires_human_approval'', PyBool True),
     (''directive_payload'', PyDict [(''directive_id'', PyStr ''d-1''), (''target_project'', PyStr ''ORACLE''),
        (''action_type'', PyStr ''AUDIT_REQUEST''), (''requires_human_approval'', PyBool True)])]"

definition ing_meta :: dict where
  "ing_meta = [(''signature_valid'', PyBool True), (''signer_allowed'', PyBool True), (''remote_ancestry_verified'', PyBool True),
     (''payload_commit_sha'', PyStr (replicate 40 (CHR ''b''))), (''payload_blob_sha'', PyStr (replicate 40 (CHR ''c''))),
     (''payload_sha256'', PyStr (replicate 64 (CHR ''d''))), (''signer_identity'', PyStr ''s'')]"

definition ing_source :: ingestor where
  "ing_source = \<lparr>ig_path = ''/queue'', ig_verifier = Some (\<lambda>p e s. Verdict ''AUTHENTIC'' (PyBool True) ing_meta), ig_targets = [''ORACLE'']\<rparr>"

abbreviation ing_rep :: "pyval \<Rightarrow> string" where "ing_rep \<equiv> \<lambda>v. []"
abbreviation ing_loads :: "string \<Rightarrow> pyval option" where "ing_loads \<equiv> \<lambda>s. Some (PyDict ing_record)"

definition ing_valid :: validated where
  "ing_valid = \<lparr>vd_payload = \<lparr>dpl_version = [], dpl_directive_id = ''d-1'', dpl_project = [], dpl_target_project = ''ORACLE'',
        dpl_target_stage = [], dpl_action_type = ''AUDIT_REQUEST'', dpl_action = [], dpl_created_at = [], dpl_expires_at = [],
        dpl_issued_by = [], dpl_requires_human = True, dpl_allowed_scope = [], dpl_preconditions = [], dpl_success_criteria = [],
        dpl_failure_policy = [], dpl_rollback_policy = [], dpl_payload = []\<rparr>,
     vd_envelope = ingest_envelope ''d-1'' (replicate 40 (CHR ''b'')) (replicate 40 (CHR ''c'')) (replicate 64 (CHR ''d'')),
     vd_key = replicate 64 (CHR ''a''), vd_capability = ''AUDIT_READ'', vd_source_path = ''directives/inbox/d.json''\<rparr>"

lemma ing_validated: "validate_record ing_hash ing_rep ing_source ing_record = Inr ing_valid"
  by code_simp

lemma ing_verified: "verify_record ing_rep ing_source ing_valid ing_record = Inr ''s''"
  by code_simp

definition ing_row :: provenance_row where
  "ing_row = provenance_of ing_hash ing_valid ''s'' 1"

definition ing_state :: ingestion where
  "ing_state = note_ingested ''/queue'' 1 (ing_hash ''{}'') ing_row (fresh_ingestion\<lparr>in_provenance := [ing_row]\<rparr>)"

definition ing_db :: db where
  "ing_db = audit (pv_task_id ing_row) ''DIRECTIVE_INGESTED'' 1 (''directive='' @ pv_directive_id ing_row @ '';action='' @ pv_action ing_row)
     (insert_task (ingested_task ing_row True) init_db)"

lemma ing_human: "dpl_requires_human (vd_payload ing_valid)"
  by (simp add: ing_valid_def)

lemma ing_directive: "pv_directive_id ing_row = ''d-1''"
  by (simp add: ing_row_def ing_valid_def)

lemma ing_parse: "parse_lines ing_hash ing_loads (split_lines ''{}'') = Inr [(ing_record, ing_hash ''{}'')]"
  by (simp add: line_content_def is_eol_def bytes_space_def MAX_RECORD_BYTES_def)

definition ing_result :: IngestResult where
  "ing_result = \<lparr>ir_task_id = pv_task_id ing_row, ir_directive_id = pv_directive_id ing_row, ir_created = True, ir_state = TaskState.WAITING_HUMAN\<rparr>"

lemma ing_run: "ingest ing_hash ing_loads ing_rep (\<lambda>_. Finite 1) ing_source (Some ''{}'') fresh_ingestion init_db
  = (Inr [ing_result], ing_state, ing_db)"
proof -
  let ?t = "ingested_task ing_row True"
  have ok: "task_insert_ok ?t init_db" by (simp add: task_insert_ok_def init_db_def)
  have "clean (t_id ?t) = t_id ?t"
    by (simp add: ingested_task_def new_task_def ing_row_def deterministic_task_id_clean [OF ing_hash_hex])
  then have got: "get_task (pv_task_id ing_row) ing_db = Inr ?t"
    using created_task [OF ok] by (simp add: ing_db_def ingested_task_def new_task_def)
  have rd: "read_records ing_hash ing_loads False ing_source (Some ''{}'') fresh_ingestion = (Inr [(ing_record, ing_hash ''{}'')], fresh_ingestion)"
    using ing_parse by (simp add: read_records_def MAX_QUEUE_BYTES_def MAX_RECORDS_def persisted_rows_def fresh_ingestion_def)
  have n: "now_of (Finite 1) = Inr 1" by simp
  have at1: "pv_ingested_at ing_row = 1" by (simp add: ing_row_def provenance_of_def Let_def)
  have free: "\<not> db_locked init_db" "in_records fresh_ingestion = []" "in_provenance fresh_ingestion = []"
    by (simp_all add: init_db_def fresh_ingestion_def)
  have "ingest_commit ''/queue'' 1 (ing_hash ''{}'') ing_row True fresh_ingestion init_db = (Inr (Some ing_result), ing_state, ing_db)"
    using ok got unfolding ing_db_def ing_result_def ing_state_def ingest_commit_def
    by (simp add: Let_def at1 free) (simp add: ingested_task_def new_task_def)
  then have "ingest_record ing_hash ing_rep (\<lambda>_. Finite 1) ing_source 1 (ing_record, ing_hash ''{}'') fresh_ingestion init_db
     = (Inr (Some ing_result), ing_state, ing_db)"
    by (simp add: ingest_record_def ing_validated ing_verified n ing_row_def [symmetric] ing_human) (simp add: ing_source_def)
  with rd free show ?thesis by (simp add: ingest_def)
qed

lemma ing_start: "pipeline_reachable ing_hash fresh_ingestion init_db"
  by (simp add: pipeline_reachable_def)

theorem ingested_provenance_witness: "ingest_inv ing_hash ing_state ing_db \<and> in_provenance ing_state = [ing_row]"
proof -
  have "pipeline_reachable ing_hash ing_state ing_db"
    unfolding pipeline_reachable_def by (rule r_into_rtranclp, rule ingestion_run [OF ing_run])
  from ingested_provenance [OF this ing_hash_hex] show ?thesis by (simp add: ing_state_def)
qed

theorem queue_ingested_once_witness:
  "ingest ing_hash ing_loads ing_rep (\<lambda>_. Finite 2) ing_source (Some ''{}'') ing_state ing_db = (Inr [], ing_state, ing_db)"
  by (rule queue_ingested_once [OF ing_start ing_hash_hex ing_run rtranclp.rtrancl_refl refl])

text \<open>After the sample was ingested, an empty file is refused.\<close>

theorem queue_only_extends_witness:
  "digests ing_state = [ing_hash ''{}''] \<and> (\<exists>e g. ingest ing_hash ing_loads ing_rep (\<lambda>_. Finite 2) ing_source (Some []) ing_state ing_db = (Inl e, g, ing_db)
    \<and> in_provenance g = [ing_row])"
proof -
  obtain r g d where again: "ingest ing_hash ing_loads ing_rep (\<lambda>_. Finite 2) ing_source (Some []) ing_state ing_db = (r, g, d)" by (rule prod_cases3)
  have ds: "digests ing_state = [ing_hash ''{}'']" by (simp add: digests_def ing_state_def note_ingested_def fresh_ingestion_def)
  have "\<not> starts_with ing_hash ing_loads (Some []) (digests ing_state)" by (simp add: starts_with_def ds)
  with queue_only_extends [OF ing_start ing_hash_hex ing_run rtranclp.rtrancl_refl again] again ds show ?thesis
    by (auto simp: ing_state_def)
qed

theorem ingest_sound_witness:
  "\<exists>t \<in> set (db_tasks ing_db). t_id t = pv_task_id ing_row \<and> t_state t = TaskState.WAITING_HUMAN \<and> stands_on ing_hash ing_rep ing_source t ing_record"
  using ingest_sound [OF ing_run ing_hash_hex] ing_parse by (auto simp: ing_result_def init_db_def)

end
