(* ===== verification/ExecutionInv.thy ===== *)
theory ExecutionInv
  imports ExecutionClaims SchedulerClaims IngestionClaims
begin

text \<open>
  Governed execution and the store together: an applied plan puts its task under review without a row of evidence
  in the store; its evidence is the applied transaction. The invariant of the store, with these tasks as its second
  source of evidence, is kept by every operation of the controller.
\<close>

subsection \<open>The invariant\<close>

definition applied_grants :: "exec_world \<Rightarrow> grant set" where
  "applied_grants w = {g \<in> set (xw_grants w). gr_state g = ''APPLIED''
     \<and> (\<exists>x \<in> set (xw_txs w). tr_grant x = gr_id g \<and> tr_state x = ''APPLIED'' \<and> tr_evidence x \<noteq> None)}"

definition executed_tasks :: "exec_world \<Rightarrow> string set" where
  "executed_tasks w = gr_task ` applied_grants w"

definition world_ok :: "(string \<Rightarrow> string) \<Rightarrow> ingestion \<Rightarrow> exec_world \<Rightarrow> bool" where
  "world_ok H g w \<longleftrightarrow> pipeline_inv (executed_tasks w) H g (xw_db w) \<and> distinct (map gr_id (xw_grants w))"

lemma core_eq: "core w' = core w \<longleftrightarrow> xw_grants w' = xw_grants w \<and> xw_txs w' = xw_txs w \<and> xw_db w' = xw_db w"
  by (simp add: core_def)

lemma executed_core: "core w' = core w \<Longrightarrow> executed_tasks w' = executed_tasks w"
  by (simp add: core_eq executed_tasks_def applied_grants_def)

lemma db_inv_mono: "db_inv_with X d \<Longrightarrow> X \<subseteq> Y \<Longrightarrow> db_inv_with Y d"
  by (auto simp: db_inv_with_def tasks_inv_def evidenced_def intro: task_ok_mono)

lemma provenance_audit: "ingest_inv H g (audit t ev n det d) = ingest_inv H g d"
  by (simp add: ingest_inv_def provenance_ok_def)

interpretation world: table_property "world_ok H g" for H g
proof
  fix w w' assume c: "core w' = core w" and w: "world_ok H g w"
  then show "world_ok H g w'" by (simp add: world_ok_def executed_core [OF c]) (simp add: core_eq)
next
  fix w t ev n det assume "world_ok H g w"
  moreover have "executed_tasks (w\<lparr>xw_db := d\<rparr>) = executed_tasks w" for d by (simp add: executed_tasks_def applied_grants_def)
  ultimately show "world_ok H g (w\<lparr>xw_db := audit t ev n det (xw_db w)\<rparr>)"
    by (auto simp: world_ok_def pipeline_inv_def provenance_audit intro: db_inv_audit)
qed

interpretation same_core: core_property "\<lambda>w. core w = c" for c
  by unfold_locales simp

subsection \<open>Updates of the tables\<close>

lemma world_ok_grow:
  assumes "world_ok H g w" and "executed_tasks w \<subseteq> executed_tasks w'" and "xw_db w' = xw_db w" and "distinct (map gr_id (xw_grants w'))"
  shows "world_ok H g w'"
  using assms by (auto simp: world_ok_def pipeline_inv_def intro: db_inv_mono)

lemma update_where_keep: "x \<in> set xs \<Longrightarrow> \<not> p x \<Longrightarrow> x \<in> set (update_where p f xs)"
  by (force simp: update_where_def)

lemma executed_kept:
  assumes "\<And>g. p g \<Longrightarrow> gr_state g \<noteq> ''APPLIED''" and "\<And>x. q x \<Longrightarrow> tr_state x \<noteq> ''APPLIED''"
    and "xw_grants w' = update_where p f (xw_grants w)" and "set (update_where q h (xw_txs w)) \<subseteq> set (xw_txs w')"
  shows "executed_tasks w \<subseteq> executed_tasks w'"
  unfolding executed_tasks_def
proof (rule image_mono, rule subsetI)
  fix g assume "g \<in> applied_grants w"
  then obtain x where g: "g \<in> set (xw_grants w)" "gr_state g = ''APPLIED''"
    and x: "x \<in> set (xw_txs w)" "tr_grant x = gr_id g" "tr_state x = ''APPLIED''" "tr_evidence x \<noteq> None"
    by (auto simp: applied_grants_def)
  have "g \<in> set (xw_grants w')" using update_where_keep [OF g(1), of p f] assms(1,3) g(2) by auto
  moreover have "x \<in> set (xw_txs w')" using update_where_keep [OF x(1), of q h] assms(2,4) x(3) by auto
  ultimately show "g \<in> applied_grants w'" using g(2) x(2-4) by (auto simp: applied_grants_def)
qed

lemma grant_ids_kept: "(\<And>g. gr_id (f g) = gr_id g) \<Longrightarrow> map gr_id (update_where p f gs) = map gr_id gs"
  by (rule map_update_where_key) simp

lemma world_update:
  assumes "world_ok H g w" and "\<And>g. p g \<Longrightarrow> gr_state g \<noteq> ''APPLIED''" and "\<And>x. q x \<Longrightarrow> tr_state x \<noteq> ''APPLIED''"
    and "\<And>g. gr_id (f g) = gr_id g"
  shows "world_ok H g (set_grants p f (set_txs q h w))"
  by (rule world_ok_grow [OF assms(1) executed_kept [where p = p and q = q and f = f and h = h]])
    (use assms in \<open>auto simp: set_grants_def set_txs_def world_ok_def grant_ids_kept\<close>)

lemma set_txs_never: "set_txs (\<lambda>_. False) h w = w"
  by (simp add: set_txs_def update_where_def)

lemma world_terminalize: "keeps (world_ok H g) (terminalize_failure gid st code n)"
  unfolding terminalize_failure_def
  by (intro world.in_tx) (auto simp: keeps_def modify_def applying_grant_def applying_tx_def intro!: world_update)

lemma world_grants:
  assumes "\<And>g. p g \<Longrightarrow> gr_state g \<noteq> ''APPLIED''" and "\<And>g. gr_id (f g) = gr_id g"
  shows "keeps (world_ok H g) (modify (set_grants p f))"
proof -
  have "world_ok H g (set_grants p f w)" if "world_ok H g w" for w
    using world_update [OF that assms(1), of p "\<lambda>_. False" f id] assms(2) by (simp add: set_txs_never)
  then show ?thesis by (simp add: keeps_def modify_def)
qed

lemma world_claim: "keeps (world_ok H g) (in_tx (claim_grant E gid hash rows n))"
proof (intro world.in_tx world.claiming world_grants)
  fix x :: tx_row
  have "executed_tasks w \<subseteq> executed_tasks (w\<lparr>xw_txs := xw_txs w @ [x]\<rparr>)" for w by (auto simp: executed_tasks_def applied_grants_def)
  then show "keeps (world_ok H g) (modify (\<lambda>w. w\<lparr>xw_txs := xw_txs w @ [x]\<rparr>))"
    by (auto simp: keeps_def modify_def world_ok_def pipeline_inv_def intro: db_inv_mono)
qed auto

lemma world_insert: "keeps (world_ok H g) (insert_grant b)"
proof -
  have "executed_tasks w \<subseteq> executed_tasks (w\<lparr>xw_grants := xw_grants w @ [b]\<rparr>)" for w by (auto simp: executed_tasks_def applied_grants_def)
  then show ?thesis
    by (auto simp: keeps_def insert_grant_def world_ok_def pipeline_inv_def find_grant_def find_None_iff intro: db_inv_mono)
qed

subsection \<open>A task goes to review\<close>

lemma to_review_sel [simp]:
  "t_id (to_review n t) = t_id t" "t_directive_id (to_review n t) = t_directive_id t" "t_lease_id (to_review n t) = t_lease_id t"
  "t_target_project (to_review n t) = t_target_project t" "t_capability (to_review n t) = t_capability t"
  "t_governance_allowed (to_review n t) = t_governance_allowed t"
  by (simp_all add: to_review_def)

lemma task_ok_to_review: "task_ok W E t \<Longrightarrow> running_task i t \<Longrightarrow> i \<in> E \<Longrightarrow> task_ok W E (to_review n t)"
  by (auto simp: row_defs to_review_def running_task_def)

lemma provenance_ok_review: "provenance_ok H d v \<Longrightarrow> provenance_ok H (update_tasks p (to_review n) d) v"
proof -
  assume v: "provenance_ok H d v"
  then obtain t where t: "find_task (pv_task_id v) d = Some t" by (auto simp: provenance_ok_def)
  have "find_task (pv_task_id v) (update_tasks p (to_review n) d) = Some (if p t then to_review n t else t)"
    using t unfolding find_task_def update_tasks_def by (simp add: find_update_where)
  with v t show ?thesis by (auto simp: provenance_ok_def)
qed

lemma ingest_inv_review: "ingest_inv H g d \<Longrightarrow> ingest_inv H g (update_tasks p (to_review n) d)"
  by (auto simp: ingest_inv_def intro: provenance_ok_review)

lemma find_grant_ids:
  assumes "distinct (map gr_id (xw_grants w))" and "b \<in> set (xw_grants w)" and "gr_id b = gid"
  shows "find_grant gid w = Some b"
  using assms unfolding find_grant_def by (blast intro: find_key_unique)

lemma world_reviewed:
  assumes ok: "world_ok H i w" and b: "find_grant gid w = Some b" "gr_state b = ''APPLYING''" and x: "x \<in> set (xw_txs w)" "applying_tx gid x"
    and h: "\<And>r. tr_state (h r) = ''APPLIED'' \<and> tr_grant (h r) = tr_grant r \<and> tr_evidence (h r) \<noteq> None"
  shows "world_ok H i (set_txs (applying_tx gid) h (set_grants (applying_grant gid) (\<lambda>r. r\<lparr>gr_state := ''APPLIED''\<rparr>)
    (w\<lparr>xw_db := update_tasks (running_task (gr_task b)) (to_review n) (xw_db w)\<rparr>)))" (is "world_ok H i ?w'")
proof -
  from b(1) have mem: "b \<in> set (xw_grants w)" "gr_id b = gid" by (auto simp: find_grant_def dest: find_Some_mem)
  let ?b = "b\<lparr>gr_state := ''APPLIED''\<rparr>"
  have gs: "xw_grants ?w' = update_where (applying_grant gid) (\<lambda>r. r\<lparr>gr_state := ''APPLIED''\<rparr>) (xw_grants w)"
    and ts: "xw_txs ?w' = update_where (applying_tx gid) h (xw_txs w)" by (simp_all add: set_txs_def set_grants_def)
  have "?b \<in> set (xw_grants ?w')" unfolding gs using mem b(2) by (force simp: update_where_def applying_grant_def)
  moreover have "h x \<in> set (xw_txs ?w')" unfolding ts using x by (force simp: update_where_def)
  ultimately have "?b \<in> applied_grants ?w'" using h [of x] x(2) mem(2) by (auto simp: applied_grants_def applying_tx_def)
  then have "gr_task ?b \<in> executed_tasks ?w'" unfolding executed_tasks_def by (rule imageI)
  then have new: "gr_task b \<in> executed_tasks ?w'" by simp
  have sub: "executed_tasks w \<subseteq> executed_tasks ?w'"
    by (rule executed_kept [where p = "applying_grant gid" and q = "applying_tx gid" and h = h, OF _ _ gs])
      (auto simp: applying_grant_def applying_tx_def ts)
  have inv: "db_inv_with (executed_tasks ?w') (xw_db w)" using ok sub by (auto simp: world_ok_def pipeline_inv_def intro: db_inv_mono)
  have "good_update (executed_tasks ?w') (xw_db w) (running_task (gr_task b)) (to_review n)"
    by (rule good_update_rows) (use tasks_invD [OF db_invD(1) [OF inv]] new in \<open>auto simp: evidenced_def intro: task_ok_to_review\<close>)
  from db_inv_update_tasks [OF inv this] have "db_inv_with (executed_tasks ?w') (xw_db ?w')" by simp
  moreover have "ingest_inv H i (xw_db ?w')" using ok by (simp add: world_ok_def pipeline_inv_def ingest_inv_review)
  moreover have "distinct (map gr_id (xw_grants ?w'))" unfolding gs using ok by (simp add: world_ok_def grant_ids_kept)
  ultimately show ?thesis by (simp add: world_ok_def pipeline_inv_def)
qed

lemma rowcount_exists: "rowcount p xs = 1 \<Longrightarrow> \<exists>x \<in> set xs. p x"
  using rowcount_none [of xs p] by (metis zero_neq_one)

lemma authority_same: "grant_authority g n w = (r, w') \<Longrightarrow> w' = w"
proof -
  have "keeps (\<lambda>x. x = w) (grant_authority g n)" unfolding grant_authority_def by (intro frame_rules)
  then show "grant_authority g n w = (r, w') \<Longrightarrow> w' = w" by (auto dest: keepsD)
qed

lemma finish_apply_D:
  assumes "finish_apply E gid hash envelope n w = (Inr (), w')"
  obtains b w1 where "find_grant gid w = Some b" and "core w1 = core w" and "rowcount (applying_tx gid) (xw_txs w1) = 1"
    and "rowcount (applying_grant gid) (xw_grants w1) = 1"
    and "audit_exec (gr_task b) ''EXECUTION_APPLIED'' n (''grant='' @ gid @ '';plan='' @ hash @ '';evidence='' @ xe_hash E envelope)
      (set_txs (applying_tx gid) (\<lambda>r. r\<lparr>tr_state := ''APPLIED'', tr_finished := Some n, tr_evidence := Some (xe_hash E envelope),
          tr_envelope := Some envelope\<rparr>) (set_grants (applying_grant gid) (\<lambda>r. r\<lparr>gr_state := ''APPLIED''\<rparr>)
        (w1\<lparr>xw_db := update_tasks (running_task (gr_task b)) (to_review n) (xw_db w1)\<rparr>))) = (Inr (), w')"
proof -
  from assms obtain b w1 d where b: "find_grant gid w = Some b" and wa: "workspace_authority b n w = (Inr d, w1)"
    and rest: "rowcount (applying_tx gid) (xw_txs w1) = 1" "rowcount (applying_grant gid) (xw_grants w1) = 1"
      "audit_exec (gr_task b) ''EXECUTION_APPLIED'' n (''grant='' @ gid @ '';plan='' @ hash @ '';evidence='' @ xe_hash E envelope)
      (set_txs (applying_tx gid) (\<lambda>r. r\<lparr>tr_state := ''APPLIED'', tr_finished := Some n, tr_evidence := Some (xe_hash E envelope),
          tr_envelope := Some envelope\<rparr>) (set_grants (applying_grant gid) (\<lambda>r. r\<lparr>gr_state := ''APPLIED''\<rparr>)
        (w1\<lparr>xw_db := update_tasks (running_task (gr_task b)) (to_review n) (xw_db w1)\<rparr>))) = (Inr (), w')"
    by (auto simp: finish_apply_def act_simps split: option.splits if_splits dest!: authority_same)
  have "core w1 = core w" using keepsD [OF same_core.workspace [of "core w"] wa] by simp
  with b rest that show thesis by blast
qed

lemma world_finish: "keeps (world_ok H i) (in_tx (finish_apply E gid hash envelope n))"
proof (rule world.in_tx_success)
  fix w x w' assume ok: "world_ok H i w" and "finish_apply E gid hash envelope n w = (Inr x, w')"
  then have run: "finish_apply E gid hash envelope n w = (Inr (), w')" by simp
  from finish_apply_D [OF run] obtain b w1 where b: "find_grant gid w = Some b" and c: "core w1 = core w"
    and n1: "rowcount (applying_tx gid) (xw_txs w1) = 1" "rowcount (applying_grant gid) (xw_grants w1) = 1"
    and au: "audit_exec (gr_task b) ''EXECUTION_APPLIED'' n (''grant='' @ gid @ '';plan='' @ hash @ '';evidence='' @ xe_hash E envelope)
      (set_txs (applying_tx gid) (\<lambda>r. r\<lparr>tr_state := ''APPLIED'', tr_finished := Some n, tr_evidence := Some (xe_hash E envelope),
          tr_envelope := Some envelope\<rparr>) (set_grants (applying_grant gid) (\<lambda>r. r\<lparr>gr_state := ''APPLIED''\<rparr>)
        (w1\<lparr>xw_db := update_tasks (running_task (gr_task b)) (to_review n) (xw_db w1)\<rparr>))) = (Inr (), w')" .
  have ok1: "world_ok H i w1" by (rule world.core_only [OF c ok])
  from rowcount_exists [OF n1(2)] obtain a where a: "a \<in> set (xw_grants w1)" "gr_id a = gid" "gr_state a = ''APPLYING''"
    by (auto simp: applying_grant_def)
  have "find_grant gid w1 = Some a" by (rule find_grant_ids [OF _ a(1,2)]) (use ok1 in \<open>simp add: world_ok_def\<close>)
  with b c have b1: "find_grant gid w1 = Some b" "gr_state b = ''APPLYING''" using a(3) by (auto simp: find_grant_def core_eq)
  from rowcount_exists [OF n1(1)] obtain y where "y \<in> set (xw_txs w1)" "applying_tx gid y" by blast
  note world_reviewed [OF ok1 b1 this]
  with keepsD [OF world.audited au] show "world_ok H i w'" by simp
qed

subsection \<open>Recovery\<close>

text \<open>What a recovery reads stays true until its last transaction: only that one changes the tables.\<close>

definition leads :: "('w \<Rightarrow> bool) \<Rightarrow> ('w \<Rightarrow> bool) \<Rightarrow> ('w, 'a) act \<Rightarrow> bool" where
  "leads R Q m \<longleftrightarrow> (\<forall>w. R w \<longrightarrow> Q (snd (m w)))"

lemma leads_keeps: "keeps R m \<Longrightarrow> (\<And>w. R w \<Longrightarrow> Q w) \<Longrightarrow> leads R Q m"
  by (simp add: leads_def keeps_def)

lemma leads_seq_res:
  assumes "keeps R m" and "\<And>w. R w \<Longrightarrow> Q w" and "\<And>w x w'. R w \<Longrightarrow> m w = (Inr x, w') \<Longrightarrow> S x" and "\<And>x. S x \<Longrightarrow> leads R Q (f x)"
  shows "leads R Q (seq m f)"
  unfolding leads_def
proof (intro allI impI)
  fix w assume R: "R w"
  obtain r w1 where m: "m w = (r, w1)" by fastforce
  have "R w1" by (rule keepsD [OF assms(1) m R])
  with m assms(2,3,4) R show "Q (snd (seq m f w))" by (cases r) (auto simp: seq_def leads_def)
qed

lemma leads_seq: "keeps R m \<Longrightarrow> (\<And>w. R w \<Longrightarrow> Q w) \<Longrightarrow> (\<And>x. leads R Q (f x)) \<Longrightarrow> leads R Q (seq m f)"
  by (rule leads_seq_res [where S = "\<lambda>_. True"]) simp_all

lemma leads_if: "(b \<Longrightarrow> leads R Q m) \<Longrightarrow> (\<not> b \<Longrightarrow> leads R Q m') \<Longrightarrow> leads R Q (if b then m else m')"
  by simp

lemma get_grant_found: "get_grant v w = (Inr g, w') \<Longrightarrow> find_grant (gr_id g) w = Some g"
  by (auto simp: get_grant_def find_grant_def act_simps split: option.splits if_splits dest: find_Some_mem)

lemma get_tx_found: "get_tx gid w = (Inr x, w') \<Longrightarrow> x \<in> set (xw_txs w) \<and> tr_grant x = gid"
  by (auto simp: get_tx_def find_tx_def act_simps split: option.splits dest: find_Some_mem)

lemma set_swap: "set_txs q h (set_grants p f w) = set_grants p f (set_txs q h w)"
  by (cases w) (simp add: set_txs_def set_grants_def)

lemma world_recovered:
  assumes "world_ok H i w" and g: "find_grant (gr_id g) w = Some g" "gr_state g = ''APPLYING''"
    and x: "tx \<in> set (xw_txs w)" "tr_grant tx = gr_id g" "tr_state tx = ''APPLYING''"
  shows "world_ok H i (snd (in_tx (finish_recovery E g tx st curs n) w))"
proof -
  let ?h = "\<lambda>env r. r\<lparr>tr_state := st, tr_finished := Some n, tr_evidence := (if st = ''APPLIED'' then Some (xe_hash E env) else None),
      tr_envelope := (if st = ''APPLIED'' then Some env else None)\<rparr>"
  let ?up = "\<lambda>env. set_txs (applying_tx (gr_id g)) (?h env) (set_grants (applying_grant (gr_id g)) (\<lambda>r. r\<lparr>gr_state := st\<rparr>)
      (if st = ''APPLIED'' then w\<lparr>xw_db := update_tasks (running_task (gr_task g)) (to_review n) (xw_db w)\<rparr> else w))"
  have up: "world_ok H i (?up env)" for env
  proof (cases "st = ''APPLIED''")
    case True
    with x have "applying_tx (gr_id g) tx" by (simp add: applying_tx_def)
    from world_reviewed [OF assms(1) g x(1) this, of "?h env" n] show ?thesis by (simp add: True)
  next
    case False
    have "world_ok H i (set_grants (applying_grant (gr_id g)) (\<lambda>r. r\<lparr>gr_state := st\<rparr>) (set_txs (applying_tx (gr_id g)) (?h env) w))"
      by (rule world_update [OF assms(1)]) (simp_all add: applying_grant_def applying_tx_def)
    with False show ?thesis by (simp add: set_swap)
  qed
  have fin: "world_ok H i w'" if "finish_recovery E g tx st curs n w = (Inr u, w')" for u w'
    using that up by (auto simp: finish_recovery_def Let_def act_simps split: if_splits dest: keepsD [OF world.audited])
  show ?thesis
  proof (cases "finish_recovery E g tx st curs n w")
    case (Pair r w1)
    with fin assms(1) show ?thesis
      by (cases r) (auto simp: in_tx_def intro: world.core_only [OF core_simps(8)])
  qed
qed

lemma world_recover:
  assumes ok: "world_ok H i w"
  shows "world_ok H i (snd (recover E now gid w))"
proof -
  let ?R = "\<lambda>x. core x = core w" and ?P = "world_ok H i"
  have RP: "?P x" if "?R x" for x using world.core_only [OF that ok] .
  have last: "leads ?R ?P (\<lambda>w. case in_tx (finish_recovery E g tx st curs n) w of
          (Inr _, w1) \<Rightarrow> (Inr st, w1)
        | (Inl e, w1) \<Rightarrow> (if e = IntegrityBlockedError ''recovery review transition lost''
            then seq (block_workspace wid ''RECOVERY_REVIEW_TRANSITION_LOST'' n) (\<lambda>_. fail e) w1 else (Inl e, w1)))"
    if "find_grant (gr_id g) w = Some g" "gr_state g = ''APPLYING''" "tx \<in> set (xw_txs w)" "tr_grant tx = gr_id g" "tr_state tx = ''APPLYING''"
    for g tx st curs n wid
    unfolding leads_def
    using that world_recovered [of H i] RP by (auto simp: core_eq find_grant_def intro!: world.recovery_end_at)
  have reads: "leads ?R ?P (recover E now gid)"
    unfolding recover_def Let_def
    apply (rule leads_seq, rule keeps_basic, erule RP)
    apply (rule leads_seq_res [where S = "\<lambda>g. find_grant (gr_id g) w = Some g"], rule same_core.basic, erule RP)
     apply (auto simp: find_grant_def core_eq dest: get_grant_found) []
    apply (rule leads_seq_res [where S = "\<lambda>t. t \<in> set (xw_txs w) \<and> tr_grant t = gr_id g" for g], rule same_core.basic, erule RP)
     apply (auto simp: core_eq dest: get_tx_found) []
    apply (rule leads_if, rule leads_keeps, rule keeps_basic, erule RP)
    apply (rule leads_seq, rule same_core.workspace, erule RP)
    apply (rule leads_seq, intro frame_rules same_core.basic, erule RP)
    apply (rule leads_seq, intro frame_rules same_core.basic, erule RP)
    apply (rule last)
    apply auto
    done
  from reads show ?thesis by (simp add: leads_def)
qed

subsection \<open>Every operation of the controller\<close>

lemma world_issue: "issue_grant E now tid wid sid lid wsid ops pfx secs w = (r, w') \<Longrightarrow> world_ok H i w \<Longrightarrow> world_ok H i w'"
  by (erule world.issuing) (assumption, rule world_insert)

lemma world_start: "keeps (world_ok H i) init_execution"
  by (rule world.starting)

text \<open>Steps of the store, ingestion and the gateway's own tables.\<close>

lemma world_db: "world_ok H g (w\<lparr>xw_db := d\<rparr>) \<longleftrightarrow> pipeline_inv (executed_tasks w) H g d \<and> distinct (map gr_id (xw_grants w))"
  by (simp add: world_ok_def executed_tasks_def applied_grants_def)

lemma world_outside:
  "world_ok H g (w\<lparr>xw_fs := x\<rparr>) = world_ok H g w" "world_ok H g (w\<lparr>xw_gateway := gw\<rparr>) = world_ok H g w"
  "world_ok H g (w\<lparr>xw_tick := k\<rparr>) = world_ok H g w" "world_ok H g (w\<lparr>xw_gateway := gw, xw_db := d\<rparr>) = world_ok H g (w\<lparr>xw_db := d\<rparr>)"
  by (simp_all add: world_ok_def executed_tasks_def applied_grants_def)

lemma world_steps:
  assumes "store_step\<^sup>*\<^sup>* (xw_db w) d" and "world_ok H g w"
  shows "world_ok H g (w\<lparr>xw_db := d\<rparr>)"
proof -
  from assms(2) have ok: "pipeline_inv (executed_tasks w) H g (xw_db w)" "distinct (map gr_id (xw_grants w))" by (simp_all add: world_ok_def)
  from assms(1) have "pipeline_inv (executed_tasks w) H g d"
  proof (induction rule: rtranclp_induct)
    case (step d1 d2)
    then show ?case using store_step_inv [OF step(2)] step_evolves [OF step(2)]
      by (auto simp: pipeline_inv_def intro: ingest_inv_evolves)
  qed (rule ok)
  with ok(2) show ?thesis by (simp add: world_db)
qed

lemma world_ingest:
  assumes "ingest H loads rep clock s queue g (xw_db w) = (r, g', d)" and "\<forall>s. lower_hex 64 (H s)" and "world_ok H g w"
  shows "world_ok H g' (w\<lparr>xw_db := d\<rparr>)"
proof -
  from assms(3) have "pipeline_inv (executed_tasks w) H g (xw_db w)" "distinct (map gr_id (xw_grants w))" by (simp_all add: world_ok_def)
  with ingest_inv_step [OF assms(1) _ assms(2)] show ?thesis by (simp add: world_ok_def executed_tasks_def applied_grants_def)
qed

text \<open>A hook of an application stands for what others do meanwhile: they work on the store through its operations.\<close>

definition bystander :: "hook \<Rightarrow> bool" where
  "bystander h \<longleftrightarrow> (\<forall>w. let w' = snd (h w) in xw_grants w' = xw_grants w \<and> xw_txs w' = xw_txs w \<and> store_step\<^sup>*\<^sup>* (xw_db w) (xw_db w'))"

definition bystanders :: "hooks \<Rightarrow> bool" where
  "bystanders hk \<longleftrightarrow> (\<forall>h. hk_before_first_write hk = Some h \<longrightarrow> bystander h) \<and> (\<forall>h i p. hk_after_operation hk = Some h \<longrightarrow> bystander (h i p))
     \<and> (\<forall>h. hk_before_rollback hk = Some h \<longrightarrow> bystander h)"

lemma bystander_keeps:
  assumes "bystander h" and "world_ok H i w"
  shows "world_ok H i (snd (h w))"
proof -
  let ?w = "w\<lparr>xw_db := xw_db (snd (h w))\<rparr>"
  have "world_ok H i ?w" by (rule world_steps [OF _ assms(2)]) (use assms(1) in \<open>simp add: bystander_def Let_def\<close>)
  then show ?thesis by (rule world.core_only [rotated]) (use assms(1) in \<open>simp add: bystander_def Let_def core_eq\<close>)
qed

lemma world_apply: "apply_plan E now plan hk w = (r, w') \<Longrightarrow> bystanders hk \<Longrightarrow> world_ok H i w \<Longrightarrow> world_ok H i w'"
  by (erule world.applying [OF _ _ _ world_claim world_finish world_terminalize])
    (auto simp: bystanders_def hooks_keep_def hook_keeps_def intro: bystander_keeps)

end
