(* ===== verification/ServiceClaims.thy ===== *)
theory ServiceClaims
  imports Service
begin

text \<open>
  What the hosted service promises: a loaded configuration is within its bounds and away from the
  repositories, one instance runs at a time and the lock is given back on every path, a bounded run and a
  stopped service end, retries are bounded, and the exit code is the one the health row tells.
\<close>

subsection \<open>Configuration\<close>

lemma config_number_D: "config_number v l lo hi = Inr r \<Longrightarrow> lo \<le> r \<and> r \<le> hi"
  by (auto simp: config_number_def split: option.splits if_splits pyfloat.splits)

lemma config_targets_D: "config_targets v = Inr ts \<Longrightarrow> ts \<noteq> [] \<and> distinct ts \<and> sorted ts \<and> set ts \<subseteq> set REGISTERED_PROJECTS"
proof -
  have "\<not> list_ex (\<lambda>x. as_str x = None) vs \<Longrightarrow> vs \<noteq> [] \<Longrightarrow> List.map_filter as_str vs \<noteq> []" for vs
    by (cases vs) (auto simp: List.map_filter_def)
  moreover have "sort (remdups xs) = [] \<longleftrightarrow> xs = []" for xs :: "string list"
    by (metis remdups_eq_nil_iff set_empty set_sort)
  moreover assume "config_targets v = Inr ts"
  ultimately show ?thesis
    by (auto simp: config_targets_def Let_def list_ex_iff subset_iff split: pyval.splits if_splits)
qed

lemma config_failures_D: "config_failures v = Inr n \<Longrightarrow> 1 \<le> n \<and> n \<le> 100"
  by (auto simp: config_failures_def split: pyval.splits if_splits)

text \<open>Every bound the loader states, on the record it returns.\<close>

definition config_ok :: "ServiceConfig \<Rightarrow> bool" where
  "config_ok cfg \<longleftrightarrow> 1 \<le> sc_max_failures cfg \<and> sc_max_failures cfg \<le> 100
     \<and> 1/100 \<le> sc_backoff_initial cfg \<and> sc_backoff_initial cfg \<le> 300
     \<and> sc_backoff_initial cfg \<le> sc_backoff_max cfg \<and> sc_backoff_max cfg \<le> 3600
     \<and> 1 \<le> sc_backoff_multiplier cfg \<and> sc_backoff_multiplier cfg \<le> 10
     \<and> 1/100 \<le> sc_cadence cfg \<and> sc_cadence cfg \<le> 3600
     \<and> 1 \<le> sc_health_stale cfg \<and> sc_health_stale cfg \<le> 86400
     \<and> is_identifier (sc_service_id cfg) \<and> sc_repository_roots cfg \<noteq> []
     \<and> sc_supported_targets cfg \<noteq> [] \<and> distinct (sc_supported_targets cfg) \<and> sorted (sc_supported_targets cfg)
     \<and> set (sc_supported_targets cfg) \<subseteq> set REGISTERED_PROJECTS"

lemma config_record_D:
  assumes "config_record sid rt queue roots targets maxf m = Inr cfg"
  shows "sc_service_id cfg = sid \<and> sc_runtime_root cfg = rt \<and> sc_repository_roots cfg = roots \<and> sc_supported_targets cfg = targets
    \<and> sc_max_failures cfg = maxf \<and> 1/100 \<le> sc_backoff_initial cfg \<and> sc_backoff_initial cfg \<le> 300
    \<and> sc_backoff_initial cfg \<le> sc_backoff_max cfg \<and> sc_backoff_max cfg \<le> 3600
    \<and> 1 \<le> sc_backoff_multiplier cfg \<and> sc_backoff_multiplier cfg \<le> 10 \<and> 1/100 \<le> sc_cadence cfg \<and> sc_cadence cfg \<le> 3600
    \<and> 1 \<le> sc_health_stale cfg \<and> sc_health_stale cfg \<le> 86400"
  using assms unfolding config_record_def by (auto split: sum.splits dest!: config_number_D)

lemma repository_roots_length: "repository_roots fv vs = Inr rs \<Longrightarrow> length rs = length vs"
  by (induction fv vs arbitrary: rs rule: repository_roots.induct) (auto split: pyval.splits if_splits option.splits sum.splits)

lemma config_of_dict_D:
  assumes "config_of_dict fv repo m = Inr cfg"
  shows "config_ok cfg \<and> (\<forall>f \<in> set (repo # sc_repository_roots cfg). \<not> prefix f (sc_runtime_root cfg) \<and> \<not> prefix (sc_runtime_root cfg) f)"
proof -
  from assms obtain sid vs roots rt queue targets maxf where sid: "is_identifier sid"
    and vs: "vs \<noteq> []" "repository_roots fv vs = Inr roots"
    and rt: "config_runtime_root fv (roots @ [repo]) (dget m ''runtime_root'') = Inr rt"
    and t: "config_targets (dget m ''supported_targets'') = Inr targets"
    and n: "config_failures (dget m ''max_consecutive_transient_failures'') = Inr maxf"
    and c: "config_record sid rt queue roots targets maxf m = Inr cfg"
    by (auto simp: config_of_dict_def split: if_splits pyval.splits sum.splits)
  from rt obtain s where "validate_root fv (roots @ [repo]) s = Inr rt"
    by (auto simp: config_runtime_root_def split: pyval.splits if_splits)
  from vs repository_roots_length have "roots \<noteq> []" by fastforce
  with validate_root_disjoint [OF \<open>validate_root fv (roots @ [repo]) s = Inr rt\<close>] config_record_D [OF c] config_targets_D [OF t]
    config_failures_D [OF n] sid
  show ?thesis by (auto simp: config_ok_def)
qed

lemma backoff_bounds:
  assumes "config_ok cfg"
  shows "sc_backoff_initial cfg \<le> backoff_delay cfg n \<and> backoff_delay cfg n \<le> sc_backoff_max cfg
    \<and> backoff_delay cfg n \<le> backoff_delay cfg (Suc n)"
proof -
  let ?m = "sc_backoff_multiplier cfg" and ?i = "sc_backoff_initial cfg"
  from assms have m: "1 \<le> ?m" and i: "0 < ?i" "?i \<le> sc_backoff_max cfg" by (auto simp: config_ok_def)
  have one: "1 \<le> ?m ^ (n - 1)" using m by (rule one_le_power)
  have "?m ^ (n - 1) \<le> ?m ^ n" by (rule power_increasing) (use m in auto)
  with i have "?i * ?m ^ (n - 1) \<le> ?i * ?m ^ n" by simp
  moreover from one i(1) have "?i \<le> ?i * ?m ^ (n - 1)" by simp
  ultimately show ?thesis using i(2) by (auto simp: backoff_delay_def min_def)
qed

subsection \<open>The health row\<close>

abbreviation health_of :: "ServiceConfig \<Rightarrow> health_row list \<Rightarrow> health_row option" where
  "health_of cfg rows \<equiv> find (\<lambda>r. hr_service r = sc_service_id cfg) rows"

lemma find_replaced: "find P (filter (\<lambda>x. \<not> P x) xs @ [b]) = (if P b then Some b else None)"
  by (induction xs) simp_all

lemma service_health_D:
  assumes "service_health E cfg inst status n rt e reason inc h = (r, h')" and "status \<in> set SERVICE_STATES"
  shows "ho_tick h' = Suc (ho_tick h)" and "ho_runtime h' = ho_runtime h"
    and "\<And>x. r = Inl x \<Longrightarrow> (x = db_busy \<and> sv_locked E (ho_tick h)) \<or> x = SqlIntegrityError"
    and "r = Inr u \<Longrightarrow> \<exists>b. health_of cfg (ho_health h') = Some b \<and> hr_status b = status \<and> hr_instance b = inst
           \<and> hr_failures b = n \<and> hr_reason b = map_option clean reason"
  using assms by (auto simp: service_health_def Let_def find_replaced split: if_splits)

lemma health_states [simp]:
  "''STARTING'' \<in> set SERVICE_STATES" "''RUNNING'' \<in> set SERVICE_STATES" "''IDLE'' \<in> set SERVICE_STATES"
  "''BACKOFF'' \<in> set SERVICE_STATES" "''BLOCKED'' \<in> set SERVICE_STATES" "''INTEGRITY_BLOCKED'' \<in> set SERVICE_STATES"
  "''STOPPING'' \<in> set SERVICE_STATES" "''STOPPED'' \<in> set SERVICE_STATES" "''CRASHED'' \<in> set SERVICE_STATES"
  by (simp_all add: SERVICE_STATES_def)

text \<open>How a write of the row continues.\<close>

lemma after_health_cases:
  assumes "after_health (service_health E cfg inst status n rt e reason inc h) f = p" and "status \<in> set SERVICE_STATES"
  obtains (raised) x h1 where "p = Leave (Inl x) h1" and "ho_tick h1 = Suc (ho_tick h)"
  | (written) h1 b where "p = f h1" and "ho_tick h1 = Suc (ho_tick h)" and "health_of cfg (ho_health h1) = Some b"
      and "hr_status b = status" and "hr_instance b = inst" and "hr_failures b = n" and "hr_reason b = map_option clean reason"
proof -
  obtain r h1 where q: "service_health E cfg inst status n rt e reason inc h = (r, h1)" by fastforce
  show thesis
  proof (cases r)
    case (Inl x)
    with q assms(1) service_health_D(1) [OF q assms(2)] show ?thesis by (auto simp: after_health_def intro: raised)
  next
    case (Inr u)
    with q assms(1) service_health_D(1) [OF q assms(2)] service_health_D(4) [OF q assms(2), of u]
    show ?thesis by (auto simp: after_health_def intro: written)
  qed
qed

fun exit_status :: "nat \<Rightarrow> string" where
  "exit_status n = (if n = 0 then ''STOPPED'' else if n = 3 then ''BLOCKED'' else if n = 4 then ''INTEGRITY_BLOCKED'' else ''CRASHED'')"

definition exit_recorded :: "ServiceConfig \<Rightarrow> string \<Rightarrow> nat \<Rightarrow> health_row list \<Rightarrow> bool" where
  "exit_recorded cfg inst code rows \<longleftrightarrow> code \<in> {0, 3, 4, 5} \<and> (\<exists>b. health_of cfg rows = Some b \<and> hr_status b = exit_status code \<and> hr_instance b = inst)"

lemma leave_pass:
  assumes "code \<in> {0, 3, 4, 5}" and "status = exit_status code"
  shows "\<exists>r h1. after_health (service_health E cfg inst status n rt e reason inc h) (Leave (Inr code)) = Leave r h1
    \<and> (\<forall>c. r = Inr c \<longrightarrow> exit_recorded cfg inst c (ho_health h1))"
proof -
  have "status \<in> set SERVICE_STATES" using assms by (auto simp: SERVICE_STATES_def)
  moreover obtain p where p: "after_health (service_health E cfg inst status n rt e reason inc h) (Leave (Inr code)) = p" by blast
  ultimately show ?thesis unfolding p
    by (cases rule: after_health_cases [OF p]) (use assms in \<open>auto simp: exit_recorded_def simp del: exit_status.simps\<close>)
qed

lemma on_error_pass:
  assumes "on_error E cfg inst e failures completed h = p"
  shows "(\<exists>h1. p = Again (Suc failures) completed h1 \<and> Suc failures \<le> sc_max_failures cfg \<and> transient e \<and> ho_tick h < ho_tick h1)
    \<or> (\<exists>r h1. p = Leave r h1 \<and> (\<forall>code. r = Inr code \<longrightarrow> exit_recorded cfg inst code (ho_health h1)))"
proof -
  let ?h = "h\<lparr>ho_tick := Suc (ho_tick h)\<rparr>"
  note leave = leave_pass [where E = E and cfg = cfg and inst = inst and h = h]
  have again: "after_health (service_health E cfg inst ''BACKOFF'' (Suc failures) rt er None False ?h) (Again (Suc failures) completed) = p
    \<Longrightarrow> (\<exists>h1. p = Again (Suc failures) completed h1 \<and> ho_tick h < ho_tick h1) \<or> (\<exists>x h1. p = Leave (Inl x) h1)" for rt er
    by (erule after_health_cases) auto
  show ?thesis
  proof (cases "is_blocked e \<or> \<not> transient e \<or> Suc failures > sc_max_failures cfg")
    case True
    with assms leave [of 3] leave [of 4] leave [of 5] show ?thesis
      by (cases e) (auto simp: on_error_def simp del: transient.simps split: if_splits)
  next
    case False
    then have "Suc failures \<le> sc_max_failures cfg" "transient e" by simp_all
    moreover from assms False again have "(\<exists>h1. p = Again (Suc failures) completed h1 \<and> ho_tick h < ho_tick h1) \<or> (\<exists>x h1. p = Leave (Inl x) h1)"
      by (cases e) (simp_all add: on_error_def del: transient.simps)
    ultimately show ?thesis by auto
  qed
qed

lemma attempt_pass:
  assumes "attempt E cfg inst cycles failures completed h = p"
  shows "(\<exists>h1. p = Again 0 (Suc completed) h1 \<and> ho_tick h < ho_tick h1 \<and> (\<forall>c. cycles = Some c \<longrightarrow> int (Suc completed) < c))
    \<or> (\<exists>h1. p = Again (Suc failures) completed h1 \<and> ho_tick h < ho_tick h1 \<and> Suc failures \<le> sc_max_failures cfg)
    \<or> (\<exists>h1 k. p = Again (Suc 0) (Suc completed) h1 \<and> ho_tick h < ho_tick h1 \<and> ho_tick h < k \<and> sv_locked E k)
    \<or> (\<exists>h1. p = Break h1)
    \<or> (\<exists>r h1. p = Leave r h1 \<and> (\<forall>code. r = Inr code \<longrightarrow> exit_recorded cfg inst code (ho_health h1)))"
proof -
  obtain r1 h1 where q1: "service_health E cfg inst ''RUNNING'' failures None None None False h = (r1, h1)" by fastforce
  note t1 = service_health_D(1) [OF q1 health_states(2)]
  obtain out rt where q2: "sv_once E (ho_tick h1) (ho_runtime h1) = (out, rt)" by fastforce
  let ?h2 = "h1\<lparr>ho_runtime := rt, ho_tick := Suc (ho_tick h1)\<rparr>"
  obtain r3 h3 where q3: "service_health E cfg inst ''IDLE'' 0 None None None True ?h2 = (r3, h3)" by fastforce
  note t3 = service_health_D(1,3) [OF q3 health_states(3)]
  show ?thesis
  proof (cases r1)
    case (Inl e)
    with assms q1 on_error_pass [of E cfg inst e failures completed h1 p] t1 show ?thesis by (fastforce simp: attempt_def)
  next
    case r1: (Inr u)
    show ?thesis
    proof (cases out)
      case (Some e)
      with assms q1 q2 r1 on_error_pass [of E cfg inst e failures completed ?h2 p] t1 show ?thesis by (fastforce simp: attempt_def)
    next
      case None
      show ?thesis
      proof (cases r3)
        case (Inl e)
        with assms q1 q2 q3 r1 None have "on_error E cfg inst e 0 (Suc completed) h3 = p" by (simp add: attempt_def)
        from on_error_pass [OF this] t3(2) [OF Inl] t1 t3(1) show ?thesis by fastforce
      next
        case (Inr v)
        with assms q1 q2 q3 r1 None t1 t3(1) show ?thesis by (auto simp: attempt_def split: option.splits if_splits)
      qed
    qed
  qed
qed

subsection \<open>The loop ends\<close>

lemma service_loop_next:
  "\<not> sv_stop E (ho_tick h) \<Longrightarrow> attempt E cfg inst cycles f c (h\<lparr>ho_tick := Suc (ho_tick h)\<rparr>) = Again f1 c1 h1 \<Longrightarrow>
    service_loop E cfg inst cycles f c h = service_loop E cfg inst cycles f1 c1 h1"
  by (subst service_loop.simps) (simp add: Let_def)

lemma loop_ends:
  "sv_stop E (ho_tick h) \<Longrightarrow> \<exists>r. service_loop E cfg inst cycles f c h = Some r"
  "attempt E cfg inst cycles f c (h\<lparr>ho_tick := Suc (ho_tick h)\<rparr>) = Break h1 \<Longrightarrow> \<exists>r. service_loop E cfg inst cycles f c h = Some r"
  "attempt E cfg inst cycles f c (h\<lparr>ho_tick := Suc (ho_tick h)\<rparr>) = Leave x h1 \<Longrightarrow> \<exists>r. service_loop E cfg inst cycles f c h = Some r"
  by (subst service_loop.simps, simp add: Let_def)+

text \<open>A pass ends the loop or goes on at a later tick; it counts a cycle or a failure.\<close>

lemma loop_pass:
  obtains (ended) r where "service_loop E cfg inst cycles f c h = Some r"
  | (cycle) h1 where "service_loop E cfg inst cycles f c h = service_loop E cfg inst cycles 0 (Suc c) h1" and "ho_tick h < ho_tick h1"
      and "\<And>b. cycles = Some b \<Longrightarrow> int (Suc c) < b" and "\<not> sv_stop E (ho_tick h)"
  | (failure) h1 where "service_loop E cfg inst cycles f c h = service_loop E cfg inst cycles (Suc f) c h1" and "ho_tick h < ho_tick h1"
      and "Suc f \<le> sc_max_failures cfg" and "\<not> sv_stop E (ho_tick h)"
  | (unrecorded) h1 k where "service_loop E cfg inst cycles f c h = service_loop E cfg inst cycles (Suc 0) (Suc c) h1"
      and "ho_tick h < ho_tick h1" and "ho_tick h < k" and "sv_locked E k" and "\<not> sv_stop E (ho_tick h)"
proof (cases "sv_stop E (ho_tick h)")
  case True
  with loop_ends(1) ended show thesis by blast
next
  case False
  note go = service_loop_next [OF False]
  let ?h = "h\<lparr>ho_tick := Suc (ho_tick h)\<rparr>"
  consider (c) h1 where "attempt E cfg inst cycles f c ?h = Again 0 (Suc c) h1" "ho_tick ?h < ho_tick h1"
      "\<forall>b. cycles = Some b \<longrightarrow> int (Suc c) < b"
    | (f) h1 where "attempt E cfg inst cycles f c ?h = Again (Suc f) c h1" "ho_tick ?h < ho_tick h1" "Suc f \<le> sc_max_failures cfg"
    | (u) h1 k where "attempt E cfg inst cycles f c ?h = Again (Suc 0) (Suc c) h1" "ho_tick ?h < ho_tick h1" "ho_tick ?h < k" "sv_locked E k"
    | (b) h1 where "attempt E cfg inst cycles f c ?h = Break h1"
    | (l) r h1 where "attempt E cfg inst cycles f c ?h = Leave r h1"
    using attempt_pass [of E cfg inst cycles f c ?h, OF refl] by blast
  then show thesis
  proof cases
    case c
    show thesis by (rule cycle [OF go [OF c(1)]]) (use c False in simp_all)
  next
    case f
    show thesis by (rule failure [OF go [OF f(1)]]) (use f False in simp_all)
  next
    case (u h1 k)
    show thesis by (rule unrecorded [OF go [OF u(1)], of k]) (use u False in simp_all)
  next
    case b
    from loop_ends(2) [OF this] ended show thesis by blast
  next
    case l
    from loop_ends(3) [OF this] ended show thesis by blast
  qed
qed

lemma loop_stopped:
  assumes "\<forall>k \<ge> K. sv_stop E k"
  shows "\<exists>r. service_loop E cfg inst cycles f c h = Some r"
proof (induction "K - ho_tick h" arbitrary: f c h rule: less_induct)
  case less
  have step: "K - ho_tick h1 < K - ho_tick h" if "ho_tick h < ho_tick h1" "\<not> sv_stop E (ho_tick h)" for h1 :: "'a host"
    using assms that by (meson diff_less_mono2 le_less_linear order_less_le_trans)
  show ?case
  proof (cases rule: loop_pass [of E cfg inst cycles f c h])
    case (cycle h1)
    with less [OF step] show ?thesis by simp
  next
    case (failure h1)
    with less [OF step] show ?thesis by simp
  next
    case (unrecorded h1 k)
    with less [OF step] show ?thesis by simp
  qed simp
qed

text \<open>A pass whose last write of the row is refused counts a cycle and starts over with one failure, past the bound; once
  the database refuses no more, the bound ends the loop.\<close>

lemma loop_bounded:
  assumes "\<forall>k \<ge> N. \<not> sv_locked E k" and "N \<le> ho_tick h"
  shows "\<exists>r. service_loop E cfg inst (Some b) f c h = Some r"
  using assms(2)
proof (induction "(nat b - c) * Suc (sc_max_failures cfg) + (sc_max_failures cfg - f)" arbitrary: f c h rule: less_induct)
  case less
  let ?M = "sc_max_failures cfg"
  show ?case
  proof (cases rule: loop_pass [of E cfg inst "Some b" f c h])
    case (cycle h1)
    then have "Suc (nat b - Suc c) = nat b - c" by force
    then have "(nat b - c) * Suc ?M = Suc ?M + (nat b - Suc c) * Suc ?M" by (metis mult_Suc)
    then have "(nat b - Suc c) * Suc ?M + (?M - 0) < (nat b - c) * Suc ?M + (?M - f)" by linarith
    from less.hyps [OF this, of h1] cycle(1,2) less.prems show ?thesis by simp
  next
    case (failure h1)
    then have "?M - Suc f < ?M - f" by linarith
    then have "(nat b - c) * Suc ?M + (?M - Suc f) < (nat b - c) * Suc ?M + (?M - f)" by (rule add_strict_left_mono)
    from less.hyps [OF this, of h1] failure(1,2) less.prems show ?thesis by simp
  next
    case (unrecorded h1 k)
    with assms(1) less.prems show ?thesis by simp
  qed simp
qed

lemma loop_bounded_unlocked:
  assumes "\<forall>k \<ge> N. \<not> sv_locked E k"
  shows "\<exists>r. service_loop E cfg inst (Some b) f c h = Some r"
proof (induction "N - ho_tick h" arbitrary: f c h rule: less_induct)
  case less
  show ?case
  proof (cases "N \<le> ho_tick h")
    case True
    with loop_bounded [OF assms] show ?thesis by blast
  next
    case False
    then have step: "N - ho_tick h1 < N - ho_tick h" if "ho_tick h < ho_tick h1" for h1 :: "'a host" using that by linarith
    show ?thesis
    proof (cases rule: loop_pass [of E cfg inst "Some b" f c h])
      case (cycle h1)
      with less [OF step] show ?thesis by simp
    next
      case (failure h1)
      with less [OF step] show ?thesis by simp
    next
      case (unrecorded h1 k)
      with less [OF step] show ?thesis by simp
    qed simp
  qed
qed

lemma graceful_exit: "graceful E cfg inst h = (Inr code, h1) \<Longrightarrow> exit_recorded cfg inst code (ho_health h1)"
  by (auto simp: graceful_def exit_recorded_def split: sum.splits prod.splits dest!: service_health_D(4) [OF _ health_states(8)])

lemma loop_exit:
  assumes "service_loop E cfg inst cycles f c h = Some (Inr code, h1)"
  shows "exit_recorded cfg inst code (ho_health h1)"
proof -
  have "case y of (r, h1) \<Rightarrow> \<forall>code. r = Inr code \<longrightarrow> exit_recorded cfg inst code (ho_health h1)"
    if "service_loop E cfg inst cycles f c h = Some y" for y
  proof (rule service_loop.raw_induct [where P = "\<lambda>E cfg inst cycles f c h y. case y of (r, h1) \<Rightarrow>
        \<forall>code. r = Inr code \<longrightarrow> exit_recorded cfg inst code (ho_health h1)", OF _ that], goal_cases)
    case (1 loop E cfg inst cycles f c h y)
    show ?case
    proof (cases "attempt E cfg inst cycles f c (h\<lparr>ho_tick := Suc (ho_tick h)\<rparr>)")
      case (Again f1 c1 h1)
      with 1 show ?thesis by (auto simp: Let_def split: if_splits dest: graceful_exit)
    next
      case (Break h1)
      with 1 show ?thesis by (auto simp: Let_def split: if_splits dest: graceful_exit)
    next
      case (Leave r h1)
      with 1 attempt_pass [OF Leave] show ?thesis by (auto simp: Let_def split: if_splits dest: graceful_exit)
    qed
  qed
  from this [OF assms] show ?thesis by simp
qed

lemma lock_acquire_D:
  "lock_acquire calls sid inst l = (True, l1) \<Longrightarrow> il_holder l = None \<and> il_holder (lock_release inst l1) = None"
  "lock_acquire calls sid inst l = (False, l1) \<Longrightarrow> l1 = l"
  by (auto simp: lock_acquire_def lock_release_def split: if_splits)

lemma service_run_cases:
  assumes "service_run E calls u cfg inst cycles w = Some (r, w')"
  obtains (refused) e where "r = Inl e" and "w' = w"
  | (startup) e l where "lock_acquire calls (sc_service_id cfg) inst (se_lock w) = (True, l)" and "r = Inl e"
      and "se_lock w' = lock_release inst l"
  | (served) l b h h' where "lock_acquire calls (sc_service_id cfg) inst (se_lock w) = (True, l)"
      and "service_loop E cfg inst b 0 0 h = Some (r, h')" and "w' = \<lparr>se_lock = lock_release inst l, se_health = ho_health h'\<rparr>"
proof (cases "valid_cycles cycles")
  case (Inl e)
  with assms show thesis by (intro refused) (auto simp: service_run_def)
next
  case cy: (Inr b)
  obtain got l where lock: "lock_acquire calls (sc_service_id cfg) inst (se_lock w) = (got, l)" by fastforce
  show thesis
  proof (cases got)
    case False
    with assms cy lock lock_acquire_D(2) show thesis by (intro refused) (auto simp: service_run_def)
  next
    case True
    show thesis
    proof (cases "start_runtime u")
      case (Inl e)
      with assms cy lock True show thesis by (intro startup [of l]) (auto simp: service_run_def)
    next
      case rt: (Inr rt)
      obtain s h where h: "service_health E cfg inst ''STARTING'' 0 None None None False
          \<lparr>ho_runtime = rt, ho_health = se_health w, ho_tick = 0\<rparr> = (s, h)" by fastforce
      show thesis
      proof (cases s)
        case (Inl e)
        with assms cy lock True rt h show thesis by (intro startup [of l]) (auto simp: service_run_def)
      next
        case (Inr x)
        with assms cy lock True rt h show thesis by (auto simp: service_run_def intro: served)
      qed
    qed
  qed
qed

lemma service_run_returns:
  assumes "\<And>b h. valid_cycles cycles = Inr b \<Longrightarrow> \<exists>r. service_loop E cfg inst b 0 0 h = Some r"
  shows "\<exists>r. service_run E calls u cfg inst cycles w = Some r"
  using assms by (auto simp: service_run_def split: sum.splits bool.splits prod.splits)

subsection \<open>Writes that succeed\<close>

definition started_ok :: "ServiceConfig \<Rightarrow> health_row list \<Rightarrow> bool" where
  "started_ok cfg rows \<longleftrightarrow> (\<forall>b. health_of cfg rows = Some b \<longrightarrow> hr_started b \<noteq> NaN)"

lemma health_written:
  assumes "\<not> sv_locked E (ho_tick h)" and "sv_clock E (ho_tick h) \<noteq> NaN" and "started_ok cfg (ho_health h)" and "status \<in> set SERVICE_STATES"
  obtains h1 b where "service_health E cfg inst status n rt e reason inc h = (Inr (), h1)" and "ho_tick h1 = Suc (ho_tick h)"
    and "ho_runtime h1 = ho_runtime h" and "started_ok cfg (ho_health h1)" and "health_of cfg (ho_health h1) = Some b"
    and "hr_status b = status" and "hr_failures b = n" and "hr_reason b = map_option clean reason"
proof -
  have st: "(case health_of cfg (ho_health h) of None \<Rightarrow> sv_clock E (ho_tick h)
      | Some p \<Rightarrow> if status \<noteq> ''STARTING'' then hr_started p else sv_clock E (ho_tick h)) \<noteq> NaN"
    using assms(2,3) by (auto simp: started_ok_def split: option.splits)
  obtain r h1 where q: "service_health E cfg inst status n rt e reason inc h = (r, h1)" by fastforce
  from q assms(1,2,4) st have r: "r = Inr ()" and s: "started_ok cfg (ho_health h1)"
    by (auto simp: service_health_def Let_def started_ok_def find_replaced)
  note q = q [unfolded r]
  from q s service_health_D [OF q assms(4)] that show thesis by blast
qed

lemma on_error_transient:
  "transient e \<Longrightarrow> on_error E cfg inst e f c h =
     (if Suc f > sc_max_failures cfg
      then after_health (service_health E cfg inst ''CRASHED'' (Suc f) None (Some (err_class e)) (Some ''TRANSIENT_LIMIT'') False h) (Leave (Inr 5))
      else after_health (service_health E cfg inst ''BACKOFF'' (Suc f)
            (Some (float_add (sv_clock E (ho_tick h)) (backoff_delay cfg (Suc f)))) (Some (err_class e)) None False
            (h\<lparr>ho_tick := Suc (ho_tick h)\<rparr>)) (Again (Suc f) c))"
  by (cases e) (simp_all add: on_error_def)

text \<open>When every run of the runtime fails in passing, each pass is one more failure until the limit.\<close>

lemma failing_loop:
  assumes env: "\<forall>k. \<not> sv_locked E k \<and> \<not> sv_stop E k \<and> sv_clock E k \<noteq> NaN"
    and fail: "\<forall>k rt. \<exists>e rt'. sv_once E k rt = (Some e, rt') \<and> transient e"
  shows "f \<le> sc_max_failures cfg \<Longrightarrow> started_ok cfg (ho_health h) \<Longrightarrow>
    \<exists>h' b. service_loop E cfg inst cycles f c h = Some (Inr 5, h') \<and> health_of cfg (ho_health h') = Some b
      \<and> hr_failures b = Suc (sc_max_failures cfg) \<and> hr_reason b = Some ''TRANSIENT_LIMIT''"
proof (induction "sc_max_failures cfg - f" arbitrary: f h)
  case (0 f h)
  let ?h = "h\<lparr>ho_tick := Suc (ho_tick h)\<rparr>"
  have so: "started_ok cfg (ho_health ?h)" using 0 by simp
  obtain h1 b where h1: "service_health E cfg inst ''RUNNING'' f None None None False ?h = (Inr (), h1)" "started_ok cfg (ho_health h1)"
    by (rule health_written [OF _ _ so health_states(2)]) (use env in auto)
  obtain e rt where e: "sv_once E (ho_tick h1) (ho_runtime h1) = (Some e, rt)" "transient e" using fail by blast
  let ?h2 = "h1\<lparr>ho_runtime := rt, ho_tick := Suc (ho_tick h1)\<rparr>"
  have so2: "started_ok cfg (ho_health ?h2)" using h1(2) by simp
  obtain h3 b where h3: "service_health E cfg inst ''CRASHED'' (Suc f) None (Some (err_class e)) (Some ''TRANSIENT_LIMIT'') False ?h2 = (Inr (), h3)"
    "health_of cfg (ho_health h3) = Some b" "hr_failures b = Suc f" "hr_reason b = map_option clean (Some ''TRANSIENT_LIMIT'')"
    using health_written [OF _ _ so2 health_states(9), of E inst "Suc f" None "Some (err_class e)" "Some ''TRANSIENT_LIMIT''" False] env by blast
  have f: "f = sc_max_failures cfg" using 0 by simp
  have "attempt E cfg inst cycles f c ?h = Leave (Inr 5) h3"
    using h1 e h3(1) f by (simp add: attempt_def on_error_transient after_health_def)
  moreover have "clean ''TRANSIENT_LIMIT'' = ''TRANSIENT_LIMIT''" by (rule clean_identifier) (simp add: ident_char_def is_alnum_def is_upper_def is_lower_def)
  ultimately show ?case using h3 f env by (subst service_loop.simps) (simp add: Let_def)
next
  case (Suc d f h)
  let ?h = "h\<lparr>ho_tick := Suc (ho_tick h)\<rparr>"
  have so: "started_ok cfg (ho_health ?h)" using Suc.prems by simp
  obtain h1 b where h1: "service_health E cfg inst ''RUNNING'' f None None None False ?h = (Inr (), h1)" "started_ok cfg (ho_health h1)"
    by (rule health_written [OF _ _ so health_states(2)]) (use env in auto)
  obtain e rt where e: "sv_once E (ho_tick h1) (ho_runtime h1) = (Some e, rt)" "transient e" using fail by blast
  let ?h2 = "h1\<lparr>ho_runtime := rt, ho_tick := Suc (Suc (ho_tick h1))\<rparr>"
  have so2: "started_ok cfg (ho_health ?h2)" using h1(2) by simp
  obtain h3 where h3: "service_health E cfg inst ''BACKOFF'' (Suc f) (Some (float_add (sv_clock E (Suc (ho_tick h1))) (backoff_delay cfg (Suc f))))
      (Some (err_class e)) None False ?h2 = (Inr (), h3)" "started_ok cfg (ho_health h3)"
    by (rule health_written [OF _ _ so2 health_states(4)]) (use env in auto)
  have f: "Suc f \<le> sc_max_failures cfg" "d = sc_max_failures cfg - Suc f" using Suc.hyps(2) by simp_all
  have "attempt E cfg inst cycles f c ?h = Again (Suc f) c h3"
    using h1 e h3(1) f by (simp add: attempt_def on_error_transient after_health_def)
  from service_loop_next [OF _ this] env Suc.hyps(1) [OF f(2,1) h3(2)] show ?case by simp
qed

subsection \<open>Claims\<close>

text \<open>C40. A loaded configuration is within every bound the loader states: the runtime root is neither inside nor around
  any repository root nor the service's own repository, the targets are distinct registered projects, between 1 and 100
  transient failures are allowed, the initial backoff is at most 300 and the maximal one at most 3600 seconds, the
  multiplier is between 1 and 10, the cadence at most 3600 seconds, and the staleness threshold between a second and a
  day; every delay the service computes from it lies between the initial and the maximal backoff and never shrinks with
  the failures.\<close>

theorem loaded_config_bounds:
  assumes "load_config fv contents loads repo path = Inr cfg"
  shows "config_ok cfg \<and> (\<forall>f \<in> set (repo # sc_repository_roots cfg). \<not> prefix f (sc_runtime_root cfg) \<and> \<not> prefix (sc_runtime_root cfg) f)
    \<and> sc_backoff_initial cfg \<le> backoff_delay cfg n \<and> backoff_delay cfg n \<le> sc_backoff_max cfg
    \<and> backoff_delay cfg n \<le> backoff_delay cfg (Suc n)"
proof -
  from assms obtain m where "config_of_dict fv repo m = Inr cfg"
    by (auto simp: load_config_def split: sum.splits if_splits option.splits pyval.splits)
  from config_of_dict_D [OF this] backoff_bounds show ?thesis by blast
qed

text \<open>C23. A bounded run ends: with a bound on the cycles the service returns or raises, whatever the runtime, the clock, the
  stop event and the operating system do, provided that from some moment on the database refuses no write of the
  health row. (While it refuses the write that closes a cycle, the bound is not compared: \<open>bound_not_enforced\<close>.)\<close>

theorem bounded_run_ends:
  assumes "\<forall>k \<ge> N. \<not> sv_locked E k"
  shows "\<exists>r. service_run E calls u cfg inst (PyInt b) w = Some r"
proof (rule service_run_returns)
  fix x and h :: "'a host"
  assume "valid_cycles (PyInt b) = Inr x"
  then have "x = Some b" by (auto simp: valid_cycles_def split: if_splits)
  with loop_bounded_unlocked [OF assms] show "\<exists>r. service_loop E cfg inst x 0 0 h = Some r" by simp
qed

text \<open>A stopped service ends: once the stop event stays set, the run returns or raises, with or without a bound, and
  also when the database refuses writes.\<close>

theorem stopped_service_ends:
  assumes "\<forall>k \<ge> K. sv_stop E k"
  shows "\<exists>r. service_run E calls u cfg inst cycles w = Some r"
  by (rule service_run_returns) (rule loop_stopped [OF assms])

text \<open>The exit code is recorded: when a run returns a code, it is 0, 3, 4 or 5, the health row of the service is
  this instance's and says stopped, blocked, integrity blocked or crashed accordingly, every later status report
  says the same at any time, and the lock is free.\<close>

theorem exit_code_recorded:
  assumes "service_run E calls u cfg inst cycles w = Some (Inr code, w')"
  shows "exit_recorded cfg inst code (se_health w') \<and> fst (read_status cfg now (HealthRows (se_health w'))) = exit_status code
    \<and> il_holder (se_lock w') = None"
  using assms
proof (cases rule: service_run_cases)
  case (served l b h h')
  from loop_exit [OF served(2)] have ex: "exit_recorded cfg inst code (se_health w')" by (simp add: served(3))
  then have "exit_status code \<notin> set ACTIVE_STATES" by (auto simp: exit_recorded_def ACTIVE_STATES_def)
  with ex have "fst (read_status cfg now (HealthRows (se_health w'))) = exit_status code"
    by (auto simp: exit_recorded_def read_status_def Let_def simp del: exit_status.simps)
  with ex served(3) lock_acquire_D(1) [OF served(1)] show ?thesis by simp
qed simp_all

text \<open>C38. One instance runs: while another instance holds the lock, a run raises and leaves the lock and the health rows as
  they are; and no run, however it returns or raises, leaves the lock held that was free before.\<close>

theorem single_instance:
  assumes "service_run E calls u cfg inst cycles w = Some (r, w')"
  shows "il_holder (se_lock w') = il_holder (se_lock w) \<and> (il_holder (se_lock w) \<noteq> None \<longrightarrow> (\<exists>e. r = Inl e) \<and> w' = w)"
  using assms
proof (cases rule: service_run_cases)
  case (startup e l)
  with lock_acquire_D(1) [OF startup(1)] show ?thesis by simp
next
  case (served l b h h')
  with lock_acquire_D(1) [OF served(1)] show ?thesis by simp
qed simp

text \<open>Retries are bounded: when the lock is free and the store opens, no write is refused, nobody stops the service, and every
  run of the runtime fails with a passing error, the service ends with code 5 after exactly one failure more
  than the configuration allows, and says so.\<close>

theorem transient_failures_exit:
  assumes "\<forall>k. \<not> sv_locked E k \<and> \<not> sv_stop E k \<and> sv_clock E k \<noteq> NaN" and "\<forall>k rt. \<exists>e rt'. sv_once E k rt = (Some e, rt') \<and> transient e"
    and "valid_cycles cycles = Inr bound" and "lock_acquire calls (sc_service_id cfg) inst (se_lock w) = (True, l)" and "start_runtime u = Inr rt"
    and "started_ok cfg (se_health w)"
  shows "\<exists>w' b. service_run E calls u cfg inst cycles w = Some (Inr 5, w') \<and> health_of cfg (se_health w') = Some b
    \<and> hr_failures b = Suc (sc_max_failures cfg) \<and> hr_reason b = Some ''TRANSIENT_LIMIT''"
proof -
  let ?h = "\<lparr>ho_runtime = rt, ho_health = se_health w, ho_tick = 0\<rparr>"
  have so: "started_ok cfg (ho_health ?h)" using assms(6) by simp
  obtain h1 where h1: "service_health E cfg inst ''STARTING'' 0 None None None False ?h = (Inr (), h1)" "started_ok cfg (ho_health h1)"
    using health_written [OF _ _ so health_states(1)] assms(1) by blast
  from failing_loop [OF assms(1,2) _ h1(2), of 0 inst bound 0] obtain h' b where
    "service_loop E cfg inst bound 0 0 h1 = Some (Inr 5, h')" "health_of cfg (ho_health h') = Some b"
    "hr_failures b = Suc (sc_max_failures cfg)" "hr_reason b = Some ''TRANSIENT_LIMIT''" by auto
  with assms(3-5) h1(1) show ?thesis by (simp add: service_run_def)
qed

subsection \<open>A bound that is not kept\<close>

text \<open>
  The bound on the cycles is only looked at after the row IDLE was written: when exactly that write finds the database
  busy each time, a service that was asked for one cycle runs for ever.
\<close>

definition busy_env :: "unit service_env" where
  "busy_env = \<lparr>sv_clock = \<lambda>k. Finite (of_nat k), sv_locked = \<lambda>k. k mod 6 = 4, sv_stop = \<lambda>k. False, sv_once = \<lambda>k rt. (None, rt)\<rparr>"

lemma busy_simps [simp]:
  "sv_clock busy_env k = Finite (of_nat k)" "sv_locked busy_env k = (k mod 6 = 4)" "\<not> sv_stop busy_env k" "sv_once busy_env k rt = (None, rt)"
  by (simp_all add: busy_env_def)

lemma busy_pass:
  assumes "ho_tick h mod 6 = 1" and "started_ok cfg (ho_health h)" and "1 \<le> sc_max_failures cfg"
  obtains h1 where "attempt busy_env cfg inst cycles f c (h\<lparr>ho_tick := Suc (ho_tick h)\<rparr>) = Again (Suc 0) (Suc c) h1"
    and "ho_tick h1 mod 6 = 1" and "started_ok cfg (ho_health h1)"
proof -
  let ?h = "h\<lparr>ho_tick := Suc (ho_tick h)\<rparr>"
  have so: "started_ok cfg (ho_health ?h)" using assms(2) by simp
  have t: "Suc (ho_tick h) mod 6 = 2" "Suc (Suc (Suc (ho_tick h))) mod 6 = 4" "Suc (Suc (Suc (Suc (Suc (ho_tick h))))) mod 6 = 0"
    "Suc (Suc (Suc (Suc (Suc (Suc (ho_tick h)))))) mod 6 = 1" using assms(1) by presburger+
  obtain h1 where h1: "service_health busy_env cfg inst ''RUNNING'' f None None None False ?h = (Inr (), h1)"
    "ho_tick h1 = Suc (Suc (ho_tick h))" "started_ok cfg (ho_health h1)"
    by (rule health_written [OF _ _ so health_states(2), of busy_env inst f None None None False]) (use t in auto)
  let ?h2 = "h1\<lparr>ho_runtime := (), ho_tick := Suc (ho_tick h1)\<rparr>"
  have idle: "service_health busy_env cfg inst ''IDLE'' 0 None None None True ?h2 = (Inl db_busy, ?h2\<lparr>ho_tick := Suc (Suc (ho_tick h1))\<rparr>)"
    using t h1(2) by (simp add: service_health_def Let_def)
  let ?h3 = "?h2\<lparr>ho_tick := Suc (Suc (Suc (ho_tick h1)))\<rparr>"
  have so3: "started_ok cfg (ho_health ?h3)" using h1(3) by simp
  have free: "\<not> sv_locked busy_env (ho_tick ?h3)" using t h1(2) by simp
  have clk: "sv_clock busy_env (ho_tick ?h3) \<noteq> NaN" by simp
  let ?rt = "Some (float_add (Finite (of_nat (Suc (Suc (ho_tick h1))))) (backoff_delay cfg (Suc 0)))"
  obtain h4 b where h4: "service_health busy_env cfg inst ''BACKOFF'' (Suc 0) ?rt (Some (err_class db_busy)) None False ?h3 = (Inr (), h4)"
    "ho_tick h4 = Suc (ho_tick ?h3)" "started_ok cfg (ho_health h4)" by (rule health_written [OF free clk so3 health_states(4)])
  have tr: "transient db_busy" by (simp add: db_busy_def lower_def contains_def) code_simp
  have "attempt busy_env cfg inst cycles f c ?h = Again (Suc 0) (Suc c) h4"
    using h1(1) idle h4(1) assms(3) by (simp add: attempt_def on_error_transient [OF tr] after_health_def)
  with h4 h1(2) t that show thesis by simp
qed

lemma bound_not_enforced:
  assumes "ho_tick h mod 6 = 1" and "started_ok cfg (ho_health h)" and "1 \<le> sc_max_failures cfg"
  shows "service_loop busy_env cfg inst (Some 1) f c h = None"
proof (rule ccontr)
  assume "service_loop busy_env cfg inst (Some 1) f c h \<noteq> None"
  then obtain y where y: "service_loop busy_env cfg inst (Some 1) f c h = Some y" by blast
  have "\<not> (busy_env = busy_env \<and> ho_tick h mod 6 = 1 \<and> started_ok cfg (ho_health h) \<and> 1 \<le> sc_max_failures cfg)"
  proof (rule service_loop.raw_induct [where P = "\<lambda>E cfg inst cycles f c h y.
        \<not> (E = busy_env \<and> ho_tick h mod 6 = 1 \<and> started_ok cfg (ho_health h) \<and> 1 \<le> sc_max_failures cfg)", OF _ y], goal_cases)
    case (1 loop E cfg inst cycles f c h y)
    show ?case
    proof
      assume a: "E = busy_env \<and> ho_tick h mod 6 = 1 \<and> started_ok cfg (ho_health h) \<and> 1 \<le> sc_max_failures cfg"
      then obtain h1 where "attempt busy_env cfg inst cycles f c (h\<lparr>ho_tick := Suc (ho_tick h)\<rparr>) = Again (Suc 0) (Suc c) h1"
        "ho_tick h1 mod 6 = 1" "started_ok cfg (ho_health h1)"
        using busy_pass [of h cfg inst cycles f c] by blast
      with 1 a show False by (auto simp: Let_def)
    qed
  qed
  with assms show False by simp
qed

subsection \<open>A sample service\<close>

definition svc_fs :: fs_view where
  "svc_fs = \<lparr>fv_absolute = prefix ''/'', fv_resolve = \<lambda>s. Some [drop 1 s], fv_exists = \<lambda>_. True, fv_is_dir = \<lambda>_. True,
     fv_symlink = \<lambda>_. False, fv_canonical = \<lambda>_. True, fv_real_dir = \<lambda>_. True, fv_real_file = \<lambda>_. True, fv_reparse = \<lambda>_. False\<rparr>"

definition svc_dict :: dict where
  "svc_dict = [(''schema_version'', PyInt 1), (''service_id'', PyStr ''svc''), (''runtime_root'', PyStr ''/rt''), (''queue_path'', PyStr ''/q''),
     (''repository_roots'', PyList [PyStr ''/repo'']), (''supported_targets'', PyList [PyStr ''ORACLE-AI'']), (''cadence_seconds'', PyInt 1),
     (''backoff_initial_seconds'', PyInt 1), (''backoff_max_seconds'', PyInt 60), (''backoff_multiplier'', PyInt 2),
     (''max_consecutive_transient_failures'', PyInt 3), (''health_stale_seconds'', PyInt 60)]"

definition svc_cfg :: ServiceConfig where
  "svc_cfg = \<lparr>sc_service_id = ''svc'', sc_runtime_root = [''rt''], sc_queue_path = [''q''], sc_repository_roots = [[''repo'']],
     sc_supported_targets = [''ORACLE-AI''], sc_cadence = 1, sc_backoff_initial = 1, sc_backoff_max = 60, sc_backoff_multiplier = 2,
     sc_max_failures = 3, sc_health_stale = 60\<rparr>"

lemma svc_numbers: "config_number (PyInt 1) l (1/100) h = (if 1 \<le> h then Inr 1 else Inl (BlockedError (''invalid '' @ l)))"
  "config_number (PyInt 60) l 1 3600 = Inr 60" "config_number (PyInt 2) l 1 10 = Inr 2" "config_number (PyInt 60) l 1 86400 = Inr 60"
proof -
  have f: "\<not> float_overflows (PyInt i)" if "\<bar>i\<bar> < 100" for i
  proof -
    have "(100 :: int) \<le> 2 ^ 1024 - 2 ^ 970" by simp
    with that show ?thesis by (simp add: float_overflows_def)
  qed
  show "config_number (PyInt 1) l (1/100) h = (if 1 \<le> h then Inr 1 else Inl (BlockedError (''invalid '' @ l)))"
    "config_number (PyInt 60) l 1 3600 = Inr 60" "config_number (PyInt 2) l 1 10 = Inr 2" "config_number (PyInt 60) l 1 86400 = Inr 60"
    using f [of 1] f [of 60] f [of 2] by (simp_all add: config_number_def)
qed

lemma svc_loaded: "load_config svc_fs (\<lambda>_. []) (\<lambda>_. Some (PyDict svc_dict)) [''srv''] ''/c'' = Inr svc_cfg"
proof -
  have keys: "set (map fst svc_dict) = set EXPECTED_CONFIG_KEYS" by (simp add: svc_dict_def EXPECTED_CONFIG_KEYS_def)
  have nosecret: "\<not> list_ex secret_key (map fst svc_dict)" by code_simp
  have c: "config_record ''svc'' [''rt''] [''q''] [[''repo'']] [''ORACLE-AI''] 3 svc_dict = Inr svc_cfg"
    by (simp add: config_record_def svc_dict_def dget_def svc_numbers svc_cfg_def)
  have i: "is_identifier ''svc''" by code_simp
  have d: "dget svc_dict ''schema_version'' = PyInt 1" "dget svc_dict ''service_id'' = PyStr ''svc''" "dget svc_dict ''runtime_root'' = PyStr ''/rt''"
    "dget svc_dict ''queue_path'' = PyStr ''/q''" "dget svc_dict ''repository_roots'' = PyList [PyStr ''/repo'']"
    "dget svc_dict ''supported_targets'' = PyList [PyStr ''ORACLE-AI'']" "dget svc_dict ''max_consecutive_transient_failures'' = PyInt 3"
    by (simp_all add: svc_dict_def dget_def)
  have "config_of_dict svc_fs [''srv''] svc_dict = Inr svc_cfg"
    unfolding config_of_dict_def using keys nosecret c i d
    by (simp add: config_runtime_root_def real_file_def config_targets_def config_failures_def svc_fs_def
        validate_root_def path_contains_def CONFIG_SCHEMA_VERSION_def REGISTERED_PROJECTS_def List.map_filter_def)
  then show ?thesis by (simp add: load_config_def real_file_def svc_fs_def)
qed

theorem loaded_config_bounds_witness: "config_ok svc_cfg \<and> backoff_delay svc_cfg 2 \<le> backoff_delay svc_cfg 3 \<and> backoff_delay svc_cfg 3 = 4"
  using loaded_config_bounds [OF svc_loaded, of 2] by (simp add: backoff_delay_def svc_cfg_def numeral_eq_Suc)

definition svc_env :: "bool \<Rightarrow> err option \<Rightarrow> unit service_env" where
  "svc_env stop out = \<lparr>sv_clock = \<lambda>k. Finite (of_nat k), sv_locked = \<lambda>k. False, sv_stop = \<lambda>k. stop, sv_once = \<lambda>k rt. (out, rt)\<rparr>"

definition svc_calls :: lock_calls where
  "svc_calls = \<lparr>lc_opened = True, lc_safe = True, lc_probed = True, lc_owner_written = True\<rparr>"

definition svc_start :: "unit startup" where
  "svc_start = \<lparr>su_factory = Inr (), su_integrity = Inr (Some ''ok''), su_schema = Inr ()\<rparr>"

definition svc_free :: service where
  "svc_free = \<lparr>se_lock = \<lparr>il_holder = None, il_owner = None\<rparr>, se_health = []\<rparr>"

theorem bounded_run_ends_witness: "\<exists>r. service_run (svc_env False None) svc_calls svc_start svc_cfg ''i'' (PyInt 2) svc_free = Some r"
  by (rule bounded_run_ends [where N = 0]) (simp add: svc_env_def)

theorem stopped_service_ends_witness: "\<exists>r. service_run (svc_env True None) svc_calls svc_start svc_cfg ''i'' PyNone svc_free = Some r"
  by (rule stopped_service_ends [where K = 0]) (simp add: svc_env_def)

lemma svc_acquired: "lock_acquire svc_calls (sc_service_id svc_cfg) ''i'' (se_lock svc_free)
    = (True, \<lparr>il_holder = Some ''i'', il_owner = Some (''svc'', ''i'')\<rparr>)"
  by (simp add: lock_acquire_def svc_calls_def svc_free_def svc_cfg_def)

lemma svc_started: "start_runtime svc_start = Inr ()"
  by (simp add: start_runtime_def svc_start_def)

lemma svc_graceful: "\<exists>w'. service_run (svc_env True None) svc_calls svc_start svc_cfg ''i'' PyNone svc_free = Some (Inr 0, w')"
  by (subst service_run_def, simp only: svc_acquired svc_started)
    (simp add: valid_cycles_def svc_free_def service_health_def Let_def svc_env_def service_loop.simps graceful_def)

theorem exit_code_recorded_witness:
  "\<exists>w'. service_run (svc_env True None) svc_calls svc_start svc_cfg ''i'' PyNone svc_free = Some (Inr 0, w')
    \<and> fst (read_status svc_cfg 99 (HealthRows (se_health w'))) = ''STOPPED''"
proof -
  from svc_graceful obtain w' where run: "service_run (svc_env True None) svc_calls svc_start svc_cfg ''i'' PyNone svc_free = Some (Inr 0, w')" by blast
  from exit_code_recorded [OF run, of 99] run show ?thesis by auto
qed

theorem single_instance_witness:
  "\<exists>r. service_run (svc_env True None) svc_calls svc_start svc_cfg ''i'' PyNone (svc_free\<lparr>se_lock := \<lparr>il_holder = Some ''j'', il_owner = None\<rparr>\<rparr>)
    = Some (Inl r, svc_free\<lparr>se_lock := \<lparr>il_holder = Some ''j'', il_owner = None\<rparr>\<rparr>)"
proof -
  let ?w = "svc_free\<lparr>se_lock := \<lparr>il_holder = Some ''j'', il_owner = None\<rparr>\<rparr>"
  obtain r w' where run: "service_run (svc_env True None) svc_calls svc_start svc_cfg ''i'' PyNone ?w = Some (r, w')"
    by (simp add: service_run_def valid_cycles_def lock_acquire_def)
  from single_instance [OF run] run show ?thesis by auto
qed

theorem transient_failures_exit_witness:
  "\<exists>w'. service_run (svc_env False (Some db_busy)) svc_calls svc_start svc_cfg ''i'' PyNone svc_free = Some (Inr 5, w')"
proof -
  have tr: "transient db_busy" by (simp add: db_busy_def lower_def contains_def) code_simp
  have "valid_cycles PyNone = Inr None" by (simp add: valid_cycles_def)
  from transient_failures_exit [OF _ _ this svc_acquired svc_started, of "svc_env False (Some db_busy)"] tr
  show ?thesis by (auto simp: svc_env_def started_ok_def svc_free_def)
qed

end
