(* ===== verification/RuntimeClaims.thy ===== *)
theory RuntimeClaims
  imports Runtime ExecutionInv RouterClaims ServiceClaims
begin

text \<open>
  The composed system: cycles of the runtime, work of the local workers, issues and applications of grants, and
  restarts, in any order, over one store. The invariants of the store, of ingestion and of the controller hold
  together in every state the system reaches; a cycle records how it ended; a service that hosts the
  runtime stays within the system.
\<close>

subsection \<open>The invariant of the system\<close>

definition system_ok :: "(string \<Rightarrow> string) \<Rightarrow> runtime \<Rightarrow> bool" where
  "system_ok H r \<longleftrightarrow> world_ok H (rt_ingestion r) (rt_world r)"

lemma system_on_exec: "(\<And>g. keeps (world_ok H g) m) \<Longrightarrow> keeps (system_ok H) (on_exec m)"
  by (auto simp: keeps_def system_ok_def on_exec_def split: prod.splits) (metis snd_conv)

lemma system_tick: "keeps (system_ok H) (on_exec tick)"
  by (rule system_on_exec) (rule world.basic)

lemma system_settle: "keeps (system_ok H) (settle E)"
  unfolding settle_def
  by (intro system_on_exec keeps_seq world.basic) (auto simp: keeps_def modify_def intro: world_steps step_lock)

lemma system_row: "keeps (system_ok H) (runtime_state st n stage e inc)"
  by (simp add: keeps_def runtime_state_def system_ok_def)

lemma system_verify: "keeps (system_ok H) (verify_store E)"
  unfolding verify_store_def by (intro frame_rules system_tick)

lemma system_ingest: "xe_hash (ru_exec E) = H \<Longrightarrow> \<forall>s. lower_hex 64 (H s) \<Longrightarrow> keeps (system_ok H) (ingest_stage E)"
  unfolding ingest_stage_def
  by (rule keeps_seq [OF system_tick]) (auto simp: keeps_def system_ok_def split: prod.splits intro: world_ingest)

lemma system_reconcile: "keeps (system_ok H) (reconcile_stage n)"
  using reconcile_steps
  by (auto simp: keeps_def system_ok_def reconcile_stage_def split: prod.splits intro!: world_steps) (metis snd_conv)

lemma system_recover: "keeps (system_ok H) (on_exec (recover_stage E n))"
proof (rule system_on_exec)
  fix g
  have "keeps (world_ok H g) (recover_row E n known b)" for known b
    using world_recover [of H g] by (auto simp: keeps_def recover_row_def split: prod.splits sum.splits) (metis snd_conv)+
  then show "keeps (world_ok H g) (recover_stage E n)" unfolding recover_stage_def by (intro frame_rules)
qed

lemma route_once_steps:
  assumes "route_once local_elig (local_disp H) uuid now r g d = (x, r', g', d')"
  shows "store_step\<^sup>*\<^sup>* d d'"
  using assms by (auto simp: route_once_def split: sum.splits if_splits prod.splits dest: local_gateway.route_loop_steps)

lemma system_route: "keeps (system_ok H) (route_stage E n)"
  unfolding route_stage_def
  by (rule keeps_seq [OF system_tick])
    (auto simp: keeps_def system_ok_def world_outside split: prod.splits dest!: route_once_steps intro: world_steps)

lemma system_stages: "xe_hash (ru_exec E) = H \<Longrightarrow> \<forall>s. lower_hex 64 (H s) \<Longrightarrow> keeps (system_ok H) (run_stages E n)"
  unfolding run_stages_def
  by (intro keeps_seq keeps_basic system_settle system_row system_verify system_ingest system_reconcile system_recover system_route)

lemma system_failure: "keeps (system_ok H) (failure_row n e)"
  by (cases e) (simp_all add: failure_row_def system_row)

lemma system_cycle:
  assumes "xe_hash (ru_exec E) = H" and "\<forall>s. lower_hex 64 (H s)"
  shows "keeps (system_ok H) (run_cycle E now)"
proof -
  have "keeps (system_ok H) (\<lambda>r. case run_stages E n r of (Inr x, r1) \<Rightarrow> (Inr x, r1)
     | (Inl e, r1) \<Rightarrow> seq (settle E) (\<lambda>_. seq (failure_row n e) (\<lambda>_. fail e)) r1)" for n
    unfolding keeps_def
  proof (intro allI impI)
    fix r :: runtime assume r: "system_ok H r"
    obtain x r1 where x: "run_stages E n r = (x, r1)" by fastforce
    have r1: "system_ok H r1" by (rule keepsD [OF system_stages [OF assms] x r])
    have "keeps (system_ok H) (seq (settle E) (\<lambda>_. seq (failure_row n e) (\<lambda>_. fail e :: (runtime, cycle_report) act)))" for e
      by (intro frame_rules system_settle system_failure)
    from keeps_snd [OF this r1] r1 x show "system_ok H (snd (case run_stages E n r of (Inr x, r1) \<Rightarrow> (Inr x, r1)
     | (Inl e, r1) \<Rightarrow> seq (settle E) (\<lambda>_. seq (failure_row n e) (\<lambda>_. fail e)) r1))" by (cases x) simp_all
  qed
  then show ?thesis unfolding run_cycle_def by (intro frame_rules system_tick)
qed

subsection \<open>Steps of the system\<close>

text \<open>
  A cycle; an issue, an application or a recovery asked of the controller; work of a local worker or of any other
  client of the store; a change of files by a process of the host; a restart on the tables that are left.
\<close>

inductive system_step :: "(string \<Rightarrow> string) \<Rightarrow> runtime \<Rightarrow> runtime \<Rightarrow> bool" for H where
  sys_cycle: "run_cycle E now r = (x, r') \<Longrightarrow> xe_hash (ru_exec E) = H \<Longrightarrow> system_step H r r'"
| sys_issue: "on_exec (issue_grant E now tid wid sid lid wsid ops pfx secs) r = (x, r') \<Longrightarrow> system_step H r r'"
| sys_apply: "on_exec (apply_plan E now plan hk) r = (y, r') \<Longrightarrow> bystanders hk \<Longrightarrow> system_step H r r'"
| sys_recover: "on_exec (recover E now gid) r = (z, r') \<Longrightarrow> system_step H r r'"
| sys_worker: "gateway_step H (xw_gateway (rt_world r), xw_db (rt_world r)) (gw, d)
    \<Longrightarrow> system_step H r (r\<lparr>rt_world := (rt_world r)\<lparr>xw_gateway := gw, xw_db := d\<rparr>\<rparr>)"
| sys_files: "system_step H r (r\<lparr>rt_world := (rt_world r)\<lparr>xw_fs := fs\<rparr>\<rparr>)"
| sys_restart: "open_runtime fv roots requested profiles evidence ws (rt_world r) (rt_ingestion r) (Some (rt_row r)) = Inr r'
    \<Longrightarrow> system_step H r r'"

text \<open>A system starts with the runtime opened on a new database.\<close>

definition system_start :: "runtime \<Rightarrow> bool" where
  "system_start r \<longleftrightarrow> (\<exists>fv roots requested profiles evidence ws w. xw_db w = init_db \<and> xw_grants w = [] \<and> xw_txs w = [] \<and> xw_spaces w = []
     \<and> open_runtime fv roots requested profiles evidence ws w fresh_ingestion None = Inr r)"

definition system_reachable :: "(string \<Rightarrow> string) \<Rightarrow> runtime \<Rightarrow> bool" where
  "system_reachable H r \<longleftrightarrow> (\<exists>r0. system_start r0 \<and> (system_step H)\<^sup>*\<^sup>* r0 r)"

lemma open_keeps:
  assumes "open_runtime fv roots requested profiles evidence ws w g old = Inr r" and "world_ok H g w"
  shows "system_ok H r"
proof -
  from assms(1) obtain gw reg w1 where run: "init_execution (w\<lparr>xw_gateway := gw, xw_registry := reg, xw_status := ''IDLE'', xw_last_error := None\<rparr>) = (Inr (), w1)"
    and r: "rt_world r = w1" "rt_ingestion r = g"
    by (auto simp: open_runtime_def split: if_splits sum.splits prod.splits option.splits)
  have "world_ok H g (w\<lparr>xw_gateway := gw, xw_registry := reg, xw_status := ''IDLE'', xw_last_error := None\<rparr>)"
    by (rule world.core_only [OF _ assms(2)]) simp
  with keepsD [OF world_start run] r show ?thesis by (simp add: system_ok_def)
qed

lemma start_ok: "system_start r \<Longrightarrow> system_ok H r"
proof -
  have "ingest_inv H fresh_ingestion d" for d by (simp add: ingest_inv_def fresh_ingestion_def sequenced_def)
  then have "world_ok H fresh_ingestion w" if "xw_db w = init_db" "xw_grants w = []" for w
    using that init_db_inv by (simp add: world_ok_def pipeline_inv_def)
  then show "system_start r \<Longrightarrow> system_ok H r" by (auto simp: system_start_def intro: open_keeps)
qed

lemma on_exec_keeps: "on_exec m r = (x, r') \<Longrightarrow> system_ok H r \<Longrightarrow> (\<And>w x w'. m w = (x, w') \<Longrightarrow> world_ok H (rt_ingestion r) w
    \<Longrightarrow> world_ok H (rt_ingestion r) w') \<Longrightarrow> system_ok H r'"
  by (auto simp: on_exec_def system_ok_def split: prod.splits)

lemma system_step_ok:
  assumes "system_step H r r'" and "\<forall>s. lower_hex 64 (H s)" and "system_ok H r"
  shows "system_ok H r'"
  using assms(1)
proof cases
  case (sys_cycle E now x)
  from keepsD [OF system_cycle [OF this(2) assms(2)] this(1) assms(3)] show ?thesis .
next
  case (sys_issue E now tid wid sid lid wsid ops pfx secs x)
  from on_exec_keeps [OF this assms(3)] world_issue show ?thesis by blast
next
  case (sys_apply E now plan hk y)
  from on_exec_keeps [OF this(1) assms(3)] world_apply [OF _ this(2)] show ?thesis by blast
next
  case (sys_recover E now gid z)
  have "world_ok H g w'" if "recover E now gid w = (x, w')" "world_ok H g w" for g w x w'
    using world_recover [OF that(2), of E now gid] that(1) by simp
  with on_exec_keeps [OF sys_recover assms(3)] show ?thesis by blast
next
  case (sys_worker gw d)
  then have "store_step\<^sup>*\<^sup>* (xw_db (rt_world r)) d" using gateway_step_extends by fastforce
  with assms(3) sys_worker(1) show ?thesis by (auto simp: system_ok_def world_outside intro: world_steps)
next
  case (sys_files fs)
  with assms(3) show ?thesis by (simp add: system_ok_def world_outside)
next
  case (sys_restart fv roots requested profiles evidence ws)
  from open_keeps [OF this] assms(3) show ?thesis by (simp add: system_ok_def)
qed

lemma reachable_ok:
  assumes "system_reachable H r" and "\<forall>s. lower_hex 64 (H s)"
  shows "system_ok H r"
proof -
  from assms(1) obtain r0 where r0: "system_start r0" "(system_step H)\<^sup>*\<^sup>* r0 r" by (auto simp: system_reachable_def)
  from r0(2) start_ok [OF r0(1)] show ?thesis by (induction rule: rtranclp_induct) (auto intro: system_step_ok [OF _ assms(2)])
qed

lemma reachable_step: "system_reachable H r \<Longrightarrow> system_step H r r' \<Longrightarrow> system_reachable H r'"
  by (auto simp: system_reachable_def intro: rtranclp.rtrancl_into_rtrancl)

text \<open>C1. In every state the system reaches, the tables of the store, of ingestion and of the controller are well
  formed together: rows and audit are valid, every provenance row binds its task, no grant identifier is used twice, and a task
  under review or completed has evidence in the store or an applied transaction.\<close>

theorem system_well_formed:
  assumes "system_reachable H r" and "\<forall>s. lower_hex 64 (H s)"
  shows "db_inv_with (executed_tasks (rt_world r)) (xw_db (rt_world r)) \<and> ingest_inv H (rt_ingestion r) (xw_db (rt_world r))
    \<and> distinct (map gr_id (xw_grants (rt_world r)))"
  using reachable_ok [OF assms] by (simp add: system_ok_def world_ok_def pipeline_inv_def)

text \<open>C5. Nothing is accepted without evidence, in the whole system: a task under review or completed has an evidence row
  with a SHA-256, or the grant of an application that was applied and recorded the digest of its envelope.\<close>

theorem review_has_evidence:
  assumes "system_reachable H r" and "\<forall>s. lower_hex 64 (H s)" and "find_task i (xw_db (rt_world r)) = Some t"
    and "t_state t = REVIEW_PENDING \<or> t_state t = TaskState.COMPLETED"
  shows "(\<exists>e \<in> set (db_evidence (xw_db (rt_world r))). e_task_id e = i \<and> is_sha256 (e_sha256 e))
    \<or> (\<exists>g \<in> set (xw_grants (rt_world r)). \<exists>x \<in> set (xw_txs (rt_world r)). gr_task g = i \<and> gr_state g = ''APPLIED''
         \<and> tr_grant x = gr_id g \<and> tr_state x = ''APPLIED'' \<and> tr_evidence x \<noteq> None)"
proof -
  let ?w = "rt_world r"
  have inv: "db_inv_with (executed_tasks ?w) (xw_db ?w)" using reachable_ok [OF assms(1,2)] by (simp add: system_ok_def world_ok_def pipeline_inv_def)
  note t = find_task_D [OF assms(3)]
  from tasks_invD [OF db_invD(1) [OF inv]] t assms(4) have "i \<in> evidenced (executed_tasks ?w) (xw_db ?w)"
    by (auto simp: task_ok_def evidence_ok_def)
  with db_invD(3) [OF inv] show ?thesis
    by (fastforce simp: evidenced_def evidence_inv_def executed_tasks_def applied_grants_def)
qed

text \<open>C11. The human gate over the whole system: a task that requires human approval, ingested or created, waits for it in
  every state; no cycle, worker, grant, recovery or restart moves it.\<close>

theorem system_human_gate:
  assumes "system_reachable H r" and "\<forall>s. lower_hex 64 (H s)" and "find_task i (xw_db (rt_world r)) = Some t"
    and "t_requires_human_approval t"
  shows "t_state t = TaskState.WAITING_HUMAN"
proof -
  let ?w = "rt_world r"
  have inv: "db_inv_with (executed_tasks ?w) (xw_db ?w)" using reachable_ok [OF assms(1,2)] by (simp add: system_ok_def world_ok_def pipeline_inv_def)
  from tasks_invD [OF db_invD(1) [OF inv]] find_task_D [OF assms(3)] assms(4) show ?thesis by (auto simp: task_ok_def approval_ok_def)
qed

subsection \<open>What a cycle records\<close>


definition failed_row :: "rat \<Rightarrow> err \<Rightarrow> nat \<Rightarrow> runtime_row" where
  "failed_row n e k = \<lparr>rr_status = (case e of IntegrityBlockedError _ \<Rightarrow> ''INTEGRITY_BLOCKED'' | BlockedError _ \<Rightarrow> ''BLOCKED'' | _ \<Rightarrow> ''ERROR''),
     rr_cycles = k, rr_last_cycle = Some n, rr_last_error = Some (clean (err_class e)),
     rr_integrity = (case e of IntegrityBlockedError _ \<Rightarrow> ''INTEGRITY_BLOCKED'' | _ \<Rightarrow> ''VERIFIED''),
     rr_stage = (if is_blocked e then ''FAILED'' else ''HARNESS_ERROR'')\<rparr>"





lemma settle_unlocked: "settle E r = (x, r') \<Longrightarrow> x = Inr () \<and> db_locked (xw_db (rt_world r')) = ru_busy E (xw_tick (rt_world r)) \<and> rt_row r' = rt_row r"
  by (auto simp: settle_def on_exec_def seq_def tick_def modify_def)

lemma failure_row_run:
  "failure_row n e r = (if db_locked (xw_db (rt_world r)) then (Inl db_busy, r) else (Inr (), r\<lparr>rt_row := failed_row n e (Suc (rr_cycles (rt_row r)))\<rparr>))"
  by (cases e) (simp_all add: failure_row_def runtime_state_def failed_row_def)

lemma run_cycle_D:
  assumes "run_cycle E (Some t) r = (x, r')" and "now_of t = Inr n"
  obtains (succeeded) rep where "x = Inr rep" and "run_stages E n r = (Inr rep, r')"
  | (failed) e r1 r2 where "run_stages E n r = (Inl e, r1)" and "settle E r1 = (Inr (), r2)"
      and "(x, r') = (if db_locked (xw_db (rt_world r2)) then (Inl db_busy, r2)
        else (Inl e, r2\<lparr>rt_row := failed_row n e (Suc (rr_cycles (rt_row r2)))\<rparr>))"
proof -
  obtain q r1 where st: "run_stages E n r = (q, r1)" by fastforce
  obtain y r2 where se: "settle E r1 = (y, r2)" by fastforce
  note u = settle_unlocked [OF se]
  show thesis
  proof (cases q)
    case (Inl e)
    with assms st se u have "(x, r') = (if db_locked (xw_db (rt_world r2)) then (Inl db_busy, r2)
        else (Inl e, r2\<lparr>rt_row := failed_row n e (Suc (rr_cycles (rt_row r2)))\<rparr>))"
      by (auto simp: run_cycle_def ret_def lift_res_def seq_def fail_def failure_row_run split: if_splits)
    with failed Inl st se u show thesis by simp
  next
    case (Inr rep)
    with assms st have "x = Inr rep" "r1 = r'" by (auto simp: run_cycle_def ret_def lift_res_def seq_def)
    with succeeded st Inr show thesis by simp
  qed
qed


text \<open>C34. A store that fails its integrity check is not worked on: the cycle raises, nothing is ingested, reclaimed, recovered
  or routed, no file and no table but the row of the runtime changes, and that row says so.\<close>

theorem corrupt_store_untouched:
  assumes "run_cycle E (Some t) r = (x, r')" and "now_of t = Inr n" and "ru_quick_check E (xw_tick (rt_world r)) \<noteq> Some ''ok''"
  shows "(x = Inl (IntegrityBlockedError ''store integrity failure'') \<and> rr_status (rt_row r') = ''INTEGRITY_BLOCKED'' \<or> x = Inl db_busy)
    \<and> rt_ingestion r' = rt_ingestion r \<and> rt_router r' = rt_router r
    \<and> rt_world r' = (rt_world r)\<lparr>xw_tick := xw_tick (rt_world r) + 2,
        xw_db := (xw_db (rt_world r))\<lparr>db_locked := ru_busy E (Suc (xw_tick (rt_world r)))\<rparr>\<rparr>"
proof -
  let ?r1 = "r\<lparr>rt_world := (rt_world r)\<lparr>xw_tick := Suc (xw_tick (rt_world r))\<rparr>\<rparr>"
  have "run_stages E n r = (Inl (IntegrityBlockedError ''store integrity failure''), ?r1)"
    using assms(3) by (simp add: run_stages_def verify_store_def on_exec_def tick_def seq_def ensure_def)
  with assms(1,2) obtain r2 where "settle E ?r1 = (Inr (), r2)"
    and "(x, r') = (if db_locked (xw_db (rt_world r2)) then (Inl db_busy, r2)
        else (Inl (IntegrityBlockedError ''store integrity failure''),
          r2\<lparr>rt_row := failed_row n (IntegrityBlockedError ''store integrity failure'') (Suc (rr_cycles (rt_row r2)))\<rparr>))"
    by (auto elim!: run_cycle_D)
  then show ?thesis
    by (auto simp: settle_def on_exec_def tick_def seq_def modify_def failed_row_def split: if_splits)
qed

subsection \<open>The runtime under its host\<close>







subsection \<open>A closed system\<close>

text \<open>A runtime opened on a new database, whose queue holds the one record of the ingestion sample, which needs human approval.\<close>

definition sys_env :: "string \<Rightarrow> runtime_env" where
  "sys_env answer = \<lparr>ru_exec = \<lparr>xe_hash = ing_hash, xe_clock = \<lambda>k. Finite 1, xe_uuid = \<lambda>k. ''u'', xe_fault = \<lambda>k. None, xe_dumps = \<lambda>v. [], xe_rep = ing_rep\<rparr>,
     ru_loads = ing_loads, ru_queue = \<lambda>k. Some ''{}'', ru_record_clock = \<lambda>k i. Finite 1, ru_ingestor = ing_source,
     ru_lease_id = \<lambda>k t. ''L'', ru_quick_check = \<lambda>k. Some answer, ru_busy = \<lambda>k. False\<rparr>"

definition sys_blank :: exec_world where
  "sys_blank = \<lparr>xw_db = init_db, xw_gateway = \<lparr>gw_profiles = [], gw_sessions = [], gw_dispatches = [], gw_evidence = []\<rparr>, xw_grants = [], xw_txs = [],
     xw_spaces = [], xw_registry = \<lparr>rg_real_root = [''repo''], rg_protected = [''.git'', ''directives/audit'', ''reports'', ''state''],
     rg_spaces = [], rg_blocked = []\<rparr>, xw_fs = \<lparr>fx_nodes = \<lambda>p. None, fx_phys = \<lambda>p. [], fx_resolve = \<lambda>p. p\<rparr>, xw_tick = 10, xw_status = ''IDLE'',
     xw_last_error = None\<rparr>"

definition sys_ro :: router where
  "sys_ro = \<lparr>ro_batch_size = 8, ro_lease_seconds = 30, ro_status = ''IDLE'', ro_last_route = None, ro_last_error = None\<rparr>"

definition sys_open :: runtime where
  "sys_open = \<lparr>rt_world = sys_blank, rt_ingestion = fresh_ingestion, rt_router = sys_ro, rt_row = fresh_runtime_row\<rparr>"

lemma sys_registry: "new_registry [''repo''] PROTECTED_PREFIXES = Inr (xw_registry sys_blank)"
  by code_simp

lemma sys_router: "new_router (PyInt 8) (PyFloat (Finite 30)) = Inr sys_ro"
  by code_simp

lemma sys_opened: "open_runtime svc_fs [[''repo'']] ''/rt'' [] [] None sys_blank fresh_ingestion None = Inr sys_open"
proof -
  have "validate_root svc_fs [[''repo'']] ''/rt'' = Inr [''rt'']" by (simp add: validate_root_def svc_fs_def path_contains_def)
  moreover have "new_gateway [] [] = Inr (xw_gateway sys_blank)" by (simp add: new_gateway_def sys_blank_def)
  moreover have "init_execution sys_blank = (Inr (), sys_blank)"
    by (simp add: init_execution_def seq_def query_def descriptors_def sys_blank_def ret_def)
  ultimately show ?thesis by (simp add: open_runtime_def sys_registry sys_router) (simp add: sys_open_def sys_blank_def)
qed

lemma sys_start: "system_start sys_open"
  unfolding system_start_def by (intro exI conjI, rule_tac [5] sys_opened) (simp_all add: sys_blank_def)

lemma sys_reachable: "system_reachable H sys_open"
  using sys_start by (auto simp: system_reachable_def)

lemma ing_db_unlocked: "ing_db\<lparr>db_locked := False\<rparr> = ing_db" "db_locked ing_db = False"
  by (simp_all add: ing_db_def audit_def insert_task_def init_db_def)

lemma ing_db_tables: "db_tasks ing_db = [ingested_task ing_row True]" "db_workers ing_db = []" 
  by (simp_all add: ing_db_def audit_def insert_task_def init_db_def)

lemma ing_task_sel [simp]:
  "t_state (ingested_task ing_row True) = TaskState.WAITING_HUMAN" "t_requires_human_approval (ingested_task ing_row True)"
  "t_assigned_worker_id (ingested_task ing_row True) = None"
  by (simp_all add: ingested_task_def new_task_def)

lemma sys_reconcile: "reconcile (Finite 1) ing_db = (Inr [], ing_db)"
  by (simp add: reconcile_def reconcile_stale_workers_def ing_db_tables expired_lease_tasks_def holds_lease_def stale_owned_def)

lemma sys_schedulable: "schedulable_tasks (PyInt 8) ing_db = Inr []"
  by (simp add: schedulable_tasks_def as_int.simps ing_db_tables schedulable_def)

lemma sys_counts: "\<exists>c. state_counts ing_db = Inr c"
  by (simp add: state_counts_def ing_db_tables)

lemma sys_leases: "active_leases (Finite 1) ing_db = Inr []"
  by (simp add: active_leases_def ing_db_tables holds_lease_def)

definition sys_at :: "nat \<Rightarrow> ingestion \<Rightarrow> db \<Rightarrow> router \<Rightarrow> runtime_row \<Rightarrow> runtime" where
  "sys_at k g d ro b = \<lparr>rt_world = sys_blank\<lparr>xw_tick := k, xw_db := d\<rparr>, rt_ingestion = g, rt_router = ro, rt_row = b\<rparr>"

lemma sys_at_sel [simp]:
  "rt_row (sys_at k g d ro b) = b" "rt_ingestion (sys_at k g d ro b) = g" "xw_db (rt_world (sys_at k g d ro b)) = d"
  by (simp_all add: sys_at_def)

lemma sys_open_at: "sys_open = sys_at 10 fresh_ingestion init_db sys_ro fresh_runtime_row"
  by (simp add: sys_at_def sys_open_def sys_blank_def)

lemma sys_settle: "db_locked d = False \<Longrightarrow> settle (sys_env a) (sys_at k g d ro b) = (Inr (), sys_at (Suc k) g d ro b)"
  by (cases d) (simp add: settle_def on_exec_def act_eval tick_def sys_at_def sys_env_def)

lemma sys_write: "db_locked d = False \<Longrightarrow> \<exists>b'. runtime_state st n stage e inc (sys_at k g d ro b) = (Inr (), sys_at k g d ro b')"
  by (auto simp: runtime_state_def sys_at_def)

lemma sys_verify: "verify_store (sys_env ''ok'') (sys_at k g d ro b) = (Inr (), sys_at (Suc k) g d ro b)"
  by (simp add: verify_store_def on_exec_def act_eval tick_def sys_at_def sys_env_def)

lemma sys_ingest: "ingest_stage (sys_env a) (sys_at k fresh_ingestion init_db ro b) = (Inr [ing_result], sys_at (Suc k) ing_state ing_db ro b)"
  by (simp add: ingest_stage_def on_exec_def act_eval tick_def sys_at_def sys_env_def ing_run)

lemma sys_reconciled: "reconcile_stage 1 (sys_at k g ing_db ro b) = (Inr [], sys_at k g ing_db ro b)"
  by (simp add: reconcile_stage_def sys_at_def sys_reconcile)

lemma sys_recover: "on_exec (recover_stage (sys_env a) n) (sys_at k g d ro b) = (Inr [], sys_at k g d ro b)"
  by (simp add: recover_stage_def recovery_rows_def on_exec_def act_eval sys_at_def sys_blank_def)

lemma sys_route: "ro_batch_size ro = 8 \<Longrightarrow> \<exists>ro'. route_stage (sys_env a) 1 (sys_at k g ing_db ro b) = (Inr [], sys_at (Suc k) g ing_db ro' b)"
  by (simp add: route_stage_def on_exec_def act_eval tick_def sys_at_def route_once_def sys_schedulable)

lemma sys_projection: "\<exists>v. runtime_projection 1 (sys_at k g ing_db ro b) = Inr v"
proof -
  obtain c where c: "state_counts ing_db = Inr c" using sys_counts by blast
  have "session_projection (Finite 1) (xw_gateway sys_blank) ing_db = Inr []" by (simp add: session_projection_def sys_blank_def)
  moreover have "\<exists>e. execution_projection (Finite 1) (sys_blank\<lparr>xw_tick := k, xw_db := ing_db\<rparr>) = Inr e"
    by (simp add: execution_projection_def last_tx_def sys_blank_def Let_def)
  ultimately show ?thesis using c
    by (auto simp: runtime_projection_def health_projection_def sys_leases sys_at_def)
qed

lemma sys_stages: "\<exists>rep k ro b. run_stages (sys_env ''ok'') 1 sys_open = (Inr rep, sys_at k ing_state ing_db ro b) \<and> cy_ingested rep = [ir_task_id ing_result]"
proof -
  have u: "db_locked init_db = False" "db_locked ing_db = False" by (simp_all add: ing_db_unlocked init_db_def)
  have r8: "ro_batch_size sys_ro = 8" by (simp add: sys_ro_def)
  have row: "\<And>st n stage e inc k g ro b. \<exists>b'. runtime_state st n stage e inc (sys_at k g init_db ro b) = (Inr (), sys_at k g init_db ro b')"
    "\<And>st n stage e inc k g ro b. \<exists>b'. runtime_state st n stage e inc (sys_at k g ing_db ro b) = (Inr (), sys_at k g ing_db ro b')"
    using sys_write u by blast+
  let ?r = sys_ro
  obtain b1 where b1: "runtime_state ''RUNNING'' 1 ''STORE_VERIFIED'' None False (sys_at 12 fresh_ingestion init_db ?r fresh_runtime_row)
    = (Inr (), sys_at 12 fresh_ingestion init_db ?r b1)" using row(1) by blast
  obtain b2 where b2: "runtime_state ''RUNNING'' 1 ''INGESTED'' None False (sys_at 15 ing_state ing_db ?r b1) = (Inr (), sys_at 15 ing_state ing_db ?r b2)"
    using row(2) by blast
  obtain b3 where b3: "runtime_state ''RUNNING'' 1 ''RECONCILED'' None False (sys_at 17 ing_state ing_db ?r b2) = (Inr (), sys_at 17 ing_state ing_db ?r b3)"
    using row(2) by blast
  obtain b4 where b4: "runtime_state ''RUNNING'' 1 ''RECOVERED'' None False (sys_at 19 ing_state ing_db ?r b3) = (Inr (), sys_at 19 ing_state ing_db ?r b4)"
    using row(2) by blast
  obtain r5 where r5: "route_stage (sys_env ''ok'') 1 (sys_at 20 ing_state ing_db ?r b4) = (Inr [], sys_at 21 ing_state ing_db r5 b4)"
    using sys_route [OF r8, of "''ok''" 20] by auto
  obtain b6 where b6: "runtime_state ''IDLE'' 1 ''PROJECTED'' None True (sys_at 22 ing_state ing_db r5 b4) = (Inr (), sys_at 22 ing_state ing_db r5 b6)"
    using row(2) by blast
  obtain v where v: "runtime_projection 1 (sys_at 22 ing_state ing_db r5 b6) = Inr v" using sys_projection by blast
  have "\<exists>rep. run_stages (sys_env ''ok'') 1 sys_open = (Inr rep, sys_at 22 ing_state ing_db r5 b6) \<and> cy_ingested rep = [ir_task_id ing_result]"
    unfolding run_stages_def sys_open_at
    by (simp add: sys_verify sys_settle sys_ingest sys_reconciled sys_recover u b1 b2 b3 b4 r5 b6 v act_eval)
  then show ?thesis by blast
qed

lemma sys_cycled:
  obtains rep k ro b where "run_cycle (sys_env ''ok'') (Some (Finite 1)) sys_open = (Inr rep, sys_at k ing_state ing_db ro b)"
    and "cy_ingested rep = [ir_task_id ing_result]"
  using sys_stages by (auto simp: run_cycle_def act_eval)

lemma sys_cycled_reachable:
  assumes "run_cycle (sys_env a) now sys_open = (x, r)"
  shows "system_reachable ing_hash r"
  by (rule reachable_step [OF sys_reachable sys_cycle [OF assms]]) (simp add: sys_env_def)

theorem system_well_formed_witness: "\<exists>r rep. run_cycle (sys_env ''ok'') (Some (Finite 1)) sys_open = (Inr rep, r)
    \<and> db_inv_with (executed_tasks (rt_world r)) (xw_db (rt_world r)) \<and> ingest_inv ing_hash (rt_ingestion r) (xw_db (rt_world r))
    \<and> cy_ingested rep = [ir_task_id ing_result]"
proof -
  obtain rep k ro b where c: "run_cycle (sys_env ''ok'') (Some (Finite 1)) sys_open = (Inr rep, sys_at k ing_state ing_db ro b)"
    "cy_ingested rep = [ir_task_id ing_result]" by (rule sys_cycled)
  from c system_well_formed [OF sys_cycled_reachable [OF c(1)] ing_hash_hex] show ?thesis by blast
qed

theorem system_human_gate_witness: "\<exists>r rep t. run_cycle (sys_env ''ok'') (Some (Finite 1)) sys_open = (Inr rep, r)
    \<and> find_task (pv_task_id ing_row) (xw_db (rt_world r)) = Some t \<and> t_requires_human_approval t \<and> t_state t = TaskState.WAITING_HUMAN"
proof -
  obtain rep k ro b where c: "run_cycle (sys_env ''ok'') (Some (Finite 1)) sys_open = (Inr rep, sys_at k ing_state ing_db ro b)" by (rule sys_cycled)
  have f: "find_task (pv_task_id ing_row) (xw_db (rt_world (sys_at k ing_state ing_db ro b))) = Some (ingested_task ing_row True)"
    by (simp add: find_task_def ing_db_tables) (simp add: ingested_task_def new_task_def)
  from c f system_human_gate [OF sys_cycled_reachable [OF c] ing_hash_hex f] show ?thesis by simp
qed

lemma sys_store: "store_reachable d \<Longrightarrow> system_reachable H (sys_open\<lparr>rt_world := sys_blank\<lparr>xw_db := d\<rparr>\<rparr>)"
proof (induction rule: store_reachable.induct)
  case reach_init
  have "sys_open\<lparr>rt_world := sys_blank\<lparr>xw_db := init_db\<rparr>\<rparr> = sys_open" by (simp add: sys_open_def sys_blank_def)
  then show ?case by (simp add: sys_reachable)
next
  case (reach_step d d')
  let ?r = "\<lambda>d. sys_open\<lparr>rt_world := sys_blank\<lparr>xw_db := d\<rparr>\<rparr>"
  have "system_step H (?r d) ((?r d)\<lparr>rt_world := (rt_world (?r d))\<lparr>xw_gateway := xw_gateway sys_blank, xw_db := d'\<rparr>\<rparr>)"
    by (rule sys_worker) (simp add: gstep_store reach_step)
  then have "system_step H (?r d) (?r d')" by (simp add: sys_blank_def)
  with reach_step show ?case by (blast intro: reachable_step)
qed

theorem review_has_evidence_witness: "\<exists>e \<in> set (db_evidence sample_review). e_task_id e = ''t'' \<and> is_sha256 (e_sha256 e)"
  using review_has_evidence [OF sys_store [OF sample_review_reachable] ing_hash_hex, of "''t''"] sample_review_row
  by (auto simp: row_def sys_blank_def)


theorem corrupt_store_untouched_witness: "\<exists>x r. run_cycle (sys_env ''corrupt'') (Some (Finite 1)) sys_open = (x, r) \<and> rt_ingestion r = fresh_ingestion
    \<and> db_tasks (xw_db (rt_world r)) = [] \<and> (x = Inl (IntegrityBlockedError ''store integrity failure'') \<or> x = Inl db_busy)"
proof -
  obtain x r where c: "run_cycle (sys_env ''corrupt'') (Some (Finite 1)) sys_open = (x, r)" by fastforce
  with corrupt_store_untouched [OF c, of 1] show ?thesis by (auto simp: sys_env_def sys_open_def sys_blank_def init_db_def)
qed





end
