(* ===== verification/Authenticator.thy ===== *)
theory Authenticator
  imports PreExecution
begin

text \<open>
  The authentication of a directive: \<open>src/directive/authenticator.py\<close>. What \<open>git\<close> answers to its arguments is a parameter (the text of an exception, or
  return code, standard output and standard error); so are JSON, the digests, the parsing of a timestamp and the format
  of a number. The repository it runs in is fixed; \<open>git\<close> is asked each question once in a call.
\<close>

subsection \<open>Settings\<close>

definition APPROVED_SOURCE_REPOSITORY :: string where "APPROVED_SOURCE_REPOSITORY = ''AI-CONTROL-PLANE''"
definition APPROVED_SOURCE_BRANCH :: string where "APPROVED_SOURCE_BRANCH = ''main''"

definition PRODUCTION_TRUSTED_SIGNER_ALLOWLIST :: "string list" where
  "PRODUCTION_TRUSTED_SIGNER_ALLOWLIST = [''SHA256:zYZi3+VxKz9ve+PJgTS2o8q+dvXSmzCwPZ2G3NYh41A'']"

definition ALLOWED_ACTION_CLASSES :: "string list" where
  "ALLOWED_ACTION_CLASSES = [''STATUS_REQUEST'', ''AUDIT_REQUEST'', ''READ_ONLY_ANALYSIS'', ''GENERATE_REPORT'', ''RUN_CONTROL_PLANE_TESTS'',
     ''RUN_READ_ONLY_OBSERVATION'', ''PREPARE_NEXT_STAGE'', ''NO_OP'']"

definition PROHIBITED_MUTATING_ACTIONS :: "string list" where
  "PROHIBITED_MUTATING_ACTIONS = [''RESTART_PROJECT'', ''STOP_PROJECT'', ''KILL_PROCESS'', ''MODIFY_STRATEGY'', ''CHANGE_PARAMETERS'', ''WRITE_TO_ORACLE'',
     ''WRITE_TO_MICRO'', ''DELETE_DATA'', ''RESET_GIT'', ''CHECKOUT_PROJECT_BRANCH'', ''ENABLE_REAL_MONEY'', ''SEND_ORDER'', ''EXECUTE_TRADE'',
     ''MODIFY_CREDENTIALS'']"

definition ACTIONS_REQUIRING_HUMAN_APPROVAL :: "string list" where
  "ACTIONS_REQUIRING_HUMAN_APPROVAL = [''REAL_MONEY_ENABLE'', ''CREDENTIAL_CHANGE'', ''DESTRUCTIVE_OPERATION'', ''STRATEGY_CHANGE'',
     ''HIGH_RISK_ARCHITECTURE_CHANGE'']"

text \<open>
  The settings that a deployment or a test sets: \<open>REQUIRE_COMMIT_SIGNATURE_VERIFICATION\<close>, \<open>TRUSTED_SIGNER_ALLOWLIST\<close> (in the
  order in which Python iterates over it) and the clock skew of the authenticator.
\<close>

record trust_policy =
  tp_require_signature :: bool
  tp_signers :: "string list"
  tp_skew :: rat

type_synonym git_run = "string + int \<times> string \<times> string"

record trust_env =
  te_git :: "string list \<Rightarrow> git_run"
  te_git_dir :: bool
  te_now :: rat
  te_loads :: "string \<Rightarrow> pyval option"
  te_dumps :: "pyval \<Rightarrow> string option"
  te_sha256 :: "string \<Rightarrow> string"
  te_sha1 :: "string \<Rightarrow> string"
  te_iso :: "string \<Rightarrow> rat option"
  te_fixed :: "rat \<Rightarrow> string"
  te_number :: "rat \<Rightarrow> string"

subsection \<open>Texts\<close>

definition parse_iso :: "(string \<Rightarrow> rat option) \<Rightarrow> string \<Rightarrow> rat option" where
  "parse_iso from_iso s = (if s = [] then None else from_iso (concat (map (\<lambda>c. if c = CHR ''Z'' then ''+00:00'' else [c]) s)))"

text \<open>\<open>s.split()\<close>.\<close>

fun split_words :: "string \<Rightarrow> string \<Rightarrow> string list" where
  "split_words [] acc = (if acc = [] then [] else [acc])"
| "split_words (c # cs) acc = (if is_space c then (if acc = [] then split_words cs [] else acc # split_words cs []) else split_words cs (acc @ [c]))"

definition py_split :: "string \<Rightarrow> string list" where
  "py_split s = split_words s []"

text \<open>\<open>re.search\<close> of a pattern with one group, given its match at one position.\<close>

fun search_from :: "(string \<Rightarrow> string option) \<Rightarrow> string \<Rightarrow> string option" where
  "search_from m [] = m []"
| "search_from m (c # cs) = (case m (c # cs) of Some g \<Rightarrow> Some g | None \<Rightarrow> search_from m cs)"

definition beyond :: "string \<Rightarrow> string \<Rightarrow> string option" where
  "beyond p s = (if prefix p s then Some (drop (length p) s) else None)"

definition grab :: "(char \<Rightarrow> bool) \<Rightarrow> string \<Rightarrow> string option" where
  "grab p s = (case takeWhile p s of [] \<Rightarrow> None | c # cs \<Rightarrow> Some (c # cs))"

definition then_grab :: "string option \<Rightarrow> (char \<Rightarrow> bool) \<Rightarrow> string option" where
  "then_grab s p = (case s of None \<Rightarrow> None | Some t \<Rightarrow> grab p t)"

text \<open>The four patterns of \<open>verify_commit_signature\<close>.\<close>

definition key_pattern :: "string \<Rightarrow> string option" where
  "key_pattern s = (case filter (\<lambda>k. prefix (''using '' @ k @ '' key '') s) [''PGP'', ''RSA'', ''ED25519'', ''ECDSA''] of
      [] \<Rightarrow> None
    | k # _ \<Rightarrow> then_grab (beyond (''using '' @ k @ '' key '') s) is_hex)"

definition fingerprint_pattern :: "string \<Rightarrow> string option" where
  "fingerprint_pattern s = then_grab (beyond ''Key fingerprint = '' s) (\<lambda>c. is_hex c \<or> is_space c)"

definition ssh_pattern :: "string \<Rightarrow> string option" where
  "ssh_pattern s = (case beyond ''with '' s of None \<Rightarrow> None | Some t \<Rightarrow>
     (case grab (\<lambda>c. is_alnum c \<or> c = CHR ''-'') t of None \<Rightarrow> None | Some k \<Rightarrow>
     (case then_grab (beyond '' key SHA256:'' (drop (length k) t)) (\<lambda>c. is_alnum c \<or> c \<in> set ''+/='') of
        None \<Rightarrow> None | Some g \<Rightarrow> Some (''SHA256:'' @ g))))"

definition principal_pattern :: "string \<Rightarrow> string option" where
  "principal_pattern s = (case beyond (''Good signature from '' @ [CHR 0x22]) s of None \<Rightarrow> None | Some t \<Rightarrow>
     (case grab (\<lambda>c. c \<noteq> CHR 0x22) t of None \<Rightarrow> None | Some g \<Rightarrow> if length g < length t then Some g else None))"

definition signer_in :: "string \<Rightarrow> string" where
  "signer_in out = (case filter (\<lambda>g. g \<noteq> None) (map (\<lambda>m. search_from m out) [key_pattern, fingerprint_pattern, ssh_pattern, principal_pattern]) of
      Some g # _ \<Rightarrow> strip (filter (\<lambda>c. c \<noteq> CHR '' '') g)
    | _ \<Rightarrow> ''VERIFIED_KEY_UNKNOWN_ID'')"

subsection \<open>Signature of a commit\<close>

definition SIGNATURE_MARKS :: "string list" where
  "SIGNATURE_MARKS = [''gpgsig'', ''gpgsig-sha256'', ''-----BEGIN PGP SIGNATURE-----'', ''-----BEGIN SSH SIGNATURE-----'']"

definition verify_commit_signature :: "trust_policy \<Rightarrow> (string list \<Rightarrow> git_run) \<Rightarrow> string \<Rightarrow> bool \<times> bool \<times> string \<times> bool" where
  "verify_commit_signature pol git sha =
     (let marked = (case git [''cat-file'', ''-p'', sha] of Inl _ \<Rightarrow> False | Inr (rc, out, _) \<Rightarrow> rc = 0 \<and> list_ex (contains out) SIGNATURE_MARKS) in
      case git [''verify-commit'', sha] of
        Inl _ \<Rightarrow> (marked, False, [], False)
      | Inr (rc, out, errs) \<Rightarrow>
          if rc \<noteq> 0 then (marked, False, [], False)
          else (let all = out @ [CHR 0x0A] @ errs; who = signer_in all in
            if who \<in> set (tp_signers pol) then (True, True, who, True)
            else (case filter (\<lambda>k. k \<noteq> [] \<and> k \<in> set (py_split all)) (tp_signers pol) of
                [] \<Rightarrow> (True, True, who, False)
              | k # _ \<Rightarrow> (True, True, k, True))))"

definition query_remote_branch_head :: "(string list \<Rightarrow> git_run) \<Rightarrow> string option \<times> string option" where
  "query_remote_branch_head git = (case git [''ls-remote'', ''origin'', ''refs/heads/'' @ APPROVED_SOURCE_BRANCH] of
      Inl e \<Rightarrow> (None, Some (''REMOTE_BRANCH_UNAVAILABLE: git ls-remote failed: '' @ e))
    | Inr (rc, out, _) \<Rightarrow>
        if rc = 0 \<and> strip out \<noteq> [] \<and> length (hd (py_split (strip out))) = 40 then (Some (hd (py_split (strip out))), None)
        else (None, Some ''REMOTE_BRANCH_UNAVAILABLE: origin/main unreachable via git ls-remote''))"

subsection \<open>The committed payload\<close>

text \<open>Bytes are lists of characters below 256.\<close>

definition compute_payload_bytes_and_hash :: "trust_env \<Rightarrow> string \<Rightarrow> string \<times> string \<times> string" where
  "compute_payload_bytes_and_hash E raw =
     (let b = (case te_loads E raw of
          Some (PyDict m) \<Rightarrow> (case te_dumps E (PyDict (filter (\<lambda>kv. fst kv \<noteq> ''envelope'') m)) of Some x \<Rightarrow> x | None \<Rightarrow> raw)
        | _ \<Rightarrow> raw)
      in (b, te_sha256 E b, te_sha1 E (''blob '' @ str_of_nat (length b) @ [CHR 0x00] @ b)))"

definition committed_path :: "string option \<Rightarrow> DirectivePayload \<Rightarrow> string" where
  "committed_path name p = ''directives/inbox/'' @ (case name of Some n \<Rightarrow> n | None \<Rightarrow> dpl_directive_id p @ ''.json'')"

text \<open>
  Step 7: the metadata with the digests of the committed file, or the refusal. \<open>git show\<close> returns bytes.
\<close>

definition check_committed :: "trust_env \<Rightarrow> DirectivePayload \<Rightarrow> DirectiveEnvelope \<Rightarrow> string option \<Rightarrow> dict
    \<Rightarrow> (ValidationStatus \<times> string) option \<times> dict" where
  "check_committed E p env name meta =
     (let sha = env_commit_sha env; spot = sha @ '':'' @ committed_path name p; failed = (\<lambda>e. Some (FAIL_CLOSED_GITHUB_UNAVAILABLE,
          ''FAIL_CLOSED: Failed extracting committed blob from Git: '' @ e)) in
      case te_git E [''show'', spot] of
        Inl e \<Rightarrow> (failed e, meta)
      | Inr (rc, raw, _) \<Rightarrow>
          if rc \<noteq> 0 then (Some (COMMIT_EXISTS_BUT_DIRECTIVE_ABSENT, ''COMMIT_EXISTS_BUT_DIRECTIVE_ABSENT: Directive file '' @ CHR 0x27 # committed_path name p
            @ CHR 0x27 # '' does not exist in commit '' @ take 7 sha), meta)
          else (case compute_payload_bytes_and_hash E raw of (_, h, b) \<Rightarrow>
            let m1 = AList.update ''payload_blob_sha'' (PyStr b) (AList.update ''payload_sha256'' (PyStr h) meta) in
            (case te_git E [''rev-parse'', spot] of
               Inl e \<Rightarrow> (failed e, m1)
             | Inr (rc2, out, _) \<Rightarrow>
                 let blob = (if rc2 = 0 then strip out else b); m2 = AList.update ''payload_blob_sha'' (PyStr blob) m1 in
                 if env_payload_sha256 env \<noteq> [] \<and> env_payload_sha256 env \<noteq> ''UNKNOWN_HASH'' \<and> env_payload_sha256 env \<noteq> h
                 then (Some (CONTENT_MISMATCH, ''CONTENT_MISMATCH: Envelope payload_sha256 mismatch against committed blob in '' @ take 7 sha), m2)
                 else if env_blob_sha env \<noteq> [] \<and> env_blob_sha env \<noteq> ''UNKNOWN_BLOB'' \<and> env_blob_sha env \<noteq> blob
                 then (Some (CONTENT_MISMATCH, ''CONTENT_MISMATCH: Envelope payload_blob_sha mismatch against committed blob in '' @ take 7 sha), m2)
                 else (None, m2))))"

text \<open>Steps 8 to 10: time, action and the human gate.\<close>

definition check_action :: "trust_policy \<Rightarrow> trust_env \<Rightarrow> DirectivePayload \<Rightarrow> ValidationStatus \<times> string \<times> bool" where
  "check_action pol E p =
     (case (parse_iso (te_iso E) (dpl_created_at p), parse_iso (te_iso E) (dpl_expires_at p)) of
        (Some created, Some expires) \<Rightarrow>
          if created - te_now E > tp_skew pol then (CLOCK_SKEW_EXCEEDED, ''CLOCK_SKEW_EXCEEDED: Directive created_at is '' @ te_fixed E (created - te_now E)
            @ ''s in future (max allowed '' @ te_number E (tp_skew pol) @ ''s)'', False)
          else if te_now E > expires then (EXPIRED, ''EXPIRED: Directive expired at '' @ dpl_expires_at p, False)
          else (let act = upper (dpl_action_type p) in
            if act \<in> set PROHIBITED_MUTATING_ACTIONS then (ACTION_NOT_ALLOWED, ''ACTION_NOT_ALLOWED: Prohibited mutating action ''
              @ CHR 0x27 # act @ CHR 0x27 # '' rejected in CONTROL-02.5'', False)
            else if act \<notin> set ALLOWED_ACTION_CLASSES \<and> act \<notin> set ACTIONS_REQUIRING_HUMAN_APPROVAL
            then (ACTION_NOT_ALLOWED, ''ACTION_NOT_ALLOWED: Unknown or unauthorized action_type '' @ CHR 0x27 # act @ [CHR 0x27], False)
            else if dpl_requires_human p \<or> act \<in> set ACTIONS_REQUIRING_HUMAN_APPROVAL
            then (AUTHENTIC, ''WAITING_HUMAN: Directive requires human approval for action '' @ CHR 0x27 # act @ [CHR 0x27], True)
            else (AUTHENTIC, ''AUTHENTIC: Directive source authenticated and validated successfully'', False))
      | _ \<Rightarrow> (SCHEMA_INVALID, ''SCHEMA_INVALID: Invalid created_at or expires_at ISO timestamp'', False))"

text \<open>Step 6.\<close>

definition check_signature :: "trust_policy \<Rightarrow> string \<Rightarrow> bool \<times> bool \<times> string \<times> bool \<Rightarrow> (ValidationStatus \<times> string) option" where
  "check_signature pol sha sig = (case sig of (present, valid, who, ok) \<Rightarrow>
     if tp_require_signature pol \<and> \<not> present
     then Some (COMMIT_SIGNATURE_MISSING, ''COMMIT_SIGNATURE_MISSING: Commit '' @ take 7 sha @ '' is not cryptographically signed'')
     else if (tp_require_signature pol \<or> present) \<and> \<not> valid
     then Some (COMMIT_SIGNATURE_INVALID, ''COMMIT_SIGNATURE_INVALID: Commit '' @ take 7 sha @ '' signature is invalid'')
     else if \<not> ok then Some (UNTRUSTED_COMMIT_SIGNER, ''UNTRUSTED_COMMIT_SIGNER: Signer '' @ CHR 0x27 # who @ CHR 0x27 # '' is not in TRUSTED_SIGNER_ALLOWLIST'')
     else None)"

definition first_metadata :: "DirectivePayload \<Rightarrow> DirectiveEnvelope \<Rightarrow> dict" where
  "first_metadata p env = [(''directive_id'', PyStr (dpl_directive_id p)), (''payload_commit_sha'', PyStr (env_commit_sha env)),
     (''payload_blob_sha'', PyStr ''UNKNOWN_BLOB''), (''payload_sha256'', PyStr ''UNKNOWN_HASH''), (''remote_branch_head_sha'', PyStr ''UNKNOWN_REMOTE''),
     (''trusted_remote'', PyStr (env_trusted_remote env)), (''trusted_branch'', PyStr (env_trusted_branch env)), (''signature_present'', PyBool False),
     (''signature_valid'', PyBool False), (''signer_identity'', PyStr []), (''signer_allowed'', PyBool False), (''remote_ancestry_verified'', PyBool False)]"

definition signature_metadata :: "bool \<times> bool \<times> string \<times> bool \<Rightarrow> dict \<Rightarrow> dict" where
  "signature_metadata sig m = (case sig of (present, valid, who, ok) \<Rightarrow>
     AList.update ''signer_allowed'' (PyBool ok) (AList.update ''signer_identity'' (PyStr who) (AList.update ''signature_valid'' (PyBool valid)
       (AList.update ''signature_present'' (PyBool present) m))))"

definition reachable_from :: "(string list \<Rightarrow> git_run) \<Rightarrow> string \<Rightarrow> string \<Rightarrow> bool" where
  "reachable_from git sha head = (case git [''merge-base'', ''--is-ancestor'', sha, head] of Inl _ \<Rightarrow> False | Inr (rc, _) \<Rightarrow> rc = 0)"

text \<open>Steps 1 to 5: the remote head, or the refusal.\<close>

definition check_origin :: "trust_env \<Rightarrow> DirectiveEnvelope \<Rightarrow> dict \<Rightarrow> (ValidationStatus \<times> string) option \<times> dict" where
  "check_origin E env m = (let sha = env_commit_sha env in
     if env_trusted_remote env \<noteq> APPROVED_SOURCE_REPOSITORY
     then (Some (INVALID_SOURCE, ''INVALID_SOURCE: Repository '' @ CHR 0x27 # env_trusted_remote env @ CHR 0x27 # '' is not approved''), m)
     else if env_trusted_branch env \<noteq> APPROVED_SOURCE_BRANCH
     then (Some (NOT_IN_APPROVED_BRANCH, ''NOT_IN_APPROVED_BRANCH: Branch '' @ CHR 0x27 # env_trusted_branch env @ CHR 0x27 # '' is not approved''), m)
     else if sha = [] \<or> sha = ''UNKNOWN_SHA'' then (Some (COMMIT_NOT_FOUND, ''COMMIT_NOT_FOUND: payload_commit_sha is missing''), m)
     else if \<not> te_git_dir E then (Some (FAIL_CLOSED_GITHUB_UNAVAILABLE, ''FAIL_CLOSED: Git repository directory not found''), m)
     else (case te_git E [''cat-file'', ''-e'', sha @ ''^{commit}''] of
        Inl e \<Rightarrow> (Some (FAIL_CLOSED_GITHUB_UNAVAILABLE, ''FAIL_CLOSED: Git commit check failed: '' @ e), m)
      | Inr (rc, _) \<Rightarrow>
          if rc \<noteq> 0 then (Some (COMMIT_NOT_FOUND, ''COMMIT_NOT_FOUND: Commit '' @ take 7 sha @ '' does not exist in repository''), m)
          else (case query_remote_branch_head (te_git E) of
             (None, why) \<Rightarrow> (Some (REMOTE_BRANCH_UNAVAILABLE, case why of Some (c # cs) \<Rightarrow> c # cs | _ \<Rightarrow> ''REMOTE_BRANCH_UNAVAILABLE''), m)
           | (Some head, _) \<Rightarrow>
               let m1 = AList.update ''remote_branch_head_sha'' (PyStr head) m in
               if reachable_from (te_git E) sha head then (None, AList.update ''remote_ancestry_verified'' (PyBool True) m1)
               else (Some (PAYLOAD_COMMIT_NOT_REACHABLE, ''PAYLOAD_COMMIT_NOT_REACHABLE: Commit '' @ take 7 sha
                  @ '' is not reachable from remote branch head '' @ take 7 head), m1))))"

definition authenticate :: "trust_policy \<Rightarrow> trust_env \<Rightarrow> string option \<Rightarrow> DirectivePayload \<Rightarrow> DirectiveEnvelope
    \<Rightarrow> ValidationStatus \<times> string \<times> bool \<times> dict" where
  "authenticate pol E name p env = (case check_origin E env (first_metadata p env) of
      (Some (st, why), m) \<Rightarrow> (st, why, False, m)
    | (None, m) \<Rightarrow>
        let sig = verify_commit_signature pol (te_git E) (env_commit_sha env); m1 = signature_metadata sig m in
        (case check_signature pol (env_commit_sha env) sig of
           Some (st, why) \<Rightarrow> (st, why, False, m1)
         | None \<Rightarrow> (case check_committed E p env name m1 of
             (Some (st, why), m2) \<Rightarrow> (st, why, False, m2)
           | (None, m2) \<Rightarrow> (case check_action pol E p of (st, why, human) \<Rightarrow> (st, why, human, m2)))))"

subsection \<open>Revalidation before execution\<close>

record reval_meta =
  rv_fetched :: bool
  rv_head_resolved :: bool
  rv_head :: string
  rv_reachable :: bool
  rv_signature_valid :: bool
  rv_signer_allowed :: bool
  rv_signer :: string
  rv_payload_sha256 :: string
  rv_hash_match :: bool
  rv_snapshot_match :: bool
  rv_binding_verified :: bool

definition no_reval :: reval_meta where
  "no_reval = \<lparr>rv_fetched = False, rv_head_resolved = False, rv_head = ''UNKNOWN'', rv_reachable = False, rv_signature_valid = False,
     rv_signer_allowed = False, rv_signer = [], rv_payload_sha256 = ''UNKNOWN'', rv_hash_match = False, rv_snapshot_match = False,
     rv_binding_verified = False\<rparr>"

text \<open>Steps 4 and 5, once signature and origin hold; the entries of the snapshot are texts.\<close>

definition revalidate_content :: "(pyval \<Rightarrow> string) \<Rightarrow> trust_env \<Rightarrow> DirectivePayload \<Rightarrow> DirectiveEnvelope \<Rightarrow> dict \<Rightarrow> string option \<Rightarrow> string
    \<Rightarrow> reval_meta \<Rightarrow> bool \<times> string \<times> reval_meta" where
  "revalidate_content rep E p env snap name who m =
     (let sha = env_commit_sha env; differs = (\<lambda>k v. truthy (dget snap k) \<and> dget snap k \<noteq> PyStr v) in
      case te_git E [''show'', sha @ '':'' @ committed_path name p] of
        Inl e \<Rightarrow> (False, ''BLOB_EXTRACTION_FAILED: '' @ e, m)
      | Inr (rc, raw, _) \<Rightarrow>
          if rc \<noteq> 0 then (False, ''BLOB_ABSENT: Directive file absent in commit '' @ take 7 sha, m)
          else (let h = fst (snd (compute_payload_bytes_and_hash E raw)); m1 = m\<lparr>rv_payload_sha256 := h\<rparr> in
            if differs ''payload_sha256'' h \<and> dget snap ''payload_sha256'' \<noteq> PyStr ''UNKNOWN_HASH''
            then (False, ''PAYLOAD_HASH_MISMATCH: Pre-execution hash '' @ take 10 h @ '' != Ingestion hash '' @ take 10 (fmt rep (dget snap ''payload_sha256'')), m1)
            else let m2 = m1\<lparr>rv_hash_match := True\<rparr> in
              if differs ''payload_commit_sha'' sha then (False, ''COMMIT_SUBSTITUTION_DETECTED'', m2)
              else if differs ''signer_identity'' who then (False, ''SIGNER_MISMATCH_DETECTED'', m2)
              else (True, ''PRE_EXECUTION_REVALIDATED: Directive pre-execution TOCTOU revalidation passed'',
                m2\<lparr>rv_snapshot_match := True, rv_binding_verified := True\<rparr>)))"

definition revalidate_before_execution :: "(pyval \<Rightarrow> string) \<Rightarrow> trust_policy \<Rightarrow> trust_env \<Rightarrow> DirectivePayload \<Rightarrow> DirectiveEnvelope \<Rightarrow> dict
    \<Rightarrow> string option \<Rightarrow> bool \<Rightarrow> bool \<times> string \<times> reval_meta" where
  "revalidate_before_execution rep pol E p env snap name fresh =
     (let sha = env_commit_sha env;
          m0 = no_reval\<lparr>rv_fetched := fresh \<and> (case te_git E [''fetch'', ''origin'', APPROVED_SOURCE_BRANCH] of Inl _ \<Rightarrow> False | Inr _ \<Rightarrow> True)\<rparr> in
      case query_remote_branch_head (te_git E) of
        (None, why) \<Rightarrow> (False, ''REMOTE_UNRESOLVED: '' @ (case why of Some (c # cs) \<Rightarrow> c # cs | _ \<Rightarrow> ''Remote branch head unavailable''), m0)
      | (Some head, _) \<Rightarrow>
          let m1 = m0\<lparr>rv_head_resolved := True, rv_head := head\<rparr> in
          if \<not> reachable_from (te_git E) sha head
          then (False, ''FORCE_PUSH_OR_UNREACHABLE: Commit '' @ take 7 sha @ '' is not reachable from remote head '' @ take 7 head, m1)
          else (case verify_commit_signature pol (te_git E) sha of (present, valid, who, ok) \<Rightarrow>
            let m2 = m1\<lparr>rv_reachable := True, rv_signature_valid := valid, rv_signer_allowed := ok, rv_signer := who\<rparr> in
            if tp_require_signature pol \<and> (\<not> present \<or> \<not> valid)
            then (False, ''SIGNATURE_INVALID: Pre-execution signature revalidation failed for '' @ take 7 sha, m2)
            else if tp_require_signature pol \<and> \<not> ok
            then (False, ''KEY_REVOKED_OR_UNAUTHORIZED: Pre-execution signer '' @ CHR 0x27 # who @ CHR 0x27 # '' is not allowed'', m2)
            else revalidate_content rep E p env snap name who m2))"

end
