(* ===== verification/Watcher.thy ===== *)
theory Watcher
  imports Authenticator Act
begin

text \<open>
  The watcher of the inbox, \<open>src/directive/watcher.py\<close>: each file is read, validated, checked against the replay ledger,
  authenticated, queued or refused, acknowledged and moved. The directories are maps from names to contents; nobody else
  touches them during a poll. An exception that leaves \<open>poll_inbox\<close> leaves the state as it is at that point.
\<close>

definition status_value :: "ValidationStatus \<Rightarrow> string" where
  "status_value s = (case s of
      AUTHENTIC \<Rightarrow> ''AUTHENTIC'' | INVALID_SOURCE \<Rightarrow> ''INVALID_SOURCE'' | COMMIT_NOT_FOUND \<Rightarrow> ''COMMIT_NOT_FOUND''
    | COMMIT_EXISTS_BUT_DIRECTIVE_ABSENT \<Rightarrow> ''COMMIT_EXISTS_BUT_DIRECTIVE_ABSENT'' | NOT_IN_APPROVED_BRANCH \<Rightarrow> ''NOT_IN_APPROVED_BRANCH''
    | CONTENT_MISMATCH \<Rightarrow> ''CONTENT_MISMATCH'' | REPLAY_DETECTED \<Rightarrow> ''REPLAY_DETECTED'' | EXPIRED \<Rightarrow> ''EXPIRED''
    | CLOCK_SKEW_EXCEEDED \<Rightarrow> ''CLOCK_SKEW_EXCEEDED'' | SCHEMA_INVALID \<Rightarrow> ''SCHEMA_INVALID'' | ACTION_NOT_ALLOWED \<Rightarrow> ''ACTION_NOT_ALLOWED''
    | FAIL_CLOSED_GITHUB_UNAVAILABLE \<Rightarrow> ''FAIL_CLOSED_GITHUB_UNAVAILABLE'' | COMMIT_SIGNATURE_MISSING \<Rightarrow> ''COMMIT_SIGNATURE_MISSING''
    | COMMIT_SIGNATURE_INVALID \<Rightarrow> ''COMMIT_SIGNATURE_INVALID'' | UNTRUSTED_COMMIT_SIGNER \<Rightarrow> ''UNTRUSTED_COMMIT_SIGNER''
    | PAYLOAD_COMMIT_NOT_REACHABLE \<Rightarrow> ''PAYLOAD_COMMIT_NOT_REACHABLE'' | REMOTE_BRANCH_UNAVAILABLE \<Rightarrow> ''REMOTE_BRANCH_UNAVAILABLE''
    | STATE_CONFLICT \<Rightarrow> ''STATE_CONFLICT'' | QUEUE_CORRUPTION \<Rightarrow> ''QUEUE_CORRUPTION''
    | QUEUE_PERSISTENCE_FAILURE \<Rightarrow> ''QUEUE_PERSISTENCE_FAILURE'' | QUEUE_RECORD_MISMATCH \<Rightarrow> ''QUEUE_RECORD_MISMATCH''
    | TOCTOU_REVALIDATION_FAILED \<Rightarrow> ''TOCTOU_REVALIDATION_FAILED'')"

record DirectiveChannelStatus =
  dc_status :: string
  dc_last_poll :: "string option"
  dc_last_seen :: "string option"
  dc_last_id :: pyval
  dc_accepted :: nat
  dc_rejected :: nat
  dc_waiting :: nat
  dc_queued :: nat
  dc_replays :: nat
  dc_schema :: nat
  dc_auth :: nat
  dc_github :: nat
  dc_conflicts :: nat
  dc_toctou :: nat
  dc_last_error :: "string option"
  dc_version :: string

definition fresh_status :: DirectiveChannelStatus where
  "fresh_status = \<lparr>dc_status = ''RUNNING'', dc_last_poll = None, dc_last_seen = None, dc_last_id = PyNone, dc_accepted = 0, dc_rejected = 0,
     dc_waiting = 0, dc_queued = 0, dc_replays = 0, dc_schema = 0, dc_auth = 0, dc_github = 0, dc_conflicts = 0, dc_toctou = 0,
     dc_last_error = None, dc_version = ''2.0.0''\<rparr>"

text \<open>A directory of JSON files: names with contents. The acknowledgements are keyed by the text of the identifier.\<close>

type_synonym folder = "(string \<times> string) list"

record channel =
  ch_inbox :: folder
  ch_accepted :: folder
  ch_rejected :: folder
  ch_waiting :: folder
  ch_acks :: "(string \<times> DirectiveAck) list"
  ch_ledger :: replay_ledger
  ch_queue :: exec_queue
  ch_status :: DirectiveChannelStatus

text \<open>
  What a poll meets: the parsing of a file (the text of an exception, or the value), the authenticator, the clock, the head of the
  repository, whether a file is a physical child of the inbox (or the exception of \<open>resolve\<close>), the outcome of appending to
  the ledger and to the queue and of reading the queue back, the outcome of writing an acknowledgement and of a move.
\<close>

record watch_env =
  we_parse :: "string \<Rightarrow> string + pyval"
  we_rep :: "pyval \<Rightarrow> string"
  we_hash :: "string \<Rightarrow> string"
  we_auth :: "string \<Rightarrow> DirectivePayload \<Rightarrow> DirectiveEnvelope \<Rightarrow> ValidationStatus \<times> string \<times> bool \<times> dict"
  we_poll_time :: string
  we_close_time :: string
  we_time :: "string \<Rightarrow> string"
  we_head :: "string \<Rightarrow> git_run"
  we_physical :: "string \<Rightarrow> bool res"
  we_ledger_write :: "string \<Rightarrow> bool"
  we_queue_error :: "string \<Rightarrow> string option"
  we_storage :: "string \<Rightarrow> jline list \<Rightarrow> string + jline list"
  we_ack_write :: "string \<Rightarrow> bool"
  we_move :: "string \<Rightarrow> err option"

definition get_git_commit_sha :: "git_run \<Rightarrow> string" where
  "get_git_commit_sha g = (case g of Inr (rc, out, _) \<Rightarrow> if rc = 0 then strip out else ''UNKNOWN_SHA'' | Inl _ \<Rightarrow> ''UNKNOWN_SHA'')"

subsection \<open>Reading a directive\<close>

text \<open>\<open>from_dict\<close> on any JSON value: only a dictionary has \<open>get\<close>.\<close>

definition not_a_dict :: "string \<Rightarrow> pyval \<Rightarrow> err" where
  "not_a_dict key v = (case v of
      PyStr s \<Rightarrow> PyError (if contains s key then ''TypeError'' else ''AttributeError'')
    | PyList xs \<Rightarrow> PyError (if PyStr key \<in> set xs then ''TypeError'' else ''AttributeError'')
    | _ \<Rightarrow> PyError ''TypeError'')"

definition read_payload :: "(pyval \<Rightarrow> string) \<Rightarrow> dict \<Rightarrow> DirectivePayload res" where
  "read_payload rep m = (case dget_or m ''payload_object'' (PyDict m) of
      PyDict d \<Rightarrow> payload_from_dict rep d
    | v \<Rightarrow> Inl (not_a_dict ''payload_object'' v))"

definition read_envelope :: "(pyval \<Rightarrow> string) \<Rightarrow> dict \<Rightarrow> DirectiveEnvelope res" where
  "read_envelope rep m = (case dget_or m ''envelope'' (PyDict m) of
      PyDict d \<Rightarrow> Inr (envelope_from_dict rep d)
    | v \<Rightarrow> Inl (not_a_dict ''envelope'' v))"

text \<open>\<open>file_path.stem\<close> of a name that ends in \<open>.json\<close>.\<close>

definition stem :: "string \<Rightarrow> string" where
  "stem name = take (length name - 5) name"

subsection \<open>Acknowledging and moving\<close>

definition write_ack :: "watch_env \<Rightarrow> string \<Rightarrow> pyval \<Rightarrow> pyval \<Rightarrow> string \<Rightarrow> string \<Rightarrow> string \<Rightarrow> bool \<Rightarrow> bool \<Rightarrow> bool \<Rightarrow> channel
    \<Rightarrow> DirectiveAck \<times> channel" where
  "write_ack E name did sha st decision why human queued readback c =
     (let a = \<lparr>dak_directive_id = did, dak_received_at = we_time E name, dak_source_commit_sha = sha, dak_validation_status = st,
           dak_decision = decision, dak_decision_reason = why, dak_human_required = human, dak_queued = queued, dak_executed = False,
           dak_control_plane_commit_sha = get_git_commit_sha (we_head E name), dak_readback_verified = readback, dak_observer_version = ''2.0''\<rparr>
      in (a, if we_ack_write E name then c\<lparr>ch_acks := AList.update (fmt (we_rep E) did) a (ch_acks c)\<rparr> else c))"

datatype shelf = Accepted | Rejected | Waiting

definition move_file :: "watch_env \<Rightarrow> string \<Rightarrow> string \<Rightarrow> shelf \<Rightarrow> (channel, unit) act" where
  "move_file E name raw to c = (case we_move E name of
      Some e \<Rightarrow> (Inl e, c)
    | None \<Rightarrow> (let c1 = c\<lparr>ch_inbox := AList.delete name (ch_inbox c)\<rparr> in
        (Inr (), case to of
            Accepted \<Rightarrow> c1\<lparr>ch_accepted := AList.update name raw (ch_accepted c1)\<rparr>
          | Rejected \<Rightarrow> c1\<lparr>ch_rejected := AList.update name raw (ch_rejected c1)\<rparr>
          | Waiting \<Rightarrow> c1\<lparr>ch_waiting := AList.update name raw (ch_waiting c1)\<rparr>)))"

definition note_status :: "(DirectiveChannelStatus \<Rightarrow> DirectiveChannelStatus) \<Rightarrow> channel \<Rightarrow> channel" where
  "note_status f c = c\<lparr>ch_status := f (ch_status c)\<rparr>"

text \<open>The common end of every refusal: the acknowledgement, then the move to \<open>rejected\<close>.\<close>

definition refuse :: "watch_env \<Rightarrow> string \<Rightarrow> string \<Rightarrow> pyval \<Rightarrow> pyval \<Rightarrow> ValidationStatus \<Rightarrow> string \<Rightarrow> bool \<Rightarrow> (channel, DirectiveAck) act" where
  "refuse E name raw did sha st why readback c =
     (case write_ack E name did sha (status_value st) ''REJECTED'' why False False readback c of
        (a, c1) \<Rightarrow> seq (move_file E name raw Rejected) (\<lambda>_. ret a) c1)"

definition record_decision :: "watch_env \<Rightarrow> string \<Rightarrow> DirectivePayload \<Rightarrow> DirectiveEnvelope \<Rightarrow> string \<Rightarrow> string \<Rightarrow> channel \<Rightarrow> channel" where
  "record_decision E name p env decision why c =
     c\<lparr>ch_ledger := snd (record_consumption (we_ledger_write E name) (we_time E name) (dpl_directive_id p) (env_commit_sha env)
         (we_poll_time E) decision why (ch_ledger c))\<rparr>"

subsection \<open>Queueing\<close>

definition queue_error_text :: "queue_error \<Rightarrow> string" where
  "queue_error_text e = (case e of QueuePersistenceError s \<Rightarrow> s | QueueCorruptionError s \<Rightarrow> s)"

text \<open>\<open>_durable_source_path\<close>, then \<open>enqueue_payload\<close>; the left of the result is an exception of the queue, or any other.\<close>

definition durable_source_path :: "watch_env \<Rightarrow> string \<Rightarrow> (queue_error + string) res" where
  "durable_source_path E name = (case we_physical E name of
      Inl e \<Rightarrow> Inl e
    | Inr False \<Rightarrow> Inr (Inl (QueuePersistenceError ''INVALID_DIRECTIVE_SOURCE_PATH''))
    | Inr True \<Rightarrow> Inr (validate_directive_source_path (''directives/inbox/'' @ name)))"

definition queue_directive :: "watch_env \<Rightarrow> string \<Rightarrow> DirectivePayload \<Rightarrow> DirectiveEnvelope \<Rightarrow> dict
    \<Rightarrow> (channel, queue_error + QueuedDirectiveItem) act" where
  "queue_directive E name p env meta c = (case durable_source_path E name of
      Inl e \<Rightarrow> (Inl e, c)
    | Inr (Inl e) \<Rightarrow> (Inr (Inl e), c)
    | Inr (Inr path) \<Rightarrow> (case enqueue_payload (we_hash E) (we_rep E) (we_queue_error E name) (we_storage E name) (we_time E name) p env meta
          (Some (we_poll_time E)) path (ch_queue c) of (r, q) \<Rightarrow> (Inr r, c\<lparr>ch_queue := q\<rparr>)))"

subsection \<open>One file\<close>

definition AUTH_REFUSALS :: "ValidationStatus list" where
  "AUTH_REFUSALS = [INVALID_SOURCE, NOT_IN_APPROVED_BRANCH, COMMIT_NOT_FOUND, COMMIT_EXISTS_BUT_DIRECTIVE_ABSENT, COMMIT_SIGNATURE_MISSING,
     COMMIT_SIGNATURE_INVALID, UNTRUSTED_COMMIT_SIGNER, PAYLOAD_COMMIT_NOT_REACHABLE]"

definition schema_refusal :: "string \<Rightarrow> DirectiveChannelStatus \<Rightarrow> DirectiveChannelStatus" where
  "schema_refusal why s = s\<lparr>dc_schema := dc_schema s + 1, dc_rejected := dc_rejected s + 1, dc_last_error := Some why\<rparr>"

text \<open>Step 2: an identifier that the ledger knows.\<close>

definition refuse_replay :: "watch_env \<Rightarrow> string \<Rightarrow> string \<Rightarrow> DirectivePayload \<Rightarrow> DirectiveEnvelope \<Rightarrow> (channel, DirectiveAck) act" where
  "refuse_replay E name raw p env c =
     (let did = dpl_directive_id p; sha = env_commit_sha env;
          conflict = (case get_consumed_record did (ch_ledger c) of None \<Rightarrow> False | Some r \<Rightarrow> cr_source_commit_sha r \<noteq> PyStr sha);
          c1 = note_status (\<lambda>s. s\<lparr>dc_replays := dc_replays s + 1, dc_rejected := dc_rejected s + 1,
              dc_last_error := Some (''Replay detected for directive_id '' @ did), dc_conflicts := dc_conflicts s + (if conflict then 1 else 0)\<rparr>) c
      in if conflict
         then refuse E name raw (PyStr did) (PyStr sha) STATE_CONFLICT (''STATE_CONFLICT: directive_id '' @ did
                @ '' resubmitted with different payload commit '' @ take 7 sha) True c1
         else refuse E name raw (PyStr did) (PyStr sha) REPLAY_DETECTED (''REPLAY_DETECTED: Directive '' @ did @ '' has already been processed'') True c1)"

text \<open>Step 3: what the authenticator refused.\<close>

definition refuse_unauthentic :: "watch_env \<Rightarrow> string \<Rightarrow> string \<Rightarrow> DirectivePayload \<Rightarrow> DirectiveEnvelope \<Rightarrow> ValidationStatus \<Rightarrow> string
    \<Rightarrow> (channel, DirectiveAck) act" where
  "refuse_unauthentic E name raw p env st why c =
     (let c1 = note_status (\<lambda>s. (if st \<in> set AUTH_REFUSALS then s\<lparr>dc_auth := dc_auth s + 1\<rparr> else s\<lparr>dc_schema := dc_schema s + 1\<rparr>)
            \<lparr>dc_rejected := dc_rejected s + 1, dc_last_error := Some why\<rparr>) c
      in refuse E name raw (PyStr (dpl_directive_id p)) (PyStr (env_commit_sha env)) st why True (record_decision E name p env ''REJECTED'' why c1))"

text \<open>Step 4: the human gate; a failure to queue is swallowed.\<close>

definition park :: "watch_env \<Rightarrow> string \<Rightarrow> string \<Rightarrow> DirectivePayload \<Rightarrow> DirectiveEnvelope \<Rightarrow> ValidationStatus \<Rightarrow> string \<Rightarrow> dict
    \<Rightarrow> (channel, DirectiveAck) act" where
  "park E name raw p env st why meta c =
     (let c1 = note_status (\<lambda>s. s\<lparr>dc_waiting := length (ch_waiting c) + 1\<rparr>) c;
          c2 = snd (queue_directive E name p env meta c1);
          c3 = record_decision E name p env ''WAITING_HUMAN'' why c2
      in case write_ack E name (PyStr (dpl_directive_id p)) (PyStr (env_commit_sha env)) (status_value st) ''WAITING_HUMAN'' why True True True c3 of
           (a, c4) \<Rightarrow> seq (move_file E name raw Waiting) (\<lambda>_. ret a) c4)"

text \<open>Steps 5 and 6: the queue with its read-back, then the ledger and the acknowledgement.\<close>

definition accept :: "watch_env \<Rightarrow> string \<Rightarrow> string \<Rightarrow> DirectivePayload \<Rightarrow> DirectiveEnvelope \<Rightarrow> ValidationStatus \<Rightarrow> string \<Rightarrow> dict
    \<Rightarrow> (channel, DirectiveAck) act" where
  "accept E name raw p env st why meta = seq (queue_directive E name p env meta) (\<lambda>r c. case r of
      Inl e \<Rightarrow> refuse E name raw (PyStr (dpl_directive_id p)) (PyStr (env_commit_sha env)) QUEUE_PERSISTENCE_FAILURE (queue_error_text e) False
        (note_status (\<lambda>s. s\<lparr>dc_rejected := dc_rejected s + 1, dc_last_error := Some (queue_error_text e)\<rparr>) c)
    | Inr item \<Rightarrow>
        (let c1 = note_status (\<lambda>s. s\<lparr>dc_accepted := length (ch_accepted c) + 1, dc_queued := length (get_items (ch_queue c))\<rparr>) c;
             c2 = record_decision E name p env ''ACCEPTED'' why c1
         in case write_ack E name (PyStr (dpl_directive_id p)) (PyStr (env_commit_sha env)) (status_value st) ''ACCEPTED'' why False True
               (qi_readback_verified item) c2 of
             (a, c3) \<Rightarrow> seq (move_file E name raw Accepted) (\<lambda>_. ret a) c3))"

definition decide :: "watch_env \<Rightarrow> string \<Rightarrow> string \<Rightarrow> DirectivePayload \<Rightarrow> DirectiveEnvelope \<Rightarrow> (channel, DirectiveAck) act" where
  "decide E name raw p env = seq (modify (note_status (\<lambda>s. s\<lparr>dc_last_id := PyStr (dpl_directive_id p)\<rparr>))) (\<lambda>_.
     seq (query (\<lambda>c. is_consumed (dpl_directive_id p) (ch_ledger c))) (\<lambda>known.
     if known then refuse_replay E name raw p env
     else (case we_auth E name p env of (st, why, human, meta) \<Rightarrow>
       if st \<noteq> AUTHENTIC then refuse_unauthentic E name raw p env st why
       else if human then park E name raw p env st why meta
       else accept E name raw p env st why meta)))"

definition process_file :: "watch_env \<Rightarrow> string \<times> string \<Rightarrow> (channel, DirectiveAck) act" where
  "process_file E f = (case f of (name, raw) \<Rightarrow> seq (modify (note_status (\<lambda>s. s\<lparr>dc_last_seen := Some name\<rparr>))) (\<lambda>_.
     case we_parse E raw of
       Inl e \<Rightarrow> (\<lambda>c. refuse E name raw (PyStr (stem name)) (PyStr ''UNKNOWN_SHA'') SCHEMA_INVALID (''SCHEMA_INVALID: Malformed JSON syntax: '' @ e) True
           (note_status (schema_refusal (''Malformed JSON: '' @ e)) c))
     | Inr v \<Rightarrow> (case schema_validate v of
         (False, why) \<Rightarrow> (\<lambda>c. (case v of
             PyDict m \<Rightarrow> refuse E name raw (dget_or m ''directive_id'' (PyStr (stem name)))
                 (dget_or m ''source_commit_sha'' (dget_or m ''payload_commit_sha'' (PyStr ''UNKNOWN_SHA'')))
           | _ \<Rightarrow> refuse E name raw (PyStr (stem name)) (PyStr ''UNKNOWN_SHA'')) SCHEMA_INVALID why True
           (note_status (schema_refusal why) c))
       | (True, _) \<Rightarrow> (case v of
             PyDict m \<Rightarrow> seq (lift_res (read_payload (we_rep E) m)) (\<lambda>p. seq (lift_res (read_envelope (we_rep E) m)) (\<lambda>env. decide E name raw p env))
           | _ \<Rightarrow> fail (PyError ''AttributeError'')))))"

subsection \<open>A poll\<close>

text \<open>\<open>present\<close>: the inbox directory exists. At the end the status is written to its file, with the time.\<close>

definition update_channel_status :: "watch_env \<Rightarrow> (channel, unit) act" where
  "update_channel_status E = modify (note_status (\<lambda>s. s\<lparr>dc_last_poll := Some (we_close_time E)\<rparr>))"

definition poll_inbox :: "watch_env \<Rightarrow> bool \<Rightarrow> (channel, DirectiveAck list) act" where
  "poll_inbox E present = seq (modify (note_status (\<lambda>s. s\<lparr>dc_last_poll := Some (we_poll_time E)\<rparr>))) (\<lambda>_.
     seq (if present then seq (query (\<lambda>c. sort_key fst (ch_inbox c))) (each (process_file E)) else ret []) (\<lambda>acks.
     seq (update_channel_status E) (\<lambda>_. ret acks)))"

subsection \<open>Status\<close>

text \<open>\<open>k in v\<close> for a text \<open>k\<close>; \<open>None\<close>: the exception that skips the line.\<close>

definition py_in :: "string \<Rightarrow> pyval \<Rightarrow> bool option" where
  "py_in k v = (case v of
      PyStr s \<Rightarrow> Some (contains s k)
    | PyList xs \<Rightarrow> Some (PyStr k \<in> set xs)
    | PyDict m \<Rightarrow> Some (k \<in> fst ` set m)
    | _ \<Rightarrow> None)"

definition auth_reason :: "pyval \<Rightarrow> bool" where
  "auth_reason v = list_ex (\<lambda>k. py_in k v = Some True) [''INVALID_SOURCE'', ''NOT_IN_APPROVED_BRANCH'', ''COMMIT_NOT_FOUND'', ''SIGNATURE'', ''REACHABLE'']"

definition count_reasons :: "(pyval \<Rightarrow> bool) \<Rightarrow> jfile \<Rightarrow> nat" where
  "count_reasons f file = (case file of None \<Rightarrow> 0 | Some ls \<Rightarrow>
     length (filter (\<lambda>l. case l of Json (PyDict m) \<Rightarrow> f (dget_or m ''decision_reason'' (PyStr [])) | _ \<Rightarrow> False) ls))"

text \<open>\<open>latest\<close>: the acknowledgement with the newest file, if there is one and it can be read.\<close>

definition reconstruct_channel_status :: "string \<Rightarrow> (pyval \<Rightarrow> string) \<Rightarrow> dict option \<Rightarrow> channel \<Rightarrow> channel" where
  "reconstruct_channel_status now rep latest c =
     (let file = rl_file (ch_ledger c); s = (ch_status c)\<lparr>dc_accepted := length (ch_accepted c), dc_rejected := length (ch_rejected c),
          dc_waiting := length (ch_waiting c), dc_queued := length (get_items (ch_queue c)),
          dc_replays := count_reasons (\<lambda>v. py_in ''REPLAY_DETECTED'' v = Some True) file, dc_auth := count_reasons auth_reason file,
          dc_schema := count_reasons (\<lambda>v. py_in ''SCHEMA_INVALID'' v = Some True) file,
          dc_conflicts := count_reasons (\<lambda>v. py_in ''STATE_CONFLICT'' v = Some True) file, dc_last_poll := Some now\<rparr>
      in c\<lparr>ch_status := (case latest of None \<Rightarrow> s
        | Some m \<Rightarrow> s\<lparr>dc_last_id := dget m ''directive_id'', dc_last_seen := Some (fmt rep (dget m ''directive_id'') @ ''.json'')\<rparr>)\<rparr>)"

text \<open>The constructor on what an earlier process left; the queue that does not load raises.\<close>

definition open_channel :: "(pyval \<Rightarrow> string + int) \<Rightarrow> string \<Rightarrow> (pyval \<Rightarrow> string) \<Rightarrow> dict option \<Rightarrow> jfile \<Rightarrow> jfile \<Rightarrow> channel \<Rightarrow> queue_error + channel" where
  "open_channel to_int now rep latest ledger queue c = (case load_exec_queue to_int queue of
      Inl e \<Rightarrow> Inl e
    | Inr q \<Rightarrow> Inr (reconstruct_channel_status now rep latest (c\<lparr>ch_ledger := load_ledger ledger, ch_queue := q, ch_status := fresh_status\<rparr>)))"

end
