(* ===== verification/AuthenticatorClaims.thy ===== *)
theory AuthenticatorClaims
  imports Authenticator
begin

text \<open>
  What an authentic directive stands on, what the verdict does not look at, and what the revalidation before execution adds.
\<close>

subsection \<open>The chain of trust\<close>

text \<open>\<open>git verify-commit\<close> succeeds and its output names a trusted signer.\<close>

definition signed_by :: "trust_policy \<Rightarrow> (string list \<Rightarrow> git_run) \<Rightarrow> string \<Rightarrow> string \<Rightarrow> bool" where
  "signed_by pol git sha who \<longleftrightarrow> who \<in> set (tp_signers pol) \<and> (\<exists>out errs. git [''verify-commit'', sha] = Inr (0, out, errs)
     \<and> (who = signer_in (out @ [CHR 0x0A] @ errs) \<or> who \<in> set (py_split (out @ [CHR 0x0A] @ errs))))"

lemma signature_sound:
  assumes "verify_commit_signature pol git sha = (present, valid, who, True)"
  shows "present \<and> valid \<and> signed_by pol git sha who"
proof -
  from assms obtain rc out errs where v: "git [''verify-commit'', sha] = Inr (rc, out, errs)" "rc = 0"
    by (auto simp: verify_commit_signature_def Let_def split: sum.splits prod.splits if_splits)
  let ?all = "out @ [CHR 0x0A] @ errs"
  show ?thesis
  proof (cases "signer_in ?all \<in> set (tp_signers pol)")
    case True
    with assms v show ?thesis by (auto simp: verify_commit_signature_def signed_by_def Let_def)
  next
    case False
    with assms v obtain ks where k: "filter (\<lambda>k. k \<noteq> [] \<and> k \<in> set (py_split ?all)) (tp_signers pol) = who # ks"
      and r: "present" "valid"
      by (auto simp: verify_commit_signature_def Let_def split: list.splits)
    have "who \<in> set (filter (\<lambda>k. k \<noteq> [] \<and> k \<in> set (py_split ?all)) (tp_signers pol))" unfolding k by simp
    with v r show ?thesis by (auto simp: signed_by_def)
  qed
qed

definition remote_head :: "trust_env \<Rightarrow> string \<Rightarrow> bool" where
  "remote_head E head \<longleftrightarrow> (\<exists>out errs. te_git E [''ls-remote'', ''origin'', ''refs/heads/main''] = Inr (0, out, errs)
     \<and> strip out \<noteq> [] \<and> head = hd (py_split (strip out)) \<and> length head = 40)"

lemma query_head: "query_remote_branch_head (te_git E) = (Some head, why) \<Longrightarrow> remote_head E head"
  by (auto simp: query_remote_branch_head_def remote_head_def APPROVED_SOURCE_BRANCH_def split: sum.splits prod.splits if_splits)

lemma meta_update: "dget (AList.update k v m) j = (if j = k then v else dget m j)"
  by (simp add: dget_def update_conv')

lemma origin_sound:
  assumes "check_origin E env m = (None, m')"
  shows "env_trusted_remote env = APPROVED_SOURCE_REPOSITORY \<and> env_trusted_branch env = APPROVED_SOURCE_BRANCH
    \<and> (\<exists>head. remote_head E head \<and> reachable_from (te_git E) (env_commit_sha env) head)
    \<and> (k \<noteq> ''remote_branch_head_sha'' \<longrightarrow> k \<noteq> ''remote_ancestry_verified'' \<longrightarrow> dget m' k = dget m k)"
  using assms by (auto simp: check_origin_def Let_def meta_update split: if_splits sum.splits prod.splits option.splits dest!: query_head)

text \<open>The file that the commit holds at the path of the directive, and the digest of its payload.\<close>

definition committed :: "trust_env \<Rightarrow> DirectivePayload \<Rightarrow> DirectiveEnvelope \<Rightarrow> string option \<Rightarrow> string \<Rightarrow> bool" where
  "committed E p env name h \<longleftrightarrow> (\<exists>raw errs. te_git E [''show'', env_commit_sha env @ '':'' @ committed_path name p] = Inr (0, raw, errs)
     \<and> h = fst (snd (compute_payload_bytes_and_hash E raw)))"

lemma committed_sound:
  assumes "check_committed E p env name m = (None, m')"
  obtains h where "committed E p env name h" and "dget m' ''payload_sha256'' = PyStr h"
    and "env_payload_sha256 env = [] \<or> env_payload_sha256 env = ''UNKNOWN_HASH'' \<or> env_payload_sha256 env = h"
    and "\<And>k. k \<noteq> ''payload_sha256'' \<Longrightarrow> k \<noteq> ''payload_blob_sha'' \<Longrightarrow> dget m' k = dget m k"
proof -
  let ?spot = "env_commit_sha env @ '':'' @ committed_path name p"
  from assms obtain rc raw errs where s: "te_git E [''show'', ?spot] = Inr (rc, raw, errs)" "rc = 0"
    by (auto simp: check_committed_def Let_def split: sum.splits prod.splits if_splits)
  obtain b h blob where c: "compute_payload_bytes_and_hash E raw = (b, h, blob)" using prod_cases3 by blast
  from assms s c obtain rc2 out errs2 where "te_git E [''rev-parse'', ?spot] = Inr (rc2, out, errs2)"
    by (auto simp: check_committed_def Let_def split: sum.splits prod.splits if_splits)
  with assms s c have "m' = AList.update ''payload_blob_sha'' (PyStr (if rc2 = 0 then strip out else blob))
      (AList.update ''payload_blob_sha'' (PyStr blob) (AList.update ''payload_sha256'' (PyStr h) m))"
    and "env_payload_sha256 env = [] \<or> env_payload_sha256 env = ''UNKNOWN_HASH'' \<or> env_payload_sha256 env = h"
    by (auto simp: check_committed_def Let_def split: if_splits)
  with that [of h] s c show thesis by (auto simp: committed_def meta_update)
qed

text \<open>In time, of an allowed class, and for a human where the payload or the class asks for one.\<close>

definition action_ok :: "trust_policy \<Rightarrow> trust_env \<Rightarrow> DirectivePayload \<Rightarrow> bool \<Rightarrow> bool" where
  "action_ok pol E p human \<longleftrightarrow> (\<exists>created expires. parse_iso (te_iso E) (dpl_created_at p) = Some created
     \<and> parse_iso (te_iso E) (dpl_expires_at p) = Some expires \<and> created \<le> te_now E + tp_skew pol \<and> te_now E \<le> expires)
     \<and> upper (dpl_action_type p) \<notin> set PROHIBITED_MUTATING_ACTIONS
     \<and> (upper (dpl_action_type p) \<in> set ALLOWED_ACTION_CLASSES \<or> upper (dpl_action_type p) \<in> set ACTIONS_REQUIRING_HUMAN_APPROVAL)
     \<and> (human \<longleftrightarrow> dpl_requires_human p \<or> upper (dpl_action_type p) \<in> set ACTIONS_REQUIRING_HUMAN_APPROVAL)"

lemma action_sound: "check_action pol E p = (AUTHENTIC, why, human) \<Longrightarrow> action_ok pol E p human"
  by (auto simp: check_action_def action_ok_def Let_def diff_le_eq not_less split: option.splits if_splits)

definition authentic :: "trust_policy \<Rightarrow> trust_env \<Rightarrow> string option \<Rightarrow> DirectivePayload \<Rightarrow> DirectiveEnvelope \<Rightarrow> bool \<Rightarrow> dict \<Rightarrow> bool" where
  "authentic pol E name p env human meta \<longleftrightarrow>
     env_trusted_remote env = APPROVED_SOURCE_REPOSITORY \<and> env_trusted_branch env = APPROVED_SOURCE_BRANCH
     \<and> (\<exists>head. remote_head E head \<and> reachable_from (te_git E) (env_commit_sha env) head)
     \<and> (\<exists>who. signed_by pol (te_git E) (env_commit_sha env) who \<and> dget meta ''signer_identity'' = PyStr who)
     \<and> (\<exists>h. committed E p env name h \<and> dget meta ''payload_sha256'' = PyStr h
          \<and> (env_payload_sha256 env = [] \<or> env_payload_sha256 env = ''UNKNOWN_HASH'' \<or> env_payload_sha256 env = h))
     \<and> dget meta ''payload_commit_sha'' = PyStr (env_commit_sha env) \<and> action_ok pol E p human"

lemma authenticate_D:
  assumes "authenticate pol E name p env = (AUTHENTIC, why, human, meta)"
  shows "authentic pol E name p env human meta"
proof -
  obtain x m where o: "check_origin E env (first_metadata p env) = (x, m)" by fastforce
  obtain pr va who ok where s: "verify_commit_signature pol (te_git E) (env_commit_sha env) = (pr, va, who, ok)" using prod_cases4 by blast
  let ?m = "signature_metadata (pr, va, who, ok) m"
  obtain y m2 where k: "check_committed E p env name ?m = (y, m2)" by fastforce
  obtain st why' h' where a: "check_action pol E p = (st, why', h')" using prod_cases3 by blast
  have refused: "st \<noteq> AUTHENTIC" if "check_origin E env m0 = (Some (st, w), m1)" for m0 st w m1
    using that by (auto simp: check_origin_def Let_def split: if_splits sum.splits prod.splits option.splits)
  have refused2: "st \<noteq> AUTHENTIC" if "check_committed E p env name m0 = (Some (st, w), m1)" for m0 st w m1
    using that by (auto simp: check_committed_def Let_def split: if_splits sum.splits prod.splits)
  from assms o refused have x: "x = None" by (cases x) (auto simp: authenticate_def)
  have sg: "check_signature pol (env_commit_sha env) (pr, va, who, ok) = None"
    using assms unfolding authenticate_def o x s by (auto simp: Let_def check_signature_def split: if_splits)
  then have ok: "ok" by (auto simp: check_signature_def split: if_splits)
  from assms refused2 k have y: "y = None" unfolding authenticate_def o x s using sg by (cases y) (auto simp: Let_def)
  have r: "m2 = meta" "st = AUTHENTIC" "h' = human" using assms unfolding authenticate_def o x s using sg by (auto simp: Let_def k y a)
  obtain h where h: "committed E p env name h" "dget m2 ''payload_sha256'' = PyStr h"
    "env_payload_sha256 env = [] \<or> env_payload_sha256 env = ''UNKNOWN_HASH'' \<or> env_payload_sha256 env = h"
    and keep: "\<And>k. k \<noteq> ''payload_sha256'' \<Longrightarrow> k \<noteq> ''payload_blob_sha'' \<Longrightarrow> dget m2 k = dget ?m k"
    using committed_sound [OF k [unfolded y]] by blast
  moreover have "dget m2 ''signer_identity'' = PyStr who" by (subst keep) (simp_all add: signature_metadata_def meta_update)
  moreover have "dget m2 ''payload_commit_sha'' = dget m ''payload_commit_sha''" by (subst keep) (simp_all add: signature_metadata_def meta_update)
  moreover have "dget m ''payload_commit_sha'' = PyStr (env_commit_sha env)"
    using origin_sound [OF o [unfolded x], of "''payload_commit_sha''"] by (simp add: first_metadata_def dget_def)
  ultimately show ?thesis
    using origin_sound [OF o [unfolded x], of "''payload_commit_sha''"] signature_sound [OF s [unfolded ok [THEN eqTrueI]]] action_sound [OF a [unfolded r]] r
    unfolding authentic_def by auto
qed

subsection \<open>Before execution\<close>

lemma content_sound:
  assumes "revalidate_content rep E p env snap name who m = (True, why, m')"
  obtains h where "committed E p env name h"
    and "dget snap ''payload_sha256'' = PyStr h \<or> \<not> truthy (dget snap ''payload_sha256'') \<or> dget snap ''payload_sha256'' = PyStr ''UNKNOWN_HASH''"
    and "\<not> truthy (dget snap ''signer_identity'') \<or> dget snap ''signer_identity'' = PyStr who"
    and "\<not> truthy (dget snap ''payload_commit_sha'') \<or> dget snap ''payload_commit_sha'' = PyStr (env_commit_sha env)"
  using assms that by (auto simp: revalidate_content_def committed_def Let_def split: sum.splits prod.splits if_splits)

lemma revalidate_D:
  assumes "revalidate_before_execution rep pol E p env snap name fresh = (True, why, m)" and "tp_require_signature pol"
  obtains head who n where "remote_head E head" and "reachable_from (te_git E) (env_commit_sha env) head"
    and "signed_by pol (te_git E) (env_commit_sha env) who" and "revalidate_content rep E p env snap name who n = (True, why, m)"
proof -
  obtain q e where q: "query_remote_branch_head (te_git E) = (q, e)" by fastforce
  with assms obtain head where h: "q = Some head" by (cases q) (auto simp: revalidate_before_execution_def Let_def)
  obtain pr va who ok where s: "verify_commit_signature pol (te_git E) (env_commit_sha env) = (pr, va, who, ok)" using prod_cases4 by blast
  from assms q h s have ok: "ok" and r: "reachable_from (te_git E) (env_commit_sha env) head"
    and n: "\<exists>n. revalidate_content rep E p env snap name who n = (True, why, m)"
    by (auto simp: revalidate_before_execution_def Let_def split: if_splits)
  from n that query_head [of E head e] q h r signature_sound [of pol "te_git E" "env_commit_sha env" pr va who] s ok show thesis by auto
qed

lemma origin_commit: "check_origin E env m = (None, m') \<Longrightarrow> env_commit_sha env \<noteq> []"
  by (auto simp: check_origin_def Let_def split: if_splits)

lemma authentic_commit:
  assumes "authenticate pol E name p env = (AUTHENTIC, why, human, meta)"
  shows "env_commit_sha env \<noteq> []"
proof -
  obtain x m where o: "check_origin E env (first_metadata p env) = (x, m)" by fastforce
  have "st \<noteq> AUTHENTIC" if "x = Some (st, w)" for st w
    using o that by (auto simp: check_origin_def Let_def split: if_splits sum.splits prod.splits option.splits)
  with assms o have "x = None" by (cases x) (auto simp: authenticate_def)
  with o origin_commit show ?thesis by blast
qed

text \<open>C17. What is revalidated is what was authenticated: when a directive passes the revalidation before its execution, with the policy
  that requires signatures, against the metadata of an earlier authentication and under whatever \<open>git\<close> and the queued envelope say by
  then, its commit is the one that was authenticated and still an ancestor of the remote head, it is verified again under the same
  trusted signer, and the file of the directive in it has the digest of the file that was authenticated.\<close>

theorem revalidated_same:
  assumes "authenticate pol E name p env = (AUTHENTIC, why, human, meta)"
    and "revalidate_before_execution rep pol' E' p' env' meta name' fresh = (True, why', rv)"
    and "tp_require_signature pol'" and "[] \<notin> set (tp_signers pol)" and "\<forall>s. length (te_sha256 E s) = 64"
  shows "env_commit_sha env' = env_commit_sha env
    \<and> (\<exists>h who head. committed E p env name h \<and> committed E' p' env' name' h \<and> signed_by pol (te_git E) (env_commit_sha env) who
         \<and> signed_by pol' (te_git E') (env_commit_sha env) who \<and> remote_head E' head \<and> reachable_from (te_git E') (env_commit_sha env) head)"
proof -
  from authenticate_D [OF assms(1)] obtain h who where a: "committed E p env name h" "dget meta ''payload_sha256'' = PyStr h"
    "signed_by pol (te_git E) (env_commit_sha env) who" "dget meta ''signer_identity'' = PyStr who"
    and sha: "dget meta ''payload_commit_sha'' = PyStr (env_commit_sha env)" by (auto simp: authentic_def)
  have "length h = 64" using a(1) assms(5) by (auto simp: committed_def compute_payload_bytes_and_hash_def Let_def)
  then have h: "h \<noteq> []" "h \<noteq> ''UNKNOWN_HASH''" by auto
  have "who \<noteq> []" using a(3) assms(4) by (auto simp: signed_by_def)
  from revalidate_D [OF assms(2,3)] obtain head who' n where b: "remote_head E' head" "reachable_from (te_git E') (env_commit_sha env') head"
    "signed_by pol' (te_git E') (env_commit_sha env') who'" and c: "revalidate_content rep E' p' env' meta name' who' n = (True, why', rv)" by blast
  obtain h' where d: "committed E' p' env' name' h'"
    "dget meta ''payload_sha256'' = PyStr h' \<or> \<not> truthy (dget meta ''payload_sha256'') \<or> dget meta ''payload_sha256'' = PyStr ''UNKNOWN_HASH''"
    "\<not> truthy (dget meta ''signer_identity'') \<or> dget meta ''signer_identity'' = PyStr who'"
    "\<not> truthy (dget meta ''payload_commit_sha'') \<or> dget meta ''payload_commit_sha'' = PyStr (env_commit_sha env')" by (rule content_sound [OF c])
  have "h' = h" using d(2) a(2) h by simp
  moreover have "who' = who" using d(3) a(4) \<open>who \<noteq> []\<close> by simp
  moreover have "env_commit_sha env' = env_commit_sha env" using d(4) sha authentic_commit [OF assms(1)] by simp
  ultimately show ?thesis using a(1,3) b d(1) by auto
qed

text \<open>The verdict does not look at what the directive asks for: the file of the commit is compared with the digests that the
  envelope of the inbox file states, never with the payload of the inbox file, so every field but the identifier, the times,
  the class of the action and the human flag can be replaced without changing the answer.\<close>

theorem content_not_bound:
  "authenticate pol E name (p\<lparr>dpl_version := a, dpl_project := b, dpl_target_project := c, dpl_target_stage := d, dpl_action := e,
     dpl_issued_by := f, dpl_allowed_scope := g, dpl_preconditions := h, dpl_success_criteria := i, dpl_failure_policy := j,
     dpl_rollback_policy := k, dpl_payload := l\<rparr>) env = authenticate pol E name p env"
  (is "authenticate pol E name ?q env = _")
proof -
  have sel: "dpl_directive_id ?q = dpl_directive_id p" "dpl_created_at ?q = dpl_created_at p" "dpl_expires_at ?q = dpl_expires_at p"
    "dpl_action_type ?q = dpl_action_type p" "dpl_requires_human ?q = dpl_requires_human p" by simp_all
  have "first_metadata ?q env = first_metadata p env" by (simp only: first_metadata_def sel)
  moreover have "check_action pol E ?q = check_action pol E p" by (simp only: check_action_def sel)
  moreover have "check_committed E ?q env name = check_committed E p env name" by (simp only: fun_eq_iff check_committed_def committed_path_def sel) simp
  ultimately show ?thesis by (simp only: authenticate_def)
qed

text \<open>A name in the output of \<open>git\<close> is as good as a key: a signature by any other key is trusted when the text that names its
  owner has a trusted fingerprint among its words.\<close>

definition other_key_answer :: "string list \<Rightarrow> git_run" where
  "other_key_answer args = Inr (0, [], ''using RSA key 00FF Good signature from '' @ CHR 0x22 # ''x SHA256:k y'' @ [CHR 0x22])"

definition one_signer :: trust_policy where
  "one_signer = \<lparr>tp_require_signature = True, tp_signers = [''SHA256:k''], tp_skew = 300\<rparr>"

lemma signer_in_owner_name: "verify_commit_signature one_signer other_key_answer ''c'' = (True, True, ''SHA256:k'', True)"
  by code_simp

subsection \<open>A closed instance\<close>

text \<open>A \<open>git\<close> that answers everything with one line: a head of forty characters and a trusted key.\<close>

definition steady_line :: string where "steady_line = replicate 40 (CHR ''a'') @ '' SHA256:k''"

definition steady_trust :: trust_env where
  "steady_trust = \<lparr>te_git = \<lambda>args. Inr (0, steady_line, []), te_git_dir = True, te_now = 0, te_loads = \<lambda>s. None, te_dumps = \<lambda>v. None,
     te_sha256 = \<lambda>s. replicate 64 (CHR ''d''), te_sha1 = \<lambda>s. [], te_iso = \<lambda>s. Some 0, te_fixed = \<lambda>r. [], te_number = \<lambda>r. []\<rparr>"

definition steady_payload :: DirectivePayload where
  "steady_payload = \<lparr>dpl_version = ''1'', dpl_directive_id = ''d-1'', dpl_project = ''ORACLE-AI'', dpl_target_project = ''ORACLE-AI'', dpl_target_stage = ''s'',
     dpl_action_type = ''NO_OP'', dpl_action = ''a'', dpl_created_at = ''t'', dpl_expires_at = ''t'', dpl_issued_by = ''i'', dpl_requires_human = False,
     dpl_allowed_scope = [], dpl_preconditions = [], dpl_success_criteria = [], dpl_failure_policy = ''f'', dpl_rollback_policy = ''r'',
     dpl_payload = []\<rparr>"

definition steady_envelope :: DirectiveEnvelope where
  "steady_envelope = \<lparr>env_directive_id = ''d-1'', env_commit_sha = ''c'', env_blob_sha = [], env_payload_sha256 = [],
     env_trusted_remote = ''AI-CONTROL-PLANE'', env_trusted_branch = ''main'', env_version = ''2.0'', env_signature_present = False,
     env_signature_valid = False, env_signer_identity = [], env_signer_allowed = False\<rparr>"

lemma steady_line_facts: "signer_in (steady_line @ [CHR 0x0A]) = ''VERIFIED_KEY_UNKNOWN_ID''" "''SHA256:k'' \<in> set (py_split (steady_line @ [CHR 0x0A]))"
  "strip steady_line = steady_line" "hd (py_split steady_line) = replicate 40 (CHR ''a'')" "steady_line \<noteq> []"
  by code_simp+

lemma steady_sel [simp]: "te_git steady_trust args = Inr (0, steady_line, [])" "te_git_dir steady_trust" "te_now steady_trust = 0"
  "te_iso steady_trust x = Some 0" "te_sha256 steady_trust x = replicate 64 (CHR ''d'')"
  by (simp_all add: steady_trust_def)

lemma steady_signature: "verify_commit_signature one_signer (te_git steady_trust) sha = (True, True, ''SHA256:k'', True)"
  using steady_line_facts(1,2) by (simp add: verify_commit_signature_def one_signer_def)

lemma steady_head: "query_remote_branch_head (te_git steady_trust) = (Some (replicate 40 (CHR ''a'')), None)"
  by (simp add: query_remote_branch_head_def steady_line_facts)

lemma steady_committed: "compute_payload_bytes_and_hash steady_trust raw = (raw, replicate 64 (CHR ''d''), [])"
  by (simp add: compute_payload_bytes_and_hash_def steady_trust_def)

lemma steady_origin: "\<exists>m. check_origin steady_trust steady_envelope m0 = (None, m)"
  by (simp add: check_origin_def Let_def steady_envelope_def APPROVED_SOURCE_REPOSITORY_def APPROVED_SOURCE_BRANCH_def reachable_from_def steady_head)

lemma steady_authentic: "\<exists>meta. authenticate one_signer steady_trust name steady_payload steady_envelope
    = (AUTHENTIC, ''AUTHENTIC: Directive source authenticated and validated successfully'', False, meta)"
proof -
  obtain m where o: "check_origin steady_trust steady_envelope (first_metadata steady_payload steady_envelope) = (None, m)" using steady_origin by blast
  have "\<exists>m2. check_committed steady_trust steady_payload steady_envelope name m1 = (None, m2)" for m1
    by (simp add: check_committed_def Let_def steady_committed steady_envelope_def)
  then obtain m2 where k: "check_committed steady_trust steady_payload steady_envelope name (signature_metadata (True, True, ''SHA256:k'', True) m) = (None, m2)"
    by blast
  have a: "check_action one_signer steady_trust steady_payload = (AUTHENTIC, ''AUTHENTIC: Directive source authenticated and validated successfully'', False)"
    by (simp add: check_action_def steady_payload_def one_signer_def parse_iso_def PROHIBITED_MUTATING_ACTIONS_def
        ALLOWED_ACTION_CLASSES_def ACTIONS_REQUIRING_HUMAN_APPROVAL_def upper_def upper_char_def is_lower_def Let_def)
  show ?thesis
    by (simp add: authenticate_def o steady_signature Let_def check_signature_def one_signer_def [symmetric] k a)
qed

theorem revalidated_same_witness: "\<exists>h who head. committed steady_trust steady_payload steady_envelope None h
    \<and> signed_by one_signer (te_git steady_trust) ''c'' who \<and> remote_head steady_trust head"
proof -
  obtain meta where a: "authenticate one_signer steady_trust None steady_payload steady_envelope
    = (AUTHENTIC, ''AUTHENTIC: Directive source authenticated and validated successfully'', False, meta)" using steady_authentic by blast
  from authenticate_D [OF a] obtain h who where m: "dget meta ''payload_sha256'' = PyStr h" "committed steady_trust steady_payload steady_envelope None h"
    "dget meta ''signer_identity'' = PyStr who" "who \<in> set (tp_signers one_signer)"
    and c: "dget meta ''payload_commit_sha'' = PyStr (env_commit_sha steady_envelope)" by (auto simp: authentic_def signed_by_def)
  have v: "h = replicate 64 (CHR ''d'')" "who = ''SHA256:k''" using m(2,4) by (auto simp: committed_def steady_committed one_signer_def)
  have "reachable_from (te_git steady_trust) (env_commit_sha steady_envelope) (replicate 40 (CHR ''a''))" by (simp add: reachable_from_def)
  with c have "\<exists>rv. revalidate_before_execution (\<lambda>v. []) one_signer steady_trust steady_payload steady_envelope meta None True
      = (True, ''PRE_EXECUTION_REVALIDATED: Directive pre-execution TOCTOU revalidation passed'', rv)"
    using m(1,3) by (simp add: revalidate_before_execution_def steady_head steady_signature revalidate_content_def steady_committed v Let_def
        one_signer_def [symmetric])
  then obtain rv where "revalidate_before_execution (\<lambda>v. []) one_signer steady_trust steady_payload steady_envelope meta None True
      = (True, ''PRE_EXECUTION_REVALIDATED: Directive pre-execution TOCTOU revalidation passed'', rv)" by blast
  from revalidated_same [OF a this] show ?thesis by (auto simp: one_signer_def steady_envelope_def)
qed

end
