(* ===== verification/WatcherClaims.thy ===== *)
theory WatcherClaims
  imports Watcher AuthenticatorClaims
begin

text \<open>
  What a poll of the inbox guarantees: whatever is accepted was authentic and is queued, every file that was read gets one answer and
  leaves the inbox, a directive is decided once; and what one unreadable file does to the rest.
\<close>

subsection \<open>Single operations\<close>

lemma channel_simps [simp]:
  "ch_inbox (note_status f c) = ch_inbox c" "ch_ledger (note_status f c) = ch_ledger c" "ch_queue (note_status f c) = ch_queue c"
  "ch_accepted (note_status f c) = ch_accepted c" "ch_rejected (note_status f c) = ch_rejected c" "ch_waiting (note_status f c) = ch_waiting c"
  "ch_acks (note_status f c) = ch_acks c"
  "ch_inbox (record_decision E name p env dc why c) = ch_inbox c" "ch_queue (record_decision E name p env dc why c) = ch_queue c"
  "ch_accepted (record_decision E name p env dc why c) = ch_accepted c" "ch_rejected (record_decision E name p env dc why c) = ch_rejected c"
  "ch_waiting (record_decision E name p env dc why c) = ch_waiting c"
  by (simp_all add: note_status_def record_decision_def)

lemma consumed_now: "is_consumed i (ch_ledger (record_decision E name p env dc why c)) \<longleftrightarrow> i = dpl_directive_id p \<or> is_consumed i (ch_ledger c)"
  by (auto simp: record_decision_def record_consumption_def is_consumed_def Let_def)

text \<open>Where a file went, and what the rest of an operation leaves alone.\<close>

fun shelf_of :: "shelf \<Rightarrow> channel \<Rightarrow> folder" where
  "shelf_of Accepted c = ch_accepted c"
| "shelf_of Rejected c = ch_rejected c"
| "shelf_of Waiting c = ch_waiting c"

text \<open>The shelf of a decision.\<close>

definition shelf_for :: "string \<Rightarrow> shelf" where
  "shelf_for decision = (if decision = ''ACCEPTED'' then Accepted else if decision = ''WAITING_HUMAN'' then Waiting else Rejected)"

lemma shelf_for_simps [simp]: "shelf_for ''ACCEPTED'' = Accepted" "shelf_for ''WAITING_HUMAN'' = Waiting" "shelf_for ''REJECTED'' = Rejected"
  by (simp_all add: shelf_for_def)

definition shelved :: "string \<Rightarrow> string \<Rightarrow> shelf \<Rightarrow> channel \<Rightarrow> channel \<Rightarrow> bool" where
  "shelved name raw to c c' \<longleftrightarrow> ch_inbox c' = AList.delete name (ch_inbox c) \<and> map_of (shelf_of to c') name = Some raw
     \<and> (\<forall>s n. n \<noteq> name \<longrightarrow> map_of (shelf_of s c') n = map_of (shelf_of s c) n)"

lemma move_D:
  assumes "move_file E name raw to c = (Inr u, c')"
  shows "shelved name raw to c c' \<and> ch_ledger c' = ch_ledger c \<and> ch_queue c' = ch_queue c \<and> ch_acks c' = ch_acks c"
proof -
  have "map_of (shelf_of s c') n = map_of (shelf_of s c) n" if "n \<noteq> name" for s n
    using assms that by (cases s; cases to) (auto simp: move_file_def Let_def update_conv' split: option.splits)
  with assms show ?thesis by (cases to) (auto simp: move_file_def Let_def shelved_def update_conv' split: option.splits)
qed

lemma move_failed: "move_file E name raw to c = (Inl e, c') \<Longrightarrow> c' = c"
  by (auto simp: move_file_def Let_def split: option.splits)

lemma ack_D:
  assumes "write_ack E name did sha st dc why human queued rb c = (a, c')"
  shows "dak_directive_id a = did \<and> dak_decision a = dc \<and> dak_executed a = False \<and> dak_readback_verified a = rb \<and> ch_inbox c' = ch_inbox c
    \<and> shelf_of s c' = shelf_of s c \<and> ch_ledger c' = ch_ledger c \<and> ch_queue c' = ch_queue c"
  using assms by (cases s) (auto simp: write_ack_def Let_def)

lemma refuse_D:
  assumes "refuse E name raw did sha st why rb c = (Inr a, c')"
  shows "dak_decision a = ''REJECTED'' \<and> dak_executed a = False \<and> shelved name raw Rejected c c' \<and> ch_ledger c' = ch_ledger c \<and> ch_queue c' = ch_queue c"
proof -
  obtain x c1 where a: "write_ack E name did sha (status_value st) ''REJECTED'' why False False rb c = (x, c1)" by fastforce
  with assms have m: "move_file E name raw Rejected c1 = (Inr (), c')" "x = a" by (auto simp: refuse_def act_simps)
  from move_D [OF m(1)] ack_D [OF a] m(2) show ?thesis by (simp add: shelved_def)
qed

lemma refuse_kept: "refuse E name raw did sha st why rb c = (Inl e, c') \<Longrightarrow> ch_ledger c' = ch_ledger c \<and> ch_queue c' = ch_queue c"
proof -
  assume r: "refuse E name raw did sha st why rb c = (Inl e, c')"
  obtain x c1 where a: "write_ack E name did sha (status_value st) ''REJECTED'' why False False rb c = (x, c1)" by fastforce
  with r have "move_file E name raw Rejected c1 = (Inl e, c')" by (auto simp: refuse_def act_simps)
  from move_failed [OF this] ack_D [OF a] show ?thesis by simp
qed

lemma shelved_status [simp]: "shelved name raw to (note_status f c) c' = shelved name raw to c c'"
  "shelved name raw to (record_decision E n p env dc why c) c' = shelved name raw to c c'"
proof -
  have "shelf_of s (note_status f c) = shelf_of s c" "shelf_of s (record_decision E n p env dc why c) = shelf_of s c" for s
    by (cases s; simp)+
  then show "shelved name raw to (note_status f c) c' = shelved name raw to c c'"
    "shelved name raw to (record_decision E n p env dc why c) c' = shelved name raw to c c'" by (simp_all add: shelved_def)
qed

lemma queue_frame:
  assumes "queue_directive E name p env meta c = (r, c')"
  shows "\<exists>q. c' = c\<lparr>ch_queue := q\<rparr>"
  using assms by (auto simp: queue_directive_def split: sum.splits prod.splits) (metis channel.update_convs(7) channel.surjective)+

lemma queued_item:
  assumes "queue_directive E name p env meta c = (Inr (Inr item), c')"
  shows "map_of (eq_ids (ch_queue c')) (PyStr (dpl_directive_id p)) = Some item"
  using assms by (auto simp: queue_directive_def enqueue_payload_def new_item_def Let_def update_conv'
      split: sum.splits prod.splits if_splits option.splits bool.splits)

subsection \<open>One file\<close>

definition admitted :: "watch_env \<Rightarrow> string \<Rightarrow> string \<Rightarrow> DirectivePayload \<Rightarrow> DirectiveEnvelope \<Rightarrow> bool \<Rightarrow> dict \<Rightarrow> bool" where
  "admitted E name raw p env human meta \<longleftrightarrow> (\<exists>m why. we_parse E raw = Inr (PyDict m) \<and> fst (schema_validate (PyDict m)) \<and> read_payload (we_rep E) m = Inr p
     \<and> read_envelope (we_rep E) m = Inr env \<and> we_auth E name p env = (AUTHENTIC, why, human, meta))"

text \<open>The answer to a file: a refusal, or the acceptance or parking of an admitted directive not decided before.\<close>

definition answered :: "watch_env \<Rightarrow> string \<Rightarrow> string \<Rightarrow> channel \<Rightarrow> DirectiveAck \<Rightarrow> channel \<Rightarrow> bool" where
  "answered E name raw c a c' \<longleftrightarrow> dak_executed a = False \<and> shelved name raw (shelf_for (dak_decision a)) c c' \<and>
     (dak_decision a = ''REJECTED'' \<or> (\<exists>p env human meta. admitted E name raw p env human meta \<and> \<not> is_consumed (dpl_directive_id p) (ch_ledger c)
        \<and> is_consumed (dpl_directive_id p) (ch_ledger c') \<and> dak_directive_id a = PyStr (dpl_directive_id p)
        \<and> (if human then dak_decision a = ''WAITING_HUMAN'' else dak_decision a = ''ACCEPTED''
             \<and> (\<exists>i. map_of (eq_ids (ch_queue c')) (PyStr (dpl_directive_id p)) = Some i \<and> dak_readback_verified a = qi_readback_verified i))))"

lemma park_D:
  assumes "park E name raw p env st why meta c = (Inr a, c')"
  shows "dak_executed a = False \<and> shelved name raw Waiting c c' \<and> is_consumed (dpl_directive_id p) (ch_ledger c')
    \<and> dak_directive_id a = PyStr (dpl_directive_id p) \<and> dak_decision a = ''WAITING_HUMAN''"
proof -
  let ?c1 = "note_status (\<lambda>s. s\<lparr>dc_waiting := length (ch_waiting c) + 1\<rparr>) c"
  obtain r c2 where q: "queue_directive E name p env meta ?c1 = (r, c2)" by fastforce
  let ?c3 = "record_decision E name p env ''WAITING_HUMAN'' why c2"
  obtain x c4 where k: "write_ack E name (PyStr (dpl_directive_id p)) (PyStr (env_commit_sha env)) (status_value st) ''WAITING_HUMAN'' why True True True ?c3
    = (x, c4)" by fastforce
  from assms q k have m: "move_file E name raw Waiting c4 = (Inr (), c')" "x = a" by (auto simp: park_def act_simps)
  obtain q' where c2: "c2 = ?c1\<lparr>ch_queue := q'\<rparr>" using queue_frame [OF q] by blast
  have "shelved name raw Waiting ?c3 c'" using move_D [OF m(1)] ack_D [OF k] by (simp add: shelved_def)
  then have "shelved name raw Waiting c2 c'" by simp
  moreover have "shelf_of s c2 = shelf_of s c" for s unfolding c2 by (cases s) simp_all
  ultimately have "shelved name raw Waiting c c'" by (simp add: shelved_def c2)
  with move_D [OF m(1)] ack_D [OF k] m(2) show ?thesis by (simp add: consumed_now)
qed

lemma accept_D:
  assumes "accept E name raw p env st why meta c = (Inr a, c')"
  shows "dak_executed a = False \<and> shelved name raw (shelf_for (dak_decision a)) c c' \<and> (dak_decision a = ''REJECTED'' \<or> is_consumed (dpl_directive_id p) (ch_ledger c')
    \<and> dak_directive_id a = PyStr (dpl_directive_id p) \<and> dak_decision a = ''ACCEPTED''
    \<and> (\<exists>i. map_of (eq_ids (ch_queue c')) (PyStr (dpl_directive_id p)) = Some i \<and> dak_readback_verified a = qi_readback_verified i))"
proof -
  from assms obtain r c1 where q: "queue_directive E name p env meta c = (Inr r, c1)"
    by (auto simp: accept_def act_simps)
  obtain q' where c1: "c1 = c\<lparr>ch_queue := q'\<rparr>" using queue_frame [OF q] by blast
  have same: "shelved name raw s c1 c' = shelved name raw s c c'" for s
  proof -
    have "shelf_of t c1 = shelf_of t c" for t unfolding c1 by (cases t) simp_all
    then show ?thesis by (simp add: shelved_def c1)
  qed
  show ?thesis
  proof (cases r)
    case (Inl e)
    with assms q have "refuse E name raw (PyStr (dpl_directive_id p)) (PyStr (env_commit_sha env)) QUEUE_PERSISTENCE_FAILURE (queue_error_text e) False
        (note_status (\<lambda>s. s\<lparr>dc_rejected := dc_rejected s + 1, dc_last_error := Some (queue_error_text e)\<rparr>) c1) = (Inr a, c')"
      by (auto simp: accept_def act_simps)
    from refuse_D [OF this] same show ?thesis by auto
  next
    case (Inr item)
    let ?c2 = "note_status (\<lambda>s. s\<lparr>dc_accepted := length (ch_accepted c1) + 1, dc_queued := length (get_items (ch_queue c1))\<rparr>) c1"
    let ?c3 = "record_decision E name p env ''ACCEPTED'' why ?c2"
    obtain x c4 where k: "write_ack E name (PyStr (dpl_directive_id p)) (PyStr (env_commit_sha env)) (status_value st) ''ACCEPTED'' why False True
        (qi_readback_verified item) ?c3 = (x, c4)" by fastforce
    from assms q k Inr have m: "move_file E name raw Accepted c4 = (Inr (), c')" "x = a" by (auto simp: accept_def act_simps Let_def)
    have "shelved name raw Accepted ?c3 c'" using move_D [OF m(1)] ack_D [OF k] by (simp add: shelved_def)
    then have "shelved name raw Accepted c c'" using same by simp
    with move_D [OF m(1)] ack_D [OF k] m(2) queued_item [OF q [unfolded Inr]] show ?thesis by (auto simp: consumed_now)
  qed
qed

lemma replay_refuses:
  obtains sta w f where "refuse_replay E name raw p env c
    = refuse E name raw (PyStr (dpl_directive_id p)) (PyStr (env_commit_sha env)) sta w True (note_status f c)"
proof (cases "case get_consumed_record (dpl_directive_id p) (ch_ledger c) of None \<Rightarrow> False | Some r \<Rightarrow> cr_source_commit_sha r \<noteq> PyStr (env_commit_sha env)")
  case True
  show ?thesis by (rule that) (simp only: refuse_replay_def Let_def True if_True)
next
  case False
  show ?thesis by (rule that) (simp only: refuse_replay_def Let_def False if_False)
qed

lemma decide_D:
  assumes "decide E name raw p env c = (Inr a, c')" and "we_parse E raw = Inr (PyDict m)" and "fst (schema_validate (PyDict m))"
    and "read_payload (we_rep E) m = Inr p" and "read_envelope (we_rep E) m = Inr env"
  shows "answered E name raw c a c'"
proof -
  let ?c = "note_status (\<lambda>s. s\<lparr>dc_last_id := PyStr (dpl_directive_id p)\<rparr>) c"
  obtain st why human meta where au: "we_auth E name p env = (st, why, human, meta)" using prod_cases4 by blast
  consider (replay) "is_consumed (dpl_directive_id p) (ch_ledger c)" "refuse_replay E name raw p env ?c = (Inr a, c')"
    | (bad) "refuse_unauthentic E name raw p env st why ?c = (Inr a, c')"
    | (wait) "\<not> is_consumed (dpl_directive_id p) (ch_ledger c)" "st = AUTHENTIC" "human" "park E name raw p env st why meta ?c = (Inr a, c')"
    | (go) "\<not> is_consumed (dpl_directive_id p) (ch_ledger c)" "st = AUTHENTIC" "\<not> human" "accept E name raw p env st why meta ?c = (Inr a, c')"
    using assms(1) au by (auto simp: decide_def act_simps split: if_splits)
  then show ?thesis
  proof cases
    case replay
    obtain sta w f where "refuse_replay E name raw p env ?c = refuse E name raw (PyStr (dpl_directive_id p)) (PyStr (env_commit_sha env)) sta w True
        (note_status f ?c)" by (rule replay_refuses)
    with replay(2) have "refuse E name raw (PyStr (dpl_directive_id p)) (PyStr (env_commit_sha env)) sta w True (note_status f ?c) = (Inr a, c')" by simp
    from refuse_D [OF this] show ?thesis by (auto simp: answered_def)
  next
    case bad
    from refuse_D [OF bad [unfolded refuse_unauthentic_def Let_def]] show ?thesis by (auto simp: answered_def)
  next
    case wait
    from park_D [OF wait(4)] wait(1-3) assms(2-5) au show ?thesis by (auto simp: answered_def admitted_def)
  next
    case go
    from accept_D [OF go(4)] go(1-3) assms(2-5) au show ?thesis by (auto simp: answered_def admitted_def)
  qed
qed

lemma process_D:
  assumes "process_file E (name, raw) c = (Inr a, c')"
  shows "answered E name raw c a c'"
proof -
  let ?c = "note_status (\<lambda>s. s\<lparr>dc_last_seen := Some name\<rparr>) c"
  have refused: "answered E name raw c a c'" if "refuse E name raw did sha st why rb (note_status f ?c) = (Inr a, c')" for did sha st why rb f
    using refuse_D [OF that] by (auto simp: answered_def)
  show ?thesis
  proof (cases "we_parse E raw")
    case (Inl e)
    with assms show ?thesis by (auto simp: process_file_def act_simps intro: refused)
  next
    case (Inr v)
    obtain ok why where sv: "schema_validate v = (ok, why)" by fastforce
    show ?thesis
    proof (cases ok)
      case False
      have "\<exists>did sha. refuse E name raw did sha SCHEMA_INVALID why True (note_status (schema_refusal why) ?c) = (Inr a, c')"
        using assms Inr sv False by (cases v) (auto simp: process_file_def act_simps)
      with refused show ?thesis by blast
    next
      case True
      with sv obtain m where m: "v = PyDict m" by (cases v) (auto simp: schema_validate_def)
      with assms Inr sv True obtain p env where r: "read_payload (we_rep E) m = Inr p" "read_envelope (we_rep E) m = Inr env"
        and d: "decide E name raw p env ?c = (Inr a, c')"
        by (auto simp: process_file_def act_simps eq_commute [of "Inr _" "read_payload _ _"] eq_commute [of "Inr _" "read_envelope _ _"])
      have "answered E name raw ?c a c'" by (rule decide_D [OF d _ _ r]) (use Inr m sv True in simp_all)
      then show ?thesis by (simp add: answered_def)
    qed
  qed
qed

text \<open>What every operation keeps: decided identifiers and queued items.\<close>

definition remembers :: "string \<Rightarrow> channel \<Rightarrow> bool" where
  "remembers i c \<longleftrightarrow> is_consumed i (ch_ledger c)"

definition holds_item :: "pyval \<Rightarrow> QueuedDirectiveItem \<Rightarrow> channel \<Rightarrow> bool" where
  "holds_item d i c \<longleftrightarrow> map_of (eq_ids (ch_queue c)) d = Some i"

locale channel_property =
  fixes P :: "channel \<Rightarrow> bool" and n :: string
  assumes noted: "P c \<Longrightarrow> P (note_status f c)"
    and recorded: "P c \<Longrightarrow> P (record_decision E n p env dc why c)"
    and enqueued: "queue_directive E n p env meta c = (r, c') \<Longrightarrow> P c \<Longrightarrow> P c'"
    and acked: "write_ack E n did sha st dc why human queued rb c = (a, c') \<Longrightarrow> P c \<Longrightarrow> P c'"
    and moved: "move_file E n raw to c = (r', c') \<Longrightarrow> P c \<Longrightarrow> P c'"
begin

lemma ended: "P c \<Longrightarrow> P (snd ((case write_ack E n did sha st dc why human queued rb c of (a, c1) \<Rightarrow> seq (move_file E n raw to) (\<lambda>_. ret a) c1)))"
proof -
  assume "P c"
  obtain a c1 where a: "write_ack E n did sha st dc why human queued rb c = (a, c1)" by fastforce
  obtain r c2 where m: "move_file E n raw to c1 = (r, c2)" by fastforce
  have "P c2" by (rule moved [OF m acked [OF a \<open>P c\<close>]])
  with a m show ?thesis by (cases r) (simp_all add: seq_def ret_def)
qed

lemma refused: "P c \<Longrightarrow> P (snd (refuse E n raw did sha st why rb c))"
  unfolding refuse_def by (rule ended)

lemma parked: "keeps P (park E n raw p env st why meta)"
  unfolding keeps_def park_def Let_def by (intro allI impI ended recorded enqueued [OF surjective_pairing] noted)

lemma accepted: "keeps P (accept E n raw p env st why meta)"
proof -
  have "keeps P (queue_directive E n p env meta)" using enqueued by (simp add: keeps_def) (metis surjective_pairing)
  then show ?thesis unfolding accept_def
    by (rule keeps_seq) (auto simp: keeps_def Let_def split: sum.split intro!: refused ended recorded noted)
qed

lemma decided: "keeps P (decide E n raw p env)"
proof -
  have "keeps P (refuse_replay E n raw p env)" by (auto simp: keeps_def refuse_replay_def Let_def intro!: refused noted)
  moreover have "keeps P (refuse_unauthentic E n raw p env st why)" for st why
    by (auto simp: keeps_def refuse_unauthentic_def Let_def intro!: refused recorded noted)
  ultimately show ?thesis unfolding decide_def
    by (intro keeps_seq keeps_basic keeps_if keeps_modify noted) (auto split: prod.split intro: parked accepted)
qed

lemma processed:
  assumes "fst f = n"
  shows "keeps P (process_file E f)"
proof -
  have ref: "keeps P (\<lambda>c. refuse E n raw did sha st why rb (note_status g c))" for raw did sha st why rb g
    by (simp add: keeps_def refused noted)
  then have sch: "keeps P (\<lambda>c. (case v of PyDict m \<Rightarrow> refuse E n raw (d m) (s m) | _ \<Rightarrow> refuse E n raw d0 s0) st why rb (note_status g c))"
    for raw v d s d0 s0 st why rb g by (cases v) simp_all
  have good: "keeps P (case v of PyDict m \<Rightarrow> seq (lift_res (read_payload (we_rep E) m)) (\<lambda>p. seq (lift_res (read_envelope (we_rep E) m)) (\<lambda>env.
      decide E n raw p env)) | _ \<Rightarrow> fail (PyError ''AttributeError''))" for v raw
    by (cases v) (auto intro: decided)
  obtain raw where f: "f = (n, raw)" using assms by (cases f) simp
  show ?thesis
  proof (cases "we_parse E raw")
    case (Inl e)
    then show ?thesis unfolding process_file_def f by (auto intro!: keeps_seq keeps_modify noted ref)
  next
    case (Inr v)
    obtain ok why where sv: "schema_validate v = (ok, why)" by fastforce
    show ?thesis unfolding process_file_def f prod.case
      by (rule keeps_seq, rule keeps_modify, erule noted) (use Inr sv sch good in \<open>cases ok; simp\<close>)
  qed
qed

end

lemma enqueue_keeps:
  assumes "enqueue_payload H rep we st t p env meta acc path q = (r, q')" and "map_of (eq_ids q) d = Some i"
  shows "map_of (eq_ids q') d = Some i"
  using assms by (auto simp: enqueue_payload_def new_item_def Let_def update_conv' split: sum.splits if_splits option.splits bool.splits)

lemma moved_sel: "move_file E n raw to c = (r, c') \<Longrightarrow> ch_ledger c' = ch_ledger c \<and> ch_queue c' = ch_queue c"
  using move_D [of E n raw to c _ c'] move_failed [of E n raw to c _ c'] by (cases r) auto

interpretation remembered: channel_property "remembers i" n for i n
proof
  fix E p env meta c r c' assume "queue_directive E n p env meta c = (r, c')" "remembers i c"
  with queue_frame show "remembers i c'" by (fastforce simp: remembers_def)
qed (auto simp: remembers_def consumed_now dest: ack_D moved_sel)

interpretation held_item: channel_property "holds_item d i" n for d i n
proof
  fix E p env meta c r c' assume "queue_directive E n p env meta c = (r, c')" "holds_item d i c"
  then show "holds_item d i c'" by (auto simp: holds_item_def queue_directive_def split: sum.splits prod.splits dest: enqueue_keeps)
qed (auto simp: holds_item_def dest: ack_D moved_sel)

subsection \<open>A poll\<close>

definition decided_by :: "watch_env \<Rightarrow> folder \<Rightarrow> channel \<Rightarrow> DirectiveAck \<Rightarrow> channel \<Rightarrow> bool" where
  "decided_by E fs c a c' \<longleftrightarrow> (\<exists>name raw p env human meta. (name, raw) \<in> set fs \<and> admitted E name raw p env human meta
     \<and> \<not> is_consumed (dpl_directive_id p) (ch_ledger c) \<and> is_consumed (dpl_directive_id p) (ch_ledger c') \<and> dak_directive_id a = PyStr (dpl_directive_id p)
     \<and> (if human then dak_decision a = ''WAITING_HUMAN'' else dak_decision a = ''ACCEPTED''
          \<and> (\<exists>i. holds_item (PyStr (dpl_directive_id p)) i c' \<and> dak_readback_verified a = qi_readback_verified i)))"

lemma decided_byI:
  assumes "(name, raw) \<in> set fs" and "admitted E name raw p env human meta" and "\<not> is_consumed (dpl_directive_id p) (ch_ledger c)"
    and "is_consumed (dpl_directive_id p) (ch_ledger c')" and "dak_directive_id a = PyStr (dpl_directive_id p)"
    and "if human then dak_decision a = ''WAITING_HUMAN'' else dak_decision a = ''ACCEPTED''
          \<and> (\<exists>i. holds_item (PyStr (dpl_directive_id p)) i c' \<and> dak_readback_verified a = qi_readback_verified i)"
  shows "decided_by E fs c a c'"
  using assms unfolding decided_by_def by blast

abbreviation decisions :: "DirectiveAck list \<Rightarrow> DirectiveAck list" where
  "decisions acks \<equiv> filter (\<lambda>a. dak_decision a \<noteq> ''REJECTED'') acks"

lemma polled_files:
  assumes "each (process_file E) fs c = (Inr acks, c')" and "distinct (map fst fs)"
  shows "length acks = length fs \<and> (\<forall>a \<in> set acks. dak_executed a = False)
    \<and> ch_inbox c' = filter (\<lambda>f. fst f \<notin> fst ` set fs) (ch_inbox c)
    \<and> list_all2 (\<lambda>f a. map_of (shelf_of (shelf_for (dak_decision a)) c') (fst f) = Some (snd f)) fs acks
    \<and> (\<forall>n s. n \<notin> fst ` set fs \<longrightarrow> map_of (shelf_of s c') n = map_of (shelf_of s c) n)"
  using assms
proof (induction fs arbitrary: c acks)
  case Nil
  then show ?case by (simp add: ret_def)
next
  case (Cons f fs)
  obtain name raw where f: "f = (name, raw)" by fastforce
  from Cons.prems(1) obtain a c1 as where p: "process_file E (name, raw) c = (Inr a, c1)" and e: "each (process_file E) fs c1 = (Inr as, c')"
    and acks: "acks = a # as" by (auto simp: f act_simps)
  from process_D [OF p] have a: "dak_executed a = False" "shelved name raw (shelf_for (dak_decision a)) c c1" by (auto simp: answered_def)
  from Cons.prems(2) f have d: "name \<notin> fst ` set fs" "distinct (map fst fs)" by auto
  note IH = Cons.IH [OF e d(2)]
  have in1: "ch_inbox c1 = filter (\<lambda>g. fst g \<noteq> name) (ch_inbox c)"
    using a(2) by (simp add: shelved_def AList.delete_eq case_prod_unfold eq_commute)
  have "ch_inbox c' = filter (\<lambda>g. fst g \<notin> fst ` set (f # fs)) (ch_inbox c)"
    using IH in1 f by (simp add: conj_commute)
  moreover have "map_of (shelf_of (shelf_for (dak_decision a)) c') name = Some raw" using IH d(1) a(2) by (simp add: shelved_def)
  moreover have "map_of (shelf_of t c') n = map_of (shelf_of t c) n" if "n \<notin> fst ` set (f # fs)" for n t
    using IH a(2) that f by (auto simp: shelved_def)
  ultimately show ?case using IH a(1) acks f by auto
qed

lemma polled_decisions:
  assumes "each (process_file E) fs c = (Inr acks, c')"
  shows "(\<forall>a \<in> set (decisions acks). decided_by E fs c a c') \<and> distinct (map dak_directive_id (decisions acks))"
  using assms
proof (induction fs arbitrary: c acks)
  case Nil
  then show ?case by (simp add: ret_def)
next
  case (Cons f fs)
  obtain name raw where f: "f = (name, raw)" by fastforce
  from Cons.prems obtain a c1 as where p: "process_file E (name, raw) c = (Inr a, c1)" and e: "each (process_file E) fs c1 = (Inr as, c')"
    and acks: "acks = a # as" by (auto simp: f act_simps)
  note IH = Cons.IH [OF e]
  have earlier: "is_consumed i (ch_ledger c) \<Longrightarrow> is_consumed i (ch_ledger c1)" for i
    using keepsD [OF remembered.processed [OF refl] p] by (simp add: remembers_def)
  have onward: "is_consumed i (ch_ledger c1) \<Longrightarrow> is_consumed i (ch_ledger c')" for i
    using keepsD [OF keeps_each [OF remembered.processed [OF refl]] e] by (simp add: remembers_def)
  have kept: "holds_item d i c1 \<Longrightarrow> holds_item d i c'" for d i
    using keepsD [OF keeps_each [OF held_item.processed [OF refl]] e] by simp
  have later: "decided_by E (f # fs) c b c'" if "decided_by E fs c1 b c'" for b
    using that earlier unfolding decided_by_def by (metis list.set_intros(2))
  show ?case
  proof (cases "dak_decision a = ''REJECTED''")
    case True
    with IH later acks show ?thesis by simp
  next
    case False
    with process_D [OF p] obtain q env human meta where q: "admitted E name raw q env human meta" "\<not> is_consumed (dpl_directive_id q) (ch_ledger c)"
      "is_consumed (dpl_directive_id q) (ch_ledger c1)" "dak_directive_id a = PyStr (dpl_directive_id q)"
      and k: "if human then dak_decision a = ''WAITING_HUMAN'' else dak_decision a = ''ACCEPTED''
             \<and> (\<exists>i. holds_item (PyStr (dpl_directive_id q)) i c1 \<and> dak_readback_verified a = qi_readback_verified i)"
      unfolding answered_def holds_item_def by blast
    have "decided_by E (f # fs) c a c'"
      by (rule decided_byI [of name raw _ _ q env human meta]) (use q k onward kept f in \<open>auto split: if_splits\<close>)
    moreover have "dak_directive_id a \<notin> dak_directive_id ` set (decisions as)"
      using IH q(3,4) by (fastforce simp: decided_by_def)
    ultimately show ?thesis using IH later acks False by auto
  qed
qed

lemma poll_D:
  assumes "poll_inbox E True c = (Inr acks, c')"
  obtains c1 c2 where "each (process_file E) (sort_key fst (ch_inbox c)) c1 = (Inr acks, c2)" and "ch_inbox c1 = ch_inbox c" and "ch_ledger c1 = ch_ledger c"
    and "ch_queue c1 = ch_queue c" and "\<And>s. shelf_of s c1 = shelf_of s c" and "ch_inbox c' = ch_inbox c2" and "ch_ledger c' = ch_ledger c2"
    and "ch_queue c' = ch_queue c2" and "\<And>s. shelf_of s c' = shelf_of s c2"
proof -
  let ?c1 = "note_status (\<lambda>s. s\<lparr>dc_last_poll := Some (we_poll_time E)\<rparr>) c"
  have shelf: "shelf_of s (note_status f x) = shelf_of s x" for s f x by (cases s) simp_all
  from assms obtain c2 where "each (process_file E) (sort_key fst (ch_inbox c)) ?c1 = (Inr acks, c2)"
    and "c' = note_status (\<lambda>s. s\<lparr>dc_last_poll := Some (we_close_time E)\<rparr>) c2"
    by (auto simp: poll_inbox_def update_channel_status_def act_simps)
  with that [of ?c1 c2] shelf show thesis by simp
qed

text \<open>C7. From a decision to a signed commit: when a poll accepts or parks, with the authenticator of the repository, a file
  of the inbox held a directive of the schema, its identifier had not been decided before, its commit is an ancestor of
  the remote head, verified by \<open>git\<close> under a trusted signer, with a file of that name in it; the directive is in time and of an
  allowed class. It is parked exactly when it needs a human; otherwise it is in the durable queue, with the read-back that the
  acknowledgement reports. What is signed is the commit and the file in it: see \<open>content_not_bound\<close> for the file that was read.\<close>

theorem accepted_is_signed:
  assumes "poll_inbox E True c = (Inr acks, c')" and "\<forall>n. we_auth E n = authenticate pol (T n) (Some n)"
    and "a \<in> set acks" and "dak_decision a \<noteq> ''REJECTED''"
  shows "\<exists>name raw p env human meta. (name, raw) \<in> set (ch_inbox c) \<and> admitted E name raw p env human meta
    \<and> authentic pol (T name) (Some name) p env human meta \<and> dak_directive_id a = PyStr (dpl_directive_id p)
    \<and> \<not> is_consumed (dpl_directive_id p) (ch_ledger c)
    \<and> (if human then dak_decision a = ''WAITING_HUMAN'' else dak_decision a = ''ACCEPTED''
         \<and> (\<exists>i. map_of (eq_ids (ch_queue c')) (PyStr (dpl_directive_id p)) = Some i \<and> dak_readback_verified a = qi_readback_verified i))"
proof -
  from poll_D [OF assms(1)] obtain c1 c2 where e: "each (process_file E) (sort_key fst (ch_inbox c)) c1 = (Inr acks, c2)"
    and same: "ch_ledger c1 = ch_ledger c" "ch_queue c' = ch_queue c2" by metis
  from polled_decisions [OF e] assms(3,4) have "decided_by E (sort_key fst (ch_inbox c)) c1 a c2" by simp
  then obtain name raw p env human meta where d: "(name, raw) \<in> set (ch_inbox c)" "admitted E name raw p env human meta"
    "\<not> is_consumed (dpl_directive_id p) (ch_ledger c1)" "dak_directive_id a = PyStr (dpl_directive_id p)"
    and k: "if human then dak_decision a = ''WAITING_HUMAN'' else dak_decision a = ''ACCEPTED''
      \<and> (\<exists>i. holds_item (PyStr (dpl_directive_id p)) i c2 \<and> dak_readback_verified a = qi_readback_verified i)"
    unfolding decided_by_def set_sort by blast
  from d(2) assms(2) have "authentic pol (T name) (Some name) p env human meta" by (auto simp: admitted_def dest: authenticate_D)
  with d k same show ?thesis unfolding holds_item_def by metis
qed

text \<open>C24. A poll that returns has answered every file once and left none: the acknowledgements are those of the files in the order of their
  names, each file is with its content in the directory of its decision (\<open>accepted\<close>, \<open>waiting\<close> or \<open>rejected\<close>), every other file is
  where it was, and no acknowledgement says that anything was executed.\<close>

theorem poll_drains_inbox:
  assumes "poll_inbox E True c = (Inr acks, c')" and "distinct (map fst (ch_inbox c))"
  shows "ch_inbox c' = [] \<and> (\<forall>a \<in> set acks. \<not> dak_executed a)
    \<and> list_all2 (\<lambda>f a. map_of (shelf_of (shelf_for (dak_decision a)) c') (fst f) = Some (snd f)) (sort_key fst (ch_inbox c)) acks
    \<and> (\<forall>n s. n \<notin> fst ` set (ch_inbox c) \<longrightarrow> map_of (shelf_of s c') n = map_of (shelf_of s c) n)"
proof -
  from poll_D [OF assms(1)] obtain c1 c2 where e: "each (process_file E) (sort_key fst (ch_inbox c)) c1 = (Inr acks, c2)"
    and same: "ch_inbox c1 = ch_inbox c" "\<And>s. shelf_of s c1 = shelf_of s c" "ch_inbox c' = ch_inbox c2" "\<And>s. shelf_of s c' = shelf_of s c2" by metis
  have d: "distinct (map fst (sort_key fst (ch_inbox c)))" using assms(2) by (simp add: distinct_map)
  from polled_files [OF e d] same show ?thesis by (auto simp: filter_empty_conv)
qed

text \<open>Any number of polls: between two polls the inbox may be filled with anything.\<close>

inductive polls :: "channel \<Rightarrow> DirectiveAck list \<Rightarrow> channel \<Rightarrow> bool" where
  no_polls: "polls c [] c"
| poll_returned: "polls c as c1 \<Longrightarrow> poll_inbox E True (c1\<lparr>ch_inbox := files\<rparr>) = (Inr bs, c2) \<Longrightarrow> polls c (as @ bs) c2"
| poll_raised: "polls c as c1 \<Longrightarrow> poll_inbox E True (c1\<lparr>ch_inbox := files\<rparr>) = (Inl e, c2) \<Longrightarrow> polls c as c2"

lemma poll_remembers: "keeps (remembers i) (poll_inbox E present)"
  unfolding poll_inbox_def update_channel_status_def
  by (intro keeps_seq keeps_basic keeps_if keeps_modify keeps_each remembered.processed [OF refl] remembered.noted)

lemma polls_decided:
  assumes "polls c acks c'"
  shows "(\<forall>a \<in> set (decisions acks). \<exists>i. dak_directive_id a = PyStr i \<and> remembers i c') \<and> distinct (map dak_directive_id (decisions acks))"
  using assms
proof (induction rule: polls.induct)
  case (poll_returned c as c1 E files bs c2)
  let ?c1 = "c1\<lparr>ch_inbox := files\<rparr>"
  from poll_D [OF poll_returned(2)] obtain c3 c4 where e: "each (process_file E) (sort_key fst (ch_inbox ?c1)) c3 = (Inr bs, c4)"
    and same: "ch_ledger c3 = ch_ledger ?c1" "ch_ledger c2 = ch_ledger c4" by metis
  have later: "remembers i c1 \<Longrightarrow> remembers i c2" for i
    using keepsD [OF poll_remembers poll_returned(2), of i] by (simp add: remembers_def)
  have new: "\<exists>i. dak_directive_id b = PyStr i \<and> remembers i c2 \<and> \<not> remembers i c1" if "b \<in> set (decisions bs)" for b
    using polled_decisions [OF e] that same by (auto simp: decided_by_def remembers_def)
  then have "dak_directive_id ` set (decisions as) \<inter> dak_directive_id ` set (decisions bs) = {}"
    using poll_returned.IH by fastforce
  with polled_decisions [OF e] poll_returned.IH new later show ?case by (auto simp del: set_filter) blast+
next
  case (poll_raised c as c1 E files e c2)
  have "remembers i c1 \<Longrightarrow> remembers i c2" for i
    using keepsD [OF poll_remembers poll_raised(2), of i] by (simp add: remembers_def)
  with poll_raised.IH show ?case by blast
qed simp

text \<open>C8. A directive is decided once: over any number of polls, with any authenticators, clocks and failures, an identifier that was
  accepted or parked is never accepted or parked again, within one poll or later.\<close>

theorem directive_decided_once:
  assumes "polls c acks c'"
  shows "distinct (map dak_directive_id (decisions acks))"
  using polls_decided [OF assms] by blast

subsection \<open>What goes wrong\<close>

text \<open>A file that fits the schema, and whose \<open>payload_object\<close> or \<open>envelope\<close> is no dictionary (or one that \<open>from_dict\<close> raises on).\<close>

definition unreadable :: "watch_env \<Rightarrow> string \<Rightarrow> bool" where
  "unreadable E raw \<longleftrightarrow> (\<exists>m. we_parse E raw = Inr (PyDict m) \<and> fst (schema_validate (PyDict m))
     \<and> (\<not> is_inr (read_payload (we_rep E) m) \<or> \<not> is_inr (read_envelope (we_rep E) m)))"

lemma no_dictionary:
  assumes "we_parse E raw = Inr (PyDict m)" and "fst (schema_validate (PyDict m))"
    and "(\<forall>d. dget_or m ''payload_object'' (PyDict m) \<noteq> PyDict d) \<or> (\<forall>d. dget_or m ''envelope'' (PyDict m) \<noteq> PyDict d)"
  shows "unreadable E raw"
  unfolding unreadable_def using assms
  by (intro exI [of _ m] conjI) (auto simp: read_payload_def read_envelope_def split: pyval.split)

lemma unreadable_raises:
  assumes "unreadable E raw"
  obtains e where "process_file E (name, raw) c = (Inl e, note_status (\<lambda>s. s\<lparr>dc_last_seen := Some name\<rparr>) c)"
proof -
  from assms obtain m where m: "we_parse E raw = Inr (PyDict m)" "fst (schema_validate (PyDict m))"
    and bad: "\<not> is_inr (read_payload (we_rep E) m) \<or> \<not> is_inr (read_envelope (we_rep E) m)" by (auto simp: unreadable_def)
  obtain why where v: "schema_validate (PyDict m) = (True, why)" using m(2) by (cases "schema_validate (PyDict m)") auto
  from bad have "\<exists>e. process_file E (name, raw) c = (Inl e, note_status (\<lambda>s. s\<lparr>dc_last_seen := Some name\<rparr>) c)"
    by (cases "read_payload (we_rep E) m"; cases "read_envelope (we_rep E) m")
      (simp_all add: process_file_def seq_def modify_def lift_res_def m(1) v)
  with that show thesis by blast
qed

text \<open>What the processing of a file leaves of the others: their text in the inbox and on the shelves.\<close>

definition untouched :: "string \<Rightarrow> channel \<Rightarrow> channel \<Rightarrow> bool" where
  "untouched k c c' \<longleftrightarrow> map_of (ch_inbox c') k = map_of (ch_inbox c) k \<and> (\<forall>s. map_of (shelf_of s c') k = map_of (shelf_of s c) k)"

lemma shelf_sel [simp]: "shelf_of s (note_status f c) = shelf_of s c" "shelf_of s (record_decision E n p env dc why c) = shelf_of s c"
  "shelf_of s (c\<lparr>ch_inbox := x\<rparr>) = shelf_of s c"
  by (cases s; simp)+

lemma untouched_frame: "ch_inbox c2 = ch_inbox c1 \<Longrightarrow> (\<And>s. shelf_of s c2 = shelf_of s c1) \<Longrightarrow> untouched k c c2 = untouched k c c1"
  by (simp add: untouched_def)

lemma untouched_trans: "untouched k c c1 \<Longrightarrow> untouched k c1 c2 \<Longrightarrow> untouched k c c2"
  by (simp add: untouched_def)

lemma others_untouched:
  assumes "k \<noteq> n"
  shows "channel_property (untouched k c) n"
proof
  fix E p env meta c1 r c2 assume "queue_directive E n p env meta c1 = (r, c2)" "untouched k c c1"
  then obtain q where q: "c2 = c1\<lparr>ch_queue := q\<rparr>" using queue_frame by blast
  have "shelf_of s c2 = shelf_of s c1" for s unfolding q by (cases s) simp_all
  with q \<open>untouched k c c1\<close> show "untouched k c c2" by (simp add: untouched_def)
next
  fix E did sha st dc why human queued rb c1 a c2
  assume "write_ack E n did sha st dc why human queued rb c1 = (a, c2)" "untouched k c c1"
  from ack_D [OF this(1)] this(2) show "untouched k c c2" by (simp add: untouched_def)
next
  fix E raw to c1 r c2 assume m: "move_file E n raw to c1 = (r, c2)" and u: "untouched k c c1"
  show "untouched k c c2"
  proof (cases r)
    case (Inl e)
    with m u move_failed show ?thesis by blast
  next
    case (Inr x)
    with m move_D have "shelved n raw to c1 c2" by blast
    with u assms show ?thesis by (simp add: untouched_def shelved_def delete_conv')
  qed
qed (simp_all add: untouched_def)

lemma file_untouched:
  assumes "process_file E f c = (r, c')" and "k \<noteq> fst f"
  shows "untouched k c c'"
proof -
  have "keeps (untouched k c) (process_file E f)" by (rule channel_property.processed [OF others_untouched [OF assms(2)] refl])
  from keepsD [OF this assms(1)] show ?thesis by (simp add: untouched_def)
qed

lemma unreadable_stops:
  assumes "unreadable E raw" and "each (process_file E) (pre @ (name, raw) # post) c = (r, c')" and "distinct (map fst (pre @ (name, raw) # post))"
  shows "(\<exists>e. r = Inl e) \<and> (\<forall>k \<in> insert name (fst ` set post). untouched k c c')"
  using assms(2,3)
proof (induction pre arbitrary: c r)
  case Nil
  obtain e where "process_file E (name, raw) c = (Inl e, note_status (\<lambda>s. s\<lparr>dc_last_seen := Some name\<rparr>) c)" by (rule unreadable_raises [OF assms(1)])
  with Nil.prems(1) show ?case by (auto simp: seq_def untouched_def)
next
  case (Cons f pre)
  obtain x c1 where f: "process_file E f c = (x, c1)" by fastforce
  have u: "untouched k c c1" if "k \<in> insert name (fst ` set post)" for k
    by (rule file_untouched [OF f]) (use Cons.prems(2) that in auto)
  show ?case
  proof (cases x)
    case (Inl e)
    with Cons.prems(1) f u show ?thesis by (auto simp: seq_def)
  next
    case (Inr a)
    obtain y where e: "each (process_file E) (pre @ (name, raw) # post) c1 = (y, c')" and r: "\<forall>err. y = Inl err \<longrightarrow> r = Inl err"
      using Cons.prems(1) f Inr by (auto simp: seq_def ret_def split: prod.splits sum.splits)
    have IH: "(\<exists>e. y = Inl e) \<and> (\<forall>k \<in> insert name (fst ` set post). untouched k c1 c')" by (rule Cons.IH [OF e]) (use Cons.prems(2) in simp)
    with r have "\<exists>e. r = Inl e" by blast
    moreover have "untouched k c c'" if "k \<in> insert name (fst ` set post)" for k
      using IH u [OF that] that untouched_trans by blast
    ultimately show ?thesis by blast
  qed
qed

text \<open>Any number of polls of an inbox that others fill, in environments that all parse \<open>raw\<close> to such a file.\<close>

inductive polled_on :: "string \<Rightarrow> channel \<Rightarrow> channel \<Rightarrow> bool" for raw where
  not_polled: "polled_on raw c c"
| polled_again: "polled_on raw c c1 \<Longrightarrow> set (ch_inbox c1) \<subseteq> set files \<Longrightarrow> distinct (map fst files) \<Longrightarrow> unreadable E raw
    \<Longrightarrow> poll_inbox E True (c1\<lparr>ch_inbox := files\<rparr>) = (r, c2) \<Longrightarrow> polled_on raw c c2"

lemma poll_stops:
  assumes "unreadable E raw" and "(name, raw) \<in> set (ch_inbox c)" and "distinct (map fst (ch_inbox c))" and "poll_inbox E True c = (r, c')"
  shows "(\<exists>e. r = Inl e) \<and> (\<forall>k. k = name \<or> name < k \<and> k \<in> fst ` set (ch_inbox c) \<longrightarrow> untouched k c c')"
proof -
  let ?fs = "sort_key fst (ch_inbox c)"
  let ?c = "note_status (\<lambda>s. s\<lparr>dc_last_poll := Some (we_poll_time E)\<rparr>) c"
  from assms(2) have "(name, raw) \<in> set ?fs" by simp
  then obtain pre post where fs: "?fs = pre @ (name, raw) # post" by (meson split_list)
  have "sorted (map fst ?fs)" by simp
  then have le: "\<forall>k \<in> fst ` set pre. k \<le> name" by (auto simp: fs sorted_append)
  have d: "distinct (map fst (pre @ (name, raw) # post))" using assms(3) unfolding fs [symmetric] by (simp add: distinct_map)
  have mem: "fst ` set (ch_inbox c) = fst ` set (pre @ (name, raw) # post)" unfolding fs [symmetric] by simp
  obtain x c2 where e: "each (process_file E) (pre @ (name, raw) # post) ?c = (x, c2)" by fastforce
  note S = unreadable_stops [OF assms(1) e d]
  then obtain err where x: "x = Inl err" by blast
  from assms(4) e x have "r = Inl err" "c' = c2" by (simp_all add: poll_inbox_def seq_def modify_def query_def fs)
  moreover have "untouched k c c2" if "k = name \<or> name < k \<and> k \<in> fst ` set (ch_inbox c)" for k
  proof -
    from that le mem have "k \<in> insert name (fst ` set post)" by auto
    with S have "untouched k ?c c2" by blast
    then show ?thesis by (simp add: untouched_def)
  qed
  ultimately show ?thesis by blast
qed

text \<open>C37. One file stops the channel: a file that fits the schema but whose \<open>payload_object\<close> or \<open>envelope\<close> is no dictionary makes every poll
  raise from then on, whatever arrives meanwhile. It stays in the inbox, and so does every file whose name comes after it, of which the
  shelves hold nothing new.\<close>

theorem poison_file_blocks:
  assumes "(name, raw) \<in> set (ch_inbox c)" and "distinct (map fst (ch_inbox c))" and "polled_on raw c c1"
    and "set (ch_inbox c1) \<subseteq> set files" and "distinct (map fst files)" and "poll_inbox E True (c1\<lparr>ch_inbox := files\<rparr>) = (r, c2)"
    and "we_parse E raw = Inr (PyDict m)" and "fst (schema_validate (PyDict m))"
    and "(\<forall>d. dget_or m ''payload_object'' (PyDict m) \<noteq> PyDict d) \<or> (\<forall>d. dget_or m ''envelope'' (PyDict m) \<noteq> PyDict d)"
  shows "(\<exists>e. r = Inl e) \<and> (name, raw) \<in> set (ch_inbox c2)
    \<and> (\<forall>(k, t) \<in> set files. name < k \<longrightarrow> (k, t) \<in> set (ch_inbox c2) \<and> (\<forall>s. map_of (shelf_of s c2) k = map_of (shelf_of s c1) k))"
proof -
  have step: "(name, raw) \<in> set (ch_inbox y)"
    if "(name, raw) \<in> set (ch_inbox x)" "set (ch_inbox x) \<subseteq> set fs" "distinct (map fst fs)" "unreadable F raw" "poll_inbox F True (x\<lparr>ch_inbox := fs\<rparr>) = (q, y)"
    for x fs F q y
  proof -
    have "untouched name (x\<lparr>ch_inbox := fs\<rparr>) y" using poll_stops [OF that(4) _ _ that(5), of name] that(1-3) by auto
    with that(1-3) have "map_of (ch_inbox y) name = Some raw" by (auto simp: untouched_def)
    then show ?thesis by (rule map_of_SomeD)
  qed
  from assms(3,1) have here: "(name, raw) \<in> set (ch_inbox c1)" by (induction rule: polled_on.induct) (use step in blast)+
  note bad = no_dictionary [OF assms(7-9)]
  note S = poll_stops [OF bad _ _ assms(6), of name]
  have "(k, t) \<in> set (ch_inbox c2) \<and> (\<forall>s. map_of (shelf_of s c2) k = map_of (shelf_of s c1) k)" if "(k, t) \<in> set files" "name < k" for k t
  proof -
    have "untouched k (c1\<lparr>ch_inbox := files\<rparr>) c2" using S here assms(4,5) that by force
    with that(1) assms(5) show ?thesis by (auto simp: untouched_def intro!: map_of_SomeD)
  qed
  with S here assms(4,5) step [OF here assms(4,5) bad assms(6)] show ?thesis by auto
qed

lemma outage_recorded:
  assumes "process_file E (name, raw) c = (Inr a, c1)" and "we_parse E raw = Inr (PyDict m)" and "fst (schema_validate (PyDict m))"
    and "read_payload (we_rep E) m = Inr p" and "read_envelope (we_rep E) m = Inr env"
    and "we_auth E name p env = (REMOTE_BRANCH_UNAVAILABLE, why, False, meta)"
  shows "is_consumed (dpl_directive_id p) (ch_ledger c1)"
proof (cases "is_consumed (dpl_directive_id p) (ch_ledger c)")
  case True
  with keepsD [OF remembered.processed [OF refl] assms(1)] show ?thesis by (simp add: remembers_def)
next
  case False
  obtain w where v: "schema_validate (PyDict m) = (True, w)" using assms(3) by (cases "schema_validate (PyDict m)") auto
  let ?c = "note_status (\<lambda>s. s\<lparr>dc_last_id := PyStr (dpl_directive_id p)\<rparr>) (note_status (\<lambda>s. s\<lparr>dc_last_seen := Some name\<rparr>) c)"
  have "refuse_unauthentic E name raw p env REMOTE_BRANCH_UNAVAILABLE why ?c = (Inr a, c1)"
    using assms(1,2,4-6) v False by (auto simp: process_file_def decide_def seq_def modify_def query_def lift_res_def)
  then show ?thesis unfolding refuse_unauthentic_def Let_def by (auto simp: consumed_now dest!: refuse_D)
qed

text \<open>An outage burns a directive: one that the authenticator could not check, because the remote did not answer, is recorded as
  decided; the same file, submitted again when everything answers, is refused as a replay.\<close>

theorem outage_burns_directive:
  assumes "process_file E (name, raw) c = (Inr a, c1)" and "we_parse E raw = Inr (PyDict m)" and "fst (schema_validate (PyDict m))"
    and "read_payload (we_rep E) m = Inr p" and "read_envelope (we_rep E) m = Inr env"
    and "we_auth E name p env = (REMOTE_BRANCH_UNAVAILABLE, why, False, meta)"
    and "process_file E' (name', raw) c2 = (Inr b, c3)" and "ch_ledger c2 = ch_ledger c1" and "we_parse E' = we_parse E" and "we_rep E' = we_rep E"
  shows "dak_decision b = ''REJECTED'' \<and> dak_validation_status b \<in> {''REPLAY_DETECTED'', ''STATE_CONFLICT''}"
proof -
  obtain w where v: "schema_validate (PyDict m) = (True, w)" using assms(3) by (cases "schema_validate (PyDict m)") auto
  from outage_recorded [OF assms(1-6)] assms(8) have known: "is_consumed (dpl_directive_id p) (ch_ledger c2)" by simp
  let ?c2 = "note_status (\<lambda>s. s\<lparr>dc_last_id := PyStr (dpl_directive_id p)\<rparr>) (note_status (\<lambda>s. s\<lparr>dc_last_seen := Some name'\<rparr>) c2)"
  have run: "refuse_replay E' name' raw p env ?c2 = (Inr b, c3)"
    using assms(2,4,5,7,9,10) v known by (auto simp: process_file_def decide_def seq_def modify_def query_def lift_res_def)
  have "dak_decision b = ''REJECTED'' \<and> dak_validation_status b = status_value st" if "refuse E' name' raw did sha st y rb x = (Inr b, c3)" for did sha st y rb x
    using that by (auto simp: refuse_def act_simps write_ack_def Let_def split: prod.splits)
  with run show ?thesis unfolding refuse_replay_def Let_def by (auto simp: status_value_def split: if_splits)
qed

subsection \<open>A closed channel\<close>

text \<open>One file whose text parses to one directive, under the authenticator of the closed instance; other texts do not parse.\<close>

definition watch_dict :: dict where
  "watch_dict = [(''directive_version'', PyStr ''1''), (''directive_id'', PyStr ''d-1''), (''project'', PyStr ''ORACLE-AI''),
     (''target_project'', PyStr ''ORACLE-AI''), (''target_stage'', PyStr ''s''), (''action_type'', PyStr ''NO_OP''), (''action'', PyStr ''a''),
     (''created_at'', PyStr ''t''), (''expires_at'', PyStr ''t''), (''issued_by'', PyStr ''i''), (''source_repository'', PyStr ''AI-CONTROL-PLANE''),
     (''source_branch'', PyStr ''main''), (''source_commit_sha'', PyStr ''c''), (''requires_human_approval'', PyBool False), (''allowed_scope'', PyList []),
     (''preconditions'', PyDict []), (''success_criteria'', PyDict []), (''failure_policy'', PyStr ''f''), (''rollback_policy'', PyStr ''r''),
     (''payload'', PyDict [])]"

definition watch_env_of :: "(string \<Rightarrow> DirectivePayload \<Rightarrow> DirectiveEnvelope \<Rightarrow> ValidationStatus \<times> string \<times> bool \<times> dict) \<Rightarrow> watch_env" where
  "watch_env_of auth = \<lparr>we_parse = \<lambda>s. if s = ''ok'' then Inr (PyDict watch_dict) else if s = ''poison'' then Inr (PyDict (watch_dict @ [(''payload_object'', PyInt 5)]))
       else Inl ''e'', we_rep = \<lambda>v. [], we_hash = \<lambda>s. ''h'', we_auth = auth, we_poll_time = ''p'', we_close_time = ''q'', we_time = \<lambda>n. ''t'',
     we_head = \<lambda>n. Inl [], we_physical = \<lambda>n. Inr True, we_ledger_write = \<lambda>n. True, we_queue_error = \<lambda>n. None, we_storage = \<lambda>n ls. Inr ls,
     we_ack_write = \<lambda>n. True, we_move = \<lambda>n. None\<rparr>"

definition watch_start :: "folder \<Rightarrow> channel" where
  "watch_start files = \<lparr>ch_inbox = files, ch_accepted = [], ch_rejected = [], ch_waiting = [], ch_acks = [], ch_ledger = load_ledger None,
     ch_queue = \<lparr>eq_items = [], eq_ids = [], eq_corrupted = False, eq_reason = None, eq_file = None\<rparr>, ch_status = fresh_status\<rparr>"

abbreviation steady_auth where "steady_auth \<equiv> \<lambda>n. authenticate one_signer steady_trust (Some n)"

lemma watch_reads: "fst (schema_validate (PyDict watch_dict))" "fst (schema_validate (PyDict (watch_dict @ [(''payload_object'', PyInt 5)])))"
  "read_payload (\<lambda>v. []) watch_dict = Inr steady_payload" "read_envelope (\<lambda>v. []) watch_dict = Inr steady_envelope"
  "dget_or (watch_dict @ [(''payload_object'', PyInt 5)]) ''payload_object'' v = PyInt 5"
  by code_simp+

lemma watch_env_sel [simp]:
  "we_parse (watch_env_of au) ''ok'' = Inr (PyDict watch_dict)" "we_parse (watch_env_of au) ''poison'' = Inr (PyDict (watch_dict @ [(''payload_object'', PyInt 5)]))"
  "we_rep (watch_env_of au) v = []" "we_auth (watch_env_of au) = au" "we_move (watch_env_of au) n = None" "we_ack_write (watch_env_of au) n"
  "we_rep (watch_env_of au) = (\<lambda>v. [])" "we_hash (watch_env_of au) = (\<lambda>s. ''h'')" "we_poll_time (watch_env_of au) = ''p''"
  "we_queue_error (watch_env_of au) n = None" "we_storage (watch_env_of au) n ls = Inr ls" "we_physical (watch_env_of au) n = Inr True"
  "we_queue_error (watch_env_of au) = (\<lambda>n. None)" "we_storage (watch_env_of au) = (\<lambda>n ls. Inr ls)"
  by (simp_all add: watch_env_of_def)

lemma watch_parse_same: "we_parse (watch_env_of au) = we_parse (watch_env_of av)"
  by (simp add: watch_env_of_def)

lemma watch_path: "durable_source_path (watch_env_of au) ''d.json'' = Inr (Inr ''directives/inbox/d.json'')"
proof -
  have "validate_directive_source_path ''directives/inbox/d.json'' = Inr ''directives/inbox/d.json''" by code_simp
  then show ?thesis by (simp add: durable_source_path_def)
qed

lemma watch_queue: "\<exists>j q. queue_directive (watch_env_of au) ''d.json'' p env meta (c\<lparr>ch_queue := ch_queue (watch_start [])\<rparr>) = (Inr (Inr j), c\<lparr>ch_queue := q\<rparr>)"
proof -
  have v: "validate_directive_source_path ''directives/inbox/d.json'' = Inr ''directives/inbox/d.json''" by code_simp
  have rb: "readback_ok i [Json (PyDict (item_to_dict i))] = Inr True" for i
    by (simp add: readback_ok_def is_blank_def item_to_dict_def dget_def dget_or_def)
  show ?thesis unfolding queue_directive_def watch_path
    by (simp add: enqueue_payload_def watch_start_def v Let_def rb append_line_def) blast
qed

lemma watch_accepts:
  obtains a c' where "poll_inbox (watch_env_of steady_auth) True (watch_start [(''d.json'', ''ok'')]) = (Inr [a], c')" and "dak_decision a = ''ACCEPTED''"
    and "dak_directive_id a = PyStr ''d-1''"
proof -
  let ?E = "watch_env_of steady_auth"
  obtain w where v: "schema_validate (PyDict watch_dict) = (True, w)" using watch_reads(1) by (cases "schema_validate (PyDict watch_dict)") auto
  obtain meta where a: "steady_auth ''d.json'' steady_payload steady_envelope
    = (AUTHENTIC, ''AUTHENTIC: Directive source authenticated and validated successfully'', False, meta)" using steady_authentic by blast
  have fresh: "\<not> is_consumed i (load_ledger None)" for i by (simp add: is_consumed_def load_ledger_def)
  have acc: "\<exists>a c'. accept ?E ''d.json'' ''ok'' steady_payload steady_envelope AUTHENTIC why meta c = (Inr a, c') \<and> dak_decision a = ''ACCEPTED''
      \<and> dak_directive_id a = PyStr ''d-1''" if "ch_queue c = ch_queue (watch_start [])" for c why
  proof -
    have c: "c\<lparr>ch_queue := ch_queue (watch_start [])\<rparr> = c" using that by simp
    from watch_queue [of steady_auth steady_payload steady_envelope meta c] c obtain j q
      where q: "queue_directive ?E ''d.json'' steady_payload steady_envelope meta c = (Inr (Inr j), c\<lparr>ch_queue := q\<rparr>)" by auto
    show ?thesis by (simp add: accept_def seq_def q write_ack_def move_file_def ret_def Let_def) (simp add: steady_payload_def)
  qed
  have "\<exists>a c'. poll_inbox ?E True (watch_start [(''d.json'', ''ok'')]) = (Inr [a], c') \<and> dak_decision a = ''ACCEPTED'' \<and> dak_directive_id a = PyStr ''d-1''"
  proof -
    let ?c = "note_status (\<lambda>s. s\<lparr>dc_last_id := PyStr (dpl_directive_id steady_payload)\<rparr>) (note_status (\<lambda>s. s\<lparr>dc_last_seen := Some ''d.json''\<rparr>)
      (note_status (\<lambda>s. s\<lparr>dc_last_poll := Some (we_poll_time ?E)\<rparr>) (watch_start [(''d.json'', ''ok'')])))"
    have "ch_queue ?c = ch_queue (watch_start [])" "\<not> is_consumed (dpl_directive_id steady_payload) (ch_ledger ?c)" "ch_inbox (watch_start [(''d.json'', ''ok'')]) = [(''d.json'', ''ok'')]"
      by (simp_all add: watch_start_def fresh)
    then show ?thesis using acc [of ?c "''AUTHENTIC: Directive source authenticated and validated successfully''"] v a watch_reads
      by (auto simp: poll_inbox_def update_channel_status_def seq_def modify_def query_def process_file_def lift_res_def decide_def ret_def)
  qed
  with that show thesis by blast
qed

theorem accepted_is_signed_witness: "\<exists>a c' p env meta. poll_inbox (watch_env_of steady_auth) True (watch_start [(''d.json'', ''ok'')]) = (Inr [a], c')
    \<and> dak_decision a = ''ACCEPTED'' \<and> authentic one_signer steady_trust (Some ''d.json'') p env False meta \<and> dak_directive_id a = PyStr (dpl_directive_id p)"
proof -
  obtain a c' where p: "poll_inbox (watch_env_of steady_auth) True (watch_start [(''d.json'', ''ok'')]) = (Inr [a], c')" "dak_decision a = ''ACCEPTED''"
    by (rule watch_accepts)
  from accepted_is_signed [OF p(1), of one_signer "\<lambda>n. steady_trust" a] p(2) obtain name raw q env human meta
    where q: "(name, raw) \<in> set (ch_inbox (watch_start [(''d.json'', ''ok'')]))" "authentic one_signer steady_trust (Some name) q env human meta"
      "dak_directive_id a = PyStr (dpl_directive_id q)" "if human then dak_decision a = ''WAITING_HUMAN'' else dak_decision a = ''ACCEPTED''" by (auto split: if_splits)
  from q(1,4) p(2) have "name = ''d.json''" "human = False" by (auto simp: watch_start_def split: if_splits)
  with p q(2,3) show ?thesis by blast
qed

theorem poll_drains_inbox_witness: "\<exists>a c'. poll_inbox (watch_env_of steady_auth) True (watch_start [(''d.json'', ''ok'')]) = (Inr [a], c') \<and> ch_inbox c' = []
    \<and> \<not> dak_executed a \<and> map_of (ch_accepted c') ''d.json'' = Some ''ok''"
proof -
  obtain a c' where p: "poll_inbox (watch_env_of steady_auth) True (watch_start [(''d.json'', ''ok'')]) = (Inr [a], c')" "dak_decision a = ''ACCEPTED''"
    by (rule watch_accepts)
  from poll_drains_inbox [OF p(1)] p show ?thesis by (simp add: watch_start_def)
qed

theorem directive_decided_once_witness: "\<exists>a c1 as. polls (watch_start []) (a # as) c1 \<and> dak_decision a = ''ACCEPTED''
    \<and> distinct (map dak_directive_id (decisions (a # as)))"
proof -
  obtain a c' where p: "poll_inbox (watch_env_of steady_auth) True (watch_start [(''d.json'', ''ok'')]) = (Inr [a], c')" "dak_decision a = ''ACCEPTED''"
    by (rule watch_accepts)
  have s: "(watch_start [])\<lparr>ch_inbox := [(''d.json'', ''ok'')]\<rparr> = watch_start [(''d.json'', ''ok'')]" by (simp add: watch_start_def)
  have one: "polls (watch_start []) ([] @ [a]) c'" by (rule poll_returned [where E = "watch_env_of steady_auth" and files = "[(''d.json'', ''ok'')]", OF no_polls]) (simp add: s p(1))
  obtain r c2 where again: "poll_inbox (watch_env_of steady_auth) True (c'\<lparr>ch_inbox := [(''d.json'', ''ok'')]\<rparr>) = (r, c2)" by fastforce
  have "\<exists>bs. polls (watch_start []) (a # bs) c2"
    using poll_returned [OF one] poll_raised [OF one] again by (cases r) fastforce+
  then obtain bs where "polls (watch_start []) (a # bs) c2" by blast
  from directive_decided_once [OF this] this p(2) show ?thesis by blast
qed

theorem poison_file_blocks_witness: "\<exists>e c'. poll_inbox (watch_env_of steady_auth) True (watch_start [(''a.json'', ''poison''), (''d.json'', ''ok'')])
    = (Inl e, c') \<and> (''a.json'', ''poison'') \<in> set (ch_inbox c') \<and> (''d.json'', ''ok'') \<in> set (ch_inbox c')"
proof -
  let ?c = "watch_start [(''a.json'', ''poison''), (''d.json'', ''ok'')]"
  have f: "ch_inbox ?c = [(''a.json'', ''poison''), (''d.json'', ''ok'')]" "?c\<lparr>ch_inbox := [(''a.json'', ''poison''), (''d.json'', ''ok'')]\<rparr> = ?c"
    by (simp_all add: watch_start_def)
  obtain r c2 where p: "poll_inbox (watch_env_of steady_auth) True (?c\<lparr>ch_inbox := [(''a.json'', ''poison''), (''d.json'', ''ok'')]\<rparr>) = (r, c2)" by fastforce
  have "''a.json'' < ''d.json''" by simp
  with poison_file_blocks [OF _ _ not_polled _ _ p _ watch_reads(2), of "''a.json''" "''poison''"] watch_reads(5) f(1) have "\<exists>e. r = Inl e" "(''a.json'', ''poison'') \<in> set (ch_inbox c2)" "(''d.json'', ''ok'') \<in> set (ch_inbox c2)"
    by auto
  with p [unfolded f(2)] show ?thesis by blast
qed

lemma refuse_returns: "\<exists>a c'. refuse (watch_env_of au) name raw did sha st why rb c = (Inr a, c')"
  by (simp add: refuse_def write_ack_def move_file_def seq_def ret_def Let_def)

theorem outage_burns_directive_witness: "\<exists>a b c1 c3. process_file (watch_env_of (\<lambda>n p e. (REMOTE_BRANCH_UNAVAILABLE, ''REMOTE_BRANCH_UNAVAILABLE'', False, [])))
      (''d.json'', ''ok'') (watch_start [(''d.json'', ''ok'')]) = (Inr a, c1)
    \<and> process_file (watch_env_of steady_auth) (''d.json'', ''ok'') c1 = (Inr b, c3) \<and> dak_decision b = ''REJECTED''"
proof -
  let ?E = "watch_env_of (\<lambda>n p e. (REMOTE_BRANCH_UNAVAILABLE, ''REMOTE_BRANCH_UNAVAILABLE'', False, []))"
  let ?D = "watch_env_of steady_auth"
  obtain w where v: "schema_validate (PyDict watch_dict) = (True, w)" using watch_reads(1) by (cases "schema_validate (PyDict watch_dict)") auto
  have "\<exists>a c1. process_file ?E (''d.json'', ''ok'') (watch_start [(''d.json'', ''ok'')]) = (Inr a, c1)"
    using v watch_reads(3,4) refuse_returns
    by (simp add: process_file_def seq_def modify_def lift_res_def decide_def query_def refuse_unauthentic_def watch_start_def is_consumed_def load_ledger_def)
  then obtain a c1 where one: "process_file ?E (''d.json'', ''ok'') (watch_start [(''d.json'', ''ok'')]) = (Inr a, c1)" by blast
  have known: "is_consumed (dpl_directive_id steady_payload) (ch_ledger c1)"
    by (rule outage_recorded [OF one _ watch_reads(1), of steady_payload steady_envelope]) (simp_all add: watch_reads)
  have "\<exists>b c3. refuse_replay ?D ''d.json'' ''ok'' steady_payload steady_envelope c = (Inr b, c3)" for c
    using replay_refuses [of ?D "''d.json''" "''ok''" steady_payload steady_envelope c] refuse_returns by metis
  then have "\<exists>b c3. process_file ?D (''d.json'', ''ok'') c1 = (Inr b, c3)"
    using v watch_reads(3,4) known by (simp add: process_file_def seq_def modify_def lift_res_def decide_def query_def)
  then obtain b c3 where two: "process_file ?D (''d.json'', ''ok'') c1 = (Inr b, c3)" by blast
  have "dak_decision b = ''REJECTED'' \<and> dak_validation_status b \<in> {''REPLAY_DETECTED'', ''STATE_CONFLICT''}"
    by (rule outage_burns_directive [OF one _ watch_reads(1) _ _ _ two, of steady_payload steady_envelope])
      (simp_all add: watch_reads watch_parse_same [of steady_auth])
  with one two show ?thesis by blast
qed

end
