(* ===== verification/SignerManifest.thy ===== *)
theory SignerManifest
  imports Authenticator
begin

text \<open>
  The check of the signers' manifest against the allowlist, \<open>src/directive/signer_validator.py\<close>. JSON, base64, SHA-256 and the
  answers of \<open>ssh-keygen\<close> are parameters; the allowlist is a list without repetitions, in the order in which Python
  iterates over the set.
\<close>

subsection \<open>The fingerprint of a public key\<close>

text \<open>
  \<open>kt_decode\<close>: \<open>base64.b64decode\<close> or its exception; \<open>kt_digest\<close>: the base64 text of the SHA-256 digest; \<open>kt_starts\<close>: the return code
  of a candidate binary, if it starts; \<open>kt_print\<close>: what \<open>ssh-keygen -l -f\<close> prints for a text, if it succeeds.
\<close>

record key_tools =
  kt_decode :: "string \<Rightarrow> string option"
  kt_digest :: "string \<Rightarrow> string"
  kt_starts :: "string \<Rightarrow> int option"
  kt_print :: "string \<Rightarrow> string \<Rightarrow> string option"

definition KEYGEN_CANDIDATES :: "string list" where
  "KEYGEN_CANDIDATES = [''C:'' @ [CHR 0x5C] @ ''Program Files'' @ [CHR 0x5C] @ ''Git'' @ [CHR 0x5C] @ ''usr'' @ [CHR 0x5C] @ ''bin'' @ [CHR 0x5C] @ ''ssh-keygen.exe'',
     ''C:'' @ [CHR 0x5C] @ ''Program Files (x86)'' @ [CHR 0x5C] @ ''Git'' @ [CHR 0x5C] @ ''usr'' @ [CHR 0x5C] @ ''bin'' @ [CHR 0x5C] @ ''ssh-keygen.exe'',
     ''ssh-keygen'']"

definition get_ssh_keygen_bin :: "key_tools \<Rightarrow> string" where
  "get_ssh_keygen_bin K = (case filter (\<lambda>b. kt_starts K b \<in> {Some 0, Some 1}) KEYGEN_CANDIDATES of [] \<Rightarrow> ''ssh-keygen'' | b # _ \<Rightarrow> b)"

definition rstrip_char :: "char \<Rightarrow> string \<Rightarrow> string" where
  "rstrip_char c s = rev (dropWhile (\<lambda>d. d = c) (rev s))"

text \<open>The native computation; \<open>None\<close>: it falls through to \<open>ssh-keygen\<close>.\<close>

definition native_fingerprint :: "key_tools \<Rightarrow> string \<Rightarrow> string option" where
  "native_fingerprint K key = (case py_split (strip key) of
      _ # raw # _ \<Rightarrow> (case kt_decode K raw of None \<Rightarrow> None | Some b \<Rightarrow> Some (''SHA256:'' @ rstrip_char (CHR ''='') (kt_digest K b)))
    | _ \<Rightarrow> None)"

definition compute_ssh_public_key_fingerprint :: "key_tools \<Rightarrow> pyval \<Rightarrow> string" where
  "compute_ssh_public_key_fingerprint K v = (case v of
      PyStr key \<Rightarrow> (case native_fingerprint K key of
          Some fp \<Rightarrow> fp
        | None \<Rightarrow> (case kt_print K (get_ssh_keygen_bin K) key of
            Some out \<Rightarrow> (case py_split (strip out) of _ # fp # _ \<Rightarrow> fp | _ \<Rightarrow> ''INVALID_FINGERPRINT'')
          | None \<Rightarrow> ''INVALID_FINGERPRINT''))
    | _ \<Rightarrow> ''INVALID_FINGERPRINT'')"

subsection \<open>The manifest\<close>

record signer_report =
  sr_count :: nat
  sr_validated :: nat
  sr_invalid :: nat
  sr_placeholders :: nat
  sr_manifest_valid :: bool
  sr_key_verified :: bool
  sr_error :: "string option"

definition PLACEHOLDER_PATTERNS :: "string list" where
  "PLACEHOLDER_PATTERNS = [''test'', ''placeholder'', ''CHATGPT'', ''marcelo'', ''demo'', ''sample'']"

definition is_placeholder :: "string \<Rightarrow> bool" where
  "is_placeholder fp = list_ex (contains (lower fp)) PLACEHOLDER_PATTERNS"

text \<open>\<open>manifest_data.get("signers", [])\<close>, and what the loop over it visits.\<close>

definition signer_records :: "pyval \<Rightarrow> pyval res" where
  "signer_records v = (case v of PyDict m \<Rightarrow> Inr (dget_or m ''signers'' (PyList [])) | _ \<Rightarrow> Inl (PyError ''AttributeError''))"

definition visited :: "pyval \<Rightarrow> pyval list res" where
  "visited v = (case v of
      PyList xs \<Rightarrow> Inr xs
    | PyDict m \<Rightarrow> Inr (map (PyStr \<circ> fst) m)
    | PyStr s \<Rightarrow> Inr (map (\<lambda>c. PyStr [c]) s)
    | _ \<Rightarrow> Inl (PyError ''TypeError''))"

text \<open>The first record with the fingerprint.\<close>

fun find_record :: "string \<Rightarrow> pyval list \<Rightarrow> dict option res" where
  "find_record fp [] = Inr None"
| "find_record fp (PyDict m # rs) = (if dget m ''fingerprint'' = PyStr fp then Inr (Some m) else find_record fp rs)"
| "find_record fp (_ # rs) = Inl (PyError ''AttributeError'')"

definition active_record :: "dict \<Rightarrow> bool" where
  "active_record m \<longleftrightarrow> dget m ''status'' = PyStr ''ACTIVE'' \<and> dget m ''purpose'' = PyStr ''CONTROL_PLANE_DIRECTIVE_SIGNING''"

text \<open>One fingerprint of the allowlist.\<close>

definition count_signer :: "key_tools \<Rightarrow> pyval \<Rightarrow> string \<Rightarrow> signer_report \<Rightarrow> signer_report res" where
  "count_signer K records fp r =
     (let bad = r\<lparr>sr_invalid := sr_invalid r + 1, sr_manifest_valid := False\<rparr> in
      if is_placeholder fp then Inr (bad\<lparr>sr_placeholders := sr_placeholders r + 1\<rparr>)
      else (case visited records of Inl e \<Rightarrow> Inl e | Inr rs \<Rightarrow> (case find_record fp rs of
          Inl e \<Rightarrow> Inl e
        | Inr None \<Rightarrow> Inr bad
        | Inr (Some m) \<Rightarrow>
            if \<not> active_record m then Inr bad
            else if compute_ssh_public_key_fingerprint K (dget_or m ''public_key'' (PyStr [])) \<noteq> fp then Inr (bad\<lparr>sr_key_verified := False\<rparr>)
            else Inr (r\<lparr>sr_validated := sr_validated r + 1\<rparr>))))"

fun count_signers :: "key_tools \<Rightarrow> pyval \<Rightarrow> string list \<Rightarrow> signer_report \<Rightarrow> signer_report res" where
  "count_signers K records [] r = Inr r"
| "count_signers K records (fp # fps) r = (case count_signer K records fp r of Inl e \<Rightarrow> Inl e | Inr r' \<Rightarrow> count_signers K records fps r')"

definition refused_report :: "nat \<Rightarrow> string \<Rightarrow> signer_report" where
  "refused_report n why = \<lparr>sr_count = n, sr_validated = 0, sr_invalid = n, sr_placeholders = 0, sr_manifest_valid = False,
     sr_key_verified = False, sr_error = Some why\<rparr>"

definition start_report :: "nat \<Rightarrow> signer_report" where
  "start_report n = \<lparr>sr_count = n, sr_validated = 0, sr_invalid = 0, sr_placeholders = 0, sr_manifest_valid = True,
     sr_key_verified = True, sr_error = None\<rparr>"

definition all_validated :: "signer_report \<Rightarrow> bool" where
  "all_validated r \<longleftrightarrow> sr_count r \<ge> 1 \<and> sr_validated r = sr_count r \<and> sr_invalid r = 0 \<and> sr_placeholders r = 0 \<and> sr_manifest_valid r
     \<and> sr_key_verified r"

text \<open>
  \<open>manifest\<close>: \<open>None\<close> if the file does not exist, else the exception of reading and parsing it or the value. \<open>shown\<close> is \<open>str\<close> of
  an exception of this code.
\<close>

definition validate_production_signers :: "key_tools \<Rightarrow> (err \<Rightarrow> string) \<Rightarrow> string list \<Rightarrow> (string + pyval) option \<Rightarrow> signer_report" where
  "validate_production_signers K shown allowlist manifest =
     (let n = length allowlist in
      if n = 0 then refused_report n ''PRODUCTION_SIGNER_NOT_PROVISIONED''
      else (case manifest of
          None \<Rightarrow> refused_report n ''MANIFEST_FILE_NOT_FOUND''
        | Some (Inl e) \<Rightarrow> refused_report n e
        | Some (Inr v) \<Rightarrow> (case signer_records v of
            Inl e \<Rightarrow> refused_report n (shown e)
          | Inr records \<Rightarrow> (case count_signers K records allowlist (start_report n) of
              Inl e \<Rightarrow> refused_report n (shown e)
            | Inr r \<Rightarrow> if all_validated r then r else r\<lparr>sr_error := Some ''PRODUCTION_SIGNER_VALIDATION_FAILED''\<rparr>))))"

subsection \<open>What a valid manifest means\<close>

text \<open>The first record that names a fingerprint, if every record before it is a dictionary.\<close>

definition vouched :: "key_tools \<Rightarrow> pyval list \<Rightarrow> string \<Rightarrow> bool" where
  "vouched K rs fp \<longleftrightarrow> \<not> is_placeholder fp \<and> (\<exists>earlier m later. rs = earlier @ PyDict m # later
     \<and> list_all (\<lambda>b. \<exists>d. b = PyDict d \<and> dget d ''fingerprint'' \<noteq> PyStr fp) earlier \<and> dget m ''fingerprint'' = PyStr fp
     \<and> active_record m \<and> compute_ssh_public_key_fingerprint K (dget_or m ''public_key'' (PyStr [])) = fp)"

lemma find_record_first:
  assumes "list_all (\<lambda>b. \<exists>d. b = PyDict d \<and> dget d ''fingerprint'' \<noteq> PyStr fp) earlier" and "dget m ''fingerprint'' = PyStr fp"
  shows "find_record fp (earlier @ PyDict m # later) = Inr (Some m)"
  using assms(1) by (induction earlier) (auto simp: assms(2))

lemma find_record_D: "find_record fp rs = Inr (Some m) \<Longrightarrow> \<exists>earlier later. rs = earlier @ PyDict m # later
    \<and> list_all (\<lambda>b. \<exists>d. b = PyDict d \<and> dget d ''fingerprint'' \<noteq> PyStr fp) earlier \<and> dget m ''fingerprint'' = PyStr fp"
proof (induction fp rs rule: find_record.induct)
  case (2 fp d rs)
  show ?case
  proof (cases "dget d ''fingerprint'' = PyStr fp")
    case True
    with 2(2) have "PyDict d # rs = [] @ PyDict m # rs" "dget m ''fingerprint'' = PyStr fp" by simp_all
    then show ?thesis by fastforce
  next
    case False
    with 2 obtain earlier later where r: "rs = earlier @ PyDict m # later" "dget m ''fingerprint'' = PyStr fp"
      "list_all (\<lambda>b. \<exists>d. b = PyDict d \<and> dget d ''fingerprint'' \<noteq> PyStr fp) earlier" by auto
    have "PyDict d # rs = (PyDict d # earlier) @ PyDict m # later" using r(1) by simp
    moreover have "list_all (\<lambda>b. \<exists>d. b = PyDict d \<and> dget d ''fingerprint'' \<noteq> PyStr fp) (PyDict d # earlier)" using r(3) False by simp
    ultimately show ?thesis using r(2) by blast
  qed
qed simp_all

lemma vouched_iff: "vouched K rs fp \<longleftrightarrow> \<not> is_placeholder fp \<and> (\<exists>m. find_record fp rs = Inr (Some m) \<and> active_record m
    \<and> compute_ssh_public_key_fingerprint K (dget_or m ''public_key'' (PyStr [])) = fp)"
proof
  assume "vouched K rs fp"
  then obtain earlier m later where r: "rs = earlier @ PyDict m # later" "dget m ''fingerprint'' = PyStr fp"
      "list_all (\<lambda>b. \<exists>d. b = PyDict d \<and> dget d ''fingerprint'' \<noteq> PyStr fp) earlier"
    and ok: "\<not> is_placeholder fp" "active_record m" "compute_ssh_public_key_fingerprint K (dget_or m ''public_key'' (PyStr [])) = fp"
    unfolding vouched_def by blast
  have "find_record fp rs = Inr (Some m)" unfolding r(1) by (rule find_record_first) (fact r)+
  with ok show "\<not> is_placeholder fp \<and> (\<exists>m. find_record fp rs = Inr (Some m) \<and> active_record m
    \<and> compute_ssh_public_key_fingerprint K (dget_or m ''public_key'' (PyStr [])) = fp)" by blast
next
  assume "\<not> is_placeholder fp \<and> (\<exists>m. find_record fp rs = Inr (Some m) \<and> active_record m
    \<and> compute_ssh_public_key_fingerprint K (dget_or m ''public_key'' (PyStr [])) = fp)"
  then obtain m where "\<not> is_placeholder fp" "find_record fp rs = Inr (Some m)" "active_record m"
    "compute_ssh_public_key_fingerprint K (dget_or m ''public_key'' (PyStr [])) = fp" by blast
  then show "vouched K rs fp" unfolding vouched_def using find_record_D [of fp rs m] by blast
qed

lemma counted:
  assumes "count_signers K records fps r = Inr r'"
  shows "sr_count r' = sr_count r \<and> sr_error r' = sr_error r \<and> sr_invalid r \<le> sr_invalid r'
    \<and> (sr_invalid r' = sr_invalid r \<longleftrightarrow> (\<forall>fp \<in> set fps. \<exists>rs. visited records = Inr rs \<and> vouched K rs fp))
    \<and> (sr_invalid r' = sr_invalid r \<longrightarrow> r' = r\<lparr>sr_validated := sr_validated r + length fps\<rparr>)"
  using assms
proof (induction fps arbitrary: r)
  case (Cons fp fps)
  from Cons.prems obtain r1 where one: "count_signer K records fp r = Inr r1" and rest: "count_signers K records fps r1 = Inr r'"
    by (auto split: sum.splits)
  have step: "sr_count r1 = sr_count r \<and> sr_error r1 = sr_error r \<and> sr_invalid r \<le> sr_invalid r1
    \<and> (sr_invalid r1 = sr_invalid r \<longleftrightarrow> (\<exists>rs. visited records = Inr rs \<and> vouched K rs fp))
    \<and> (sr_invalid r1 = sr_invalid r \<longrightarrow> r1 = r\<lparr>sr_validated := sr_validated r + 1\<rparr>)"
  proof (cases "is_placeholder fp")
    case True
    with one show ?thesis by (auto simp: count_signer_def vouched_def)
  next
    case False
    with one obtain rs q where v: "visited records = Inr rs" and f: "find_record fp rs = Inr q"
      by (auto simp: count_signer_def Let_def split: sum.splits option.splits if_splits)
    show ?thesis
    proof (cases q)
      case None
      with one v f False show ?thesis by (auto simp: count_signer_def Let_def vouched_iff)
    next
      case (Some m)
      let ?key = "compute_ssh_public_key_fingerprint K (dget_or m ''public_key'' (PyStr []))"
      have r1: "r1 = (if \<not> active_record m then r\<lparr>sr_invalid := sr_invalid r + 1, sr_manifest_valid := False\<rparr>
          else if ?key \<noteq> fp then r\<lparr>sr_invalid := sr_invalid r + 1, sr_manifest_valid := False, sr_key_verified := False\<rparr>
          else r\<lparr>sr_validated := sr_validated r + 1\<rparr>)"
        using one v f False Some by (auto simp: count_signer_def Let_def)
      have "vouched K rs fp \<longleftrightarrow> active_record m \<and> ?key = fp" using False f Some by (simp add: vouched_iff)
      with v r1 show ?thesis by simp
    qed
  qed
  note more = Cons.IH [OF rest]
  have kept: "sr_invalid r' = sr_invalid r \<longleftrightarrow> sr_invalid r1 = sr_invalid r \<and> sr_invalid r' = sr_invalid r1" using step more by linarith
  have le: "sr_invalid r \<le> sr_invalid r'" using step more by linarith
  have one_more: "r' = r\<lparr>sr_validated := sr_validated r + length (fp # fps)\<rparr>" if "sr_invalid r' = sr_invalid r"
  proof -
    have "r1 = r\<lparr>sr_validated := sr_validated r + 1\<rparr>" "r' = r1\<lparr>sr_validated := sr_validated r1 + length fps\<rparr>" using that kept step more by simp_all
    then show ?thesis by simp
  qed
  have "sr_count r' = sr_count r" "sr_error r' = sr_error r" using step more by simp_all
  moreover have "sr_invalid r' = sr_invalid r \<longleftrightarrow> (\<forall>f \<in> set (fp # fps). \<exists>rs. visited records = Inr rs \<and> vouched K rs f)"
    unfolding kept using step more by simp
  ultimately show ?case using le one_more by blast
qed simp

text \<open>C32. The manifest is valid exactly when every fingerprint of the allowlist is vouched for: the allowlist is not empty, the manifest
  is a dictionary, and the first record naming the fingerprint is active, for signing directives, with a public key whose
  recalculated fingerprint is that one, and no fingerprint is a placeholder.\<close>

theorem manifest_valid_iff_vouched: "sr_error (validate_production_signers K shown allowlist manifest) = None
    \<longleftrightarrow> allowlist \<noteq> [] \<and> (\<exists>d rs. manifest = Some (Inr (PyDict d)) \<and> visited (dget_or d ''signers'' (PyList [])) = Inr rs \<and> list_all (vouched K rs) allowlist)"
proof (cases "allowlist = [] \<or> (\<nexists>d. manifest = Some (Inr (PyDict d)))")
  case True
  then show ?thesis
    by (auto simp: validate_production_signers_def refused_report_def signer_records_def Let_def split: option.splits sum.splits pyval.splits)
next
  case False
  then obtain d where d: "manifest = Some (Inr (PyDict d))" "allowlist \<noteq> []" by blast
  let ?records = "dget_or d ''signers'' (PyList [])"
  show ?thesis
  proof (cases "count_signers K ?records allowlist (start_report (length allowlist))")
    case (Inl e)
    have "\<not> (\<exists>rs. visited ?records = Inr rs \<and> list_all (vouched K rs) allowlist)"
    proof
      assume "\<exists>rs. visited ?records = Inr rs \<and> list_all (vouched K rs) allowlist"
      then obtain rs where rs: "visited ?records = Inr rs" "list_all (vouched K rs) allowlist" by blast
      have "\<exists>r'. count_signers K ?records fps r = Inr r'" if "list_all (vouched K rs) fps" for fps r
        using that
      proof (induction fps arbitrary: r)
        case (Cons fp fps)
        then obtain m where "find_record fp rs = Inr (Some m)" "\<not> is_placeholder fp" "active_record m"
            "compute_ssh_public_key_fingerprint K (dget_or m ''public_key'' (PyStr [])) = fp"
          by (auto simp: vouched_iff)
        with Cons rs(1) show ?case by (simp add: count_signer_def Let_def)
      qed simp
      with rs(2) Inl show False by (metis sum.distinct(1))
    qed
    with Inl d show ?thesis by (simp add: validate_production_signers_def signer_records_def refused_report_def Let_def)
  next
    case (Inr r)
    from counted [OF Inr] have "all_validated r \<longleftrightarrow> (\<forall>fp \<in> set allowlist. \<exists>rs. visited ?records = Inr rs \<and> vouched K rs fp)"
      and "sr_error r = None" using d(2) by (auto simp: all_validated_def start_report_def Suc_le_eq)
    with Inr d show ?thesis by (auto simp: validate_production_signers_def signer_records_def list_all_iff neq_Nil_conv Let_def)
  qed
qed

text \<open>The pattern in capitals never matches a fingerprint in small letters.\<close>

lemma capital_pattern_dead: "is_placeholder ''SHA256:CHATGPT'' = False"
  by code_simp

end
