(* ===== verification/Provider.thy ===== *)
theory Provider
  imports External
begin

text \<open>
  The providers behind the external worker, \<open>src/autonomy/provider.py\<close>: the redaction of what a provider returns, the client of
  the Responses API, the worker that signs frames for the gateway, and the gateway that also asks for fresh signed
  provider status. The libraries are the record \<open>crypto\<close> of \<open>External\<close>; the credential, the HTTP exchange and the private key
  are parameters. The \<open>af06\<close> tables are lists of rows.
\<close>

subsection \<open>Constants\<close>

definition AF06_PROTOCOL_VERSION :: string where "AF06_PROTOCOL_VERSION = ''AF06/1''"
definition PROVIDER_KIND :: string where "PROVIDER_KIND = ''OPENAI_RESPONSES''"
definition CODEX_CLI_PROVIDER_KIND :: string where "CODEX_CLI_PROVIDER_KIND = ''CODEX_CLI_CHATGPT''"
definition CODEX_CLI_MODEL :: string where "CODEX_CLI_MODEL = ''CHATGPT_SESSION''"
definition PROVIDER_CONNECTED_UNATTESTED :: string where "PROVIDER_CONNECTED_UNATTESTED = ''PROVIDER_CONNECTED_UNATTESTED''"
definition PROVIDER_NOT_CONNECTED :: string where "PROVIDER_NOT_CONNECTED = ''NOT_CONNECTED''"
definition PROVIDER_UNAVAILABLE :: string where "PROVIDER_UNAVAILABLE = ''UNAVAILABLE''"
definition PROVIDER_ATTESTATION_SCOPE :: string where "PROVIDER_ATTESTATION_SCOPE = ''UNATTESTED''"
definition OPENAI_RESPONSES_ENDPOINT :: string where "OPENAI_RESPONSES_ENDPOINT = ''https://api.openai.com/v1/responses''"
definition ALLOWED_OPENAI_MODELS :: "string list" where "ALLOWED_OPENAI_MODELS = [''gpt-5.6-sol'', ''gpt-5.6-terra'', ''gpt-5.6-luna'']"
definition PROVIDER_STATUS_DOMAIN :: string where "PROVIDER_STATUS_DOMAIN = ''AI-CONTROL-PLANE/AF06/PROVIDER_STATUS''"
definition MAX_PROMPT_BYTES :: nat where "MAX_PROMPT_BYTES = 4096"
definition MAX_RESPONSE_BYTES :: nat where "MAX_RESPONSE_BYTES = 65536"
definition PROVIDER_EVIDENCE_BYTES :: nat where "PROVIDER_EVIDENCE_BYTES = 65536"

subsection \<open>Numbers and texts\<close>

text \<open>\<open>v in {...}\<close> for a set of texts: a list or a dictionary has no hash.\<close>

definition py_member :: "pyval \<Rightarrow> string list \<Rightarrow> bool res" where
  "py_member v ss = (case v of
      PyStr s \<Rightarrow> Inr (s \<in> set ss)
    | PyList _ \<Rightarrow> Inl (PyError ''TypeError'')
    | PyDict _ \<Rightarrow> Inl (PyError ''TypeError'')
    | _ \<Rightarrow> Inr False)"

text \<open>\<open>float(v)\<close> of a number; an integer beyond the range of \<open>binary64\<close> raises.\<close>

definition python_float :: "pyval \<Rightarrow> pyfloat option res" where
  "python_float v = (case v of
      PyInt i \<Rightarrow> if \<bar>i\<bar> \<ge> 2 ^ 1024 - 2 ^ 970 then Inl (PyError ''OverflowError'') else Inr (Some (Finite (of_int i)))
    | PyFloat f \<Rightarrow> Inr (Some f)
    | _ \<Rightarrow> Inr None)"

definition finite_time :: "pyval \<Rightarrow> rat res" where
  "finite_time v = (case python_float v of
      Inl e \<Rightarrow> Inl e
    | Inr (Some (Finite t)) \<Rightarrow> if t < 0 then Inl (BlockedError ''invalid provider timestamp'') else Inr t
    | Inr _ \<Rightarrow> Inl (BlockedError ''invalid provider timestamp''))"

text \<open>The bytes of a text in UTF-8, of characters below 256.\<close>

definition utf8_length :: "string \<Rightarrow> nat" where
  "utf8_length s = length s + length (filter (\<lambda>c. 128 \<le> ord_of c) s)"

text \<open>\<open>\w\<close> of a character below 256.\<close>

definition word_char :: "char \<Rightarrow> bool" where
  "word_char c \<longleftrightarrow> is_alnum c \<or> c = CHR ''_'' \<or> ord_of c \<in> {170, 178, 179, 181, 185, 186, 188, 189, 190}
     \<or> (192 \<le> ord_of c \<and> ord_of c \<noteq> 215 \<and> ord_of c \<noteq> 247)"

text \<open>
  \<open>re.sub\<close> of a pattern that starts with a word boundary and a word character: \<open>m\<close> is what follows its match at the head of a
  text, \<open>inside\<close> tells that the character before is a word character.
\<close>

function sub_all :: "(string \<Rightarrow> string option) \<Rightarrow> bool \<Rightarrow> string \<Rightarrow> string" where
  "sub_all m inside [] = []"
| "sub_all m inside (c # cs) = (case (if inside then None else m (c # cs)) of
      Some rest \<Rightarrow> if length rest \<le> length cs
        then ''[REDACTED]'' @ sub_all m (word_char ((c # cs) ! (length cs - length rest))) rest
        else c # sub_all m (word_char c) cs
    | None \<Rightarrow> c # sub_all m (word_char c) cs)"
  by pat_completeness auto
termination by (relation "measure (\<lambda>(m, i, s). length s)") auto

definition bearer_char :: "char \<Rightarrow> bool" where
  "bearer_char c \<longleftrightarrow> is_alnum c \<or> c \<in> set ''._~+/-''"

definition bearer_match :: "string \<Rightarrow> string option" where
  "bearer_match s = (if prefix ''bearer'' (lower s) then
     (let gap = drop 6 s; body = dropWhile is_space gap in
      if length body < length gap \<and> length (takeWhile bearer_char body) \<ge> 8 then Some (dropWhile bearer_char body) else None)
     else None)"

definition key_char :: "char \<Rightarrow> bool" where
  "key_char c \<longleftrightarrow> is_alnum c \<or> c = CHR ''_'' \<or> c = CHR ''-''"

definition key_match :: "string \<Rightarrow> string option" where
  "key_match s = (if prefix ''sk-'' s \<and> length (takeWhile key_char (drop 3 s)) \<ge> 8 then Some (dropWhile key_char (drop 3 s)) else None)"

definition provider_keywords :: "string list" where
  "provider_keywords = [''apikey'', ''api_key'', ''api-key'', ''token'', ''secret'', ''password'', ''authorization'']"

definition secret_match :: "string \<Rightarrow> string option" where
  "secret_match s = map_option snd (match_keywords provider_keywords s)"

definition provider_redact :: "string \<Rightarrow> string" where
  "provider_redact s = take 16384 (sub_all secret_match False (sub_all key_match False (sub_all bearer_match False (clean s))))"

definition provider_signed_bytes :: "crypto \<Rightarrow> dict \<Rightarrow> string res" where
  "provider_signed_bytes C frame = (case canonical_json C (PyDict (filter (\<lambda>(k, v). k \<noteq> ''signature'') frame)) of
      Inl e \<Rightarrow> Inl e | Inr s \<Rightarrow> Inr (PROVIDER_STATUS_DOMAIN @ CHR 0x0A # s))"

subsection \<open>Dispatches and evidence\<close>

text \<open>A dispatch as the worker gets it, with the protocol version of its sender.\<close>

record worker_dispatch = DispatchEnvelope +
  wd_protocol :: string

definition dispatch_dict :: "worker_dispatch \<Rightarrow> dict" where
  "dispatch_dict d = [(''dispatch_id'', PyStr (de_dispatch_id d)), (''task_id'', PyStr (de_task_id d)), (''worker_id'', PyStr (de_worker_id d)),
     (''session_id'', PyStr (de_session_id d)), (''lease_id'', PyStr (de_lease_id d)),
     (''lease_expires_at'', case de_expires_at d of None \<Rightarrow> PyNone | Some t \<Rightarrow> PyFloat (Finite t)), (''capability'', PyStr (de_capability d)),
     (''target_project'', PyStr (de_target d)), (''protocol_version'', PyStr (wd_protocol d))]"

definition instruction_text :: "string \<Rightarrow> string \<Rightarrow> string \<Rightarrow> string" where
  "instruction_text task target capability =
     ''You are executing a governed read-only control-plane task. ''
     @ ''Do not call tools, execute commands, mutate files, mutate Git, change credentials, ''
     @ ''control processes, place orders, or claim access you do not have. ''
     @ ''Task='' @ task @ ''; target='' @ target @ ''; capability='' @ capability @ ''. ''
     @ ''Return a concise text result that describes only what can be concluded from these supplied metadata. ''
     @ ''Do not claim PASS, certification, provider attestation, or project mutation.''"

definition deterministic_read_only_instruction :: "worker_dispatch \<Rightarrow> string res" where
  "deterministic_read_only_instruction d =
     (if wd_protocol d \<noteq> AF05_PROTOCOL_VERSION then Inl (BlockedError ''unsupported dispatch protocol'')
      else if de_capability d \<notin> set ALLOWED_CAPABILITIES then Inl (BlockedError ''provider capability prohibited'')
      else (case ident_of (PyStr (de_target d)) ''target_project'' of Inl e \<Rightarrow> Inl e | Inr target \<Rightarrow>
           (case ident_of (PyStr (de_capability d)) ''capability'' of Inl e \<Rightarrow> Inl e | Inr capability \<Rightarrow>
           (case ident_of (PyStr (de_task_id d)) ''task_id'' of Inl e \<Rightarrow> Inl e | Inr task \<Rightarrow>
             let text = instruction_text task target capability in
             if utf8_length text > MAX_PROMPT_BYTES then Inl (BlockedError ''provider prompt too large'') else Inr text))))"

record ProviderCallResult =
  pc_response_id :: string
  pc_model :: string
  pc_text :: string

record ProviderEvidence =
  pv_evidence_id :: string
  pv_sha256 :: string
  pv_payload :: string
  pv_response_id :: string
  pv_requested_model :: string
  pv_reported_model :: string
  pv_scope :: string

subsection \<open>The client of the Responses API\<close>

text \<open>The method and the other headers of a request are constant.\<close>

record http_request =
  hr_url :: string
  hr_body :: string
  hr_authorization :: string

text \<open>What \<open>urlopen\<close> meets: an error of the network, another exception, or a status and the body that can be read.\<close>

datatype http_outcome = Unreachable | HttpRaised err | HttpResponse int string

definition urllib_transport :: "(http_request \<Rightarrow> http_outcome) \<Rightarrow> http_request \<Rightarrow> rat \<Rightarrow> nat \<Rightarrow> pyval res" where
  "urllib_transport net req timeout max_bytes = (case net req of
      Unreachable \<Rightarrow> Inl (BlockedError ''provider request unavailable'')
    | HttpRaised e \<Rightarrow> Inl e
    | HttpResponse status body \<Rightarrow>
        if status \<noteq> 200 then Inl (BlockedError ''provider HTTP failure'')
        else if length (take (max_bytes + 1) body) > max_bytes then Inl (BlockedError ''provider response oversized'')
        else Inr (PyBytes (take (max_bytes + 1) body)))"

record openai_client =
  oc_model :: string
  oc_timeout :: rat
  oc_max_bytes :: nat
  oc_key :: pyval
  oc_transport :: "http_request \<Rightarrow> rat \<Rightarrow> nat \<Rightarrow> pyval res"

definition new_openai_client :: "string \<Rightarrow> string \<Rightarrow> pyval \<Rightarrow> pyval \<Rightarrow> pyval
    \<Rightarrow> (http_request \<Rightarrow> http_outcome) \<Rightarrow> (http_request \<Rightarrow> rat \<Rightarrow> nat \<Rightarrow> pyval res) option \<Rightarrow> openai_client res" where
  "new_openai_client model endpoint timeout max_bytes key net transport =
     (if model \<notin> set ALLOWED_OPENAI_MODELS then Inl (BlockedError ''unsupported OpenAI model'')
      else if endpoint \<noteq> OPENAI_RESPONSES_ENDPOINT then Inl (BlockedError ''provider endpoint not allowlisted'')
      else (case python_float timeout of Inl e \<Rightarrow> Inl e
        | Inr (Some (Finite t)) \<Rightarrow>
            if t < 1 \<or> 120 < t then Inl (BlockedError ''invalid provider timeout'')
            else (case as_int max_bytes of None \<Rightarrow> Inl (BlockedError ''invalid provider response bound'')
              | Some b \<Rightarrow> if b < 1024 \<or> int MAX_RESPONSE_BYTES < b then Inl (BlockedError ''invalid provider response bound'')
                  else Inr \<lparr>oc_model = model, oc_timeout = t, oc_max_bytes = nat b, oc_key = key,
                         oc_transport = (case transport of Some f \<Rightarrow> f | None \<Rightarrow> urllib_transport net)\<rparr>)
        | Inr _ \<Rightarrow> Inl (BlockedError ''invalid provider timeout'')))"

definition configured :: "openai_client \<Rightarrow> bool" where
  "configured c = (case oc_key c of PyStr k \<Rightarrow> strip k \<noteq> [] | _ \<Rightarrow> False)"

definition call_body :: "string \<Rightarrow> string \<Rightarrow> int \<Rightarrow> dict" where
  "call_body model text tokens = [(''model'', PyStr model), (''input'', PyStr text), (''store'', PyBool False), (''tools'', PyList []),
     (''max_output_tokens'', PyInt tokens), (''reasoning'', PyDict [(''effort'', PyStr ''none'')])]"

text \<open>The texts of the messages in the answer.\<close>

definition part_text :: "pyval \<Rightarrow> string list" where
  "part_text v = (case v of
      PyDict m \<Rightarrow> if dget m ''type'' = PyStr ''output_text'' then (case dget m ''text'' of PyStr s \<Rightarrow> [s] | _ \<Rightarrow> []) else []
    | _ \<Rightarrow> [])"

definition item_text :: "pyval \<Rightarrow> string list" where
  "item_text v = (case v of
      PyDict m \<Rightarrow> if dget m ''type'' = PyStr ''message''
        then (case dget m ''content'' of PyList parts \<Rightarrow> concat (map part_text parts) | _ \<Rightarrow> []) else []
    | _ \<Rightarrow> [])"

definition read_answer :: "string \<Rightarrow> pyval \<Rightarrow> ProviderCallResult res" where
  "read_answer model v = (case v of PyDict m \<Rightarrow>
      if dget m ''object'' \<noteq> PyStr ''response'' \<or> dget m ''status'' \<noteq> PyStr ''completed'' then Inl (BlockedError ''provider response incomplete'') else
      (case ident_of (dget m ''id'') ''provider_response_id'' of Inl e \<Rightarrow> Inl e | Inr rid \<Rightarrow>
      (case ident_of (dget m ''model'') ''provider_model'' of Inl e \<Rightarrow> Inl e | Inr reported \<Rightarrow>
       if reported \<noteq> model then Inl (BlockedError ''provider model mismatch'') else
      (case dget m ''output'' of PyList items \<Rightarrow>
         let text = provider_redact (strip (join [CHR 0x0A] (concat (map item_text items)))) in
         if text = [] then Inl (BlockedError ''provider returned no bounded text'')
         else if utf8_length text > PROVIDER_EVIDENCE_BYTES div 2 then Inl (BlockedError ''provider output oversized'')
         else Inr \<lparr>pc_response_id = rid, pc_model = reported, pc_text = text\<rparr>
       | _ \<Rightarrow> Inl (BlockedError ''provider response schema invalid''))))
    | _ \<Rightarrow> Inl (BlockedError ''provider response incomplete''))"

definition openai_call :: "crypto \<Rightarrow> openai_client \<Rightarrow> string \<Rightarrow> int \<Rightarrow> ProviderCallResult res" where
  "openai_call C c text tokens =
     (if strip text = [] \<or> utf8_length text > MAX_PROMPT_BYTES then Inl (BlockedError ''invalid provider input'')
      else if tokens < 1 \<or> 4096 < tokens then Inl (BlockedError ''invalid provider output token bound'')
      else if \<not> configured c then Inl (BlockedError ''provider credential unavailable'')
      else (case canonical_json C (PyDict (call_body (oc_model c) text tokens)) of Inl e \<Rightarrow> Inl e | Inr body \<Rightarrow>
        (case oc_transport c \<lparr>hr_url = OPENAI_RESPONSES_ENDPOINT, hr_body = body,
              hr_authorization = ''Bearer '' @ (case oc_key c of PyStr k \<Rightarrow> strip k | _ \<Rightarrow> [])\<rparr> (oc_timeout c) (oc_max_bytes c) of
           Inl e \<Rightarrow> Inl e
         | Inr (PyBytes raw) \<Rightarrow>
             if length raw > oc_max_bytes c then Inl (BlockedError ''provider response oversized'')
             else (case cr_loads C raw of None \<Rightarrow> Inl (BlockedError ''provider response malformed'') | Some v \<Rightarrow> read_answer (oc_model c) v)
         | Inr _ \<Rightarrow> Inl (BlockedError ''provider response must be bytes''))))"

definition openai_probe :: "crypto \<Rightarrow> openai_client \<Rightarrow> ProviderCallResult res" where
  "openai_probe C c = openai_call C c ''Reply with the exact text READ_ONLY_PROVIDER_OK. Do not call tools or make external claims.'' 32"

text \<open>The evidence: the binding of a result to its dispatch in canonical JSON, named by digests of it.\<close>

definition seal_evidence :: "crypto \<Rightarrow> string \<Rightarrow> string \<Rightarrow> string \<Rightarrow> dict \<Rightarrow> worker_dispatch \<Rightarrow> ProviderCallResult \<Rightarrow> string
    \<Rightarrow> ProviderEvidence res" where
  "seal_evidence C head key oversized binding d r model = (case canonical_json C (PyDict binding) of Inl e \<Rightarrow> Inl e | Inr payload \<Rightarrow>
      if length payload > PROVIDER_EVIDENCE_BYTES then Inl (BlockedError oversized)
      else (case canonical_json C (PyDict [(''dispatch_id'', PyStr (de_dispatch_id d)), (key, PyStr (pc_response_id r)),
            (''sha256'', PyStr (cr_hash C payload))]) of Inl e \<Rightarrow> Inl e | Inr name \<Rightarrow>
        Inr \<lparr>pv_evidence_id = head @ take 48 (cr_hash C name), pv_sha256 = cr_hash C payload, pv_payload = payload,
             pv_response_id = pc_response_id r, pv_requested_model = model, pv_reported_model = pc_model r,
             pv_scope = PROVIDER_CONNECTED_UNATTESTED\<rparr>))"

definition openai_execute :: "crypto \<Rightarrow> openai_client \<Rightarrow> worker_dispatch \<Rightarrow> ProviderEvidence res" where
  "openai_execute C c d = (case deterministic_read_only_instruction d of Inl e \<Rightarrow> Inl e | Inr text \<Rightarrow>
     (case openai_call C c text 1024 of Inl e \<Rightarrow> Inl e | Inr r \<Rightarrow>
       seal_evidence C ''af06-'' ''response_id'' ''provider evidence oversized''
         [(''af06_protocol_version'', PyStr AF06_PROTOCOL_VERSION), (''provider_kind'', PyStr PROVIDER_KIND),
          (''connection_scope'', PyStr PROVIDER_CONNECTED_UNATTESTED), (''provider_attestation_scope'', PyStr PROVIDER_ATTESTATION_SCOPE),
          (''requested_model'', PyStr (oc_model c)), (''reported_model'', PyStr (pc_model r)), (''provider_response_id'', PyStr (pc_response_id r)),
          (''dispatch'', PyDict (dispatch_dict d)), (''output_text'', PyStr (pc_text r))] d r (oc_model c)))"

end
