(* ===== verification/ProviderGateway.thy ===== *)
theory ProviderGateway
  imports Provider Router
begin

text \<open>
  The other half of \<open>src/autonomy/provider.py\<close>: the gateway that adds provider status to the authenticated one
  (\<open>ProviderBoundGateway\<close>), and the worker at the far end (\<open>OpenAIReadOnlyWorker\<close>) over any backend.
\<close>

subsection \<open>Tables\<close>

record provider_status =
  ps_worker_id :: string
  ps_session_id :: string
  ps_key_id :: string
  ps_kind :: string
  ps_model :: string
  ps_state :: string
  ps_scope :: string
  ps_sequence :: int
  ps_observed :: rat
  ps_message :: string
  ps_response :: "string option"

record provider_message =
  pm_id :: string
  pm_worker_id :: string
  pm_session_id :: string
  pm_sequence :: int
  pm_accepted_at :: rat

record bridge =
  br_base :: external
  br_status :: "provider_status list"
  br_messages :: "provider_message list"

text \<open>The constructor: the tables exist or are created empty.\<close>

definition new_bridge :: "external \<Rightarrow> bridge" where
  "new_bridge x = \<lparr>br_base = x, br_status = [], br_messages = []\<rparr>"

definition find_status :: "string \<Rightarrow> bridge \<Rightarrow> provider_status option" where
  "find_status wid b = find (\<lambda>r. ps_worker_id r = wid) (br_status b)"

definition seen_provider_message :: "string \<Rightarrow> bridge \<Rightarrow> bool" where
  "seen_provider_message mid b \<longleftrightarrow> (\<exists>r \<in> set (br_messages b). pm_id r = mid)"

subsection \<open>Provider status\<close>

definition status_keys :: "string list" where
  "status_keys = [''protocol_version'', ''worker_id'', ''key_id'', ''session_id'', ''message_id'', ''sequence'', ''observed_at'',
     ''provider_kind'', ''model'', ''connection_state'', ''attestation_scope'', ''provider_response_id'', ''signature'']"

definition required_member :: "pyval \<Rightarrow> string list \<Rightarrow> string \<Rightarrow> string res" where
  "required_member v ss why = (case py_member v ss of
      Inl e \<Rightarrow> Inl e
    | Inr found \<Rightarrow> (case v of PyStr s \<Rightarrow> if found then Inr s else Inl (BlockedError why) | _ \<Rightarrow> Inl (BlockedError why)))"

definition response_of :: "pyval \<Rightarrow> string option res" where
  "response_of v = (case v of
      PyNone \<Rightarrow> Inr None
    | _ \<Rightarrow> (case ident_of v ''provider_response_id'' of Inl e \<Rightarrow> Inl e | Inr s \<Rightarrow> Inr (Some s)))"

definition verify_status :: "crypto \<Rightarrow> VerifiedProfile \<Rightarrow> dict \<Rightarrow> unit res" where
  "verify_status C p m = (case dget m ''signature'' of
      PyStr sig \<Rightarrow> (case cr_b64 C sig of
          None \<Rightarrow> Inl (BlockedError ''invalid provider signature'')
        | Some raw \<Rightarrow> (case provider_signed_bytes C m of
              Inl e \<Rightarrow> Inl e
            | Inr body \<Rightarrow> if cr_verify C (vp_key p) raw body then Inr () else Inl (BlockedError ''invalid provider signature'')))
    | _ \<Rightarrow> Inl (BlockedError ''missing provider signature''))"

definition status_session :: "string \<Rightarrow> string \<Rightarrow> string \<Rightarrow> external \<Rightarrow> bool" where
  "status_session wid sid key x \<longleftrightarrow> (case find_session wid x of None \<Rightarrow> False
     | Some s \<Rightarrow> es_state s = ''AUTHENTICATED'' \<and> es_session_id s = sid \<and> es_key_id s = key)"

text \<open>The identifiers, the sequence and the time of a frame, in the order in which they are read.\<close>

definition status_ids :: "dict \<Rightarrow> (string \<times> string \<times> string \<times> string \<times> int \<times> rat) res" where
  "status_ids m =
     (case ident_of (dget m ''worker_id'') ''worker_id'' of Inl e \<Rightarrow> Inl e | Inr wid \<Rightarrow>
     (case ident_of (dget m ''key_id'') ''key_id'' of Inl e \<Rightarrow> Inl e | Inr key \<Rightarrow>
     (case ident_of (dget m ''session_id'') ''session_id'' of Inl e \<Rightarrow> Inl e | Inr sid \<Rightarrow>
     (case ident_of (dget m ''message_id'') ''message_id'' of Inl e \<Rightarrow> Inl e | Inr mid \<Rightarrow>
     (case finite_time (dget m ''observed_at'') of Inl e \<Rightarrow> Inl e | Inr obs \<Rightarrow>
     (case as_int (dget m ''sequence'') of None \<Rightarrow> Inl (BlockedError ''invalid provider sequence'') | Some q \<Rightarrow>
      if q \<le> 0 then Inl (BlockedError ''invalid provider sequence'') else Inr (wid, key, sid, mid, q, obs)))))))"

text \<open>The provider's kind, model, connection and proof of it.\<close>

definition status_claim :: "dict \<Rightarrow> (string \<times> string \<times> string \<times> string option) res" where
  "status_claim m =
     (if dget m ''protocol_version'' \<noteq> PyStr AF06_PROTOCOL_VERSION then Inl (BlockedError ''unsupported provider protocol'') else
     (case required_member (dget m ''provider_kind'') [PROVIDER_KIND, CODEX_CLI_PROVIDER_KIND] ''unsupported provider protocol'' of
        Inl e \<Rightarrow> Inl e | Inr kind \<Rightarrow>
     (case required_member (dget m ''model'') (if kind = PROVIDER_KIND then ALLOWED_OPENAI_MODELS else [CODEX_CLI_MODEL])
          ''unsupported provider model'' of Inl e \<Rightarrow> Inl e | Inr model \<Rightarrow>
     (case required_member (dget m ''connection_state'') [PROVIDER_CONNECTED_UNATTESTED, PROVIDER_NOT_CONNECTED, PROVIDER_UNAVAILABLE]
          ''forged provider state'' of Inl e \<Rightarrow> Inl e | Inr st \<Rightarrow>
      if dget m ''attestation_scope'' \<noteq> PyStr PROVIDER_ATTESTATION_SCOPE then Inl (BlockedError ''provider attestation overclaim'') else
     (case response_of (dget m ''provider_response_id'') of Inl e \<Rightarrow> Inl e | Inr rid \<Rightarrow>
      if st = PROVIDER_CONNECTED_UNATTESTED \<and> rid = None then Inl (BlockedError ''connected provider requires proof request id'')
      else Inr (kind, model, st, rid))))))"

text \<open>The checks before the transaction: the row the frame asks for, and the clock.\<close>

definition checked_status :: "crypto \<Rightarrow> pyfloat \<Rightarrow> pyval \<Rightarrow> bridge \<Rightarrow> (provider_status \<times> rat) res" where
  "checked_status C now frame b = (case frame of PyDict m \<Rightarrow>
      if \<not> has_keys status_keys m then Inl (BlockedError ''malformed provider status'') else
     (case now_of now of Inl e \<Rightarrow> Inl e | Inr n \<Rightarrow>
     (case status_ids m of Inl e \<Rightarrow> Inl e | Inr (wid, key, sid, mid, q, obs) \<Rightarrow>
     (case status_claim m of Inl e \<Rightarrow> Inl e | Inr (kind, model, st, rid) \<Rightarrow>
     (case trusted (PyStr wid) (br_base b) of Inl e \<Rightarrow> Inl e | Inr p \<Rightarrow>
      if key \<noteq> vp_key_id p then Inl (BlockedError ''provider key binding mismatch'')
      else if \<not> status_session wid sid key (br_base b) then Inl (BlockedError ''provider session unavailable'')
      else if obs > n + 1 \<or> n - obs > vp_sla p then Inl (BlockedError ''stale provider status'')
      else (case verify_status C p m of Inl e \<Rightarrow> Inl e | Inr _ \<Rightarrow>
        Inr (\<lparr>ps_worker_id = wid, ps_session_id = sid, ps_key_id = key, ps_kind = kind, ps_model = model, ps_state = st,
          ps_scope = PROVIDER_ATTESTATION_SCOPE, ps_sequence = q, ps_observed = obs, ps_message = mid, ps_response = rid\<rparr>, n))))))
    | _ \<Rightarrow> Inl (BlockedError ''malformed provider status''))"

definition status_replayed :: "provider_status \<Rightarrow> bridge \<Rightarrow> bool" where
  "status_replayed s b \<longleftrightarrow> (case find_status (ps_worker_id s) b of None \<Rightarrow> False
     | Some r \<Rightarrow> ps_session_id r = ps_session_id s \<and> ps_sequence s \<le> ps_sequence r) \<or> seen_provider_message (ps_message s) b"

text \<open>\<open>INSERT ... ON CONFLICT(worker_id) DO UPDATE\<close>.\<close>

definition upsert_status :: "provider_status \<Rightarrow> provider_status list \<Rightarrow> provider_status list" where
  "upsert_status s rows = (if find (\<lambda>r. ps_worker_id r = ps_worker_id s) rows = None then rows @ [s]
     else update_where (\<lambda>r. ps_worker_id r = ps_worker_id s) (\<lambda>_. s) rows)"

definition accept_provider_status :: "crypto \<Rightarrow> pyfloat \<Rightarrow> pyval \<Rightarrow> bridge \<Rightarrow> db \<Rightarrow> unit res \<times> bridge" where
  "accept_provider_status C now frame b d = (case checked_status C now frame b of Inl e \<Rightarrow> (Inl e, b) | Inr (s, n) \<Rightarrow>
     if db_locked d then (Inl db_busy, b)
     else if status_replayed s b then (Inl (BlockedError ''provider status replay''), b)
     else if ps_sequence s \<ge> 2 ^ 63 then (Inl (PyError ''OverflowError''), b)
     else (Inr (), b\<lparr>br_messages := br_messages b @ [\<lparr>pm_id = ps_message s, pm_worker_id = ps_worker_id s, pm_session_id = ps_session_id s,
             pm_sequence = ps_sequence s, pm_accepted_at = n\<rparr>], br_status := upsert_status s (br_status b)\<rparr>))"

subsection \<open>Eligible sessions and projections\<close>

definition provider_ready :: "rat \<Rightarrow> string \<Rightarrow> VerifiedProfile \<Rightarrow> provider_status option \<Rightarrow> bool" where
  "provider_ready n sid p known = (case known of None \<Rightarrow> False
     | Some r \<Rightarrow> ps_session_id r = sid \<and> ps_state r = PROVIDER_CONNECTED_UNATTESTED \<and> ps_scope r = PROVIDER_ATTESTATION_SCOPE
         \<and> n - ps_observed r \<le> vp_sla p \<and> ps_observed r \<le> n + 1)"

fun provider_filter :: "rat \<Rightarrow> bridge \<Rightarrow> (string \<times> string) list \<Rightarrow> (string \<times> string) list res" where
  "provider_filter n b [] = Inr []"
| "provider_filter n b ((wid, sid) # es) = (case trusted (PyStr wid) (br_base b) of Inl e \<Rightarrow> Inl e | Inr p \<Rightarrow>
     (case provider_filter n b es of Inl e \<Rightarrow> Inl e | Inr rest \<Rightarrow>
       Inr (if provider_ready n sid p (find_status wid b) then (wid, sid) # rest else rest)))"

definition provider_eligible :: "pyfloat \<Rightarrow> string \<Rightarrow> string \<Rightarrow> bridge \<Rightarrow> db \<Rightarrow> (string \<times> string) list res" where
  "provider_eligible now cap tgt b d = (case now_of now of Inl e \<Rightarrow> Inl e | Inr n \<Rightarrow>
     (case external_eligible (Finite n) cap tgt (br_base b) d of Inl e \<Rightarrow> Inl e | Inr es \<Rightarrow>
     (case provider_filter n b es of Inl e \<Rightarrow> Inl e | Inr r \<Rightarrow> Inr (sort r))))"

record provider_row =
  pj_base :: ext_row
  pj_adapter_kind :: string
  pj_adapter_status :: string
  pj_kind :: string
  pj_status :: string
  pj_last_known :: "string option"
  pj_scope :: string
  pj_model :: "string option"
  pj_response :: "string option"
  pj_eligible :: bool

text \<open>
  What the projection says of the connection: the status row under the live session. The code computes it once more before,
  from a session state it compares with an identifier; that value is always overwritten.
\<close>

definition current_status :: "rat \<Rightarrow> string \<Rightarrow> bridge \<Rightarrow> string res" where
  "current_status n wid b = (case (find_status wid b, find_session wid (br_base b)) of
      (Some r, Some s) \<Rightarrow>
        if es_state s = ''AUTHENTICATED'' \<and> ps_session_id r = es_session_id s
        then (case trusted (PyStr wid) (br_base b) of Inl e \<Rightarrow> Inl e
          | Inr p \<Rightarrow> Inr (if ps_observed r \<le> n + 1 \<and> n - ps_observed r \<le> vp_sla p then ps_state r else ''STALE''))
        else Inr ''UNKNOWN''
    | _ \<Rightarrow> Inr ''UNKNOWN'')"

definition provider_project :: "rat \<Rightarrow> bridge \<Rightarrow> ext_row \<Rightarrow> provider_row res" where
  "provider_project n b item = (case current_status n (xr_worker_id item) b of Inl e \<Rightarrow> Inl e | Inr cur \<Rightarrow>
     let known = find_status (xr_worker_id item) b in
     Inr \<lparr>pj_base = item, pj_adapter_kind = xr_kind item, pj_adapter_status = xr_status item,
       pj_kind = (case known of None \<Rightarrow> ''UNKNOWN'' | Some r \<Rightarrow> ps_kind r), pj_status = cur, pj_last_known = map_option ps_state known,
       pj_scope = (case known of None \<Rightarrow> ''UNKNOWN'' | Some _ \<Rightarrow> PROVIDER_ATTESTATION_SCOPE), pj_model = map_option ps_model known,
       pj_response = Option.bind known ps_response,
       pj_eligible = (xr_status item = ''AVAILABLE'' \<and> cur = PROVIDER_CONNECTED_UNATTESTED)\<rparr>)"

fun provider_rows :: "rat \<Rightarrow> bridge \<Rightarrow> ext_row list \<Rightarrow> provider_row list res" where
  "provider_rows n b [] = Inr []"
| "provider_rows n b (x # xs) = (case provider_project n b x of Inl e \<Rightarrow> Inl e | Inr r \<Rightarrow>
     (case provider_rows n b xs of Inl e \<Rightarrow> Inl e | Inr rs \<Rightarrow> Inr (r # rs)))"

definition provider_projection :: "pyfloat \<Rightarrow> bridge \<Rightarrow> provider_row list res" where
  "provider_projection now b = (case now_of now of Inl e \<Rightarrow> Inl e | Inr n \<Rightarrow>
     (case external_projection (Finite n) (br_base b) of Inl e \<Rightarrow> Inl e | Inr items \<Rightarrow> provider_rows n b items))"

text \<open>The operations that are those of the gateway below.\<close>

definition below :: "(external \<Rightarrow> db \<Rightarrow> 'a res \<times> external \<times> db) \<Rightarrow> bridge \<Rightarrow> db \<Rightarrow> 'a res \<times> bridge \<times> db" where
  "below f b d = (case f (br_base b) d of (r, x, d1) \<Rightarrow> (r, b\<lparr>br_base := x\<rparr>, d1))"

definition provider_dispatch :: "crypto \<Rightarrow> pyfloat \<Rightarrow> task \<Rightarrow> lease \<Rightarrow> pyval \<Rightarrow> bridge \<Rightarrow> db \<Rightarrow> DispatchEnvelope res \<times> bridge \<times> db" where
  "provider_dispatch C now t l sess = below (external_dispatch C now t l sess)"

definition provider_dispatches :: "bridge \<Rightarrow> (string \<times> string \<times> string \<times> string \<times> bool \<times> bool) list" where
  "provider_dispatches b = external_dispatches (br_base b)"

subsection \<open>The worker\<close>

text \<open>A backend: what it is, and the outcomes of its operations.\<close>

record backend =
  bk_kind :: string
  bk_model :: string
  bk_configured :: bool
  bk_probe :: "ProviderCallResult res"
  bk_execute :: "worker_dispatch \<Rightarrow> ProviderEvidence res"

definition openai_backend :: "crypto \<Rightarrow> openai_client \<Rightarrow> backend" where
  "openai_backend C c = \<lparr>bk_kind = PROVIDER_KIND, bk_model = oc_model c, bk_configured = configured c, bk_probe = openai_probe C c,
     bk_execute = openai_execute C c\<rparr>"

text \<open>The private key is what it answers to the bytes it is to sign.\<close>

record provider_worker =
  pw_profile :: TrustedWorkerProfile
  pw_sign :: "string \<Rightarrow> string"
  pw_session :: string
  pw_backend :: backend
  pw_sequence :: nat
  pw_state :: string
  pw_response :: "string option"

definition new_provider_worker :: "TrustedWorkerProfile \<Rightarrow> (string \<Rightarrow> string) \<Rightarrow> pyval \<Rightarrow> backend \<Rightarrow> provider_worker res" where
  "new_provider_worker profile sign session client = (case ident_of session ''session_id'' of Inl e \<Rightarrow> Inl e | Inr sid \<Rightarrow>
     Inr \<lparr>pw_profile = profile, pw_sign = sign, pw_session = sid, pw_backend = client, pw_sequence = 0,
       pw_state = PROVIDER_NOT_CONNECTED, pw_response = None\<rparr>)"

definition sign_af05 :: "crypto \<Rightarrow> provider_worker \<Rightarrow> string \<Rightarrow> dict \<Rightarrow> dict res" where
  "sign_af05 C w domain frame = (case signed_bytes C (DOMAIN_PREFIX @ domain) frame of Inl e \<Rightarrow> Inl e
     | Inr body \<Rightarrow> Inr (AList.update ''signature'' (PyStr (cr_b64e C (pw_sign w body))) frame))"

text \<open>The connection that a status frame reports: an exception of the probe that is no \<open>BlockedError\<close> escapes.\<close>

definition probed :: "backend \<Rightarrow> bool \<Rightarrow> (string \<times> string option) res" where
  "probed k probe = (if \<not> bk_configured k then Inr (PROVIDER_NOT_CONNECTED, None)
     else if \<not> probe then Inr (PROVIDER_UNAVAILABLE, None)
     else (case bk_probe k of
         Inr r \<Rightarrow> Inr (PROVIDER_CONNECTED_UNATTESTED, Some (pc_response_id r))
       | Inl e \<Rightarrow> if is_blocked e then Inr (PROVIDER_UNAVAILABLE, None) else Inl e))"

definition status_body :: "provider_worker \<Rightarrow> rat \<Rightarrow> dict" where
  "status_body w t = [(''protocol_version'', PyStr AF06_PROTOCOL_VERSION), (''worker_id'', tp_worker_id (pw_profile w)),
     (''key_id'', tp_key_id (pw_profile w)), (''session_id'', PyStr (pw_session w)),
     (''message_id'', PyStr (''af06-provider-'' @ take 24 (pw_session w) @ ''-'' @ str_of_nat (pw_sequence w))),
     (''sequence'', PyInt (int (pw_sequence w))), (''observed_at'', PyFloat (Finite t)), (''provider_kind'', PyStr (bk_kind (pw_backend w))),
     (''model'', PyStr (bk_model (pw_backend w))), (''connection_state'', PyStr (pw_state w)),
     (''attestation_scope'', PyStr PROVIDER_ATTESTATION_SCOPE),
     (''provider_response_id'', case pw_response w of None \<Rightarrow> PyNone | Some r \<Rightarrow> PyStr r)]"

definition provider_status_frame :: "crypto \<Rightarrow> pyval \<Rightarrow> bool \<Rightarrow> provider_worker \<Rightarrow> dict res \<times> provider_worker" where
  "provider_status_frame C observed probe w = (let w1 = w\<lparr>pw_sequence := pw_sequence w + 1\<rparr> in
     (case probed (pw_backend w) probe of Inl e \<Rightarrow> (Inl e, w1) | Inr (st, rid) \<Rightarrow>
       let w2 = w1\<lparr>pw_state := st, pw_response := rid\<rparr> in
       (case finite_time observed of Inl e \<Rightarrow> (Inl e, w2) | Inr t \<Rightarrow>
       (case provider_signed_bytes C (status_body w2 t) of Inl e \<Rightarrow> (Inl e, w2)
        | Inr body \<Rightarrow> (Inr (AList.update ''signature'' (PyStr (cr_b64e C (pw_sign w body))) (status_body w2 t)), w2)))))"

definition validate_dispatch_authority :: "provider_worker \<Rightarrow> worker_dispatch \<Rightarrow> unit res" where
  "validate_dispatch_authority w d =
     (if wd_protocol d \<noteq> AF05_PROTOCOL_VERSION then Inl (BlockedError ''unsupported dispatch protocol'')
      else if PyStr (de_worker_id d) \<noteq> tp_worker_id (pw_profile w) \<or> de_session_id d \<noteq> pw_session w
      then Inl (BlockedError ''provider dispatch identity mismatch'')
      else if de_capability d \<notin> set (tp_capabilities (pw_profile w)) \<or> de_target d \<notin> set (tp_targets (pw_profile w))
      then Inl (BlockedError ''provider dispatch capability or target mismatch'') else Inr ())"

text \<open>The entries that an acknowledgement and a result have in common.\<close>

definition worker_body :: "provider_worker \<Rightarrow> string \<Rightarrow> nat \<Rightarrow> worker_dispatch \<Rightarrow> int \<Rightarrow> rat \<Rightarrow> dict" where
  "worker_body w head chars d sequence t = [(''protocol_version'', PyStr AF05_PROTOCOL_VERSION), (''worker_id'', tp_worker_id (pw_profile w)),
     (''key_id'', tp_key_id (pw_profile w)), (''session_id'', PyStr (pw_session w)),
     (''message_id'', PyStr (head @ take chars (de_dispatch_id d) @ ''-'' @ str_of_int sequence)), (''sequence'', PyInt sequence),
     (''observed_at'', PyFloat (Finite t)), (''dispatch_id'', PyStr (de_dispatch_id d)), (''task_id'', PyStr (de_task_id d)),
     (''lease_id'', PyStr (de_lease_id d))]"

definition ack_frame :: "crypto \<Rightarrow> provider_worker \<Rightarrow> worker_dispatch \<Rightarrow> int \<Rightarrow> pyval \<Rightarrow> dict res" where
  "ack_frame C w d sequence observed = (case validate_dispatch_authority w d of Inl e \<Rightarrow> Inl e | Inr _ \<Rightarrow>
     (case finite_time observed of Inl e \<Rightarrow> Inl e | Inr t \<Rightarrow> sign_af05 C w ''ACK'' (worker_body w ''af06-ack-'' 24 d sequence t)))"

text \<open>\<open>sink\<close> stores the evidence in the world; what it raises leaves the world as it left it.\<close>

definition execute_result_frame :: "crypto \<Rightarrow> provider_worker \<Rightarrow> worker_dispatch \<Rightarrow> int \<Rightarrow> pyval
    \<Rightarrow> (string \<Rightarrow> string \<Rightarrow> 'w \<Rightarrow> unit res \<times> 'w) \<Rightarrow> 'w \<Rightarrow> dict res \<times> 'w" where
  "execute_result_frame C w d sequence observed sink s =
     (case validate_dispatch_authority w d of Inl e \<Rightarrow> (Inl e, s) | Inr _ \<Rightarrow>
      if pw_state w \<noteq> PROVIDER_CONNECTED_UNATTESTED then (Inl (BlockedError ''provider not connected''), s) else
     (case bk_execute (pw_backend w) d of Inl e \<Rightarrow> (Inl e, s) | Inr v \<Rightarrow>
     (case sink (pv_evidence_id v) (pv_payload v) s of (Inl e, s1) \<Rightarrow> (Inl e, s1) | (Inr _, s1) \<Rightarrow>
     (case finite_time observed of Inl e \<Rightarrow> (Inl e, s1) | Inr t \<Rightarrow>
       (sign_af05 C w ''RESULT'' (worker_body w ''af06-result-'' 20 d sequence t @ [(''status'', PyStr ''SUCCEEDED''),
          (''evidence_id'', PyStr (pv_evidence_id v)), (''evidence_sha256'', PyStr (pv_sha256 v))]), s1)))))"

end
