(* ===== verification/ProviderClaims.thy ===== *)
theory ProviderClaims
  imports ExternalClaims ProviderGateway
begin

text \<open>
  What the provider-bound gateway adds to the authenticated one: a provider counts as connected on a signed, fresh frame with the
  identifier of a provider's answer, each frame counts once, and the frames of a worker that holds the key are accepted.
\<close>

subsection \<open>An accepted status\<close>

text \<open>The frame is the one that a trusted key signed, and says what the row says.\<close>

definition status_signed :: "crypto \<Rightarrow> VerifiedProfile \<Rightarrow> dict \<Rightarrow> bool" where
  "status_signed C p m \<longleftrightarrow> (\<exists>sig raw body. dget m ''signature'' = PyStr sig \<and> cr_b64 C sig = Some raw
     \<and> provider_signed_bytes C m = Inr body \<and> cr_verify C (vp_key p) raw body)"

definition status_says :: "dict \<Rightarrow> provider_status \<Rightarrow> bool" where
  "status_says m s \<longleftrightarrow> dget m ''worker_id'' = PyStr (ps_worker_id s) \<and> dget m ''key_id'' = PyStr (ps_key_id s)
     \<and> dget m ''session_id'' = PyStr (ps_session_id s) \<and> dget m ''message_id'' = PyStr (ps_message s)
     \<and> dget m ''sequence'' = PyInt (ps_sequence s) \<and> finite_time (dget m ''observed_at'') = Inr (ps_observed s)
     \<and> dget m ''provider_kind'' = PyStr (ps_kind s) \<and> dget m ''model'' = PyStr (ps_model s)
     \<and> dget m ''connection_state'' = PyStr (ps_state s) \<and> dget m ''attestation_scope'' = PyStr (ps_scope s)
     \<and> dget m ''provider_response_id'' = (case ps_response s of None \<Rightarrow> PyNone | Some r \<Rightarrow> PyStr r)"

definition status_fits :: "provider_status \<Rightarrow> bool" where
  "status_fits s \<longleftrightarrow> 0 < ps_sequence s \<and> ps_scope s = PROVIDER_ATTESTATION_SCOPE
     \<and> (ps_kind s = PROVIDER_KIND \<and> ps_model s \<in> set ALLOWED_OPENAI_MODELS \<or> ps_kind s = CODEX_CLI_PROVIDER_KIND \<and> ps_model s = CODEX_CLI_MODEL)
     \<and> ps_state s \<in> {PROVIDER_CONNECTED_UNATTESTED, PROVIDER_NOT_CONNECTED, PROVIDER_UNAVAILABLE}
     \<and> (ps_state s = PROVIDER_CONNECTED_UNATTESTED \<longrightarrow> ps_response s \<noteq> None)"

lemma required_member_D: "required_member v ss why = Inr s \<Longrightarrow> v = PyStr s \<and> s \<in> set ss"
  by (cases v) (auto simp: required_member_def py_member_def split: if_splits)

lemma response_of_D: "response_of v = Inr r \<Longrightarrow> v = (case r of None \<Rightarrow> PyNone | Some s \<Rightarrow> PyStr s)"
  by (cases v) (auto simp: response_of_def ident_of_def split: sum.splits if_splits)

lemma status_ids_D:
  assumes "status_ids m = Inr (wid, key, sid, mid, q, obs)"
  shows "dget m ''worker_id'' = PyStr wid" "dget m ''key_id'' = PyStr key" "dget m ''session_id'' = PyStr sid"
    "dget m ''message_id'' = PyStr mid" "dget m ''sequence'' = PyInt q" "finite_time (dget m ''observed_at'') = Inr obs" "0 < q"
proof -
  have seq: "as_int v = Some i \<longleftrightarrow> v = PyInt i" for v i by (cases v) auto
  from assms show "dget m ''worker_id'' = PyStr wid" "dget m ''key_id'' = PyStr key" "dget m ''session_id'' = PyStr sid"
    "dget m ''message_id'' = PyStr mid" "dget m ''sequence'' = PyInt q" "finite_time (dget m ''observed_at'') = Inr obs" "0 < q"
    by (auto simp: status_ids_def seq split: sum.splits option.splits if_splits dest!: ident_of_Inr)
qed

lemma status_claim_D:
  assumes "status_claim m = Inr (kind, model, st, rid)"
  shows "dget m ''provider_kind'' = PyStr kind" "dget m ''model'' = PyStr model" "dget m ''connection_state'' = PyStr st"
    "dget m ''attestation_scope'' = PyStr PROVIDER_ATTESTATION_SCOPE"
    "dget m ''provider_response_id'' = (case rid of None \<Rightarrow> PyNone | Some r \<Rightarrow> PyStr r)"
    "kind = PROVIDER_KIND \<and> model \<in> set ALLOWED_OPENAI_MODELS \<or> kind = CODEX_CLI_PROVIDER_KIND \<and> model = CODEX_CLI_MODEL"
    "st \<in> {PROVIDER_CONNECTED_UNATTESTED, PROVIDER_NOT_CONNECTED, PROVIDER_UNAVAILABLE}"
    "st = PROVIDER_CONNECTED_UNATTESTED \<Longrightarrow> rid \<noteq> None"
proof -
  have other: "CODEX_CLI_PROVIDER_KIND \<noteq> PROVIDER_KIND" by code_simp
  from assms have k: "required_member (dget m ''provider_kind'') [PROVIDER_KIND, CODEX_CLI_PROVIDER_KIND] ''unsupported provider protocol'' = Inr kind"
    and d: "required_member (dget m ''model'') (if kind = PROVIDER_KIND then ALLOWED_OPENAI_MODELS else [CODEX_CLI_MODEL]) ''unsupported provider model'' = Inr model"
    and s: "required_member (dget m ''connection_state'') [PROVIDER_CONNECTED_UNATTESTED, PROVIDER_NOT_CONNECTED, PROVIDER_UNAVAILABLE] ''forged provider state'' = Inr st"
    and a: "dget m ''attestation_scope'' = PyStr PROVIDER_ATTESTATION_SCOPE" and r: "response_of (dget m ''provider_response_id'') = Inr rid"
    and c: "st = PROVIDER_CONNECTED_UNATTESTED \<Longrightarrow> rid \<noteq> None"
    unfolding status_claim_def by (simp_all split: sum.splits if_splits)
  from required_member_D [OF k] required_member_D [OF d] required_member_D [OF s] response_of_D [OF r] a c other
  show "dget m ''provider_kind'' = PyStr kind" "dget m ''model'' = PyStr model" "dget m ''connection_state'' = PyStr st"
    "dget m ''attestation_scope'' = PyStr PROVIDER_ATTESTATION_SCOPE"
    "dget m ''provider_response_id'' = (case rid of None \<Rightarrow> PyNone | Some r \<Rightarrow> PyStr r)"
    "kind = PROVIDER_KIND \<and> model \<in> set ALLOWED_OPENAI_MODELS \<or> kind = CODEX_CLI_PROVIDER_KIND \<and> model = CODEX_CLI_MODEL"
    "st \<in> {PROVIDER_CONNECTED_UNATTESTED, PROVIDER_NOT_CONNECTED, PROVIDER_UNAVAILABLE}"
    "st = PROVIDER_CONNECTED_UNATTESTED \<Longrightarrow> rid \<noteq> None"
    by (auto split: if_splits)
qed

lemma verify_status_D: "verify_status C p m = Inr () \<Longrightarrow> status_signed C p m"
  by (auto simp: verify_status_def status_signed_def split: pyval.splits option.splits sum.splits if_splits)

lemma checked_status_D:
  assumes "checked_status C now frame b = Inr (s, n)"
  obtains m p where "frame = PyDict m" and "now_of now = Inr n" and "status_says m s" and "status_fits s"
    and "trusted (PyStr (ps_worker_id s)) (br_base b) = Inr p" and "vp_worker_id p = ps_worker_id s" and "ps_key_id s = vp_key_id p"
    and "status_session (ps_worker_id s) (ps_session_id s) (ps_key_id s) (br_base b)"
    and "ps_observed s \<le> n + 1" and "n - ps_observed s \<le> vp_sla p" and "status_signed C p m"
proof -
  obtain m where frame: "frame = PyDict m" using assms by (cases frame) (simp_all add: checked_status_def)
  note run = assms [unfolded frame checked_status_def, simplified pyval.case]
  from run obtain wid key sid mid q obs kind model st rid p where n: "now_of now = Inr n"
    and ids: "status_ids m = Inr (wid, key, sid, mid, q, obs)" and cl: "status_claim m = Inr (kind, model, st, rid)"
    and p: "trusted (PyStr wid) (br_base b) = Inr p" and key: "key = vp_key_id p"
    and ses: "status_session wid sid key (br_base b)" and t: "obs \<le> n + 1" "n - obs \<le> vp_sla p" and v: "verify_status C p m = Inr ()"
    and s: "s = \<lparr>ps_worker_id = wid, ps_session_id = sid, ps_key_id = key, ps_kind = kind, ps_model = model, ps_state = st,
          ps_scope = PROVIDER_ATTESTATION_SCOPE, ps_sequence = q, ps_observed = obs, ps_message = mid, ps_response = rid\<rparr>"
    by (auto split: sum.splits if_splits prod.splits)
  have "vp_worker_id p = wid" using p by (auto elim: trusted_D)
  moreover have "status_says m s" using status_ids_D [OF ids] status_claim_D(1-5) [OF cl] by (simp add: status_says_def s)
  moreover have "status_fits s" using status_ids_D(7) [OF ids] status_claim_D(6-8) [OF cl] by (simp add: status_fits_def s)
  ultimately show thesis using frame n p key ses t verify_status_D [OF v] by (intro that [of m p]) (simp_all add: s)
qed

lemma accept_status_D:
  assumes "accept_provider_status C now frame b d = (r, b')"
  obtains (same) e where "r = Inl e" and "b' = b"
  | (recorded) s n k where "r = Inr ()" and "\<not> db_locked d" and "checked_status C now frame b = Inr (s, n)" and "\<not> status_replayed s b"
      and "pm_id k = ps_message s" and "pm_worker_id k = ps_worker_id s" and "pm_session_id k = ps_session_id s" and "pm_sequence k = ps_sequence s"
      and "b' = b\<lparr>br_messages := br_messages b @ [k], br_status := upsert_status s (br_status b)\<rparr>"
proof (cases r)
  case (Inl e)
  with assms show ?thesis by (intro same) (auto simp: accept_provider_status_def split: sum.splits if_splits)
next
  case (Inr u)
  with assms obtain s n where "checked_status C now frame b = Inr (s, n)" "\<not> db_locked d" "\<not> status_replayed s b"
    "b' = b\<lparr>br_messages := br_messages b @ [\<lparr>pm_id = ps_message s, pm_worker_id = ps_worker_id s, pm_session_id = ps_session_id s,
             pm_sequence = ps_sequence s, pm_accepted_at = n\<rparr>], br_status := upsert_status s (br_status b)\<rparr>"
    by (auto simp: accept_provider_status_def split: sum.splits if_splits prod.splits)
  with Inr show ?thesis by (intro recorded) simp_all
qed

lemma upsert_find: "find (\<lambda>r. ps_worker_id r = w) (upsert_status s rows)
    = (if w = ps_worker_id s then Some s else find (\<lambda>r. ps_worker_id r = w) rows)"
proof (cases "find (\<lambda>r. ps_worker_id r = ps_worker_id s) rows")
  case None
  have "find (\<lambda>r. ps_worker_id r = ps_worker_id s) (rows @ [s]) = Some s"
    using None by (induction rows) (auto split: if_splits)
  moreover have "find (\<lambda>r. ps_worker_id r = w) (rows @ [s]) = find (\<lambda>r. ps_worker_id r = w) rows" if "w \<noteq> ps_worker_id s"
    using that by (induction rows) auto
  ultimately show ?thesis using None by (simp add: upsert_status_def)
next
  case (Some q)
  let ?up = "update_where (\<lambda>r. ps_worker_id r = ps_worker_id s) (\<lambda>_. s) rows"
  have "find (\<lambda>r. ps_worker_id r = ps_worker_id s) ?up = Some s" using Some by (induction rows) (auto split: if_splits)
  moreover have "find (\<lambda>r. ps_worker_id r = w) ?up = find (\<lambda>r. ps_worker_id r = w) rows" if "w \<noteq> ps_worker_id s"
    using that by (induction rows) auto
  ultimately show ?thesis using Some by (simp add: upsert_status_def)
qed

lemma upsert_mem: "r \<in> set (upsert_status s rows) \<Longrightarrow> r = s \<or> r \<in> set rows"
  by (auto simp: upsert_status_def set_update_where split: if_splits)

lemma upsert_keys: "distinct (map ps_worker_id rows) \<Longrightarrow> distinct (map ps_worker_id (upsert_status s rows))"
proof -
  assume d: "distinct (map ps_worker_id rows)"
  have "map ps_worker_id (update_where (\<lambda>r. ps_worker_id r = ps_worker_id s) (\<lambda>_. s) rows) = map ps_worker_id rows"
    by (rule map_update_where_key) simp
  with d show ?thesis using find_None_distinct [of ps_worker_id s rows] by (auto simp: upsert_status_def simp del: map_append)
qed

lemma find_status_accept:
  assumes "b' = b\<lparr>br_messages := ms, br_status := upsert_status s (br_status b)\<rparr>"
  shows "find_status w b' = (if w = ps_worker_id s then Some s else find_status w b)"
  using upsert_find [of w s "br_status b"] by (simp add: find_status_def assms)

text \<open>What the gateway records of a provider is what a trusted key signed: the frame verifies under the key that the authority
  registered for the worker and names the worker's authenticated session, it is fresh and newer than the row it replaces, a
  connection comes with the identifier of a provider's answer, and no other worker's row nor the gateway below changes.\<close>

theorem provider_status_authentic:
  assumes "accept_provider_status C now frame b d = (Inr (), b')"
  shows "\<exists>m s p n. frame = PyDict m \<and> now_of now = Inr n \<and> status_says m s \<and> status_fits s
    \<and> trusted (PyStr (ps_worker_id s)) (br_base b) = Inr p \<and> status_signed C p m \<and> ps_key_id s = vp_key_id p
    \<and> status_session (ps_worker_id s) (ps_session_id s) (ps_key_id s) (br_base b)
    \<and> ps_observed s \<le> n + 1 \<and> n - ps_observed s \<le> vp_sla p
    \<and> find_status (ps_worker_id s) b' = Some s \<and> br_base b' = br_base b
    \<and> (\<forall>w. w \<noteq> ps_worker_id s \<longrightarrow> find_status w b' = find_status w b)
    \<and> (case find_status (ps_worker_id s) b of None \<Rightarrow> True | Some r \<Rightarrow> ps_session_id r = ps_session_id s \<longrightarrow> ps_sequence r < ps_sequence s)"
  using assms
proof (cases rule: accept_status_D)
  case (recorded s n k)
  from recorded(3) obtain m p where c: "frame = PyDict m" "now_of now = Inr n" "status_says m s" "status_fits s"
    "trusted (PyStr (ps_worker_id s)) (br_base b) = Inr p" "vp_worker_id p = ps_worker_id s" "ps_key_id s = vp_key_id p"
    "status_session (ps_worker_id s) (ps_session_id s) (ps_key_id s) (br_base b)"
    "ps_observed s \<le> n + 1" "n - ps_observed s \<le> vp_sla p" "status_signed C p m" by (rule checked_status_D)
  have old: "case find_status (ps_worker_id s) b of None \<Rightarrow> True | Some r \<Rightarrow> ps_session_id r = ps_session_id s \<longrightarrow> ps_sequence r < ps_sequence s"
    using recorded(4) by (auto simp: status_replayed_def split: option.splits)
  have rows: "find_status w b' = (if w = ps_worker_id s then Some s else find_status w b)" for w
    by (rule find_status_accept [OF recorded(9)])
  with c old recorded(9) show ?thesis by (intro exI [of _ m] exI [of _ s] exI [of _ p] exI [of _ n]) simp
qed simp

subsection \<open>Any sequence of operations\<close>

text \<open>
  The operations of the gateway below, restarts included, and accepted frames; each accepted frame is kept with the profile
  that the authority had registered for its worker.
\<close>

inductive bridge_trace :: "crypto \<Rightarrow> (dict \<times> VerifiedProfile) list \<Rightarrow> bridge \<Rightarrow> bool" for C where
  fresh: "ext_inv x \<Longrightarrow> bridge_trace C [] (new_bridge x)"
| gateway: "bridge_trace C fs b \<Longrightarrow> ext_step C (br_base b) x \<Longrightarrow> bridge_trace C fs (b\<lparr>br_base := x\<rparr>)"
| status: "bridge_trace C fs b \<Longrightarrow> accept_provider_status C now (PyDict m) b d = (Inr (), b')
    \<Longrightarrow> trusted (dget m ''worker_id'') (br_base b) = Inr p \<Longrightarrow> bridge_trace C (fs @ [(m, p)]) b'"

definition message_of :: "dict \<times> VerifiedProfile \<Rightarrow> pyval" where
  "message_of f = dget (fst f) ''message_id''"

text \<open>A row of the table is backed by an accepted frame and by its message row.\<close>

definition backed :: "crypto \<Rightarrow> (dict \<times> VerifiedProfile) list \<Rightarrow> provider_message list \<Rightarrow> provider_status \<Rightarrow> bool" where
  "backed C fs ms s \<longleftrightarrow> status_fits s
     \<and> (\<exists>k \<in> set ms. pm_id k = ps_message s \<and> pm_worker_id k = ps_worker_id s \<and> pm_session_id k = ps_session_id s \<and> pm_sequence k = ps_sequence s)
     \<and> (\<exists>m p. (m, p) \<in> set fs \<and> status_says m s \<and> status_signed C p m \<and> vp_worker_id p = ps_worker_id s \<and> vp_key_id p = ps_key_id s)"

lemma backed_more: "backed C fs ms s \<Longrightarrow> backed C (fs @ gs) (ms @ ns) s"
  by (fastforce simp: backed_def)

definition bridge_inv :: "crypto \<Rightarrow> (dict \<times> VerifiedProfile) list \<Rightarrow> bridge \<Rightarrow> bool" where
  "bridge_inv C fs b \<longleftrightarrow> ext_inv (br_base b) \<and> distinct (map ps_worker_id (br_status b)) \<and> distinct (map pm_id (br_messages b))
     \<and> map message_of fs = map (PyStr \<circ> pm_id) (br_messages b) \<and> list_all (backed C fs (br_messages b)) (br_status b)"

lemma trace_inv: "bridge_trace C fs b \<Longrightarrow> bridge_inv C fs b"
proof (induction rule: bridge_trace.induct)
  case (fresh x)
  then show ?case by (simp add: bridge_inv_def new_bridge_def)
next
  case (gateway fs b x)
  then show ?case by (simp add: bridge_inv_def ext_step_inv)
next
  case (status fs b now m d b' p)
  from status(2) show ?case
  proof (cases rule: accept_status_D)
    case (recorded s n k)
    from recorded(3) obtain m' p' where c: "PyDict m = PyDict m'" "status_says m' s" "status_fits s"
      "trusted (PyStr (ps_worker_id s)) (br_base b) = Inr p'" "vp_worker_id p' = ps_worker_id s" "ps_key_id s = vp_key_id p'"
      "status_signed C p' m'" by (rule checked_status_D)
    have m: "m' = m" using c(1) by simp
    have p: "p' = p" using c(2,4) status(3) by (simp add: m status_says_def)
    have "dget m ''message_id'' = PyStr (pm_id k)" using c(2) recorded(5) by (simp add: m status_says_def)
    moreover have "pm_id k \<notin> pm_id ` set (br_messages b)"
      using recorded(4,5) by (auto simp: status_replayed_def seen_provider_message_def)
    moreover have "backed C (fs @ [(m, p)]) (br_messages b @ [k]) s"
      using c m p recorded(5-8) by (auto simp: backed_def)
    moreover have "list_all (backed C (fs @ [(m, p)]) (br_messages b @ [k])) (br_status b)"
      using status.IH by (auto simp: bridge_inv_def list_all_iff intro: backed_more)
    ultimately show ?thesis using status.IH recorded(9) upsert_keys [of "br_status b" s]
      by (auto simp: bridge_inv_def message_of_def list_all_iff dest: upsert_mem)
  qed simp
qed

lemma seen_again:
  assumes "bridge_trace C fs b" and "(m, p) \<in> set fs" and "dget m' ''message_id'' = dget m ''message_id''"
  shows "\<exists>e. accept_provider_status C now (PyDict m') b d = (Inl e, b)"
proof -
  obtain r b' where run: "accept_provider_status C now (PyDict m') b d = (r, b')" by fastforce
  from run show ?thesis
  proof (cases rule: accept_status_D)
    case (recorded s n k)
    from recorded(3) obtain m'' where "PyDict m' = PyDict m''" "status_says m'' s" by (rule checked_status_D)
    then have "dget m ''message_id'' = PyStr (ps_message s)" using assms(3) by (simp add: status_says_def)
    moreover have "message_of (m, p) \<in> set (map message_of fs)" using assms(2) by (simp add: image_eqI)
    then have "message_of (m, p) \<in> set (map (PyStr \<circ> pm_id) (br_messages b))" using trace_inv [OF assms(1)] by (simp only: bridge_inv_def)
    ultimately have "seen_provider_message (ps_message s) b" by (auto simp: message_of_def seen_provider_message_def)
    with recorded(4) show ?thesis by (simp add: status_replayed_def)
  qed (use run in simp)
qed

text \<open>A status frame counts once: over any sequence of operations and restarts the accepted frames have different
  identifiers, and a frame with the identifier of one of them is refused and changes nothing, whoever sends it.\<close>

theorem provider_status_once:
  assumes "bridge_trace C fs b"
  shows "distinct (map message_of fs) \<and> (\<forall>m p m' now d. (m, p) \<in> set fs \<longrightarrow> dget m' ''message_id'' = dget m ''message_id''
    \<longrightarrow> (\<exists>e. accept_provider_status C now (PyDict m') b d = (Inl e, b)))"
proof -
  have "distinct (map (PyStr \<circ> pm_id) (br_messages b))"
    using trace_inv [OF assms] by (auto simp: bridge_inv_def distinct_map inj_on_def)
  with trace_inv [OF assms] seen_again [OF assms] show ?thesis by (simp add: bridge_inv_def)
qed

subsection \<open>Eligible sessions\<close>

lemma filtered_ready:
  "provider_filter n b es = Inr r \<Longrightarrow> (wid, sid) \<in> set r \<Longrightarrow> (wid, sid) \<in> set es
    \<and> (\<exists>p. trusted (PyStr wid) (br_base b) = Inr p \<and> provider_ready n sid p (find_status wid b))"
  by (induction es arbitrary: r) (auto split: sum.splits if_splits)

text \<open>C14. Work goes only to connected providers: a session that the provider-bound gateway offers is one that the gateway below
  offers, and a frame was accepted that was signed with the worker's registered key, names that session, says that the
  provider is connected with the identifier of its answer, claims no attestation, and is within the heartbeat limit.\<close>

theorem eligible_provider_proved:
  assumes "bridge_trace C fs b" and "provider_eligible (Finite n) cap tgt b d = Inr es" and "(wid, sid) \<in> set es"
  shows "(\<exists>es0. external_eligible (Finite n) cap tgt (br_base b) d = Inr es0 \<and> (wid, sid) \<in> set es0)
    \<and> (\<exists>m p s q rid. (m, p) \<in> set fs \<and> status_says m s \<and> status_signed C p m \<and> vp_worker_id p = wid \<and> ps_worker_id s = wid
        \<and> ps_session_id s = sid \<and> ps_state s = PROVIDER_CONNECTED_UNATTESTED \<and> ps_scope s = PROVIDER_ATTESTATION_SCOPE \<and> ps_response s = Some rid
        \<and> trusted (PyStr wid) (br_base b) = Inr q \<and> ps_observed s \<le> n + 1 \<and> n - ps_observed s \<le> vp_sla q)"
proof -
  from assms(2) obtain es0 r where e: "external_eligible (Finite n) cap tgt (br_base b) d = Inr es0"
    and r: "provider_filter n b es0 = Inr r" "es = sort r"
    by (auto simp: provider_eligible_def split: sum.splits if_splits)
  from filtered_ready [OF r(1)] assms(3) r(2) obtain q where mem: "(wid, sid) \<in> set es0" and q: "trusted (PyStr wid) (br_base b) = Inr q"
    and ready: "provider_ready n sid q (find_status wid b)" by auto
  from ready obtain s where s: "find_status wid b = Some s" "ps_session_id s = sid" "ps_state s = PROVIDER_CONNECTED_UNATTESTED"
    "ps_scope s = PROVIDER_ATTESTATION_SCOPE" "n - ps_observed s \<le> vp_sla q" "ps_observed s \<le> n + 1"
    by (auto simp: provider_ready_def split: option.splits)
  from find_Some_mem [OF s(1) [unfolded find_status_def]] have wid: "ps_worker_id s = wid" and "s \<in> set (br_status b)" by auto
  then have "backed C fs (br_messages b) s" using trace_inv [OF assms(1)] by (auto simp: bridge_inv_def list_all_iff)
  with s(3) wid obtain m p rid where "(m, p) \<in> set fs" "status_says m s" "status_signed C p m" "vp_worker_id p = wid" "ps_response s = Some rid"
    by (auto simp: backed_def status_fits_def)
  with e mem q s wid show ?thesis by blast
qed

end
