(* ===== verification/TextLines.thy ===== *)
theory TextLines
  imports Prelude
begin

text \<open>
  The lines and the numbers that the program reads in the output of other programs: \<open>str.splitlines\<close>, the two pieces of
  \<open>split(maxsplit=1)\<close>, and \<open>int\<close> of a text.
\<close>

definition line_end :: "char \<Rightarrow> bool" where
  "line_end c \<longleftrightarrow> ord_of c \<in> {10, 11, 12, 13, 28, 29, 30, 133}"

text \<open>\<open>str.splitlines\<close>; a text that ends in a line end has no last empty line.\<close>

fun split_text :: "string \<Rightarrow> string \<Rightarrow> string list" where
  "split_text [] acc = (if acc = [] then [] else [acc])"
| "split_text (c # cs) acc = (if c = CHR 0x0D then acc # (case cs of
       d # ds \<Rightarrow> if d = CHR 0x0A then split_text ds [] else split_text cs []
     | [] \<Rightarrow> split_text cs [])
   else if line_end c then acc # split_text cs [] else split_text cs (acc @ [c]))"

definition splitlines :: "string \<Rightarrow> string list" where
  "splitlines s = split_text s []"

text \<open>\<open>s.split(maxsplit=1)\<close> of a stripped text: the first word and the rest, when there is a rest.\<close>

definition split_once :: "string \<Rightarrow> (string \<times> string) option" where
  "split_once s = (let w = takeWhile (\<lambda>c. \<not> is_space c) s; r = lstrip (drop (length w) s)
     in if w = [] \<or> r = [] then None else Some (w, r))"

text \<open>\<open>int(s)\<close>: blanks around, a sign, and digits with single underscores between them; the left is \<open>ValueError\<close>.\<close>

fun digits_value :: "string \<Rightarrow> nat \<Rightarrow> nat option" where
  "digits_value [] n = Some n"
| "digits_value (c # cs) n = (if is_digit c then digits_value cs (10 * n + (ord_of c - 48))
     else if c = CHR ''_'' then (case cs of d # ds \<Rightarrow> if is_digit d then digits_value cs n else None | [] \<Rightarrow> None) else None)"

definition unsigned_int :: "string \<Rightarrow> nat option" where
  "unsigned_int s = (case s of [] \<Rightarrow> None | c # cs \<Rightarrow> if is_digit c then digits_value s 0 else None)"

definition int_of_text :: "string \<Rightarrow> int option" where
  "int_of_text s = (case strip s of
      [] \<Rightarrow> None
    | c # cs \<Rightarrow> if c = CHR ''-'' then map_option (\<lambda>n. - int n) (unsigned_int cs)
        else if c = CHR ''+'' then map_option int (unsigned_int cs) else map_option int (unsigned_int (c # cs)))"

end
