(* ===== verification/Codex.thy ===== *)
theory Codex
  imports Provider TextLines
begin

text \<open>
  The backend that runs the Codex command line, \<open>src/autonomy/codex_cli_provider.py\<close>. Paths are texts that the host resolves; a process
  is the host's answer to the arguments, the working directory and the environment it is started with.
\<close>

datatype final_file = NoFile | UnreadableFile | FileBytes string

text \<open>
  How a run ends: not started, killed after its time, not even ended by the kill, or with a code, its two outputs and the file
  it was told to write.
\<close>

datatype codex_run = NotStarted | TimedOut | NotKilled | Exited int string string final_file

record codex_request =
  cq_argv :: "string list"
  cq_dir :: string
  cq_env :: "(string \<times> string) list"
  cq_timeout :: rat

record codex_host =
  hd_resolve :: "string \<Rightarrow> string option"
  hd_absolute :: "string \<Rightarrow> string"
  hd_suffix :: "string \<Rightarrow> string"
  hd_is_file :: "string \<Rightarrow> bool"
  hd_is_dir :: "string \<Rightarrow> bool"
  hd_read :: "string \<Rightarrow> string res"
  hd_environ :: "(string \<times> string) list"
  hd_decode :: "string \<Rightarrow> string option"
  hd_temp :: string
  hd_run :: "codex_request \<Rightarrow> codex_run"

record codex_client =
  cx_executable :: string
  cx_sha256 :: string
  cx_version :: string
  cx_dir :: string
  cx_timeout :: rat
  cx_max_stdout :: nat
  cx_max_stderr :: nat

definition ALLOWED_ENVIRONMENT :: "string list" where
  "ALLOWED_ENVIRONMENT = [''APPDATA'', ''LOCALAPPDATA'', ''PROGRAMDATA'', ''SYSTEMDRIVE'', ''SYSTEMROOT'', ''TEMP'', ''TMP'', ''USERPROFILE'',
     ''WINDIR'', ''PATH'', ''CODEX_HOME'']"

definition bounded_environment :: "codex_host \<Rightarrow> (string \<times> string) list" where
  "bounded_environment h = filter (\<lambda>(name, value). upper name \<in> set ALLOWED_ENVIRONMENT) (hd_environ h)"

subsection \<open>Reading the events\<close>

text \<open>Empty lines are skipped; any other must parse.\<close>

fun parse_events :: "crypto \<Rightarrow> string list \<Rightarrow> pyval list option" where
  "parse_events C [] = Some []"
| "parse_events C (l # ls) = (if strip l = [] then parse_events C ls else
     (case (cr_loads C l, parse_events C ls) of (Some v, Some vs) \<Rightarrow> Some (v # vs) | _ \<Rightarrow> None))"

text \<open>The thread identifiers; an event of a tool is refused.\<close>

definition event_thread :: "dict \<Rightarrow> string list res" where
  "event_thread m = (if dget m ''type'' = PyStr ''thread.started''
     then (case ident_of (dget m ''thread_id'') ''Codex invocation id'' of Inl e \<Rightarrow> Inl e | Inr i \<Rightarrow> Inr [i]) else Inr [])"

definition event_item :: "dict \<Rightarrow> unit res" where
  "event_item m = (case dget m ''item'' of
      PyDict i \<Rightarrow> (case py_member (dget i ''type'') [''agent_message'', ''reasoning''] of
          Inl e \<Rightarrow> Inl e
        | Inr found \<Rightarrow> if found then Inr () else Inl (BlockedError ''Codex tool execution prohibited''))
    | _ \<Rightarrow> Inr ())"

fun read_events :: "pyval list \<Rightarrow> string list res" where
  "read_events [] = Inr []"
| "read_events (PyDict m # es) = (case event_thread m of Inl e \<Rightarrow> Inl e | Inr is \<Rightarrow>
     (case event_item m of Inl e \<Rightarrow> Inl e | Inr _ \<Rightarrow> (case read_events es of Inl e \<Rightarrow> Inl e | Inr js \<Rightarrow> Inr (is @ js))))"
| "read_events (_ # es) = Inl (BlockedError ''Codex event schema invalid'')"

subsection \<open>Running\<close>

definition final_text :: "codex_host \<Rightarrow> final_file \<Rightarrow> string res" where
  "final_text h f = (case f of
      NoFile \<Rightarrow> Inl (BlockedError ''Codex final output unavailable or oversized'')
    | UnreadableFile \<Rightarrow> Inl (BlockedError ''Codex output malformed'')
    | FileBytes b \<Rightarrow> if length b > PROVIDER_EVIDENCE_BYTES div 2 then Inl (BlockedError ''Codex final output unavailable or oversized'')
        else (case hd_decode h b of None \<Rightarrow> Inl (BlockedError ''Codex output malformed'') | Some t \<Rightarrow> Inr (provider_redact (strip t))))"

definition read_run :: "crypto \<Rightarrow> codex_host \<Rightarrow> string \<Rightarrow> final_file \<Rightarrow> ProviderCallResult res" where
  "read_run C h stdout f = (case final_text h f of Inl e \<Rightarrow> Inl e | Inr text \<Rightarrow>
     (case Option.bind (hd_decode h stdout) (\<lambda>s. parse_events C (splitlines s)) of None \<Rightarrow> Inl (BlockedError ''Codex output malformed'')
      | Some events \<Rightarrow> if text = [] then Inl (BlockedError ''Codex returned no bounded text'') else
     (case read_events events of Inl e \<Rightarrow> Inl e | Inr threads \<Rightarrow>
        Inr \<lparr>pc_response_id = (if threads = [] then ''codex-'' @ take 32 (cr_hash C stdout) else last threads),
             pc_model = CODEX_CLI_MODEL, pc_text = text\<rparr>)))"

definition codex_invoke :: "crypto \<Rightarrow> codex_host \<Rightarrow> codex_client \<Rightarrow> string list \<Rightarrow> rat \<Rightarrow> bool \<Rightarrow> ProviderCallResult res" where
  "codex_invoke C h c argv timeout writes =
     (if argv = [] \<or> [] \<in> set argv then Inl (BlockedError ''invalid Codex argv'')
      else (case hd_run h \<lparr>cq_argv = cx_executable c # argv, cq_dir = cx_dir c, cq_env = bounded_environment h, cq_timeout = timeout\<rparr> of
          NotStarted \<Rightarrow> Inl (BlockedError ''Codex invocation unavailable'')
        | TimedOut \<Rightarrow> Inl (BlockedError ''Codex invocation timeout'')
        | NotKilled \<Rightarrow> Inl (PyError ''TimeoutExpired'')
        | Exited code stdout stderr f \<Rightarrow>
            if length stdout > cx_max_stdout c then Inl (BlockedError ''Codex stdout oversized'')
            else if length stderr > cx_max_stderr c then Inl (BlockedError ''Codex stderr oversized'')
            else if code \<noteq> 0 then Inl (BlockedError ''Codex invocation failed'')
            else if \<not> writes then (case hd_decode h stdout of None \<Rightarrow> Inl (BlockedError ''Codex output malformed'')
              | Some t \<Rightarrow> Inr \<lparr>pc_response_id = ''codex-version'', pc_model = CODEX_CLI_MODEL, pc_text = provider_redact (strip t)\<rparr>)
            else read_run C h stdout f))"

text \<open>\<open>final.txt\<close> in a fresh temporary directory.\<close>

definition codex_argv :: "codex_host \<Rightarrow> codex_client \<Rightarrow> string \<Rightarrow> string list" where
  "codex_argv h c prompt = [''--ask-for-approval'', ''never'', ''exec'', ''--sandbox'', ''read-only'', ''--ephemeral'', ''--ignore-user-config'',
     ''--skip-git-repo-check'', ''--json'', ''-C'', cx_dir c, ''--output-last-message'', hd_temp h, prompt]"

definition codex_prompt :: "crypto \<Rightarrow> codex_host \<Rightarrow> codex_client \<Rightarrow> string \<Rightarrow> int \<Rightarrow> ProviderCallResult res" where
  "codex_prompt C h c prompt tokens =
     (if tokens < 1 \<or> 4096 < tokens then Inl (BlockedError ''invalid Codex output token bound'')
      else if prompt = [] \<or> utf8_length prompt > MAX_PROMPT_BYTES then Inl (BlockedError ''invalid Codex prompt'')
      else codex_invoke C h c (codex_argv h c prompt) (cx_timeout c) True)"

definition codex_probe :: "crypto \<Rightarrow> codex_host \<Rightarrow> codex_client \<Rightarrow> ProviderCallResult res" where
  "codex_probe C h c = (case codex_prompt C h c ''Reply with exactly READ_ONLY_PROVIDER_OK. Do not call tools or make external claims.'' 32 of
      Inl e \<Rightarrow> Inl e
    | Inr r \<Rightarrow> if pc_text r \<noteq> ''READ_ONLY_PROVIDER_OK'' then Inl (BlockedError ''Codex connectivity probe mismatch'') else Inr r)"

definition codex_execute :: "crypto \<Rightarrow> codex_host \<Rightarrow> codex_client \<Rightarrow> worker_dispatch \<Rightarrow> ProviderEvidence res" where
  "codex_execute C h c d = (case deterministic_read_only_instruction d of Inl e \<Rightarrow> Inl e | Inr text \<Rightarrow>
     (case codex_prompt C h c text 1024 of Inl e \<Rightarrow> Inl e | Inr r \<Rightarrow>
       seal_evidence C ''af06-codex-'' ''invocation_id'' ''Codex evidence oversized''
         [(''af06_protocol_version'', PyStr AF06_PROTOCOL_VERSION), (''provider_kind'', PyStr CODEX_CLI_PROVIDER_KIND),
          (''connection_scope'', PyStr PROVIDER_CONNECTED_UNATTESTED), (''provider_attestation_scope'', PyStr PROVIDER_ATTESTATION_SCOPE),
          (''codex_executable_sha256'', PyStr (cx_sha256 c)), (''codex_version'', PyStr (cx_version c)), (''provider_invocation_id'', PyStr (pc_response_id r)),
          (''dispatch'', PyDict (dispatch_dict d)), (''output_text'', PyStr (pc_text r))] d r CODEX_CLI_MODEL))"

subsection \<open>The constructor\<close>

definition codex_bound :: "pyval \<Rightarrow> string \<Rightarrow> nat res" where
  "codex_bound v why = (case as_int v of None \<Rightarrow> Inl (BlockedError why)
     | Some b \<Rightarrow> if b < 1024 \<or> int MAX_RESPONSE_BYTES < b then Inl (BlockedError why) else Inr (nat b))"

definition codex_timeout :: "pyval \<Rightarrow> rat res" where
  "codex_timeout v = (case python_float v of Inl e \<Rightarrow> Inl e
     | Inr (Some (Finite t)) \<Rightarrow> if t < 5 \<or> 300 < t then Inl (BlockedError ''invalid Codex timeout'') else Inr t
     | Inr _ \<Rightarrow> Inl (BlockedError ''invalid Codex timeout''))"

text \<open>The executable and the directory: resolved, of the right kind, and without a link on the way.\<close>

definition codex_paths :: "codex_host \<Rightarrow> string \<Rightarrow> string \<Rightarrow> (string \<times> string) res" where
  "codex_paths h executable dir = (case (hd_resolve h executable, hd_resolve h dir) of
      (Some exe, Some wd) \<Rightarrow>
        if \<not> hd_is_file h exe \<or> lower (hd_suffix h exe) \<noteq> ''.exe'' \<or> hd_absolute h executable \<noteq> exe
        then Inl (BlockedError ''Codex executable identity invalid'')
        else if \<not> hd_is_dir h wd then Inl (BlockedError ''Codex working directory invalid'')
        else Inr (exe, wd)
    | _ \<Rightarrow> Inl (BlockedError ''Codex executable or working directory unavailable''))"

definition new_codex_client :: "crypto \<Rightarrow> codex_host \<Rightarrow> string \<Rightarrow> string \<Rightarrow> string \<Rightarrow> string \<Rightarrow> pyval \<Rightarrow> pyval \<Rightarrow> pyval \<Rightarrow> codex_client res" where
  "new_codex_client C h executable sha version dir timeout max_out max_err =
     (case codex_paths h executable dir of Inl e \<Rightarrow> Inl e | Inr (exe, wd) \<Rightarrow>
      if \<not> (length sha = 64 \<and> list_all is_lower_hex sha) then Inl (BlockedError ''Codex executable digest invalid'') else
     (case hd_read h exe of Inl e \<Rightarrow> Inl e | Inr bytes \<Rightarrow>
      if cr_hash C bytes \<noteq> sha then Inl (BlockedError ''Codex executable digest mismatch'')
      else if \<not> prefix ''codex-cli '' version then Inl (BlockedError ''Codex version expectation invalid'') else
     (case codex_timeout timeout of Inl e \<Rightarrow> Inl e | Inr t \<Rightarrow>
     (case codex_bound max_out ''invalid Codex stdout bound'' of Inl e \<Rightarrow> Inl e | Inr mo \<Rightarrow>
     (case codex_bound max_err ''invalid Codex stderr bound'' of Inl e \<Rightarrow> Inl e | Inr me \<Rightarrow>
      let c = \<lparr>cx_executable = exe, cx_sha256 = sha, cx_version = version, cx_dir = wd, cx_timeout = t, cx_max_stdout = mo, cx_max_stderr = me\<rparr> in
     (case codex_invoke C h c [''--version''] 10 False of Inl e \<Rightarrow> Inl e | Inr r \<Rightarrow>
      if strip (pc_text r) \<noteq> version then Inl (BlockedError ''Codex executable version mismatch'') else Inr c))))))"

end
