(* ===== verification/ProviderWorker.thy ===== *)
theory ProviderWorker
  imports ProviderClaims Codex
begin

text \<open>
  The worker's side: what its backends promise, and that the frames it signs are the frames the gateway accepts.
\<close>

subsection \<open>The backends\<close>

definition codex_backend :: "crypto \<Rightarrow> codex_host \<Rightarrow> codex_client \<Rightarrow> backend" where
  "codex_backend C h c = \<lparr>bk_kind = CODEX_CLI_PROVIDER_KIND, bk_model = CODEX_CLI_MODEL, bk_configured = True, bk_probe = codex_probe C h c,
     bk_execute = codex_execute C h c\<rparr>"

text \<open>The digest is 64 lowercase hexadecimal digits, as \<open>hexdigest\<close> of SHA-256 is.\<close>

definition hex_digest :: "crypto \<Rightarrow> bool" where
  "hex_digest C \<longleftrightarrow> (\<forall>s. length (cr_hash C s) = 64 \<and> list_all is_lower_hex (cr_hash C s))"

definition evidence_sealed :: "crypto \<Rightarrow> worker_dispatch \<Rightarrow> ProviderEvidence \<Rightarrow> bool" where
  "evidence_sealed C d v \<longleftrightarrow> wd_protocol d = AF05_PROTOCOL_VERSION \<and> de_capability d \<in> set ALLOWED_CAPABILITIES
     \<and> length (pv_payload v) \<le> PROVIDER_EVIDENCE_BYTES \<and> pv_sha256 v = cr_hash C (pv_payload v)
     \<and> (\<exists>m. canonical_json C (PyDict m) = Inr (pv_payload v) \<and> dget m ''dispatch'' = PyDict (dispatch_dict d)
          \<and> dget m ''connection_scope'' = PyStr PROVIDER_CONNECTED_UNATTESTED)
     \<and> pv_scope v = PROVIDER_CONNECTED_UNATTESTED \<and> (hex_digest C \<longrightarrow> is_identifier (pv_evidence_id v))"

definition text_bounded :: "ProviderCallResult \<Rightarrow> bool" where
  "text_bounded r \<longleftrightarrow> pc_text r \<noteq> [] \<and> utf8_length (pc_text r) \<le> PROVIDER_EVIDENCE_BYTES div 2"

locale provider_backend =
  fixes C :: crypto and back_end :: backend
  assumes proof_id: "hex_digest C \<Longrightarrow> bk_probe back_end = Inr r \<Longrightarrow> is_identifier (pc_response_id r)"
    and sealed: "bk_execute back_end d = Inr v \<Longrightarrow> evidence_sealed C d v"

lemma hex_chars: "is_lower_hex c \<Longrightarrow> ident_char c"
  by (auto simp: is_lower_hex_def ident_char_def is_alnum_def is_lower_def)

lemma hex_identifier:
  assumes "hex_digest C" and "is_identifier (head)" and "length head + k \<le> 128"
  shows "is_identifier (head @ take k (cr_hash C s))"
proof -
  have "list_all ident_char (take k (cr_hash C s))"
    using assms(1) by (auto simp: hex_digest_def list_all_iff dest!: in_set_takeD intro: hex_chars)
  with assms(2,3) show ?thesis by (cases head) (auto simp: min_def)
qed

lemma instruction_D: "deterministic_read_only_instruction d = Inr t \<Longrightarrow> wd_protocol d = AF05_PROTOCOL_VERSION
    \<and> de_capability d \<in> set ALLOWED_CAPABILITIES \<and> is_identifier (de_target d) \<and> is_identifier (de_task_id d) \<and> is_identifier (de_capability d)
    \<and> t = instruction_text (de_task_id d) (de_target d) (de_capability d)"
  by (auto simp: deterministic_read_only_instruction_def Let_def split: if_splits sum.splits dest!: ident_of_Inr)

lemma seal_D:
  assumes "seal_evidence C head key why m d r model = Inr v" and "wd_protocol d = AF05_PROTOCOL_VERSION" and "de_capability d \<in> set ALLOWED_CAPABILITIES"
    and "dget m ''dispatch'' = PyDict (dispatch_dict d)" and "dget m ''connection_scope'' = PyStr PROVIDER_CONNECTED_UNATTESTED"
    and "is_identifier head" and "length head \<le> 80"
  shows "evidence_sealed C d v"
proof -
  from assms(1) obtain payload name where p: "canonical_json C (PyDict m) = Inr payload" "length payload \<le> PROVIDER_EVIDENCE_BYTES"
    and v: "v = \<lparr>pv_evidence_id = head @ take 48 (cr_hash C name), pv_sha256 = cr_hash C payload, pv_payload = payload,
        pv_response_id = pc_response_id r, pv_requested_model = model, pv_reported_model = pc_model r, pv_scope = PROVIDER_CONNECTED_UNATTESTED\<rparr>"
    by (auto simp: seal_evidence_def split: sum.splits if_splits)
  have "is_identifier (pv_evidence_id v)" if "hex_digest C"
    using hex_identifier [OF that assms(6), of 48 name] assms(7) by (simp add: v)
  with p assms(2-5) show ?thesis by (auto simp: evidence_sealed_def v)
qed

lemma openai_sealed: "openai_execute C c d = Inr v \<Longrightarrow> evidence_sealed C d v"
proof -
  assume run: "openai_execute C c d = Inr v"
  from run obtain t r where t: "deterministic_read_only_instruction d = Inr t"
    and s: "seal_evidence C ''af06-'' ''response_id'' ''provider evidence oversized''
         [(''af06_protocol_version'', PyStr AF06_PROTOCOL_VERSION), (''provider_kind'', PyStr PROVIDER_KIND),
          (''connection_scope'', PyStr PROVIDER_CONNECTED_UNATTESTED), (''provider_attestation_scope'', PyStr PROVIDER_ATTESTATION_SCOPE),
          (''requested_model'', PyStr (oc_model c)), (''reported_model'', PyStr (pc_model r)), (''provider_response_id'', PyStr (pc_response_id r)),
          (''dispatch'', PyDict (dispatch_dict d)), (''output_text'', PyStr (pc_text r))] d r (oc_model c) = Inr v"
    unfolding openai_execute_def by (auto split: sum.splits)
  have "is_identifier ''af06-''" by code_simp
  with instruction_D [OF t] show ?thesis by (intro seal_D [OF s]) (simp_all add: dget_def)
qed

lemma codex_sealed: "codex_execute C h c d = Inr v \<Longrightarrow> evidence_sealed C d v"
proof -
  assume run: "codex_execute C h c d = Inr v"
  from run obtain t r where t: "deterministic_read_only_instruction d = Inr t"
    and s: "seal_evidence C ''af06-codex-'' ''invocation_id'' ''Codex evidence oversized''
         [(''af06_protocol_version'', PyStr AF06_PROTOCOL_VERSION), (''provider_kind'', PyStr CODEX_CLI_PROVIDER_KIND),
          (''connection_scope'', PyStr PROVIDER_CONNECTED_UNATTESTED), (''provider_attestation_scope'', PyStr PROVIDER_ATTESTATION_SCOPE),
          (''codex_executable_sha256'', PyStr (cx_sha256 c)), (''codex_version'', PyStr (cx_version c)), (''provider_invocation_id'', PyStr (pc_response_id r)),
          (''dispatch'', PyDict (dispatch_dict d)), (''output_text'', PyStr (pc_text r))] d r CODEX_CLI_MODEL = Inr v"
    unfolding codex_execute_def by (auto split: sum.splits)
  have "is_identifier ''af06-codex-''" by code_simp
  with instruction_D [OF t] show ?thesis by (intro seal_D [OF s]) (simp_all add: dget_def)
qed

lemma read_answer_D: "read_answer model v = Inr r \<Longrightarrow> is_identifier (pc_response_id r) \<and> pc_model r = model \<and> text_bounded r"
  by (auto simp: read_answer_def text_bounded_def Let_def split: pyval.splits if_splits sum.splits dest!: ident_of_Inr)

lemma openai_call_D: "openai_call C c t k = Inr r \<Longrightarrow> is_identifier (pc_response_id r) \<and> pc_model r = oc_model c \<and> text_bounded r"
  by (auto simp: openai_call_def split: if_splits sum.splits pyval.splits option.splits dest!: read_answer_D)

lemma threads_identifiers: "read_events es = Inr js \<Longrightarrow> list_all is_identifier js"
  by (induction es arbitrary: js rule: read_events.induct) (auto simp: event_thread_def split: sum.splits if_splits dest!: ident_of_Inr)

lemma read_run_D:
  assumes "read_run C h out f = Inr r" and "hex_digest C"
  shows "is_identifier (pc_response_id r)"
proof -
  from assms(1) obtain es js where e: "read_events es = Inr js" and r: "pc_response_id r = (if js = [] then ''codex-'' @ take 32 (cr_hash C out) else last js)"
    by (auto simp: read_run_def split: sum.splits option.splits if_splits)
  have "is_identifier ''codex-''" by code_simp
  then have new: "is_identifier (''codex-'' @ take 32 (cr_hash C out))" by (rule hex_identifier [OF assms(2)]) simp
  show ?thesis
  proof (cases "js = []")
    case True
    with new r show ?thesis by (simp only: simp_thms if_True)
  next
    case False
    then have "last js \<in> set js" by simp
    with False threads_identifiers [OF e] show ?thesis by (simp only: r list_all_iff if_False)
  qed
qed

lemma codex_invoke_D: "codex_invoke C h c argv t True = Inr r \<Longrightarrow> hex_digest C \<Longrightarrow> is_identifier (pc_response_id r)"
  by (auto simp: codex_invoke_def split: if_splits codex_run.splits dest: read_run_D)

lemma codex_probe_D: "codex_probe C h c = Inr r \<Longrightarrow> hex_digest C \<Longrightarrow> is_identifier (pc_response_id r)"
  by (auto simp: codex_probe_def codex_prompt_def split: sum.splits if_splits dest: codex_invoke_D)

interpretation codex: provider_backend C "codex_backend C h c" for C h c
  by unfold_locales (auto simp: codex_backend_def codex_probe_D codex_sealed)

interpretation openai: provider_backend C "openai_backend C c" for C c
  by unfold_locales (auto simp: openai_backend_def openai_probe_def openai_sealed dest: openai_call_D)

text \<open>What a status frame may say of a backend.\<close>

definition kind_allowed :: "backend \<Rightarrow> bool" where
  "kind_allowed k \<longleftrightarrow> bk_kind k = PROVIDER_KIND \<and> bk_model k \<in> set ALLOWED_OPENAI_MODELS
     \<or> bk_kind k = CODEX_CLI_PROVIDER_KIND \<and> bk_model k = CODEX_CLI_MODEL"

lemma openai_kind: "new_openai_client model ep t b key net tr = Inr c \<Longrightarrow> kind_allowed (openai_backend C c)"
  by (auto simp: new_openai_client_def kind_allowed_def openai_backend_def split: if_splits sum.splits option.splits pyfloat.splits)

lemma codex_kind: "kind_allowed (codex_backend C h c)"
  by (simp add: kind_allowed_def codex_backend_def)

subsection \<open>Identifiers of the frames\<close>

lemma str_of_nat_digits: "list_all ident_char (str_of_nat n)"
proof (induction n rule: str_of_nat.induct)
  case (1 n)
  have digit: "ident_char (char_of (48 + k))" if "k < 10" for k :: nat
    using that by (auto simp: ident_char_def is_alnum_def is_digit_def)
  show ?case
  proof (cases "n < 10")
    case True
    then show ?thesis by (subst str_of_nat.simps) (simp add: digit)
  next
    case False
    with 1 show ?thesis by (subst str_of_nat.simps) (simp add: digit)
  qed
qed

lemma str_of_nat_length: "n < 10 ^ k \<Longrightarrow> 0 < k \<Longrightarrow> length (str_of_nat n) \<le> k"
proof (induction k arbitrary: n)
  case (Suc k)
  show ?case
  proof (cases "n < 10")
    case True
    then show ?thesis by (subst str_of_nat.simps) simp
  next
    case False
    with Suc.prems(1) have "0 < k" by (cases k) auto
    moreover have "n div 10 < 10 ^ k" using Suc.prems(1) by (simp add: less_mult_imp_div_less mult.commute)
    ultimately show ?thesis using Suc.IH [of "n div 10"] False by (subst str_of_nat.simps) simp
  qed
qed simp

lemma frame_identifier:
  assumes "is_identifier head" and "list_all ident_char s" and "n < 2 ^ 63" and "length head + k \<le> 108"
  shows "is_identifier (head @ take k s @ ''-'' @ str_of_nat n)"
proof -
  have "length (str_of_nat n) \<le> 19" using assms(3) by (intro str_of_nat_length) simp_all
  moreover have "list_all ident_char (take k s)" using assms(2) by (auto simp: list_all_iff dest: in_set_takeD)
  moreover have "ident_char (CHR ''-'')" by code_simp
  ultimately show ?thesis using assms(1,4) str_of_nat_digits [of n] by (cases head) (auto simp: min_def)
qed

subsection \<open>Signed frames verify\<close>

text \<open>Base64 decodes what it encoded, and the worker's key is the one the authority registered.\<close>

definition signs_for :: "crypto \<Rightarrow> provider_worker \<Rightarrow> VerifiedProfile \<Rightarrow> bool" where
  "signs_for C w p \<longleftrightarrow> (\<forall>s. cr_b64 C (cr_b64e C s) = Some s) \<and> (\<forall>b. cr_verify C (vp_key p) (pw_sign w b) b)
     \<and> tp_worker_id (pw_profile w) = PyStr (vp_worker_id p) \<and> tp_key_id (pw_profile w) = PyStr (vp_key_id p)
     \<and> is_identifier (vp_worker_id p) \<and> is_identifier (vp_key_id p) \<and> is_identifier (pw_session w)"

lemma unsigned_update: "filter (\<lambda>(k, v). k \<noteq> a) (AList.update a v m) = filter (\<lambda>(k, v). k \<noteq> a) m"
  by (induction m) auto

lemma dget_signed: "dget (AList.update a v m) k = (if k = a then v else dget m k)"
  by (simp add: dget_def update_conv')

lemma keys_signed: "fst ` set (AList.update a v m) = insert a (fst ` set m)"
  by (simp add: dom_update)

lemma status_verifies:
  assumes "provider_signed_bytes C m = Inr body" and "signs_for C w p"
  shows "verify_status C p (AList.update ''signature'' (PyStr (cr_b64e C (pw_sign w body))) m) = Inr ()"
  using assms by (simp add: verify_status_def dget_signed provider_signed_bytes_def unsigned_update signs_for_def split: sum.splits)

lemma af05_verifies:
  assumes "sign_af05 C w domain m = Inr f" and "signs_for C w p"
  shows "verify_frame C p domain f = Inr ()" and "k \<noteq> ''signature'' \<Longrightarrow> dget f k = dget m k" and "set (map fst f) = insert ''signature'' (set (map fst m))"
proof -
  from assms(1) obtain body where b: "signed_bytes C (DOMAIN_PREFIX @ domain) m = Inr body"
    and f: "f = AList.update ''signature'' (PyStr (cr_b64e C (pw_sign w body))) m" by (auto simp: sign_af05_def split: sum.splits)
  have "signed_bytes C (DOMAIN_PREFIX @ domain) f = Inr body" using b by (simp add: signed_bytes_def unsigned_update f)
  then show "verify_frame C p domain f = Inr ()" using assms(2) by (simp add: verify_frame_def signs_for_def f dget_signed)
  show "k \<noteq> ''signature'' \<Longrightarrow> dget f k = dget m k" by (simp add: f dget_signed)
  show "set (map fst f) = insert ''signature'' (set (map fst m))" by (simp add: f keys_signed)
qed

text \<open>The connection a status frame reports.\<close>

context provider_backend
begin

lemma probed_proof:
  assumes "probed back_end pr = Inr (st, rid)" and "hex_digest C"
  shows "(st = PROVIDER_CONNECTED_UNATTESTED \<and> (\<exists>i. rid = Some i \<and> is_identifier i)) \<or> (st \<in> {PROVIDER_NOT_CONNECTED, PROVIDER_UNAVAILABLE} \<and> rid = None)"
  using assms proof_id by (auto simp: probed_def split: if_splits sum.splits)

end

lemma known_probed:
  assumes "pw_backend w = openai_backend C c \<or> pw_backend w = codex_backend C h x" and "probed (pw_backend w) pr = Inr (st, rid)" and "hex_digest C"
  shows "(st = PROVIDER_CONNECTED_UNATTESTED \<and> (\<exists>i. rid = Some i \<and> is_identifier i)) \<or> (st \<in> {PROVIDER_NOT_CONNECTED, PROVIDER_UNAVAILABLE} \<and> rid = None)"
  using assms openai.probed_proof [of C c pr st rid] codex.probed_proof [of C h x pr st rid] by auto

lemma states_differ: "PROVIDER_NOT_CONNECTED \<noteq> PROVIDER_CONNECTED_UNATTESTED" "PROVIDER_UNAVAILABLE \<noteq> PROVIDER_CONNECTED_UNATTESTED"
    "CODEX_CLI_PROVIDER_KIND \<noteq> PROVIDER_KIND"
  by code_simp+

lemma frame_D:
  assumes "provider_status_frame C observed pr w = (Inr m, w')"
  obtains st rid t body where "probed (pw_backend w) pr = Inr (st, rid)" and "finite_time observed = Inr t"
    and "w' = w\<lparr>pw_sequence := pw_sequence w + 1, pw_state := st, pw_response := rid\<rparr>"
    and "provider_signed_bytes C (status_body w' t) = Inr body"
    and "m = AList.update ''signature'' (PyStr (cr_b64e C (pw_sign w' body))) (status_body w' t)"
  using assms by (auto simp: provider_status_frame_def Let_def split: sum.splits prod.splits)

text \<open>The entries of a status frame, read by the gateway.\<close>

lemma finite_time_again: "finite_time v = Inr t \<Longrightarrow> finite_time (PyFloat (Finite t)) = Inr t"
  by (auto simp: finite_time_def python_float_def split: sum.splits option.splits pyfloat.splits if_splits)

lemma body_gets:
  "dget (status_body w t) ''protocol_version'' = PyStr AF06_PROTOCOL_VERSION" "dget (status_body w t) ''worker_id'' = tp_worker_id (pw_profile w)"
  "dget (status_body w t) ''key_id'' = tp_key_id (pw_profile w)" "dget (status_body w t) ''session_id'' = PyStr (pw_session w)"
  "dget (status_body w t) ''message_id'' = PyStr (''af06-provider-'' @ take 24 (pw_session w) @ ''-'' @ str_of_nat (pw_sequence w))"
  "dget (status_body w t) ''sequence'' = PyInt (int (pw_sequence w))" "dget (status_body w t) ''observed_at'' = PyFloat (Finite t)"
  "dget (status_body w t) ''provider_kind'' = PyStr (bk_kind (pw_backend w))" "dget (status_body w t) ''model'' = PyStr (bk_model (pw_backend w))"
  "dget (status_body w t) ''connection_state'' = PyStr (pw_state w)" "dget (status_body w t) ''attestation_scope'' = PyStr PROVIDER_ATTESTATION_SCOPE"
  "dget (status_body w t) ''provider_response_id'' = (case pw_response w of None \<Rightarrow> PyNone | Some r \<Rightarrow> PyStr r)"
  "fst ` set (status_body w t) = set status_keys - {''signature''}"
  by (simp_all add: status_body_def dget_def status_keys_def) (auto simp: insert_Diff_if)

definition row_of :: "provider_worker \<Rightarrow> string \<Rightarrow> string \<Rightarrow> rat \<Rightarrow> provider_status" where
  "row_of w wid key t = \<lparr>ps_worker_id = wid, ps_session_id = pw_session w, ps_key_id = key, ps_kind = bk_kind (pw_backend w),
     ps_model = bk_model (pw_backend w), ps_state = pw_state w, ps_scope = PROVIDER_ATTESTATION_SCOPE, ps_sequence = int (pw_sequence w),
     ps_observed = t, ps_message = ''af06-provider-'' @ take 24 (pw_session w) @ ''-'' @ str_of_nat (pw_sequence w), ps_response = pw_response w\<rparr>"

lemma claim_of_body:
  assumes "kind_allowed (pw_backend w)" and "\<And>k. k \<noteq> ''signature'' \<Longrightarrow> dget m k = dget (status_body w t) k"
    and "(pw_state w = PROVIDER_CONNECTED_UNATTESTED \<and> (\<exists>i. pw_response w = Some i \<and> is_identifier i))
      \<or> (pw_state w \<in> {PROVIDER_NOT_CONNECTED, PROVIDER_UNAVAILABLE} \<and> pw_response w = None)"
  shows "status_claim m = Inr (bk_kind (pw_backend w), bk_model (pw_backend w), pw_state w, pw_response w)"
proof -
  have member: "required_member (PyStr s) ss why = Inr s" if "s \<in> set ss" for s ss why
    using that by (simp add: required_member_def py_member_def)
  have rid: "response_of (case pw_response w of None \<Rightarrow> PyNone | Some r \<Rightarrow> PyStr r) = Inr (pw_response w)"
    using assms(3) by (auto simp: response_of_def ident_of_def)
  have kind: "required_member (PyStr (bk_kind (pw_backend w))) [PROVIDER_KIND, CODEX_CLI_PROVIDER_KIND] why = Inr (bk_kind (pw_backend w))"
    "required_member (PyStr (bk_model (pw_backend w))) (if bk_kind (pw_backend w) = PROVIDER_KIND then ALLOWED_OPENAI_MODELS else [CODEX_CLI_MODEL]) why
      = Inr (bk_model (pw_backend w))" for why
    using assms(1) states_differ(3) by (auto simp: kind_allowed_def intro!: member)
  have state: "required_member (PyStr (pw_state w)) [PROVIDER_CONNECTED_UNATTESTED, PROVIDER_NOT_CONNECTED, PROVIDER_UNAVAILABLE] why = Inr (pw_state w)" for why
    using assms(3) by (intro member) auto
  have proof_there: "\<not> (pw_state w = PROVIDER_CONNECTED_UNATTESTED \<and> pw_response w = None)" using assms(3) states_differ by auto
  show ?thesis unfolding status_claim_def assms(2) [of "''protocol_version''", simplified] assms(2) [of "''provider_kind''", simplified]
      assms(2) [of "''model''", simplified] assms(2) [of "''connection_state''", simplified] assms(2) [of "''attestation_scope''", simplified]
      assms(2) [of "''provider_response_id''", simplified] body_gets
    using proof_there by (simp add: kind state rid)
qed

lemma ids_of_body:
  assumes "\<And>k. k \<noteq> ''signature'' \<Longrightarrow> dget m k = dget (status_body w t) k" and "signs_for C w p" and "finite_time v = Inr t"
    and "0 < pw_sequence w" and "pw_sequence w < 2 ^ 63"
  shows "status_ids m = Inr (vp_worker_id p, vp_key_id p, pw_session w, ''af06-provider-'' @ take 24 (pw_session w) @ ''-'' @ str_of_nat (pw_sequence w),
    int (pw_sequence w), t)"
proof -
  have "is_identifier ''af06-provider-''" by code_simp
  then have mid: "is_identifier (''af06-provider-'' @ take 24 (pw_session w) @ ''-'' @ str_of_nat (pw_sequence w))"
    using assms(2,5) by (intro frame_identifier) (simp_all add: signs_for_def is_identifier_chars)
  have ids: "ident_of (PyStr s) l = Inr s" if "is_identifier s" for s l using that by (simp add: ident_of_def)
  from assms(2) have who: "is_identifier (vp_worker_id p)" "is_identifier (vp_key_id p)" "is_identifier (pw_session w)"
    "tp_worker_id (pw_profile w) = PyStr (vp_worker_id p)" "tp_key_id (pw_profile w) = PyStr (vp_key_id p)" by (simp_all add: signs_for_def)
  show ?thesis unfolding status_ids_def assms(1) [of "''worker_id''", simplified] assms(1) [of "''key_id''", simplified]
      assms(1) [of "''session_id''", simplified] assms(1) [of "''message_id''", simplified] assms(1) [of "''sequence''", simplified]
      assms(1) [of "''observed_at''", simplified] body_gets who(4,5)
    by (simp only: ids [OF who(1)] ids [OF who(2)] ids [OF who(3)] ids [OF mid] finite_time_again [OF assms(3)] sum.case as_int.simps option.case)
      (simp add: assms(4))
qed

lemma frame_checked:
  assumes "provider_status_frame C observed pr w = (Inr m, w')" and "pw_backend w = openai_backend C c \<or> pw_backend w = codex_backend C h y"
    and "kind_allowed (pw_backend w)" and "hex_digest C" and "signs_for C w p" and "trusted (PyStr (vp_worker_id p)) (br_base b) = Inr p"
    and "status_session (vp_worker_id p) (pw_session w) (vp_key_id p) (br_base b)" and "finite_time observed = Inr t"
    and "0 \<le> n" and "t \<le> n + 1" and "n - t \<le> vp_sla p" and "pw_sequence w + 1 < 2 ^ 63"
  shows "checked_status C (Finite n) (PyDict m) b = Inr (row_of w' (vp_worker_id p) (vp_key_id p) t, n)"
proof -
  from assms(1) obtain st rid t' body where f: "probed (pw_backend w) pr = Inr (st, rid)" "finite_time observed = Inr t'"
    "w' = w\<lparr>pw_sequence := pw_sequence w + 1, pw_state := st, pw_response := rid\<rparr>"
    "provider_signed_bytes C (status_body w' t') = Inr body"
    "m = AList.update ''signature'' (PyStr (cr_b64e C (pw_sign w' body))) (status_body w' t')" by (rule frame_D)
  have t: "t' = t" using f(2) assms(8) by simp
  have gets: "dget m k = dget (status_body w' t) k" if "k \<noteq> ''signature''" for k using that by (simp add: f(5) t dget_signed)
  have w': "pw_backend w' = pw_backend w" "pw_session w' = pw_session w" "pw_sequence w' = pw_sequence w + 1" "pw_state w' = st" "pw_response w' = rid"
    "signs_for C w' p" using assms(5) by (simp_all add: f(3) signs_for_def)
  have claim: "status_claim m = Inr (bk_kind (pw_backend w'), bk_model (pw_backend w'), pw_state w', pw_response w')"
    using assms(3) known_probed [OF assms(2) f(1) assms(4)] by (intro claim_of_body [of w' m t] gets) (simp_all add: w')
  have ids: "status_ids m = Inr (vp_worker_id p, vp_key_id p, pw_session w', ''af06-provider-'' @ take 24 (pw_session w') @ ''-'' @ str_of_nat (pw_sequence w'),
      int (pw_sequence w'), t)"
    using assms(8,12) by (intro ids_of_body [OF gets w'(6)]) (simp_all add: w')
  have keys: "has_keys status_keys m" using body_gets(13) [of w' t] by (auto simp: has_keys_def f(5) t keys_signed status_keys_def)
  have "verify_status C p m = Inr ()" using status_verifies [OF f(4) w'(6)] by (simp add: f(5))
  with keys ids claim assms(6,7,9-11) show ?thesis by (simp add: checked_status_def row_of_def w'(2))
qed

text \<open>C27. The worker's status reaches the gateway, under these conditions: the worker has one of the two backends and signs with the
  registered key of a trusted profile, its session is the live one, the frame is in time, the database is free, and the row it asks for is
  not a replay: its sequence is above the stored one of the same session, and its message identifier, made of the first 24 characters of
  the session and the sequence, was not seen before. (Two sessions that share those characters collide:
  \<open>session_prefix_collides\<close>.) Then the frame is accepted, the row is what the worker holds, and if the worker is
  connected and the gateway below offers its session, so does this one.\<close>

theorem worker_status_accepted:
  assumes "provider_status_frame C observed pr w = (Inr m, w')" and "pw_backend w = openai_backend C c \<or> pw_backend w = codex_backend C h y"
    and "kind_allowed (pw_backend w)" and "hex_digest C" and "signs_for C w p" and "trusted (PyStr (vp_worker_id p)) (br_base b) = Inr p"
    and "status_session (vp_worker_id p) (pw_session w) (vp_key_id p) (br_base b)" and "finite_time observed = Inr t"
    and "0 \<le> n" and "t \<le> n + 1" and "n - t \<le> vp_sla p" and "pw_sequence w + 1 < 2 ^ 63" and "\<not> db_locked d"
    and "\<not> status_replayed (row_of w' (vp_worker_id p) (vp_key_id p) t) b"
  shows "\<exists>b'. accept_provider_status C (Finite n) (PyDict m) b d = (Inr (), b') \<and> br_base b' = br_base b
    \<and> find_status (vp_worker_id p) b' = Some (row_of w' (vp_worker_id p) (vp_key_id p) t)
    \<and> (\<forall>cap tgt es0 es. pw_state w' = PROVIDER_CONNECTED_UNATTESTED \<longrightarrow> external_eligible (Finite n) cap tgt (br_base b) d = Inr es0
        \<longrightarrow> (vp_worker_id p, pw_session w) \<in> set es0 \<longrightarrow> provider_eligible (Finite n) cap tgt b' d = Inr es
        \<longrightarrow> (vp_worker_id p, pw_session w) \<in> set es)"
proof -
  let ?s = "row_of w' (vp_worker_id p) (vp_key_id p) t"
  have checked: "checked_status C (Finite n) (PyDict m) b = Inr (?s, n)" by (rule frame_checked [OF assms(1-12)])
  have seq: "ps_sequence ?s < 2 ^ 63" and ses: "pw_session w' = pw_session w"
    using assms(1,12) by (auto simp: row_of_def elim!: frame_D)
  obtain b' where b': "b' = b\<lparr>br_messages := br_messages b @ [\<lparr>pm_id = ps_message ?s, pm_worker_id = ps_worker_id ?s, pm_session_id = ps_session_id ?s,
      pm_sequence = ps_sequence ?s, pm_accepted_at = n\<rparr>], br_status := upsert_status ?s (br_status b)\<rparr>" by blast
  have acc: "accept_provider_status C (Finite n) (PyDict m) b d = (Inr (), b')"
    using checked seq assms(13,14) by (simp add: accept_provider_status_def b')
  have found: "find_status (vp_worker_id p) b' = Some ?s"
    using find_status_accept [OF b', of "vp_worker_id p"] by (simp add: row_of_def)
  have ready: "provider_ready n (pw_session w) p (Some ?s)" if "pw_state w' = PROVIDER_CONNECTED_UNATTESTED"
    using that assms(10,11) ses by (simp add: provider_ready_def row_of_def)
  have kept: "(vp_worker_id p, pw_session w) \<in> set r" if "provider_filter n b' es = Inr r" "(vp_worker_id p, pw_session w) \<in> set es"
      "pw_state w' = PROVIDER_CONNECTED_UNATTESTED" for es r
    using that(1,2)
  proof (induction es arbitrary: r)
    case (Cons e es)
    obtain i j where e: "e = (i, j)" by (cases e)
    have "trusted (PyStr (vp_worker_id p)) (br_base b') = Inr p" using assms(6) by (simp add: b')
    with Cons e found ready [OF that(3)] show ?case by (auto split: sum.splits if_splits)
  qed simp
  have "(vp_worker_id p, pw_session w) \<in> set es" if "pw_state w' = PROVIDER_CONNECTED_UNATTESTED"
      "external_eligible (Finite n) cap tgt (br_base b) d = Inr es0" "(vp_worker_id p, pw_session w) \<in> set es0"
      "provider_eligible (Finite n) cap tgt b' d = Inr es" for cap tgt es0 es
    using that assms(9) kept [of es0] by (auto simp: provider_eligible_def b' split: sum.splits)
  with acc found show ?thesis by (intro exI [of _ b']) (simp add: b')
qed

subsection \<open>A result reaches the gateway\<close>

text \<open>The host's sink: the evidence directory of the spool.\<close>

definition put_evidence :: "string \<Rightarrow> string \<Rightarrow> spool \<Rightarrow> unit res \<times> spool" where
  "put_evidence eid payload sp = (Inr (), sp\<lparr>sp_evidence := AList.update eid payload (sp_evidence sp)\<rparr>)"

lemma result_D:
  assumes "execute_result_frame C w d q observed put_evidence sp = (Inr m, sp')"
  obtains v t where "validate_dispatch_authority w d = Inr ()" and "pw_state w = PROVIDER_CONNECTED_UNATTESTED"
    and "bk_execute (pw_backend w) d = Inr v" and "finite_time observed = Inr t"
    and "sp' = sp\<lparr>sp_evidence := AList.update (pv_evidence_id v) (pv_payload v) (sp_evidence sp)\<rparr>"
    and "sign_af05 C w ''RESULT'' (worker_body w ''af06-result-'' 20 d q t @ [(''status'', PyStr ''SUCCEEDED''),
          (''evidence_id'', PyStr (pv_evidence_id v)), (''evidence_sha256'', PyStr (pv_sha256 v))]) = Inr m"
  using assms by (auto simp: execute_result_frame_def put_evidence_def split: sum.splits if_splits)

lemma known_sealed:
  assumes "pw_backend w = openai_backend C c \<or> pw_backend w = codex_backend C h y" and "bk_execute (pw_backend w) d = Inr v"
  shows "evidence_sealed C d v"
  using assms openai.sealed [of C c d v] codex.sealed [of C h y d v] by auto

lemma message_time_again: "finite_time v = Inr t \<Longrightarrow> message_time (PyFloat (Finite t)) = Inr t"
  by (auto simp: finite_time_def python_float_def message_time_def split: sum.splits option.splits pyfloat.splits if_splits)

text \<open>The frame's identity, binding and evidence pass: what the gateway checks before it asks for the order of the messages and the store.\<close>

lemma worker_result_signed:
  assumes "execute_result_frame C w d q observed put_evidence sp = (Inr m, sp')" and "pw_backend w = openai_backend C c \<or> pw_backend w = codex_backend C h y"
    and "hex_digest C" and "signs_for C w p" and "trusted (PyStr (vp_worker_id p)) x = Inr p" and "find_session (vp_worker_id p) x = Some s"
    and "es_state s = ''AUTHENTICATED''" and "es_session_id s = pw_session w" and "es_key_id s = vp_key_id p" and "es_profile_digest s = vp_digest p"
    and "es_last_sequence s < q" and "0 \<le> q" and "q < 2 ^ 63" and "finite_time observed = Inr t" and "0 \<le> n" and "t \<le> n + 1"
    and "\<not> seen_message (''af06-result-'' @ take 20 (de_dispatch_id d) @ ''-'' @ str_of_int q) x" and "is_identifier (de_dispatch_id d)"
    and "find_dispatch (de_dispatch_id d) x = Some r" and "xd_task_id r = de_task_id d" and "xd_worker_id r = de_worker_id d"
    and "xd_session_id r = de_session_id d" and "xd_lease_id r = de_lease_id d" and "xg_spool x = sp'"
  shows "\<exists>g v. signed_message C ''RESULT'' (Finite n) (PyDict m) x = Inr g \<and> external_bound (sg_frame g) x = Inr r
    \<and> sg_now g = n \<and> sg_sequence g = q \<and> sg_profile g = p
    \<and> dget (sg_frame g) ''status'' = PyStr ''SUCCEEDED'' \<and> bk_execute (pw_backend w) d = Inr v \<and> evidence_sealed C d v
    \<and> external_evidence C (sg_frame g) (xg_spool x) = Inr (pv_evidence_id v, cr_hash C (pv_payload v))
    \<and> resolve_evidence (pv_evidence_id v) (xg_spool x) = Inr (pv_payload v)"
proof -
  from assms(1) obtain v t' where f: "validate_dispatch_authority w d = Inr ()" "bk_execute (pw_backend w) d = Inr v" "finite_time observed = Inr t'"
    and sp': "sp' = sp\<lparr>sp_evidence := AList.update (pv_evidence_id v) (pv_payload v) (sp_evidence sp)\<rparr>"
    and sig: "sign_af05 C w ''RESULT'' (worker_body w ''af06-result-'' 20 d q t' @ [(''status'', PyStr ''SUCCEEDED''),
          (''evidence_id'', PyStr (pv_evidence_id v)), (''evidence_sha256'', PyStr (pv_sha256 v))]) = Inr m" by (rule result_D)
  have t: "t' = t" using f(3) assms(14) by simp
  let ?b = "worker_body w ''af06-result-'' 20 d q t @ [(''status'', PyStr ''SUCCEEDED''),
          (''evidence_id'', PyStr (pv_evidence_id v)), (''evidence_sha256'', PyStr (pv_sha256 v))]"
  have seal: "evidence_sealed C d v" by (rule known_sealed [OF assms(2) f(2)])
  then have sha: "pv_sha256 v = cr_hash C (pv_payload v)" and small: "length (pv_payload v) \<le> MAX_EVIDENCE_BYTES"
    and eid: "is_identifier (pv_evidence_id v)"
    using assms(3) by (simp_all add: evidence_sealed_def PROVIDER_EVIDENCE_BYTES_def MAX_EVIDENCE_BYTES_def)
  note ver = af05_verifies [OF sig [unfolded t] assms(4)]
  let ?mid = "''af06-result-'' @ take 20 (de_dispatch_id d) @ ''-'' @ str_of_int q"
  have "is_identifier ''af06-result-''" by code_simp
  then have "is_identifier (''af06-result-'' @ take 20 (de_dispatch_id d) @ ''-'' @ str_of_nat (nat q))"
    using assms(12,13,18) by (intro frame_identifier) (simp_all add: is_identifier_chars nat_less_iff)
  then have mid: "is_identifier ?mid" using assms(12) by (simp add: str_of_int_def)
  from assms(4) have who: "is_identifier (vp_worker_id p)" "is_identifier (vp_key_id p)" "is_identifier (pw_session w)"
    "tp_worker_id (pw_profile w) = PyStr (vp_worker_id p)" "tp_key_id (pw_profile w) = PyStr (vp_key_id p)" by (simp_all add: signs_for_def)
  have auth: "de_worker_id d = vp_worker_id p" "de_session_id d = pw_session w"
    using f(1) who(4) by (auto simp: validate_dispatch_authority_def split: if_splits)
  have gets: "dget m ''worker_id'' = PyStr (vp_worker_id p)" "dget m ''key_id'' = PyStr (vp_key_id p)" "dget m ''session_id'' = PyStr (pw_session w)"
    "dget m ''message_id'' = PyStr ?mid" "dget m ''sequence'' = PyInt q" "dget m ''observed_at'' = PyFloat (Finite t)"
    "dget m ''protocol_version'' = PyStr AF05_PROTOCOL_VERSION" "dget m ''dispatch_id'' = PyStr (de_dispatch_id d)"
    "dget m ''task_id'' = PyStr (de_task_id d)" "dget m ''lease_id'' = PyStr (de_lease_id d)" "dget m ''status'' = PyStr ''SUCCEEDED''"
    "dget m ''evidence_id'' = PyStr (pv_evidence_id v)" "dget m ''evidence_sha256'' = PyStr (pv_sha256 v)"
    by (simp_all add: ver(2) worker_body_def who(4,5)) (simp_all add: dget_def)
  have keys: "has_keys (message_keys ''RESULT'') m"
    unfolding has_keys_def ver(3) by (auto simp: message_keys_def common_keys_def worker_body_def)
  have ids: "ident_of (PyStr a) l = Inr a" if "is_identifier a" for a l using that by (simp add: ident_of_def)
  let ?g = "\<lparr>sg_frame = m, sg_now = n, sg_profile = p, sg_session = s, sg_sequence = q, sg_observed = t, sg_id = ?mid\<rparr>"
  have binds: "session_binds (pw_session w) (vp_key_id p) p m s" using assms(7-10) gets(7) by (simp add: session_binds_def)
  have g: "signed_message C ''RESULT'' (Finite n) (PyDict m) x = Inr ?g"
    unfolding signed_message_def pyval.case gets ids [OF who(1)] ids [OF who(2)] ids [OF who(3)] ids [OF mid] message_time_again [OF assms(14)]
    using keys assms(5,6,11,15-17) binds ver(1) by simp
  have bound: "external_bound m x = Inr r"
    unfolding external_bound_def gets ids [OF assms(18)] using assms(19-23) auth by simp
  have res: "resolve_evidence (pv_evidence_id v) (xg_spool x) = Inr (pv_payload v)"
    unfolding resolve_evidence_def ids [OF eid] using small by (simp add: assms(24) sp' update_conv')
  have digest: "evidence_digest (PyStr (pv_sha256 v)) = Some (cr_hash C (pv_payload v))"
    using assms(3) by (simp add: evidence_digest_def sha hex_digest_def)
  have ev: "external_evidence C m (xg_spool x) = Inr (pv_evidence_id v, cr_hash C (pv_payload v))"
    unfolding external_evidence_def gets ids [OF eid] digest using res by simp
  from g bound ev res seal gets(11) f(2) show ?thesis by (intro exI [of _ ?g] exI [of _ v]) simp
qed

lemma hex_sha256: "hex_digest C \<Longrightarrow> is_sha256 (cr_hash C s)"
  by (auto simp: hex_digest_def is_sha256_def is_lower_hex_def is_hex_def list_all_iff)

lemma submit_result_accepts:
  assumes "\<not> db_locked st" and "find_task tid st = Some tk" and "find_worker wid st = Some wk" and "result_reportable tk"
    and "t_assigned_worker_id tk = Some wid" and "t_lease_id tk = Some lid" and "t_lease_expires_at tk = Some ex" and "n < ex" and "0 \<le> n"
    and "worker_fresh n wk" and "eid \<noteq> []" and "is_sha256 sha" and "\<forall>e \<in> set (db_evidence st). e_task_id e \<noteq> tid"
  shows "\<exists>st'. submit_result (Finite n) tid wid lid eid sha st = (Inr (), st') \<and> db_evidence st' = db_evidence st @ [evidence_row tid eid sha n]
    \<and> find_task tid st' = Some (tk\<lparr>t_state := REVIEW_PENDING, t_evidence_status := ''RECEIVED'', t_updated_at := n\<rparr>)"
proof -
  have "evidence_insert_ok (evidence_row tid eid sha n) st" using assms(13) by (auto simp: evidence_insert_ok_def evidence_row_def)
  moreover have "find_task tid (st\<lparr>db_evidence := v\<rparr>) = Some tk" for v using assms(2) by (simp add: find_task_def)
  ultimately show ?thesis
    using assms find_task_D [OF assms(2)] by (simp add: submit_result_def find_task_update_tasks)
qed

text \<open>C28. The worker's result is accepted: a result frame that a connected worker with one of the two backends signs for a
  dispatch of the gateway, over a live session with the registered key, a new sequence and a new message identifier, in time, is accepted by
  \<open>external_result\<close> when the dispatch is acknowledged, has no result yet and is within its lease, the database is free, and
  the store still holds the task under that lease for a fresh worker, with no evidence stored for it yet. Then the dispatch has its
  result, the task is up for review, and its one new evidence row names the sealed answer for that dispatch, which the spool
  holds under that name, with its digest.\<close>

theorem worker_result_verifies:
  assumes "execute_result_frame C w d q observed put_evidence sp = (Inr m, sp')" and "pw_backend w = openai_backend C c \<or> pw_backend w = codex_backend C h y"
    and "hex_digest C" and "signs_for C w p" and "trusted (PyStr (vp_worker_id p)) x = Inr p" and "find_session (vp_worker_id p) x = Some s"
    and "es_state s = ''AUTHENTICATED''" and "es_session_id s = pw_session w" and "es_key_id s = vp_key_id p" and "es_profile_digest s = vp_digest p"
    and "es_last_sequence s < q" and "0 \<le> q" and "q < 2 ^ 63" and "finite_time observed = Inr t" and "0 \<le> n" and "t \<le> n + 1"
    and "\<not> seen_message (''af06-result-'' @ take 20 (de_dispatch_id d) @ ''-'' @ str_of_int q) x" and "is_identifier (de_dispatch_id d)"
    and "find_dispatch (de_dispatch_id d) x = Some r" and "xd_task_id r = de_task_id d" and "xd_worker_id r = de_worker_id d"
    and "xd_session_id r = de_session_id d" and "xd_lease_id r = de_lease_id d" and "xg_spool x = sp'"
    and order: "xd_acknowledged r" "\<not> xd_result_received r" "n < xd_lease_expires_at r"
    and store: "\<not> db_locked st" "find_task (de_task_id d) st = Some tk" "find_worker (vp_worker_id p) st = Some wk" "result_reportable tk"
      "t_assigned_worker_id tk = Some (vp_worker_id p)" "t_lease_id tk = Some (de_lease_id d)" "t_lease_expires_at tk = Some ex" "n < ex"
      "worker_fresh n wk" "\<forall>e \<in> set (db_evidence st). e_task_id e \<noteq> de_task_id d"
  shows "\<exists>v x' st'. external_result C (Finite n) (PyDict m) x st = (Inr (), x', st')
    \<and> bk_execute (pw_backend w) d = Inr v \<and> evidence_sealed C d v \<and> resolve_evidence (pv_evidence_id v) (xg_spool x') = Inr (pv_payload v)
    \<and> db_evidence st' = db_evidence st @ [evidence_row (de_task_id d) (pv_evidence_id v) (cr_hash C (pv_payload v)) n]
    \<and> find_task (de_task_id d) st' = Some (tk\<lparr>t_state := REVIEW_PENDING, t_evidence_status := ''RECEIVED'', t_updated_at := n\<rparr>)
    \<and> find_dispatch (de_dispatch_id d) x' = Some (r\<lparr>xd_result_received := True\<rparr>)"
proof -
  from worker_result_signed [OF assms(1-24)] obtain g v where g: "signed_message C ''RESULT'' (Finite n) (PyDict m) x = Inr g"
    and bound: "external_bound (sg_frame g) x = Inr r" and now: "sg_now g = n" "sg_sequence g = q" "sg_profile g = p"
    and status: "dget (sg_frame g) ''status'' = PyStr ''SUCCEEDED''" and v: "bk_execute (pw_backend w) d = Inr v" "evidence_sealed C d v"
    and ev: "external_evidence C (sg_frame g) (xg_spool x) = Inr (pv_evidence_id v, cr_hash C (pv_payload v))"
    and res: "resolve_evidence (pv_evidence_id v) (xg_spool x) = Inr (pv_payload v)" by blast
  obtain x1 where x1: "accept_message ''RESULT'' g None x st = (Inr (), x1)" and same: "xg_dispatches x1 = xg_dispatches x" "xg_spool x1 = xg_spool x"
    using assms(13) store(1) now by (simp add: accept_message_def)
  have eid: "pv_evidence_id v \<noteq> []" using v(2) assms(3) by (auto simp: evidence_sealed_def)
  from submit_result_accepts [OF store(1-8) assms(15) store(9) eid hex_sha256 [OF assms(3)] store(10)] obtain st' where
    sub: "submit_result (Finite n) (de_task_id d) (vp_worker_id p) (de_lease_id d) (pv_evidence_id v) (cr_hash C (pv_payload v)) st = (Inr (), st')"
    and st': "db_evidence st' = db_evidence st @ [evidence_row (de_task_id d) (pv_evidence_id v) (cr_hash C (pv_payload v)) n]"
      "find_task (de_task_id d) st' = Some (tk\<lparr>t_state := REVIEW_PENDING, t_evidence_status := ''RECEIVED'', t_updated_at := n\<rparr>)" by blast
  have id: "xd_id r = de_dispatch_id d" using assms(19) by (auto simp: find_dispatch_def dest: find_Some_mem)
  let ?x' = "update_dispatch (xd_id r) (\<lambda>u. u\<lparr>xd_result_received := True\<rparr>) x1"
  have "external_result C (Finite n) (PyDict m) x st = (Inr (), ?x', st')"
    using g bound now status ev x1 sub order assms(20,23) by (simp add: external_result_def)
  moreover have "find_dispatch (de_dispatch_id d) ?x' = Some (r\<lparr>xd_result_received := True\<rparr>)"
    using assms(19) id same by (simp add: find_dispatch_def update_dispatch_def find_update_where)
  moreover have "resolve_evidence (pv_evidence_id v) (xg_spool ?x') = Inr (pv_payload v)" using res same by (simp add: update_dispatch_def)
  ultimately show ?thesis using v st' by blast
qed

end
