(* ===== verification/ProviderSample.thy ===== *)
theory ProviderSample
  imports ProviderWorker
begin

text \<open>
  The provider-bound gateway under the router, gaps of the code, and a closed instance: one worker whose session is live, with a
  client of the Responses API that is answered.
\<close>

subsection \<open>The router's contract\<close>

definition provider_elig :: "bridge elig_op" where
  "provider_elig n cap tgt b d = provider_eligible (Finite n) cap tgt b d"

definition provider_disp :: "crypto \<Rightarrow> bridge disp_op" where
  "provider_disp C n t l sid b d = provider_dispatch C (Finite n) t l (PyStr sid) b d"

interpretation provider_gateway: worker_gateway provider_elig "provider_disp C" for C
proof unfold_locales
  fix n t l sid b d r b' d'
  assume "provider_disp C n t l sid b d = (r, b', d')"
  then obtain x' where "external_dispatch C (Finite n) t l (PyStr sid) (br_base b) d = (r, x', d')"
    by (auto simp: provider_disp_def provider_dispatch_def below_def split: prod.splits)
  from external_dispatch_D [OF this] show "store_step\<^sup>*\<^sup>* d d'" "db_tasks d' = db_tasks d"
    by (auto intro: step_audit r_into_rtranclp)
qed

lemma provider_route_steps:
  "route_task provider_elig (provider_disp C) secs uuid n t b d = (r, b', d') \<Longrightarrow> store_step\<^sup>*\<^sup>* d d'"
  by (rule provider_gateway.route_task_steps)

subsection \<open>Gaps\<close>

text \<open>
  The identifier of a status frame keeps 24 characters of the session: once a frame of one worker is accepted, the frame of the
  same number of a worker whose session starts alike is refused.
\<close>

lemma session_prefix_collides:
  assumes "bridge_trace C fs b" and "(m, p) \<in> set fs"
    and "dget m ''message_id'' = PyStr (''af06-provider-'' @ take 24 sid @ ''-'' @ str_of_nat k)"
    and "provider_status_frame C observed pr w = (Inr m', w')" and "pw_sequence w' = k" and "take 24 (pw_session w) = take 24 sid"
  shows "\<exists>e. accept_provider_status C now (PyDict m') b d = (Inl e, b)"
proof -
  from assms(4) obtain st rid t body where "w' = w\<lparr>pw_sequence := pw_sequence w + 1, pw_state := st, pw_response := rid\<rparr>"
    "m' = AList.update ''signature'' (PyStr (cr_b64e C (pw_sign w' body))) (status_body w' t)" by (rule frame_D)
  then have "dget m' ''message_id'' = dget m ''message_id''" using assms(3,5,6) by (simp add: dget_signed body_gets)
  from seen_again [OF assms(1,2) this] show ?thesis .
qed

text \<open>The redaction starts with \<open>clean\<close>, which keeps 512 characters, so the limits that follow are never reached.\<close>

lemma matched_length:
  assumes "match_keywords ks s = Some (kw, rest)"
  shows "length kw + length rest + 2 \<le> length s \<and> kw \<noteq> [] \<and> length kw \<in> length ` set ks"
  using assms
proof (induction ks)
  case (Cons k ks)
  have after: "length q + 2 \<le> length r" if "match_after r = Some q" for r q
  proof -
    from that obtain c r2 where r: "dropWhile is_space r = c # r2" and n: "dropWhile is_space r2 \<noteq> []"
      and rest: "q = dropWhile (\<lambda>c. \<not> is_space c) (dropWhile is_space r2)"
      by (auto simp: match_after_def Let_def split: list.splits if_splits)
    obtain a r3 where r3: "dropWhile is_space r2 = a # r3" using n by (cases "dropWhile is_space r2") auto
    have "\<not> is_space a" using r3 by (metis hd_dropWhile list.sel(1) n)
    then have "length q \<le> length r3" by (simp add: rest r3 length_dropWhile_le)
    moreover have "length (a # r3) \<le> length r2" unfolding r3 [symmetric] by (rule length_dropWhile_le)
    moreover have "length (c # r2) \<le> length r" unfolding r [symmetric] by (rule length_dropWhile_le)
    ultimately show ?thesis by simp
  qed
  show ?case
  proof (cases "k \<noteq> [] \<and> prefix k (lower s) \<and> match_after (drop (length k) s) \<noteq> None")
    case True
    then obtain r where r: "match_after (drop (length k) s) = Some r" by auto
    have k: "length k \<le> length s" using True by (auto simp: lower_def dest: prefix_length_le)
    from True r Cons.prems have "kw = take (length k) s" "rest = r" by simp_all
    with after [OF r] k True show ?thesis by (auto simp: min_def)
  next
    case False
    with Cons.prems have "match_keywords ks s = Some (kw, rest)" by (auto split: if_splits)
    with Cons.IH show ?thesis by auto
  qed
qed simp

lemma redact_length: "length (redact s) \<le> 3 * length s"
proof (induction s rule: redact.induct)
  case (1 s)
  show ?case
  proof (cases "match_keywords secret_keywords s")
    case None
    then show ?thesis using 1 by (subst redact.simps) (cases s; simp)
  next
    case (Some m)
    obtain kw rest where m: "m = (kw, rest)" by (cases m)
    from matched_length [OF Some [unfolded m]] have n: "length kw + length rest + 2 \<le> length s" and k: "5 \<le> length kw"
      by (auto simp: secret_keywords_def)
    have "length (redact rest) \<le> 3 * length rest" using 1 Some m by simp
    with n k show ?thesis using Some m by (subst redact.simps) simp
  qed
qed

lemma sub_length:
  assumes "\<And>s rest. m s = Some rest \<Longrightarrow> length rest + 5 \<le> length s"
  shows "length (sub_all m inside s) \<le> 2 * length s"
  using assms
proof (induction m inside s rule: sub_all.induct)
  case (2 m inside c cs)
  show ?case
  proof (cases "if inside then None else m (c # cs)")
    case None
    with 2 show ?thesis by simp
  next
    case (Some rest)
    then have "length rest + 5 \<le> length (c # cs)" using 2(4) [of "c # cs" rest] by (auto split: if_splits)
    moreover from this have "length (sub_all m (word_char ((c # cs) ! (length cs - length rest))) rest) \<le> 2 * length rest"
      using 2(2) [OF Some _ 2(4)] by simp
    ultimately show ?thesis using Some by simp
  qed
qed simp

lemma provider_text_short: "length (provider_redact s) \<le> 12288"
proof -
  have b: "length rest + 5 \<le> length s" if "bearer_match s = Some rest" for s rest
  proof -
    let ?t = "dropWhile is_space (drop 6 s)"
    from that have "8 \<le> length (takeWhile bearer_char ?t)" and r: "rest = dropWhile bearer_char ?t"
      by (auto simp: bearer_match_def Let_def split: if_splits)
    moreover have "length (takeWhile bearer_char ?t) + length rest = length ?t" unfolding r by (metis length_append takeWhile_dropWhile_id)
    moreover have "length ?t \<le> length s" using length_dropWhile_le [of is_space "drop 6 s"] by simp
    ultimately show ?thesis by linarith
  qed
  have k: "length rest + 5 \<le> length s" if "key_match s = Some rest" for s rest
  proof -
    from that have "8 \<le> length (takeWhile key_char (drop 3 s))" and r: "rest = dropWhile key_char (drop 3 s)"
      by (auto simp: key_match_def split: if_splits)
    moreover have "length (takeWhile key_char (drop 3 s)) + length rest = length (drop 3 s)"
      unfolding r by (metis length_append takeWhile_dropWhile_id)
    ultimately show ?thesis by simp
  qed
  have p: "length rest + 5 \<le> length s" if "secret_match s = Some rest" for s rest
  proof -
    from that obtain kw where "match_keywords provider_keywords s = Some (kw, rest)" by (auto simp: secret_match_def)
    from matched_length [OF this] show ?thesis by (auto simp: provider_keywords_def)
  qed
  have "length (redact (take 512 s)) \<le> 1536" using redact_length [of "take 512 s"] by (simp add: min_def split: if_splits)
  then have "length (clean s) \<le> 1536" using length_filter_le [of printable "redact (take 512 s)"] unfolding clean_def by linarith
  moreover have "length (sub_all bearer_match False (clean s)) \<le> 2 * length (clean s)" by (rule sub_length [OF b])
  moreover have "length (sub_all key_match False (sub_all bearer_match False (clean s))) \<le> 2 * length (sub_all bearer_match False (clean s))"
    by (rule sub_length [OF k])
  moreover have "length (sub_all secret_match False (sub_all key_match False (sub_all bearer_match False (clean s))))
      \<le> 2 * length (sub_all key_match False (sub_all bearer_match False (clean s)))" by (rule sub_length [OF p])
  ultimately show ?thesis by (simp add: provider_redact_def)
qed

text \<open>The instruction for a dispatch always fits: its last check cannot fail.\<close>

lemma utf8_append: "utf8_length (a @ b) = utf8_length a + utf8_length b"
  by (simp add: utf8_length_def)

lemma utf8_identifier: "is_identifier s \<Longrightarrow> utf8_length s \<le> 128"
proof -
  assume s: "is_identifier s"
  have "list_all (\<lambda>c. \<not> 128 \<le> ord_of c) s" using is_identifier_chars [OF s]
    by (auto simp: list_all_iff ident_char_def is_alnum_def is_upper_def is_lower_def is_digit_def)
  then have "filter (\<lambda>c. 128 \<le> ord_of c) s = []" by (simp add: filter_empty_conv list_all_iff)
  with is_identifier_length [OF s] show ?thesis by (simp add: utf8_length_def)
qed

lemma prompt_fits: "deterministic_read_only_instruction d \<noteq> Inl (BlockedError ''provider prompt too large'')"
proof
  assume a: "deterministic_read_only_instruction d = Inl (BlockedError ''provider prompt too large'')"
  from a have ids: "is_identifier (de_task_id d)" "is_identifier (de_target d)" "is_identifier (de_capability d)"
    and big: "MAX_PROMPT_BYTES < utf8_length (instruction_text (de_task_id d) (de_target d) (de_capability d))"
    by (auto simp: deterministic_read_only_instruction_def Let_def ident_of_def split: if_splits sum.splits)
  have "utf8_length (instruction_text (de_task_id d) (de_target d) (de_capability d)) \<le> 1000"
    using ids [THEN utf8_identifier] unfolding instruction_text_def utf8_append by (simp add: utf8_length_def)
  with big show False by (simp add: MAX_PROMPT_BYTES_def)
qed

subsection \<open>A closed instance\<close>

definition prov_answer :: pyval where
  "prov_answer = PyDict [(''object'', PyStr ''response''), (''status'', PyStr ''completed''), (''id'', PyStr ''r1''), (''model'', PyStr ''gpt-5.6-sol''),
     (''output'', PyList [PyDict [(''type'', PyStr ''message''), (''content'', PyList [PyDict [(''type'', PyStr ''output_text''), (''text'', PyStr ''done'')]])]])]"

definition prov_crypto :: crypto where
  "prov_crypto = sample_crypto\<lparr>cr_loads := \<lambda>s. Some prov_answer\<rparr>"

definition prov_client :: openai_client where
  "prov_client = \<lparr>oc_model = ''gpt-5.6-sol'', oc_timeout = 30, oc_max_bytes = 65536, oc_key = PyStr ''key'',
     oc_transport = \<lambda>r t n. Inr (PyBytes ''{}'')\<rparr>"

definition prov_worker :: provider_worker where
  "prov_worker = \<lparr>pw_profile = sample_trusted, pw_sign = (\<lambda>b. ''ok''), pw_session = ''s'', pw_backend = openai_backend prov_crypto prov_client,
     pw_sequence = 0, pw_state = PROVIDER_NOT_CONNECTED, pw_response = None\<rparr>"

definition prov_db :: db where
  "prov_db = init_db\<lparr>db_workers := [live_worker]\<rparr>"

lemma prov_crypto_sel [simp]: "cr_b64 prov_crypto = Some" "cr_b64e prov_crypto = (\<lambda>s. s)" "cr_hash prov_crypto = sample_hash"
  "cr_dumps prov_crypto = (\<lambda>v. Some ''{}'')" "cr_verify prov_crypto = (\<lambda>k s b. s = ''ok'')" "cr_loads prov_crypto = (\<lambda>s. Some prov_answer)"
  by (simp_all add: prov_crypto_def sample_crypto_def)

lemma prov_hex: "hex_digest prov_crypto"
  by (simp add: hex_digest_def sample_hash_def sample_sha_def list_all_iff) code_simp

lemma sub_short:
  assumes "\<And>s rest. m s = Some rest \<Longrightarrow> 5 \<le> length s" and "length s \<le> 4"
  shows "sub_all m inside s = s"
  using assms(2)
proof (induction s arbitrary: inside)
  case (Cons c cs)
  have "m (c # cs) = None" using assms(1) [of "c # cs"] Cons.prems by (cases "m (c # cs)") auto
  with Cons show ?case by simp
qed simp

lemma short_text: "length s \<le> 4 \<Longrightarrow> clean s = s \<Longrightarrow> provider_redact s = s"
proof -
  assume s: "length s \<le> 4" "clean s = s"
  have b: "5 \<le> length t" if "bearer_match t = Some rest" for t rest
    using that by (auto simp: bearer_match_def lower_def split: if_splits dest!: prefix_length_le)
  have k: "5 \<le> length t" if "key_match t = Some rest" for t rest
    using that length_takeWhile_le [of key_char "drop 3 t"] by (auto simp: key_match_def split: if_splits)
  have p: "5 \<le> length t" if "secret_match t = Some rest" for t rest
  proof -
    from that obtain kw where "match_keywords provider_keywords t = Some (kw, rest)" by (auto simp: secret_match_def)
    from matched_length [OF this] show ?thesis by (auto simp: provider_keywords_def)
  qed
  show ?thesis using s sub_short [OF b] sub_short [OF k] sub_short [OF p] by (simp add: provider_redact_def)
qed

lemma prov_reads: "read_answer ''gpt-5.6-sol'' prov_answer = Inr \<lparr>pc_response_id = ''r1'', pc_model = ''gpt-5.6-sol'', pc_text = ''done''\<rparr>"
proof -
  have "clean ''done'' = ''done''" by code_simp
  then have "provider_redact ''done'' = ''done''" by (intro short_text) simp_all
  moreover have "utf8_length ''done'' = 4" "is_identifier ''r1''" "is_identifier ''gpt-5.6-sol''" "strip ''done'' = ''done''" by code_simp+
  ultimately show ?thesis by (simp add: read_answer_def prov_answer_def dget_def ident_of_def item_text_def part_text_def PROVIDER_EVIDENCE_BYTES_def)
qed

lemma prov_configured: "configured prov_client"
proof -
  have "strip ''key'' \<noteq> []" by code_simp
  then show ?thesis by (simp add: configured_def prov_client_def)
qed

lemma prov_call: "strip t \<noteq> [] \<Longrightarrow> utf8_length t \<le> MAX_PROMPT_BYTES \<Longrightarrow> 1 \<le> k \<Longrightarrow> k \<le> 4096 \<Longrightarrow>
    openai_call prov_crypto prov_client t k = Inr \<lparr>pc_response_id = ''r1'', pc_model = ''gpt-5.6-sol'', pc_text = ''done''\<rparr>"
proof -
  assume a: "strip t \<noteq> []" "utf8_length t \<le> MAX_PROMPT_BYTES" "1 \<le> k" "k \<le> 4096"
  from a prov_reads prov_configured show ?thesis by (simp add: openai_call_def canonical_json_def) (simp add: prov_client_def)
qed

lemma prov_probe: "openai_probe prov_crypto prov_client = Inr \<lparr>pc_response_id = ''r1'', pc_model = ''gpt-5.6-sol'', pc_text = ''done''\<rparr>"
proof -
  have "strip ''Reply with the exact text READ_ONLY_PROVIDER_OK. Do not call tools or make external claims.'' \<noteq> []"
    "utf8_length ''Reply with the exact text READ_ONLY_PROVIDER_OK. Do not call tools or make external claims.'' \<le> MAX_PROMPT_BYTES" by code_simp+
  then show ?thesis unfolding openai_probe_def by (rule prov_call) simp_all
qed

lemma prov_live_inv: "ext_inv ext_live_state"
  by (simp add: ext_inv_def ext_live_state_def empty_external_def session_ok_def session_row_def sample_verified_def find_profile_row_def profile_binding_def)

lemma prov_trusted: "trusted (PyStr ''w'') ext_live_state = Inr sample_verified"
  by (rule sample_trusted_worker) (simp_all add: ext_live_state_def)

lemma prov_signs: "signs_for prov_crypto prov_worker sample_verified"
proof -
  have "is_identifier ''w''" "is_identifier ''k''" "is_identifier ''s''" by code_simp+
  then show ?thesis by (simp add: signs_for_def prov_worker_def sample_trusted_def sample_keys)
qed

lemma prov_session: "find_session ''w'' ext_live_state = Some session_row" "status_session ''w'' ''s'' ''k'' ext_live_state"
  by (simp_all add: status_session_def find_session_def ext_live_state_def session_row_def)

lemma prov_kind: "kind_allowed (pw_backend prov_worker)"
  by (simp add: kind_allowed_def prov_worker_def openai_backend_def prov_client_def ALLOWED_OPENAI_MODELS_def)

lemma prov_time: "finite_time (PyFloat (Finite 3)) = Inr 3"
  by (simp add: finite_time_def python_float_def)

lemma prov_frame: "\<exists>m. provider_status_frame prov_crypto (PyFloat (Finite 3)) True prov_worker
    = (Inr m, prov_worker\<lparr>pw_sequence := 1, pw_state := PROVIDER_CONNECTED_UNATTESTED, pw_response := Some ''r1''\<rparr>)"
proof -
  from prov_configured have p: "probed (pw_backend prov_worker) True = Inr (PROVIDER_CONNECTED_UNATTESTED, Some ''r1'')"
    by (simp add: probed_def prov_worker_def openai_backend_def prov_probe)
  have b: "provider_signed_bytes prov_crypto m = Inr (PROVIDER_STATUS_DOMAIN @ CHR 0x0A # ''{}'')" for m
    by (simp add: provider_signed_bytes_def canonical_json_def)
  show ?thesis unfolding provider_status_frame_def Let_def p by (simp add: prov_time b) (simp add: prov_worker_def)
qed

lemma prov_offered: "external_eligible (Finite 3) ''AUDIT_READ'' ''repo'' ext_live_state prov_db = Inr [(''w'', ''s'')]"
proof -
  have "clean ''w'' = ''w''" by code_simp
  then have st: "worker_status (Finite 3) ''w'' prov_db = Inr \<lparr>v_worker = live_worker, v_available = True, v_active = 0\<rparr>"
    by (simp add: worker_status_def prov_db_def init_db_def find_worker_def live_worker_def active_leases_of_def)
  have row: "find_profile_row ''w'' ext_live_state = Some (profile_binding sample_verified)"
    by (simp add: find_profile_row_def ext_live_state_def profile_binding_def sample_verified_def)
  have reg: "registry_all (xg_registry ext_live_state) = [sample_verified]" by (simp add: ext_live_state_def registry_all_def)
  show ?thesis unfolding external_eligible_def reg
    by (simp add: sample_verified_def [THEN arg_cong, of vp_worker_id] sample_keys row st prov_session(1))
      (simp add: sample_verified_def profile_binding_def session_row_def live_worker_def)
qed

text \<open>The worker's first status is accepted.\<close>

theorem worker_status_accepted_witness: "\<exists>m b' es. accept_provider_status prov_crypto (Finite 3) (PyDict m) (new_bridge ext_live_state) prov_db = (Inr (), b')
    \<and> bridge_trace prov_crypto [(m, sample_verified)] b' \<and> provider_eligible (Finite 3) ''AUDIT_READ'' ''repo'' b' prov_db = Inr es \<and> (''w'', ''s'') \<in> set es"
proof -
  let ?w = "prov_worker\<lparr>pw_sequence := 1, pw_state := PROVIDER_CONNECTED_UNATTESTED, pw_response := Some ''r1''\<rparr>"
  let ?b = "new_bridge ext_live_state"
  obtain m where f: "provider_status_frame prov_crypto (PyFloat (Finite 3)) True prov_worker = (Inr m, ?w)" using prov_frame by blast
  have base: "br_base ?b = ext_live_state" by (simp add: new_bridge_def)
  have api: "pw_backend prov_worker = openai_backend prov_crypto prov_client" by (simp add: prov_worker_def)
  have s: "pw_session prov_worker = ''s''" "pw_sequence prov_worker + 1 < 2 ^ 63" by (simp_all add: prov_worker_def)
  have new: "\<not> status_replayed (row_of ?w (vp_worker_id sample_verified) (vp_key_id sample_verified) 3) ?b"
    by (simp add: status_replayed_def new_bridge_def find_status_def seen_provider_message_def)
  have open_db: "\<not> db_locked prov_db" by (simp add: prov_db_def init_db_def)
  from worker_status_accepted [OF f disjI1 [OF api] prov_kind prov_hex prov_signs _ _ prov_time _ _ _ s(2) open_db new, of 3]
  obtain b' where acc: "accept_provider_status prov_crypto (Finite 3) (PyDict m) ?b prov_db = (Inr (), b')" and kept: "br_base b' = ext_live_state"
    and el: "\<And>es0 es. external_eligible (Finite 3) ''AUDIT_READ'' ''repo'' ext_live_state prov_db = Inr es0 \<Longrightarrow> (''w'', ''s'') \<in> set es0
      \<Longrightarrow> provider_eligible (Finite 3) ''AUDIT_READ'' ''repo'' b' prov_db = Inr es \<Longrightarrow> (''w'', ''s'') \<in> set es"
    using prov_trusted prov_session(2) by (auto simp: base sample_keys s(1))
  obtain es where es: "provider_eligible (Finite 3) ''AUDIT_READ'' ''repo'' b' prov_db = Inr es"
    using prov_offered prov_trusted by (fastforce simp: provider_eligible_def kept)
  have who: "dget m ''worker_id'' = PyStr ''w''"
    using f by (auto simp: dget_signed body_gets prov_worker_def sample_trusted_def elim!: frame_D)
  have "bridge_trace prov_crypto ([] @ [(m, sample_verified)]) b'"
    by (rule bridge_trace.status [OF bridge_trace.fresh [OF prov_live_inv] acc]) (simp add: base who prov_trusted)
  with acc es el [OF prov_offered _ es] show ?thesis by auto
qed

definition prov_connected :: provider_worker where
  "prov_connected = prov_worker\<lparr>pw_sequence := 1, pw_state := PROVIDER_CONNECTED_UNATTESTED, pw_response := Some ''r1''\<rparr>"

lemma prov_trace: "\<exists>m b' es. accept_provider_status prov_crypto (Finite 3) (PyDict m) (new_bridge ext_live_state) prov_db = (Inr (), b')
    \<and> bridge_trace prov_crypto [(m, sample_verified)] b' \<and> provider_eligible (Finite 3) ''AUDIT_READ'' ''repo'' b' prov_db = Inr es \<and> (''w'', ''s'') \<in> set es"
proof -
  let ?b = "new_bridge ext_live_state"
  let ?s = "row_of prov_connected (vp_worker_id sample_verified) (vp_key_id sample_verified) 3"
  obtain m where f: "provider_status_frame prov_crypto (PyFloat (Finite 3)) True prov_worker = (Inr m, prov_connected)"
    using prov_frame unfolding prov_connected_def by blast
  have base: "br_base ?b = ext_live_state" by (simp add: new_bridge_def)
  have api: "pw_backend prov_worker = openai_backend prov_crypto prov_client" by (simp add: prov_worker_def)
  have s: "pw_session prov_worker = ''s''" "pw_sequence prov_worker + 1 < 2 ^ 63" by (simp_all add: prov_worker_def)
  have c: "checked_status prov_crypto (Finite 3) (PyDict m) ?b = Inr (?s, 3)"
    using prov_trusted prov_session(2) by (intro frame_checked [OF f disjI1 [OF api] prov_kind prov_hex prov_signs _ _ prov_time _ _ _ s(2)])
      (simp_all add: base sample_keys s(1))
  have seq: "ps_sequence ?s = 1" by (simp add: row_of_def prov_connected_def)
  obtain b' where b': "b' = ?b\<lparr>br_messages := [\<lparr>pm_id = ps_message ?s, pm_worker_id = ps_worker_id ?s, pm_session_id = ps_session_id ?s,
      pm_sequence = ps_sequence ?s, pm_accepted_at = 3\<rparr>], br_status := upsert_status ?s (br_status ?b)\<rparr>" by blast
  have acc: "accept_provider_status prov_crypto (Finite 3) (PyDict m) ?b prov_db = (Inr (), b')"
    by (simp add: accept_provider_status_def c seq b') (simp add: new_bridge_def status_replayed_def find_status_def seen_provider_message_def prov_db_def init_db_def)
  have found: "find_status ''w'' b' = Some ?s" using find_status_accept [OF b', of "''w''"] by (simp add: row_of_def sample_keys)
  have ready: "provider_ready 3 ''s'' sample_verified (Some ?s)"
    by (simp add: provider_ready_def row_of_def sample_keys) (simp add: prov_connected_def prov_worker_def)
  have kept: "br_base b' = ext_live_state" by (simp add: b' new_bridge_def)
  have el: "provider_eligible (Finite 3) ''AUDIT_READ'' ''repo'' b' prov_db = Inr [(''w'', ''s'')]"
    using prov_offered prov_trusted found ready by (simp add: provider_eligible_def kept)
  have who: "dget m ''worker_id'' = PyStr ''w''"
    using f by (auto simp: dget_signed body_gets prov_connected_def prov_worker_def sample_trusted_def elim!: frame_D)
  have "bridge_trace prov_crypto ([] @ [(m, sample_verified)]) b'"
    by (rule bridge_trace.status [OF bridge_trace.fresh [OF prov_live_inv] acc]) (simp add: base who prov_trusted)
  then have "bridge_trace prov_crypto [(m, sample_verified)] b'" by simp
  moreover have "(''w'', ''s'') \<in> set [(''w'', ''s'')]" by simp
  ultimately show ?thesis using acc el by blast
qed

theorem provider_status_authentic_witness: "\<exists>m s p b'. accept_provider_status prov_crypto (Finite 3) (PyDict m) (new_bridge ext_live_state) prov_db = (Inr (), b')
    \<and> status_says m s \<and> status_signed prov_crypto p m \<and> find_status (ps_worker_id s) b' = Some s"
proof -
  obtain m b' where a: "accept_provider_status prov_crypto (Finite 3) (PyDict m) (new_bridge ext_live_state) prov_db = (Inr (), b')"
    using prov_trace by blast
  from provider_status_authentic [OF a] obtain m' s p where "PyDict m = PyDict m'" "status_says m' s" "status_signed prov_crypto p m'"
    "find_status (ps_worker_id s) b' = Some s" by blast
  with a show ?thesis by auto
qed

theorem provider_status_once_witness: "\<exists>m b' e. bridge_trace prov_crypto [(m, sample_verified)] b'
    \<and> accept_provider_status prov_crypto (Finite 4) (PyDict m) b' prov_db = (Inl e, b')"
proof -
  obtain m b' where t: "bridge_trace prov_crypto [(m, sample_verified)] b'" using prov_trace by blast
  from provider_status_once [OF t] have "\<exists>e. accept_provider_status prov_crypto (Finite 4) (PyDict m) b' prov_db = (Inl e, b')" by simp
  with t show ?thesis by blast
qed

theorem eligible_provider_proved_witness: "\<exists>m s rid b' es. bridge_trace prov_crypto [(m, sample_verified)] b'
    \<and> provider_eligible (Finite 3) ''AUDIT_READ'' ''repo'' b' prov_db = Inr es \<and> (''w'', ''s'') \<in> set es
    \<and> status_says m s \<and> ps_state s = PROVIDER_CONNECTED_UNATTESTED \<and> ps_response s = Some rid"
proof -
  obtain m b' es where t: "bridge_trace prov_crypto [(m, sample_verified)] b'"
    and e: "provider_eligible (Finite 3) ''AUDIT_READ'' ''repo'' b' prov_db = Inr es" "(''w'', ''s'') \<in> set es" using prov_trace by blast
  from eligible_provider_proved [OF t e] obtain s rid where "status_says m s" "ps_state s = PROVIDER_CONNECTED_UNATTESTED" "ps_response s = Some rid"
    by auto
  with t e show ?thesis by blast
qed

definition prov_dispatch :: worker_dispatch where
  "prov_dispatch = \<lparr>de_dispatch_id = sample_sha, de_task_id = ''t'', de_worker_id = ''w'', de_session_id = ''s'', de_lease_id = ''L'',
     de_expires_at = Some 60, de_capability = ''AUDIT_READ'', de_target = ''repo'', wd_protocol = AF05_PROTOCOL_VERSION\<rparr>"

definition prov_dispatch_row :: ext_dispatch where
  "prov_dispatch_row = \<lparr>xd_id = sample_sha, xd_task_id = ''t'', xd_worker_id = ''w'', xd_session_id = ''s'', xd_lease_id = ''L'',
     xd_lease_expires_at = 60, xd_capability = ''AUDIT_READ'', xd_target = ''repo'', xd_acknowledged = True, xd_result_received = False, xd_ack_at = Some 3\<rparr>"

definition prov_spool :: spool where
  "prov_spool = \<lparr>sp_outbound = [], sp_temporary = [], sp_inbound = [], sp_evidence = []\<rparr>"

lemma prov_executes: "\<exists>v. openai_execute prov_crypto prov_client prov_dispatch = Inr v"
proof -
  let ?t = "instruction_text ''t'' ''repo'' ''AUDIT_READ''"
  have ids: "is_identifier ''repo''" "is_identifier ''AUDIT_READ''" "is_identifier ''t''" by code_simp+
  have ok: "strip ?t \<noteq> []" "utf8_length ?t \<le> MAX_PROMPT_BYTES" by code_simp+
  from ids ok(2) have i: "deterministic_read_only_instruction prov_dispatch = Inr ?t"
    by (simp add: deterministic_read_only_instruction_def prov_dispatch_def ident_of_def ALLOWED_CAPABILITIES_def)
  have "openai_call prov_crypto prov_client ?t 1024 = Inr \<lparr>pc_response_id = ''r1'', pc_model = ''gpt-5.6-sol'', pc_text = ''done''\<rparr>"
    by (rule prov_call [OF ok]) simp_all
  with i show ?thesis by (simp add: openai_execute_def seal_evidence_def canonical_json_def PROVIDER_EVIDENCE_BYTES_def)
qed

theorem worker_result_verifies_witness: "\<exists>m sp' x x' st'.
    execute_result_frame prov_crypto prov_connected prov_dispatch 1 (PyFloat (Finite 3)) put_evidence prov_spool = (Inr m, sp')
    \<and> external_result prov_crypto (Finite 3) (PyDict m) x sample_running = (Inr (), x', st') \<and> length (db_evidence st') = 1"
proof -
  obtain v where v: "openai_execute prov_crypto prov_client prov_dispatch = Inr v" using prov_executes by blast
  have auth: "validate_dispatch_authority prov_connected prov_dispatch = Inr ()"
    by (simp add: validate_dispatch_authority_def prov_connected_def prov_worker_def prov_dispatch_def sample_trusted_def)
  have api: "pw_backend prov_connected = openai_backend prov_crypto prov_client" by (simp add: prov_connected_def prov_worker_def)
  have state: "pw_state prov_connected = PROVIDER_CONNECTED_UNATTESTED" by (simp add: prov_connected_def)
  have signed: "\<exists>m. sign_af05 prov_crypto w ''RESULT'' f = Inr m" for w f
    by (simp add: sign_af05_def signed_bytes_def canonical_json_def)
  obtain m sp' where run: "execute_result_frame prov_crypto prov_connected prov_dispatch 1 (PyFloat (Finite 3)) put_evidence prov_spool = (Inr m, sp')"
    using v signed by (fastforce simp: execute_result_frame_def auth state api openai_backend_def put_evidence_def prov_time)
  let ?x = "ext_live_state\<lparr>xg_dispatches := [prov_dispatch_row], xg_spool := sp'\<rparr>"
  have tr: "trusted (PyStr (vp_worker_id sample_verified)) ?x = Inr sample_verified"
    unfolding sample_keys by (rule sample_trusted_worker) (simp_all add: ext_live_state_def)
  have ses: "find_session (vp_worker_id sample_verified) ?x = Some session_row"
    by (simp add: sample_keys find_session_def ext_live_state_def session_row_def)
  have signs: "signs_for prov_crypto prov_connected sample_verified" using prov_signs by (simp add: signs_for_def prov_connected_def)
  have did: "is_identifier (de_dispatch_id prov_dispatch)" using sample_sha_identifier by (simp add: prov_dispatch_def)
  have new: "\<not> seen_message a ?x" for a by (simp add: seen_message_def ext_live_state_def empty_external_def)
  have disp: "find_dispatch (de_dispatch_id prov_dispatch) ?x = Some prov_dispatch_row"
    by (simp add: find_dispatch_def prov_dispatch_def prov_dispatch_row_def)
  let ?tk = "row RUNNING 2 (Some ''w'') (Some ''L'') (Some 31) (Some 0)"
  have task: "find_task (de_task_id prov_dispatch) sample_running = Some ?tk" "\<not> db_locked sample_running" "db_evidence sample_running = []"
    by (simp_all add: prov_dispatch_def sample_running_eq eval_simps sample_defs)
  obtain wk where wk: "find_worker (vp_worker_id sample_verified) sample_running = Some wk" "worker_fresh 3 wk"
    by (simp add: sample_keys sample_running_eq eval_simps sample_defs worker_fresh_def)
  have "\<exists>v x' st'. external_result prov_crypto (Finite 3) (PyDict m) ?x sample_running = (Inr (), x', st')
    \<and> bk_execute (pw_backend prov_connected) prov_dispatch = Inr v \<and> evidence_sealed prov_crypto prov_dispatch v
    \<and> resolve_evidence (pv_evidence_id v) (xg_spool x') = Inr (pv_payload v)
    \<and> db_evidence st' = db_evidence sample_running @ [evidence_row (de_task_id prov_dispatch) (pv_evidence_id v) (cr_hash prov_crypto (pv_payload v)) 3]
    \<and> find_task (de_task_id prov_dispatch) st' = Some (?tk\<lparr>t_state := REVIEW_PENDING, t_evidence_status := ''RECEIVED'', t_updated_at := 3\<rparr>)
    \<and> find_dispatch (de_dispatch_id prov_dispatch) x' = Some (prov_dispatch_row\<lparr>xd_result_received := True\<rparr>)"
    by (rule worker_result_verifies [OF run disjI1 [OF api] prov_hex signs tr ses _ _ _ _ _ _ _ prov_time _ _ new did disp
          _ _ _ _ _ _ _ _ task(2,1) wk(1) _ _ _ _ _ wk(2), where ex = 31])
      (simp_all add: session_row_def prov_connected_def prov_worker_def sample_keys prov_dispatch_def prov_dispatch_row_def
        result_reportable_def holds_lease_def row_def task(3))
  with run task(3) show ?thesis by fastforce
qed

end
