(* ===== verification/Observer.thy ===== *)
theory Observer
  imports Evaluator Authenticator TextLines
begin

text \<open>
  The observers, \<open>src/observer\<close>: git, the process table, evidence files and their combination, with the settings they read.
  What git, the process table and the files answer are parameters; the calls of git are the state, in the order they are made.
\<close>

subsection \<open>Settings\<close>

definition ALLOWED_GIT_COMMANDS :: "string list" where
  "ALLOWED_GIT_COMMANDS = [''rev-parse'', ''branch'', ''status'', ''ls-remote'', ''show'', ''cat-file'', ''verify-commit'', ''merge-base'']"

definition DISALLOWED_GIT_COMMANDS :: "string list" where
  "DISALLOWED_GIT_COMMANDS = [''fetch'', ''pull'', ''checkout'', ''reset'', ''clean'', ''add'', ''commit'', ''gc'', ''maintenance'']"

definition DEFAULT_HEARTBEAT_STALE_THRESHOLD_SECONDS :: rat where "DEFAULT_HEARTBEAT_STALE_THRESHOLD_SECONDS = 300"

record project_config =
  pc_id :: "string option"
  pc_name :: string
  pc_root :: string
  pc_processes :: "string list"
  pc_expected :: bool
  pc_threshold :: "rat option"
  pc_files :: "string list"

definition oracle_config :: "string \<Rightarrow> project_config" where
  "oracle_config dir = \<lparr>pc_id = Some ''oracle'', pc_name = ''ORACLE-AI'', pc_root = dir,
     pc_processes = [''download_and_unify_real_data.py'', ''live_test.py'', ''server.py''], pc_expected = False, pc_threshold = Some 3600,
     pc_files = [''sprints/AGENT_STATUS.json'', ''sprints/ACTIVE_SPRINT.md'', ''environment_validation_report.md'']\<rparr>"

definition micro_config :: "string \<Rightarrow> project_config" where
  "micro_config dir = \<lparr>pc_id = Some ''micro'', pc_name = ''MICRO-MARKET-ORACLE'', pc_root = dir,
     pc_processes = [''antigravity_watcher'', ''watcher'', ''run_watcher.py''], pc_expected = True, pc_threshold = Some 300,
     pc_files = [''control/CURRENT_STAGE.json'', ''control/PROJECT_STATE.json'', ''control/WATCHER_STATE.json'']\<rparr>"

text \<open>\<open>workspace\<close> joins a name to the workspace root.\<close>

definition registered_projects :: "(string \<Rightarrow> string) \<Rightarrow> (string \<times> project_config) list" where
  "registered_projects workspace = [(''ORACLE-AI'', oracle_config (workspace ''Oracle'')),
     (''MICRO-MARKET-ORACLE'', micro_config (workspace ''MICRO-MARKET-ORACLE''))]"

subsection \<open>Git\<close>

text \<open>A call, and how it ends: with a code and two outputs, out of time with what had been read (a text, bytes or nothing), or by an exception.\<close>

record git_call =
  gc_argv :: "string list"
  gc_env :: "(string \<times> string) list"
  gc_timeout :: rat

datatype git_answer = GitDone int string string | GitExpired pyval | GitFailed string

record git_reply =
  gr_code :: int
  gr_stdout :: pyval
  gr_stderr :: string
  gr_timeout :: bool

record git_host =
  gh_answer :: "git_call \<Rightarrow> git_answer"
  gh_repo :: "string \<Rightarrow> bool"
  gh_environ :: "(string \<times> string) list"
  gh_rep :: "pyval \<Rightarrow> string"

definition read_only_env :: "(string \<times> string) list \<Rightarrow> (string \<times> string) list" where
  "read_only_env env = AList.update ''GIT_SSH_COMMAND'' ''ssh -o BatchMode=yes''
     (AList.update ''GIT_TERMINAL_PROMPT'' ''0'' (AList.update ''GIT_OPTIONAL_LOCKS'' ''0'' env))"

definition reply_of :: "git_answer \<Rightarrow> git_reply" where
  "reply_of a = (case a of
      GitDone rc out err \<Rightarrow> \<lparr>gr_code = rc, gr_stdout = PyStr out, gr_stderr = err, gr_timeout = False\<rparr>
    | GitExpired part \<Rightarrow> \<lparr>gr_code = -1, gr_stdout = py_or part (PyStr []), gr_stderr = ''Subprocess timeout expired'', gr_timeout = True\<rparr>
    | GitFailed e \<Rightarrow> \<lparr>gr_code = -1, gr_stdout = PyStr [], gr_stderr = e, gr_timeout = False\<rparr>)"

definition violation :: "string list \<Rightarrow> string" where
  "violation args = ''SECURITY VIOLATION: Disallowed git command attempted: git '' @ join '' '' args"

text \<open>The timeout is the argument, or that of the observer when the argument is absent (or zero). The left is the text of the exception.\<close>

definition run_git :: "git_host \<Rightarrow> rat \<Rightarrow> string \<Rightarrow> string list \<Rightarrow> rat option \<Rightarrow> git_call list \<Rightarrow> (string + git_reply) \<times> git_call list" where
  "run_git H secs repo args limit calls =
     (let sub = (case args of [] \<Rightarrow> [] | a # _ \<Rightarrow> a)
      in if sub \<in> set DISALLOWED_GIT_COMMANDS \<or> sub \<notin> set ALLOWED_GIT_COMMANDS then (Inl (violation args), calls)
         else let t = (case limit of None \<Rightarrow> secs | Some r \<Rightarrow> if r = 0 then secs else r);
                  call = \<lparr>gc_argv = [''git'', ''-C'', repo] @ args, gc_env = read_only_env (gh_environ H), gc_timeout = t\<rparr>
              in (Inr (reply_of (gh_answer H call)), calls @ [call]))"

subsection \<open>A repository\<close>

definition start_info :: dict where
  "start_info = [(''git_available'', PyBool False), (''branch'', PyNone), (''local_head'', PyNone), (''remote_head'', PyNone),
     (''remote_branch_exists'', PyBool False), (''worktree_clean'', PyBool True), (''remote_query_command'', PyNone), (''remote_query_ref'', PyNone),
     (''remote_query_returncode'', PyNone), (''remote_query_timeout'', PyBool False), (''remote_query_stderr_category'', PyStr ''UNKNOWN''),
     (''observer_errors'', PyList [])]"

definition put :: "string \<Rightarrow> pyval \<Rightarrow> dict \<Rightarrow> dict" where "put k v m = AList.update k v m"

definition add_error :: "string \<Rightarrow> dict \<Rightarrow> dict" where
  "add_error e m = (case dget m ''observer_errors'' of PyList es \<Rightarrow> put ''observer_errors'' (PyList (es @ [PyStr e])) m | _ \<Rightarrow> m)"

text \<open>\<open>strip\<close> of what a call printed: the partial output of a call out of time can be bytes.\<close>

definition bytes_blank :: "char \<Rightarrow> bool" where
  "bytes_blank c \<longleftrightarrow> (9 \<le> ord_of c \<and> ord_of c \<le> 13) \<or> ord_of c = 32"

definition strip_value :: "pyval \<Rightarrow> pyval" where
  "strip_value v = (case v of PyStr s \<Rightarrow> PyStr (strip s)
     | PyBytes b \<Rightarrow> PyBytes (rev (dropWhile bytes_blank (rev (dropWhile bytes_blank b)))) | _ \<Rightarrow> v)"

definition remote_ref :: "git_host \<Rightarrow> pyval \<Rightarrow> string" where
  "remote_ref H branch = ''refs/heads/'' @ fmt (gh_rep H) branch"

text \<open>The first line of \<open>ls-remote\<close> whose second word is the reference.\<close>

fun remote_line :: "string \<Rightarrow> string list \<Rightarrow> string option" where
  "remote_line ref [] = None"
| "remote_line ref (l # ls) = (case py_split l of
      h # r # _ \<Rightarrow> if r = ref then Some h else remote_line ref ls
    | _ \<Rightarrow> remote_line ref ls)"

definition failure_category :: "string \<Rightarrow> string" where
  "failure_category err =
     (if contains err ''Authentication failed'' \<or> contains err ''Permission denied'' then ''AUTH_FAILURE''
      else if contains err ''Could not resolve host'' \<or> contains err ''Failed to connect'' then ''NETWORK_FAILURE''
      else ''GIT_FAILURE'')"

definition remote_outcome :: "git_host \<Rightarrow> rat \<Rightarrow> string \<Rightarrow> git_reply \<Rightarrow> dict \<Rightarrow> dict" where
  "remote_outcome H limit ref r m =
     (if gr_timeout r then
        add_error (''Remote query for '' @ ref @ '' timed out ('' @ fmt (gh_rep H) (PyFloat (Finite limit)) @ ''s)'')
          (put ''remote_query_stderr_category'' (PyStr ''TIMEOUT'') m)
      else if gr_code r \<noteq> 0 then
        add_error (''Remote query failed: '' @ strip (gr_stderr r)) (put ''remote_query_stderr_category'' (PyStr (failure_category (gr_stderr r))) m)
      else (case (case gr_stdout r of PyStr out \<Rightarrow> remote_line ref (splitlines (strip out)) | _ \<Rightarrow> None) of
          Some h \<Rightarrow> put ''remote_query_stderr_category'' (PyStr ''VERIFIED'') (put ''remote_branch_exists'' (PyBool True) (put ''remote_head'' (PyStr h) m))
        | None \<Rightarrow> add_error (''Remote branch '' @ ref @ '' not found on origin'')
            (put ''remote_query_stderr_category'' (PyStr ''BRANCH_NOT_FOUND'') m)))"

text \<open>One call and what follows it; an exception of the call is recorded by the handler of \<open>observe_repo\<close>.\<close>

definition git_then :: "git_host \<Rightarrow> rat \<Rightarrow> string \<Rightarrow> string list \<Rightarrow> rat option \<Rightarrow> (git_reply \<Rightarrow> dict \<Rightarrow> git_call list \<Rightarrow> dict \<times> git_call list)
    \<Rightarrow> dict \<Rightarrow> git_call list \<Rightarrow> dict \<times> git_call list" where
  "git_then H limit repo args t k m calls = (case run_git H limit repo args t calls of
      (Inl e, calls1) \<Rightarrow> (put ''remote_query_stderr_category'' (PyStr ''GIT_FAILURE'') (add_error e m), calls1)
    | (Inr r, calls1) \<Rightarrow> k r m calls1)"

definition available :: "dict \<Rightarrow> dict" where "available m = put ''git_available'' (PyBool True) m"

definition remote_args :: "string \<Rightarrow> string list" where
  "remote_args ref = [''ls-remote'', ''--heads'', ''origin'', ref]"

definition observe_remote :: "git_host \<Rightarrow> rat \<Rightarrow> string \<Rightarrow> string \<Rightarrow> dict \<Rightarrow> git_call list \<Rightarrow> dict \<times> git_call list" where
  "observe_remote H limit repo ref m = git_then H limit repo (remote_args ref) (Some limit)
     (\<lambda>r m1 calls. (available (remote_outcome H limit ref r (put ''remote_query_timeout'' (PyBool (gr_timeout r))
         (put ''remote_query_returncode'' (PyInt (gr_code r)) m1))), calls))
     (put ''remote_query_ref'' (PyStr ref) (put ''remote_query_command'' (PyStr (''git -C '' @ repo @ '' '' @ join '' '' (remote_args ref))) m))"

definition observe_branch :: "git_host \<Rightarrow> rat \<Rightarrow> string \<Rightarrow> pyval \<Rightarrow> dict \<Rightarrow> git_call list \<Rightarrow> dict \<times> git_call list" where
  "observe_branch H limit repo branch m = git_then H limit repo [''rev-parse'', ''HEAD''] None
     (\<lambda>r m1. git_then H limit repo [''status'', ''--porcelain''] None
        (\<lambda>s m2. observe_remote H limit repo (remote_ref H branch)
            (put ''worktree_clean'' (PyBool (\<not> truthy (strip_value (gr_stdout s)))) m2))
        (if truthy (gr_stdout r) then put ''local_head'' (strip_value (gr_stdout r)) m1 else m1))
     (put ''branch'' branch m)"

definition observe_repo :: "git_host \<Rightarrow> rat \<Rightarrow> string \<Rightarrow> git_call list \<Rightarrow> dict \<times> git_call list" where
  "observe_repo H limit repo =
     (if \<not> gh_repo H repo then (\<lambda>calls. (add_error ''Directory or .git repository does not exist'' start_info, calls))
      else git_then H limit repo [''rev-parse'', ''--abbrev-ref'', ''HEAD''] None
        (\<lambda>r m. if truthy (gr_stdout r) then observe_branch H limit repo (strip_value (gr_stdout r)) m else (\<lambda>calls. (available m, calls)))
        start_info)"

subsection \<open>Processes\<close>

text \<open>
  What asking for the processes gives: a provider that a test injects, \<open>powershell\<close> with the parsing of its JSON (\<open>None\<close> raises), or
  \<open>ps\<close>; \<open>None\<close> as an outcome is an exception of the call.
\<close>

datatype process_source =
    Injected "pyval list"
  | PowerShell "(int \<times> string) option" "string \<Rightarrow> pyval option"
  | Ps "(int \<times> string) option"

text \<open>An exception ends the loop over the lines of \<open>ps\<close> and keeps the processes read so far.\<close>

fun ps_lines :: "string list \<Rightarrow> pyval list" where
  "ps_lines [] = []"
| "ps_lines (l # ls) = (case split_once (strip l) of
      None \<Rightarrow> ps_lines ls
    | Some (a, b) \<Rightarrow> (case int_of_text a of
          None \<Rightarrow> []
        | Some i \<Rightarrow> PyDict [(''ProcessId'', PyInt i), (''CommandLine'', PyStr b)] # ps_lines ls))"

definition get_running_processes :: "process_source \<Rightarrow> pyval list" where
  "get_running_processes s = (case s of
      Injected ps \<Rightarrow> ps
    | PowerShell (Some (rc, out)) loads \<Rightarrow> if rc = 0 \<and> strip out \<noteq> [] then (case loads (strip out) of
          Some (PyList ps) \<Rightarrow> ps | Some (PyDict m) \<Rightarrow> [PyDict m] | _ \<Rightarrow> []) else []
    | Ps (Some (rc, out)) \<Rightarrow> if rc = 0 then ps_lines (drop 1 (splitlines out)) else []
    | _ \<Rightarrow> [])"

text \<open>\<open>proc.get("CommandLine") or ""\<close>, lowered.\<close>

definition command_line :: "pyval \<Rightarrow> string res" where
  "command_line p = (case p of
      PyDict m \<Rightarrow> (case py_or (dget m ''CommandLine'') (PyStr []) of PyStr c \<Rightarrow> Inr (lower c) | _ \<Rightarrow> Inl (PyError ''AttributeError''))
    | _ \<Rightarrow> Inl (PyError ''AttributeError''))"

definition process_id :: "pyval \<Rightarrow> pyval" where
  "process_id p = (case p of PyDict m \<Rightarrow> dget m ''ProcessId'' | _ \<Rightarrow> PyNone)"

fun match_process :: "string list \<Rightarrow> pyval list \<Rightarrow> (bool \<times> pyval \<times> pyval) res" where
  "match_process expected [] = Inr (False, PyNone, PyNone)"
| "match_process expected (p # ps) = (case command_line p of
      Inl e \<Rightarrow> Inl e
    | Inr c \<Rightarrow> (case find (\<lambda>e. contains c (lower e)) expected of
          Some e \<Rightarrow> Inr (True, PyStr e, process_id p)
        | None \<Rightarrow> match_process expected ps))"

definition check_process_running :: "process_source \<Rightarrow> string list \<Rightarrow> (bool \<times> pyval \<times> pyval) res" where
  "check_process_running s expected =
     (if expected = [] then Inr (False, PyNone, PyNone) else match_process expected (get_running_processes s))"

text \<open>\<open>int(pid)\<close> and \<open>pid in pids\<close>.\<close>

definition py_int :: "pyval \<Rightarrow> int res" where
  "py_int v = (case v of
      PyInt i \<Rightarrow> Inr i
    | PyBool b \<Rightarrow> Inr (if b then 1 else 0)
    | PyFloat (Finite r) \<Rightarrow> Inr (if r < 0 then - \<lfloor>- r\<rfloor> else \<lfloor>r\<rfloor>)
    | PyFloat NaN \<Rightarrow> Inl (PyError ''ValueError'')
    | PyFloat _ \<Rightarrow> Inl (PyError ''OverflowError'')
    | PyStr s \<Rightarrow> (case int_of_text s of Some i \<Rightarrow> Inr i | None \<Rightarrow> Inl (PyError ''ValueError''))
    | _ \<Rightarrow> Inl (PyError ''TypeError''))"

definition among :: "pyval \<Rightarrow> int list \<Rightarrow> bool" where
  "among v pids = (case v of PyInt i \<Rightarrow> i \<in> set pids | PyBool b \<Rightarrow> (if b then 1 else 0) \<in> set pids
     | PyFloat (Finite r) \<Rightarrow> list_ex (\<lambda>i. r = of_int i) pids | _ \<Rightarrow> False)"

definition control_plane_line :: "string \<Rightarrow> bool" where
  "control_plane_line c \<longleftrightarrow> contains c ''main.py'' \<and> contains c ''ai-control-plane'' \<and> \<not> contains c ''--once'' \<and> \<not> contains c ''pytest''"

fun active_pids :: "pyval list \<Rightarrow> int list \<Rightarrow> int list res" where
  "active_pids [] pids = Inr pids"
| "active_pids (p # ps) pids = (case command_line p of
      Inl e \<Rightarrow> Inl e
    | Inr c \<Rightarrow> if control_plane_line c \<and> truthy (process_id p) \<and> \<not> among (process_id p) pids
        then (case py_int (process_id p) of Inl e \<Rightarrow> Inl e | Inr i \<Rightarrow> active_pids ps (pids @ [i]))
        else active_pids ps pids)"

definition get_active_control_plane_processes :: "process_source \<Rightarrow> (nat \<times> int list) res" where
  "get_active_control_plane_processes s = (case active_pids (get_running_processes s) [] of
      Inl e \<Rightarrow> Inl e | Inr pids \<Rightarrow> Inr (length pids, pids))"

subsection \<open>Evidence files\<close>

text \<open>
  What a file is: absent, not to be examined (\<open>exists\<close> raises), unreadable with the text of the exception, or its modification time
  (also as a text) and content. \<open>NotJson\<close> is a \<open>JSONDecodeError\<close>, \<open>JsonRaised\<close> any other exception of the parser.
\<close>

datatype file_answer = Missing | ExistsRaised err | ReadFailed string | FileRead rat string string

datatype json_answer = Parsed pyval | NotJson string | JsonRaised string

record file_host =
  fh_file :: "string \<Rightarrow> string \<Rightarrow> file_answer"
  fh_path :: "string \<Rightarrow> string \<Rightarrow> string"
  fh_loads :: "string \<Rightarrow> json_answer"
  fh_now :: "string \<Rightarrow> rat"

text \<open>The name of a path with slashes, and whether its suffix is \<open>.json\<close>.\<close>

definition file_name :: "string \<Rightarrow> string" where
  "file_name p = (case rev (filter (\<lambda>c. c \<noteq> [] \<and> c \<noteq> ''.'') (split_on (CHR ''/'') p)) of [] \<Rightarrow> [] | c # _ \<Rightarrow> c)"

definition is_json :: "string \<Rightarrow> bool" where
  "is_json p \<longleftrightarrow> 5 < length (file_name p) \<and> suffix ''.json'' (lower (file_name p))"

definition evidence_item :: "file_host \<Rightarrow> string \<Rightarrow> string \<Rightarrow> bool \<Rightarrow> pyval \<Rightarrow> pyval \<Rightarrow> pyval \<Rightarrow> pyval \<Rightarrow> EvidenceItem" where
  "evidence_item H base rel present modified age data err =
     \<lparr>ei_source_name = file_name rel, ei_filepath = fh_path H base rel, ei_file_exists = present, ei_last_modified = modified,
      ei_age_seconds = age, ei_parsed_data = data, ei_parse_error = err\<rparr>"

definition collect_file_evidence :: "file_host \<Rightarrow> string \<Rightarrow> string \<Rightarrow> EvidenceItem res" where
  "collect_file_evidence H base rel =
     (let unreadable = (\<lambda>e. evidence_item H base rel True PyNone PyNone PyNone (PyStr (''Error reading file: '' @ e)))
      in case fh_file H base rel of
          Missing \<Rightarrow> Inr (evidence_item H base rel False PyNone PyNone PyNone (PyStr ''File does not exist''))
        | ExistsRaised e \<Rightarrow> Inl e
        | ReadFailed e \<Rightarrow> Inr (unreadable e)
        | FileRead mtime stamp content \<Rightarrow>
            let item = evidence_item H base rel True (PyStr stamp) (PyFloat (Finite (max 0 (fh_now H rel - mtime))))
            in if is_json rel then (case fh_loads H content of
                  Parsed v \<Rightarrow> Inr (item v PyNone)
                | NotJson e \<Rightarrow> Inr (item PyNone (PyStr (''JSON decode error: '' @ e)))
                | JsonRaised e \<Rightarrow> Inr (unreadable e))
               else Inr (item (PyDict [(''raw_text'', PyStr content)]) PyNone))"

fun collect_project_evidence :: "file_host \<Rightarrow> string \<Rightarrow> string list \<Rightarrow> (string \<times> EvidenceItem) list \<Rightarrow> (string \<times> EvidenceItem) list res" where
  "collect_project_evidence H base [] items = Inr items"
| "collect_project_evidence H base (r # rs) items = (case collect_file_evidence H base r of
      Inl e \<Rightarrow> Inl e
    | Inr i \<Rightarrow> collect_project_evidence H base rs (AList.update r i items))"

subsection \<open>A project\<close>

record observation = observed +
  os_root :: string
  os_process_pid :: pyval

record observer =
  ov_git :: git_host
  ov_timeout :: rat
  ov_processes :: process_source
  ov_files :: file_host

definition error_texts :: "pyval \<Rightarrow> string list" where
  "error_texts v = (case v of PyList es \<Rightarrow> List.map_filter as_str es | _ \<Rightarrow> [])"

definition recent :: "EvidenceItem \<Rightarrow> bool" where
  "recent i \<longleftrightarrow> ei_file_exists i \<and> (case ei_age_seconds i of PyFloat (Finite a) \<Rightarrow> a < 60 | _ \<Rightarrow> False)"

definition observe :: "observer \<Rightarrow> project_config \<Rightarrow> git_call list \<Rightarrow> observation res \<times> git_call list" where
  "observe B cfg calls = (case observe_repo (ov_git B) (ov_timeout B) (pc_root cfg) calls of
      (git, calls1) \<Rightarrow> (case check_process_running (ov_processes B) (pc_processes cfg) of
          Inl e \<Rightarrow> (Inl e, calls1)
        | Inr (running, matched, pid) \<Rightarrow> (case collect_project_evidence (ov_files B) (pc_root cfg) (pc_files cfg) [] of
              Inl e \<Rightarrow> (Inl e, calls1)
            | Inr items \<Rightarrow> (Inr \<lparr>ob_project = pc_name cfg, ob_git = git, ob_process_expected = pc_expected cfg, ob_process_running = running,
                 ob_unexpected_process = \<not> pc_expected cfg \<and> running, ob_evidence = items, ob_errors = error_texts (dget git ''observer_errors''),
                 ob_external_activity = running \<or> list_ex (\<lambda>(k, i). recent i) items, ob_matched_process = matched,
                 os_root = pc_root cfg, os_process_pid = pid\<rparr>, calls1))))"

end
