(* ===== verification/Engine.thy ===== *)
theory Engine
  imports Observer Watcher
begin

text \<open>
  The control plane: the sweep of \<open>src/engine.py\<close> over the registered projects with the audit log (\<open>src/audit/audit_logger.py\<close>), the
  publication of the state, the process lock (\<open>src/lock_manager.py\<close>) and the entry point (\<open>main.py\<close>). A sweep is an action on the
  engine's state; clocks, file writes and git's answers in the control plane's own repository are the environment of the sweep.
\<close>

subsection \<open>Settings\<close>

text \<open>The publication settings as \<open>getattr\<close> reads them (\<open>None\<close> when absent); a list also stands for a set or a tuple.\<close>

record publish_settings =
  ps_enabled :: pyval
  ps_branch :: pyval
  ps_protected :: pyval
  ps_checkpoint :: rat

definition default_publication :: publish_settings where
  "default_publication = \<lparr>ps_enabled = PyBool False, ps_branch = PyStr [], ps_protected = PyList [PyStr ''main'', PyStr ''master''],
     ps_checkpoint = 300\<rparr>"

definition permissions :: dict where
  "permissions = [(''CONTROL_PLANE_WRITE_PROJECTS'', PyBool False), (''CONTROL_PLANE_RESTART_PROJECTS'', PyBool False),
     (''CONTROL_PLANE_CHANGE_STRATEGY'', PyBool False), (''CONTROL_PLANE_ENABLE_REAL_MONEY'', PyBool False),
     (''CONTROL_PLANE_EXECUTE_PROJECT_CODE'', PyBool False), (''CONTROL_PLANE_ACCEPT_DIRECTIVES'', PyBool True),
     (''CONTROL_PLANE_VALIDATE_DIRECTIVES'', PyBool True), (''CONTROL_PLANE_QUEUE_DIRECTIVES'', PyBool True),
     (''CONTROL_PLANE_EXECUTE_MUTATING_DIRECTIVES'', PyBool False)]"

subsection \<open>State\<close>

text \<open>A state file holds a document, or what a failed write left of it (\<open>None\<close>). The two git logs: the reads of the projects
  (\<open>en_calls\<close>) and the commands of \<open>publish_remote_status\<close> in the control plane's own repository (\<open>en_publish_log\<close>). What the watcher and the
  authenticator ask git in that repository during a poll is in neither: the answers are fields of \<open>sv_watch\<close>.\<close>

record engine =
  en_files :: "(string \<times> dict option) list"
  en_audit :: jfile
  en_started :: string
  en_sweeps :: nat
  en_last_states :: "(string \<times> string) list"
  en_last_error :: "string option"
  en_published :: "rat option"
  en_watcher :: channel
  en_calls :: "git_call list"
  en_publish_log :: "string list list"

definition new_engine :: "string \<Rightarrow> (string \<times> dict option) list \<Rightarrow> jfile \<Rightarrow> channel \<Rightarrow> engine" where
  "new_engine now files audit c = \<lparr>en_files = files, en_audit = audit, en_started = now, en_sweeps = 0, en_last_states = [],
     en_last_error = None, en_published = None, en_watcher = c, en_calls = [], en_publish_log = []\<rparr>"

text \<open>
  \<open>sv_write name doc\<close>: \<open>None\<close>, or the exception of the write and whether the file was opened (and truncated) before it. \<open>sv_append\<close> is the
  exception of the append to the audit log. Times are keyed by the project where the code reads the clock once for each.
\<close>

record sweep_env =
  sv_watch :: watch_env
  sv_inbox :: bool
  sv_text :: "err \<Rightarrow> string"
  sv_observer :: observer
  sv_projects :: "(string \<times> project_config) list"
  sv_rep :: "pyval \<Rightarrow> string"
  sv_fixed :: "rat \<Rightarrow> string"
  sv_parse :: "pyval \<Rightarrow> rat option"
  sv_enum :: "decl list \<Rightarrow> decl list"
  sv_eval_time :: "string \<Rightarrow> rat \<times> string"
  sv_audit_time :: "string \<Rightarrow> string"
  sv_now :: rat
  sv_now_iso :: string
  sv_beat :: "string \<times> string"
  sv_pid :: int
  sv_write :: "string \<Rightarrow> dict \<Rightarrow> (bool \<times> err) option"
  sv_append :: "string \<Rightarrow> err option"
  sv_publish :: publish_settings
  sv_git :: "string list \<Rightarrow> git_run"
  sv_dot_git :: bool

subsection \<open>Files\<close>

definition write_state :: "sweep_env \<Rightarrow> string \<Rightarrow> dict \<Rightarrow> (engine, unit) act" where
  "write_state E name doc w = (case sv_write E name doc of
      None \<Rightarrow> (Inr (), w\<lparr>en_files := AList.update name (Some doc) (en_files w)\<rparr>)
    | Some (opened, e) \<Rightarrow> (Inl e, if opened then w\<lparr>en_files := AList.update name None (en_files w)\<rparr> else w))"

definition text_or_none :: "string option \<Rightarrow> pyval" where
  "text_or_none v = (case v of None \<Rightarrow> PyNone | Some s \<Rightarrow> PyStr s)"

definition self_health :: "sweep_env \<Rightarrow> string \<Rightarrow> engine \<Rightarrow> dict" where
  "self_health E st w = [(''status'', PyStr st), (''pid'', PyInt (sv_pid E)), (''started_at'', PyStr (en_started w)),
     (''last_heartbeat'', PyStr (fst (sv_beat E))), (''last_successful_sweep'', PyStr (snd (sv_beat E))),
     (''last_error'', text_or_none (en_last_error w)), (''sweep_count'', PyInt (int (en_sweeps w))), (''observer_version'', PyStr ''1.0.0'')]"

definition update_self_health :: "sweep_env \<Rightarrow> string \<Rightarrow> (engine, unit) act" where
  "update_self_health E st = seq (query (self_health E st)) (write_state E ''control_plane_status.json'')"

definition observation_event :: "string \<Rightarrow> NormalizedProjectState \<Rightarrow> string option \<Rightarrow> dict" where
  "observation_event now s prev = [(''timestamp'', PyStr now), (''event_type'', PyStr ''PROJECT_OBSERVED''), (''project'', PyStr (np_project s)),
     (''status'', PyStr (cs_value (np_status s))), (''previous_status'', text_or_none prev), (''state_conflict'', PyBool (np_state_conflict s)),
     (''conflicting_sources'', strings (np_conflicting_sources s)), (''reason'', PyStr (np_reason s)),
     (''confidence'', PyFloat (Finite (np_confidence s))), (''stage'', np_stage s), (''branch'', np_branch s), (''local_head'', np_local_head s),
     (''process_running'', PyBool (np_process_running s)), (''heartbeat_age_seconds'', opt_float (np_heartbeat_age s)),
     (''evidence_sources'', strings (np_evidence_sources s))]"

definition log_observation_event :: "sweep_env \<Rightarrow> string \<Rightarrow> NormalizedProjectState \<Rightarrow> string option \<Rightarrow> (engine, unit) act" where
  "log_observation_event E key s prev w = (case sv_append E key of
      Some e \<Rightarrow> (Inl e, w)
    | None \<Rightarrow> (Inr (), w\<lparr>en_audit := append_line (observation_event (sv_audit_time E key) s prev) (en_audit w)\<rparr>))"

subsection \<open>One project\<close>

definition observe_state :: "sweep_env \<Rightarrow> string \<Rightarrow> project_config \<Rightarrow> (engine, NormalizedProjectState) act" where
  "observe_state E key cfg w = (case observe (sv_observer E) cfg (en_calls w) of (r, calls) \<Rightarrow>
     ((case r of Inl e \<Rightarrow> Inl e
       | Inr ob \<Rightarrow> evaluate (sv_rep E) (sv_fixed E) (sv_parse E) (sv_enum E)
           (case pc_threshold cfg of None \<Rightarrow> DEFAULT_HEARTBEAT_STALE_THRESHOLD_SECONDS | Some t \<Rightarrow> t)
           (fst (sv_eval_time E key)) (snd (sv_eval_time E key)) (observed.truncate ob)), w\<lparr>en_calls := calls\<rparr>))"

definition state_file :: "string \<Rightarrow> project_config \<Rightarrow> string" where
  "state_file key cfg = (case pc_id cfg of None \<Rightarrow> lower key | Some i \<Rightarrow> i) @ ''.json''"

text \<open>The state of a project, and whether its status differs from that of the last sweep.\<close>

definition sweep_project :: "sweep_env \<Rightarrow> string \<times> project_config \<Rightarrow> (engine, (string \<times> NormalizedProjectState) \<times> bool) act" where
  "sweep_project E p = (case p of (key, cfg) \<Rightarrow> seq (observe_state E key cfg) (\<lambda>s. let st = cs_value (np_status s) in
     seq (query (\<lambda>w. map_of (en_last_states w) key)) (\<lambda>prev.
     seq (modify (\<lambda>w. w\<lparr>en_last_states := AList.update key st (en_last_states w)\<rparr>)) (\<lambda>_.
     seq (write_state E (state_file key cfg) (state_to_dict s)) (\<lambda>_.
     seq (log_observation_event E key s prev) (\<lambda>_. ret ((key, s), prev \<noteq> None \<and> prev \<noteq> Some st)))))))"

definition overall_health :: "(string \<times> NormalizedProjectState) list \<Rightarrow> string" where
  "overall_health states =
     (if list_ex (\<lambda>(k, s). cs_value (np_status s) = ''BLOCKED'') states then ''BLOCKED''
      else if list_ex (\<lambda>(k, s). cs_value (np_status s) = ''STALE'') states then ''DEGRADED_STALE'' else ''STABLE'')"

definition global_status :: "sweep_env \<Rightarrow> (string \<times> NormalizedProjectState) list \<Rightarrow> dict" where
  "global_status E states = [(''control_plane'', PyDict [(''version'', PyStr ''1.0.0''), (''permissions'', PyDict permissions),
       (''allowed_git_commands'', strings ALLOWED_GIT_COMMANDS), (''disallowed_git_commands'', strings DISALLOWED_GIT_COMMANDS),
       (''observed_at'', PyStr (sv_now_iso E)), (''total_projects_monitored'', PyInt (int (length states))),
       (''overall_health'', PyStr (overall_health states))]),
     (''projects'', PyDict (map (\<lambda>(k, s). (k, PyDict (state_to_dict s))) states))]"

subsection \<open>Publication\<close>

definition ref_prefix :: string where "ref_prefix = ''refs/heads/''"

definition short_branch :: "string \<Rightarrow> string" where
  "short_branch s = (if prefix ref_prefix (lower s) then drop (length ref_prefix) s else s)"

text \<open>\<open>canonical_protected\<close>; \<open>casefold\<close> of the characters of the model is \<open>lower\<close>.\<close>

definition protected_names :: "pyval list \<Rightarrow> string list" where
  "protected_names xs = map (\<lambda>s. lower (strip s)) (filter (\<lambda>s. strip s \<noteq> []) (List.map_filter as_str xs))"

definition branch_char_refused :: "char \<Rightarrow> bool" where
  "branch_char_refused c \<longleftrightarrow> ord_of c < 32 \<or> ord_of c = 127 \<or> is_space c \<or> c \<in> set (''+~^:?*['' @ [CHR 0x5C])"

definition branch_refused :: "string \<Rightarrow> bool" where
  "branch_refused b \<longleftrightarrow> b = ''@'' \<or> prefix ''-'' b \<or> prefix ''/'' b \<or> suffix ''/'' b \<or> suffix ''.'' b \<or> contains b ''//'' \<or> contains b ''..''
     \<or> contains b [CHR 0x40, CHR 0x7B] \<or> list_ex branch_char_refused b
     \<or> list_ex (\<lambda>p. p = [] \<or> prefix ''.'' p \<or> suffix ''.lock'' (lower p)) (split_on (CHR ''/'') b)"

definition validated_remote_publish_branch :: "publish_settings \<Rightarrow> string option" where
  "validated_remote_publish_branch P = (case (ps_branch P, ps_protected P) of
      (PyStr raw, PyList prot) \<Rightarrow>
        if raw \<noteq> strip raw then None
        else let b = short_branch raw in
          if b = [] \<or> lower b \<in> set (protected_names prot) \<or> branch_refused b then None else Some b
    | _ \<Rightarrow> None)"

definition add_command :: "string list" where
  "add_command = [''git'', ''add'', ''state/'', ''directives/runtime/'', ''directives/acks/'', ''directives/inbox/'', ''audit/'', ''reports/'']"

definition status_command :: "string list" where "status_command = [''git'', ''status'', ''--porcelain'']"

definition commit_command :: "nat \<Rightarrow> string list" where
  "commit_command n = [''git'', ''commit'', ''-m'', ''chore(control-plane): state publication sweep #'' @ str_of_nat n]"

definition push_command :: "string \<Rightarrow> string list" where
  "push_command b = [''git'', ''push'', ''origin'', ''HEAD:refs/heads/'' @ b]"

text \<open>One command and what follows when it succeeds; an exception of any is kept as the last error.\<close>

definition command_then :: "sweep_env \<Rightarrow> string list \<Rightarrow> (string \<Rightarrow> engine \<Rightarrow> bool \<times> engine) \<Rightarrow> engine \<Rightarrow> bool \<times> engine" where
  "command_then E args k w = (let w1 = w\<lparr>en_publish_log := en_publish_log w @ [args]\<rparr> in case sv_git E args of
      Inl e \<Rightarrow> (False, w1\<lparr>en_last_error := Some (''Remote publication failed: '' @ e)\<rparr>)
    | Inr (rc, out, _) \<Rightarrow> if rc \<noteq> 0 then (False, w1) else k out w1)"

definition publish_remote_status :: "sweep_env \<Rightarrow> engine \<Rightarrow> bool \<times> engine" where
  "publish_remote_status E w =
     (if ps_enabled (sv_publish E) \<noteq> PyBool True then (False, w)
      else (case validated_remote_publish_branch (sv_publish E) of
          None \<Rightarrow> (False, w)
        | Some b \<Rightarrow> if \<not> sv_dot_git E then (False, w)
            else command_then E add_command (\<lambda>_. command_then E status_command (\<lambda>out. if strip out \<noteq> []
              then (\<lambda>w1. command_then E (commit_command (en_sweeps w1)) (\<lambda>_. command_then E (push_command b) (\<lambda>_ w2. (True, w2))) w1)
              else Pair True)) w))"

definition publication_due :: "sweep_env \<Rightarrow> bool \<Rightarrow> engine \<Rightarrow> bool" where
  "publication_due E changed w \<longleftrightarrow> ps_enabled (sv_publish E) = PyBool True \<and> (changed \<or> (case en_published w of
      None \<Rightarrow> True | Some t \<Rightarrow> sv_now E - t \<ge> ps_checkpoint (sv_publish E)))"

definition publish_if_due :: "sweep_env \<Rightarrow> bool \<Rightarrow> engine \<Rightarrow> engine" where
  "publish_if_due E changed w = (if publication_due E changed w then (case publish_remote_status E w of
      (ok, w1) \<Rightarrow> if ok then w1\<lparr>en_published := Some (sv_now E)\<rparr> else w1) else w)"

subsection \<open>A sweep\<close>

definition poll_directives :: "sweep_env \<Rightarrow> engine \<Rightarrow> engine" where
  "poll_directives E w = (case poll_inbox (sv_watch E) (sv_inbox E) (en_watcher w) of
      (Inr _, c) \<Rightarrow> w\<lparr>en_watcher := c\<rparr>
    | (Inl e, c) \<Rightarrow> w\<lparr>en_watcher := c, en_last_error := Some (''Directive watcher inbox poll error: '' @ sv_text E e)\<rparr>)"

definition run_sweep :: "sweep_env \<Rightarrow> (engine, (string \<times> NormalizedProjectState) list) act" where
  "run_sweep E = seq (modify (\<lambda>w. poll_directives E (w\<lparr>en_sweeps := en_sweeps w + 1\<rparr>))) (\<lambda>_.
     seq (each (sweep_project E) (sv_projects E)) (\<lambda>rs.
     seq (write_state E ''global_status.json'' (global_status E (map fst rs))) (\<lambda>_.
     seq (update_self_health E ''RUNNING'') (\<lambda>_.
     seq (modify (publish_if_due E (list_ex snd rs))) (\<lambda>_. ret (map fst rs))))))"

subsection \<open>Process lock\<close>

text \<open>Who holds the operating system's lock on the file, and the text of the PID file. \<open>lio_opened\<close>, \<open>lio_written\<close>: opening the lock file, and writing to it.\<close>

record process_lock =
  pl_holder :: "nat option"
  pl_pid :: "string option"

record lock_io =
  lio_opened :: bool
  lio_written :: bool
  lio_pid_written :: bool
  lio_pid_read :: bool
  lio_unlinked :: bool

definition recorded_pid :: "lock_io \<Rightarrow> process_lock \<Rightarrow> int option" where
  "recorded_pid io l = (case pl_pid l of None \<Rightarrow> None
     | Some s \<Rightarrow> if lio_pid_read io \<and> strip s \<noteq> [] then int_of_text (strip s) else None)"

definition acquire :: "lock_io \<Rightarrow> nat \<Rightarrow> int \<Rightarrow> process_lock \<Rightarrow> (bool \<times> int option) \<times> process_lock" where
  "acquire io inst pid l =
     (if lio_opened io \<and> pl_holder l = None \<and> lio_written io
      then ((True, Some pid), l\<lparr>pl_holder := Some inst, pl_pid := if lio_pid_written io then Some (str_of_int pid) else pl_pid l\<rparr>)
      else ((False, recorded_pid io l), l))"

definition release :: "lock_io \<Rightarrow> nat \<Rightarrow> process_lock \<Rightarrow> process_lock" where
  "release io inst l = l\<lparr>pl_holder := if pl_holder l = Some inst then None else pl_holder l,
     pl_pid := if lio_unlinked io then None else pl_pid l\<rparr>"

subsection \<open>Entry point\<close>

text \<open>
  \<open>body\<close> runs on an engine that has been constructed. \<open>--once\<close> is one sweep; the persistent loop is the sweeps until an interrupt, which comes between two sweeps, or an exception. The result is
  the exit code 1, an exception that escapes, or the end.
\<close>

definition sweep_once :: "sweep_env \<Rightarrow> (engine, unit) act" where
  "sweep_once E = seq (run_sweep E) (\<lambda>_. ret ())"

definition run_continuous :: "sweep_env list \<Rightarrow> sweep_env \<Rightarrow> (engine, unit) act" where
  "run_continuous Es stop = seq (for_each sweep_once Es) (\<lambda>_. update_self_health stop ''STOPPED'')"

datatype launch = LaunchRejected "int option" | LaunchRaised err | LaunchEnded

definition control_plane_main :: "lock_io \<Rightarrow> nat \<Rightarrow> int \<Rightarrow> (engine, unit) act \<Rightarrow> process_lock \<times> engine \<Rightarrow> launch \<times> process_lock \<times> engine" where
  "control_plane_main io inst pid body s = (case s of (l, w) \<Rightarrow> (case acquire io inst pid l of
      ((False, other), l1) \<Rightarrow> (LaunchRejected other, l1, w)
    | ((True, _), l1) \<Rightarrow> (case body w of
          (Inl e, w1) \<Rightarrow> (LaunchRaised e, release io inst l1, w1)
        | (Inr _, w1) \<Rightarrow> (LaunchEnded, release io inst l1, w1))))"

end
