(* ===== verification/ObserverClaims.thy ===== *)
theory ObserverClaims
  imports Observer
begin

text \<open>
  What the observers promise: git is only read, a head is verified only by the line of the remote that names the branch, and the
  project state built from an observation carries it. A git that does not answer at all is not reported.
\<close>

subsection \<open>Dictionaries\<close>

lemma dget_put [simp]: "dget (put k v m) k' = (if k' = k then v else dget m k')"
  by (simp add: put_def dget_def map_of_AList_update)

lemma dget_or_put [simp]: "dget_or (put k v m) k' d = (if k' = k then v else dget_or m k' d)"
  by (simp add: put_def dget_or_def map_of_AList_update)

lemma dget_add_error [simp]: "k \<noteq> ''observer_errors'' \<Longrightarrow> dget (add_error e m) k = dget m k"
  by (auto simp: add_error_def split: pyval.splits)

lemma dget_or_add_error [simp]: "k \<noteq> ''observer_errors'' \<Longrightarrow> dget_or (add_error e m) k d = dget_or m k d"
  by (auto simp: add_error_def split: pyval.splits)

lemma dget_available [simp]: "k \<noteq> ''git_available'' \<Longrightarrow> dget (available m) k = dget m k"
  "k \<noteq> ''git_available'' \<Longrightarrow> dget_or (available m) k d = dget_or m k d"
  by (simp_all add: available_def)

subsection \<open>Calls\<close>

definition call_of :: "git_host \<Rightarrow> rat \<Rightarrow> string \<Rightarrow> string list \<Rightarrow> git_call" where
  "call_of H t repo args = \<lparr>gc_argv = [''git'', ''-C'', repo] @ args, gc_env = read_only_env (gh_environ H), gc_timeout = t\<rparr>"

definition READ_COMMANDS :: "string list" where "READ_COMMANDS = [''rev-parse'', ''status'', ''ls-remote'']"

definition read_call :: "string \<Rightarrow> git_call \<Rightarrow> bool" where
  "read_call repo c \<longleftrightarrow> (\<exists>sub rest. gc_argv c = [''git'', ''-C'', repo] @ sub # rest \<and> sub \<in> set READ_COMMANDS)
     \<and> map_of (gc_env c) ''GIT_OPTIONAL_LOCKS'' = Some ''0'' \<and> map_of (gc_env c) ''GIT_TERMINAL_PROMPT'' = Some ''0''"

lemma read_call_of: "sub \<in> set READ_COMMANDS \<Longrightarrow> read_call repo (call_of H t repo (sub # rest))"
  by (auto simp: read_call_def call_of_def read_only_env_def map_of_AList_update)

lemma run_git_refuses:
  "sub \<in> set DISALLOWED_GIT_COMMANDS \<or> sub \<notin> set ALLOWED_GIT_COMMANDS
    \<Longrightarrow> run_git H limit repo (sub # rest) t calls = (Inl (violation (sub # rest)), calls)"
  by (simp add: run_git_def)

lemma read_commands [simp]: "''rev-parse'' \<in> set READ_COMMANDS" "''status'' \<in> set READ_COMMANDS" "''ls-remote'' \<in> set READ_COMMANDS"
  by (simp_all add: READ_COMMANDS_def)

lemma read_allowed: "sub \<in> set READ_COMMANDS \<Longrightarrow> sub \<in> set ALLOWED_GIT_COMMANDS" "sub \<in> set READ_COMMANDS \<Longrightarrow> sub \<notin> set DISALLOWED_GIT_COMMANDS"
  by (auto simp: READ_COMMANDS_def ALLOWED_GIT_COMMANDS_def DISALLOWED_GIT_COMMANDS_def)

lemma run_git_reads:
  assumes "sub \<in> set READ_COMMANDS" and "t = None \<or> t = Some limit"
  shows "run_git H limit repo (sub # rest) t calls
     = (Inr (reply_of (gh_answer H (call_of H limit repo (sub # rest)))), calls @ [call_of H limit repo (sub # rest)])"
  using assms(2) read_allowed [OF assms(1)] by (elim disjE) (simp_all add: run_git_def call_of_def Let_def)

lemma git_then_reads:
  assumes "sub \<in> set READ_COMMANDS" and "t = None \<or> t = Some limit"
  shows "git_then H limit repo (sub # rest) t k m calls = k (reply_of (gh_answer H (call_of H limit repo (sub # rest)))) m
     (calls @ [call_of H limit repo (sub # rest)])"
  using run_git_reads [OF assms] by (simp add: git_then_def)

lemma repo_calls:
  assumes "observe_repo H limit repo calls = (info, calls')"
  shows "\<exists>new. calls' = calls @ new \<and> length new \<le> 4 \<and> list_all (read_call repo) new"
  using assms
  by (auto simp: observe_repo_def observe_branch_def observe_remote_def remote_args_def git_then_reads read_call_of split: if_splits)

subsection \<open>Remote heads\<close>

text \<open>The remote's answer names the head \<open>h\<close> of \<open>branch\<close>: \<open>ls-remote\<close> succeeded in time with such a line.\<close>

definition remote_reports :: "git_host \<Rightarrow> rat \<Rightarrow> string \<Rightarrow> pyval \<Rightarrow> string \<Rightarrow> bool" where
  "remote_reports H limit repo branch h \<longleftrightarrow> (\<exists>out err l rest.
     gh_answer H (call_of H limit repo (remote_args (remote_ref H branch))) = GitDone 0 out err
     \<and> l \<in> set (splitlines (strip out)) \<and> py_split l = h # remote_ref H branch # rest)"

lemma remote_line_D: "remote_line ref ls = Some h \<Longrightarrow> \<exists>l rest. l \<in> set ls \<and> py_split l = h # ref # rest"
  by (induction ls) (auto split: list.splits if_splits)

lemma failure_not_verified: "failure_category e \<noteq> ''VERIFIED''"
  by (simp add: failure_category_def)

lemma remote_outcome_verified:
  assumes "dget (remote_outcome H limit ref (reply_of a) m) ''remote_query_stderr_category'' = PyStr ''VERIFIED''"
  shows "\<exists>out err l rest h. a = GitDone 0 out err \<and> l \<in> set (splitlines (strip out)) \<and> py_split l = h # ref # rest
     \<and> dget (remote_outcome H limit ref (reply_of a) m) ''remote_head'' = PyStr h"
  using assms remote_line_D
  by (fastforce simp: remote_outcome_def reply_of_def failure_not_verified split: git_answer.splits if_splits option.splits)

lemma start_category: "dget start_info ''remote_query_stderr_category'' = PyStr ''UNKNOWN''"
  by (simp add: start_info_def dget_def)

lemma repo_verified:
  assumes "observe_repo H limit repo calls = (info, calls')"
    and "dget info ''remote_query_stderr_category'' = PyStr ''VERIFIED''"
  shows "\<exists>h. dget info ''remote_head'' = PyStr h \<and> remote_reports H limit repo (dget info ''branch'') h"
proof -
  let ?b = "strip_value (gr_stdout (reply_of (gh_answer H (call_of H limit repo [''rev-parse'', ''--abbrev-ref'', ''HEAD'']))))"
  let ?a = "gh_answer H (call_of H limit repo (remote_args (remote_ref H ?b)))"
  from assms obtain m where info: "info = available (remote_outcome H limit (remote_ref H ?b) (reply_of ?a) m)" and b: "dget m ''branch'' = ?b"
    by (auto simp: observe_repo_def observe_branch_def observe_remote_def remote_args_def git_then_reads start_category split: if_splits)
  from assms(2) info have "dget (remote_outcome H limit (remote_ref H ?b) (reply_of ?a) m) ''remote_query_stderr_category'' = PyStr ''VERIFIED''"
    by simp
  from remote_outcome_verified [OF this] info b show ?thesis
    unfolding remote_reports_def by (fastforce simp: remote_outcome_def split: if_splits option.splits)
qed

lemma observe_D:
  assumes "observe B cfg calls = (Inr ob, calls')"
  obtains info where "observe_repo (ov_git B) (ov_timeout B) (pc_root cfg) calls = (info, calls')" and "ob_git ob = info"
  using assms by (auto simp: observe_def split: prod.splits sum.splits)

subsection \<open>Project states\<close>

lemma head_verified:
  "head_status c l r = V_VERIFIED \<Longrightarrow> c = ''VERIFIED'' \<and> (truthy l \<and> truthy r \<longrightarrow> l = r)"
  by (auto simp: head_status_def remote_status_def split: if_splits)

lemma evaluate_D:
  assumes "evaluate rep fixed1 parse_ts enum threshold now stamp ob = Inr st"
  obtains s us where "st = build_state rep fixed1 threshold stamp ob s (heartbeat_age parse_ts now (sn_last_heartbeat s)) us"
  using assms by (auto simp: evaluate_def split: sum.splits)

lemma build_head:
  "np_verified_head (build_state rep fixed1 threshold stamp ob s age us) = \<lparr>vf_local = sn_local_head s, vf_remote = dget (ob_git ob) ''remote_head'',
     vf_status = head_status (case dget_or (ob_git ob) ''remote_query_stderr_category'' (PyStr ''UNKNOWN'') of PyStr c \<Rightarrow> c | v \<Rightarrow> fmt rep v)
       (sn_local_head s) (dget (ob_git ob) ''remote_head'')\<rparr>"
  by (simp add: build_state_def Let_def split: prod.splits)

lemma build_status:
  "\<exists>us'. np_status (build_state rep fixed1 threshold stamp ob s age us) = fst (canonical_verdict rep fixed1 threshold ob s age us')"
  by (auto simp: build_state_def Let_def split: prod.splits) (metis fst_conv)

lemma split_words_nonempty: "x \<in> set (split_words s acc) \<Longrightarrow> x \<noteq> []"
  by (induction s acc rule: split_words.induct) (auto split: if_splits)

lemma outcome_category: "\<exists>c. dget_or (remote_outcome H limit ref r m) ''remote_query_stderr_category'' d = PyStr c"
  by (simp add: remote_outcome_def split: option.split)

lemma start_category_or: "dget_or start_info ''remote_query_stderr_category'' d = PyStr ''UNKNOWN''"
  by (simp add: start_info_def dget_or_def)

lemma repo_category: "observe_repo H limit repo calls = (info, calls') \<Longrightarrow> \<exists>c. dget_or info ''remote_query_stderr_category'' d = PyStr c"
  by (auto simp: observe_repo_def observe_branch_def observe_remote_def remote_args_def git_then_reads outcome_category start_category_or
      split: if_splits)

lemma dget_or_Str: "dget_or m k (PyStr e) = PyStr c \<Longrightarrow> c \<noteq> e \<Longrightarrow> dget m k = PyStr c"
  by (auto simp: dget_or_def dget_def split: option.splits)

text \<open>C20. A project's head is shown as verified only when its own remote, asked for exactly the branch that is checked out, answered in time
  with that head; a local head, when there is one, is the same.\<close>

theorem verified_head_reported:
  assumes "observe B cfg calls = (Inr ob, calls')"
    and "evaluate rep fixed1 parse_ts enum threshold now stamp (observed.truncate ob) = Inr st"
    and "vf_status (np_verified_head st) = V_VERIFIED"
  shows "\<exists>h. vf_remote (np_verified_head st) = PyStr h \<and> (truthy (vf_local (np_verified_head st)) \<longrightarrow> vf_local (np_verified_head st) = PyStr h)
     \<and> remote_reports (ov_git B) (ov_timeout B) (pc_root cfg) (dget (ob_git ob) ''branch'') h"
proof -
  from observe_D [OF assms(1)] have repo: "observe_repo (ov_git B) (ov_timeout B) (pc_root cfg) calls = (ob_git ob, calls')" by metis
  from evaluate_D [OF assms(2)] obtain s us where
    st: "st = build_state rep fixed1 threshold stamp (observed.truncate ob) s (heartbeat_age parse_ts now (sn_last_heartbeat s)) us" .
  have git: "ob_git (observed.truncate ob) = ob_git ob" by (simp add: observed.truncate_def)
  from repo_category [OF repo] obtain c where c: "dget_or (ob_git ob) ''remote_query_stderr_category'' (PyStr ''UNKNOWN'') = PyStr c" by blast
  with assms(3) st git have head: "head_status c (sn_local_head s) (dget (ob_git ob) ''remote_head'') = V_VERIFIED"
    by (simp add: build_head)
  with c head_verified have "dget (ob_git ob) ''remote_query_stderr_category'' = PyStr ''VERIFIED''"
    by (intro dget_or_Str) auto
  from repo_verified [OF repo this] obtain h where h: "dget (ob_git ob) ''remote_head'' = PyStr h"
    "remote_reports (ov_git B) (ov_timeout B) (pc_root cfg) (dget (ob_git ob) ''branch'') h" by blast
  then have "h \<noteq> []" using split_words_nonempty [of h] by (auto simp: remote_reports_def py_split_def) (metis list.set_intros(1))
  with h head_verified [OF head] st git show ?thesis by (simp add: build_head)
qed

text \<open>When git cannot be run at all, the repository is reported as available and clean, without an error.\<close>

lemma failed_git_looks_clean:
  assumes "gh_repo H repo" and "\<And>c. gh_answer H c = GitFailed e"
  shows "fst (observe_repo H limit repo calls) = available start_info"
    and "dget (available start_info) ''worktree_clean'' = PyBool True" and "dget (available start_info) ''observer_errors'' = PyList []"
  using assms by (simp_all add: observe_repo_def git_then_reads reply_of_def available_def start_info_def dget_def put_def)

subsection \<open>A sample\<close>

definition sample_answer :: "git_call \<Rightarrow> git_answer" where
  "sample_answer c = (if drop 3 (gc_argv c) = [''rev-parse'', ''--abbrev-ref'', ''HEAD''] then GitDone 0 ''main'' []
     else if drop 3 (gc_argv c) = [''rev-parse'', ''HEAD''] then GitDone 0 ''c0ffee'' []
     else if drop 3 (gc_argv c) = [''status'', ''--porcelain''] then GitDone 0 [] []
     else GitDone 0 ''c0ffee refs/heads/main'' [])"

definition sample_git :: git_host where
  "sample_git = \<lparr>gh_answer = sample_answer, gh_repo = \<lambda>r. True, gh_environ = [], gh_rep = \<lambda>v. []\<rparr>"

definition sample_files :: file_host where
  "sample_files = \<lparr>fh_file = \<lambda>b r. Missing, fh_path = \<lambda>b r. b @ ''/'' @ r, fh_loads = \<lambda>s. NotJson [], fh_now = \<lambda>r. 0\<rparr>"

definition sample_observer :: observer where
  "sample_observer = \<lparr>ov_git = sample_git, ov_timeout = 10, ov_processes = Ps (Some (0, ''PID COMMAND'')), ov_files = sample_files\<rparr>"

definition sample_observed :: "project_config \<Rightarrow> observation res" where
  "sample_observed cfg = fst (observe sample_observer cfg [])"

definition sample_verdict :: "project_config \<Rightarrow> NormalizedProjectState res" where
  "sample_verdict cfg = (case sample_observed cfg of Inl e \<Rightarrow> Inl e
     | Inr ob \<Rightarrow> evaluate (\<lambda>v. []) (\<lambda>r. []) (\<lambda>v. None) (\<lambda>ds. ds) 300 0 ''now'' (observed.truncate ob))"

end
