(* ===== verification/EngineClaims.thy ===== *)
theory EngineClaims
  imports Engine ObserverClaims
begin

text \<open>
  What a sweep of the control plane does: it only reads the projects, records each of them, publishes to one unprotected branch only when that
  is switched on, and a second instance does nothing.
\<close>

subsection \<open>Frames\<close>

lemma write_state_sel [simp]:
  "en_calls (snd (write_state E n d w)) = en_calls w" "en_publish_log (snd (write_state E n d w)) = en_publish_log w"
  by (simp_all add: write_state_def split: option.split)

lemma poll_sel [simp]:
  "en_calls (poll_directives E w) = en_calls w" "en_publish_log (poll_directives E w) = en_publish_log w"
  "en_files (poll_directives E w) = en_files w" "en_audit (poll_directives E w) = en_audit w" "en_sweeps (poll_directives E w) = en_sweeps w"
  "en_last_states (poll_directives E w) = en_last_states w" "en_published (poll_directives E w) = en_published w"
  by (simp_all add: poll_directives_def split: prod.split sum.split)

lemma command_then_sel:
  assumes "\<And>out w1. f (snd (k out w1)) = f w1" and "\<And>w1 x. f (w1\<lparr>en_publish_log := x\<rparr>) = f w1" and "\<And>w1 x. f (w1\<lparr>en_last_error := x\<rparr>) = f w1"
  shows "f (snd (command_then E args k w)) = f w"
  using assms by (simp add: command_then_def Let_def split: sum.split prod.split)

lemma publish_frame:
  assumes "\<And>w1 x. f (w1\<lparr>en_publish_log := x\<rparr>) = f w1" and "\<And>w1 x. f (w1\<lparr>en_last_error := x\<rparr>) = f w1"
  shows "f (snd (publish_remote_status E w)) = f w"
  unfolding publish_remote_status_def
  by (auto intro!: command_then_sel [of f, OF _ assms] split: option.split)

lemma publish_if_due_frame:
  assumes "\<And>w1 x. f (w1\<lparr>en_publish_log := x\<rparr>) = f w1" and "\<And>w1 x. f (w1\<lparr>en_last_error := x\<rparr>) = f w1"
    and "\<And>w1 x. f (w1\<lparr>en_published := x\<rparr>) = f w1"
  shows "f (publish_if_due E changed w) = f w"
  using publish_frame [of f, OF assms(1,2), of E w] assms(3) by (auto simp: publish_if_due_def split: prod.split)

lemma publish_if_due_sel [simp]:
  "en_calls (publish_if_due E ch w) = en_calls w" "en_files (publish_if_due E ch w) = en_files w" "en_audit (publish_if_due E ch w) = en_audit w"
  "en_sweeps (publish_if_due E ch w) = en_sweeps w" "en_last_states (publish_if_due E ch w) = en_last_states w"
  "en_watcher (publish_if_due E ch w) = en_watcher w" "en_started (publish_if_due E ch w) = en_started w"
  by (rule publish_if_due_frame; simp)+

text \<open>A property of the two logs of git is kept by what touches neither.\<close>

definition on_logs :: "(git_call list \<Rightarrow> string list list \<Rightarrow> bool) \<Rightarrow> engine \<Rightarrow> bool" where
  "on_logs Q w = Q (en_calls w) (en_publish_log w)"

lemma logs_write [intro]: "keeps (on_logs Q) (write_state E n d)"
  by (simp add: keeps_def on_logs_def)

lemma logs_append [intro]: "keeps (on_logs Q) (log_observation_event E k s p)"
  by (simp add: keeps_def on_logs_def log_observation_event_def split: option.split)

lemma logs_health [intro]: "keeps (on_logs Q) (update_self_health E st)"
  unfolding update_self_health_def by (intro keeps_seq keeps_basic logs_write)

lemma observe_state_calls: "en_publish_log (snd (observe_state E k cfg w)) = en_publish_log w
   \<and> (\<exists>new. en_calls (snd (observe_state E k cfg w)) = en_calls w @ new \<and> length new \<le> 4 \<and> list_all (read_call (pc_root cfg)) new)"
proof -
  obtain info calls where repo: "observe_repo (ov_git (sv_observer E)) (ov_timeout (sv_observer E)) (pc_root cfg) (en_calls w) = (info, calls)" by fastforce
  then have "snd (observe (sv_observer E) cfg (en_calls w)) = calls" by (simp add: observe_def split: sum.split prod.split)
  with repo_calls [OF repo] show ?thesis by (auto simp: observe_state_def split: prod.split)
qed

lemma logs_project:
  assumes "\<And>cs ms new. Q cs ms \<Longrightarrow> length new \<le> 4 \<Longrightarrow> list_all (read_call (pc_root (snd p))) new \<Longrightarrow> Q (cs @ new) ms"
  shows "keeps (on_logs Q) (sweep_project E p)"
proof -
  have "keeps (on_logs Q) (observe_state E (fst p) (snd p))"
    unfolding keeps_def
  proof (intro allI impI)
    fix w assume "on_logs Q w"
    with observe_state_calls [of E "fst p" "snd p" w] assms [of "en_calls w" "en_publish_log w"]
    show "on_logs Q (snd (observe_state E (fst p) (snd p) w))" by (auto simp: on_logs_def)
  qed
  then show ?thesis
    unfolding sweep_project_def Let_def by (cases p) (auto intro!: keeps_seq logs_write logs_append keeps_modify simp: on_logs_def)
qed

lemma logs_publish:
  assumes "\<And>cs ms c b. Q cs ms \<Longrightarrow> ps_enabled (sv_publish E) = PyBool True \<Longrightarrow> validated_remote_publish_branch (sv_publish E) = Some b
     \<Longrightarrow> c = add_command \<or> c = status_command \<or> (\<exists>n. c = commit_command n) \<or> c = push_command b \<Longrightarrow> Q cs (ms @ [c])"
    and "on_logs Q w"
  shows "on_logs Q (publish_if_due E ch w)"
proof -
  have step: "on_logs Q (snd (command_then E c k w1))"
    if "on_logs Q w1" and "ps_enabled (sv_publish E) = PyBool True" and "validated_remote_publish_branch (sv_publish E) = Some b"
      and "c = add_command \<or> c = status_command \<or> (\<exists>n. c = commit_command n) \<or> c = push_command b"
      and "\<And>out w2. on_logs Q w2 \<Longrightarrow> on_logs Q (snd (k out w2))" for c k w1 b
    using that assms(1) [of "en_calls w1" "en_publish_log w1" b c] that(5) [of "w1\<lparr>en_publish_log := en_publish_log w1 @ [c]\<rparr>"]
    by (auto simp: command_then_def on_logs_def Let_def split: sum.split prod.split)
  have "on_logs Q (snd (publish_remote_status E w))"
    unfolding publish_remote_status_def using assms(2) by (auto split: option.split intro!: step)
  with assms(2) show ?thesis by (auto simp: publish_if_due_def on_logs_def split: prod.split)
qed

lemma logs_sweep:
  assumes "\<And>p cs ms new. p \<in> set (sv_projects E) \<Longrightarrow> Q cs ms \<Longrightarrow> length new \<le> 4 \<Longrightarrow> list_all (read_call (pc_root (snd p))) new \<Longrightarrow> Q (cs @ new) ms"
    and "\<And>cs ms c b. Q cs ms \<Longrightarrow> ps_enabled (sv_publish E) = PyBool True \<Longrightarrow> validated_remote_publish_branch (sv_publish E) = Some b
     \<Longrightarrow> c = add_command \<or> c = status_command \<or> (\<exists>n. c = commit_command n) \<or> c = push_command b \<Longrightarrow> Q cs (ms @ [c])"
  shows "keeps (on_logs Q) (run_sweep E)"
  unfolding run_sweep_def
  by (intro keeps_seq keeps_modify logs_write logs_health keeps_each_mem logs_project keeps_basic logs_publish assms)
    (auto simp: on_logs_def intro: assms)

lemma logs_run:
  assumes "\<And>E. E \<in> set Es \<Longrightarrow> keeps (on_logs Q) (run_sweep E)"
  shows "keeps (on_logs Q) (run_continuous Es stop)"
  unfolding run_continuous_def sweep_once_def by (intro keeps_seq keeps_for_each_mem assms keeps_basic logs_health)

lemma main_keeps:
  assumes "control_plane_main io inst pid body (l, w) = (res, l', w')" and "keeps P body" and "P w"
  shows "P w'"
  using assms by (auto simp: control_plane_main_def keeps_def split: prod.splits sum.splits bool.splits)

subsection \<open>The projects are only read\<close>

definition reads_projects :: "sweep_env list \<Rightarrow> git_call \<Rightarrow> bool" where
  "reads_projects Es c \<longleftrightarrow> list_ex (\<lambda>E. list_ex (\<lambda>(k, cfg). read_call (pc_root cfg) c) (sv_projects E)) Es"

lemma reads_projectsI: "E \<in> set Es \<Longrightarrow> p \<in> set (sv_projects E) \<Longrightarrow> list_all (read_call (pc_root (snd p))) new \<Longrightarrow> list_all (reads_projects Es) new"
  by (cases p) (fastforce simp: reads_projects_def list_all_iff list_ex_iff)

text \<open>C4. Whatever the control plane runs and however it ends, each git command it runs in a repository it monitors is a \<open>rev-parse\<close>, \<open>status\<close> or
  \<open>ls-remote\<close> in the root of a registered project, with optional locks and prompts disabled.\<close>

theorem projects_only_read:
  assumes "control_plane_main io inst pid (run_continuous Es stop) (l, w) = (res, l', w')"
  shows "\<exists>new. en_calls w' = en_calls w @ new \<and> list_all (reads_projects Es) new"
proof -
  let ?Q = "\<lambda>cs ms :: string list list. \<exists>new. cs = en_calls w @ new \<and> list_all (reads_projects Es) new"
  have "keeps (on_logs ?Q) (run_sweep E)" if "E \<in> set Es" for E
    by (rule logs_sweep) (use reads_projectsI [OF that] in \<open>force+\<close>)
  from main_keeps [OF assms logs_run [of Es ?Q, OF this]] show ?thesis by (simp add: on_logs_def)
qed

subsection \<open>Publication\<close>

lemma protected_names_mem: "s \<in> set (protected_names xs) \<longleftrightarrow> (\<exists>p. PyStr p \<in> set xs \<and> strip p \<noteq> [] \<and> s = lower (strip p))"
proof -
  have "s \<in> set (List.map_filter as_str xs) \<longleftrightarrow> PyStr s \<in> set xs" for s
  proof (induction xs)
    case (Cons x xs)
    then show ?case by (cases x) (auto simp: List.map_filter_simps)
  qed (simp add: List.map_filter_simps)
  then show ?thesis by (auto simp: protected_names_def)
qed

definition safe_branch :: "pyval list \<Rightarrow> string \<Rightarrow> bool" where
  "safe_branch prot b \<longleftrightarrow> b \<noteq> [] \<and> \<not> prefix ''-'' b \<and> \<not> contains b ''..'' \<and> list_all (\<lambda>c. \<not> is_space c \<and> c \<noteq> CHR '':'') b
     \<and> list_all (\<lambda>v. case v of PyStr p \<Rightarrow> strip p = [] \<or> lower b \<noteq> lower (strip p) | _ \<Rightarrow> True) prot"

lemma validated_safe:
  assumes "validated_remote_publish_branch P = Some b"
  obtains prot where "ps_protected P = PyList prot" and "safe_branch prot b"
proof -
  from assms obtain prot where prot: "ps_protected P = PyList prot" and b: "b \<noteq> []" "lower b \<notin> set (protected_names prot)" "\<not> branch_refused b"
    by (auto simp: validated_remote_publish_branch_def Let_def split: pyval.splits if_splits)
  from b(3) have "list_all (\<lambda>c. \<not> branch_char_refused c) b" "\<not> prefix ''-'' b" "\<not> contains b ''..''"
    by (auto simp: branch_refused_def list_all_iff list_ex_iff)
  moreover have "list_all (\<lambda>v. case v of PyStr p \<Rightarrow> strip p = [] \<or> lower b \<noteq> lower (strip p) | _ \<Rightarrow> True) prot"
    using b(2) by (auto simp: protected_names_mem list_all_iff split: pyval.split)
  ultimately have "safe_branch prot b" using b(1) by (auto simp: safe_branch_def list_all_iff branch_char_refused_def)
  with prot show thesis by (rule that)
qed

definition publishes :: "sweep_env \<Rightarrow> string list \<Rightarrow> bool" where
  "publishes E c \<longleftrightarrow> ps_enabled (sv_publish E) = PyBool True \<and> (\<exists>prot b. ps_protected (sv_publish E) = PyList prot \<and> safe_branch prot b
     \<and> (c = add_command \<or> c = status_command \<or> (\<exists>n. c = commit_command n) \<or> c = push_command b))"

text \<open>C10. Over a run, none of the commands with which the control plane publishes its status runs unless publication is switched on; then the
  publication only adds, asks for the status, commits, and pushes to a branch that is not protected in any spelling of its case.
  (The polls of a sweep ask git in the same repository too, the watcher for its head and the authenticator for the commits, the
  signatures and the remote branch; with or without publication. Those are questions the environment of the sweep answers.)\<close>

theorem publication_guarded:
  assumes "control_plane_main io inst pid (run_continuous Es stop) (l, w) = (res, l', w')"
  shows "\<exists>new. en_publish_log w' = en_publish_log w @ new \<and> list_all (\<lambda>c. list_ex (\<lambda>E. publishes E c) Es) new"
proof -
  let ?Q = "\<lambda>(cs :: git_call list) ms. \<exists>new. ms = en_publish_log w @ new \<and> list_all (\<lambda>c. list_ex (\<lambda>E. publishes E c) Es) new"
  have "keeps (on_logs ?Q) (run_sweep E)" if E: "E \<in> set Es" for E
  proof (rule logs_sweep)
    fix cs ms c b
    assume "?Q cs ms" and "ps_enabled (sv_publish E) = PyBool True" and v: "validated_remote_publish_branch (sv_publish E) = Some b"
      and "c = add_command \<or> c = status_command \<or> (\<exists>n. c = commit_command n) \<or> c = push_command b"
    moreover from validated_safe [OF v] obtain prot where "ps_protected (sv_publish E) = PyList prot" "safe_branch prot b" .
    ultimately have "publishes E c" unfolding publishes_def by blast
    with \<open>?Q cs ms\<close> E show "?Q cs (ms @ [c])" by (force simp: list_ex_iff)
  qed simp
  from main_keeps [OF assms logs_run [of Es ?Q, OF this]] show ?thesis by (simp add: on_logs_def)
qed

lemma publication_off_by_default:
  "sv_publish E = default_publication \<Longrightarrow> publish_if_due E changed w = w \<and> publish_remote_status E w = (False, w)"
  by (simp add: publish_if_due_def publication_due_def publish_remote_status_def default_publication_def)

text \<open>An entry of the protected branches that is written as a full reference protects nothing.\<close>

lemma protected_ref_ignored:
  "validated_remote_publish_branch \<lparr>ps_enabled = PyBool True, ps_branch = PyStr ''main'', ps_protected = PyList [PyStr ''refs/heads/main''], ps_checkpoint = 300\<rparr>
     = Some ''main''"
  by code_simp

subsection \<open>Records\<close>

lemma write_state_D:
  "write_state E n d w = (Inr u, w') \<Longrightarrow> w' = w\<lparr>en_files := AList.update n (Some d) (en_files w)\<rparr>"
  by (auto simp: write_state_def split: option.splits)

lemma log_D:
  "log_observation_event E k s p w = (Inr u, w') \<Longrightarrow> w' = w\<lparr>en_audit := append_line (observation_event (sv_audit_time E k) s p) (en_audit w)\<rparr>"
  by (auto simp: log_observation_event_def split: option.splits)

text \<open>The state after a project was recorded: the files, the audit log and the remembered status.\<close>

definition record_project :: "sweep_env \<Rightarrow> (string \<times> project_config) \<times> NormalizedProjectState \<Rightarrow> engine \<Rightarrow> engine" where
  "record_project E r w = (case r of ((key, cfg), s) \<Rightarrow> w\<lparr>
     en_last_states := AList.update key (cs_value (np_status s)) (en_last_states w),
     en_files := AList.update (state_file key cfg) (Some (state_to_dict s)) (en_files w),
     en_audit := append_line (observation_event (sv_audit_time E key) s (map_of (en_last_states w) key)) (en_audit w)\<rparr>)"

definition same_logs :: "engine \<Rightarrow> engine \<Rightarrow> bool" where
  "same_logs w w' \<longleftrightarrow> en_publish_log w' = en_publish_log w \<and> en_sweeps w' = en_sweeps w \<and> en_published w' = en_published w
     \<and> en_last_error w' = en_last_error w \<and> en_started w' = en_started w \<and> en_watcher w' = en_watcher w"

lemma record_sel [simp]:
  "en_last_states (record_project E ((key, cfg), s) w) = AList.update key (cs_value (np_status s)) (en_last_states w)"
  "en_files (record_project E ((key, cfg), s) w) = AList.update (state_file key cfg) (Some (state_to_dict s)) (en_files w)"
  "en_audit (record_project E ((key, cfg), s) w)
     = append_line (observation_event (sv_audit_time E key) s (map_of (en_last_states w) key)) (en_audit w)"
  "same_logs (record_project E ((key, cfg), s) w) w' = same_logs w w'"
  by (simp_all add: record_project_def same_logs_def)

lemma project_D:
  assumes "sweep_project E p w = (Inr r, w')"
  obtains s calls where "r = ((fst p, s), map_of (en_last_states w) (fst p) \<notin> {None, Some (cs_value (np_status s))})"
    and "w' = record_project E (p, s) (w\<lparr>en_calls := calls\<rparr>)"
proof -
  obtain key cfg where p: "p = (key, cfg)" by fastforce
  from assms p obtain s w1 where "observe_state E key cfg w = (Inr s, w1)" and rest: "r = ((key, s), map_of (en_last_states w1) key \<notin> {None, Some (cs_value (np_status s))})"
    and w': "w' = record_project E (p, s) w1"
    by (auto simp: sweep_project_def act_simps Let_def record_project_def dest!: write_state_D log_D)
  from this(1) obtain calls where "w1 = w\<lparr>en_calls := calls\<rparr>" by (auto simp: observe_state_def split: prod.splits)
  with rest w' p that show thesis by simp
qed

text \<open>The events of a sweep, by the statuses that were remembered before it, and the projects whose status is another.\<close>

definition sweep_events :: "sweep_env \<Rightarrow> engine \<Rightarrow> (string \<times> NormalizedProjectState) list \<Rightarrow> dict list" where
  "sweep_events E w = map (\<lambda>(k, s). observation_event (sv_audit_time E k) s (map_of (en_last_states w) k))"

definition status_changed :: "engine \<Rightarrow> (string \<times> NormalizedProjectState) list \<Rightarrow> bool" where
  "status_changed w = list_ex (\<lambda>(k, s). map_of (en_last_states w) k \<notin> {None, Some (cs_value (np_status s))})"

lemma sweep_simps [simp]:
  "sweep_events E w [] = []" "status_changed w [] = False"
  "sweep_events E w ((k, s) # xs) = observation_event (sv_audit_time E k) s (map_of (en_last_states w) k) # sweep_events E w xs"
  "status_changed w ((k, s) # xs) \<longleftrightarrow> map_of (en_last_states w) k \<notin> {None, Some (cs_value (np_status s))} \<or> status_changed w xs"
  by (simp_all add: sweep_events_def status_changed_def)

lemma projects_D:
  assumes "each (sweep_project E) ps w = (Inr rs, w')" and "distinct (map fst ps)" and "distinct (map (\<lambda>(k, cfg). state_file k cfg) ps)"
  shows "map fst (map fst rs) = map fst ps
     \<and> list_ex snd rs = status_changed w (map fst rs)
     \<and> en_audit w' = fold append_line (sweep_events E w (map fst rs)) (en_audit w)
     \<and> list_all2 (\<lambda>(k, cfg) (k', s). map_of (en_files w') (state_file k cfg) = Some (Some (state_to_dict s))
          \<and> map_of (en_last_states w') k = Some (cs_value (np_status s))) ps (map fst rs)
     \<and> (\<forall>n. n \<notin> (\<lambda>(k, cfg). state_file k cfg) ` set ps \<longrightarrow> map_of (en_files w') n = map_of (en_files w) n)
     \<and> (\<forall>k. k \<notin> fst ` set ps \<longrightarrow> map_of (en_last_states w') k = map_of (en_last_states w) k)
     \<and> same_logs w w'"
  using assms
proof (induction ps arbitrary: w rs)
  case Nil
  then show ?case by (simp add: act_simps same_logs_def)
next
  case (Cons p ps)
  obtain key cfg where p: "p = (key, cfg)" by fastforce
  from Cons.prems(1) obtain r rs' w1 where r: "sweep_project E p w = (Inr r, w1)" and rs': "each (sweep_project E) ps w1 = (Inr rs', w')" and rs: "rs = r # rs'"
    by (auto simp: act_simps)
  from project_D [OF r] p obtain s calls where r_eq: "r = ((key, s), map_of (en_last_states w) key \<notin> {None, Some (cs_value (np_status s))})"
    and w1: "w1 = record_project E ((key, cfg), s) (w\<lparr>en_calls := calls\<rparr>)" by auto
  from Cons.IH [OF rs'] Cons.prems(2,3) have IH: "map fst (map fst rs') = map fst ps" "list_ex snd rs' = status_changed w1 (map fst rs')"
     "en_audit w' = fold append_line (sweep_events E w1 (map fst rs')) (en_audit w1)"
     "list_all2 (\<lambda>(k, cfg) (k', s). map_of (en_files w') (state_file k cfg) = Some (Some (state_to_dict s))
          \<and> map_of (en_last_states w') k = Some (cs_value (np_status s))) ps (map fst rs')"
     "\<And>n. n \<notin> (\<lambda>(k, cfg). state_file k cfg) ` set ps \<Longrightarrow> map_of (en_files w') n = map_of (en_files w1) n"
     "\<And>k. k \<notin> fst ` set ps \<Longrightarrow> map_of (en_last_states w') k = map_of (en_last_states w1) k" "same_logs w1 w'"
    by auto
  have fresh: "key \<notin> fst ` set ps" "state_file key cfg \<notin> (\<lambda>(k, cfg). state_file k cfg) ` set ps"
    using Cons.prems(2,3) p by auto
  have keys: "fst ` set (map fst rs') = fst ` set ps" using IH(1) by (metis list.set_map)
  have other: "map_of (en_last_states w1) k = map_of (en_last_states w) k" if "k \<noteq> key" for k
    using that w1 by (simp add: map_of_AList_update)
  with fresh(1) keys have same: "map_of (en_last_states w1) (fst x) = map_of (en_last_states w) (fst x)" if "x \<in> set (map fst rs')" for x
    using that by (metis imageI)
  have changed: "status_changed w1 (map fst rs') = status_changed w (map fst rs')"
    unfolding status_changed_def using same by (intro list_ex_cong) (auto simp: split_beta)
  have events: "sweep_events E w1 (map fst rs') = sweep_events E w (map fst rs')"
    unfolding sweep_events_def using same by (intro map_cong) (auto simp: split_beta)
  have head: "list_ex snd rs = status_changed w (map fst rs)" "en_audit w' = fold append_line (sweep_events E w (map fst rs)) (en_audit w)"
    using IH(2,3) rs r_eq w1 unfolding changed events by simp_all
  have mine: "map_of (en_files w') (state_file key cfg) = Some (Some (state_to_dict s))" "map_of (en_last_states w') key = Some (cs_value (np_status s))"
    using IH(5) [OF fresh(2)] IH(6) [OF fresh(1)] w1 by (simp_all add: map_of_AList_update)
  have "\<forall>n. n \<notin> (\<lambda>(k, cfg). state_file k cfg) ` set (p # ps) \<longrightarrow> map_of (en_files w') n = map_of (en_files w) n"
    "\<forall>k. k \<notin> fst ` set (p # ps) \<longrightarrow> map_of (en_last_states w') k = map_of (en_last_states w) k"
    using IH(5,6) w1 p by (simp_all add: map_of_AList_update)
  moreover have "same_logs w w'" using IH(7) w1 by (simp add: same_logs_def record_project_def)
  ultimately show ?case using head mine IH(1,4) p rs r_eq by simp
qed

lemma sweep_D:
  assumes "run_sweep E w = (Inr states, w')"
  obtains rs w1 w2 where "each (sweep_project E) (sv_projects E) (poll_directives E (w\<lparr>en_sweeps := en_sweeps w + 1\<rparr>)) = (Inr rs, w1)"
    and "w2 = w1\<lparr>en_files := AList.update ''global_status.json'' (Some (global_status E states)) (en_files w1)\<rparr>"
    and "w' = publish_if_due E (list_ex snd rs) (w2\<lparr>en_files := AList.update ''control_plane_status.json'' (Some (self_health E ''RUNNING'' w2)) (en_files w2)\<rparr>)"
    and "states = map fst rs"
  using assms by (auto simp: run_sweep_def update_self_health_def act_simps dest!: write_state_D)

lemma poll_same [simp]:
  "sweep_events E (poll_directives E' w) xs = sweep_events E w xs" "status_changed (poll_directives E' w) xs = status_changed w xs"
  "sweep_events E (w\<lparr>en_sweeps := n\<rparr>) xs = sweep_events E w xs" "status_changed (w\<lparr>en_sweeps := n\<rparr>) xs = status_changed w xs"
  by (simp_all add: sweep_events_def status_changed_def)

text \<open>C25. A sweep that returns has one state for each registered project, in order, wrote it to the project's file, remembers its status, appended one
  audit event for it with the status before, and wrote the global status and its own health; a poll of the directives that fails changes none of it.\<close>

theorem sweep_records:
  assumes "run_sweep E w = (Inr states, w')" and "distinct (map fst (sv_projects E))"
    and "distinct (map (\<lambda>(k, cfg). state_file k cfg) (sv_projects E) @ [''global_status.json'', ''control_plane_status.json''])"
  shows "map fst states = map fst (sv_projects E) \<and> en_sweeps w' = en_sweeps w + 1
     \<and> en_audit w' = fold append_line (sweep_events E w states) (en_audit w)
     \<and> list_all2 (\<lambda>(k, cfg) (k', s). map_of (en_files w') (state_file k cfg) = Some (Some (state_to_dict s))
          \<and> map_of (en_last_states w') k = Some (cs_value (np_status s))) (sv_projects E) states
     \<and> map_of (en_files w') ''global_status.json'' = Some (Some (global_status E states))
     \<and> (\<exists>h. map_of (en_files w') ''control_plane_status.json'' = Some (Some h) \<and> dget h ''status'' = PyStr ''RUNNING''
          \<and> dget h ''sweep_count'' = PyInt (int (en_sweeps w')))"
proof -
  from sweep_D [OF assms(1)] obtain rs w1 w2 where
    ps: "each (sweep_project E) (sv_projects E) (poll_directives E (w\<lparr>en_sweeps := en_sweeps w + 1\<rparr>)) = (Inr rs, w1)"
    and w2: "w2 = w1\<lparr>en_files := AList.update ''global_status.json'' (Some (global_status E states)) (en_files w1)\<rparr>"
    and w': "w' = publish_if_due E (list_ex snd rs) (w2\<lparr>en_files := AList.update ''control_plane_status.json'' (Some (self_health E ''RUNNING'' w2)) (en_files w2)\<rparr>)"
    and states: "states = map fst rs" .
  from assms(3) have names: "distinct (map (\<lambda>(k, cfg). state_file k cfg) (sv_projects E))"
    "''global_status.json'' \<notin> (\<lambda>(k, cfg). state_file k cfg) ` set (sv_projects E)"
    "''control_plane_status.json'' \<notin> (\<lambda>(k, cfg). state_file k cfg) ` set (sv_projects E)" by auto
  note D = projects_D [OF ps assms(2) names(1)]
  from D states have main: "map fst states = map fst (sv_projects E)" "en_audit w1 = fold append_line (sweep_events E w states) (en_audit w)"
    "en_sweeps w1 = en_sweeps w + 1" by (simp_all add: same_logs_def)
  from D states have recs: "list_all2 (\<lambda>(k, cfg) (k', s). map_of (en_files w1) (state_file k cfg) = Some (Some (state_to_dict s))
       \<and> map_of (en_last_states w1) k = Some (cs_value (np_status s))) (sv_projects E) states" by simp
  have kept: "map_of (en_files w') n = map_of (en_files w1) n" if "n \<in> (\<lambda>(k, cfg). state_file k cfg) ` set (sv_projects E)" for n
  proof -
    from that names(2,3) have "n \<noteq> ''global_status.json''" "n \<noteq> ''control_plane_status.json''" by metis+
    with w2 w' show ?thesis by (simp add: map_of_AList_update)
  qed
  have "list_all2 (\<lambda>(k, cfg) (k', s). map_of (en_files w') (state_file k cfg) = Some (Some (state_to_dict s))
       \<and> map_of (en_last_states w') k = Some (cs_value (np_status s))) (sv_projects E) states"
    using recs by (rule list.rel_mono_strong) (use kept w2 w' in \<open>force\<close>)
  moreover have "map_of (en_files w') ''global_status.json'' = Some (Some (global_status E states))"
    "map_of (en_files w') ''control_plane_status.json'' = Some (Some (self_health E ''RUNNING'' w2))" using w2 w' by (simp_all add: map_of_AList_update)
  moreover have "dget (self_health E ''RUNNING'' w2) ''status'' = PyStr ''RUNNING''" "dget (self_health E ''RUNNING'' w2) ''sweep_count'' = PyInt (int (en_sweeps w'))"
    using w2 w' by (simp_all add: self_health_def dget_def)
  ultimately show ?thesis using main w2 w' by auto
qed

text \<open>C26. When publication is on, its branch is valid, the root is a repository and each command of the publication that runs
  exits with zero, a project whose status differs from that of the last sweep is published by the sweep that saw it: it
  adds and asks for the status and, exactly when the status is not blank, commits and pushes to the branch; the
  time of the publication is remembered.\<close>

theorem change_published:
  assumes "run_sweep E w = (Inr states, w')" and "distinct (map fst (sv_projects E))" and "distinct (map (\<lambda>(k, cfg). state_file k cfg) (sv_projects E))"
    and "ps_enabled (sv_publish E) = PyBool True" and "validated_remote_publish_branch (sv_publish E) = Some b" and "sv_dot_git E"
    and "sv_git E add_command = Inr (0, added, err)" and "sv_git E status_command = Inr (0, status, err1)"
    and "strip status \<noteq> [] \<Longrightarrow> sv_git E (commit_command (Suc (en_sweeps w))) = Inr (0, committed, err2)"
    and "strip status \<noteq> [] \<Longrightarrow> sv_git E (push_command b) = Inr (0, pushed, err3)"
    and "(k, s) \<in> set states" and "map_of (en_last_states w) k = Some old" and "old \<noteq> cs_value (np_status s)"
  shows "en_publish_log w' = en_publish_log w @ [add_command, status_command]
      @ (if strip status = [] then [] else [commit_command (Suc (en_sweeps w)), push_command b])
    \<and> en_published w' = Some (sv_now E)"
proof -
  from sweep_D [OF assms(1)] obtain rs w1 w2 where
    ps: "each (sweep_project E) (sv_projects E) (poll_directives E (w\<lparr>en_sweeps := en_sweeps w + 1\<rparr>)) = (Inr rs, w1)"
    and w2: "w2 = w1\<lparr>en_files := AList.update ''global_status.json'' (Some (global_status E states)) (en_files w1)\<rparr>"
    and w': "w' = publish_if_due E (list_ex snd rs) (w2\<lparr>en_files := AList.update ''control_plane_status.json'' (Some (self_health E ''RUNNING'' w2)) (en_files w2)\<rparr>)"
    and states: "states = map fst rs" .
  note D = projects_D [OF ps assms(2,3)]
  have "status_changed w states" using assms(11-13) by (force simp: status_changed_def list_ex_iff)
  with D states have changed: "list_ex snd rs" and log: "en_publish_log w1 = en_publish_log w" "en_sweeps w1 = Suc (en_sweeps w)"
    by (simp_all add: same_logs_def)
  show ?thesis
    unfolding w' w2 publish_if_due_def publication_due_def publish_remote_status_def
    using assms(4-10) changed log by (simp add: command_then_def Let_def)
qed

subsection \<open>A single instance\<close>

text \<open>While another instance holds the lock a launch changes nothing; one that started has released it, however it ended.\<close>

lemma one_control_plane:
  assumes "control_plane_main io inst pid body (l, w) = (res, l', w')"
  shows "pl_holder l \<noteq> None \<Longrightarrow> (\<exists>p. res = LaunchRejected p) \<and> l' = l \<and> w' = w" and "pl_holder l = None \<Longrightarrow> pl_holder l' = None"
  using assms by (auto simp: control_plane_main_def acquire_def release_def split: prod.splits sum.splits bool.splits if_splits)

text \<open>The evaluation never yields the status that the overall health and the recovery wait for.\<close>

lemma status_never_blocked:
  assumes "evaluate rep fixed1 parse_ts enum threshold now stamp ob = Inr st"
  shows "np_status st \<notin> {BLOCKED, RECOVERING}"
proof -
  have "fst (declared_verdict rep p n u m us) \<notin> {BLOCKED, RECOVERING}" for p n u m us
    by (simp add: declared_verdict_def Let_def split: prod.split)
  then have "fst (canonical_verdict rep fixed1 t ob s age us) \<notin> {BLOCKED, RECOVERING}" for t s age us
    by (auto simp: canonical_verdict_def split: option.split)
  then show ?thesis using evaluate_D [OF assms]
    by (metis (no_types, lifting) build_status)
qed

end
