(* ===== verification/EngineSample.thy ===== *)
theory EngineSample
  imports EngineClaims
begin

text \<open>
  A run of the control plane on the registered projects, with a git that answers, no process and no evidence file, a malformed directive in
  the inbox and publication switched on; the properties of the observers and of the engine hold on it with their hypotheses.
\<close>

definition sample_watch :: watch_env where
  "sample_watch = \<lparr>we_parse = \<lambda>s. Inl ''e'', we_rep = \<lambda>v. [], we_hash = \<lambda>s. ''h'', we_auth = \<lambda>n p e. (SCHEMA_INVALID, [], False, []),
     we_poll_time = ''p'', we_close_time = ''q'', we_time = \<lambda>n. ''t'', we_head = \<lambda>n. Inl [], we_physical = \<lambda>n. Inr True,
     we_ledger_write = \<lambda>n. True, we_queue_error = \<lambda>n. None, we_storage = \<lambda>n ls. Inr ls, we_ack_write = \<lambda>n. True, we_move = \<lambda>n. None\<rparr>"

definition sample_channel :: channel where
  "sample_channel = \<lparr>ch_inbox = [(''bad.json'', ''x'')], ch_accepted = [], ch_rejected = [], ch_waiting = [], ch_acks = [], ch_ledger = load_ledger None,
     ch_queue = \<lparr>eq_items = [], eq_ids = [], eq_corrupted = False, eq_reason = None, eq_file = None\<rparr>, ch_status = fresh_status\<rparr>"

definition sample_sweep :: sweep_env where
  "sample_sweep = \<lparr>sv_watch = sample_watch, sv_inbox = True, sv_text = \<lambda>e. ''error'', sv_observer = sample_observer,
     sv_projects = registered_projects (\<lambda>s. s), sv_rep = \<lambda>v. [], sv_fixed = \<lambda>r. [], sv_parse = \<lambda>v. None, sv_enum = \<lambda>ds. ds,
     sv_eval_time = \<lambda>k. (0, ''now''), sv_audit_time = \<lambda>k. ''now'', sv_now = 7, sv_now_iso = ''now'', sv_beat = (''now'', ''now''), sv_pid = 1,
     sv_write = \<lambda>n d. None, sv_append = \<lambda>k. None,
     sv_publish = \<lparr>ps_enabled = PyBool True, ps_branch = PyStr ''refs/heads/status'', ps_protected = PyList [PyStr ''main''], ps_checkpoint = 300\<rparr>,
     sv_git = \<lambda>args. if length args = 3 then Inr (0, ''M state'', []) else Inr (0, [], []), sv_dot_git = True\<rparr>"

text \<open>The engine after a sweep that saw the second project running.\<close>

definition sample_engine :: engine where
  "sample_engine = (new_engine ''start'' [] None sample_channel)\<lparr>en_last_states := [(''MICRO-MARKET-ORACLE'', ''RUNNING'')]\<rparr>"

definition sample_states :: "(string \<times> NormalizedProjectState) list" where
  "sample_states = projr (fst (run_sweep sample_sweep sample_engine))"

definition sample_after :: engine where
  "sample_after = snd (run_sweep sample_sweep sample_engine)"

lemma sample_evaluated: "case run_sweep sample_sweep sample_engine of
     (Inr states, w) \<Rightarrow> map (\<lambda>(k, s). (k, cs_value (np_status s))) states = [(''ORACLE-AI'', ''UNKNOWN''), (''MICRO-MARKET-ORACLE'', ''STALE'')]
   | (Inl e, w) \<Rightarrow> False"
  by code_simp

lemma sample_run: "run_sweep sample_sweep sample_engine = (Inr sample_states, sample_after)"
  and sample_statuses: "map (\<lambda>(k, s). (k, cs_value (np_status s))) sample_states = [(''ORACLE-AI'', ''UNKNOWN''), (''MICRO-MARKET-ORACLE'', ''STALE'')]"
  using sample_evaluated by (auto simp: sample_states_def sample_after_def split: prod.splits sum.splits)

lemma sample_sweep_sel:
  "sv_projects sample_sweep = [(''ORACLE-AI'', oracle_config ''Oracle''), (''MICRO-MARKET-ORACLE'', micro_config ''MICRO-MARKET-ORACLE'')]"
  "sv_git sample_sweep args = (if length args = 3 then Inr (0, ''M state'', []) else Inr (0, [], []))" "sv_dot_git sample_sweep" "sv_write sample_sweep n d = None" "sv_now sample_sweep = 7" "ps_enabled (sv_publish sample_sweep) = PyBool True"
  by (simp_all add: sample_sweep_def registered_projects_def)

lemma sample_names: "state_file ''ORACLE-AI'' (oracle_config d) = ''oracle.json''" "state_file ''MICRO-MARKET-ORACLE'' (micro_config d) = ''micro.json''"
  by (simp_all add: state_file_def oracle_config_def micro_config_def)

lemma sample_branch: "validated_remote_publish_branch (sv_publish sample_sweep) = Some ''status''"
  by code_simp

lemma sample_stripped: "strip ''M state'' = ''M state''"
  by code_simp

lemma sample_engine_sel: "map_of (en_last_states sample_engine) ''MICRO-MARKET-ORACLE'' = Some ''RUNNING''" "en_publish_log sample_engine = []"
  "en_calls sample_engine = []" "en_sweeps sample_engine = 0"
  by (simp_all add: sample_engine_def new_engine_def)

lemma sweep_records_witness:
  "map fst sample_states = [''ORACLE-AI'', ''MICRO-MARKET-ORACLE'']
   \<and> map_of (en_files sample_after) ''global_status.json'' = Some (Some (global_status sample_sweep sample_states))"
  using sweep_records [OF sample_run] by (simp add: sample_names sample_sweep_sel)

lemma sample_changed: "\<exists>s. (''MICRO-MARKET-ORACLE'', s) \<in> set sample_states \<and> cs_value (np_status s) = ''STALE''"
proof -
  have "(''MICRO-MARKET-ORACLE'', ''STALE'') \<in> set (map (\<lambda>(k, s). (k, cs_value (np_status s))) sample_states)"
    unfolding sample_statuses by simp
  then show ?thesis by auto
qed

lemma change_published_witness:
  "en_publish_log sample_after = [add_command, status_command, commit_command 1, push_command ''status''] \<and> en_published sample_after = Some 7"
proof -
  from sample_changed obtain s where s: "(''MICRO-MARKET-ORACLE'', s) \<in> set sample_states" "cs_value (np_status s) = ''STALE''" by blast
  have answers: "sv_git sample_sweep add_command = Inr (0, [], [])" "sv_git sample_sweep status_command = Inr (0, ''M state'', [])"
    "sv_git sample_sweep (commit_command (Suc (en_sweeps sample_engine))) = Inr (0, [], [])" "sv_git sample_sweep (push_command ''status'') = Inr (0, [], [])"
    by (simp_all add: sample_sweep_sel add_command_def status_command_def commit_command_def push_command_def)
  from change_published [OF sample_run _ _ _ sample_branch _ answers s(1) sample_engine_sel(1)] show ?thesis
    by (simp add: sample_names sample_sweep_sel sample_stripped sample_engine_sel s(2))
qed

text \<open>A launch with a free lock that runs one sweep and is then interrupted.\<close>

definition sample_launch :: "launch \<times> process_lock \<times> engine" where
  "sample_launch = control_plane_main \<lparr>lio_opened = True, lio_written = True, lio_pid_written = True, lio_pid_read = True, lio_unlinked = True\<rparr> 0 1
     (run_continuous [sample_sweep] sample_sweep) (\<lparr>pl_holder = None, pl_pid = None\<rparr>, sample_engine)"

lemma sample_launched: "sample_launch = (LaunchEnded, \<lparr>pl_holder = None, pl_pid = None\<rparr>, snd (update_self_health sample_sweep ''STOPPED'' sample_after))"
  by (simp add: sample_launch_def control_plane_main_def acquire_def release_def run_continuous_def sweep_once_def seq_def sample_run ret_def
      update_self_health_def query_def write_state_def sample_sweep_sel)

lemma projects_only_read_witness:
  "fst sample_launch = LaunchEnded \<and> list_all (reads_projects [sample_sweep]) (en_calls (snd (snd sample_launch)))"
  using projects_only_read [of _ _ _ "[sample_sweep]" sample_sweep _ sample_engine, OF sample_launch_def [symmetric, unfolded sample_launched]]
  by (simp add: sample_launched sample_engine_sel)

lemma publication_guarded_witness:
  "fst sample_launch = LaunchEnded \<and> list_all (publishes sample_sweep) (en_publish_log (snd (snd sample_launch)))"
  using publication_guarded [of _ _ _ "[sample_sweep]" sample_sweep _ sample_engine, OF sample_launch_def [symmetric, unfolded sample_launched]]
  by (simp add: sample_launched sample_engine_sel)

definition sample_project :: project_config where
  "sample_project = (micro_config ''W'')\<lparr>pc_files := []\<rparr>"

lemma sample_head: "case observe sample_observer sample_project [] of
     (Inr ob, calls) \<Rightarrow> (case evaluate (\<lambda>v. []) (\<lambda>r. []) (\<lambda>v. None) (\<lambda>ds. ds) 300 0 ''now'' (observed.truncate ob) of
         Inr st \<Rightarrow> np_verified_head st = \<lparr>vf_local = PyStr ''c0ffee'', vf_remote = PyStr ''c0ffee'', vf_status = V_VERIFIED\<rparr> | Inl e \<Rightarrow> False)
   | (Inl e, calls) \<Rightarrow> False"
  by code_simp

lemma verified_head_reported_witness:
  "\<exists>branch. remote_reports (ov_git sample_observer) (ov_timeout sample_observer) (pc_root sample_project) branch ''c0ffee''"
proof -
  from sample_head obtain ob calls st where
    "observe sample_observer sample_project [] = (Inr ob, calls)"
    "evaluate (\<lambda>v. []) (\<lambda>r. []) (\<lambda>v. None) (\<lambda>ds. ds) 300 0 ''now'' (observed.truncate ob) = Inr st"
    "np_verified_head st = \<lparr>vf_local = PyStr ''c0ffee'', vf_remote = PyStr ''c0ffee'', vf_status = V_VERIFIED\<rparr>"
    by (auto split: prod.splits sum.splits)
  with verified_head_reported [OF this(1,2)] show ?thesis by auto
qed

end
