(* ===== verification/Spec2Isabelle.thy ===== *)
theory Spec2Isabelle
  imports StoreClaims2 SchedulerClaims GatewayClaims RouterClaims ExternalClaims QueueClaims ApprovalClaims WatchdogClaims
    CapabilityClaims RecoveryClaims IngressClaims ReconcilerClaims EvaluatorClaims RuntimeClaims WatcherClaims SignerManifest ProviderSample EngineSample
begin

text \<open>
  Root of the verification library of AI-CONTROL-PLANE (Python, \<open>src/\<close>). It models the control plane itself
  (\<open>engine.py\<close>, its observers, lock and \<open>main.py\<close>) and the two subsystems that carry the program's own rules: the autonomy foundation (\<open>src/autonomy\<close>), which stores tasks and
  workers and moves work to them under leases, and the directive channel (\<open>src/directive\<close>), which admits
  directives, queues them, authorises and approves them, stops them by a killswitch and recovers them,
  together with the evaluator of project states (\<open>src/contracts.py\<close>, \<open>src/state_machine\<close>).

  \<^bold>\<open>How the parts interact.\<close> A task enters \<open>AutonomyStore\<close>; the scheduler and the agent router pick the
  best schedulable task and claim a lease for a compatible fresh worker; the local gateway dispatches it
  under a session, takes its acknowledgement, heartbeats and result, and lets the store review it;
  the supervisor reclaims what expired. A directive is checked against the schema, recorded in the replay
  ledger and queued (durably twice: the execution queue of \<open>durable_queue.py\<close> and the state machine of
  \<open>queue_integrity.py\<close>); before execution the capability policy authorises it, a critical one with an
  approval of the approval engine, the killswitch must allow it, and a failure goes to the recovery engine.
  The reconciler reads what the stores left in their files and counts executions.

  \<^bold>\<open>Conventions.\<close> Times are rational numbers; a clock or a stored number that the code does not check may be
  a \<open>pyfloat\<close> with infinities and NaN. Python values are the datatype \<open>pyval\<close>, dictionaries association
  lists updated in place, exceptions the left injections of a result whose right is the value, and every
  operation returns its result and the state it leaves (also when it raises). A file of records is a list
  of lines that are blank, malformed or a JSON value. SHA-256, HMAC, \<open>repr\<close>, \<open>json.dumps\<close>, identifiers from
  \<open>uuid4\<close>, clocks, timestamp parsing, path resolution, the iteration order of a set, git and the
  authenticator are parameters; what a property needs of them is a hypothesis (a fixed digest length, an
  ASCII digest, a clock that reads the timestamp it wrote) with an instance in the witness. Equality of
  stored values is that of the constructors and letter case is ASCII.

  \<^bold>\<open>Shared theories.\<close> \<open>Prelude\<close>: values, results, lists and maps. \<open>Sanitize\<close>: the redaction and character
  filter of \<open>store.py\<close>. \<open>AuditChain\<close>: hash-chained trails, with the locales \<open>hash_chain\<close> (what an append
  keeps) and \<open>binding_chain\<close> (tamper evidence); \<open>Trails\<close> and \<open>TrailLaws\<close>: files of keyed records and the
  trail with details, and the laws of the locales for the readers of \<open>src/directive\<close>.

  \<^bold>\<open>Autonomy foundation.\<close>
  \<^item> \<open>Store\<close> (\<open>store.py\<close>, \<open>state.py\<close>): tasks, workers, leases, one definition per operation of
    \<open>AutonomyStore\<close>, \<open>BEGIN IMMEDIATE\<close> as the flag \<open>db_locked\<close>, a rollback as the unchanged state.
    \<open>StoreSpec\<close>, \<open>StoreSteps\<close>, \<open>StoreInv\<close>, \<open>StoreReach\<close>, \<open>StoreProps\<close>, \<open>StoreAudit\<close>: the abstract life cycle,
    the step relation, the invariant and its preservation, the audit log. \<open>StoreClaims\<close>, \<open>StoreClaims2\<close>:
    refinement, exclusive and bounded claims, expiry, ownership, terminal states, evidence before completion.
  \<^item> \<open>Scheduler\<close>, \<open>SchedulerClaims\<close> (\<open>scheduler.py\<close>, \<open>supervisor.py\<close>, \<open>worker.py\<close>): one pass, reconciliation and
    a supervised cycle as sequences of store steps.
  \<^item> \<open>Gateway\<close>, \<open>GatewaySpec\<close>, \<open>GatewayClaims\<close> (\<open>protocol.py\<close>, \<open>gateway.py\<close>): envelopes, sessions, dispatch,
    acknowledgement, heartbeat, result; each accepted once, evidence bound, dispatch authorised.
  \<^item> \<open>Router\<close>, \<open>RouterClaims\<close> (\<open>router.py\<close>): one routing pass over the locale \<open>worker_gateway\<close>, interpreted on
    the local gateway and on the external one.
  \<^item> \<open>External\<close>, \<open>ExternalSpec\<close>, \<open>ExternalClaims\<close> (\<open>external_gateway.py\<close>, \<open>trust.py\<close>, \<open>transport.py\<close>): the authority's
    profiles, the spool, the five \<open>af05\<close> tables and every operation on them; what is accepted is authentic,
    messages, challenges and results count once, revocation is final. Ed25519, base64 and JSON are the
    record \<open>crypto\<close> of functions, of which no property needs a law.
  \<^item> \<open>Provider\<close>, \<open>Codex\<close>, \<open>ProviderGateway\<close> (\<open>provider.py\<close>, \<open>codex_cli_provider.py\<close>): the redaction of what a provider returns, the
    clients of the Responses API and of the Codex command line, the worker that signs frames, and the gateway that asks
    for signed provider status besides. \<open>ProviderClaims\<close>, \<open>ProviderWorker\<close>, \<open>ProviderSample\<close>: a session is offered only on a signed
    and fresh proof of a connected provider, a frame counts once, and the frames of a worker that holds the key pass the
    gateway; the locale \<open>provider_backend\<close> is what both clients promise, and \<open>worker_gateway\<close> holds of this gateway too.
  \<^item> \<open>Ingestion\<close>, \<open>IngestionClaims\<close> (\<open>ingestion.py\<close>): a pass over the bytes of the queue file, each record
    validated, confirmed by the injected authority and entered with its provenance in one transaction;
    an ingested queue only extends, a directive is ingested once, and every task added (also by a pass that raises later)
    stands on a record whose checks \<open>record_checked\<close> and \<open>confirmed\<close> spell out.
  \<^item> \<open>Act\<close>, \<open>Execution\<close>, \<open>ExecutionSpec\<close>, \<open>ExecutionFrames\<close>, \<open>ExecutionSample\<close>, \<open>ExecutionClaims\<close> (\<open>execution.py\<close>): the registry of
    disposable workspaces, single-use grants, the transaction that applies a plan of file operations, its
    undoing on any exception, and recovery. Every step of the operating system may fail, a write after
    part of its bytes, and a write may be short without failing; the callbacks are arbitrary where a claim does not say otherwise. \<open>Act\<close> has the
    combinators of the straight-line code and the frame rules \<open>keeps\<close>, \<open>ExecutionSpec\<close> what each step may change,
    \<open>ExecutionFrames\<close> the locales \<open>core_property\<close> and \<open>table_property\<close>: what a property of the tables needs to be kept
    by every action of the controller. \<open>ExecutionInv\<close> interprets them on the invariant of the store, ingestion and
    the controller together; there a task may have its evidence in an applied transaction (\<open>db_inv_with X\<close>, where \<open>X\<close> are
    these tasks; \<open>db_inv\<close> is the case without any).
    An application stays in its scope, a grant is used once, a failed application is undone.
  \<^item> \<open>Paths\<close>, \<open>Service\<close>, \<open>ServiceClaims\<close> (\<open>service.py\<close>, the root policy of \<open>runtime.py\<close>): configuration, instance
    lock, health row, the run loop as a partial function, status and exit codes; a bounded run ends (as a
    value, by a measure) once the database refuses no more health writes, one instance runs at a time, lasting failures make it exit.

  \<^item> \<open>Runtime\<close>, \<open>RuntimeClaims\<close> (\<open>runtime.py\<close>): a cycle composed of the parts over one store, with the row it writes
    between the stages, its handlers, and the write lock that other connections may hold between two stages. The step
    relation of the whole system (cycles, workers, issues, applications with bystanders, recoveries, changes of files,
    restarts) keeps the joint invariant; every cycle records its outcome unless the lock is held when it writes it, a corrupt store is not worked on, and a bounded
    service run over the runtime ends within the system (locale \<open>hosted\<close>, interpreted on the hosted cycle).

  \<^bold>\<open>Directive channel.\<close>
  \<^item> \<open>QueueIntegrity\<close>, \<open>QueueClaims\<close> (\<open>queue_integrity.py\<close>): directives are claimed once, terminal ones frozen,
    a restart restores the queue, the trail is tamper evident up to a collision.
  \<^item> \<open>Approval\<close>, \<open>ApprovalClaims\<close> (\<open>approval_engine.py\<close>): what revalidates was genuinely approved, what was
    consumed is dead, a restart restores the engine.
  \<^item> \<open>Watchdog\<close>, \<open>WatchdogClaims\<close> (\<open>watchdog.py\<close>): the killswitch refines an automaton and blocks until a
    controlled resume; the controller lease excludes every other controller (acquiring is one step here:
    the code reads the file and then writes it, without a lock).
  \<^item> \<open>Capability\<close>, \<open>CapabilityClaims\<close> (\<open>capability_policy.py\<close>): deny by default, and what an authorisation means.
  \<^item> \<open>Recovery\<close>, \<open>RecoveryClaims\<close> (\<open>recovery_engine.py\<close>): ledger, retry window against its full history, one
    continuation per engine object, success of a recoverable failure.
  \<^item> \<open>Ingress\<close>, \<open>PreExecution\<close>, \<open>IngressClaims\<close> (\<open>contracts.py\<close>, \<open>schema_validator.py\<close>, \<open>replay_ledger.py\<close>,
    \<open>durable_queue.py\<close>, \<open>executor.py\<close>, \<open>governance.py\<close>): replays stay refused, what a restart does to the queue.
  \<^item> \<open>Authenticator\<close>, \<open>AuthenticatorClaims\<close> (\<open>authenticator.py\<close>, rules of \<open>config/settings.py\<close>): the ten steps of an
    authentication over what \<open>git\<close> answers, the four patterns that read a signer out of its text, and the
    revalidation before execution. \<open>SignerManifest\<close> (\<open>signer_validator.py\<close>): a manifest is valid exactly when it
    vouches for every fingerprint of the allowlist.
  \<^item> \<open>Watcher\<close>, \<open>WatcherClaims\<close> (\<open>watcher.py\<close>, the status of \<open>contracts.py\<close>): the inbox, its shelves, acknowledgements,
    ledger and queue; one file from its text to its shelf, a poll, the reconstruction of the status. Every write, move,
    read-back and call of \<open>git\<close> may fail. The locale \<open>channel_property\<close> says what a property of the channel needs to be
    kept by a poll, and is interpreted on \<open>a directive is remembered\<close> and \<open>an item is held\<close>. What is accepted
    or parked is signed and committed, a poll that returns leaves each file on the shelf of its decision, a directive is decided once.
  \<^item> \<open>Reconciler\<close>, \<open>ReconcilerClaims\<close> (\<open>reconciler.py\<close>): a consistent report is exact.
  \<^item> \<open>Evaluator\<close>, \<open>EvaluatorClaims\<close> (\<open>src/contracts.py\<close>, \<open>state_machine/evaluator.py\<close>): an evaluated state is
    well formed.

  \<^bold>\<open>Control plane.\<close>
  \<^item> \<open>TextLines\<close>, \<open>Observer\<close>, \<open>ObserverClaims\<close> (\<open>src/observer\<close>, the projects of \<open>config/settings.py\<close>): the observation of a
    repository as the sequence of its git calls, the process table, the evidence files and their combination. Git is only read,
    and a head is shown as verified only when the remote named it for the branch that is checked out.
  \<^item> \<open>Engine\<close>, \<open>EngineClaims\<close>, \<open>EngineSample\<close> (\<open>engine.py\<close>, \<open>audit_logger.py\<close>, \<open>lock_manager.py\<close>, \<open>main.py\<close>): a sweep as an
    action that polls the watcher, observes and evaluates every project, writes its records and may publish; the process lock and
    the entry point around any number of sweeps. Projects are only read, the commands of the publication run only when it is switched on
    and reach one unprotected branch (what the polls ask git in the same repository is a parameter, with or without publication), a sweep that returns recorded every project, a changed status is published. The sample is a run on the
    registered projects.

  \<^bold>\<open>Bounds and recursion.\<close> Every recursion is structural or on a decreasing length, but for the service loop,
  which may run for ever and is a partial function whose value \<open>None\<close> means so; no fuel is used. The
  numeric limits (retry window, batch size, capacities, parameter size) are those of the code or arguments.

  \<^bold>\<open>Not modelled.\<close> Writing a file succeeds except where the code handles its failure; \<open>fsync\<close>, permissions and
  directory creation are left out, temporary files too except in \<open>Execution\<close>. The repository
  \<open>git\<close> runs in is fixed, and only \<open>poll_inbox\<close> touches the directories of the channel. The persistent loop of
  \<open>main.py\<close> is any finite number of sweeps, interrupted between two of them. GitHub governance collection, scanners,
  certification and red-team scripts and the generators of reports are not modelled: they are network and sub-process calls
  and the assembly of reports around the parts above.
\<close>

end
